(* ===== verification/Prelude.thy ===== *)
theory Prelude
  imports Main "HOL-Library.Word"
begin

text \<open>
  Shared vocabulary of the development: the errors a C++ operation of the emulator can end in,
  the result type that carries them, the machine integer types, little-endian byte buffers, and
  the collections of simplification rules the component theories extend.
\<close>

unbundle bit_operations_syntax

section \<open>Collections\<close>

named_theorems emu_simps \<open>accessor and bind rules that evaluate model code\<close>
named_theorems field_simps_bits \<open>bit-level readings of masks and bit fields\<close>
named_theorems frame \<open>fields that an operation leaves unchanged\<close>

section \<open>Machine integers\<close>

text \<open>
  The fixed-width C++ types. Signed and unsigned types of one width share a word type: the
  signed reading is taken by \<open>sint\<close>, \<open>scast\<close>, \<open><s\<close> and
  \<open>signed_drop_bit\<close> where the code uses it.
\<close>

type_synonym uint8 = "8 word"
type_synonym uint16 = "16 word"
type_synonym uint32 = "32 word"
type_synonym uint64 = "64 word"
type_synonym vaddr_t = "64 word"
type_synonym paddr_t = "64 word"
type_synonym bytes = "8 word list"

section \<open>Errors and results\<close>

text \<open>
  How an operation can fail. \<open>EmuException\<close> is \<open>throw RafiEmuException()\<close> (the macros
  RAFI\_EMU\_ERROR, RAFI\_EMU\_NOT\_IMPLEMENTED and both range checks); \<open>ProcessExit\<close> is
  \<open>std::exit(1)\<close> (RAFI\_NOT\_IMPLEMENTED and Executor::Error); \<open>AssertFailure\<close> is a failed
  \<open>assert\<close>; \<open>BadVariantAccess\<close> is \<open>std::bad_variant_access\<close>; \<open>Undefined\<close>
  is behaviour that C++ leaves undefined (an access out of an array, a shift by a negative amount
  or by the width or more, a division by zero, a read of an uninitialised local). The trace
  library throws its own \<open>TraceException\<close>; a file that cannot be opened is
  \<open>FileOpenFailureException\<close> there.
\<close>

datatype emu_error = EmuException | ProcessExit | AssertFailure | BadVariantAccess | Undefined
  | TraceException | FileOpenFailure

type_synonym 'a result = "emu_error + 'a"

definition rbind :: "'a result \<Rightarrow> ('a \<Rightarrow> 'b result) \<Rightarrow> 'b result" where
  "rbind r f = (case r of Inl e \<Rightarrow> Inl e | Inr x \<Rightarrow> f x)"

lemma rbind_simps [simp, emu_simps]:
  "rbind (Inl e) f = Inl e" "rbind (Inr x) f = f x"
  by (simp_all add: rbind_def)

lemma rbind_Inr_iff: "rbind r f = Inr y \<longleftrightarrow> (\<exists>x. r = Inr x \<and> f x = Inr y)"
  by (cases r) auto

lemma rbind_InrE [elim]:
  assumes "rbind r f = Inr y"
  obtains x where "r = Inr x" "f x = Inr y"
  using assms by (auto simp: rbind_Inr_iff)

lemma rbind_Inl_iff: "rbind r f = Inl e \<longleftrightarrow> r = Inl e \<or> (\<exists>x. r = Inr x \<and> f x = Inl e)"
  by (cases r) auto

lemma rbind_split:
  "P (rbind r f) \<longleftrightarrow> (\<forall>e. r = Inl e \<longrightarrow> P (Inl e)) \<and> (\<forall>x. r = Inr x \<longrightarrow> P (f x))"
  by (cases r) auto

lemma rbind_split_asm:
  "P (rbind r f) \<longleftrightarrow> \<not> ((\<exists>e. r = Inl e \<and> \<not> P (Inl e)) \<or> (\<exists>x. r = Inr x \<and> \<not> P (f x)))"
  by (cases r) auto

lemmas rbind_splits = rbind_split rbind_split_asm

lemma rbind_assoc: "rbind (rbind r f) g = rbind r (\<lambda>x. rbind (f x) g)"
  by (cases r) auto

lemma rbind_cong [fundef_cong]:
  "r = r' \<Longrightarrow> (\<And>x. r' = Inr x \<Longrightarrow> f x = f' x) \<Longrightarrow> rbind r f = rbind r' f'"
  by (cases r') auto

text \<open>\<open>ensure b e\<close> is the guard \<open>if (!b) fail with e\<close>.\<close>

definition ensure :: "bool \<Rightarrow> emu_error \<Rightarrow> unit result" where
  "ensure b e = (if b then Inr () else Inl e)"

lemma ensure_Inr_iff [simp]: "ensure b e = Inr u \<longleftrightarrow> b"
  by (simp add: ensure_def)

lemma ensure_simps [simp, emu_simps]: "ensure True e = Inr ()" "ensure False e = Inl e"
  by (simp_all add: ensure_def)

lemma ensure_rbind: "rbind (ensure b e) f = (if b then f () else Inl e)"
  by (simp add: ensure_def)

section \<open>C++ shifts\<close>

text \<open>
  A shift of a w-bit operand is defined for amounts \<open>0 \<le> n < w\<close> only. Signed \<open>+\<close>,
  \<open>-\<close>, \<open>*\<close> and \<open><<\<close> are read as two's complement; only the shift amount is checked.
\<close>

definition shl :: "'a::len word \<Rightarrow> int \<Rightarrow> 'a word result" where
  "shl x n = (if 0 \<le> n \<and> n < int LENGTH('a) then Inr (push_bit (nat n) x) else Inl Undefined)"

definition shr :: "'a::len word \<Rightarrow> int \<Rightarrow> 'a word result" where
  "shr x n = (if 0 \<le> n \<and> n < int LENGTH('a) then Inr (drop_bit (nat n) x) else Inl Undefined)"

definition sar :: "'a::len word \<Rightarrow> int \<Rightarrow> 'a word result" where
  "sar x n = (if 0 \<le> n \<and> n < int LENGTH('a) then Inr (signed_drop_bit (nat n) x)
     else Inl Undefined)"

section \<open>C++ division\<close>

text \<open>Signed division truncates towards zero; a zero divisor is undefined.\<close>

definition trunc_div :: "int \<Rightarrow> int \<Rightarrow> int" where
  "trunc_div a b = sgn a * sgn b * (\<bar>a\<bar> div \<bar>b\<bar>)"

definition trunc_mod :: "int \<Rightarrow> int \<Rightarrow> int" where
  "trunc_mod a b = a - trunc_div a b * b"

definition sdiv_w :: "'a::len word \<Rightarrow> 'a word \<Rightarrow> 'a word result" where
  "sdiv_w a b = (if b = 0 then Inl Undefined
     else if trunc_div (sint a) (sint b) = 2 ^ (LENGTH('a) - 1) then Inl Undefined
     else Inr (word_of_int (trunc_div (sint a) (sint b))))"

definition smod_w :: "'a::len word \<Rightarrow> 'a word \<Rightarrow> 'a word result" where
  "smod_w a b = (if b = 0 then Inl Undefined
     else if trunc_div (sint a) (sint b) = 2 ^ (LENGTH('a) - 1) then Inl Undefined
     else Inr (word_of_int (trunc_mod (sint a) (sint b))))"

definition udiv_w :: "'a::len word \<Rightarrow> 'a word \<Rightarrow> 'a word result" where
  "udiv_w a b = (if b = 0 then Inl Undefined else Inr (a div b))"

definition umod_w :: "'a::len word \<Rightarrow> 'a word \<Rightarrow> 'a word result" where
  "umod_w a b = (if b = 0 then Inl Undefined else Inr (a mod b))"

lemma trunc_div_mod: "trunc_div a b * b + trunc_mod a b = a"
  by (simp add: trunc_mod_def)

lemma trunc_mod_eq: "trunc_mod a b = sgn a * (\<bar>a\<bar> mod \<bar>b\<bar>)"
proof -
  have "sgn b * b = \<bar>b\<bar>" by (simp add: abs_sgn mult.commute)
  then have "trunc_div a b * b = sgn a * (\<bar>b\<bar> * (\<bar>a\<bar> div \<bar>b\<bar>))"
    by (simp add: trunc_div_def mult_ac)
  moreover have "a = sgn a * \<bar>a\<bar>" by (simp add: abs_sgn mult_ac sgn_if)
  ultimately have "trunc_mod a b = sgn a * (\<bar>a\<bar> - \<bar>b\<bar> * (\<bar>a\<bar> div \<bar>b\<bar>))"
    by (simp add: trunc_mod_def right_diff_distrib)
  then show ?thesis by (simp add: minus_mult_div_eq_mod)
qed

lemma trunc_mod_abs: "b \<noteq> 0 \<Longrightarrow> \<bar>trunc_mod a b\<bar> < \<bar>b\<bar>"
  by (cases "a = 0") (simp_all add: trunc_mod_eq abs_mult)

section \<open>Byte buffers\<close>

text \<open>
  \<open>memcpy\<close> between an integer and a buffer on the little-endian hosts the emulator is
  built for: byte \<open>i\<close> of the buffer is bits \<open>8i+7 .. 8i\<close> of the integer.
\<close>

definition to_bytes :: "nat \<Rightarrow> 'a::len word \<Rightarrow> bytes" where
  "to_bytes n w = map (\<lambda>i. ucast (drop_bit (8 * i) w)) [0..<n]"

primrec of_bytes :: "bytes \<Rightarrow> 'a::len word" where
  "of_bytes [] = 0"
| "of_bytes (b # bs) = ucast b OR push_bit 8 (of_bytes bs)"

lemma length_to_bytes [simp]: "length (to_bytes n w) = n"
  by (simp add: to_bytes_def)

lemma bit_of_bytes:
  "bit (of_bytes bs :: 'a::len word) k \<longleftrightarrow>
     k < LENGTH('a) \<and> k div 8 < length bs \<and> bit (bs ! (k div 8)) (k mod 8)"
proof (induction bs arbitrary: k)
  case Nil
  show ?case by simp
next
  case (Cons b bs)
  show ?case
  proof (cases "k < 8")
    case True
    then show ?thesis by (auto simp: bit_simps)
  next
    case False
    then obtain j where k: "k = j + 8" by (metis add.commute le_iff_add not_less)
    have "\<not> bit b k" using False using bit_imp_le_length [of b k] by auto
    moreover have "(j + 8) div 8 = Suc (j div 8)" by simp
    moreover have "bit (of_bytes bs :: 'a word) j \<longrightarrow> j < LENGTH('a)"
      by (simp add: bit_imp_le_length)
    ultimately show ?thesis using Cons.IH [of j] by (auto simp: bit_simps k)
  qed
qed

lemma of_bytes_to_bytes:
  assumes "LENGTH('a) \<le> 8 * n"
  shows "of_bytes (to_bytes n (w :: 'a::len word)) = w"
proof (rule bit_eqI)
  fix k assume "possible_bit TYPE('a word) k"
  then have k: "k < LENGTH('a)" by simp
  with assms have "k div 8 < n" by simp
  then show "bit (of_bytes (to_bytes n w) :: 'a word) k = bit w k"
    using k by (simp add: bit_of_bytes to_bytes_def bit_simps)
qed

lemma to_bytes_of_bytes:
  assumes "length bs = n" "8 * n \<le> LENGTH('a)"
  shows "to_bytes n (of_bytes bs :: 'a::len word) = bs"
proof (rule nth_equalityI)
  show "length (to_bytes n (of_bytes bs :: 'a word)) = length bs" using assms by simp
next
  fix i assume "i < length (to_bytes n (of_bytes bs :: 'a word))"
  then have i: "i < n" by simp
  show "to_bytes n (of_bytes bs :: 'a word) ! i = bs ! i"
  proof (rule bit_eqI)
    fix k assume "possible_bit TYPE(8 word) k"
    then have k: "k < 8" by simp
    have "8 * i + k < LENGTH('a)" "(8 * i + k) div 8 = i" "(8 * i + k) mod 8 = k"
      using i k assms(2) by auto
    then show "bit (to_bytes n (of_bytes bs :: 'a word) ! i) k = bit (bs ! i) k"
      using i k assms(1) by (simp add: to_bytes_def bit_simps bit_of_bytes add.commute)
  qed
qed

section \<open>Lists\<close>

lemma map_upt_append: "map f [0..<n + m] = map f [0..<n] @ map (\<lambda>i. f (n + i)) [0..<m]"
  by (rule nth_equalityI) (auto simp: nth_append)

end
