(* ===== verification/BitField.thy ===== *)
theory BitField
  imports Prelude
begin

text \<open>
  \<^verbatim>\<open>include/rafi/common/BitField.h\<close> and the integer helpers of \<^verbatim>\<open>include/rafi/common/Util.h\<close>: masked
  members of a register value, sign and zero extension, and access to the halves of a 64-bit
  value. A member is the pair of its template arguments \<open>(msb, lsb)\<close>.
\<close>

section \<open>Members\<close>

type_synonym BitFieldMember = "nat \<times> nat"

definition Mask :: "BitFieldMember \<Rightarrow> 'a::len word" where
  "Mask m = (case m of (msb, lsb) \<Rightarrow> push_bit lsb (push_bit (msb - lsb + 1) 1 - 1))"

definition GetWithMask :: "'a::len word \<Rightarrow> 'a word \<Rightarrow> 'a word" where
  "GetWithMask v msk = v AND msk"

definition SetWithMask :: "'a::len word \<Rightarrow> 'a word \<Rightarrow> 'a word \<Rightarrow> 'a word" where
  "SetWithMask v value msk = (v AND NOT msk) OR (value AND msk)"

definition GetMember :: "BitFieldMember \<Rightarrow> 'a::len word \<Rightarrow> 'a word" where
  "GetMember m v = drop_bit (snd m) (v AND Mask m)"

definition SetMember :: "BitFieldMember \<Rightarrow> 'a::len word \<Rightarrow> 'a word \<Rightarrow> 'a word" where
  "SetMember m value v = (v AND NOT (Mask m)) OR (push_bit (snd m) value AND Mask m)"

lemma bit_Mask [field_simps_bits]:
  "bit (Mask (msb, lsb) :: 'a::len word) k \<longleftrightarrow>
     lsb \<le> k \<and> k \<le> lsb + (msb - lsb) \<and> k < LENGTH('a)"
proof -
  have "Mask (msb, lsb) = (push_bit lsb (mask (Suc (msb - lsb))) :: 'a word)"
    by (simp add: Mask_def mask_eq_exp_minus_1 push_bit_eq_mult)
  then show ?thesis by (auto simp: bit_simps)
qed

lemma bit_Mask_single: "bit (Mask (n, n) :: 'a::len word) k \<longleftrightarrow> k = n \<and> n < LENGTH('a)"
  by (auto simp: bit_Mask)

lemma bit_Mask_pair:
  "bit (Mask (m, l) :: 'a::len word) k \<longleftrightarrow> (k = l \<or> k = m) \<and> m < LENGTH('a)"
  if "m = Suc l" "m < LENGTH('a)"
  using that by (auto simp: bit_Mask)

lemma bit_GetMember [field_simps_bits]:
  "bit (GetMember (msb, lsb) v :: 'a::len word) k \<longleftrightarrow> k \<le> msb - lsb \<and> bit v (lsb + k)"
  by (auto simp: GetMember_def bit_simps bit_Mask dest: bit_imp_le_length)

lemma bit_SetMember [field_simps_bits]:
  "bit (SetMember (msb, lsb) x v :: 'a::len word) k \<longleftrightarrow>
     (if lsb \<le> k \<and> k \<le> lsb + (msb - lsb) then k < LENGTH('a) \<and> bit x (k - lsb) else bit v k)"
  by (auto simp: SetMember_def bit_simps bit_Mask dest: bit_imp_le_length)

lemma bit_GetWithMask [field_simps_bits]:
  "bit (GetWithMask v m) k \<longleftrightarrow> bit v k \<and> bit m k"
  by (simp add: GetWithMask_def bit_simps)

lemma bit_SetWithMask [field_simps_bits]:
  "bit (SetWithMask v x m :: 'a::len word) k \<longleftrightarrow> (if bit m k then bit x k else bit v k)"
  by (auto simp: SetWithMask_def bit_simps dest: bit_imp_le_length)

lemma GetMember_SetMember_same:
  assumes "lsb \<le> msb" "msb < LENGTH('a)"
  shows "GetMember (msb, lsb) (SetMember (msb, lsb) x v) = take_bit (msb - lsb + 1) (x :: 'a::len word)"
  by (rule bit_eqI) (use assms in \<open>auto simp: field_simps_bits bit_simps\<close>)

lemma GetMember_SetMember_disjoint:
  assumes "lsb \<le> msb" "lsb' \<le> msb'" "msb < lsb' \<or> msb' < lsb"
  shows "GetMember (msb, lsb) (SetMember (msb', lsb') x v) = GetMember (msb, lsb) v"
  by (rule bit_eqI) (use assms in \<open>auto simp: field_simps_bits\<close>)

lemma GetMember_single_eq_0: "GetMember (n, n) v = 0 \<longleftrightarrow> \<not> bit v n"
  by (subst bit_eq_iff) (auto simp: field_simps_bits)

lemma GetMember_single: "GetMember (n, n) v = of_bool (bit v n)"
  by (rule bit_eqI) (auto simp: field_simps_bits bit_1_iff)

lemma unat_GetMember_bound: "unat (GetMember (msb, lsb) v) < 2 ^ (msb - lsb + 1)"
proof -
  have "GetMember (msb, lsb) v = take_bit (msb - lsb + 1) (GetMember (msb, lsb) v)"
    by (rule bit_eqI) (auto simp: field_simps_bits bit_simps)
  then have "unat (GetMember (msb, lsb) v) = take_bit (msb - lsb + 1) (unat (GetMember (msb, lsb) v))"
    by (metis unsigned_take_bit_eq)
  then show ?thesis by (metis take_bit_nat_less_exp)
qed

section \<open>Sign and zero extension\<close>

definition SignExtend :: "nat \<Rightarrow> 'a::len word \<Rightarrow> 'a word" where
  "SignExtend srcWidth srcValue =
     (if srcValue AND push_bit (srcWidth - 1) 1 \<noteq> 0
      then srcValue OR push_bit (srcWidth - 1) (- 1)
      else srcValue)"

definition ZeroExtend :: "nat \<Rightarrow> 'a::len word \<Rightarrow> 'a word" where
  "ZeroExtend srcWidth srcValue = srcValue AND (push_bit srcWidth 1 - 1)"

lemma and_exp_eq_0_iff: "(v :: 'a::len word) AND push_bit n 1 = 0 \<longleftrightarrow> \<not> bit v n"
  by (subst bit_eq_iff) (auto simp: bit_simps dest: bit_imp_le_length)

lemma bit_SignExtend [field_simps_bits]:
  "bit (SignExtend w v :: 'a::len word) k \<longleftrightarrow>
     bit v k \<or> (bit v (w - 1) \<and> w - 1 \<le> k \<and> k < LENGTH('a))"
  by (auto simp: SignExtend_def and_exp_eq_0_iff bit_simps simp del: push_bit_of_1)

lemma bit_ZeroExtend [field_simps_bits]:
  "bit (ZeroExtend w v :: 'a::len word) k \<longleftrightarrow> k < w \<and> bit v k"
proof -
  have "push_bit w (1 :: 'a word) - 1 = mask w"
    by (simp add: mask_eq_exp_minus_1 push_bit_eq_mult)
  then show ?thesis
    by (auto simp: ZeroExtend_def bit_simps dest: bit_imp_le_length)
qed

lemma ZeroExtend_take_bit: "ZeroExtend w v = take_bit w (v :: 'a::len word)"
  by (rule bit_eqI) (auto simp: field_simps_bits bit_simps)

text \<open>
  \<open>SignExtend\<close> never clears a bit, so it is the two's complement extension of the low
  \<open>w\<close> bits exactly for values that have no bits above them, or all of them.
\<close>

lemma SignExtend_signed_take_bit:
  assumes "0 < w" "take_bit w v = (v :: 'a::len word)"
  shows "SignExtend w v = signed_take_bit (w - 1) v"
proof (rule bit_eqI)
  fix k assume k: "possible_bit TYPE('a word) k"
  have *: "bit v k \<Longrightarrow> k < w" using assms(2) by (metis bit_take_bit_iff)
  show "bit (SignExtend w v) k = bit (signed_take_bit (w - 1) v) k"
  proof (cases "k < w")
    case True
    then consider "k < w - 1" | "k = w - 1" by linarith
    then show ?thesis
      by cases (use k in \<open>auto simp: field_simps_bits bit_signed_take_bit_iff min_def\<close>)
  next
    case False
    then show ?thesis
      using * k by (auto simp: field_simps_bits bit_signed_take_bit_iff min_def)
  qed
qed

lemma msb_index_unique: "LENGTH('b::len) - Suc 0 \<le> k \<Longrightarrow> k < LENGTH('b) \<Longrightarrow> k = LENGTH('b) - Suc 0"
  by linarith

lemma bit_scast_cases:
  assumes "LENGTH('b) < LENGTH('a)"
  shows "bit (scast (x :: 'b::len word) :: 'a::len word) k \<longleftrightarrow>
    (if k < LENGTH('b) then bit x k else k < LENGTH('a) \<and> bit x (LENGTH('b) - 1))"
  using assms by (auto simp: bit_simps min_def dest: msb_index_unique bit_imp_le_length)

lemma SignExtend_scast:
  assumes "LENGTH('b) < LENGTH('a)"
  shows "SignExtend LENGTH('b) (scast (x :: 'b::len word) :: 'a::len word) = scast x"
  by (rule bit_eqI) (use assms in \<open>auto simp: bit_SignExtend bit_scast_cases dest: msb_index_unique bit_imp_le_length\<close>)

lemma SignExtend_ucast:
  assumes "LENGTH('b) < LENGTH('a)"
  shows "SignExtend LENGTH('b) (ucast (x :: 'b::len word) :: 'a::len word) = scast x"
  by (rule bit_eqI)
    (use assms in \<open>auto simp: bit_SignExtend bit_unsigned_iff bit_scast_cases
      dest: msb_index_unique bit_imp_le_length\<close>)

section \<open>Halves of a 64-bit value\<close>

definition GetHigh32 :: "uint64 \<Rightarrow> uint32" where
  "GetHigh32 value = ucast (drop_bit 32 value)"

definition GetLow32 :: "uint64 \<Rightarrow> uint32" where
  "GetLow32 value = ucast (value AND 0xffffffff)"

text \<open>
  The new half is an \<open>int32_t\<close>, converted to 64 bits by the \<open>|=\<close>: the conversion is a
  sign extension. \<open>SetHigh32\<close> shifts the copies of the sign out; \<open>SetLow32\<close> does not.
\<close>

definition SetHigh32 :: "uint64 \<Rightarrow> uint32 \<Rightarrow> uint64" where
  "SetHigh32 out value = (out AND 0x00000000ffffffff) OR push_bit 32 (scast value)"

definition SetLow32 :: "uint64 \<Rightarrow> uint32 \<Rightarrow> uint64" where
  "SetLow32 out value = (out AND 0xffffffff00000000) OR scast value"

lemma low32_mask: "(0xffffffff :: uint64) = mask 32"
  by (simp add: mask_eq_exp_minus_1)

lemma high32_mask: "(0xffffffff00000000 :: uint64) = push_bit 32 (mask 32)"
  by (simp add: mask_eq_exp_minus_1 push_bit_eq_mult)

lemma bit_GetHigh32 [field_simps_bits]: "bit (GetHigh32 v) k \<longleftrightarrow> k < 32 \<and> bit v (32 + k)"
  by (simp add: GetHigh32_def bit_simps)

lemma bit_GetLow32 [field_simps_bits]: "bit (GetLow32 v) k \<longleftrightarrow> k < 32 \<and> bit v k"
  unfolding GetLow32_def low32_mask by (auto simp: bit_simps)

lemma bit_SetHigh32 [field_simps_bits]:
  "bit (SetHigh32 v x) k \<longleftrightarrow> (if k < 32 then bit v k else bit x (k - 32))"
  unfolding SetHigh32_def low32_mask
  by (auto simp: bit_push_bit_iff bit_and_iff bit_or_iff bit_mask_iff bit_scast_cases
      dest: bit_imp_le_length)

lemma bit_SetLow32 [field_simps_bits]:
  "bit (SetLow32 v x) k \<longleftrightarrow>
     (if k < 32 then bit x k else k < 64 \<and> (bit v k \<or> bit x 31))"
  unfolding SetLow32_def high32_mask
  by (auto simp: bit_push_bit_iff bit_and_iff bit_or_iff bit_mask_iff bit_scast_cases
      dest: bit_imp_le_length)

text \<open>The low half is replaced and the high half kept when the new half is not negative.\<close>

lemma SetLow32_nonneg:
  assumes "\<not> bit x 31"
  shows "GetHigh32 (SetLow32 v x) = GetHigh32 v" "GetLow32 (SetLow32 v x) = x"
  by (rule bit_eqI; use assms in \<open>auto simp: field_simps_bits dest: bit_imp_le_length\<close>)+

lemma SetLow32_neg:
  assumes "bit x 31"
  shows "GetHigh32 (SetLow32 v x) = - 1" "GetLow32 (SetLow32 v x) = x"
  by (rule bit_eqI; use assms in \<open>auto simp: field_simps_bits dest: bit_imp_le_length\<close>)+

lemma SetHigh32_halves:
  "GetHigh32 (SetHigh32 v x) = x" "GetLow32 (SetHigh32 v x) = GetLow32 v"
  by (rule bit_eqI; auto simp: field_simps_bits dest: bit_imp_le_length)+

end
