(* ===== verification/RvTypes.thy ===== *)
theory RvTypes
  imports BitField
begin

text \<open>
  The architectural vocabulary: the enums of \<^verbatim>\<open>include/rafi/common/RvTypes.h\<close>, the CSR
  addresses and register layouts of \<^verbatim>\<open>RvCsr.h\<close>, the page table layouts of \<^verbatim>\<open>RvPageTable.h\<close>,
  and the trace events of \<^verbatim>\<open>include/rafi/trace/EventTypes.h\<close>. CSR addresses stay 32-bit values,
  as \<open>csr_addr_t\<close> is cast from any 12-bit field of an instruction.
\<close>

section \<open>Enums\<close>

datatype XLEN = XLEN32 | XLEN64 | XLEN128

fun XLEN_code :: "XLEN \<Rightarrow> uint32" where
  "XLEN_code XLEN32 = 1"
| "XLEN_code XLEN64 = 2"
| "XLEN_code XLEN128 = 3"

text \<open>\<open>OtherMode\<close> stands for a value of the enum's type that is none of its names.\<close>

datatype AddressTranslationMode = Bare | Sv32 | Sv39 | Sv48 | Sv57 | Sv64 | OtherMode

definition AddressTranslationMode_cast :: "uint64 \<Rightarrow> AddressTranslationMode" where
  "AddressTranslationMode_cast v =
     (if v = 0 then Bare else if v = 1 then Sv32 else if v = 8 then Sv39 else if v = 9 then Sv48
      else if v = 10 then Sv57 else if v = 11 then Sv64 else OtherMode)"

datatype MemoryAccessType = Instruction | Load | Store

datatype PrivilegeLevel = User | Supervisor | Reserved | Machine

fun PrivilegeLevel_code :: "PrivilegeLevel \<Rightarrow> uint64" where
  "PrivilegeLevel_code User = 0"
| "PrivilegeLevel_code Supervisor = 1"
| "PrivilegeLevel_code Reserved = 2"
| "PrivilegeLevel_code Machine = 3"

text \<open>The values the code casts to a level are fields of one or two bits.\<close>

definition PrivilegeLevel_cast :: "uint64 \<Rightarrow> PrivilegeLevel" where
  "PrivilegeLevel_cast v =
     (if v = 0 then User else if v = 1 then Supervisor else if v = 2 then Reserved else Machine)"

lemma PrivilegeLevel_cast_code [simp]: "PrivilegeLevel_cast (PrivilegeLevel_code p) = p"
  by (cases p) (simp_all add: PrivilegeLevel_cast_def)

datatype TrapType = Interrupt | Exception | Return

datatype InterruptType =
    UserSoftware | SupervisorSoftware | MachineSoftware
  | UserTimer | SupervisorTimer | MachineTimer
  | UserExternal | SupervisorExternal | MachineExternal

fun InterruptType_code :: "InterruptType \<Rightarrow> nat" where
  "InterruptType_code UserSoftware = 0"
| "InterruptType_code SupervisorSoftware = 1"
| "InterruptType_code MachineSoftware = 3"
| "InterruptType_code UserTimer = 4"
| "InterruptType_code SupervisorTimer = 5"
| "InterruptType_code MachineTimer = 7"
| "InterruptType_code UserExternal = 8"
| "InterruptType_code SupervisorExternal = 9"
| "InterruptType_code MachineExternal = 11"

datatype ExceptionType =
    InstructionAddressMisaligned | InstructionAccessFault | IllegalInstruction | Breakpoint
  | LoadAddressMisaligned | LoadAccessFault | StoreAddressMisaligned | StoreAccessFault
  | EnvironmentCallFromUser | EnvironmentCallFromSupervisor | EnvironmentCallFromMachine
  | InstructionPageFault | LoadPageFault | StorePageFault

fun ExceptionType_code :: "ExceptionType \<Rightarrow> nat" where
  "ExceptionType_code InstructionAddressMisaligned = 0"
| "ExceptionType_code InstructionAccessFault = 1"
| "ExceptionType_code IllegalInstruction = 2"
| "ExceptionType_code Breakpoint = 3"
| "ExceptionType_code LoadAddressMisaligned = 4"
| "ExceptionType_code LoadAccessFault = 5"
| "ExceptionType_code StoreAddressMisaligned = 6"
| "ExceptionType_code StoreAccessFault = 7"
| "ExceptionType_code EnvironmentCallFromUser = 8"
| "ExceptionType_code EnvironmentCallFromSupervisor = 9"
| "ExceptionType_code EnvironmentCallFromMachine = 11"
| "ExceptionType_code InstructionPageFault = 12"
| "ExceptionType_code LoadPageFault = 13"
| "ExceptionType_code StorePageFault = 15"

section \<open>Trace events\<close>

datatype Event =
    OpEvent uint32 PrivilegeLevel
  | TrapEvent TrapType PrivilegeLevel PrivilegeLevel uint32 uint64
  | MemoryEvent MemoryAccessType uint32 uint64 uint64 uint64

section \<open>CSR addresses\<close>

abbreviation csr_ustatus :: uint32 where "csr_ustatus \<equiv> 0x000"
abbreviation csr_uie :: uint32 where "csr_uie \<equiv> 0x004"
abbreviation csr_utvec :: uint32 where "csr_utvec \<equiv> 0x005"
abbreviation csr_uscratch :: uint32 where "csr_uscratch \<equiv> 0x040"
abbreviation csr_uepc :: uint32 where "csr_uepc \<equiv> 0x041"
abbreviation csr_ucause :: uint32 where "csr_ucause \<equiv> 0x042"
abbreviation csr_utval :: uint32 where "csr_utval \<equiv> 0x043"
abbreviation csr_uip :: uint32 where "csr_uip \<equiv> 0x044"
abbreviation csr_fflags :: uint32 where "csr_fflags \<equiv> 0x001"
abbreviation csr_frm :: uint32 where "csr_frm \<equiv> 0x002"
abbreviation csr_fcsr :: uint32 where "csr_fcsr \<equiv> 0x003"
abbreviation csr_sstatus :: uint32 where "csr_sstatus \<equiv> 0x100"
abbreviation csr_sedeleg :: uint32 where "csr_sedeleg \<equiv> 0x102"
abbreviation csr_sideleg :: uint32 where "csr_sideleg \<equiv> 0x103"
abbreviation csr_sie :: uint32 where "csr_sie \<equiv> 0x104"
abbreviation csr_stvec :: uint32 where "csr_stvec \<equiv> 0x105"
abbreviation csr_scounteren :: uint32 where "csr_scounteren \<equiv> 0x106"
abbreviation csr_sscratch :: uint32 where "csr_sscratch \<equiv> 0x140"
abbreviation csr_sepc :: uint32 where "csr_sepc \<equiv> 0x141"
abbreviation csr_scause :: uint32 where "csr_scause \<equiv> 0x142"
abbreviation csr_stval :: uint32 where "csr_stval \<equiv> 0x143"
abbreviation csr_sip :: uint32 where "csr_sip \<equiv> 0x144"
abbreviation csr_satp :: uint32 where "csr_satp \<equiv> 0x180"
abbreviation csr_mstatus :: uint32 where "csr_mstatus \<equiv> 0x300"
abbreviation csr_misa :: uint32 where "csr_misa \<equiv> 0x301"
abbreviation csr_medeleg :: uint32 where "csr_medeleg \<equiv> 0x302"
abbreviation csr_mideleg :: uint32 where "csr_mideleg \<equiv> 0x303"
abbreviation csr_mie :: uint32 where "csr_mie \<equiv> 0x304"
abbreviation csr_mtvec :: uint32 where "csr_mtvec \<equiv> 0x305"
abbreviation csr_mcounteren :: uint32 where "csr_mcounteren \<equiv> 0x306"
abbreviation csr_mscratch :: uint32 where "csr_mscratch \<equiv> 0x340"
abbreviation csr_mepc :: uint32 where "csr_mepc \<equiv> 0x341"
abbreviation csr_mcause :: uint32 where "csr_mcause \<equiv> 0x342"
abbreviation csr_mtval :: uint32 where "csr_mtval \<equiv> 0x343"
abbreviation csr_mip :: uint32 where "csr_mip \<equiv> 0x344"
abbreviation csr_pmpcfg0 :: uint32 where "csr_pmpcfg0 \<equiv> 0x3a0"
abbreviation csr_pmpcfg1 :: uint32 where "csr_pmpcfg1 \<equiv> 0x3a1"
abbreviation csr_pmpcfg2 :: uint32 where "csr_pmpcfg2 \<equiv> 0x3a2"
abbreviation csr_pmpcfg3 :: uint32 where "csr_pmpcfg3 \<equiv> 0x3a3"
abbreviation csr_pmpaddr_begin :: uint32 where "csr_pmpaddr_begin \<equiv> 0x3b0"
abbreviation csr_pmpaddr_end :: uint32 where "csr_pmpaddr_end \<equiv> 0x3c0"
abbreviation csr_tselect :: uint32 where "csr_tselect \<equiv> 0x7a0"
abbreviation csr_tdata1 :: uint32 where "csr_tdata1 \<equiv> 0x7a1"
abbreviation csr_tdata2 :: uint32 where "csr_tdata2 \<equiv> 0x7a2"
abbreviation csr_tdata3 :: uint32 where "csr_tdata3 \<equiv> 0x7a3"
abbreviation csr_dcsr :: uint32 where "csr_dcsr \<equiv> 0x7b0"
abbreviation csr_dpc :: uint32 where "csr_dpc \<equiv> 0x7b1"
abbreviation csr_dscratch :: uint32 where "csr_dscratch \<equiv> 0x7b2"
abbreviation csr_mhpmcounter_begin :: uint32 where "csr_mhpmcounter_begin \<equiv> 0xb00"
abbreviation csr_mcycle :: uint32 where "csr_mcycle \<equiv> 0xb00"
abbreviation csr_mtime :: uint32 where "csr_mtime \<equiv> 0xb01"
abbreviation csr_minstret :: uint32 where "csr_minstret \<equiv> 0xb02"
abbreviation csr_mhpmcounter_end :: uint32 where "csr_mhpmcounter_end \<equiv> 0xb20"
abbreviation csr_mhpmcounterh_begin :: uint32 where "csr_mhpmcounterh_begin \<equiv> 0xb80"
abbreviation csr_mcycleh :: uint32 where "csr_mcycleh \<equiv> 0xb80"
abbreviation csr_mtimeh :: uint32 where "csr_mtimeh \<equiv> 0xb81"
abbreviation csr_minstreth :: uint32 where "csr_minstreth \<equiv> 0xb82"
abbreviation csr_mhpmcounterh_end :: uint32 where "csr_mhpmcounterh_end \<equiv> 0xba0"
abbreviation csr_hpmcounter_begin :: uint32 where "csr_hpmcounter_begin \<equiv> 0xc00"
abbreviation csr_cycle :: uint32 where "csr_cycle \<equiv> 0xc00"
abbreviation csr_time :: uint32 where "csr_time \<equiv> 0xc01"
abbreviation csr_instret :: uint32 where "csr_instret \<equiv> 0xc02"
abbreviation csr_hpmcounter_end :: uint32 where "csr_hpmcounter_end \<equiv> 0xc20"
abbreviation csr_hpmcounterh_begin :: uint32 where "csr_hpmcounterh_begin \<equiv> 0xc80"
abbreviation csr_cycleh :: uint32 where "csr_cycleh \<equiv> 0xc80"
abbreviation csr_timeh :: uint32 where "csr_timeh \<equiv> 0xc81"
abbreviation csr_instreth :: uint32 where "csr_instreth \<equiv> 0xc82"
abbreviation csr_hpmcounterh_end :: uint32 where "csr_hpmcounterh_end \<equiv> 0xca0"
abbreviation csr_mvendorid :: uint32 where "csr_mvendorid \<equiv> 0xf11"
abbreviation csr_marchid :: uint32 where "csr_marchid \<equiv> 0xf12"
abbreviation csr_mimpid :: uint32 where "csr_mimpid \<equiv> 0xf13"
abbreviation csr_mhartid :: uint32 where "csr_mhartid \<equiv> 0xf14"

section \<open>Register layouts\<close>

abbreviation misa_A :: BitFieldMember where "misa_A \<equiv> (0, 0)"
abbreviation misa_C :: BitFieldMember where "misa_C \<equiv> (2, 2)"
abbreviation misa_D :: BitFieldMember where "misa_D \<equiv> (3, 3)"
abbreviation misa_F :: BitFieldMember where "misa_F \<equiv> (5, 5)"
abbreviation misa_I :: BitFieldMember where "misa_I \<equiv> (8, 8)"
abbreviation misa_M :: BitFieldMember where "misa_M \<equiv> (12, 12)"
abbreviation misa_S :: BitFieldMember where "misa_S \<equiv> (18, 18)"
abbreviation misa_U :: BitFieldMember where "misa_U \<equiv> (20, 20)"
abbreviation misa_MXL_RV32 :: BitFieldMember where "misa_MXL_RV32 \<equiv> (31, 30)"
abbreviation misa_MXL_RV64 :: BitFieldMember where "misa_MXL_RV64 \<equiv> (63, 62)"
abbreviation fcsr_RM :: BitFieldMember where "fcsr_RM \<equiv> (7, 5)"
abbreviation fcsr_AE :: BitFieldMember where "fcsr_AE \<equiv> (4, 0)"
abbreviation fcsr_NV :: BitFieldMember where "fcsr_NV \<equiv> (4, 4)"
abbreviation fcsr_DZ :: BitFieldMember where "fcsr_DZ \<equiv> (3, 3)"
abbreviation fcsr_OF :: BitFieldMember where "fcsr_OF \<equiv> (2, 2)"
abbreviation fcsr_UF :: BitFieldMember where "fcsr_UF \<equiv> (1, 1)"
abbreviation fcsr_NX :: BitFieldMember where "fcsr_NX \<equiv> (0, 0)"
abbreviation xstatus_SD_RV64 :: BitFieldMember where "xstatus_SD_RV64 \<equiv> (63, 63)"
abbreviation xstatus_SXL :: BitFieldMember where "xstatus_SXL \<equiv> (35, 34)"
abbreviation xstatus_UXL :: BitFieldMember where "xstatus_UXL \<equiv> (33, 32)"
abbreviation xstatus_SD_RV32 :: BitFieldMember where "xstatus_SD_RV32 \<equiv> (31, 31)"
abbreviation xstatus_TSR :: BitFieldMember where "xstatus_TSR \<equiv> (22, 22)"
abbreviation xstatus_TW :: BitFieldMember where "xstatus_TW \<equiv> (21, 21)"
abbreviation xstatus_TVM :: BitFieldMember where "xstatus_TVM \<equiv> (20, 20)"
abbreviation xstatus_MXR :: BitFieldMember where "xstatus_MXR \<equiv> (19, 19)"
abbreviation xstatus_SUM :: BitFieldMember where "xstatus_SUM \<equiv> (18, 18)"
abbreviation xstatus_MPRV :: BitFieldMember where "xstatus_MPRV \<equiv> (17, 17)"
abbreviation xstatus_XS :: BitFieldMember where "xstatus_XS \<equiv> (16, 15)"
abbreviation xstatus_FS :: BitFieldMember where "xstatus_FS \<equiv> (14, 13)"
abbreviation xstatus_MPP :: BitFieldMember where "xstatus_MPP \<equiv> (12, 11)"
abbreviation xstatus_SPP :: BitFieldMember where "xstatus_SPP \<equiv> (8, 8)"
abbreviation xstatus_MPIE :: BitFieldMember where "xstatus_MPIE \<equiv> (7, 7)"
abbreviation xstatus_SPIE :: BitFieldMember where "xstatus_SPIE \<equiv> (5, 5)"
abbreviation xstatus_UPIE :: BitFieldMember where "xstatus_UPIE \<equiv> (4, 4)"
abbreviation xstatus_MIE :: BitFieldMember where "xstatus_MIE \<equiv> (3, 3)"
abbreviation xstatus_SIE :: BitFieldMember where "xstatus_SIE \<equiv> (1, 1)"
abbreviation xstatus_UIE :: BitFieldMember where "xstatus_UIE \<equiv> (0, 0)"
abbreviation xtvec_BASE_RV32 :: BitFieldMember where "xtvec_BASE_RV32 \<equiv> (31, 2)"
abbreviation xtvec_BASE_RV64 :: BitFieldMember where "xtvec_BASE_RV64 \<equiv> (63, 2)"
abbreviation xtvec_MODE :: BitFieldMember where "xtvec_MODE \<equiv> (1, 0)"
abbreviation xip_MEIP :: BitFieldMember where "xip_MEIP \<equiv> (11, 11)"
abbreviation xip_SEIP :: BitFieldMember where "xip_SEIP \<equiv> (9, 9)"
abbreviation xip_UEIP :: BitFieldMember where "xip_UEIP \<equiv> (8, 8)"
abbreviation xip_MTIP :: BitFieldMember where "xip_MTIP \<equiv> (7, 7)"
abbreviation xip_STIP :: BitFieldMember where "xip_STIP \<equiv> (5, 5)"
abbreviation xip_UTIP :: BitFieldMember where "xip_UTIP \<equiv> (4, 4)"
abbreviation xip_MSIP :: BitFieldMember where "xip_MSIP \<equiv> (3, 3)"
abbreviation xip_SSIP :: BitFieldMember where "xip_SSIP \<equiv> (1, 1)"
abbreviation xip_USIP :: BitFieldMember where "xip_USIP \<equiv> (0, 0)"
abbreviation xie_MEIE :: BitFieldMember where "xie_MEIE \<equiv> (11, 11)"
abbreviation xie_SEIE :: BitFieldMember where "xie_SEIE \<equiv> (9, 9)"
abbreviation xie_UEIE :: BitFieldMember where "xie_UEIE \<equiv> (8, 8)"
abbreviation xie_MTIE :: BitFieldMember where "xie_MTIE \<equiv> (7, 7)"
abbreviation xie_STIE :: BitFieldMember where "xie_STIE \<equiv> (5, 5)"
abbreviation xie_UTIE :: BitFieldMember where "xie_UTIE \<equiv> (4, 4)"
abbreviation xie_MSIE :: BitFieldMember where "xie_MSIE \<equiv> (3, 3)"
abbreviation xie_SSIE :: BitFieldMember where "xie_SSIE \<equiv> (1, 1)"
abbreviation xie_USIE :: BitFieldMember where "xie_USIE \<equiv> (0, 0)"
abbreviation satp_MODE_RV64 :: BitFieldMember where "satp_MODE_RV64 \<equiv> (63, 60)"
abbreviation satp_ASID_RV64 :: BitFieldMember where "satp_ASID_RV64 \<equiv> (59, 44)"
abbreviation satp_PPN_RV64 :: BitFieldMember where "satp_PPN_RV64 \<equiv> (43, 0)"
abbreviation satp_MODE_RV32 :: BitFieldMember where "satp_MODE_RV32 \<equiv> (31, 31)"
abbreviation satp_ASID_RV32 :: BitFieldMember where "satp_ASID_RV32 \<equiv> (30, 22)"
abbreviation satp_PPN_RV32 :: BitFieldMember where "satp_PPN_RV32 \<equiv> (21, 0)"

definition fcsr_UserMask :: uint32 where
  "fcsr_UserMask = Mask fcsr_RM OR Mask fcsr_AE"

definition xstatus_WriteMask :: uint64 where
  "xstatus_WriteMask = Mask xstatus_TSR OR Mask xstatus_TW OR Mask xstatus_TVM OR Mask xstatus_MXR
     OR Mask xstatus_SUM OR Mask xstatus_MPRV OR Mask xstatus_XS OR Mask xstatus_FS
     OR Mask xstatus_MPP OR Mask xstatus_SPP OR Mask xstatus_MPIE OR Mask xstatus_SPIE
     OR Mask xstatus_UPIE OR Mask xstatus_MIE OR Mask xstatus_SIE OR Mask xstatus_UIE"

definition xstatus_SupervisorMask_RV64 :: uint64 where
  "xstatus_SupervisorMask_RV64 = Mask xstatus_SD_RV64 OR Mask xstatus_SXL OR Mask xstatus_UXL
     OR Mask xstatus_MXR OR Mask xstatus_SUM OR Mask xstatus_XS OR Mask xstatus_FS
     OR Mask xstatus_SPP OR Mask xstatus_SPIE OR Mask xstatus_UPIE OR Mask xstatus_SIE
     OR Mask xstatus_UIE"

definition xstatus_SupervisorMask_RV32 :: uint64 where
  "xstatus_SupervisorMask_RV32 = Mask xstatus_SD_RV32 OR Mask xstatus_MXR OR Mask xstatus_SUM
     OR Mask xstatus_XS OR Mask xstatus_FS OR Mask xstatus_SPP OR Mask xstatus_SPIE
     OR Mask xstatus_UPIE OR Mask xstatus_SIE OR Mask xstatus_UIE"

definition xstatus_UserMask :: uint64 where
  "xstatus_UserMask = Mask xstatus_UPIE OR Mask xstatus_UIE"

definition xip_WriteMask :: uint64 where
  "xip_WriteMask = Mask xip_MEIP OR Mask xip_SEIP OR Mask xip_UEIP OR Mask xip_MSIP
     OR Mask xip_SSIP OR Mask xip_USIP"

definition xip_UserMask :: uint64 where
  "xip_UserMask = Mask xip_UEIP OR Mask xip_UTIP OR Mask xip_USIP"

definition xip_SupervisorMask :: uint64 where
  "xip_SupervisorMask = Mask xip_SEIP OR Mask xip_STIP OR Mask xip_SSIP OR xip_UserMask"

definition xip_MachineMask :: uint64 where
  "xip_MachineMask = Mask xip_MEIP OR Mask xip_MTIP OR Mask xip_MSIP OR xip_SupervisorMask"

definition xie_UserMask :: uint64 where
  "xie_UserMask = Mask xie_UEIE OR Mask xie_UTIE OR Mask xie_USIE"

definition xie_SupervisorMask :: uint64 where
  "xie_SupervisorMask = Mask xie_SEIE OR Mask xie_STIE OR Mask xie_SSIE OR xie_UserMask"

definition xie_MachineMask :: uint64 where
  "xie_MachineMask = Mask xie_MEIE OR Mask xie_MTIE OR Mask xie_MSIE OR xie_SupervisorMask"

lemmas csr_mask_defs = fcsr_UserMask_def xstatus_WriteMask_def xstatus_SupervisorMask_RV64_def
  xstatus_SupervisorMask_RV32_def xstatus_UserMask_def xip_WriteMask_def xip_UserMask_def
  xip_SupervisorMask_def xip_MachineMask_def xie_UserMask_def xie_SupervisorMask_def
  xie_MachineMask_def

text \<open>
  The converting constructor \<open>xstatus_t(uint32_t)\<close>: a 64-bit value that becomes an
  \<open>xstatus_t\<close> passes through 32 bits.
\<close>

definition xstatus_of_uint64 :: "uint64 \<Rightarrow> uint64" where
  "xstatus_of_uint64 v = ucast (ucast v :: uint32)"

lemma bit_xstatus_of_uint64 [field_simps_bits]:
  "bit (xstatus_of_uint64 v) k \<longleftrightarrow> k < 32 \<and> bit v k"
  by (auto simp: xstatus_of_uint64_def bit_simps)

section \<open>Page tables\<close>

abbreviation PageTableEntry_V :: BitFieldMember where "PageTableEntry_V \<equiv> (0, 0)"
abbreviation PageTableEntry_R :: BitFieldMember where "PageTableEntry_R \<equiv> (1, 1)"
abbreviation PageTableEntry_W :: BitFieldMember where "PageTableEntry_W \<equiv> (2, 2)"
abbreviation PageTableEntry_X :: BitFieldMember where "PageTableEntry_X \<equiv> (3, 3)"
abbreviation PageTableEntry_U :: BitFieldMember where "PageTableEntry_U \<equiv> (4, 4)"
abbreviation PageTableEntry_G :: BitFieldMember where "PageTableEntry_G \<equiv> (5, 5)"
abbreviation PageTableEntry_A :: BitFieldMember where "PageTableEntry_A \<equiv> (6, 6)"
abbreviation PageTableEntry_D :: BitFieldMember where "PageTableEntry_D \<equiv> (7, 7)"
abbreviation PageTableEntry_RSW :: BitFieldMember where "PageTableEntry_RSW \<equiv> (9, 8)"
abbreviation PageTableEntrySv32_PPN0 :: BitFieldMember where "PageTableEntrySv32_PPN0 \<equiv> (19, 10)"
abbreviation PageTableEntrySv32_PPN1 :: BitFieldMember where "PageTableEntrySv32_PPN1 \<equiv> (31, 20)"
abbreviation PageTableEntrySv39_PPN0 :: BitFieldMember where "PageTableEntrySv39_PPN0 \<equiv> (18, 10)"
abbreviation PageTableEntrySv39_PPN1 :: BitFieldMember where "PageTableEntrySv39_PPN1 \<equiv> (27, 19)"
abbreviation PageTableEntrySv39_PPN2 :: BitFieldMember where "PageTableEntrySv39_PPN2 \<equiv> (53, 28)"
abbreviation PageTableEntrySv48_PPN0 :: BitFieldMember where "PageTableEntrySv48_PPN0 \<equiv> (18, 10)"
abbreviation PageTableEntrySv48_PPN1 :: BitFieldMember where "PageTableEntrySv48_PPN1 \<equiv> (27, 19)"
abbreviation PageTableEntrySv48_PPN2 :: BitFieldMember where "PageTableEntrySv48_PPN2 \<equiv> (36, 28)"
abbreviation PageTableEntrySv48_PPN3 :: BitFieldMember where "PageTableEntrySv48_PPN3 \<equiv> (53, 37)"
abbreviation PhysicalAddressSv32_PPN :: BitFieldMember where "PhysicalAddressSv32_PPN \<equiv> (33, 12)"
abbreviation PhysicalAddressSv32_PPN1 :: BitFieldMember where "PhysicalAddressSv32_PPN1 \<equiv> (33, 22)"
abbreviation PhysicalAddressSv32_PPN0 :: BitFieldMember where "PhysicalAddressSv32_PPN0 \<equiv> (21, 12)"
abbreviation PhysicalAddressSv32_Offset :: BitFieldMember where "PhysicalAddressSv32_Offset \<equiv> (11, 0)"
abbreviation PhysicalAddressSv39_PPN :: BitFieldMember where "PhysicalAddressSv39_PPN \<equiv> (55, 12)"
abbreviation PhysicalAddressSv39_PPN2 :: BitFieldMember where "PhysicalAddressSv39_PPN2 \<equiv> (55, 30)"
abbreviation PhysicalAddressSv39_PPN1 :: BitFieldMember where "PhysicalAddressSv39_PPN1 \<equiv> (29, 21)"
abbreviation PhysicalAddressSv39_PPN0 :: BitFieldMember where "PhysicalAddressSv39_PPN0 \<equiv> (20, 12)"
abbreviation PhysicalAddressSv39_Offset :: BitFieldMember where "PhysicalAddressSv39_Offset \<equiv> (11, 0)"
abbreviation PhysicalAddressSv48_PPN :: BitFieldMember where "PhysicalAddressSv48_PPN \<equiv> (55, 12)"
abbreviation PhysicalAddressSv48_PPN3 :: BitFieldMember where "PhysicalAddressSv48_PPN3 \<equiv> (55, 39)"
abbreviation PhysicalAddressSv48_PPN2 :: BitFieldMember where "PhysicalAddressSv48_PPN2 \<equiv> (38, 30)"
abbreviation PhysicalAddressSv48_PPN1 :: BitFieldMember where "PhysicalAddressSv48_PPN1 \<equiv> (29, 21)"
abbreviation PhysicalAddressSv48_PPN0 :: BitFieldMember where "PhysicalAddressSv48_PPN0 \<equiv> (20, 12)"
abbreviation PhysicalAddressSv48_Offset :: BitFieldMember where "PhysicalAddressSv48_Offset \<equiv> (11, 0)"
abbreviation VirtualAddressSv32_Offset :: BitFieldMember where "VirtualAddressSv32_Offset \<equiv> (11, 0)"
abbreviation VirtualAddressSv32_VPN0 :: BitFieldMember where "VirtualAddressSv32_VPN0 \<equiv> (21, 12)"
abbreviation VirtualAddressSv32_VPN1 :: BitFieldMember where "VirtualAddressSv32_VPN1 \<equiv> (31, 22)"
abbreviation VirtualAddressSv32_Offset_L1 :: BitFieldMember where "VirtualAddressSv32_Offset_L1 \<equiv> (21, 0)"
abbreviation VirtualAddressSv39_Offset :: BitFieldMember where "VirtualAddressSv39_Offset \<equiv> (11, 0)"
abbreviation VirtualAddressSv39_VPN0 :: BitFieldMember where "VirtualAddressSv39_VPN0 \<equiv> (20, 12)"
abbreviation VirtualAddressSv39_VPN1 :: BitFieldMember where "VirtualAddressSv39_VPN1 \<equiv> (29, 21)"
abbreviation VirtualAddressSv39_VPN2 :: BitFieldMember where "VirtualAddressSv39_VPN2 \<equiv> (38, 30)"
abbreviation VirtualAddressSv48_Offset :: BitFieldMember where "VirtualAddressSv48_Offset \<equiv> (11, 0)"
abbreviation VirtualAddressSv48_VPN0 :: BitFieldMember where "VirtualAddressSv48_VPN0 \<equiv> (20, 12)"
abbreviation VirtualAddressSv48_VPN1 :: BitFieldMember where "VirtualAddressSv48_VPN1 \<equiv> (29, 21)"
abbreviation VirtualAddressSv48_VPN2 :: BitFieldMember where "VirtualAddressSv48_VPN2 \<equiv> (38, 30)"
abbreviation VirtualAddressSv48_VPN3 :: BitFieldMember where "VirtualAddressSv48_VPN3 \<equiv> (47, 39)"

text \<open>Physical addresses are put together member by member on a zero value.\<close>

definition PhysicalAddressSv32 :: "uint64 \<Rightarrow> uint64 \<Rightarrow> uint64" where
  "PhysicalAddressSv32 ppn offset =
     SetMember PhysicalAddressSv32_Offset offset (SetMember PhysicalAddressSv32_PPN ppn 0)"

definition PhysicalAddressSv32_parts :: "uint64 \<Rightarrow> uint64 \<Rightarrow> uint64 \<Rightarrow> uint64" where
  "PhysicalAddressSv32_parts ppn1 ppn0 offset =
     SetMember PhysicalAddressSv32_Offset offset
       (SetMember PhysicalAddressSv32_PPN0 ppn0 (SetMember PhysicalAddressSv32_PPN1 ppn1 0))"

definition PhysicalAddressSv39 :: "uint64 \<Rightarrow> uint64 \<Rightarrow> uint64" where
  "PhysicalAddressSv39 ppn offset =
     SetMember PhysicalAddressSv39_Offset offset (SetMember PhysicalAddressSv39_PPN ppn 0)"

definition PhysicalAddressSv39_parts :: "uint64 \<Rightarrow> uint64 \<Rightarrow> uint64 \<Rightarrow> uint64 \<Rightarrow> uint64" where
  "PhysicalAddressSv39_parts ppn2 ppn1 ppn0 offset =
     SetMember PhysicalAddressSv39_Offset offset
       (SetMember PhysicalAddressSv39_PPN0 ppn0
         (SetMember PhysicalAddressSv39_PPN1 ppn1 (SetMember PhysicalAddressSv39_PPN2 ppn2 0)))"

definition PhysicalAddressSv48 :: "uint64 \<Rightarrow> uint64 \<Rightarrow> uint64" where
  "PhysicalAddressSv48 ppn offset =
     SetMember PhysicalAddressSv48_Offset offset (SetMember PhysicalAddressSv48_PPN ppn 0)"

definition PhysicalAddressSv48_parts ::
    "uint64 \<Rightarrow> uint64 \<Rightarrow> uint64 \<Rightarrow> uint64 \<Rightarrow> uint64 \<Rightarrow> uint64" where
  "PhysicalAddressSv48_parts ppn3 ppn2 ppn1 ppn0 offset =
     SetMember PhysicalAddressSv48_Offset offset
       (SetMember PhysicalAddressSv48_PPN0 ppn0
         (SetMember PhysicalAddressSv48_PPN1 ppn1
           (SetMember PhysicalAddressSv48_PPN2 ppn2 (SetMember PhysicalAddressSv48_PPN3 ppn3 0))))"

lemmas PhysicalAddress_defs = PhysicalAddressSv32_def PhysicalAddressSv32_parts_def
  PhysicalAddressSv39_def PhysicalAddressSv39_parts_def
  PhysicalAddressSv48_def PhysicalAddressSv48_parts_def

end
