(* ===== verification/Trap.thy ===== *)
theory Trap
  imports RvTypes
begin

text \<open>
  \<^verbatim>\<open>cpu/Trap.h\<close> and \<^verbatim>\<open>cpu/Trap.cpp\<close>: the description of a synchronous trap and its constructors. An
  operation that may trap returns \<open>Trap option result\<close>; the macro RAFI\_RETURN\_IF\_TRAP is
  \<open>return_if_trap\<close>.
\<close>

record Trap =
  trap_type :: ExceptionType
  trap_pc :: vaddr_t
  trap_trapValue :: uint64

definition MakeInstructionAddressMisalignedException :: "vaddr_t \<Rightarrow> Trap" where
  "MakeInstructionAddressMisalignedException pc =
     \<lparr> trap_type = InstructionAddressMisaligned, trap_pc = pc, trap_trapValue = pc \<rparr>"

definition MakeInstructionAccessFaultException :: "vaddr_t \<Rightarrow> Trap" where
  "MakeInstructionAccessFaultException pc =
     \<lparr> trap_type = InstructionAccessFault, trap_pc = pc, trap_trapValue = pc \<rparr>"

definition MakeIllegalInstructionException :: "vaddr_t \<Rightarrow> uint32 \<Rightarrow> Trap" where
  "MakeIllegalInstructionException pc insn =
     \<lparr> trap_type = IllegalInstruction, trap_pc = pc, trap_trapValue = ucast insn \<rparr>"

definition MakeBreakpointException :: "vaddr_t \<Rightarrow> Trap" where
  "MakeBreakpointException pc = \<lparr> trap_type = Breakpoint, trap_pc = pc, trap_trapValue = pc \<rparr>"

definition MakeLoadAddressMisalignedException :: "vaddr_t \<Rightarrow> vaddr_t \<Rightarrow> Trap" where
  "MakeLoadAddressMisalignedException pc address =
     \<lparr> trap_type = LoadAddressMisaligned, trap_pc = pc, trap_trapValue = address \<rparr>"

definition MakeLoadAccessFaultException :: "vaddr_t \<Rightarrow> vaddr_t \<Rightarrow> Trap" where
  "MakeLoadAccessFaultException pc address =
     \<lparr> trap_type = LoadAccessFault, trap_pc = pc, trap_trapValue = address \<rparr>"

definition MakeStoreAccessFaultException :: "vaddr_t \<Rightarrow> vaddr_t \<Rightarrow> Trap" where
  "MakeStoreAccessFaultException pc address =
     \<lparr> trap_type = StoreAccessFault, trap_pc = pc, trap_trapValue = address \<rparr>"

definition MakeEnvironmentCallFromUserException :: "vaddr_t \<Rightarrow> Trap" where
  "MakeEnvironmentCallFromUserException pc =
     \<lparr> trap_type = EnvironmentCallFromUser, trap_pc = pc, trap_trapValue = pc \<rparr>"

definition MakeEnvironmentCallFromSupervisorException :: "vaddr_t \<Rightarrow> Trap" where
  "MakeEnvironmentCallFromSupervisorException pc =
     \<lparr> trap_type = EnvironmentCallFromSupervisor, trap_pc = pc, trap_trapValue = pc \<rparr>"

definition MakeEnvironmentCallFromMachineException :: "vaddr_t \<Rightarrow> Trap" where
  "MakeEnvironmentCallFromMachineException pc =
     \<lparr> trap_type = EnvironmentCallFromMachine, trap_pc = pc, trap_trapValue = pc \<rparr>"

definition MakeInstructionPageFaultException :: "vaddr_t \<Rightarrow> vaddr_t \<Rightarrow> Trap" where
  "MakeInstructionPageFaultException pc address =
     \<lparr> trap_type = InstructionPageFault, trap_pc = pc, trap_trapValue = address \<rparr>"

definition MakeLoadPageFaultException :: "vaddr_t \<Rightarrow> vaddr_t \<Rightarrow> Trap" where
  "MakeLoadPageFaultException pc address =
     \<lparr> trap_type = LoadPageFault, trap_pc = pc, trap_trapValue = address \<rparr>"

definition MakeStorePageFaultException :: "vaddr_t \<Rightarrow> vaddr_t \<Rightarrow> Trap" where
  "MakeStorePageFaultException pc address =
     \<lparr> trap_type = StorePageFault, trap_pc = pc, trap_trapValue = address \<rparr>"

lemmas Make_defs = MakeInstructionAddressMisalignedException_def
  MakeInstructionAccessFaultException_def MakeIllegalInstructionException_def
  MakeBreakpointException_def MakeLoadAddressMisalignedException_def
  MakeLoadAccessFaultException_def MakeStoreAccessFaultException_def
  MakeEnvironmentCallFromUserException_def MakeEnvironmentCallFromSupervisorException_def
  MakeEnvironmentCallFromMachineException_def MakeInstructionPageFaultException_def
  MakeLoadPageFaultException_def MakeStorePageFaultException_def

section \<open>Returning early on a trap\<close>

definition return_if_trap :: "Trap option result \<Rightarrow> Trap option result \<Rightarrow> Trap option result" where
  "return_if_trap t k = rbind t (\<lambda>ot. case ot of Some tr \<Rightarrow> Inr (Some tr) | None \<Rightarrow> k)"

lemma return_if_trap_simps [simp, emu_simps]:
  "return_if_trap (Inl e) k = Inl e"
  "return_if_trap (Inr (Some t)) k = Inr (Some t)"
  "return_if_trap (Inr None) k = k"
  by (simp_all add: return_if_trap_def)

lemma return_if_trap_None_iff [simp]:
  "return_if_trap t k = Inr None \<longleftrightarrow> t = Inr None \<and> k = Inr None"
  by (auto simp: return_if_trap_def split: sum.splits option.splits rbind_splits)

end
