(* ===== verification/Csr.thy ===== *)
theory Csr
  imports Trap
begin

text \<open>
  \<^verbatim>\<open>cpu/Csr.h\<close> and \<^verbatim>\<open>cpu/Csr.cpp\<close>: the control and status registers of a hart together with its
  program counter and privilege level. Every member of the class is a field of the record. The
  message printed for an unimplemented register has no effect on the state and is left out.
\<close>

section \<open>State\<close>

record Csr =
  m_XLEN :: XLEN
  m_ISA :: uint64
  m_FpCsr :: uint32
  m_Status :: uint64
  m_MachineTrapVector :: uint64
  m_SupervisorTrapVector :: uint64
  m_UserTrapVector :: uint64
  m_MachineExceptionDelegation :: uint64
  m_SupervisorExceptionDelegation :: uint64
  m_MachineInterruptDelegation :: uint64
  m_SupervisorInterruptDelegation :: uint64
  m_MachineCounterEnable :: uint64
  m_SupervisorCounterEnable :: uint64
  m_MachineScratch :: uint64
  m_SupervisorScratch :: uint64
  m_UserScratch :: uint64
  m_MachineExceptionPc :: vaddr_t
  m_SupervisorExceptionPc :: vaddr_t
  m_UserExceptionPc :: vaddr_t
  m_MachineCause :: uint64
  m_SupervisorCause :: uint64
  m_UserCause :: uint64
  m_MachineTrapValue :: uint64
  m_SupervisorTrapValue :: uint64
  m_UserTrapValue :: uint64
  m_InterruptEnable :: uint64
  m_InterruptPending :: uint64
  m_SupervisorAddressTranslationProtection :: uint64
  m_CycleCounter :: uint64
  m_TimeCounter :: uint64
  m_InstructionRetiredCounter :: uint64
  m_Pc :: vaddr_t
  m_Priv :: PrivilegeLevel

definition Csr_zero :: "XLEN \<Rightarrow> uint64 \<Rightarrow> vaddr_t \<Rightarrow> Csr" where
  "Csr_zero xlen isa initialPc = \<lparr>
     m_XLEN = xlen, m_ISA = isa, m_FpCsr = 0, m_Status = 0,
     m_MachineTrapVector = 0, m_SupervisorTrapVector = 0, m_UserTrapVector = 0,
     m_MachineExceptionDelegation = 0, m_SupervisorExceptionDelegation = 0,
     m_MachineInterruptDelegation = 0, m_SupervisorInterruptDelegation = 0,
     m_MachineCounterEnable = 0, m_SupervisorCounterEnable = 0,
     m_MachineScratch = 0, m_SupervisorScratch = 0, m_UserScratch = 0,
     m_MachineExceptionPc = 0, m_SupervisorExceptionPc = 0, m_UserExceptionPc = 0,
     m_MachineCause = 0, m_SupervisorCause = 0, m_UserCause = 0,
     m_MachineTrapValue = 0, m_SupervisorTrapValue = 0, m_UserTrapValue = 0,
     m_InterruptEnable = 0, m_InterruptPending = 0,
     m_SupervisorAddressTranslationProtection = 0,
     m_CycleCounter = 0, m_TimeCounter = 0, m_InstructionRetiredCounter = 0,
     m_Pc = initialPc, m_Priv = Machine \<rparr>"

definition Csr_misa :: uint64 where
  "Csr_misa = SetMember misa_S 1 (SetMember misa_U 1 (SetMember misa_C 1 (SetMember misa_D 1
     (SetMember misa_F 1 (SetMember misa_A 1 (SetMember misa_M 1 (SetMember misa_I 1 0)))))))"

definition Csr_new :: "XLEN \<Rightarrow> vaddr_t \<Rightarrow> Csr result" where
  "Csr_new xlen initialPc = (case xlen of
     XLEN32 \<Rightarrow> Inr (Csr_zero xlen (SetMember misa_MXL_RV32 (ucast (XLEN_code XLEN32)) Csr_misa) initialPc)
   | XLEN64 \<Rightarrow> Inr (Csr_zero xlen (SetMember misa_MXL_RV64 (ucast (XLEN_code XLEN64)) Csr_misa) initialPc)
   | XLEN128 \<Rightarrow> Inl EmuException)"

section \<open>Direct access\<close>

definition Csr_SetPc :: "vaddr_t \<Rightarrow> Csr \<Rightarrow> Csr" where
  "Csr_SetPc value csr = csr\<lparr> m_Pc := value \<rparr>"

definition Csr_SetPriv :: "PrivilegeLevel \<Rightarrow> Csr \<Rightarrow> Csr" where
  "Csr_SetPriv level csr = csr\<lparr> m_Priv := level \<rparr>"

definition Csr_ProcessCycle :: "Csr \<Rightarrow> Csr" where
  "Csr_ProcessCycle csr = csr\<lparr>
     m_CycleCounter := m_CycleCounter csr + 1,
     m_TimeCounter := m_TimeCounter csr + 1,
     m_InstructionRetiredCounter := m_InstructionRetiredCounter csr + 1 \<rparr>"

definition Csr_WriteFpCsr :: "uint32 \<Rightarrow> Csr \<Rightarrow> Csr" where
  "Csr_WriteFpCsr value csr = csr\<lparr> m_FpCsr := value \<rparr>"

definition Csr_WriteInterruptPending :: "uint64 \<Rightarrow> Csr \<Rightarrow> Csr" where
  "Csr_WriteInterruptPending value csr = csr\<lparr> m_InterruptPending := value \<rparr>"

definition Csr_WriteTime :: "uint64 \<Rightarrow> Csr \<Rightarrow> Csr" where
  "Csr_WriteTime value csr = csr\<lparr> m_TimeCounter := value \<rparr>"

definition Csr_ReadStatus :: "Csr \<Rightarrow> uint64 result" where
  "Csr_ReadStatus csr = (let status = m_Status csr in
     if GetMember xstatus_XS status = 3 \<or> GetMember xstatus_FS status = 3
     then (case m_XLEN csr of
             XLEN32 \<Rightarrow> Inr (SetMember xstatus_SD_RV32 1 status)
           | XLEN64 \<Rightarrow> Inr (SetMember xstatus_SD_RV64 1 status)
           | XLEN128 \<Rightarrow> Inl EmuException)
     else Inr status)"

definition Csr_WriteStatus :: "uint64 \<Rightarrow> Csr \<Rightarrow> Csr" where
  "Csr_WriteStatus value csr = csr\<lparr> m_Status := SetWithMask (m_Status csr) value xstatus_WriteMask \<rparr>"

section \<open>Classes of addresses\<close>

definition IsUserModeRegister :: "uint32 \<Rightarrow> bool" where
  "IsUserModeRegister addr \<longleftrightarrow> drop_bit 8 addr AND 3 = 0"

definition IsSupervisorModeRegister :: "uint32 \<Rightarrow> bool" where
  "IsSupervisorModeRegister addr \<longleftrightarrow> drop_bit 8 addr AND 3 = 1"

definition IsReservedModeRegister :: "uint32 \<Rightarrow> bool" where
  "IsReservedModeRegister addr \<longleftrightarrow> drop_bit 8 addr AND 3 = 2"

definition IsMachineModeRegister :: "uint32 \<Rightarrow> bool" where
  "IsMachineModeRegister addr \<longleftrightarrow> drop_bit 8 addr AND 3 = 3"

lemmas register_mode_defs = IsUserModeRegister_def IsSupervisorModeRegister_def
  IsReservedModeRegister_def IsMachineModeRegister_def

definition GetPerformanceCounterIndex :: "uint32 \<Rightarrow> int result" where
  "GetPerformanceCounterIndex addr =
     (if csr_mhpmcounter_begin \<le> addr \<and> addr < csr_mhpmcounter_end
      then Inr (sint addr - sint csr_mhpmcounter_begin)
      else if csr_mhpmcounterh_begin \<le> addr \<and> addr < csr_mhpmcounterh_end
      then Inr (sint addr - sint csr_mhpmcounterh_begin)
      else if csr_hpmcounter_begin \<le> addr \<and> addr < csr_hpmcounter_end
      then Inr (sint addr - sint csr_hpmcounter_begin)
      else if csr_hpmcounterh_begin \<le> addr \<and> addr < csr_hpmcounterh_end
      then Inr (sint addr - sint csr_hpmcounterh_begin)
      else Inl EmuException)"

section \<open>Access check\<close>

text \<open>
  \<open>1 << index\<close> is an \<open>int\<close>; the conjunction with the 64-bit enable register extends it by sign.
\<close>

definition counter_check :: "Csr \<Rightarrow> uint32 \<Rightarrow> vaddr_t \<Rightarrow> uint32 \<Rightarrow> Trap option result" where
  "counter_check csr addr pc insn =
     (if csr_hpmcounter_begin \<le> addr \<and> addr < csr_hpmcounter_end \<or>
         csr_hpmcounterh_begin \<le> addr \<and> addr < csr_hpmcounterh_end
      then rbind (GetPerformanceCounterIndex addr) (\<lambda>index.
             if index < 0 \<or> 32 < index then Inl EmuException
             else rbind (shl (1 :: uint32) index) (\<lambda>m.
               let m64 = scast m :: uint64 in
               case m_Priv csr of
                 Supervisor \<Rightarrow>
                   if m_MachineCounterEnable csr AND m64 = 0
                   then Inr (Some (MakeIllegalInstructionException pc insn)) else Inr None
               | User \<Rightarrow>
                   if m_MachineCounterEnable csr AND m64 = 0 \<or> m_SupervisorCounterEnable csr AND m64 = 0
                   then Inr (Some (MakeIllegalInstructionException pc insn)) else Inr None
               | _ \<Rightarrow> Inr None))
      else Inr None)"

definition Csr_CheckTrap ::
    "Csr \<Rightarrow> uint32 \<Rightarrow> bool \<Rightarrow> vaddr_t \<Rightarrow> uint32 \<Rightarrow> Trap option result" where
  "Csr_CheckTrap csr addr write pc insn = (let regId = sint addr in
     if regId < 0 \<or> 4096 < regId then Inl EmuException
     else if IsSupervisorModeRegister addr \<and> m_Priv csr = User
     then Inr (Some (MakeIllegalInstructionException pc insn))
     else if IsReservedModeRegister addr
     then Inr (Some (MakeIllegalInstructionException pc insn))
     else if IsMachineModeRegister addr \<and> (m_Priv csr = User \<or> m_Priv csr = Supervisor)
     then Inr (Some (MakeIllegalInstructionException pc insn))
     else if drop_bit 10 regId = 3 \<and> write
     then Inr (Some (MakeIllegalInstructionException pc insn))
     else if addr = csr_satp \<and> m_Priv csr = Supervisor \<and> GetMember xstatus_TVM (m_Status csr) \<noteq> 0
     then Inr (Some (MakeIllegalInstructionException pc insn))
     else return_if_trap (counter_check csr addr pc insn)
       (if addr = csr_time then Inr (Some (MakeIllegalInstructionException pc 0)) else Inr None))"

section \<open>Reads\<close>

text \<open>
  The halves of a counter are \<open>int32_t\<close> values, extended by sign to the 64-bit result.
\<close>

definition ReadMachineModeRegister :: "Csr \<Rightarrow> uint32 \<Rightarrow> uint64 result" where
  "ReadMachineModeRegister csr addr =
    (if csr_pmpaddr_begin \<le> addr \<and> addr < csr_pmpaddr_end then Inr 0
     else if addr = csr_mstatus then Csr_ReadStatus csr
     else if addr = csr_misa then Inr (m_ISA csr)
     else if addr = csr_medeleg then Inr (m_MachineExceptionDelegation csr)
     else if addr = csr_mideleg then Inr (m_MachineInterruptDelegation csr)
     else if addr = csr_mie then Inr (GetWithMask (m_InterruptEnable csr) xie_MachineMask)
     else if addr = csr_mtvec then Inr (m_MachineTrapVector csr)
     else if addr = csr_mcounteren then Inr (m_MachineCounterEnable csr)
     else if addr = csr_mscratch then Inr (m_MachineScratch csr)
     else if addr = csr_mepc then Inr (m_MachineExceptionPc csr)
     else if addr = csr_mcause then Inr (m_MachineCause csr)
     else if addr = csr_mtval then Inr (m_MachineTrapValue csr)
     else if addr = csr_mip then Inr (GetWithMask (m_InterruptPending csr) xip_MachineMask)
     else if addr = csr_pmpcfg0 \<or> addr = csr_pmpcfg1 \<or> addr = csr_pmpcfg2 \<or> addr = csr_pmpcfg3 then Inr 0
     else if addr = csr_mvendorid then Inr 0
     else if addr = csr_marchid then Inr 0
     else if addr = csr_mimpid then Inr 0
     else if addr = csr_mhartid then Inr 0
     else if addr = csr_mcycle \<and> m_XLEN csr = XLEN32 then Inr (scast (GetLow32 (m_CycleCounter csr)))
     else if addr = csr_mcycle \<and> m_XLEN csr = XLEN64 then Inr (m_CycleCounter csr)
     else if addr = csr_minstret \<and> m_XLEN csr = XLEN32 then Inr (scast (GetLow32 (m_InstructionRetiredCounter csr)))
     else if addr = csr_minstret \<and> m_XLEN csr = XLEN64 then Inr (m_InstructionRetiredCounter csr)
     else if addr = csr_mcycleh \<and> m_XLEN csr = XLEN32 then Inr (scast (GetHigh32 (m_CycleCounter csr)))
     else if addr = csr_minstreth \<and> m_XLEN csr = XLEN32 then Inr (scast (GetHigh32 (m_InstructionRetiredCounter csr)))
     else Inr 0)"

definition ReadSupervisorStatus :: "Csr \<Rightarrow> uint64 result" where
  "ReadSupervisorStatus csr =
    (case m_XLEN csr of
       XLEN32 \<Rightarrow> rbind (Csr_ReadStatus csr) (\<lambda>st. Inr (GetWithMask st xstatus_SupervisorMask_RV32))
     | XLEN64 \<Rightarrow> rbind (Csr_ReadStatus csr) (\<lambda>st. Inr (GetWithMask st xstatus_SupervisorMask_RV64))
     | XLEN128 \<Rightarrow> Inl EmuException)"

definition ReadSupervisorModeRegister :: "Csr \<Rightarrow> uint32 \<Rightarrow> uint64 result" where
  "ReadSupervisorModeRegister csr addr =
    (if addr = csr_sstatus then ReadSupervisorStatus csr
     else if addr = csr_sedeleg then Inr (m_SupervisorExceptionDelegation csr)
     else if addr = csr_sideleg then Inr (m_SupervisorInterruptDelegation csr)
     else if addr = csr_sie then Inr (GetWithMask (m_InterruptEnable csr) xie_SupervisorMask)
     else if addr = csr_stvec then Inr (m_SupervisorTrapVector csr)
     else if addr = csr_scounteren then Inr (m_SupervisorCounterEnable csr)
     else if addr = csr_sscratch then Inr (m_SupervisorScratch csr)
     else if addr = csr_sepc then Inr (m_SupervisorExceptionPc csr)
     else if addr = csr_scause then Inr (m_SupervisorCause csr)
     else if addr = csr_stval then Inr (m_SupervisorTrapValue csr)
     else if addr = csr_sip then Inr (GetWithMask (m_InterruptPending csr) xip_SupervisorMask)
     else if addr = csr_satp then Inr (m_SupervisorAddressTranslationProtection csr)
     else Inr 0)"

definition ReadUserModeRegister :: "Csr \<Rightarrow> uint32 \<Rightarrow> uint64 result" where
  "ReadUserModeRegister csr addr =
    (if addr = csr_ustatus then rbind (Csr_ReadStatus csr) (\<lambda>st. Inr (GetWithMask st xstatus_UserMask))
     else if addr = csr_fflags then Inr (ucast (GetMember fcsr_AE (m_FpCsr csr)))
     else if addr = csr_frm then Inr (ucast (GetMember fcsr_RM (m_FpCsr csr)))
     else if addr = csr_fcsr then Inr (ucast (GetWithMask (m_FpCsr csr) fcsr_UserMask))
     else if addr = csr_uie then Inr (GetWithMask (m_InterruptEnable csr) xie_UserMask)
     else if addr = csr_utvec then Inr (m_UserTrapVector csr)
     else if addr = csr_uscratch then Inr (m_UserScratch csr)
     else if addr = csr_uepc then Inr (m_UserExceptionPc csr)
     else if addr = csr_ucause then Inr (m_UserCause csr)
     else if addr = csr_utval then Inr (m_UserTrapValue csr)
     else if addr = csr_uip then Inr (GetWithMask (m_InterruptPending csr) xip_UserMask)
     else if addr = csr_cycle \<and> m_XLEN csr = XLEN32 then Inr (scast (GetLow32 (m_CycleCounter csr)))
     else if addr = csr_cycle \<and> m_XLEN csr = XLEN64 then Inr (m_CycleCounter csr)
     else if addr = csr_time \<and> m_XLEN csr = XLEN32 then Inr (scast (GetLow32 (m_CycleCounter csr)))
     else if addr = csr_time \<and> m_XLEN csr = XLEN64 then Inr (m_TimeCounter csr)
     else if addr = csr_instret \<and> m_XLEN csr = XLEN32 then Inr (scast (GetLow32 (m_InstructionRetiredCounter csr)))
     else if addr = csr_instret \<and> m_XLEN csr = XLEN64 then Inr (m_InstructionRetiredCounter csr)
     else if addr = csr_cycleh \<and> m_XLEN csr = XLEN32 then Inr (scast (GetHigh32 (m_CycleCounter csr)))
     else if addr = csr_timeh \<and> m_XLEN csr = XLEN32 then Inr (scast (GetHigh32 (m_TimeCounter csr)))
     else if addr = csr_instreth \<and> m_XLEN csr = XLEN32 then Inr (scast (GetHigh32 (m_InstructionRetiredCounter csr)))
     else Inr 0)"

definition Csr_ReadUInt64 :: "Csr \<Rightarrow> uint32 \<Rightarrow> uint64 result" where
  "Csr_ReadUInt64 csr addr =
    (if IsMachineModeRegister addr then ReadMachineModeRegister csr addr
     else if IsSupervisorModeRegister addr then ReadSupervisorModeRegister csr addr
     else if IsUserModeRegister addr then ReadUserModeRegister csr addr
     else Inr 0)"

definition Csr_ReadUInt32 :: "Csr \<Rightarrow> uint32 \<Rightarrow> uint32 result" where
  "Csr_ReadUInt32 csr addr = rbind (Csr_ReadUInt64 csr addr) (\<lambda>v. Inr (ucast v))"

section \<open>Writes\<close>

definition WriteMachineModeRegister :: "uint32 \<Rightarrow> uint64 \<Rightarrow> Csr \<Rightarrow> Csr result" where
  "WriteMachineModeRegister addr value csr =
    (if csr_pmpaddr_begin \<le> addr \<and> addr < csr_pmpaddr_end then Inr csr
     else if addr = csr_mhartid \<or> addr = csr_misa then Inr csr
     else if addr = csr_mstatus then Inr (Csr_WriteStatus (xstatus_of_uint64 value) csr)
     else if addr = csr_medeleg then Inr (csr\<lparr> m_MachineExceptionDelegation := value \<rparr>)
     else if addr = csr_mideleg then Inr (csr\<lparr> m_MachineInterruptDelegation := value \<rparr>)
     else if addr = csr_mie then Inr (csr\<lparr> m_InterruptEnable := SetWithMask (m_InterruptEnable csr) value (xie_MachineMask) \<rparr>)
     else if addr = csr_mcounteren then Inr (csr\<lparr> m_MachineCounterEnable := value \<rparr>)
     else if addr = csr_mtvec then Inr (csr\<lparr> m_MachineTrapVector := value \<rparr>)
     else if addr = csr_mscratch then Inr (csr\<lparr> m_MachineScratch := value \<rparr>)
     else if addr = csr_mepc then Inr (csr\<lparr> m_MachineExceptionPc := value \<rparr>)
     else if addr = csr_mcause then Inr (csr\<lparr> m_MachineCause := value \<rparr>)
     else if addr = csr_mtval then Inr (csr\<lparr> m_MachineTrapValue := value \<rparr>)
     else if addr = csr_mip then Inr (csr\<lparr> m_InterruptPending := SetWithMask (m_InterruptPending csr) value (xip_MachineMask AND xip_WriteMask) \<rparr>)
     else if addr = csr_pmpcfg0 \<or> addr = csr_pmpcfg1 \<or> addr = csr_pmpcfg2 \<or> addr = csr_pmpcfg3 then Inr csr
     else if addr = csr_mcycle \<and> m_XLEN csr = XLEN32 then Inr (csr\<lparr> m_CycleCounter := SetLow32 (m_CycleCounter csr) (ucast value) \<rparr>)
     else if addr = csr_mcycle \<and> m_XLEN csr = XLEN64 then Inr (csr\<lparr> m_CycleCounter := value \<rparr>)
     else if addr = csr_minstret \<and> m_XLEN csr = XLEN32 then Inr (csr\<lparr> m_InstructionRetiredCounter := SetLow32 (m_InstructionRetiredCounter csr) (ucast value) \<rparr>)
     else if addr = csr_minstret \<and> m_XLEN csr = XLEN64 then Inr (csr\<lparr> m_InstructionRetiredCounter := value \<rparr>)
     else if addr = csr_mcycleh \<and> m_XLEN csr = XLEN32 then Inr (csr\<lparr> m_CycleCounter := SetHigh32 (m_CycleCounter csr) (ucast value) \<rparr>)
     else if addr = csr_minstreth \<and> m_XLEN csr = XLEN32 then Inr (csr\<lparr> m_InstructionRetiredCounter := SetHigh32 (m_InstructionRetiredCounter csr) (ucast value) \<rparr>)
     else Inr csr)"

definition WriteSupervisorModeRegister :: "uint32 \<Rightarrow> uint64 \<Rightarrow> Csr \<Rightarrow> Csr result" where
  "WriteSupervisorModeRegister addr value csr =
    (if addr = csr_sstatus then (case m_XLEN csr of
         XLEN32 \<Rightarrow> Inr (Csr_WriteStatus (xstatus_of_uint64 (value AND xstatus_SupervisorMask_RV32)) csr)
       | XLEN64 \<Rightarrow> Inr (Csr_WriteStatus (xstatus_of_uint64 (value AND xstatus_SupervisorMask_RV64)) csr)
       | XLEN128 \<Rightarrow> Inl EmuException)
     else if addr = csr_sedeleg then Inr (csr\<lparr> m_SupervisorExceptionDelegation := value \<rparr>)
     else if addr = csr_sideleg then Inr (csr\<lparr> m_SupervisorInterruptDelegation := value \<rparr>)
     else if addr = csr_sie then Inr (csr\<lparr> m_InterruptEnable := SetWithMask (m_InterruptEnable csr) value (xie_SupervisorMask) \<rparr>)
     else if addr = csr_stvec then Inr (csr\<lparr> m_SupervisorTrapVector := value \<rparr>)
     else if addr = csr_scounteren then Inr (csr\<lparr> m_SupervisorCounterEnable := value \<rparr>)
     else if addr = csr_sscratch then Inr (csr\<lparr> m_SupervisorScratch := value \<rparr>)
     else if addr = csr_sepc then Inr (csr\<lparr> m_SupervisorExceptionPc := value \<rparr>)
     else if addr = csr_scause then Inr (csr\<lparr> m_SupervisorCause := value \<rparr>)
     else if addr = csr_stval then Inr (csr\<lparr> m_SupervisorTrapValue := value \<rparr>)
     else if addr = csr_sip then Inr (csr\<lparr> m_InterruptPending := SetWithMask (m_InterruptPending csr) value (xip_WriteMask AND xip_SupervisorMask) \<rparr>)
     else if addr = csr_satp then Inr (csr\<lparr> m_SupervisorAddressTranslationProtection := value \<rparr>)
     else Inr csr)"

definition WriteUserModeRegister :: "uint32 \<Rightarrow> uint64 \<Rightarrow> Csr \<Rightarrow> Csr result" where
  "WriteUserModeRegister addr value csr =
    (if addr = csr_ustatus then Inr (Csr_WriteStatus (xstatus_of_uint64 (value AND xstatus_UserMask)) csr)
     else if addr = csr_fflags then Inr (csr\<lparr> m_FpCsr := SetMember fcsr_AE (ucast value) (m_FpCsr csr) \<rparr>)
     else if addr = csr_frm then Inr (csr\<lparr> m_FpCsr := SetMember fcsr_RM (ucast value) (m_FpCsr csr) \<rparr>)
     else if addr = csr_fcsr then Inr (csr\<lparr> m_FpCsr := SetWithMask (m_FpCsr csr) (ucast value) fcsr_UserMask \<rparr>)
     else if addr = csr_uie then Inr (csr\<lparr> m_InterruptEnable := SetWithMask (m_InterruptEnable csr) value (xie_UserMask) \<rparr>)
     else if addr = csr_utvec then Inr (csr\<lparr> m_UserTrapVector := value \<rparr>)
     else if addr = csr_uscratch then Inr (csr\<lparr> m_UserScratch := value \<rparr>)
     else if addr = csr_uepc then Inr (csr\<lparr> m_UserExceptionPc := value \<rparr>)
     else if addr = csr_ucause then Inr (csr\<lparr> m_UserCause := value \<rparr>)
     else if addr = csr_utval then Inr (csr\<lparr> m_UserTrapValue := value \<rparr>)
     else if addr = csr_uip then Inr (csr\<lparr> m_InterruptPending := SetWithMask (m_InterruptPending csr) value (xip_WriteMask AND xip_UserMask) \<rparr>)
     else if addr = csr_cycle \<and> m_XLEN csr = XLEN32 then Inr (csr\<lparr> m_CycleCounter := SetLow32 (m_CycleCounter csr) (ucast value) \<rparr>)
     else if addr = csr_cycle \<and> m_XLEN csr = XLEN64 then Inr (csr\<lparr> m_CycleCounter := value \<rparr>)
     else if addr = csr_time \<and> m_XLEN csr = XLEN32 then Inr (csr\<lparr> m_TimeCounter := SetLow32 (m_TimeCounter csr) (ucast value) \<rparr>)
     else if addr = csr_time \<and> m_XLEN csr = XLEN64 then Inr (csr\<lparr> m_TimeCounter := value \<rparr>)
     else if addr = csr_instret \<and> m_XLEN csr = XLEN32 then Inr (csr\<lparr> m_InstructionRetiredCounter := SetLow32 (m_InstructionRetiredCounter csr) (ucast value) \<rparr>)
     else if addr = csr_instret \<and> m_XLEN csr = XLEN64 then Inr (csr\<lparr> m_InstructionRetiredCounter := value \<rparr>)
     else if addr = csr_cycleh \<and> m_XLEN csr = XLEN32 then Inr (csr\<lparr> m_CycleCounter := SetHigh32 (m_CycleCounter csr) (ucast value) \<rparr>)
     else if addr = csr_timeh \<and> m_XLEN csr = XLEN32 then Inr (csr\<lparr> m_CycleCounter := SetHigh32 (m_CycleCounter csr) (ucast value) \<rparr>)
     else if addr = csr_instreth \<and> m_XLEN csr = XLEN32 then Inr (csr\<lparr> m_InstructionRetiredCounter := SetHigh32 (m_InstructionRetiredCounter csr) (ucast value) \<rparr>)
     else Inr csr)"

definition Csr_WriteUInt64 :: "uint32 \<Rightarrow> uint64 \<Rightarrow> Csr \<Rightarrow> Csr result" where
  "Csr_WriteUInt64 addr value csr =
    (if IsMachineModeRegister addr then WriteMachineModeRegister addr value csr
     else if IsSupervisorModeRegister addr then WriteSupervisorModeRegister addr value csr
     else if IsUserModeRegister addr then WriteUserModeRegister addr value csr
     else Inr csr)"

definition Csr_WriteUInt32 :: "uint32 \<Rightarrow> uint32 \<Rightarrow> Csr \<Rightarrow> Csr result" where
  "Csr_WriteUInt32 addr value csr = Csr_WriteUInt64 addr (ucast value) csr"

lemmas csr_read_defs = Csr_ReadUInt64_def ReadMachineModeRegister_def ReadSupervisorModeRegister_def
  ReadUserModeRegister_def Csr_ReadUInt32_def

lemmas csr_write_defs = Csr_WriteUInt64_def WriteMachineModeRegister_def
  WriteSupervisorModeRegister_def WriteUserModeRegister_def Csr_WriteUInt32_def

section \<open>Totality and frame\<close>

text \<open>
  The two register widths the constructor accepts; on these every access of a register succeeds.
\<close>

definition csr_xlen_ok :: "Csr \<Rightarrow> bool" where
  "csr_xlen_ok csr \<longleftrightarrow> m_XLEN csr = XLEN32 \<or> m_XLEN csr = XLEN64"

definition csr_status_wf :: "Csr \<Rightarrow> bool" where
  "csr_status_wf csr \<longleftrightarrow> m_Status csr AND NOT xstatus_WriteMask = 0"

definition csr_inv :: "Csr \<Rightarrow> bool" where
  "csr_inv csr \<longleftrightarrow> csr_xlen_ok csr \<and> csr_status_wf csr"

lemma csr_inv_new: "Csr_new xlen pc = Inr csr \<Longrightarrow> csr_inv csr"
  by (cases xlen) (auto simp: Csr_new_def Csr_zero_def csr_inv_def csr_xlen_ok_def csr_status_wf_def)

lemma ReadStatus_total: "csr_xlen_ok csr \<Longrightarrow> \<exists>v. Csr_ReadStatus csr = Inr v"
  by (auto simp: csr_xlen_ok_def Csr_ReadStatus_def Let_def)

lemma ReadStatus_not_Inl: "csr_xlen_ok csr \<Longrightarrow> Csr_ReadStatus csr \<noteq> Inl e"
  using ReadStatus_total [of csr] by auto

lemma ReadModeRegister_not_Inl:
  assumes "csr_xlen_ok csr"
  shows "ReadMachineModeRegister csr addr \<noteq> Inl e" "ReadSupervisorModeRegister csr addr \<noteq> Inl e"
    "ReadUserModeRegister csr addr \<noteq> Inl e"
  using assms ReadStatus_not_Inl [OF assms]
  by (auto simp: ReadMachineModeRegister_def ReadSupervisorModeRegister_def ReadUserModeRegister_def
      ReadSupervisorStatus_def
      csr_xlen_ok_def rbind_Inl_iff split: if_splits)

lemma WriteModeRegister_not_Inl:
  assumes "csr_xlen_ok csr"
  shows "WriteMachineModeRegister addr v csr \<noteq> Inl e" "WriteSupervisorModeRegister addr v csr \<noteq> Inl e"
    "WriteUserModeRegister addr v csr \<noteq> Inl e"
  using assms
  by (auto simp: WriteMachineModeRegister_def WriteSupervisorModeRegister_def
      WriteUserModeRegister_def csr_xlen_ok_def split: if_splits)

lemma ReadUInt64_total: "csr_xlen_ok csr \<Longrightarrow> \<exists>v. Csr_ReadUInt64 csr addr = Inr v"
  using ReadModeRegister_not_Inl [of csr addr]
  by (cases "Csr_ReadUInt64 csr addr") (auto simp: Csr_ReadUInt64_def split: if_splits)

lemma WriteUInt64_total: "csr_xlen_ok csr \<Longrightarrow> \<exists>csr'. Csr_WriteUInt64 addr v csr = Inr csr'"
  using WriteModeRegister_not_Inl [of csr addr v]
  by (cases "Csr_WriteUInt64 addr v csr") (auto simp: Csr_WriteUInt64_def split: if_splits)

lemma SetWithMask_outside:
  "SetWithMask v x m AND NOT m = v AND NOT (m :: 'a::len word)"
  by (rule bit_eqI) (auto simp: field_simps_bits bit_simps)

lemma WriteStatus_wf: "csr_status_wf csr \<Longrightarrow> csr_status_wf (Csr_WriteStatus v csr)"
  by (simp add: csr_status_wf_def Csr_WriteStatus_def SetWithMask_outside)

lemma WriteMachineModeRegister_frame:
  assumes "WriteMachineModeRegister addr v csr = Inr csr'"
  shows "m_Pc csr' = m_Pc csr" "m_Priv csr' = m_Priv csr" "m_XLEN csr' = m_XLEN csr"
    "m_ISA csr' = m_ISA csr" "csr_status_wf csr \<Longrightarrow> csr_status_wf csr'"
  using assms
  by (auto simp: WriteMachineModeRegister_def Csr_WriteStatus_def csr_status_wf_def
      SetWithMask_outside split: if_splits)

lemma WriteSupervisorModeRegister_frame:
  assumes "WriteSupervisorModeRegister addr v csr = Inr csr'"
  shows "m_Pc csr' = m_Pc csr" "m_Priv csr' = m_Priv csr" "m_XLEN csr' = m_XLEN csr"
    "m_ISA csr' = m_ISA csr" "csr_status_wf csr \<Longrightarrow> csr_status_wf csr'"
  using assms
  by (auto simp: WriteSupervisorModeRegister_def Csr_WriteStatus_def csr_status_wf_def
      SetWithMask_outside split: if_splits XLEN.splits)

lemma WriteUserModeRegister_frame:
  assumes "WriteUserModeRegister addr v csr = Inr csr'"
  shows "m_Pc csr' = m_Pc csr" "m_Priv csr' = m_Priv csr" "m_XLEN csr' = m_XLEN csr"
    "m_ISA csr' = m_ISA csr" "csr_status_wf csr \<Longrightarrow> csr_status_wf csr'"
  using assms
  by (auto simp: WriteUserModeRegister_def Csr_WriteStatus_def csr_status_wf_def
      SetWithMask_outside split: if_splits)

lemmas WriteModeRegister_frame = WriteMachineModeRegister_frame WriteSupervisorModeRegister_frame
  WriteUserModeRegister_frame

lemma WriteUInt64_frame:
  assumes "Csr_WriteUInt64 addr v csr = Inr csr'"
  shows "m_Pc csr' = m_Pc csr" "m_Priv csr' = m_Priv csr" "m_XLEN csr' = m_XLEN csr"
    "m_ISA csr' = m_ISA csr" "csr_status_wf csr \<Longrightarrow> csr_status_wf csr'"
  using assms WriteModeRegister_frame
  by (auto simp: Csr_WriteUInt64_def split: if_splits)

lemma csr_inv_WriteUInt64: "Csr_WriteUInt64 addr v csr = Inr csr' \<Longrightarrow> csr_inv csr \<Longrightarrow> csr_inv csr'"
  using WriteUInt64_frame [of addr v csr csr'] by (simp add: csr_inv_def csr_xlen_ok_def)

end
