(* ===== verification/CsrLaws.thy ===== *)
theory CsrLaws
  imports Csr
begin

text \<open>
  What a client of the CSRs may rely on: the storage registers as an interface
  (\<open>register_bank\<close>), the status and interrupt registers as views of one value, and the access check.
\<close>

section \<open>Storage registers\<close>

definition storage_csrs :: "uint32 list" where
  "storage_csrs = [csr_medeleg, csr_mideleg, csr_mcounteren, csr_mtvec, csr_mscratch, csr_mepc,
     csr_mcause, csr_mtval, csr_sedeleg, csr_sideleg, csr_stvec, csr_scounteren,
     csr_sscratch, csr_sepc, csr_scause, csr_stval, csr_satp, csr_utvec,
     csr_uscratch, csr_uepc, csr_ucause, csr_utval]"

lemma write_storage:
  "Csr_WriteUInt64 csr_medeleg v csr = Inr (csr\<lparr> m_MachineExceptionDelegation := v \<rparr>)"
  "Csr_WriteUInt64 csr_mideleg v csr = Inr (csr\<lparr> m_MachineInterruptDelegation := v \<rparr>)"
  "Csr_WriteUInt64 csr_mcounteren v csr = Inr (csr\<lparr> m_MachineCounterEnable := v \<rparr>)"
  "Csr_WriteUInt64 csr_mtvec v csr = Inr (csr\<lparr> m_MachineTrapVector := v \<rparr>)"
  "Csr_WriteUInt64 csr_mscratch v csr = Inr (csr\<lparr> m_MachineScratch := v \<rparr>)"
  "Csr_WriteUInt64 csr_mepc v csr = Inr (csr\<lparr> m_MachineExceptionPc := v \<rparr>)"
  "Csr_WriteUInt64 csr_mcause v csr = Inr (csr\<lparr> m_MachineCause := v \<rparr>)"
  "Csr_WriteUInt64 csr_mtval v csr = Inr (csr\<lparr> m_MachineTrapValue := v \<rparr>)"
  "Csr_WriteUInt64 csr_sedeleg v csr = Inr (csr\<lparr> m_SupervisorExceptionDelegation := v \<rparr>)"
  "Csr_WriteUInt64 csr_sideleg v csr = Inr (csr\<lparr> m_SupervisorInterruptDelegation := v \<rparr>)"
  "Csr_WriteUInt64 csr_stvec v csr = Inr (csr\<lparr> m_SupervisorTrapVector := v \<rparr>)"
  "Csr_WriteUInt64 csr_scounteren v csr = Inr (csr\<lparr> m_SupervisorCounterEnable := v \<rparr>)"
  "Csr_WriteUInt64 csr_sscratch v csr = Inr (csr\<lparr> m_SupervisorScratch := v \<rparr>)"
  "Csr_WriteUInt64 csr_sepc v csr = Inr (csr\<lparr> m_SupervisorExceptionPc := v \<rparr>)"
  "Csr_WriteUInt64 csr_scause v csr = Inr (csr\<lparr> m_SupervisorCause := v \<rparr>)"
  "Csr_WriteUInt64 csr_stval v csr = Inr (csr\<lparr> m_SupervisorTrapValue := v \<rparr>)"
  "Csr_WriteUInt64 csr_satp v csr = Inr (csr\<lparr> m_SupervisorAddressTranslationProtection := v \<rparr>)"
  "Csr_WriteUInt64 csr_utvec v csr = Inr (csr\<lparr> m_UserTrapVector := v \<rparr>)"
  "Csr_WriteUInt64 csr_uscratch v csr = Inr (csr\<lparr> m_UserScratch := v \<rparr>)"
  "Csr_WriteUInt64 csr_uepc v csr = Inr (csr\<lparr> m_UserExceptionPc := v \<rparr>)"
  "Csr_WriteUInt64 csr_ucause v csr = Inr (csr\<lparr> m_UserCause := v \<rparr>)"
  "Csr_WriteUInt64 csr_utval v csr = Inr (csr\<lparr> m_UserTrapValue := v \<rparr>)"
  by (simp_all add: csr_write_defs register_mode_defs)

lemma read_storage:
  "Csr_ReadUInt64 csr csr_medeleg = Inr (m_MachineExceptionDelegation csr)"
  "Csr_ReadUInt64 csr csr_mideleg = Inr (m_MachineInterruptDelegation csr)"
  "Csr_ReadUInt64 csr csr_mcounteren = Inr (m_MachineCounterEnable csr)"
  "Csr_ReadUInt64 csr csr_mtvec = Inr (m_MachineTrapVector csr)"
  "Csr_ReadUInt64 csr csr_mscratch = Inr (m_MachineScratch csr)"
  "Csr_ReadUInt64 csr csr_mepc = Inr (m_MachineExceptionPc csr)"
  "Csr_ReadUInt64 csr csr_mcause = Inr (m_MachineCause csr)"
  "Csr_ReadUInt64 csr csr_mtval = Inr (m_MachineTrapValue csr)"
  "Csr_ReadUInt64 csr csr_sedeleg = Inr (m_SupervisorExceptionDelegation csr)"
  "Csr_ReadUInt64 csr csr_sideleg = Inr (m_SupervisorInterruptDelegation csr)"
  "Csr_ReadUInt64 csr csr_stvec = Inr (m_SupervisorTrapVector csr)"
  "Csr_ReadUInt64 csr csr_scounteren = Inr (m_SupervisorCounterEnable csr)"
  "Csr_ReadUInt64 csr csr_sscratch = Inr (m_SupervisorScratch csr)"
  "Csr_ReadUInt64 csr csr_sepc = Inr (m_SupervisorExceptionPc csr)"
  "Csr_ReadUInt64 csr csr_scause = Inr (m_SupervisorCause csr)"
  "Csr_ReadUInt64 csr csr_stval = Inr (m_SupervisorTrapValue csr)"
  "Csr_ReadUInt64 csr csr_satp = Inr (m_SupervisorAddressTranslationProtection csr)"
  "Csr_ReadUInt64 csr csr_utvec = Inr (m_UserTrapVector csr)"
  "Csr_ReadUInt64 csr csr_uscratch = Inr (m_UserScratch csr)"
  "Csr_ReadUInt64 csr csr_uepc = Inr (m_UserExceptionPc csr)"
  "Csr_ReadUInt64 csr csr_ucause = Inr (m_UserCause csr)"
  "Csr_ReadUInt64 csr csr_utval = Inr (m_UserTrapValue csr)"
  by (simp_all add: csr_read_defs register_mode_defs)

lemma read_status_storage:
  "Csr_ReadStatus (csr\<lparr> m_MachineExceptionDelegation := v \<rparr>) = Csr_ReadStatus csr"
  "Csr_ReadStatus (csr\<lparr> m_MachineInterruptDelegation := v \<rparr>) = Csr_ReadStatus csr"
  "Csr_ReadStatus (csr\<lparr> m_MachineCounterEnable := v \<rparr>) = Csr_ReadStatus csr"
  "Csr_ReadStatus (csr\<lparr> m_MachineTrapVector := v \<rparr>) = Csr_ReadStatus csr"
  "Csr_ReadStatus (csr\<lparr> m_MachineScratch := v \<rparr>) = Csr_ReadStatus csr"
  "Csr_ReadStatus (csr\<lparr> m_MachineExceptionPc := v \<rparr>) = Csr_ReadStatus csr"
  "Csr_ReadStatus (csr\<lparr> m_MachineCause := v \<rparr>) = Csr_ReadStatus csr"
  "Csr_ReadStatus (csr\<lparr> m_MachineTrapValue := v \<rparr>) = Csr_ReadStatus csr"
  "Csr_ReadStatus (csr\<lparr> m_SupervisorExceptionDelegation := v \<rparr>) = Csr_ReadStatus csr"
  "Csr_ReadStatus (csr\<lparr> m_SupervisorInterruptDelegation := v \<rparr>) = Csr_ReadStatus csr"
  "Csr_ReadStatus (csr\<lparr> m_SupervisorTrapVector := v \<rparr>) = Csr_ReadStatus csr"
  "Csr_ReadStatus (csr\<lparr> m_SupervisorCounterEnable := v \<rparr>) = Csr_ReadStatus csr"
  "Csr_ReadStatus (csr\<lparr> m_SupervisorScratch := v \<rparr>) = Csr_ReadStatus csr"
  "Csr_ReadStatus (csr\<lparr> m_SupervisorExceptionPc := v \<rparr>) = Csr_ReadStatus csr"
  "Csr_ReadStatus (csr\<lparr> m_SupervisorCause := v \<rparr>) = Csr_ReadStatus csr"
  "Csr_ReadStatus (csr\<lparr> m_SupervisorTrapValue := v \<rparr>) = Csr_ReadStatus csr"
  "Csr_ReadStatus (csr\<lparr> m_SupervisorAddressTranslationProtection := v \<rparr>) = Csr_ReadStatus csr"
  "Csr_ReadStatus (csr\<lparr> m_UserTrapVector := v \<rparr>) = Csr_ReadStatus csr"
  "Csr_ReadStatus (csr\<lparr> m_UserScratch := v \<rparr>) = Csr_ReadStatus csr"
  "Csr_ReadStatus (csr\<lparr> m_UserExceptionPc := v \<rparr>) = Csr_ReadStatus csr"
  "Csr_ReadStatus (csr\<lparr> m_UserCause := v \<rparr>) = Csr_ReadStatus csr"
  "Csr_ReadStatus (csr\<lparr> m_UserTrapValue := v \<rparr>) = Csr_ReadStatus csr"
  by (simp_all add: Csr_ReadStatus_def Let_def)

lemma read_supervisor_status_storage:
  "ReadSupervisorStatus (csr\<lparr> m_MachineExceptionDelegation := v \<rparr>) = ReadSupervisorStatus csr"
  "ReadSupervisorStatus (csr\<lparr> m_MachineInterruptDelegation := v \<rparr>) = ReadSupervisorStatus csr"
  "ReadSupervisorStatus (csr\<lparr> m_MachineCounterEnable := v \<rparr>) = ReadSupervisorStatus csr"
  "ReadSupervisorStatus (csr\<lparr> m_MachineTrapVector := v \<rparr>) = ReadSupervisorStatus csr"
  "ReadSupervisorStatus (csr\<lparr> m_MachineScratch := v \<rparr>) = ReadSupervisorStatus csr"
  "ReadSupervisorStatus (csr\<lparr> m_MachineExceptionPc := v \<rparr>) = ReadSupervisorStatus csr"
  "ReadSupervisorStatus (csr\<lparr> m_MachineCause := v \<rparr>) = ReadSupervisorStatus csr"
  "ReadSupervisorStatus (csr\<lparr> m_MachineTrapValue := v \<rparr>) = ReadSupervisorStatus csr"
  "ReadSupervisorStatus (csr\<lparr> m_SupervisorExceptionDelegation := v \<rparr>) = ReadSupervisorStatus csr"
  "ReadSupervisorStatus (csr\<lparr> m_SupervisorInterruptDelegation := v \<rparr>) = ReadSupervisorStatus csr"
  "ReadSupervisorStatus (csr\<lparr> m_SupervisorTrapVector := v \<rparr>) = ReadSupervisorStatus csr"
  "ReadSupervisorStatus (csr\<lparr> m_SupervisorCounterEnable := v \<rparr>) = ReadSupervisorStatus csr"
  "ReadSupervisorStatus (csr\<lparr> m_SupervisorScratch := v \<rparr>) = ReadSupervisorStatus csr"
  "ReadSupervisorStatus (csr\<lparr> m_SupervisorExceptionPc := v \<rparr>) = ReadSupervisorStatus csr"
  "ReadSupervisorStatus (csr\<lparr> m_SupervisorCause := v \<rparr>) = ReadSupervisorStatus csr"
  "ReadSupervisorStatus (csr\<lparr> m_SupervisorTrapValue := v \<rparr>) = ReadSupervisorStatus csr"
  "ReadSupervisorStatus (csr\<lparr> m_SupervisorAddressTranslationProtection := v \<rparr>) = ReadSupervisorStatus csr"
  "ReadSupervisorStatus (csr\<lparr> m_UserTrapVector := v \<rparr>) = ReadSupervisorStatus csr"
  "ReadSupervisorStatus (csr\<lparr> m_UserScratch := v \<rparr>) = ReadSupervisorStatus csr"
  "ReadSupervisorStatus (csr\<lparr> m_UserExceptionPc := v \<rparr>) = ReadSupervisorStatus csr"
  "ReadSupervisorStatus (csr\<lparr> m_UserCause := v \<rparr>) = ReadSupervisorStatus csr"
  "ReadSupervisorStatus (csr\<lparr> m_UserTrapValue := v \<rparr>) = ReadSupervisorStatus csr"
  by (simp_all add: ReadSupervisorStatus_def read_status_storage cong: XLEN.case_cong)

lemma read_storage_other:
  "a \<noteq> csr_medeleg \<Longrightarrow> Csr_ReadUInt64 (csr\<lparr> m_MachineExceptionDelegation := v \<rparr>) a = Csr_ReadUInt64 csr a"
  "a \<noteq> csr_mideleg \<Longrightarrow> Csr_ReadUInt64 (csr\<lparr> m_MachineInterruptDelegation := v \<rparr>) a = Csr_ReadUInt64 csr a"
  "a \<noteq> csr_mcounteren \<Longrightarrow> Csr_ReadUInt64 (csr\<lparr> m_MachineCounterEnable := v \<rparr>) a = Csr_ReadUInt64 csr a"
  "a \<noteq> csr_mtvec \<Longrightarrow> Csr_ReadUInt64 (csr\<lparr> m_MachineTrapVector := v \<rparr>) a = Csr_ReadUInt64 csr a"
  "a \<noteq> csr_mscratch \<Longrightarrow> Csr_ReadUInt64 (csr\<lparr> m_MachineScratch := v \<rparr>) a = Csr_ReadUInt64 csr a"
  "a \<noteq> csr_mepc \<Longrightarrow> Csr_ReadUInt64 (csr\<lparr> m_MachineExceptionPc := v \<rparr>) a = Csr_ReadUInt64 csr a"
  "a \<noteq> csr_mcause \<Longrightarrow> Csr_ReadUInt64 (csr\<lparr> m_MachineCause := v \<rparr>) a = Csr_ReadUInt64 csr a"
  "a \<noteq> csr_mtval \<Longrightarrow> Csr_ReadUInt64 (csr\<lparr> m_MachineTrapValue := v \<rparr>) a = Csr_ReadUInt64 csr a"
  "a \<noteq> csr_sedeleg \<Longrightarrow> Csr_ReadUInt64 (csr\<lparr> m_SupervisorExceptionDelegation := v \<rparr>) a = Csr_ReadUInt64 csr a"
  "a \<noteq> csr_sideleg \<Longrightarrow> Csr_ReadUInt64 (csr\<lparr> m_SupervisorInterruptDelegation := v \<rparr>) a = Csr_ReadUInt64 csr a"
  "a \<noteq> csr_stvec \<Longrightarrow> Csr_ReadUInt64 (csr\<lparr> m_SupervisorTrapVector := v \<rparr>) a = Csr_ReadUInt64 csr a"
  "a \<noteq> csr_scounteren \<Longrightarrow> Csr_ReadUInt64 (csr\<lparr> m_SupervisorCounterEnable := v \<rparr>) a = Csr_ReadUInt64 csr a"
  "a \<noteq> csr_sscratch \<Longrightarrow> Csr_ReadUInt64 (csr\<lparr> m_SupervisorScratch := v \<rparr>) a = Csr_ReadUInt64 csr a"
  "a \<noteq> csr_sepc \<Longrightarrow> Csr_ReadUInt64 (csr\<lparr> m_SupervisorExceptionPc := v \<rparr>) a = Csr_ReadUInt64 csr a"
  "a \<noteq> csr_scause \<Longrightarrow> Csr_ReadUInt64 (csr\<lparr> m_SupervisorCause := v \<rparr>) a = Csr_ReadUInt64 csr a"
  "a \<noteq> csr_stval \<Longrightarrow> Csr_ReadUInt64 (csr\<lparr> m_SupervisorTrapValue := v \<rparr>) a = Csr_ReadUInt64 csr a"
  "a \<noteq> csr_satp \<Longrightarrow> Csr_ReadUInt64 (csr\<lparr> m_SupervisorAddressTranslationProtection := v \<rparr>) a = Csr_ReadUInt64 csr a"
  "a \<noteq> csr_utvec \<Longrightarrow> Csr_ReadUInt64 (csr\<lparr> m_UserTrapVector := v \<rparr>) a = Csr_ReadUInt64 csr a"
  "a \<noteq> csr_uscratch \<Longrightarrow> Csr_ReadUInt64 (csr\<lparr> m_UserScratch := v \<rparr>) a = Csr_ReadUInt64 csr a"
  "a \<noteq> csr_uepc \<Longrightarrow> Csr_ReadUInt64 (csr\<lparr> m_UserExceptionPc := v \<rparr>) a = Csr_ReadUInt64 csr a"
  "a \<noteq> csr_ucause \<Longrightarrow> Csr_ReadUInt64 (csr\<lparr> m_UserCause := v \<rparr>) a = Csr_ReadUInt64 csr a"
  "a \<noteq> csr_utval \<Longrightarrow> Csr_ReadUInt64 (csr\<lparr> m_UserTrapValue := v \<rparr>) a = Csr_ReadUInt64 csr a"
  by (simp_all add: csr_read_defs read_status_storage read_supervisor_status_storage cong: if_cong)

locale register_bank =
  fixes rd :: "'s \<Rightarrow> 'a \<Rightarrow> 'v result"
    and wr :: "'a \<Rightarrow> 'v \<Rightarrow> 's \<Rightarrow> 's result"
    and storage :: "'a list"
  assumes wr_ok: "a \<in> set storage \<Longrightarrow> \<exists>s'. wr a v s = Inr s'"
    and rd_wr_same: "a \<in> set storage \<Longrightarrow> wr a v s = Inr s' \<Longrightarrow> rd s' a = Inr v"
    and rd_wr_other: "a \<in> set storage \<Longrightarrow> wr a v s = Inr s' \<Longrightarrow> b \<noteq> a \<Longrightarrow> rd s' b = rd s b"
begin

lemma rd_wr:
  assumes "a \<in> set storage" "wr a v s = Inr s'"
  shows "rd s' b = (if b = a then Inr v else rd s b)"
  using assms rd_wr_same rd_wr_other by auto

text \<open>Exchanging a register with a value (csrrw) and exchanging it back restores every read.\<close>

lemma swap_back:
  assumes "a \<in> set storage" "rd s a = Inr old" "wr a v s = Inr s1" "wr a old s1 = Inr s2"
  shows "rd s2 b = rd s b"
  using assms rd_wr [of a v s s1] rd_wr [of a old s1 s2] by auto

end

lemma csr_bank_wr:
  assumes "a \<in> set storage_csrs"
  shows "\<exists>csr'. Csr_WriteUInt64 a v csr = Inr csr' \<and> Csr_ReadUInt64 csr' a = Inr v \<and>
    (\<forall>b. b \<noteq> a \<longrightarrow> Csr_ReadUInt64 csr' b = Csr_ReadUInt64 csr b)"
  using assms unfolding storage_csrs_def set_simps insert_iff empty_iff
  by (elim disjE) (simp_all add: write_storage read_storage_other read_storage)

interpretation bank: register_bank Csr_ReadUInt64 Csr_WriteUInt64 storage_csrs
  by unfold_locales (metis csr_bank_wr sum.inject(2))+

section \<open>Status and interrupt registers as views\<close>

text \<open>
  A masked write replaces the bits of the mask and keeps the others: writing through the view of
  one level and reading through another agrees with writing and reading the whole register.
\<close>

lemma GetWithMask_SetWithMask:
  "GetWithMask (SetWithMask v x m) m' = (GetWithMask x (m AND m')) OR GetWithMask v (m' AND NOT m)"
  by (rule bit_eqI) (auto simp: field_simps_bits bit_simps)

lemma write_interrupt_enable:
  "Csr_WriteUInt64 csr_mie v csr =
     Inr (csr\<lparr> m_InterruptEnable := SetWithMask (m_InterruptEnable csr) v xie_MachineMask \<rparr>)"
  "Csr_WriteUInt64 csr_sie v csr =
     Inr (csr\<lparr> m_InterruptEnable := SetWithMask (m_InterruptEnable csr) v xie_SupervisorMask \<rparr>)"
  "Csr_WriteUInt64 csr_uie v csr =
     Inr (csr\<lparr> m_InterruptEnable := SetWithMask (m_InterruptEnable csr) v xie_UserMask \<rparr>)"
  by (simp_all add: csr_write_defs register_mode_defs)

lemma read_interrupt_enable:
  "Csr_ReadUInt64 csr csr_mie = Inr (GetWithMask (m_InterruptEnable csr) xie_MachineMask)"
  "Csr_ReadUInt64 csr csr_sie = Inr (GetWithMask (m_InterruptEnable csr) xie_SupervisorMask)"
  "Csr_ReadUInt64 csr csr_uie = Inr (GetWithMask (m_InterruptEnable csr) xie_UserMask)"
  by (simp_all add: csr_read_defs register_mode_defs)

lemma write_interrupt_pending:
  "Csr_WriteUInt64 csr_mip v csr = Inr (csr\<lparr> m_InterruptPending :=
     SetWithMask (m_InterruptPending csr) v (xip_MachineMask AND xip_WriteMask) \<rparr>)"
  "Csr_WriteUInt64 csr_sip v csr = Inr (csr\<lparr> m_InterruptPending :=
     SetWithMask (m_InterruptPending csr) v (xip_WriteMask AND xip_SupervisorMask) \<rparr>)"
  "Csr_WriteUInt64 csr_uip v csr = Inr (csr\<lparr> m_InterruptPending :=
     SetWithMask (m_InterruptPending csr) v (xip_WriteMask AND xip_UserMask) \<rparr>)"
  by (simp_all add: csr_write_defs register_mode_defs)

lemma read_interrupt_pending:
  "Csr_ReadUInt64 csr csr_mip = Inr (GetWithMask (m_InterruptPending csr) xip_MachineMask)"
  "Csr_ReadUInt64 csr csr_sip = Inr (GetWithMask (m_InterruptPending csr) xip_SupervisorMask)"
  "Csr_ReadUInt64 csr csr_uip = Inr (GetWithMask (m_InterruptPending csr) xip_UserMask)"
  by (simp_all add: csr_read_defs register_mode_defs)

text \<open>Bits of the masks, read off once so that statements about single fields are decided by \<open>simp\<close>.\<close>

lemma bit_xie_masks [field_simps_bits]:
  "bit xie_UserMask k \<longleftrightarrow> k \<in> {0, 4, 8}"
  "bit xie_SupervisorMask k \<longleftrightarrow> k \<in> {0, 1, 4, 5, 8, 9}"
  "bit xie_MachineMask k \<longleftrightarrow> k \<in> {0, 1, 3, 4, 5, 7, 8, 9, 11}"
  by (simp_all add: csr_mask_defs bit_or_iff bit_Mask_single bit_Mask_pair) blast+

lemma bit_xip_masks [field_simps_bits]:
  "bit xip_UserMask k \<longleftrightarrow> k \<in> {0, 4, 8}"
  "bit xip_SupervisorMask k \<longleftrightarrow> k \<in> {0, 1, 4, 5, 8, 9}"
  "bit xip_MachineMask k \<longleftrightarrow> k \<in> {0, 1, 3, 4, 5, 7, 8, 9, 11}"
  "bit xip_WriteMask k \<longleftrightarrow> k \<in> {0, 1, 3, 8, 9, 11}"
  by (simp_all add: csr_mask_defs bit_or_iff bit_Mask_single bit_Mask_pair) blast+

lemma bit_xstatus_WriteMask [field_simps_bits]:
  "bit xstatus_WriteMask k \<longleftrightarrow>
     k \<in> {0, 1, 3, 4, 5, 7, 8, 11, 12, 13, 14, 15, 16, 17, 18, 19, 20, 21, 22}"
  by (simp_all add: csr_mask_defs bit_or_iff bit_Mask_single bit_Mask_pair) blast+

lemma bit_xstatus_SupervisorMask [field_simps_bits]:
  "bit xstatus_SupervisorMask_RV32 k \<longleftrightarrow> k \<in> {0, 1, 4, 5, 8, 13, 14, 15, 16, 18, 19, 31}"
  "bit xstatus_SupervisorMask_RV64 k \<longleftrightarrow>
     k \<in> {0, 1, 4, 5, 8, 13, 14, 15, 16, 18, 19, 32, 33, 34, 35, 63}"
  "bit xstatus_UserMask k \<longleftrightarrow> k \<in> {0, 4}"
  by (simp_all add: csr_mask_defs bit_or_iff bit_Mask_single bit_Mask_pair) blast+

lemma ReadStatus_bit:
  assumes "Csr_ReadStatus csr = Inr st" "k \<noteq> 31" "k \<noteq> 63"
  shows "bit st k \<longleftrightarrow> bit (m_Status csr) k"
  using assms by (auto simp: Csr_ReadStatus_def Let_def field_simps_bits split: if_splits XLEN.splits)

lemma WriteStatus_bit:
  "bit (m_Status (Csr_WriteStatus v csr)) k \<longleftrightarrow>
     (if bit xstatus_WriteMask k then bit v k else bit (m_Status csr) k)"
  by (simp add: Csr_WriteStatus_def field_simps_bits)

lemma write_status_registers:
  "Csr_WriteUInt64 csr_mstatus v csr = Inr (Csr_WriteStatus (xstatus_of_uint64 v) csr)"
  "m_XLEN csr = XLEN32 \<Longrightarrow> Csr_WriteUInt64 csr_sstatus v csr =
     Inr (Csr_WriteStatus (xstatus_of_uint64 (v AND xstatus_SupervisorMask_RV32)) csr)"
  "m_XLEN csr = XLEN64 \<Longrightarrow> Csr_WriteUInt64 csr_sstatus v csr =
     Inr (Csr_WriteStatus (xstatus_of_uint64 (v AND xstatus_SupervisorMask_RV64)) csr)"
  "Csr_WriteUInt64 csr_ustatus v csr =
     Inr (Csr_WriteStatus (xstatus_of_uint64 (v AND xstatus_UserMask)) csr)"
  by (simp_all add: csr_write_defs register_mode_defs)

section \<open>Access check\<close>

lemma register_mode_unique:
  "IsUserModeRegister a \<or> IsSupervisorModeRegister a \<or> IsReservedModeRegister a \<or> IsMachineModeRegister a"
proof -
  have "uint (drop_bit 8 a AND 3) = uint (drop_bit 8 a) AND 3" by (simp add: uint_and)
  also have "\<dots> = take_bit 2 (uint (drop_bit 8 a))" by (simp add: take_bit_eq_mask mask_eq_exp_minus_1)
  finally have "uint (drop_bit 8 a AND 3) < 4"
    using take_bit_int_less_exp [of 2 "uint (drop_bit 8 a)"] by simp
  then have "uint (drop_bit 8 a AND 3) = 0 \<or> uint (drop_bit 8 a AND 3) = 1 \<or>
      uint (drop_bit 8 a AND 3) = 2 \<or> uint (drop_bit 8 a AND 3) = 3"
    using uint_ge_0 [of "drop_bit 8 a AND 3"] by linarith
  then show ?thesis unfolding register_mode_defs word_uint_eq_iff by simp
qed

lemma counter_mask_bit:
  assumes "n < 32"
  shows "bit (scast (push_bit n 1 :: uint32) :: uint64) k \<longleftrightarrow> k = n \<or> n = 31 \<and> 31 \<le> k \<and> k < 64"
  using assms by (auto simp: bit_scast_cases bit_push_bit_iff bit_1_iff simp del: push_bit_of_1)

text \<open>The test of the source: \<open>1 << 31\<close> is negative, so counter 31 has 33 bits to choose from.\<close>

definition counter_granted :: "uint64 \<Rightarrow> nat \<Rightarrow> bool" where
  "counter_granted en n \<longleftrightarrow> (if n = 31 then drop_bit 31 en \<noteq> 0 else bit en n)"

lemma drop_bit_eq_0_iff: "drop_bit n (w :: 'a::len word) = 0 \<longleftrightarrow> (\<forall>k. n \<le> k \<longrightarrow> \<not> bit w k)"
proof
  assume 0: "drop_bit n w = 0"
  show "\<forall>k. n \<le> k \<longrightarrow> \<not> bit w k"
  proof (intro allI impI)
    fix k assume "n \<le> k"
    then have "bit w k = bit (drop_bit n w) (k - n)" by (simp add: bit_drop_bit_eq)
    then show "\<not> bit w k" by (simp add: 0)
  qed
next
  assume "\<forall>k. n \<le> k \<longrightarrow> \<not> bit w k"
  then show "drop_bit n w = 0" by (intro bit_eqI) (simp add: bit_drop_bit_eq)
qed

lemma and_eq_0_iff: "v AND w = (0 :: 'a::len word) \<longleftrightarrow> (\<forall>k. \<not> (bit v k \<and> bit w k))"
  by (metis (no_types, lifting) bit_and_iff bit_eqI bit_0_eq bot_apply bot_bool_def)

lemma and_counter_mask:
  assumes "n < 32"
  shows "en AND (scast (push_bit n 1 :: uint32) :: uint64) = 0 \<longleftrightarrow> \<not> counter_granted en n"
proof -
  define m where "m = (scast (push_bit n 1 :: uint32) :: uint64)"
  have m: "bit m k \<longleftrightarrow> k = n \<or> n = 31 \<and> 31 \<le> k \<and> k < 64" for k
    unfolding m_def by (rule counter_mask_bit [OF assms])
  have en: "bit en k \<Longrightarrow> k < 64" for k using bit_imp_le_length [of en k] by simp
  have "en AND m = 0 \<longleftrightarrow> \<not> counter_granted en n"
    unfolding and_eq_0_iff counter_granted_def drop_bit_eq_0_iff m
    by (cases "n = 31") (use en in \<open>auto, blast?\<close>)
  then show ?thesis by (simp add: m_def)
qed

text \<open>
  The rule the check implements: \<open>csr_level\<close> is the level the address asks for. The user-mode
  counters are the two blocks of 32 at 0xc00 and 0xc80.
\<close>

definition csr_level :: "uint32 \<Rightarrow> uint32" where
  "csr_level addr = drop_bit 8 addr AND 3"

definition is_user_counter :: "uint32 \<Rightarrow> bool" where
  "is_user_counter addr \<longleftrightarrow> (csr_hpmcounter_begin \<le> addr \<and> addr < csr_hpmcounter_end)
     \<or> (csr_hpmcounterh_begin \<le> addr \<and> addr < csr_hpmcounterh_end)"

definition counter_number :: "uint32 \<Rightarrow> nat" where
  "counter_number addr = unat addr mod 32"

definition csr_access_legal :: "Csr \<Rightarrow> uint32 \<Rightarrow> bool \<Rightarrow> bool" where
  "csr_access_legal csr addr write \<longleftrightarrow>
     uint (csr_level addr) \<le> uint (PrivilegeLevel_code (m_Priv csr)) \<and> csr_level addr \<noteq> 2
     \<and> \<not> (write \<and> 0xc00 \<le> addr)
     \<and> \<not> (addr = csr_satp \<and> m_Priv csr = Supervisor \<and> bit (m_Status csr) 20)"

definition csr_legal :: "Csr \<Rightarrow> uint32 \<Rightarrow> bool \<Rightarrow> bool" where
  "csr_legal csr addr write \<longleftrightarrow> csr_access_legal csr addr write
     \<and> (is_user_counter addr \<longrightarrow> m_Priv csr \<noteq> Machine \<longrightarrow>
          bit (m_MachineCounterEnable csr) (counter_number addr) \<and>
          (m_Priv csr = User \<longrightarrow> bit (m_SupervisorCounterEnable csr) (counter_number addr)))"

text \<open>
  Where the check is laxer than the rule: counter 31 below machine level, when the enables it needs have
  a bit from 31 on, but not all of them bit 31.
\<close>

definition counter_31_leak :: "Csr \<Rightarrow> uint32 \<Rightarrow> bool \<Rightarrow> bool" where
  "counter_31_leak csr addr write \<longleftrightarrow> \<not> csr_legal csr addr write \<and> csr_access_legal csr addr write
     \<and> is_user_counter addr \<and> counter_number addr = 31 \<and> m_Priv csr \<noteq> Machine
     \<and> drop_bit 31 (m_MachineCounterEnable csr) \<noteq> 0
     \<and> (m_Priv csr = User \<longrightarrow> drop_bit 31 (m_SupervisorCounterEnable csr) \<noteq> 0)"

lemma counters_granted:
  "csr_access_legal csr addr write \<and> (is_user_counter addr \<longrightarrow> m_Priv csr \<noteq> Machine \<longrightarrow>
      counter_granted (m_MachineCounterEnable csr) (counter_number addr) \<and>
      (m_Priv csr = User \<longrightarrow> counter_granted (m_SupervisorCounterEnable csr) (counter_number addr))) \<longleftrightarrow>
    csr_legal csr addr write \<or> counter_31_leak csr addr write"
proof -
  have "bit en 31 \<Longrightarrow> counter_granted en 31" for en
    by (auto simp: counter_granted_def drop_bit_eq_0_iff)
  then show ?thesis
    by (cases "counter_number addr = 31") (auto simp: csr_legal_def counter_31_leak_def counter_granted_def)
qed

lemma sint_small:
  assumes "uint (x :: uint32) < 0x1000"
  shows "sint x = uint x"
proof -
  have "- (2 ^ 31) \<le> uint x" by (rule order_trans [OF _ uint_ge_0]) simp
  moreover have "uint x < 2 ^ 31" using assms by simp
  ultimately show ?thesis by (simp add: sint_uint signed_take_bit_int_eq_self_iff)
qed

lemma GetPerformanceCounterIndex_user:
  assumes "is_user_counter addr"
  shows "GetPerformanceCounterIndex addr = Inr (int (counter_number addr))"
proof -
  have u: "uint addr < 0x1000" "0xc00 \<le> uint addr"
    using assms by (auto simp: is_user_counter_def word_less_def word_le_def)
  have s: "sint addr = uint addr" by (rule sint_small [OF u(1)])
  have n: "int (counter_number addr) = uint addr mod 32"
    by (simp add: counter_number_def zmod_int)
  consider "0xc00 \<le> uint addr" "uint addr < 0xc20" | "0xc80 \<le> uint addr" "uint addr < 0xca0"
    using assms by (auto simp: is_user_counter_def word_less_def word_le_def)
  then show ?thesis
  proof cases
    case 1
    then have "uint addr mod 32 = uint addr - 0xc00" by presburger
    with 1 s n show ?thesis
      by (simp add: GetPerformanceCounterIndex_def word_less_def word_le_def)
  next
    case 2
    then have "uint addr mod 32 = uint addr - 0xc80" by presburger
    with 2 s n show ?thesis
      by (simp add: GetPerformanceCounterIndex_def word_less_def word_le_def)
  qed
qed

lemma counter_check_cases:
  "counter_check csr addr pc insn =
    Inr (if is_user_counter addr \<and>
          (m_Priv csr = Supervisor \<and> \<not> counter_granted (m_MachineCounterEnable csr) (counter_number addr)
           \<or> m_Priv csr = User \<and> \<not> (counter_granted (m_MachineCounterEnable csr) (counter_number addr)
               \<and> counter_granted (m_SupervisorCounterEnable csr) (counter_number addr)))
         then Some (MakeIllegalInstructionException pc insn) else None)"
proof (cases "is_user_counter addr")
  case True
  have n: "counter_number addr < 32" by (simp add: counter_number_def)
  have "shl (1 :: uint32) (int (counter_number addr)) = Inr (push_bit (counter_number addr) 1)"
    using n by (simp add: shl_def)
  with True n show ?thesis
    unfolding counter_check_def
    by (simp add: GetPerformanceCounterIndex_user and_counter_mask is_user_counter_def [symmetric]
        Let_def split: PrivilegeLevel.split del: push_bit_of_1)
next
  case False
  then show ?thesis unfolding counter_check_def by (simp add: is_user_counter_def [symmetric])
qed

lemma csr_level_cases:
  obtains "csr_level a = 0" | "csr_level a = 1" | "csr_level a = 2" | "csr_level a = 3"
  using register_mode_unique [of a] by (auto simp: register_mode_defs csr_level_def)

lemma div_1024_eq_3: "x < 4096 \<Longrightarrow> x div 1024 = (3 :: int) \<longleftrightarrow> 3072 \<le> x"
  by linarith

lemma csr_small_address:
  assumes "addr < (0x1000 :: uint32)"
  shows "sint addr = uint addr" "drop_bit 10 (sint addr) = 3 \<longleftrightarrow> 0xc00 \<le> addr"
proof -
  have u: "uint addr < 0x1000" using assms by (simp add: word_less_def)
  then show s: "sint addr = uint addr" by (rule sint_small)
  have n: "uint (0xc00 :: uint32) = 0xc00" "(2 :: int) ^ 10 = 1024" by simp_all
  have "uint addr div 1024 = 3 \<longleftrightarrow> 0xc00 \<le> uint addr" by (rule div_1024_eq_3) (use u in simp)
  then show "drop_bit 10 (sint addr) = 3 \<longleftrightarrow> 0xc00 \<le> addr"
    unfolding s word_le_def drop_bit_eq_div n .
qed

text \<open>
  C30. The CSR access check implements the privilege rule but for counter 31: for every 12-bit address,
  at user, supervisor and machine level, an access is reported as an illegal instruction at the given
  pc with the instruction as trap value exactly when it is not legal - the level, the read-only range,
  TVM and the enable bit of a counter - and is no leak; a leak is a read of counter 31 below machine
  level that passes by a bit above 31 of an enable whose bit 31 is clear. The accesses that pass go on, but for the
  time register, which always traps with value 0.
\<close>

theorem CheckTrap_iff_legal:
  assumes "addr < 0x1000" "m_Priv csr \<noteq> Reserved"
  shows "Csr_CheckTrap csr addr write pc insn = Inr
    (if \<not> csr_legal csr addr write \<and> \<not> counter_31_leak csr addr write
     then Some (MakeIllegalInstructionException pc insn)
     else if addr = csr_time then Some (MakeIllegalInstructionException pc 0) else None)"
proof -
  have *: "\<not> (sint addr < 0 \<or> 4096 < sint addr)"
    using assms(1) csr_small_address(1) [OF assms(1)] by (simp add: word_less_def not_less)
  have **: "GetMember xstatus_TVM (m_Status csr) \<noteq> 0 \<longleftrightarrow> bit (m_Status csr) 20"
    by (simp add: GetMember_single_eq_0)
  have "m_Priv csr = User \<or> m_Priv csr = Supervisor \<or> m_Priv csr = Machine"
    using assms(2) by (cases "m_Priv csr") auto
  then show ?thesis
    unfolding de_Morgan_disj [symmetric] counters_granted [symmetric] csr_access_legal_def
      Csr_CheckTrap_def Let_def csr_small_address(2) [OF assms(1)]
      counter_check_cases register_mode_defs csr_level_def [symmetric] if_not_P [OF *] **
    by (elim disjE; cases rule: csr_level_cases [of addr]; cases "addr = csr_time"; simp; argo?)
qed

text \<open>A refused write, and a leak: counter 31 read at supervisor level with bit 32 of mcounteren set.\<close>

lemma CheckTrap_iff_legal_witness:
  "Csr_CheckTrap (Csr_zero XLEN64 0 0) csr_mvendorid True 4 0xf1129073 =
     Inr (Some (MakeIllegalInstructionException 4 0xf1129073)) \<and>
   Csr_CheckTrap ((Csr_zero XLEN64 0 0)\<lparr> m_MachineCounterEnable := 0x100000000, m_Priv := Supervisor \<rparr>)
     0xc1f False 4 0xc1f02573 = Inr None"
proof -
  have "counter_31_leak ((Csr_zero XLEN64 0 0)\<lparr> m_MachineCounterEnable := 0x100000000, m_Priv := Supervisor \<rparr>) 0xc1f False"
    by code_simp
  then show ?thesis
    using CheckTrap_iff_legal [of csr_mvendorid "Csr_zero XLEN64 0 0" True 4 "0xf1129073"]
      CheckTrap_iff_legal [of "0xc1f" "(Csr_zero XLEN64 0 0)\<lparr> m_MachineCounterEnable := 0x100000000, m_Priv := Supervisor \<rparr>"
        False 4 "0xc1f02573"]
    by (simp add: csr_legal_def csr_access_legal_def counter_31_leak_def Csr_zero_def)
qed

section \<open>Properties of the registers\<close>

text \<open>
  Writing one of the 22 storage registers returns the value written on the next read of it and
  changes the reading of no other CSR address.
\<close>

theorem csr_storage_read_write:
  assumes "a \<in> set storage_csrs" "Csr_WriteUInt64 a v csr = Inr csr'"
  shows "Csr_ReadUInt64 csr' b = (if b = a then Inr v else Csr_ReadUInt64 csr b)"
  using assms by (rule bank.rd_wr)

lemma csr_storage_read_write_witness:
  "Csr_ReadUInt64 ((Csr_zero XLEN64 0 0)\<lparr> m_SupervisorExceptionPc := 8 \<rparr>) csr_sepc = Inr 8"
  using csr_storage_read_write [of csr_sepc 8 "Csr_zero XLEN64 0 0" _ csr_sepc, OF _ write_storage(14)]
  by (simp add: storage_csrs_def)

text \<open>
  A write of the supervisor view of the interrupt enables reaches exactly the supervisor and
  user enables: read through the machine view, those six bits have the new values and the machine
  enables their old ones.
\<close>

theorem sie_write_view:
  assumes "Csr_WriteUInt64 csr_sie v csr = Inr csr'"
  shows "\<exists>new. Csr_ReadUInt64 csr' csr_mie = Inr new \<and>
    (\<forall>k. bit new k \<longleftrightarrow> (if k \<in> {0, 1, 4, 5, 8, 9} then bit v k
       else k \<in> {3, 7, 11} \<and> bit (m_InterruptEnable csr) k))"
proof -
  have "csr' = csr\<lparr> m_InterruptEnable := SetWithMask (m_InterruptEnable csr) v xie_SupervisorMask \<rparr>"
    using assms by (simp add: write_interrupt_enable)
  then show ?thesis
    by (auto simp: read_interrupt_enable bit_GetWithMask bit_SetWithMask bit_xie_masks)
qed

lemma sie_write_view_witness:
  "\<exists>new. Csr_ReadUInt64 ((Csr_zero XLEN64 0 0)\<lparr> m_InterruptEnable :=
     SetWithMask 0x888 0x222 xie_SupervisorMask \<rparr>) csr_mie = Inr new \<and> bit new 5 \<and> bit new 7"
  using sie_write_view [of "0x222" "(Csr_zero XLEN64 0 0)\<lparr> m_InterruptEnable := 0x888 \<rparr>",
    OF write_interrupt_enable(2)] by (auto simp: numeral_eq_Suc)

text \<open>
  C31. A write of sstatus stores the supervisor fields it is given, and clears the machine-level ones:
  MIE, MPIE, MPP, MPRV, TVM, TW and TSR are all zero after it, whatever they were.
\<close>

theorem sstatus_write_clears_machine_fields:
  assumes "csr_xlen_ok csr" "Csr_WriteUInt64 csr_sstatus v csr = Inr csr'"
  shows "(\<forall>k \<in> {3, 7, 11, 12, 17, 20, 21, 22}. \<not> bit (m_Status csr') k) \<and>
    (\<forall>k \<in> {0, 1, 4, 5, 8, 13, 14, 15, 16, 18, 19}. bit (m_Status csr') k = bit v k)"
  using assms
  by (auto simp: csr_xlen_ok_def write_status_registers WriteStatus_bit bit_xstatus_of_uint64
      bit_and_iff bit_xstatus_WriteMask bit_xstatus_SupervisorMask)

lemma sstatus_write_clears_machine_fields_witness:
  "\<not> bit (m_Status (Csr_WriteStatus (xstatus_of_uint64 (0x100 AND xstatus_SupervisorMask_RV64))
      ((Csr_zero XLEN64 0 0)\<lparr> m_Status := 0x1800 \<rparr>))) 12"
  using sstatus_write_clears_machine_fields
    [of "(Csr_zero XLEN64 0 0)\<lparr> m_Status := 0x1800 \<rparr>" "0x100", OF _ write_status_registers(3)]
  by (simp add: csr_xlen_ok_def Csr_zero_def)

end
