(* ===== verification/Op.thy ===== *)
theory Op
  imports RvTypes
begin

text \<open>
  \<^verbatim>\<open>include/rafi/common/OpDeprecated.h\<close>: the decoded instruction. The enumeration of operation codes is
  split along the comment headings of the source, one datatype for each extension, put together
  again by \<open>OpCode\<close>; a constructor has the source's name behind \<open>op_\<close>. \<open>Operand\<close> is the
  \<open>std::variant\<close> of the operand structures, one constructor for each alternative. Register
  numbers, shift amounts and the function fields are C++ \<open>int\<close>s, immediates are \<open>int64_t\<close>.
\<close>

section \<open>Operation codes\<close>

datatype OpClass = RV32I | RV32M | RV32A | RV32F | RV32D | RV32C
  | RV64I | RV64M | RV64A | RV64F | RV64D | RV64C

datatype (plugins only: code size) OpCodeI = op_lui | op_auipc | op_jal | op_jalr | op_beq
    | op_bne | op_blt | op_bge | op_bltu | op_bgeu | op_lb | op_lh | op_lw | op_ld | op_lbu
    | op_lhu | op_lwu | op_sb | op_sh | op_sw | op_sd | op_addi | op_addiw | op_slti | op_sltiu
    | op_xori | op_ori | op_andi | op_slli | op_slliw | op_srli | op_srliw | op_srai | op_sraiw
    | op_add | op_addw | op_sub | op_subw | op_sll | op_sllw | op_slt | op_sltu | op_xor | op_srl
    | op_srlw | op_sra | op_sraw | op_or | op_and | op_fence | op_fence_i | op_ecall | op_ebreak
    | op_csrrw | op_csrrs | op_csrrc | op_csrrwi | op_csrrsi | op_csrrci | op_mret | op_sret
    | op_uret | op_wfi | op_sfence_vma

datatype (plugins only: code size) OpCodeM = op_mul | op_mulw | op_mulh | op_mulhsu | op_mulhu
    | op_div | op_divw | op_divu | op_divuw | op_rem | op_remw | op_remu | op_remuw

datatype (plugins only: code size) OpCodeA = op_lr_w | op_lr_d | op_sc_w | op_sc_d | op_amoswap_w
    | op_amoswap_d | op_amoadd_w | op_amoadd_d | op_amoxor_w | op_amoxor_d | op_amoand_w
    | op_amoand_d | op_amoor_w | op_amoor_d | op_amomin_w | op_amomin_d | op_amomax_w
    | op_amomax_d | op_amominu_w | op_amominu_d | op_amomaxu_w | op_amomaxu_d

datatype (plugins only: code size) OpCodeF = op_flw | op_fsw | op_fmadd_s | op_fmsub_s
    | op_fnmsub_s | op_fnmadd_s | op_fadd_s | op_fsub_s | op_fmul_s | op_fdiv_s | op_fsqrt_s
    | op_fsgnj_s | op_fsgnjn_s | op_fsgnjx_s | op_fmin_s | op_fmax_s | op_fcvt_w_s | op_fcvt_wu_s
    | op_fmv_x_w | op_feq_s | op_flt_s | op_fle_s | op_fclass_s | op_fcvt_l_s | op_fcvt_lu_s
    | op_fcvt_s_w | op_fcvt_s_l | op_fcvt_s_wu | op_fcvt_s_lu | op_fmv_w_x

datatype (plugins only: code size) OpCodeD = op_fld | op_fsd | op_fmadd_d | op_fmsub_d
    | op_fnmsub_d | op_fnmadd_d | op_fadd_d | op_fsub_d | op_fmul_d | op_fdiv_d | op_fsqrt_d
    | op_fsgnj_d | op_fsgnjn_d | op_fsgnjx_d | op_fmin_d | op_fmax_d | op_fmv_d_x | op_fmv_x_d
    | op_feq_d | op_flt_d | op_fle_d | op_fclass_d | op_fcvt_s_d | op_fcvt_w_d | op_fcvt_wu_d
    | op_fcvt_l_d | op_fcvt_lu_d | op_fcvt_d_s | op_fcvt_d_w | op_fcvt_d_wu | op_fcvt_d_l
    | op_fcvt_d_lu

datatype (plugins only: code size) OpCodeC = op_c_addi4spn | op_c_fld | op_c_lq | op_c_lw
    | op_c_flw | op_c_ld | op_c_fsd | op_c_sq | op_c_sw | op_c_fsw | op_c_sd | op_c_nop
    | op_c_addi | op_c_jal | op_c_addiw | op_c_li | op_c_addi16sp | op_c_lui | op_c_srli
    | op_c_srli64 | op_c_srai | op_c_srai64 | op_c_andi | op_c_sub | op_c_xor | op_c_or | op_c_and
    | op_c_subw | op_c_addw | op_c_j | op_c_beqz | op_c_bnez | op_c_slli | op_c_slli64
    | op_c_fldsp | op_c_lqsp | op_c_lwsp | op_c_flwsp | op_c_ldsp | op_c_jr | op_c_mv
    | op_c_ebreak | op_c_jalr | op_c_add | op_c_fsdsp | op_c_sqsp | op_c_swsp | op_c_fswsp
    | op_c_sdsp

datatype OpCode = op_unknown | rvi OpCodeI | rvm OpCodeM | rva OpCodeA | rvf OpCodeF | rvd OpCodeD
  | rvc OpCodeC

section \<open>Operands\<close>

type_synonym csr_addr_t = uint32

text \<open>The arguments of each constructor are the members of the structure, in its order.\<close>

datatype (plugins only: code size) Operand =
    OperandR int int int int int \<comment> \<open>rd rs1 rs2 funct3 funct7\<close>
  | OperandR4 int int int int int int \<comment> \<open>rd rs1 rs2 rs3 funct3 funct2\<close>
  | OperandI uint64 int int int \<comment> \<open>imm rd rs1 funct3\<close>
  | OperandS uint64 int int int \<comment> \<open>imm rs1 rs2 funct3\<close>
  | OperandB uint64 int int int \<comment> \<open>imm rs1 rs2 funct3\<close>
  | OperandU uint64 int \<comment> \<open>imm rd\<close>
  | OperandJ uint64 int \<comment> \<open>imm rd\<close>
  | OperandShiftImm int int int \<comment> \<open>rd rs1 shamt\<close>
  | OperandCsr int int csr_addr_t \<comment> \<open>rd rs1 csr\<close>
  | OperandCsrImm uint32 int csr_addr_t \<comment> \<open>zimm rd csr\<close>
  | OperandFence int int \<comment> \<open>pred succ\<close>
  | OperandCR int int int \<comment> \<open>rd rs1 rs2\<close>
  | OperandCI uint64 int int \<comment> \<open>imm rd rs1\<close>
  | OperandCSS uint64 int \<comment> \<open>imm rs2\<close>
  | OperandCIW uint64 int \<comment> \<open>imm rd\<close>
  | OperandCL uint64 int int \<comment> \<open>imm rd rs1\<close>
  | OperandCS uint64 int int \<comment> \<open>imm rs1 rs2\<close>
  | OperandCB uint64 int \<comment> \<open>imm rs1\<close>
  | OperandCJ uint64 \<comment> \<open>imm\<close>
  | OperandNone

record Op =
  opClass :: OpClass
  opCode :: OpCode
  operand :: Operand

abbreviation mk_op :: "OpClass \<Rightarrow> OpCode \<Rightarrow> Operand \<Rightarrow> Op" where
  "mk_op c oc od \<equiv> \<lparr> opClass = c, opCode = oc, operand = od \<rparr>"

section \<open>Reading an operand\<close>

text \<open>
  \<open>std::get<T>(operand)\<close> throws when the variant holds another alternative. A reader gets
  the members of its alternative in the order of the structure.
\<close>


definition get_R :: "Operand \<Rightarrow> (int \<times> int \<times> int \<times> int \<times> int) result" where
  "get_R od = (case od of OperandR rd rs1 rs2 funct3 funct7 \<Rightarrow> Inr (rd, rs1, rs2, funct3, funct7) | _ \<Rightarrow> Inl BadVariantAccess)"

definition get_R4 :: "Operand \<Rightarrow> (int \<times> int \<times> int \<times> int \<times> int \<times> int) result" where
  "get_R4 od = (case od of OperandR4 rd rs1 rs2 rs3 funct3 funct2 \<Rightarrow> Inr (rd, rs1, rs2, rs3, funct3, funct2) | _ \<Rightarrow> Inl BadVariantAccess)"

definition get_I :: "Operand \<Rightarrow> (uint64 \<times> int \<times> int \<times> int) result" where
  "get_I od = (case od of OperandI imm rd rs1 funct3 \<Rightarrow> Inr (imm, rd, rs1, funct3) | _ \<Rightarrow> Inl BadVariantAccess)"

definition get_S :: "Operand \<Rightarrow> (uint64 \<times> int \<times> int \<times> int) result" where
  "get_S od = (case od of OperandS imm rs1 rs2 funct3 \<Rightarrow> Inr (imm, rs1, rs2, funct3) | _ \<Rightarrow> Inl BadVariantAccess)"

definition get_B :: "Operand \<Rightarrow> (uint64 \<times> int \<times> int \<times> int) result" where
  "get_B od = (case od of OperandB imm rs1 rs2 funct3 \<Rightarrow> Inr (imm, rs1, rs2, funct3) | _ \<Rightarrow> Inl BadVariantAccess)"

definition get_U :: "Operand \<Rightarrow> (uint64 \<times> int) result" where
  "get_U od = (case od of OperandU imm rd \<Rightarrow> Inr (imm, rd) | _ \<Rightarrow> Inl BadVariantAccess)"

definition get_J :: "Operand \<Rightarrow> (uint64 \<times> int) result" where
  "get_J od = (case od of OperandJ imm rd \<Rightarrow> Inr (imm, rd) | _ \<Rightarrow> Inl BadVariantAccess)"

definition get_ShiftImm :: "Operand \<Rightarrow> (int \<times> int \<times> int) result" where
  "get_ShiftImm od = (case od of OperandShiftImm rd rs1 shamt \<Rightarrow> Inr (rd, rs1, shamt) | _ \<Rightarrow> Inl BadVariantAccess)"

definition get_Csr :: "Operand \<Rightarrow> (int \<times> int \<times> csr_addr_t) result" where
  "get_Csr od = (case od of OperandCsr rd rs1 csr \<Rightarrow> Inr (rd, rs1, csr) | _ \<Rightarrow> Inl BadVariantAccess)"

definition get_CsrImm :: "Operand \<Rightarrow> (uint32 \<times> int \<times> csr_addr_t) result" where
  "get_CsrImm od = (case od of OperandCsrImm zimm rd csr \<Rightarrow> Inr (zimm, rd, csr) | _ \<Rightarrow> Inl BadVariantAccess)"

definition get_CR :: "Operand \<Rightarrow> (int \<times> int \<times> int) result" where
  "get_CR od = (case od of OperandCR rd rs1 rs2 \<Rightarrow> Inr (rd, rs1, rs2) | _ \<Rightarrow> Inl BadVariantAccess)"

definition get_CI :: "Operand \<Rightarrow> (uint64 \<times> int \<times> int) result" where
  "get_CI od = (case od of OperandCI imm rd rs1 \<Rightarrow> Inr (imm, rd, rs1) | _ \<Rightarrow> Inl BadVariantAccess)"

definition get_CSS :: "Operand \<Rightarrow> (uint64 \<times> int) result" where
  "get_CSS od = (case od of OperandCSS imm rs2 \<Rightarrow> Inr (imm, rs2) | _ \<Rightarrow> Inl BadVariantAccess)"

definition get_CIW :: "Operand \<Rightarrow> (uint64 \<times> int) result" where
  "get_CIW od = (case od of OperandCIW imm rd \<Rightarrow> Inr (imm, rd) | _ \<Rightarrow> Inl BadVariantAccess)"

definition get_CL :: "Operand \<Rightarrow> (uint64 \<times> int \<times> int) result" where
  "get_CL od = (case od of OperandCL imm rd rs1 \<Rightarrow> Inr (imm, rd, rs1) | _ \<Rightarrow> Inl BadVariantAccess)"

definition get_CS :: "Operand \<Rightarrow> (uint64 \<times> int \<times> int) result" where
  "get_CS od = (case od of OperandCS imm rs1 rs2 \<Rightarrow> Inr (imm, rs1, rs2) | _ \<Rightarrow> Inl BadVariantAccess)"

definition get_CB :: "Operand \<Rightarrow> (uint64 \<times> int) result" where
  "get_CB od = (case od of OperandCB imm rs1 \<Rightarrow> Inr (imm, rs1) | _ \<Rightarrow> Inl BadVariantAccess)"

definition get_CJ :: "Operand \<Rightarrow> (uint64) result" where
  "get_CJ od = (case od of OperandCJ imm \<Rightarrow> Inr (imm) | _ \<Rightarrow> Inl BadVariantAccess)"

lemmas get_defs = get_R_def get_R4_def get_I_def get_S_def get_B_def get_U_def get_J_def
  get_ShiftImm_def get_Csr_def get_CsrImm_def get_CR_def get_CI_def get_CSS_def get_CIW_def
  get_CL_def get_CS_def get_CB_def get_CJ_def

lemma get_simps [simp, emu_simps]:
  "get_R (OperandR rd rs1 rs2 funct3 funct7) = Inr (rd, rs1, rs2, funct3, funct7)"
  "get_R4 (OperandR4 rd rs1 rs2 rs3 funct3 funct2) = Inr (rd, rs1, rs2, rs3, funct3, funct2)"
  "get_I (OperandI imm rd rs1 funct3) = Inr (imm, rd, rs1, funct3)"
  "get_S (OperandS imm rs1 rs2 funct3) = Inr (imm, rs1, rs2, funct3)"
  "get_B (OperandB imm rs1 rs2 funct3) = Inr (imm, rs1, rs2, funct3)"
  "get_U (OperandU imm rd) = Inr (imm, rd)"
  "get_J (OperandJ imm rd) = Inr (imm, rd)"
  "get_ShiftImm (OperandShiftImm rd rs1 shamt) = Inr (rd, rs1, shamt)"
  "get_Csr (OperandCsr rd rs1 csr) = Inr (rd, rs1, csr)"
  "get_CsrImm (OperandCsrImm zimm rd csr) = Inr (zimm, rd, csr)"
  "get_CR (OperandCR rd rs1 rs2) = Inr (rd, rs1, rs2)"
  "get_CI (OperandCI imm rd rs1) = Inr (imm, rd, rs1)"
  "get_CSS (OperandCSS imm rs2) = Inr (imm, rs2)"
  "get_CIW (OperandCIW imm rd) = Inr (imm, rd)"
  "get_CL (OperandCL imm rd rs1) = Inr (imm, rd, rs1)"
  "get_CS (OperandCS imm rs1 rs2) = Inr (imm, rs1, rs2)"
  "get_CB (OperandCB imm rs1) = Inr (imm, rs1)"
  "get_CJ (OperandCJ imm) = Inr (imm)"
  by (simp_all add: get_defs)

end
