(* ===== verification/Decoder.thy ===== *)
theory Decoder
  imports Op BitField
begin

text \<open>
  \<^verbatim>\<open>lib/common/Decoder.cpp\<close>: from an instruction word to an \<open>Op\<close>. The \<open>DecoderImpl\<close>'s only
  member, the width, is the argument \<open>xlen\<close>; one definition for each method, each switch and
  if-chain in the order of the source. A fall into RAFI\_NOT\_IMPLEMENTED ends the process.
\<close>

section \<open>Bit fields of an instruction\<close>

text \<open>
  The positions are literals in range everywhere, so the assertions of the source hold. The
  result is an \<open>int32_t\<close>; a 16-bit instruction is widened first.
\<close>

definition Pick :: "'a::len word \<Rightarrow> nat \<Rightarrow> nat \<Rightarrow> 32 word" where
  "Pick insn lsb width = drop_bit lsb (ucast insn) AND (push_bit width 1 - 1)"

definition IsCompressedInstruction16 :: "uint16 \<Rightarrow> bool" where
  "IsCompressedInstruction16 insn \<longleftrightarrow> insn AND 0b11 \<noteq> 0b11"

definition IsCompressedInstruction32 :: "uint32 \<Rightarrow> bool" where
  "IsCompressedInstruction32 insn \<longleftrightarrow> insn AND 0b11 \<noteq> 0b11"

section \<open>Operands\<close>

definition DecodeOperandR :: "uint32 \<Rightarrow> Operand" where
  "DecodeOperandR insn = OperandR
     (sint (Pick insn 7 5))
     (sint (Pick insn 15 5))
     (sint (Pick insn 20 5))
     (sint (Pick insn 12 3))
     (sint (Pick insn 25 5))"

definition DecodeOperandR4 :: "uint32 \<Rightarrow> Operand" where
  "DecodeOperandR4 insn = OperandR4
     (sint (Pick insn 7 5))
     (sint (Pick insn 15 5))
     (sint (Pick insn 20 5))
     (sint (Pick insn 27 5))
     (sint (Pick insn 12 3))
     (sint (Pick insn 25 2))"

definition DecodeOperandI :: "uint32 \<Rightarrow> Operand" where
  "DecodeOperandI insn = OperandI
     (SignExtend 12 (scast (Pick insn 20 12)))
     (sint (Pick insn 7 5))
     (sint (Pick insn 15 5))
     (sint (Pick insn 12 3))"

definition DecodeOperandS :: "uint32 \<Rightarrow> Operand" where
  "DecodeOperandS insn = OperandS
     (SignExtend 12 (scast (push_bit 5 (Pick insn 25 7) OR Pick insn 7 5)))
     (sint (Pick insn 15 5))
     (sint (Pick insn 20 5))
     (sint (Pick insn 12 3))"

definition DecodeOperandB :: "uint32 \<Rightarrow> Operand" where
  "DecodeOperandB insn = OperandB
     (SignExtend 13 (scast (push_bit 12 (Pick insn 31 1) OR push_bit 5 (Pick insn 25 6) OR push_bit 1 (Pick insn 8 4) OR push_bit 11 (Pick insn 7 1))))
     (sint (Pick insn 15 5))
     (sint (Pick insn 20 5))
     (sint (Pick insn 12 3))"

definition DecodeOperandU :: "uint32 \<Rightarrow> Operand" where
  "DecodeOperandU insn = OperandU
     (SignExtend 32 (scast (push_bit 12 (Pick insn 12 20))))
     (sint (Pick insn 7 5))"

definition DecodeOperandJ :: "uint32 \<Rightarrow> Operand" where
  "DecodeOperandJ insn = OperandJ
     (SignExtend 21 (scast (push_bit 20 (Pick insn 31 1) OR push_bit 1 (Pick insn 21 10) OR push_bit 11 (Pick insn 20 1) OR push_bit 12 (Pick insn 12 8))))
     (sint (Pick insn 7 5))"

definition DecodeOperandShiftImm_32 :: "uint32 \<Rightarrow> Operand" where
  "DecodeOperandShiftImm_32 insn = OperandShiftImm
     (sint (Pick insn 7 5))
     (sint (Pick insn 15 5))
     (sint (Pick insn 20 5))"

definition DecodeOperandShiftImm_64 :: "uint32 \<Rightarrow> Operand" where
  "DecodeOperandShiftImm_64 insn = OperandShiftImm
     (sint (Pick insn 7 5))
     (sint (Pick insn 15 5))
     (sint (Pick insn 20 6))"

definition DecodeOperandCsr :: "uint32 \<Rightarrow> Operand" where
  "DecodeOperandCsr insn = OperandCsr
     (sint (Pick insn 7 5))
     (sint (Pick insn 15 5))
     (Pick insn 20 12)"

definition DecodeOperandCsrImm :: "uint32 \<Rightarrow> Operand" where
  "DecodeOperandCsrImm insn = OperandCsrImm
     (Pick insn 15 5)
     (sint (Pick insn 7 5))
     (Pick insn 20 12)"

definition DecodeOperandFence :: "uint32 \<Rightarrow> Operand" where
  "DecodeOperandFence insn = OperandFence
     (sint (Pick insn 24 4))
     (sint (Pick insn 20 4))"

definition DecodeOperandCR :: "uint16 \<Rightarrow> Operand" where
  "DecodeOperandCR insn = OperandCR
     (sint (Pick insn 7 5))
     (sint (Pick insn 7 5))
     (sint (Pick insn 2 5))"

definition DecodeOperandCR_Alu :: "uint16 \<Rightarrow> Operand" where
  "DecodeOperandCR_Alu insn = OperandCR
     (sint (Pick insn 7 3) + 8)
     (sint (Pick insn 7 3) + 8)
     (sint (Pick insn 2 3) + 8)"

definition DecodeOperandCI :: "uint16 \<Rightarrow> bool \<Rightarrow> Operand" where
  "DecodeOperandCI insn immSigned = OperandCI
     (if immSigned then (SignExtend 6 (scast (push_bit 5 (Pick insn 12 1) OR Pick insn 2 5))) else (ZeroExtend 6 (scast (push_bit 5 (Pick insn 12 1) OR Pick insn 2 5))))
     (sint (Pick insn 7 5))
     (sint (Pick insn 7 5))"

definition DecodeOperandCI_ADDI16SP :: "uint16 \<Rightarrow> Operand" where
  "DecodeOperandCI_ADDI16SP insn = OperandCI
     (SignExtend 10 (scast (push_bit 9 (Pick insn 12 1) OR push_bit 4 (Pick insn 6 1) OR push_bit 6 (Pick insn 5 1) OR push_bit 7 (Pick insn 3 2) OR push_bit 5 (Pick insn 2 1))))
     (sint (Pick insn 7 5))
     (sint (Pick insn 7 5))"

definition DecodeOperandCI_AluImm :: "uint16 \<Rightarrow> bool \<Rightarrow> Operand" where
  "DecodeOperandCI_AluImm insn immSigned = OperandCI
     (if immSigned then (SignExtend 6 (scast (push_bit 5 (Pick insn 12 1) OR Pick insn 2 5))) else (ZeroExtend 6 (scast (push_bit 5 (Pick insn 12 1) OR Pick insn 2 5))))
     (sint (Pick insn 7 3) + 8)
     (sint (Pick insn 7 3) + 8)"

definition DecodeOperandCI_LoadSP :: "uint16 \<Rightarrow> int \<Rightarrow> Operand result" where
  "DecodeOperandCI_LoadSP insn accessSize = (if accessSize = 4 then Inr (OperandCI
        (ZeroExtend 8 (scast (push_bit 5 (Pick insn 12 1) OR push_bit 2 (Pick insn 4 3) OR push_bit 6 (Pick insn 2 2))))
        (sint (Pick insn 7 5))
        (sint (Pick insn 7 5)))
     else if accessSize = 8 then Inr (OperandCI
        (ZeroExtend 9 (scast (push_bit 5 (Pick insn 12 1) OR push_bit 3 (Pick insn 5 2) OR push_bit 6 (Pick insn 2 3))))
        (sint (Pick insn 7 5))
        (sint (Pick insn 7 5)))
     else if accessSize = 16 then Inr (OperandCI
        (ZeroExtend 10 (scast (push_bit 5 (Pick insn 12 1) OR push_bit 4 (Pick insn 6 1) OR push_bit 6 (Pick insn 2 4))))
        (sint (Pick insn 7 5))
        (sint (Pick insn 7 5)))
     else Inl ProcessExit)"

definition DecodeOperandCI_LUI :: "uint16 \<Rightarrow> Operand" where
  "DecodeOperandCI_LUI insn = OperandCI
     (SignExtend 18 (scast (push_bit 17 (Pick insn 12 1) OR push_bit 12 (Pick insn 2 5))))
     (sint (Pick insn 7 5))
     (sint (Pick insn 7 5))"

definition DecodeOperandCSS :: "uint16 \<Rightarrow> int \<Rightarrow> Operand result" where
  "DecodeOperandCSS insn accessSize = (if accessSize = 4 then Inr (OperandCSS
        (ZeroExtend 8 (scast (push_bit 2 (Pick insn 9 4) OR push_bit 6 (Pick insn 7 2))))
        (sint (Pick insn 2 5)))
     else if accessSize = 8 then Inr (OperandCSS
        (ZeroExtend 9 (scast (push_bit 3 (Pick insn 10 3) OR push_bit 6 (Pick insn 7 3))))
        (sint (Pick insn 2 5)))
     else if accessSize = 16 then Inr (OperandCSS
        (ZeroExtend 10 (scast (push_bit 4 (Pick insn 11 2) OR push_bit 6 (Pick insn 7 4))))
        (sint (Pick insn 2 5)))
     else Inl ProcessExit)"

definition DecodeOperandCIW :: "uint16 \<Rightarrow> Operand" where
  "DecodeOperandCIW insn = OperandCIW
     (ZeroExtend 10 (scast (push_bit 4 (Pick insn 11 2) OR push_bit 6 (Pick insn 7 4) OR push_bit 2 (Pick insn 6 1) OR push_bit 3 (Pick insn 5 1))))
     (sint (Pick insn 2 3) + 8)"

definition DecodeOperandCL :: "uint16 \<Rightarrow> int \<Rightarrow> Operand result" where
  "DecodeOperandCL insn accessSize = (if accessSize = 4 then Inr (OperandCL
        (ZeroExtend 7 (scast (push_bit 3 (Pick insn 10 3) OR push_bit 2 (Pick insn 6 1) OR push_bit 6 (Pick insn 5 1))))
        (sint (Pick insn 2 3) + 8)
        (sint (Pick insn 7 3) + 8))
     else if accessSize = 8 then Inr (OperandCL
        (ZeroExtend 8 (scast (push_bit 3 (Pick insn 10 3) OR push_bit 6 (Pick insn 5 2))))
        (sint (Pick insn 2 3) + 8)
        (sint (Pick insn 7 3) + 8))
     else if accessSize = 16 then Inr (OperandCL
        (ZeroExtend 9 (scast (push_bit 4 (Pick insn 11 2) OR push_bit 8 (Pick insn 10 1) OR push_bit 6 (Pick insn 5 2))))
        (sint (Pick insn 2 3) + 8)
        (sint (Pick insn 7 3) + 8))
     else Inl ProcessExit)"

definition DecodeOperandCS :: "uint16 \<Rightarrow> int \<Rightarrow> Operand result" where
  "DecodeOperandCS insn accessSize = (if accessSize = 4 then Inr (OperandCS
        (ZeroExtend 7 (scast (push_bit 3 (Pick insn 10 3) OR push_bit 2 (Pick insn 6 1) OR push_bit 6 (Pick insn 5 1))))
        (sint (Pick insn 7 3) + 8)
        (sint (Pick insn 2 3) + 8))
     else if accessSize = 8 then Inr (OperandCS
        (ZeroExtend 8 (scast (push_bit 3 (Pick insn 10 3) OR push_bit 6 (Pick insn 5 2))))
        (sint (Pick insn 7 3) + 8)
        (sint (Pick insn 2 3) + 8))
     else if accessSize = 16 then Inr (OperandCS
        (ZeroExtend 9 (scast (push_bit 4 (Pick insn 11 2) OR push_bit 8 (Pick insn 10 1) OR push_bit 6 (Pick insn 5 2))))
        (sint (Pick insn 7 3) + 8)
        (sint (Pick insn 2 3) + 8))
     else Inl ProcessExit)"

definition DecodeOperandCB :: "uint16 \<Rightarrow> Operand" where
  "DecodeOperandCB insn = OperandCB
     (SignExtend 9 (scast (push_bit 8 (Pick insn 12 1) OR push_bit 3 (Pick insn 10 2) OR push_bit 6 (Pick insn 5 2) OR push_bit 1 (Pick insn 3 2) OR push_bit 5 (Pick insn 2 1))))
     (sint (Pick insn 7 3) + 8)"

definition DecodeOperandCJ :: "uint16 \<Rightarrow> Operand" where
  "DecodeOperandCJ insn = OperandCJ
     (SignExtend 12 (scast (push_bit 11 (Pick insn 12 1) OR push_bit 4 (Pick insn 11 1) OR push_bit 8 (Pick insn 9 2) OR push_bit 10 (Pick insn 8 1) OR push_bit 6 (Pick insn 7 1) OR push_bit 7 (Pick insn 6 1) OR push_bit 1 (Pick insn 3 3) OR push_bit 5 (Pick insn 2 1))))"

section \<open>Operation codes\<close>

text \<open>The switch on the width at the head of each method.\<close>

definition select_class :: "XLEN \<Rightarrow> OpClass \<Rightarrow> OpClass \<Rightarrow> OpClass result" where
  "select_class xlen c32 c64 =
     (case xlen of XLEN32 \<Rightarrow> Inr c32 | XLEN64 \<Rightarrow> Inr c64 | XLEN128 \<Rightarrow> Inl ProcessExit)"

text \<open>The longer cases of the switch in \<open>DecodeI\<close>.\<close>

abbreviation DecodeI_Load ::
    "OpClass \<Rightarrow> uint32 \<Rightarrow> uint32 \<Rightarrow> Op result" where
  "DecodeI_Load cls funct3 insn \<equiv>
    (if funct3 = 0 then Inr (mk_op cls (rvi op_lb) (DecodeOperandI insn))
        else if funct3 = 1 then Inr (mk_op cls (rvi op_lh) (DecodeOperandI insn))
        else if funct3 = 2 then Inr (mk_op cls (rvi op_lw) (DecodeOperandI insn))
        else if funct3 = 3 \<and> cls = RV64I then Inr (mk_op cls (rvi op_ld) (DecodeOperandI insn))
        else if funct3 = 4 then Inr (mk_op cls (rvi op_lbu) (DecodeOperandI insn))
        else if funct3 = 5 then Inr (mk_op cls (rvi op_lhu) (DecodeOperandI insn))
        else if funct3 = 6 \<and> cls = RV64I then Inr (mk_op cls (rvi op_lwu) (DecodeOperandI insn))
        else Inr (mk_op cls op_unknown OperandNone))"

abbreviation DecodeI_Store ::
    "OpClass \<Rightarrow> uint32 \<Rightarrow> uint32 \<Rightarrow> Op result" where
  "DecodeI_Store cls funct3 insn \<equiv>
    (if funct3 = 0 then Inr (mk_op cls (rvi op_sb) (DecodeOperandS insn))
        else if funct3 = 1 then Inr (mk_op cls (rvi op_sh) (DecodeOperandS insn))
        else if funct3 = 2 then Inr (mk_op cls (rvi op_sw) (DecodeOperandS insn))
        else if funct3 = 3 \<and> cls = RV64I then Inr (mk_op cls (rvi op_sd) (DecodeOperandS insn))
        else Inr (mk_op cls op_unknown OperandNone))"

abbreviation DecodeI_AluImm ::
    "OpClass \<Rightarrow> uint32 \<Rightarrow> uint32 \<Rightarrow> uint32 \<Rightarrow> uint32 \<Rightarrow> Op result" where
  "DecodeI_AluImm cls funct3 funct6 funct7 insn \<equiv>
    (if funct3 = 0 then Inr (mk_op cls (rvi op_addi) (DecodeOperandI insn))
        else if funct3 = 1 \<and> cls = RV32I \<and> funct7 = 0b0000000 then Inr (mk_op cls (rvi op_slli) (DecodeOperandShiftImm_32 insn))
        else if funct3 = 1 \<and> cls = RV64I \<and> funct6 = 0b000000 then Inr (mk_op cls (rvi op_slli) (DecodeOperandShiftImm_64 insn))
        else if funct3 = 2 then Inr (mk_op cls (rvi op_slti) (DecodeOperandI insn))
        else if funct3 = 3 then Inr (mk_op cls (rvi op_sltiu) (DecodeOperandI insn))
        else if funct3 = 4 then Inr (mk_op cls (rvi op_xori) (DecodeOperandI insn))
        else if funct3 = 5 \<and> cls = RV32I \<and> funct7 = 0b0000000 then Inr (mk_op cls (rvi op_srli) (DecodeOperandShiftImm_32 insn))
        else if funct3 = 5 \<and> cls = RV32I \<and> funct7 = 0b0100000 then Inr (mk_op cls (rvi op_srai) (DecodeOperandShiftImm_32 insn))
        else if funct3 = 5 \<and> cls = RV64I \<and> funct6 = 0b000000 then Inr (mk_op cls (rvi op_srli) (DecodeOperandShiftImm_64 insn))
        else if funct3 = 5 \<and> cls = RV64I \<and> funct6 = 0b010000 then Inr (mk_op cls (rvi op_srai) (DecodeOperandShiftImm_64 insn))
        else if funct3 = 6 then Inr (mk_op cls (rvi op_ori) (DecodeOperandI insn))
        else if funct3 = 7 then Inr (mk_op cls (rvi op_andi) (DecodeOperandI insn))
        else Inr (mk_op cls op_unknown OperandNone))"

abbreviation DecodeI_Alu ::
    "OpClass \<Rightarrow> uint32 \<Rightarrow> uint32 \<Rightarrow> uint32 \<Rightarrow> Op result" where
  "DecodeI_Alu cls funct3 funct7 insn \<equiv>
    (if funct7 = 0b0000000 then 
          (if funct3 = 0 then Inr (mk_op cls (rvi op_add) (DecodeOperandR insn))
          else if funct3 = 1 then Inr (mk_op cls (rvi op_sll) (DecodeOperandR insn))
          else if funct3 = 2 then Inr (mk_op cls (rvi op_slt) (DecodeOperandR insn))
          else if funct3 = 3 then Inr (mk_op cls (rvi op_sltu) (DecodeOperandR insn))
          else if funct3 = 4 then Inr (mk_op cls (rvi op_xor) (DecodeOperandR insn))
          else if funct3 = 5 then Inr (mk_op cls (rvi op_srl) (DecodeOperandR insn))
          else if funct3 = 6 then Inr (mk_op cls (rvi op_or) (DecodeOperandR insn))
          else if funct3 = 7 then Inr (mk_op cls (rvi op_and) (DecodeOperandR insn))
          else Inr (mk_op cls op_unknown OperandNone))
        else if funct7 = 0b0100000 then 
          (if funct3 = 0 then Inr (mk_op cls (rvi op_sub) (DecodeOperandR insn))
          else if funct3 = 5 then Inr (mk_op cls (rvi op_sra) (DecodeOperandR insn))
          else Inr (mk_op cls op_unknown OperandNone))
        else Inr (mk_op cls op_unknown OperandNone))"

abbreviation DecodeI_AluImmWord ::
    "OpClass \<Rightarrow> uint32 \<Rightarrow> uint32 \<Rightarrow> uint32 \<Rightarrow> Op result" where
  "DecodeI_AluImmWord cls funct3 funct7 insn \<equiv>
    (if cls = RV64I \<and> funct3 = 0b000 then Inr (mk_op cls (rvi op_addiw) (DecodeOperandI insn))
        else if cls = RV64I \<and> funct3 = 0b001 \<and> funct7 = 0b0000000 then Inr (mk_op cls (rvi op_slliw) (DecodeOperandShiftImm_32 insn))
        else if cls = RV64I \<and> funct3 = 0b101 \<and> funct7 = 0b0000000 then Inr (mk_op cls (rvi op_srliw) (DecodeOperandShiftImm_32 insn))
        else if cls = RV64I \<and> funct3 = 0b101 \<and> funct7 = 0b0100000 then Inr (mk_op cls (rvi op_sraiw) (DecodeOperandShiftImm_32 insn))
        else Inr (mk_op cls op_unknown OperandNone))"

abbreviation DecodeI_AluWord ::
    "OpClass \<Rightarrow> uint32 \<Rightarrow> uint32 \<Rightarrow> uint32 \<Rightarrow> Op result" where
  "DecodeI_AluWord cls funct3 funct7 insn \<equiv>
    (if cls = RV64I \<and> funct3 = 0b000 \<and> funct7 = 0b0000000 then Inr (mk_op cls (rvi op_addw) (DecodeOperandR insn))
        else if cls = RV64I \<and> funct3 = 0b000 \<and> funct7 = 0b0100000 then Inr (mk_op cls (rvi op_subw) (DecodeOperandR insn))
        else if cls = RV64I \<and> funct3 = 0b001 \<and> funct7 = 0b0000000 then Inr (mk_op cls (rvi op_sllw) (DecodeOperandR insn))
        else if cls = RV64I \<and> funct3 = 0b101 \<and> funct7 = 0b0000000 then Inr (mk_op cls (rvi op_srlw) (DecodeOperandR insn))
        else if cls = RV64I \<and> funct3 = 0b101 \<and> funct7 = 0b0100000 then Inr (mk_op cls (rvi op_sraw) (DecodeOperandR insn))
        else Inr (mk_op cls op_unknown OperandNone))"

abbreviation DecodeI_Fence ::
    "OpClass \<Rightarrow> uint32 \<Rightarrow> uint32 \<Rightarrow> uint32 \<Rightarrow> uint32 \<Rightarrow> uint32 \<Rightarrow> Op result" where
  "DecodeI_Fence cls funct3 funct12 rd rs1 insn \<equiv>
    (if funct3 = 0 \<and> rd = 0 \<and> rs1 = 0 \<and> Pick insn 28 4 = 0 then Inr (mk_op cls (rvi op_fence) (DecodeOperandFence insn))
        else if funct3 = 1 \<and> rd = 0 \<and> rs1 = 0 \<and> funct12 = 0 then Inr (mk_op cls (rvi op_fence_i) (DecodeOperandFence insn))
        else Inr (mk_op cls op_unknown OperandNone))"

abbreviation DecodeI_System ::
    "OpClass \<Rightarrow> uint32 \<Rightarrow> uint32 \<Rightarrow> uint32 \<Rightarrow> uint32 \<Rightarrow> uint32 \<Rightarrow> uint32 \<Rightarrow> Op result" where
  "DecodeI_System cls funct3 funct7 funct12 rd rs1 insn \<equiv>
    (if funct3 = 0 \<and> rd = 0 then 
          (if funct7 = 0b0001001 then Inr (mk_op cls (rvi op_sfence_vma) (DecodeOperandR insn))
          else if rs1 = 0 then 
            (if funct12 = 0b000000000000 then Inr (mk_op cls (rvi op_ecall) OperandNone)
            else if funct12 = 0b000000000001 then Inr (mk_op cls (rvi op_ebreak) OperandNone)
            else if funct12 = 0b000000000010 then Inr (mk_op cls (rvi op_uret) OperandNone)
            else if funct12 = 0b000100000010 then Inr (mk_op cls (rvi op_sret) OperandNone)
            else if funct12 = 0b000100000101 then Inr (mk_op cls (rvi op_wfi) OperandNone)
            else if funct12 = 0b001100000010 then Inr (mk_op cls (rvi op_mret) OperandNone)
            else Inr (mk_op cls op_unknown OperandNone))
          else Inr (mk_op cls op_unknown OperandNone))
        else if funct3 = 1 then Inr (mk_op cls (rvi op_csrrw) (DecodeOperandCsr insn))
        else if funct3 = 2 then Inr (mk_op cls (rvi op_csrrs) (DecodeOperandCsr insn))
        else if funct3 = 3 then Inr (mk_op cls (rvi op_csrrc) (DecodeOperandCsr insn))
        else if funct3 = 5 then Inr (mk_op cls (rvi op_csrrwi) (DecodeOperandCsrImm insn))
        else if funct3 = 6 then Inr (mk_op cls (rvi op_csrrsi) (DecodeOperandCsrImm insn))
        else if funct3 = 7 then Inr (mk_op cls (rvi op_csrrci) (DecodeOperandCsrImm insn))
        else Inr (mk_op cls op_unknown OperandNone))"

definition DecodeI :: "XLEN \<Rightarrow> uint32 \<Rightarrow> Op result" where
  "DecodeI xlen insn = rbind (select_class xlen RV32I RV64I) (\<lambda>opClass.
     let opcode = Pick insn 0 7 in
     let funct3 = Pick insn 12 3 in
     let funct6 = Pick insn 26 6 in
     let funct7 = Pick insn 25 7 in
     let funct12 = Pick insn 20 12 in
     let rd = Pick insn 7 5 in
     let rs1 = Pick insn 15 5 in
     if opcode = 0b0110111 then Inr (mk_op opClass (rvi op_lui) (DecodeOperandU insn))
      else if opcode = 0b0010111 then Inr (mk_op opClass (rvi op_auipc) (DecodeOperandU insn))
      else if opcode = 0b1101111 then Inr (mk_op opClass (rvi op_jal) (DecodeOperandJ insn))
      else if opcode = 0b1100111 then 
        (if funct3 = 0 then Inr (mk_op opClass (rvi op_jalr) (DecodeOperandI insn))
        else Inr (mk_op opClass op_unknown OperandNone))
      else if opcode = 0b1100011 then 
        (if funct3 = 0 then Inr (mk_op opClass (rvi op_beq) (DecodeOperandB insn))
        else if funct3 = 1 then Inr (mk_op opClass (rvi op_bne) (DecodeOperandB insn))
        else if funct3 = 4 then Inr (mk_op opClass (rvi op_blt) (DecodeOperandB insn))
        else if funct3 = 5 then Inr (mk_op opClass (rvi op_bge) (DecodeOperandB insn))
        else if funct3 = 6 then Inr (mk_op opClass (rvi op_bltu) (DecodeOperandB insn))
        else if funct3 = 7 then Inr (mk_op opClass (rvi op_bgeu) (DecodeOperandB insn))
        else Inr (mk_op opClass op_unknown OperandNone))
      else if opcode = 0b0000011 then 
        DecodeI_Load opClass funct3 insn
      else if opcode = 0b0100011 then 
        DecodeI_Store opClass funct3 insn
      else if opcode = 0b0010011 then 
        DecodeI_AluImm opClass funct3 funct6 funct7 insn
      else if opcode = 0b0110011 then 
        DecodeI_Alu opClass funct3 funct7 insn
      else if opcode = 0b0011011 then 
        DecodeI_AluImmWord opClass funct3 funct7 insn
      else if opcode = 0b0111011 then 
        DecodeI_AluWord opClass funct3 funct7 insn
      else if opcode = 0b0001111 then 
        DecodeI_Fence opClass funct3 funct12 rd rs1 insn
      else if opcode = 0b1110011 then 
        DecodeI_System opClass funct3 funct7 funct12 rd rs1 insn
      else Inr (mk_op opClass op_unknown OperandNone))"

definition DecodeM :: "XLEN \<Rightarrow> uint32 \<Rightarrow> Op result" where
  "DecodeM xlen insn = rbind (select_class xlen RV32M RV64M) (\<lambda>opClass.
     let opcode = Pick insn 0 7 in
     let funct3 = Pick insn 12 3 in
     if opcode = 0b0110011 then 
        (if funct3 = 0b000 then Inr (mk_op opClass (rvm op_mul) (DecodeOperandR insn))
        else if funct3 = 0b001 then Inr (mk_op opClass (rvm op_mulh) (DecodeOperandR insn))
        else if funct3 = 0b010 then Inr (mk_op opClass (rvm op_mulhsu) (DecodeOperandR insn))
        else if funct3 = 0b011 then Inr (mk_op opClass (rvm op_mulhu) (DecodeOperandR insn))
        else if funct3 = 0b100 then Inr (mk_op opClass (rvm op_div) (DecodeOperandR insn))
        else if funct3 = 0b101 then Inr (mk_op opClass (rvm op_divu) (DecodeOperandR insn))
        else if funct3 = 0b110 then Inr (mk_op opClass (rvm op_rem) (DecodeOperandR insn))
        else Inr (mk_op opClass (rvm op_remu) (DecodeOperandR insn)))
      else if opcode = 0b0111011 then 
        (if opClass = RV64M \<and> funct3 = 0b000 then Inr (mk_op opClass (rvm op_mulw) (DecodeOperandR insn))
        else if opClass = RV64M \<and> funct3 = 0b100 then Inr (mk_op opClass (rvm op_divw) (DecodeOperandR insn))
        else if opClass = RV64M \<and> funct3 = 0b101 then Inr (mk_op opClass (rvm op_divuw) (DecodeOperandR insn))
        else if opClass = RV64M \<and> funct3 = 0b110 then Inr (mk_op opClass (rvm op_remw) (DecodeOperandR insn))
        else if opClass = RV64M \<and> funct3 = 0b111 then Inr (mk_op opClass (rvm op_remuw) (DecodeOperandR insn))
        else Inr (mk_op opClass op_unknown (DecodeOperandR insn)))
      else Inl ProcessExit)"

definition DecodeA :: "XLEN \<Rightarrow> uint32 \<Rightarrow> Op result" where
  "DecodeA xlen insn = rbind (select_class xlen RV32A RV64A) (\<lambda>opClass.
     let funct3 = Pick insn 12 3 in
     let funct5 = Pick insn 27 5 in
     let rs2 = Pick insn 20 5 in
     if funct3 = 0b010 then 
        (if funct5 = 0b00010 \<and> rs2 = 0b00000 then Inr (mk_op opClass (rva op_lr_w) (DecodeOperandR insn))
        else if funct5 = 0b00011 then Inr (mk_op opClass (rva op_sc_w) (DecodeOperandR insn))
        else if funct5 = 0b00001 then Inr (mk_op opClass (rva op_amoswap_w) (DecodeOperandR insn))
        else if funct5 = 0b00000 then Inr (mk_op opClass (rva op_amoadd_w) (DecodeOperandR insn))
        else if funct5 = 0b00100 then Inr (mk_op opClass (rva op_amoxor_w) (DecodeOperandR insn))
        else if funct5 = 0b01100 then Inr (mk_op opClass (rva op_amoand_w) (DecodeOperandR insn))
        else if funct5 = 0b01000 then Inr (mk_op opClass (rva op_amoor_w) (DecodeOperandR insn))
        else if funct5 = 0b10000 then Inr (mk_op opClass (rva op_amomin_w) (DecodeOperandR insn))
        else if funct5 = 0b10100 then Inr (mk_op opClass (rva op_amomax_w) (DecodeOperandR insn))
        else if funct5 = 0b11000 then Inr (mk_op opClass (rva op_amominu_w) (DecodeOperandR insn))
        else if funct5 = 0b11100 then Inr (mk_op opClass (rva op_amomaxu_w) (DecodeOperandR insn))
        else Inr (mk_op opClass op_unknown OperandNone))
      else if funct3 = 0b011 then 
        (if opClass = RV64A \<and> funct5 = 0b00010 \<and> rs2 = 0b00000 then Inr (mk_op opClass (rva op_lr_d) (DecodeOperandR insn))
        else if opClass = RV64A \<and> funct5 = 0b00011 then Inr (mk_op opClass (rva op_sc_d) (DecodeOperandR insn))
        else if opClass = RV64A \<and> funct5 = 0b00001 then Inr (mk_op opClass (rva op_amoswap_d) (DecodeOperandR insn))
        else if opClass = RV64A \<and> funct5 = 0b00000 then Inr (mk_op opClass (rva op_amoadd_d) (DecodeOperandR insn))
        else if opClass = RV64A \<and> funct5 = 0b00100 then Inr (mk_op opClass (rva op_amoxor_d) (DecodeOperandR insn))
        else if opClass = RV64A \<and> funct5 = 0b01100 then Inr (mk_op opClass (rva op_amoand_d) (DecodeOperandR insn))
        else if opClass = RV64A \<and> funct5 = 0b01000 then Inr (mk_op opClass (rva op_amoor_d) (DecodeOperandR insn))
        else if opClass = RV64A \<and> funct5 = 0b10000 then Inr (mk_op opClass (rva op_amomin_d) (DecodeOperandR insn))
        else if opClass = RV64A \<and> funct5 = 0b10100 then Inr (mk_op opClass (rva op_amomax_d) (DecodeOperandR insn))
        else if opClass = RV64A \<and> funct5 = 0b11000 then Inr (mk_op opClass (rva op_amominu_d) (DecodeOperandR insn))
        else if opClass = RV64A \<and> funct5 = 0b11100 then Inr (mk_op opClass (rva op_amomaxu_d) (DecodeOperandR insn))
        else Inr (mk_op opClass op_unknown OperandNone))
      else Inr (mk_op opClass op_unknown OperandNone))"

text \<open>The longer cases of the switch in \<open>DecodeF\<close>.\<close>

abbreviation DecodeF_Op ::
    "OpClass \<Rightarrow> uint32 \<Rightarrow> uint32 \<Rightarrow> uint32 \<Rightarrow> uint32 \<Rightarrow> Op result" where
  "DecodeF_Op cls funct3 funct7 rs2 insn \<equiv>
    (if funct7 = 0b0000000 then Inr (mk_op cls (rvf op_fadd_s) (DecodeOperandR insn))
        else if funct7 = 0b0000100 then Inr (mk_op cls (rvf op_fsub_s) (DecodeOperandR insn))
        else if funct7 = 0b0001000 then Inr (mk_op cls (rvf op_fmul_s) (DecodeOperandR insn))
        else if funct7 = 0b0001100 then Inr (mk_op cls (rvf op_fdiv_s) (DecodeOperandR insn))
        else if funct7 = 0b0101100 then 
          (if rs2 = 0b00000 then Inr (mk_op cls (rvf op_fsqrt_s) (DecodeOperandR insn))
          else Inr (mk_op cls op_unknown OperandNone))
        else if funct7 = 0b0010000 then 
          (if funct3 = 0b000 then Inr (mk_op cls (rvf op_fsgnj_s) (DecodeOperandR insn))
          else if funct3 = 0b001 then Inr (mk_op cls (rvf op_fsgnjn_s) (DecodeOperandR insn))
          else if funct3 = 0b010 then Inr (mk_op cls (rvf op_fsgnjx_s) (DecodeOperandR insn))
          else Inr (mk_op cls op_unknown OperandNone))
        else if funct7 = 0b0010100 then 
          (if funct3 = 0b000 then Inr (mk_op cls (rvf op_fmin_s) (DecodeOperandR insn))
          else if funct3 = 0b001 then Inr (mk_op cls (rvf op_fmax_s) (DecodeOperandR insn))
          else Inr (mk_op cls op_unknown OperandNone))
        else if funct7 = 0b1100000 then 
          (if rs2 = 0b00000 then Inr (mk_op cls (rvf op_fcvt_w_s) (DecodeOperandR insn))
          else if rs2 = 0b00001 then Inr (mk_op cls (rvf op_fcvt_wu_s) (DecodeOperandR insn))
          else if rs2 = 0b00010 \<and> cls = RV64F then Inr (mk_op cls (rvf op_fcvt_l_s) (DecodeOperandR insn))
          else if rs2 = 0b00011 \<and> cls = RV64F then Inr (mk_op cls (rvf op_fcvt_lu_s) (DecodeOperandR insn))
          else Inr (mk_op cls op_unknown OperandNone))
        else if funct7 = 0b1110000 then 
          (if rs2 = 0b00000 \<and> funct3 = 0b000 then Inr (mk_op cls (rvf op_fmv_x_w) (DecodeOperandR insn))
          else if rs2 = 0b00000 \<and> funct3 = 0b001 then Inr (mk_op cls (rvf op_fclass_s) (DecodeOperandR insn))
          else Inr (mk_op cls op_unknown OperandNone))
        else if funct7 = 0b1010000 then 
          (if funct3 = 0b000 then Inr (mk_op cls (rvf op_fle_s) (DecodeOperandR insn))
          else if funct3 = 0b001 then Inr (mk_op cls (rvf op_flt_s) (DecodeOperandR insn))
          else if funct3 = 0b010 then Inr (mk_op cls (rvf op_feq_s) (DecodeOperandR insn))
          else Inr (mk_op cls op_unknown OperandNone))
        else if funct7 = 0b1101000 then 
          (if rs2 = 0b00000 then Inr (mk_op cls (rvf op_fcvt_s_w) (DecodeOperandR insn))
          else if rs2 = 0b00001 then Inr (mk_op cls (rvf op_fcvt_s_wu) (DecodeOperandR insn))
          else if rs2 = 0b00010 \<and> cls = RV64F then Inr (mk_op cls (rvf op_fcvt_s_l) (DecodeOperandR insn))
          else if rs2 = 0b00011 \<and> cls = RV64F then Inr (mk_op cls (rvf op_fcvt_s_lu) (DecodeOperandR insn))
          else Inr (mk_op cls op_unknown OperandNone))
        else if funct7 = 0b1111000 then 
          (if rs2 = 0b00000 \<and> funct3 = 0b000 then Inr (mk_op cls (rvf op_fmv_w_x) (DecodeOperandR insn))
          else Inr (mk_op cls op_unknown OperandNone))
        else Inr (mk_op cls op_unknown OperandNone))"

definition DecodeF :: "XLEN \<Rightarrow> uint32 \<Rightarrow> Op result" where
  "DecodeF xlen insn = rbind (select_class xlen RV32F RV64F) (\<lambda>opClass.
     let opcode = Pick insn 0 7 in
     let funct3 = Pick insn 12 3 in
     let funct7 = Pick insn 25 7 in
     let rs2 = Pick insn 20 5 in
     if opcode = 0b0000111 then 
        (if funct3 = 0b010 then Inr (mk_op opClass (rvf op_flw) (DecodeOperandI insn))
        else Inr (mk_op opClass op_unknown OperandNone))
      else if opcode = 0b0100111 then 
        (if funct3 = 0b010 then Inr (mk_op opClass (rvf op_fsw) (DecodeOperandS insn))
        else Inr (mk_op opClass op_unknown OperandNone))
      else if opcode = 0b1000011 then Inr (mk_op opClass (rvf op_fmadd_s) (DecodeOperandR4 insn))
      else if opcode = 0b1000111 then Inr (mk_op opClass (rvf op_fmsub_s) (DecodeOperandR4 insn))
      else if opcode = 0b1001011 then Inr (mk_op opClass (rvf op_fnmsub_s) (DecodeOperandR4 insn))
      else if opcode = 0b1001111 then Inr (mk_op opClass (rvf op_fnmadd_s) (DecodeOperandR4 insn))
      else if opcode = 0b1010011 then 
        DecodeF_Op opClass funct3 funct7 rs2 insn
      else Inr (mk_op opClass op_unknown OperandNone))"

text \<open>The longer cases of the switch in \<open>DecodeD\<close>.\<close>

abbreviation DecodeD_Op ::
    "OpClass \<Rightarrow> uint32 \<Rightarrow> uint32 \<Rightarrow> uint32 \<Rightarrow> uint32 \<Rightarrow> Op result" where
  "DecodeD_Op cls funct3 funct7 rs2 insn \<equiv>
    (if funct7 = 0b0000001 then Inr (mk_op cls (rvd op_fadd_d) (DecodeOperandR insn))
        else if funct7 = 0b0000101 then Inr (mk_op cls (rvd op_fsub_d) (DecodeOperandR insn))
        else if funct7 = 0b0001001 then Inr (mk_op cls (rvd op_fmul_d) (DecodeOperandR insn))
        else if funct7 = 0b0001101 then Inr (mk_op cls (rvd op_fdiv_d) (DecodeOperandR insn))
        else if funct7 = 0b0101101 then 
          (if rs2 = 0b00000 then Inr (mk_op cls (rvd op_fsqrt_d) (DecodeOperandR insn))
          else Inr (mk_op cls op_unknown OperandNone))
        else if funct7 = 0b0010001 then 
          (if funct3 = 0b000 then Inr (mk_op cls (rvd op_fsgnj_d) (DecodeOperandR insn))
          else if funct3 = 0b001 then Inr (mk_op cls (rvd op_fsgnjn_d) (DecodeOperandR insn))
          else if funct3 = 0b010 then Inr (mk_op cls (rvd op_fsgnjx_d) (DecodeOperandR insn))
          else Inr (mk_op cls op_unknown OperandNone))
        else if funct7 = 0b0010101 then 
          (if funct3 = 0b000 then Inr (mk_op cls (rvd op_fmin_d) (DecodeOperandR insn))
          else if funct3 = 0b001 then Inr (mk_op cls (rvd op_fmax_d) (DecodeOperandR insn))
          else Inr (mk_op cls op_unknown OperandNone))
        else if funct7 = 0b0100000 then 
          (if rs2 = 0b00001 then Inr (mk_op cls (rvd op_fcvt_s_d) (DecodeOperandR insn))
          else Inr (mk_op cls op_unknown OperandNone))
        else if funct7 = 0b0100001 then 
          (if rs2 = 0b00000 then Inr (mk_op cls (rvd op_fcvt_d_s) (DecodeOperandR insn))
          else Inr (mk_op cls op_unknown OperandNone))
        else if funct7 = 0b1010001 then 
          (if funct3 = 0b000 then Inr (mk_op cls (rvd op_fle_d) (DecodeOperandR insn))
          else if funct3 = 0b001 then Inr (mk_op cls (rvd op_flt_d) (DecodeOperandR insn))
          else if funct3 = 0b010 then Inr (mk_op cls (rvd op_feq_d) (DecodeOperandR insn))
          else Inr (mk_op cls op_unknown OperandNone))
        else if funct7 = 0b1110001 then 
          (if rs2 = 0b00000 \<and> funct3 = 0b000 then Inr (mk_op cls (rvd op_fmv_x_d) (DecodeOperandR insn))
          else if rs2 = 0b00000 \<and> funct3 = 0b001 then Inr (mk_op cls (rvd op_fclass_d) (DecodeOperandR insn))
          else Inr (mk_op cls op_unknown OperandNone))
        else if funct7 = 0b1100001 then 
          (if rs2 = 0b00000 then Inr (mk_op cls (rvd op_fcvt_w_d) (DecodeOperandR insn))
          else if rs2 = 0b00001 then Inr (mk_op cls (rvd op_fcvt_wu_d) (DecodeOperandR insn))
          else if rs2 = 0b00010 then Inr (mk_op cls (rvd op_fcvt_l_d) (DecodeOperandR insn))
          else if rs2 = 0b00011 then Inr (mk_op cls (rvd op_fcvt_lu_d) (DecodeOperandR insn))
          else Inr (mk_op cls op_unknown OperandNone))
        else if funct7 = 0b1101001 then 
          (if rs2 = 0b00000 then Inr (mk_op cls (rvd op_fcvt_d_w) (DecodeOperandR insn))
          else if rs2 = 0b00001 then Inr (mk_op cls (rvd op_fcvt_d_wu) (DecodeOperandR insn))
          else if rs2 = 0b00010 then Inr (mk_op cls (rvd op_fcvt_d_l) (DecodeOperandR insn))
          else if rs2 = 0b00011 then Inr (mk_op cls (rvd op_fcvt_d_lu) (DecodeOperandR insn))
          else Inr (mk_op cls op_unknown OperandNone))
        else if funct7 = 0b1111001 then 
          (if rs2 = 0b00000 \<and> funct3 = 0b000 then Inr (mk_op cls (rvd op_fmv_d_x) (DecodeOperandR insn))
          else Inr (mk_op cls op_unknown OperandNone))
        else Inr (mk_op cls op_unknown OperandNone))"

definition DecodeD :: "XLEN \<Rightarrow> uint32 \<Rightarrow> Op result" where
  "DecodeD xlen insn = rbind (select_class xlen RV32D RV64D) (\<lambda>opClass.
     let opcode = Pick insn 0 7 in
     let funct3 = Pick insn 12 3 in
     let funct7 = Pick insn 25 7 in
     let rs2 = Pick insn 20 5 in
     if opcode = 0b0000111 then 
        (if funct3 = 0b011 then Inr (mk_op opClass (rvd op_fld) (DecodeOperandI insn))
        else Inr (mk_op opClass op_unknown OperandNone))
      else if opcode = 0b0100111 then 
        (if funct3 = 0b011 then Inr (mk_op opClass (rvd op_fsd) (DecodeOperandS insn))
        else Inr (mk_op opClass op_unknown OperandNone))
      else if opcode = 0b1000011 then Inr (mk_op opClass (rvd op_fmadd_d) (DecodeOperandR4 insn))
      else if opcode = 0b1000111 then Inr (mk_op opClass (rvd op_fmsub_d) (DecodeOperandR4 insn))
      else if opcode = 0b1001011 then Inr (mk_op opClass (rvd op_fnmsub_d) (DecodeOperandR4 insn))
      else if opcode = 0b1001111 then Inr (mk_op opClass (rvd op_fnmadd_d) (DecodeOperandR4 insn))
      else if opcode = 0b1010011 then 
        DecodeD_Op opClass funct3 funct7 rs2 insn
      else Inr (mk_op opClass op_unknown OperandNone))"

text \<open>The longer cases of the switch in \<open>DecodeC\<close>.\<close>

abbreviation DecodeC_Quadrant0 ::
    "OpClass \<Rightarrow> uint32 \<Rightarrow> uint16 \<Rightarrow> Op result" where
  "DecodeC_Quadrant0 cls funct3 insn \<equiv>
    (if funct3 = 0b000 \<and> Pick insn 5 8 \<noteq> 0 then Inr (mk_op cls (rvc op_c_addi4spn) (DecodeOperandCIW insn))
        else if funct3 = 0b001 then rbind (DecodeOperandCL insn 8) (\<lambda>od. Inr (mk_op cls (rvc op_c_fld) od))
        else if funct3 = 0b010 then rbind (DecodeOperandCL insn 4) (\<lambda>od. Inr (mk_op cls (rvc op_c_lw) od))
        else if funct3 = 0b011 \<and> cls = RV32C then rbind (DecodeOperandCL insn 4) (\<lambda>od. Inr (mk_op cls (rvc op_c_flw) od))
        else if funct3 = 0b011 \<and> cls = RV64C then rbind (DecodeOperandCL insn 8) (\<lambda>od. Inr (mk_op cls (rvc op_c_ld) od))
        else if funct3 = 0b101 then rbind (DecodeOperandCS insn 8) (\<lambda>od. Inr (mk_op cls (rvc op_c_fsd) od))
        else if funct3 = 0b110 then rbind (DecodeOperandCS insn 4) (\<lambda>od. Inr (mk_op cls (rvc op_c_sw) od))
        else if funct3 = 0b111 \<and> cls = RV32C then rbind (DecodeOperandCS insn 4) (\<lambda>od. Inr (mk_op cls (rvc op_c_fsw) od))
        else if funct3 = 0b111 \<and> cls = RV64C then rbind (DecodeOperandCS insn 8) (\<lambda>od. Inr (mk_op cls (rvc op_c_sd) od))
        else Inr (mk_op cls op_unknown OperandNone))"

abbreviation DecodeC_Quadrant1 ::
    "OpClass \<Rightarrow> uint32 \<Rightarrow> uint32 \<Rightarrow> uint32 \<Rightarrow> uint32 \<Rightarrow> uint32 \<Rightarrow> uint32 \<Rightarrow> uint16 \<Rightarrow> Op result" where
  "DecodeC_Quadrant1 cls funct2_rs1 funct2_rs2 funct3 funct4 rd rs2 insn \<equiv>
    (if funct4 = 0b0000 \<and> rd = 0 \<and> rs2 = 0 then Inr (mk_op cls (rvc op_c_nop) OperandNone)
        else if funct3 = 0b000 then Inr (mk_op cls (rvc op_c_addi) (DecodeOperandCI insn True))
        else if funct3 = 0b001 \<and> cls = RV32C then Inr (mk_op cls (rvc op_c_jal) (DecodeOperandCJ insn))
        else if funct3 = 0b001 \<and> cls = RV64C \<and> rd \<noteq> 0 then Inr (mk_op cls (rvc op_c_addiw) (DecodeOperandCI insn True))
        else if funct3 = 0b010 \<and> rd \<noteq> 0 then Inr (mk_op cls (rvc op_c_li) (DecodeOperandCI insn True))
        else if funct3 = 0b011 \<and> rd = 2 then Inr (mk_op cls (rvc op_c_addi16sp) (DecodeOperandCI_ADDI16SP insn))
        else if funct3 = 0b011 \<and> rd \<noteq> 0 \<and> rd \<noteq> 2 then Inr (mk_op cls (rvc op_c_lui) (DecodeOperandCI_LUI insn))
        else if funct3 = 0b100 \<and> funct2_rs1 = 0b00 then Inr (mk_op cls (rvc op_c_srli) (DecodeOperandCI_AluImm insn False))
        else if funct3 = 0b100 \<and> funct2_rs1 = 0b01 then Inr (mk_op cls (rvc op_c_srai) (DecodeOperandCI_AluImm insn False))
        else if funct3 = 0b100 \<and> funct2_rs1 = 0b10 then Inr (mk_op cls (rvc op_c_andi) (DecodeOperandCI_AluImm insn True))
        else if funct4 = 0b1000 \<and> funct2_rs1 = 0b11 \<and> funct2_rs2 = 0b00 then Inr (mk_op cls (rvc op_c_sub) (DecodeOperandCR_Alu insn))
        else if funct4 = 0b1000 \<and> funct2_rs1 = 0b11 \<and> funct2_rs2 = 0b01 then Inr (mk_op cls (rvc op_c_xor) (DecodeOperandCR_Alu insn))
        else if funct4 = 0b1000 \<and> funct2_rs1 = 0b11 \<and> funct2_rs2 = 0b10 then Inr (mk_op cls (rvc op_c_or) (DecodeOperandCR_Alu insn))
        else if funct4 = 0b1000 \<and> funct2_rs1 = 0b11 \<and> funct2_rs2 = 0b11 then Inr (mk_op cls (rvc op_c_and) (DecodeOperandCR_Alu insn))
        else if funct4 = 0b1001 \<and> funct2_rs1 = 0b11 \<and> funct2_rs2 = 0b00 then Inr (mk_op cls (rvc op_c_subw) (DecodeOperandCR_Alu insn))
        else if funct4 = 0b1001 \<and> funct2_rs1 = 0b11 \<and> funct2_rs2 = 0b01 then Inr (mk_op cls (rvc op_c_addw) (DecodeOperandCR_Alu insn))
        else if funct3 = 0b101 then Inr (mk_op cls (rvc op_c_j) (DecodeOperandCJ insn))
        else if funct3 = 0b110 then Inr (mk_op cls (rvc op_c_beqz) (DecodeOperandCB insn))
        else if funct3 = 0b111 then Inr (mk_op cls (rvc op_c_bnez) (DecodeOperandCB insn))
        else Inr (mk_op cls op_unknown OperandNone))"

abbreviation DecodeC_Quadrant2 ::
    "OpClass \<Rightarrow> uint32 \<Rightarrow> uint32 \<Rightarrow> uint32 \<Rightarrow> uint32 \<Rightarrow> uint32 \<Rightarrow> uint16 \<Rightarrow> Op result" where
  "DecodeC_Quadrant2 cls funct3 funct4 rd rs1 rs2 insn \<equiv>
    (if funct3 = 0b000 then Inr (mk_op cls (rvc op_c_slli) (DecodeOperandCI insn True))
        else if funct3 = 0b001 then rbind (DecodeOperandCI_LoadSP insn 8) (\<lambda>od. Inr (mk_op cls (rvc op_c_fldsp) od))
        else if funct3 = 0b010 \<and> rd \<noteq> 0 then rbind (DecodeOperandCI_LoadSP insn 4) (\<lambda>od. Inr (mk_op cls (rvc op_c_lwsp) od))
        else if funct3 = 0b011 \<and> cls = RV32C then rbind (DecodeOperandCI_LoadSP insn 4) (\<lambda>od. Inr (mk_op cls (rvc op_c_flwsp) od))
        else if funct3 = 0b011 \<and> cls = RV64C \<and> rd \<noteq> 0 then rbind (DecodeOperandCI_LoadSP insn 8) (\<lambda>od. Inr (mk_op cls (rvc op_c_ldsp) od))
        else if funct4 = 0b1000 \<and> rs1 \<noteq> 0 \<and> rs2 = 0 then Inr (mk_op cls (rvc op_c_jr) (DecodeOperandCR insn))
        else if funct4 = 0b1000 \<and> rd \<noteq> 0 \<and> rs2 \<noteq> 0 then Inr (mk_op cls (rvc op_c_mv) (DecodeOperandCR insn))
        else if funct4 = 0b1001 \<and> rd = 0 \<and> rs2 = 0 then Inr (mk_op cls (rvc op_c_ebreak) (DecodeOperandCR insn))
        else if funct4 = 0b1001 \<and> rs1 \<noteq> 0 \<and> rs2 = 0 then Inr (mk_op cls (rvc op_c_jalr) (DecodeOperandCR insn))
        else if funct4 = 0b1001 \<and> rs1 \<noteq> 0 \<and> rs2 \<noteq> 0 then Inr (mk_op cls (rvc op_c_add) (DecodeOperandCR insn))
        else if funct3 = 0b101 then rbind (DecodeOperandCSS insn 8) (\<lambda>od. Inr (mk_op cls (rvc op_c_fsdsp) od))
        else if funct3 = 0b110 then rbind (DecodeOperandCSS insn 4) (\<lambda>od. Inr (mk_op cls (rvc op_c_swsp) od))
        else if funct3 = 0b111 \<and> cls = RV32C then rbind (DecodeOperandCSS insn 4) (\<lambda>od. Inr (mk_op cls (rvc op_c_fswsp) od))
        else if funct3 = 0b111 \<and> cls = RV64C then rbind (DecodeOperandCSS insn 8) (\<lambda>od. Inr (mk_op cls (rvc op_c_sdsp) od))
        else Inr (mk_op cls op_unknown OperandNone))"

definition DecodeC :: "XLEN \<Rightarrow> uint16 \<Rightarrow> Op result" where
  "DecodeC xlen insn = rbind (select_class xlen RV32C RV64C) (\<lambda>opClass.
     let opcode = Pick insn 0 2 in
     let funct4 = Pick insn 12 4 in
     let funct3 = Pick insn 13 3 in
     let funct2_rs1 = Pick insn 10 2 in
     let funct2_rs2 = Pick insn 5 2 in
     let rd = Pick insn 7 5 in
     let rs1 = Pick insn 7 5 in
     let rs2 = Pick insn 2 5 in
     if opcode = 0b00 then 
        DecodeC_Quadrant0 opClass funct3 insn
      else if opcode = 0b01 then 
        DecodeC_Quadrant1 opClass funct2_rs1 funct2_rs2 funct3 funct4 rd rs2 insn
      else if opcode = 0b10 then 
        DecodeC_Quadrant2 opClass funct3 funct4 rd rs1 rs2 insn
      else Inr (mk_op opClass op_unknown OperandNone))"

definition Decode :: "XLEN \<Rightarrow> uint32 \<Rightarrow> Op result" where
  "Decode xlen insn = (
     let opcode = Pick insn 0 7 in
     let funct3 = Pick insn 12 3 in
     let funct7 = Pick insn 25 7 in
     let funct2 = Pick insn 25 2 in
     if IsCompressedInstruction32 insn then DecodeC xlen (ucast insn)
     else if (opcode = 0b0110011 \<and> funct7 = 0b0000001)
       \<or> (opcode = 0b0111011 \<and> funct7 = 0b0000001) then DecodeM xlen insn
     else if (opcode = 0b0101111 \<and> funct3 = 0b010)
       \<or> (opcode = 0b0101111 \<and> funct3 = 0b011) then DecodeA xlen insn
     else if (opcode = 0b0000111 \<and> funct3 = 0b010)
       \<or> (opcode = 0b0100111 \<and> funct3 = 0b010)
       \<or> (opcode = 0b1000011 \<and> funct2 = 0b00)
       \<or> (opcode = 0b1000111 \<and> funct2 = 0b00)
       \<or> (opcode = 0b1001011 \<and> funct2 = 0b00)
       \<or> (opcode = 0b1001111 \<and> funct2 = 0b00)
       \<or> (opcode = 0b1010011 \<and> funct2 = 0b00 \<and> \<not> (funct7 = 0b0100000)) then DecodeF xlen insn
     else if (opcode = 0b0000111 \<and> funct3 = 0b011)
       \<or> (opcode = 0b0100111 \<and> funct3 = 0b011)
       \<or> (opcode = 0b1000011 \<and> funct2 = 0b01)
       \<or> (opcode = 0b1000111 \<and> funct2 = 0b01)
       \<or> (opcode = 0b1001011 \<and> funct2 = 0b01)
       \<or> (opcode = 0b1001111 \<and> funct2 = 0b01)
       \<or> (opcode = 0b1010011 \<and> funct2 = 0b01)
       \<or> (opcode = 0b1010011 \<and> funct7 = 0b0100000) then DecodeD xlen insn
     else DecodeI xlen insn)"

definition Decode16 :: "XLEN \<Rightarrow> uint16 \<Rightarrow> Op result" where
  "Decode16 xlen insn = DecodeC xlen insn"

end
