(* ===== verification/DecoderLaws.thy ===== *)
theory DecoderLaws
  imports Decoder
begin

text \<open>
  What the decoder promises to the executor: it is total on both widths, and the operand of every
  operation it returns is of the alternative the executor reads, with register numbers in range.
\<close>

section \<open>The operand an operation carries\<close>

datatype operand_kind = KR | KR4 | KI | KS | KB | KU | KJ | KShiftImm | KCsr | KCsrImm | KCR | KCI | KCSS
  | KCIW | KCL | KCS | KCB | KCJ | KNone

fun kind_of :: "Operand \<Rightarrow> operand_kind" where
  "kind_of (OperandR _ _ _ _ _) = KR"
| "kind_of (OperandR4 _ _ _ _ _ _) = KR4"
| "kind_of (OperandI _ _ _ _) = KI"
| "kind_of (OperandS _ _ _ _) = KS"
| "kind_of (OperandB _ _ _ _) = KB"
| "kind_of (OperandU _ _) = KU"
| "kind_of (OperandJ _ _) = KJ"
| "kind_of (OperandShiftImm _ _ _) = KShiftImm"
| "kind_of (OperandCsr _ _ _) = KCsr"
| "kind_of (OperandCsrImm _ _ _) = KCsrImm"
| "kind_of (OperandFence _ _) = KNone"
| "kind_of (OperandCR _ _ _) = KCR"
| "kind_of (OperandCI _ _ _) = KCI"
| "kind_of (OperandCSS _ _) = KCSS"
| "kind_of (OperandCIW _ _) = KCIW"
| "kind_of (OperandCL _ _ _) = KCL"
| "kind_of (OperandCS _ _ _) = KCS"
| "kind_of (OperandCB _ _) = KCB"
| "kind_of (OperandCJ _) = KCJ"
| "kind_of OperandNone = KNone"

text \<open>The alternative the executor asks for. \<open>KNone\<close>: it asks for none.\<close>

definition kind_of_I :: "OpCodeI \<Rightarrow> operand_kind" where
  "kind_of_I c =
    (if c \<in> {op_lui, op_auipc} then KU
     else if c = op_jal then KJ
     else if c \<in> {op_beq, op_bne, op_blt, op_bge, op_bltu, op_bgeu} then KB
     else if c \<in> {op_lb, op_lh, op_lw, op_ld, op_lbu, op_lhu, op_lwu, op_addi, op_slti, op_sltiu, op_xori,
       op_ori, op_andi, op_jalr, op_addiw} then KI
     else if c \<in> {op_sb, op_sh, op_sw, op_sd} then KS
     else if c \<in> {op_slli, op_srli, op_srai, op_slliw, op_srliw, op_sraiw} then KShiftImm
     else if c \<in> {op_csrrw, op_csrrs, op_csrrc} then KCsr
     else if c \<in> {op_csrrwi, op_csrrsi, op_csrrci} then KCsrImm
     else if c \<in> {op_fence, op_fence_i, op_sfence_vma, op_ecall, op_ebreak, op_uret, op_sret, op_mret, op_wfi}
       then KNone
     else KR)"

definition kind_of_F :: "OpCodeF \<Rightarrow> operand_kind" where
  "kind_of_F c = (if c = op_flw then KI else if c = op_fsw then KS
     else if c \<in> {op_fmadd_s, op_fmsub_s, op_fnmadd_s, op_fnmsub_s} then KR4 else KR)"

definition kind_of_D :: "OpCodeD \<Rightarrow> operand_kind" where
  "kind_of_D c = (if c = op_fld then KI else if c = op_fsd then KS
     else if c \<in> {op_fmadd_d, op_fmsub_d, op_fnmadd_d, op_fnmsub_d} then KR4 else KR)"

definition kind_of_C :: "OpCodeC \<Rightarrow> operand_kind" where
  "kind_of_C c =
    (if c \<in> {op_c_mv, op_c_add, op_c_sub, op_c_and, op_c_or, op_c_xor, op_c_jr, op_c_jalr, op_c_addw, op_c_subw}
       then KCR
     else if c \<in> {op_c_beqz, op_c_bnez} then KCB
     else if c = op_c_addi4spn then KCIW
     else if c \<in> {op_c_fld, op_c_flw, op_c_lw, op_c_ld} then KCL
     else if c \<in> {op_c_fsd, op_c_fsw, op_c_sw, op_c_sd} then KCS
     else if c \<in> {op_c_fsdsp, op_c_fswsp, op_c_swsp, op_c_sdsp} then KCSS
     else if c \<in> {op_c_j, op_c_jal} then KCJ
     else if c \<in> {op_c_nop, op_c_ebreak} then KNone
     else KCI)"

fun required_kind :: "OpCode \<Rightarrow> operand_kind" where
  "required_kind op_unknown = KNone"
| "required_kind (rvi c) = kind_of_I c"
| "required_kind (rvm c) = KR"
| "required_kind (rva c) = KR"
| "required_kind (rvf c) = kind_of_F c"
| "required_kind (rvd c) = kind_of_D c"
| "required_kind (rvc c) = kind_of_C c"

lemmas required_kind_defs = kind_of_I_def kind_of_F_def kind_of_D_def kind_of_C_def

text \<open>The register numbers and shift amounts an operand may hold.\<close>

abbreviation reg :: "int \<Rightarrow> bool" where "reg r \<equiv> 0 \<le> r \<and> r < 32"

fun operand_regs :: "Operand \<Rightarrow> int list" where
  "operand_regs (OperandR rd rs1 rs2 _ _) = [rd, rs1, rs2]"
| "operand_regs (OperandR4 rd rs1 rs2 rs3 _ _) = [rd, rs1, rs2, rs3]"
| "operand_regs (OperandI _ rd rs1 _) = [rd, rs1]"
| "operand_regs (OperandS _ rs1 rs2 _) = [rs1, rs2]"
| "operand_regs (OperandB _ rs1 rs2 _) = [rs1, rs2]"
| "operand_regs (OperandU _ rd) = [rd]"
| "operand_regs (OperandJ _ rd) = [rd]"
| "operand_regs (OperandShiftImm rd rs1 _) = [rd, rs1]"
| "operand_regs (OperandCsr rd rs1 _) = [rd, rs1]"
| "operand_regs (OperandCsrImm _ rd _) = [rd]"
| "operand_regs (OperandFence _ _) = []"
| "operand_regs (OperandCR rd rs1 rs2) = [rd, rs1, rs2]"
| "operand_regs (OperandCI _ rd rs1) = [rd, rs1]"
| "operand_regs (OperandCSS _ rs2) = [rs2]"
| "operand_regs (OperandCIW _ rd) = [rd]"
| "operand_regs (OperandCL _ rd rs1) = [rd, rs1]"
| "operand_regs (OperandCS _ rs1 rs2) = [rs1, rs2]"
| "operand_regs (OperandCB _ rs1) = [rs1]"
| "operand_regs (OperandCJ _) = []"
| "operand_regs OperandNone = []"

text \<open>The classes of an extension, and the operation codes that belong to them.\<close>

fun class_of_code :: "OpCode \<Rightarrow> OpClass list" where
  "class_of_code op_unknown = [RV32I, RV32M, RV32A, RV32F, RV32D, RV32C, RV64I, RV64M, RV64A, RV64F, RV64D, RV64C]"
| "class_of_code (rvi c) = [RV32I, RV64I]"
| "class_of_code (rvm c) = [RV32M, RV64M]"
| "class_of_code (rva c) = [RV32A, RV64A]"
| "class_of_code (rvf c) = [RV32F, RV64F]"
| "class_of_code (rvd c) = [RV32D, RV64D]"
| "class_of_code (rvc c) = [RV32C, RV64C]"

definition op_ok :: "Op \<Rightarrow> bool" where
  "op_ok op \<longleftrightarrow> opCode op = op_unknown \<or>
     required_kind (opCode op) \<in> {kind_of (operand op), KNone} \<and> opClass op \<in> set (class_of_code (opCode op)) \<and>
     list_all reg (operand_regs (operand op))"

lemmas DecodeOperand_defs =
  DecodeOperandB_def DecodeOperandCB_def DecodeOperandCI_def DecodeOperandCIW_def
  DecodeOperandCI_ADDI16SP_def DecodeOperandCI_AluImm_def DecodeOperandCI_LUI_def
  DecodeOperandCJ_def DecodeOperandCR_def DecodeOperandCR_Alu_def DecodeOperandCsr_def
  DecodeOperandCsrImm_def DecodeOperandFence_def DecodeOperandI_def DecodeOperandJ_def
  DecodeOperandR_def DecodeOperandR4_def DecodeOperandS_def DecodeOperandShiftImm_32_def
  DecodeOperandShiftImm_64_def DecodeOperandU_def

section \<open>Picking bits\<close>

lemma bit_Pick:
  "bit (Pick (insn :: 'a::len word) lsb width) k \<longleftrightarrow> k < width \<and> lsb + k < 32 \<and> bit insn (lsb + k)"
proof -
  have "push_bit width (1 :: uint32) - 1 = mask width"
    by (simp add: mask_eq_exp_minus_1 push_bit_eq_mult)
  then show ?thesis by (auto simp: Pick_def bit_simps dest: bit_imp_le_length)
qed

lemma all_less_32: "(\<forall>k < 32. P k) \<longleftrightarrow> P 0 \<and> P 1 \<and> P 2 \<and> P 3 \<and> P 4 \<and> P 5 \<and> P 6 \<and> P 7 \<and> P 8 \<and> P 9 \<and> P 10 \<and> P 11 \<and>
    P 12 \<and> P 13 \<and> P 14 \<and> P 15 \<and> P 16 \<and> P 17 \<and> P 18 \<and> P 19 \<and> P 20 \<and> P 21 \<and> P 22 \<and> P 23 \<and> P 24 \<and> P 25 \<and>
    P 26 \<and> P 27 \<and> P 28 \<and> P 29 \<and> P 30 \<and> P (31 :: nat)"
  by (simp add: numeral_eq_Suc All_less_Suc conj_ac)

lemma Pick_range:
  assumes "width < 32"
  shows "0 \<le> sint (Pick insn lsb width)" "sint (Pick insn lsb width) < 2 ^ width"
proof -
  have "take_bit width (Pick insn lsb width) = Pick insn lsb width"
    by (rule bit_eqI) (auto simp: bit_take_bit_iff bit_Pick)
  then have "take_bit width (uint (Pick insn lsb width)) = uint (Pick insn lsb width)"
    by (metis unsigned_take_bit_eq)
  then have u: "uint (Pick insn lsb width) < 2 ^ width"
    by (metis take_bit_int_less_exp)
  have "(2 :: int) ^ width \<le> 2 ^ 31" using assms by (intro power_increasing) simp_all
  with u have b: "uint (Pick insn lsb width) < 2 ^ 31" by simp
  have "- (2 ^ 31) \<le> uint (Pick insn lsb width)" by (rule order_trans [of _ 0]) simp_all
  with b have "sint (Pick insn lsb width) = uint (Pick insn lsb width)"
    by (simp add: sint_uint signed_take_bit_int_eq_self del: signed_take_bit_of_0)
  then show "0 \<le> sint (Pick insn lsb width)" "sint (Pick insn lsb width) < 2 ^ width"
    using u by simp_all
qed

lemma Pick_reg [simp]: "reg (sint (Pick insn lsb 5))" "0 \<le> sint (Pick insn lsb 3) + 8" "sint (Pick insn lsb 3) + 8 < 32"
  using Pick_range [of 5 insn lsb] Pick_range [of 3 insn lsb] by auto


section \<open>Totality and shape\<close>

text \<open>A result is good when it is a value, and the value is a well-formed operation.\<close>

definition decodes :: "Op result \<Rightarrow> bool" where
  "decodes m \<longleftrightarrow> (\<exists>op. m = Inr op \<and> op_ok op)"

lemma decodes_Inr [simp]: "decodes (Inr op) = op_ok op"
  by (simp add: decodes_def)

lemma decodes_if [simp]: "decodes (if b then m else n) = ((b \<longrightarrow> decodes m) \<and> (\<not> b \<longrightarrow> decodes n))"
  by simp

lemma kind_of_decoded [simp]:
  "kind_of (DecodeOperandR i) = KR" "kind_of (DecodeOperandR4 i) = KR4" "kind_of (DecodeOperandI i) = KI"
  "kind_of (DecodeOperandS i) = KS" "kind_of (DecodeOperandB i) = KB" "kind_of (DecodeOperandU i) = KU"
  "kind_of (DecodeOperandJ i) = KJ" "kind_of (DecodeOperandShiftImm_32 i) = KShiftImm"
  "kind_of (DecodeOperandShiftImm_64 i) = KShiftImm" "kind_of (DecodeOperandCsr i) = KCsr"
  "kind_of (DecodeOperandCsrImm i) = KCsrImm" "kind_of (DecodeOperandFence i) = KNone"
  "kind_of (DecodeOperandCR j) = KCR" "kind_of (DecodeOperandCR_Alu j) = KCR" "kind_of (DecodeOperandCI j s) = KCI"
  "kind_of (DecodeOperandCI_ADDI16SP j) = KCI" "kind_of (DecodeOperandCI_AluImm j s) = KCI"
  "kind_of (DecodeOperandCI_LUI j) = KCI" "kind_of (DecodeOperandCIW j) = KCIW" "kind_of (DecodeOperandCB j) = KCB"
  "kind_of (DecodeOperandCJ j) = KCJ"
  by (simp_all add: DecodeOperand_defs)

lemma regs_of_decoded [simp]:
  "list_all reg (operand_regs (DecodeOperandR i))" "list_all reg (operand_regs (DecodeOperandR4 i))"
  "list_all reg (operand_regs (DecodeOperandI i))" "list_all reg (operand_regs (DecodeOperandS i))"
  "list_all reg (operand_regs (DecodeOperandB i))" "list_all reg (operand_regs (DecodeOperandU i))"
  "list_all reg (operand_regs (DecodeOperandJ i))" "list_all reg (operand_regs (DecodeOperandShiftImm_32 i))"
  "list_all reg (operand_regs (DecodeOperandShiftImm_64 i))" "list_all reg (operand_regs (DecodeOperandCsr i))"
  "list_all reg (operand_regs (DecodeOperandCsrImm i))" "list_all reg (operand_regs (DecodeOperandFence i))"
  "list_all reg (operand_regs (DecodeOperandCR j))" "list_all reg (operand_regs (DecodeOperandCR_Alu j))"
  "list_all reg (operand_regs (DecodeOperandCI j s))" "list_all reg (operand_regs (DecodeOperandCI_ADDI16SP j))"
  "list_all reg (operand_regs (DecodeOperandCI_AluImm j s))" "list_all reg (operand_regs (DecodeOperandCI_LUI j))"
  "list_all reg (operand_regs (DecodeOperandCIW j))" "list_all reg (operand_regs (DecodeOperandCB j))"
  "list_all reg (operand_regs (DecodeOperandCJ j))"
  by (simp_all add: DecodeOperand_defs)

text \<open>The operands that depend on the access size, for the sizes the decoder passes.\<close>

lemma sized_operands:
  assumes "n = 4 \<or> n = 8"
  shows "\<exists>od. DecodeOperandCI_LoadSP j n = Inr od \<and> kind_of od = KCI \<and> list_all reg (operand_regs od)"
    "\<exists>od. DecodeOperandCSS j n = Inr od \<and> kind_of od = KCSS \<and> list_all reg (operand_regs od)"
    "\<exists>od. DecodeOperandCL j n = Inr od \<and> kind_of od = KCL \<and> list_all reg (operand_regs od)"
    "\<exists>od. DecodeOperandCS j n = Inr od \<and> kind_of od = KCS \<and> list_all reg (operand_regs od)"
  using assms by (auto simp: DecodeOperandCI_LoadSP_def DecodeOperandCSS_def DecodeOperandCL_def DecodeOperandCS_def)

lemma decodes_sized:
  assumes "n = 4 \<or> n = 8" "c = RV32C \<or> c = RV64C"
  shows "kind_of_C oc = KCI \<Longrightarrow> decodes (rbind (DecodeOperandCI_LoadSP j n) (\<lambda>od. Inr (mk_op c (rvc oc) od)))"
    "kind_of_C oc = KCSS \<Longrightarrow> decodes (rbind (DecodeOperandCSS j n) (\<lambda>od. Inr (mk_op c (rvc oc) od)))"
    "kind_of_C oc = KCL \<Longrightarrow> decodes (rbind (DecodeOperandCL j n) (\<lambda>od. Inr (mk_op c (rvc oc) od)))"
    "kind_of_C oc = KCS \<Longrightarrow> decodes (rbind (DecodeOperandCS j n) (\<lambda>od. Inr (mk_op c (rvc oc) od)))"
  using sized_operands [OF assms(1), of j] assms(2) by (auto simp: op_ok_def)

lemma select_class_ok:
  "xlen \<noteq> XLEN128 \<Longrightarrow> \<exists>c. select_class xlen c32 c64 = Inr c \<and> (c = c32 \<or> c = c64)"
  by (cases xlen) (simp_all add: select_class_def)

lemma op_ok_mk:
  "required_kind oc \<in> {kind_of od, KNone} \<Longrightarrow> c \<in> set (class_of_code oc) \<Longrightarrow> list_all reg (operand_regs od) \<Longrightarrow>
    op_ok (mk_op c oc od)"
  "op_ok (mk_op c op_unknown od)"
  by (simp_all add: op_ok_def)

lemma decodes_I: "xlen \<noteq> XLEN128 \<Longrightarrow> decodes (DecodeI xlen insn)"
  by (cases xlen) (auto simp: select_class_def DecodeI_def Let_def op_ok_mk kind_of_I_def)

lemma decodes_A: "xlen \<noteq> XLEN128 \<Longrightarrow> decodes (DecodeA xlen insn)"
  by (cases xlen) (auto simp: select_class_def DecodeA_def Let_def op_ok_mk )

lemma decodes_M:
  "xlen \<noteq> XLEN128 \<Longrightarrow> Pick insn 0 7 = 0b0110011 \<or> Pick insn 0 7 = 0b0111011 \<Longrightarrow> decodes (DecodeM xlen insn)"
  by (cases xlen) (auto simp: select_class_def DecodeM_def Let_def op_ok_mk )

lemma decodes_F: "xlen \<noteq> XLEN128 \<Longrightarrow> decodes (DecodeF xlen insn)"
  by (cases xlen) (auto simp: select_class_def DecodeF_def Let_def op_ok_mk kind_of_F_def)

lemma decodes_D: "xlen \<noteq> XLEN128 \<Longrightarrow> decodes (DecodeD xlen insn)"
  by (cases xlen) (auto simp: select_class_def DecodeD_def Let_def op_ok_mk kind_of_D_def)

lemma decodes_C: "xlen \<noteq> XLEN128 \<Longrightarrow> decodes (DecodeC xlen insn)"
  by (cases xlen) (auto simp: select_class_def DecodeC_def Let_def op_ok_mk kind_of_C_def decodes_sized)

lemma decodes_Decode:
  assumes "xlen \<noteq> XLEN128"
  shows "decodes (Decode xlen insn)"
  unfolding Decode_def Let_def
  by (simp only: decodes_if decodes_I [OF assms] decodes_A [OF assms] decodes_F [OF assms] decodes_D [OF assms]
      decodes_C [OF assms] simp_thms) (blast intro: decodes_M [OF assms])

end
