(* ===== verification/Memory.thy ===== *)
theory Memory
  imports RvTypes
begin

text \<open>
  \<^verbatim>\<open>lib/emu/Ram.cpp\<close>, \<^verbatim>\<open>lib/emu/Rom.cpp\<close> and the access macro of \<^verbatim>\<open>include/rafi/emu/Macro.h\<close>. A buffer is a
  list of bytes; the memory body is a function from offsets to bytes beside its capacity. A range
  that passes a check by wrapping around 64 bits leaves the array, which is \<open>Undefined\<close>. The file
  of \<open>LoadFile\<close> is its content, \<open>None\<close> when it cannot be opened.
\<close>

section \<open>Checks and blocks\<close>

definition CheckAccess :: "uint64 \<Rightarrow> nat \<Rightarrow> uint64 \<Rightarrow> unit result" where
  "CheckAccess address sz capacity =
     (if address + of_nat sz - 1 < capacity then Inr () else Inl EmuException)"

definition block_read :: "(nat \<Rightarrow> uint8) \<Rightarrow> nat \<Rightarrow> nat \<Rightarrow> nat \<Rightarrow> bytes result" where
  "block_read body capacity sz offset =
     (if offset + sz \<le> capacity then Inr (map (\<lambda>i. body (offset + i)) [0..<sz]) else Inl Undefined)"

definition block_update :: "(nat \<Rightarrow> uint8) \<Rightarrow> nat \<Rightarrow> bytes \<Rightarrow> nat \<Rightarrow> uint8" where
  "block_update body offset bs =
     (\<lambda>i. if offset \<le> i \<and> i < offset + length bs then bs ! (i - offset) else body i)"

definition block_write :: "(nat \<Rightarrow> uint8) \<Rightarrow> nat \<Rightarrow> bytes \<Rightarrow> nat \<Rightarrow> (nat \<Rightarrow> uint8) result" where
  "block_write body capacity bs offset =
     (if offset + length bs \<le> capacity then Inr (block_update body offset bs) else Inl Undefined)"

section \<open>Ram\<close>

record Ram =
  m_Capacity :: uint64
  m_Body :: "nat \<Rightarrow> uint8"

definition Ram_new :: "uint64 \<Rightarrow> Ram" where
  "Ram_new capacity = \<lparr> m_Capacity = capacity, m_Body = (\<lambda>_. 0) \<rparr>"

definition Ram_Copy :: "Ram \<Rightarrow> nat \<Rightarrow> bytes result" where
  "Ram_Copy ram sz = rbind (ensure (of_nat sz = m_Capacity ram) AssertFailure) (\<lambda>_.
     block_read (m_Body ram) (unat (m_Capacity ram)) sz 0)"

definition Ram_LoadFile :: "bytes option \<Rightarrow> uint32 \<Rightarrow> Ram \<Rightarrow> Ram result" where
  "Ram_LoadFile file offset ram =
     (if sint offset < 0 \<or> m_Capacity ram < scast offset then Inl EmuException
      else case file of
        None \<Rightarrow> Inl EmuException
      | Some content \<Rightarrow> rbind (block_write (m_Body ram) (unat (m_Capacity ram))
            (take (unat (m_Capacity ram - scast offset)) content) (nat (sint offset)))
            (\<lambda>body. Inr (ram\<lparr> m_Body := body \<rparr>)))"

definition Ram_Read :: "Ram \<Rightarrow> nat \<Rightarrow> uint64 \<Rightarrow> bytes result" where
  "Ram_Read ram sz address =
     rbind (ensure (address + of_nat sz \<le> m_Capacity ram) AssertFailure) (\<lambda>_.
       block_read (m_Body ram) (unat (m_Capacity ram)) sz (unat address))"

definition Ram_Write :: "bytes \<Rightarrow> uint64 \<Rightarrow> Ram \<Rightarrow> Ram result" where
  "Ram_Write buffer address ram =
     rbind (ensure (address + of_nat (length buffer) \<le> m_Capacity ram) AssertFailure) (\<lambda>_.
       rbind (block_write (m_Body ram) (unat (m_Capacity ram)) buffer (unat address)) (\<lambda>body.
         Inr (ram\<lparr> m_Body := body \<rparr>)))"

section \<open>Rom\<close>

definition Rom_Capacity :: uint64 where
  "Rom_Capacity = 4 * 1024"

record Rom =
  m_RomBody :: "nat \<Rightarrow> uint8"

definition Rom_new :: Rom where
  "Rom_new = \<lparr> m_RomBody = (\<lambda>_. 0) \<rparr>"

definition Rom_LoadFile :: "bytes option \<Rightarrow> uint32 \<Rightarrow> Rom \<Rightarrow> Rom result" where
  "Rom_LoadFile file offset rom =
     (if sint offset < 0 \<or> Rom_Capacity < scast offset then Inl EmuException
      else case file of
        None \<Rightarrow> Inl EmuException
      | Some content \<Rightarrow> rbind (block_write (m_RomBody rom) (unat Rom_Capacity)
            (take (unat (Rom_Capacity - scast offset)) content) (nat (sint offset)))
            (\<lambda>body. Inr (rom\<lparr> m_RomBody := body \<rparr>)))"

definition Rom_Read :: "Rom \<Rightarrow> nat \<Rightarrow> uint64 \<Rightarrow> bytes result" where
  "Rom_Read rom sz address = rbind (CheckAccess address sz Rom_Capacity) (\<lambda>_.
     block_read (m_RomBody rom) (unat Rom_Capacity) sz (unat address))"

definition Rom_Write :: "bytes \<Rightarrow> uint64 \<Rightarrow> Rom \<Rightarrow> Rom result" where
  "Rom_Write buffer address rom = Inl EmuException"

section \<open>Interfaces\<close>

text \<open>
  A readable memory serves every range inside its capacity, byte by byte consistently. A writable
  one adds that a write inside the capacity succeeds and changes exactly the bytes it covers.
\<close>

locale readable_memory =
  fixes rd :: "'s \<Rightarrow> nat \<Rightarrow> uint64 \<Rightarrow> bytes result"
    and cap :: "'s \<Rightarrow> nat"
    and cell :: "'s \<Rightarrow> nat \<Rightarrow> uint8"
  assumes rd_cells: "0 < n \<Longrightarrow> unat a + n \<le> cap s \<Longrightarrow> rd s n a = Inr (map (\<lambda>i. cell s (unat a + i)) [0..<n])"
    and cap_bound: "cap s < 2 ^ 64"
begin

lemma rd_length: "0 < n \<Longrightarrow> unat a + n \<le> cap s \<Longrightarrow> rd s n a = Inr bs \<Longrightarrow> length bs = n"
  by (auto simp: rd_cells)

lemma rd_append:
  assumes "0 < n" "0 < m" "unat a + n + m \<le> cap s"
  shows "rd s (n + m) a = rbind (rd s n a) (\<lambda>bs. rbind (rd s m (a + of_nat n)) (\<lambda>cs. Inr (bs @ cs)))"
proof -
  have "unat (a + of_nat n) = unat a + n"
    using assms cap_bound [of s] by (simp add: unat_word_ariths unat_of_nat)
  then show ?thesis
    using assms by (simp add: rd_cells map_upt_append add.assoc)
qed

end

locale writable_memory = readable_memory +
  fixes wr :: "bytes \<Rightarrow> uint64 \<Rightarrow> 's \<Rightarrow> 's result"
  assumes wr_ok: "0 < length bs \<Longrightarrow> unat a + length bs \<le> cap s \<Longrightarrow> \<exists>s'. wr bs a s = Inr s'"
    and wr_cap: "wr bs a s = Inr s' \<Longrightarrow> cap s' = cap s"
    and wr_cell: "wr bs a s = Inr s' \<Longrightarrow>
      cell s' i = (if unat a \<le> i \<and> i < unat a + length bs then bs ! (i - unat a) else cell s i)"
begin

lemma rd_wr_same:
  assumes "0 < length bs" "unat a + length bs \<le> cap s" "wr bs a s = Inr s'"
  shows "rd s' (length bs) a = Inr bs"
proof -
  have "rd s' (length bs) a = Inr (map (\<lambda>i. bs ! i) [0..<length bs])"
    using assms wr_cap [OF assms(3)] by (simp add: rd_cells wr_cell [OF assms(3)])
  then show ?thesis by (simp add: map_nth)
qed

lemma rd_wr_disjoint:
  assumes "wr bs a s = Inr s'" "0 < n" "unat b + n \<le> cap s"
    and "unat b + n \<le> unat a \<or> unat a + length bs \<le> unat b"
  shows "rd s' n b = rd s n b"
  using assms wr_cap [OF assms(1)] by (auto simp: rd_cells wr_cell [OF assms(1)])

lemma wr_twice:
  assumes "wr bs a s = Inr s1" "wr cs a s1 = Inr s2" "length bs = length cs"
  shows "cell s2 i = (if unat a \<le> i \<and> i < unat a + length cs then cs ! (i - unat a) else cell s i)"
  using assms wr_cell [OF assms(1)] wr_cell [OF assms(2)] by simp

end

lemma unat_add_le:
  assumes "unat a + n \<le> unat (c :: 'a::len word)"
  shows "a + of_nat n \<le> c"
proof -
  have "unat a + n < 2 ^ LENGTH('a)" using assms unsigned_less [of c] by (simp add: order_le_less_trans)
  then have "unat (a + of_nat n) = unat a + n"
    by (simp add: unat_word_ariths unat_of_nat)
  then show ?thesis using assms by (simp add: word_le_nat_alt)
qed

lemma unat_add_minus_1_less:
  assumes "unat a + n \<le> unat (c :: 'a::len word)" "0 < n"
  shows "a + of_nat n - 1 < c"
proof -
  obtain m where m: "n = Suc m" using assms(2) by (cases n) auto
  have "unat a + m < 2 ^ LENGTH('a)" using assms m unsigned_less [of c, where 'a = nat] by linarith
  then have "unat (a + of_nat m) = unat a + m"
    by (simp add: unat_word_ariths unat_of_nat)
  then show ?thesis using assms m by (simp add: word_less_nat_alt add.assoc)
qed

interpretation ram: writable_memory Ram_Read "\<lambda>ram. unat (m_Capacity ram)" m_Body Ram_Write
proof
  show "Ram_Read s n a = Inr (map (\<lambda>i. m_Body s (unat a + i)) [0..<n])"
    if "0 < n" "unat a + n \<le> unat (m_Capacity s)" for n a s
    using that by (simp add: Ram_Read_def unat_add_le block_read_def)
  show "unat (m_Capacity s) < 2 ^ 64" for s
    using unsigned_less [of "m_Capacity s"] by simp
  show "\<exists>s'. Ram_Write bs a s = Inr s'"
    if "0 < length bs" "unat a + length bs \<le> unat (m_Capacity s)" for bs a s
    using that by (simp add: Ram_Write_def unat_add_le block_write_def)
  show "unat (m_Capacity s') = unat (m_Capacity s)" if "Ram_Write bs a s = Inr s'" for bs a s s'
    using that by (auto simp: Ram_Write_def rbind_Inr_iff)
  show "m_Body s' i = (if unat a \<le> i \<and> i < unat a + length bs then bs ! (i - unat a) else m_Body s i)"
    if "Ram_Write bs a s = Inr s'" for bs a s s' i
    using that by (auto simp: Ram_Write_def rbind_Inr_iff block_write_def block_update_def split: if_splits)
qed

interpretation rom: readable_memory Rom_Read "\<lambda>_. unat Rom_Capacity" m_RomBody
proof
  show "Rom_Read s n a = Inr (map (\<lambda>i. m_RomBody s (unat a + i)) [0..<n])"
    if "0 < n" "unat a + n \<le> unat Rom_Capacity" for n a s
    using that by (simp add: Rom_Read_def CheckAccess_def unat_add_minus_1_less block_read_def)
  show "unat Rom_Capacity < 2 ^ 64" for s :: Rom
    using unsigned_less [of Rom_Capacity] by simp
qed

section \<open>Properties\<close>

text \<open>
  Ram is a byte store: writing a buffer that fits succeeds, reading the same range returns it,
  reading a disjoint range returns what was there, and the capacity does not change.
\<close>

theorem ram_read_write:
  assumes "bs \<noteq> []" "unat a + length bs \<le> unat (m_Capacity ram)"
  shows "\<exists>ram'. Ram_Write bs a ram = Inr ram' \<and> Ram_Read ram' (length bs) a = Inr bs
    \<and> m_Capacity ram' = m_Capacity ram
    \<and> (\<forall>b n. 0 < n \<and> unat b + n \<le> unat (m_Capacity ram) \<and>
         (unat b + n \<le> unat a \<or> unat a + length bs \<le> unat b) \<longrightarrow> Ram_Read ram' n b = Ram_Read ram n b)"
proof -
  have "0 < length bs" using assms(1) by simp
  obtain ram' where w: "Ram_Write bs a ram = Inr ram'" using ram.wr_ok \<open>0 < length bs\<close> assms(2) by blast
  moreover have "m_Capacity ram' = m_Capacity ram" using ram.wr_cap [OF w] by (simp add: word_unat_eq_iff)
  moreover have "Ram_Read ram' (length bs) a = Inr bs"
    by (rule ram.rd_wr_same [OF \<open>0 < length bs\<close> assms(2) w])
  ultimately show ?thesis using ram.rd_wr_disjoint [OF w] by blast
qed

lemma ram_read_write_witness:
  "\<exists>ram'. Ram_Write [7] 8 (Ram_new 64) = Inr ram' \<and> Ram_Read ram' 1 8 = Inr [7]"
  using ram_read_write [of "[7]" 8 "Ram_new 64"] by (auto simp: Ram_new_def)

text \<open>
  C33. Bounds: a read and a write of Ram whose end lies past the capacity fail the assertion, and those
  inside the capacity succeed, a read with the number of bytes asked for; a read of Rom past its
  capacity throws and one inside succeeds. The end of the access must not wrap around 64 bits.
\<close>

theorem memory_bounds:
  assumes "unat a + length bs < 2 ^ 64" "0 < m" "unat b + m < 2 ^ 64"
  shows "(if unat (m_Capacity ram) < unat a + length bs
      then Ram_Read ram (length bs) a = Inl AssertFailure \<and> Ram_Write bs a ram = Inl AssertFailure
      else (\<exists>cs. Ram_Read ram (length bs) a = Inr cs \<and> length cs = length bs) \<and> (\<exists>ram'. Ram_Write bs a ram = Inr ram')) \<and>
    (if unat Rom_Capacity < unat b + m then Rom_Read rom m b = Inl EmuException
     else \<exists>cs. Rom_Read rom m b = Inr cs \<and> length cs = m)"
proof -
  have "unat (a + of_nat (length bs)) = unat a + length bs"
    using assms(1) by (simp add: unat_word_ariths unat_of_nat)
  then have "(if unat (m_Capacity ram) < unat a + length bs
      then Ram_Read ram (length bs) a = Inl AssertFailure \<and> Ram_Write bs a ram = Inl AssertFailure
      else (\<exists>cs. Ram_Read ram (length bs) a = Inr cs \<and> length cs = length bs) \<and> (\<exists>ram'. Ram_Write bs a ram = Inr ram'))"
    by (simp add: Ram_Read_def Ram_Write_def block_read_def block_write_def word_le_nat_alt)
  moreover obtain k where k: "m = Suc k" using assms(2) by (cases m) auto
  moreover have "unat (b + of_nat k) = unat b + k"
    using assms(3) k by (simp add: unat_word_ariths unat_of_nat)
  ultimately show ?thesis
    by (simp add: Rom_Read_def CheckAccess_def block_read_def word_less_nat_alt add.assoc)
qed

lemma memory_bounds_witness:
  "Ram_Read (Ram_new 64) 4 61 = Inl AssertFailure \<and> Ram_Write [1, 2, 3, 4] 61 (Ram_new 64) = Inl AssertFailure \<and>
   Rom_Read Rom_new 4 4093 = Inl EmuException"
proof -
  have four: "length [1, 2, 3, 4 :: uint8] = 4" by simp
  show ?thesis
    using memory_bounds [of 61 "[1, 2, 3, 4]" 4 4093 "Ram_new 64" Rom_new] unfolding four
    by (simp add: Ram_new_def Rom_Capacity_def)
qed

end
