(* ===== verification/IoDevices.thy ===== *)
theory IoDevices
  imports Memory Csr
begin

text \<open>
  The memory-mapped devices of \<^verbatim>\<open>bin/rafi-emu/io\<close>: Clint, Plic, Timer, Uart, Uart16550 and VirtIo. A
  register access takes the size in bytes and the offset in the device. The Clint reads and writes
  the time and the pending bits of the processor, so its operations work on the pair of its own
  state and the CSRs. Characters handed to the standard output are collected in order in a console
  field. Members that have no initialiser are zero, as the System value-initialises the devices.
\<close>

section \<open>Clint\<close>

record Clint =
  clint_TimeCmp :: uint64

definition Clint_Size :: uint64 where "Clint_Size = 0x10000"

definition Clint_init :: Clint where
  "Clint_init = \<lparr> clint_TimeCmp = 0 \<rparr>"

definition Clint_ReadMsip :: "nat \<Rightarrow> Csr \<Rightarrow> bytes result" where
  "Clint_ReadMsip sz csr =
    (let value = ucast (GetMember xip_MSIP (m_InterruptPending csr)) :: uint32
     in if sz \<noteq> 4 then Inl EmuException else Inr (to_bytes sz value))"

definition Clint_ReadTime :: "nat \<Rightarrow> Csr \<Rightarrow> bytes result" where
  "Clint_ReadTime sz csr = (if sz \<noteq> 8 then Inl EmuException else Inr (to_bytes sz (m_TimeCounter csr)))"

definition Clint_WriteMsip :: "bytes \<Rightarrow> Csr \<Rightarrow> Csr result" where
  "Clint_WriteMsip buffer csr =
    (if length buffer \<noteq> 4 then Inl EmuException
     else let value = of_bytes buffer :: uint32
          in Inr (Csr_WriteInterruptPending
               (SetMember xip_MSIP (ucast (value AND 1)) (m_InterruptPending csr)) csr))"

definition Clint_WriteTime :: "bytes \<Rightarrow> Csr \<Rightarrow> Csr result" where
  "Clint_WriteTime buffer csr =
    (if length buffer \<noteq> 8 then Inl EmuException else Inr (Csr_WriteTime (of_bytes buffer) csr))"

definition Clint_Read :: "Clint \<times> Csr \<Rightarrow> nat \<Rightarrow> uint64 \<Rightarrow> bytes result" where
  "Clint_Read s sz address = rbind (CheckAccess address sz Clint_Size) (\<lambda>_.
     if address = 0x0 then Clint_ReadMsip sz (snd s)
     else if address = 0xbff8 then Clint_ReadTime sz (snd s)
     else if address = 0x4000 then
       (if 8 < sz then Inl EmuException else Inr (to_bytes sz (clint_TimeCmp (fst s))))
     else Inl EmuException)"

definition Clint_Write :: "bytes \<Rightarrow> uint64 \<Rightarrow> Clint \<times> Csr \<Rightarrow> (Clint \<times> Csr) result" where
  "Clint_Write buffer address s = rbind (CheckAccess address (length buffer) Clint_Size) (\<lambda>_.
     if address = 0x0 then rbind (Clint_WriteMsip buffer (snd s)) (\<lambda>csr. Inr (fst s, csr))
     else if address = 0xbff8 then rbind (Clint_WriteTime buffer (snd s)) (\<lambda>csr. Inr (fst s, csr))
     else if address = 0x4000 then
       (if 8 < length buffer then Inl EmuException
        else Inr ((fst s)\<lparr> clint_TimeCmp :=
               of_bytes (buffer @ drop (length buffer) (to_bytes 8 (clint_TimeCmp (fst s)))) \<rparr>, snd s))
     else Inl EmuException)"

definition Clint_IsInterruptRequested :: "Clint \<times> Csr \<Rightarrow> bool" where
  "Clint_IsInterruptRequested s \<longleftrightarrow> clint_TimeCmp (fst s) \<le> m_TimeCounter (snd s)"

section \<open>Plic\<close>

record Plic =
  plic_Priorities :: "nat \<Rightarrow> uint32"
  plic_Pendings :: "nat \<Rightarrow> uint32"
  plic_MachineInterruptEnables :: "nat \<Rightarrow> uint32"
  plic_SupervisorInterruptEnables :: "nat \<Rightarrow> uint32"
  plic_MachineThreshold :: uint32
  plic_SupervisorThreshold :: uint32

definition Plic_Size :: uint64 where "Plic_Size = 0x04000000"

definition Plic_PriorityMask :: uint32 where "Plic_PriorityMask = 0x7"

definition Plic_init :: Plic where
  "Plic_init = \<lparr> plic_Priorities = (\<lambda>_. 0), plic_Pendings = (\<lambda>_. 0),
     plic_MachineInterruptEnables = (\<lambda>_. 0), plic_SupervisorInterruptEnables = (\<lambda>_. 0),
     plic_MachineThreshold = 0, plic_SupervisorThreshold = 0 \<rparr>"

text \<open>The guards keep every index inside its array of 128 or 4 entries.\<close>

definition Plic_ReadUInt32 :: "Plic \<Rightarrow> uint64 \<Rightarrow> uint32 result" where
  "Plic_ReadUInt32 p address =
    (if 0x000000 \<le> address \<and> address < 0x000200 then Inr (plic_Priorities p (unat address div 4))
     else if 0x001000 \<le> address \<and> address < 0x001010
     then Inr (plic_Pendings p (unat (address - 0x001000) div 4))
     else if 0x002000 \<le> address \<and> address < 0x002010
     then Inr (plic_MachineInterruptEnables p (unat (address - 0x002000) div 4))
     else if 0x002080 \<le> address \<and> address < 0x002090
     then Inr (plic_SupervisorInterruptEnables p (unat (address - 0x002080) div 4))
     else if address = 0x200000 then Inr (plic_MachineThreshold p)
     else if address = 0x201000 then Inr (plic_SupervisorThreshold p)
     else Inl EmuException)"

definition Plic_WriteUInt32 :: "uint64 \<Rightarrow> uint32 \<Rightarrow> Plic \<Rightarrow> Plic result" where
  "Plic_WriteUInt32 address value p =
    (if 0x000000 \<le> address \<and> address < 0x000200
     then Inr (p\<lparr> plic_Priorities := (plic_Priorities p)(unat address div 4 := value AND Plic_PriorityMask) \<rparr>)
     else if 0x002000 \<le> address \<and> address < 0x002010
     then Inr (p\<lparr> plic_MachineInterruptEnables :=
            (plic_MachineInterruptEnables p)(unat (address - 0x002000) div 4 := value) \<rparr>)
     else if 0x002080 \<le> address \<and> address < 0x002090
     then Inr (p\<lparr> plic_SupervisorInterruptEnables :=
            (plic_SupervisorInterruptEnables p)(unat (address - 0x002080) div 4 := value) \<rparr>)
     else if address = 0x200000 then Inr (p\<lparr> plic_MachineThreshold := value AND Plic_PriorityMask \<rparr>)
     else if address = 0x201000 then Inr (p\<lparr> plic_SupervisorThreshold := value AND Plic_PriorityMask \<rparr>)
     else Inl EmuException)"

definition Plic_Read :: "Plic \<Rightarrow> nat \<Rightarrow> uint64 \<Rightarrow> bytes result" where
  "Plic_Read p sz address = rbind (CheckAccess address sz Plic_Size) (\<lambda>_.
     if sz = 4 then rbind (Plic_ReadUInt32 p address) (\<lambda>value. Inr (to_bytes sz value))
     else if sz = 8 then
       rbind (Plic_ReadUInt32 p address) (\<lambda>low.
       rbind (Plic_ReadUInt32 p (address + 4)) (\<lambda>high.
         Inr (to_bytes sz (push_bit 32 (ucast high :: uint64) OR ucast low))))
     else Inl EmuException)"

definition Plic_Write :: "bytes \<Rightarrow> uint64 \<Rightarrow> Plic \<Rightarrow> Plic result" where
  "Plic_Write buffer address p = rbind (CheckAccess address (length buffer) Plic_Size) (\<lambda>_.
     if length buffer = 4 then Plic_WriteUInt32 address (of_bytes buffer) p
     else if length buffer = 8 then
       (let value = of_bytes buffer :: uint64 in
        rbind (Plic_WriteUInt32 address (ucast value) p)
          (\<lambda>p. Plic_WriteUInt32 (address + 4) (ucast (drop_bit 32 value)) p))
     else Inl EmuException)"

definition Plic_IsInterruptRequested :: "Plic \<Rightarrow> bool" where
  "Plic_IsInterruptRequested p = False"

section \<open>Timer\<close>

record Timer =
  timer_Time :: uint64
  timer_TimeCmp :: uint64

definition Timer_Size :: uint64 where "Timer_Size = 16"

definition Timer_init :: Timer where
  "Timer_init = \<lparr> timer_Time = 0, timer_TimeCmp = 0 \<rparr>"

definition Timer_Read :: "Timer \<Rightarrow> nat \<Rightarrow> uint64 \<Rightarrow> bytes result" where
  "Timer_Read t sz address = rbind (CheckAccess address sz Timer_Size) (\<lambda>_.
     if sz \<noteq> 4 then Inl EmuException
     else if address = 0 then Inr (to_bytes 4 (GetLow32 (timer_Time t)))
     else if address = 4 then Inr (to_bytes 4 (GetHigh32 (timer_Time t)))
     else if address = 8 then Inr (to_bytes 4 (GetLow32 (timer_TimeCmp t)))
     else if address = 12 then Inr (to_bytes 4 (GetHigh32 (timer_TimeCmp t)))
     else Inl EmuException)"

definition Timer_Write :: "bytes \<Rightarrow> uint64 \<Rightarrow> Timer \<Rightarrow> Timer result" where
  "Timer_Write buffer address t = rbind (CheckAccess address (length buffer) Timer_Size) (\<lambda>_.
     if length buffer \<noteq> 4 then Inl EmuException
     else let value = of_bytes buffer in
       if address = 0 then Inr (t\<lparr> timer_Time := SetLow32 (timer_Time t) value \<rparr>)
       else if address = 4 then Inr (t\<lparr> timer_Time := SetHigh32 (timer_Time t) value \<rparr>)
       else if address = 8 then Inr (t\<lparr> timer_TimeCmp := SetLow32 (timer_TimeCmp t) value \<rparr>)
       else if address = 12 then Inr (t\<lparr> timer_TimeCmp := SetHigh32 (timer_TimeCmp t) value \<rparr>)
       else Inl EmuException)"

definition Timer_IsInterruptRequested :: "Timer \<Rightarrow> bool" where
  "Timer_IsInterruptRequested t \<longleftrightarrow> timer_TimeCmp t \<le> timer_Time t"

definition Timer_ProcessCycle :: "Timer \<Rightarrow> Timer" where
  "Timer_ProcessCycle t = t\<lparr> timer_Time := timer_Time t + 1 \<rparr>"

section \<open>Uart\<close>

record Uart =
  uart_InterruptEnable :: uint32
  uart_InterruptPending :: uint32
  uart_TxChars :: "uint8 list"
  uart_RxChar :: uint8
  uart_Cycle :: uint32
  uart_PrintCount :: nat
  uart_console :: "uint8 list"

definition Uart_Size :: uint64 where "Uart_Size = 32"

definition Uart_init :: Uart where
  "Uart_init = \<lparr> uart_InterruptEnable = 0, uart_InterruptPending = 0, uart_TxChars = [],
     uart_RxChar = 0, uart_Cycle = 0, uart_PrintCount = 0, uart_console = [] \<rparr>"

definition Uart_Read :: "Uart \<Rightarrow> nat \<Rightarrow> uint64 \<Rightarrow> bytes result" where
  "Uart_Read u sz address = rbind (CheckAccess address sz Uart_Size) (\<lambda>_.
     if sz \<noteq> 4 then Inl EmuException
     else if address = 0
     then Inr (to_bytes 4 (if uart_TxChars u = [] then 0 else scast (last (uart_TxChars u)) :: uint32))
     else if address = 4 then Inr (to_bytes 4 (scast (uart_RxChar u) :: uint32))
     else if address = 16 then Inr (to_bytes 4 (uart_InterruptEnable u))
     else if address = 24 then Inr (to_bytes 4 (uart_InterruptPending u))
     else Inl EmuException)"

definition Uart_Write :: "bytes \<Rightarrow> uint64 \<Rightarrow> Uart \<Rightarrow> Uart result" where
  "Uart_Write buffer address u = rbind (CheckAccess address (length buffer) Uart_Size) (\<lambda>_.
     if length buffer \<noteq> 4 then Inl EmuException
     else let value = of_bytes buffer :: uint32 in
       if address = 0 then Inr (u\<lparr> uart_TxChars := uart_TxChars u @ [ucast value] \<rparr>)
       else if address = 4 then Inr u
       else if address = 16 then Inr (u\<lparr> uart_InterruptEnable := value \<rparr>)
       else if address = 24 then Inr (u\<lparr> uart_InterruptPending := value \<rparr>)
       else Inl EmuException)"

definition Uart_PrintTx :: "Uart \<Rightarrow> Uart" where
  "Uart_PrintTx u = u\<lparr> uart_console := uart_console u @ drop (uart_PrintCount u) (uart_TxChars u),
     uart_PrintCount := length (uart_TxChars u) \<rparr>"

definition Uart_ProcessCycle :: "Uart \<Rightarrow> Uart" where
  "Uart_ProcessCycle u = (let u = Uart_PrintTx u in u\<lparr> uart_Cycle := uart_Cycle u + 1 \<rparr>)"

definition Uart_IsInterruptRequested :: "Uart \<Rightarrow> bool" where
  "Uart_IsInterruptRequested u = False"

section \<open>Uart16550\<close>

record Uart16550 =
  u16550_TxChar :: uint8
  u16550_InterruptEnable :: uint8
  u16550_InterruptIdent :: uint8
  u16550_FifoControl :: uint8
  u16550_LineControl :: uint8
  u16550_LineStatus :: uint8
  u16550_Scratch :: uint8
  u16550_console :: "uint8 list"

definition Uart16550_Size :: uint64 where "Uart16550_Size = 8"

definition Uart16550_init :: Uart16550 where
  "Uart16550_init = \<lparr> u16550_TxChar = 0, u16550_InterruptEnable = 0, u16550_InterruptIdent = 1,
     u16550_FifoControl = 0, u16550_LineControl = 0, u16550_LineStatus = 0x60, u16550_Scratch = 0,
     u16550_console = [] \<rparr>"

definition Uart16550_Read :: "Uart16550 \<Rightarrow> nat \<Rightarrow> uint64 \<Rightarrow> bytes result" where
  "Uart16550_Read u sz address = rbind (CheckAccess address sz Uart16550_Size) (\<lambda>_.
     if sz \<noteq> 1 then Inl EmuException
     else if address = 0 then Inr [0]
     else if address = 1 then Inr [u16550_InterruptEnable u]
     else if address = 2 then Inr [u16550_FifoControl u]
     else if address = 3 then Inr [u16550_LineControl u]
     else if address = 4 then Inr [0]
     else if address = 5 then Inr [u16550_LineStatus u]
     else if address = 6 then Inr [0]
     else if address = 7 then Inr [u16550_Scratch u]
     else Inl EmuException)"

definition Uart16550_Write :: "bytes \<Rightarrow> uint64 \<Rightarrow> Uart16550 \<Rightarrow> Uart16550 result" where
  "Uart16550_Write buffer address u = rbind (CheckAccess address (length buffer) Uart16550_Size) (\<lambda>_.
     if length buffer \<noteq> 1 then Inl EmuException
     else let value = of_bytes buffer :: uint8 in
       if address = 0 then
         (if u16550_LineControl u AND 0x80 = 0 then Inr (u\<lparr> u16550_TxChar := value \<rparr>) else Inr u)
       else if address = 1 then
         (if u16550_LineControl u AND 0x80 = 0 then Inr (u\<lparr> u16550_InterruptEnable := value \<rparr>) else Inr u)
       else if address = 2 then Inr (u\<lparr> u16550_FifoControl := value \<rparr>)
       else if address = 3 then Inr (u\<lparr> u16550_LineControl := value \<rparr>)
       else if address = 4 \<or> address = 5 \<or> address = 6 then Inr u
       else if address = 7 then Inr (u\<lparr> u16550_Scratch := value \<rparr>)
       else Inl EmuException)"

definition Uart16550_PrintTx :: "Uart16550 \<Rightarrow> Uart16550" where
  "Uart16550_PrintTx u = (let u' = (if u16550_TxChar u \<noteq> 0
       then u\<lparr> u16550_console := u16550_console u @ [u16550_TxChar u] \<rparr> else u)
     in u'\<lparr> u16550_TxChar := 0 \<rparr>)"

definition Uart16550_ProcessCycle :: "Uart16550 \<Rightarrow> Uart16550" where
  "Uart16550_ProcessCycle u = Uart16550_PrintTx u"

definition Uart16550_IsInterruptRequested :: "Uart16550 \<Rightarrow> bool" where
  "Uart16550_IsInterruptRequested u = False"

section \<open>VirtIo\<close>

definition VirtIo_Size :: uint64 where "VirtIo_Size = 0x1000"

definition VirtIo_Read :: "unit \<Rightarrow> nat \<Rightarrow> uint64 \<Rightarrow> bytes result" where
  "VirtIo_Read v sz address = rbind (CheckAccess address sz VirtIo_Size) (\<lambda>_.
     if sz \<noteq> 4 then Inl EmuException
     else Inr (to_bytes 4 (if address = 0x0 then 0x74726976 else if address = 0x4 then 1
            else if address = 0xc then 0x49464152 else 0 :: uint32)))"

definition VirtIo_Write :: "bytes \<Rightarrow> uint64 \<Rightarrow> unit \<Rightarrow> unit result" where
  "VirtIo_Write buffer address v = rbind (CheckAccess address (length buffer) VirtIo_Size) (\<lambda>_. Inr ())"

definition VirtIo_IsInterruptRequested :: "unit \<Rightarrow> bool" where
  "VirtIo_IsInterruptRequested v = False"

section \<open>The interface of a device\<close>

text \<open>
  What the bus may assume of every device: an access that leaves the register space throws, a read
  that succeeds fills the buffer, and no access ends in anything but a value or an exception.
\<close>

locale io_device =
  fixes rd :: "'s \<Rightarrow> nat \<Rightarrow> uint64 \<Rightarrow> bytes result"
    and wr :: "bytes \<Rightarrow> uint64 \<Rightarrow> 's \<Rightarrow> 's result"
    and space :: uint64
  assumes rd_range: "\<not> a + of_nat n - 1 < space \<Longrightarrow> rd s n a = Inl EmuException"
    and wr_range: "\<not> a + of_nat (length bs) - 1 < space \<Longrightarrow> wr bs a s = Inl EmuException"
    and rd_length: "rd s n a = Inr bs \<Longrightarrow> length bs = n"
    and rd_error: "rd s n a = Inl e \<Longrightarrow> e = EmuException"
    and wr_error: "wr bs a s = Inl e \<Longrightarrow> e = EmuException"
begin

lemma rd_safe: "rd s n a = Inl EmuException \<or> (\<exists>bs. rd s n a = Inr bs \<and> length bs = n)"
  using rd_length rd_error by (cases "rd s n a") auto

lemma wr_safe: "wr bs a s = Inl EmuException \<or> (\<exists>s'. wr bs a s = Inr s')"
  using wr_error by (cases "wr bs a s") auto

end

lemma CheckAccess_cases [simp]:
  "CheckAccess a n c = Inr u \<longleftrightarrow> a + of_nat n - 1 < c"
  "CheckAccess a n c = Inl e \<longleftrightarrow> e = EmuException \<and> \<not> a + of_nat n - 1 < c"
  by (auto simp: CheckAccess_def)

lemma rbind_CheckAccess: "rbind (CheckAccess a n c) f = (if a + of_nat n - 1 < c then f () else Inl EmuException)"
  by (simp add: CheckAccess_def)

lemmas device_defs = Clint_Read_def Clint_Write_def Clint_ReadMsip_def Clint_ReadTime_def
  Clint_WriteMsip_def Clint_WriteTime_def Plic_Read_def Plic_Write_def Plic_ReadUInt32_def
  Plic_WriteUInt32_def Timer_Read_def Timer_Write_def Uart_Read_def Uart_Write_def
  Uart16550_Read_def Uart16550_Write_def VirtIo_Read_def VirtIo_Write_def

interpretation clint_dev: io_device Clint_Read Clint_Write Clint_Size
  by unfold_locales
    (auto simp: device_defs rbind_CheckAccess Let_def rbind_Inr_iff rbind_Inl_iff split: if_splits)

interpretation plic_dev: io_device Plic_Read Plic_Write Plic_Size
  by unfold_locales
    (auto simp: device_defs rbind_CheckAccess Let_def rbind_Inr_iff rbind_Inl_iff split: if_splits)

interpretation timer_dev: io_device Timer_Read Timer_Write Timer_Size
  by unfold_locales
    (auto simp: device_defs rbind_CheckAccess Let_def rbind_Inr_iff rbind_Inl_iff split: if_splits)

interpretation uart_dev: io_device Uart_Read Uart_Write Uart_Size
  by unfold_locales
    (auto simp: device_defs rbind_CheckAccess Let_def rbind_Inr_iff rbind_Inl_iff split: if_splits)

interpretation uart16550_dev: io_device Uart16550_Read Uart16550_Write Uart16550_Size
  by unfold_locales
    (auto simp: device_defs rbind_CheckAccess Let_def rbind_Inr_iff rbind_Inl_iff split: if_splits)

interpretation virtio_dev: io_device VirtIo_Read VirtIo_Write VirtIo_Size
  by unfold_locales
    (auto simp: device_defs rbind_CheckAccess Let_def rbind_Inr_iff rbind_Inl_iff split: if_splits)

section \<open>Properties\<close>

text \<open>
  The characters printed so far are the first ones written; printing brings the console up to date.
\<close>

definition uart_inv :: "Uart \<Rightarrow> bool" where
  "uart_inv u \<longleftrightarrow> uart_PrintCount u \<le> length (uart_TxChars u) \<and>
     uart_console u = take (uart_PrintCount u) (uart_TxChars u)"

lemma uart_inv_init: "uart_inv Uart_init"
  by (simp add: uart_inv_def Uart_init_def)

lemma uart_inv_Write: "uart_inv u \<Longrightarrow> Uart_Write bs a u = Inr u' \<Longrightarrow> uart_inv u'"
  by (auto simp: uart_inv_def Uart_Write_def rbind_CheckAccess Let_def split: if_splits)

lemma uart_inv_ProcessCycle: "uart_inv u \<Longrightarrow> uart_inv (Uart_ProcessCycle u)"
  by (simp add: uart_inv_def Uart_ProcessCycle_def Uart_PrintTx_def Let_def)

text \<open>A run of the device: writes of the data register and cycles, in any order.\<close>

datatype uart_op = UartSend bytes | UartCycle

fun uart_run :: "uart_op list \<Rightarrow> Uart \<Rightarrow> Uart result" where
  "uart_run [] u = Inr u"
| "uart_run (UartSend bs # ops) u = rbind (Uart_Write bs 0 u) (uart_run ops)"
| "uart_run (UartCycle # ops) u = uart_run ops (Uart_ProcessCycle u)"

fun uart_sent :: "uart_op list \<Rightarrow> uint8 list" where
  "uart_sent [] = []"
| "uart_sent (UartSend bs # ops) = ucast (of_bytes bs :: uint32) # uart_sent ops"
| "uart_sent (UartCycle # ops) = uart_sent ops"

lemma uart_run_TxChars:
  "uart_run ops u = Inr u' \<Longrightarrow> uart_TxChars u' = uart_TxChars u @ uart_sent ops"
proof (induction ops u rule: uart_run.induct)
  case (2 bs ops u)
  then show ?case
    by (auto simp: rbind_Inr_iff Uart_Write_def rbind_CheckAccess Let_def split: if_splits)
qed (simp_all add: Uart_ProcessCycle_def Uart_PrintTx_def Let_def)

lemma uart_run_inv: "uart_run ops u = Inr u' \<Longrightarrow> uart_inv u \<Longrightarrow> uart_inv u'"
proof (induction ops u rule: uart_run.induct)
  case (2 bs ops u)
  then show ?case using uart_inv_Write by (auto simp: rbind_Inr_iff)
qed (simp_all add: uart_inv_ProcessCycle)

text \<open>
  The serial console loses and duplicates nothing: after any run of data writes and cycles that
  ends in a cycle, the characters printed are exactly those written, in order.
\<close>

theorem uart_prints_all:
  assumes "uart_run (ops @ [UartCycle]) Uart_init = Inr u"
  shows "uart_console u = uart_sent ops"
proof -
  have split: "uart_run (xs @ [UartCycle]) v = rbind (uart_run xs v) (\<lambda>w. Inr (Uart_ProcessCycle w))" for xs v
    by (induction xs v rule: uart_run.induct) (simp_all add: rbind_assoc cong: rbind_cong, (metis rbind_assoc)?)
  obtain w where w: "uart_run ops Uart_init = Inr w" "u = Uart_ProcessCycle w"
    using assms by (auto simp: split rbind_Inr_iff)
  have "uart_TxChars w = uart_sent ops" using uart_run_TxChars [OF w(1)] by (simp add: Uart_init_def)
  moreover have "uart_inv w" by (rule uart_run_inv [OF w(1) uart_inv_init])
  ultimately show ?thesis
    by (simp add: w(2) uart_inv_def Uart_ProcessCycle_def Uart_PrintTx_def Let_def)
qed

lemma uart_prints_all_witness:
  "\<exists>u. uart_run ([UartSend [72, 0, 0, 0], UartCycle, UartSend [105, 0, 0, 0]] @ [UartCycle]) Uart_init = Inr u
    \<and> uart_console u = [72, 105]"
proof -
  obtain u where u: "uart_run ([UartSend [72, 0, 0, 0], UartCycle, UartSend [105, 0, 0, 0]] @ [UartCycle]) Uart_init = Inr u"
    by (simp add: Uart_Write_def rbind_CheckAccess Uart_Size_def Let_def)
  from uart_prints_all [OF this] u show ?thesis by simp
qed

text \<open>
  The timer of the Clint: after an 8-byte write of mtimecmp the interrupt is requested exactly
  when the time counter has reached the value, and a 4-byte write of msip moves its lowest bit into
  the pending register and nothing else.
\<close>

theorem clint_timer_and_msip:
  "(\<exists>c'. Clint_Write (to_bytes 8 v) 0x4000 (c, csr) = Inr (c', csr)
      \<and> (Clint_IsInterruptRequested (c', csr) \<longleftrightarrow> v \<le> m_TimeCounter csr)
      \<and> Clint_Read (c', csr) 8 0x4000 = Inr (to_bytes 8 v))
   \<and> (\<exists>csr'. Clint_Write (to_bytes 4 w) 0 (c, csr) = Inr (c, csr')
      \<and> (\<forall>k. bit (m_InterruptPending csr') k \<longleftrightarrow>
            (if k = 3 then bit (w :: uint32) 0 else bit (m_InterruptPending csr) k)))"
proof -
  have v: "of_bytes (to_bytes 8 v) = v" by (rule of_bytes_to_bytes) simp
  have w: "of_bytes (to_bytes 4 w) = w" by (rule of_bytes_to_bytes) simp
  show ?thesis
    by (auto simp: Clint_Write_def Clint_Read_def Clint_WriteMsip_def rbind_CheckAccess Clint_Size_def v w
        Clint_IsInterruptRequested_def Csr_WriteInterruptPending_def bit_SetMember Let_def
        bit_unsigned_iff bit_and_iff bit_1_iff)
qed

end
