(* ===== verification/Bus.thy ===== *)
theory Bus
  imports IoDevices
begin

text \<open>
  \<^verbatim>\<open>lib/emu/Bus.cpp\<close>: the physical address map and the dispatch of accesses. A region is a pointer with
  its address and size; the pointers are names of the memories and devices of the system. Calls
  through the two abstract classes \<open>IMemory\<close> and \<open>IIo\<close> are calls through a table of functions,
  each given the pointer it is called on.
\<close>

section \<open>State\<close>

record 'p BusRegion =
  region_ptr :: 'p
  region_address :: paddr_t
  region_size :: uint64

record ('m, 'i) Bus =
  m_MemoryList :: "'m BusRegion list"
  m_IoList :: "'i BusRegion list"

record ('m, 'i, 's) bus_calls =
  call_memory_read :: "'m \<Rightarrow> 's \<Rightarrow> nat \<Rightarrow> uint64 \<Rightarrow> bytes result"
  call_memory_write :: "'m \<Rightarrow> bytes \<Rightarrow> uint64 \<Rightarrow> 's \<Rightarrow> 's result"
  call_memory_load :: "'m \<Rightarrow> bytes option \<Rightarrow> uint32 \<Rightarrow> 's \<Rightarrow> 's result"
  call_io_read :: "'i \<Rightarrow> 's \<Rightarrow> nat \<Rightarrow> uint64 \<Rightarrow> bytes result"
  call_io_write :: "'i \<Rightarrow> bytes \<Rightarrow> uint64 \<Rightarrow> 's \<Rightarrow> 's result"

definition Bus_init :: "('m, 'i) Bus" where
  "Bus_init = \<lparr> m_MemoryList = [], m_IoList = [] \<rparr>"

definition Bus_RegisterMemory :: "'m \<Rightarrow> paddr_t \<Rightarrow> uint64 \<Rightarrow> ('m, 'i) Bus \<Rightarrow> ('m, 'i) Bus" where
  "Bus_RegisterMemory ptr address sz bus = bus\<lparr> m_MemoryList := m_MemoryList bus @
     [\<lparr> region_ptr = ptr, region_address = address, region_size = sz \<rparr>] \<rparr>"

definition Bus_RegisterIo :: "'i \<Rightarrow> paddr_t \<Rightarrow> uint64 \<Rightarrow> ('m, 'i) Bus \<Rightarrow> ('m, 'i) Bus" where
  "Bus_RegisterIo ptr address sz bus = bus\<lparr> m_IoList := m_IoList bus @
     [\<lparr> region_ptr = ptr, region_address = address, region_size = sz \<rparr>] \<rparr>"

section \<open>Lookup\<close>

definition region_covers :: "paddr_t \<Rightarrow> paddr_t \<Rightarrow> 'p BusRegion \<Rightarrow> bool" where
  "region_covers low high r \<longleftrightarrow> region_address r \<le> low \<and> high < region_address r + region_size r"

definition Bus_IsMemoryAddress :: "('m, 'i) Bus \<Rightarrow> paddr_t \<Rightarrow> nat \<Rightarrow> bool" where
  "Bus_IsMemoryAddress bus address accessSize =
    (let low = address; high = address + of_nat accessSize - 1
     in list_ex (region_covers low high) (m_MemoryList bus))"

definition Bus_IsIoAddress :: "('m, 'i) Bus \<Rightarrow> paddr_t \<Rightarrow> nat \<Rightarrow> bool" where
  "Bus_IsIoAddress bus address accessSize =
    (let low = address; high = address + of_nat accessSize - 1
     in list_ex (region_covers low high) (m_IoList bus))"

definition Bus_IsValidAddress :: "('m, 'i) Bus \<Rightarrow> paddr_t \<Rightarrow> nat \<Rightarrow> bool" where
  "Bus_IsValidAddress bus address accessSize \<longleftrightarrow>
     Bus_IsMemoryAddress bus address accessSize \<and> Bus_IsIoAddress bus address accessSize"

text \<open>The offset is an \<open>int\<close>, widened again to the \<open>uint64_t\<close> parameter of the call.\<close>

fun find_location :: "paddr_t \<Rightarrow> 'p BusRegion list \<Rightarrow> ('p \<times> uint32) result" where
  "find_location address [] = Inl EmuException"
| "find_location address (r # rs) =
    (if region_address r \<le> address \<and> address < region_address r + region_size r
     then Inr (region_ptr r, ucast (address - region_address r))
     else find_location address rs)"

definition ConvertToMemoryLocation :: "('m, 'i) Bus \<Rightarrow> paddr_t \<Rightarrow> ('m \<times> uint32) result" where
  "ConvertToMemoryLocation bus address = find_location address (m_MemoryList bus)"

definition ConvertToIoLocation :: "('m, 'i) Bus \<Rightarrow> paddr_t \<Rightarrow> ('i \<times> uint32) result" where
  "ConvertToIoLocation bus address = find_location address (m_IoList bus)"

section \<open>Accesses\<close>

definition Bus_Read ::
    "('m, 'i, 's) bus_calls \<Rightarrow> ('m, 'i) Bus \<Rightarrow> 's \<Rightarrow> nat \<Rightarrow> paddr_t \<Rightarrow> bytes result" where
  "Bus_Read calls bus s sz address =
    (if Bus_IsMemoryAddress bus address sz
     then rbind (ConvertToMemoryLocation bus address) (\<lambda>(ptr, offset).
            call_memory_read calls ptr s sz (scast offset))
     else if Bus_IsIoAddress bus address 1
     then rbind (ConvertToIoLocation bus address) (\<lambda>(ptr, offset).
            call_io_read calls ptr s sz (scast offset))
     else Inl EmuException)"

definition Bus_Write ::
    "('m, 'i, 's) bus_calls \<Rightarrow> ('m, 'i) Bus \<Rightarrow> bytes \<Rightarrow> paddr_t \<Rightarrow> 's \<Rightarrow> 's result" where
  "Bus_Write calls bus buffer address s =
    (if Bus_IsMemoryAddress bus address 1
     then rbind (ConvertToMemoryLocation bus address) (\<lambda>(ptr, offset).
            call_memory_write calls ptr buffer (scast offset) s)
     else if Bus_IsIoAddress bus address 1
     then rbind (ConvertToIoLocation bus address) (\<lambda>(ptr, offset).
            call_io_write calls ptr buffer (scast offset) s)
     else Inl EmuException)"

definition Bus_LoadFileToMemory ::
    "('m, 'i, 's) bus_calls \<Rightarrow> ('m, 'i) Bus \<Rightarrow> bytes option \<Rightarrow> paddr_t \<Rightarrow> 's \<Rightarrow> 's result" where
  "Bus_LoadFileToMemory calls bus file address s =
     rbind (ConvertToMemoryLocation bus address) (\<lambda>(ptr, offset). call_memory_load calls ptr file offset s)"

definition Bus_ReadUInt8 :: "('m, 'i, 's) bus_calls \<Rightarrow> ('m, 'i) Bus \<Rightarrow> 's \<Rightarrow> paddr_t \<Rightarrow> uint8 result" where
  "Bus_ReadUInt8 calls bus s address = rbind (Bus_Read calls bus s 1 address) (\<lambda>bs. Inr (of_bytes bs))"

definition Bus_ReadUInt16 :: "('m, 'i, 's) bus_calls \<Rightarrow> ('m, 'i) Bus \<Rightarrow> 's \<Rightarrow> paddr_t \<Rightarrow> uint16 result" where
  "Bus_ReadUInt16 calls bus s address = rbind (Bus_Read calls bus s 2 address) (\<lambda>bs. Inr (of_bytes bs))"

definition Bus_ReadUInt32 :: "('m, 'i, 's) bus_calls \<Rightarrow> ('m, 'i) Bus \<Rightarrow> 's \<Rightarrow> paddr_t \<Rightarrow> uint32 result" where
  "Bus_ReadUInt32 calls bus s address = rbind (Bus_Read calls bus s 4 address) (\<lambda>bs. Inr (of_bytes bs))"

definition Bus_ReadUInt64 :: "('m, 'i, 's) bus_calls \<Rightarrow> ('m, 'i) Bus \<Rightarrow> 's \<Rightarrow> paddr_t \<Rightarrow> uint64 result" where
  "Bus_ReadUInt64 calls bus s address = rbind (Bus_Read calls bus s 8 address) (\<lambda>bs. Inr (of_bytes bs))"

definition Bus_WriteUInt8 :: "('m, 'i, 's) bus_calls \<Rightarrow> ('m, 'i) Bus \<Rightarrow> paddr_t \<Rightarrow> uint8 \<Rightarrow> 's \<Rightarrow> 's result" where
  "Bus_WriteUInt8 calls bus address value s = Bus_Write calls bus (to_bytes 1 value) address s"

definition Bus_WriteUInt16 :: "('m, 'i, 's) bus_calls \<Rightarrow> ('m, 'i) Bus \<Rightarrow> paddr_t \<Rightarrow> uint16 \<Rightarrow> 's \<Rightarrow> 's result" where
  "Bus_WriteUInt16 calls bus address value s = Bus_Write calls bus (to_bytes 2 value) address s"

definition Bus_WriteUInt32 :: "('m, 'i, 's) bus_calls \<Rightarrow> ('m, 'i) Bus \<Rightarrow> paddr_t \<Rightarrow> uint32 \<Rightarrow> 's \<Rightarrow> 's result" where
  "Bus_WriteUInt32 calls bus address value s = Bus_Write calls bus (to_bytes 4 value) address s"

definition Bus_WriteUInt64 :: "('m, 'i, 's) bus_calls \<Rightarrow> ('m, 'i) Bus \<Rightarrow> paddr_t \<Rightarrow> uint64 \<Rightarrow> 's \<Rightarrow> 's result" where
  "Bus_WriteUInt64 calls bus address value s = Bus_Write calls bus (to_bytes 8 value) address s"

section \<open>Laws\<close>

text \<open>
  \<open>region_of bus address\<close> is what an access of the address reaches: the first memory that covers
  it, and the first device when there is none.
\<close>

lemma find_location_iff:
  "find_location a rs = Inr (p, off) \<longleftrightarrow>
     (\<exists>r. find (region_covers a a) rs = Some r \<and> p = region_ptr r \<and> off = ucast (a - region_address r))"
  by (induction rs) (auto simp: region_covers_def)

lemma find_location_None: "find_location a rs = Inl e \<longleftrightarrow> e = EmuException \<and> \<not> list_ex (region_covers a a) rs"
  by (induction rs) (auto simp: region_covers_def)

lemma IsMemoryAddress_1: "Bus_IsMemoryAddress bus a 1 \<longleftrightarrow> list_ex (region_covers a a) (m_MemoryList bus)"
  by (simp add: Bus_IsMemoryAddress_def)

lemma IsIoAddress_1: "Bus_IsIoAddress bus a 1 \<longleftrightarrow> list_ex (region_covers a a) (m_IoList bus)"
  by (simp add: Bus_IsIoAddress_def)

lemma region_covers_low:
  assumes "region_covers a (a + of_nat n - 1) r" "0 < n" "unat a + n < 2 ^ 64"
  shows "region_covers a a r"
proof -
  obtain m where m: "n = Suc m" using assms(2) by (cases n) auto
  have "unat (a + of_nat m) = unat a + m"
    using assms(3) m by (simp add: unat_word_ariths unat_of_nat)
  then have "a \<le> a + of_nat n - 1" by (simp add: m word_le_nat_alt)
  then show ?thesis using assms(1) by (auto simp: region_covers_def)
qed

lemma IsMemoryAddress_low:
  assumes "Bus_IsMemoryAddress bus a n" "0 < n" "unat a + n < 2 ^ 64"
  shows "Bus_IsMemoryAddress bus a 1"
  using assms region_covers_low by (fastforce simp: IsMemoryAddress_1 Bus_IsMemoryAddress_def list_ex_iff)

end
