(* ===== verification/RegFile.thy ===== *)
theory RegFile
  imports RvTypes
begin

text \<open>
  The register files and the reservation of one hart: \<^verbatim>\<open>cpu/IntRegFile.cpp\<close>, \<^verbatim>\<open>cpu/FpRegFile.cpp\<close> and
  \<^verbatim>\<open>cpu/AtomicManager.cpp\<close>. An entry is the 64-bit union of the source; its 32-bit views are the low
  half (the hosts are little-endian). The interface \<open>register_file\<close> is what a reader of registers
  may rely on, interpreted on each view of each file.
\<close>

section \<open>Entries\<close>

abbreviation RegCount :: int where "RegCount \<equiv> 32"

definition CheckRange :: "int \<Rightarrow> int \<Rightarrow> int \<Rightarrow> unit result" where
  "CheckRange lower actual upper = (if actual < lower \<or> upper < actual then Inl EmuException else Inr ())"

text \<open>
  The range check of the macro admits its upper bound; the array access that follows it does not.
\<close>

definition reg_index :: "int \<Rightarrow> int result" where
  "reg_index regId = rbind (CheckRange 0 regId RegCount) (\<lambda>_.
     if 0 \<le> regId \<and> regId < RegCount then Inr regId else Inl Undefined)"

definition entry_u32 :: "uint64 \<Rightarrow> uint32" where
  "entry_u32 e = ucast e"

definition set_entry_u32 :: "uint64 \<Rightarrow> uint32 \<Rightarrow> uint64" where
  "set_entry_u32 e v = (e AND NOT (mask 32)) OR ucast v"

definition set_entry_boxed :: "uint64 \<Rightarrow> uint32 \<Rightarrow> uint64" where
  "set_entry_boxed e v = push_bit 32 (ucast (0xffffffff :: uint32)) OR ucast v"

lemma reg_index_cases [simp, emu_simps]:
  "reg_index r = (if 0 \<le> r \<and> r < 32 then Inr r else if r = 32 then Inl Undefined else Inl EmuException)"
  by (auto simp: reg_index_def CheckRange_def)

lemma all_ones_32: "(0xffffffff :: uint32) = - 1"
  by simp

lemma entry_u32_set_u32 [simp]: "entry_u32 (set_entry_u32 e v) = v"
  unfolding entry_u32_def set_entry_u32_def
  by (rule bit_eqI) (auto simp: bit_simps)

lemma entry_u32_set_boxed [simp]: "entry_u32 (set_entry_boxed e v) = v"
  unfolding entry_u32_def set_entry_boxed_def all_ones_32
  by (rule bit_eqI) (auto simp: bit_push_bit_iff bit_unsigned_iff bit_or_iff bit_and_iff bit_minus_1_iff)

lemma GetHigh32_set_entry_u32: "GetHigh32 (set_entry_u32 e v) = GetHigh32 e"
  by (rule bit_eqI) (auto simp: field_simps_bits set_entry_u32_def bit_simps dest: bit_imp_le_length)

lemma GetHigh32_set_entry_boxed: "GetHigh32 (set_entry_boxed e v) = - 1"
  unfolding set_entry_boxed_def all_ones_32
  by (rule bit_eqI) (auto simp: bit_GetHigh32 bit_push_bit_iff bit_unsigned_iff bit_or_iff
      bit_minus_1_iff dest: bit_imp_le_length)

section \<open>IntRegFile\<close>

record IntRegFile =
  m_IntEntries :: "int \<Rightarrow> uint64"

definition IntRegFile_init :: IntRegFile where
  "IntRegFile_init = \<lparr> m_IntEntries = (\<lambda>_. 0) \<rparr>"

definition IntRegFile_ReadInt32 :: "IntRegFile \<Rightarrow> int \<Rightarrow> uint32 result" where
  "IntRegFile_ReadInt32 rf regId = rbind (reg_index regId) (\<lambda>i. Inr (entry_u32 (m_IntEntries rf i)))"

definition IntRegFile_ReadInt64 :: "IntRegFile \<Rightarrow> int \<Rightarrow> uint64 result" where
  "IntRegFile_ReadInt64 rf regId = rbind (reg_index regId) (\<lambda>i. Inr (m_IntEntries rf i))"

definition IntRegFile_ReadUInt32 :: "IntRegFile \<Rightarrow> int \<Rightarrow> uint32 result" where
  "IntRegFile_ReadUInt32 rf regId = rbind (reg_index regId) (\<lambda>i. Inr (entry_u32 (m_IntEntries rf i)))"

definition IntRegFile_ReadUInt64 :: "IntRegFile \<Rightarrow> int \<Rightarrow> uint64 result" where
  "IntRegFile_ReadUInt64 rf regId = rbind (reg_index regId) (\<lambda>i. Inr (m_IntEntries rf i))"

text \<open>The order is the source's: the macro's check, then the test for x0, then the access.\<close>

definition IntRegFile_WriteInt32 :: "IntRegFile \<Rightarrow> int \<Rightarrow> uint32 \<Rightarrow> IntRegFile result" where
  "IntRegFile_WriteInt32 rf regId value = rbind (CheckRange 0 regId RegCount) (\<lambda>_.
     if regId \<noteq> 0
     then rbind (reg_index regId) (\<lambda>i. Inr (rf\<lparr> m_IntEntries :=
            (m_IntEntries rf)(i := set_entry_u32 (m_IntEntries rf i) value) \<rparr>))
     else Inr rf)"

definition IntRegFile_WriteInt64 :: "IntRegFile \<Rightarrow> int \<Rightarrow> uint64 \<Rightarrow> IntRegFile result" where
  "IntRegFile_WriteInt64 rf regId value = rbind (CheckRange 0 regId RegCount) (\<lambda>_.
     if regId \<noteq> 0
     then rbind (reg_index regId) (\<lambda>i. Inr (rf\<lparr> m_IntEntries := (m_IntEntries rf)(i := value) \<rparr>))
     else Inr rf)"

definition IntRegFile_WriteUInt32 :: "IntRegFile \<Rightarrow> int \<Rightarrow> uint32 \<Rightarrow> IntRegFile result" where
  "IntRegFile_WriteUInt32 rf regId value = rbind (CheckRange 0 regId RegCount) (\<lambda>_.
     if regId \<noteq> 0
     then rbind (reg_index regId) (\<lambda>i. Inr (rf\<lparr> m_IntEntries :=
            (m_IntEntries rf)(i := set_entry_u32 (m_IntEntries rf i) value) \<rparr>))
     else Inr rf)"

definition IntRegFile_WriteUInt64 :: "IntRegFile \<Rightarrow> int \<Rightarrow> uint64 \<Rightarrow> IntRegFile result" where
  "IntRegFile_WriteUInt64 rf regId value = rbind (CheckRange 0 regId RegCount) (\<lambda>_.
     if regId \<noteq> 0
     then rbind (reg_index regId) (\<lambda>i. Inr (rf\<lparr> m_IntEntries := (m_IntEntries rf)(i := value) \<rparr>))
     else Inr rf)"

definition IntRegFile_Copy32 :: "IntRegFile \<Rightarrow> uint32 list" where
  "IntRegFile_Copy32 rf = map (\<lambda>i. entry_u32 (m_IntEntries rf i)) [0..RegCount - 1]"

definition IntRegFile_Copy64 :: "IntRegFile \<Rightarrow> uint64 list" where
  "IntRegFile_Copy64 rf = map (\<lambda>i. m_IntEntries rf i) [0..RegCount - 1]"

lemmas IntRegFile_read_defs = IntRegFile_ReadInt32_def IntRegFile_ReadInt64_def
  IntRegFile_ReadUInt32_def IntRegFile_ReadUInt64_def

lemmas IntRegFile_write_defs = IntRegFile_WriteInt32_def IntRegFile_WriteInt64_def
  IntRegFile_WriteUInt32_def IntRegFile_WriteUInt64_def CheckRange_def

section \<open>FpRegFile\<close>

text \<open>
  \<open>float\<close> and \<open>double\<close> are carried as their bit patterns, so the accessors of the two
  floating types are those of the integer types.
\<close>

record FpRegFile =
  m_FpEntries :: "int \<Rightarrow> uint64"

definition FpRegFile_init :: FpRegFile where
  "FpRegFile_init = \<lparr> m_FpEntries = (\<lambda>_. 0) \<rparr>"

definition FpRegFile_ReadUInt32 :: "FpRegFile \<Rightarrow> int \<Rightarrow> uint32 result" where
  "FpRegFile_ReadUInt32 rf regId = rbind (reg_index regId) (\<lambda>i. Inr (entry_u32 (m_FpEntries rf i)))"

definition FpRegFile_ReadUInt64 :: "FpRegFile \<Rightarrow> int \<Rightarrow> uint64 result" where
  "FpRegFile_ReadUInt64 rf regId = rbind (reg_index regId) (\<lambda>i. Inr (m_FpEntries rf i))"

definition FpRegFile_WriteUInt32 :: "FpRegFile \<Rightarrow> int \<Rightarrow> uint32 \<Rightarrow> FpRegFile result" where
  "FpRegFile_WriteUInt32 rf regId value = rbind (reg_index regId) (\<lambda>i. Inr (rf\<lparr> m_FpEntries :=
     (m_FpEntries rf)(i := set_entry_boxed (m_FpEntries rf i) value) \<rparr>))"

definition FpRegFile_WriteUInt64 :: "FpRegFile \<Rightarrow> int \<Rightarrow> uint64 \<Rightarrow> FpRegFile result" where
  "FpRegFile_WriteUInt64 rf regId value = rbind (reg_index regId) (\<lambda>i.
     Inr (rf\<lparr> m_FpEntries := (m_FpEntries rf)(i := value) \<rparr>))"

definition FpRegFile_ReadFloat :: "FpRegFile \<Rightarrow> int \<Rightarrow> uint32 result" where
  "FpRegFile_ReadFloat rf regId = rbind (reg_index regId) (\<lambda>i. Inr (entry_u32 (m_FpEntries rf i)))"

definition FpRegFile_ReadDouble :: "FpRegFile \<Rightarrow> int \<Rightarrow> uint64 result" where
  "FpRegFile_ReadDouble rf regId = rbind (reg_index regId) (\<lambda>i. Inr (m_FpEntries rf i))"

definition FpRegFile_WriteFloat :: "FpRegFile \<Rightarrow> int \<Rightarrow> uint32 \<Rightarrow> FpRegFile result" where
  "FpRegFile_WriteFloat rf regId value = rbind (reg_index regId) (\<lambda>i. Inr (rf\<lparr> m_FpEntries :=
     (m_FpEntries rf)(i := set_entry_boxed (m_FpEntries rf i) value) \<rparr>))"

definition FpRegFile_WriteDouble :: "FpRegFile \<Rightarrow> int \<Rightarrow> uint64 \<Rightarrow> FpRegFile result" where
  "FpRegFile_WriteDouble rf regId value = rbind (reg_index regId) (\<lambda>i.
     Inr (rf\<lparr> m_FpEntries := (m_FpEntries rf)(i := value) \<rparr>))"

definition FpRegFile_Copy :: "FpRegFile \<Rightarrow> uint64 list" where
  "FpRegFile_Copy rf = map (\<lambda>i. m_FpEntries rf i) [0..RegCount - 1]"

lemmas FpRegFile_defs = FpRegFile_ReadUInt32_def FpRegFile_ReadUInt64_def
  FpRegFile_WriteUInt32_def FpRegFile_WriteUInt64_def

lemmas FpRegFile_float_defs = FpRegFile_ReadFloat_def FpRegFile_ReadDouble_def
  FpRegFile_WriteFloat_def FpRegFile_WriteDouble_def

section \<open>The interface of a register file\<close>

text \<open>
  \<open>hard r\<close> marks the registers a write leaves as they are. The laws: accesses succeed exactly on
  the 32 registers, a read returns the last value written, and a write changes its register only.
\<close>

locale register_file =
  fixes rd :: "'s \<Rightarrow> int \<Rightarrow> ('w::len) word result"
    and wr :: "'s \<Rightarrow> int \<Rightarrow> 'w word \<Rightarrow> 's result"
    and hard :: "int \<Rightarrow> bool"
  assumes rd_ok: "0 \<le> r \<Longrightarrow> r < 32 \<Longrightarrow> \<exists>v. rd s r = Inr v"
    and wr_ok: "0 \<le> r \<Longrightarrow> r < 32 \<Longrightarrow> \<exists>s'. wr s r v = Inr s'"
    and rd_bad: "r < 0 \<or> 32 < r \<Longrightarrow> rd s r = Inl EmuException"
    and wr_bad: "r < 0 \<or> 32 < r \<Longrightarrow> wr s r v = Inl EmuException"
    and rd_wr_same: "wr s r v = Inr s' \<Longrightarrow> \<not> hard r \<Longrightarrow> rd s' r = Inr v"
    and rd_wr_other: "wr s r v = Inr s' \<Longrightarrow> r' \<noteq> r \<or> hard r \<Longrightarrow> rd s' r' = rd s r'"
begin

lemma wr_twice:
  assumes "wr s r v = Inr s1" "wr s1 r w = Inr s2" "\<not> hard r"
  shows "rd s2 r' = (if r' = r then Inr w else rd s r')"
  using assms rd_wr_same [of s1 r w s2] rd_wr_other [of s1 r w s2 r'] rd_wr_other [of s r v s1 r'] by auto

lemma wr_swap:
  assumes "wr s r v = Inr s1" "wr s1 q w = Inr s2" "wr s q w = Inr t1" "wr t1 r v = Inr t2" "r \<noteq> q"
  shows "rd s2 x = rd t2 x"
proof -
  have *: "rd s2 x = (if x = q \<and> \<not> hard q then Inr w else if x = r \<and> \<not> hard r then Inr v else rd s x)"
    using assms rd_wr_same [of s1 q w s2] rd_wr_other [of s1 q w s2 x] rd_wr_same [of s r v s1]
      rd_wr_other [of s r v s1 x] by metis
  have "rd t2 x = (if x = r \<and> \<not> hard r then Inr v else if x = q \<and> \<not> hard q then Inr w else rd s x)"
    using assms rd_wr_same [of t1 r v t2] rd_wr_other [of t1 r v t2 x] rd_wr_same [of s q w t1]
      rd_wr_other [of s q w t1 x] by metis
  with * \<open>r \<noteq> q\<close> show ?thesis by auto
qed

end

interpretation int64: register_file IntRegFile_ReadInt64 IntRegFile_WriteInt64 "\<lambda>r. r = 0"
  by unfold_locales (auto simp: IntRegFile_read_defs IntRegFile_write_defs split: if_splits)

interpretation int32: register_file IntRegFile_ReadInt32 IntRegFile_WriteInt32 "\<lambda>r. r = 0"
  by unfold_locales (auto simp: IntRegFile_read_defs IntRegFile_write_defs split: if_splits)

interpretation fp64: register_file FpRegFile_ReadUInt64 FpRegFile_WriteUInt64 "\<lambda>r. False"
  by unfold_locales (auto simp: FpRegFile_defs split: if_splits)

interpretation fp32: register_file FpRegFile_ReadUInt32 FpRegFile_WriteUInt32 "\<lambda>r. False"
  by unfold_locales (auto simp: FpRegFile_defs split: if_splits)

interpretation fp_double: register_file FpRegFile_ReadDouble FpRegFile_WriteDouble "\<lambda>r. False"
  by unfold_locales (auto simp: FpRegFile_float_defs split: if_splits)

interpretation fp_float: register_file FpRegFile_ReadFloat FpRegFile_WriteFloat "\<lambda>r. False"
  by unfold_locales (auto simp: FpRegFile_float_defs split: if_splits)

section \<open>x0\<close>

definition x0_zero :: "IntRegFile \<Rightarrow> bool" where
  "x0_zero rf \<longleftrightarrow> m_IntEntries rf 0 = 0"

lemma x0_zero_init: "x0_zero IntRegFile_init"
  by (simp add: x0_zero_def IntRegFile_init_def)

lemma x0_zero_WriteInt32: "IntRegFile_WriteInt32 rf r v = Inr rf' \<Longrightarrow> x0_zero rf \<Longrightarrow> x0_zero rf'"
  by (auto simp: x0_zero_def IntRegFile_write_defs split: if_splits)

lemma x0_zero_WriteInt64: "IntRegFile_WriteInt64 rf r v = Inr rf' \<Longrightarrow> x0_zero rf \<Longrightarrow> x0_zero rf'"
  by (auto simp: x0_zero_def IntRegFile_write_defs split: if_splits)

lemma x0_zero_WriteUInt32: "IntRegFile_WriteUInt32 rf r v = Inr rf' \<Longrightarrow> x0_zero rf \<Longrightarrow> x0_zero rf'"
  by (auto simp: x0_zero_def IntRegFile_write_defs split: if_splits)

lemma x0_zero_WriteUInt64: "IntRegFile_WriteUInt64 rf r v = Inr rf' \<Longrightarrow> x0_zero rf \<Longrightarrow> x0_zero rf'"
  by (auto simp: x0_zero_def IntRegFile_write_defs split: if_splits)

lemmas x0_zero_writes = x0_zero_WriteInt32 x0_zero_WriteInt64 x0_zero_WriteUInt32 x0_zero_WriteUInt64

lemma IntRegFile_Copy64_nth:
  "0 \<le> r \<Longrightarrow> r < 32 \<Longrightarrow> IntRegFile_ReadUInt64 rf r = Inr (IntRegFile_Copy64 rf ! nat r)"
  by (simp add: IntRegFile_read_defs IntRegFile_Copy64_def)

section \<open>AtomicManager\<close>

record AtomicManager =
  m_Address :: vaddr_t
  m_Reserved :: bool

definition AtomicManager_init :: AtomicManager where
  "AtomicManager_init = \<lparr> m_Address = 0, m_Reserved = False \<rparr>"

definition AtomicManager_Reserve :: "vaddr_t \<Rightarrow> AtomicManager \<Rightarrow> AtomicManager" where
  "AtomicManager_Reserve addr am = am\<lparr> m_Address := addr, m_Reserved := True \<rparr>"

definition AtomicManager_Cancel :: "AtomicManager \<Rightarrow> AtomicManager" where
  "AtomicManager_Cancel am = am\<lparr> m_Reserved := False \<rparr>"

end
