(* ===== verification/TrapProcessor.thy ===== *)
theory TrapProcessor
  imports CsrLaws
begin

text \<open>
  \<^verbatim>\<open>cpu/TrapProcessor.cpp\<close>: entering a trap handler on an exception or an interrupt, and returning
  from it. The component works on the CSRs and appends to the event list of the cycle; both are
  passed as a pair. Every intermediate access goes through the CSR read and write operations, as in
  the source, and every value held in an \<open>xstatus_t\<close> passes through its 32-bit constructor.
\<close>

type_synonym trap_state = "Csr \<times> Event list"

definition push_event :: "Event \<Rightarrow> trap_state \<Rightarrow> trap_state" where
  "push_event e s = (fst s, snd s @ [e])"

section \<open>Entering a trap\<close>

definition trap_cause :: "XLEN \<Rightarrow> bool \<Rightarrow> uint32 \<Rightarrow> uint64 result" where
  "trap_cause xlen isInterrupt exceptionCode = (case xlen of
     XLEN32 \<Rightarrow> Inr ((if isInterrupt then push_bit 31 1 else 0) OR ucast exceptionCode)
   | XLEN64 \<Rightarrow> Inr ((if isInterrupt then push_bit 63 1 else 0) OR ucast exceptionCode)
   | XLEN128 \<Rightarrow> Inl EmuException)"

definition trap_base :: "XLEN \<Rightarrow> uint64 \<Rightarrow> uint64 result" where
  "trap_base xlen trapVector = (case xlen of
     XLEN32 \<Rightarrow> Inr (GetWithMask trapVector (Mask xtvec_BASE_RV32))
   | XLEN64 \<Rightarrow> Inr (GetWithMask trapVector (Mask xtvec_BASE_RV64))
   | XLEN128 \<Rightarrow> Inl EmuException)"

text \<open>The four writes of one level, and the read of its vector.\<close>

definition trap_save ::
    "uint32 \<Rightarrow> uint64 \<Rightarrow> uint32 \<Rightarrow> uint64 \<Rightarrow> uint32 \<Rightarrow> uint64 \<Rightarrow> uint32 \<Rightarrow> uint64 \<Rightarrow> uint32 \<Rightarrow> Csr
      \<Rightarrow> (uint64 \<times> Csr) result" where
  "trap_save statusAddr status causeAddr cause epcAddr pc tvalAddr trapValue tvecAddr csr =
     rbind (Csr_WriteUInt64 statusAddr status csr) (\<lambda>csr.
     rbind (Csr_WriteUInt64 causeAddr cause csr) (\<lambda>csr.
     rbind (Csr_WriteUInt64 epcAddr pc csr) (\<lambda>csr.
     rbind (Csr_WriteUInt64 tvalAddr trapValue csr) (\<lambda>csr.
     rbind (Csr_ReadUInt64 csr tvecAddr) (\<lambda>trapVector. Inr (trapVector, csr))))))"

definition trap_status_machine :: "uint64 \<Rightarrow> PrivilegeLevel \<Rightarrow> uint64" where
  "trap_status_machine status prevPriv =
     SetMember xstatus_MPP (PrivilegeLevel_code prevPriv)
       (SetMember xstatus_MIE 0 (SetMember xstatus_MPIE (GetMember xstatus_MIE status) status))"

definition trap_status_supervisor :: "uint64 \<Rightarrow> PrivilegeLevel \<Rightarrow> uint64" where
  "trap_status_supervisor status prevPriv =
     SetMember xstatus_SPP (PrivilegeLevel_code prevPriv)
       (SetMember xstatus_SIE 0 (SetMember xstatus_SPIE (GetMember xstatus_SIE status) status))"

definition trap_status_user :: "uint64 \<Rightarrow> uint64" where
  "trap_status_user status =
     SetMember xstatus_UIE 0 (SetMember xstatus_UPIE (GetMember xstatus_UIE status) status)"

definition trap_enter_level ::
    "PrivilegeLevel \<Rightarrow> PrivilegeLevel \<Rightarrow> uint64 \<Rightarrow> vaddr_t \<Rightarrow> uint64 \<Rightarrow> Csr \<Rightarrow> (uint64 \<times> Csr) result" where
  "trap_enter_level nextPriv prevPriv cause pc trapValue csr = (case nextPriv of
     Machine \<Rightarrow> rbind (Csr_ReadUInt64 csr csr_mstatus) (\<lambda>v.
       trap_save csr_mstatus (trap_status_machine (xstatus_of_uint64 v) prevPriv) csr_mcause cause
         csr_mepc pc csr_mtval trapValue csr_mtvec csr)
   | Supervisor \<Rightarrow> rbind (Csr_ReadUInt64 csr csr_sstatus) (\<lambda>v.
       trap_save csr_sstatus (trap_status_supervisor (xstatus_of_uint64 v) prevPriv) csr_scause cause
         csr_sepc pc csr_stval trapValue csr_stvec csr)
   | User \<Rightarrow> rbind (Csr_ReadUInt64 csr csr_ustatus) (\<lambda>v.
       trap_save csr_ustatus (trap_status_user (xstatus_of_uint64 v)) csr_ucause cause
         csr_uepc pc csr_utval trapValue csr_utvec csr)
   | Reserved \<Rightarrow> Inl EmuException)"

text \<open>
  The level recorded as the origin is the one read after the privilege has been changed.
\<close>

definition ProcessTrapEnter ::
    "XLEN \<Rightarrow> bool \<Rightarrow> uint32 \<Rightarrow> uint64 \<Rightarrow> vaddr_t \<Rightarrow> PrivilegeLevel \<Rightarrow> trap_state \<Rightarrow> trap_state result" where
  "ProcessTrapEnter xlen isInterrupt exceptionCode trapValue pc nextPriv s =
    (let prevPriv = m_Priv (fst s);
         csr = Csr_SetPriv nextPriv (fst s)
     in rbind (trap_cause xlen isInterrupt exceptionCode) (\<lambda>cause.
        rbind (trap_enter_level nextPriv prevPriv cause pc trapValue csr) (\<lambda>(trapVector, csr).
        rbind (trap_base xlen trapVector) (\<lambda>base.
          let csr = (if isInterrupt \<and> GetMember xtvec_MODE trapVector = 1
                     then Csr_SetPc (base + ucast (exceptionCode * 4)) csr
                     else Csr_SetPc base csr)
          in Inr (push_event (TrapEvent (if isInterrupt then Interrupt else Exception)
                    (m_Priv csr) nextPriv exceptionCode trapValue) (csr, snd s))))))"

definition delegated_level :: "Csr \<Rightarrow> uint32 \<Rightarrow> uint32 \<Rightarrow> nat \<Rightarrow> PrivilegeLevel result" where
  "delegated_level csr mdeleg sdeleg cause =
     rbind (Csr_ReadUInt64 csr mdeleg) (\<lambda>m.
       if m AND push_bit cause 1 \<noteq> 0
       then rbind (Csr_ReadUInt64 csr sdeleg) (\<lambda>d.
              if d AND push_bit cause 1 \<noteq> 0 then Inr User else Inr Supervisor)
       else Inr Machine)"

definition ProcessException :: "XLEN \<Rightarrow> Trap \<Rightarrow> trap_state \<Rightarrow> trap_state result" where
  "ProcessException xlen trap s =
    (let cause = ExceptionType_code (trap_type trap)
     in rbind (delegated_level (fst s) csr_medeleg csr_sedeleg cause) (\<lambda>nextPriv.
          ProcessTrapEnter xlen False (of_nat cause) (trap_trapValue trap) (trap_pc trap) nextPriv s))"

definition ProcessInterrupt :: "XLEN \<Rightarrow> InterruptType \<Rightarrow> vaddr_t \<Rightarrow> trap_state \<Rightarrow> trap_state result" where
  "ProcessInterrupt xlen type pc s =
    (let cause = InterruptType_code type
     in rbind (delegated_level (fst s) csr_mideleg csr_sideleg cause) (\<lambda>nextPriv.
          ProcessTrapEnter xlen True (of_nat cause) 0 pc nextPriv s))"

section \<open>Returning from a trap\<close>

definition ProcessTrapReturn :: "PrivilegeLevel \<Rightarrow> trap_state \<Rightarrow> trap_state result" where
  "ProcessTrapReturn level s = (let csr = fst s in
     rbind (case level of
       Machine \<Rightarrow>
         rbind (Csr_ReadUInt64 csr csr_mstatus) (\<lambda>v.
         rbind (Csr_ReadUInt64 csr csr_mepc) (\<lambda>pc.
           let status = xstatus_of_uint64 v;
               previousLevel = GetMember xstatus_MPP status;
               previousInterruptEnable = GetMember xstatus_MPIE status;
               status = SetMember xstatus_MIE previousInterruptEnable (SetMember xstatus_MPP 0 status)
           in rbind (Csr_WriteUInt64 csr_mstatus status csr) (\<lambda>csr.
                Inr (previousLevel, Csr_SetPc pc csr))))
     | Supervisor \<Rightarrow>
         rbind (Csr_ReadUInt64 csr csr_sstatus) (\<lambda>v.
         rbind (Csr_ReadUInt64 csr csr_sepc) (\<lambda>pc.
           let status = xstatus_of_uint64 v;
               previousLevel = GetMember xstatus_SPP status;
               previousInterruptEnable = GetMember xstatus_SPIE status;
               status = SetMember xstatus_SIE previousInterruptEnable (SetMember xstatus_SPP 0 status)
           in rbind (Csr_WriteUInt64 csr_sstatus status csr) (\<lambda>csr.
                Inr (previousLevel, Csr_SetPc pc csr))))
     | _ \<Rightarrow> Inl EmuException) (\<lambda>(previousLevel, csr).
       let nextPriv = PrivilegeLevel_cast previousLevel;
           s' = push_event (TrapEvent Return (m_Priv csr) nextPriv 0 0) (csr, snd s)
       in Inr (Csr_SetPriv nextPriv (fst s'), snd s')))"

section \<open>Laws\<close>

lemmas push_event_simps [simp] = push_event_def

lemma and_bit_neq_0_iff: "(v :: 'a::len word) AND push_bit n 1 \<noteq> 0 \<longleftrightarrow> bit v n"
  by (simp add: and_exp_eq_0_iff del: push_bit_of_1)

lemma delegated_level_eq:
  "delegated_level csr csr_medeleg csr_sedeleg c =
     Inr (if \<not> bit (m_MachineExceptionDelegation csr) c then Machine
          else if bit (m_SupervisorExceptionDelegation csr) c then User else Supervisor)"
  "delegated_level csr csr_mideleg csr_sideleg c =
     Inr (if \<not> bit (m_MachineInterruptDelegation csr) c then Machine
          else if bit (m_SupervisorInterruptDelegation csr) c then User else Supervisor)"
  by (simp_all add: delegated_level_def read_storage and_bit_neq_0_iff del: push_bit_of_1)

lemma read_status_registers:
  "Csr_ReadUInt64 csr csr_mstatus = Csr_ReadStatus csr"
  "Csr_ReadUInt64 csr csr_sstatus = ReadSupervisorStatus csr"
  "Csr_ReadUInt64 csr csr_ustatus =
     rbind (Csr_ReadStatus csr) (\<lambda>st. Inr (GetWithMask st xstatus_UserMask))"
  by (simp_all add: csr_read_defs register_mode_defs)

lemma WriteStatus_select [simp]:
  "m_XLEN (Csr_WriteStatus v csr) = m_XLEN csr" "m_Priv (Csr_WriteStatus v csr) = m_Priv csr"
  "m_Pc (Csr_WriteStatus v csr) = m_Pc csr" 
  "m_MachineTrapVector (Csr_WriteStatus v csr) = m_MachineTrapVector csr"
  "m_SupervisorTrapVector (Csr_WriteStatus v csr) = m_SupervisorTrapVector csr"
  "m_UserTrapVector (Csr_WriteStatus v csr) = m_UserTrapVector csr"
  "m_MachineExceptionPc (Csr_WriteStatus v csr) = m_MachineExceptionPc csr"
  "m_SupervisorExceptionPc (Csr_WriteStatus v csr) = m_SupervisorExceptionPc csr"
  "m_Status (Csr_WriteStatus v csr) = SetWithMask (m_Status csr) v xstatus_WriteMask"
  by (simp_all add: Csr_WriteStatus_def)

lemma SetPriv_select [simp]:
  "m_XLEN (Csr_SetPriv p csr) = m_XLEN csr" "m_Status (Csr_SetPriv p csr) = m_Status csr"
  "m_Priv (Csr_SetPriv p csr) = p" "m_Pc (Csr_SetPriv p csr) = m_Pc csr"
  "m_MachineTrapVector (Csr_SetPriv p csr) = m_MachineTrapVector csr"
  "m_SupervisorTrapVector (Csr_SetPriv p csr) = m_SupervisorTrapVector csr"
  "m_UserTrapVector (Csr_SetPriv p csr) = m_UserTrapVector csr"
  by (simp_all add: Csr_SetPriv_def)

lemma SetPc_select [simp]:
  "m_Pc (Csr_SetPc v csr) = v" "m_Priv (Csr_SetPc v csr) = m_Priv csr"
  "m_XLEN (Csr_SetPc v csr) = m_XLEN csr" "m_Status (Csr_SetPc v csr) = m_Status csr"
  by (simp_all add: Csr_SetPc_def)

definition trap_target :: "XLEN \<Rightarrow> bool \<Rightarrow> uint32 \<Rightarrow> uint64 \<Rightarrow> vaddr_t" where
  "trap_target xlen isInterrupt code tvec =
     (let base = GetWithMask tvec (if xlen = XLEN32 then Mask xtvec_BASE_RV32 else Mask xtvec_BASE_RV64)
      in if isInterrupt \<and> GetMember xtvec_MODE tvec = 1 then base + ucast (code * 4) else base)"

definition trap_cause_value :: "XLEN \<Rightarrow> bool \<Rightarrow> uint32 \<Rightarrow> uint64" where
  "trap_cause_value xlen isInterrupt code =
     (if isInterrupt then push_bit (if xlen = XLEN32 then 31 else 63) 1 else 0) OR ucast code"

lemma trap_cause_eq:
  "csr_xlen_ok csr \<Longrightarrow> trap_cause (m_XLEN csr) i c = Inr (trap_cause_value (m_XLEN csr) i c)"
  by (auto simp: csr_xlen_ok_def trap_cause_def trap_cause_value_def)

lemma trap_base_target:
  assumes "csr_xlen_ok csr"
  shows "\<exists>base. trap_base (m_XLEN csr) tvec = Inr base \<and>
    (if i \<and> GetMember xtvec_MODE tvec = 1 then base + ucast (c * 4) else base) = trap_target (m_XLEN csr) i c tvec"
  using assms by (auto simp: csr_xlen_ok_def trap_base_def trap_target_def)

lemma ProcessTrapEnter_eq:
  assumes "csr_xlen_ok csr"
    and "trap_enter_level nextPriv (m_Priv csr) (trap_cause_value (m_XLEN csr) i c) pc tv
           (Csr_SetPriv nextPriv csr) = Inr (tvec, csr')"
    and "m_Priv csr' = nextPriv"
  shows "ProcessTrapEnter (m_XLEN csr) i c tv pc nextPriv (csr, es) =
    Inr (Csr_SetPc (trap_target (m_XLEN csr) i c tvec) csr',
         es @ [TrapEvent (if i then Interrupt else Exception) nextPriv nextPriv c tv])"
  using trap_base_target [OF assms(1), of tvec i c] assms(2,3)
  by (auto simp: ProcessTrapEnter_def Let_def trap_cause_eq [OF assms(1)])

lemma enter_machine_eq:
  assumes "Csr_ReadStatus csr = Inr st"
  shows "trap_enter_level Machine p cause pc tv csr =
    Inr (m_MachineTrapVector csr,
      (Csr_WriteStatus (xstatus_of_uint64 (trap_status_machine (xstatus_of_uint64 st) p)) csr)
        \<lparr> m_MachineCause := cause, m_MachineExceptionPc := pc, m_MachineTrapValue := tv \<rparr>)"
  using assms
  by (simp add: trap_enter_level_def trap_save_def read_status_registers write_status_registers
      write_storage read_storage)

lemma ReadStatus_SetPriv [simp]: "Csr_ReadStatus (Csr_SetPriv p csr) = Csr_ReadStatus csr"
  by (simp add: Csr_ReadStatus_def Csr_SetPriv_def Let_def)

lemma csr_xlen_ok_SetPriv [simp]: "csr_xlen_ok (Csr_SetPriv p csr) = csr_xlen_ok csr"
  by (simp add: csr_xlen_ok_def)

lemma bit_trap_status_machine [field_simps_bits]:
  "bit (trap_status_machine st p) k \<longleftrightarrow>
     (if k = 11 \<or> k = 12 then bit (PrivilegeLevel_code p) (k - 11)
      else if k = 3 then False else if k = 7 then bit st 3 else bit st k)"
  by (auto simp: trap_status_machine_def field_simps_bits)

lemma bit_trap_status_supervisor [field_simps_bits]:
  "bit (trap_status_supervisor st p) k \<longleftrightarrow>
     (if k = 8 then bit (PrivilegeLevel_code p) 0
      else if k = 1 then False else if k = 5 then bit st 1 else bit st k)"
  by (auto simp: trap_status_supervisor_def field_simps_bits)

lemma enter_machine_status_bit:
  assumes "Csr_ReadStatus csr = Inr st"
  shows "bit (SetWithMask (m_Status csr)
      (xstatus_of_uint64 (trap_status_machine (xstatus_of_uint64 st) p)) xstatus_WriteMask) k \<longleftrightarrow>
    (if k = 11 \<or> k = 12 then bit (PrivilegeLevel_code p) (k - 11)
     else if k = 3 then False else if k = 7 then bit (m_Status csr) 3 else bit (m_Status csr) k)"
  using ReadStatus_bit [OF assms, of k] ReadStatus_bit [OF assms, of 3]
  by (auto simp: bit_SetWithMask bit_xstatus_of_uint64 bit_trap_status_machine bit_xstatus_WriteMask)

lemma PrivilegeLevel_code_bits: "bit (PrivilegeLevel_code p) k \<Longrightarrow> k < 2"
proof (cases p)
  case Machine
  have "(3 :: uint64) = mask 2" by (simp add: mask_eq_exp_minus_1)
  then show "bit (PrivilegeLevel_code p) k \<Longrightarrow> k < 2"
    unfolding Machine PrivilegeLevel_code.simps by (simp add: bit_mask_iff)
next
  case Reserved
  have "(2 :: uint64) = push_bit 1 1" by simp
  then show "bit (PrivilegeLevel_code p) k \<Longrightarrow> k < 2"
    unfolding Reserved PrivilegeLevel_code.simps by (simp only: bit_push_bit_iff bit_1_iff) simp
qed (simp_all add: bit_1_iff)

lemma MPP_eqI:
  assumes "bit v 11 = bit (PrivilegeLevel_code p) 0" "bit v 12 = bit (PrivilegeLevel_code p) 1"
  shows "GetMember xstatus_MPP v = PrivilegeLevel_code p"
proof (rule bit_eqI)
  fix k :: nat
  consider "k = 0" | "k = 1" | "2 \<le> k" by linarith
  then show "bit (GetMember xstatus_MPP v) k = bit (PrivilegeLevel_code p) k"
    by cases (use assms PrivilegeLevel_code_bits [of p k] in \<open>auto simp: bit_GetMember\<close>)
qed

lemma return_machine_eq:
  assumes "Csr_ReadStatus csr = Inr st"
  shows "ProcessTrapReturn Machine (csr, es) =
    (let np = PrivilegeLevel_cast (GetMember xstatus_MPP (xstatus_of_uint64 st)) in
     Inr (Csr_SetPriv np (Csr_SetPc (m_MachineExceptionPc csr)
       (Csr_WriteStatus (xstatus_of_uint64 (SetMember xstatus_MIE (GetMember xstatus_MPIE (xstatus_of_uint64 st))
          (SetMember xstatus_MPP 0 (xstatus_of_uint64 st)))) csr)),
       es @ [TrapEvent Return (m_Priv csr) np 0 0]))"
  using assms
  by (simp add: ProcessTrapReturn_def read_status_registers read_storage write_status_registers Let_def)

lemma return_machine_status_bit:
  assumes "Csr_ReadStatus csr = Inr st"
  shows "bit (SetWithMask (m_Status csr) (xstatus_of_uint64 (SetMember xstatus_MIE
      (GetMember xstatus_MPIE (xstatus_of_uint64 st)) (SetMember xstatus_MPP 0 (xstatus_of_uint64 st))))
      xstatus_WriteMask) k \<longleftrightarrow>
    (if k = 11 \<or> k = 12 then False else if k = 3 then bit (m_Status csr) 7 else bit (m_Status csr) k)"
  using ReadStatus_bit [OF assms, of k] ReadStatus_bit [OF assms, of 7]
  by (auto simp: bit_SetWithMask bit_xstatus_of_uint64 bit_SetMember bit_GetMember bit_xstatus_WriteMask)

lemma MPP_read:
  assumes "Csr_ReadStatus csr = Inr st" "GetMember xstatus_MPP (m_Status csr) = PrivilegeLevel_code p"
  shows "GetMember xstatus_MPP (xstatus_of_uint64 st) = PrivilegeLevel_code p"
proof (rule bit_eqI)
  fix k
  have "bit (PrivilegeLevel_code p) k = (k \<le> 1 \<and> bit (m_Status csr) (11 + k))"
    using arg_cong [OF assms(2), of "\<lambda>v. bit v k"] by (simp add: bit_GetMember)
  then show "bit (GetMember xstatus_MPP (xstatus_of_uint64 st)) k = bit (PrivilegeLevel_code p) k"
    using ReadStatus_bit [OF assms(1), of "11 + k"] by (auto simp: bit_GetMember bit_xstatus_of_uint64)
qed

lemma enter_machine_facts:
  assumes "csr_xlen_ok csr"
  shows "\<exists>csr'. ProcessTrapEnter (m_XLEN csr) i code tv pc Machine (csr, es) =
      Inr (csr', es @ [TrapEvent (if i then Interrupt else Exception) Machine Machine code tv])
    \<and> m_Priv csr' = Machine \<and> m_Pc csr' = trap_target (m_XLEN csr) i code (m_MachineTrapVector csr)
    \<and> m_MachineExceptionPc csr' = pc \<and> m_MachineTrapValue csr' = tv
    \<and> m_MachineCause csr' = trap_cause_value (m_XLEN csr) i code
    \<and> GetMember xstatus_MPP (m_Status csr') = PrivilegeLevel_code (m_Priv csr)
    \<and> bit (m_Status csr') 7 = bit (m_Status csr) 3 \<and> \<not> bit (m_Status csr') 3
    \<and> (\<forall>k. k \<noteq> 3 \<and> k \<noteq> 7 \<and> k \<noteq> 11 \<and> k \<noteq> 12 \<longrightarrow> bit (m_Status csr') k = bit (m_Status csr) k)"
proof -
  obtain st where st: "Csr_ReadStatus (Csr_SetPriv Machine csr) = Inr st"
    using ReadStatus_total [OF assms] by auto
  show ?thesis
    by (subst ProcessTrapEnter_eq [OF assms enter_machine_eq [OF st]])
      (auto simp: Csr_SetPc_def intro!: MPP_eqI simp: enter_machine_status_bit [OF st, simplified])
qed

lemma enter_level_xlen:
  "trap_enter_level nextPriv p cause pc tv csr = Inr (tvec, csr') \<Longrightarrow> m_XLEN csr' = m_XLEN csr"
  by (auto simp: trap_enter_level_def trap_save_def rbind_Inr_iff dest!: WriteUInt64_frame(3) split: PrivilegeLevel.splits)

lemma ProcessTrapEnter_xlen:
  "ProcessTrapEnter xlen i c tv pc np s = Inr s' \<Longrightarrow> m_XLEN (fst s') = m_XLEN (fst s)"
  by (auto simp: ProcessTrapEnter_def Let_def rbind_Inr_iff dest!: enter_level_xlen)

lemma ProcessTrapEnter_status_wf:
  "ProcessTrapEnter xlen i c tv pc np s = Inr s' \<Longrightarrow> csr_status_wf (fst s) \<Longrightarrow> csr_status_wf (fst s')"
  by (cases np)
    (auto simp: ProcessTrapEnter_def Let_def trap_enter_level_def trap_save_def csr_status_wf_def rbind_Inr_iff
      Csr_SetPc_def dest!: WriteUInt64_frame(5) [unfolded csr_status_wf_def] split: PrivilegeLevel.splits)

text \<open>The supervisor view of the status register, for both register widths.\<close>

definition supervisor_mask :: "XLEN \<Rightarrow> uint64" where
  "supervisor_mask xlen = (if xlen = XLEN32 then xstatus_SupervisorMask_RV32 else xstatus_SupervisorMask_RV64)"

lemma bit_supervisor_mask:
  "k < 31 \<Longrightarrow> bit (supervisor_mask xlen) k \<longleftrightarrow> k \<in> {0, 1, 4, 5, 8, 13, 14, 15, 16, 18, 19}"
  by (auto simp: supervisor_mask_def bit_xstatus_SupervisorMask)

lemma ReadSupervisorStatus_eq:
  assumes "csr_xlen_ok csr"
  shows "\<exists>st. ReadSupervisorStatus csr = Inr st \<and>
    (\<forall>k < 31. bit st k \<longleftrightarrow> bit (supervisor_mask (m_XLEN csr)) k \<and> bit (m_Status csr) k)"
proof -
  obtain v where v: "Csr_ReadStatus csr = Inr v" using ReadStatus_total [OF assms] by blast
  have "ReadSupervisorStatus csr = Inr (GetWithMask v (supervisor_mask (m_XLEN csr)))"
    using assms by (auto simp: csr_xlen_ok_def ReadSupervisorStatus_def v supervisor_mask_def)
  then show ?thesis using ReadStatus_bit [OF v] by (auto simp: bit_GetWithMask)
qed

lemma ReadSupervisorStatus_SetPriv [simp]: "ReadSupervisorStatus (Csr_SetPriv p csr) = ReadSupervisorStatus csr"
  by (simp add: ReadSupervisorStatus_def cong: XLEN.case_cong)

lemma write_sstatus:
  "csr_xlen_ok csr \<Longrightarrow> Csr_WriteUInt64 csr_sstatus v csr =
     Inr (Csr_WriteStatus (xstatus_of_uint64 (v AND supervisor_mask (m_XLEN csr))) csr)"
  by (auto simp: csr_xlen_ok_def write_status_registers supervisor_mask_def)

lemma enter_supervisor_eq:
  assumes "ReadSupervisorStatus csr = Inr st" "csr_xlen_ok csr"
  shows "trap_enter_level Supervisor p cause pc tv csr =
    Inr (m_SupervisorTrapVector csr,
      (Csr_WriteStatus (xstatus_of_uint64 (trap_status_supervisor (xstatus_of_uint64 st) p AND
         supervisor_mask (m_XLEN csr))) csr)
        \<lparr> m_SupervisorCause := cause, m_SupervisorExceptionPc := pc, m_SupervisorTrapValue := tv \<rparr>)"
  using assms
  by (simp add: trap_enter_level_def trap_save_def read_status_registers write_sstatus
      write_storage read_storage)

lemma enter_supervisor_status_bit:
  assumes "\<forall>k < 31. bit st k \<longleftrightarrow> bit (supervisor_mask xlen) k \<and> bit status k"
  shows "bit (SetWithMask status (xstatus_of_uint64
      (trap_status_supervisor (xstatus_of_uint64 st) p AND supervisor_mask xlen)) xstatus_WriteMask) k \<longleftrightarrow>
    (if k = 8 then bit (PrivilegeLevel_code p) 0 else if k = 1 then False else if k = 5 then bit status 1
     else if k \<in> {3, 7, 11, 12, 17, 20, 21, 22} then False else bit status k)"
  using assms [rule_format, of k] assms [rule_format, of 1]
  by (auto simp: bit_SetWithMask bit_xstatus_of_uint64 bit_trap_status_supervisor bit_xstatus_WriteMask
      bit_and_iff bit_supervisor_mask)

lemma return_supervisor_eq:
  assumes "ReadSupervisorStatus csr = Inr st" "csr_xlen_ok csr"
  shows "ProcessTrapReturn Supervisor (csr, es) =
    (let np = PrivilegeLevel_cast (GetMember xstatus_SPP (xstatus_of_uint64 st)) in
     Inr (Csr_SetPriv np (Csr_SetPc (m_SupervisorExceptionPc csr)
       (Csr_WriteStatus (xstatus_of_uint64 (SetMember xstatus_SIE (GetMember xstatus_SPIE (xstatus_of_uint64 st))
          (SetMember xstatus_SPP 0 (xstatus_of_uint64 st)) AND supervisor_mask (m_XLEN csr))) csr)),
       es @ [TrapEvent Return (m_Priv csr) np 0 0]))"
  using assms
  by (simp add: ProcessTrapReturn_def read_status_registers read_storage write_sstatus Let_def)

lemma return_supervisor_status_bit:
  assumes "\<forall>k < 31. bit st k \<longleftrightarrow> bit (supervisor_mask xlen) k \<and> bit status k"
  shows "bit (SetWithMask status (xstatus_of_uint64 (SetMember xstatus_SIE
      (GetMember xstatus_SPIE (xstatus_of_uint64 st)) (SetMember xstatus_SPP 0 (xstatus_of_uint64 st))
      AND supervisor_mask xlen)) xstatus_WriteMask) k \<longleftrightarrow>
    (if k = 8 then False else if k = 1 then bit status 5
     else if k \<in> {3, 7, 11, 12, 17, 20, 21, 22} then False else bit status k)"
  using assms [rule_format, of k] assms [rule_format, of 5]
  by (auto simp: bit_SetWithMask bit_xstatus_of_uint64 bit_SetMember bit_GetMember bit_xstatus_WriteMask
      bit_and_iff bit_supervisor_mask)

text \<open>
  A trap handled at a level: the registers of the level that describe a trap, its vector and its
  interrupt enables, with the registers of the other levels as they were.
\<close>

definition trap_registers :: "PrivilegeLevel \<Rightarrow> Csr \<Rightarrow> vaddr_t \<times> uint64 \<times> uint64" where
  "trap_registers level csr = (case level of
     Machine \<Rightarrow> (m_MachineExceptionPc csr, m_MachineCause csr, m_MachineTrapValue csr)
   | Supervisor \<Rightarrow> (m_SupervisorExceptionPc csr, m_SupervisorCause csr, m_SupervisorTrapValue csr)
   | User \<Rightarrow> (m_UserExceptionPc csr, m_UserCause csr, m_UserTrapValue csr)
   | Reserved \<Rightarrow> (0, 0, 0))"

definition trap_vector :: "PrivilegeLevel \<Rightarrow> Csr \<Rightarrow> uint64" where
  "trap_vector level csr = (case level of
     Machine \<Rightarrow> m_MachineTrapVector csr
   | Supervisor \<Rightarrow> m_SupervisorTrapVector csr
   | User \<Rightarrow> m_UserTrapVector csr
   | Reserved \<Rightarrow> 0)"

definition level_bit :: "PrivilegeLevel \<Rightarrow> nat" where
  "level_bit level = (case level of User \<Rightarrow> 0 | Supervisor \<Rightarrow> 1 | Reserved \<Rightarrow> 2 | Machine \<Rightarrow> 3)"

definition trap_handled :: "bool \<Rightarrow> uint32 \<Rightarrow> vaddr_t \<Rightarrow> uint64 \<Rightarrow> PrivilegeLevel \<Rightarrow> trap_state \<Rightarrow> trap_state \<Rightarrow> bool" where
  "trap_handled i code pc tv level s t \<longleftrightarrow> (let csr = fst s; csr' = fst t in
     snd t = snd s @ [TrapEvent (if i then Interrupt else Exception) level level code tv]
   \<and> m_Priv csr' = level \<and> m_Pc csr' = trap_target (m_XLEN csr) i code (trap_vector level csr)
   \<and> trap_registers level csr' = (pc, trap_cause_value (m_XLEN csr) i code, tv)
   \<and> (\<forall>q. q \<noteq> level \<longrightarrow> trap_registers q csr' = trap_registers q csr)
   \<and> \<not> bit (m_Status csr') (level_bit level)
   \<and> bit (m_Status csr') (4 + level_bit level) = bit (m_Status csr) (level_bit level))"

lemma enter_user_eq:
  assumes "Csr_ReadStatus csr = Inr st"
  shows "trap_enter_level User p cause pc tv csr =
    Inr (m_UserTrapVector csr,
      (Csr_WriteStatus (xstatus_of_uint64 (trap_status_user (xstatus_of_uint64 (GetWithMask st xstatus_UserMask)) AND xstatus_UserMask)) csr)
        \<lparr> m_UserCause := cause, m_UserExceptionPc := pc, m_UserTrapValue := tv \<rparr>)"
  using assms
  by (simp add: trap_enter_level_def trap_save_def read_status_registers write_status_registers
      write_storage read_storage)

lemma enter_user_status_bit:
  assumes "Csr_ReadStatus csr = Inr st"
  shows "bit (SetWithMask (m_Status csr) (xstatus_of_uint64 (trap_status_user
      (xstatus_of_uint64 (GetWithMask st xstatus_UserMask)) AND xstatus_UserMask)) xstatus_WriteMask) k \<longleftrightarrow>
    (if k = 4 then bit (m_Status csr) 0
     else if k \<in> {0, 1, 3, 5, 7, 8, 11, 12, 13, 14, 15, 16, 17, 18, 19, 20, 21, 22} then False
     else bit (m_Status csr) k)"
  using ReadStatus_bit [OF assms, of k] ReadStatus_bit [OF assms, of 0]
  by (auto simp: trap_status_user_def bit_SetWithMask bit_GetWithMask bit_xstatus_of_uint64 bit_SetMember bit_GetMember
      bit_xstatus_WriteMask bit_xstatus_SupervisorMask bit_and_iff)

lemma enter_level_facts:
  assumes "csr_xlen_ok csr" "level \<noteq> Reserved"
  shows "\<exists>t. ProcessTrapEnter (m_XLEN csr) i code tv pc level (csr, es) = Inr t \<and>
    trap_handled i code pc tv level (csr, es) t"
proof -
  have x: "csr_xlen_ok (Csr_SetPriv level csr)" using assms(1) by simp
  obtain st where st: "Csr_ReadStatus (Csr_SetPriv level csr) = Inr st"
    using ReadStatus_total [OF x] by auto
  obtain su where su: "ReadSupervisorStatus (Csr_SetPriv level csr) = Inr su"
    "\<forall>k < 31. bit su k \<longleftrightarrow> bit (supervisor_mask (m_XLEN csr)) k \<and> bit (m_Status csr) k"
    using ReadSupervisorStatus_eq [OF assms(1)] by auto
  show ?thesis
  proof (cases level)
    case Machine
    show ?thesis using st unfolding Machine
      by (subst ProcessTrapEnter_eq [OF assms(1) enter_machine_eq])
        (auto simp: trap_handled_def trap_registers_def trap_vector_def level_bit_def Csr_SetPc_def Csr_SetPriv_def
          Csr_WriteStatus_def enter_machine_status_bit [OF st, simplified] split: PrivilegeLevel.split)
  next
    case Supervisor
    show ?thesis using su x unfolding Supervisor
      by (subst ProcessTrapEnter_eq [OF assms(1) enter_supervisor_eq])
        (auto simp: trap_handled_def trap_registers_def trap_vector_def level_bit_def Csr_SetPc_def Csr_SetPriv_def
          Csr_WriteStatus_def enter_supervisor_status_bit [OF su(2)] split: PrivilegeLevel.split)
  next
    case User
    show ?thesis using st unfolding User
      by (subst ProcessTrapEnter_eq [OF assms(1) enter_user_eq])
        (auto simp: trap_handled_def trap_registers_def trap_vector_def level_bit_def Csr_SetPc_def Csr_SetPriv_def
          Csr_WriteStatus_def enter_user_status_bit [OF st, simplified] split: PrivilegeLevel.split)
  qed (use assms(2) in simp)
qed

definition handling_level :: "uint64 \<Rightarrow> uint64 \<Rightarrow> nat \<Rightarrow> PrivilegeLevel" where
  "handling_level mdeleg sdeleg code =
     (if \<not> bit mdeleg code then Machine else if \<not> bit sdeleg code then Supervisor else User)"

lemma handling_level_eq:
  "delegated_level csr csr_medeleg csr_sedeleg c =
     Inr (handling_level (m_MachineExceptionDelegation csr) (m_SupervisorExceptionDelegation csr) c)"
  "delegated_level csr csr_mideleg csr_sideleg c =
     Inr (handling_level (m_MachineInterruptDelegation csr) (m_SupervisorInterruptDelegation csr) c)"
  by (simp_all add: delegated_level_eq handling_level_def)

section \<open>Properties\<close>

text \<open>
  C27. Entering machine mode: the hart is at machine level at the address the trap vector selects
  (base, or base + 4 * cause for a vectored interrupt), mepc, mcause and mtval describe the trap,
  MPP holds the interrupted level, MPIE the interrupt enable, MIE is cleared and every other status
  bit is unchanged; exactly one event is recorded.
\<close>

theorem trap_enter_machine:
  assumes "csr_xlen_ok csr"
  shows "\<exists>csr'. ProcessTrapEnter (m_XLEN csr) i code tv pc Machine (csr, es) =
      Inr (csr', es @ [TrapEvent (if i then Interrupt else Exception) Machine Machine code tv])
    \<and> m_Priv csr' = Machine \<and> m_Pc csr' = trap_target (m_XLEN csr) i code (m_MachineTrapVector csr)
    \<and> m_MachineExceptionPc csr' = pc \<and> m_MachineTrapValue csr' = tv
    \<and> m_MachineCause csr' = trap_cause_value (m_XLEN csr) i code
    \<and> GetMember xstatus_MPP (m_Status csr') = PrivilegeLevel_code (m_Priv csr)
    \<and> bit (m_Status csr') 7 = bit (m_Status csr) 3 \<and> \<not> bit (m_Status csr') 3
    \<and> (\<forall>k. k \<noteq> 3 \<and> k \<noteq> 7 \<and> k \<noteq> 11 \<and> k \<noteq> 12 \<longrightarrow> bit (m_Status csr') k = bit (m_Status csr) k)"
  by (rule enter_machine_facts [OF assms])

lemma trap_enter_machine_witness:
  "\<exists>csr'. ProcessTrapEnter XLEN64 True 7 0 0x80000004 Machine
      ((Csr_zero XLEN64 0 0x80000004)\<lparr> m_MachineTrapVector := 0x100, m_Status := 8, m_Priv := Supervisor \<rparr>, []) =
        Inr (csr', [TrapEvent Interrupt Machine Machine 7 0])
    \<and> m_Pc csr' = 0x100 \<and> m_MachineExceptionPc csr' = 0x80000004 \<and> bit (m_Status csr') 7"
  using trap_enter_machine [of "(Csr_zero XLEN64 0 0x80000004)\<lparr> m_MachineTrapVector := 0x100,
      m_Status := 8, m_Priv := Supervisor \<rparr>" True 7 0 "0x80000004" "[]"]
  by (auto simp: csr_xlen_ok_def Csr_zero_def trap_target_def GetMember_def GetWithMask_def Mask_def)

text \<open>
  C28. A trap to machine mode followed by mret resumes the interrupted code: same pc, same level and
  the same interrupt enable, with MPP reset to user and MPIE holding the old MIE.
\<close>

theorem trap_enter_return_machine:
  assumes "csr_xlen_ok csr"
    and "ProcessTrapEnter (m_XLEN csr) i code tv pc Machine (csr, es) = Inr s"
  shows "\<exists>csr' e. ProcessTrapReturn Machine s = Inr (csr', snd s @ [e])
    \<and> m_Pc csr' = pc \<and> m_Priv csr' = m_Priv csr
    \<and> bit (m_Status csr') 3 = bit (m_Status csr) 3 \<and> bit (m_Status csr') 7 = bit (m_Status csr) 3
    \<and> GetMember xstatus_MPP (m_Status csr') = 0"
proof -
  obtain c1 where s: "s = (c1, es @ [TrapEvent (if i then Interrupt else Exception) Machine Machine code tv])"
    and f: "m_MachineExceptionPc c1 = pc" "GetMember xstatus_MPP (m_Status c1) = PrivilegeLevel_code (m_Priv csr)"
      "bit (m_Status c1) 7 = bit (m_Status csr) 3" and x: "csr_xlen_ok c1"
    using enter_machine_facts [OF assms(1), of i code tv pc es] assms ProcessTrapEnter_xlen [OF assms(2)]
    by (auto simp: csr_xlen_ok_def)
  obtain st where st: "Csr_ReadStatus c1 = Inr st" using ReadStatus_total [OF x] by blast
  have "GetMember xstatus_MPP (SetWithMask (m_Status c1) (xstatus_of_uint64 (SetMember xstatus_MIE
      (GetMember xstatus_MPIE (xstatus_of_uint64 st)) (SetMember xstatus_MPP 0 (xstatus_of_uint64 st))))
      xstatus_WriteMask) = PrivilegeLevel_code User"
    by (rule MPP_eqI) (simp_all add: return_machine_status_bit [OF st])
  then show ?thesis
    by (simp add: s return_machine_eq [OF st] MPP_read [OF st f(2)] f return_machine_status_bit [OF st] Let_def)
qed

lemma trap_enter_return_machine_witness:
  "\<exists>s csr' e. ProcessTrapEnter XLEN64 False 2 0 0x80000004 Machine
      ((Csr_zero XLEN64 0 0x80000004)\<lparr> m_Status := 8, m_Priv := User \<rparr>, []) = Inr s
    \<and> ProcessTrapReturn Machine s = Inr (csr', snd s @ [e]) \<and> m_Pc csr' = 0x80000004
    \<and> m_Priv csr' = User \<and> bit (m_Status csr') 3"
proof -
  let ?csr = "(Csr_zero XLEN64 0 0x80000004)\<lparr> m_Status := 8, m_Priv := User \<rparr>"
  have x: "csr_xlen_ok ?csr" and X: "m_XLEN ?csr = XLEN64" by (simp_all add: csr_xlen_ok_def Csr_zero_def)
  obtain s where s: "ProcessTrapEnter (m_XLEN ?csr) False 2 0 0x80000004 Machine (?csr, []) = Inr s"
    using enter_machine_facts [OF x, of False 2 0 "0x80000004" "[]"] by blast
  from trap_enter_return_machine [OF x s] s show ?thesis unfolding X by (auto simp: Csr_zero_def)
qed

text \<open>
  Entering supervisor mode: sepc, scause and stval describe the trap, the pc is the one stvec
  selects, SPP holds the low bit of the interrupted level, SPIE the interrupt enable and SIE is
  cleared. The write of sstatus that does this clears the machine-level status fields.
\<close>

theorem trap_enter_supervisor:
  assumes "csr_xlen_ok csr"
  shows "\<exists>csr'. ProcessTrapEnter (m_XLEN csr) i code tv pc Supervisor (csr, es) =
      Inr (csr', es @ [TrapEvent (if i then Interrupt else Exception) Supervisor Supervisor code tv])
    \<and> m_Priv csr' = Supervisor \<and> m_Pc csr' = trap_target (m_XLEN csr) i code (m_SupervisorTrapVector csr)
    \<and> m_SupervisorExceptionPc csr' = pc \<and> m_SupervisorTrapValue csr' = tv
    \<and> m_SupervisorCause csr' = trap_cause_value (m_XLEN csr) i code
    \<and> (\<forall>k. bit (m_Status csr') k \<longleftrightarrow>
         (if k = 8 then bit (PrivilegeLevel_code (m_Priv csr)) 0 else if k = 1 then False
          else if k = 5 then bit (m_Status csr) 1
          else if k \<in> {3, 7, 11, 12, 17, 20, 21, 22} then False else bit (m_Status csr) k))"
proof -
  obtain st where st: "ReadSupervisorStatus (Csr_SetPriv Supervisor csr) = Inr st"
    "\<forall>k < 31. bit st k \<longleftrightarrow> bit (supervisor_mask (m_XLEN csr)) k \<and> bit (m_Status csr) k"
    using ReadSupervisorStatus_eq [OF assms] by auto
  have "csr_xlen_ok (Csr_SetPriv Supervisor csr)" using assms by simp
  from ProcessTrapEnter_eq [OF assms enter_supervisor_eq [OF st(1) this]] show ?thesis
    by (simp add: enter_supervisor_status_bit [OF st(2)] Csr_SetPc_def)
qed

lemma trap_enter_supervisor_witness:
  "\<exists>csr'. ProcessTrapEnter XLEN32 False 8 0x1000 0x1000 Supervisor
      ((Csr_zero XLEN32 0 0x1000)\<lparr> m_SupervisorTrapVector := 0x2000, m_Status := 0x1802, m_Priv := User \<rparr>, []) =
        Inr (csr', [TrapEvent Exception Supervisor Supervisor 8 0x1000])
    \<and> m_Pc csr' = 0x2000 \<and> bit (m_Status csr') 5 \<and> \<not> bit (m_Status csr') 12"
  using trap_enter_supervisor [of "(Csr_zero XLEN32 0 0x1000)\<lparr> m_SupervisorTrapVector := 0x2000,
      m_Status := 0x1802, m_Priv := User \<rparr>" False 8 "0x1000" "0x1000" "[]"]
  by (auto simp: csr_xlen_ok_def Csr_zero_def trap_target_def GetWithMask_def Mask_def)

text \<open>
  sret resumes at sepc, at supervisor level if SPP is set and at user level otherwise, restores
  SIE from SPIE and clears SPP; the machine-level status fields are cleared with it.
\<close>

theorem trap_return_supervisor:
  assumes "csr_xlen_ok csr"
  shows "\<exists>csr'. ProcessTrapReturn Supervisor (csr, es) = Inr (csr', es @ [TrapEvent Return (m_Priv csr)
        (if bit (m_Status csr) 8 then Supervisor else User) 0 0])
    \<and> m_Pc csr' = m_SupervisorExceptionPc csr
    \<and> m_Priv csr' = (if bit (m_Status csr) 8 then Supervisor else User)
    \<and> (\<forall>k. bit (m_Status csr') k \<longleftrightarrow> (if k = 8 then False else if k = 1 then bit (m_Status csr) 5
          else if k \<in> {3, 7, 11, 12, 17, 20, 21, 22} then False else bit (m_Status csr) k))"
proof -
  obtain st where st: "ReadSupervisorStatus csr = Inr st"
    "\<forall>k < 31. bit st k \<longleftrightarrow> bit (supervisor_mask (m_XLEN csr)) k \<and> bit (m_Status csr) k"
    using ReadSupervisorStatus_eq [OF assms] by auto
  have "PrivilegeLevel_cast (GetMember xstatus_SPP (xstatus_of_uint64 st)) =
      (if bit (m_Status csr) 8 then Supervisor else User)"
    using st(2) by (simp add: GetMember_single bit_xstatus_of_uint64 bit_supervisor_mask PrivilegeLevel_cast_def)
  then show ?thesis
    by (simp add: return_supervisor_eq [OF st(1) assms] return_supervisor_status_bit [OF st(2)] Let_def
        del: One_nat_def)
qed

lemma trap_return_supervisor_witness:
  "\<exists>csr'. ProcessTrapReturn Supervisor
      ((Csr_zero XLEN64 0 4)\<lparr> m_SupervisorExceptionPc := 0x2000, m_Priv := Supervisor \<rparr>, []) =
        Inr (csr', [TrapEvent Return Supervisor User 0 0]) \<and> m_Pc csr' = 0x2000 \<and> m_Priv csr' = User"
  using trap_return_supervisor [of "(Csr_zero XLEN64 0 4)\<lparr> m_SupervisorExceptionPc := 0x2000,
      m_Priv := Supervisor \<rparr>" "[]"]
  by (auto simp: csr_xlen_ok_def Csr_zero_def)

text \<open>
  C29. Delegation: whatever level the hart is at, an exception is handled at machine level unless its
  bit of medeleg is set, and then at supervisor level unless its bit of sedeleg is set too; interrupts
  likewise by mideleg and sideleg. Handling succeeds: the hart is at that level at the address its
  vector selects, the level's epc, cause and tval describe the trap, its interrupt enable is saved
  and cleared, and the trap registers of the other levels are as they were. So a trap that is
  delegated lowers the privilege of a hart at machine level.
\<close>

theorem trap_delegation:
  assumes "csr_xlen_ok csr"
  shows "(\<exists>t. ProcessException (m_XLEN csr) trap (csr, es) = Inr t \<and>
      trap_handled False (of_nat (ExceptionType_code (trap_type trap))) (trap_pc trap) (trap_trapValue trap)
        (handling_level (m_MachineExceptionDelegation csr) (m_SupervisorExceptionDelegation csr)
          (ExceptionType_code (trap_type trap))) (csr, es) t) \<and>
    (\<exists>t. ProcessInterrupt (m_XLEN csr) type pc (csr, es) = Inr t \<and>
      trap_handled True (of_nat (InterruptType_code type)) pc 0
        (handling_level (m_MachineInterruptDelegation csr) (m_SupervisorInterruptDelegation csr)
          (InterruptType_code type)) (csr, es) t)"
proof -
  have "handling_level m d c \<noteq> Reserved" for m d c by (simp add: handling_level_def)
  note enter = enter_level_facts [OF assms this]
  then show ?thesis by (simp add: ProcessException_def ProcessInterrupt_def handling_level_eq Let_def)
qed

lemma trap_delegation_witness:
  "\<exists>csr'. ProcessException XLEN64 \<lparr> trap_type = Breakpoint, trap_pc = 0x80000004, trap_trapValue = 0 \<rparr>
      ((Csr_zero XLEN64 0 0x80000004)\<lparr> m_MachineExceptionDelegation := 8, m_SupervisorTrapVector := 0x2000,
        m_Priv := Machine \<rparr>, []) = Inr (csr', [TrapEvent Exception Supervisor Supervisor 3 0])
    \<and> m_Priv csr' = Supervisor \<and> m_Pc csr' = 0x2000 \<and> m_SupervisorExceptionPc csr' = 0x80000004"
proof -
  let ?csr = "(Csr_zero XLEN64 0 0x80000004)\<lparr> m_MachineExceptionDelegation := 8, m_SupervisorTrapVector := 0x2000,
        m_Priv := Machine \<rparr>"
  have "csr_xlen_ok ?csr" by (simp add: csr_xlen_ok_def Csr_zero_def)
  note handled = trap_delegation [OF this, THEN conjunct1]
  from handled [of "\<lparr> trap_type = Breakpoint, trap_pc = 0x80000004, trap_trapValue = 0 \<rparr>" "[]"]
  show ?thesis
    by (auto simp: trap_handled_def Let_def handling_level_def trap_registers_def trap_vector_def trap_target_def
        Csr_zero_def GetWithMask_def Mask_def)
qed

end
