(* ===== verification/InterruptController.thy ===== *)
theory InterruptController
  imports TrapProcessor
begin

text \<open>
  \<^verbatim>\<open>cpu/InterruptController.cpp\<close>: the pending bits driven by the interrupt source, and the choice of
  the interrupt the hart takes next. The source's \<open>IsRequested\<close> is an argument; the CSRs it
  updates are passed beside its own state. The type is uninitialised until a first request, which is
  the value \<open>None\<close>.
\<close>

record InterruptController =
  m_IsRequested :: bool
  m_InterruptType :: "InterruptType option"

definition InterruptController_init :: InterruptController where
  "InterruptController_init = \<lparr> m_IsRequested = False, m_InterruptType = None \<rparr>"

definition GetInterruptType :: "InterruptController \<Rightarrow> InterruptType result" where
  "GetInterruptType ic = rbind (ensure (m_IsRequested ic) AssertFailure) (\<lambda>_.
     case m_InterruptType ic of Some t \<Rightarrow> Inr t | None \<Rightarrow> Inl Undefined)"

section \<open>Pending bits\<close>

text \<open>
  Both groups of bits are driven by the timer source, as in the source file.
\<close>

definition pending_timer :: "bool \<Rightarrow> uint32 \<Rightarrow> uint32 \<Rightarrow> uint64 \<Rightarrow> uint64" where
  "pending_timer requested mideleg sideleg pending =
    (let pending = SetMember xip_UTIP 0 (SetMember xip_STIP 0 (SetMember xip_MTIP 0 pending)) in
     if requested then
       if drop_bit (InterruptType_code MachineTimer) mideleg = 0 then SetMember xip_MTIP 1 pending
       else if drop_bit (InterruptType_code SupervisorTimer) sideleg = 0 then SetMember xip_STIP 1 pending
       else SetMember xip_UTIP 1 pending
     else pending)"

definition pending_external :: "bool \<Rightarrow> uint32 \<Rightarrow> uint32 \<Rightarrow> uint64 \<Rightarrow> uint64" where
  "pending_external requested mideleg sideleg pending =
    (let pending = SetMember xip_UEIP 0 (SetMember xip_SEIP 0 (SetMember xip_MEIP 0 pending)) in
     if requested then
       if drop_bit (InterruptType_code MachineExternal) mideleg = 0 then SetMember xip_MEIP 1 pending
       else if drop_bit (InterruptType_code SupervisorExternal) sideleg = 0 then SetMember xip_SEIP 1 pending
       else SetMember xip_UEIP 1 pending
     else pending)"

definition InterruptController_UpdateCsr :: "bool \<Rightarrow> Csr \<Rightarrow> Csr result" where
  "InterruptController_UpdateCsr timerRequested csr =
     rbind (Csr_ReadUInt32 csr csr_mideleg) (\<lambda>mideleg.
     rbind (Csr_ReadUInt32 csr csr_sideleg) (\<lambda>sideleg.
       Inr (Csr_WriteInterruptPending
         (pending_external timerRequested mideleg sideleg
           (pending_timer timerRequested mideleg sideleg (m_InterruptPending csr))) csr)))"

section \<open>Request\<close>

definition global_enable :: "PrivilegeLevel \<Rightarrow> uint64 \<Rightarrow> bool result" where
  "global_enable priv status = (case priv of
     Machine \<Rightarrow> Inr (GetMember xstatus_MIE status \<noteq> 0)
   | Supervisor \<Rightarrow> Inr (GetMember xstatus_SIE status \<noteq> 0)
   | User \<Rightarrow> Inr (GetMember xstatus_UIE status \<noteq> 0)
   | Reserved \<Rightarrow> Inl EmuException)"

definition select_interrupt :: "uint64 \<Rightarrow> uint64 \<Rightarrow> InterruptType option" where
  "select_interrupt ie ip = (
     if GetMember xie_MEIE ie \<noteq> 0 \<and> GetMember xip_MEIP ip \<noteq> 0 then Some MachineExternal
     else if GetMember xie_MTIE ie \<noteq> 0 \<and> GetMember xip_MTIP ip \<noteq> 0 then Some MachineTimer
     else if GetMember xie_MSIE ie \<noteq> 0 \<and> GetMember xip_MSIP ip \<noteq> 0 then Some MachineSoftware
     else if GetMember xie_SEIE ie \<noteq> 0 \<and> GetMember xip_SEIP ip \<noteq> 0 then Some SupervisorExternal
     else if GetMember xie_STIE ie \<noteq> 0 \<and> GetMember xip_STIP ip \<noteq> 0 then Some SupervisorTimer
     else if GetMember xie_SSIE ie \<noteq> 0 \<and> GetMember xip_SSIP ip \<noteq> 0 then Some SupervisorSoftware
     else if GetMember xie_UEIE ie \<noteq> 0 \<and> GetMember xip_UEIP ip \<noteq> 0 then Some UserExternal
     else if GetMember xie_UTIE ie \<noteq> 0 \<and> GetMember xip_UTIP ip \<noteq> 0 then Some UserTimer
     else if GetMember xie_USIE ie \<noteq> 0 \<and> GetMember xip_USIP ip \<noteq> 0 then Some UserSoftware
     else None)"

definition InterruptController_Update ::
    "bool \<Rightarrow> InterruptController \<times> Csr \<Rightarrow> (InterruptController \<times> Csr) result" where
  "InterruptController_Update timerRequested s =
     rbind (InterruptController_UpdateCsr timerRequested (snd s)) (\<lambda>csr.
     rbind (Csr_ReadStatus csr) (\<lambda>status.
       let ic = (fst s)\<lparr> m_IsRequested := False \<rparr> in
       rbind (global_enable (m_Priv csr) status) (\<lambda>enabled.
         if \<not> enabled then Inr (ic, csr)
         else case select_interrupt (m_InterruptEnable csr) (m_InterruptPending csr) of
                Some t \<Rightarrow> Inr (ic\<lparr> m_IsRequested := True, m_InterruptType := Some t \<rparr>, csr)
              | None \<Rightarrow> Inr (ic, csr))))"

section \<open>Specification\<close>

text \<open>
  The interrupts in the order of their priority; the one taken is the first that is both enabled and
  pending.
\<close>

definition interrupt_priority :: "InterruptType list" where
  "interrupt_priority = [MachineExternal, MachineTimer, MachineSoftware, SupervisorExternal,
     SupervisorTimer, SupervisorSoftware, UserExternal, UserTimer, UserSoftware]"

definition level_enabled :: "Csr \<Rightarrow> bool" where
  "level_enabled csr \<longleftrightarrow> bit (m_Status csr)
     (case m_Priv csr of Machine \<Rightarrow> 3 | Supervisor \<Rightarrow> 1 | _ \<Rightarrow> 0)"

lemma select_interrupt_find:
  "select_interrupt ie ip =
     find (\<lambda>t. bit ie (InterruptType_code t) \<and> bit ip (InterruptType_code t)) interrupt_priority"
  by (simp add: select_interrupt_def interrupt_priority_def GetMember_single_eq_0)

lemma UpdateCsr_eq:
  "InterruptController_UpdateCsr r csr = Inr (Csr_WriteInterruptPending
     (pending_external r (ucast (m_MachineInterruptDelegation csr)) (ucast (m_SupervisorInterruptDelegation csr))
       (pending_timer r (ucast (m_MachineInterruptDelegation csr)) (ucast (m_SupervisorInterruptDelegation csr))
         (m_InterruptPending csr))) csr)"
  by (simp add: InterruptController_UpdateCsr_def Csr_ReadUInt32_def read_storage)

lemma WriteInterruptPending_select [simp]:
  "m_Status (Csr_WriteInterruptPending v csr) = m_Status csr"
  "m_Priv (Csr_WriteInterruptPending v csr) = m_Priv csr"
  "m_XLEN (Csr_WriteInterruptPending v csr) = m_XLEN csr"
  "m_Pc (Csr_WriteInterruptPending v csr) = m_Pc csr"
  "m_InterruptEnable (Csr_WriteInterruptPending v csr) = m_InterruptEnable csr"
  "m_InterruptPending (Csr_WriteInterruptPending v csr) = v"
  "Csr_ReadStatus (Csr_WriteInterruptPending v csr) = Csr_ReadStatus csr"
  by (simp_all add: Csr_WriteInterruptPending_def Csr_ReadStatus_def Let_def)

lemma global_enable_eq:
  assumes "Csr_ReadStatus csr = Inr st" "m_Priv csr \<noteq> Reserved"
  shows "global_enable (m_Priv csr) st = Inr (level_enabled csr)"
  using ReadStatus_bit [OF assms(1), of 0] ReadStatus_bit [OF assms(1), of 1]
    ReadStatus_bit [OF assms(1), of 3] assms(2)
  by (auto simp: global_enable_def level_enabled_def GetMember_single_eq_0 split: PrivilegeLevel.splits
      simp del: One_nat_def)

lemma bit_pending_timer:
  "bit (pending_timer r md sd p) k \<longleftrightarrow>
    (if k = 7 then r \<and> drop_bit 7 md = 0
     else if k = 5 then r \<and> drop_bit 7 md \<noteq> 0 \<and> drop_bit 5 sd = 0
     else if k = 4 then r \<and> drop_bit 7 md \<noteq> 0 \<and> drop_bit 5 sd \<noteq> 0 else bit p k)"
  by (auto simp: pending_timer_def Let_def bit_SetMember)

lemma bit_pending_external:
  "bit (pending_external r md sd p) k \<longleftrightarrow>
    (if k = 11 then r \<and> drop_bit 11 md = 0
     else if k = 9 then r \<and> drop_bit 11 md \<noteq> 0 \<and> drop_bit 9 sd = 0
     else if k = 8 then r \<and> drop_bit 11 md \<noteq> 0 \<and> drop_bit 9 sd \<noteq> 0 else bit p k)"
  by (auto simp: pending_external_def Let_def bit_SetMember)

section \<open>Properties\<close>

text \<open>
  C32. The controller requests an interrupt exactly when the enable bit of the current level is set and
  some interrupt is both enabled and pending, and the one it reports is the first of these in the
  priority order (machine before supervisor before user; external, timer, software). At the reserved
  level the update stops the emulator with an exception.
\<close>

theorem interrupt_update:
  assumes "csr_xlen_ok csr"
  shows "\<exists>csr'. InterruptController_UpdateCsr r csr = Inr csr' \<and>
    InterruptController_Update r (ic, csr) =
     (if m_Priv csr = Reserved then Inl EmuException
      else Inr (case find (\<lambda>t. bit (m_InterruptEnable csr) (InterruptType_code t) \<and>
                      bit (m_InterruptPending csr') (InterruptType_code t)) interrupt_priority of
          Some t \<Rightarrow> if level_enabled csr
            then ic\<lparr> m_IsRequested := True, m_InterruptType := Some t \<rparr> else ic\<lparr> m_IsRequested := False \<rparr>
        | None \<Rightarrow> ic\<lparr> m_IsRequested := False \<rparr>, csr'))"
proof -
  obtain st where st: "Csr_ReadStatus csr = Inr st" using ReadStatus_total [OF assms] by blast
  show ?thesis
  proof (cases "m_Priv csr = Reserved")
    case True
    then show ?thesis
      by (simp add: InterruptController_Update_def UpdateCsr_eq st global_enable_def Let_def)
  next
    case False
    then show ?thesis
      by (simp add: InterruptController_Update_def UpdateCsr_eq st global_enable_eq [OF st] Let_def
          select_interrupt_find split: option.split)
  qed
qed

lemma interrupt_update_witness:
  "\<exists>ic' csr'. InterruptController_Update True (InterruptController_init,
      (Csr_zero XLEN64 0 0)\<lparr> m_Status := 8, m_InterruptEnable := 0x80 \<rparr>) = Inr (ic', csr')
    \<and> m_IsRequested ic' \<and> m_InterruptType ic' = Some MachineTimer"
proof -
  let ?csr = "(Csr_zero XLEN64 0 0)\<lparr> m_Status := 8, m_InterruptEnable := 0x80 \<rparr>"
  have "csr_xlen_ok ?csr" by (simp add: csr_xlen_ok_def Csr_zero_def)
  from interrupt_update [OF this, of True InterruptController_init] show ?thesis
    by (auto simp: UpdateCsr_eq interrupt_priority_def level_enabled_def Csr_zero_def
        bit_pending_external bit_pending_timer)
qed

text \<open>
  What the update does to the pending register: without a timer request the six timer and
  external bits are clear; with one exactly one timer bit and exactly one external bit is set, the
  machine one if no bit from its own position upwards is set in mideleg; all other bits are kept.
\<close>

theorem interrupt_pending_bits:
  "\<exists>csr'. InterruptController_UpdateCsr r csr = Inr csr'
    \<and> (bit (m_InterruptPending csr') 7 \<longleftrightarrow> r \<and> drop_bit 7 (ucast (m_MachineInterruptDelegation csr) :: uint32) = 0)
    \<and> (bit (m_InterruptPending csr') 11 \<longleftrightarrow> r \<and> drop_bit 11 (ucast (m_MachineInterruptDelegation csr) :: uint32) = 0)
    \<and> length (filter (bit (m_InterruptPending csr')) [4, 5, 7]) = (if r then 1 else 0)
    \<and> length (filter (bit (m_InterruptPending csr')) [8, 9, 11]) = (if r then 1 else 0)
    \<and> (\<forall>k. k \<notin> {4, 5, 7, 8, 9, 11} \<longrightarrow> bit (m_InterruptPending csr') k = bit (m_InterruptPending csr) k)"
  by (auto simp: UpdateCsr_eq bit_pending_timer bit_pending_external)

lemma interrupt_pending_bits_witness:
  "\<exists>csr'. InterruptController_UpdateCsr True ((Csr_zero XLEN64 0 0)\<lparr> m_InterruptPending := 0x22 \<rparr>) = Inr csr'
    \<and> bit (m_InterruptPending csr') 1 \<and> bit (m_InterruptPending csr') 7 \<and> bit (m_InterruptPending csr') 11"
  using interrupt_pending_bits [of True "(Csr_zero XLEN64 0 0)\<lparr> m_InterruptPending := 0x22 \<rparr>"]
  by (auto simp: Csr_zero_def)

end
