(* ===== verification/FpApi.thy ===== *)
theory FpApi
  imports BitField
begin

text \<open>
  \<^verbatim>\<open>lib/fp/FpApi.cpp\<close> and \<^verbatim>\<open>lib/fp/ScopedFpRound.cpp\<close>: the floating-point operations of the executor, on
  the bit patterns of the formats. The arithmetic itself is Berkeley SoftFloat, a submodule that
  is not part of the repository: the record \<open>softfloat\<close> has one member for each of its functions the
  code calls, from the rounding mode in its global (where the function rounds) and the operands to
  the result and the exception flags it raises. Its two globals are the record \<open>FpEnv\<close>.
\<close>

section \<open>SoftFloat\<close>

record softfloat =
  sf_f32_add :: "uint8 \<Rightarrow> uint32 \<Rightarrow> uint32 \<Rightarrow> uint32 \<times> uint8"
  sf_f64_add :: "uint8 \<Rightarrow> uint64 \<Rightarrow> uint64 \<Rightarrow> uint64 \<times> uint8"
  sf_f32_sub :: "uint8 \<Rightarrow> uint32 \<Rightarrow> uint32 \<Rightarrow> uint32 \<times> uint8"
  sf_f64_sub :: "uint8 \<Rightarrow> uint64 \<Rightarrow> uint64 \<Rightarrow> uint64 \<times> uint8"
  sf_f32_mul :: "uint8 \<Rightarrow> uint32 \<Rightarrow> uint32 \<Rightarrow> uint32 \<times> uint8"
  sf_f64_mul :: "uint8 \<Rightarrow> uint64 \<Rightarrow> uint64 \<Rightarrow> uint64 \<times> uint8"
  sf_f32_div :: "uint8 \<Rightarrow> uint32 \<Rightarrow> uint32 \<Rightarrow> uint32 \<times> uint8"
  sf_f64_div :: "uint8 \<Rightarrow> uint64 \<Rightarrow> uint64 \<Rightarrow> uint64 \<times> uint8"
  sf_f32_sqrt :: "uint8 \<Rightarrow> uint32 \<Rightarrow> uint32 \<times> uint8"
  sf_f64_sqrt :: "uint8 \<Rightarrow> uint64 \<Rightarrow> uint64 \<times> uint8"
  sf_f32_eq :: "uint32 \<Rightarrow> uint32 \<Rightarrow> bool \<times> uint8"
  sf_f64_eq :: "uint64 \<Rightarrow> uint64 \<Rightarrow> bool \<times> uint8"
  sf_f32_le :: "uint32 \<Rightarrow> uint32 \<Rightarrow> bool \<times> uint8"
  sf_f64_le :: "uint64 \<Rightarrow> uint64 \<Rightarrow> bool \<times> uint8"
  sf_f32_lt :: "uint32 \<Rightarrow> uint32 \<Rightarrow> bool \<times> uint8"
  sf_f64_lt :: "uint64 \<Rightarrow> uint64 \<Rightarrow> bool \<times> uint8"
  sf_f64_to_i32 :: "uint64 \<Rightarrow> uint8 \<Rightarrow> bool \<Rightarrow> uint32 \<times> uint8"
  sf_f64_to_i64 :: "uint64 \<Rightarrow> uint8 \<Rightarrow> bool \<Rightarrow> uint64 \<times> uint8"
  sf_f64_to_ui32 :: "uint64 \<Rightarrow> uint8 \<Rightarrow> bool \<Rightarrow> uint32 \<times> uint8"
  sf_f64_to_ui64 :: "uint64 \<Rightarrow> uint8 \<Rightarrow> bool \<Rightarrow> uint64 \<times> uint8"
  sf_f32_to_i32 :: "uint32 \<Rightarrow> uint8 \<Rightarrow> bool \<Rightarrow> uint32 \<times> uint8"
  sf_f32_to_i64 :: "uint32 \<Rightarrow> uint8 \<Rightarrow> bool \<Rightarrow> uint64 \<times> uint8"
  sf_f32_to_ui32 :: "uint32 \<Rightarrow> uint8 \<Rightarrow> bool \<Rightarrow> uint32 \<times> uint8"
  sf_f32_to_ui64 :: "uint32 \<Rightarrow> uint8 \<Rightarrow> bool \<Rightarrow> uint64 \<times> uint8"
  sf_i32_to_f64 :: "uint32 \<Rightarrow> uint64 \<times> uint8"
  sf_i64_to_f64 :: "uint8 \<Rightarrow> uint64 \<Rightarrow> uint64 \<times> uint8"
  sf_ui32_to_f64 :: "uint32 \<Rightarrow> uint64 \<times> uint8"
  sf_ui64_to_f64 :: "uint8 \<Rightarrow> uint64 \<Rightarrow> uint64 \<times> uint8"
  sf_i32_to_f32 :: "uint8 \<Rightarrow> uint32 \<Rightarrow> uint32 \<times> uint8"
  sf_i64_to_f32 :: "uint8 \<Rightarrow> uint64 \<Rightarrow> uint32 \<times> uint8"
  sf_ui32_to_f32 :: "uint8 \<Rightarrow> uint32 \<Rightarrow> uint32 \<times> uint8"
  sf_ui64_to_f32 :: "uint8 \<Rightarrow> uint64 \<Rightarrow> uint32 \<times> uint8"
  sf_f64_to_f32 :: "uint8 \<Rightarrow> uint64 \<Rightarrow> uint32 \<times> uint8"
  sf_f32_to_f64 :: "uint32 \<Rightarrow> uint64 \<times> uint8"
  sf_f32_le_quiet :: "uint32 \<Rightarrow> uint32 \<Rightarrow> bool \<times> uint8"
  sf_f64_le_quiet :: "uint64 \<Rightarrow> uint64 \<Rightarrow> bool \<times> uint8"

record FpEnv =
  softfloat_exceptionFlags :: uint8
  softfloat_roundingMode :: uint8

text \<open>The initial values: no flag, and \<open>softfloat_round_near_even\<close>.\<close>

definition FpEnv_init :: FpEnv where
  "FpEnv_init = \<lparr> softfloat_exceptionFlags = 0, softfloat_roundingMode = 0 \<rparr>"

definition clear_flags :: "FpEnv \<Rightarrow> FpEnv" where
  "clear_flags env = env\<lparr> softfloat_exceptionFlags := 0 \<rparr>"

text \<open>A call of SoftFloat raises its flags in the sticky global.\<close>

definition sf_call :: "'a \<times> uint8 \<Rightarrow> FpEnv \<Rightarrow> 'a \<times> FpEnv" where
  "sf_call r env = (fst r, env\<lparr> softfloat_exceptionFlags := softfloat_exceptionFlags env OR snd r \<rparr>)"

definition GetRvExceptionFlags :: "FpEnv \<Rightarrow> uint32" where
  "GetRvExceptionFlags env = ucast (softfloat_exceptionFlags env)"

section \<open>Formats\<close>

text \<open>
  The class template \<open>FpBase\<close>: \<open>e\<close> and \<open>f\<close> are the widths of exponent and fraction, (8, 23) for
  \<open>Fp32\<close> and (11, 52) for \<open>Fp64\<close>.
\<close>

definition MaxExponent :: "nat \<Rightarrow> 'a::len word" where
  "MaxExponent e = push_bit e 1 - 1"

definition Fp_GetSign :: "nat \<Rightarrow> nat \<Rightarrow> 'a::len word \<Rightarrow> 'a word" where
  "Fp_GetSign e f x = GetMember (f + e, f + e) x"

definition Fp_GetExponent :: "nat \<Rightarrow> nat \<Rightarrow> 'a::len word \<Rightarrow> 'a word" where
  "Fp_GetExponent e f x = GetMember (f + e - 1, f) x"

definition Fp_GetFraction :: "nat \<Rightarrow> nat \<Rightarrow> 'a::len word \<Rightarrow> 'a word" where
  "Fp_GetFraction e f x = GetMember (f - 1, 0) x"

definition Fp_IsZero :: "nat \<Rightarrow> nat \<Rightarrow> 'a::len word \<Rightarrow> bool" where
  "Fp_IsZero e f x \<longleftrightarrow> Fp_GetExponent e f x = 0 \<and> Fp_GetFraction e f x = 0"

definition Fp_IsInf :: "nat \<Rightarrow> nat \<Rightarrow> 'a::len word \<Rightarrow> bool" where
  "Fp_IsInf e f x \<longleftrightarrow> Fp_GetExponent e f x = MaxExponent e \<and> Fp_GetFraction e f x = 0"

definition Fp_IsNormal :: "nat \<Rightarrow> nat \<Rightarrow> 'a::len word \<Rightarrow> bool" where
  "Fp_IsNormal e f x \<longleftrightarrow> 1 \<le> Fp_GetExponent e f x \<and> Fp_GetExponent e f x < MaxExponent e"

definition Fp_IsSubNormal :: "nat \<Rightarrow> nat \<Rightarrow> 'a::len word \<Rightarrow> bool" where
  "Fp_IsSubNormal e f x \<longleftrightarrow> Fp_GetExponent e f x = 0 \<and> Fp_GetFraction e f x \<noteq> 0"

definition Fp_IsNan :: "nat \<Rightarrow> nat \<Rightarrow> 'a::len word \<Rightarrow> bool" where
  "Fp_IsNan e f x \<longleftrightarrow> Fp_GetExponent e f x = MaxExponent e \<and> Fp_GetFraction e f x \<noteq> 0"

definition Fp_IsQuietNan :: "nat \<Rightarrow> nat \<Rightarrow> 'a::len word \<Rightarrow> bool" where
  "Fp_IsQuietNan e f x \<longleftrightarrow> Fp_IsNan e f x \<and> GetMember (f - 1, f - 1) x \<noteq> 0"

definition Fp_IsSignalingNan :: "nat \<Rightarrow> nat \<Rightarrow> 'a::len word \<Rightarrow> bool" where
  "Fp_IsSignalingNan e f x \<longleftrightarrow> Fp_IsNan e f x \<and> GetMember (f - 1, f - 1) x = 0"

lemmas Fp_defs = MaxExponent_def Fp_GetSign_def Fp_GetExponent_def Fp_GetFraction_def Fp_IsZero_def
  Fp_IsInf_def Fp_IsNormal_def Fp_IsSubNormal_def Fp_IsNan_def Fp_IsQuietNan_def Fp_IsSignalingNan_def

definition Fp32_CanonicalQuietNan :: uint32 where
  "Fp32_CanonicalQuietNan = 0x7fc00000"

definition Fp32_CanonicalSignalingNan :: uint32 where
  "Fp32_CanonicalSignalingNan = 0x7f800001"

definition Fp64_CanonicalQuietNan :: uint64 where
  "Fp64_CanonicalQuietNan = 0x7ff8000000000000"

definition Fp64_CanonicalSignalingNan :: uint64 where
  "Fp64_CanonicalSignalingNan = 0x7ff0000000000001"

definition Negate32 :: "uint32 \<Rightarrow> uint32" where
  "Negate32 value = value XOR push_bit 31 1"

definition Negate64 :: "uint64 \<Rightarrow> uint64" where
  "Negate64 value = value XOR push_bit 63 1"

definition UnboxFloat :: "uint64 \<Rightarrow> uint32" where
  "UnboxFloat x = (let isUnboxed = (ucast (drop_bit 32 x) = (0xffffffff :: uint32)) in
     if isUnboxed then ucast x else Fp32_CanonicalQuietNan)"

section \<open>Minimum and maximum\<close>

definition LeQuiet32 :: "softfloat \<Rightarrow> uint32 \<Rightarrow> uint32 \<Rightarrow> FpEnv \<Rightarrow> bool \<times> FpEnv" where
  "LeQuiet32 sf x y env = sf_call (sf_f32_le_quiet sf x y) env"

definition LeQuiet64 :: "softfloat \<Rightarrow> uint64 \<Rightarrow> uint64 \<Rightarrow> FpEnv \<Rightarrow> bool \<times> FpEnv" where
  "LeQuiet64 sf x y env = sf_call (sf_f64_le_quiet sf x y) env"

text \<open>
  The templates: \<open>leq\<close> is \<open>LeQuiet\<close> of the type, \<open>snan\<close> and \<open>qnan\<close> its canonical NaNs. The guard
  of the first branch of \<open>MinImpl\<close> tests \<open>x\<close> twice.
\<close>

definition MinImpl :: "('a::len word \<Rightarrow> 'a word \<Rightarrow> FpEnv \<Rightarrow> bool \<times> FpEnv) \<Rightarrow> nat \<Rightarrow> nat \<Rightarrow>
    'a word \<Rightarrow> 'a word \<Rightarrow> 'a word \<Rightarrow> 'a word \<Rightarrow> FpEnv \<Rightarrow> 'a word \<times> FpEnv" where
  "MinImpl leq e f snan qnan x y env = (
     let (c, env) = leq x y env in
     let cmpResult = (if c then x else y) in
     (if Fp_IsZero e f x \<and> Fp_IsZero e f x
      then (if Fp_GetSign e f x = 1 \<and> Fp_GetSign e f y = 0 then x else y)
      else if Fp_IsNan e f x \<and> Fp_IsNan e f y
      then (if Fp_IsSignalingNan e f x \<or> Fp_IsSignalingNan e f y then snan else qnan)
      else if \<not> Fp_IsNan e f x \<and> Fp_IsNan e f y then x
      else if Fp_IsNan e f x \<and> \<not> Fp_IsNan e f y then y
      else cmpResult, env))"

definition MaxImpl :: "('a::len word \<Rightarrow> 'a word \<Rightarrow> FpEnv \<Rightarrow> bool \<times> FpEnv) \<Rightarrow> nat \<Rightarrow> nat \<Rightarrow>
    'a word \<Rightarrow> 'a word \<Rightarrow> 'a word \<Rightarrow> 'a word \<Rightarrow> FpEnv \<Rightarrow> 'a word \<times> FpEnv" where
  "MaxImpl leq e f snan qnan x y env = (
     let (c, env) = leq x y env in
     let cmpResult = (if c then y else x) in
     (if Fp_IsZero e f x \<and> Fp_IsZero e f y
      then (if Fp_GetSign e f x = 0 \<and> Fp_GetSign e f y = 1 then x else y)
      else if Fp_IsNan e f x \<and> Fp_IsNan e f y
      then (if Fp_IsSignalingNan e f x \<or> Fp_IsSignalingNan e f y then snan else qnan)
      else if \<not> Fp_IsNan e f x \<and> Fp_IsNan e f y then x
      else if Fp_IsNan e f x \<and> \<not> Fp_IsNan e f y then y
      else cmpResult, env))"

definition Min32 :: "softfloat \<Rightarrow> uint32 \<Rightarrow> uint32 \<Rightarrow> FpEnv \<Rightarrow> uint32 \<times> FpEnv" where
  "Min32 sf x y env = MinImpl (LeQuiet32 sf) 8 23 Fp32_CanonicalSignalingNan
     Fp32_CanonicalQuietNan x y (clear_flags env)"

definition Min64 :: "softfloat \<Rightarrow> uint64 \<Rightarrow> uint64 \<Rightarrow> FpEnv \<Rightarrow> uint64 \<times> FpEnv" where
  "Min64 sf x y env = MinImpl (LeQuiet64 sf) 11 52 Fp64_CanonicalSignalingNan
     Fp64_CanonicalQuietNan x y (clear_flags env)"

definition Max32 :: "softfloat \<Rightarrow> uint32 \<Rightarrow> uint32 \<Rightarrow> FpEnv \<Rightarrow> uint32 \<times> FpEnv" where
  "Max32 sf x y env = MaxImpl (LeQuiet32 sf) 8 23 Fp32_CanonicalSignalingNan
     Fp32_CanonicalQuietNan x y (clear_flags env)"

definition Max64 :: "softfloat \<Rightarrow> uint64 \<Rightarrow> uint64 \<Rightarrow> FpEnv \<Rightarrow> uint64 \<times> FpEnv" where
  "Max64 sf x y env = MaxImpl (LeQuiet64 sf) 11 52 Fp64_CanonicalSignalingNan
     Fp64_CanonicalQuietNan x y (clear_flags env)"

section \<open>Classification\<close>

definition ConvertToRvFpClassImpl :: "nat \<Rightarrow> nat \<Rightarrow> 'a::len word \<Rightarrow> uint32" where
  "ConvertToRvFpClassImpl e f x =
     (if Fp_GetSign e f x = 1 \<and> Fp_IsInf e f x then push_bit 0 1
      else if Fp_GetSign e f x = 1 \<and> Fp_IsNormal e f x then push_bit 1 1
      else if Fp_GetSign e f x = 1 \<and> Fp_IsSubNormal e f x then push_bit 2 1
      else if Fp_GetSign e f x = 1 \<and> Fp_IsZero e f x then push_bit 3 1
      else if Fp_GetSign e f x = 0 \<and> Fp_IsZero e f x then push_bit 4 1
      else if Fp_GetSign e f x = 0 \<and> Fp_IsSubNormal e f x then push_bit 5 1
      else if Fp_GetSign e f x = 0 \<and> Fp_IsNormal e f x then push_bit 6 1
      else if Fp_GetSign e f x = 0 \<and> Fp_IsInf e f x then push_bit 7 1
      else if Fp_IsSignalingNan e f x then push_bit 8 1
      else push_bit 9 1)"

definition ConvertToRvFpClass32 :: "uint32 \<Rightarrow> uint32" where
  "ConvertToRvFpClass32 x = ConvertToRvFpClassImpl 8 23 x"

definition ConvertToRvFpClass64 :: "uint64 \<Rightarrow> uint32" where
  "ConvertToRvFpClass64 x = ConvertToRvFpClassImpl 11 52 x"

section \<open>Arithmetic, comparison and conversion\<close>

definition Add32 :: "softfloat \<Rightarrow> uint32 \<Rightarrow> uint32 \<Rightarrow> FpEnv \<Rightarrow> uint32 \<times> FpEnv" where
  "Add32 sf x y env = sf_call (sf_f32_add sf (softfloat_roundingMode env) x y) (clear_flags env)"

definition Add64 :: "softfloat \<Rightarrow> uint64 \<Rightarrow> uint64 \<Rightarrow> FpEnv \<Rightarrow> uint64 \<times> FpEnv" where
  "Add64 sf x y env = sf_call (sf_f64_add sf (softfloat_roundingMode env) x y) (clear_flags env)"

definition Sub32 :: "softfloat \<Rightarrow> uint32 \<Rightarrow> uint32 \<Rightarrow> FpEnv \<Rightarrow> uint32 \<times> FpEnv" where
  "Sub32 sf x y env = sf_call (sf_f32_sub sf (softfloat_roundingMode env) x y) (clear_flags env)"

definition Sub64 :: "softfloat \<Rightarrow> uint64 \<Rightarrow> uint64 \<Rightarrow> FpEnv \<Rightarrow> uint64 \<times> FpEnv" where
  "Sub64 sf x y env = sf_call (sf_f64_sub sf (softfloat_roundingMode env) x y) (clear_flags env)"

definition Mul32 :: "softfloat \<Rightarrow> uint32 \<Rightarrow> uint32 \<Rightarrow> FpEnv \<Rightarrow> uint32 \<times> FpEnv" where
  "Mul32 sf x y env = sf_call (sf_f32_mul sf (softfloat_roundingMode env) x y) (clear_flags env)"

definition Mul64 :: "softfloat \<Rightarrow> uint64 \<Rightarrow> uint64 \<Rightarrow> FpEnv \<Rightarrow> uint64 \<times> FpEnv" where
  "Mul64 sf x y env = sf_call (sf_f64_mul sf (softfloat_roundingMode env) x y) (clear_flags env)"

definition Div32 :: "softfloat \<Rightarrow> uint32 \<Rightarrow> uint32 \<Rightarrow> FpEnv \<Rightarrow> uint32 \<times> FpEnv" where
  "Div32 sf x y env = sf_call (sf_f32_div sf (softfloat_roundingMode env) x y) (clear_flags env)"

definition Div64 :: "softfloat \<Rightarrow> uint64 \<Rightarrow> uint64 \<Rightarrow> FpEnv \<Rightarrow> uint64 \<times> FpEnv" where
  "Div64 sf x y env = sf_call (sf_f64_div sf (softfloat_roundingMode env) x y) (clear_flags env)"

definition Sqrt32 :: "softfloat \<Rightarrow> uint32 \<Rightarrow> FpEnv \<Rightarrow> uint32 \<times> FpEnv" where
  "Sqrt32 sf x env = sf_call (sf_f32_sqrt sf (softfloat_roundingMode env) x) (clear_flags env)"

definition Sqrt64 :: "softfloat \<Rightarrow> uint64 \<Rightarrow> FpEnv \<Rightarrow> uint64 \<times> FpEnv" where
  "Sqrt64 sf x env = sf_call (sf_f64_sqrt sf (softfloat_roundingMode env) x) (clear_flags env)"

definition Eq32 :: "softfloat \<Rightarrow> uint32 \<Rightarrow> uint32 \<Rightarrow> FpEnv \<Rightarrow> bool \<times> FpEnv" where
  "Eq32 sf x y env = sf_call (sf_f32_eq sf x y) (clear_flags env)"

definition Eq64 :: "softfloat \<Rightarrow> uint64 \<Rightarrow> uint64 \<Rightarrow> FpEnv \<Rightarrow> bool \<times> FpEnv" where
  "Eq64 sf x y env = sf_call (sf_f64_eq sf x y) (clear_flags env)"

definition Le32 :: "softfloat \<Rightarrow> uint32 \<Rightarrow> uint32 \<Rightarrow> FpEnv \<Rightarrow> bool \<times> FpEnv" where
  "Le32 sf x y env = sf_call (sf_f32_le sf x y) (clear_flags env)"

definition Le64 :: "softfloat \<Rightarrow> uint64 \<Rightarrow> uint64 \<Rightarrow> FpEnv \<Rightarrow> bool \<times> FpEnv" where
  "Le64 sf x y env = sf_call (sf_f64_le sf x y) (clear_flags env)"

definition Lt32 :: "softfloat \<Rightarrow> uint32 \<Rightarrow> uint32 \<Rightarrow> FpEnv \<Rightarrow> bool \<times> FpEnv" where
  "Lt32 sf x y env = sf_call (sf_f32_lt sf x y) (clear_flags env)"

definition Lt64 :: "softfloat \<Rightarrow> uint64 \<Rightarrow> uint64 \<Rightarrow> FpEnv \<Rightarrow> bool \<times> FpEnv" where
  "Lt64 sf x y env = sf_call (sf_f64_lt sf x y) (clear_flags env)"

definition MulAdd32 :: "softfloat \<Rightarrow> uint32 \<Rightarrow> uint32 \<Rightarrow> uint32 \<Rightarrow> FpEnv \<Rightarrow> uint32 \<times> FpEnv" where
  "MulAdd32 sf x y z env = (let (p, env1) = sf_call (sf_f32_mul sf (softfloat_roundingMode env) x y) (clear_flags env)
     in sf_call (sf_f32_add sf (softfloat_roundingMode env) p z) env1)"

definition MulAdd64 :: "softfloat \<Rightarrow> uint64 \<Rightarrow> uint64 \<Rightarrow> uint64 \<Rightarrow> FpEnv \<Rightarrow> uint64 \<times> FpEnv" where
  "MulAdd64 sf x y z env = (let (p, env1) = sf_call (sf_f64_mul sf (softfloat_roundingMode env) x y) (clear_flags env)
     in sf_call (sf_f64_add sf (softfloat_roundingMode env) p z) env1)"

definition MulSub32 :: "softfloat \<Rightarrow> uint32 \<Rightarrow> uint32 \<Rightarrow> uint32 \<Rightarrow> FpEnv \<Rightarrow> uint32 \<times> FpEnv" where
  "MulSub32 sf x y z env = (let (p, env1) = sf_call (sf_f32_mul sf (softfloat_roundingMode env) x y) (clear_flags env)
     in sf_call (sf_f32_sub sf (softfloat_roundingMode env) p z) env1)"

definition MulSub64 :: "softfloat \<Rightarrow> uint64 \<Rightarrow> uint64 \<Rightarrow> uint64 \<Rightarrow> FpEnv \<Rightarrow> uint64 \<times> FpEnv" where
  "MulSub64 sf x y z env = (let (p, env1) = sf_call (sf_f64_mul sf (softfloat_roundingMode env) x y) (clear_flags env)
     in sf_call (sf_f64_sub sf (softfloat_roundingMode env) p z) env1)"

definition NegMulAdd32 :: "softfloat \<Rightarrow> uint32 \<Rightarrow> uint32 \<Rightarrow> uint32 \<Rightarrow> FpEnv \<Rightarrow> uint32 \<times> FpEnv" where
  "NegMulAdd32 sf x y z env = (let (p, env1) = sf_call (sf_f32_mul sf (softfloat_roundingMode env) x y) (clear_flags env)
     in sf_call (sf_f32_sub sf (softfloat_roundingMode env) (Negate32 p) z) env1)"

definition NegMulAdd64 :: "softfloat \<Rightarrow> uint64 \<Rightarrow> uint64 \<Rightarrow> uint64 \<Rightarrow> FpEnv \<Rightarrow> uint64 \<times> FpEnv" where
  "NegMulAdd64 sf x y z env = (let (p, env1) = sf_call (sf_f64_mul sf (softfloat_roundingMode env) x y) (clear_flags env)
     in sf_call (sf_f64_sub sf (softfloat_roundingMode env) (Negate64 p) z) env1)"

definition NegMulSub32 :: "softfloat \<Rightarrow> uint32 \<Rightarrow> uint32 \<Rightarrow> uint32 \<Rightarrow> FpEnv \<Rightarrow> uint32 \<times> FpEnv" where
  "NegMulSub32 sf x y z env = (let (p, env1) = sf_call (sf_f32_mul sf (softfloat_roundingMode env) x y) (clear_flags env)
     in sf_call (sf_f32_add sf (softfloat_roundingMode env) (Negate32 p) z) env1)"

definition NegMulSub64 :: "softfloat \<Rightarrow> uint64 \<Rightarrow> uint64 \<Rightarrow> uint64 \<Rightarrow> FpEnv \<Rightarrow> uint64 \<times> FpEnv" where
  "NegMulSub64 sf x y z env = (let (p, env1) = sf_call (sf_f64_mul sf (softfloat_roundingMode env) x y) (clear_flags env)
     in sf_call (sf_f64_add sf (softfloat_roundingMode env) (Negate64 p) z) env1)"

definition DoubleToInt32 :: "softfloat \<Rightarrow> uint64 \<Rightarrow> int \<Rightarrow> FpEnv \<Rightarrow> uint32 \<times> FpEnv" where
  "DoubleToInt32 sf x roundMode env = sf_call (sf_f64_to_i32 sf x (word_of_int roundMode) True) (clear_flags env)"

definition DoubleToInt64 :: "softfloat \<Rightarrow> uint64 \<Rightarrow> int \<Rightarrow> FpEnv \<Rightarrow> uint64 \<times> FpEnv" where
  "DoubleToInt64 sf x roundMode env = sf_call (sf_f64_to_i64 sf x (word_of_int roundMode) True) (clear_flags env)"

definition DoubleToUInt32 :: "softfloat \<Rightarrow> uint64 \<Rightarrow> int \<Rightarrow> FpEnv \<Rightarrow> uint32 \<times> FpEnv" where
  "DoubleToUInt32 sf x roundMode env = sf_call (sf_f64_to_ui32 sf x (word_of_int roundMode) True) (clear_flags env)"

definition DoubleToUInt64 :: "softfloat \<Rightarrow> uint64 \<Rightarrow> int \<Rightarrow> FpEnv \<Rightarrow> uint64 \<times> FpEnv" where
  "DoubleToUInt64 sf x roundMode env = sf_call (sf_f64_to_ui64 sf x (word_of_int roundMode) True) (clear_flags env)"

definition FloatToInt32 :: "softfloat \<Rightarrow> uint32 \<Rightarrow> int \<Rightarrow> FpEnv \<Rightarrow> uint32 \<times> FpEnv" where
  "FloatToInt32 sf x roundMode env = sf_call (sf_f32_to_i32 sf x (word_of_int roundMode) True) (clear_flags env)"

definition FloatToInt64 :: "softfloat \<Rightarrow> uint32 \<Rightarrow> int \<Rightarrow> FpEnv \<Rightarrow> uint64 \<times> FpEnv" where
  "FloatToInt64 sf x roundMode env = sf_call (sf_f32_to_i64 sf x (word_of_int roundMode) True) (clear_flags env)"

definition FloatToUInt32 :: "softfloat \<Rightarrow> uint32 \<Rightarrow> int \<Rightarrow> FpEnv \<Rightarrow> uint32 \<times> FpEnv" where
  "FloatToUInt32 sf x roundMode env = sf_call (sf_f32_to_ui32 sf x (word_of_int roundMode) True) (clear_flags env)"

definition FloatToUInt64 :: "softfloat \<Rightarrow> uint32 \<Rightarrow> int \<Rightarrow> FpEnv \<Rightarrow> uint64 \<times> FpEnv" where
  "FloatToUInt64 sf x roundMode env = sf_call (sf_f32_to_ui64 sf x (word_of_int roundMode) True) (clear_flags env)"

definition Int32ToDouble :: "softfloat \<Rightarrow> uint32 \<Rightarrow> FpEnv \<Rightarrow> uint64 \<times> FpEnv" where
  "Int32ToDouble sf x env = sf_call (sf_i32_to_f64 sf x) (clear_flags env)"

definition Int64ToDouble :: "softfloat \<Rightarrow> uint64 \<Rightarrow> FpEnv \<Rightarrow> uint64 \<times> FpEnv" where
  "Int64ToDouble sf x env = sf_call (sf_i64_to_f64 sf (softfloat_roundingMode env) x) (clear_flags env)"

definition UInt32ToDouble :: "softfloat \<Rightarrow> uint32 \<Rightarrow> FpEnv \<Rightarrow> uint64 \<times> FpEnv" where
  "UInt32ToDouble sf x env = sf_call (sf_ui32_to_f64 sf x) (clear_flags env)"

definition UInt64ToDouble :: "softfloat \<Rightarrow> uint64 \<Rightarrow> FpEnv \<Rightarrow> uint64 \<times> FpEnv" where
  "UInt64ToDouble sf x env = sf_call (sf_ui64_to_f64 sf (softfloat_roundingMode env) x) (clear_flags env)"

definition Int32ToFloat :: "softfloat \<Rightarrow> uint32 \<Rightarrow> FpEnv \<Rightarrow> uint32 \<times> FpEnv" where
  "Int32ToFloat sf x env = sf_call (sf_i32_to_f32 sf (softfloat_roundingMode env) x) (clear_flags env)"

definition Int64ToFloat :: "softfloat \<Rightarrow> uint64 \<Rightarrow> FpEnv \<Rightarrow> uint32 \<times> FpEnv" where
  "Int64ToFloat sf x env = sf_call (sf_i64_to_f32 sf (softfloat_roundingMode env) x) (clear_flags env)"

definition UInt32ToFloat :: "softfloat \<Rightarrow> uint32 \<Rightarrow> FpEnv \<Rightarrow> uint32 \<times> FpEnv" where
  "UInt32ToFloat sf x env = sf_call (sf_ui32_to_f32 sf (softfloat_roundingMode env) x) (clear_flags env)"

definition UInt64ToFloat :: "softfloat \<Rightarrow> uint64 \<Rightarrow> FpEnv \<Rightarrow> uint32 \<times> FpEnv" where
  "UInt64ToFloat sf x env = sf_call (sf_ui64_to_f32 sf (softfloat_roundingMode env) x) (clear_flags env)"

definition DoubleToFloat :: "softfloat \<Rightarrow> uint64 \<Rightarrow> FpEnv \<Rightarrow> uint32 \<times> FpEnv" where
  "DoubleToFloat sf x env = sf_call (sf_f64_to_f32 sf (softfloat_roundingMode env) x) (clear_flags env)"

definition FloatToDouble :: "softfloat \<Rightarrow> uint32 \<Rightarrow> FpEnv \<Rightarrow> uint64 \<times> FpEnv" where
  "FloatToDouble sf x env = sf_call (sf_f32_to_f64 sf x) (clear_flags env)"

section \<open>Rounding mode of the host\<close>

text \<open>
  \<open>ScopedFpRound\<close> saves the rounding mode of the host's floating-point unit, sets it, and restores
  it at the end of the scope. SoftFloat computes with integers and reads its own global instead,
  so what remains is the exit for the modes without a counterpart.
\<close>

definition ScopedFpRound :: "int \<Rightarrow> unit result" where
  "ScopedFpRound rvRound =
     (if rvRound = 0 \<or> rvRound = 1 \<or> rvRound = 2 \<or> rvRound = 3 \<or> rvRound = 4 then Inr ()
      else Inl ProcessExit)"

end
