(* ===== verification/SystemState.thy ===== *)
theory SystemState
  imports Bus RegFile InterruptController FpApi
begin

text \<open>
  \<^verbatim>\<open>bin/rafi-emu/System.h\<close> and \<^verbatim>\<open>System.cpp\<close>: the machine put together. The record \<open>System\<close> holds the
  members of the System object and, flattened into it, those of its Processor. The pointers handed
  to the bus are the constructors of two enums; \<open>system_calls\<close> is the table of the virtual
  functions behind them. The width is given once to the constructor, which passes it to the parts.
  The globals of SoftFloat are kept with them.
\<close>

section \<open>State\<close>

datatype MemoryPtr = PtrRam | PtrRom

datatype IoPtr = PtrClint | PtrPlic | PtrUart16550 | PtrVirtIo nat | PtrUart | PtrTimer

record System =
  sys_XLEN :: XLEN
  sys_EventList :: "Event list"
  sys_Bus :: "(MemoryPtr, IoPtr) Bus"
  sys_Ram :: Ram
  sys_Rom :: Rom
  sys_Clint :: Clint
  sys_Plic :: Plic
  sys_Uart16550 :: Uart16550
  sys_Uart :: Uart
  sys_Timer :: Timer
  sys_HostIoAddress :: uint32
  sys_AtomicManager :: AtomicManager
  sys_Csr :: Csr
  sys_InterruptController :: InterruptController
  sys_FpRegFile :: FpRegFile
  sys_IntRegFile :: IntRegFile
  sys_OpCount :: uint32
  sys_FpEnv :: FpEnv

abbreviation AddrRom :: paddr_t where "AddrRom \<equiv> 0x00001000"
abbreviation AddrRam :: paddr_t where "AddrRam \<equiv> 0x80000000"
abbreviation AddrClint :: paddr_t where "AddrClint \<equiv> 0x02000000"
abbreviation AddrPlic :: paddr_t where "AddrPlic \<equiv> 0x0c000000"
abbreviation AddrUart16550 :: paddr_t where "AddrUart16550 \<equiv> 0x10000000"
abbreviation AddrVirtIo1 :: paddr_t where "AddrVirtIo1 \<equiv> 0x10001000"
abbreviation AddrVirtIo2 :: paddr_t where "AddrVirtIo2 \<equiv> 0x10002000"
abbreviation AddrVirtIo3 :: paddr_t where "AddrVirtIo3 \<equiv> 0x10003000"
abbreviation AddrVirtIo4 :: paddr_t where "AddrVirtIo4 \<equiv> 0x10004000"
abbreviation AddrVirtIo5 :: paddr_t where "AddrVirtIo5 \<equiv> 0x10005000"
abbreviation AddrVirtIo6 :: paddr_t where "AddrVirtIo6 \<equiv> 0x10006000"
abbreviation AddrVirtIo7 :: paddr_t where "AddrVirtIo7 \<equiv> 0x10007000"
abbreviation AddrVirtIo8 :: paddr_t where "AddrVirtIo8 \<equiv> 0x10008000"
abbreviation AddrUart :: paddr_t where "AddrUart \<equiv> 0x40002000"
abbreviation AddrTimer :: paddr_t where "AddrTimer \<equiv> 0x40000000"

section \<open>Virtual calls\<close>

definition memory_read :: "MemoryPtr \<Rightarrow> System \<Rightarrow> nat \<Rightarrow> uint64 \<Rightarrow> bytes result" where
  "memory_read ptr sys sz address = (case ptr of
     PtrRam \<Rightarrow> Ram_Read (sys_Ram sys) sz address
   | PtrRom \<Rightarrow> Rom_Read (sys_Rom sys) sz address)"

definition memory_write :: "MemoryPtr \<Rightarrow> bytes \<Rightarrow> uint64 \<Rightarrow> System \<Rightarrow> System result" where
  "memory_write ptr buffer address sys = (case ptr of
     PtrRam \<Rightarrow> rbind (Ram_Write buffer address (sys_Ram sys)) (\<lambda>x. Inr (sys\<lparr> sys_Ram := x \<rparr>))
   | PtrRom \<Rightarrow> rbind (Rom_Write buffer address (sys_Rom sys)) (\<lambda>x. Inr (sys\<lparr> sys_Rom := x \<rparr>)))"

definition memory_load :: "MemoryPtr \<Rightarrow> bytes option \<Rightarrow> uint32 \<Rightarrow> System \<Rightarrow> System result" where
  "memory_load ptr file offset sys = (case ptr of
     PtrRam \<Rightarrow> rbind (Ram_LoadFile file offset (sys_Ram sys)) (\<lambda>x. Inr (sys\<lparr> sys_Ram := x \<rparr>))
   | PtrRom \<Rightarrow> rbind (Rom_LoadFile file offset (sys_Rom sys)) (\<lambda>x. Inr (sys\<lparr> sys_Rom := x \<rparr>)))"

definition io_read :: "IoPtr \<Rightarrow> System \<Rightarrow> nat \<Rightarrow> uint64 \<Rightarrow> bytes result" where
  "io_read ptr sys sz address = (case ptr of
     PtrClint \<Rightarrow> Clint_Read (sys_Clint sys, sys_Csr sys) sz address
   | PtrPlic \<Rightarrow> Plic_Read (sys_Plic sys) sz address
   | PtrUart16550 \<Rightarrow> Uart16550_Read (sys_Uart16550 sys) sz address
   | PtrVirtIo n \<Rightarrow> VirtIo_Read () sz address
   | PtrUart \<Rightarrow> Uart_Read (sys_Uart sys) sz address
   | PtrTimer \<Rightarrow> Timer_Read (sys_Timer sys) sz address)"

definition io_write :: "IoPtr \<Rightarrow> bytes \<Rightarrow> uint64 \<Rightarrow> System \<Rightarrow> System result" where
  "io_write ptr buffer address sys = (case ptr of
     PtrClint \<Rightarrow> rbind (Clint_Write buffer address (sys_Clint sys, sys_Csr sys))
        (\<lambda>(x, csr). Inr (sys\<lparr> sys_Clint := x, sys_Csr := csr \<rparr>))
   | PtrPlic \<Rightarrow> rbind (Plic_Write buffer address (sys_Plic sys)) (\<lambda>x. Inr (sys\<lparr> sys_Plic := x \<rparr>))
   | PtrUart16550 \<Rightarrow> rbind (Uart16550_Write buffer address (sys_Uart16550 sys))
        (\<lambda>x. Inr (sys\<lparr> sys_Uart16550 := x \<rparr>))
   | PtrVirtIo n \<Rightarrow> rbind (VirtIo_Write buffer address ()) (\<lambda>x. Inr sys)
   | PtrUart \<Rightarrow> rbind (Uart_Write buffer address (sys_Uart sys)) (\<lambda>x. Inr (sys\<lparr> sys_Uart := x \<rparr>))
   | PtrTimer \<Rightarrow> rbind (Timer_Write buffer address (sys_Timer sys)) (\<lambda>x. Inr (sys\<lparr> sys_Timer := x \<rparr>)))"

definition system_calls :: "(MemoryPtr, IoPtr, System) bus_calls" where
  "system_calls = \<lparr> call_memory_read = memory_read, call_memory_write = memory_write,
     call_memory_load = memory_load, call_io_read = io_read, call_io_write = io_write \<rparr>"

definition bus_read :: "System \<Rightarrow> nat \<Rightarrow> paddr_t \<Rightarrow> bytes result" where
  "bus_read sys = Bus_Read system_calls (sys_Bus sys) sys"

definition bus_write :: "bytes \<Rightarrow> paddr_t \<Rightarrow> System \<Rightarrow> System result" where
  "bus_write buffer address sys = Bus_Write system_calls (sys_Bus sys) buffer address sys"

section \<open>Construction\<close>

definition System_Bus :: "uint64 \<Rightarrow> (MemoryPtr, IoPtr) Bus" where
  "System_Bus ramSize =
     Bus_RegisterIo PtrTimer AddrTimer Timer_Size (Bus_RegisterIo PtrUart AddrUart Uart_Size
    (Bus_RegisterIo (PtrVirtIo 8) AddrVirtIo8 VirtIo_Size (Bus_RegisterIo (PtrVirtIo 7) AddrVirtIo7 VirtIo_Size
    (Bus_RegisterIo (PtrVirtIo 6) AddrVirtIo6 VirtIo_Size (Bus_RegisterIo (PtrVirtIo 5) AddrVirtIo5 VirtIo_Size
    (Bus_RegisterIo (PtrVirtIo 4) AddrVirtIo4 VirtIo_Size (Bus_RegisterIo (PtrVirtIo 3) AddrVirtIo3 VirtIo_Size
    (Bus_RegisterIo (PtrVirtIo 2) AddrVirtIo2 VirtIo_Size (Bus_RegisterIo (PtrVirtIo 1) AddrVirtIo1 VirtIo_Size
    (Bus_RegisterIo PtrUart16550 AddrUart16550 Uart16550_Size (Bus_RegisterIo PtrPlic AddrPlic Plic_Size
    (Bus_RegisterIo PtrClint AddrClint Clint_Size
    (Bus_RegisterMemory PtrRom AddrRom Rom_Capacity (Bus_RegisterMemory PtrRam AddrRam ramSize
      Bus_init))))))))))))))"

definition System_new :: "XLEN \<Rightarrow> vaddr_t \<Rightarrow> uint64 \<Rightarrow> System result" where
  "System_new xlen pc ramSize = rbind (Csr_new xlen pc) (\<lambda>csr. Inr \<lparr>
     sys_XLEN = xlen, sys_EventList = [], sys_Bus = System_Bus ramSize,
     sys_Ram = Ram_new ramSize, sys_Rom = Rom_new, sys_Clint = Clint_init, sys_Plic = Plic_init,
     sys_Uart16550 = Uart16550_init, sys_Uart = Uart_init, sys_Timer = Timer_init,
     sys_HostIoAddress = 0, sys_AtomicManager = AtomicManager_init, sys_Csr = csr,
     sys_InterruptController = InterruptController_init, sys_FpRegFile = FpRegFile_init,
     sys_IntRegFile = IntRegFile_init, sys_OpCount = 0,
     sys_FpEnv = FpEnv_init \<rparr>)"

section \<open>Operations outside the cycle\<close>

definition System_LoadFileToMemory :: "bytes option \<Rightarrow> paddr_t \<Rightarrow> System \<Rightarrow> System result" where
  "System_LoadFileToMemory file address sys = Bus_LoadFileToMemory system_calls (sys_Bus sys) file address sys"

definition Processor_SetIntReg :: "int \<Rightarrow> uint32 \<Rightarrow> System \<Rightarrow> System result" where
  "Processor_SetIntReg regId regValue sys =
     rbind (IntRegFile_WriteUInt32 (sys_IntRegFile sys) regId regValue) (\<lambda>rf. Inr (sys\<lparr> sys_IntRegFile := rf \<rparr>))"

definition System_SetDtbAddress :: "vaddr_t \<Rightarrow> System \<Rightarrow> System result" where
  "System_SetDtbAddress address sys = Processor_SetIntReg 11 (ucast address) sys"

definition System_SetHostIoAddress :: "vaddr_t \<Rightarrow> System \<Rightarrow> System" where
  "System_SetHostIoAddress address sys = sys\<lparr> sys_HostIoAddress := ucast address \<rparr>"

definition System_IsValidMemory :: "System \<Rightarrow> paddr_t \<Rightarrow> nat \<Rightarrow> bool" where
  "System_IsValidMemory sys addr n = Bus_IsValidAddress (sys_Bus sys) addr n"

definition System_ReadMemory :: "System \<Rightarrow> nat \<Rightarrow> paddr_t \<Rightarrow> bytes result" where
  "System_ReadMemory sys n addr = bus_read sys n addr"

definition System_WriteMemory :: "bytes \<Rightarrow> paddr_t \<Rightarrow> System \<Rightarrow> System result" where
  "System_WriteMemory buffer addr sys = bus_write buffer addr sys"

definition System_GetHostIoValue :: "System \<Rightarrow> uint32 result" where
  "System_GetHostIoValue sys =
     rbind (Ram_Read (sys_Ram sys) 4 (ucast (sys_HostIoAddress sys) - AddrRam)) (\<lambda>bs. Inr (of_bytes bs))"

section \<open>Laws\<close>

lemma system_calls_simps [simp]:
  "call_memory_read system_calls = memory_read" "call_memory_write system_calls = memory_write"
  "call_memory_load system_calls = memory_load" "call_io_read system_calls = io_read"
  "call_io_write system_calls = io_write"
  by (simp_all add: system_calls_def)

lemma System_Bus_lists:
  "m_MemoryList (System_Bus n) = [
     \<lparr> region_ptr = PtrRam, region_address = AddrRam, region_size = n \<rparr>,
     \<lparr> region_ptr = PtrRom, region_address = AddrRom, region_size = Rom_Capacity \<rparr>]"
  "map region_ptr (m_IoList (System_Bus n)) =
     [PtrClint, PtrPlic, PtrUart16550, PtrVirtIo 1, PtrVirtIo 2, PtrVirtIo 3, PtrVirtIo 4, PtrVirtIo 5,
      PtrVirtIo 6, PtrVirtIo 7, PtrVirtIo 8, PtrUart, PtrTimer]"
  by (simp_all add: System_Bus_def Bus_RegisterIo_def Bus_RegisterMemory_def Bus_init_def)

text \<open>What a device write leaves alone: everything of the hart but the time and pending bits.\<close>

definition csr_same_but_time :: "Csr \<Rightarrow> Csr \<Rightarrow> bool" where
  "csr_same_but_time csr csr' \<longleftrightarrow> csr' = csr\<lparr> m_InterruptPending := m_InterruptPending csr',
     m_TimeCounter := m_TimeCounter csr' \<rparr>"

lemma csr_same_but_time_refl [simp]: "csr_same_but_time csr csr"
  by (simp add: csr_same_but_time_def)

lemma csr_same_but_time_trans:
  assumes "csr_same_but_time a b" "csr_same_but_time b c"
  shows "csr_same_but_time a c"
proof -
  let ?u = "\<lambda>csr. csr\<lparr> m_InterruptPending := m_InterruptPending c, m_TimeCounter := m_TimeCounter c \<rparr>"
  have "?u b = ?u a" using arg_cong [OF assms(1) [unfolded csr_same_but_time_def], of ?u] by simp
  then show ?thesis using assms(2) unfolding csr_same_but_time_def by metis
qed

lemma csr_same_but_time_fields:
  assumes "csr_same_but_time csr csr'"
  shows "m_Pc csr' = m_Pc csr" "m_Priv csr' = m_Priv csr" "m_XLEN csr' = m_XLEN csr"
    "m_Status csr' = m_Status csr" "Csr_ReadStatus csr' = Csr_ReadStatus csr"
    "m_SupervisorAddressTranslationProtection csr' = m_SupervisorAddressTranslationProtection csr"
  using arg_cong [OF assms [unfolded csr_same_but_time_def], of m_Pc]
    arg_cong [OF assms [unfolded csr_same_but_time_def], of m_Priv]
    arg_cong [OF assms [unfolded csr_same_but_time_def], of m_XLEN]
    arg_cong [OF assms [unfolded csr_same_but_time_def], of m_Status]
    arg_cong [OF assms [unfolded csr_same_but_time_def], of m_SupervisorAddressTranslationProtection]
  by (simp_all add: Csr_ReadStatus_def Let_def)

lemma Clint_Write_csr:
  assumes "Clint_Write bs a (c, csr) = Inr (c', csr')"
  shows "csr_same_but_time csr csr'"
  using assms unfolding csr_same_but_time_def
  by (auto simp: Clint_Write_def Clint_WriteMsip_def Clint_WriteTime_def rbind_CheckAccess
      Csr_WriteInterruptPending_def Csr_WriteTime_def rbind_Inr_iff Let_def split: if_splits)

lemma io_write_frame:
  assumes "io_write ptr bs a sys = Inr sys'"
  shows "sys_IntRegFile sys' = sys_IntRegFile sys" "sys_FpRegFile sys' = sys_FpRegFile sys"
    "sys_XLEN sys' = sys_XLEN sys" "sys_Bus sys' = sys_Bus sys" "sys_EventList sys' = sys_EventList sys"
    "sys_AtomicManager sys' = sys_AtomicManager sys" "sys_Ram sys' = sys_Ram sys" "sys_Rom sys' = sys_Rom sys"
    "sys_InterruptController sys' = sys_InterruptController sys" "sys_OpCount sys' = sys_OpCount sys"
    "sys_HostIoAddress sys' = sys_HostIoAddress sys" "csr_same_but_time (sys_Csr sys) (sys_Csr sys')"
  using assms by (auto simp: io_write_def rbind_Inr_iff split: IoPtr.splits dest: Clint_Write_csr)

lemma memory_write_frame:
  assumes "memory_write ptr bs a sys = Inr sys'"
  shows "sys_IntRegFile sys' = sys_IntRegFile sys" "sys_FpRegFile sys' = sys_FpRegFile sys"
    "sys_XLEN sys' = sys_XLEN sys" "sys_Bus sys' = sys_Bus sys" "sys_EventList sys' = sys_EventList sys"
    "sys_AtomicManager sys' = sys_AtomicManager sys" "sys_InterruptController sys' = sys_InterruptController sys"
    "sys_OpCount sys' = sys_OpCount sys" "sys_HostIoAddress sys' = sys_HostIoAddress sys"
    "sys_Csr sys' = sys_Csr sys" "m_Capacity (sys_Ram sys') = m_Capacity (sys_Ram sys)"
  using assms
  by (auto simp: memory_write_def rbind_Inr_iff Ram_Write_def split: MemoryPtr.splits)

lemma bus_write_cases:
  assumes "bus_write bs a sys = Inr sys'"
  obtains ptr off where "memory_write ptr bs off sys = Inr sys'"
  | ptr off where "io_write ptr bs off sys = Inr sys'"
  using assms by (auto simp: bus_write_def Bus_Write_def rbind_Inr_iff split: if_splits)

lemma bus_write_frame:
  assumes "bus_write bs a sys = Inr sys'"
  shows "sys_IntRegFile sys' = sys_IntRegFile sys" "sys_FpRegFile sys' = sys_FpRegFile sys"
    "sys_XLEN sys' = sys_XLEN sys" "sys_Bus sys' = sys_Bus sys" "sys_EventList sys' = sys_EventList sys"
    "sys_AtomicManager sys' = sys_AtomicManager sys" "sys_InterruptController sys' = sys_InterruptController sys"
    "sys_OpCount sys' = sys_OpCount sys" "sys_HostIoAddress sys' = sys_HostIoAddress sys"
    "csr_same_but_time (sys_Csr sys) (sys_Csr sys')" "m_Capacity (sys_Ram sys') = m_Capacity (sys_Ram sys)"
  using assms by (cases rule: bus_write_cases; simp add: memory_write_frame io_write_frame)+

section \<open>Memory behind the bus\<close>

text \<open>
  The map of the constructor, for a Ram of at most 2 GiB: beyond that the \<open>int\<close> offset of the bus
  turns negative.
\<close>

definition system_map :: "System \<Rightarrow> bool" where
  "system_map sys \<longleftrightarrow> sys_Bus sys = System_Bus (m_Capacity (sys_Ram sys)) \<and> m_Capacity (sys_Ram sys) \<le> 0x80000000"

definition ram_range :: "System \<Rightarrow> paddr_t \<Rightarrow> nat \<Rightarrow> bool" where
  "ram_range sys a n \<longleftrightarrow> 0 < n \<and> unat AddrRam \<le> unat a \<and>
     unat a + n \<le> unat AddrRam + unat (m_Capacity (sys_Ram sys))"

lemma unat_ram_sum:
  assumes "system_map sys"
  shows "unat (AddrRam + m_Capacity (sys_Ram sys)) = unat AddrRam + unat (m_Capacity (sys_Ram sys))"
  using assms by (simp add: system_map_def unat_word_ariths word_le_nat_alt)

lemma ram_range_covers:
  assumes "system_map sys" "ram_range sys a n"
  shows "region_covers a (a + of_nat n - 1)
    \<lparr> region_ptr = p, region_address = AddrRam, region_size = m_Capacity (sys_Ram sys) \<rparr>"
proof -
  have "a + of_nat n - 1 < AddrRam + m_Capacity (sys_Ram sys)"
    by (rule unat_add_minus_1_less) (use assms unat_ram_sum [OF assms(1)] in \<open>auto simp: ram_range_def\<close>)
  then show ?thesis using assms by (simp add: region_covers_def ram_range_def word_le_nat_alt)
qed

lemma ram_range_first: "ram_range sys a n \<Longrightarrow> ram_range sys a 1"
  by (auto simp: ram_range_def)

lemma not_bit_if_small:
  assumes "unat (x :: 'a::len word) < 2 ^ n" "n \<le> k"
  shows "\<not> bit x k"
proof -
  have "take_bit n (unat x) = unat x" using assms(1) by (simp add: take_bit_nat_eq_self_iff)
  then have "\<not> bit (unat x) k" using assms(2) by (metis bit_take_bit_iff not_le)
  then show ?thesis by (auto simp: bit_unsigned_iff dest: bit_imp_le_length)
qed

lemma ram_offset:
  assumes "system_map sys" "ram_range sys a n"
  shows "(scast (ucast (a - AddrRam) :: uint32) :: uint64) = a - AddrRam"
proof -
  have le: "unat (a - AddrRam) = unat a - unat AddrRam"
    using assms(2) by (simp add: ram_range_def unat_sub word_le_nat_alt)
  moreover have "unat (m_Capacity (sys_Ram sys)) \<le> 2 ^ 31"
    using assms(1) by (simp add: system_map_def word_le_nat_alt)
  ultimately have "unat (a - AddrRam) < 2 ^ 31"
    using assms(2) unfolding ram_range_def by linarith
  then have b: "\<not> bit (a - AddrRam) k" if "31 \<le> k" for k
    using that by (rule not_bit_if_small)
  show ?thesis
    by (rule bit_eqI) (use b in \<open>auto simp: bit_scast_cases bit_unsigned_iff\<close>)
qed

lemma bus_read_ram:
  assumes "system_map sys" "ram_range sys a n"
  shows "bus_read sys n a = Ram_Read (sys_Ram sys) n (a - AddrRam)"
proof -
  have "Bus_IsMemoryAddress (sys_Bus sys) a n"
    using ram_range_covers [OF assms, of PtrRam] assms(1)
    by (simp add: Bus_IsMemoryAddress_def Let_def system_map_def System_Bus_lists)
  moreover have "ConvertToMemoryLocation (sys_Bus sys) a = Inr (PtrRam, ucast (a - AddrRam))"
    using ram_range_covers [OF assms(1) ram_range_first [OF assms(2)]] assms(1)
    by (simp add: ConvertToMemoryLocation_def system_map_def System_Bus_lists region_covers_def)
  ultimately show ?thesis
    by (simp add: bus_read_def Bus_Read_def memory_read_def ram_offset [OF assms])
qed

lemma bus_write_ram:
  assumes "system_map sys" "ram_range sys a (length bs)"
  shows "bus_write bs a sys =
    rbind (Ram_Write bs (a - AddrRam) (sys_Ram sys)) (\<lambda>ram. Inr (sys\<lparr> sys_Ram := ram \<rparr>))"
proof -
  have "Bus_IsMemoryAddress (sys_Bus sys) a 1"
    using ram_range_covers [OF assms(1) ram_range_first [OF assms(2)], of PtrRam] assms(1)
    by (simp add: Bus_IsMemoryAddress_def Let_def system_map_def System_Bus_lists)
  moreover have "ConvertToMemoryLocation (sys_Bus sys) a = Inr (PtrRam, ucast (a - AddrRam))"
    using ram_range_covers [OF assms(1) ram_range_first [OF assms(2)]] assms(1)
    by (simp add: ConvertToMemoryLocation_def system_map_def System_Bus_lists region_covers_def)
  ultimately show ?thesis
    by (simp add: bus_write_def Bus_Write_def memory_write_def ram_offset [OF assms])
qed

text \<open>Ram seen through the bus is a writable memory of its own, addressed from its base.\<close>

lemma ram_range_offset:
  assumes "ram_range sys a n"
  shows "unat (a - AddrRam) + n \<le> unat (m_Capacity (sys_Ram sys))"
proof -
  have "unat (a - AddrRam) = unat a - unat AddrRam"
    using assms by (simp add: ram_range_def unat_sub word_le_nat_alt)
  then show ?thesis using assms unfolding ram_range_def by linarith
qed

lemma bus_ram_read_write:
  assumes "system_map sys" "ram_range sys a (length bs)" "bus_write bs a sys = Inr sys'"
  shows "bus_read sys' (length bs) a = Inr bs"
    and "ram_range sys b n \<Longrightarrow> unat b + n \<le> unat a \<or> unat a + length bs \<le> unat b \<Longrightarrow>
      bus_read sys' n b = bus_read sys n b"
proof -
  obtain ram where ram: "Ram_Write bs (a - AddrRam) (sys_Ram sys) = Inr ram" "sys' = sys\<lparr> sys_Ram := ram \<rparr>"
    using assms(3) by (auto simp: bus_write_ram [OF assms(1,2)] rbind_Inr_iff)
  have cap: "m_Capacity ram = m_Capacity (sys_Ram sys)"
    using ram(1) by (auto simp: Ram_Write_def rbind_Inr_iff)
  have m: "system_map sys'" using assms(1) cap by (simp add: system_map_def ram(2))
  have r: "ram_range sys' b n = ram_range sys b n" for b n by (simp add: ram_range_def ram(2) cap)
  have rd: "bus_read sys' n b = Ram_Read ram n (b - AddrRam)" if "ram_range sys b n" for b n
    using bus_read_ram [OF m] that r by (simp add: ram(2))
  show "bus_read sys' (length bs) a = Inr bs"
    using ram.rd_wr_same [OF _ ram_range_offset [OF assms(2)] ram(1)] assms(2)
    by (simp add: rd ram_range_def)
  assume b: "ram_range sys b n" "unat b + n \<le> unat a \<or> unat a + length bs \<le> unat b"
  have "unat (b - AddrRam) + n \<le> unat (a - AddrRam) \<or> unat (a - AddrRam) + length bs \<le> unat (b - AddrRam)"
    using b assms(2) by (auto simp: ram_range_def unat_sub word_le_nat_alt)
  then show "bus_read sys' n b = bus_read sys n b"
    using ram.rd_wr_disjoint [OF ram(1) _ ram_range_offset [OF b(1)]] b
    by (simp add: rd bus_read_ram [OF assms(1) b(1)] ram_range_def)
qed

lemma bus_write_system_map: "bus_write bs a sys = Inr sys' \<Longrightarrow> system_map sys \<Longrightarrow> system_map sys'"
  by (simp add: system_map_def bus_write_frame)

end
