(* ===== verification/MemoryAccessUnit.thy ===== *)
theory MemoryAccessUnit
  imports SystemState
begin

text \<open>
  \<^verbatim>\<open>cpu/MemoryAccessUnit.h\<close> and \<^verbatim>\<open>cpu/MemoryAccessUnit.cpp\<close>: loads, stores and fetches through the address
  translation of the privileged architecture. A page table entry is the 32-bit or 64-bit word read
  from the bus; the templates of the header are definitions over any word width. \<open>CheckTrap\<close>
  walks the tables without changing them, \<open>Translate\<close> walks them again, sets the accessed and
  dirty bits and yields the physical address. Its result is a trap or an address; the loads and
  stores ignore the trap and would use an uninitialised address then, which is \<open>Undefined\<close>.
\<close>

section \<open>Reads and writes of the bus\<close>

definition mem_ReadUInt8 :: "System \<Rightarrow> paddr_t \<Rightarrow> uint8 result" where
  "mem_ReadUInt8 sys = Bus_ReadUInt8 system_calls (sys_Bus sys) sys"

definition mem_ReadUInt16 :: "System \<Rightarrow> paddr_t \<Rightarrow> uint16 result" where
  "mem_ReadUInt16 sys = Bus_ReadUInt16 system_calls (sys_Bus sys) sys"

definition mem_ReadUInt32 :: "System \<Rightarrow> paddr_t \<Rightarrow> uint32 result" where
  "mem_ReadUInt32 sys = Bus_ReadUInt32 system_calls (sys_Bus sys) sys"

definition mem_ReadUInt64 :: "System \<Rightarrow> paddr_t \<Rightarrow> uint64 result" where
  "mem_ReadUInt64 sys = Bus_ReadUInt64 system_calls (sys_Bus sys) sys"

definition mem_WriteUInt8 :: "paddr_t \<Rightarrow> uint8 \<Rightarrow> System \<Rightarrow> System result" where
  "mem_WriteUInt8 address value sys = Bus_WriteUInt8 system_calls (sys_Bus sys) address value sys"

definition mem_WriteUInt16 :: "paddr_t \<Rightarrow> uint16 \<Rightarrow> System \<Rightarrow> System result" where
  "mem_WriteUInt16 address value sys = Bus_WriteUInt16 system_calls (sys_Bus sys) address value sys"

definition mem_WriteUInt32 :: "paddr_t \<Rightarrow> uint32 \<Rightarrow> System \<Rightarrow> System result" where
  "mem_WriteUInt32 address value sys = Bus_WriteUInt32 system_calls (sys_Bus sys) address value sys"

definition mem_WriteUInt64 :: "paddr_t \<Rightarrow> uint64 \<Rightarrow> System \<Rightarrow> System result" where
  "mem_WriteUInt64 address value sys = Bus_WriteUInt64 system_calls (sys_Bus sys) address value sys"

definition AddEvent :: "MemoryAccessType \<Rightarrow> nat \<Rightarrow> uint64 \<Rightarrow> vaddr_t \<Rightarrow> paddr_t \<Rightarrow> System \<Rightarrow> System" where
  "AddEvent accessType sz value vaddr paddr sys = sys\<lparr> sys_EventList := sys_EventList sys @
     [MemoryEvent accessType (of_nat sz) value vaddr paddr] \<rparr>"

section \<open>Mode and level of an access\<close>

definition GetEffectivePrivilegeLevel :: "Csr \<Rightarrow> MemoryAccessType \<Rightarrow> PrivilegeLevel result" where
  "GetEffectivePrivilegeLevel csr accessType = rbind (Csr_ReadStatus csr) (\<lambda>status.
     let mprv = GetMember xstatus_MPRV status \<noteq> 0 in
     if mprv \<and> accessType \<noteq> Instruction
     then Inr (PrivilegeLevel_cast (GetMember xstatus_MPP status))
     else Inr (m_Priv csr))"

definition GetAddresssTranslationMode ::
    "XLEN \<Rightarrow> Csr \<Rightarrow> MemoryAccessType \<Rightarrow> AddressTranslationMode result" where
  "GetAddresssTranslationMode xlen csr accessType =
     rbind (GetEffectivePrivilegeLevel csr accessType) (\<lambda>priv.
       if priv = Machine then Inr Bare
       else let satp = m_SupervisorAddressTranslationProtection csr in
         case xlen of
           XLEN32 \<Rightarrow> Inr (AddressTranslationMode_cast (GetMember satp_MODE_RV32 satp))
         | XLEN64 \<Rightarrow> Inr (AddressTranslationMode_cast (GetMember satp_MODE_RV64 satp))
         | XLEN128 \<Rightarrow> Inl EmuException)"

definition MakeTrap :: "MemoryAccessType \<Rightarrow> vaddr_t \<Rightarrow> vaddr_t \<Rightarrow> Trap" where
  "MakeTrap accessType pc addr = (case accessType of
     Instruction \<Rightarrow> MakeInstructionPageFaultException pc addr
   | Load \<Rightarrow> MakeLoadPageFaultException pc addr
   | Store \<Rightarrow> MakeStorePageFaultException pc addr)"

section \<open>Checks of an entry\<close>

definition CheckTrapForEntry :: "'a::len word \<Rightarrow> MemoryAccessType \<Rightarrow> vaddr_t \<Rightarrow> vaddr_t \<Rightarrow> Trap option" where
  "CheckTrapForEntry entry accessType pc addr =
    (if GetMember PageTableEntry_V entry = 0 \<or>
        (GetMember PageTableEntry_R entry = 0 \<and> GetMember PageTableEntry_W entry \<noteq> 0)
     then Some (MakeTrap accessType pc addr) else None)"

definition CheckTrapForLeafEntry ::
    "Csr \<Rightarrow> 'a::len word \<Rightarrow> MemoryAccessType \<Rightarrow> vaddr_t \<Rightarrow> vaddr_t \<Rightarrow> Trap option result" where
  "CheckTrapForLeafEntry csr entry accessType pc addr =
     rbind (GetEffectivePrivilegeLevel csr accessType) (\<lambda>priv.
     rbind (Csr_ReadStatus csr) (\<lambda>status.
       let sum = GetMember xstatus_SUM status \<noteq> 0;
           mxr = GetMember xstatus_MXR status \<noteq> 0
       in Inr (
         if priv = Supervisor \<and> \<not> sum \<and> GetMember PageTableEntry_U entry \<noteq> 0
         then Some (MakeTrap accessType pc addr)
         else if priv = User \<and> GetMember PageTableEntry_U entry = 0
         then Some (MakeTrap accessType pc addr)
         else case accessType of
           Instruction \<Rightarrow>
             if GetMember PageTableEntry_X entry = 0 then Some (MakeTrap accessType pc addr) else None
         | Load \<Rightarrow>
             if GetMember PageTableEntry_R entry = 0 \<and> \<not> (mxr \<and> GetMember PageTableEntry_X entry \<noteq> 0)
             then Some (MakeTrap accessType pc addr) else None
         | Store \<Rightarrow>
             if GetMember PageTableEntry_W entry = 0 then Some (MakeTrap accessType pc addr) else None)))"

definition IsLeafEntry :: "'a::len word \<Rightarrow> bool" where
  "IsLeafEntry entry \<longleftrightarrow> GetMember PageTableEntry_R entry \<noteq> 0 \<or> GetMember PageTableEntry_X entry \<noteq> 0"

definition UpdateEntry32 :: "paddr_t \<Rightarrow> bool \<Rightarrow> System \<Rightarrow> System result" where
  "UpdateEntry32 entryAddress isWrite sys =
     rbind (mem_ReadUInt32 sys entryAddress) (\<lambda>entry.
       let entry = SetMember PageTableEntry_A 1 entry;
           entry = (if isWrite then SetMember PageTableEntry_D 1 entry else entry)
       in mem_WriteUInt32 entryAddress entry sys)"

definition UpdateEntry64 :: "paddr_t \<Rightarrow> bool \<Rightarrow> System \<Rightarrow> System result" where
  "UpdateEntry64 entryAddress isWrite sys =
     rbind (mem_ReadUInt64 sys entryAddress) (\<lambda>entry.
       let entry = SetMember PageTableEntry_A 1 entry;
           entry = (if isWrite then SetMember PageTableEntry_D 1 entry else entry)
       in mem_WriteUInt64 entryAddress entry sys)"

section \<open>Checking\<close>

definition CheckTrapSv32 :: "System \<Rightarrow> MemoryAccessType \<Rightarrow> vaddr_t \<Rightarrow> vaddr_t \<Rightarrow> Trap option result" where
  "CheckTrapSv32 sys accessType pc addr =
    (let vaddr = ucast addr :: uint32;
         satp = m_SupervisorAddressTranslationProtection (sys_Csr sys);
         entryAddr1 = PhysicalAddressSv32 (GetMember satp_PPN_RV32 satp) (4 * ucast
                 (GetMember VirtualAddressSv32_VPN1 vaddr))
     in rbind (mem_ReadUInt32 sys entryAddr1) (\<lambda>entry1.
     return_if_trap (Inr (CheckTrapForEntry entry1 accessType pc addr)) (
       if IsLeafEntry entry1 then
         return_if_trap (CheckTrapForLeafEntry (sys_Csr sys) entry1 accessType pc addr)
          (Inr (if GetMember PageTableEntrySv32_PPN0 entry1 \<noteq> 0
                then Some (MakeTrap accessType pc addr) else None))
       else
       let entryAddr2 = PhysicalAddressSv32_parts (ucast (GetMember PageTableEntrySv32_PPN1 entry1))
               (ucast (GetMember PageTableEntrySv32_PPN0 entry1)) (4 * ucast
                       (GetMember VirtualAddressSv32_VPN0 vaddr))
     in rbind (mem_ReadUInt32 sys entryAddr2) (\<lambda>entry2.
     return_if_trap (Inr (CheckTrapForEntry entry2 accessType pc addr)) (
       CheckTrapForLeafEntry (sys_Csr sys) entry2 accessType pc addr)))))"

definition CheckTrapSv39 :: "System \<Rightarrow> MemoryAccessType \<Rightarrow> vaddr_t \<Rightarrow> vaddr_t \<Rightarrow> Trap option result" where
  "CheckTrapSv39 sys accessType pc addr =
    (let vaddr = addr;
         satp = m_SupervisorAddressTranslationProtection (sys_Csr sys);
         entryAddr1 = PhysicalAddressSv39 (GetMember satp_PPN_RV64 satp)
                 (8 * GetMember VirtualAddressSv39_VPN2 vaddr)
     in rbind (mem_ReadUInt64 sys entryAddr1) (\<lambda>entry1.
     return_if_trap (Inr (CheckTrapForEntry entry1 accessType pc addr)) (
       if IsLeafEntry entry1 then
         return_if_trap (CheckTrapForLeafEntry (sys_Csr sys) entry1 accessType pc addr)
          (Inr (if GetMember PageTableEntrySv39_PPN1 entry1 \<noteq> 0 \<or> GetMember PageTableEntrySv39_PPN0 entry1 \<noteq> 0
                then Some (MakeTrap accessType pc addr) else None))
       else
       let entryAddr2 = PhysicalAddressSv39_parts (GetMember PageTableEntrySv39_PPN2 entry1)
               (GetMember PageTableEntrySv39_PPN1 entry1) (GetMember PageTableEntrySv39_PPN0 entry1)
                       (8 * GetMember VirtualAddressSv39_VPN1 vaddr)
     in rbind (mem_ReadUInt64 sys entryAddr2) (\<lambda>entry2.
     return_if_trap (Inr (CheckTrapForEntry entry2 accessType pc addr)) (
       if IsLeafEntry entry2 then
         return_if_trap (CheckTrapForLeafEntry (sys_Csr sys) entry2 accessType pc addr)
          (Inr (if GetMember PageTableEntrySv39_PPN0 entry2 \<noteq> 0
                then Some (MakeTrap accessType pc addr) else None))
       else
       let entryAddr3 = PhysicalAddressSv39_parts (GetMember PageTableEntrySv39_PPN2 entry2)
               (GetMember PageTableEntrySv39_PPN1 entry2) (GetMember PageTableEntrySv39_PPN0 entry2)
                       (8 * GetMember VirtualAddressSv39_VPN0 vaddr)
     in rbind (mem_ReadUInt64 sys entryAddr3) (\<lambda>entry3.
     return_if_trap (Inr (CheckTrapForEntry entry3 accessType pc addr)) (
       CheckTrapForLeafEntry (sys_Csr sys) entry3 accessType pc addr)))))))"

definition CheckTrapSv48 :: "System \<Rightarrow> MemoryAccessType \<Rightarrow> vaddr_t \<Rightarrow> vaddr_t \<Rightarrow> Trap option result" where
  "CheckTrapSv48 sys accessType pc addr =
    (let vaddr = addr;
         satp = m_SupervisorAddressTranslationProtection (sys_Csr sys);
         entryAddr1 = PhysicalAddressSv48 (GetMember satp_PPN_RV64 satp)
                 (8 * GetMember VirtualAddressSv48_VPN3 vaddr)
     in rbind (mem_ReadUInt64 sys entryAddr1) (\<lambda>entry1.
     return_if_trap (Inr (CheckTrapForEntry entry1 accessType pc addr)) (
       if IsLeafEntry entry1 then
         return_if_trap (CheckTrapForLeafEntry (sys_Csr sys) entry1 accessType pc addr)
          (Inr (if GetMember PageTableEntrySv48_PPN2 entry1 \<noteq> 0 \<or> GetMember PageTableEntrySv48_PPN1 entry1 \<noteq> 0 \<or> GetMember PageTableEntrySv48_PPN0 entry1 \<noteq> 0
                then Some (MakeTrap accessType pc addr) else None))
       else
       let entryAddr2 = PhysicalAddressSv48_parts (GetMember PageTableEntrySv48_PPN3 entry1)
               (GetMember PageTableEntrySv48_PPN2 entry1)
                       (GetMember PageTableEntrySv48_PPN1 entry1)
                               (GetMember PageTableEntrySv48_PPN0 entry1)
                                       (8 * GetMember VirtualAddressSv48_VPN2 vaddr)
     in rbind (mem_ReadUInt64 sys entryAddr2) (\<lambda>entry2.
     return_if_trap (Inr (CheckTrapForEntry entry2 accessType pc addr)) (
       if IsLeafEntry entry2 then
         return_if_trap (CheckTrapForLeafEntry (sys_Csr sys) entry2 accessType pc addr)
          (Inr (if GetMember PageTableEntrySv48_PPN1 entry2 \<noteq> 0 \<or> GetMember PageTableEntrySv48_PPN0 entry2 \<noteq> 0
                then Some (MakeTrap accessType pc addr) else None))
       else
       let entryAddr3 = PhysicalAddressSv48_parts (GetMember PageTableEntrySv48_PPN3 entry2)
               (GetMember PageTableEntrySv48_PPN2 entry2)
                       (GetMember PageTableEntrySv48_PPN1 entry2)
                               (GetMember PageTableEntrySv48_PPN0 entry2)
                                       (8 * GetMember VirtualAddressSv48_VPN1 vaddr)
     in rbind (mem_ReadUInt64 sys entryAddr3) (\<lambda>entry3.
     return_if_trap (Inr (CheckTrapForEntry entry3 accessType pc addr)) (
       if IsLeafEntry entry3 then
         return_if_trap (CheckTrapForLeafEntry (sys_Csr sys) entry3 accessType pc addr)
          (Inr (if GetMember PageTableEntrySv48_PPN0 entry3 \<noteq> 0
                then Some (MakeTrap accessType pc addr) else None))
       else
       let entryAddr4 = PhysicalAddressSv48_parts (GetMember PageTableEntrySv48_PPN3 entry3)
               (GetMember PageTableEntrySv48_PPN2 entry3)
                       (GetMember PageTableEntrySv48_PPN1 entry3)
                               (GetMember PageTableEntrySv48_PPN0 entry3)
                                       (8 * GetMember VirtualAddressSv48_VPN1 vaddr)
     in rbind (mem_ReadUInt64 sys entryAddr4) (\<lambda>entry4.
     return_if_trap (Inr (CheckTrapForEntry entry4 accessType pc addr)) (
       CheckTrapForLeafEntry (sys_Csr sys) entry4 accessType pc addr)))))))))"

definition MemoryAccessUnit_CheckTrap ::
    "System \<Rightarrow> MemoryAccessType \<Rightarrow> vaddr_t \<Rightarrow> vaddr_t \<Rightarrow> Trap option result" where
  "MemoryAccessUnit_CheckTrap sys accessType pc addr =
     rbind (GetAddresssTranslationMode (sys_XLEN sys) (sys_Csr sys) accessType) (\<lambda>mode. case mode of
       Bare \<Rightarrow> Inr None
     | Sv32 \<Rightarrow> CheckTrapSv32 sys accessType pc addr
     | Sv39 \<Rightarrow> CheckTrapSv39 sys accessType pc addr
     | Sv48 \<Rightarrow> CheckTrapSv48 sys accessType pc addr
     | Sv57 \<Rightarrow> Inl EmuException
     | Sv64 \<Rightarrow> Inl EmuException
     | OtherMode \<Rightarrow> Inl EmuException)"

section \<open>Translation\<close>

datatype translation = TransAddr paddr_t | TransTrap Trap

definition or_trap ::
    "Trap option result \<Rightarrow> System \<Rightarrow> (translation \<times> System) result \<Rightarrow> (translation \<times> System) result" where
  "or_trap t sys k = rbind t (\<lambda>ot. case ot of Some tr \<Rightarrow> Inr (TransTrap tr, sys) | None \<Rightarrow> k)"

definition TranslateSv32 ::
    "MemoryAccessType \<Rightarrow> vaddr_t \<Rightarrow> vaddr_t \<Rightarrow> System \<Rightarrow> (translation \<times> System) result" where
  "TranslateSv32 accessType addr pc sys =
    (let isWrite = (accessType = Store);
         vaddr = ucast addr :: uint32;
         satp = m_SupervisorAddressTranslationProtection (sys_Csr sys);
         entryAddr1 = PhysicalAddressSv32 (GetMember satp_PPN_RV32 satp) (4 * ucast
                 (GetMember VirtualAddressSv32_VPN1 vaddr))
     in rbind (mem_ReadUInt32 sys entryAddr1) (\<lambda>entry1.
     or_trap (Inr (CheckTrapForEntry entry1 accessType pc addr)) sys (
       if IsLeafEntry entry1 then
         or_trap (CheckTrapForLeafEntry (sys_Csr sys) entry1 accessType pc addr) sys (
         rbind (UpdateEntry32 entryAddr1 isWrite sys) (\<lambda>sys.
           Inr (TransAddr (ZeroExtend 32 (PhysicalAddressSv32_parts (ucast
                   (GetMember PageTableEntrySv32_PPN1 entry1)) (ucast (GetMember VirtualAddressSv32_VPN0 vaddr))
             (ucast (GetMember VirtualAddressSv32_Offset vaddr)))), sys)))
       else
       let entryAddr2 = PhysicalAddressSv32_parts (ucast (GetMember PageTableEntrySv32_PPN1 entry1))
               (ucast (GetMember PageTableEntrySv32_PPN0 entry1)) (4 * ucast
                       (GetMember VirtualAddressSv32_VPN0 vaddr))
     in rbind (mem_ReadUInt32 sys entryAddr2) (\<lambda>entry2.
     or_trap (Inr (CheckTrapForEntry entry2 accessType pc addr)) sys (
       or_trap (CheckTrapForLeafEntry (sys_Csr sys) entry2 accessType pc addr) sys (
         rbind (UpdateEntry32 entryAddr2 isWrite sys) (\<lambda>sys.
           Inr (TransAddr (ZeroExtend 32 (PhysicalAddressSv32_parts (ucast
                   (GetMember PageTableEntrySv32_PPN1 entry2)) (ucast
                           (GetMember PageTableEntrySv32_PPN0 entry2))
             (ucast (GetMember VirtualAddressSv32_Offset vaddr)))), sys))))))))"

definition TranslateSv39 ::
    "MemoryAccessType \<Rightarrow> vaddr_t \<Rightarrow> vaddr_t \<Rightarrow> System \<Rightarrow> (translation \<times> System) result" where
  "TranslateSv39 accessType addr pc sys =
    (let isWrite = (accessType = Store);
         vaddr = addr;
         satp = m_SupervisorAddressTranslationProtection (sys_Csr sys);
         entryAddr1 = PhysicalAddressSv39 (GetMember satp_PPN_RV64 satp)
                 (8 * GetMember VirtualAddressSv39_VPN2 vaddr)
     in rbind (mem_ReadUInt64 sys entryAddr1) (\<lambda>entry1.
     or_trap (Inr (CheckTrapForEntry entry1 accessType pc addr)) sys (
       if IsLeafEntry entry1 then
         or_trap (CheckTrapForLeafEntry (sys_Csr sys) entry1 accessType pc addr) sys (
         rbind (UpdateEntry64 entryAddr1 isWrite sys) (\<lambda>sys.
           Inr (TransAddr (ZeroExtend 39 (PhysicalAddressSv39_parts
                   (GetMember PageTableEntrySv39_PPN2 entry1)
                           (GetMember VirtualAddressSv39_VPN1 vaddr) (GetMember VirtualAddressSv39_VPN0 vaddr)
             (GetMember VirtualAddressSv39_Offset vaddr))), sys)))
       else
       let entryAddr2 = PhysicalAddressSv39_parts (GetMember PageTableEntrySv39_PPN2 entry1)
               (GetMember PageTableEntrySv39_PPN1 entry1) (GetMember PageTableEntrySv39_PPN0 entry1)
                       (8 * GetMember VirtualAddressSv39_VPN1 vaddr)
     in rbind (mem_ReadUInt64 sys entryAddr2) (\<lambda>entry2.
     or_trap (Inr (CheckTrapForEntry entry2 accessType pc addr)) sys (
       if IsLeafEntry entry2 then
         or_trap (CheckTrapForLeafEntry (sys_Csr sys) entry2 accessType pc addr) sys (
         rbind (UpdateEntry64 entryAddr2 isWrite sys) (\<lambda>sys.
           Inr (TransAddr (ZeroExtend 39 (PhysicalAddressSv39_parts
                   (GetMember PageTableEntrySv39_PPN2 entry2)
                           (GetMember PageTableEntrySv39_PPN1 entry2) (GetMember VirtualAddressSv39_VPN0 vaddr)
             (GetMember VirtualAddressSv39_Offset vaddr))), sys)))
       else
       let entryAddr3 = PhysicalAddressSv39_parts (GetMember PageTableEntrySv39_PPN2 entry2)
               (GetMember PageTableEntrySv39_PPN1 entry2) (GetMember PageTableEntrySv39_PPN0 entry2)
                       (8 * GetMember VirtualAddressSv39_VPN0 vaddr)
     in rbind (mem_ReadUInt64 sys entryAddr3) (\<lambda>entry3.
     or_trap (Inr (CheckTrapForEntry entry3 accessType pc addr)) sys (
       or_trap (CheckTrapForLeafEntry (sys_Csr sys) entry3 accessType pc addr) sys (
         rbind (UpdateEntry64 entryAddr3 isWrite sys) (\<lambda>sys.
           Inr (TransAddr (ZeroExtend 39 (PhysicalAddressSv39_parts
                   (GetMember PageTableEntrySv39_PPN2 entry3)
                           (GetMember PageTableEntrySv39_PPN1 entry3) (GetMember PageTableEntrySv39_PPN0 entry3)
             (GetMember VirtualAddressSv39_Offset vaddr))), sys))))))))))"

definition TranslateSv48 ::
    "MemoryAccessType \<Rightarrow> vaddr_t \<Rightarrow> vaddr_t \<Rightarrow> System \<Rightarrow> (translation \<times> System) result" where
  "TranslateSv48 accessType addr pc sys =
    (let isWrite = (accessType = Store);
         vaddr = addr;
         satp = m_SupervisorAddressTranslationProtection (sys_Csr sys);
         entryAddr1 = PhysicalAddressSv48 (GetMember satp_PPN_RV64 satp)
                 (8 * GetMember VirtualAddressSv48_VPN3 vaddr)
     in rbind (mem_ReadUInt64 sys entryAddr1) (\<lambda>entry1.
     or_trap (Inr (CheckTrapForEntry entry1 accessType pc addr)) sys (
       if IsLeafEntry entry1 then
         or_trap (CheckTrapForLeafEntry (sys_Csr sys) entry1 accessType pc addr) sys (
         rbind (UpdateEntry64 entryAddr1 isWrite sys) (\<lambda>sys.
           Inr (TransAddr (ZeroExtend 48 (PhysicalAddressSv48_parts
                   (GetMember PageTableEntrySv48_PPN3 entry1)
                           (GetMember VirtualAddressSv48_VPN2 vaddr)
                                   (GetMember VirtualAddressSv48_VPN1 vaddr)
                                           (GetMember VirtualAddressSv48_VPN0 vaddr)
             (GetMember VirtualAddressSv48_Offset vaddr))), sys)))
       else
       let entryAddr2 = PhysicalAddressSv48_parts (GetMember PageTableEntrySv48_PPN3 entry1)
               (GetMember PageTableEntrySv48_PPN2 entry1)
                       (GetMember PageTableEntrySv48_PPN1 entry1)
                               (GetMember PageTableEntrySv48_PPN0 entry1)
                                       (8 * GetMember VirtualAddressSv48_VPN2 vaddr)
     in rbind (mem_ReadUInt64 sys entryAddr2) (\<lambda>entry2.
     or_trap (Inr (CheckTrapForEntry entry2 accessType pc addr)) sys (
       if IsLeafEntry entry2 then
         or_trap (CheckTrapForLeafEntry (sys_Csr sys) entry2 accessType pc addr) sys (
         rbind (UpdateEntry64 entryAddr2 isWrite sys) (\<lambda>sys.
           Inr (TransAddr (ZeroExtend 48 (PhysicalAddressSv48_parts
                   (GetMember PageTableEntrySv48_PPN3 entry2)
                           (GetMember PageTableEntrySv48_PPN2 entry2)
                                   (GetMember VirtualAddressSv48_VPN1 vaddr)
                                           (GetMember VirtualAddressSv48_VPN0 vaddr)
             (GetMember VirtualAddressSv48_Offset vaddr))), sys)))
       else
       let entryAddr3 = PhysicalAddressSv48_parts (GetMember PageTableEntrySv48_PPN3 entry2)
               (GetMember PageTableEntrySv48_PPN2 entry2)
                       (GetMember PageTableEntrySv48_PPN1 entry2)
                               (GetMember PageTableEntrySv48_PPN0 entry2)
                                       (8 * GetMember VirtualAddressSv48_VPN1 vaddr)
     in rbind (mem_ReadUInt64 sys entryAddr3) (\<lambda>entry3.
     or_trap (Inr (CheckTrapForEntry entry3 accessType pc addr)) sys (
       if IsLeafEntry entry3 then
         or_trap (CheckTrapForLeafEntry (sys_Csr sys) entry3 accessType pc addr) sys (
         rbind (UpdateEntry64 entryAddr3 isWrite sys) (\<lambda>sys.
           Inr (TransAddr (ZeroExtend 48 (PhysicalAddressSv48_parts
                   (GetMember PageTableEntrySv48_PPN3 entry3)
                           (GetMember PageTableEntrySv48_PPN2 entry3)
                                   (GetMember PageTableEntrySv48_PPN1 entry3)
                                           (GetMember VirtualAddressSv48_VPN0 vaddr)
             (GetMember VirtualAddressSv48_Offset vaddr))), sys)))
       else
       let entryAddr4 = PhysicalAddressSv48_parts (GetMember PageTableEntrySv48_PPN3 entry3)
               (GetMember PageTableEntrySv48_PPN2 entry3)
                       (GetMember PageTableEntrySv48_PPN1 entry3)
                               (GetMember PageTableEntrySv48_PPN0 entry3)
                                       (8 * GetMember VirtualAddressSv48_VPN0 vaddr)
     in rbind (mem_ReadUInt64 sys entryAddr4) (\<lambda>entry4.
     or_trap (Inr (CheckTrapForEntry entry4 accessType pc addr)) sys (
       or_trap (CheckTrapForLeafEntry (sys_Csr sys) entry4 accessType pc addr) sys (
         rbind (UpdateEntry64 entryAddr4 isWrite sys) (\<lambda>sys.
           Inr (TransAddr (ZeroExtend 48 (PhysicalAddressSv48_parts
                   (GetMember PageTableEntrySv48_PPN3 entry4)
                           (GetMember PageTableEntrySv48_PPN2 entry4)
                                   (GetMember PageTableEntrySv48_PPN1 entry4)
                                           (GetMember PageTableEntrySv48_PPN0 entry4)
             (GetMember VirtualAddressSv48_Offset vaddr))), sys))))))))))))"

definition Translate ::
    "MemoryAccessType \<Rightarrow> vaddr_t \<Rightarrow> vaddr_t \<Rightarrow> System \<Rightarrow> (translation \<times> System) result" where
  "Translate accessType addr pc sys =
     rbind (GetAddresssTranslationMode (sys_XLEN sys) (sys_Csr sys) accessType) (\<lambda>mode. case mode of
       Bare \<Rightarrow> Inr (TransAddr (if sys_XLEN sys = XLEN32 then ZeroExtend 32 addr else addr), sys)
     | Sv32 \<Rightarrow> TranslateSv32 accessType addr pc sys
     | Sv39 \<Rightarrow> TranslateSv39 accessType addr pc sys
     | Sv48 \<Rightarrow> TranslateSv48 accessType addr pc sys
     | Sv57 \<Rightarrow> Inl EmuException
     | Sv64 \<Rightarrow> Inl EmuException
     | OtherMode \<Rightarrow> Inl EmuException)"

section \<open>Loads, stores and fetches\<close>

definition use_address ::
    "(translation \<times> System) result \<Rightarrow> (paddr_t \<Rightarrow> System \<Rightarrow> 'a result) \<Rightarrow> 'a result" where
  "use_address t k = rbind t (\<lambda>(tr, sys). case tr of TransAddr paddr \<Rightarrow> k paddr sys | TransTrap _ \<Rightarrow> Inl Undefined)"

definition LoadUInt8 :: "vaddr_t \<Rightarrow> System \<Rightarrow> (uint8 \<times> System) result" where
  "LoadUInt8 addr sys = use_address (Translate Load addr 0 sys) (\<lambda>paddr sys.
     rbind (mem_ReadUInt8 sys paddr) (\<lambda>value.
       Inr (value, AddEvent Load 1 (ucast value) addr paddr sys)))"

definition LoadUInt16 :: "vaddr_t \<Rightarrow> System \<Rightarrow> (uint16 \<times> System) result" where
  "LoadUInt16 addr sys = use_address (Translate Load addr 0 sys) (\<lambda>paddr sys.
     rbind (mem_ReadUInt16 sys paddr) (\<lambda>value.
       Inr (value, AddEvent Load 2 (ucast value) addr paddr sys)))"

definition LoadUInt32 :: "vaddr_t \<Rightarrow> System \<Rightarrow> (uint32 \<times> System) result" where
  "LoadUInt32 addr sys = use_address (Translate Load addr 0 sys) (\<lambda>paddr sys.
     rbind (mem_ReadUInt32 sys paddr) (\<lambda>value.
       Inr (value, AddEvent Load 4 (ucast value) addr paddr sys)))"

definition LoadUInt64 :: "vaddr_t \<Rightarrow> System \<Rightarrow> (uint64 \<times> System) result" where
  "LoadUInt64 addr sys = use_address (Translate Load addr 0 sys) (\<lambda>paddr sys.
     rbind (mem_ReadUInt64 sys paddr) (\<lambda>value.
       Inr (value, AddEvent Load 8 (value) addr paddr sys)))"

definition StoreUInt8 :: "vaddr_t \<Rightarrow> uint8 \<Rightarrow> System \<Rightarrow> System result" where
  "StoreUInt8 addr value sys = use_address (Translate Store addr 0 sys) (\<lambda>paddr sys.
     rbind (mem_WriteUInt8 paddr value sys) (\<lambda>sys.
       Inr (AddEvent Store 1 (ucast value) addr paddr sys)))"

definition StoreUInt16 :: "vaddr_t \<Rightarrow> uint16 \<Rightarrow> System \<Rightarrow> System result" where
  "StoreUInt16 addr value sys = use_address (Translate Store addr 0 sys) (\<lambda>paddr sys.
     rbind (mem_WriteUInt16 paddr value sys) (\<lambda>sys.
       Inr (AddEvent Store 2 (ucast value) addr paddr sys)))"

definition StoreUInt32 :: "vaddr_t \<Rightarrow> uint32 \<Rightarrow> System \<Rightarrow> System result" where
  "StoreUInt32 addr value sys = use_address (Translate Store addr 0 sys) (\<lambda>paddr sys.
     rbind (mem_WriteUInt32 paddr value sys) (\<lambda>sys.
       Inr (AddEvent Store 4 (ucast value) addr paddr sys)))"

definition StoreUInt64 :: "vaddr_t \<Rightarrow> uint64 \<Rightarrow> System \<Rightarrow> System result" where
  "StoreUInt64 addr value sys = use_address (Translate Store addr 0 sys) (\<lambda>paddr sys.
     rbind (mem_WriteUInt64 paddr value sys) (\<lambda>sys.
       Inr (AddEvent Store 8 (value) addr paddr sys)))"

definition FetchUInt16 :: "vaddr_t \<Rightarrow> paddr_t \<Rightarrow> System \<Rightarrow> (uint16 \<times> System) result" where
  "FetchUInt16 vaddr paddr sys = rbind (mem_ReadUInt16 sys paddr) (\<lambda>value.
     Inr (value, AddEvent Instruction 2 (ucast value) vaddr paddr sys))"

definition FetchUInt32 :: "vaddr_t \<Rightarrow> paddr_t \<Rightarrow> System \<Rightarrow> (uint32 \<times> System) result" where
  "FetchUInt32 vaddr paddr sys = rbind (mem_ReadUInt32 sys paddr) (\<lambda>value.
     Inr (value, AddEvent Instruction 4 (ucast value) vaddr paddr sys))"

end
