(* ===== verification/ExecutorBase.thy ===== *)
theory ExecutorBase
  imports MemoryAccessUnit TrapProcessor Op
begin

text \<open>
  What the methods of \<^verbatim>\<open>cpu/Executor.cpp\<close> share. The executor holds pointers to the parts of the
  processor: a method is a function of the whole \<open>System\<close>, and the accessors below read and write
  the part behind each pointer. \<open>host\<close> collects the third-party arithmetic: SoftFloat, and the
  128-bit products of Boost.Multiprecision, of which the code keeps the high 64 bits.
\<close>

section \<open>Third-party arithmetic\<close>

record host =
  host_softfloat :: softfloat
  host_mulh :: "uint64 \<Rightarrow> uint64 \<Rightarrow> uint64"
  host_mulhsu :: "uint64 \<Rightarrow> uint64 \<Rightarrow> uint64"
  host_mulhu :: "uint64 \<Rightarrow> uint64 \<Rightarrow> uint64"

section \<open>Accessors\<close>

definition int_ReadInt32 :: "System \<Rightarrow> int \<Rightarrow> uint32 result" where
  "int_ReadInt32 sys r = IntRegFile_ReadInt32 (sys_IntRegFile sys) r"

definition int_ReadInt64 :: "System \<Rightarrow> int \<Rightarrow> uint64 result" where
  "int_ReadInt64 sys r = IntRegFile_ReadInt64 (sys_IntRegFile sys) r"

definition int_ReadUInt32 :: "System \<Rightarrow> int \<Rightarrow> uint32 result" where
  "int_ReadUInt32 sys r = IntRegFile_ReadUInt32 (sys_IntRegFile sys) r"

definition int_ReadUInt64 :: "System \<Rightarrow> int \<Rightarrow> uint64 result" where
  "int_ReadUInt64 sys r = IntRegFile_ReadUInt64 (sys_IntRegFile sys) r"

definition with_IntRegFile :: "System \<Rightarrow> IntRegFile result \<Rightarrow> System result" where
  "with_IntRegFile sys m = rbind m (\<lambda>rf. Inr (sys\<lparr> sys_IntRegFile := rf \<rparr>))"

definition int_WriteInt32 :: "int \<Rightarrow> uint32 \<Rightarrow> System \<Rightarrow> System result" where
  "int_WriteInt32 r v sys = with_IntRegFile sys (IntRegFile_WriteInt32 (sys_IntRegFile sys) r v)"

definition int_WriteInt64 :: "int \<Rightarrow> uint64 \<Rightarrow> System \<Rightarrow> System result" where
  "int_WriteInt64 r v sys = with_IntRegFile sys (IntRegFile_WriteInt64 (sys_IntRegFile sys) r v)"

definition int_WriteUInt32 :: "int \<Rightarrow> uint32 \<Rightarrow> System \<Rightarrow> System result" where
  "int_WriteUInt32 r v sys = with_IntRegFile sys (IntRegFile_WriteUInt32 (sys_IntRegFile sys) r v)"

definition int_WriteUInt64 :: "int \<Rightarrow> uint64 \<Rightarrow> System \<Rightarrow> System result" where
  "int_WriteUInt64 r v sys = with_IntRegFile sys (IntRegFile_WriteUInt64 (sys_IntRegFile sys) r v)"

definition fp_ReadUInt32 :: "System \<Rightarrow> int \<Rightarrow> uint32 result" where
  "fp_ReadUInt32 sys r = FpRegFile_ReadUInt32 (sys_FpRegFile sys) r"

definition fp_ReadUInt64 :: "System \<Rightarrow> int \<Rightarrow> uint64 result" where
  "fp_ReadUInt64 sys r = FpRegFile_ReadUInt64 (sys_FpRegFile sys) r"

definition with_FpRegFile :: "System \<Rightarrow> FpRegFile result \<Rightarrow> System result" where
  "with_FpRegFile sys m = rbind m (\<lambda>rf. Inr (sys\<lparr> sys_FpRegFile := rf \<rparr>))"

definition fp_WriteUInt32 :: "int \<Rightarrow> uint32 \<Rightarrow> System \<Rightarrow> System result" where
  "fp_WriteUInt32 r v sys = with_FpRegFile sys (FpRegFile_WriteUInt32 (sys_FpRegFile sys) r v)"

definition fp_WriteUInt64 :: "int \<Rightarrow> uint64 \<Rightarrow> System \<Rightarrow> System result" where
  "fp_WriteUInt64 r v sys = with_FpRegFile sys (FpRegFile_WriteUInt64 (sys_FpRegFile sys) r v)"

definition csr_SetPc :: "vaddr_t \<Rightarrow> System \<Rightarrow> System" where
  "csr_SetPc value sys = sys\<lparr> sys_Csr := Csr_SetPc value (sys_Csr sys) \<rparr>"

definition with_Csr :: "System \<Rightarrow> Csr result \<Rightarrow> System result" where
  "with_Csr sys m = rbind m (\<lambda>csr. Inr (sys\<lparr> sys_Csr := csr \<rparr>))"

definition csr_WriteUInt32 :: "csr_addr_t \<Rightarrow> uint32 \<Rightarrow> System \<Rightarrow> System result" where
  "csr_WriteUInt32 addr value sys = with_Csr sys (Csr_WriteUInt32 addr value (sys_Csr sys))"

definition csr_WriteUInt64 :: "csr_addr_t \<Rightarrow> uint64 \<Rightarrow> System \<Rightarrow> System result" where
  "csr_WriteUInt64 addr value sys = with_Csr sys (Csr_WriteUInt64 addr value (sys_Csr sys))"

definition atomic_Cancel :: "System \<Rightarrow> System" where
  "atomic_Cancel sys = sys\<lparr> sys_AtomicManager := AtomicManager_Cancel (sys_AtomicManager sys) \<rparr>"

definition atomic_Reserve :: "vaddr_t \<Rightarrow> System \<Rightarrow> System" where
  "atomic_Reserve addr sys =
     sys\<lparr> sys_AtomicManager := AtomicManager_Reserve addr (sys_AtomicManager sys) \<rparr>"

definition with_trap_state :: "System \<Rightarrow> trap_state result \<Rightarrow> System result" where
  "with_trap_state sys m =
     rbind m (\<lambda>(csr, events). Inr (sys\<lparr> sys_Csr := csr, sys_EventList := events \<rparr>))"

definition trap_return :: "PrivilegeLevel \<Rightarrow> System \<Rightarrow> System result" where
  "trap_return level sys =
     with_trap_state sys (ProcessTrapReturn level (sys_Csr sys, sys_EventList sys))"

lemmas with_defs = with_IntRegFile_def with_FpRegFile_def with_Csr_def with_trap_state_def

section \<open>Common helpers of the executor\<close>

definition IsRV32 :: "OpClass \<Rightarrow> bool" where
  "IsRV32 c \<longleftrightarrow> c = RV32I \<or> c = RV32M \<or> c = RV32A \<or> c = RV32F \<or> c = RV32D \<or> c = RV32C"

definition IsRV64 :: "OpClass \<Rightarrow> bool" where
  "IsRV64 c \<longleftrightarrow> c = RV64I \<or> c = RV64M \<or> c = RV64A \<or> c = RV64F \<or> c = RV64D \<or> c = RV64C"

definition ReadStackPointer32 :: "System \<Rightarrow> uint32 result" where
  "ReadStackPointer32 sys = int_ReadUInt32 sys 2"

definition ReadStackPointer64 :: "System \<Rightarrow> uint64 result" where
  "ReadStackPointer64 sys = int_ReadUInt64 sys 2"

definition WriteLinkRegister32 :: "uint32 \<Rightarrow> System \<Rightarrow> System result" where
  "WriteLinkRegister32 value sys = int_WriteUInt32 1 value sys"

definition WriteLinkRegister64 :: "uint64 \<Rightarrow> System \<Rightarrow> System result" where
  "WriteLinkRegister64 value sys = int_WriteUInt64 1 value sys"

definition IsFpEnabled :: "System \<Rightarrow> bool result" where
  "IsFpEnabled sys = rbind (Csr_ReadStatus (sys_Csr sys)) (\<lambda>status.
     Inr (GetMember xstatus_FS status \<noteq> 0))"

definition NotifyFpDirty :: "System \<Rightarrow> System result" where
  "NotifyFpDirty sys = rbind (Csr_ReadStatus (sys_Csr sys)) (\<lambda>status.
     let status = SetMember xstatus_FS 3 status in
     Inr (sys\<lparr> sys_Csr := Csr_WriteStatus status (sys_Csr sys) \<rparr>))"

definition UpdateFpCsr :: "System \<Rightarrow> System" where
  "UpdateFpCsr sys = (let fpCsr = m_FpCsr (sys_Csr sys) in
     let fpCsr = SetMember fcsr_AE (GetRvExceptionFlags (sys_FpEnv sys)) fpCsr in
     sys\<lparr> sys_Csr := Csr_WriteFpCsr fpCsr (sys_Csr sys) \<rparr>)"

text \<open>The rounding mode of an operation: mode 7 selects the dynamic mode of \<open>fcsr\<close>.\<close>

definition GetRoundMode :: "int \<Rightarrow> System \<Rightarrow> int" where
  "GetRoundMode funct3 sys =
     (if funct3 = 7 then sint (GetMember fcsr_RM (m_FpCsr (sys_Csr sys))) else funct3)"

definition fp_run :: "(FpEnv \<Rightarrow> 'a \<times> FpEnv) \<Rightarrow> System \<Rightarrow> ('a \<times> System) result" where
  "fp_run f sys = (let (v, env) = f (sys_FpEnv sys) in Inr (v, sys\<lparr> sys_FpEnv := env \<rparr>))"

text \<open>\<open>std::max\<close> and \<open>std::min\<close> on signed integers.\<close>

definition smax :: "'a::len word \<Rightarrow> 'a word \<Rightarrow> 'a word" where
  "smax a b = (if a <s b then b else a)"

definition smin :: "'a::len word \<Rightarrow> 'a word \<Rightarrow> 'a word" where
  "smin a b = (if b <s a then b else a)"

end
