(* ===== verification/ExecutorI.thy ===== *)
theory ExecutorI
  imports ExecutorBase
begin

text \<open>
  The base integer instructions of \<^verbatim>\<open>cpu/Executor.cpp\<close>, RV32I and RV64I, one definition for each method.
  \<open>OperandI\<close> and its like are read once; the locals keep their names.
\<close>

section \<open>RV32I\<close>

definition ProcessRV32I_Lui :: "Op \<Rightarrow> System \<Rightarrow> System result" where
  "ProcessRV32I_Lui op sys =
     rbind (get_U (operand op)) (\<lambda>(operand_imm, operand_rd).
     int_WriteInt32 operand_rd (ucast operand_imm) sys)"

definition ProcessRV32I_Auipc :: "Op \<Rightarrow> vaddr_t \<Rightarrow> System \<Rightarrow> System result" where
  "ProcessRV32I_Auipc op pc sys =
     rbind (get_U (operand op)) (\<lambda>(operand_imm, operand_rd).
     int_WriteInt32 operand_rd (ucast (pc + operand_imm)) sys)"

definition ProcessRV32I_Jal :: "Op \<Rightarrow> vaddr_t \<Rightarrow> System \<Rightarrow> System result" where
  "ProcessRV32I_Jal op pc sys =
     rbind (get_J (operand op)) (\<lambda>(operand_imm, operand_rd).
     rbind (int_WriteInt32 operand_rd (ucast (pc + 4)) sys) (\<lambda>sys.
     Inr (csr_SetPc (pc + operand_imm) sys)))"

definition ProcessRV32I_Jalr :: "Op \<Rightarrow> vaddr_t \<Rightarrow> System \<Rightarrow> System result" where
  "ProcessRV32I_Jalr op pc sys =
     rbind (get_I (operand op)) (\<lambda>(operand_imm, operand_rd, operand_rs1, operand_funct3).
     rbind (int_ReadInt32 sys operand_rs1) (\<lambda>src.
     let address = ((scast (NOT (0x1 :: uint32))) AND ((scast src) + operand_imm)) in
     rbind (int_WriteInt32 operand_rd (ucast (pc + 4)) sys) (\<lambda>sys.
     Inr (csr_SetPc address sys))))"

definition ProcessRV32I_Branch :: "Op \<Rightarrow> vaddr_t \<Rightarrow> System \<Rightarrow> System result" where
  "ProcessRV32I_Branch op pc sys =
     rbind (get_B (operand op)) (\<lambda>(operand_imm, operand_rs1, operand_rs2, operand_funct3).
     rbind (int_ReadInt32 sys operand_rs1) (\<lambda>src1.
     rbind (int_ReadInt32 sys operand_rs2) (\<lambda>src2.
     rbind (int_ReadUInt32 sys operand_rs1) (\<lambda>src1_u.
     rbind (int_ReadUInt32 sys operand_rs2) (\<lambda>src2_u.
     rbind (case opCode op of
       rvi op_beq \<Rightarrow> Inr (src1 = src2)
     | rvi op_bne \<Rightarrow> Inr (src1 \<noteq> src2)
     | rvi op_blt \<Rightarrow> Inr (src1 <s src2)
     | rvi op_bge \<Rightarrow> Inr (src2 \<le>s src1)
     | rvi op_bltu \<Rightarrow> Inr (src1_u < src2_u)
     | rvi op_bgeu \<Rightarrow> Inr (src2_u \<le> src1_u)
     | _ \<Rightarrow> Inl ProcessExit) (\<lambda>jump.
     (if jump then let sys = csr_SetPc (pc + operand_imm) sys in
     (if operand_imm <s 0 then Inr (atomic_Cancel sys)
     else Inr sys)
     else Inr sys)))))))"

definition ProcessRV32I_Load :: "Op \<Rightarrow> System \<Rightarrow> System result" where
  "ProcessRV32I_Load op sys =
     (let sys = atomic_Cancel sys in
     rbind (get_I (operand op)) (\<lambda>(operand_imm, operand_rd, operand_rs1, operand_funct3).
     rbind (int_ReadUInt32 sys operand_rs1) (\<lambda>v.
     let address = ((ucast v) + operand_imm) in
     rbind (case opCode op of
       rvi op_lb \<Rightarrow> rbind (LoadUInt8 address sys) (\<lambda>(v, sys).
     Inr ((scast v :: uint32), sys))
     | rvi op_lh \<Rightarrow> rbind (LoadUInt16 address sys) (\<lambda>(v, sys).
     Inr ((scast v :: uint32), sys))
     | rvi op_lw \<Rightarrow> LoadUInt32 address sys
     | rvi op_lbu \<Rightarrow> rbind (LoadUInt8 address sys) (\<lambda>(v, sys).
     Inr ((ucast v :: uint32), sys))
     | rvi op_lhu \<Rightarrow> rbind (LoadUInt16 address sys) (\<lambda>(v, sys).
     Inr ((ucast v :: uint32), sys))
     | _ \<Rightarrow> Inl ProcessExit) (\<lambda>(value, sys).
     int_WriteUInt32 operand_rd value sys))))"

definition ProcessRV32I_Store :: "Op \<Rightarrow> System \<Rightarrow> System result" where
  "ProcessRV32I_Store op sys =
     (let sys = atomic_Cancel sys in
     rbind (get_S (operand op)) (\<lambda>(operand_imm, operand_rs1, operand_rs2, operand_funct3).
     rbind (int_ReadUInt32 sys operand_rs1) (\<lambda>v.
     let address = ((ucast v) + operand_imm) in
     rbind (int_ReadUInt32 sys operand_rs2) (\<lambda>value.
     (case opCode op of
       rvi op_sb \<Rightarrow> StoreUInt8 address (ucast value :: uint8) sys
     | rvi op_sh \<Rightarrow> StoreUInt16 address (ucast value :: uint16) sys
     | rvi op_sw \<Rightarrow> StoreUInt32 address value sys
     | _ \<Rightarrow> Inl ProcessExit)))))"

definition ProcessRV32I_Alu :: "Op \<Rightarrow> System \<Rightarrow> System result" where
  "ProcessRV32I_Alu op sys =
     rbind (get_R (operand op)) (\<lambda>(operand_rd, operand_rs1, operand_rs2, operand_funct3, operand_funct7).
     rbind (int_ReadInt32 sys operand_rs1) (\<lambda>src1.
     rbind (int_ReadInt32 sys operand_rs2) (\<lambda>src2.
     rbind (int_ReadUInt32 sys operand_rs1) (\<lambda>src1_u.
     rbind (int_ReadUInt32 sys operand_rs2) (\<lambda>src2_u.
     rbind (case opCode op of
       rvi op_add \<Rightarrow> Inr (src1 + src2)
     | rvi op_sub \<Rightarrow> Inr (src1 - src2)
     | rvi op_slt \<Rightarrow> Inr (if (src1 <s src2) then 1 else 0)
     | rvi op_sltu \<Rightarrow> Inr (if (src1_u < src2_u) then 1 else 0)
     | rvi op_xor \<Rightarrow> Inr (src1 XOR src2)
     | rvi op_or \<Rightarrow> Inr (src1 OR src2)
     | rvi op_and \<Rightarrow> Inr (src1 AND src2)
     | _ \<Rightarrow> Inl ProcessExit) (\<lambda>value.
     int_WriteInt32 operand_rd value sys))))))"

definition ProcessRV32I_AluImm :: "Op \<Rightarrow> System \<Rightarrow> System result" where
  "ProcessRV32I_AluImm op sys =
     rbind (get_I (operand op)) (\<lambda>(operand_imm, operand_rd, operand_rs1, operand_funct3).
     let imm = (ucast operand_imm :: uint32) in
     let imm_u = (ucast operand_imm :: uint32) in
     rbind (int_ReadInt32 sys operand_rs1) (\<lambda>src1.
     rbind (int_ReadUInt32 sys operand_rs1) (\<lambda>src1_u.
     rbind (case opCode op of
       rvi op_addi \<Rightarrow> Inr (src1 + imm)
     | rvi op_slti \<Rightarrow> Inr (if (src1 <s imm) then 1 else 0)
     | rvi op_sltiu \<Rightarrow> Inr (if (src1_u < imm_u) then 1 else 0)
     | rvi op_xori \<Rightarrow> Inr (src1 XOR imm)
     | rvi op_ori \<Rightarrow> Inr (src1 OR imm)
     | rvi op_andi \<Rightarrow> Inr (src1 AND imm)
     | _ \<Rightarrow> Inl ProcessExit) (\<lambda>value.
     int_WriteInt32 operand_rd value sys))))"

definition ProcessRV32I_Shift :: "Op \<Rightarrow> System \<Rightarrow> System result" where
  "ProcessRV32I_Shift op sys =
     rbind (get_R (operand op)) (\<lambda>(operand_rd, operand_rs1, operand_rs2, operand_funct3, operand_funct7).
     rbind (int_ReadInt32 sys operand_rs1) (\<lambda>src1.
     rbind (int_ReadInt32 sys operand_rs2) (\<lambda>src2.
     rbind (int_ReadUInt32 sys operand_rs1) (\<lambda>src1_u.
     rbind (case opCode op of
       rvi op_sll \<Rightarrow> shl src1 (sint src2)
     | rvi op_srl \<Rightarrow> shr src1_u (sint src2)
     | rvi op_sra \<Rightarrow> sar src1 (sint src2)
     | _ \<Rightarrow> Inl ProcessExit) (\<lambda>value.
     int_WriteInt32 operand_rd value sys)))))"

definition ProcessRV32I_ShiftImm :: "Op \<Rightarrow> System \<Rightarrow> System result" where
  "ProcessRV32I_ShiftImm op sys =
     rbind (get_ShiftImm (operand op)) (\<lambda>(operand_rd, operand_rs1, operand_shamt).
     rbind (int_ReadInt32 sys operand_rs1) (\<lambda>src1.
     rbind (int_ReadUInt32 sys operand_rs1) (\<lambda>src1_u.
     rbind (case opCode op of
       rvi op_slli \<Rightarrow> shl src1 operand_shamt
     | rvi op_srli \<Rightarrow> shr src1_u operand_shamt
     | rvi op_srai \<Rightarrow> sar src1 operand_shamt
     | _ \<Rightarrow> Inl ProcessExit) (\<lambda>value.
     int_WriteInt32 operand_rd value sys))))"

definition ProcessRV32I_Priv :: "Op \<Rightarrow> System \<Rightarrow> System result" where
  "ProcessRV32I_Priv op sys =
     (let sys = atomic_Cancel sys in
     (case opCode op of
       rvi op_ecall \<Rightarrow> Inr sys
     | rvi op_ebreak \<Rightarrow> Inr sys
     | rvi op_mret \<Rightarrow> trap_return Machine sys
     | rvi op_sret \<Rightarrow> trap_return Supervisor sys
     | rvi op_uret \<Rightarrow> trap_return User sys
     | rvi op_wfi \<Rightarrow> Inr sys
     | _ \<Rightarrow> Inl ProcessExit))"

definition ProcessRV32I_Fence :: "System \<Rightarrow> System result" where
  "ProcessRV32I_Fence sys =
     Inr (atomic_Cancel sys)"

definition ProcessRV32I_Csr :: "Op \<Rightarrow> System \<Rightarrow> System result" where
  "ProcessRV32I_Csr op sys =
     rbind (get_Csr (operand op)) (\<lambda>(operand_rd, operand_rs1, operand_csr).
     rbind (Csr_ReadUInt32 (sys_Csr sys) operand_csr) (\<lambda>srcCsr.
     rbind (int_ReadInt32 sys operand_rs1) (\<lambda>srcIntReg.
     rbind (case opCode op of
       rvi op_csrrw \<Rightarrow> csr_WriteUInt32 operand_csr srcIntReg sys
     | rvi op_csrrs \<Rightarrow> csr_WriteUInt32 operand_csr (srcCsr OR srcIntReg) sys
     | rvi op_csrrc \<Rightarrow> csr_WriteUInt32 operand_csr (srcCsr AND (NOT srcIntReg)) sys
     | _ \<Rightarrow> Inl ProcessExit) (\<lambda>sys.
     int_WriteInt32 operand_rd srcCsr sys))))"

definition ProcessRV32I_CsrImm :: "Op \<Rightarrow> System \<Rightarrow> System result" where
  "ProcessRV32I_CsrImm op sys =
     rbind (get_CsrImm (operand op)) (\<lambda>(operand_zimm, operand_rd, operand_csr).
     rbind (Csr_ReadUInt32 (sys_Csr sys) operand_csr) (\<lambda>srcCsr.
     rbind (case opCode op of
       rvi op_csrrwi \<Rightarrow> csr_WriteUInt32 operand_csr operand_zimm sys
     | rvi op_csrrsi \<Rightarrow> csr_WriteUInt32 operand_csr (srcCsr OR operand_zimm) sys
     | rvi op_csrrci \<Rightarrow> csr_WriteUInt32 operand_csr (srcCsr AND (NOT operand_zimm)) sys
     | _ \<Rightarrow> Inl ProcessExit) (\<lambda>sys.
     int_WriteInt32 operand_rd srcCsr sys)))"

definition ProcessRV32I :: "Op \<Rightarrow> vaddr_t \<Rightarrow> System \<Rightarrow> System result" where
  "ProcessRV32I op pc sys =
     (case opCode op of
       rvi op_lui \<Rightarrow> ProcessRV32I_Lui op sys
     | rvi op_auipc \<Rightarrow> ProcessRV32I_Auipc op pc sys
     | rvi op_jal \<Rightarrow> ProcessRV32I_Jal op pc sys
     | rvi op_jalr \<Rightarrow> ProcessRV32I_Jalr op pc sys
     | rvi op_beq \<Rightarrow> ProcessRV32I_Branch op pc sys
     | rvi op_bne \<Rightarrow> ProcessRV32I_Branch op pc sys
     | rvi op_blt \<Rightarrow> ProcessRV32I_Branch op pc sys
     | rvi op_bge \<Rightarrow> ProcessRV32I_Branch op pc sys
     | rvi op_bltu \<Rightarrow> ProcessRV32I_Branch op pc sys
     | rvi op_bgeu \<Rightarrow> ProcessRV32I_Branch op pc sys
     | rvi op_lb \<Rightarrow> ProcessRV32I_Load op sys
     | rvi op_lh \<Rightarrow> ProcessRV32I_Load op sys
     | rvi op_lw \<Rightarrow> ProcessRV32I_Load op sys
     | rvi op_lbu \<Rightarrow> ProcessRV32I_Load op sys
     | rvi op_lhu \<Rightarrow> ProcessRV32I_Load op sys
     | rvi op_sb \<Rightarrow> ProcessRV32I_Store op sys
     | rvi op_sh \<Rightarrow> ProcessRV32I_Store op sys
     | rvi op_sw \<Rightarrow> ProcessRV32I_Store op sys
     | rvi op_addi \<Rightarrow> ProcessRV32I_AluImm op sys
     | rvi op_slti \<Rightarrow> ProcessRV32I_AluImm op sys
     | rvi op_sltiu \<Rightarrow> ProcessRV32I_AluImm op sys
     | rvi op_xori \<Rightarrow> ProcessRV32I_AluImm op sys
     | rvi op_ori \<Rightarrow> ProcessRV32I_AluImm op sys
     | rvi op_andi \<Rightarrow> ProcessRV32I_AluImm op sys
     | rvi op_sll \<Rightarrow> ProcessRV32I_Shift op sys
     | rvi op_srl \<Rightarrow> ProcessRV32I_Shift op sys
     | rvi op_sra \<Rightarrow> ProcessRV32I_Shift op sys
     | rvi op_slli \<Rightarrow> ProcessRV32I_ShiftImm op sys
     | rvi op_srli \<Rightarrow> ProcessRV32I_ShiftImm op sys
     | rvi op_srai \<Rightarrow> ProcessRV32I_ShiftImm op sys
     | rvi op_add \<Rightarrow> ProcessRV32I_Alu op sys
     | rvi op_sub \<Rightarrow> ProcessRV32I_Alu op sys
     | rvi op_slt \<Rightarrow> ProcessRV32I_Alu op sys
     | rvi op_sltu \<Rightarrow> ProcessRV32I_Alu op sys
     | rvi op_xor \<Rightarrow> ProcessRV32I_Alu op sys
     | rvi op_or \<Rightarrow> ProcessRV32I_Alu op sys
     | rvi op_and \<Rightarrow> ProcessRV32I_Alu op sys
     | rvi op_ecall \<Rightarrow> ProcessRV32I_Priv op sys
     | rvi op_ebreak \<Rightarrow> ProcessRV32I_Priv op sys
     | rvi op_mret \<Rightarrow> ProcessRV32I_Priv op sys
     | rvi op_sret \<Rightarrow> ProcessRV32I_Priv op sys
     | rvi op_uret \<Rightarrow> ProcessRV32I_Priv op sys
     | rvi op_wfi \<Rightarrow> ProcessRV32I_Priv op sys
     | rvi op_fence \<Rightarrow> ProcessRV32I_Fence sys
     | rvi op_fence_i \<Rightarrow> ProcessRV32I_Fence sys
     | rvi op_sfence_vma \<Rightarrow> ProcessRV32I_Fence sys
     | rvi op_csrrw \<Rightarrow> ProcessRV32I_Csr op sys
     | rvi op_csrrs \<Rightarrow> ProcessRV32I_Csr op sys
     | rvi op_csrrc \<Rightarrow> ProcessRV32I_Csr op sys
     | rvi op_csrrwi \<Rightarrow> ProcessRV32I_CsrImm op sys
     | rvi op_csrrsi \<Rightarrow> ProcessRV32I_CsrImm op sys
     | rvi op_csrrci \<Rightarrow> ProcessRV32I_CsrImm op sys
     | _ \<Rightarrow> Inl ProcessExit)"

section \<open>RV64I\<close>

definition ProcessRV64I_Lui :: "Op \<Rightarrow> System \<Rightarrow> System result" where
  "ProcessRV64I_Lui op sys =
     rbind (get_U (operand op)) (\<lambda>(operand_imm, operand_rd).
     int_WriteInt64 operand_rd operand_imm sys)"

definition ProcessRV64I_Auipc :: "Op \<Rightarrow> vaddr_t \<Rightarrow> System \<Rightarrow> System result" where
  "ProcessRV64I_Auipc op pc sys =
     rbind (get_U (operand op)) (\<lambda>(operand_imm, operand_rd).
     int_WriteInt64 operand_rd (pc + operand_imm) sys)"

definition ProcessRV64I_Jal :: "Op \<Rightarrow> vaddr_t \<Rightarrow> System \<Rightarrow> System result" where
  "ProcessRV64I_Jal op pc sys =
     rbind (get_J (operand op)) (\<lambda>(operand_imm, operand_rd).
     rbind (int_WriteInt64 operand_rd (pc + 4) sys) (\<lambda>sys.
     Inr (csr_SetPc (pc + operand_imm) sys)))"

definition ProcessRV64I_Jalr :: "Op \<Rightarrow> vaddr_t \<Rightarrow> System \<Rightarrow> System result" where
  "ProcessRV64I_Jalr op pc sys =
     rbind (get_I (operand op)) (\<lambda>(operand_imm, operand_rd, operand_rs1, operand_funct3).
     rbind (int_ReadInt64 sys operand_rs1) (\<lambda>src.
     let address = ((scast (NOT (0x1 :: uint32))) AND (src + operand_imm)) in
     rbind (int_WriteInt64 operand_rd (pc + 4) sys) (\<lambda>sys.
     Inr (csr_SetPc address sys))))"

definition ProcessRV64I_Branch :: "Op \<Rightarrow> vaddr_t \<Rightarrow> System \<Rightarrow> System result" where
  "ProcessRV64I_Branch op pc sys =
     rbind (get_B (operand op)) (\<lambda>(operand_imm, operand_rs1, operand_rs2, operand_funct3).
     rbind (int_ReadInt64 sys operand_rs1) (\<lambda>src1.
     rbind (int_ReadInt64 sys operand_rs2) (\<lambda>src2.
     rbind (int_ReadUInt64 sys operand_rs1) (\<lambda>src1_u.
     rbind (int_ReadUInt64 sys operand_rs2) (\<lambda>src2_u.
     rbind (case opCode op of
       rvi op_beq \<Rightarrow> Inr (src1 = src2)
     | rvi op_bne \<Rightarrow> Inr (src1 \<noteq> src2)
     | rvi op_blt \<Rightarrow> Inr (src1 <s src2)
     | rvi op_bge \<Rightarrow> Inr (src2 \<le>s src1)
     | rvi op_bltu \<Rightarrow> Inr (src1_u < src2_u)
     | rvi op_bgeu \<Rightarrow> Inr (src2_u \<le> src1_u)
     | _ \<Rightarrow> Inl ProcessExit) (\<lambda>jump.
     (if jump then let sys = csr_SetPc (pc + operand_imm) sys in
     (if operand_imm <s 0 then Inr (atomic_Cancel sys)
     else Inr sys)
     else Inr sys)))))))"

definition ProcessRV64I_Load :: "Op \<Rightarrow> System \<Rightarrow> System result" where
  "ProcessRV64I_Load op sys =
     rbind (get_I (operand op)) (\<lambda>(operand_imm, operand_rd, operand_rs1, operand_funct3).
     rbind (int_ReadUInt64 sys operand_rs1) (\<lambda>v.
     let address = (v + operand_imm) in
     rbind (case opCode op of
       rvi op_lb \<Rightarrow> rbind (LoadUInt8 address sys) (\<lambda>(v, sys).
     Inr ((SignExtend 8 (ucast v)), sys))
     | rvi op_lh \<Rightarrow> rbind (LoadUInt16 address sys) (\<lambda>(v, sys).
     Inr ((SignExtend 16 (ucast v)), sys))
     | rvi op_lw \<Rightarrow> rbind (LoadUInt32 address sys) (\<lambda>(v, sys).
     Inr ((SignExtend 32 (ucast v)), sys))
     | rvi op_ld \<Rightarrow> rbind (LoadUInt64 address sys) (\<lambda>(v, sys).
     Inr ((SignExtend 64 v), sys))
     | rvi op_lbu \<Rightarrow> rbind (LoadUInt8 address sys) (\<lambda>(v, sys).
     Inr ((ZeroExtend 8 (ucast v)), sys))
     | rvi op_lhu \<Rightarrow> rbind (LoadUInt16 address sys) (\<lambda>(v, sys).
     Inr ((ZeroExtend 16 (ucast v)), sys))
     | rvi op_lwu \<Rightarrow> rbind (LoadUInt32 address sys) (\<lambda>(v, sys).
     Inr ((ZeroExtend 32 (ucast v)), sys))
     | _ \<Rightarrow> Inl ProcessExit) (\<lambda>(value, sys).
     int_WriteUInt64 operand_rd value sys)))"

definition ProcessRV64I_Store :: "Op \<Rightarrow> System \<Rightarrow> System result" where
  "ProcessRV64I_Store op sys =
     rbind (get_S (operand op)) (\<lambda>(operand_imm, operand_rs1, operand_rs2, operand_funct3).
     rbind (int_ReadUInt64 sys operand_rs1) (\<lambda>v.
     let address = (v + operand_imm) in
     rbind (int_ReadUInt64 sys operand_rs2) (\<lambda>value.
     (case opCode op of
       rvi op_sb \<Rightarrow> StoreUInt8 address (ucast value :: uint8) sys
     | rvi op_sh \<Rightarrow> StoreUInt16 address (ucast value :: uint16) sys
     | rvi op_sw \<Rightarrow> StoreUInt32 address (ucast value :: uint32) sys
     | rvi op_sd \<Rightarrow> StoreUInt64 address value sys
     | _ \<Rightarrow> Inl ProcessExit))))"

definition ProcessRV64I_Alu :: "Op \<Rightarrow> System \<Rightarrow> System result" where
  "ProcessRV64I_Alu op sys =
     rbind (get_R (operand op)) (\<lambda>(operand_rd, operand_rs1, operand_rs2, operand_funct3, operand_funct7).
     rbind (int_ReadInt64 sys operand_rs1) (\<lambda>src1.
     rbind (int_ReadInt64 sys operand_rs2) (\<lambda>src2.
     rbind (int_ReadUInt64 sys operand_rs1) (\<lambda>src1_u.
     rbind (int_ReadUInt64 sys operand_rs2) (\<lambda>src2_u.
     rbind (int_ReadInt32 sys operand_rs1) (\<lambda>src1_s32.
     rbind (int_ReadInt32 sys operand_rs2) (\<lambda>src2_s32.
     rbind (case opCode op of
       rvi op_add \<Rightarrow> Inr (src1 + src2)
     | rvi op_addw \<Rightarrow> Inr (SignExtend 32 (scast (src1_s32 + src2_s32)))
     | rvi op_sub \<Rightarrow> Inr (src1 - src2)
     | rvi op_subw \<Rightarrow> Inr (SignExtend 32 (scast (src1_s32 - src2_s32)))
     | rvi op_slt \<Rightarrow> Inr (if (src1 <s src2) then 1 else 0)
     | rvi op_sltu \<Rightarrow> Inr (if (src1_u < src2_u) then 1 else 0)
     | rvi op_xor \<Rightarrow> Inr (src1 XOR src2)
     | rvi op_or \<Rightarrow> Inr (src1 OR src2)
     | rvi op_and \<Rightarrow> Inr (src1 AND src2)
     | _ \<Rightarrow> Inl ProcessExit) (\<lambda>value.
     int_WriteInt64 operand_rd value sys))))))))"

definition ProcessRV64I_AluImm :: "Op \<Rightarrow> System \<Rightarrow> System result" where
  "ProcessRV64I_AluImm op sys =
     rbind (get_I (operand op)) (\<lambda>(operand_imm, operand_rd, operand_rs1, operand_funct3).
     let imm = operand_imm in
     let imm_u = operand_imm in
     let imm_s32 = (ucast operand_imm :: uint32) in
     rbind (int_ReadInt64 sys operand_rs1) (\<lambda>src1.
     rbind (int_ReadUInt64 sys operand_rs1) (\<lambda>src1_u.
     rbind (int_ReadInt32 sys operand_rs1) (\<lambda>src1_s32.
     rbind (case opCode op of
       rvi op_addi \<Rightarrow> Inr (src1 + imm)
     | rvi op_addiw \<Rightarrow> Inr (SignExtend 32 (scast (src1_s32 + imm_s32)))
     | rvi op_slti \<Rightarrow> Inr (if (src1 <s imm) then 1 else 0)
     | rvi op_sltiu \<Rightarrow> Inr (if (src1_u < imm_u) then 1 else 0)
     | rvi op_xori \<Rightarrow> Inr (src1 XOR imm)
     | rvi op_ori \<Rightarrow> Inr (src1 OR imm)
     | rvi op_andi \<Rightarrow> Inr (src1 AND imm)
     | _ \<Rightarrow> Inl ProcessExit) (\<lambda>value.
     int_WriteInt64 operand_rd value sys)))))"

definition ProcessRV64I_Shift :: "Op \<Rightarrow> System \<Rightarrow> System result" where
  "ProcessRV64I_Shift op sys =
     rbind (get_R (operand op)) (\<lambda>(operand_rd, operand_rs1, operand_rs2, operand_funct3, operand_funct7).
     rbind (int_ReadInt64 sys operand_rs1) (\<lambda>src1.
     rbind (int_ReadUInt64 sys operand_rs1) (\<lambda>src1_u.
     rbind (int_ReadInt32 sys operand_rs1) (\<lambda>src1_s32.
     rbind (int_ReadUInt32 sys operand_rs1) (\<lambda>src1_u32.
     rbind (int_ReadInt64 sys operand_rs2) (\<lambda>v.
     let shamt = (ucast (v AND 0x3f) :: uint32) in
     rbind (case opCode op of
       rvi op_sll \<Rightarrow> shl src1 (sint shamt)
     | rvi op_sllw \<Rightarrow> rbind (shl src1_s32 (sint shamt)) (\<lambda>t.
     Inr (SignExtend 32 (scast t)))
     | rvi op_srl \<Rightarrow> shr src1_u (sint shamt)
     | rvi op_srlw \<Rightarrow> rbind (shr src1_u32 (sint shamt)) (\<lambda>t.
     Inr (SignExtend 32 (ucast t)))
     | rvi op_sra \<Rightarrow> sar src1 (sint shamt)
     | rvi op_sraw \<Rightarrow> rbind (sar src1_s32 (sint shamt)) (\<lambda>t.
     Inr (SignExtend 32 (scast t)))
     | _ \<Rightarrow> Inl ProcessExit) (\<lambda>value.
     int_WriteInt64 operand_rd value sys)))))))"

definition ProcessRV64I_ShiftImm :: "Op \<Rightarrow> System \<Rightarrow> System result" where
  "ProcessRV64I_ShiftImm op sys =
     rbind (get_ShiftImm (operand op)) (\<lambda>(operand_rd, operand_rs1, operand_shamt).
     let shamt_s32 = operand_shamt in
     let shamt_u32 = operand_shamt in
     let shamt_s64 = operand_shamt in
     let shamt_u64 = operand_shamt in
     rbind (int_ReadInt64 sys operand_rs1) (\<lambda>src1.
     rbind (int_ReadUInt64 sys operand_rs1) (\<lambda>src1_u.
     rbind (int_ReadInt32 sys operand_rs1) (\<lambda>src1_s32.
     rbind (int_ReadUInt32 sys operand_rs1) (\<lambda>src1_u32.
     rbind (case opCode op of
       rvi op_slli \<Rightarrow> shl src1 shamt_s64
     | rvi op_slliw \<Rightarrow> rbind (shl src1_s32 shamt_s32) (\<lambda>t.
     Inr (SignExtend 32 (scast t)))
     | rvi op_srli \<Rightarrow> shr src1_u shamt_u64
     | rvi op_srliw \<Rightarrow> rbind (shr src1_u32 shamt_u32) (\<lambda>t.
     Inr (SignExtend 32 (ucast t)))
     | rvi op_srai \<Rightarrow> sar src1 shamt_s64
     | rvi op_sraiw \<Rightarrow> rbind (sar src1_s32 shamt_s32) (\<lambda>t.
     Inr (SignExtend 32 (scast t)))
     | _ \<Rightarrow> Inl ProcessExit) (\<lambda>value.
     int_WriteInt64 operand_rd value sys))))))"

definition ProcessRV64I_Priv :: "Op \<Rightarrow> System \<Rightarrow> System result" where
  "ProcessRV64I_Priv op sys =
     (let sys = atomic_Cancel sys in
     (case opCode op of
       rvi op_ecall \<Rightarrow> Inr sys
     | rvi op_ebreak \<Rightarrow> Inr sys
     | rvi op_mret \<Rightarrow> trap_return Machine sys
     | rvi op_sret \<Rightarrow> trap_return Supervisor sys
     | rvi op_uret \<Rightarrow> trap_return User sys
     | rvi op_wfi \<Rightarrow> Inr sys
     | _ \<Rightarrow> Inl ProcessExit))"

definition ProcessRV64I_Fence :: "System \<Rightarrow> System result" where
  "ProcessRV64I_Fence sys =
     Inr (atomic_Cancel sys)"

definition ProcessRV64I_Csr :: "Op \<Rightarrow> System \<Rightarrow> System result" where
  "ProcessRV64I_Csr op sys =
     (let sys = atomic_Cancel sys in
     rbind (get_Csr (operand op)) (\<lambda>(operand_rd, operand_rs1, operand_csr).
     rbind (Csr_ReadUInt64 (sys_Csr sys) operand_csr) (\<lambda>srcCsr.
     rbind (int_ReadInt64 sys operand_rs1) (\<lambda>srcIntReg.
     rbind (case opCode op of
       rvi op_csrrw \<Rightarrow> csr_WriteUInt64 operand_csr srcIntReg sys
     | rvi op_csrrs \<Rightarrow> csr_WriteUInt64 operand_csr (srcCsr OR srcIntReg) sys
     | rvi op_csrrc \<Rightarrow> csr_WriteUInt64 operand_csr (srcCsr AND (NOT srcIntReg)) sys
     | _ \<Rightarrow> Inl ProcessExit) (\<lambda>sys.
     int_WriteInt64 operand_rd srcCsr sys)))))"

definition ProcessRV64I_CsrImm :: "Op \<Rightarrow> System \<Rightarrow> System result" where
  "ProcessRV64I_CsrImm op sys =
     (let sys = atomic_Cancel sys in
     rbind (get_CsrImm (operand op)) (\<lambda>(operand_zimm, operand_rd, operand_csr).
     rbind (Csr_ReadUInt64 (sys_Csr sys) operand_csr) (\<lambda>srcCsr.
     rbind (case opCode op of
       rvi op_csrrwi \<Rightarrow> csr_WriteUInt64 operand_csr (scast operand_zimm) sys
     | rvi op_csrrsi \<Rightarrow> csr_WriteUInt64 operand_csr (srcCsr OR (scast operand_zimm)) sys
     | rvi op_csrrci \<Rightarrow> csr_WriteUInt64 operand_csr (srcCsr AND (scast (NOT operand_zimm))) sys
     | _ \<Rightarrow> Inl ProcessExit) (\<lambda>sys.
     int_WriteInt64 operand_rd srcCsr sys))))"

definition ProcessRV64I :: "Op \<Rightarrow> vaddr_t \<Rightarrow> System \<Rightarrow> System result" where
  "ProcessRV64I op pc sys =
     (case opCode op of
       rvi op_lui \<Rightarrow> ProcessRV64I_Lui op sys
     | rvi op_auipc \<Rightarrow> ProcessRV64I_Auipc op pc sys
     | rvi op_jal \<Rightarrow> ProcessRV64I_Jal op pc sys
     | rvi op_jalr \<Rightarrow> ProcessRV64I_Jalr op pc sys
     | rvi op_beq \<Rightarrow> ProcessRV64I_Branch op pc sys
     | rvi op_bne \<Rightarrow> ProcessRV64I_Branch op pc sys
     | rvi op_blt \<Rightarrow> ProcessRV64I_Branch op pc sys
     | rvi op_bge \<Rightarrow> ProcessRV64I_Branch op pc sys
     | rvi op_bltu \<Rightarrow> ProcessRV64I_Branch op pc sys
     | rvi op_bgeu \<Rightarrow> ProcessRV64I_Branch op pc sys
     | rvi op_lb \<Rightarrow> ProcessRV64I_Load op sys
     | rvi op_lh \<Rightarrow> ProcessRV64I_Load op sys
     | rvi op_lw \<Rightarrow> ProcessRV64I_Load op sys
     | rvi op_ld \<Rightarrow> ProcessRV64I_Load op sys
     | rvi op_lbu \<Rightarrow> ProcessRV64I_Load op sys
     | rvi op_lhu \<Rightarrow> ProcessRV64I_Load op sys
     | rvi op_lwu \<Rightarrow> ProcessRV64I_Load op sys
     | rvi op_sb \<Rightarrow> ProcessRV64I_Store op sys
     | rvi op_sh \<Rightarrow> ProcessRV64I_Store op sys
     | rvi op_sw \<Rightarrow> ProcessRV64I_Store op sys
     | rvi op_sd \<Rightarrow> ProcessRV64I_Store op sys
     | rvi op_addi \<Rightarrow> ProcessRV64I_AluImm op sys
     | rvi op_addiw \<Rightarrow> ProcessRV64I_AluImm op sys
     | rvi op_slti \<Rightarrow> ProcessRV64I_AluImm op sys
     | rvi op_sltiu \<Rightarrow> ProcessRV64I_AluImm op sys
     | rvi op_xori \<Rightarrow> ProcessRV64I_AluImm op sys
     | rvi op_ori \<Rightarrow> ProcessRV64I_AluImm op sys
     | rvi op_andi \<Rightarrow> ProcessRV64I_AluImm op sys
     | rvi op_sll \<Rightarrow> ProcessRV64I_Shift op sys
     | rvi op_sllw \<Rightarrow> ProcessRV64I_Shift op sys
     | rvi op_srl \<Rightarrow> ProcessRV64I_Shift op sys
     | rvi op_srlw \<Rightarrow> ProcessRV64I_Shift op sys
     | rvi op_sra \<Rightarrow> ProcessRV64I_Shift op sys
     | rvi op_sraw \<Rightarrow> ProcessRV64I_Shift op sys
     | rvi op_slli \<Rightarrow> ProcessRV64I_ShiftImm op sys
     | rvi op_slliw \<Rightarrow> ProcessRV64I_ShiftImm op sys
     | rvi op_srli \<Rightarrow> ProcessRV64I_ShiftImm op sys
     | rvi op_srliw \<Rightarrow> ProcessRV64I_ShiftImm op sys
     | rvi op_srai \<Rightarrow> ProcessRV64I_ShiftImm op sys
     | rvi op_sraiw \<Rightarrow> ProcessRV64I_ShiftImm op sys
     | rvi op_add \<Rightarrow> ProcessRV64I_Alu op sys
     | rvi op_addw \<Rightarrow> ProcessRV64I_Alu op sys
     | rvi op_sub \<Rightarrow> ProcessRV64I_Alu op sys
     | rvi op_subw \<Rightarrow> ProcessRV64I_Alu op sys
     | rvi op_slt \<Rightarrow> ProcessRV64I_Alu op sys
     | rvi op_sltu \<Rightarrow> ProcessRV64I_Alu op sys
     | rvi op_xor \<Rightarrow> ProcessRV64I_Alu op sys
     | rvi op_or \<Rightarrow> ProcessRV64I_Alu op sys
     | rvi op_and \<Rightarrow> ProcessRV64I_Alu op sys
     | rvi op_ecall \<Rightarrow> ProcessRV64I_Priv op sys
     | rvi op_ebreak \<Rightarrow> ProcessRV64I_Priv op sys
     | rvi op_mret \<Rightarrow> ProcessRV64I_Priv op sys
     | rvi op_sret \<Rightarrow> ProcessRV64I_Priv op sys
     | rvi op_uret \<Rightarrow> ProcessRV64I_Priv op sys
     | rvi op_wfi \<Rightarrow> ProcessRV64I_Priv op sys
     | rvi op_fence \<Rightarrow> ProcessRV64I_Fence sys
     | rvi op_fence_i \<Rightarrow> ProcessRV64I_Fence sys
     | rvi op_sfence_vma \<Rightarrow> ProcessRV64I_Fence sys
     | rvi op_csrrw \<Rightarrow> ProcessRV64I_Csr op sys
     | rvi op_csrrs \<Rightarrow> ProcessRV64I_Csr op sys
     | rvi op_csrrc \<Rightarrow> ProcessRV64I_Csr op sys
     | rvi op_csrrwi \<Rightarrow> ProcessRV64I_CsrImm op sys
     | rvi op_csrrsi \<Rightarrow> ProcessRV64I_CsrImm op sys
     | rvi op_csrrci \<Rightarrow> ProcessRV64I_CsrImm op sys
     | _ \<Rightarrow> Inl ProcessExit)"

end
