(* ===== verification/ExecutorMA.thy ===== *)
theory ExecutorMA
  imports ExecutorBase
begin

text \<open>
  The multiplication and division instructions and the atomic instructions of \<^verbatim>\<open>cpu/Executor.cpp\<close>.
\<close>

section \<open>Multiplication and division\<close>

definition ProcessRV32M :: "Op \<Rightarrow> System \<Rightarrow> System result" where
  "ProcessRV32M op sys =
     (let sys = atomic_Cancel sys in
     rbind (get_R (operand op)) (\<lambda>(operand_rd, operand_rs1, operand_rs2, operand_funct3, operand_funct7).
     rbind (int_ReadInt32 sys operand_rs1) (\<lambda>src1.
     rbind (int_ReadInt32 sys operand_rs2) (\<lambda>src2.
     rbind (int_ReadUInt32 sys operand_rs1) (\<lambda>src1_u.
     rbind (int_ReadUInt32 sys operand_rs2) (\<lambda>src2_u.
     rbind (case opCode op of
       rvm op_mul \<Rightarrow> Inr (src1 * src2)
     | rvm op_mulh \<Rightarrow> Inr (ucast (signed_drop_bit 32 ((scast src1 :: uint64) * (scast src2 :: uint64))) :: uint32)
     | rvm op_mulhsu \<Rightarrow> Inr (ucast (drop_bit 32 ((scast src1 :: uint64) * (ucast src2_u :: uint64))) :: uint32)
     | rvm op_mulhu \<Rightarrow> Inr (ucast (drop_bit 32 ((ucast src1_u :: uint64) * (ucast src2_u :: uint64))) :: uint32)
     | rvm op_div \<Rightarrow> (if (src1_u = (0x80000000 :: uint32)) \<and> (src2 = (- 1)) then Inr (0x80000000 :: uint32)
       else (if src2 = 0 then Inr (- 1)
       else sdiv_w src1 src2))
     | rvm op_divu \<Rightarrow> (if src2 = 0 then Inr (- 1)
       else udiv_w src1_u src2_u)
     | rvm op_rem \<Rightarrow> (if (src1_u = (0x80000000 :: uint32)) \<and> (src2 = (- 1)) then Inr 0
       else (if src2 = 0 then Inr src1
       else smod_w src1 src2))
     | rvm op_remu \<Rightarrow> (if src2 = 0 then Inr src1
       else umod_w src1_u src2_u)
     | _ \<Rightarrow> Inl ProcessExit) (\<lambda>dst.
     int_WriteInt32 operand_rd dst sys)))))))"

definition ProcessRV64M :: "host \<Rightarrow> Op \<Rightarrow> System \<Rightarrow> System result" where
  "ProcessRV64M h op sys =
     (let sys = atomic_Cancel sys in
     rbind (get_R (operand op)) (\<lambda>(operand_rd, operand_rs1, operand_rs2, operand_funct3, operand_funct7).
     rbind (int_ReadUInt32 sys operand_rs1) (\<lambda>src1_u32.
     rbind (int_ReadUInt32 sys operand_rs2) (\<lambda>src2_u32.
     rbind (int_ReadInt32 sys operand_rs1) (\<lambda>src1_s32.
     rbind (int_ReadInt32 sys operand_rs2) (\<lambda>src2_s32.
     rbind (int_ReadInt64 sys operand_rs1) (\<lambda>src1_s64.
     rbind (int_ReadInt64 sys operand_rs2) (\<lambda>src2_s64.
     rbind (int_ReadUInt64 sys operand_rs1) (\<lambda>src1_u64.
     rbind (int_ReadUInt64 sys operand_rs2) (\<lambda>src2_u64.
     rbind (case opCode op of
       rvm op_mul \<Rightarrow> Inr (src1_s64 * src2_s64)
     | rvm op_mulh \<Rightarrow> Inr (host_mulh h src1_s64 src2_s64)
     | rvm op_mulhsu \<Rightarrow> Inr (host_mulhsu h src1_s64 src2_u64)
     | rvm op_mulhu \<Rightarrow> Inr (host_mulhu h src1_u64 src2_u64)
     | rvm op_mulw \<Rightarrow> Inr (SignExtend 32 (scast (src1_s32 * src2_s32)))
     | rvm op_div \<Rightarrow> (if (src1_u64 = (push_bit 63 (1 :: uint64))) \<and> (src2_s64 = (- 1)) then Inr (push_bit 63 (1 :: uint64))
       else (if src2_s64 = 0 then Inr (- 1)
       else sdiv_w src1_s64 src2_s64))
     | rvm op_divu \<Rightarrow> (if src2_s64 = 0 then Inr (- 1)
       else udiv_w src1_u64 src2_u64)
     | rvm op_divuw \<Rightarrow> (if src2_u32 = 0 then Inr (- 1)
       else rbind (udiv_w src1_u32 src2_u32) (\<lambda>q.
     Inr (SignExtend 32 (ucast q))))
     | rvm op_divw \<Rightarrow> (if ((ucast src1_u32) = (push_bit 31 (1 :: uint64))) \<and> (src2_s32 = (- 1)) then Inr (SignExtend 32 (push_bit 31 (1 :: uint64)))
       else (if src2_s64 = 0 then Inr (- 1)
       else rbind (sdiv_w src1_s32 src2_s32) (\<lambda>q.
     Inr (SignExtend 32 (scast q)))))
     | rvm op_rem \<Rightarrow> (if (src1_u64 = (push_bit 63 (1 :: uint64))) \<and> (src2_s64 = (- 1)) then Inr 0
       else (if src2_s64 = 0 then Inr src1_s64
       else smod_w src1_s64 src2_s64))
     | rvm op_remu \<Rightarrow> (if src2_s64 = 0 then Inr src1_s64
       else umod_w src1_u64 src2_u64)
     | rvm op_remuw \<Rightarrow> (if src2_u32 = 0 then Inr (SignExtend 32 (scast src1_s32))
       else rbind (umod_w src1_u32 src2_u32) (\<lambda>q.
     Inr (SignExtend 32 (ucast q))))
     | rvm op_remw \<Rightarrow> (if ((ucast src1_u32) = (push_bit 31 (1 :: uint64))) \<and> (src2_s32 = (- 1)) then Inr 0
       else (if src2_s32 = 0 then Inr (SignExtend 32 (scast src1_s32))
       else rbind (smod_w src1_s32 src2_s32) (\<lambda>q.
     Inr (SignExtend 32 (scast q)))))
     | _ \<Rightarrow> Inl ProcessExit) (\<lambda>value.
     int_WriteInt64 operand_rd value sys)))))))))))"

section \<open>Atomics on RV32\<close>

definition ProcessRV32A_Atomic :: "Op \<Rightarrow> System \<Rightarrow> System result" where
  "ProcessRV32A_Atomic op sys =
     (let sys = atomic_Cancel sys in
     rbind (get_R (operand op)) (\<lambda>(operand_rd, operand_rs1, operand_rs2, operand_funct3, operand_funct7).
     rbind (int_ReadUInt32 sys operand_rs1) (\<lambda>src1.
     rbind (int_ReadUInt32 sys operand_rs2) (\<lambda>src2.
     rbind (LoadUInt32 (ucast src1) sys) (\<lambda>(value, sys).
     rbind (case opCode op of
       rva op_amoswap_w \<Rightarrow> StoreUInt32 (ucast src1) src2 sys
     | rva op_amoadd_w \<Rightarrow> StoreUInt32 (ucast src1) (value + src2) sys
     | rva op_amoxor_w \<Rightarrow> StoreUInt32 (ucast src1) (value XOR src2) sys
     | rva op_amoand_w \<Rightarrow> StoreUInt32 (ucast src1) (value AND src2) sys
     | rva op_amoor_w \<Rightarrow> StoreUInt32 (ucast src1) (value OR src2) sys
     | rva op_amomax_w \<Rightarrow> StoreUInt32 (ucast src1) (smax value src2) sys
     | rva op_amomin_w \<Rightarrow> StoreUInt32 (ucast src1) (smin value src2) sys
     | rva op_amomaxu_w \<Rightarrow> StoreUInt32 (ucast src1) (max value src2) sys
     | rva op_amominu_w \<Rightarrow> StoreUInt32 (ucast src1) (min value src2) sys
     | _ \<Rightarrow> Inl ProcessExit) (\<lambda>sys.
     int_WriteInt32 operand_rd value sys))))))"

definition ProcessRV32A_Load :: "Op \<Rightarrow> System \<Rightarrow> System result" where
  "ProcessRV32A_Load op sys =
     rbind (get_R (operand op)) (\<lambda>(operand_rd, operand_rs1, operand_rs2, operand_funct3, operand_funct7).
     rbind (int_ReadUInt32 sys operand_rs1) (\<lambda>address.
     let sys = atomic_Reserve (ucast address) sys in
     rbind (LoadUInt32 (ucast address) sys) (\<lambda>(value, sys).
     int_WriteInt32 operand_rd value sys)))"

definition ProcessRV32A_Store :: "Op \<Rightarrow> System \<Rightarrow> System result" where
  "ProcessRV32A_Store op sys =
     rbind (get_R (operand op)) (\<lambda>(operand_rd, operand_rs1, operand_rs2, operand_funct3, operand_funct7).
     rbind (int_ReadUInt32 sys operand_rs1) (\<lambda>address.
     rbind (int_ReadUInt32 sys operand_rs2) (\<lambda>value.
     rbind (if (m_Reserved (sys_AtomicManager sys)) \<and> ((m_Address (sys_AtomicManager sys)) = (ucast address)) then rbind (StoreUInt32 (ucast address) value sys) (\<lambda>sys.
     int_WriteUInt32 operand_rd 0 sys)
     else int_WriteUInt32 operand_rd 1 sys) (\<lambda>sys.
     Inr (atomic_Cancel sys)))))"

definition ProcessRV32A :: "Op \<Rightarrow> System \<Rightarrow> System result" where
  "ProcessRV32A op sys =
     (case opCode op of
       rva op_lr_w \<Rightarrow> ProcessRV32A_Load op sys
     | rva op_sc_w \<Rightarrow> ProcessRV32A_Store op sys
     | rva op_amoswap_w \<Rightarrow> ProcessRV32A_Atomic op sys
     | rva op_amoadd_w \<Rightarrow> ProcessRV32A_Atomic op sys
     | rva op_amoxor_w \<Rightarrow> ProcessRV32A_Atomic op sys
     | rva op_amoand_w \<Rightarrow> ProcessRV32A_Atomic op sys
     | rva op_amoor_w \<Rightarrow> ProcessRV32A_Atomic op sys
     | rva op_amomax_w \<Rightarrow> ProcessRV32A_Atomic op sys
     | rva op_amomin_w \<Rightarrow> ProcessRV32A_Atomic op sys
     | rva op_amomaxu_w \<Rightarrow> ProcessRV32A_Atomic op sys
     | rva op_amominu_w \<Rightarrow> ProcessRV32A_Atomic op sys
     | _ \<Rightarrow> Inl ProcessExit)"

section \<open>Atomics on RV64\<close>

definition ProcessRV64A_Atomic32 :: "Op \<Rightarrow> System \<Rightarrow> System result" where
  "ProcessRV64A_Atomic32 op sys =
     (let sys = atomic_Cancel sys in
     rbind (get_R (operand op)) (\<lambda>(operand_rd, operand_rs1, operand_rs2, operand_funct3, operand_funct7).
     rbind (int_ReadUInt64 sys operand_rs1) (\<lambda>address.
     rbind (int_ReadUInt32 sys operand_rs2) (\<lambda>src2.
     rbind (LoadUInt32 address sys) (\<lambda>(value, sys).
     rbind (case opCode op of
       rva op_amoswap_w \<Rightarrow> StoreUInt32 address src2 sys
     | rva op_amoadd_w \<Rightarrow> StoreUInt32 address (value + src2) sys
     | rva op_amoxor_w \<Rightarrow> StoreUInt32 address (value XOR src2) sys
     | rva op_amoand_w \<Rightarrow> StoreUInt32 address (value AND src2) sys
     | rva op_amoor_w \<Rightarrow> StoreUInt32 address (value OR src2) sys
     | rva op_amomax_w \<Rightarrow> StoreUInt32 address (smax value src2) sys
     | rva op_amomin_w \<Rightarrow> StoreUInt32 address (smin value src2) sys
     | rva op_amomaxu_w \<Rightarrow> StoreUInt32 address (max value src2) sys
     | rva op_amominu_w \<Rightarrow> StoreUInt32 address (min value src2) sys
     | _ \<Rightarrow> Inl ProcessExit) (\<lambda>sys.
     int_WriteInt64 operand_rd (SignExtend 32 (ucast value)) sys))))))"

definition ProcessRV64A_Atomic64 :: "Op \<Rightarrow> System \<Rightarrow> System result" where
  "ProcessRV64A_Atomic64 op sys =
     (let sys = atomic_Cancel sys in
     rbind (get_R (operand op)) (\<lambda>(operand_rd, operand_rs1, operand_rs2, operand_funct3, operand_funct7).
     rbind (int_ReadUInt64 sys operand_rs1) (\<lambda>address.
     rbind (int_ReadUInt64 sys operand_rs2) (\<lambda>src2.
     rbind (LoadUInt64 address sys) (\<lambda>(value, sys).
     rbind (case opCode op of
       rva op_amoswap_d \<Rightarrow> StoreUInt64 address src2 sys
     | rva op_amoadd_d \<Rightarrow> StoreUInt64 address (value + src2) sys
     | rva op_amoxor_d \<Rightarrow> StoreUInt64 address (value XOR src2) sys
     | rva op_amoand_d \<Rightarrow> StoreUInt64 address (value AND src2) sys
     | rva op_amoor_d \<Rightarrow> StoreUInt64 address (value OR src2) sys
     | rva op_amomax_d \<Rightarrow> StoreUInt64 address (smax value src2) sys
     | rva op_amomin_d \<Rightarrow> StoreUInt64 address (smin value src2) sys
     | rva op_amomaxu_d \<Rightarrow> StoreUInt64 address (max value src2) sys
     | rva op_amominu_d \<Rightarrow> StoreUInt64 address (min value src2) sys
     | _ \<Rightarrow> Inl ProcessExit) (\<lambda>sys.
     int_WriteUInt64 operand_rd value sys))))))"

definition ProcessRV64A_Load32 :: "Op \<Rightarrow> System \<Rightarrow> System result" where
  "ProcessRV64A_Load32 op sys =
     rbind (get_R (operand op)) (\<lambda>(operand_rd, operand_rs1, operand_rs2, operand_funct3, operand_funct7).
     rbind (int_ReadUInt64 sys operand_rs1) (\<lambda>address.
     let sys = atomic_Reserve address sys in
     rbind (LoadUInt32 address sys) (\<lambda>(v, sys).
     let value = (SignExtend 32 (ucast v)) in
     int_WriteInt64 operand_rd value sys)))"

definition ProcessRV64A_Load64 :: "Op \<Rightarrow> System \<Rightarrow> System result" where
  "ProcessRV64A_Load64 op sys =
     (let sys = atomic_Cancel sys in
     rbind (get_R (operand op)) (\<lambda>(operand_rd, operand_rs1, operand_rs2, operand_funct3, operand_funct7).
     rbind (int_ReadUInt64 sys operand_rs1) (\<lambda>address.
     let sys = atomic_Reserve address sys in
     rbind (LoadUInt64 address sys) (\<lambda>(value, sys).
     int_WriteInt64 operand_rd value sys))))"

definition ProcessRV64A_Store32 :: "Op \<Rightarrow> System \<Rightarrow> System result" where
  "ProcessRV64A_Store32 op sys =
     rbind (get_R (operand op)) (\<lambda>(operand_rd, operand_rs1, operand_rs2, operand_funct3, operand_funct7).
     rbind (int_ReadUInt64 sys operand_rs1) (\<lambda>address.
     rbind (int_ReadUInt32 sys operand_rs2) (\<lambda>value.
     rbind (if (m_Reserved (sys_AtomicManager sys)) \<and> ((m_Address (sys_AtomicManager sys)) = address) then rbind (StoreUInt32 address value sys) (\<lambda>sys.
     int_WriteUInt64 operand_rd 0 sys)
     else int_WriteUInt64 operand_rd 1 sys) (\<lambda>sys.
     Inr (atomic_Cancel sys)))))"

definition ProcessRV64A_Store64 :: "Op \<Rightarrow> System \<Rightarrow> System result" where
  "ProcessRV64A_Store64 op sys =
     rbind (get_R (operand op)) (\<lambda>(operand_rd, operand_rs1, operand_rs2, operand_funct3, operand_funct7).
     rbind (int_ReadUInt64 sys operand_rs1) (\<lambda>address.
     rbind (int_ReadUInt64 sys operand_rs2) (\<lambda>value.
     rbind (if (m_Reserved (sys_AtomicManager sys)) \<and> ((m_Address (sys_AtomicManager sys)) = address) then rbind (StoreUInt64 address value sys) (\<lambda>sys.
     int_WriteUInt64 operand_rd 0 sys)
     else int_WriteUInt64 operand_rd 1 sys) (\<lambda>sys.
     Inr (atomic_Cancel sys)))))"

definition ProcessRV64A :: "Op \<Rightarrow> System \<Rightarrow> System result" where
  "ProcessRV64A op sys =
     (case opCode op of
       rva op_lr_w \<Rightarrow> ProcessRV64A_Load32 op sys
     | rva op_lr_d \<Rightarrow> ProcessRV64A_Load64 op sys
     | rva op_sc_w \<Rightarrow> ProcessRV64A_Store32 op sys
     | rva op_sc_d \<Rightarrow> ProcessRV64A_Store64 op sys
     | rva op_amoswap_w \<Rightarrow> ProcessRV64A_Atomic32 op sys
     | rva op_amoadd_w \<Rightarrow> ProcessRV64A_Atomic32 op sys
     | rva op_amoxor_w \<Rightarrow> ProcessRV64A_Atomic32 op sys
     | rva op_amoand_w \<Rightarrow> ProcessRV64A_Atomic32 op sys
     | rva op_amoor_w \<Rightarrow> ProcessRV64A_Atomic32 op sys
     | rva op_amomax_w \<Rightarrow> ProcessRV64A_Atomic32 op sys
     | rva op_amomin_w \<Rightarrow> ProcessRV64A_Atomic32 op sys
     | rva op_amomaxu_w \<Rightarrow> ProcessRV64A_Atomic32 op sys
     | rva op_amominu_w \<Rightarrow> ProcessRV64A_Atomic32 op sys
     | rva op_amoswap_d \<Rightarrow> ProcessRV64A_Atomic64 op sys
     | rva op_amoadd_d \<Rightarrow> ProcessRV64A_Atomic64 op sys
     | rva op_amoxor_d \<Rightarrow> ProcessRV64A_Atomic64 op sys
     | rva op_amoand_d \<Rightarrow> ProcessRV64A_Atomic64 op sys
     | rva op_amoor_d \<Rightarrow> ProcessRV64A_Atomic64 op sys
     | rva op_amomax_d \<Rightarrow> ProcessRV64A_Atomic64 op sys
     | rva op_amomin_d \<Rightarrow> ProcessRV64A_Atomic64 op sys
     | rva op_amomaxu_d \<Rightarrow> ProcessRV64A_Atomic64 op sys
     | rva op_amominu_d \<Rightarrow> ProcessRV64A_Atomic64 op sys
     | _ \<Rightarrow> Inl ProcessExit)"

end
