(* ===== verification/ExecutorC.thy ===== *)
theory ExecutorC
  imports ExecutorBase
begin

text \<open>
  The compressed instructions of \<^verbatim>\<open>cpu/Executor.cpp\<close>.
\<close>

section \<open>RV32C\<close>

definition ProcessRV32C_Alu :: "Op \<Rightarrow> System \<Rightarrow> System result" where
  "ProcessRV32C_Alu op sys =
     rbind (get_CR (operand op)) (\<lambda>(operand_rd, operand_rs1, operand_rs2).
     rbind (int_ReadInt32 sys operand_rs1) (\<lambda>src1.
     rbind (int_ReadInt32 sys operand_rs2) (\<lambda>src2.
     rbind (case opCode op of
       rvc op_c_mv \<Rightarrow> Inr src2
     | rvc op_c_add \<Rightarrow> Inr (src1 + src2)
     | rvc op_c_sub \<Rightarrow> Inr (src1 - src2)
     | rvc op_c_and \<Rightarrow> Inr (src1 AND src2)
     | rvc op_c_or \<Rightarrow> Inr (src1 OR src2)
     | rvc op_c_xor \<Rightarrow> Inr (src1 XOR src2)
     | _ \<Rightarrow> Inl ProcessExit) (\<lambda>result.
     int_WriteInt32 operand_rd result sys))))"

definition ProcessRV32C_AluImm :: "Op \<Rightarrow> System \<Rightarrow> System result" where
  "ProcessRV32C_AluImm op sys =
     rbind (get_CI (operand op)) (\<lambda>(operand_imm, operand_rd, operand_rs1).
     rbind (int_ReadInt32 sys operand_rs1) (\<lambda>src1.
     rbind (int_ReadUInt32 sys operand_rs1) (\<lambda>src1_u.
     rbind (case opCode op of
       rvc op_c_li \<Rightarrow> Inr (ucast operand_imm :: uint32)
     | rvc op_c_lui \<Rightarrow> Inr (ucast operand_imm :: uint32)
     | rvc op_c_addi \<Rightarrow> Inr (ucast ((scast src1) + operand_imm) :: uint32)
     | rvc op_c_andi \<Rightarrow> Inr (ucast ((scast src1) AND operand_imm) :: uint32)
     | rvc op_c_srli \<Rightarrow> shr src1_u (sint operand_imm)
     | rvc op_c_srai \<Rightarrow> sar src1 (sint operand_imm)
     | rvc op_c_slli \<Rightarrow> shl src1 (sint operand_imm)
     | _ \<Rightarrow> Inl ProcessExit) (\<lambda>result.
     int_WriteInt32 operand_rd result sys))))"

definition ProcessRV32C_Branch :: "Op \<Rightarrow> vaddr_t \<Rightarrow> System \<Rightarrow> System result" where
  "ProcessRV32C_Branch op pc sys =
     rbind (get_CB (operand op)) (\<lambda>(operand_imm, operand_rs1).
     rbind (int_ReadInt32 sys operand_rs1) (\<lambda>src1.
     rbind (case opCode op of
       rvc op_c_beqz \<Rightarrow> Inr (src1 = 0)
     | rvc op_c_bnez \<Rightarrow> Inr (src1 \<noteq> 0)
     | _ \<Rightarrow> Inl ProcessExit) (\<lambda>cond.
     (if cond then let sys = csr_SetPc (pc + operand_imm) sys in
     (if operand_imm <s 0 then Inr (atomic_Cancel sys)
     else Inr sys)
     else Inr sys))))"

definition ProcessRV32C_ADDI4SPN :: "Op \<Rightarrow> System \<Rightarrow> System result" where
  "ProcessRV32C_ADDI4SPN op sys =
     rbind (get_CIW (operand op)) (\<lambda>(operand_imm, operand_rd).
     rbind (ReadStackPointer32 sys) (\<lambda>sp.
     let result = ((ucast sp) + operand_imm) in
     int_WriteUInt32 operand_rd (ucast result) sys))"

definition ProcessRV32C_ADDI16SP :: "Op \<Rightarrow> System \<Rightarrow> System result" where
  "ProcessRV32C_ADDI16SP op sys =
     rbind (get_CI (operand op)) (\<lambda>(operand_imm, operand_rd, operand_rs1).
     rbind (ReadStackPointer32 sys) (\<lambda>sp.
     let result = ((ucast sp) + operand_imm) in
     int_WriteUInt32 operand_rd (ucast result) sys))"

definition ProcessRV32C_FLD :: "Op \<Rightarrow> System \<Rightarrow> System result" where
  "ProcessRV32C_FLD op sys =
     rbind (get_CL (operand op)) (\<lambda>(operand_imm, operand_rd, operand_rs1).
     rbind (int_ReadUInt32 sys operand_rs1) (\<lambda>v.
     let address = ((ucast v) + operand_imm) in
     rbind (LoadUInt64 address sys) (\<lambda>(value, sys).
     rbind (fp_WriteUInt64 operand_rd value sys) (\<lambda>sys.
     Inr (atomic_Cancel sys)))))"

definition ProcessRV32C_FLDSP :: "Op \<Rightarrow> System \<Rightarrow> System result" where
  "ProcessRV32C_FLDSP op sys =
     rbind (get_CI (operand op)) (\<lambda>(operand_imm, operand_rd, operand_rs1).
     rbind (ReadStackPointer32 sys) (\<lambda>sp.
     let address = ((ucast sp) + operand_imm) in
     rbind (LoadUInt64 address sys) (\<lambda>(value, sys).
     rbind (fp_WriteUInt64 operand_rd value sys) (\<lambda>sys.
     Inr (atomic_Cancel sys)))))"

definition ProcessRV32C_FLW :: "Op \<Rightarrow> System \<Rightarrow> System result" where
  "ProcessRV32C_FLW op sys =
     rbind (get_CL (operand op)) (\<lambda>(operand_imm, operand_rd, operand_rs1).
     rbind (int_ReadUInt32 sys operand_rs1) (\<lambda>v.
     let address = ((ucast v) + operand_imm) in
     rbind (LoadUInt32 address sys) (\<lambda>(value, sys).
     rbind (fp_WriteUInt32 operand_rd value sys) (\<lambda>sys.
     Inr (atomic_Cancel sys)))))"

definition ProcessRV32C_FLWSP :: "Op \<Rightarrow> System \<Rightarrow> System result" where
  "ProcessRV32C_FLWSP op sys =
     rbind (get_CI (operand op)) (\<lambda>(operand_imm, operand_rd, operand_rs1).
     rbind (ReadStackPointer32 sys) (\<lambda>sp.
     let address = ((ucast sp) + operand_imm) in
     rbind (LoadUInt32 address sys) (\<lambda>(value, sys).
     rbind (fp_WriteUInt32 operand_rd value sys) (\<lambda>sys.
     Inr (atomic_Cancel sys)))))"

definition ProcessRV32C_FSD :: "Op \<Rightarrow> System \<Rightarrow> System result" where
  "ProcessRV32C_FSD op sys =
     rbind (get_CS (operand op)) (\<lambda>(operand_imm, operand_rs1, operand_rs2).
     rbind (int_ReadUInt32 sys operand_rs1) (\<lambda>v.
     let address = ((ucast v) + operand_imm) in
     rbind (fp_ReadUInt64 sys operand_rs2) (\<lambda>value.
     rbind (StoreUInt64 address value sys) (\<lambda>sys.
     Inr (atomic_Cancel sys)))))"

definition ProcessRV32C_FSDSP :: "Op \<Rightarrow> System \<Rightarrow> System result" where
  "ProcessRV32C_FSDSP op sys =
     rbind (get_CSS (operand op)) (\<lambda>(operand_imm, operand_rs2).
     rbind (ReadStackPointer32 sys) (\<lambda>sp.
     let address = ((ucast sp) + operand_imm) in
     rbind (fp_ReadUInt64 sys operand_rs2) (\<lambda>value.
     rbind (StoreUInt64 address value sys) (\<lambda>sys.
     Inr (atomic_Cancel sys)))))"

definition ProcessRV32C_FSW :: "Op \<Rightarrow> System \<Rightarrow> System result" where
  "ProcessRV32C_FSW op sys =
     rbind (get_CS (operand op)) (\<lambda>(operand_imm, operand_rs1, operand_rs2).
     rbind (int_ReadUInt32 sys operand_rs1) (\<lambda>v.
     let address = ((ucast v) + operand_imm) in
     rbind (fp_ReadUInt32 sys operand_rs2) (\<lambda>value.
     rbind (StoreUInt32 address value sys) (\<lambda>sys.
     Inr (atomic_Cancel sys)))))"

definition ProcessRV32C_FSWSP :: "Op \<Rightarrow> System \<Rightarrow> System result" where
  "ProcessRV32C_FSWSP op sys =
     rbind (get_CSS (operand op)) (\<lambda>(operand_imm, operand_rs2).
     rbind (ReadStackPointer32 sys) (\<lambda>sp.
     let address = ((ucast sp) + operand_imm) in
     rbind (fp_ReadUInt32 sys operand_rs2) (\<lambda>value.
     rbind (StoreUInt32 address value sys) (\<lambda>sys.
     Inr (atomic_Cancel sys)))))"

definition ProcessRV32C_J :: "Op \<Rightarrow> vaddr_t \<Rightarrow> System \<Rightarrow> System result" where
  "ProcessRV32C_J op pc sys =
     rbind (get_CJ (operand op)) (\<lambda>operand_imm.
     let sys = csr_SetPc (pc + operand_imm) sys in
     (if operand_imm <s 0 then Inr (atomic_Cancel sys)
     else Inr sys))"

definition ProcessRV32C_JAL :: "Op \<Rightarrow> vaddr_t \<Rightarrow> System \<Rightarrow> System result" where
  "ProcessRV32C_JAL op pc sys =
     rbind (get_CJ (operand op)) (\<lambda>operand_imm.
     let sys = csr_SetPc (pc + operand_imm) sys in
     rbind (WriteLinkRegister32 (ucast (pc + 2)) sys) (\<lambda>sys.
     (if operand_imm <s 0 then Inr (atomic_Cancel sys)
     else Inr sys)))"

definition ProcessRV32C_JR :: "Op \<Rightarrow> vaddr_t \<Rightarrow> System \<Rightarrow> System result" where
  "ProcessRV32C_JR op pc sys =
     rbind (get_CR (operand op)) (\<lambda>(operand_rd, operand_rs1, operand_rs2).
     rbind (int_ReadUInt32 sys operand_rs1) (\<lambda>src.
     let address = ((NOT (0x1 :: uint32)) AND src) in
     let sys = csr_SetPc (ucast address) sys in
     (if (ucast address :: uint64) < pc then Inr (atomic_Cancel sys)
     else Inr sys)))"

definition ProcessRV32C_JALR :: "Op \<Rightarrow> vaddr_t \<Rightarrow> System \<Rightarrow> System result" where
  "ProcessRV32C_JALR op pc sys =
     rbind (get_CR (operand op)) (\<lambda>(operand_rd, operand_rs1, operand_rs2).
     rbind (int_ReadUInt32 sys operand_rs1) (\<lambda>src.
     let address = ((NOT (0x1 :: uint32)) AND src) in
     let sys = csr_SetPc (ucast address) sys in
     rbind (WriteLinkRegister32 (ucast (pc + 2)) sys) (\<lambda>sys.
     (if (ucast address :: uint64) < pc then Inr (atomic_Cancel sys)
     else Inr sys))))"

definition ProcessRV32C_LW :: "Op \<Rightarrow> System \<Rightarrow> System result" where
  "ProcessRV32C_LW op sys =
     rbind (get_CL (operand op)) (\<lambda>(operand_imm, operand_rd, operand_rs1).
     rbind (int_ReadUInt32 sys operand_rs1) (\<lambda>v.
     let address = ((ucast v) + operand_imm) in
     rbind (LoadUInt32 address sys) (\<lambda>(value, sys).
     rbind (int_WriteUInt32 operand_rd value sys) (\<lambda>sys.
     Inr (atomic_Cancel sys)))))"

definition ProcessRV32C_LWSP :: "Op \<Rightarrow> System \<Rightarrow> System result" where
  "ProcessRV32C_LWSP op sys =
     rbind (get_CI (operand op)) (\<lambda>(operand_imm, operand_rd, operand_rs1).
     rbind (ReadStackPointer32 sys) (\<lambda>sp.
     let address = ((ucast sp) + operand_imm) in
     rbind (LoadUInt32 address sys) (\<lambda>(value, sys).
     rbind (int_WriteUInt32 operand_rd value sys) (\<lambda>sys.
     Inr (atomic_Cancel sys)))))"

definition ProcessRV32C_SW :: "Op \<Rightarrow> System \<Rightarrow> System result" where
  "ProcessRV32C_SW op sys =
     rbind (get_CS (operand op)) (\<lambda>(operand_imm, operand_rs1, operand_rs2).
     rbind (int_ReadUInt32 sys operand_rs1) (\<lambda>v.
     let address = ((ucast v) + operand_imm) in
     rbind (int_ReadUInt32 sys operand_rs2) (\<lambda>value.
     rbind (StoreUInt32 address value sys) (\<lambda>sys.
     Inr (atomic_Cancel sys)))))"

definition ProcessRV32C_SWSP :: "Op \<Rightarrow> System \<Rightarrow> System result" where
  "ProcessRV32C_SWSP op sys =
     rbind (get_CSS (operand op)) (\<lambda>(operand_imm, operand_rs2).
     rbind (ReadStackPointer32 sys) (\<lambda>sp.
     let address = ((ucast sp) + operand_imm) in
     rbind (int_ReadUInt32 sys operand_rs2) (\<lambda>value.
     rbind (StoreUInt32 address value sys) (\<lambda>sys.
     Inr (atomic_Cancel sys)))))"

definition ProcessRV32C :: "Op \<Rightarrow> vaddr_t \<Rightarrow> System \<Rightarrow> System result" where
  "ProcessRV32C op pc sys =
     (let sys = atomic_Cancel sys in
     (case opCode op of
       rvc op_c_nop \<Rightarrow> Inr sys
     | rvc op_c_mv \<Rightarrow> ProcessRV32C_Alu op sys
     | rvc op_c_add \<Rightarrow> ProcessRV32C_Alu op sys
     | rvc op_c_sub \<Rightarrow> ProcessRV32C_Alu op sys
     | rvc op_c_and \<Rightarrow> ProcessRV32C_Alu op sys
     | rvc op_c_or \<Rightarrow> ProcessRV32C_Alu op sys
     | rvc op_c_xor \<Rightarrow> ProcessRV32C_Alu op sys
     | rvc op_c_li \<Rightarrow> ProcessRV32C_AluImm op sys
     | rvc op_c_lui \<Rightarrow> ProcessRV32C_AluImm op sys
     | rvc op_c_addi \<Rightarrow> ProcessRV32C_AluImm op sys
     | rvc op_c_andi \<Rightarrow> ProcessRV32C_AluImm op sys
     | rvc op_c_srli \<Rightarrow> ProcessRV32C_AluImm op sys
     | rvc op_c_srai \<Rightarrow> ProcessRV32C_AluImm op sys
     | rvc op_c_slli \<Rightarrow> ProcessRV32C_AluImm op sys
     | rvc op_c_beqz \<Rightarrow> ProcessRV32C_Branch op pc sys
     | rvc op_c_bnez \<Rightarrow> ProcessRV32C_Branch op pc sys
     | rvc op_c_addi4spn \<Rightarrow> ProcessRV32C_ADDI4SPN op sys
     | rvc op_c_addi16sp \<Rightarrow> ProcessRV32C_ADDI16SP op sys
     | rvc op_c_fld \<Rightarrow> ProcessRV32C_FLD op sys
     | rvc op_c_fldsp \<Rightarrow> ProcessRV32C_FLDSP op sys
     | rvc op_c_flw \<Rightarrow> ProcessRV32C_FLW op sys
     | rvc op_c_flwsp \<Rightarrow> ProcessRV32C_FLWSP op sys
     | rvc op_c_fsd \<Rightarrow> ProcessRV32C_FSD op sys
     | rvc op_c_fsdsp \<Rightarrow> ProcessRV32C_FSDSP op sys
     | rvc op_c_fsw \<Rightarrow> ProcessRV32C_FSW op sys
     | rvc op_c_fswsp \<Rightarrow> ProcessRV32C_FSWSP op sys
     | rvc op_c_j \<Rightarrow> ProcessRV32C_J op pc sys
     | rvc op_c_jal \<Rightarrow> ProcessRV32C_JAL op pc sys
     | rvc op_c_jr \<Rightarrow> ProcessRV32C_JR op pc sys
     | rvc op_c_jalr \<Rightarrow> ProcessRV32C_JALR op pc sys
     | rvc op_c_lw \<Rightarrow> ProcessRV32C_LW op sys
     | rvc op_c_lwsp \<Rightarrow> ProcessRV32C_LWSP op sys
     | rvc op_c_sw \<Rightarrow> ProcessRV32C_SW op sys
     | rvc op_c_swsp \<Rightarrow> ProcessRV32C_SWSP op sys
     | _ \<Rightarrow> Inl ProcessExit))"

section \<open>RV64C\<close>

definition ProcessRV64C_Alu :: "Op \<Rightarrow> System \<Rightarrow> System result" where
  "ProcessRV64C_Alu op sys =
     rbind (get_CR (operand op)) (\<lambda>(operand_rd, operand_rs1, operand_rs2).
     rbind (int_ReadInt64 sys operand_rs1) (\<lambda>src1.
     rbind (int_ReadInt64 sys operand_rs2) (\<lambda>src2.
     rbind (int_ReadInt32 sys operand_rs1) (\<lambda>src1_s32.
     rbind (int_ReadInt32 sys operand_rs2) (\<lambda>src2_s32.
     rbind (case opCode op of
       rvc op_c_mv \<Rightarrow> Inr src2
     | rvc op_c_add \<Rightarrow> Inr (src1 + src2)
     | rvc op_c_addw \<Rightarrow> Inr (SignExtend 32 (scast (src1_s32 + src2_s32)))
     | rvc op_c_sub \<Rightarrow> Inr (src1 - src2)
     | rvc op_c_subw \<Rightarrow> Inr (SignExtend 32 (scast (src1_s32 - src2_s32)))
     | rvc op_c_and \<Rightarrow> Inr (src1 AND src2)
     | rvc op_c_or \<Rightarrow> Inr (src1 OR src2)
     | rvc op_c_xor \<Rightarrow> Inr (src1 XOR src2)
     | _ \<Rightarrow> Inl ProcessExit) (\<lambda>value.
     int_WriteInt64 operand_rd value sys))))))"

definition ProcessRV64C_AluImm :: "Op \<Rightarrow> System \<Rightarrow> System result" where
  "ProcessRV64C_AluImm op sys =
     rbind (get_CI (operand op)) (\<lambda>(operand_imm, operand_rd, operand_rs1).
     rbind (int_ReadInt64 sys operand_rs1) (\<lambda>src1.
     rbind (int_ReadUInt64 sys operand_rs1) (\<lambda>src1_u.
     rbind (int_ReadInt32 sys operand_rs1) (\<lambda>src1_s32.
     rbind (case opCode op of
       rvc op_c_li \<Rightarrow> Inr operand_imm
     | rvc op_c_lui \<Rightarrow> Inr operand_imm
     | rvc op_c_addi \<Rightarrow> Inr (src1 + operand_imm)
     | rvc op_c_addiw \<Rightarrow> Inr (SignExtend 32 ((scast src1_s32) + operand_imm))
     | rvc op_c_andi \<Rightarrow> Inr (src1 AND operand_imm)
     | rvc op_c_srli \<Rightarrow> shr src1_u (sint operand_imm)
     | rvc op_c_srai \<Rightarrow> sar src1 (sint operand_imm)
     | rvc op_c_slli \<Rightarrow> shl src1 (sint operand_imm)
     | _ \<Rightarrow> Inl ProcessExit) (\<lambda>value.
     int_WriteInt64 operand_rd value sys)))))"

definition ProcessRV64C_Branch :: "Op \<Rightarrow> vaddr_t \<Rightarrow> System \<Rightarrow> System result" where
  "ProcessRV64C_Branch op pc sys =
     rbind (get_CB (operand op)) (\<lambda>(operand_imm, operand_rs1).
     rbind (int_ReadInt64 sys operand_rs1) (\<lambda>src1.
     rbind (case opCode op of
       rvc op_c_beqz \<Rightarrow> Inr (src1 = 0)
     | rvc op_c_bnez \<Rightarrow> Inr (src1 \<noteq> 0)
     | _ \<Rightarrow> Inl ProcessExit) (\<lambda>cond.
     (if cond then let sys = csr_SetPc (pc + operand_imm) sys in
     (if operand_imm <s 0 then Inr (atomic_Cancel sys)
     else Inr sys)
     else Inr sys))))"

definition ProcessRV64C_ADDI4SPN :: "Op \<Rightarrow> System \<Rightarrow> System result" where
  "ProcessRV64C_ADDI4SPN op sys =
     rbind (get_CIW (operand op)) (\<lambda>(operand_imm, operand_rd).
     rbind (ReadStackPointer64 sys) (\<lambda>sp.
     let result = (sp + operand_imm) in
     int_WriteUInt64 operand_rd result sys))"

definition ProcessRV64C_ADDI16SP :: "Op \<Rightarrow> System \<Rightarrow> System result" where
  "ProcessRV64C_ADDI16SP op sys =
     rbind (get_CI (operand op)) (\<lambda>(operand_imm, operand_rd, operand_rs1).
     rbind (ReadStackPointer64 sys) (\<lambda>sp.
     let result = (sp + operand_imm) in
     int_WriteUInt64 operand_rd result sys))"

definition ProcessRV64C_FLD :: "Op \<Rightarrow> System \<Rightarrow> System result" where
  "ProcessRV64C_FLD op sys =
     rbind (get_CL (operand op)) (\<lambda>(operand_imm, operand_rd, operand_rs1).
     rbind (int_ReadUInt64 sys operand_rs1) (\<lambda>v.
     let address = (v + operand_imm) in
     rbind (LoadUInt64 address sys) (\<lambda>(value, sys).
     rbind (fp_WriteUInt64 operand_rd value sys) (\<lambda>sys.
     Inr (atomic_Cancel sys)))))"

definition ProcessRV64C_FLDSP :: "Op \<Rightarrow> System \<Rightarrow> System result" where
  "ProcessRV64C_FLDSP op sys =
     rbind (get_CI (operand op)) (\<lambda>(operand_imm, operand_rd, operand_rs1).
     rbind (ReadStackPointer64 sys) (\<lambda>sp.
     let address = (sp + operand_imm) in
     rbind (LoadUInt64 address sys) (\<lambda>(value, sys).
     rbind (fp_WriteUInt64 operand_rd value sys) (\<lambda>sys.
     Inr (atomic_Cancel sys)))))"

definition ProcessRV64C_FSD :: "Op \<Rightarrow> System \<Rightarrow> System result" where
  "ProcessRV64C_FSD op sys =
     rbind (get_CS (operand op)) (\<lambda>(operand_imm, operand_rs1, operand_rs2).
     rbind (int_ReadUInt64 sys operand_rs1) (\<lambda>v.
     let address = (v + operand_imm) in
     rbind (fp_ReadUInt64 sys operand_rs2) (\<lambda>value.
     rbind (StoreUInt64 address value sys) (\<lambda>sys.
     Inr (atomic_Cancel sys)))))"

definition ProcessRV64C_FSDSP :: "Op \<Rightarrow> System \<Rightarrow> System result" where
  "ProcessRV64C_FSDSP op sys =
     rbind (get_CSS (operand op)) (\<lambda>(operand_imm, operand_rs2).
     rbind (ReadStackPointer64 sys) (\<lambda>sp.
     let address = (sp + operand_imm) in
     rbind (fp_ReadUInt64 sys operand_rs2) (\<lambda>value.
     rbind (StoreUInt64 address value sys) (\<lambda>sys.
     Inr (atomic_Cancel sys)))))"

definition ProcessRV64C_J :: "Op \<Rightarrow> vaddr_t \<Rightarrow> System \<Rightarrow> System result" where
  "ProcessRV64C_J op pc sys =
     rbind (get_CJ (operand op)) (\<lambda>operand_imm.
     let sys = csr_SetPc (pc + operand_imm) sys in
     (if operand_imm <s 0 then Inr (atomic_Cancel sys)
     else Inr sys))"

definition ProcessRV64C_JR :: "Op \<Rightarrow> vaddr_t \<Rightarrow> System \<Rightarrow> System result" where
  "ProcessRV64C_JR op pc sys =
     rbind (get_CR (operand op)) (\<lambda>(operand_rd, operand_rs1, operand_rs2).
     rbind (int_ReadUInt64 sys operand_rs1) (\<lambda>src.
     let address = ((scast (NOT (0x1 :: uint32))) AND src) in
     let sys = csr_SetPc address sys in
     (if address < pc then Inr (atomic_Cancel sys)
     else Inr sys)))"

definition ProcessRV64C_JALR :: "Op \<Rightarrow> vaddr_t \<Rightarrow> System \<Rightarrow> System result" where
  "ProcessRV64C_JALR op pc sys =
     rbind (get_CR (operand op)) (\<lambda>(operand_rd, operand_rs1, operand_rs2).
     rbind (int_ReadUInt64 sys operand_rs1) (\<lambda>src.
     let address = ((scast (NOT (0x1 :: uint32))) AND src) in
     let sys = csr_SetPc address sys in
     rbind (WriteLinkRegister64 (pc + 2) sys) (\<lambda>sys.
     (if address < pc then Inr (atomic_Cancel sys)
     else Inr sys))))"

definition ProcessRV64C_LD :: "Op \<Rightarrow> System \<Rightarrow> System result" where
  "ProcessRV64C_LD op sys =
     rbind (get_CL (operand op)) (\<lambda>(operand_imm, operand_rd, operand_rs1).
     rbind (int_ReadUInt64 sys operand_rs1) (\<lambda>v.
     let address = (v + operand_imm) in
     rbind (LoadUInt64 address sys) (\<lambda>(value, sys).
     rbind (int_WriteUInt64 operand_rd value sys) (\<lambda>sys.
     Inr (atomic_Cancel sys)))))"

definition ProcessRV64C_LDSP :: "Op \<Rightarrow> System \<Rightarrow> System result" where
  "ProcessRV64C_LDSP op sys =
     rbind (get_CI (operand op)) (\<lambda>(operand_imm, operand_rd, operand_rs1).
     rbind (ReadStackPointer64 sys) (\<lambda>sp.
     let address = (sp + operand_imm) in
     rbind (LoadUInt64 address sys) (\<lambda>(value, sys).
     rbind (int_WriteUInt64 operand_rd value sys) (\<lambda>sys.
     Inr (atomic_Cancel sys)))))"

definition ProcessRV64C_LW :: "Op \<Rightarrow> System \<Rightarrow> System result" where
  "ProcessRV64C_LW op sys =
     rbind (get_CL (operand op)) (\<lambda>(operand_imm, operand_rd, operand_rs1).
     rbind (int_ReadUInt64 sys operand_rs1) (\<lambda>v.
     let address = (v + operand_imm) in
     rbind (LoadUInt32 address sys) (\<lambda>(v, sys).
     let value = (SignExtend 32 (ucast v)) in
     rbind (int_WriteUInt64 operand_rd value sys) (\<lambda>sys.
     Inr (atomic_Cancel sys)))))"

definition ProcessRV64C_LWSP :: "Op \<Rightarrow> System \<Rightarrow> System result" where
  "ProcessRV64C_LWSP op sys =
     rbind (get_CI (operand op)) (\<lambda>(operand_imm, operand_rd, operand_rs1).
     rbind (ReadStackPointer64 sys) (\<lambda>sp.
     let address = (sp + operand_imm) in
     rbind (LoadUInt32 address sys) (\<lambda>(v, sys).
     let value = (SignExtend 32 (ucast v)) in
     rbind (int_WriteUInt64 operand_rd value sys) (\<lambda>sys.
     Inr (atomic_Cancel sys)))))"

definition ProcessRV64C_SD :: "Op \<Rightarrow> System \<Rightarrow> System result" where
  "ProcessRV64C_SD op sys =
     rbind (get_CS (operand op)) (\<lambda>(operand_imm, operand_rs1, operand_rs2).
     rbind (int_ReadUInt64 sys operand_rs1) (\<lambda>v.
     let address = (v + operand_imm) in
     rbind (int_ReadUInt64 sys operand_rs2) (\<lambda>value.
     rbind (StoreUInt64 address value sys) (\<lambda>sys.
     Inr (atomic_Cancel sys)))))"

definition ProcessRV64C_SDSP :: "Op \<Rightarrow> System \<Rightarrow> System result" where
  "ProcessRV64C_SDSP op sys =
     rbind (get_CSS (operand op)) (\<lambda>(operand_imm, operand_rs2).
     rbind (ReadStackPointer64 sys) (\<lambda>sp.
     let address = (sp + operand_imm) in
     rbind (int_ReadUInt64 sys operand_rs2) (\<lambda>value.
     rbind (StoreUInt64 address value sys) (\<lambda>sys.
     Inr (atomic_Cancel sys)))))"

definition ProcessRV64C_SW :: "Op \<Rightarrow> System \<Rightarrow> System result" where
  "ProcessRV64C_SW op sys =
     rbind (get_CS (operand op)) (\<lambda>(operand_imm, operand_rs1, operand_rs2).
     rbind (int_ReadUInt64 sys operand_rs1) (\<lambda>v.
     let address = (v + operand_imm) in
     rbind (int_ReadUInt32 sys operand_rs2) (\<lambda>value.
     rbind (StoreUInt32 address value sys) (\<lambda>sys.
     Inr (atomic_Cancel sys)))))"

definition ProcessRV64C_SWSP :: "Op \<Rightarrow> System \<Rightarrow> System result" where
  "ProcessRV64C_SWSP op sys =
     rbind (get_CSS (operand op)) (\<lambda>(operand_imm, operand_rs2).
     rbind (ReadStackPointer64 sys) (\<lambda>sp.
     let address = (sp + operand_imm) in
     rbind (int_ReadUInt32 sys operand_rs2) (\<lambda>value.
     rbind (StoreUInt32 address value sys) (\<lambda>sys.
     Inr (atomic_Cancel sys)))))"

definition ProcessRV64C :: "Op \<Rightarrow> vaddr_t \<Rightarrow> System \<Rightarrow> System result" where
  "ProcessRV64C op pc sys =
     (case opCode op of
       rvc op_c_nop \<Rightarrow> Inr sys
     | rvc op_c_mv \<Rightarrow> ProcessRV64C_Alu op sys
     | rvc op_c_add \<Rightarrow> ProcessRV64C_Alu op sys
     | rvc op_c_addw \<Rightarrow> ProcessRV64C_Alu op sys
     | rvc op_c_sub \<Rightarrow> ProcessRV64C_Alu op sys
     | rvc op_c_subw \<Rightarrow> ProcessRV64C_Alu op sys
     | rvc op_c_and \<Rightarrow> ProcessRV64C_Alu op sys
     | rvc op_c_or \<Rightarrow> ProcessRV64C_Alu op sys
     | rvc op_c_xor \<Rightarrow> ProcessRV64C_Alu op sys
     | rvc op_c_li \<Rightarrow> ProcessRV64C_AluImm op sys
     | rvc op_c_lui \<Rightarrow> ProcessRV64C_AluImm op sys
     | rvc op_c_addi \<Rightarrow> ProcessRV64C_AluImm op sys
     | rvc op_c_addiw \<Rightarrow> ProcessRV64C_AluImm op sys
     | rvc op_c_andi \<Rightarrow> ProcessRV64C_AluImm op sys
     | rvc op_c_srli \<Rightarrow> ProcessRV64C_AluImm op sys
     | rvc op_c_srai \<Rightarrow> ProcessRV64C_AluImm op sys
     | rvc op_c_slli \<Rightarrow> ProcessRV64C_AluImm op sys
     | rvc op_c_beqz \<Rightarrow> ProcessRV64C_Branch op pc sys
     | rvc op_c_bnez \<Rightarrow> ProcessRV64C_Branch op pc sys
     | rvc op_c_addi4spn \<Rightarrow> ProcessRV64C_ADDI4SPN op sys
     | rvc op_c_addi16sp \<Rightarrow> ProcessRV64C_ADDI16SP op sys
     | rvc op_c_fld \<Rightarrow> ProcessRV64C_FLD op sys
     | rvc op_c_fldsp \<Rightarrow> ProcessRV64C_FLDSP op sys
     | rvc op_c_fsd \<Rightarrow> ProcessRV64C_FSD op sys
     | rvc op_c_fsdsp \<Rightarrow> ProcessRV64C_FSDSP op sys
     | rvc op_c_j \<Rightarrow> ProcessRV64C_J op pc sys
     | rvc op_c_jr \<Rightarrow> ProcessRV64C_JR op pc sys
     | rvc op_c_jalr \<Rightarrow> ProcessRV64C_JALR op pc sys
     | rvc op_c_ld \<Rightarrow> ProcessRV64C_LD op sys
     | rvc op_c_ldsp \<Rightarrow> ProcessRV64C_LDSP op sys
     | rvc op_c_lw \<Rightarrow> ProcessRV64C_LW op sys
     | rvc op_c_lwsp \<Rightarrow> ProcessRV64C_LWSP op sys
     | rvc op_c_sd \<Rightarrow> ProcessRV64C_SD op sys
     | rvc op_c_sdsp \<Rightarrow> ProcessRV64C_SDSP op sys
     | rvc op_c_sw \<Rightarrow> ProcessRV64C_SW op sys
     | rvc op_c_swsp \<Rightarrow> ProcessRV64C_SWSP op sys
     | _ \<Rightarrow> Inl ProcessExit)"

end
