(* ===== verification/ExecutorFD.thy ===== *)
theory ExecutorFD
  imports ExecutorBase
begin

text \<open>
  The floating-point instructions of \<^verbatim>\<open>cpu/Executor.cpp\<close>. The arithmetic is that of \<open>FpApi\<close>.
\<close>

section \<open>Single precision\<close>

definition ProcessRVF_MulAdd :: "host \<Rightarrow> Op \<Rightarrow> System \<Rightarrow> System result" where
  "ProcessRVF_MulAdd h op sys =
     rbind (get_R4 (operand op)) (\<lambda>(operand_rd, operand_rs1, operand_rs2, operand_rs3, operand_funct3, operand_funct2).
     rbind (fp_ReadUInt64 sys operand_rs1) (\<lambda>v.
     let src1 = (UnboxFloat v) in
     rbind (fp_ReadUInt64 sys operand_rs2) (\<lambda>v.
     let src2 = (UnboxFloat v) in
     rbind (fp_ReadUInt64 sys operand_rs3) (\<lambda>v.
     let src3 = (UnboxFloat v) in
     let roundMode = GetRoundMode operand_funct3 sys in
     rbind (ScopedFpRound roundMode) (\<lambda>_.
     rbind (case opCode op of
       rvf op_fmadd_s \<Rightarrow> fp_run (MulAdd32 (host_softfloat h) src1 src2 src3) sys
     | rvf op_fmsub_s \<Rightarrow> fp_run (MulSub32 (host_softfloat h) src1 src2 src3) sys
     | rvf op_fnmadd_s \<Rightarrow> fp_run (NegMulAdd32 (host_softfloat h) src1 src2 src3) sys
     | rvf op_fnmsub_s \<Rightarrow> fp_run (NegMulSub32 (host_softfloat h) src1 src2 src3) sys
     | _ \<Rightarrow> Inl ProcessExit) (\<lambda>(result, sys).
     let sys = UpdateFpCsr sys in
     rbind (NotifyFpDirty sys) (\<lambda>sys.
     fp_WriteUInt32 operand_rd result sys)))))))"

definition ProcessRVF_Compute :: "host \<Rightarrow> Op \<Rightarrow> System \<Rightarrow> System result" where
  "ProcessRVF_Compute h op sys =
     rbind (get_R (operand op)) (\<lambda>(operand_rd, operand_rs1, operand_rs2, operand_funct3, operand_funct7).
     rbind (fp_ReadUInt64 sys operand_rs1) (\<lambda>v.
     let src1 = (UnboxFloat v) in
     rbind (fp_ReadUInt64 sys operand_rs2) (\<lambda>v.
     let src2 = (UnboxFloat v) in
     rbind (int_ReadInt32 sys operand_rs1) (\<lambda>src1_s32.
     rbind (int_ReadInt64 sys operand_rs1) (\<lambda>src1_s64.
     rbind (int_ReadUInt32 sys operand_rs1) (\<lambda>src1_u32.
     rbind (int_ReadUInt64 sys operand_rs1) (\<lambda>src1_u64.
     let roundMode = GetRoundMode operand_funct3 sys in
     rbind (ScopedFpRound roundMode) (\<lambda>_.
     rbind (case opCode op of
       rvf op_fadd_s \<Rightarrow> rbind (fp_run (Add32 (host_softfloat h) src1 src2) sys) (\<lambda>(r, sys).
     Inr ((ucast r :: uint64), sys))
     | rvf op_fsub_s \<Rightarrow> rbind (fp_run (Sub32 (host_softfloat h) src1 src2) sys) (\<lambda>(r, sys).
     Inr ((ucast r :: uint64), sys))
     | rvf op_fmul_s \<Rightarrow> rbind (fp_run (Mul32 (host_softfloat h) src1 src2) sys) (\<lambda>(r, sys).
     Inr ((ucast r :: uint64), sys))
     | rvf op_fdiv_s \<Rightarrow> rbind (fp_run (Div32 (host_softfloat h) src1 src2) sys) (\<lambda>(r, sys).
     Inr ((ucast r :: uint64), sys))
     | rvf op_fsqrt_s \<Rightarrow> rbind (fp_run (Sqrt32 (host_softfloat h) src1) sys) (\<lambda>(r, sys).
     Inr ((ucast r :: uint64), sys))
     | rvf op_fmin_s \<Rightarrow> rbind (fp_run (Min32 (host_softfloat h) src1 src2) sys) (\<lambda>(r, sys).
     Inr ((ucast r :: uint64), sys))
     | rvf op_fmax_s \<Rightarrow> rbind (fp_run (Max32 (host_softfloat h) src1 src2) sys) (\<lambda>(r, sys).
     Inr ((ucast r :: uint64), sys))
     | rvf op_fcvt_s_w \<Rightarrow> rbind (fp_run (Int32ToFloat (host_softfloat h) src1_s32) sys) (\<lambda>(r, sys).
     Inr ((ucast r :: uint64), sys))
     | rvf op_fcvt_s_wu \<Rightarrow> rbind (fp_run (UInt32ToFloat (host_softfloat h) src1_u32) sys) (\<lambda>(r, sys).
     Inr ((ucast r :: uint64), sys))
     | rvf op_fcvt_s_l \<Rightarrow> rbind (fp_run (Int64ToFloat (host_softfloat h) src1_s64) sys) (\<lambda>(r, sys).
     Inr ((ucast r :: uint64), sys))
     | rvf op_fcvt_s_lu \<Rightarrow> rbind (fp_run (UInt64ToFloat (host_softfloat h) src1_u64) sys) (\<lambda>(r, sys).
     Inr ((ucast r :: uint64), sys))
     | _ \<Rightarrow> Inl ProcessExit) (\<lambda>(value, sys).
     let sys = UpdateFpCsr sys in
     rbind (NotifyFpDirty sys) (\<lambda>sys.
     fp_WriteUInt32 operand_rd (ucast value) sys))))))))))"

definition ProcessRVF_Compare :: "host \<Rightarrow> Op \<Rightarrow> System \<Rightarrow> System result" where
  "ProcessRVF_Compare h op sys =
     rbind (get_R (operand op)) (\<lambda>(operand_rd, operand_rs1, operand_rs2, operand_funct3, operand_funct7).
     rbind (fp_ReadUInt64 sys operand_rs1) (\<lambda>v.
     let src1 = (UnboxFloat v) in
     rbind (fp_ReadUInt64 sys operand_rs2) (\<lambda>v.
     let src2 = (UnboxFloat v) in
     rbind (case opCode op of
       rvf op_feq_s \<Rightarrow> rbind (fp_run (Eq32 (host_softfloat h) src1 src2) sys) (\<lambda>(r, sys).
     Inr ((if r then 1 else 0), sys))
     | rvf op_flt_s \<Rightarrow> rbind (fp_run (Lt32 (host_softfloat h) src1 src2) sys) (\<lambda>(r, sys).
     Inr ((if r then 1 else 0), sys))
     | rvf op_fle_s \<Rightarrow> rbind (fp_run (Le32 (host_softfloat h) src1 src2) sys) (\<lambda>(r, sys).
     Inr ((if r then 1 else 0), sys))
     | _ \<Rightarrow> Inl ProcessExit) (\<lambda>(value, sys).
     let sys = UpdateFpCsr sys in
     int_WriteInt64 operand_rd value sys))))"

definition ProcessRVF_Class :: "Op \<Rightarrow> System \<Rightarrow> System result" where
  "ProcessRVF_Class op sys =
     rbind (get_R (operand op)) (\<lambda>(operand_rd, operand_rs1, operand_rs2, operand_funct3, operand_funct7).
     rbind (fp_ReadUInt32 sys operand_rs1) (\<lambda>src.
     let value = (ConvertToRvFpClass32 src) in
     int_WriteUInt64 operand_rd (ucast value) sys))"

definition ProcessRVF_MoveToInt :: "Op \<Rightarrow> System \<Rightarrow> System result" where
  "ProcessRVF_MoveToInt op sys =
     rbind (get_R (operand op)) (\<lambda>(operand_rd, operand_rs1, operand_rs2, operand_funct3, operand_funct7).
     rbind (fp_ReadUInt32 sys operand_rs1) (\<lambda>src.
     let value = (SignExtend 32 (ucast src)) in
     int_WriteInt64 operand_rd value sys))"

definition ProcessRVF_MoveToFp :: "Op \<Rightarrow> System \<Rightarrow> System result" where
  "ProcessRVF_MoveToFp op sys =
     rbind (get_R (operand op)) (\<lambda>(operand_rd, operand_rs1, operand_rs2, operand_funct3, operand_funct7).
     rbind (int_ReadUInt32 sys operand_rs1) (\<lambda>value.
     rbind (NotifyFpDirty sys) (\<lambda>sys.
     fp_WriteUInt32 operand_rd value sys)))"

definition ProcessRVF_ConvertToInt32 :: "host \<Rightarrow> Op \<Rightarrow> System \<Rightarrow> System result" where
  "ProcessRVF_ConvertToInt32 h op sys =
     rbind (get_R (operand op)) (\<lambda>(operand_rd, operand_rs1, operand_rs2, operand_funct3, operand_funct7).
     rbind (fp_ReadUInt32 sys operand_rs1) (\<lambda>src.
     let roundMode = GetRoundMode operand_funct3 sys in
     rbind (case opCode op of
       rvf op_fcvt_w_s \<Rightarrow> rbind (fp_run (FloatToInt32 (host_softfloat h) src roundMode) sys) (\<lambda>(r, sys).
     Inr ((SignExtend 32 (scast r)), sys))
     | rvf op_fcvt_wu_s \<Rightarrow> rbind (fp_run (FloatToUInt32 (host_softfloat h) src roundMode) sys) (\<lambda>(r, sys).
     Inr ((SignExtend 32 (ucast r)), sys))
     | _ \<Rightarrow> Inl ProcessExit) (\<lambda>(value, sys).
     let sys = UpdateFpCsr sys in
     int_WriteInt64 operand_rd value sys)))"

definition ProcessRVF_ConvertToInt64 :: "host \<Rightarrow> Op \<Rightarrow> System \<Rightarrow> System result" where
  "ProcessRVF_ConvertToInt64 h op sys =
     rbind (get_R (operand op)) (\<lambda>(operand_rd, operand_rs1, operand_rs2, operand_funct3, operand_funct7).
     rbind (fp_ReadUInt64 sys operand_rs1) (\<lambda>src.
     let roundMode = GetRoundMode operand_funct3 sys in
     rbind (case opCode op of
       rvf op_fcvt_l_s \<Rightarrow> fp_run (FloatToInt64 (host_softfloat h) (ucast src) roundMode) sys
     | rvf op_fcvt_lu_s \<Rightarrow> fp_run (FloatToUInt64 (host_softfloat h) (ucast src) roundMode) sys
     | _ \<Rightarrow> Inl ProcessExit) (\<lambda>(value, sys).
     let sys = UpdateFpCsr sys in
     int_WriteInt64 operand_rd value sys)))"

definition ProcessRVF_ConvertSign :: "Op \<Rightarrow> System \<Rightarrow> System result" where
  "ProcessRVF_ConvertSign op sys =
     rbind (get_R (operand op)) (\<lambda>(operand_rd, operand_rs1, operand_rs2, operand_funct3, operand_funct7).
     rbind (fp_ReadUInt64 sys operand_rs1) (\<lambda>v.
     let src1 = (UnboxFloat v) in
     rbind (fp_ReadUInt64 sys operand_rs2) (\<lambda>v.
     let src2 = (UnboxFloat v) in
     rbind (case opCode op of
       rvf op_fsgnj_s \<Rightarrow> Inr ((src1 AND 0x7fffffff) OR (src2 AND (0x80000000 :: uint32)))
     | rvf op_fsgnjn_s \<Rightarrow> Inr ((src1 AND 0x7fffffff) OR ((NOT src2) AND (0x80000000 :: uint32)))
     | rvf op_fsgnjx_s \<Rightarrow> Inr (src1 XOR (src2 AND (0x80000000 :: uint32)))
     | _ \<Rightarrow> Inl ProcessExit) (\<lambda>value.
     let sys = UpdateFpCsr sys in
     rbind (NotifyFpDirty sys) (\<lambda>sys.
     fp_WriteUInt32 operand_rd value sys)))))"

definition ProcessRV32F_Load :: "Op \<Rightarrow> System \<Rightarrow> System result" where
  "ProcessRV32F_Load op sys =
     rbind (get_I (operand op)) (\<lambda>(operand_imm, operand_rd, operand_rs1, operand_funct3).
     rbind (int_ReadUInt32 sys operand_rs1) (\<lambda>v.
     let address = ((ucast v) + operand_imm) in
     rbind (LoadUInt32 address sys) (\<lambda>(value, sys).
     rbind (NotifyFpDirty sys) (\<lambda>sys.
     fp_WriteUInt32 operand_rd value sys))))"

definition ProcessRV32F_Store :: "Op \<Rightarrow> System \<Rightarrow> System result" where
  "ProcessRV32F_Store op sys =
     rbind (get_S (operand op)) (\<lambda>(operand_imm, operand_rs1, operand_rs2, operand_funct3).
     rbind (int_ReadUInt32 sys operand_rs1) (\<lambda>v.
     let address = ((ucast v) + operand_imm) in
     rbind (fp_ReadUInt32 sys operand_rs2) (\<lambda>value.
     StoreUInt32 address value sys)))"

definition ProcessRV64F_Load :: "Op \<Rightarrow> System \<Rightarrow> System result" where
  "ProcessRV64F_Load op sys =
     rbind (get_I (operand op)) (\<lambda>(operand_imm, operand_rd, operand_rs1, operand_funct3).
     rbind (int_ReadUInt64 sys operand_rs1) (\<lambda>v.
     let address = (v + operand_imm) in
     rbind (LoadUInt32 address sys) (\<lambda>(value, sys).
     rbind (NotifyFpDirty sys) (\<lambda>sys.
     fp_WriteUInt32 operand_rd value sys))))"

definition ProcessRV64F_Store :: "Op \<Rightarrow> System \<Rightarrow> System result" where
  "ProcessRV64F_Store op sys =
     rbind (get_S (operand op)) (\<lambda>(operand_imm, operand_rs1, operand_rs2, operand_funct3).
     rbind (int_ReadUInt64 sys operand_rs1) (\<lambda>v.
     let address = (v + operand_imm) in
     rbind (fp_ReadUInt32 sys operand_rs2) (\<lambda>value.
     StoreUInt32 address value sys)))"

definition ProcessRVF :: "host \<Rightarrow> Op \<Rightarrow> System \<Rightarrow> System result" where
  "ProcessRVF h op sys =
     (let sys = atomic_Cancel sys in
     (case opCode op of
       rvf op_flw \<Rightarrow> (if opClass op = RV32F then ProcessRV32F_Load op sys
       else (if opClass op = RV64F then ProcessRV64F_Load op sys
       else Inl EmuException))
     | rvf op_fsw \<Rightarrow> (if opClass op = RV32F then ProcessRV32F_Store op sys
       else (if opClass op = RV64F then ProcessRV64F_Store op sys
       else Inl EmuException))
     | rvf op_fmadd_s \<Rightarrow> ProcessRVF_MulAdd h op sys
     | rvf op_fmsub_s \<Rightarrow> ProcessRVF_MulAdd h op sys
     | rvf op_fnmadd_s \<Rightarrow> ProcessRVF_MulAdd h op sys
     | rvf op_fnmsub_s \<Rightarrow> ProcessRVF_MulAdd h op sys
     | rvf op_fadd_s \<Rightarrow> ProcessRVF_Compute h op sys
     | rvf op_fsub_s \<Rightarrow> ProcessRVF_Compute h op sys
     | rvf op_fmul_s \<Rightarrow> ProcessRVF_Compute h op sys
     | rvf op_fdiv_s \<Rightarrow> ProcessRVF_Compute h op sys
     | rvf op_fsqrt_s \<Rightarrow> ProcessRVF_Compute h op sys
     | rvf op_fmin_s \<Rightarrow> ProcessRVF_Compute h op sys
     | rvf op_fmax_s \<Rightarrow> ProcessRVF_Compute h op sys
     | rvf op_fcvt_s_w \<Rightarrow> ProcessRVF_Compute h op sys
     | rvf op_fcvt_s_wu \<Rightarrow> ProcessRVF_Compute h op sys
     | rvf op_fcvt_s_l \<Rightarrow> ProcessRVF_Compute h op sys
     | rvf op_fcvt_s_lu \<Rightarrow> ProcessRVF_Compute h op sys
     | rvf op_feq_s \<Rightarrow> ProcessRVF_Compare h op sys
     | rvf op_flt_s \<Rightarrow> ProcessRVF_Compare h op sys
     | rvf op_fle_s \<Rightarrow> ProcessRVF_Compare h op sys
     | rvf op_fclass_s \<Rightarrow> ProcessRVF_Class op sys
     | rvf op_fmv_x_w \<Rightarrow> ProcessRVF_MoveToInt op sys
     | rvf op_fmv_w_x \<Rightarrow> ProcessRVF_MoveToFp op sys
     | rvf op_fcvt_w_s \<Rightarrow> ProcessRVF_ConvertToInt32 h op sys
     | rvf op_fcvt_wu_s \<Rightarrow> ProcessRVF_ConvertToInt32 h op sys
     | rvf op_fcvt_l_s \<Rightarrow> ProcessRVF_ConvertToInt64 h op sys
     | rvf op_fcvt_lu_s \<Rightarrow> ProcessRVF_ConvertToInt64 h op sys
     | rvf op_fsgnj_s \<Rightarrow> ProcessRVF_ConvertSign op sys
     | rvf op_fsgnjn_s \<Rightarrow> ProcessRVF_ConvertSign op sys
     | rvf op_fsgnjx_s \<Rightarrow> ProcessRVF_ConvertSign op sys
     | _ \<Rightarrow> Inl ProcessExit))"

section \<open>Double precision\<close>

definition ProcessRVD_MulAdd :: "host \<Rightarrow> Op \<Rightarrow> System \<Rightarrow> System result" where
  "ProcessRVD_MulAdd h op sys =
     rbind (get_R4 (operand op)) (\<lambda>(operand_rd, operand_rs1, operand_rs2, operand_rs3, operand_funct3, operand_funct2).
     rbind (fp_ReadUInt64 sys operand_rs1) (\<lambda>src1.
     rbind (fp_ReadUInt64 sys operand_rs2) (\<lambda>src2.
     rbind (fp_ReadUInt64 sys operand_rs3) (\<lambda>src3.
     let roundMode = GetRoundMode operand_funct3 sys in
     rbind (ScopedFpRound roundMode) (\<lambda>_.
     rbind (case opCode op of
       rvd op_fmadd_d \<Rightarrow> fp_run (MulAdd64 (host_softfloat h) src1 src2 src3) sys
     | rvd op_fmsub_d \<Rightarrow> fp_run (MulSub64 (host_softfloat h) src1 src2 src3) sys
     | rvd op_fnmadd_d \<Rightarrow> fp_run (NegMulAdd64 (host_softfloat h) src1 src2 src3) sys
     | rvd op_fnmsub_d \<Rightarrow> fp_run (NegMulSub64 (host_softfloat h) src1 src2 src3) sys
     | _ \<Rightarrow> Inl ProcessExit) (\<lambda>(value, sys).
     let sys = UpdateFpCsr sys in
     rbind (NotifyFpDirty sys) (\<lambda>sys.
     fp_WriteUInt64 operand_rd value sys)))))))"

definition ProcessRVD_Compute :: "host \<Rightarrow> Op \<Rightarrow> System \<Rightarrow> System result" where
  "ProcessRVD_Compute h op sys =
     rbind (get_R (operand op)) (\<lambda>(operand_rd, operand_rs1, operand_rs2, operand_funct3, operand_funct7).
     rbind (fp_ReadUInt64 sys operand_rs1) (\<lambda>src1.
     rbind (fp_ReadUInt64 sys operand_rs2) (\<lambda>src2.
     rbind (int_ReadInt32 sys operand_rs1) (\<lambda>src_s32.
     rbind (int_ReadInt64 sys operand_rs1) (\<lambda>src_s64.
     rbind (int_ReadUInt32 sys operand_rs1) (\<lambda>src_u32.
     rbind (int_ReadUInt64 sys operand_rs1) (\<lambda>src_u64.
     let roundMode = GetRoundMode operand_funct3 sys in
     rbind (ScopedFpRound roundMode) (\<lambda>_.
     rbind (case opCode op of
       rvd op_fadd_d \<Rightarrow> fp_run (Add64 (host_softfloat h) src1 src2) sys
     | rvd op_fsub_d \<Rightarrow> fp_run (Sub64 (host_softfloat h) src1 src2) sys
     | rvd op_fmul_d \<Rightarrow> fp_run (Mul64 (host_softfloat h) src1 src2) sys
     | rvd op_fdiv_d \<Rightarrow> fp_run (Div64 (host_softfloat h) src1 src2) sys
     | rvd op_fsqrt_d \<Rightarrow> fp_run (Sqrt64 (host_softfloat h) src1) sys
     | rvd op_fmin_d \<Rightarrow> fp_run (Min64 (host_softfloat h) src1 src2) sys
     | rvd op_fmax_d \<Rightarrow> fp_run (Max64 (host_softfloat h) src1 src2) sys
     | rvd op_fcvt_d_w \<Rightarrow> fp_run (Int32ToDouble (host_softfloat h) src_s32) sys
     | rvd op_fcvt_d_wu \<Rightarrow> fp_run (UInt32ToDouble (host_softfloat h) src_u32) sys
     | rvd op_fcvt_d_l \<Rightarrow> fp_run (Int64ToDouble (host_softfloat h) src_s64) sys
     | rvd op_fcvt_d_lu \<Rightarrow> fp_run (UInt64ToDouble (host_softfloat h) src_u64) sys
     | _ \<Rightarrow> Inl ProcessExit) (\<lambda>(result, sys).
     let sys = UpdateFpCsr sys in
     rbind (NotifyFpDirty sys) (\<lambda>sys.
     fp_WriteUInt64 operand_rd result sys))))))))))"

definition ProcessRVD_Compare :: "host \<Rightarrow> Op \<Rightarrow> System \<Rightarrow> System result" where
  "ProcessRVD_Compare h op sys =
     rbind (get_R (operand op)) (\<lambda>(operand_rd, operand_rs1, operand_rs2, operand_funct3, operand_funct7).
     rbind (fp_ReadUInt64 sys operand_rs1) (\<lambda>src1.
     rbind (fp_ReadUInt64 sys operand_rs2) (\<lambda>src2.
     rbind (case opCode op of
       rvd op_feq_d \<Rightarrow> rbind (fp_run (Eq64 (host_softfloat h) src1 src2) sys) (\<lambda>(r, sys).
     Inr ((if r then 1 else 0 :: uint32), sys))
     | rvd op_flt_d \<Rightarrow> rbind (fp_run (Lt64 (host_softfloat h) src1 src2) sys) (\<lambda>(r, sys).
     Inr ((if r then 1 else 0 :: uint32), sys))
     | rvd op_fle_d \<Rightarrow> rbind (fp_run (Le64 (host_softfloat h) src1 src2) sys) (\<lambda>(r, sys).
     Inr ((if r then 1 else 0 :: uint32), sys))
     | _ \<Rightarrow> Inl ProcessExit) (\<lambda>(value, sys).
     let sys = UpdateFpCsr sys in
     int_WriteUInt64 operand_rd (ucast value) sys))))"

definition ProcessRVD_Class :: "Op \<Rightarrow> System \<Rightarrow> System result" where
  "ProcessRVD_Class op sys =
     rbind (get_R (operand op)) (\<lambda>(operand_rd, operand_rs1, operand_rs2, operand_funct3, operand_funct7).
     rbind (fp_ReadUInt64 sys operand_rs1) (\<lambda>src.
     let value = (ConvertToRvFpClass64 src) in
     int_WriteUInt64 operand_rd (ucast value) sys))"

definition ProcessRVD_MoveToInt :: "Op \<Rightarrow> System \<Rightarrow> System result" where
  "ProcessRVD_MoveToInt op sys =
     rbind (get_R (operand op)) (\<lambda>(operand_rd, operand_rs1, operand_rs2, operand_funct3, operand_funct7).
     rbind (fp_ReadUInt64 sys operand_rs1) (\<lambda>value.
     int_WriteUInt64 operand_rd value sys))"

definition ProcessRVD_MoveToFp :: "Op \<Rightarrow> System \<Rightarrow> System result" where
  "ProcessRVD_MoveToFp op sys =
     rbind (get_R (operand op)) (\<lambda>(operand_rd, operand_rs1, operand_rs2, operand_funct3, operand_funct7).
     rbind (int_ReadUInt64 sys operand_rs1) (\<lambda>value.
     rbind (NotifyFpDirty sys) (\<lambda>sys.
     fp_WriteUInt64 operand_rd value sys)))"

definition ProcessRVD_ConvertToInt32 :: "host \<Rightarrow> Op \<Rightarrow> System \<Rightarrow> System result" where
  "ProcessRVD_ConvertToInt32 h op sys =
     rbind (get_R (operand op)) (\<lambda>(operand_rd, operand_rs1, operand_rs2, operand_funct3, operand_funct7).
     rbind (fp_ReadUInt64 sys operand_rs1) (\<lambda>src.
     let roundMode = GetRoundMode operand_funct3 sys in
     rbind (case opCode op of
       rvd op_fcvt_w_d \<Rightarrow> rbind (fp_run (DoubleToInt32 (host_softfloat h) src roundMode) sys) (\<lambda>(r, sys).
     Inr ((SignExtend 32 (scast r)), sys))
     | rvd op_fcvt_wu_d \<Rightarrow> rbind (fp_run (DoubleToUInt32 (host_softfloat h) src roundMode) sys) (\<lambda>(r, sys).
     Inr ((SignExtend 32 (ucast r)), sys))
     | _ \<Rightarrow> Inl ProcessExit) (\<lambda>(value, sys).
     let sys = UpdateFpCsr sys in
     int_WriteInt64 operand_rd value sys)))"

definition ProcessRVD_ConvertToInt64 :: "host \<Rightarrow> Op \<Rightarrow> System \<Rightarrow> System result" where
  "ProcessRVD_ConvertToInt64 h op sys =
     rbind (get_R (operand op)) (\<lambda>(operand_rd, operand_rs1, operand_rs2, operand_funct3, operand_funct7).
     rbind (fp_ReadUInt64 sys operand_rs1) (\<lambda>src.
     let roundMode = GetRoundMode operand_funct3 sys in
     rbind (case opCode op of
       rvd op_fcvt_l_d \<Rightarrow> fp_run (DoubleToInt64 (host_softfloat h) src roundMode) sys
     | rvd op_fcvt_lu_d \<Rightarrow> fp_run (DoubleToUInt64 (host_softfloat h) src roundMode) sys
     | _ \<Rightarrow> Inl ProcessExit) (\<lambda>(value, sys).
     let sys = UpdateFpCsr sys in
     int_WriteInt64 operand_rd value sys)))"

definition ProcessRVD_ConvertFp32ToFp64 :: "host \<Rightarrow> Op \<Rightarrow> System \<Rightarrow> System result" where
  "ProcessRVD_ConvertFp32ToFp64 h op sys =
     rbind (get_R (operand op)) (\<lambda>(operand_rd, operand_rs1, operand_rs2, operand_funct3, operand_funct7).
     rbind (fp_ReadUInt32 sys operand_rs1) (\<lambda>src.
     rbind (fp_run (FloatToDouble (host_softfloat h) src) sys) (\<lambda>(value, sys).
     let sys = UpdateFpCsr sys in
     rbind (NotifyFpDirty sys) (\<lambda>sys.
     fp_WriteUInt64 operand_rd value sys))))"

definition ProcessRVD_ConvertFp64ToFp32 :: "host \<Rightarrow> Op \<Rightarrow> System \<Rightarrow> System result" where
  "ProcessRVD_ConvertFp64ToFp32 h op sys =
     rbind (get_R (operand op)) (\<lambda>(operand_rd, operand_rs1, operand_rs2, operand_funct3, operand_funct7).
     rbind (fp_ReadUInt64 sys operand_rs1) (\<lambda>src.
     rbind (fp_run (DoubleToFloat (host_softfloat h) src) sys) (\<lambda>(value, sys).
     let sys = UpdateFpCsr sys in
     rbind (NotifyFpDirty sys) (\<lambda>sys.
     fp_WriteUInt32 operand_rd value sys))))"

definition ProcessRVD_ConvertSign :: "Op \<Rightarrow> System \<Rightarrow> System result" where
  "ProcessRVD_ConvertSign op sys =
     rbind (get_R (operand op)) (\<lambda>(operand_rd, operand_rs1, operand_rs2, operand_funct3, operand_funct7).
     rbind (fp_ReadUInt64 sys operand_rs1) (\<lambda>src1.
     rbind (fp_ReadUInt64 sys operand_rs2) (\<lambda>src2.
     rbind (case opCode op of
       rvd op_fsgnj_d \<Rightarrow> Inr ((src1 AND ((push_bit 63 (1 :: uint64)) - 1)) OR (src2 AND (push_bit 63 (1 :: uint64))))
     | rvd op_fsgnjn_d \<Rightarrow> Inr ((src1 AND ((push_bit 63 (1 :: uint64)) - 1)) OR ((NOT src2) AND (push_bit 63 (1 :: uint64))))
     | rvd op_fsgnjx_d \<Rightarrow> Inr (src1 XOR (src2 AND (push_bit 63 (1 :: uint64))))
     | _ \<Rightarrow> Inl ProcessExit) (\<lambda>value.
     let sys = UpdateFpCsr sys in
     rbind (NotifyFpDirty sys) (\<lambda>sys.
     fp_WriteUInt64 operand_rd value sys)))))"

definition ProcessRV32D_Load :: "Op \<Rightarrow> System \<Rightarrow> System result" where
  "ProcessRV32D_Load op sys =
     rbind (get_I (operand op)) (\<lambda>(operand_imm, operand_rd, operand_rs1, operand_funct3).
     rbind (int_ReadUInt32 sys operand_rs1) (\<lambda>v.
     let address = ((ucast v) + operand_imm) in
     rbind (LoadUInt64 address sys) (\<lambda>(value, sys).
     rbind (NotifyFpDirty sys) (\<lambda>sys.
     fp_WriteUInt64 operand_rd value sys))))"

definition ProcessRV32D_Store :: "Op \<Rightarrow> System \<Rightarrow> System result" where
  "ProcessRV32D_Store op sys =
     rbind (get_S (operand op)) (\<lambda>(operand_imm, operand_rs1, operand_rs2, operand_funct3).
     rbind (int_ReadUInt32 sys operand_rs1) (\<lambda>v.
     let address = ((ucast v) + operand_imm) in
     rbind (fp_ReadUInt64 sys operand_rs2) (\<lambda>value.
     StoreUInt64 address value sys)))"

definition ProcessRV64D_Load :: "Op \<Rightarrow> System \<Rightarrow> System result" where
  "ProcessRV64D_Load op sys =
     rbind (get_I (operand op)) (\<lambda>(operand_imm, operand_rd, operand_rs1, operand_funct3).
     rbind (int_ReadUInt64 sys operand_rs1) (\<lambda>v.
     let address = (v + operand_imm) in
     rbind (LoadUInt64 address sys) (\<lambda>(value, sys).
     rbind (NotifyFpDirty sys) (\<lambda>sys.
     fp_WriteUInt64 operand_rd value sys))))"

definition ProcessRV64D_Store :: "Op \<Rightarrow> System \<Rightarrow> System result" where
  "ProcessRV64D_Store op sys =
     rbind (get_S (operand op)) (\<lambda>(operand_imm, operand_rs1, operand_rs2, operand_funct3).
     rbind (int_ReadUInt64 sys operand_rs1) (\<lambda>v.
     let address = (v + operand_imm) in
     rbind (fp_ReadUInt64 sys operand_rs2) (\<lambda>value.
     StoreUInt64 address value sys)))"

definition ProcessRVD :: "host \<Rightarrow> Op \<Rightarrow> System \<Rightarrow> System result" where
  "ProcessRVD h op sys =
     (let sys = atomic_Cancel sys in
     (case opCode op of
       rvd op_fld \<Rightarrow> (if opClass op = RV32D then ProcessRV32D_Load op sys
       else (if opClass op = RV64D then ProcessRV64D_Load op sys
       else Inl EmuException))
     | rvd op_fsd \<Rightarrow> (if opClass op = RV32D then ProcessRV32D_Store op sys
       else (if opClass op = RV64D then ProcessRV64D_Store op sys
       else Inl EmuException))
     | rvd op_fmadd_d \<Rightarrow> ProcessRVD_MulAdd h op sys
     | rvd op_fmsub_d \<Rightarrow> ProcessRVD_MulAdd h op sys
     | rvd op_fnmadd_d \<Rightarrow> ProcessRVD_MulAdd h op sys
     | rvd op_fnmsub_d \<Rightarrow> ProcessRVD_MulAdd h op sys
     | rvd op_fadd_d \<Rightarrow> ProcessRVD_Compute h op sys
     | rvd op_fsub_d \<Rightarrow> ProcessRVD_Compute h op sys
     | rvd op_fmul_d \<Rightarrow> ProcessRVD_Compute h op sys
     | rvd op_fdiv_d \<Rightarrow> ProcessRVD_Compute h op sys
     | rvd op_fsqrt_d \<Rightarrow> ProcessRVD_Compute h op sys
     | rvd op_fmin_d \<Rightarrow> ProcessRVD_Compute h op sys
     | rvd op_fmax_d \<Rightarrow> ProcessRVD_Compute h op sys
     | rvd op_fcvt_d_w \<Rightarrow> ProcessRVD_Compute h op sys
     | rvd op_fcvt_d_wu \<Rightarrow> ProcessRVD_Compute h op sys
     | rvd op_fcvt_d_l \<Rightarrow> ProcessRVD_Compute h op sys
     | rvd op_fcvt_d_lu \<Rightarrow> ProcessRVD_Compute h op sys
     | rvd op_feq_d \<Rightarrow> ProcessRVD_Compare h op sys
     | rvd op_flt_d \<Rightarrow> ProcessRVD_Compare h op sys
     | rvd op_fle_d \<Rightarrow> ProcessRVD_Compare h op sys
     | rvd op_fclass_d \<Rightarrow> ProcessRVD_Class op sys
     | rvd op_fmv_x_d \<Rightarrow> ProcessRVD_MoveToInt op sys
     | rvd op_fmv_d_x \<Rightarrow> ProcessRVD_MoveToFp op sys
     | rvd op_fcvt_w_d \<Rightarrow> ProcessRVD_ConvertToInt32 h op sys
     | rvd op_fcvt_wu_d \<Rightarrow> ProcessRVD_ConvertToInt32 h op sys
     | rvd op_fcvt_l_d \<Rightarrow> ProcessRVD_ConvertToInt64 h op sys
     | rvd op_fcvt_lu_d \<Rightarrow> ProcessRVD_ConvertToInt64 h op sys
     | rvd op_fcvt_s_d \<Rightarrow> ProcessRVD_ConvertFp64ToFp32 h op sys
     | rvd op_fcvt_d_s \<Rightarrow> ProcessRVD_ConvertFp32ToFp64 h op sys
     | rvd op_fsgnj_d \<Rightarrow> ProcessRVD_ConvertSign op sys
     | rvd op_fsgnjn_d \<Rightarrow> ProcessRVD_ConvertSign op sys
     | rvd op_fsgnjx_d \<Rightarrow> ProcessRVD_ConvertSign op sys
     | _ \<Rightarrow> Inl ProcessExit))"

end
