(* ===== verification/Executor.thy ===== *)
theory Executor
  imports ExecutorI ExecutorMA ExecutorC ExecutorFD
begin

text \<open>\<open>Executor::ProcessOp\<close>: the dispatch on the class of the instruction.\<close>

definition ProcessOp :: "host \<Rightarrow> Op \<Rightarrow> vaddr_t \<Rightarrow> System \<Rightarrow> System result" where
  "ProcessOp h op pc sys = (case opClass op of
       RV32I \<Rightarrow> ProcessRV32I op pc sys
     | RV32M \<Rightarrow> ProcessRV32M op sys
     | RV32C \<Rightarrow> ProcessRV32C op pc sys
     | RV64I \<Rightarrow> ProcessRV64I op pc sys
     | RV64M \<Rightarrow> ProcessRV64M h op sys
     | RV64C \<Rightarrow> ProcessRV64C op pc sys
     | RV32A \<Rightarrow> ProcessRV32A op sys
     | RV64A \<Rightarrow> ProcessRV64A op sys
     | RV32F \<Rightarrow> ProcessRVF h op sys
     | RV64F \<Rightarrow> ProcessRVF h op sys
     | RV32D \<Rightarrow> ProcessRVD h op sys
     | RV64D \<Rightarrow> ProcessRVD h op sys)"

end
