(* ===== verification/Frames.thy ===== *)
theory Frames
  imports Executor
begin

text \<open>
  What the executor may change. A locale states which relations between the state before and the
  state after are respected by the primitive operations of the executor; inside it every method is
  shown to respect them, once for all relations. \<open>hart_step\<close> is the relation of the machine's
  wiring and invariants, \<open>quiet_step\<close> adds that the privilege level is kept and no trap recorded.
\<close>

section \<open>Keeping a relation\<close>

definition keeps :: "(System \<Rightarrow> System \<Rightarrow> bool) \<Rightarrow> System \<Rightarrow> System result \<Rightarrow> bool" where
  "keeps rel s m \<longleftrightarrow> (\<forall>t. m = Inr t \<longrightarrow> rel s t)"

definition keeps_val :: "(System \<Rightarrow> System \<Rightarrow> bool) \<Rightarrow> System \<Rightarrow> ('a \<times> System) result \<Rightarrow> bool" where
  "keeps_val rel s m \<longleftrightarrow> (\<forall>v t. m = Inr (v, t) \<longrightarrow> rel s t)"

named_theorems keeps_rules \<open>introduction rules of the relations kept by the executor\<close>

lemma keepsD: "keeps rel s m \<Longrightarrow> m = Inr t \<Longrightarrow> rel s t"
  by (simp add: keeps_def)

lemma keeps_valD: "keeps_val rel s m \<Longrightarrow> m = Inr (v, t) \<Longrightarrow> rel s t"
  by (simp add: keeps_val_def)

lemma keeps_Inl [keeps_rules]: "keeps rel s (Inl e)" "keeps_val rel s (Inl e)"
  by (simp_all add: keeps_def keeps_val_def)

lemma keeps_if [keeps_rules]:
  "(b \<Longrightarrow> keeps rel s m) \<Longrightarrow> (\<not> b \<Longrightarrow> keeps rel s n) \<Longrightarrow> keeps rel s (if b then m else n)"
  "(b \<Longrightarrow> keeps_val rel s p) \<Longrightarrow> (\<not> b \<Longrightarrow> keeps_val rel s q) \<Longrightarrow> keeps_val rel s (if b then p else q)"
  by simp_all

text \<open>Binding a value leaves the state as it is. One rule for each type of value bound.\<close>

lemma keeps_value:
  "(\<And>x. keeps rel s (f x)) \<Longrightarrow> keeps rel s (rbind m f)"
  "(\<And>x. keeps_val rel s (g x)) \<Longrightarrow> keeps_val rel s (rbind m g)"
  by (auto simp: keeps_def keeps_val_def rbind_Inr_iff)

lemma keeps_let:
  "keeps rel s (f x) \<Longrightarrow> keeps rel s (Let x f)"
  "keeps_val rel s (g x) \<Longrightarrow> keeps_val rel s (Let x g)"
  by simp_all

lemmas [keeps_rules] =
  keeps_value [where ?'a = "'c::len word"] keeps_value [where ?'a = bool] keeps_value [where ?'a = unit]
  keeps_value [where ?'a = "int \<times> 'c"] keeps_value [where ?'a = "'c::len word \<times> int"]
  keeps_value [where ?'a = "'c::len word \<times> int \<times> 'd"]
  keeps_let [where ?'a = "'c::len word"] keeps_let [where ?'a = bool] keeps_let [where ?'a = int]

lemma keeps_case_prod [keeps_rules]:
  "(\<And>a b. keeps rel s (f a b)) \<Longrightarrow> keeps rel s (case p of (a, b) \<Rightarrow> f a b)"
  "(\<And>a b. keeps_val rel s (g a b)) \<Longrightarrow> keeps_val rel s (case p of (a, b) \<Rightarrow> g a b)"
  by (auto split: prod.splits)

text \<open>The switches on the operation code: every branch keeps the relation.\<close>

lemmas keeps_opcode_splits = OpCode.split OpCodeI.split OpCodeM.split OpCodeA.split OpCodeF.split
  OpCodeD.split OpCodeC.split

lemmas [keeps_rules] =
  keeps_opcode_splits [of "keeps rel s" for rel s, THEN iffD2]
  keeps_opcode_splits [of "keeps_val rel s" for rel s, THEN iffD2]
  conjI impI allI

section \<open>The executor\<close>

lemma IntRegFile_unsigned:
  "IntRegFile_WriteUInt32 = IntRegFile_WriteInt32" "IntRegFile_WriteUInt64 = IntRegFile_WriteInt64"
  by (simp_all add: fun_eq_iff IntRegFile_write_defs)

definition is_return :: "OpCode \<Rightarrow> bool" where
  "is_return c \<longleftrightarrow> c = rvi op_mret \<or> c = rvi op_sret \<or> c = rvi op_uret"

locale kept =
  fixes rel :: "System \<Rightarrow> System \<Rightarrow> bool" and returns :: bool
  assumes rel_refl: "rel s s"
    and rel_trans: "rel s t \<Longrightarrow> rel t t2 \<Longrightarrow> rel s t2"
    and rel_int: "IntRegFile_WriteInt32 (sys_IntRegFile s) r u = Inr rf \<or>
        IntRegFile_WriteInt64 (sys_IntRegFile s) r w = Inr rf \<Longrightarrow> rel s (s\<lparr> sys_IntRegFile := rf \<rparr>)"
    and rel_fp: "rel s (s\<lparr> sys_FpRegFile := fp \<rparr>)" "rel s (s\<lparr> sys_FpEnv := env \<rparr>)"
    and rel_pc: "rel s (csr_SetPc v s)"
    and rel_csr: "Csr_WriteUInt64 addr w (sys_Csr s) = Inr csr \<Longrightarrow> rel s (s\<lparr> sys_Csr := csr \<rparr>)"
      "rel s (s\<lparr> sys_Csr := Csr_WriteStatus w (sys_Csr s) \<rparr>)"
      "rel s (s\<lparr> sys_Csr := Csr_WriteFpCsr u (sys_Csr s) \<rparr>)"
    and rel_atomic: "rel s (s\<lparr> sys_AtomicManager := am \<rparr>)"
    and rel_bus: "bus_write bs a s = Inr t \<Longrightarrow> rel s t"
    and rel_event: "rel s (AddEvent type n x y z s)"
    and rel_return: "returns \<Longrightarrow> trap_return level s = Inr t \<Longrightarrow> rel s t"
begin

subsection \<open>Primitives\<close>

lemma keeps_Inr [keeps_rules]: "rel s t \<Longrightarrow> keeps rel s (Inr t)" "rel s t \<Longrightarrow> keeps_val rel s (Inr (v, t))"
  by (simp_all add: keeps_def keeps_val_def)

lemma keeps_bind [keeps_rules]:
  "keeps rel s m \<Longrightarrow> (\<And>t. keeps rel t (f t)) \<Longrightarrow> keeps rel s (rbind m f)"
  "keeps rel s m \<Longrightarrow> (\<And>t. keeps_val rel t (g t)) \<Longrightarrow> keeps_val rel s (rbind m g)"
  by (auto simp: keeps_def keeps_val_def rbind_Inr_iff intro: rel_trans)

lemma keeps_bind_pair:
  "keeps_val rel s m \<Longrightarrow> (\<And>v t. keeps rel t (f v t)) \<Longrightarrow> keeps rel s (rbind m (\<lambda>(v, t). f v t))"
  "keeps_val rel s m \<Longrightarrow> (\<And>v t. keeps_val rel t (g v t)) \<Longrightarrow> keeps_val rel s (rbind m (\<lambda>(v, t). g v t))"
  by (auto simp: keeps_def keeps_val_def rbind_Inr_iff intro: rel_trans)

lemmas keeps_bind_pairs [keeps_rules] =
  keeps_bind_pair [where ?'a = "'c::len word"] keeps_bind_pair [where ?'a = bool]

lemma keeps_let_state [keeps_rules]:
  "rel s t \<Longrightarrow> (\<And>t. keeps rel t (f t)) \<Longrightarrow> keeps rel s (Let t f)"
  by (auto simp: keeps_def intro: rel_trans)

lemma rel_cancel [keeps_rules]: "rel s (atomic_Cancel s)" "rel s (atomic_Reserve a s)"
  by (simp_all add: atomic_Cancel_def atomic_Reserve_def rel_atomic)

lemma rel_update_fcsr [keeps_rules]: "rel s (UpdateFpCsr s)"
  by (simp add: UpdateFpCsr_def Let_def rel_csr(3))

lemmas [keeps_rules] = rel_refl rel_pc rel_event

lemma keeps_int_write [keeps_rules]:
  "keeps rel s (int_WriteInt32 r v s)" "keeps rel s (int_WriteUInt32 r v s)"
  "keeps rel s (int_WriteInt64 r w s)" "keeps rel s (int_WriteUInt64 r w s)"
  "keeps rel s (WriteLinkRegister32 v s)" "keeps rel s (WriteLinkRegister64 w s)"
  by (auto simp: keeps_def int_WriteInt32_def int_WriteUInt32_def int_WriteInt64_def int_WriteUInt64_def
      WriteLinkRegister32_def WriteLinkRegister64_def with_IntRegFile_def rbind_Inr_iff
      IntRegFile_unsigned intro: rel_int)

lemma keeps_fp_write [keeps_rules]:
  "keeps rel s (fp_WriteUInt32 r v s)" "keeps rel s (fp_WriteUInt64 r w s)"
  by (auto simp: keeps_def fp_WriteUInt32_def fp_WriteUInt64_def with_FpRegFile_def rbind_Inr_iff rel_fp)

lemma keeps_csr_write [keeps_rules]:
  "keeps rel s (csr_WriteUInt32 addr v s)" "keeps rel s (csr_WriteUInt64 addr w s)"
  by (auto simp: keeps_def csr_WriteUInt32_def csr_WriteUInt64_def Csr_WriteUInt32_def with_Csr_def
      rbind_Inr_iff intro: rel_csr(1))

lemma keeps_notify [keeps_rules]: "keeps rel s (NotifyFpDirty s)"
  by (auto simp: keeps_def NotifyFpDirty_def Let_def rbind_Inr_iff rel_csr(2))

lemma keeps_fp_run [keeps_rules]: "keeps_val rel s (fp_run f s)"
  by (auto simp: keeps_val_def fp_run_def Let_def rel_fp split: prod.splits)

lemma keeps_mem_write [keeps_rules]:
  "keeps rel s (mem_WriteUInt8 a v1 s)" "keeps rel s (mem_WriteUInt16 a v2 s)"
  "keeps rel s (mem_WriteUInt32 a v4 s)" "keeps rel s (mem_WriteUInt64 a v8 s)"
  using rel_bus unfolding keeps_def bus_write_def mem_WriteUInt8_def mem_WriteUInt16_def
    mem_WriteUInt32_def mem_WriteUInt64_def Bus_WriteUInt8_def Bus_WriteUInt16_def
    Bus_WriteUInt32_def Bus_WriteUInt64_def by blast+

subsection \<open>Memory accesses\<close>

lemma keeps_or_trap [keeps_rules]:
  "keeps_val rel s k \<Longrightarrow> keeps_val rel s (or_trap t s k)"
  by (auto simp: keeps_val_def or_trap_def rbind_Inr_iff rel_refl split: option.splits)

lemma keeps_update_entry [keeps_rules]:
  "keeps rel s (UpdateEntry32 a w s)" "keeps rel s (UpdateEntry64 a w s)"
  unfolding UpdateEntry32_def UpdateEntry64_def by (intro keeps_rules)+

lemma keeps_translate [keeps_rules]: "keeps_val rel s (Translate type a pc s)"
proof -
  have "keeps_val rel s (TranslateSv32 type a pc s)" "keeps_val rel s (TranslateSv39 type a pc s)"
    "keeps_val rel s (TranslateSv48 type a pc s)"
    unfolding TranslateSv32_def TranslateSv39_def TranslateSv48_def
    by (intro keeps_rules rel_refl)+
  moreover have "keeps_val rel s (Inr (v, s))" for v :: translation
    by (simp add: keeps_val_def rel_refl)
  ultimately show ?thesis
    unfolding Translate_def
    by (intro keeps_value(2)) (simp split: AddressTranslationMode.split add: keeps_Inl)
qed

lemma keeps_use_address [keeps_rules]:
  assumes "keeps_val rel s t" "\<And>p u. keeps rel u (k p u)"
  shows "keeps rel s (use_address t k)"
proof -
  have "keeps rel u (case tr of TransAddr p \<Rightarrow> k p u | TransTrap _ \<Rightarrow> Inl Undefined)" for tr u
    by (cases tr) (simp_all add: assms keeps_Inl)
  then show ?thesis unfolding use_address_def by (rule keeps_bind_pair(1) [OF assms(1)])
qed

lemma keeps_use_address_val [keeps_rules]:
  assumes "keeps_val rel s t" "\<And>p u. keeps_val rel u (k p u)"
  shows "keeps_val rel s (use_address t k)"
proof -
  have "keeps_val rel u (case tr of TransAddr p \<Rightarrow> k p u | TransTrap _ \<Rightarrow> Inl Undefined)" for tr u
    by (cases tr) (simp_all add: assms keeps_Inl)
  then show ?thesis unfolding use_address_def by (rule keeps_bind_pair(2) [OF assms(1)])
qed

lemma keeps_load [keeps_rules]:
  "keeps_val rel s (LoadUInt8 a s)" "keeps_val rel s (LoadUInt16 a s)"
  "keeps_val rel s (LoadUInt32 a s)" "keeps_val rel s (LoadUInt64 a s)"
  unfolding LoadUInt8_def LoadUInt16_def LoadUInt32_def LoadUInt64_def
  by (intro keeps_rules)+

lemma keeps_store [keeps_rules]:
  "keeps rel s (StoreUInt8 a v1 s)" "keeps rel s (StoreUInt16 a v2 s)"
  "keeps rel s (StoreUInt32 a v4 s)" "keeps rel s (StoreUInt64 a v8 s)"
  unfolding StoreUInt8_def StoreUInt16_def StoreUInt32_def StoreUInt64_def
  by (intro keeps_rules)+

lemma keeps_fetch:
  "keeps_val rel s (FetchUInt16 a p s)" "keeps_val rel s (FetchUInt32 a p s)"
  unfolding FetchUInt16_def FetchUInt32_def by (intro keeps_rules)+

subsection \<open>Instructions\<close>

lemma keeps_ProcessRV32I_Lui [keeps_rules]:
  "keeps rel s (ProcessRV32I_Lui op s)"
  unfolding ProcessRV32I_Lui_def
  by (intro keeps_rules)+

lemma keeps_ProcessRV32I_Auipc [keeps_rules]:
  "keeps rel s (ProcessRV32I_Auipc op pc s)"
  unfolding ProcessRV32I_Auipc_def
  by (intro keeps_rules)+

lemma keeps_ProcessRV32I_Jal [keeps_rules]:
  "keeps rel s (ProcessRV32I_Jal op pc s)"
  unfolding ProcessRV32I_Jal_def
  by (intro keeps_rules)+

lemma keeps_ProcessRV32I_Jalr [keeps_rules]:
  "keeps rel s (ProcessRV32I_Jalr op pc s)"
  unfolding ProcessRV32I_Jalr_def
  by (intro keeps_rules)+

lemma keeps_ProcessRV32I_Branch [keeps_rules]:
  "keeps rel s (ProcessRV32I_Branch op pc s)"
  unfolding ProcessRV32I_Branch_def
  by (intro keeps_rules)+

lemma keeps_ProcessRV32I_Load [keeps_rules]:
  "keeps rel s (ProcessRV32I_Load op s)"
  unfolding ProcessRV32I_Load_def
  by (intro keeps_rules)+

lemma keeps_ProcessRV32I_Store [keeps_rules]:
  "keeps rel s (ProcessRV32I_Store op s)"
  unfolding ProcessRV32I_Store_def
  by (intro keeps_rules)+

lemma keeps_ProcessRV32I_Alu [keeps_rules]:
  "keeps rel s (ProcessRV32I_Alu op s)"
  unfolding ProcessRV32I_Alu_def
  by (intro keeps_rules)+

lemma keeps_ProcessRV32I_AluImm [keeps_rules]:
  "keeps rel s (ProcessRV32I_AluImm op s)"
  unfolding ProcessRV32I_AluImm_def
  by (intro keeps_rules)+

lemma keeps_ProcessRV32I_Shift [keeps_rules]:
  "keeps rel s (ProcessRV32I_Shift op s)"
  unfolding ProcessRV32I_Shift_def
  by (intro keeps_rules)+

lemma keeps_ProcessRV32I_ShiftImm [keeps_rules]:
  "keeps rel s (ProcessRV32I_ShiftImm op s)"
  unfolding ProcessRV32I_ShiftImm_def
  by (intro keeps_rules)+

lemma keeps_ProcessRV32I_Fence [keeps_rules]:
  "keeps rel s (ProcessRV32I_Fence s)"
  unfolding ProcessRV32I_Fence_def
  by (intro keeps_rules)+

lemma keeps_ProcessRV32I_Csr [keeps_rules]:
  "keeps rel s (ProcessRV32I_Csr op s)"
  unfolding ProcessRV32I_Csr_def
  by (intro keeps_rules)+

lemma keeps_ProcessRV32I_CsrImm [keeps_rules]:
  "keeps rel s (ProcessRV32I_CsrImm op s)"
  unfolding ProcessRV32I_CsrImm_def
  by (intro keeps_rules)+

lemma keeps_ProcessRV64I_Lui [keeps_rules]:
  "keeps rel s (ProcessRV64I_Lui op s)"
  unfolding ProcessRV64I_Lui_def
  by (intro keeps_rules)+

lemma keeps_ProcessRV64I_Auipc [keeps_rules]:
  "keeps rel s (ProcessRV64I_Auipc op pc s)"
  unfolding ProcessRV64I_Auipc_def
  by (intro keeps_rules)+

lemma keeps_ProcessRV64I_Jal [keeps_rules]:
  "keeps rel s (ProcessRV64I_Jal op pc s)"
  unfolding ProcessRV64I_Jal_def
  by (intro keeps_rules)+

lemma keeps_ProcessRV64I_Jalr [keeps_rules]:
  "keeps rel s (ProcessRV64I_Jalr op pc s)"
  unfolding ProcessRV64I_Jalr_def
  by (intro keeps_rules)+

lemma keeps_ProcessRV64I_Branch [keeps_rules]:
  "keeps rel s (ProcessRV64I_Branch op pc s)"
  unfolding ProcessRV64I_Branch_def
  by (intro keeps_rules)+

lemma keeps_ProcessRV64I_Load [keeps_rules]:
  "keeps rel s (ProcessRV64I_Load op s)"
  unfolding ProcessRV64I_Load_def
  by (intro keeps_rules)+

lemma keeps_ProcessRV64I_Store [keeps_rules]:
  "keeps rel s (ProcessRV64I_Store op s)"
  unfolding ProcessRV64I_Store_def
  by (intro keeps_rules)+

lemma keeps_ProcessRV64I_Alu [keeps_rules]:
  "keeps rel s (ProcessRV64I_Alu op s)"
  unfolding ProcessRV64I_Alu_def
  by (intro keeps_rules)+

lemma keeps_ProcessRV64I_AluImm [keeps_rules]:
  "keeps rel s (ProcessRV64I_AluImm op s)"
  unfolding ProcessRV64I_AluImm_def
  by (intro keeps_rules)+

lemma keeps_ProcessRV64I_Shift [keeps_rules]:
  "keeps rel s (ProcessRV64I_Shift op s)"
  unfolding ProcessRV64I_Shift_def
  by (intro keeps_rules)+

lemma keeps_ProcessRV64I_ShiftImm [keeps_rules]:
  "keeps rel s (ProcessRV64I_ShiftImm op s)"
  unfolding ProcessRV64I_ShiftImm_def
  by (intro keeps_rules)+

lemma keeps_ProcessRV64I_Fence [keeps_rules]:
  "keeps rel s (ProcessRV64I_Fence s)"
  unfolding ProcessRV64I_Fence_def
  by (intro keeps_rules)+

lemma keeps_ProcessRV64I_Csr [keeps_rules]:
  "keeps rel s (ProcessRV64I_Csr op s)"
  unfolding ProcessRV64I_Csr_def
  by (intro keeps_rules)+

lemma keeps_ProcessRV64I_CsrImm [keeps_rules]:
  "keeps rel s (ProcessRV64I_CsrImm op s)"
  unfolding ProcessRV64I_CsrImm_def
  by (intro keeps_rules)+

lemma keeps_ProcessRV32A_Atomic [keeps_rules]:
  "keeps rel s (ProcessRV32A_Atomic op s)"
  unfolding ProcessRV32A_Atomic_def
  by (intro keeps_rules)+

lemma keeps_ProcessRV32A_Load [keeps_rules]:
  "keeps rel s (ProcessRV32A_Load op s)"
  unfolding ProcessRV32A_Load_def
  by (intro keeps_rules)+

lemma keeps_ProcessRV32A_Store [keeps_rules]:
  "keeps rel s (ProcessRV32A_Store op s)"
  unfolding ProcessRV32A_Store_def
  by (intro keeps_rules)+

lemma keeps_ProcessRV64A_Atomic32 [keeps_rules]:
  "keeps rel s (ProcessRV64A_Atomic32 op s)"
  unfolding ProcessRV64A_Atomic32_def
  by (intro keeps_rules)+

lemma keeps_ProcessRV64A_Atomic64 [keeps_rules]:
  "keeps rel s (ProcessRV64A_Atomic64 op s)"
  unfolding ProcessRV64A_Atomic64_def
  by (intro keeps_rules)+

lemma keeps_ProcessRV64A_Load32 [keeps_rules]:
  "keeps rel s (ProcessRV64A_Load32 op s)"
  unfolding ProcessRV64A_Load32_def
  by (intro keeps_rules)+

lemma keeps_ProcessRV64A_Load64 [keeps_rules]:
  "keeps rel s (ProcessRV64A_Load64 op s)"
  unfolding ProcessRV64A_Load64_def
  by (intro keeps_rules)+

lemma keeps_ProcessRV64A_Store32 [keeps_rules]:
  "keeps rel s (ProcessRV64A_Store32 op s)"
  unfolding ProcessRV64A_Store32_def
  by (intro keeps_rules)+

lemma keeps_ProcessRV64A_Store64 [keeps_rules]:
  "keeps rel s (ProcessRV64A_Store64 op s)"
  unfolding ProcessRV64A_Store64_def
  by (intro keeps_rules)+

lemma keeps_ProcessRV32C_Alu [keeps_rules]:
  "keeps rel s (ProcessRV32C_Alu op s)"
  unfolding ProcessRV32C_Alu_def
  by (intro keeps_rules)+

lemma keeps_ProcessRV32C_AluImm [keeps_rules]:
  "keeps rel s (ProcessRV32C_AluImm op s)"
  unfolding ProcessRV32C_AluImm_def
  by (intro keeps_rules)+

lemma keeps_ProcessRV32C_Branch [keeps_rules]:
  "keeps rel s (ProcessRV32C_Branch op pc s)"
  unfolding ProcessRV32C_Branch_def
  by (intro keeps_rules)+

lemma keeps_ProcessRV32C_ADDI4SPN [keeps_rules]:
  "keeps rel s (ProcessRV32C_ADDI4SPN op s)"
  unfolding ProcessRV32C_ADDI4SPN_def
  by (intro keeps_rules)+

lemma keeps_ProcessRV32C_ADDI16SP [keeps_rules]:
  "keeps rel s (ProcessRV32C_ADDI16SP op s)"
  unfolding ProcessRV32C_ADDI16SP_def
  by (intro keeps_rules)+

lemma keeps_ProcessRV32C_FLD [keeps_rules]:
  "keeps rel s (ProcessRV32C_FLD op s)"
  unfolding ProcessRV32C_FLD_def
  by (intro keeps_rules)+

lemma keeps_ProcessRV32C_FLDSP [keeps_rules]:
  "keeps rel s (ProcessRV32C_FLDSP op s)"
  unfolding ProcessRV32C_FLDSP_def
  by (intro keeps_rules)+

lemma keeps_ProcessRV32C_FLW [keeps_rules]:
  "keeps rel s (ProcessRV32C_FLW op s)"
  unfolding ProcessRV32C_FLW_def
  by (intro keeps_rules)+

lemma keeps_ProcessRV32C_FLWSP [keeps_rules]:
  "keeps rel s (ProcessRV32C_FLWSP op s)"
  unfolding ProcessRV32C_FLWSP_def
  by (intro keeps_rules)+

lemma keeps_ProcessRV32C_FSD [keeps_rules]:
  "keeps rel s (ProcessRV32C_FSD op s)"
  unfolding ProcessRV32C_FSD_def
  by (intro keeps_rules)+

lemma keeps_ProcessRV32C_FSDSP [keeps_rules]:
  "keeps rel s (ProcessRV32C_FSDSP op s)"
  unfolding ProcessRV32C_FSDSP_def
  by (intro keeps_rules)+

lemma keeps_ProcessRV32C_FSW [keeps_rules]:
  "keeps rel s (ProcessRV32C_FSW op s)"
  unfolding ProcessRV32C_FSW_def
  by (intro keeps_rules)+

lemma keeps_ProcessRV32C_FSWSP [keeps_rules]:
  "keeps rel s (ProcessRV32C_FSWSP op s)"
  unfolding ProcessRV32C_FSWSP_def
  by (intro keeps_rules)+

lemma keeps_ProcessRV32C_J [keeps_rules]:
  "keeps rel s (ProcessRV32C_J op pc s)"
  unfolding ProcessRV32C_J_def
  by (intro keeps_rules)+

lemma keeps_ProcessRV32C_JAL [keeps_rules]:
  "keeps rel s (ProcessRV32C_JAL op pc s)"
  unfolding ProcessRV32C_JAL_def
  by (intro keeps_rules)+

lemma keeps_ProcessRV32C_JR [keeps_rules]:
  "keeps rel s (ProcessRV32C_JR op pc s)"
  unfolding ProcessRV32C_JR_def
  by (intro keeps_rules)+

lemma keeps_ProcessRV32C_JALR [keeps_rules]:
  "keeps rel s (ProcessRV32C_JALR op pc s)"
  unfolding ProcessRV32C_JALR_def
  by (intro keeps_rules)+

lemma keeps_ProcessRV32C_LW [keeps_rules]:
  "keeps rel s (ProcessRV32C_LW op s)"
  unfolding ProcessRV32C_LW_def
  by (intro keeps_rules)+

lemma keeps_ProcessRV32C_LWSP [keeps_rules]:
  "keeps rel s (ProcessRV32C_LWSP op s)"
  unfolding ProcessRV32C_LWSP_def
  by (intro keeps_rules)+

lemma keeps_ProcessRV32C_SW [keeps_rules]:
  "keeps rel s (ProcessRV32C_SW op s)"
  unfolding ProcessRV32C_SW_def
  by (intro keeps_rules)+

lemma keeps_ProcessRV32C_SWSP [keeps_rules]:
  "keeps rel s (ProcessRV32C_SWSP op s)"
  unfolding ProcessRV32C_SWSP_def
  by (intro keeps_rules)+

lemma keeps_ProcessRV64C_Alu [keeps_rules]:
  "keeps rel s (ProcessRV64C_Alu op s)"
  unfolding ProcessRV64C_Alu_def
  by (intro keeps_rules)+

lemma keeps_ProcessRV64C_AluImm [keeps_rules]:
  "keeps rel s (ProcessRV64C_AluImm op s)"
  unfolding ProcessRV64C_AluImm_def
  by (intro keeps_rules)+

lemma keeps_ProcessRV64C_Branch [keeps_rules]:
  "keeps rel s (ProcessRV64C_Branch op pc s)"
  unfolding ProcessRV64C_Branch_def
  by (intro keeps_rules)+

lemma keeps_ProcessRV64C_ADDI4SPN [keeps_rules]:
  "keeps rel s (ProcessRV64C_ADDI4SPN op s)"
  unfolding ProcessRV64C_ADDI4SPN_def
  by (intro keeps_rules)+

lemma keeps_ProcessRV64C_ADDI16SP [keeps_rules]:
  "keeps rel s (ProcessRV64C_ADDI16SP op s)"
  unfolding ProcessRV64C_ADDI16SP_def
  by (intro keeps_rules)+

lemma keeps_ProcessRV64C_FLD [keeps_rules]:
  "keeps rel s (ProcessRV64C_FLD op s)"
  unfolding ProcessRV64C_FLD_def
  by (intro keeps_rules)+

lemma keeps_ProcessRV64C_FLDSP [keeps_rules]:
  "keeps rel s (ProcessRV64C_FLDSP op s)"
  unfolding ProcessRV64C_FLDSP_def
  by (intro keeps_rules)+

lemma keeps_ProcessRV64C_FSD [keeps_rules]:
  "keeps rel s (ProcessRV64C_FSD op s)"
  unfolding ProcessRV64C_FSD_def
  by (intro keeps_rules)+

lemma keeps_ProcessRV64C_FSDSP [keeps_rules]:
  "keeps rel s (ProcessRV64C_FSDSP op s)"
  unfolding ProcessRV64C_FSDSP_def
  by (intro keeps_rules)+

lemma keeps_ProcessRV64C_J [keeps_rules]:
  "keeps rel s (ProcessRV64C_J op pc s)"
  unfolding ProcessRV64C_J_def
  by (intro keeps_rules)+

lemma keeps_ProcessRV64C_JR [keeps_rules]:
  "keeps rel s (ProcessRV64C_JR op pc s)"
  unfolding ProcessRV64C_JR_def
  by (intro keeps_rules)+

lemma keeps_ProcessRV64C_JALR [keeps_rules]:
  "keeps rel s (ProcessRV64C_JALR op pc s)"
  unfolding ProcessRV64C_JALR_def
  by (intro keeps_rules)+

lemma keeps_ProcessRV64C_LD [keeps_rules]:
  "keeps rel s (ProcessRV64C_LD op s)"
  unfolding ProcessRV64C_LD_def
  by (intro keeps_rules)+

lemma keeps_ProcessRV64C_LDSP [keeps_rules]:
  "keeps rel s (ProcessRV64C_LDSP op s)"
  unfolding ProcessRV64C_LDSP_def
  by (intro keeps_rules)+

lemma keeps_ProcessRV64C_LW [keeps_rules]:
  "keeps rel s (ProcessRV64C_LW op s)"
  unfolding ProcessRV64C_LW_def
  by (intro keeps_rules)+

lemma keeps_ProcessRV64C_LWSP [keeps_rules]:
  "keeps rel s (ProcessRV64C_LWSP op s)"
  unfolding ProcessRV64C_LWSP_def
  by (intro keeps_rules)+

lemma keeps_ProcessRV64C_SD [keeps_rules]:
  "keeps rel s (ProcessRV64C_SD op s)"
  unfolding ProcessRV64C_SD_def
  by (intro keeps_rules)+

lemma keeps_ProcessRV64C_SDSP [keeps_rules]:
  "keeps rel s (ProcessRV64C_SDSP op s)"
  unfolding ProcessRV64C_SDSP_def
  by (intro keeps_rules)+

lemma keeps_ProcessRV64C_SW [keeps_rules]:
  "keeps rel s (ProcessRV64C_SW op s)"
  unfolding ProcessRV64C_SW_def
  by (intro keeps_rules)+

lemma keeps_ProcessRV64C_SWSP [keeps_rules]:
  "keeps rel s (ProcessRV64C_SWSP op s)"
  unfolding ProcessRV64C_SWSP_def
  by (intro keeps_rules)+

lemma keeps_ProcessRV32F_Load [keeps_rules]:
  "keeps rel s (ProcessRV32F_Load op s)"
  unfolding ProcessRV32F_Load_def
  by (intro keeps_rules)+

lemma keeps_ProcessRV32F_Store [keeps_rules]:
  "keeps rel s (ProcessRV32F_Store op s)"
  unfolding ProcessRV32F_Store_def
  by (intro keeps_rules)+

lemma keeps_ProcessRV64F_Load [keeps_rules]:
  "keeps rel s (ProcessRV64F_Load op s)"
  unfolding ProcessRV64F_Load_def
  by (intro keeps_rules)+

lemma keeps_ProcessRV64F_Store [keeps_rules]:
  "keeps rel s (ProcessRV64F_Store op s)"
  unfolding ProcessRV64F_Store_def
  by (intro keeps_rules)+

lemma keeps_ProcessRV32D_Load [keeps_rules]:
  "keeps rel s (ProcessRV32D_Load op s)"
  unfolding ProcessRV32D_Load_def
  by (intro keeps_rules)+

lemma keeps_ProcessRV32D_Store [keeps_rules]:
  "keeps rel s (ProcessRV32D_Store op s)"
  unfolding ProcessRV32D_Store_def
  by (intro keeps_rules)+

lemma keeps_ProcessRV64D_Load [keeps_rules]:
  "keeps rel s (ProcessRV64D_Load op s)"
  unfolding ProcessRV64D_Load_def
  by (intro keeps_rules)+

lemma keeps_ProcessRV64D_Store [keeps_rules]:
  "keeps rel s (ProcessRV64D_Store op s)"
  unfolding ProcessRV64D_Store_def
  by (intro keeps_rules)+

lemma keeps_ProcessRVF_MulAdd [keeps_rules]:
  "keeps rel s (ProcessRVF_MulAdd h op s)"
  unfolding ProcessRVF_MulAdd_def
  by (intro keeps_rules)+

lemma keeps_ProcessRVF_Compute [keeps_rules]:
  "keeps rel s (ProcessRVF_Compute h op s)"
  unfolding ProcessRVF_Compute_def
  by (intro keeps_rules)+

lemma keeps_ProcessRVF_Compare [keeps_rules]:
  "keeps rel s (ProcessRVF_Compare h op s)"
  unfolding ProcessRVF_Compare_def
  by (intro keeps_rules)+

lemma keeps_ProcessRVF_Class [keeps_rules]:
  "keeps rel s (ProcessRVF_Class op s)"
  unfolding ProcessRVF_Class_def
  by (intro keeps_rules)+

lemma keeps_ProcessRVF_MoveToInt [keeps_rules]:
  "keeps rel s (ProcessRVF_MoveToInt op s)"
  unfolding ProcessRVF_MoveToInt_def
  by (intro keeps_rules)+

lemma keeps_ProcessRVF_MoveToFp [keeps_rules]:
  "keeps rel s (ProcessRVF_MoveToFp op s)"
  unfolding ProcessRVF_MoveToFp_def
  by (intro keeps_rules)+

lemma keeps_ProcessRVF_ConvertToInt32 [keeps_rules]:
  "keeps rel s (ProcessRVF_ConvertToInt32 h op s)"
  unfolding ProcessRVF_ConvertToInt32_def
  by (intro keeps_rules)+

lemma keeps_ProcessRVF_ConvertToInt64 [keeps_rules]:
  "keeps rel s (ProcessRVF_ConvertToInt64 h op s)"
  unfolding ProcessRVF_ConvertToInt64_def
  by (intro keeps_rules)+

lemma keeps_ProcessRVF_ConvertSign [keeps_rules]:
  "keeps rel s (ProcessRVF_ConvertSign op s)"
  unfolding ProcessRVF_ConvertSign_def
  by (intro keeps_rules)+

lemma keeps_ProcessRVD_MulAdd [keeps_rules]:
  "keeps rel s (ProcessRVD_MulAdd h op s)"
  unfolding ProcessRVD_MulAdd_def
  by (intro keeps_rules)+

lemma keeps_ProcessRVD_Compute [keeps_rules]:
  "keeps rel s (ProcessRVD_Compute h op s)"
  unfolding ProcessRVD_Compute_def
  by (intro keeps_rules)+

lemma keeps_ProcessRVD_Compare [keeps_rules]:
  "keeps rel s (ProcessRVD_Compare h op s)"
  unfolding ProcessRVD_Compare_def
  by (intro keeps_rules)+

lemma keeps_ProcessRVD_Class [keeps_rules]:
  "keeps rel s (ProcessRVD_Class op s)"
  unfolding ProcessRVD_Class_def
  by (intro keeps_rules)+

lemma keeps_ProcessRVD_MoveToInt [keeps_rules]:
  "keeps rel s (ProcessRVD_MoveToInt op s)"
  unfolding ProcessRVD_MoveToInt_def
  by (intro keeps_rules)+

lemma keeps_ProcessRVD_MoveToFp [keeps_rules]:
  "keeps rel s (ProcessRVD_MoveToFp op s)"
  unfolding ProcessRVD_MoveToFp_def
  by (intro keeps_rules)+

lemma keeps_ProcessRVD_ConvertToInt32 [keeps_rules]:
  "keeps rel s (ProcessRVD_ConvertToInt32 h op s)"
  unfolding ProcessRVD_ConvertToInt32_def
  by (intro keeps_rules)+

lemma keeps_ProcessRVD_ConvertToInt64 [keeps_rules]:
  "keeps rel s (ProcessRVD_ConvertToInt64 h op s)"
  unfolding ProcessRVD_ConvertToInt64_def
  by (intro keeps_rules)+

lemma keeps_ProcessRVD_ConvertFp32ToFp64 [keeps_rules]:
  "keeps rel s (ProcessRVD_ConvertFp32ToFp64 h op s)"
  unfolding ProcessRVD_ConvertFp32ToFp64_def
  by (intro keeps_rules)+

lemma keeps_ProcessRVD_ConvertFp64ToFp32 [keeps_rules]:
  "keeps rel s (ProcessRVD_ConvertFp64ToFp32 h op s)"
  unfolding ProcessRVD_ConvertFp64ToFp32_def
  by (intro keeps_rules)+

lemma keeps_ProcessRVD_ConvertSign [keeps_rules]:
  "keeps rel s (ProcessRVD_ConvertSign op s)"
  unfolding ProcessRVD_ConvertSign_def
  by (intro keeps_rules)+

lemma keeps_ProcessRV32M [keeps_rules]:
  "keeps rel s (ProcessRV32M op s)"
  unfolding ProcessRV32M_def
  by (intro keeps_rules)+

lemma keeps_ProcessRV64M [keeps_rules]:
  "keeps rel s (ProcessRV64M h op s)"
  unfolding ProcessRV64M_def
  by (intro keeps_rules)+

lemma keeps_priv [keeps_rules]:
  "returns \<or> \<not> is_return (opCode op) \<Longrightarrow> keeps rel s (ProcessRV32I_Priv op s)"
  "returns \<or> \<not> is_return (opCode op) \<Longrightarrow> keeps rel s (ProcessRV64I_Priv op s)"
  unfolding ProcessRV32I_Priv_def ProcessRV64I_Priv_def
  by (intro keeps_let_state; auto simp: keeps_def is_return_def rel_refl rel_cancel
      intro: rel_return split: OpCode.splits OpCodeI.splits)+

lemma keeps_ProcessRV32A [keeps_rules]:
  "keeps rel s (ProcessRV32A op s)"
  unfolding ProcessRV32A_def
  by (intro keeps_rules)+

lemma keeps_ProcessRV64A [keeps_rules]:
  "keeps rel s (ProcessRV64A op s)"
  unfolding ProcessRV64A_def
  by (intro keeps_rules)+

lemma keeps_ProcessRV32C [keeps_rules]:
  "keeps rel s (ProcessRV32C op pc s)"
  unfolding ProcessRV32C_def
  by (intro keeps_rules)+

lemma keeps_ProcessRV64C [keeps_rules]:
  "keeps rel s (ProcessRV64C op pc s)"
  unfolding ProcessRV64C_def
  by (intro keeps_rules)+

lemma keeps_ProcessRVF [keeps_rules]:
  "keeps rel s (ProcessRVF h op s)"
  unfolding ProcessRVF_def
  by (intro keeps_rules)+

lemma keeps_ProcessRVD [keeps_rules]:
  "keeps rel s (ProcessRVD h op s)"
  unfolding ProcessRVD_def
  by (intro keeps_rules)+

lemma keeps_ProcessRV32I [keeps_rules]:
  assumes "returns \<or> \<not> is_return (opCode op)"
  shows "keeps rel s (ProcessRV32I op pc s)"
  unfolding ProcessRV32I_def by (intro keeps_rules assms)+

lemma keeps_ProcessRV64I [keeps_rules]:
  assumes "returns \<or> \<not> is_return (opCode op)"
  shows "keeps rel s (ProcessRV64I op pc s)"
  unfolding ProcessRV64I_def by (intro keeps_rules assms)+

lemma keeps_ProcessOp:
  assumes "returns \<or> \<not> is_return (opCode op)"
  shows "keeps rel s (ProcessOp h op pc s)"
  unfolding ProcessOp_def
  by (cases "opClass op") (simp_all add: keeps_rules assms)

end

end
