(* ===== verification/ExecutorCheck.thy ===== *)
theory ExecutorCheck
  imports ExecutorBase
begin

text \<open>
  The checks of \<^verbatim>\<open>cpu/Executor.cpp\<close> around an execution: \<open>PreCheckTrap\<close> decides, without changing the
  state, whether an instruction traps before it takes effect, \<open>PostCheckTrap\<close> raises the traps of
  \<open>ecall\<close> and \<open>ebreak\<close>.
\<close>

section \<open>Loads, stores and atomics\<close>

definition PreCheckTrapRV32_Load :: "Op \<Rightarrow> vaddr_t \<Rightarrow> System \<Rightarrow> Trap option result" where
  "PreCheckTrapRV32_Load op pc sys =
     rbind (get_I (operand op)) (\<lambda>(operand_imm, operand_rd, operand_rs1, operand_funct3).
     rbind (int_ReadUInt32 sys operand_rs1) (\<lambda>v.
     let address = ((ucast v) + operand_imm) in
     MemoryAccessUnit_CheckTrap sys Load pc address))"

definition PreCheckTrapRV32_LoadReserved :: "Op \<Rightarrow> vaddr_t \<Rightarrow> System \<Rightarrow> Trap option result" where
  "PreCheckTrapRV32_LoadReserved op pc sys =
     rbind (get_R (operand op)) (\<lambda>(operand_rd, operand_rs1, operand_rs2, operand_funct3, operand_funct7).
     rbind (int_ReadUInt32 sys operand_rs1) (\<lambda>address.
     MemoryAccessUnit_CheckTrap sys Load pc (ucast address)))"

definition PreCheckTrapRV32_Store :: "Op \<Rightarrow> vaddr_t \<Rightarrow> System \<Rightarrow> Trap option result" where
  "PreCheckTrapRV32_Store op pc sys =
     rbind (get_S (operand op)) (\<lambda>(operand_imm, operand_rs1, operand_rs2, operand_funct3).
     rbind (int_ReadUInt32 sys operand_rs1) (\<lambda>v.
     let address = ((ucast v) + operand_imm) in
     MemoryAccessUnit_CheckTrap sys Store pc address))"

definition PreCheckTrapRV32_StoreConditional :: "Op \<Rightarrow> vaddr_t \<Rightarrow> System \<Rightarrow> Trap option result" where
  "PreCheckTrapRV32_StoreConditional op pc sys =
     rbind (get_R (operand op)) (\<lambda>(operand_rd, operand_rs1, operand_rs2, operand_funct3, operand_funct7).
     rbind (int_ReadUInt32 sys operand_rs1) (\<lambda>address.
     MemoryAccessUnit_CheckTrap sys Store pc (ucast address)))"

definition PreCheckTrapRV32_Atomic :: "Op \<Rightarrow> vaddr_t \<Rightarrow> System \<Rightarrow> Trap option result" where
  "PreCheckTrapRV32_Atomic op pc sys =
     rbind (get_R (operand op)) (\<lambda>(operand_rd, operand_rs1, operand_rs2, operand_funct3, operand_funct7).
     rbind (int_ReadUInt32 sys operand_rs1) (\<lambda>v.
     let address = (ucast v :: uint64) in
     return_if_trap (MemoryAccessUnit_CheckTrap sys Load pc address)
     (MemoryAccessUnit_CheckTrap sys Store pc address)))"

definition PreCheckTrapRV64_Load :: "Op \<Rightarrow> vaddr_t \<Rightarrow> System \<Rightarrow> Trap option result" where
  "PreCheckTrapRV64_Load op pc sys =
     rbind (get_I (operand op)) (\<lambda>(operand_imm, operand_rd, operand_rs1, operand_funct3).
     rbind (int_ReadUInt64 sys operand_rs1) (\<lambda>v.
     let address = (v + operand_imm) in
     MemoryAccessUnit_CheckTrap sys Load pc address))"

definition PreCheckTrapRV64_LoadReserved :: "Op \<Rightarrow> vaddr_t \<Rightarrow> System \<Rightarrow> Trap option result" where
  "PreCheckTrapRV64_LoadReserved op pc sys =
     rbind (get_R (operand op)) (\<lambda>(operand_rd, operand_rs1, operand_rs2, operand_funct3, operand_funct7).
     rbind (int_ReadUInt64 sys operand_rs1) (\<lambda>address.
     MemoryAccessUnit_CheckTrap sys Load pc address))"

definition PreCheckTrapRV64_Store :: "Op \<Rightarrow> vaddr_t \<Rightarrow> System \<Rightarrow> Trap option result" where
  "PreCheckTrapRV64_Store op pc sys =
     rbind (get_S (operand op)) (\<lambda>(operand_imm, operand_rs1, operand_rs2, operand_funct3).
     rbind (int_ReadUInt64 sys operand_rs1) (\<lambda>v.
     let address = (v + operand_imm) in
     MemoryAccessUnit_CheckTrap sys Store pc address))"

definition PreCheckTrapRV64_StoreConditional :: "Op \<Rightarrow> vaddr_t \<Rightarrow> System \<Rightarrow> Trap option result" where
  "PreCheckTrapRV64_StoreConditional op pc sys =
     rbind (get_R (operand op)) (\<lambda>(operand_rd, operand_rs1, operand_rs2, operand_funct3, operand_funct7).
     rbind (int_ReadUInt64 sys operand_rs1) (\<lambda>address.
     MemoryAccessUnit_CheckTrap sys Store pc address))"

definition PreCheckTrapRV64_Atomic :: "Op \<Rightarrow> vaddr_t \<Rightarrow> System \<Rightarrow> Trap option result" where
  "PreCheckTrapRV64_Atomic op pc sys =
     rbind (get_R (operand op)) (\<lambda>(operand_rd, operand_rs1, operand_rs2, operand_funct3, operand_funct7).
     rbind (int_ReadUInt64 sys operand_rs1) (\<lambda>address.
     return_if_trap (MemoryAccessUnit_CheckTrap sys Load pc address)
     (MemoryAccessUnit_CheckTrap sys Store pc address)))"

section \<open>Privileged instructions\<close>

definition PreCheckTrap_Csr :: "Op \<Rightarrow> vaddr_t \<Rightarrow> uint32 \<Rightarrow> System \<Rightarrow> Trap option result" where
  "PreCheckTrap_Csr op pc insn sys =
     rbind (get_Csr (operand op)) (\<lambda>(operand_rd, operand_rs1, operand_csr).
     let write = ((((opCode op = rvi op_csrrs) \<and> (operand_rs1 \<noteq> 0)) \<or> ((opCode op = rvi op_csrrc) \<and> (operand_rs1 \<noteq> 0))) \<or> (opCode op = rvi op_csrrw)) in
     Csr_CheckTrap (sys_Csr sys) operand_csr write pc insn)"

definition PreCheckTrap_CsrImm :: "Op \<Rightarrow> vaddr_t \<Rightarrow> uint32 \<Rightarrow> System \<Rightarrow> Trap option result" where
  "PreCheckTrap_CsrImm op pc insn sys =
     rbind (get_CsrImm (operand op)) (\<lambda>(operand_zimm, operand_rd, operand_csr).
     let write = ((((opCode op = rvi op_csrrsi) \<and> (operand_zimm \<noteq> 0)) \<or> ((opCode op = rvi op_csrrci) \<and> (operand_zimm \<noteq> 0))) \<or> (opCode op = rvi op_csrrwi)) in
     Csr_CheckTrap (sys_Csr sys) operand_csr write pc insn)"

definition PreCheckTrap_Wfi :: "vaddr_t \<Rightarrow> uint32 \<Rightarrow> System \<Rightarrow> Trap option result" where
  "PreCheckTrap_Wfi pc insn sys =
     (let priv = (m_Priv (sys_Csr sys)) in
     rbind (Csr_ReadStatus (sys_Csr sys)) (\<lambda>status.
     (if (priv = User) \<or> ((priv = Supervisor) \<and> ((GetMember xstatus_TW status) \<noteq> 0)) then Inr (Some (MakeIllegalInstructionException pc insn))
     else Inr None)))"

definition PreCheckTrap_Fence :: "vaddr_t \<Rightarrow> uint32 \<Rightarrow> System \<Rightarrow> Trap option result" where
  "PreCheckTrap_Fence pc insn sys =
     (let priv = (m_Priv (sys_Csr sys)) in
     rbind (Csr_ReadStatus (sys_Csr sys)) (\<lambda>status.
     (if (priv = User) \<or> ((priv = Supervisor) \<and> ((GetMember xstatus_TVM status) \<noteq> 0)) then Inr (Some (MakeIllegalInstructionException pc insn))
     else Inr None)))"

definition PreCheckTrap_Priv :: "Op \<Rightarrow> vaddr_t \<Rightarrow> uint32 \<Rightarrow> System \<Rightarrow> Trap option result" where
  "PreCheckTrap_Priv op pc insn sys =
     (let priv = (m_Priv (sys_Csr sys)) in
     rbind (Csr_ReadStatus (sys_Csr sys)) (\<lambda>status.
     (if (opCode op = rvi op_mret) \<and> ((priv = User) \<or> (priv = Supervisor)) then Inr (Some (MakeIllegalInstructionException pc insn))
     else (if (opCode op = rvi op_sret) \<and> ((priv = User) \<or> ((priv = Supervisor) \<and> ((GetMember xstatus_TSR status) \<noteq> 0))) then Inr (Some (MakeIllegalInstructionException pc insn))
     else Inr None))))"

section \<open>Compressed instructions\<close>

definition PreCheckTrapRV32C_FLD :: "Op \<Rightarrow> vaddr_t \<Rightarrow> System \<Rightarrow> Trap option result" where
  "PreCheckTrapRV32C_FLD op pc sys =
     rbind (get_CL (operand op)) (\<lambda>(operand_imm, operand_rd, operand_rs1).
     rbind (int_ReadUInt32 sys operand_rs1) (\<lambda>v.
     let address = ((ucast v) + operand_imm) in
     MemoryAccessUnit_CheckTrap sys Load pc address))"

definition PreCheckTrapRV32C_FLDSP :: "Op \<Rightarrow> vaddr_t \<Rightarrow> System \<Rightarrow> Trap option result" where
  "PreCheckTrapRV32C_FLDSP op pc sys =
     rbind (get_CI (operand op)) (\<lambda>(operand_imm, operand_rd, operand_rs1).
     rbind (ReadStackPointer32 sys) (\<lambda>sp.
     let address = ((ucast sp) + operand_imm) in
     MemoryAccessUnit_CheckTrap sys Load pc address))"

definition PreCheckTrapRV32C_FLW :: "Op \<Rightarrow> vaddr_t \<Rightarrow> System \<Rightarrow> Trap option result" where
  "PreCheckTrapRV32C_FLW op pc sys =
     rbind (get_CL (operand op)) (\<lambda>(operand_imm, operand_rd, operand_rs1).
     rbind (int_ReadUInt32 sys operand_rs1) (\<lambda>v.
     let address = ((ucast v) + operand_imm) in
     MemoryAccessUnit_CheckTrap sys Load pc address))"

definition PreCheckTrapRV32C_FLWSP :: "Op \<Rightarrow> vaddr_t \<Rightarrow> System \<Rightarrow> Trap option result" where
  "PreCheckTrapRV32C_FLWSP op pc sys =
     rbind (get_CI (operand op)) (\<lambda>(operand_imm, operand_rd, operand_rs1).
     rbind (ReadStackPointer32 sys) (\<lambda>sp.
     let address = ((ucast sp) + operand_imm) in
     MemoryAccessUnit_CheckTrap sys Load pc address))"

definition PreCheckTrapRV32C_FSD :: "Op \<Rightarrow> vaddr_t \<Rightarrow> System \<Rightarrow> Trap option result" where
  "PreCheckTrapRV32C_FSD op pc sys =
     rbind (get_CS (operand op)) (\<lambda>(operand_imm, operand_rs1, operand_rs2).
     rbind (int_ReadUInt32 sys operand_rs1) (\<lambda>v.
     let address = ((ucast v) + operand_imm) in
     rbind (fp_ReadUInt64 sys operand_rs2) (\<lambda>value.
     MemoryAccessUnit_CheckTrap sys Store pc address)))"

definition PreCheckTrapRV32C_FSDSP :: "Op \<Rightarrow> vaddr_t \<Rightarrow> System \<Rightarrow> Trap option result" where
  "PreCheckTrapRV32C_FSDSP op pc sys =
     rbind (get_CSS (operand op)) (\<lambda>(operand_imm, operand_rs2).
     rbind (ReadStackPointer32 sys) (\<lambda>sp.
     let address = ((ucast sp) + operand_imm) in
     rbind (fp_ReadUInt64 sys operand_rs2) (\<lambda>value.
     MemoryAccessUnit_CheckTrap sys Store pc address)))"

definition PreCheckTrapRV32C_FSW :: "Op \<Rightarrow> vaddr_t \<Rightarrow> System \<Rightarrow> Trap option result" where
  "PreCheckTrapRV32C_FSW op pc sys =
     rbind (get_CS (operand op)) (\<lambda>(operand_imm, operand_rs1, operand_rs2).
     rbind (int_ReadUInt32 sys operand_rs1) (\<lambda>v.
     let address = ((ucast v) + operand_imm) in
     rbind (fp_ReadUInt32 sys operand_rs2) (\<lambda>value.
     MemoryAccessUnit_CheckTrap sys Store pc address)))"

definition PreCheckTrapRV32C_FSWSP :: "Op \<Rightarrow> vaddr_t \<Rightarrow> System \<Rightarrow> Trap option result" where
  "PreCheckTrapRV32C_FSWSP op pc sys =
     rbind (get_CSS (operand op)) (\<lambda>(operand_imm, operand_rs2).
     rbind (ReadStackPointer32 sys) (\<lambda>sp.
     let address = ((ucast sp) + operand_imm) in
     rbind (fp_ReadUInt32 sys operand_rs2) (\<lambda>value.
     MemoryAccessUnit_CheckTrap sys Store pc address)))"

definition PreCheckTrapRV32C_LW :: "Op \<Rightarrow> vaddr_t \<Rightarrow> System \<Rightarrow> Trap option result" where
  "PreCheckTrapRV32C_LW op pc sys =
     rbind (get_CL (operand op)) (\<lambda>(operand_imm, operand_rd, operand_rs1).
     rbind (int_ReadUInt32 sys operand_rs1) (\<lambda>v.
     let address = ((ucast v) + operand_imm) in
     MemoryAccessUnit_CheckTrap sys Load pc address))"

definition PreCheckTrapRV32C_LWSP :: "Op \<Rightarrow> vaddr_t \<Rightarrow> System \<Rightarrow> Trap option result" where
  "PreCheckTrapRV32C_LWSP op pc sys =
     rbind (get_CI (operand op)) (\<lambda>(operand_imm, operand_rd, operand_rs1).
     rbind (ReadStackPointer32 sys) (\<lambda>sp.
     let address = ((ucast sp) + operand_imm) in
     MemoryAccessUnit_CheckTrap sys Load pc address))"

definition PreCheckTrapRV32C_SW :: "Op \<Rightarrow> vaddr_t \<Rightarrow> System \<Rightarrow> Trap option result" where
  "PreCheckTrapRV32C_SW op pc sys =
     rbind (get_CS (operand op)) (\<lambda>(operand_imm, operand_rs1, operand_rs2).
     rbind (int_ReadUInt32 sys operand_rs1) (\<lambda>v.
     let address = ((ucast v) + operand_imm) in
     MemoryAccessUnit_CheckTrap sys Store pc address))"

definition PreCheckTrapRV32C_SWSP :: "Op \<Rightarrow> vaddr_t \<Rightarrow> System \<Rightarrow> Trap option result" where
  "PreCheckTrapRV32C_SWSP op pc sys =
     rbind (get_CSS (operand op)) (\<lambda>(operand_imm, operand_rs2).
     rbind (ReadStackPointer32 sys) (\<lambda>sp.
     let address = ((ucast sp) + operand_imm) in
     MemoryAccessUnit_CheckTrap sys Store pc address))"

definition PreCheckTrapRV64C_FLD :: "Op \<Rightarrow> vaddr_t \<Rightarrow> System \<Rightarrow> Trap option result" where
  "PreCheckTrapRV64C_FLD op pc sys =
     rbind (get_CL (operand op)) (\<lambda>(operand_imm, operand_rd, operand_rs1).
     rbind (int_ReadUInt64 sys operand_rs1) (\<lambda>v.
     let address = (v + operand_imm) in
     MemoryAccessUnit_CheckTrap sys Load pc address))"

definition PreCheckTrapRV64C_FLDSP :: "Op \<Rightarrow> vaddr_t \<Rightarrow> System \<Rightarrow> Trap option result" where
  "PreCheckTrapRV64C_FLDSP op pc sys =
     rbind (get_CI (operand op)) (\<lambda>(operand_imm, operand_rd, operand_rs1).
     rbind (ReadStackPointer64 sys) (\<lambda>sp.
     let address = (sp + operand_imm) in
     MemoryAccessUnit_CheckTrap sys Load pc address))"

definition PreCheckTrapRV64C_FSD :: "Op \<Rightarrow> vaddr_t \<Rightarrow> System \<Rightarrow> Trap option result" where
  "PreCheckTrapRV64C_FSD op pc sys =
     rbind (get_CS (operand op)) (\<lambda>(operand_imm, operand_rs1, operand_rs2).
     rbind (int_ReadUInt64 sys operand_rs1) (\<lambda>v.
     let address = (v + operand_imm) in
     MemoryAccessUnit_CheckTrap sys Store pc address))"

definition PreCheckTrapRV64C_FSDSP :: "Op \<Rightarrow> vaddr_t \<Rightarrow> System \<Rightarrow> Trap option result" where
  "PreCheckTrapRV64C_FSDSP op pc sys =
     rbind (get_CSS (operand op)) (\<lambda>(operand_imm, operand_rs2).
     rbind (ReadStackPointer64 sys) (\<lambda>sp.
     let address = (sp + operand_imm) in
     MemoryAccessUnit_CheckTrap sys Store pc address))"

definition PreCheckTrapRV64C_LD :: "Op \<Rightarrow> vaddr_t \<Rightarrow> System \<Rightarrow> Trap option result" where
  "PreCheckTrapRV64C_LD op pc sys =
     rbind (get_CL (operand op)) (\<lambda>(operand_imm, operand_rd, operand_rs1).
     rbind (int_ReadUInt64 sys operand_rs1) (\<lambda>v.
     let address = (v + operand_imm) in
     MemoryAccessUnit_CheckTrap sys Load pc address))"

definition PreCheckTrapRV64C_LDSP :: "Op \<Rightarrow> vaddr_t \<Rightarrow> System \<Rightarrow> Trap option result" where
  "PreCheckTrapRV64C_LDSP op pc sys =
     rbind (get_CI (operand op)) (\<lambda>(operand_imm, operand_rd, operand_rs1).
     rbind (ReadStackPointer64 sys) (\<lambda>sp.
     let address = (sp + operand_imm) in
     MemoryAccessUnit_CheckTrap sys Load pc address))"

definition PreCheckTrapRV64C_LW :: "Op \<Rightarrow> vaddr_t \<Rightarrow> System \<Rightarrow> Trap option result" where
  "PreCheckTrapRV64C_LW op pc sys =
     rbind (get_CL (operand op)) (\<lambda>(operand_imm, operand_rd, operand_rs1).
     rbind (int_ReadUInt64 sys operand_rs1) (\<lambda>v.
     let address = (v + operand_imm) in
     MemoryAccessUnit_CheckTrap sys Load pc address))"

definition PreCheckTrapRV64C_LWSP :: "Op \<Rightarrow> vaddr_t \<Rightarrow> System \<Rightarrow> Trap option result" where
  "PreCheckTrapRV64C_LWSP op pc sys =
     rbind (get_CI (operand op)) (\<lambda>(operand_imm, operand_rd, operand_rs1).
     rbind (ReadStackPointer64 sys) (\<lambda>sp.
     let address = (sp + operand_imm) in
     MemoryAccessUnit_CheckTrap sys Load pc address))"

definition PreCheckTrapRV64C_SD :: "Op \<Rightarrow> vaddr_t \<Rightarrow> System \<Rightarrow> Trap option result" where
  "PreCheckTrapRV64C_SD op pc sys =
     rbind (get_CS (operand op)) (\<lambda>(operand_imm, operand_rs1, operand_rs2).
     rbind (int_ReadUInt64 sys operand_rs1) (\<lambda>v.
     let address = (v + operand_imm) in
     MemoryAccessUnit_CheckTrap sys Store pc address))"

definition PreCheckTrapRV64C_SDSP :: "Op \<Rightarrow> vaddr_t \<Rightarrow> System \<Rightarrow> Trap option result" where
  "PreCheckTrapRV64C_SDSP op pc sys =
     rbind (get_CSS (operand op)) (\<lambda>(operand_imm, operand_rs2).
     rbind (ReadStackPointer64 sys) (\<lambda>sp.
     let address = (sp + operand_imm) in
     MemoryAccessUnit_CheckTrap sys Store pc address))"

definition PreCheckTrapRV64C_SW :: "Op \<Rightarrow> vaddr_t \<Rightarrow> System \<Rightarrow> Trap option result" where
  "PreCheckTrapRV64C_SW op pc sys =
     rbind (get_CS (operand op)) (\<lambda>(operand_imm, operand_rs1, operand_rs2).
     rbind (int_ReadUInt64 sys operand_rs1) (\<lambda>v.
     let address = (v + operand_imm) in
     MemoryAccessUnit_CheckTrap sys Store pc address))"

definition PreCheckTrapRV64C_SWSP :: "Op \<Rightarrow> vaddr_t \<Rightarrow> System \<Rightarrow> Trap option result" where
  "PreCheckTrapRV64C_SWSP op pc sys =
     rbind (get_CSS (operand op)) (\<lambda>(operand_imm, operand_rs2).
     rbind (ReadStackPointer64 sys) (\<lambda>sp.
     let address = (sp + operand_imm) in
     MemoryAccessUnit_CheckTrap sys Store pc address))"

definition PreCheckTrapRV32C :: "Op \<Rightarrow> vaddr_t \<Rightarrow> System \<Rightarrow> Trap option result" where
  "PreCheckTrapRV32C op pc sys =
     (case opCode op of
       rvc op_c_fld \<Rightarrow> PreCheckTrapRV32C_FLD op pc sys
     | rvc op_c_fldsp \<Rightarrow> PreCheckTrapRV32C_FLDSP op pc sys
     | rvc op_c_flw \<Rightarrow> PreCheckTrapRV32C_FLW op pc sys
     | rvc op_c_flwsp \<Rightarrow> PreCheckTrapRV32C_FLWSP op pc sys
     | rvc op_c_fsd \<Rightarrow> PreCheckTrapRV32C_FSD op pc sys
     | rvc op_c_fsdsp \<Rightarrow> PreCheckTrapRV32C_FSDSP op pc sys
     | rvc op_c_fsw \<Rightarrow> PreCheckTrapRV32C_FSW op pc sys
     | rvc op_c_fswsp \<Rightarrow> PreCheckTrapRV32C_FSWSP op pc sys
     | rvc op_c_lw \<Rightarrow> PreCheckTrapRV32C_LW op pc sys
     | rvc op_c_lwsp \<Rightarrow> PreCheckTrapRV32C_LWSP op pc sys
     | rvc op_c_sw \<Rightarrow> PreCheckTrapRV32C_SW op pc sys
     | rvc op_c_swsp \<Rightarrow> PreCheckTrapRV32C_SWSP op pc sys
     | _ \<Rightarrow> Inr None)"

definition PreCheckTrapRV64C :: "Op \<Rightarrow> vaddr_t \<Rightarrow> System \<Rightarrow> Trap option result" where
  "PreCheckTrapRV64C op pc sys =
     (case opCode op of
       rvc op_c_fld \<Rightarrow> PreCheckTrapRV64C_FLD op pc sys
     | rvc op_c_fldsp \<Rightarrow> PreCheckTrapRV64C_FLDSP op pc sys
     | rvc op_c_fsd \<Rightarrow> PreCheckTrapRV64C_FSD op pc sys
     | rvc op_c_fsdsp \<Rightarrow> PreCheckTrapRV64C_FSDSP op pc sys
     | rvc op_c_ld \<Rightarrow> PreCheckTrapRV64C_LD op pc sys
     | rvc op_c_ldsp \<Rightarrow> PreCheckTrapRV64C_LDSP op pc sys
     | rvc op_c_lw \<Rightarrow> PreCheckTrapRV64C_LW op pc sys
     | rvc op_c_lwsp \<Rightarrow> PreCheckTrapRV64C_LWSP op pc sys
     | rvc op_c_sd \<Rightarrow> PreCheckTrapRV64C_SD op pc sys
     | rvc op_c_sdsp \<Rightarrow> PreCheckTrapRV64C_SDSP op pc sys
     | rvc op_c_sw \<Rightarrow> PreCheckTrapRV64C_SW op pc sys
     | rvc op_c_swsp \<Rightarrow> PreCheckTrapRV64C_SWSP op pc sys
     | _ \<Rightarrow> Inr None)"

section \<open>Before the execution\<close>

definition PreCheckTrap_width :: "OpClass \<Rightarrow> Trap option result \<Rightarrow> Trap option result \<Rightarrow> Trap option result" where
  "PreCheckTrap_width c rv32 rv64 = (if IsRV32 c then rv32 else if IsRV64 c then rv64 else Inl ProcessExit)"

text \<open>The second switch of \<open>PreCheckTrap\<close>, on the operation code.\<close>

definition PreCheckTrap_opcode :: "Op \<Rightarrow> vaddr_t \<Rightarrow> uint32 \<Rightarrow> System \<Rightarrow> Trap option result" where
  "PreCheckTrap_opcode op pc insn sys = (case opCode op of
       rvi op_lb \<Rightarrow> PreCheckTrap_width (opClass op) (PreCheckTrapRV32_Load op pc sys) (PreCheckTrapRV64_Load op pc sys)
     | rvi op_lh \<Rightarrow> PreCheckTrap_width (opClass op) (PreCheckTrapRV32_Load op pc sys) (PreCheckTrapRV64_Load op pc sys)
     | rvi op_lw \<Rightarrow> PreCheckTrap_width (opClass op) (PreCheckTrapRV32_Load op pc sys) (PreCheckTrapRV64_Load op pc sys)
     | rvi op_lbu \<Rightarrow> PreCheckTrap_width (opClass op) (PreCheckTrapRV32_Load op pc sys) (PreCheckTrapRV64_Load op pc sys)
     | rvi op_lhu \<Rightarrow> PreCheckTrap_width (opClass op) (PreCheckTrapRV32_Load op pc sys) (PreCheckTrapRV64_Load op pc sys)
     | rvi op_lwu \<Rightarrow> PreCheckTrap_width (opClass op) (PreCheckTrapRV32_Load op pc sys) (PreCheckTrapRV64_Load op pc sys)
     | rvi op_ld \<Rightarrow> PreCheckTrap_width (opClass op) (PreCheckTrapRV32_Load op pc sys) (PreCheckTrapRV64_Load op pc sys)
     | rvf op_flw \<Rightarrow> PreCheckTrap_width (opClass op) (PreCheckTrapRV32_Load op pc sys) (PreCheckTrapRV64_Load op pc sys)
     | rvd op_fld \<Rightarrow> PreCheckTrap_width (opClass op) (PreCheckTrapRV32_Load op pc sys) (PreCheckTrapRV64_Load op pc sys)
     | rvi op_sb \<Rightarrow> PreCheckTrap_width (opClass op) (PreCheckTrapRV32_Store op pc sys) (PreCheckTrapRV64_Store op pc sys)
     | rvi op_sh \<Rightarrow> PreCheckTrap_width (opClass op) (PreCheckTrapRV32_Store op pc sys) (PreCheckTrapRV64_Store op pc sys)
     | rvi op_sw \<Rightarrow> PreCheckTrap_width (opClass op) (PreCheckTrapRV32_Store op pc sys) (PreCheckTrapRV64_Store op pc sys)
     | rvi op_sd \<Rightarrow> PreCheckTrap_width (opClass op) (PreCheckTrapRV32_Store op pc sys) (PreCheckTrapRV64_Store op pc sys)
     | rvf op_fsw \<Rightarrow> PreCheckTrap_width (opClass op) (PreCheckTrapRV32_Store op pc sys) (PreCheckTrapRV64_Store op pc sys)
     | rvd op_fsd \<Rightarrow> PreCheckTrap_width (opClass op) (PreCheckTrapRV32_Store op pc sys) (PreCheckTrapRV64_Store op pc sys)
     | rvi op_csrrw \<Rightarrow> PreCheckTrap_Csr op pc insn sys
     | rvi op_csrrs \<Rightarrow> PreCheckTrap_Csr op pc insn sys
     | rvi op_csrrc \<Rightarrow> PreCheckTrap_Csr op pc insn sys
     | rvi op_csrrwi \<Rightarrow> PreCheckTrap_CsrImm op pc insn sys
     | rvi op_csrrsi \<Rightarrow> PreCheckTrap_CsrImm op pc insn sys
     | rvi op_csrrci \<Rightarrow> PreCheckTrap_CsrImm op pc insn sys
     | rvi op_wfi \<Rightarrow> PreCheckTrap_Wfi pc insn sys
     | rvi op_sfence_vma \<Rightarrow> PreCheckTrap_Fence pc insn sys
     | rvi op_mret \<Rightarrow> PreCheckTrap_Priv op pc insn sys
     | rvi op_sret \<Rightarrow> PreCheckTrap_Priv op pc insn sys
     | rvi op_uret \<Rightarrow> PreCheckTrap_Priv op pc insn sys
     | rva op_lr_d \<Rightarrow> PreCheckTrap_width (opClass op) (PreCheckTrapRV32_LoadReserved op pc sys) (PreCheckTrapRV64_LoadReserved op pc sys)
     | rva op_lr_w \<Rightarrow> PreCheckTrap_width (opClass op) (PreCheckTrapRV32_LoadReserved op pc sys) (PreCheckTrapRV64_LoadReserved op pc sys)
     | rva op_sc_d \<Rightarrow> PreCheckTrap_width (opClass op) (PreCheckTrapRV32_StoreConditional op pc sys) (PreCheckTrapRV64_StoreConditional op pc sys)
     | rva op_sc_w \<Rightarrow> PreCheckTrap_width (opClass op) (PreCheckTrapRV32_StoreConditional op pc sys) (PreCheckTrapRV64_StoreConditional op pc sys)
     | rva op_amoswap_d \<Rightarrow> PreCheckTrap_width (opClass op) (PreCheckTrapRV32_Atomic op pc sys) (PreCheckTrapRV64_Atomic op pc sys)
     | rva op_amoswap_w \<Rightarrow> PreCheckTrap_width (opClass op) (PreCheckTrapRV32_Atomic op pc sys) (PreCheckTrapRV64_Atomic op pc sys)
     | rva op_amoadd_d \<Rightarrow> PreCheckTrap_width (opClass op) (PreCheckTrapRV32_Atomic op pc sys) (PreCheckTrapRV64_Atomic op pc sys)
     | rva op_amoadd_w \<Rightarrow> PreCheckTrap_width (opClass op) (PreCheckTrapRV32_Atomic op pc sys) (PreCheckTrapRV64_Atomic op pc sys)
     | rva op_amoxor_d \<Rightarrow> PreCheckTrap_width (opClass op) (PreCheckTrapRV32_Atomic op pc sys) (PreCheckTrapRV64_Atomic op pc sys)
     | rva op_amoxor_w \<Rightarrow> PreCheckTrap_width (opClass op) (PreCheckTrapRV32_Atomic op pc sys) (PreCheckTrapRV64_Atomic op pc sys)
     | rva op_amoand_d \<Rightarrow> PreCheckTrap_width (opClass op) (PreCheckTrapRV32_Atomic op pc sys) (PreCheckTrapRV64_Atomic op pc sys)
     | rva op_amoand_w \<Rightarrow> PreCheckTrap_width (opClass op) (PreCheckTrapRV32_Atomic op pc sys) (PreCheckTrapRV64_Atomic op pc sys)
     | rva op_amoor_d \<Rightarrow> PreCheckTrap_width (opClass op) (PreCheckTrapRV32_Atomic op pc sys) (PreCheckTrapRV64_Atomic op pc sys)
     | rva op_amoor_w \<Rightarrow> PreCheckTrap_width (opClass op) (PreCheckTrapRV32_Atomic op pc sys) (PreCheckTrapRV64_Atomic op pc sys)
     | rva op_amomin_d \<Rightarrow> PreCheckTrap_width (opClass op) (PreCheckTrapRV32_Atomic op pc sys) (PreCheckTrapRV64_Atomic op pc sys)
     | rva op_amomin_w \<Rightarrow> PreCheckTrap_width (opClass op) (PreCheckTrapRV32_Atomic op pc sys) (PreCheckTrapRV64_Atomic op pc sys)
     | rva op_amomax_d \<Rightarrow> PreCheckTrap_width (opClass op) (PreCheckTrapRV32_Atomic op pc sys) (PreCheckTrapRV64_Atomic op pc sys)
     | rva op_amomax_w \<Rightarrow> PreCheckTrap_width (opClass op) (PreCheckTrapRV32_Atomic op pc sys) (PreCheckTrapRV64_Atomic op pc sys)
     | rva op_amominu_d \<Rightarrow> PreCheckTrap_width (opClass op) (PreCheckTrapRV32_Atomic op pc sys) (PreCheckTrapRV64_Atomic op pc sys)
     | rva op_amominu_w \<Rightarrow> PreCheckTrap_width (opClass op) (PreCheckTrapRV32_Atomic op pc sys) (PreCheckTrapRV64_Atomic op pc sys)
     | rva op_amomaxu_d \<Rightarrow> PreCheckTrap_width (opClass op) (PreCheckTrapRV32_Atomic op pc sys) (PreCheckTrapRV64_Atomic op pc sys)
     | rva op_amomaxu_w \<Rightarrow> PreCheckTrap_width (opClass op) (PreCheckTrapRV32_Atomic op pc sys) (PreCheckTrapRV64_Atomic op pc sys)
     | _ \<Rightarrow> Inr None)"

definition PreCheckTrap :: "Op \<Rightarrow> vaddr_t \<Rightarrow> uint32 \<Rightarrow> System \<Rightarrow> Trap option result" where
  "PreCheckTrap op pc insn sys = (case opClass op of
       RV32C \<Rightarrow> PreCheckTrapRV32C op pc sys
     | RV64C \<Rightarrow> PreCheckTrapRV64C op pc sys
     | c \<Rightarrow>
         if c = RV32F \<or> c = RV32D \<or> c = RV64F \<or> c = RV64D
         then rbind (IsFpEnabled sys) (\<lambda>b.
                if \<not> b then Inr (Some (MakeIllegalInstructionException pc insn))
                else PreCheckTrap_opcode op pc insn sys)
         else PreCheckTrap_opcode op pc insn sys)"

section \<open>After the execution\<close>

definition PostCheckTrapForEcall :: "vaddr_t \<Rightarrow> System \<Rightarrow> Trap option result" where
  "PostCheckTrapForEcall pc sys =
     (case m_Priv (sys_Csr sys) of
       Machine \<Rightarrow> Inr (Some (MakeEnvironmentCallFromMachineException pc))
     | Supervisor \<Rightarrow> Inr (Some (MakeEnvironmentCallFromSupervisorException pc))
     | User \<Rightarrow> Inr (Some (MakeEnvironmentCallFromUserException pc))
     | _ \<Rightarrow> Inl EmuException)"

definition PostCheckTrap :: "Op \<Rightarrow> vaddr_t \<Rightarrow> System \<Rightarrow> Trap option result" where
  "PostCheckTrap op pc sys = (case opCode op of
       rvi op_ecall \<Rightarrow> PostCheckTrapForEcall pc sys
     | rvi op_ebreak \<Rightarrow> Inr (Some (MakeBreakpointException pc))
     | _ \<Rightarrow> Inr None)"

end
