(* ===== verification/Processor.thy ===== *)
theory Processor
  imports Decoder Executor ExecutorCheck
begin

text \<open>
  \<^verbatim>\<open>cpu/Processor.cpp\<close>, the cycle of the hart, and \<^verbatim>\<open>System::ProcessCycle\<close>, which drives the devices
  before it. A cycle checks for an interrupt, fetches, decodes, checks for a trap, moves the
  program counter past the instruction, executes and checks again.
\<close>

section \<open>Fetch\<close>

text \<open>The result of \<open>Fetch\<close>: the trap it returns, or the word it stores through its pointer.\<close>

datatype fetched = FetchTrap Trap | FetchInsn uint32

definition on_address ::
    "(translation \<times> System) result \<Rightarrow> (paddr_t \<Rightarrow> System \<Rightarrow> (fetched \<times> System) result) \<Rightarrow>
     (fetched \<times> System) result" where
  "on_address t k = rbind t (\<lambda>(tr, sys). case tr of
     TransTrap trap \<Rightarrow> Inr (FetchTrap trap, sys) | TransAddr paddr \<Rightarrow> k paddr sys)"

definition Fetch :: "vaddr_t \<Rightarrow> System \<Rightarrow> (fetched \<times> System) result" where
  "Fetch pc sys =
     (if pc mod 0x1000 = 0xffe then
        let vaddrLow = pc; vaddrHigh = pc + 2 in
        on_address (Translate Instruction vaddrLow pc sys) (\<lambda>paddrLow sys.
          rbind (FetchUInt16 vaddrLow paddrLow sys) (\<lambda>(insnLow, sys).
          if IsCompressedInstruction16 insnLow then Inr (FetchInsn (ucast insnLow), sys)
          else on_address (Translate Instruction vaddrHigh pc sys) (\<lambda>paddrHigh sys.
            rbind (FetchUInt16 vaddrHigh paddrHigh sys) (\<lambda>(insnHigh, sys).
              Inr (FetchInsn (push_bit 16 (ucast insnHigh) OR ucast insnLow), sys)))))
      else
        on_address (Translate Instruction pc pc sys) (\<lambda>paddr sys.
          rbind (FetchUInt32 pc paddr sys) (\<lambda>(insn, sys). Inr (FetchInsn insn, sys))))"

section \<open>Parts of the cycle\<close>

definition processor_exception :: "Trap \<Rightarrow> System \<Rightarrow> System result" where
  "processor_exception trap sys = with_trap_state sys
     (ProcessException (sys_XLEN sys) trap (sys_Csr sys, sys_EventList sys))"

definition processor_interrupt :: "vaddr_t \<Rightarrow> System \<Rightarrow> System result" where
  "processor_interrupt pc sys = rbind (GetInterruptType (sys_InterruptController sys)) (\<lambda>interruptType.
     with_trap_state sys
       (ProcessInterrupt (sys_XLEN sys) interruptType pc (sys_Csr sys, sys_EventList sys)))"

text \<open>
  The sources of the interrupt controller are fixed by the constructor of \<open>System\<close>; its update
  asks the CLINT only.
\<close>

definition processor_update_interrupt :: "System \<Rightarrow> System result" where
  "processor_update_interrupt sys =
     rbind (InterruptController_Update (Clint_IsInterruptRequested (sys_Clint sys, sys_Csr sys))
              (sys_InterruptController sys, sys_Csr sys))
       (\<lambda>(ic, csr). Inr (sys\<lparr> sys_InterruptController := ic, sys_Csr := csr \<rparr>))"

definition add_event :: "Event \<Rightarrow> System \<Rightarrow> System" where
  "add_event e sys = sys\<lparr> sys_EventList := sys_EventList sys @ [e] \<rparr>"

definition processor_execute :: "host \<Rightarrow> Op \<Rightarrow> vaddr_t \<Rightarrow> uint32 \<Rightarrow> System \<Rightarrow> System result" where
  "processor_execute h op pc insn sys =
     rbind (PreCheckTrap op pc insn sys) (\<lambda>preExecuteTrap. case preExecuteTrap of
       Some trap \<Rightarrow> processor_exception trap sys
     | None \<Rightarrow>
         let sys = csr_SetPc (if IsCompressedInstruction32 insn then pc + 2 else pc + 4) sys in
         rbind (ProcessOp h op pc sys) (\<lambda>sys.
         rbind (PostCheckTrap op pc sys) (\<lambda>postExecuteTrap. case postExecuteTrap of
           Some trap \<Rightarrow> processor_exception trap sys
         | None \<Rightarrow> Inr sys)))"

definition processor_decode :: "host \<Rightarrow> vaddr_t \<Rightarrow> uint32 \<Rightarrow> System \<Rightarrow> System result" where
  "processor_decode h pc insn sys =
     rbind (Decode (sys_XLEN sys) insn) (\<lambda>op.
       if opCode op = op_unknown
       then processor_exception (MakeIllegalInstructionException pc insn) sys
       else processor_execute h op pc insn sys)"

section \<open>The cycle\<close>

definition Processor_ProcessCycle :: "host \<Rightarrow> System \<Rightarrow> System result" where
  "Processor_ProcessCycle h sys =
     (let sys = sys\<lparr> sys_Csr := Csr_ProcessCycle (sys_Csr sys) \<rparr>;
          priv = m_Priv (sys_Csr sys);
          pc = m_Pc (sys_Csr sys)
      in rbind (processor_update_interrupt sys) (\<lambda>sys.
         if m_IsRequested (sys_InterruptController sys) then processor_interrupt pc sys
         else rbind (Fetch pc sys) (\<lambda>(f, sys). case f of
           FetchTrap trap \<Rightarrow> processor_exception trap sys
         | FetchInsn insn \<Rightarrow> processor_decode h pc insn (add_event (OpEvent insn priv) sys))))"

definition System_ProcessCycle :: "host \<Rightarrow> System \<Rightarrow> System result" where
  "System_ProcessCycle h sys = Processor_ProcessCycle h
     (sys\<lparr> sys_EventList := [],
           sys_Uart16550 := Uart16550_ProcessCycle (sys_Uart16550 sys),
           sys_Uart := Uart_ProcessCycle (sys_Uart sys),
           sys_Timer := Timer_ProcessCycle (sys_Timer sys) \<rparr>)"

end
