(* ===== verification/Emulator.thy ===== *)
theory Emulator
  imports Processor
begin

text \<open>
  \<^verbatim>\<open>bin/rafi-emu/Emulator.cpp\<close>: the loop around the system. The trace logger, which only reads the
  state, is left out. With \<open>CycleForever\<close> the loop need not end, so the loop is a partial
  function: \<open>None\<close> is a run that never returns.
\<close>

record Emulator =
  emu_System :: System
  emu_Cycle :: int

abbreviation EmulationStop_None :: uint32 where "EmulationStop_None \<equiv> 0"
abbreviation EmulationStop_HostIo :: uint32 where "EmulationStop_HostIo \<equiv> 1"
abbreviation EmulationStop_Breakpoint :: uint32 where "EmulationStop_Breakpoint \<equiv> 2"
abbreviation CycleForever :: int where "CycleForever \<equiv> - 1"

definition Emulator_new ::
    "XLEN \<Rightarrow> vaddr_t \<Rightarrow> uint64 \<Rightarrow> vaddr_t option \<Rightarrow> vaddr_t \<Rightarrow> Emulator result" where
  "Emulator_new xlen pc ramSize hostIoAddress dtbAddress =
     rbind (System_new xlen pc ramSize) (\<lambda>sys.
       let sys = (case hostIoAddress of Some a \<Rightarrow> System_SetHostIoAddress a sys | None \<Rightarrow> sys) in
       rbind (System_SetDtbAddress dtbAddress sys) (\<lambda>sys.
         Inr \<lparr> emu_System = sys, emu_Cycle = 0 \<rparr>))"

definition Emulator_LoadFileToMemory :: "bytes option \<Rightarrow> paddr_t \<Rightarrow> Emulator \<Rightarrow> Emulator result" where
  "Emulator_LoadFileToMemory file address e =
     rbind (System_LoadFileToMemory file address (emu_System e)) (\<lambda>sys. Inr (e\<lparr> emu_System := sys \<rparr>))"

definition Emulator_ProcessCycle :: "host \<Rightarrow> Emulator \<Rightarrow> Emulator result" where
  "Emulator_ProcessCycle h e =
     rbind (System_ProcessCycle h (emu_System e)) (\<lambda>sys. Inr (e\<lparr> emu_System := sys \<rparr>))"

definition IsStopConditionFilledPre :: "uint32 \<Rightarrow> Emulator \<Rightarrow> bool result" where
  "IsStopConditionFilledPre condition e =
     (if condition AND EmulationStop_HostIo \<noteq> 0
      then rbind (System_GetHostIoValue (emu_System e)) (\<lambda>v. Inr (v \<noteq> 0))
      else Inr False)"

text \<open>The loop over the events returns at the first trap event, whatever its type.\<close>

fun first_trap_is_breakpoint :: "Event list \<Rightarrow> bool" where
  "first_trap_is_breakpoint [] = False"
| "first_trap_is_breakpoint (TrapEvent t _ _ cause _ # es) =
     (t = Exception \<and> cause = of_nat (ExceptionType_code Breakpoint))"
| "first_trap_is_breakpoint (_ # es) = first_trap_is_breakpoint es"

definition IsStopConditionFilledPost :: "uint32 \<Rightarrow> Emulator \<Rightarrow> bool" where
  "IsStopConditionFilledPost condition e \<longleftrightarrow>
     condition AND EmulationStop_Breakpoint \<noteq> 0 \<and> first_trap_is_breakpoint (sys_EventList (emu_System e))"

partial_function (option) Emulator_Process ::
    "host \<Rightarrow> uint32 \<Rightarrow> int \<Rightarrow> Emulator \<Rightarrow> Emulator result option" where
  "Emulator_Process h condition cycle e =
     (if emu_Cycle e < cycle \<or> cycle = CycleForever then
        (case IsStopConditionFilledPre condition e of
           Inl err \<Rightarrow> Some (Inl err)
         | Inr stop \<Rightarrow>
             if stop then Some (Inr e)
             else (case Emulator_ProcessCycle h e of
                 Inl err \<Rightarrow> Some (Inl err)
               | Inr e' \<Rightarrow>
                   if IsStopConditionFilledPost condition e' then Some (Inr e')
                   else if emu_Cycle e' = 2147483647 then Some (Inl Undefined)
                   else Emulator_Process h condition cycle (e'\<lparr> emu_Cycle := emu_Cycle e' + 1 \<rparr>)))
      else Some (Inr e))"

end
