(* ===== verification/Invariants.thy ===== *)
theory Invariants
  imports Frames Emulator
begin

text \<open>
  Invariants of the machine over a cycle and over a run. \<open>hart_step\<close> relates the states before and
  after a piece of a cycle: the wiring is kept, the well-formedness of the registers is preserved,
  and the privilege level afterwards is the one the recorded events lead to. \<open>quiet_step\<close> is the
  same without trap events. Both are interpretations of the locale of \<open>Frames\<close>.
\<close>

section \<open>Relations\<close>

fun event_priv :: "PrivilegeLevel \<Rightarrow> Event \<Rightarrow> PrivilegeLevel" where
  "event_priv p (TrapEvent _ _ next _ _) = next"
| "event_priv p _ = p"

fun is_trap_event :: "Event \<Rightarrow> bool" where
  "is_trap_event (TrapEvent _ _ _ _ _) = True"
| "is_trap_event _ = False"

definition wiring_kept :: "System \<Rightarrow> System \<Rightarrow> bool" where
  "wiring_kept s t \<longleftrightarrow> sys_XLEN t = sys_XLEN s \<and> sys_Bus t = sys_Bus s \<and>
     m_Capacity (sys_Ram t) = m_Capacity (sys_Ram s) \<and> sys_HostIoAddress t = sys_HostIoAddress s \<and>
     m_XLEN (sys_Csr t) = m_XLEN (sys_Csr s)"

definition registers_wf :: "System \<Rightarrow> bool" where
  "registers_wf s \<longleftrightarrow> csr_status_wf (sys_Csr s) \<and> x0_zero (sys_IntRegFile s)"

definition hart_step :: "System \<Rightarrow> System \<Rightarrow> bool" where
  "hart_step s t \<longleftrightarrow> wiring_kept s t \<and> (registers_wf s \<longrightarrow> registers_wf t) \<and>
     (\<exists>es. sys_EventList t = sys_EventList s @ es \<and>
           m_Priv (sys_Csr t) = foldl event_priv (m_Priv (sys_Csr s)) es)"

definition quiet_step :: "System \<Rightarrow> System \<Rightarrow> bool" where
  "quiet_step s t \<longleftrightarrow> wiring_kept s t \<and> m_Priv (sys_Csr t) = m_Priv (sys_Csr s) \<and>
     (\<exists>es. sys_EventList t = sys_EventList s @ es \<and> \<not> list_ex is_trap_event es)"

lemma wiring_kept_trans: "wiring_kept s t \<Longrightarrow> wiring_kept t u \<Longrightarrow> wiring_kept s u"
  by (simp add: wiring_kept_def)

lemma hart_stepI:
  assumes "wiring_kept s t" "registers_wf s \<Longrightarrow> registers_wf t" "sys_EventList t = sys_EventList s @ es"
    "m_Priv (sys_Csr t) = foldl event_priv (m_Priv (sys_Csr s)) es"
  shows "hart_step s t"
  using assms by (auto simp: hart_step_def)

lemma hart_step_refl: "hart_step s s"
  by (rule hart_stepI [where es = "[]"]) (simp_all add: wiring_kept_def)

lemma hart_step_trans: "hart_step s t \<Longrightarrow> hart_step t u \<Longrightarrow> hart_step s u"
  unfolding hart_step_def by (auto intro: wiring_kept_trans)

lemma quiet_step_trans: "quiet_step s t \<Longrightarrow> quiet_step t u \<Longrightarrow> quiet_step s u"
  unfolding quiet_step_def by (auto intro: wiring_kept_trans)

text \<open>What the primitives leave alone, as one fact for both relations.\<close>

lemma hart_step_silent:
  assumes "wiring_kept s t" "registers_wf s \<Longrightarrow> registers_wf t" "sys_EventList t = sys_EventList s"
    "m_Priv (sys_Csr t) = m_Priv (sys_Csr s)"
  shows "hart_step s t"
  using assms by (auto intro: hart_stepI [where es = "[]"])

lemma quiet_step_silent:
  assumes "wiring_kept s t" "sys_EventList t = sys_EventList s" "m_Priv (sys_Csr t) = m_Priv (sys_Csr s)"
  shows "quiet_step s t"
  using assms by (auto simp: quiet_step_def)

lemmas csr_setters = Csr_SetPc_def Csr_SetPriv_def Csr_WriteStatus_def Csr_WriteFpCsr_def

lemma status_wf_same: "m_Status a = m_Status b \<Longrightarrow> csr_status_wf a = csr_status_wf b"
  by (simp add: csr_status_wf_def)

lemma status_wf_update [simp]:
  "csr_status_wf (csr\<lparr> m_Pc := v \<rparr>) = csr_status_wf csr" "csr_status_wf (csr\<lparr> m_Priv := p \<rparr>) = csr_status_wf csr"
  by (simp_all add: csr_status_wf_def)

lemma WriteUInt64_keeps:
  "Csr_WriteUInt64 addr v csr = Inr csr' \<Longrightarrow>
    m_XLEN csr' = m_XLEN csr \<and> (csr_status_wf csr \<longrightarrow> csr_status_wf csr')"
  using WriteUInt64_frame by blast

section \<open>Traps\<close>

lemma ProcessTrapEnter_event:
  assumes "ProcessTrapEnter xlen i c tv pc next s = Inr t"
  shows "\<exists>type origin. type \<noteq> Return \<and> snd t = snd s @ [TrapEvent type origin next c tv]" "m_Priv (fst t) = next"
proof -
  have priv: "m_Priv csr' = m_Priv csr"
    if "trap_enter_level next p cause pc tv csr = Inr (tvec, csr')" for p cause csr tvec csr'
    using that by (auto simp: trap_enter_level_def trap_save_def rbind_Inr_iff
        dest!: WriteUInt64_frame(2) split: PrivilegeLevel.splits)
  show "m_Priv (fst t) = next" using assms
    by (auto simp: ProcessTrapEnter_def Let_def rbind_Inr_iff push_event_def Csr_SetPc_def Csr_SetPriv_def dest!: priv)
  show "\<exists>type origin. type \<noteq> Return \<and> snd t = snd s @ [TrapEvent type origin next c tv]" using assms
    by (auto simp: ProcessTrapEnter_def Let_def rbind_Inr_iff push_event_def)
qed

lemma ProcessTrapReturn_step:
  assumes "ProcessTrapReturn level (csr, es) = Inr (csr', es')"
  shows "m_XLEN csr' = m_XLEN csr" "csr_status_wf csr \<Longrightarrow> csr_status_wf csr'"
    "\<exists>origin. es' = es @ [TrapEvent Return origin (m_Priv csr') 0 0]" "level = Machine \<or> level = Supervisor"
  using assms
  by (auto simp: ProcessTrapReturn_def Let_def rbind_Inr_iff push_event_def Csr_SetPc_def Csr_SetPriv_def
      status_wf_update dest!: WriteUInt64_keeps split: PrivilegeLevel.splits)

lemma hart_step_trap_return:
  assumes "trap_return level s = Inr t"
  shows "hart_step s t"
proof -
  obtain csr es origin where t: "t = s\<lparr> sys_Csr := csr, sys_EventList := es \<rparr>"
    "ProcessTrapReturn level (sys_Csr s, sys_EventList s) = Inr (csr, es)"
    "es = sys_EventList s @ [TrapEvent Return origin (m_Priv csr) 0 0]"
    using assms ProcessTrapReturn_step(3)
    by (fastforce simp: trap_return_def with_trap_state_def rbind_Inr_iff split: prod.splits)
  show ?thesis
    by (rule hart_stepI) (use t ProcessTrapReturn_step(1,2) [OF t(2)] in
      \<open>auto simp: wiring_kept_def registers_wf_def\<close>)
qed

section \<open>Interpretations\<close>

interpretation hart: kept hart_step True
proof unfold_locales
  fix s t t2 :: System and am fp env type n x y z v w u r rf addr csr bs a level
  show "hart_step s s" by (rule hart_step_refl)
  show "hart_step s t \<Longrightarrow> hart_step t t2 \<Longrightarrow> hart_step s t2" by (rule hart_step_trans)
  show "hart_step s (s\<lparr> sys_IntRegFile := rf \<rparr>)"
    if "IntRegFile_WriteInt32 (sys_IntRegFile s) r u = Inr rf \<or>
        IntRegFile_WriteInt64 (sys_IntRegFile s) r w = Inr rf"
    using that by (intro hart_step_silent)
      (auto simp: wiring_kept_def registers_wf_def intro: x0_zero_writes)
  show "hart_step s (s\<lparr> sys_FpRegFile := fp \<rparr>)" "hart_step s (s\<lparr> sys_FpEnv := env \<rparr>)"
    "hart_step s (s\<lparr> sys_AtomicManager := am \<rparr>)" "hart_step s (csr_SetPc v s)"
    "hart_step s (s\<lparr> sys_Csr := Csr_WriteFpCsr u (sys_Csr s) \<rparr>)"
    by (rule hart_step_silent; simp add: wiring_kept_def registers_wf_def csr_SetPc_def Csr_SetPc_def
        Csr_WriteFpCsr_def csr_status_wf_def)+
  show "hart_step s (s\<lparr> sys_Csr := csr \<rparr>)" if "Csr_WriteUInt64 addr w (sys_Csr s) = Inr csr"
    using WriteUInt64_frame [OF that] by (intro hart_step_silent) (simp_all add: wiring_kept_def registers_wf_def)
  show "hart_step s (s\<lparr> sys_Csr := Csr_WriteStatus w (sys_Csr s) \<rparr>)"
    by (rule hart_step_silent) (simp_all add: wiring_kept_def registers_wf_def WriteStatus_wf)
  show "hart_step s t" if "bus_write bs a s = Inr t"
    using bus_write_frame [OF that] csr_same_but_time_fields [OF bus_write_frame(10) [OF that]]
    by (intro hart_step_silent) (auto simp: wiring_kept_def registers_wf_def csr_status_wf_def)
  show "hart_step s (AddEvent type n x y z s)"
    by (rule hart_stepI [where es = "[MemoryEvent type (of_nat n) x y z]"])
      (simp_all add: AddEvent_def wiring_kept_def registers_wf_def)
  show "hart_step s t" if "trap_return level s = Inr t" using that by (rule hart_step_trap_return)
qed

interpretation quiet: kept quiet_step False
proof unfold_locales
  fix s t t2 :: System and am fp env type n x y z v w u r rf addr csr bs a level
  show "quiet_step s s" by (simp add: quiet_step_silent wiring_kept_def)
  show "quiet_step s t \<Longrightarrow> quiet_step t t2 \<Longrightarrow> quiet_step s t2" by (rule quiet_step_trans)
  show "quiet_step s (s\<lparr> sys_IntRegFile := rf \<rparr>)" "quiet_step s (s\<lparr> sys_FpRegFile := fp \<rparr>)"
    "quiet_step s (s\<lparr> sys_FpEnv := env \<rparr>)"
    "quiet_step s (s\<lparr> sys_AtomicManager := am \<rparr>)" "quiet_step s (csr_SetPc v s)"
    "quiet_step s (s\<lparr> sys_Csr := Csr_WriteFpCsr u (sys_Csr s) \<rparr>)"
    "quiet_step s (s\<lparr> sys_Csr := Csr_WriteStatus w (sys_Csr s) \<rparr>)"
    by (rule quiet_step_silent; simp add: wiring_kept_def csr_SetPc_def csr_setters)+
  show "quiet_step s (s\<lparr> sys_Csr := csr \<rparr>)" if "Csr_WriteUInt64 addr w (sys_Csr s) = Inr csr"
    using WriteUInt64_frame [OF that] by (intro quiet_step_silent) (simp_all add: wiring_kept_def)
  show "quiet_step s t" if "bus_write bs a s = Inr t"
    using bus_write_frame [OF that] csr_same_but_time_fields [OF bus_write_frame(10) [OF that]]
    by (intro quiet_step_silent) (auto simp: wiring_kept_def)
  show "quiet_step s (AddEvent type n x y z s)"
    by (auto simp: quiet_step_def AddEvent_def wiring_kept_def)
qed simp

section \<open>The cycle\<close>

lemma hart_with_trap_state:
  assumes "\<And>t. m = Inr t \<Longrightarrow> m_XLEN (fst t) = m_XLEN (sys_Csr s) \<and>
      (csr_status_wf (sys_Csr s) \<longrightarrow> csr_status_wf (fst t)) \<and>
      (\<exists>es. snd t = sys_EventList s @ es \<and> m_Priv (fst t) = foldl event_priv (m_Priv (sys_Csr s)) es)"
  shows "keeps hart_step s (with_trap_state s m)"
proof (unfold keeps_def, intro allI impI)
  fix t assume "with_trap_state s m = Inr t"
  then obtain csr es where t: "m = Inr (csr, es)" "t = s\<lparr> sys_Csr := csr, sys_EventList := es \<rparr>"
    by (auto simp: with_trap_state_def rbind_Inr_iff)
  show "hart_step s t"
    using assms [OF t(1)] by (auto simp: t(2) hart_step_def wiring_kept_def registers_wf_def)
qed

lemma trap_enter_hart:
  assumes "ProcessTrapEnter xlen i c tv pc next (csr, es) = Inr t"
  shows "m_XLEN (fst t) = m_XLEN csr \<and> (csr_status_wf csr \<longrightarrow> csr_status_wf (fst t)) \<and>
    (\<exists>fs. snd t = es @ fs \<and> m_Priv (fst t) = foldl event_priv (m_Priv csr) fs)"
  using ProcessTrapEnter_xlen [OF assms] ProcessTrapEnter_status_wf [OF assms] ProcessTrapEnter_event [OF assms]
  by auto

lemma hart_exception: "keeps hart_step s (processor_exception trap s)"
  unfolding processor_exception_def
  by (rule hart_with_trap_state)
    (auto simp: ProcessException_def Let_def rbind_Inr_iff dest!: trap_enter_hart)

lemma hart_interrupt: "keeps hart_step s (processor_interrupt pc s)"
  unfolding processor_interrupt_def
  by (intro keeps_value(1) hart_with_trap_state)
    (auto simp: ProcessInterrupt_def Let_def rbind_Inr_iff dest!: trap_enter_hart)

lemma UpdateCsr_keeps:
  "InterruptController_UpdateCsr b csr = Inr csr' \<Longrightarrow>
    m_XLEN csr' = m_XLEN csr \<and> m_Priv csr' = m_Priv csr \<and> m_Status csr' = m_Status csr"
  by (auto simp: InterruptController_UpdateCsr_def rbind_Inr_iff Let_def Csr_WriteInterruptPending_def)

lemma Update_keeps:
  "InterruptController_Update b (ic, csr) = Inr (ic', csr') \<Longrightarrow>
    m_XLEN csr' = m_XLEN csr \<and> m_Priv csr' = m_Priv csr \<and> m_Status csr' = m_Status csr"
  by (auto simp: InterruptController_Update_def rbind_Inr_iff Let_def dest!: UpdateCsr_keeps
      split: if_splits option.splits)

lemma hart_update_interrupt: "keeps hart_step s (processor_update_interrupt s)"
  unfolding processor_update_interrupt_def keeps_def
  by (auto simp: rbind_Inr_iff wiring_kept_def registers_wf_def csr_status_wf_def dest!: Update_keeps
      intro!: hart_step_silent)

context kept begin

lemma keeps_on_address [keeps_rules]:
  assumes "keeps_val rel s t" "\<And>p u. keeps_val rel u (k p u)"
  shows "keeps_val rel s (on_address t k)"
proof -
  have "keeps_val rel u (case tr of TransTrap trap \<Rightarrow> Inr (FetchTrap trap, u) | TransAddr p \<Rightarrow> k p u)" for tr u
    by (cases tr) (simp_all add: assms keeps_Inr rel_refl)
  then show ?thesis unfolding on_address_def by (rule keeps_bind_pair(2) [OF assms(1)])
qed

lemma keeps_Fetch: "keeps_val rel s (Fetch pc s)"
  unfolding Fetch_def by (intro keeps_rules keeps_fetch)+

end

lemma hart_execute: "keeps hart_step s (processor_execute h op pc insn s)"
proof -
  have post: "keeps hart_step t (rbind (PostCheckTrap op pc t) (\<lambda>ot. case ot of
      Some trap \<Rightarrow> processor_exception trap t | None \<Rightarrow> Inr t))" for t
    by (auto simp: keeps_def rbind_Inr_iff hart_step_refl intro: keepsD [OF hart_exception] split: option.splits)
  have "keeps hart_step s (let u = csr_SetPc v s in rbind (ProcessOp h op pc u) (\<lambda>t.
      rbind (PostCheckTrap op pc t) (\<lambda>ot. case ot of
        Some trap \<Rightarrow> processor_exception trap t | None \<Rightarrow> Inr t)))" for v
    by (intro hart.keeps_let_state hart.rel_pc hart.keeps_bind hart.keeps_ProcessOp post disjI1 TrueI)
  note step = this
  show ?thesis
    unfolding processor_execute_def
  proof (rule keeps_value)
    fix trap show "keeps hart_step s (case trap of Some trap \<Rightarrow> processor_exception trap s
        | None \<Rightarrow> let sys = csr_SetPc (if IsCompressedInstruction32 insn then pc + 2 else pc + 4) s in
         rbind (ProcessOp h op pc sys) (\<lambda>sys. rbind (PostCheckTrap op pc sys) (\<lambda>post. case post of
           Some trap \<Rightarrow> processor_exception trap sys | None \<Rightarrow> Inr sys)))"
      by (cases trap) (simp_all only: option.case step hart_exception)
  qed
qed

lemma hart_decode: "keeps hart_step s (processor_decode h pc insn s)"
  unfolding processor_decode_def keeps_def
  by (auto simp: rbind_Inr_iff intro: keepsD [OF hart_exception] keepsD [OF hart_execute] split: if_splits)

lemma hart_add_op_event: "hart_step s (add_event (OpEvent insn p) s)"
  by (rule hart_stepI [where es = "[OpEvent insn p]"])
    (simp_all add: add_event_def wiring_kept_def registers_wf_def)

lemma hart_ProcessCycle: "keeps hart_step s (Processor_ProcessCycle h s)"
proof -
  let ?s = "s\<lparr> sys_Csr := Csr_ProcessCycle (sys_Csr s) \<rparr>"
  have start: "hart_step s ?s"
    by (rule hart_step_silent)
      (simp_all add: wiring_kept_def registers_wf_def Csr_ProcessCycle_def csr_status_wf_def)
  have fetch: "keeps hart_step t (case f of FetchTrap trap \<Rightarrow> processor_exception trap t
      | FetchInsn insn \<Rightarrow> processor_decode h pc insn (add_event (OpEvent insn priv) t))" for f t pc priv
    using hart_step_trans [OF hart_add_op_event keepsD [OF hart_decode]]
    by (cases f) (auto simp: keeps_def intro: keepsD [OF hart_exception])
  have "keeps hart_step ?s (rbind (processor_update_interrupt ?s) (\<lambda>t.
      if m_IsRequested (sys_InterruptController t) then processor_interrupt pc t
      else rbind (Fetch pc t) (\<lambda>(f, t). case f of FetchTrap trap \<Rightarrow> processor_exception trap t
      | FetchInsn insn \<Rightarrow> processor_decode h pc insn (add_event (OpEvent insn priv) t))))" for pc priv
    by (intro hart.keeps_bind hart.keeps_bind_pair keeps_if hart_update_interrupt hart_interrupt
        hart.keeps_Fetch fetch)
  then show ?thesis
    using hart_step_trans [OF start] unfolding Processor_ProcessCycle_def Let_def keeps_def by blast
qed

lemma cycle_hart_step:
  assumes "System_ProcessCycle h s = Inr t"
  shows "hart_step (s\<lparr> sys_EventList := [] \<rparr>) t"
  using keepsD [OF hart_ProcessCycle assms [unfolded System_ProcessCycle_def]]
  by (simp add: hart_step_def wiring_kept_def registers_wf_def)

definition machine_inv :: "System \<Rightarrow> bool" where
  "machine_inv s \<longleftrightarrow> csr_inv (sys_Csr s) \<and> x0_zero (sys_IntRegFile s) \<and>
     sys_Bus s = System_Bus (m_Capacity (sys_Ram s)) \<and>
     sys_XLEN s = m_XLEN (sys_Csr s)"

lemma machine_inv_hart_step: "hart_step s t \<Longrightarrow> machine_inv s \<Longrightarrow> machine_inv t"
  by (auto simp: hart_step_def machine_inv_def wiring_kept_def registers_wf_def csr_inv_def csr_xlen_ok_def)

lemma machine_inv_events [simp]: "machine_inv (s\<lparr> sys_EventList := es \<rparr>) = machine_inv s"
  by (simp add: machine_inv_def)

lemma machine_inv_cycle: "System_ProcessCycle h s = Inr t \<Longrightarrow> machine_inv s \<Longrightarrow> machine_inv t"
  by (rule machine_inv_hart_step [OF cycle_hart_step]) simp_all

end
