(* ===== verification/Run.thy ===== *)
theory Run
  imports Invariants
begin

text \<open>
  Properties of a cycle and of a run of the emulator: the reachable states keep the machine
  invariant, the trace accounts for every change of privilege, user code cannot leave user level but
  by a trap, and the loop of \<open>Emulator::Process\<close> is the iteration of the cycle up to its limit.
\<close>

section \<open>Reachable states\<close>

text \<open>
  What can happen to an emulator: the command line loads files into memory, a debugger writes
  memory, and the loop runs cycles.
\<close>

inductive emulator_reachable :: "host \<Rightarrow> Emulator \<Rightarrow> bool" for h where
  created: "Emulator_new xlen pc ramSize hostIo dtb = Inr e \<Longrightarrow> emulator_reachable h e"
| loaded: "emulator_reachable h e \<Longrightarrow> Emulator_LoadFileToMemory file address e = Inr e' \<Longrightarrow>
    emulator_reachable h e'"
| written: "emulator_reachable h e \<Longrightarrow> System_WriteMemory buffer address (emu_System e) = Inr sys \<Longrightarrow>
    emulator_reachable h (e\<lparr> emu_System := sys \<rparr>)"
| cycled: "emulator_reachable h e \<Longrightarrow> Emulator_ProcessCycle h e = Inr e' \<Longrightarrow>
    emulator_reachable h (e'\<lparr> emu_Cycle := c \<rparr>)"

lemma machine_inv_new: "System_new xlen pc ramSize = Inr s \<Longrightarrow> machine_inv s"
  by (auto simp: System_new_def rbind_Inr_iff machine_inv_def Ram_new_def x0_zero_init
      Csr_new_def Csr_zero_def csr_inv_def csr_xlen_ok_def csr_status_wf_def split: XLEN.splits if_splits)

lemma machine_inv_Emulator_new:
  assumes "Emulator_new xlen pc ramSize hostIo dtb = Inr e"
  shows "machine_inv (emu_System e)"
proof -
  have set: "machine_inv t" if "System_SetDtbAddress dtb s = Inr t" "machine_inv s" for s t
    using that x0_zero_writes
    by (auto simp: System_SetDtbAddress_def Processor_SetIntReg_def rbind_Inr_iff machine_inv_def IntRegFile_unsigned)
  have host: "machine_inv (System_SetHostIoAddress a s) = machine_inv s" for a s
    by (simp add: System_SetHostIoAddress_def machine_inv_def)
  show ?thesis
    using assms machine_inv_new set
    by (cases hostIo) (auto simp: Emulator_new_def rbind_Inr_iff Let_def host)
qed

lemma memory_load_frame:
  assumes "memory_load ptr file a sys = Inr sys'"
  shows "sys_IntRegFile sys' = sys_IntRegFile sys" "sys_XLEN sys' = sys_XLEN sys" "sys_Bus sys' = sys_Bus sys"
    "sys_Csr sys' = sys_Csr sys" "m_Capacity (sys_Ram sys') = m_Capacity (sys_Ram sys)"
  using assms
  by (auto simp: memory_load_def rbind_Inr_iff Ram_LoadFile_def Let_def split: MemoryPtr.splits if_splits option.splits)

lemma machine_inv_load:
  "System_LoadFileToMemory file a s = Inr t \<Longrightarrow> machine_inv s \<Longrightarrow> machine_inv t"
  by (auto simp: System_LoadFileToMemory_def Bus_LoadFileToMemory_def rbind_Inr_iff machine_inv_def memory_load_frame)

lemma machine_inv_write: "System_WriteMemory bs a s = Inr t \<Longrightarrow> machine_inv s \<Longrightarrow> machine_inv t"
  unfolding System_WriteMemory_def
  by (rule machine_inv_hart_step [OF hart.rel_bus])

lemma reachable_machine_inv: "emulator_reachable h e \<Longrightarrow> machine_inv (emu_System e)"
  by (induction rule: emulator_reachable.induct)
    (auto simp: Emulator_LoadFileToMemory_def Emulator_ProcessCycle_def rbind_Inr_iff
      intro: machine_inv_Emulator_new machine_inv_load machine_inv_write machine_inv_cycle)

section \<open>User level\<close>

text \<open>
  A cycle that begins at user level either records no trap and ends at user level, or ends with one
  trap event, an interrupt or an exception, to the level the hart is at afterwards.
\<close>

definition user_step :: "System \<Rightarrow> System \<Rightarrow> bool" where
  "user_step s t \<longleftrightarrow> (\<exists>es. sys_EventList t = sys_EventList s @ es \<and>
     (m_Priv (sys_Csr t) = m_Priv (sys_Csr s) \<and> \<not> list_ex is_trap_event es \<or>
      (\<exists>fs type origin cause tv. es = fs @ [TrapEvent type origin (m_Priv (sys_Csr t)) cause tv] \<and>
         type \<noteq> Return \<and> \<not> list_ex is_trap_event fs)))"

lemma user_step_quiet: "quiet_step s t \<Longrightarrow> user_step s t"
  by (auto simp: user_step_def quiet_step_def)

lemma user_step_trans: "quiet_step s t \<Longrightarrow> user_step t u \<Longrightarrow> user_step s u"
  by (fastforce simp: user_step_def quiet_step_def)

lemma user_enter:
  assumes "with_trap_state s m = Inr t"
    "\<And>x. m = Inr x \<Longrightarrow> \<exists>type origin next c tv. type \<noteq> Return \<and> m_Priv (fst x) = next \<and>
       snd x = sys_EventList s @ [TrapEvent type origin next c tv]"
  shows "user_step s t"
proof -
  obtain x where x: "m = Inr x" "t = s\<lparr> sys_Csr := fst x, sys_EventList := snd x \<rparr>"
    using assms(1) by (auto simp: with_trap_state_def rbind_Inr_iff)
  show ?thesis using assms(2) [OF x(1)] by (auto simp: x(2) user_step_def)
qed

lemma trap_entry_event:
  assumes "ProcessTrapEnter xlen i c tv pc next (csr, es) = Inr x"
  shows "\<exists>type origin next c tv. type \<noteq> Return \<and> m_Priv (fst x) = next \<and>
    snd x = es @ [TrapEvent type origin next c tv]"
  using ProcessTrapEnter_event [OF assms] by auto

lemma user_exception: "processor_exception trap s = Inr t \<Longrightarrow> user_step s t"
  unfolding processor_exception_def
  by (erule user_enter) (auto simp: ProcessException_def Let_def rbind_Inr_iff dest!: trap_entry_event)

lemma user_interrupt: "processor_interrupt pc s = Inr t \<Longrightarrow> user_step s t"
  unfolding processor_interrupt_def rbind_Inr_iff
  by (elim exE conjE, erule user_enter)
    (auto simp: ProcessInterrupt_def Let_def rbind_Inr_iff dest!: trap_entry_event)

text \<open>The returns from a trap are refused at user level, by the check or by the executor.\<close>

lemma no_return_elsewhere:
  assumes "is_return (opCode op)"
  shows "ProcessRV32M op s \<noteq> Inr t" "ProcessRV64M h op s \<noteq> Inr t" "ProcessRV32A op s \<noteq> Inr t"
    "ProcessRV64A op s \<noteq> Inr t" "ProcessRV32C op pc s \<noteq> Inr t" "ProcessRV64C op pc s \<noteq> Inr t"
    "ProcessRVF h op s \<noteq> Inr t" "ProcessRVD h op s \<noteq> Inr t"
proof -
  have c: "opCode op = rvi op_mret \<or> opCode op = rvi op_sret \<or> opCode op = rvi op_uret"
    using assms by (simp add: is_return_def)
  show "ProcessRV32M op s \<noteq> Inr t"
    using c by (elim disjE) (auto simp: ProcessRV32M_def rbind_Inr_iff Let_def)
  show "ProcessRV64M h op s \<noteq> Inr t"
    using c by (elim disjE) (auto simp: ProcessRV64M_def rbind_Inr_iff Let_def)
  show "ProcessRV32A op s \<noteq> Inr t" using c by (elim disjE) (auto simp: ProcessRV32A_def)
  show "ProcessRV64A op s \<noteq> Inr t" using c by (elim disjE) (auto simp: ProcessRV64A_def)
  show "ProcessRV32C op pc s \<noteq> Inr t" using c by (elim disjE) (auto simp: ProcessRV32C_def)
  show "ProcessRV64C op pc s \<noteq> Inr t" using c by (elim disjE) (auto simp: ProcessRV64C_def)
  show "ProcessRVF h op s \<noteq> Inr t" using c by (elim disjE) (auto simp: ProcessRVF_def)
  show "ProcessRVD h op s \<noteq> Inr t" using c by (elim disjE) (auto simp: ProcessRVD_def)
qed

lemma ProcessOp_return:
  assumes "is_return (opCode op)" "ProcessOp h op pc s = Inr t"
  shows "(opClass op = RV32I \<or> opClass op = RV64I) \<and> opCode op \<noteq> rvi op_uret"
proof -
  have "opClass op = RV32I \<or> opClass op = RV64I"
    using assms by (cases "opClass op") (simp_all add: ProcessOp_def no_return_elsewhere)
  moreover have "opCode op \<noteq> rvi op_uret"
    using calculation assms(2)
    by (auto simp: ProcessOp_def ProcessRV32I_def ProcessRV64I_def ProcessRV32I_Priv_def ProcessRV64I_Priv_def
        trap_return_def with_trap_state_def ProcessTrapReturn_def Let_def)
  ultimately show ?thesis by blast
qed

lemma user_no_return:
  assumes "m_Priv (sys_Csr s) = User" "PreCheckTrap op pc insn s = Inr None" "ProcessOp h op pc u = Inr t"
  shows "\<not> is_return (opCode op)"
proof
  assume r: "is_return (opCode op)"
  with ProcessOp_return [OF r assms(3)] assms(1,2) show False
    by (auto simp: PreCheckTrap_def PreCheckTrap_opcode_def PreCheckTrap_Priv_def is_return_def Let_def
        rbind_Inr_iff)
qed

lemma user_execute:
  assumes "processor_execute h op pc insn s = Inr t" "m_Priv (sys_Csr s) = User"
  shows "user_step s t"
proof -
  obtain trap where pre: "PreCheckTrap op pc insn s = Inr trap"
    using assms(1) by (auto simp: processor_execute_def rbind_Inr_iff)
  show ?thesis
  proof (cases trap)
    case None
    define u where "u = csr_SetPc (if IsCompressedInstruction32 insn then pc + 2 else pc + 4) s"
    obtain v post where v: "ProcessOp h op pc u = Inr v" "PostCheckTrap op pc v = Inr post"
        "(case post of Some trap \<Rightarrow> processor_exception trap v | None \<Rightarrow> Inr v) = Inr t"
      using assms(1) by (auto simp: processor_execute_def rbind_Inr_iff pre None Let_def u_def)
    have "quiet_step s u" unfolding u_def by (rule quiet.rel_pc)
    moreover have "quiet_step u v"
      using user_no_return [OF assms(2) pre [unfolded None] v(1)]
      by (intro keepsD [OF quiet.keeps_ProcessOp v(1)]) simp
    moreover have "user_step v t"
      using v(3) by (cases post) (auto intro: user_exception user_step_quiet quiet.rel_refl)
    ultimately show ?thesis by (blast intro: user_step_trans)
  qed (use assms(1) pre in \<open>auto simp: processor_execute_def intro: user_exception\<close>)
qed

lemma user_decode:
  "processor_decode h pc insn s = Inr t \<Longrightarrow> m_Priv (sys_Csr s) = User \<Longrightarrow> user_step s t"
  by (auto simp: processor_decode_def rbind_Inr_iff intro: user_exception user_execute split: if_splits)

lemma quiet_update_interrupt: "keeps quiet_step s (processor_update_interrupt s)"
  unfolding processor_update_interrupt_def keeps_def
  by (auto simp: rbind_Inr_iff wiring_kept_def dest!: Update_keeps intro!: quiet_step_silent)

lemma quiet_add_op_event: "quiet_step s (add_event (OpEvent insn p) s)"
  by (auto simp: quiet_step_def add_event_def wiring_kept_def)

lemma user_ProcessCycle:
  assumes "Processor_ProcessCycle h s = Inr t" "m_Priv (sys_Csr s) = User"
  shows "user_step s t"
proof -
  let ?s = "s\<lparr> sys_Csr := Csr_ProcessCycle (sys_Csr s) \<rparr>"
  let ?pc = "m_Pc (sys_Csr ?s)" and ?priv = "m_Priv (sys_Csr ?s)"
  have start: "quiet_step s ?s"
    by (rule quiet_step_silent) (simp_all add: wiring_kept_def Csr_ProcessCycle_def)
  obtain u where u: "processor_update_interrupt ?s = Inr u"
    and rest: "(if m_IsRequested (sys_InterruptController u) then processor_interrupt ?pc u
      else rbind (Fetch ?pc u) (\<lambda>(f, sys). case f of FetchTrap trap \<Rightarrow> processor_exception trap sys
        | FetchInsn insn \<Rightarrow> processor_decode h ?pc insn (add_event (OpEvent insn ?priv) sys))) = Inr t"
    using assms(1) unfolding Processor_ProcessCycle_def Let_def rbind_Inr_iff [of "processor_update_interrupt ?s"]
    by blast
  have su: "quiet_step s u" by (rule quiet_step_trans [OF start keepsD [OF quiet_update_interrupt u]])
  have "user_step u t"
  proof (cases "m_IsRequested (sys_InterruptController u)")
    case False
    then obtain f v where v: "Fetch ?pc u = Inr (f, v)"
      and k: "(case f of FetchTrap trap \<Rightarrow> processor_exception trap v
        | FetchInsn insn \<Rightarrow> processor_decode h ?pc insn (add_event (OpEvent insn ?priv) v)) = Inr t"
      using rest unfolding rbind_Inr_iff if_not_P [OF False] by (auto simp only: split_paired_Ex prod.case)
    have uv: "quiet_step u v" by (rule keeps_valD [OF quiet.keeps_Fetch v])
    have user: "m_Priv (sys_Csr v) = User" using su uv assms(2) by (simp add: quiet_step_def)
    have "user_step v t"
      using k user user_step_trans [OF quiet_add_op_event user_decode]
      by (cases f) (auto intro: user_exception simp: add_event_def)
    then show ?thesis by (rule user_step_trans [OF uv])
  qed (use rest user_interrupt in simp)
  then show ?thesis by (rule user_step_trans [OF su])
qed

section \<open>The loop\<close>

text \<open>The reference: \<open>n\<close> cycles, one after the other.\<close>

primrec run_cycles :: "host \<Rightarrow> nat \<Rightarrow> Emulator \<Rightarrow> Emulator result" where
  "run_cycles h 0 e = Inr e"
| "run_cycles h (Suc n) e =
     rbind (Emulator_ProcessCycle h e) (\<lambda>e. run_cycles h n (e\<lparr> emu_Cycle := emu_Cycle e + 1 \<rparr>))"

lemma Emulator_ProcessCycle_Cycle:
  "Emulator_ProcessCycle h e = Inr e' \<Longrightarrow> emu_Cycle e' = emu_Cycle e"
  by (auto simp: Emulator_ProcessCycle_def rbind_Inr_iff)

lemma run_cycles_Cycle: "run_cycles h n e = Inr e' \<Longrightarrow> emu_Cycle e' = emu_Cycle e + int n"
proof (induction n arbitrary: e)
  case (Suc n)
  then show ?case using Emulator_ProcessCycle_Cycle by (fastforce simp: rbind_Inr_iff)
qed simp

lemma run_cycles_machine_inv:
  "run_cycles h n e = Inr e' \<Longrightarrow> machine_inv (emu_System e) \<Longrightarrow> machine_inv (emu_System e')"
proof (induction n arbitrary: e)
  case (Suc n)
  then show ?case
    by (fastforce simp: rbind_Inr_iff Emulator_ProcessCycle_def intro: machine_inv_cycle)
qed simp

text \<open>When the loop returns without an error, and why it stopped there.\<close>

definition loop_stopped :: "uint32 \<Rightarrow> int \<Rightarrow> Emulator \<Rightarrow> bool" where
  "loop_stopped condition cycle e \<longleftrightarrow> cycle \<le> emu_Cycle e
     \<or> IsStopConditionFilledPre condition e = Inr True \<or> IsStopConditionFilledPost condition e"

lemma Process_stops:
  assumes "cycle \<noteq> CycleForever" "cycle \<le> 2147483647"
  shows "\<exists>r. Emulator_Process h condition cycle e = Some r \<and>
    (\<forall>e'. r = Inr e' \<longrightarrow> loop_stopped condition cycle e')"
proof (induction "nat (cycle - emu_Cycle e)" arbitrary: e rule: less_induct)
  case less
  show ?case
  proof (cases "emu_Cycle e < cycle")
    case True
    have step: "\<exists>r. Emulator_Process h condition cycle (e'\<lparr> emu_Cycle := emu_Cycle e' + 1 \<rparr>) = Some r \<and>
        (\<forall>e'. r = Inr e' \<longrightarrow> loop_stopped condition cycle e')"
      if "Emulator_ProcessCycle h e = Inr e'" for e'
      by (rule less) (use True Emulator_ProcessCycle_Cycle [OF that] in simp)
    show ?thesis
      using True assms
      by (subst Emulator_Process.simps) (auto simp: loop_stopped_def dest!: step split: sum.split)
  qed (use assms in \<open>simp add: Emulator_Process.simps [of h condition] loop_stopped_def\<close>)
qed

lemma Process_none_eq_run:
  assumes "emu_Cycle e + int n \<le> 2147483647" "0 \<le> emu_Cycle e"
  shows "Emulator_Process h EmulationStop_None (emu_Cycle e + int n) e = Some (run_cycles h n e)"
  using assms
proof (induction n arbitrary: e)
  case 0
  then show ?case by (simp add: Emulator_Process.simps [of h 0])
next
  case (Suc n)
  show ?case
  proof (cases "Emulator_ProcessCycle h e")
    case (Inl err)
    then show ?thesis
      by (simp add: Emulator_Process.simps [of h 0] IsStopConditionFilledPre_def)
  next
    case (Inr e')
    then have c: "emu_Cycle e' = emu_Cycle e" by (rule Emulator_ProcessCycle_Cycle)
    with Suc.IH [of "e'\<lparr> emu_Cycle := emu_Cycle e' + 1 \<rparr>"] Suc.prems Inr show ?thesis
      by (subst Emulator_Process.simps)
        (simp add: IsStopConditionFilledPre_def IsStopConditionFilledPost_def algebra_simps)
  qed
qed

section \<open>Precise traps\<close>

text \<open>The state after a trap to machine level, taken in the state \<open>s\<close> at \<open>pc\<close>.\<close>

definition machine_trap :: "bool \<Rightarrow> uint32 \<Rightarrow> vaddr_t \<Rightarrow> uint64 \<Rightarrow> System \<Rightarrow> System \<Rightarrow> bool" where
  "machine_trap i code pc tv s t \<longleftrightarrow>
     t = s\<lparr> sys_Csr := sys_Csr t, sys_EventList := sys_EventList s @
       [TrapEvent (if i then Interrupt else Exception) Machine Machine code tv] \<rparr>
   \<and> m_Priv (sys_Csr t) = Machine
   \<and> m_Pc (sys_Csr t) = trap_target (m_XLEN (sys_Csr s)) i code (m_MachineTrapVector (sys_Csr s))
   \<and> m_MachineExceptionPc (sys_Csr t) = pc \<and> m_MachineTrapValue (sys_Csr t) = tv
   \<and> m_MachineCause (sys_Csr t) = trap_cause_value (m_XLEN (sys_Csr s)) i code
   \<and> GetMember xstatus_MPP (m_Status (sys_Csr t)) = PrivilegeLevel_code (m_Priv (sys_Csr s))"

lemma machine_trap_enter:
  assumes "csr_xlen_ok (sys_Csr s)" "sys_XLEN s = m_XLEN (sys_Csr s)"
  shows "\<exists>t. with_trap_state s (ProcessTrapEnter (sys_XLEN s) i code tv pc Machine (sys_Csr s, sys_EventList s)) = Inr t
    \<and> machine_trap i code pc tv s t"
  using enter_machine_facts [OF assms(1), of i code tv pc "sys_EventList s"]
  by (auto simp: with_trap_state_def machine_trap_def assms(2))

lemma exception_machine:
  assumes "csr_xlen_ok (sys_Csr s)" "sys_XLEN s = m_XLEN (sys_Csr s)"
    "\<not> bit (m_MachineExceptionDelegation (sys_Csr s)) (ExceptionType_code (trap_type trap))"
  shows "\<exists>t. processor_exception trap s = Inr t
    \<and> machine_trap False (of_nat (ExceptionType_code (trap_type trap))) (trap_pc trap) (trap_trapValue trap) s t"
  using machine_trap_enter [OF assms(1,2), of False] assms(3)
  by (auto simp: processor_exception_def ProcessException_def delegated_level_eq Let_def)

section \<open>A sample machine\<close>

text \<open>A hart at user level in front of 16 zeroed bytes of Ram.\<close>

definition sample_machine :: System where
  "sample_machine = (case System_new XLEN64 0x80000000 16 of
     Inr s \<Rightarrow> s\<lparr> sys_Csr := (sys_Csr s)\<lparr> m_Priv := User \<rparr> \<rparr>)"

lemma sample_machine_cycle: "\<exists>t. System_ProcessCycle h sample_machine = Inr t"
proof -
  have "case System_ProcessCycle h sample_machine of Inr t \<Rightarrow> True | Inl e \<Rightarrow> False" by code_simp
  then show ?thesis by (auto split: sum.splits)
qed

section \<open>Properties\<close>

text \<open>
  C2. In every state a run can reach - files loaded, memory written by a debugger, any number of
  cycles of any program - register x0 is zero, the status register holds implemented fields only, the
  register width is the one of the hart and the memory map is the one of the constructor.
\<close>

theorem reachable_invariant:
  assumes "emulator_reachable h e"
  shows "IntRegFile_ReadUInt64 (sys_IntRegFile (emu_System e)) 0 = Inr 0 \<and> csr_inv (sys_Csr (emu_System e)) \<and>
    sys_XLEN (emu_System e) = m_XLEN (sys_Csr (emu_System e)) \<and>
    sys_Bus (emu_System e) = System_Bus (m_Capacity (sys_Ram (emu_System e)))"
  using reachable_machine_inv [OF assms]
  by (simp add: machine_inv_def x0_zero_def IntRegFile_read_defs)

lemma reachable_invariant_witness:
  "\<forall>h. \<exists>e. Emulator_new XLEN64 0x80000000 16 None 0 = Inr e \<and>
    IntRegFile_ReadUInt64 (sys_IntRegFile (emu_System e)) 0 = Inr 0 \<and> csr_inv (sys_Csr (emu_System e))"
proof
  fix h
  obtain e where e: "Emulator_new XLEN64 0x80000000 16 None 0 = Inr e"
    by (simp add: Emulator_new_def System_new_def Csr_new_def System_SetDtbAddress_def Processor_SetIntReg_def
        IntRegFile_write_defs IntRegFile_unsigned)
  with reachable_invariant [OF created [OF e, of h]]
  show "\<exists>e. Emulator_new XLEN64 0x80000000 16 None 0 = Inr e \<and>
    IntRegFile_ReadUInt64 (sys_IntRegFile (emu_System e)) 0 = Inr 0 \<and> csr_inv (sys_Csr (emu_System e))"
    by auto
qed

text \<open>
  The trace accounts for the privilege level: after a cycle it is the one reached by following
  the trap events the cycle recorded, each of which names the level it leads to.
\<close>

theorem cycle_privilege_trace:
  assumes "System_ProcessCycle h s = Inr t"
  shows "m_Priv (sys_Csr t) = foldl event_priv (m_Priv (sys_Csr s)) (sys_EventList t)"
  using cycle_hart_step [OF assms] by (simp add: hart_step_def)

lemma cycle_privilege_trace_witness:
  "\<forall>h. \<exists>t. System_ProcessCycle h sample_machine = Inr t \<and>
    m_Priv (sys_Csr t) = foldl event_priv (m_Priv (sys_Csr sample_machine)) (sys_EventList t)"
  using sample_machine_cycle cycle_privilege_trace by blast

text \<open>
  C8. User code cannot raise its privilege: a cycle that begins at user level either records no trap
  and ends at user level, or ends with exactly one trap event, an interrupt or an exception and never
  a return, which leads to the level the hart is at afterwards.
\<close>

theorem user_level_isolation:
  assumes "System_ProcessCycle h s = Inr t" "m_Priv (sys_Csr s) = User"
  shows "(m_Priv (sys_Csr t) = User \<and> \<not> list_ex is_trap_event (sys_EventList t)) \<or>
    (\<exists>es type origin cause tv. sys_EventList t = es @ [TrapEvent type origin (m_Priv (sys_Csr t)) cause tv]
       \<and> type \<noteq> Return \<and> \<not> list_ex is_trap_event es)"
  using user_ProcessCycle [OF assms(1) [unfolded System_ProcessCycle_def]] assms(2)
  by (simp add: user_step_def)

lemma user_level_isolation_witness:
  "\<forall>h. \<exists>t. System_ProcessCycle h sample_machine = Inr t \<and>
    ((m_Priv (sys_Csr t) = User \<and> \<not> list_ex is_trap_event (sys_EventList t)) \<or>
    (\<exists>es type origin cause tv. sys_EventList t = es @ [TrapEvent type origin (m_Priv (sys_Csr t)) cause tv]
       \<and> type \<noteq> Return \<and> \<not> list_ex is_trap_event es))"
proof
  fix h
  obtain t where t: "System_ProcessCycle h sample_machine = Inr t" using sample_machine_cycle by blast
  have "m_Priv (sys_Csr sample_machine) = User" by (simp add: sample_machine_def System_new_def Csr_new_def)
  from user_level_isolation [OF t this] t show "\<exists>t. System_ProcessCycle h sample_machine = Inr t \<and>
    ((m_Priv (sys_Csr t) = User \<and> \<not> list_ex is_trap_event (sys_EventList t)) \<or>
    (\<exists>es type origin cause tv. sys_EventList t = es @ [TrapEvent type origin (m_Priv (sys_Csr t)) cause tv]
       \<and> type \<noteq> Return \<and> \<not> list_ex is_trap_event es))" by blast
qed

text \<open>
  C16. The loop returns for every cycle limit that is an int other than CycleForever, with an error or
  with a state in which the limit is reached or one of the two stop conditions holds.
\<close>

theorem process_terminates:
  assumes "cycle \<noteq> CycleForever" "cycle \<le> 2147483647"
  shows "\<exists>r. Emulator_Process h condition cycle e = Some r \<and> (case r of Inl err \<Rightarrow> True | Inr e' \<Rightarrow>
    cycle \<le> emu_Cycle e' \<or> IsStopConditionFilledPre condition e' = Inr True \<or>
    IsStopConditionFilledPost condition e')"
  using Process_stops [OF assms, of h condition e] by (auto simp: loop_stopped_def split: sum.split)

lemma process_terminates_witness:
  "\<forall>h. \<exists>r. Emulator_Process h 3 1 \<lparr> emu_System = sample_machine, emu_Cycle = 0 \<rparr> = Some r"
  using process_terminates [of 1] by fastforce

text \<open>
  Without a stop condition the loop is the iteration of the cycle: from cycle c with limit c + n it
  returns the result of exactly n cycles, or the error of the first one that fails.
\<close>

theorem process_runs_cycles:
  assumes "0 \<le> emu_Cycle e" "emu_Cycle e + int n \<le> 2147483647"
  shows "Emulator_Process h EmulationStop_None (emu_Cycle e + int n) e = Some (run_cycles h n e)"
  by (rule Process_none_eq_run [OF assms(2,1)])

lemma process_runs_cycles_witness:
  "\<forall>h. Emulator_Process h EmulationStop_None 3 \<lparr> emu_System = sample_machine, emu_Cycle = 1 \<rparr> =
    Some (run_cycles h 2 \<lparr> emu_System = sample_machine, emu_Cycle = 1 \<rparr>)"
  using process_runs_cycles [of "\<lparr> emu_System = sample_machine, emu_Cycle = 1 \<rparr>" 2] by simp

text \<open>
  C1. Exceptions raised before the execution are precise: when the word does not decode, or the check
  before the execution reports a trap, and the bit of medeleg for this exception is clear, the step
  succeeds, changes nothing but the CSRs and the trace, and enters machine level at the trap vector
  with mepc, mcause, mtval and MPP describing the trap; the word itself is mtval of the illegal
  instruction. The other bits of medeleg play no part.
\<close>

theorem exceptions_are_precise:
  assumes "csr_xlen_ok (sys_Csr s)" "sys_XLEN s = m_XLEN (sys_Csr s)" "Decode (sys_XLEN s) insn = Inr op"
  shows "(opCode op = op_unknown \<and> \<not> bit (m_MachineExceptionDelegation (sys_Csr s)) 2 \<longrightarrow>
      (\<exists>t. processor_decode h pc insn s = Inr t \<and> machine_trap False 2 pc (ucast insn) s t)) \<and>
    (opCode op \<noteq> op_unknown \<and> PreCheckTrap op pc insn s = Inr (Some trap) \<and>
        \<not> bit (m_MachineExceptionDelegation (sys_Csr s)) (ExceptionType_code (trap_type trap)) \<longrightarrow>
      (\<exists>t. processor_decode h pc insn s = Inr t \<and>
      machine_trap False (of_nat (ExceptionType_code (trap_type trap))) (trap_pc trap) (trap_trapValue trap) s t))"
  using exception_machine [OF assms(1,2), of trap]
    exception_machine [OF assms(1,2), of "MakeIllegalInstructionException pc insn"] assms(3)
  by (auto simp: processor_decode_def processor_execute_def MakeIllegalInstructionException_def)

lemma exceptions_are_precise_witness:
  "\<forall>h. \<exists>t. processor_decode h 0x80000000 0 sample_machine = Inr t \<and>
    machine_trap False 2 0x80000000 0 sample_machine t"
proof
  fix h
  have d: "case Decode XLEN64 0 of Inr op \<Rightarrow> opCode op = op_unknown | Inl e \<Rightarrow> False" by code_simp
  then obtain op where op: "Decode (sys_XLEN sample_machine) 0 = Inr op" "opCode op = op_unknown"
    by (auto simp: sample_machine_def System_new_def Csr_new_def split: sum.splits)
  have x: "csr_xlen_ok (sys_Csr sample_machine)" "sys_XLEN sample_machine = m_XLEN (sys_Csr sample_machine)"
    and d: "m_MachineExceptionDelegation (sys_Csr sample_machine) = 0"
    by (simp_all add: sample_machine_def System_new_def Csr_new_def Csr_zero_def csr_xlen_ok_def)
  from exceptions_are_precise [OF x op(1), of h "0x80000000"] op(2) d
  show "\<exists>t. processor_decode h 0x80000000 0 sample_machine = Inr t \<and>
    machine_trap False 2 0x80000000 0 sample_machine t" by simp
qed

text \<open>
  C9. Interrupts are taken between instructions and come first: when the update of the interrupt
  controller leaves a request that is not delegated, the cycle fetches nothing and executes nothing;
  it enters machine level with the interrupt bit and the code of the request in mcause, and mepc is
  the pc of the instruction that was next.
\<close>

theorem interrupt_precedes_fetch:
  assumes "csr_xlen_ok (sys_Csr u)" "sys_XLEN u = m_XLEN (sys_Csr u)"
    and "processor_update_interrupt (s\<lparr> sys_Csr := Csr_ProcessCycle (sys_Csr s) \<rparr>) = Inr u"
    and "m_IsRequested (sys_InterruptController u)" "m_InterruptType (sys_InterruptController u) = Some type"
    and "\<not> bit (m_MachineInterruptDelegation (sys_Csr u)) (InterruptType_code type)"
  shows "\<exists>t. Processor_ProcessCycle h s = Inr t \<and>
    machine_trap True (of_nat (InterruptType_code type)) (m_Pc (sys_Csr s)) 0 u t"
  using machine_trap_enter [OF assms(1,2), of True "of_nat (InterruptType_code type)" 0 "m_Pc (sys_Csr s)"] assms(3-6)
  by (auto simp: Processor_ProcessCycle_def processor_interrupt_def GetInterruptType_def ProcessInterrupt_def
      delegated_level_eq Csr_ProcessCycle_def Let_def)

lemma interrupt_precedes_fetch_witness:
  "\<forall>h. \<exists>t. Processor_ProcessCycle h (sample_machine\<lparr> sys_Csr := (Csr_zero XLEN64 0 0x80000000)
      \<lparr> m_Status := 8, m_InterruptEnable := 0x80 \<rparr> \<rparr>) = Inr t \<and> m_MachineExceptionPc (sys_Csr t) = 0x80000000"
proof
  fix h
  let ?csr = "(Csr_zero XLEN64 0 0x80000000)\<lparr> m_Status := 8, m_InterruptEnable := 0x80 \<rparr>"
  let ?s = "sample_machine\<lparr> sys_Csr := ?csr \<rparr>"
  have "case processor_update_interrupt (?s\<lparr> sys_Csr := Csr_ProcessCycle (sys_Csr ?s) \<rparr>) of Inl e \<Rightarrow> False
    | Inr u \<Rightarrow> m_XLEN (sys_Csr u) = XLEN64 \<and> sys_XLEN u = XLEN64 \<and> m_IsRequested (sys_InterruptController u) \<and>
        m_InterruptType (sys_InterruptController u) = Some MachineTimer \<and>
        \<not> bit (m_MachineInterruptDelegation (sys_Csr u)) (InterruptType_code MachineTimer)"
    by code_simp
  then obtain u where u: "processor_update_interrupt (?s\<lparr> sys_Csr := Csr_ProcessCycle (sys_Csr ?s) \<rparr>) = Inr u"
    "csr_xlen_ok (sys_Csr u)" "sys_XLEN u = m_XLEN (sys_Csr u)" "m_IsRequested (sys_InterruptController u)"
    "m_InterruptType (sys_InterruptController u) = Some MachineTimer"
    "\<not> bit (m_MachineInterruptDelegation (sys_Csr u)) (InterruptType_code MachineTimer)"
    unfolding csr_xlen_ok_def by (auto split: sum.splits)
  from interrupt_precedes_fetch [OF u(2,3,1,4-6), of h]
  show "\<exists>t. Processor_ProcessCycle h ?s = Inr t \<and> m_MachineExceptionPc (sys_Csr t) = 0x80000000"
    by (auto simp: machine_trap_def Csr_zero_def)
qed

end
