(* ===== verification/TypeSafety.thy ===== *)
theory TypeSafety
  imports DecoderLaws Run
begin

text \<open>
  The executor reads the alternative of the operand that is there. \<open>safe\<close> says that a result is not
  the exception of a bad access to a variant; it is shown for every operation the executor calls, and
  for its methods under the shape of the operand the decoder establishes.
\<close>

named_theorems safe_rules \<open>introduction rules of the absence of a bad variant access\<close>

definition safe :: "'a result \<Rightarrow> bool" where
  "safe m \<longleftrightarrow> m \<noteq> Inl BadVariantAccess"

section \<open>Structure\<close>

lemma safe_results [safe_rules]:
  "safe (Inr x)" "safe (Inl EmuException)" "safe (Inl ProcessExit)" "safe (Inl AssertFailure)" "safe (Inl Undefined)"
  by (simp_all add: safe_def)

lemma safe_if [safe_rules]: "(b \<Longrightarrow> safe m) \<Longrightarrow> (\<not> b \<Longrightarrow> safe n) \<Longrightarrow> safe (if b then m else n)"
  by simp

lemma safe_rbind [safe_rules]: "safe m \<Longrightarrow> (\<And>x. safe (f x)) \<Longrightarrow> safe (rbind m f)"
  by (cases m) (simp_all add: safe_def)

lemma safe_let [safe_rules]: "(\<And>x. safe (f x)) \<Longrightarrow> safe (Let y f)"
  by simp

lemma safe_case_prod [safe_rules]: "(\<And>a b. safe (f a b)) \<Longrightarrow> safe (case p of (a, b) \<Rightarrow> f a b)"
  by (cases p) simp

lemma safe_ensure [safe_rules]: "e \<noteq> BadVariantAccess \<Longrightarrow> safe (ensure b e)"
  by (simp add: safe_def ensure_def)

lemma not_BadVariantAccess [safe_rules]:
  "EmuException \<noteq> BadVariantAccess" "ProcessExit \<noteq> BadVariantAccess" "AssertFailure \<noteq> BadVariantAccess"
  "Undefined \<noteq> BadVariantAccess"
  by simp_all

lemmas [safe_rules] =
  OpCode.split [of safe, THEN iffD2] OpCodeI.split [of safe, THEN iffD2] OpCodeM.split [of safe, THEN iffD2]
  OpCodeA.split [of safe, THEN iffD2] OpCodeF.split [of safe, THEN iffD2] OpCodeD.split [of safe, THEN iffD2]
  OpCodeC.split [of safe, THEN iffD2] OpClass.split [of safe, THEN iffD2] XLEN.split [of safe, THEN iffD2]
  PrivilegeLevel.split [of safe, THEN iffD2] AddressTranslationMode.split [of safe, THEN iffD2]
  MemoryAccessType.split [of safe, THEN iffD2] option.split [of safe, THEN iffD2]
  translation.split [of safe, THEN iffD2] MemoryPtr.split [of safe, THEN iffD2] IoPtr.split [of safe, THEN iffD2]
  conjI impI allI

section \<open>Operands\<close>

lemma safe_get [safe_rules]:
  "kind_of od = KR \<Longrightarrow> safe (get_R od)" "kind_of od = KR4 \<Longrightarrow> safe (get_R4 od)"
  "kind_of od = KI \<Longrightarrow> safe (get_I od)" "kind_of od = KS \<Longrightarrow> safe (get_S od)"
  "kind_of od = KB \<Longrightarrow> safe (get_B od)" "kind_of od = KU \<Longrightarrow> safe (get_U od)"
  "kind_of od = KJ \<Longrightarrow> safe (get_J od)" "kind_of od = KShiftImm \<Longrightarrow> safe (get_ShiftImm od)"
  "kind_of od = KCsr \<Longrightarrow> safe (get_Csr od)" "kind_of od = KCsrImm \<Longrightarrow> safe (get_CsrImm od)"
  "kind_of od = KCR \<Longrightarrow> safe (get_CR od)" "kind_of od = KCI \<Longrightarrow> safe (get_CI od)"
  "kind_of od = KCSS \<Longrightarrow> safe (get_CSS od)" "kind_of od = KCIW \<Longrightarrow> safe (get_CIW od)"
  "kind_of od = KCL \<Longrightarrow> safe (get_CL od)" "kind_of od = KCS \<Longrightarrow> safe (get_CS od)"
  "kind_of od = KCB \<Longrightarrow> safe (get_CB od)" "kind_of od = KCJ \<Longrightarrow> safe (get_CJ od)"
  by (cases od; simp add: safe_def)+

section \<open>Combinators\<close>

lemma safe_combinators [safe_rules]:
  "safe m1 \<Longrightarrow> safe (with_IntRegFile s m1)" "safe m2 \<Longrightarrow> safe (with_FpRegFile s m2)"
  "safe m3 \<Longrightarrow> safe (with_Csr s m3)" "safe m4 \<Longrightarrow> safe (with_trap_state s m4)"
  unfolding with_IntRegFile_def with_FpRegFile_def with_Csr_def with_trap_state_def
  by (intro safe_rules; assumption)+

lemma safe_fp_run [safe_rules]: "safe (fp_run f sys)"
  by (simp add: fp_run_def safe_def split: prod.split)

lemma safe_PreCheckTrap_width [safe_rules]: "safe m \<Longrightarrow> safe n \<Longrightarrow> safe (PreCheckTrap_width c m n)"
  unfolding PreCheckTrap_width_def by (intro safe_rules)

lemma safe_return_if_trap [safe_rules]: "safe m \<Longrightarrow> safe n \<Longrightarrow> safe (return_if_trap m n)"
  unfolding return_if_trap_def by (intro safe_rules; assumption)

lemma safe_or_trap [safe_rules]: "safe t \<Longrightarrow> safe k \<Longrightarrow> safe (or_trap t sys k)"
  unfolding or_trap_def by (intro safe_rules; assumption)

lemma safe_use_address [safe_rules]: "safe t \<Longrightarrow> (\<And>p s. safe (k p s)) \<Longrightarrow> safe (use_address t k)"
  unfolding use_address_def by (intro safe_rules; assumption)

section \<open>Operations\<close>


lemma safe_shl [safe_rules]: "safe (shl x n)"
  unfolding shl_def by (intro safe_rules)+

lemma safe_shr [safe_rules]: "safe (shr x n)"
  unfolding shr_def by (intro safe_rules)+

lemma safe_sar [safe_rules]: "safe (sar x n)"
  unfolding sar_def by (intro safe_rules)+

lemma safe_sdiv_w [safe_rules]: "safe (sdiv_w a b)"
  unfolding sdiv_w_def by (intro safe_rules)+

lemma safe_smod_w [safe_rules]: "safe (smod_w a b)"
  unfolding smod_w_def by (intro safe_rules)+

lemma safe_udiv_w [safe_rules]: "safe (udiv_w a b)"
  unfolding udiv_w_def by (intro safe_rules)+

lemma safe_umod_w [safe_rules]: "safe (umod_w a b)"
  unfolding umod_w_def by (intro safe_rules)+

lemma safe_CheckRange [safe_rules]: "safe (CheckRange lower actual upper)"
  unfolding CheckRange_def by (intro safe_rules)+

lemma safe_reg_index [safe_rules]: "safe (reg_index regId)"
  unfolding reg_index_def by (intro safe_rules)+

lemma safe_IntRegFile_ReadInt32 [safe_rules]: "safe (IntRegFile_ReadInt32 rf regId)"
  unfolding IntRegFile_ReadInt32_def by (intro safe_rules)+

lemma safe_IntRegFile_ReadInt64 [safe_rules]: "safe (IntRegFile_ReadInt64 rf regId)"
  unfolding IntRegFile_ReadInt64_def by (intro safe_rules)+

lemma safe_IntRegFile_ReadUInt32 [safe_rules]: "safe (IntRegFile_ReadUInt32 rf regId)"
  unfolding IntRegFile_ReadUInt32_def by (intro safe_rules)+

lemma safe_IntRegFile_ReadUInt64 [safe_rules]: "safe (IntRegFile_ReadUInt64 rf regId)"
  unfolding IntRegFile_ReadUInt64_def by (intro safe_rules)+

lemma safe_IntRegFile_WriteInt32 [safe_rules]: "safe (IntRegFile_WriteInt32 rf regId value)"
  unfolding IntRegFile_WriteInt32_def by (intro safe_rules)+

lemma safe_IntRegFile_WriteInt64 [safe_rules]: "safe (IntRegFile_WriteInt64 rf regId value)"
  unfolding IntRegFile_WriteInt64_def by (intro safe_rules)+

lemma safe_IntRegFile_WriteUInt32 [safe_rules]: "safe (IntRegFile_WriteUInt32 rf regId value)"
  unfolding IntRegFile_WriteUInt32_def by (intro safe_rules)+

lemma safe_IntRegFile_WriteUInt64 [safe_rules]: "safe (IntRegFile_WriteUInt64 rf regId value)"
  unfolding IntRegFile_WriteUInt64_def by (intro safe_rules)+

lemma safe_FpRegFile_ReadUInt32 [safe_rules]: "safe (FpRegFile_ReadUInt32 rf regId)"
  unfolding FpRegFile_ReadUInt32_def by (intro safe_rules)+

lemma safe_FpRegFile_ReadUInt64 [safe_rules]: "safe (FpRegFile_ReadUInt64 rf regId)"
  unfolding FpRegFile_ReadUInt64_def by (intro safe_rules)+

lemma safe_FpRegFile_WriteUInt32 [safe_rules]: "safe (FpRegFile_WriteUInt32 rf regId value)"
  unfolding FpRegFile_WriteUInt32_def by (intro safe_rules)+

lemma safe_FpRegFile_WriteUInt64 [safe_rules]: "safe (FpRegFile_WriteUInt64 rf regId value)"
  unfolding FpRegFile_WriteUInt64_def by (intro safe_rules)+

lemma safe_Csr_ReadStatus [safe_rules]: "safe (Csr_ReadStatus csr)"
  unfolding Csr_ReadStatus_def by (intro safe_rules)+

lemma safe_GetPerformanceCounterIndex [safe_rules]: "safe (GetPerformanceCounterIndex addr)"
  unfolding GetPerformanceCounterIndex_def by (intro safe_rules)+

lemma safe_counter_check [safe_rules]: "safe (counter_check csr addr pc insn)"
  unfolding counter_check_def by (intro safe_rules)+

lemma safe_Csr_CheckTrap [safe_rules]: "safe (Csr_CheckTrap csr addr write pc insn)"
  unfolding Csr_CheckTrap_def by (intro safe_rules)+

lemma safe_ReadMachineModeRegister [safe_rules]: "safe (ReadMachineModeRegister csr addr)"
  unfolding ReadMachineModeRegister_def by (intro safe_rules)+

lemma safe_ReadSupervisorStatus [safe_rules]: "safe (ReadSupervisorStatus csr)"
  unfolding ReadSupervisorStatus_def by (intro safe_rules)+

lemma safe_ReadSupervisorModeRegister [safe_rules]: "safe (ReadSupervisorModeRegister csr addr)"
  unfolding ReadSupervisorModeRegister_def by (intro safe_rules)+

lemma safe_ReadUserModeRegister [safe_rules]: "safe (ReadUserModeRegister csr addr)"
  unfolding ReadUserModeRegister_def by (intro safe_rules)+

lemma safe_Csr_ReadUInt64 [safe_rules]: "safe (Csr_ReadUInt64 csr addr)"
  unfolding Csr_ReadUInt64_def by (intro safe_rules)+

lemma safe_Csr_ReadUInt32 [safe_rules]: "safe (Csr_ReadUInt32 csr addr)"
  unfolding Csr_ReadUInt32_def by (intro safe_rules)+

lemma safe_WriteMachineModeRegister [safe_rules]: "safe (WriteMachineModeRegister addr value csr)"
  unfolding WriteMachineModeRegister_def by (intro safe_rules)+

lemma safe_WriteSupervisorModeRegister [safe_rules]: "safe (WriteSupervisorModeRegister addr value csr)"
  unfolding WriteSupervisorModeRegister_def by (intro safe_rules)+

lemma safe_WriteUserModeRegister [safe_rules]: "safe (WriteUserModeRegister addr value csr)"
  unfolding WriteUserModeRegister_def by (intro safe_rules)+

lemma safe_Csr_WriteUInt64 [safe_rules]: "safe (Csr_WriteUInt64 addr value csr)"
  unfolding Csr_WriteUInt64_def by (intro safe_rules)+

lemma safe_Csr_WriteUInt32 [safe_rules]: "safe (Csr_WriteUInt32 addr value csr)"
  unfolding Csr_WriteUInt32_def by (intro safe_rules)+

lemma safe_CheckAccess [safe_rules]: "safe (CheckAccess address sz capacity)"
  unfolding CheckAccess_def by (intro safe_rules)+

lemma safe_block_read [safe_rules]: "safe (block_read body capacity sz offset)"
  unfolding block_read_def by (intro safe_rules)+

lemma safe_block_write [safe_rules]: "safe (block_write body capacity bs offset)"
  unfolding block_write_def by (intro safe_rules)+

lemma safe_Ram_Copy [safe_rules]: "safe (Ram_Copy ram sz)"
  unfolding Ram_Copy_def by (intro safe_rules)+

lemma safe_Ram_LoadFile [safe_rules]: "safe (Ram_LoadFile file offset ram)"
  unfolding Ram_LoadFile_def by (intro safe_rules)+

lemma safe_Ram_Read [safe_rules]: "safe (Ram_Read ram sz address)"
  unfolding Ram_Read_def by (intro safe_rules)+

lemma safe_Ram_Write [safe_rules]: "safe (Ram_Write buffer address ram)"
  unfolding Ram_Write_def by (intro safe_rules)+

lemma safe_Rom_LoadFile [safe_rules]: "safe (Rom_LoadFile file offset rom)"
  unfolding Rom_LoadFile_def by (intro safe_rules)+

lemma safe_Rom_Read [safe_rules]: "safe (Rom_Read rom sz address)"
  unfolding Rom_Read_def by (intro safe_rules)+

lemma safe_Rom_Write [safe_rules]: "safe (Rom_Write buffer address rom)"
  unfolding Rom_Write_def by (intro safe_rules)+

lemma safe_Clint_ReadMsip [safe_rules]: "safe (Clint_ReadMsip sz csr)"
  unfolding Clint_ReadMsip_def by (intro safe_rules)+

lemma safe_Clint_ReadTime [safe_rules]: "safe (Clint_ReadTime sz csr)"
  unfolding Clint_ReadTime_def by (intro safe_rules)+

lemma safe_Clint_WriteMsip [safe_rules]: "safe (Clint_WriteMsip buffer csr)"
  unfolding Clint_WriteMsip_def by (intro safe_rules)+

lemma safe_Clint_WriteTime [safe_rules]: "safe (Clint_WriteTime buffer csr)"
  unfolding Clint_WriteTime_def by (intro safe_rules)+

lemma safe_Clint_Read [safe_rules]: "safe (Clint_Read s sz address)"
  unfolding Clint_Read_def by (intro safe_rules)+

lemma safe_Clint_Write [safe_rules]: "safe (Clint_Write buffer address s)"
  unfolding Clint_Write_def by (intro safe_rules)+

lemma safe_Plic_ReadUInt32 [safe_rules]: "safe (Plic_ReadUInt32 p address)"
  unfolding Plic_ReadUInt32_def by (intro safe_rules)+

lemma safe_Plic_WriteUInt32 [safe_rules]: "safe (Plic_WriteUInt32 address value p)"
  unfolding Plic_WriteUInt32_def by (intro safe_rules)+

lemma safe_Plic_Read [safe_rules]: "safe (Plic_Read p sz address)"
  unfolding Plic_Read_def by (intro safe_rules)+

lemma safe_Plic_Write [safe_rules]: "safe (Plic_Write buffer address p)"
  unfolding Plic_Write_def by (intro safe_rules)+

lemma safe_Timer_Read [safe_rules]: "safe (Timer_Read t sz address)"
  unfolding Timer_Read_def by (intro safe_rules)+

lemma safe_Timer_Write [safe_rules]: "safe (Timer_Write buffer address t)"
  unfolding Timer_Write_def by (intro safe_rules)+

lemma safe_Uart_Read [safe_rules]: "safe (Uart_Read u sz address)"
  unfolding Uart_Read_def by (intro safe_rules)+

lemma safe_Uart_Write [safe_rules]: "safe (Uart_Write buffer address u)"
  unfolding Uart_Write_def by (intro safe_rules)+

lemma safe_Uart16550_Read [safe_rules]: "safe (Uart16550_Read u sz address)"
  unfolding Uart16550_Read_def by (intro safe_rules)+

lemma safe_Uart16550_Write [safe_rules]: "safe (Uart16550_Write buffer address u)"
  unfolding Uart16550_Write_def by (intro safe_rules)+

lemma safe_VirtIo_Read [safe_rules]: "safe (VirtIo_Read v sz address)"
  unfolding VirtIo_Read_def by (intro safe_rules)+

lemma safe_VirtIo_Write [safe_rules]: "safe (VirtIo_Write buffer address v)"
  unfolding VirtIo_Write_def by (intro safe_rules)+

lemma safe_memory_read [safe_rules]: "safe (memory_read ptr sys sz address)"
  unfolding memory_read_def by (intro safe_rules)+

lemma safe_memory_write [safe_rules]: "safe (memory_write ptr buffer address sys)"
  unfolding memory_write_def by (intro safe_rules)+

lemma safe_memory_load [safe_rules]: "safe (memory_load ptr file offset sys)"
  unfolding memory_load_def by (intro safe_rules)+

lemma safe_io_read [safe_rules]: "safe (io_read ptr sys sz address)"
  unfolding io_read_def by (intro safe_rules)+

lemma safe_io_write [safe_rules]: "safe (io_write ptr buffer address sys)"
  unfolding io_write_def by (intro safe_rules)+

lemma safe_Processor_SetIntReg [safe_rules]: "safe (Processor_SetIntReg regId regValue sys)"
  unfolding Processor_SetIntReg_def by (intro safe_rules)+

lemma safe_System_SetDtbAddress [safe_rules]: "safe (System_SetDtbAddress address sys)"
  unfolding System_SetDtbAddress_def by (intro safe_rules)+

lemma safe_System_GetHostIoValue [safe_rules]: "safe (System_GetHostIoValue sys)"
  unfolding System_GetHostIoValue_def by (intro safe_rules)+

lemma safe_find_location [safe_rules]: "safe (find_location address rs)"
  by (induction rs) (simp_all add: safe_def Let_def)

lemma safe_locations [safe_rules]:
  "safe (ConvertToMemoryLocation bus address)" "safe (ConvertToIoLocation bus address)"
  unfolding ConvertToMemoryLocation_def ConvertToIoLocation_def by (intro safe_rules)+

lemma safe_Bus [safe_rules]:
  "safe (Bus_Read system_calls bus s n address)" "safe (Bus_Write system_calls bus bs address s)"
  unfolding Bus_Read_def Bus_Write_def system_calls_simps by (intro safe_rules)+

lemma safe_Bus_words [safe_rules]:
  "safe (bus_read sys n address)" "safe (bus_write bs address sys)"
  "safe (mem_ReadUInt8 sys address)" "safe (mem_ReadUInt16 sys address)"
  "safe (mem_ReadUInt32 sys address)" "safe (mem_ReadUInt64 sys address)"
  "safe (mem_WriteUInt8 address v8 sys)" "safe (mem_WriteUInt16 address v16 sys)"
  "safe (mem_WriteUInt32 address v32 sys)" "safe (mem_WriteUInt64 address v64 sys)"
  unfolding bus_read_def bus_write_def mem_ReadUInt8_def mem_ReadUInt16_def mem_ReadUInt32_def
    mem_ReadUInt64_def mem_WriteUInt8_def mem_WriteUInt16_def mem_WriteUInt32_def mem_WriteUInt64_def
    Bus_ReadUInt8_def Bus_ReadUInt16_def Bus_ReadUInt32_def Bus_ReadUInt64_def
    Bus_WriteUInt8_def Bus_WriteUInt16_def Bus_WriteUInt32_def Bus_WriteUInt64_def
  by (intro safe_rules)+

lemma safe_GetEffectivePrivilegeLevel [safe_rules]: "safe (GetEffectivePrivilegeLevel csr accessType)"
  unfolding GetEffectivePrivilegeLevel_def by (intro safe_rules)+

lemma safe_GetAddresssTranslationMode [safe_rules]: "safe (GetAddresssTranslationMode xlen csr accessType)"
  unfolding GetAddresssTranslationMode_def by (intro safe_rules)+

lemma safe_CheckTrapForLeafEntry [safe_rules]: "safe (CheckTrapForLeafEntry csr entry accessType pc addr)"
  unfolding CheckTrapForLeafEntry_def by (intro safe_rules)+

lemma safe_UpdateEntry32 [safe_rules]: "safe (UpdateEntry32 entryAddress isWrite sys)"
  unfolding UpdateEntry32_def by (intro safe_rules)+

lemma safe_UpdateEntry64 [safe_rules]: "safe (UpdateEntry64 entryAddress isWrite sys)"
  unfolding UpdateEntry64_def by (intro safe_rules)+

lemma safe_CheckTrapSv32 [safe_rules]: "safe (CheckTrapSv32 sys accessType pc addr)"
  unfolding CheckTrapSv32_def by (intro safe_rules)+

lemma safe_CheckTrapSv39 [safe_rules]: "safe (CheckTrapSv39 sys accessType pc addr)"
  unfolding CheckTrapSv39_def by (intro safe_rules)+

lemma safe_CheckTrapSv48 [safe_rules]: "safe (CheckTrapSv48 sys accessType pc addr)"
  unfolding CheckTrapSv48_def by (intro safe_rules)+

lemma safe_MemoryAccessUnit_CheckTrap [safe_rules]: "safe (MemoryAccessUnit_CheckTrap sys accessType pc addr)"
  unfolding MemoryAccessUnit_CheckTrap_def by (intro safe_rules)+

lemma safe_TranslateSv32 [safe_rules]: "safe (TranslateSv32 accessType addr pc sys)"
  unfolding TranslateSv32_def by (intro safe_rules)+

lemma safe_TranslateSv39 [safe_rules]: "safe (TranslateSv39 accessType addr pc sys)"
  unfolding TranslateSv39_def by (intro safe_rules)+

lemma safe_TranslateSv48 [safe_rules]: "safe (TranslateSv48 accessType addr pc sys)"
  unfolding TranslateSv48_def by (intro safe_rules)+

lemma safe_Translate [safe_rules]: "safe (Translate accessType addr pc sys)"
  unfolding Translate_def by (intro safe_rules)+

lemma safe_LoadUInt8 [safe_rules]: "safe (LoadUInt8 addr sys)"
  unfolding LoadUInt8_def by (intro safe_rules)+

lemma safe_LoadUInt16 [safe_rules]: "safe (LoadUInt16 addr sys)"
  unfolding LoadUInt16_def by (intro safe_rules)+

lemma safe_LoadUInt32 [safe_rules]: "safe (LoadUInt32 addr sys)"
  unfolding LoadUInt32_def by (intro safe_rules)+

lemma safe_LoadUInt64 [safe_rules]: "safe (LoadUInt64 addr sys)"
  unfolding LoadUInt64_def by (intro safe_rules)+

lemma safe_StoreUInt8 [safe_rules]: "safe (StoreUInt8 addr value sys)"
  unfolding StoreUInt8_def by (intro safe_rules)+

lemma safe_StoreUInt16 [safe_rules]: "safe (StoreUInt16 addr value sys)"
  unfolding StoreUInt16_def by (intro safe_rules)+

lemma safe_StoreUInt32 [safe_rules]: "safe (StoreUInt32 addr value sys)"
  unfolding StoreUInt32_def by (intro safe_rules)+

lemma safe_StoreUInt64 [safe_rules]: "safe (StoreUInt64 addr value sys)"
  unfolding StoreUInt64_def by (intro safe_rules)+

lemma safe_FetchUInt16 [safe_rules]: "safe (FetchUInt16 vaddr paddr sys)"
  unfolding FetchUInt16_def by (intro safe_rules)+

lemma safe_FetchUInt32 [safe_rules]: "safe (FetchUInt32 vaddr paddr sys)"
  unfolding FetchUInt32_def by (intro safe_rules)+

lemma safe_trap_cause [safe_rules]: "safe (trap_cause xlen isInterrupt exceptionCode)"
  unfolding trap_cause_def by (intro safe_rules)+

lemma safe_trap_base [safe_rules]: "safe (trap_base xlen trapVector)"
  unfolding trap_base_def by (intro safe_rules)+

lemma safe_trap_save [safe_rules]: "safe (trap_save statusAddr status causeAddr cause epcAddr pc tvalAddr trapValue tvecAddr csr)"
  unfolding trap_save_def by (intro safe_rules)+

lemma safe_trap_enter_level [safe_rules]: "safe (trap_enter_level nextPriv prevPriv cause pc trapValue csr)"
  unfolding trap_enter_level_def by (intro safe_rules)+

lemma safe_ProcessTrapEnter [safe_rules]: "safe (ProcessTrapEnter xlen isInterrupt exceptionCode trapValue pc nextPriv s)"
  unfolding ProcessTrapEnter_def by (intro safe_rules)+

lemma safe_delegated_level [safe_rules]: "safe (delegated_level csr mdeleg sdeleg cause)"
  unfolding delegated_level_def by (intro safe_rules)+

lemma safe_ProcessException [safe_rules]: "safe (ProcessException xlen trap s)"
  unfolding ProcessException_def by (intro safe_rules)+

lemma safe_ProcessInterrupt [safe_rules]: "safe (ProcessInterrupt xlen type pc s)"
  unfolding ProcessInterrupt_def by (intro safe_rules)+

lemma safe_ProcessTrapReturn [safe_rules]: "safe (ProcessTrapReturn level s)"
  unfolding ProcessTrapReturn_def by (intro safe_rules)+

lemma safe_ScopedFpRound [safe_rules]: "safe (ScopedFpRound rvRound)"
  unfolding ScopedFpRound_def by (intro safe_rules)+

lemma safe_int_ReadInt32 [safe_rules]: "safe (int_ReadInt32 sys r)"
  unfolding int_ReadInt32_def by (intro safe_rules)+

lemma safe_int_ReadInt64 [safe_rules]: "safe (int_ReadInt64 sys r)"
  unfolding int_ReadInt64_def by (intro safe_rules)+

lemma safe_int_ReadUInt32 [safe_rules]: "safe (int_ReadUInt32 sys r)"
  unfolding int_ReadUInt32_def by (intro safe_rules)+

lemma safe_int_ReadUInt64 [safe_rules]: "safe (int_ReadUInt64 sys r)"
  unfolding int_ReadUInt64_def by (intro safe_rules)+

lemma safe_int_WriteInt32 [safe_rules]: "safe (int_WriteInt32 r v sys)"
  unfolding int_WriteInt32_def by (intro safe_rules)+

lemma safe_int_WriteInt64 [safe_rules]: "safe (int_WriteInt64 r v sys)"
  unfolding int_WriteInt64_def by (intro safe_rules)+

lemma safe_int_WriteUInt32 [safe_rules]: "safe (int_WriteUInt32 r v sys)"
  unfolding int_WriteUInt32_def by (intro safe_rules)+

lemma safe_int_WriteUInt64 [safe_rules]: "safe (int_WriteUInt64 r v sys)"
  unfolding int_WriteUInt64_def by (intro safe_rules)+

lemma safe_fp_ReadUInt32 [safe_rules]: "safe (fp_ReadUInt32 sys r)"
  unfolding fp_ReadUInt32_def by (intro safe_rules)+

lemma safe_fp_ReadUInt64 [safe_rules]: "safe (fp_ReadUInt64 sys r)"
  unfolding fp_ReadUInt64_def by (intro safe_rules)+

lemma safe_fp_WriteUInt32 [safe_rules]: "safe (fp_WriteUInt32 r v sys)"
  unfolding fp_WriteUInt32_def by (intro safe_rules)+

lemma safe_fp_WriteUInt64 [safe_rules]: "safe (fp_WriteUInt64 r v sys)"
  unfolding fp_WriteUInt64_def by (intro safe_rules)+

lemma safe_csr_WriteUInt32 [safe_rules]: "safe (csr_WriteUInt32 addr value sys)"
  unfolding csr_WriteUInt32_def by (intro safe_rules)+

lemma safe_csr_WriteUInt64 [safe_rules]: "safe (csr_WriteUInt64 addr value sys)"
  unfolding csr_WriteUInt64_def by (intro safe_rules)+

lemma safe_trap_return [safe_rules]: "safe (trap_return level sys)"
  unfolding trap_return_def by (intro safe_rules)+

lemma safe_ReadStackPointer32 [safe_rules]: "safe (ReadStackPointer32 sys)"
  unfolding ReadStackPointer32_def by (intro safe_rules)+

lemma safe_ReadStackPointer64 [safe_rules]: "safe (ReadStackPointer64 sys)"
  unfolding ReadStackPointer64_def by (intro safe_rules)+

lemma safe_WriteLinkRegister32 [safe_rules]: "safe (WriteLinkRegister32 value sys)"
  unfolding WriteLinkRegister32_def by (intro safe_rules)+

lemma safe_WriteLinkRegister64 [safe_rules]: "safe (WriteLinkRegister64 value sys)"
  unfolding WriteLinkRegister64_def by (intro safe_rules)+

lemma safe_IsFpEnabled [safe_rules]: "safe (IsFpEnabled sys)"
  unfolding IsFpEnabled_def by (intro safe_rules)+

lemma safe_NotifyFpDirty [safe_rules]: "safe (NotifyFpDirty sys)"
  unfolding NotifyFpDirty_def by (intro safe_rules)+

lemma safe_ProcessRV32I_Lui [safe_rules]:
  assumes "kind_of (operand op) = KU"
  shows "safe (ProcessRV32I_Lui op sys)"
  unfolding ProcessRV32I_Lui_def by (intro safe_rules assms)+

lemma safe_ProcessRV32I_Auipc [safe_rules]:
  assumes "kind_of (operand op) = KU"
  shows "safe (ProcessRV32I_Auipc op pc sys)"
  unfolding ProcessRV32I_Auipc_def by (intro safe_rules assms)+

lemma safe_ProcessRV32I_Jal [safe_rules]:
  assumes "kind_of (operand op) = KJ"
  shows "safe (ProcessRV32I_Jal op pc sys)"
  unfolding ProcessRV32I_Jal_def by (intro safe_rules assms)+

lemma safe_ProcessRV32I_Jalr [safe_rules]:
  assumes "kind_of (operand op) = KI"
  shows "safe (ProcessRV32I_Jalr op pc sys)"
  unfolding ProcessRV32I_Jalr_def by (intro safe_rules assms)+

lemma safe_ProcessRV32I_Branch [safe_rules]:
  assumes "kind_of (operand op) = KB"
  shows "safe (ProcessRV32I_Branch op pc sys)"
  unfolding ProcessRV32I_Branch_def by (intro safe_rules assms)+

lemma safe_ProcessRV32I_Load [safe_rules]:
  assumes "kind_of (operand op) = KI"
  shows "safe (ProcessRV32I_Load op sys)"
  unfolding ProcessRV32I_Load_def by (intro safe_rules assms)+

lemma safe_ProcessRV32I_Store [safe_rules]:
  assumes "kind_of (operand op) = KS"
  shows "safe (ProcessRV32I_Store op sys)"
  unfolding ProcessRV32I_Store_def by (intro safe_rules assms)+

lemma safe_ProcessRV32I_Alu [safe_rules]:
  assumes "kind_of (operand op) = KR"
  shows "safe (ProcessRV32I_Alu op sys)"
  unfolding ProcessRV32I_Alu_def by (intro safe_rules assms)+

lemma safe_ProcessRV32I_AluImm [safe_rules]:
  assumes "kind_of (operand op) = KI"
  shows "safe (ProcessRV32I_AluImm op sys)"
  unfolding ProcessRV32I_AluImm_def by (intro safe_rules assms)+

lemma safe_ProcessRV32I_Shift [safe_rules]:
  assumes "kind_of (operand op) = KR"
  shows "safe (ProcessRV32I_Shift op sys)"
  unfolding ProcessRV32I_Shift_def by (intro safe_rules assms)+

lemma safe_ProcessRV32I_ShiftImm [safe_rules]:
  assumes "kind_of (operand op) = KShiftImm"
  shows "safe (ProcessRV32I_ShiftImm op sys)"
  unfolding ProcessRV32I_ShiftImm_def by (intro safe_rules assms)+

lemma safe_ProcessRV32I_Priv [safe_rules]: "safe (ProcessRV32I_Priv op sys)"
  unfolding ProcessRV32I_Priv_def by (intro safe_rules)+

lemma safe_ProcessRV32I_Fence [safe_rules]: "safe (ProcessRV32I_Fence sys)"
  unfolding ProcessRV32I_Fence_def by (intro safe_rules)+

lemma safe_ProcessRV32I_Csr [safe_rules]:
  assumes "kind_of (operand op) = KCsr"
  shows "safe (ProcessRV32I_Csr op sys)"
  unfolding ProcessRV32I_Csr_def by (intro safe_rules assms)+

lemma safe_ProcessRV32I_CsrImm [safe_rules]:
  assumes "kind_of (operand op) = KCsrImm"
  shows "safe (ProcessRV32I_CsrImm op sys)"
  unfolding ProcessRV32I_CsrImm_def by (intro safe_rules assms)+

lemma safe_ProcessRV32I [safe_rules]:
  assumes "required_kind (opCode op) \<in> {kind_of (operand op), KNone}"
  shows "safe (ProcessRV32I op pc sys)"
  unfolding ProcessRV32I_def by (intro safe_rules) (use assms in \<open>simp_all add: required_kind_defs\<close>)

lemma safe_ProcessRV64I_Lui [safe_rules]:
  assumes "kind_of (operand op) = KU"
  shows "safe (ProcessRV64I_Lui op sys)"
  unfolding ProcessRV64I_Lui_def by (intro safe_rules assms)+

lemma safe_ProcessRV64I_Auipc [safe_rules]:
  assumes "kind_of (operand op) = KU"
  shows "safe (ProcessRV64I_Auipc op pc sys)"
  unfolding ProcessRV64I_Auipc_def by (intro safe_rules assms)+

lemma safe_ProcessRV64I_Jal [safe_rules]:
  assumes "kind_of (operand op) = KJ"
  shows "safe (ProcessRV64I_Jal op pc sys)"
  unfolding ProcessRV64I_Jal_def by (intro safe_rules assms)+

lemma safe_ProcessRV64I_Jalr [safe_rules]:
  assumes "kind_of (operand op) = KI"
  shows "safe (ProcessRV64I_Jalr op pc sys)"
  unfolding ProcessRV64I_Jalr_def by (intro safe_rules assms)+

lemma safe_ProcessRV64I_Branch [safe_rules]:
  assumes "kind_of (operand op) = KB"
  shows "safe (ProcessRV64I_Branch op pc sys)"
  unfolding ProcessRV64I_Branch_def by (intro safe_rules assms)+

lemma safe_ProcessRV64I_Load [safe_rules]:
  assumes "kind_of (operand op) = KI"
  shows "safe (ProcessRV64I_Load op sys)"
  unfolding ProcessRV64I_Load_def by (intro safe_rules assms)+

lemma safe_ProcessRV64I_Store [safe_rules]:
  assumes "kind_of (operand op) = KS"
  shows "safe (ProcessRV64I_Store op sys)"
  unfolding ProcessRV64I_Store_def by (intro safe_rules assms)+

lemma safe_ProcessRV64I_Alu [safe_rules]:
  assumes "kind_of (operand op) = KR"
  shows "safe (ProcessRV64I_Alu op sys)"
  unfolding ProcessRV64I_Alu_def by (intro safe_rules assms)+

lemma safe_ProcessRV64I_AluImm [safe_rules]:
  assumes "kind_of (operand op) = KI"
  shows "safe (ProcessRV64I_AluImm op sys)"
  unfolding ProcessRV64I_AluImm_def by (intro safe_rules assms)+

lemma safe_ProcessRV64I_Shift [safe_rules]:
  assumes "kind_of (operand op) = KR"
  shows "safe (ProcessRV64I_Shift op sys)"
  unfolding ProcessRV64I_Shift_def by (intro safe_rules assms)+

lemma safe_ProcessRV64I_ShiftImm [safe_rules]:
  assumes "kind_of (operand op) = KShiftImm"
  shows "safe (ProcessRV64I_ShiftImm op sys)"
  unfolding ProcessRV64I_ShiftImm_def by (intro safe_rules assms)+

lemma safe_ProcessRV64I_Priv [safe_rules]: "safe (ProcessRV64I_Priv op sys)"
  unfolding ProcessRV64I_Priv_def by (intro safe_rules)+

lemma safe_ProcessRV64I_Fence [safe_rules]: "safe (ProcessRV64I_Fence sys)"
  unfolding ProcessRV64I_Fence_def by (intro safe_rules)+

lemma safe_ProcessRV64I_Csr [safe_rules]:
  assumes "kind_of (operand op) = KCsr"
  shows "safe (ProcessRV64I_Csr op sys)"
  unfolding ProcessRV64I_Csr_def by (intro safe_rules assms)+

lemma safe_ProcessRV64I_CsrImm [safe_rules]:
  assumes "kind_of (operand op) = KCsrImm"
  shows "safe (ProcessRV64I_CsrImm op sys)"
  unfolding ProcessRV64I_CsrImm_def by (intro safe_rules assms)+

lemma safe_ProcessRV64I [safe_rules]:
  assumes "required_kind (opCode op) \<in> {kind_of (operand op), KNone}"
  shows "safe (ProcessRV64I op pc sys)"
  unfolding ProcessRV64I_def by (intro safe_rules) (use assms in \<open>simp_all add: required_kind_defs\<close>)

lemma safe_ProcessRV32M [safe_rules]:
  assumes "kind_of (operand op) = KR"
  shows "safe (ProcessRV32M op sys)"
  unfolding ProcessRV32M_def by (intro safe_rules assms)+

lemma safe_ProcessRV64M [safe_rules]:
  assumes "kind_of (operand op) = KR"
  shows "safe (ProcessRV64M h op sys)"
  unfolding ProcessRV64M_def by (intro safe_rules assms)+

lemma safe_ProcessRV32A_Atomic [safe_rules]:
  assumes "kind_of (operand op) = KR"
  shows "safe (ProcessRV32A_Atomic op sys)"
  unfolding ProcessRV32A_Atomic_def by (intro safe_rules assms)+

lemma safe_ProcessRV32A_Load [safe_rules]:
  assumes "kind_of (operand op) = KR"
  shows "safe (ProcessRV32A_Load op sys)"
  unfolding ProcessRV32A_Load_def by (intro safe_rules assms)+

lemma safe_ProcessRV32A_Store [safe_rules]:
  assumes "kind_of (operand op) = KR"
  shows "safe (ProcessRV32A_Store op sys)"
  unfolding ProcessRV32A_Store_def by (intro safe_rules assms)+

lemma safe_ProcessRV32A [safe_rules]:
  assumes "required_kind (opCode op) \<in> {kind_of (operand op), KNone}"
  shows "safe (ProcessRV32A op sys)"
  unfolding ProcessRV32A_def by (intro safe_rules) (use assms in \<open>simp_all add: required_kind_defs\<close>)

lemma safe_ProcessRV64A_Atomic32 [safe_rules]:
  assumes "kind_of (operand op) = KR"
  shows "safe (ProcessRV64A_Atomic32 op sys)"
  unfolding ProcessRV64A_Atomic32_def by (intro safe_rules assms)+

lemma safe_ProcessRV64A_Atomic64 [safe_rules]:
  assumes "kind_of (operand op) = KR"
  shows "safe (ProcessRV64A_Atomic64 op sys)"
  unfolding ProcessRV64A_Atomic64_def by (intro safe_rules assms)+

lemma safe_ProcessRV64A_Load32 [safe_rules]:
  assumes "kind_of (operand op) = KR"
  shows "safe (ProcessRV64A_Load32 op sys)"
  unfolding ProcessRV64A_Load32_def by (intro safe_rules assms)+

lemma safe_ProcessRV64A_Load64 [safe_rules]:
  assumes "kind_of (operand op) = KR"
  shows "safe (ProcessRV64A_Load64 op sys)"
  unfolding ProcessRV64A_Load64_def by (intro safe_rules assms)+

lemma safe_ProcessRV64A_Store32 [safe_rules]:
  assumes "kind_of (operand op) = KR"
  shows "safe (ProcessRV64A_Store32 op sys)"
  unfolding ProcessRV64A_Store32_def by (intro safe_rules assms)+

lemma safe_ProcessRV64A_Store64 [safe_rules]:
  assumes "kind_of (operand op) = KR"
  shows "safe (ProcessRV64A_Store64 op sys)"
  unfolding ProcessRV64A_Store64_def by (intro safe_rules assms)+

lemma safe_ProcessRV64A [safe_rules]:
  assumes "required_kind (opCode op) \<in> {kind_of (operand op), KNone}"
  shows "safe (ProcessRV64A op sys)"
  unfolding ProcessRV64A_def by (intro safe_rules) (use assms in \<open>simp_all add: required_kind_defs\<close>)

lemma safe_ProcessRV32C_Alu [safe_rules]:
  assumes "kind_of (operand op) = KCR"
  shows "safe (ProcessRV32C_Alu op sys)"
  unfolding ProcessRV32C_Alu_def by (intro safe_rules assms)+

lemma safe_ProcessRV32C_AluImm [safe_rules]:
  assumes "kind_of (operand op) = KCI"
  shows "safe (ProcessRV32C_AluImm op sys)"
  unfolding ProcessRV32C_AluImm_def by (intro safe_rules assms)+

lemma safe_ProcessRV32C_Branch [safe_rules]:
  assumes "kind_of (operand op) = KCB"
  shows "safe (ProcessRV32C_Branch op pc sys)"
  unfolding ProcessRV32C_Branch_def by (intro safe_rules assms)+

lemma safe_ProcessRV32C_ADDI4SPN [safe_rules]:
  assumes "kind_of (operand op) = KCIW"
  shows "safe (ProcessRV32C_ADDI4SPN op sys)"
  unfolding ProcessRV32C_ADDI4SPN_def by (intro safe_rules assms)+

lemma safe_ProcessRV32C_ADDI16SP [safe_rules]:
  assumes "kind_of (operand op) = KCI"
  shows "safe (ProcessRV32C_ADDI16SP op sys)"
  unfolding ProcessRV32C_ADDI16SP_def by (intro safe_rules assms)+

lemma safe_ProcessRV32C_FLD [safe_rules]:
  assumes "kind_of (operand op) = KCL"
  shows "safe (ProcessRV32C_FLD op sys)"
  unfolding ProcessRV32C_FLD_def by (intro safe_rules assms)+

lemma safe_ProcessRV32C_FLDSP [safe_rules]:
  assumes "kind_of (operand op) = KCI"
  shows "safe (ProcessRV32C_FLDSP op sys)"
  unfolding ProcessRV32C_FLDSP_def by (intro safe_rules assms)+

lemma safe_ProcessRV32C_FLW [safe_rules]:
  assumes "kind_of (operand op) = KCL"
  shows "safe (ProcessRV32C_FLW op sys)"
  unfolding ProcessRV32C_FLW_def by (intro safe_rules assms)+

lemma safe_ProcessRV32C_FLWSP [safe_rules]:
  assumes "kind_of (operand op) = KCI"
  shows "safe (ProcessRV32C_FLWSP op sys)"
  unfolding ProcessRV32C_FLWSP_def by (intro safe_rules assms)+

lemma safe_ProcessRV32C_FSD [safe_rules]:
  assumes "kind_of (operand op) = KCS"
  shows "safe (ProcessRV32C_FSD op sys)"
  unfolding ProcessRV32C_FSD_def by (intro safe_rules assms)+

lemma safe_ProcessRV32C_FSDSP [safe_rules]:
  assumes "kind_of (operand op) = KCSS"
  shows "safe (ProcessRV32C_FSDSP op sys)"
  unfolding ProcessRV32C_FSDSP_def by (intro safe_rules assms)+

lemma safe_ProcessRV32C_FSW [safe_rules]:
  assumes "kind_of (operand op) = KCS"
  shows "safe (ProcessRV32C_FSW op sys)"
  unfolding ProcessRV32C_FSW_def by (intro safe_rules assms)+

lemma safe_ProcessRV32C_FSWSP [safe_rules]:
  assumes "kind_of (operand op) = KCSS"
  shows "safe (ProcessRV32C_FSWSP op sys)"
  unfolding ProcessRV32C_FSWSP_def by (intro safe_rules assms)+

lemma safe_ProcessRV32C_J [safe_rules]:
  assumes "kind_of (operand op) = KCJ"
  shows "safe (ProcessRV32C_J op pc sys)"
  unfolding ProcessRV32C_J_def by (intro safe_rules assms)+

lemma safe_ProcessRV32C_JAL [safe_rules]:
  assumes "kind_of (operand op) = KCJ"
  shows "safe (ProcessRV32C_JAL op pc sys)"
  unfolding ProcessRV32C_JAL_def by (intro safe_rules assms)+

lemma safe_ProcessRV32C_JR [safe_rules]:
  assumes "kind_of (operand op) = KCR"
  shows "safe (ProcessRV32C_JR op pc sys)"
  unfolding ProcessRV32C_JR_def by (intro safe_rules assms)+

lemma safe_ProcessRV32C_JALR [safe_rules]:
  assumes "kind_of (operand op) = KCR"
  shows "safe (ProcessRV32C_JALR op pc sys)"
  unfolding ProcessRV32C_JALR_def by (intro safe_rules assms)+

lemma safe_ProcessRV32C_LW [safe_rules]:
  assumes "kind_of (operand op) = KCL"
  shows "safe (ProcessRV32C_LW op sys)"
  unfolding ProcessRV32C_LW_def by (intro safe_rules assms)+

lemma safe_ProcessRV32C_LWSP [safe_rules]:
  assumes "kind_of (operand op) = KCI"
  shows "safe (ProcessRV32C_LWSP op sys)"
  unfolding ProcessRV32C_LWSP_def by (intro safe_rules assms)+

lemma safe_ProcessRV32C_SW [safe_rules]:
  assumes "kind_of (operand op) = KCS"
  shows "safe (ProcessRV32C_SW op sys)"
  unfolding ProcessRV32C_SW_def by (intro safe_rules assms)+

lemma safe_ProcessRV32C_SWSP [safe_rules]:
  assumes "kind_of (operand op) = KCSS"
  shows "safe (ProcessRV32C_SWSP op sys)"
  unfolding ProcessRV32C_SWSP_def by (intro safe_rules assms)+

lemma safe_ProcessRV32C [safe_rules]:
  assumes "required_kind (opCode op) \<in> {kind_of (operand op), KNone}"
  shows "safe (ProcessRV32C op pc sys)"
  unfolding ProcessRV32C_def by (intro safe_rules) (use assms in \<open>simp_all add: required_kind_defs\<close>)

lemma safe_ProcessRV64C_Alu [safe_rules]:
  assumes "kind_of (operand op) = KCR"
  shows "safe (ProcessRV64C_Alu op sys)"
  unfolding ProcessRV64C_Alu_def by (intro safe_rules assms)+

lemma safe_ProcessRV64C_AluImm [safe_rules]:
  assumes "kind_of (operand op) = KCI"
  shows "safe (ProcessRV64C_AluImm op sys)"
  unfolding ProcessRV64C_AluImm_def by (intro safe_rules assms)+

lemma safe_ProcessRV64C_Branch [safe_rules]:
  assumes "kind_of (operand op) = KCB"
  shows "safe (ProcessRV64C_Branch op pc sys)"
  unfolding ProcessRV64C_Branch_def by (intro safe_rules assms)+

lemma safe_ProcessRV64C_ADDI4SPN [safe_rules]:
  assumes "kind_of (operand op) = KCIW"
  shows "safe (ProcessRV64C_ADDI4SPN op sys)"
  unfolding ProcessRV64C_ADDI4SPN_def by (intro safe_rules assms)+

lemma safe_ProcessRV64C_ADDI16SP [safe_rules]:
  assumes "kind_of (operand op) = KCI"
  shows "safe (ProcessRV64C_ADDI16SP op sys)"
  unfolding ProcessRV64C_ADDI16SP_def by (intro safe_rules assms)+

lemma safe_ProcessRV64C_FLD [safe_rules]:
  assumes "kind_of (operand op) = KCL"
  shows "safe (ProcessRV64C_FLD op sys)"
  unfolding ProcessRV64C_FLD_def by (intro safe_rules assms)+

lemma safe_ProcessRV64C_FLDSP [safe_rules]:
  assumes "kind_of (operand op) = KCI"
  shows "safe (ProcessRV64C_FLDSP op sys)"
  unfolding ProcessRV64C_FLDSP_def by (intro safe_rules assms)+

lemma safe_ProcessRV64C_FSD [safe_rules]:
  assumes "kind_of (operand op) = KCS"
  shows "safe (ProcessRV64C_FSD op sys)"
  unfolding ProcessRV64C_FSD_def by (intro safe_rules assms)+

lemma safe_ProcessRV64C_FSDSP [safe_rules]:
  assumes "kind_of (operand op) = KCSS"
  shows "safe (ProcessRV64C_FSDSP op sys)"
  unfolding ProcessRV64C_FSDSP_def by (intro safe_rules assms)+

lemma safe_ProcessRV64C_J [safe_rules]:
  assumes "kind_of (operand op) = KCJ"
  shows "safe (ProcessRV64C_J op pc sys)"
  unfolding ProcessRV64C_J_def by (intro safe_rules assms)+

lemma safe_ProcessRV64C_JR [safe_rules]:
  assumes "kind_of (operand op) = KCR"
  shows "safe (ProcessRV64C_JR op pc sys)"
  unfolding ProcessRV64C_JR_def by (intro safe_rules assms)+

lemma safe_ProcessRV64C_JALR [safe_rules]:
  assumes "kind_of (operand op) = KCR"
  shows "safe (ProcessRV64C_JALR op pc sys)"
  unfolding ProcessRV64C_JALR_def by (intro safe_rules assms)+

lemma safe_ProcessRV64C_LD [safe_rules]:
  assumes "kind_of (operand op) = KCL"
  shows "safe (ProcessRV64C_LD op sys)"
  unfolding ProcessRV64C_LD_def by (intro safe_rules assms)+

lemma safe_ProcessRV64C_LDSP [safe_rules]:
  assumes "kind_of (operand op) = KCI"
  shows "safe (ProcessRV64C_LDSP op sys)"
  unfolding ProcessRV64C_LDSP_def by (intro safe_rules assms)+

lemma safe_ProcessRV64C_LW [safe_rules]:
  assumes "kind_of (operand op) = KCL"
  shows "safe (ProcessRV64C_LW op sys)"
  unfolding ProcessRV64C_LW_def by (intro safe_rules assms)+

lemma safe_ProcessRV64C_LWSP [safe_rules]:
  assumes "kind_of (operand op) = KCI"
  shows "safe (ProcessRV64C_LWSP op sys)"
  unfolding ProcessRV64C_LWSP_def by (intro safe_rules assms)+

lemma safe_ProcessRV64C_SD [safe_rules]:
  assumes "kind_of (operand op) = KCS"
  shows "safe (ProcessRV64C_SD op sys)"
  unfolding ProcessRV64C_SD_def by (intro safe_rules assms)+

lemma safe_ProcessRV64C_SDSP [safe_rules]:
  assumes "kind_of (operand op) = KCSS"
  shows "safe (ProcessRV64C_SDSP op sys)"
  unfolding ProcessRV64C_SDSP_def by (intro safe_rules assms)+

lemma safe_ProcessRV64C_SW [safe_rules]:
  assumes "kind_of (operand op) = KCS"
  shows "safe (ProcessRV64C_SW op sys)"
  unfolding ProcessRV64C_SW_def by (intro safe_rules assms)+

lemma safe_ProcessRV64C_SWSP [safe_rules]:
  assumes "kind_of (operand op) = KCSS"
  shows "safe (ProcessRV64C_SWSP op sys)"
  unfolding ProcessRV64C_SWSP_def by (intro safe_rules assms)+

lemma safe_ProcessRV64C [safe_rules]:
  assumes "required_kind (opCode op) \<in> {kind_of (operand op), KNone}"
  shows "safe (ProcessRV64C op pc sys)"
  unfolding ProcessRV64C_def by (intro safe_rules) (use assms in \<open>simp_all add: required_kind_defs\<close>)

lemma safe_ProcessRVF_MulAdd [safe_rules]:
  assumes "kind_of (operand op) = KR4"
  shows "safe (ProcessRVF_MulAdd h op sys)"
  unfolding ProcessRVF_MulAdd_def by (intro safe_rules assms)+

lemma safe_ProcessRVF_Compute [safe_rules]:
  assumes "kind_of (operand op) = KR"
  shows "safe (ProcessRVF_Compute h op sys)"
  unfolding ProcessRVF_Compute_def by (intro safe_rules assms)+

lemma safe_ProcessRVF_Compare [safe_rules]:
  assumes "kind_of (operand op) = KR"
  shows "safe (ProcessRVF_Compare h op sys)"
  unfolding ProcessRVF_Compare_def by (intro safe_rules assms)+

lemma safe_ProcessRVF_Class [safe_rules]:
  assumes "kind_of (operand op) = KR"
  shows "safe (ProcessRVF_Class op sys)"
  unfolding ProcessRVF_Class_def by (intro safe_rules assms)+

lemma safe_ProcessRVF_MoveToInt [safe_rules]:
  assumes "kind_of (operand op) = KR"
  shows "safe (ProcessRVF_MoveToInt op sys)"
  unfolding ProcessRVF_MoveToInt_def by (intro safe_rules assms)+

lemma safe_ProcessRVF_MoveToFp [safe_rules]:
  assumes "kind_of (operand op) = KR"
  shows "safe (ProcessRVF_MoveToFp op sys)"
  unfolding ProcessRVF_MoveToFp_def by (intro safe_rules assms)+

lemma safe_ProcessRVF_ConvertToInt32 [safe_rules]:
  assumes "kind_of (operand op) = KR"
  shows "safe (ProcessRVF_ConvertToInt32 h op sys)"
  unfolding ProcessRVF_ConvertToInt32_def by (intro safe_rules assms)+

lemma safe_ProcessRVF_ConvertToInt64 [safe_rules]:
  assumes "kind_of (operand op) = KR"
  shows "safe (ProcessRVF_ConvertToInt64 h op sys)"
  unfolding ProcessRVF_ConvertToInt64_def by (intro safe_rules assms)+

lemma safe_ProcessRVF_ConvertSign [safe_rules]:
  assumes "kind_of (operand op) = KR"
  shows "safe (ProcessRVF_ConvertSign op sys)"
  unfolding ProcessRVF_ConvertSign_def by (intro safe_rules assms)+

lemma safe_ProcessRV32F_Load [safe_rules]:
  assumes "kind_of (operand op) = KI"
  shows "safe (ProcessRV32F_Load op sys)"
  unfolding ProcessRV32F_Load_def by (intro safe_rules assms)+

lemma safe_ProcessRV32F_Store [safe_rules]:
  assumes "kind_of (operand op) = KS"
  shows "safe (ProcessRV32F_Store op sys)"
  unfolding ProcessRV32F_Store_def by (intro safe_rules assms)+

lemma safe_ProcessRV64F_Load [safe_rules]:
  assumes "kind_of (operand op) = KI"
  shows "safe (ProcessRV64F_Load op sys)"
  unfolding ProcessRV64F_Load_def by (intro safe_rules assms)+

lemma safe_ProcessRV64F_Store [safe_rules]:
  assumes "kind_of (operand op) = KS"
  shows "safe (ProcessRV64F_Store op sys)"
  unfolding ProcessRV64F_Store_def by (intro safe_rules assms)+

lemma safe_ProcessRVF [safe_rules]:
  assumes "required_kind (opCode op) \<in> {kind_of (operand op), KNone}"
  shows "safe (ProcessRVF h op sys)"
  unfolding ProcessRVF_def by (intro safe_rules) (use assms in \<open>simp_all add: required_kind_defs\<close>)

lemma safe_ProcessRVD_MulAdd [safe_rules]:
  assumes "kind_of (operand op) = KR4"
  shows "safe (ProcessRVD_MulAdd h op sys)"
  unfolding ProcessRVD_MulAdd_def by (intro safe_rules assms)+

lemma safe_ProcessRVD_Compute [safe_rules]:
  assumes "kind_of (operand op) = KR"
  shows "safe (ProcessRVD_Compute h op sys)"
  unfolding ProcessRVD_Compute_def by (intro safe_rules assms)+

lemma safe_ProcessRVD_Compare [safe_rules]:
  assumes "kind_of (operand op) = KR"
  shows "safe (ProcessRVD_Compare h op sys)"
  unfolding ProcessRVD_Compare_def by (intro safe_rules assms)+

lemma safe_ProcessRVD_Class [safe_rules]:
  assumes "kind_of (operand op) = KR"
  shows "safe (ProcessRVD_Class op sys)"
  unfolding ProcessRVD_Class_def by (intro safe_rules assms)+

lemma safe_ProcessRVD_MoveToInt [safe_rules]:
  assumes "kind_of (operand op) = KR"
  shows "safe (ProcessRVD_MoveToInt op sys)"
  unfolding ProcessRVD_MoveToInt_def by (intro safe_rules assms)+

lemma safe_ProcessRVD_MoveToFp [safe_rules]:
  assumes "kind_of (operand op) = KR"
  shows "safe (ProcessRVD_MoveToFp op sys)"
  unfolding ProcessRVD_MoveToFp_def by (intro safe_rules assms)+

lemma safe_ProcessRVD_ConvertToInt32 [safe_rules]:
  assumes "kind_of (operand op) = KR"
  shows "safe (ProcessRVD_ConvertToInt32 h op sys)"
  unfolding ProcessRVD_ConvertToInt32_def by (intro safe_rules assms)+

lemma safe_ProcessRVD_ConvertToInt64 [safe_rules]:
  assumes "kind_of (operand op) = KR"
  shows "safe (ProcessRVD_ConvertToInt64 h op sys)"
  unfolding ProcessRVD_ConvertToInt64_def by (intro safe_rules assms)+

lemma safe_ProcessRVD_ConvertFp32ToFp64 [safe_rules]:
  assumes "kind_of (operand op) = KR"
  shows "safe (ProcessRVD_ConvertFp32ToFp64 h op sys)"
  unfolding ProcessRVD_ConvertFp32ToFp64_def by (intro safe_rules assms)+

lemma safe_ProcessRVD_ConvertFp64ToFp32 [safe_rules]:
  assumes "kind_of (operand op) = KR"
  shows "safe (ProcessRVD_ConvertFp64ToFp32 h op sys)"
  unfolding ProcessRVD_ConvertFp64ToFp32_def by (intro safe_rules assms)+

lemma safe_ProcessRVD_ConvertSign [safe_rules]:
  assumes "kind_of (operand op) = KR"
  shows "safe (ProcessRVD_ConvertSign op sys)"
  unfolding ProcessRVD_ConvertSign_def by (intro safe_rules assms)+

lemma safe_ProcessRV32D_Load [safe_rules]:
  assumes "kind_of (operand op) = KI"
  shows "safe (ProcessRV32D_Load op sys)"
  unfolding ProcessRV32D_Load_def by (intro safe_rules assms)+

lemma safe_ProcessRV32D_Store [safe_rules]:
  assumes "kind_of (operand op) = KS"
  shows "safe (ProcessRV32D_Store op sys)"
  unfolding ProcessRV32D_Store_def by (intro safe_rules assms)+

lemma safe_ProcessRV64D_Load [safe_rules]:
  assumes "kind_of (operand op) = KI"
  shows "safe (ProcessRV64D_Load op sys)"
  unfolding ProcessRV64D_Load_def by (intro safe_rules assms)+

lemma safe_ProcessRV64D_Store [safe_rules]:
  assumes "kind_of (operand op) = KS"
  shows "safe (ProcessRV64D_Store op sys)"
  unfolding ProcessRV64D_Store_def by (intro safe_rules assms)+

lemma safe_ProcessRVD [safe_rules]:
  assumes "required_kind (opCode op) \<in> {kind_of (operand op), KNone}"
  shows "safe (ProcessRVD h op sys)"
  unfolding ProcessRVD_def by (intro safe_rules) (use assms in \<open>simp_all add: required_kind_defs\<close>)

lemma safe_PreCheckTrapRV32_Load [safe_rules]:
  assumes "kind_of (operand op) = KI"
  shows "safe (PreCheckTrapRV32_Load op pc sys)"
  unfolding PreCheckTrapRV32_Load_def by (intro safe_rules assms)+

lemma safe_PreCheckTrapRV32_LoadReserved [safe_rules]:
  assumes "kind_of (operand op) = KR"
  shows "safe (PreCheckTrapRV32_LoadReserved op pc sys)"
  unfolding PreCheckTrapRV32_LoadReserved_def by (intro safe_rules assms)+

lemma safe_PreCheckTrapRV32_Store [safe_rules]:
  assumes "kind_of (operand op) = KS"
  shows "safe (PreCheckTrapRV32_Store op pc sys)"
  unfolding PreCheckTrapRV32_Store_def by (intro safe_rules assms)+

lemma safe_PreCheckTrapRV32_StoreConditional [safe_rules]:
  assumes "kind_of (operand op) = KR"
  shows "safe (PreCheckTrapRV32_StoreConditional op pc sys)"
  unfolding PreCheckTrapRV32_StoreConditional_def by (intro safe_rules assms)+

lemma safe_PreCheckTrapRV32_Atomic [safe_rules]:
  assumes "kind_of (operand op) = KR"
  shows "safe (PreCheckTrapRV32_Atomic op pc sys)"
  unfolding PreCheckTrapRV32_Atomic_def by (intro safe_rules assms)+

lemma safe_PreCheckTrapRV64_Load [safe_rules]:
  assumes "kind_of (operand op) = KI"
  shows "safe (PreCheckTrapRV64_Load op pc sys)"
  unfolding PreCheckTrapRV64_Load_def by (intro safe_rules assms)+

lemma safe_PreCheckTrapRV64_LoadReserved [safe_rules]:
  assumes "kind_of (operand op) = KR"
  shows "safe (PreCheckTrapRV64_LoadReserved op pc sys)"
  unfolding PreCheckTrapRV64_LoadReserved_def by (intro safe_rules assms)+

lemma safe_PreCheckTrapRV64_Store [safe_rules]:
  assumes "kind_of (operand op) = KS"
  shows "safe (PreCheckTrapRV64_Store op pc sys)"
  unfolding PreCheckTrapRV64_Store_def by (intro safe_rules assms)+

lemma safe_PreCheckTrapRV64_StoreConditional [safe_rules]:
  assumes "kind_of (operand op) = KR"
  shows "safe (PreCheckTrapRV64_StoreConditional op pc sys)"
  unfolding PreCheckTrapRV64_StoreConditional_def by (intro safe_rules assms)+

lemma safe_PreCheckTrapRV64_Atomic [safe_rules]:
  assumes "kind_of (operand op) = KR"
  shows "safe (PreCheckTrapRV64_Atomic op pc sys)"
  unfolding PreCheckTrapRV64_Atomic_def by (intro safe_rules assms)+

lemma safe_PreCheckTrap_Csr [safe_rules]:
  assumes "kind_of (operand op) = KCsr"
  shows "safe (PreCheckTrap_Csr op pc insn sys)"
  unfolding PreCheckTrap_Csr_def by (intro safe_rules assms)+

lemma safe_PreCheckTrap_CsrImm [safe_rules]:
  assumes "kind_of (operand op) = KCsrImm"
  shows "safe (PreCheckTrap_CsrImm op pc insn sys)"
  unfolding PreCheckTrap_CsrImm_def by (intro safe_rules assms)+

lemma safe_PreCheckTrap_Wfi [safe_rules]: "safe (PreCheckTrap_Wfi pc insn sys)"
  unfolding PreCheckTrap_Wfi_def by (intro safe_rules)+

lemma safe_PreCheckTrap_Fence [safe_rules]: "safe (PreCheckTrap_Fence pc insn sys)"
  unfolding PreCheckTrap_Fence_def by (intro safe_rules)+

lemma safe_PreCheckTrap_Priv [safe_rules]: "safe (PreCheckTrap_Priv op pc insn sys)"
  unfolding PreCheckTrap_Priv_def by (intro safe_rules)+

lemma safe_PreCheckTrapRV32C_FLD [safe_rules]:
  assumes "kind_of (operand op) = KCL"
  shows "safe (PreCheckTrapRV32C_FLD op pc sys)"
  unfolding PreCheckTrapRV32C_FLD_def by (intro safe_rules assms)+

lemma safe_PreCheckTrapRV32C_FLDSP [safe_rules]:
  assumes "kind_of (operand op) = KCI"
  shows "safe (PreCheckTrapRV32C_FLDSP op pc sys)"
  unfolding PreCheckTrapRV32C_FLDSP_def by (intro safe_rules assms)+

lemma safe_PreCheckTrapRV32C_FLW [safe_rules]:
  assumes "kind_of (operand op) = KCL"
  shows "safe (PreCheckTrapRV32C_FLW op pc sys)"
  unfolding PreCheckTrapRV32C_FLW_def by (intro safe_rules assms)+

lemma safe_PreCheckTrapRV32C_FLWSP [safe_rules]:
  assumes "kind_of (operand op) = KCI"
  shows "safe (PreCheckTrapRV32C_FLWSP op pc sys)"
  unfolding PreCheckTrapRV32C_FLWSP_def by (intro safe_rules assms)+

lemma safe_PreCheckTrapRV32C_FSD [safe_rules]:
  assumes "kind_of (operand op) = KCS"
  shows "safe (PreCheckTrapRV32C_FSD op pc sys)"
  unfolding PreCheckTrapRV32C_FSD_def by (intro safe_rules assms)+

lemma safe_PreCheckTrapRV32C_FSDSP [safe_rules]:
  assumes "kind_of (operand op) = KCSS"
  shows "safe (PreCheckTrapRV32C_FSDSP op pc sys)"
  unfolding PreCheckTrapRV32C_FSDSP_def by (intro safe_rules assms)+

lemma safe_PreCheckTrapRV32C_FSW [safe_rules]:
  assumes "kind_of (operand op) = KCS"
  shows "safe (PreCheckTrapRV32C_FSW op pc sys)"
  unfolding PreCheckTrapRV32C_FSW_def by (intro safe_rules assms)+

lemma safe_PreCheckTrapRV32C_FSWSP [safe_rules]:
  assumes "kind_of (operand op) = KCSS"
  shows "safe (PreCheckTrapRV32C_FSWSP op pc sys)"
  unfolding PreCheckTrapRV32C_FSWSP_def by (intro safe_rules assms)+

lemma safe_PreCheckTrapRV32C_LW [safe_rules]:
  assumes "kind_of (operand op) = KCL"
  shows "safe (PreCheckTrapRV32C_LW op pc sys)"
  unfolding PreCheckTrapRV32C_LW_def by (intro safe_rules assms)+

lemma safe_PreCheckTrapRV32C_LWSP [safe_rules]:
  assumes "kind_of (operand op) = KCI"
  shows "safe (PreCheckTrapRV32C_LWSP op pc sys)"
  unfolding PreCheckTrapRV32C_LWSP_def by (intro safe_rules assms)+

lemma safe_PreCheckTrapRV32C_SW [safe_rules]:
  assumes "kind_of (operand op) = KCS"
  shows "safe (PreCheckTrapRV32C_SW op pc sys)"
  unfolding PreCheckTrapRV32C_SW_def by (intro safe_rules assms)+

lemma safe_PreCheckTrapRV32C_SWSP [safe_rules]:
  assumes "kind_of (operand op) = KCSS"
  shows "safe (PreCheckTrapRV32C_SWSP op pc sys)"
  unfolding PreCheckTrapRV32C_SWSP_def by (intro safe_rules assms)+

lemma safe_PreCheckTrapRV64C_FLD [safe_rules]:
  assumes "kind_of (operand op) = KCL"
  shows "safe (PreCheckTrapRV64C_FLD op pc sys)"
  unfolding PreCheckTrapRV64C_FLD_def by (intro safe_rules assms)+

lemma safe_PreCheckTrapRV64C_FLDSP [safe_rules]:
  assumes "kind_of (operand op) = KCI"
  shows "safe (PreCheckTrapRV64C_FLDSP op pc sys)"
  unfolding PreCheckTrapRV64C_FLDSP_def by (intro safe_rules assms)+

lemma safe_PreCheckTrapRV64C_FSD [safe_rules]:
  assumes "kind_of (operand op) = KCS"
  shows "safe (PreCheckTrapRV64C_FSD op pc sys)"
  unfolding PreCheckTrapRV64C_FSD_def by (intro safe_rules assms)+

lemma safe_PreCheckTrapRV64C_FSDSP [safe_rules]:
  assumes "kind_of (operand op) = KCSS"
  shows "safe (PreCheckTrapRV64C_FSDSP op pc sys)"
  unfolding PreCheckTrapRV64C_FSDSP_def by (intro safe_rules assms)+

lemma safe_PreCheckTrapRV64C_LD [safe_rules]:
  assumes "kind_of (operand op) = KCL"
  shows "safe (PreCheckTrapRV64C_LD op pc sys)"
  unfolding PreCheckTrapRV64C_LD_def by (intro safe_rules assms)+

lemma safe_PreCheckTrapRV64C_LDSP [safe_rules]:
  assumes "kind_of (operand op) = KCI"
  shows "safe (PreCheckTrapRV64C_LDSP op pc sys)"
  unfolding PreCheckTrapRV64C_LDSP_def by (intro safe_rules assms)+

lemma safe_PreCheckTrapRV64C_LW [safe_rules]:
  assumes "kind_of (operand op) = KCL"
  shows "safe (PreCheckTrapRV64C_LW op pc sys)"
  unfolding PreCheckTrapRV64C_LW_def by (intro safe_rules assms)+

lemma safe_PreCheckTrapRV64C_LWSP [safe_rules]:
  assumes "kind_of (operand op) = KCI"
  shows "safe (PreCheckTrapRV64C_LWSP op pc sys)"
  unfolding PreCheckTrapRV64C_LWSP_def by (intro safe_rules assms)+

lemma safe_PreCheckTrapRV64C_SD [safe_rules]:
  assumes "kind_of (operand op) = KCS"
  shows "safe (PreCheckTrapRV64C_SD op pc sys)"
  unfolding PreCheckTrapRV64C_SD_def by (intro safe_rules assms)+

lemma safe_PreCheckTrapRV64C_SDSP [safe_rules]:
  assumes "kind_of (operand op) = KCSS"
  shows "safe (PreCheckTrapRV64C_SDSP op pc sys)"
  unfolding PreCheckTrapRV64C_SDSP_def by (intro safe_rules assms)+

lemma safe_PreCheckTrapRV64C_SW [safe_rules]:
  assumes "kind_of (operand op) = KCS"
  shows "safe (PreCheckTrapRV64C_SW op pc sys)"
  unfolding PreCheckTrapRV64C_SW_def by (intro safe_rules assms)+

lemma safe_PreCheckTrapRV64C_SWSP [safe_rules]:
  assumes "kind_of (operand op) = KCSS"
  shows "safe (PreCheckTrapRV64C_SWSP op pc sys)"
  unfolding PreCheckTrapRV64C_SWSP_def by (intro safe_rules assms)+

lemma safe_PreCheckTrapRV32C [safe_rules]:
  assumes "required_kind (opCode op) \<in> {kind_of (operand op), KNone}"
  shows "safe (PreCheckTrapRV32C op pc sys)"
  unfolding PreCheckTrapRV32C_def by (intro safe_rules) (use assms in \<open>simp_all add: required_kind_defs\<close>)

lemma safe_PreCheckTrapRV64C [safe_rules]:
  assumes "required_kind (opCode op) \<in> {kind_of (operand op), KNone}"
  shows "safe (PreCheckTrapRV64C op pc sys)"
  unfolding PreCheckTrapRV64C_def by (intro safe_rules) (use assms in \<open>simp_all add: required_kind_defs\<close>)

lemma safe_PreCheckTrap_opcode [safe_rules]:
  assumes "required_kind (opCode op) \<in> {kind_of (operand op), KNone}"
  shows "safe (PreCheckTrap_opcode op pc insn sys)"
  unfolding PreCheckTrap_opcode_def by (intro safe_rules) (use assms in \<open>simp_all add: required_kind_defs\<close>)

lemma safe_PreCheckTrap [safe_rules]:
  assumes "required_kind (opCode op) \<in> {kind_of (operand op), KNone}"
  shows "safe (PreCheckTrap op pc insn sys)"
  unfolding PreCheckTrap_def by (intro safe_rules) (use assms in \<open>simp_all add: required_kind_defs\<close>)

lemma safe_PostCheckTrapForEcall [safe_rules]: "safe (PostCheckTrapForEcall pc sys)"
  unfolding PostCheckTrapForEcall_def by (intro safe_rules)+

lemma safe_PostCheckTrap [safe_rules]: "safe (PostCheckTrap op pc sys)"
  unfolding PostCheckTrap_def by (intro safe_rules)+
lemma safe_ProcessOp:
  assumes "op_ok op" "opCode op \<noteq> op_unknown"
  shows "safe (ProcessOp h op pc sys)"
proof -
  have k: "required_kind (opCode op) \<in> {kind_of (operand op), KNone}"
    and c: "opClass op \<in> set (class_of_code (opCode op))"
    using assms by (auto simp: op_ok_def)
  note shape = safe_ProcessRV32I [OF k] safe_ProcessRV64I [OF k] safe_ProcessRV32A [OF k] safe_ProcessRV64A [OF k]
    safe_ProcessRVF [OF k] safe_ProcessRVD [OF k] safe_ProcessRV32C [OF k] safe_ProcessRV64C [OF k]
  show ?thesis
    unfolding ProcessOp_def
    using k c assms(2)
    by (cases "opCode op") (auto simp: shape intro: safe_ProcessRV32M [OF sym] safe_ProcessRV64M [OF sym])
qed

section \<open>The cycle\<close>

lemma safe_on_address [safe_rules]: "safe t \<Longrightarrow> (\<And>p s. safe (k p s)) \<Longrightarrow> safe (on_address t k)"
  unfolding on_address_def by (intro safe_rules; assumption)

lemma safe_Fetch [safe_rules]: "safe (Fetch pc sys)"
  unfolding Fetch_def by (intro safe_rules)+

lemma safe_update [safe_rules]:
  "safe (InterruptController_UpdateCsr b csr)" "safe (global_enable p v)" "safe (InterruptController_Update b x)"
  "safe (GetInterruptType ic)" "safe (processor_update_interrupt sys)"
  unfolding InterruptController_UpdateCsr_def global_enable_def InterruptController_Update_def GetInterruptType_def
    processor_update_interrupt_def
  by (intro safe_rules)+

lemma safe_traps [safe_rules]: "safe (processor_exception trap sys)" "safe (processor_interrupt pc sys)"
  unfolding processor_exception_def processor_interrupt_def by (intro safe_rules)+

lemma safe_processor_execute:
  assumes "op_ok op" "opCode op \<noteq> op_unknown"
  shows "safe (processor_execute h op pc insn sys)"
proof -
  have k: "required_kind (opCode op) \<in> {kind_of (operand op), KNone}"
    using assms by (auto simp: op_ok_def)
  show ?thesis
    unfolding processor_execute_def
    by (intro safe_rules safe_PreCheckTrap [OF k] safe_ProcessOp [OF assms])
qed

lemma safe_processor_decode:
  assumes "sys_XLEN sys \<noteq> XLEN128"
  shows "safe (processor_decode h pc insn sys)"
  using decodes_Decode [OF assms, of insn] safe_processor_execute safe_traps(1)
  by (auto simp: processor_decode_def decodes_def)

lemma fetch_keeps_XLEN: "Fetch pc s = Inr (f, t) \<Longrightarrow> sys_XLEN t = sys_XLEN s"
  using keeps_valD [OF hart.keeps_Fetch] by (auto simp: hart_step_def wiring_kept_def)

lemma update_keeps_XLEN: "processor_update_interrupt s = Inr t \<Longrightarrow> sys_XLEN t = sys_XLEN s"
  by (auto simp: processor_update_interrupt_def rbind_Inr_iff)

lemma safe_rbind_value: "safe m \<Longrightarrow> (\<And>x. m = Inr x \<Longrightarrow> safe (f x)) \<Longrightarrow> safe (rbind m f)"
  by (cases m) (simp_all add: safe_def)

lemma safe_fetched:
  assumes "sys_XLEN t \<noteq> XLEN128"
  shows "safe (case f of FetchTrap trap \<Rightarrow> processor_exception trap t
    | FetchInsn insn \<Rightarrow> processor_decode h pc insn (add_event (OpEvent insn p) t))"
  using assms by (cases f) (simp_all add: safe_traps add_event_def safe_processor_decode)

lemma safe_ProcessCycle:
  assumes "sys_XLEN sys \<noteq> XLEN128"
  shows "safe (Processor_ProcessCycle h sys)"
  unfolding Processor_ProcessCycle_def Let_def
proof (intro safe_rbind_value safe_update safe_if safe_traps safe_Fetch)
  fix t x
  assume t: "processor_update_interrupt (sys\<lparr> sys_Csr := Csr_ProcessCycle (sys_Csr sys) \<rparr>) = Inr t"
    and x: "Fetch (m_Pc (sys_Csr (sys\<lparr> sys_Csr := Csr_ProcessCycle (sys_Csr sys) \<rparr>))) t = Inr x"
  obtain f u where fu: "x = (f, u)" by (cases x)
  have "sys_XLEN u \<noteq> XLEN128"
    using assms update_keeps_XLEN [OF t] fetch_keeps_XLEN [OF x [unfolded fu]] by simp
  then show "safe (case x of (f, u) \<Rightarrow> case f of FetchTrap trap \<Rightarrow> processor_exception trap u
    | FetchInsn insn \<Rightarrow> processor_decode h (m_Pc (sys_Csr (sys\<lparr> sys_Csr := Csr_ProcessCycle (sys_Csr sys) \<rparr>))) insn
        (add_event (OpEvent insn (m_Priv (sys_Csr (sys\<lparr> sys_Csr := Csr_ProcessCycle (sys_Csr sys) \<rparr>)))) u))"
    unfolding fu prod.case by (rule safe_fetched)
qed

section \<open>Properties\<close>

text \<open>
  C6. The decoder is total: for RV32 and RV64 every word decodes, without an assertion or an exit, to
  an operation; unless it is unknown, the operation has the class of its extension, the operand
  alternative that the executor reads for its code, and register numbers between 0 and 31.
\<close>

theorem decode_total_well_formed:
  assumes "xlen \<noteq> XLEN128"
  shows "\<exists>op. Decode xlen insn = Inr op \<and> (opCode op = op_unknown \<or>
    required_kind (opCode op) \<in> {kind_of (operand op), KNone} \<and> opClass op \<in> set (class_of_code (opCode op)) \<and>
    list_all (\<lambda>r. 0 \<le> r \<and> r < 32) (operand_regs (operand op)))"
  using decodes_Decode [OF assms, of insn] by (auto simp: decodes_def op_ok_def)

lemma decode_total_well_formed_witness: "\<exists>op. Decode XLEN64 0xffffffff = Inr op"
  using decode_total_well_formed [of XLEN64 "0xffffffff"] by auto

text \<open>
  C5. No program can make the emulator read the wrong alternative of an operand: on RV32 and RV64 a
  cycle never fails with a bad variant access, whatever the words it fetches.
\<close>

theorem cycle_never_bad_variant:
  assumes "sys_XLEN sys \<noteq> XLEN128"
  shows "System_ProcessCycle h sys \<noteq> Inl BadVariantAccess"
  using assms by (simp add: System_ProcessCycle_def safe_ProcessCycle [unfolded safe_def])

lemma cycle_never_bad_variant_witness:
  "\<forall>h. System_ProcessCycle h (sample_machine\<lparr> sys_XLEN := XLEN32 \<rparr>) \<noteq> Inl BadVariantAccess"
  using cycle_never_bad_variant [of "sample_machine\<lparr> sys_XLEN := XLEN32 \<rparr>"] by simp

end
