(* ===== verification/Encoder.thy ===== *)
theory Encoder
  imports DecoderLaws
begin

text \<open>
  The instruction formats of the RISC-V manual as an encoder, a reference for the decoder: the
  instructions of RV32I, RV64I, RV32M and RV64M with their fixed fields, and the immediates of the six
  formats laid out bit by bit.
\<close>

section \<open>Formats\<close>

definition fields :: "uint32 \<Rightarrow> uint32 \<Rightarrow> uint32 \<Rightarrow> uint32 \<Rightarrow> uint32 \<Rightarrow> uint32 \<Rightarrow> uint32" where
  "fields opcode rd funct3 rs1 rs2 funct7 =
     take_bit 7 opcode OR push_bit 7 (take_bit 5 rd) OR push_bit 12 (take_bit 3 funct3) OR
     push_bit 15 (take_bit 5 rs1) OR push_bit 20 (take_bit 5 rs2) OR push_bit 25 (take_bit 7 funct7)"

definition enc_R :: "uint32 \<Rightarrow> uint32 \<Rightarrow> uint32 \<Rightarrow> int \<Rightarrow> int \<Rightarrow> int \<Rightarrow> uint32" where
  "enc_R opcode funct3 funct7 rd rs1 rs2 =
     fields opcode (of_int rd) funct3 (of_int rs1) (of_int rs2) funct7"

definition enc_I :: "uint32 \<Rightarrow> uint32 \<Rightarrow> uint64 \<Rightarrow> int \<Rightarrow> int \<Rightarrow> uint32" where
  "enc_I opcode funct3 imm rd rs1 =
     fields opcode (of_int rd) funct3 (of_int rs1) (ucast imm) (drop_bit 5 (ucast imm))"

definition enc_S :: "uint32 \<Rightarrow> uint32 \<Rightarrow> uint64 \<Rightarrow> int \<Rightarrow> int \<Rightarrow> uint32" where
  "enc_S opcode funct3 imm rs1 rs2 =
     fields opcode (ucast imm) funct3 (of_int rs1) (of_int rs2) (drop_bit 5 (ucast imm))"

definition enc_B :: "uint32 \<Rightarrow> uint32 \<Rightarrow> uint64 \<Rightarrow> int \<Rightarrow> int \<Rightarrow> uint32" where
  "enc_B opcode funct3 imm rs1 rs2 =
     fields opcode (push_bit 1 (take_bit 4 (drop_bit 1 (ucast imm))) OR take_bit 1 (drop_bit 11 (ucast imm)))
       funct3 (of_int rs1) (of_int rs2)
       (push_bit 6 (drop_bit 12 (ucast imm)) OR take_bit 6 (drop_bit 5 (ucast imm)))"

definition enc_U :: "uint32 \<Rightarrow> uint64 \<Rightarrow> int \<Rightarrow> uint32" where
  "enc_U opcode imm rd =
     fields opcode (of_int rd) (drop_bit 12 (ucast imm)) (drop_bit 15 (ucast imm)) (drop_bit 20 (ucast imm))
       (drop_bit 25 (ucast imm))"

definition enc_J :: "uint32 \<Rightarrow> uint64 \<Rightarrow> int \<Rightarrow> uint32" where
  "enc_J opcode imm rd =
     fields opcode (of_int rd) (drop_bit 12 (ucast imm)) (drop_bit 15 (ucast imm))
       (push_bit 1 (take_bit 4 (drop_bit 1 (ucast imm))) OR take_bit 1 (drop_bit 11 (ucast imm)))
       (push_bit 6 (drop_bit 20 (ucast imm)) OR take_bit 6 (drop_bit 5 (ucast imm)))"

definition enc_Shift :: "uint32 \<Rightarrow> uint32 \<Rightarrow> uint32 \<Rightarrow> int \<Rightarrow> int \<Rightarrow> int \<Rightarrow> uint32" where
  "enc_Shift opcode funct3 funct7 rd rs1 shamt =
     fields opcode (of_int rd) funct3 (of_int rs1) (of_int shamt) (funct7 OR drop_bit 5 (of_int shamt))"

definition enc_Csr :: "uint32 \<Rightarrow> int \<Rightarrow> uint32 \<Rightarrow> uint32 \<Rightarrow> uint32" where
  "enc_Csr funct3 rd rs1 csr = fields 0b1110011 (of_int rd) funct3 rs1 csr (drop_bit 5 csr)"

definition enc_Fence :: "uint32 \<Rightarrow> int \<Rightarrow> int \<Rightarrow> uint32" where
  "enc_Fence funct3 pred succ =
     fields 0b0001111 0 funct3 0 (push_bit 4 (of_int pred) OR take_bit 4 (of_int succ)) (take_bit 3 (drop_bit 1 (of_int pred)))"

section \<open>Picking the fields\<close>

lemma bit_fields:
  "bit (fields opcode rd f3 rs1 rs2 f7) k \<longleftrightarrow>
     (if k < 7 then bit opcode k else if k < 12 then bit rd (k - 7) else if k < 15 then bit f3 (k - 12)
      else if k < 20 then bit rs1 (k - 15) else if k < 25 then bit rs2 (k - 20) else k < 32 \<and> bit f7 (k - 25))"
  by (auto simp: fields_def bit_simps)

lemma Pick_fields [simp]:
  "Pick (fields opcode rd f3 rs1 rs2 f7) 0 7 = take_bit 7 opcode"
  "Pick (fields opcode rd f3 rs1 rs2 f7) 7 5 = take_bit 5 rd"
  "Pick (fields opcode rd f3 rs1 rs2 f7) 12 3 = take_bit 3 f3"
  "Pick (fields opcode rd f3 rs1 rs2 f7) 15 5 = take_bit 5 rs1"
  "Pick (fields opcode rd f3 rs1 rs2 f7) 20 5 = take_bit 5 rs2"
  "Pick (fields opcode rd f3 rs1 rs2 f7) 20 4 = take_bit 4 rs2"
  "Pick (fields opcode rd f3 rs1 rs2 f7) 28 4 = take_bit 4 (drop_bit 3 f7)"
  "Pick (fields opcode rd f3 rs1 rs2 f7) 20 6 = take_bit 5 rs2 OR push_bit 5 (take_bit 1 f7)"
  "Pick (fields opcode rd f3 rs1 rs2 f7) 25 7 = take_bit 7 f7"
  "Pick (fields opcode rd f3 rs1 rs2 f7) 25 5 = take_bit 5 f7"
  "Pick (fields opcode rd f3 rs1 rs2 f7) 25 2 = take_bit 2 f7"
  "Pick (fields opcode rd f3 rs1 rs2 f7) 26 6 = take_bit 6 (drop_bit 1 f7)"
  "Pick (fields opcode rd f3 rs1 rs2 f7) 27 5 = take_bit 5 (drop_bit 2 f7)"
  "Pick (fields opcode rd f3 rs1 rs2 f7) 20 12 = take_bit 5 rs2 OR push_bit 5 (take_bit 7 f7)"
  by (rule bit_eqI; auto simp: bit_Pick bit_fields bit_simps bit_0)+

lemma low_bits_set: "(w :: uint32) AND 3 = 3 \<longleftrightarrow> bit w 0 \<and> bit w 1"
proof -
  have three: "(3 :: uint32) = mask 2" by (simp add: mask_eq_exp_minus_1)
  show ?thesis
  proof
    assume "w AND 3 = 3"
    then have "bit (w AND 3) k = bit (3 :: uint32) k" for k by simp
    from this [of 0] this [of 1] show "bit w 0 \<and> bit w 1" unfolding three by (simp add: bit_simps)
  next
    assume b: "bit w 0 \<and> bit w 1"
    show "w AND 3 = 3"
    proof (rule bit_eqI)
      fix k :: nat
      consider "k = 0" | "k = 1" | "2 \<le> k" by linarith
      then show "bit (w AND 3) k = bit (3 :: uint32) k"
        by cases (use b in \<open>simp_all add: three bit_simps del: One_nat_def\<close>)
    qed
  qed
qed

lemma fields_compressed [simp]:
  "IsCompressedInstruction32 (fields opcode rd f3 rs1 rs2 f7) \<longleftrightarrow> \<not> (bit opcode 0 \<and> bit opcode 1)"
  by (simp add: IsCompressedInstruction32_def low_bits_set bit_fields)

lemma sint_reg [simp]: "reg r \<Longrightarrow> sint (take_bit 5 (of_int r) :: uint32) = r"
  by (simp add: take_bit_of_int sint_sbintrunc' take_bit_int_eq_self signed_take_bit_int_eq_self)

section \<open>Operands\<close>

text \<open>Immediates a format can hold: sign extended from \<open>n + 1\<close> bits.\<close>

definition fits :: "nat \<Rightarrow> uint64 \<Rightarrow> bool" where
  "fits n imm \<longleftrightarrow> signed_take_bit n imm = imm"

lemma fits_bit:
  assumes "fits n imm" "n < k" "k < 64"
  shows "bit imm k = bit imm n"
proof -
  have "bit imm k = bit (signed_take_bit n imm) k" using assms(1) by (simp add: fits_def)
  also have "\<dots> = bit imm n" using assms by (simp add: bit_signed_take_bit_iff min_def)
  finally show ?thesis .
qed

lemma extend_imm:
  fixes v :: uint32
  assumes "fits n imm" "n \<le> 31" "m = Suc n" "\<And>k. bit v k \<longleftrightarrow> k \<le> n \<and> bit imm k"
  shows "SignExtend m (scast v) = imm"
proof (rule bit_eqI)
  fix k assume k: "possible_bit TYPE(uint64) k"
  show "bit (SignExtend m (scast v) :: uint64) k = bit imm k"
  proof (cases "k \<le> n")
    case True
    then show ?thesis using assms(2) by (auto simp: bit_SignExtend bit_scast_cases assms(3,4))
  next
    case False
    with k have "bit imm k = bit imm n" by (intro fits_bit [OF assms(1)]) simp_all
    then show ?thesis using False k assms(2) by (auto simp: bit_SignExtend bit_scast_cases assms(3,4))
  qed
qed

lemma take_bit_Suc_0_bit: "odd (drop_bit n a) = bit (a :: 'a::len word) n"
  by (simp add: bit_drop_bit_eq flip: bit_0)

lemma four_eq: "(4 :: nat) = Suc (Suc (Suc (Suc 0)))" and five_eq: "5 \<le> n \<Longrightarrow> n < 6 \<Longrightarrow> n = (5 :: nat)"
  by simp_all

lemma extend_imm_bits:
  fixes v :: uint32
  assumes "fits n imm" "n \<le> 31" "m = Suc n" "\<forall>k < 32. bit v k \<longleftrightarrow> k \<le> n \<and> bit imm k"
  shows "SignExtend m (scast v) = imm"
proof (rule extend_imm [OF assms(1-3)])
  fix k show "bit v k \<longleftrightarrow> k \<le> n \<and> bit imm k"
    using assms(2,4) bit_imp_le_length [of v k] by (cases "k < 32") auto
qed

lemma operand_R:
  "reg rd \<Longrightarrow> reg rs1 \<Longrightarrow> reg rs2 \<Longrightarrow> DecodeOperandR (enc_R opcode f3 f7 rd rs1 rs2) =
    OperandR rd rs1 rs2 (sint (take_bit 3 f3)) (sint (take_bit 5 f7))"
  by (simp add: DecodeOperandR_def enc_R_def)

lemma operand_I:
  assumes "reg rd" "reg rs1" "fits 11 imm"
  shows "DecodeOperandI (enc_I opcode f3 imm rd rs1) = OperandI imm rd rs1 (sint (take_bit 3 f3))"
proof -
  have "SignExtend 12 (scast (take_bit 5 (ucast imm) OR push_bit 5 (take_bit 7 (drop_bit 5 (ucast imm))) :: uint32)) = imm"
    by (rule extend_imm [OF assms(3)]) (use assms in \<open>auto simp: bit_simps\<close>)
  then show ?thesis using assms by (simp add: DecodeOperandI_def enc_I_def)
qed

lemma operand_S:
  assumes "reg rs1" "reg rs2" "fits 11 imm"
  shows "DecodeOperandS (enc_S opcode f3 imm rs1 rs2) = OperandS imm rs1 rs2 (sint (take_bit 3 f3))"
proof -
  have "SignExtend 12 (scast (push_bit 5 (take_bit 7 (drop_bit 5 (ucast imm))) OR take_bit 5 (ucast imm) :: uint32)) = imm"
    by (rule extend_imm [OF assms(3)]) (use assms in \<open>auto simp: bit_simps\<close>)
  then show ?thesis using assms by (simp add: DecodeOperandS_def enc_S_def)
qed

lemma operand_B:
  assumes "reg rs1" "reg rs2" "fits 12 imm" "\<not> bit imm 0"
  shows "DecodeOperandB (enc_B opcode f3 imm rs1 rs2) = OperandB imm rs1 rs2 (sint (take_bit 3 f3))"
proof -
  define w where "w = enc_B opcode f3 imm rs1 rs2"
  have f: "bit w k = bit (enc_B opcode f3 imm rs1 rs2) k" for k by (simp add: w_def)
  have "SignExtend 13 (scast (push_bit 12 (Pick w 31 1) OR push_bit 5 (Pick w 25 6) OR push_bit 1 (Pick w 8 4) OR push_bit 11 (Pick w 7 1) :: uint32)) = imm"
    by (rule extend_imm_bits [OF assms(3)])
      (use assms in \<open>simp_all add: all_less_32 bit_Pick f enc_B_def bit_fields bit_simps numeral_2_eq_2
        numeral_3_eq_3 four_eq take_bit_Suc_0_bit del: push_bit_Suc\<close>)
  then show ?thesis using assms unfolding w_def by (simp add: DecodeOperandB_def enc_B_def)
qed

lemma operand_U:
  assumes "reg rd" "fits 31 imm" "\<forall>k < 12. \<not> bit imm k"
  shows "DecodeOperandU (enc_U opcode imm rd) = OperandU imm rd"
proof -
  define w where "w = enc_U opcode imm rd"
  have f: "bit w k = bit (enc_U opcode imm rd) k" for k by (simp add: w_def)
  have "SignExtend 32 (scast (push_bit 12 (Pick w 12 20) :: uint32)) = imm"
    by (rule extend_imm_bits [OF assms(2)])
      (use assms in \<open>simp_all add: all_less_32 bit_Pick f enc_U_def bit_fields bit_simps del: push_bit_Suc\<close>)
  then show ?thesis using assms unfolding w_def by (simp add: DecodeOperandU_def enc_U_def)
qed

lemma operand_J:
  assumes "reg rd" "fits 20 imm" "\<not> bit imm 0"
  shows "DecodeOperandJ (enc_J opcode imm rd) = OperandJ imm rd"
proof -
  define w where "w = enc_J opcode imm rd"
  have f: "bit w k = bit (enc_J opcode imm rd) k" for k by (simp add: w_def)
  have "SignExtend 21 (scast (push_bit 20 (Pick w 31 1) OR push_bit 1 (Pick w 21 10) OR push_bit 11 (Pick w 20 1) OR push_bit 12 (Pick w 12 8) :: uint32)) = imm"
    by (rule extend_imm_bits [OF assms(2)])
      (use assms in \<open>simp_all add: all_less_32 bit_Pick f enc_J_def bit_fields bit_simps numeral_2_eq_2
        numeral_3_eq_3 four_eq take_bit_Suc_0_bit del: push_bit_Suc\<close>)
  then show ?thesis using assms unfolding w_def by (simp add: DecodeOperandJ_def enc_J_def)
qed

lemma operand_Shift:
  assumes "reg rd" "reg rs1"
  shows "reg shamt \<Longrightarrow> DecodeOperandShiftImm_32 (enc_Shift opcode f3 f7 rd rs1 shamt) = OperandShiftImm rd rs1 shamt"
    "0 \<le> shamt \<Longrightarrow> shamt < 64 \<Longrightarrow> \<not> bit f7 0 \<Longrightarrow>
      DecodeOperandShiftImm_64 (enc_Shift opcode f3 f7 rd rs1 shamt) = OperandShiftImm rd rs1 shamt"
proof -
  show "DecodeOperandShiftImm_32 (enc_Shift opcode f3 f7 rd rs1 shamt) = OperandShiftImm rd rs1 shamt" if "reg shamt"
    using assms that by (simp add: DecodeOperandShiftImm_32_def enc_Shift_def)
  assume b: "0 \<le> shamt" "shamt < 64" "\<not> bit f7 0"
  have "take_bit 5 (of_int shamt) OR push_bit 5 (take_bit 1 (f7 OR drop_bit 5 (of_int shamt))) =
      take_bit 6 (of_int shamt :: uint32)"
    by (rule bit_eqI) (use b(3) in \<open>auto simp: bit_simps bit_0 take_bit_Suc_0_bit less_Suc_eq_le not_less dest: five_eq\<close>)
  moreover have "sint (take_bit 6 (of_int shamt) :: uint32) = shamt"
    using b by (simp add: take_bit_of_int sint_sbintrunc' take_bit_int_eq_self signed_take_bit_int_eq_self)
  ultimately show "DecodeOperandShiftImm_64 (enc_Shift opcode f3 f7 rd rs1 shamt) = OperandShiftImm rd rs1 shamt"
    using assms by (simp add: DecodeOperandShiftImm_64_def enc_Shift_def)
qed

lemma operand_Csr:
  assumes "reg rd" "reg rs1" "csr < 4096"
  shows "DecodeOperandCsr (enc_Csr f3 rd (of_int rs1) csr) = OperandCsr rd rs1 csr"
    "zimm < 32 \<Longrightarrow> DecodeOperandCsrImm (enc_Csr f3 rd zimm csr) = OperandCsrImm zimm rd csr"
proof -
  have "take_bit 12 csr = csr" using assms(3) by (simp add: take_bit_eq_mod mod_word_less)
  moreover have "take_bit 5 csr OR push_bit 5 (take_bit 7 (drop_bit 5 csr)) = take_bit 12 csr"
    by (rule bit_eqI) (auto simp: bit_simps)
  moreover have "take_bit 5 zimm = zimm" if "zimm < 32"
    using that by (simp add: take_bit_eq_mod mod_word_less)
  ultimately show "DecodeOperandCsr (enc_Csr f3 rd (of_int rs1) csr) = OperandCsr rd rs1 csr"
    "zimm < 32 \<Longrightarrow> DecodeOperandCsrImm (enc_Csr f3 rd zimm csr) = OperandCsrImm zimm rd csr"
    using assms by (simp_all add: DecodeOperandCsr_def DecodeOperandCsrImm_def enc_Csr_def)
qed

lemma fence_sets:
  "Pick (enc_Fence f3 pred succ) 24 4 = take_bit 4 (of_int pred)"
  "Pick (enc_Fence f3 pred succ) 20 4 = take_bit 4 (of_int succ)"
proof -
  show "Pick (enc_Fence f3 pred succ) 24 4 = take_bit 4 (of_int pred)"
  proof (rule bit_eqI)
    fix k :: nat
    consider "k = 0" | "k = 1" | "k = 2" | "k = 3" | "4 \<le> k" by linarith
    then show "bit (Pick (enc_Fence f3 pred succ) 24 4) k = bit (take_bit 4 (of_int pred) :: uint32) k"
      by cases (simp_all add: bit_Pick enc_Fence_def bit_fields bit_simps numeral_2_eq_2 numeral_3_eq_3 del: push_bit_Suc)
  qed
  show "Pick (enc_Fence f3 pred succ) 20 4 = take_bit 4 (of_int succ)"
    by (rule bit_eqI) (auto simp: bit_Pick enc_Fence_def bit_fields bit_simps)
qed

lemma operand_Fence:
  assumes "0 \<le> pred" "pred < 16" "0 \<le> succ" "succ < 16"
  shows "DecodeOperandFence (enc_Fence f3 pred succ) = OperandFence pred succ"
proof -
  have "sint (take_bit 4 (of_int n) :: uint32) = n" if "0 \<le> n" "n < 16" for n
    using that by (simp add: take_bit_of_int sint_sbintrunc' take_bit_int_eq_self signed_take_bit_int_eq_self)
  then show ?thesis using assms by (simp only: DecodeOperandFence_def fence_sets)
qed

section \<open>Instructions\<close>

text \<open>
  The fixed fields of each instruction, from the tables of the manual: major opcode, funct3 and, for
  the register format, funct7. The low bits of funct7 order an atomic instruction: aq and rl, which
  the table leaves clear and \<open>ordering\<close> takes from the operation. The second list of a table
  holds the instructions of RV64 only.
\<close>

definition ordering :: "OpCode \<Rightarrow> int \<Rightarrow> uint32" where
  "ordering oc funct7 = (case oc of rva c \<Rightarrow> take_bit 2 (of_int funct7) | _ \<Rightarrow> 0)"

definition r_formats :: "XLEN \<Rightarrow> (OpCode \<times> uint32 \<times> uint32 \<times> uint32) list" where
  "r_formats xlen = [
      (rvi op_add, 0b0110011, 0, 0), (rvi op_sub, 0b0110011, 0, 0x20),
      (rvi op_sll, 0b0110011, 1, 0), (rvi op_slt, 0b0110011, 2, 0), (rvi op_sltu, 0b0110011, 3, 0),
      (rvi op_xor, 0b0110011, 4, 0), (rvi op_srl, 0b0110011, 5, 0),
      (rvi op_sra, 0b0110011, 5, 0x20), (rvi op_or, 0b0110011, 6, 0),
      (rvi op_and, 0b0110011, 7, 0), (rvm op_mul, 0b0110011, 0, 1), (rvm op_mulh, 0b0110011, 1, 1),
      (rvm op_mulhsu, 0b0110011, 2, 1), (rvm op_mulhu, 0b0110011, 3, 1),
      (rvm op_div, 0b0110011, 4, 1), (rvm op_divu, 0b0110011, 5, 1), (rvm op_rem, 0b0110011, 6, 1),
      (rvm op_remu, 0b0110011, 7, 1), (rvi op_sfence_vma, 0b1110011, 0, 0x9),
      (rva op_lr_w, 0b0101111, 2, 0x8), (rva op_sc_w, 0b0101111, 2, 0xc),
      (rva op_amoswap_w, 0b0101111, 2, 0x4), (rva op_amoadd_w, 0b0101111, 2, 0x0),
      (rva op_amoxor_w, 0b0101111, 2, 0x10), (rva op_amoand_w, 0b0101111, 2, 0x30),
      (rva op_amoor_w, 0b0101111, 2, 0x20), (rva op_amomin_w, 0b0101111, 2, 0x40),
      (rva op_amomax_w, 0b0101111, 2, 0x50), (rva op_amominu_w, 0b0101111, 2, 0x60),
      (rva op_amomaxu_w, 0b0101111, 2, 0x70)] @
    (if xlen = XLEN64 then [
      (rvi op_addw, 0b0111011, 0, 0), (rvi op_subw, 0b0111011, 0, 0x20),
      (rvi op_sllw, 0b0111011, 1, 0), (rvi op_srlw, 0b0111011, 5, 0),
      (rvi op_sraw, 0b0111011, 5, 0x20), (rvm op_mulw, 0b0111011, 0, 0x1),
      (rvm op_divw, 0b0111011, 4, 0x1), (rvm op_divuw, 0b0111011, 5, 0x1),
      (rvm op_remw, 0b0111011, 6, 0x1), (rvm op_remuw, 0b0111011, 7, 0x1),
      (rva op_lr_d, 0b0101111, 3, 0x8), (rva op_sc_d, 0b0101111, 3, 0xc), (rva op_amoswap_d, 0b0101111, 3, 0x4),
      (rva op_amoadd_d, 0b0101111, 3, 0x0), (rva op_amoxor_d, 0b0101111, 3, 0x10),
      (rva op_amoand_d, 0b0101111, 3, 0x30), (rva op_amoor_d, 0b0101111, 3, 0x20),
      (rva op_amomin_d, 0b0101111, 3, 0x40), (rva op_amomax_d, 0b0101111, 3, 0x50),
      (rva op_amominu_d, 0b0101111, 3, 0x60), (rva op_amomaxu_d, 0b0101111, 3, 0x70)] else [])"

definition i_formats :: "XLEN \<Rightarrow> (OpCode \<times> uint32 \<times> uint32) list" where
  "i_formats xlen = [
      (rvi op_jalr, 0b1100111, 0), (rvi op_lb, 0b0000011, 0), (rvi op_lh, 0b0000011, 1),
      (rvi op_lw, 0b0000011, 2), (rvi op_lbu, 0b0000011, 4), (rvi op_lhu, 0b0000011, 5),
      (rvi op_addi, 0b0010011, 0), (rvi op_slti, 0b0010011, 2), (rvi op_sltiu, 0b0010011, 3),
      (rvi op_xori, 0b0010011, 4), (rvi op_ori, 0b0010011, 6), (rvi op_andi, 0b0010011, 7)] @
    (if xlen = XLEN64 then [
      (rvi op_lwu, 0b0000011, 6), (rvi op_ld, 0b0000011, 3), (rvi op_addiw, 0b0011011, 0)] else [])"

definition s_formats :: "XLEN \<Rightarrow> (OpCode \<times> uint32 \<times> uint32) list" where
  "s_formats xlen = [
      (rvi op_sb, 0b0100011, 0), (rvi op_sh, 0b0100011, 1), (rvi op_sw, 0b0100011, 2)] @
    (if xlen = XLEN64 then [
      (rvi op_sd, 0b0100011, 3)] else [])"

definition b_formats :: "(OpCode \<times> uint32 \<times> uint32) list" where
  "b_formats = [
      (rvi op_beq, 0b1100011, 0), (rvi op_bne, 0b1100011, 1), (rvi op_blt, 0b1100011, 4),
      (rvi op_bge, 0b1100011, 5), (rvi op_bltu, 0b1100011, 6), (rvi op_bgeu, 0b1100011, 7)]"

definition shift_formats :: "(OpCode \<times> uint32 \<times> uint32 \<times> uint32) list" where
  "shift_formats = [
      (rvi op_slli, 0b0010011, 1, 0), (rvi op_srli, 0b0010011, 5, 0),
      (rvi op_srai, 0b0010011, 5, 0x20)]"

definition shiftw_formats :: "(OpCode \<times> uint32 \<times> uint32 \<times> uint32) list" where
  "shiftw_formats = [
      (rvi op_slliw, 0b0011011, 1, 0), (rvi op_srliw, 0b0011011, 5, 0),
      (rvi op_sraiw, 0b0011011, 5, 0x20)]"

definition csr_formats :: "(OpCode \<times> uint32) list" where
  "csr_formats = [
      (rvi op_csrrw, 1), (rvi op_csrrs, 2), (rvi op_csrrc, 3)]"

definition csri_formats :: "(OpCode \<times> uint32) list" where
  "csri_formats = [
      (rvi op_csrrwi, 5), (rvi op_csrrsi, 6), (rvi op_csrrci, 7)]"

definition constant_formats :: "(OpCode \<times> uint32) list" where
  "constant_formats = [
      (rvi op_ecall, 0x73), (rvi op_ebreak, 0x100073), (rvi op_uret, 0x200073),
      (rvi op_sret, 0x10200073), (rvi op_wfi, 0x10500073), (rvi op_mret, 0x30200073)]"

definition class_for :: "XLEN \<Rightarrow> OpCode \<Rightarrow> OpClass" where
  "class_for xlen oc = class_of_code oc ! (if xlen = XLEN32 then 0 else 1)"

section \<open>Decoding the encodings\<close>

lemmas decode_simps = Decode_def DecodeI_def DecodeM_def DecodeA_def Let_def select_class_def class_for_def

lemma funct5_ordering [simp]: "drop_bit 2 (take_bit 2 w :: uint32) = 0" "take_bit 2 (take_bit 7 w) = take_bit 2 (w :: uint32)"
  by (rule bit_eqI; auto simp: bit_simps)+

text \<open>The fields the manual fixes beside the table: no second source of a load-reserved, no target of a fence.\<close>

definition fixed_registers :: "OpCode \<Rightarrow> int \<Rightarrow> int \<Rightarrow> bool" where
  "fixed_registers oc rd rs2 \<longleftrightarrow> (oc = rva op_lr_w \<or> oc = rva op_lr_d \<longrightarrow> rs2 = 0) \<and> (oc = rvi op_sfence_vma \<longrightarrow> rd = 0)"

lemma decode_R:
  assumes "xlen \<noteq> XLEN128" "(oc, opcode, f3, f7) \<in> set (r_formats xlen)" "fixed_registers oc rd rs2"
  shows "Decode xlen (enc_R opcode f3 (f7 OR ordering oc g7) rd rs1 rs2) =
    Inr (mk_op (class_for xlen oc) oc (DecodeOperandR (enc_R opcode f3 (f7 OR ordering oc g7) rd rs1 rs2)))"
  using assms
  by (cases xlen; simp add: r_formats_def; elim disjE;
      simp add: decode_simps enc_R_def ordering_def fixed_registers_def drop_bit_or take_bit_or)

lemma decode_Fence:
  assumes "xlen \<noteq> XLEN128"
  shows "Decode xlen (enc_Fence 0 pred succ) =
      Inr (mk_op (class_for xlen (rvi op_fence)) (rvi op_fence) (DecodeOperandFence (enc_Fence 0 pred succ)))"
    "Decode xlen (enc_Fence 1 0 0) =
      Inr (mk_op (class_for xlen (rvi op_fence_i)) (rvi op_fence_i) (DecodeOperandFence (enc_Fence 1 0 0)))"
proof -
  have "take_bit 4 (drop_bit 3 (take_bit 3 w)) = (0 :: uint32)" for w
    by (rule bit_eqI) (auto simp: bit_simps)
  then show "Decode xlen (enc_Fence 0 pred succ) =
      Inr (mk_op (class_for xlen (rvi op_fence)) (rvi op_fence) (DecodeOperandFence (enc_Fence 0 pred succ)))"
    "Decode xlen (enc_Fence 1 0 0) =
      Inr (mk_op (class_for xlen (rvi op_fence_i)) (rvi op_fence_i) (DecodeOperandFence (enc_Fence 1 0 0)))"
    using assms by (cases xlen; simp add: decode_simps enc_Fence_def)+
qed

lemma decode_I:
  assumes "xlen \<noteq> XLEN128" "(oc, opcode, f3) \<in> set (i_formats xlen)"
  shows "Decode xlen (enc_I opcode f3 imm rd rs1) =
    Inr (mk_op (class_for xlen oc) oc (DecodeOperandI (enc_I opcode f3 imm rd rs1)))"
  using assms
  by (cases xlen; simp add: i_formats_def; elim disjE; simp add: decode_simps enc_I_def)

lemma decode_S:
  assumes "xlen \<noteq> XLEN128" "(oc, opcode, f3) \<in> set (s_formats xlen)"
  shows "Decode xlen (enc_S opcode f3 imm rs1 rs2) =
    Inr (mk_op (class_for xlen oc) oc (DecodeOperandS (enc_S opcode f3 imm rs1 rs2)))"
  using assms
  by (cases xlen; simp add: s_formats_def; elim disjE; simp add: decode_simps enc_S_def)

lemma decode_B:
  assumes "xlen \<noteq> XLEN128" "(oc, opcode, f3) \<in> set b_formats"
  shows "Decode xlen (enc_B opcode f3 imm rs1 rs2) =
    Inr (mk_op (class_for xlen oc) oc (DecodeOperandB (enc_B opcode f3 imm rs1 rs2)))"
  using assms
  by (cases xlen; simp add: b_formats_def; elim disjE; simp add: decode_simps enc_B_def)

lemma decode_UJ:
  assumes "xlen \<noteq> XLEN128"
  shows "Decode xlen (enc_U 0b0110111 imm rd) =
      Inr (mk_op (class_for xlen (rvi op_lui)) (rvi op_lui) (DecodeOperandU (enc_U 0b0110111 imm rd)))"
    "Decode xlen (enc_U 0b0010111 imm rd) =
      Inr (mk_op (class_for xlen (rvi op_auipc)) (rvi op_auipc) (DecodeOperandU (enc_U 0b0010111 imm rd)))"
    "Decode xlen (enc_J 0b1101111 imm rd) =
      Inr (mk_op (class_for xlen (rvi op_jal)) (rvi op_jal) (DecodeOperandJ (enc_J 0b1101111 imm rd)))"
  using assms by (cases xlen; simp add: decode_simps enc_U_def enc_J_def)+

lemma drop_small:
  assumes "0 \<le> n" "n < 2 ^ m"
  shows "drop_bit m (of_int n :: uint32) = 0"
proof -
  have "(of_int n :: uint32) = take_bit m (of_int n)"
    using assms by (simp add: take_bit_of_int take_bit_int_eq_self)
  moreover have "drop_bit m (take_bit m (of_int n :: uint32)) = 0"
    by (rule bit_eqI) (simp add: bit_simps)
  ultimately show ?thesis by metis
qed

lemmas shamt_high = drop_small [of _ 5, simplified] drop_small [of _ 6, simplified]

lemma decode_Shift:
  assumes "(oc, opcode, f3, f7) \<in> set shift_formats" "0 \<le> shamt"
  shows "shamt < 32 \<Longrightarrow> Decode XLEN32 (enc_Shift opcode f3 f7 rd rs1 shamt) =
      Inr (mk_op RV32I oc (DecodeOperandShiftImm_32 (enc_Shift opcode f3 f7 rd rs1 shamt)))"
    "shamt < 64 \<Longrightarrow> Decode XLEN64 (enc_Shift opcode f3 f7 rd rs1 shamt) =
      Inr (mk_op RV64I oc (DecodeOperandShiftImm_64 (enc_Shift opcode f3 f7 rd rs1 shamt)))"
  using assms
  by (simp_all add: shift_formats_def; elim disjE; simp add: decode_simps enc_Shift_def shamt_high drop_bit_or)+

lemma decode_Shiftw:
  assumes "(oc, opcode, f3, f7) \<in> set shiftw_formats" "0 \<le> shamt" "shamt < 32"
  shows "Decode XLEN64 (enc_Shift opcode f3 f7 rd rs1 shamt) =
      Inr (mk_op RV64I oc (DecodeOperandShiftImm_32 (enc_Shift opcode f3 f7 rd rs1 shamt)))"
  using assms
  by (simp add: shiftw_formats_def; elim disjE; simp add: decode_simps enc_Shift_def shamt_high)

lemma decode_Csr:
  assumes "xlen \<noteq> XLEN128"
  shows "(oc, f3) \<in> set csr_formats \<Longrightarrow> Decode xlen (enc_Csr f3 rd v csr) =
      Inr (mk_op (class_for xlen oc) oc (DecodeOperandCsr (enc_Csr f3 rd v csr)))"
    "(oc, f3) \<in> set csri_formats \<Longrightarrow> Decode xlen (enc_Csr f3 rd v csr) =
      Inr (mk_op (class_for xlen oc) oc (DecodeOperandCsrImm (enc_Csr f3 rd v csr)))"
  using assms
  by (cases xlen; simp add: csr_formats_def csri_formats_def; elim disjE; simp add: decode_simps enc_Csr_def)+

section \<open>The encoder\<close>

definition encode :: "XLEN \<Rightarrow> Op \<Rightarrow> uint32 option" where
  "encode xlen op = (case operand op of
     OperandR rd rs1 rs2 _ g7 \<Rightarrow>
       map_option (\<lambda>(opcode, f3, f7). enc_R opcode f3 (f7 OR ordering (opCode op) g7) rd rs1 rs2) (map_of (r_formats xlen) (opCode op))
   | OperandI imm rd rs1 _ \<Rightarrow>
       map_option (\<lambda>(opcode, f3). enc_I opcode f3 imm rd rs1) (map_of (i_formats xlen) (opCode op))
   | OperandS imm rs1 rs2 _ \<Rightarrow>
       map_option (\<lambda>(opcode, f3). enc_S opcode f3 imm rs1 rs2) (map_of (s_formats xlen) (opCode op))
   | OperandB imm rs1 rs2 _ \<Rightarrow>
       map_option (\<lambda>(opcode, f3). enc_B opcode f3 imm rs1 rs2) (map_of b_formats (opCode op))
   | OperandU imm rd \<Rightarrow>
       map_option (\<lambda>opcode. enc_U opcode imm rd)
         (map_of [(rvi op_lui, 0b0110111), (rvi op_auipc, 0b0010111)] (opCode op))
   | OperandJ imm rd \<Rightarrow> (if opCode op = rvi op_jal then Some (enc_J 0b1101111 imm rd) else None)
   | OperandShiftImm rd rs1 shamt \<Rightarrow>
       map_option (\<lambda>(opcode, f3, f7). enc_Shift opcode f3 f7 rd rs1 shamt)
         (map_of (shift_formats @ (if xlen = XLEN64 then shiftw_formats else [])) (opCode op))
   | OperandCsr rd rs1 csr \<Rightarrow>
       map_option (\<lambda>f3. enc_Csr f3 rd (of_int rs1) csr) (map_of csr_formats (opCode op))
   | OperandCsrImm zimm rd csr \<Rightarrow>
       map_option (\<lambda>f3. enc_Csr f3 rd zimm csr) (map_of csri_formats (opCode op))
   | OperandFence pred succ \<Rightarrow>
       map_option (\<lambda>f3. enc_Fence f3 pred succ) (map_of [(rvi op_fence, 0), (rvi op_fence_i, 1)] (opCode op))
   | OperandNone \<Rightarrow> map_of constant_formats (opCode op)
   | _ \<Rightarrow> None)"

text \<open>
  The operations the encoder is for: the class of the width, registers in range, the funct fields of
  the table with all their bits, and an immediate that the format can hold.
\<close>

definition encodable :: "XLEN \<Rightarrow> Op \<Rightarrow> bool" where
  "encodable xlen op \<longleftrightarrow> opClass op = class_for xlen (opCode op) \<and> list_all reg (operand_regs (operand op)) \<and>
    (case operand op of
       OperandR rd _ rs2 g3 g7 \<Rightarrow> fixed_registers (opCode op) rd rs2 \<and> (case map_of (r_formats xlen) (opCode op) of
         Some (_, f3, f7) \<Rightarrow> g3 = uint f3 \<and> g7 = uint (f7 OR ordering (opCode op) g7) | None \<Rightarrow> False)
     | OperandI imm _ _ g3 \<Rightarrow> fits 11 imm \<and> (case map_of (i_formats xlen) (opCode op) of
         Some (_, f3) \<Rightarrow> g3 = sint (take_bit 3 f3) | None \<Rightarrow> False)
     | OperandS imm _ _ g3 \<Rightarrow> fits 11 imm \<and> (case map_of (s_formats xlen) (opCode op) of
         Some (_, f3) \<Rightarrow> g3 = sint (take_bit 3 f3) | None \<Rightarrow> False)
     | OperandB imm _ _ g3 \<Rightarrow> fits 12 imm \<and> \<not> bit imm 0 \<and> (case map_of b_formats (opCode op) of
         Some (_, f3) \<Rightarrow> g3 = sint (take_bit 3 f3) | None \<Rightarrow> False)
     | OperandU imm _ \<Rightarrow> fits 31 imm \<and> take_bit 12 imm = 0 \<and> opCode op \<in> {rvi op_lui, rvi op_auipc}
     | OperandJ imm _ \<Rightarrow> fits 20 imm \<and> \<not> bit imm 0 \<and> opCode op = rvi op_jal
     | OperandShiftImm _ _ shamt \<Rightarrow> 0 \<le> shamt \<and>
         (opCode op \<in> fst ` set shift_formats \<and> shamt < (if xlen = XLEN32 then 32 else 64) \<or>
          xlen = XLEN64 \<and> opCode op \<in> fst ` set shiftw_formats \<and> shamt < 32)
     | OperandCsr _ _ csr \<Rightarrow> csr < 4096 \<and> opCode op \<in> fst ` set csr_formats
     | OperandCsrImm zimm _ csr \<Rightarrow> zimm < 32 \<and> csr < 4096 \<and> opCode op \<in> fst ` set csri_formats
     | OperandFence pred succ \<Rightarrow> 0 \<le> pred \<and> pred < 16 \<and> 0 \<le> succ \<and> succ < 16 \<and>
         (opCode op = rvi op_fence \<or> opCode op = rvi op_fence_i \<and> pred = 0 \<and> succ = 0)
     | OperandNone \<Rightarrow> opCode op \<in> fst ` set constant_formats
     | _ \<Rightarrow> False)"

text \<open>
  What the decoder keeps of an operation: \<open>DecodeOperandR\<close> picks 5 bits for funct7, which has 7,
  so the two bits on top are lost.
\<close>

definition kept :: "Op \<Rightarrow> Op" where
  "kept op = (case operand op of
     OperandR rd rs1 rs2 g3 g7 \<Rightarrow> mk_op (opClass op) (opCode op) (OperandR rd rs1 rs2 g3 (g7 mod 32))
   | _ \<Rightarrow> op)"

lemma kept_other: "(\<And>rd rs1 rs2 g3 g7. operand op \<noteq> OperandR rd rs1 rs2 g3 g7) \<Longrightarrow> kept op = op"
  by (simp add: kept_def split: Operand.split)

lemma take_bit_12_bits: "take_bit 12 (imm :: uint64) = 0 \<Longrightarrow> \<forall>k < 12. \<not> bit imm k"
  by (metis bit_0_eq bit_take_bit_iff bot_apply bot_bool_def)

lemma op_eqI: "opClass op = c \<Longrightarrow> opCode op = oc \<Longrightarrow> operand op = od \<Longrightarrow> mk_op c oc od = op"
  by (cases op) simp

lemma decode_constant:
  assumes "xlen \<noteq> XLEN128" "(oc, w) \<in> set constant_formats"
  shows "Decode xlen w = Inr (mk_op (class_for xlen oc) oc OperandNone)"
proof -
  have "case Decode XLEN32 w of Inr op \<Rightarrow> op = mk_op RV32I oc OperandNone | Inl e \<Rightarrow> False"
    "case Decode XLEN64 w of Inr op \<Rightarrow> op = mk_op RV64I oc OperandNone | Inl e \<Rightarrow> False"
    using assms(2) by (simp_all add: constant_formats_def; elim disjE; simp; code_simp)+
  then show ?thesis
    using assms by (cases xlen) (auto simp: class_for_def constant_formats_def split: sum.splits)
qed

lemma sint_take_5: "sint (take_bit 5 w :: uint32) = uint w mod 32"
proof -
  have "uint (take_bit 5 w) = take_bit 5 (uint w)" by (simp only: unsigned_take_bit_eq)
  then have u: "uint (take_bit 5 w) = uint w mod 32" by (simp only: take_bit_eq_mod) simp
  then have "uint (take_bit 5 w) < 2 ^ 31" "- (2 ^ 31) \<le> uint (take_bit 5 w)"
    by (simp, intro order_trans [OF _ uint_ge_0]) simp
  then show ?thesis unfolding u [symmetric] by (simp add: sint_uint signed_take_bit_int_eq_self_iff)
qed

lemma r_funct3: "(oc, opcode, f3, f7) \<in> set (r_formats xlen) \<Longrightarrow> sint (take_bit 3 f3) = uint f3"
  by (auto simp: r_formats_def split: if_splits)

lemma decode_encode_R:
  assumes "xlen \<noteq> XLEN128" "encodable xlen op" "operand op = OperandR rd rs1 rs2 g3 g7"
  shows "\<exists>w. encode xlen op = Some w \<and> Decode xlen w = Inr (kept op)"
proof -
  obtain opcode f3 f7 where m: "map_of (r_formats xlen) (opCode op) = Some (opcode, f3, f7)"
    and g: "g3 = uint f3" "uint (f7 OR ordering (opCode op) g7) = g7" "fixed_registers (opCode op) rd rs2"
    using assms(2,3) by (auto simp: encodable_def split: option.splits)
  have "sint (take_bit 5 (f7 OR ordering (opCode op) g7)) = g7 mod 32" by (simp only: sint_take_5 g(2))
  with decode_R [OF assms(1) map_of_SomeD [OF m] g(3), of g7] assms(2,3) m g(1) show ?thesis
    by (auto simp: encode_def encodable_def kept_def operand_R r_funct3 [OF map_of_SomeD [OF m]] simp del: take_bit_or)
qed

lemma decode_encode_Fence:
  assumes "xlen \<noteq> XLEN128" "encodable xlen op" "operand op = OperandFence pred succ"
  shows "\<exists>w. encode xlen op = Some w \<and> Decode xlen w = Inr op"
proof -
  have r: "0 \<le> pred" "pred < 16" "0 \<le> succ" "succ < 16" and c: "opClass op = class_for xlen (opCode op)"
    "opCode op = rvi op_fence \<or> opCode op = rvi op_fence_i \<and> pred = 0 \<and> succ = 0"
    using assms(2,3) by (auto simp: encodable_def)
  obtain f3 where f: "map_of [(rvi op_fence, 0), (rvi op_fence_i, 1)] (opCode op) = Some f3"
    "Decode xlen (enc_Fence f3 pred succ) =
      Inr (mk_op (class_for xlen (opCode op)) (opCode op) (DecodeOperandFence (enc_Fence f3 pred succ)))"
    using c(2) decode_Fence [OF assms(1)] by auto
  then show ?thesis
    by (simp add: encode_def assms(3) operand_Fence [OF r] op_eqI [OF c(1) refl assms(3)])
qed

lemma decode_encode_I:
  assumes "xlen \<noteq> XLEN128" "encodable xlen op" "operand op = OperandI imm rd rs1 g3"
  shows "\<exists>w. encode xlen op = Some w \<and> Decode xlen w = Inr op"
proof -
  obtain opcode f3 where m: "map_of (i_formats xlen) (opCode op) = Some (opcode, f3)"
    using assms(2,3) by (auto simp: encodable_def split: option.splits)
  from decode_I [OF assms(1) map_of_SomeD [OF m]] assms(2,3) m show ?thesis
    by (auto simp: encode_def encodable_def operand_I intro!: op_eqI)
qed

lemma decode_encode_S:
  assumes "xlen \<noteq> XLEN128" "encodable xlen op" "operand op = OperandS imm rs1 rs2 g3"
  shows "\<exists>w. encode xlen op = Some w \<and> Decode xlen w = Inr op"
proof -
  obtain opcode f3 where m: "map_of (s_formats xlen) (opCode op) = Some (opcode, f3)"
    using assms(2,3) by (auto simp: encodable_def split: option.splits)
  from decode_S [OF assms(1) map_of_SomeD [OF m]] assms(2,3) m show ?thesis
    by (auto simp: encode_def encodable_def operand_S intro!: op_eqI)
qed

lemma decode_encode_B:
  assumes "xlen \<noteq> XLEN128" "encodable xlen op" "operand op = OperandB imm rs1 rs2 g3"
  shows "\<exists>w. encode xlen op = Some w \<and> Decode xlen w = Inr op"
proof -
  obtain opcode f3 where m: "map_of b_formats (opCode op) = Some (opcode, f3)"
    using assms(2,3) by (auto simp: encodable_def split: option.splits)
  from decode_B [OF assms(1) map_of_SomeD [OF m]] assms(2,3) m show ?thesis
    by (auto simp: encode_def encodable_def operand_B intro!: op_eqI)
qed

lemma decode_encode_UJ:
  assumes "xlen \<noteq> XLEN128" "encodable xlen op" "operand op = OperandU imm rd \<or> operand op = OperandJ imm rd"
  shows "\<exists>w. encode xlen op = Some w \<and> Decode xlen w = Inr op"
  using assms
  by (auto simp: encode_def encodable_def decode_UJ operand_U operand_J take_bit_12_bits intro!: op_eqI)

lemma decode_encode_Shift:
  assumes "xlen \<noteq> XLEN128" "encodable xlen op" "operand op = OperandShiftImm rd rs1 shamt"
  shows "\<exists>w. encode xlen op = Some w \<and> Decode xlen w = Inr op"
proof -
  obtain opcode f3 f7 where r: "(opCode op, opcode, f3, f7) \<in> set (shift_formats @ (if xlen = XLEN64 then shiftw_formats else []))"
    using assms(2,3) by (force simp: encodable_def)
  have f: "\<not> bit f7 0" and d: "distinct (map fst (shift_formats @ (if xlen = XLEN64 then shiftw_formats else [])))"
    and s: "opCode op \<in> fst ` set shift_formats \<Longrightarrow> (opCode op, opcode, f3, f7) \<in> set shift_formats"
      "opCode op \<in> fst ` set shiftw_formats \<Longrightarrow> (opCode op, opcode, f3, f7) \<in> set shiftw_formats"
    using r by (auto simp: shift_formats_def shiftw_formats_def split: if_splits)
  have "encode xlen op = Some (enc_Shift opcode f3 f7 rd rs1 shamt)"
    using map_of_is_SomeI [OF d r] assms(3) by (simp add: encode_def)
  moreover have "Decode xlen (enc_Shift opcode f3 f7 rd rs1 shamt) = Inr op"
    using assms f s r
    by (cases xlen)
      (auto simp: encodable_def decode_Shift decode_Shiftw operand_Shift class_for_def shift_formats_def shiftw_formats_def
        intro!: op_eqI)
  ultimately show ?thesis by blast
qed

lemma decode_encode_Csr:
  assumes "xlen \<noteq> XLEN128" "encodable xlen op" "operand op = OperandCsr rd rs1 csr \<or> operand op = OperandCsrImm zimm rd csr"
  shows "\<exists>w. encode xlen op = Some w \<and> Decode xlen w = Inr op"
proof -
  have d: "distinct (map fst csr_formats)" "distinct (map fst csri_formats)"
    by (simp_all add: csr_formats_def csri_formats_def)
  show ?thesis
    using assms decode_Csr [OF assms(1)]
    by (auto simp: encode_def encodable_def operand_Csr map_of_is_SomeI [OF d(1)] map_of_is_SomeI [OF d(2)] intro!: op_eqI)
qed

lemma decode_encode_None:
  assumes "xlen \<noteq> XLEN128" "encodable xlen op" "operand op = OperandNone"
  shows "\<exists>w. encode xlen op = Some w \<and> Decode xlen w = Inr op"
proof -
  have d: "distinct (map fst constant_formats)" by (simp add: constant_formats_def)
  obtain w where w: "(opCode op, w) \<in> set constant_formats"
    using assms(2,3) by (auto simp: encodable_def)
  then show ?thesis
    using assms decode_constant [OF assms(1) w]
    by (auto simp: encode_def encodable_def map_of_is_SomeI [OF d] intro!: op_eqI)
qed

section \<open>Property\<close>

text \<open>
  C3. Decoding inverts the encoding of the manual: every instruction of RV32I, RV64I, M and A - system
  instructions, CSR accesses and fences included, these without the fm field - with any registers, any ordering bits and any
  immediate its format can hold, is encoded to a word that decodes to it: the same code and class,
  registers, immediate, shift amount, CSR, fence sets and funct3. Of funct7 the decoder keeps the low
  five bits of seven.
\<close>

theorem decode_encode:
  assumes "xlen \<noteq> XLEN128" "encodable xlen op"
  shows "\<exists>w. encode xlen op = Some w \<and> Decode xlen w = Inr (kept op)"
proof (cases "operand op")
  case OperandR then show ?thesis by (rule decode_encode_R [OF assms])
next
  case OperandI then show ?thesis by (simp add: kept_other decode_encode_I [OF assms])
next
  case OperandS then show ?thesis by (simp add: kept_other decode_encode_S [OF assms])
next
  case OperandB then show ?thesis by (simp add: kept_other decode_encode_B [OF assms])
next
  case OperandU then show ?thesis using decode_encode_UJ [OF assms] by (simp add: kept_other)
next
  case OperandJ then show ?thesis using decode_encode_UJ [OF assms] by (simp add: kept_other)
next
  case OperandShiftImm then show ?thesis by (simp add: kept_other decode_encode_Shift [OF assms])
next
  case OperandCsr then show ?thesis using decode_encode_Csr [OF assms] by (simp add: kept_other)
next
  case OperandCsrImm then show ?thesis using decode_encode_Csr [OF assms] by (simp add: kept_other)
next
  case OperandFence then show ?thesis by (simp add: kept_other decode_encode_Fence [OF assms])
next
  case OperandNone then show ?thesis by (simp add: kept_other decode_encode_None [OF assms])
qed (use assms(2) in \<open>simp_all add: encodable_def\<close>)

lemma decode_encode_witness:
  "(\<exists>w. encode XLEN64 (mk_op RV64I (rvi op_beq) (OperandB (- 8) 10 11 0)) = Some w \<and>
    Decode XLEN64 w = Inr (mk_op RV64I (rvi op_beq) (OperandB (- 8) 10 11 0))) \<and>
   (\<exists>w. encode XLEN64 (mk_op RV64A (rva op_amomaxu_d) (OperandR 10 11 12 3 0x73)) = Some w \<and>
    Decode XLEN64 w = Inr (mk_op RV64A (rva op_amomaxu_d) (OperandR 10 11 12 3 0x13)))"
proof -
  have "encodable XLEN64 (mk_op RV64I (rvi op_beq) (OperandB (- 8) 10 11 0))"
    "encodable XLEN64 (mk_op RV64A (rva op_amomaxu_d) (OperandR 10 11 12 3 0x73))" by code_simp+
  from this [THEN decode_encode [rotated]] show ?thesis by (simp add: kept_def)
qed

end
