(* ===== verification/ExecutorLaws.thy ===== *)
theory ExecutorLaws
  imports DecoderLaws Run
begin

text \<open>
  What the integer instructions of the executor compute, against reference functions on the integers
  that the registers stand for. The reference reads both operands through \<open>sint\<close> or \<open>uint\<close>,
  calculates without bounds and wraps once at the end.
\<close>

section \<open>Accesses to registers that exist\<close>

definition x_reg :: "System \<Rightarrow> int \<Rightarrow> uint64" where
  "x_reg sys r = m_IntEntries (sys_IntRegFile sys) r"

lemma reads_ok:
  assumes "reg r"
  shows "int_ReadInt64 sys r = Inr (x_reg sys r)" "int_ReadUInt64 sys r = Inr (x_reg sys r)"
    "int_ReadInt32 sys r = Inr (entry_u32 (x_reg sys r))" "int_ReadUInt32 sys r = Inr (entry_u32 (x_reg sys r))"
  using assms by (simp_all add: int_ReadInt64_def int_ReadUInt64_def int_ReadInt32_def int_ReadUInt32_def
      IntRegFile_read_defs x_reg_def)

lemma write_x0: "int_WriteInt64 0 v sys = Inr sys" "int_WriteUInt64 0 v sys = Inr sys"
  by (simp_all add: int_WriteInt64_def int_WriteUInt64_def with_IntRegFile_def IntRegFile_write_defs)

lemma write_signs: "int_WriteUInt64 r v sys = int_WriteInt64 r v sys"
  by (simp add: int_WriteInt64_def int_WriteUInt64_def IntRegFile_write_defs)

lemma x0_read: "x0_zero (sys_IntRegFile sys) \<Longrightarrow> x_reg sys 0 = 0"
  by (simp add: x0_zero_def x_reg_def)

lemma reg_small: "reg 0" "reg 1" "reg 2"
  by simp_all

section \<open>Multiplication and division: reference\<close>

definition ref_div :: "int \<Rightarrow> int \<Rightarrow> int" where
  "ref_div a b = (if b = 0 then - 1 else trunc_div a b)"

definition ref_rem :: "int \<Rightarrow> int \<Rightarrow> int" where
  "ref_rem a b = (if b = 0 then a else trunc_mod a b)"

definition ref_mul_div :: "OpCodeM \<Rightarrow> 'a::len word \<Rightarrow> 'a word \<Rightarrow> 'a word" where
  "ref_mul_div code a b = word_of_int (case code of
     op_mul \<Rightarrow> sint a * sint b
   | op_mulh \<Rightarrow> (sint a * sint b) div 2 ^ LENGTH('a)
   | op_mulhsu \<Rightarrow> (sint a * uint b) div 2 ^ LENGTH('a)
   | op_mulhu \<Rightarrow> (uint a * uint b) div 2 ^ LENGTH('a)
   | op_div \<Rightarrow> ref_div (sint a) (sint b)
   | op_divu \<Rightarrow> ref_div (uint a) (uint b)
   | op_rem \<Rightarrow> ref_rem (sint a) (sint b)
   | op_remu \<Rightarrow> ref_rem (uint a) (uint b)
   | _ \<Rightarrow> 0)"


section \<open>Machine arithmetic against the reference\<close>

lemma div_32: "k div 2 ^ LENGTH(32) = drop_bit 32 k" for k :: int
  by (simp add: drop_bit_eq_div)

lemma high_half_unsigned:
  "ucast (drop_bit 32 (word_of_int k :: uint64)) = (word_of_int (k div 2 ^ LENGTH(32)) :: uint32)"
  unfolding div_32 by (rule bit_eqI) (simp add: bit_simps)

lemma high_half_signed:
  "ucast (signed_drop_bit 32 (word_of_int k :: uint64)) = (word_of_int (k div 2 ^ LENGTH(32)) :: uint32)"
  unfolding div_32 by (rule bit_eqI) (auto simp: bit_simps)

lemma product_of_int:
  "(scast a :: uint64) * scast b = word_of_int (sint a * sint b)"
  "(scast a :: uint64) * ucast b = word_of_int (sint a * uint b)"
  "(ucast a :: uint64) * ucast b = word_of_int (uint a * uint b)"
  for a b :: uint32
  by (simp_all add: wi_hom_syms)

lemma trunc_div_nonneg: "0 \<le> a \<Longrightarrow> 0 \<le> b \<Longrightarrow> trunc_div a b = a div b"
  by (cases "a = 0"; cases "b = 0") (auto simp: trunc_div_def)

lemma trunc_mod_nonneg: "0 \<le> a \<Longrightarrow> 0 \<le> b \<Longrightarrow> trunc_mod a b = a mod b"
  by (simp add: trunc_mod_def trunc_div_nonneg minus_div_mult_eq_mod)

lemma trunc_div_max:
  assumes "b \<noteq> 0" "- m \<le> a" "a < m" "trunc_div a b = m"
  shows "a = - m \<and> b = - 1"
proof -
  have m: "0 < m" using assms by simp
  with assms(4) have ab: "a \<noteq> 0" by (auto simp: trunc_div_def)
  have s: "sgn a * sgn b \<in> {1, - 1}" using ab assms(1) by (auto simp: sgn_if)
  have nonneg: "0 \<le> \<bar>a\<bar> div \<bar>b\<bar>" by (simp add: pos_imp_zdiv_nonneg_iff assms(1))
  then have q: "sgn a * sgn b = 1" "\<bar>a\<bar> div \<bar>b\<bar> = m"
    using s assms(4) m by (auto simp: trunc_div_def)
  have "\<bar>b\<bar> = 1"
  proof (rule ccontr)
    assume "\<bar>b\<bar> \<noteq> 1"
    then have "\<bar>a\<bar> div \<bar>b\<bar> < \<bar>a\<bar>" using ab assms(1) by (intro int_div_less_self) auto
    then show False using q assms(2,3) by auto
  qed
  then show ?thesis using q assms by (auto simp: sgn_if abs_if split: if_splits)
qed

lemma sint_minus_1_iff: "sint b = - 1 \<longleftrightarrow> b = - 1"
  by (metis signed_word_eqI sint_n1)

lemma sdiv_w_ref:
  fixes a b :: "'a::len word"
  assumes "b \<noteq> 0" "\<not> (sint a = - (2 ^ (LENGTH('a) - 1)) \<and> b = - 1)"
  shows "sdiv_w a b = Inr (word_of_int (trunc_div (sint a) (sint b)))"
    "smod_w a b = Inr (word_of_int (trunc_mod (sint a) (sint b)))"
proof -
  have "sint b \<noteq> 0" using assms(1) by (metis signed_word_eqI sint_0)
  from trunc_div_max [OF this sint_ge sint_lt, of a] assms(2)
  have "trunc_div (sint a) (sint b) \<noteq> 2 ^ (LENGTH('a) - 1)" by (auto simp: sint_minus_1_iff)
  with assms show "sdiv_w a b = Inr (word_of_int (trunc_div (sint a) (sint b)))"
    "smod_w a b = Inr (word_of_int (trunc_mod (sint a) (sint b)))"
    by (simp_all add: sdiv_w_def smod_w_def)
qed

lemma udiv_w_ref:
  fixes a b :: "'a::len word"
  assumes "b \<noteq> 0"
  shows "udiv_w a b = Inr (word_of_int (trunc_div (uint a) (uint b)))"
    "umod_w a b = Inr (word_of_int (trunc_mod (uint a) (uint b)))"
  using assms by (simp_all add: udiv_w_def umod_w_def trunc_div_nonneg trunc_mod_nonneg word_div_def word_mod_def)

lemma trunc_div_minus_1: "trunc_div a (- 1) = - a" "trunc_mod a (- 1) = 0"
  by (auto simp: trunc_div_def trunc_mod_def sgn_if)

lemma minus_least:
  fixes m :: "'a::len word"
  assumes "sint m = - (2 ^ (LENGTH('a) - 1))"
  shows "- m = m"
proof -
  have "m + m = word_of_int (sint m + sint m)" by (simp add: wi_hom_syms)
  also have "sint m + sint m = - (2 ^ LENGTH('a))"
    by (simp add: assms flip: power_Suc mult_2)
  also have "(word_of_int (- (2 ^ LENGTH('a))) :: 'a word) = 0" by simp
  finally show ?thesis by (simp add: minus_equation_iff eq_neg_iff_add_eq_0)
qed

text \<open>
  The guards of the source, for a divisor of zero and for the quotient that does not fit, give what
  the reference gives by its own case for zero and by wrapping.
\<close>

lemma signed_division:
  fixes a b m :: "'a::len word"
  assumes m: "sint m = - (2 ^ (LENGTH('a) - 1))"
  shows "(if a = m \<and> b = - 1 then Inr m else if b = 0 then Inr (- 1) else sdiv_w a b) =
      Inr (word_of_int (ref_div (sint a) (sint b)))"
    "(if a = m \<and> b = - 1 then Inr 0 else if b = 0 then Inr a else smod_w a b) =
      Inr (word_of_int (ref_rem (sint a) (sint b)))"
proof -
  have mi: "sint a = - (2 ^ (LENGTH('a) - 1)) \<longleftrightarrow> a = m" by (metis m signed_word_eqI)
  have z: "sint b = 0 \<longleftrightarrow> b = 0" by (metis signed_word_eqI sint_0)
  consider "a = m" "b = - 1" | "b = 0" | "b \<noteq> 0" "\<not> (a = m \<and> b = - 1)" by blast
  note cases = this
  show "(if a = m \<and> b = - 1 then Inr m else if b = 0 then Inr (- 1) else sdiv_w a b) =
      Inr (word_of_int (ref_div (sint a) (sint b)))"
    by (rule cases) (simp_all add: ref_div_def z trunc_div_minus_1 minus_least [OF m] sdiv_w_ref [of b a, unfolded mi])
  show "(if a = m \<and> b = - 1 then Inr 0 else if b = 0 then Inr a else smod_w a b) =
      Inr (word_of_int (ref_rem (sint a) (sint b)))"
    by (rule cases) (simp_all add: ref_rem_def z trunc_div_minus_1 sdiv_w_ref [of b a, unfolded mi])
qed

lemma unsigned_division:
  "(if b = 0 then Inr (- 1) else udiv_w a b) = Inr (word_of_int (ref_div (uint a) (uint b)))"
  "(if b = 0 then Inr a else umod_w a b) = Inr (word_of_int (ref_rem (uint a) (uint b)))"
  by (auto simp: ref_div_def ref_rem_def udiv_w_ref uint_0_iff)

lemma least_word:
  "sint (0x80000000 :: uint32) = - (2 ^ (LENGTH(32) - 1))" "sint (0x8000000000000000 :: uint64) = - (2 ^ (LENGTH(64) - 1))"
  by simp_all

lemmas division_32 = signed_division [OF least_word(1)] unsigned_division [where 'a = 32]
lemmas division_64 = signed_division [OF least_word(2)] unsigned_division [where 'a = 64]

section \<open>RV32M\<close>

definition RV32M_codes :: "OpCodeM list" where
  "RV32M_codes = [op_mul, op_mulh, op_mulhsu, op_mulhu, op_div, op_divu, op_rem, op_remu]"

lemma ReadInt_eq:
  "int_ReadUInt32 sys r = int_ReadInt32 sys r" "int_ReadUInt64 sys r = int_ReadInt64 sys r"
  "int_ReadInt32 (atomic_Cancel sys) r = int_ReadInt32 sys r"
  "int_ReadInt64 (atomic_Cancel sys) r = int_ReadInt64 sys r"
  by (simp_all add: int_ReadUInt32_def int_ReadInt32_def int_ReadUInt64_def int_ReadInt64_def
      IntRegFile_read_defs atomic_Cancel_def)

lemma low_product: "word_of_int (sint a * sint b) = a * b"
  by (simp add: wi_hom_syms)

lemma ref_division_law:
  assumes "b \<noteq> 0"
  shows "ref_div a b * b + ref_rem a b = a" "\<bar>ref_rem a b\<bar> < \<bar>b\<bar>" "0 \<le> sgn a * ref_rem a b"
proof -
  have "0 \<le> \<bar>a\<bar> mod \<bar>b\<bar>" using assms by simp
  then show "0 \<le> sgn a * ref_rem a b" using assms by (simp add: ref_rem_def trunc_mod_eq sgn_if)
  show "ref_div a b * b + ref_rem a b = a" "\<bar>ref_rem a b\<bar> < \<bar>b\<bar>"
    using assms by (simp_all add: ref_div_def ref_rem_def trunc_div_mod trunc_mod_abs)
qed

definition registers_67 :: "uint64 \<Rightarrow> uint64 \<Rightarrow> System" where
  "registers_67 a b = sample_machine\<lparr> sys_IntRegFile := \<lparr> m_IntEntries = (\<lambda>_. 0)(6 := a, 7 := b) \<rparr> \<rparr>"

lemma registers_67_read:
  "int_ReadInt32 (registers_67 a b) 6 = Inr (ucast a)" "int_ReadInt32 (registers_67 a b) 7 = Inr (ucast b)"
  "int_ReadInt64 (registers_67 a b) 6 = Inr a" "int_ReadInt64 (registers_67 a b) 7 = Inr b"
  by (simp_all add: registers_67_def int_ReadInt32_def int_ReadInt64_def IntRegFile_read_defs entry_u32_def)

text \<open>
  RV32M is arithmetic on the integers: for any two register values the instruction cancels the
  reservation and writes the exact product, its high half, or the quotient or remainder of the
  division that truncates towards zero, wrapped to 32 bits; a divisor of zero gives -1 and the
  dividend, and the quotient that does not fit wraps. No operand values lead to undefined behaviour.
\<close>

theorem rv32m_reference:
  assumes "operand op = OperandR rd rs1 rs2 f3 f7" "opCode op = rvm code" "code \<in> set RV32M_codes"
    "int_ReadInt32 sys rs1 = Inr a" "int_ReadInt32 sys rs2 = Inr b"
  shows "ProcessRV32M op sys = int_WriteInt32 rd (ref_mul_div code a b) (atomic_Cancel sys)"
  using assms(3) unfolding RV32M_codes_def list.set
  by (elim insertE emptyE)
    (simp_all only: ProcessRV32M_def assms(1,2,4,5) ReadInt_eq Let_def ref_mul_div_def division_32 get_simps rbind_simps
      product_of_int high_half_signed high_half_unsigned OpCode.case OpCodeM.case prod.case low_product)

lemma rv32m_reference_witness:
  "ProcessRV32M (mk_op RV32M (rvm op_rem) (OperandR 5 6 7 6 1)) (registers_67 0xfffffff6 3) =
    int_WriteInt32 5 (- 1) (atomic_Cancel (registers_67 0xfffffff6 3))"
  using rv32m_reference [of "mk_op RV32M (rvm op_rem) (OperandR 5 6 7 6 1)" 5 6 7 6 1 op_rem
      "registers_67 0xfffffff6 3" "- 10" 3]
  by (simp add: RV32M_codes_def registers_67_read ref_mul_div_def ref_rem_def trunc_mod_eq)

section \<open>RV64M\<close>

text \<open>
  The high halves of the 128-bit products come from Boost.Multiprecision; \<open>host_products\<close> says that
  they are those of the exact product.
\<close>

definition host_products :: "host \<Rightarrow> bool" where
  "host_products h \<longleftrightarrow> (\<forall>a b. host_mulh h a b = ref_mul_div op_mulh a b \<and>
     host_mulhsu h a b = ref_mul_div op_mulhsu a b \<and> host_mulhu h a b = ref_mul_div op_mulhu a b)"

definition word_code :: "OpCodeM \<Rightarrow> OpCodeM" where
  "word_code code = (case code of op_mulw \<Rightarrow> op_mul | op_divw \<Rightarrow> op_div | op_divuw \<Rightarrow> op_divu
     | op_remw \<Rightarrow> op_rem | op_remuw \<Rightarrow> op_remu | _ \<Rightarrow> code)"

definition ref_mul_div_64 :: "OpCodeM \<Rightarrow> uint64 \<Rightarrow> uint64 \<Rightarrow> uint64" where
  "ref_mul_div_64 code a b =
     (if code \<in> set RV32M_codes then ref_mul_div code a b
      else scast (ref_mul_div (word_code code) (ucast a :: uint32) (ucast b)))"

lemmas SignExtend_32 =
  SignExtend_scast [where 'b = 32 and 'a = 64, simplified] SignExtend_ucast [where 'b = 32 and 'a = 64, simplified]

lemma SignExtend_64: "SignExtend 64 v = v" for v :: uint64
proof (rule bit_eqI)
  fix n assume "possible_bit TYPE(uint64) n"
  then have "n < 63 \<or> n = 63" by auto
  then show "bit (SignExtend 64 v) n = bit v n" by (auto simp: bit_SignExtend)
qed

lemma ucast_32_eq: "((ucast x :: uint64) = ucast y) = (x = y)" for x y :: uint32
proof
  assume "(ucast x :: uint64) = ucast y"
  then have "uint (ucast x :: uint64) = uint (ucast y :: uint64)" by simp
  then show "x = y" by (simp add: uint_up_ucast is_up word_uint_eq_iff)
qed simp

lemma least_64: "push_bit 63 (1 :: uint64) = 0x8000000000000000"
  by simp

lemma least_32:
  "(ucast (a :: uint32) = push_bit 31 (1 :: uint64)) = (a = 0x80000000)"
  "SignExtend 32 (push_bit 31 (1 :: uint64)) = scast (0x80000000 :: uint32)"
proof -
  have "push_bit 31 (1 :: uint64) = ucast (0x80000000 :: uint32)" by simp
  then show "(ucast a = push_bit 31 (1 :: uint64)) = (a = 0x80000000)"
    "SignExtend 32 (push_bit 31 (1 :: uint64)) = scast (0x80000000 :: uint32)"
    by (simp_all only: SignExtend_32 ucast_32_eq)
qed

text \<open>The forms the word instructions have: an operation on the low halves, extended by sign.\<close>

lemma extended_result:
  "(if P then Inr (scast x) else if Q then Inr (- 1) else rbind m (\<lambda>q. Inr (scast q))) =
    rbind (if P then Inr x else if Q then Inr (- 1) else m) (\<lambda>q. Inr (scast q))"
  "(if P then Inr 0 else rbind m (\<lambda>q. Inr (scast q))) = rbind (if P then Inr 0 else m) (\<lambda>q. Inr (scast q))"
  "(if Q then Inr (- 1) else rbind m (\<lambda>q. Inr (scast q))) =
    rbind (if Q then Inr (- 1) else m) (\<lambda>q. Inr (scast q))"
  "(if Q then Inr (scast y) else rbind m (\<lambda>q. Inr (scast q))) =
    rbind (if Q then Inr y else m) (\<lambda>q. Inr (scast q))"
  for x y :: uint32 and m :: "uint32 result"
  by simp_all

definition RV64M_codes :: "OpCodeM list" where
  "RV64M_codes = RV32M_codes @ [op_mulw, op_divw, op_divuw, op_remw, op_remuw]"

text \<open>The case of \<open>divw\<close> in which the guard for zero looks at the wrong width.\<close>

definition divw_unguarded :: "OpCodeM \<Rightarrow> uint64 \<Rightarrow> bool" where
  "divw_unguarded code b \<longleftrightarrow> code = op_divw \<and> b \<noteq> 0 \<and> ucast b = (0 :: uint32)"

lemma divw_value:
  assumes "\<not> divw_unguarded op_divw b"
  shows "(if (a :: uint32) = 0x80000000 \<and> ucast b = (- 1 :: uint32) then Inr 0x80000000
     else if b = 0 then Inr (- 1) else sdiv_w a (ucast b)) =
     Inr (word_of_int (ref_div (sint a) (sint (ucast b :: uint32))))"
proof -
  have "(b = 0) = (ucast b = (0 :: uint32))" using assms by (auto simp: divw_unguarded_def)
  then show ?thesis by (simp only: division_32)
qed

lemma int_ReadInt32_of_64: "int_ReadInt64 sys r = Inr a \<Longrightarrow> int_ReadInt32 sys r = Inr (ucast a)"
  by (auto simp: int_ReadInt32_def int_ReadInt64_def IntRegFile_read_defs entry_u32_def split: if_splits)

lemma ref_mul_div_64_eval:
  "ref_mul_div_64 op_mul a b = ref_mul_div op_mul a b"
  "ref_mul_div_64 op_mulh a b = ref_mul_div op_mulh a b"
  "ref_mul_div_64 op_mulhsu a b = ref_mul_div op_mulhsu a b"
  "ref_mul_div_64 op_mulhu a b = ref_mul_div op_mulhu a b"
  "ref_mul_div_64 op_div a b = ref_mul_div op_div a b"
  "ref_mul_div_64 op_divu a b = ref_mul_div op_divu a b"
  "ref_mul_div_64 op_rem a b = ref_mul_div op_rem a b"
  "ref_mul_div_64 op_remu a b = ref_mul_div op_remu a b"
  "ref_mul_div_64 op_mulw a b = scast (ref_mul_div op_mul (ucast a :: uint32) (ucast b))"
  "ref_mul_div_64 op_divw a b = scast (ref_mul_div op_div (ucast a :: uint32) (ucast b))"
  "ref_mul_div_64 op_divuw a b = scast (ref_mul_div op_divu (ucast a :: uint32) (ucast b))"
  "ref_mul_div_64 op_remw a b = scast (ref_mul_div op_rem (ucast a :: uint32) (ucast b))"
  "ref_mul_div_64 op_remuw a b = scast (ref_mul_div op_remu (ucast a :: uint32) (ucast b))"
  by (simp_all add: ref_mul_div_64_def RV32M_codes_def word_code_def)

text \<open>
  C13. RV64M is arithmetic on the integers: with the exact high products of the library, an instruction
  writes the exact result wrapped to 64 bits, and a word instruction the result for the low halves,
  wrapped to 32 bits and extended by sign. The one exception is divw with a divisor that is not zero
  but has a low half of zero: its guard compares all 64 bits, and the division by zero is undefined.
\<close>

theorem rv64m_reference:
  assumes "operand op = OperandR rd rs1 rs2 f3 f7" "opCode op = rvm code" "code \<in> set RV64M_codes"
    "int_ReadInt64 sys rs1 = Inr a" "int_ReadInt64 sys rs2 = Inr b" "host_products h"
  shows "ProcessRV64M h op sys =
    (if divw_unguarded code b then Inl Undefined
     else int_WriteInt64 rd (ref_mul_div_64 code a b) (atomic_Cancel sys))"
proof (cases "divw_unguarded code b")
  case True
  then show ?thesis
    by (simp add: ProcessRV64M_def assms ReadInt_eq int_ReadInt32_of_64 divw_unguarded_def sdiv_w_def)
next
  case False
  note r = assms(4,5) [THEN int_ReadInt32_of_64]
  have h: "host_mulh h a b = ref_mul_div op_mulh a b" "host_mulhsu h a b = ref_mul_div op_mulhsu a b"
    "host_mulhu h a b = ref_mul_div op_mulhu a b" using assms(6) by (simp_all add: host_products_def)
  have "ProcessRV64M h op sys = int_WriteInt64 rd (ref_mul_div_64 code a b) (atomic_Cancel sys)"
    using assms(3) False unfolding RV64M_codes_def RV32M_codes_def append.simps list.set
    by (elim insertE emptyE)
      (simp_all only: ProcessRV64M_def assms(1,2,4,5) r ReadInt_eq Let_def h ref_mul_div_64_eval get_simps rbind_simps
        OpCode.case OpCodeM.case prod.case least_64 least_32 SignExtend_32 divw_value extended_result
        division_64 division_32 ref_mul_div_def low_product not_False_eq_True)
  with False show ?thesis by simp
qed

definition exact_host :: "host \<Rightarrow> host" where
  "exact_host h = h\<lparr> host_mulh := ref_mul_div op_mulh, host_mulhsu := ref_mul_div op_mulhsu,
     host_mulhu := ref_mul_div op_mulhu \<rparr>"

lemma rv64m_reference_witness:
  "\<forall>h. ProcessRV64M (exact_host h) (mk_op RV64M (rvm op_divw) (OperandR 5 6 7 4 1))
      (registers_67 0x80000000 0xffffffffffffffff) =
      int_WriteInt64 5 (- 0x80000000) (atomic_Cancel (registers_67 0x80000000 0xffffffffffffffff)) \<and>
    ProcessRV64M (exact_host h) (mk_op RV64M (rvm op_divw) (OperandR 5 6 7 4 1))
      (registers_67 7 0x100000000) = Inl Undefined"
proof
  fix h
  have "host_products (exact_host h)" by (simp add: host_products_def exact_host_def)
  then show "ProcessRV64M (exact_host h) (mk_op RV64M (rvm op_divw) (OperandR 5 6 7 4 1))
      (registers_67 0x80000000 0xffffffffffffffff) =
      int_WriteInt64 5 (- 0x80000000) (atomic_Cancel (registers_67 0x80000000 0xffffffffffffffff)) \<and>
    ProcessRV64M (exact_host h) (mk_op RV64M (rvm op_divw) (OperandR 5 6 7 4 1))
      (registers_67 7 0x100000000) = Inl Undefined"
    using rv64m_reference [of "mk_op RV64M (rvm op_divw) (OperandR 5 6 7 4 1)" 5 6 7 4 1 op_divw
        "registers_67 0x80000000 0xffffffffffffffff" "0x80000000" "0xffffffffffffffff" "exact_host h"]
      rv64m_reference [of "mk_op RV64M (rvm op_divw) (OperandR 5 6 7 4 1)" 5 6 7 4 1 op_divw
        "registers_67 7 0x100000000" 7 "0x100000000" "exact_host h"]
    by (simp add: RV64M_codes_def registers_67_read divw_unguarded_def ref_mul_div_64_eval
        ref_mul_div_def ref_div_def trunc_div_def)
qed

end
