(* ===== verification/CompressedLaws.thy ===== *)
theory CompressedLaws
  imports ExecutorLaws
begin

text \<open>
  The manual defines each compressed instruction by its expansion. Here the executor's own methods for
  RV64C are compared with its methods for the expansions, up to the reservation: the two cancel it at
  different places. The floating-point loads and stores of C differ (they leave the FS field alone), and
  so does c.ebreak, which the decoder yields and the executor has no case for.
\<close>

section \<open>Expansion\<close>

definition expand_compressed :: "Op \<Rightarrow> Op option" where
  "expand_compressed op = (case (opCode op, operand op) of
     (rvc op_c_nop, _) \<Rightarrow> Some (mk_op RV64I (rvi op_addi) (OperandI 0 0 0 0))
   | (rvc op_c_mv, OperandCR rd rs1 rs2) \<Rightarrow> Some (mk_op RV64I (rvi op_add) (OperandR rd 0 rs2 0 0))
   | (rvc op_c_add, OperandCR rd rs1 rs2) \<Rightarrow> Some (mk_op RV64I (rvi op_add) (OperandR rd rs1 rs2 0 0))
   | (rvc op_c_addw, OperandCR rd rs1 rs2) \<Rightarrow> Some (mk_op RV64I (rvi op_addw) (OperandR rd rs1 rs2 0 0))
   | (rvc op_c_sub, OperandCR rd rs1 rs2) \<Rightarrow> Some (mk_op RV64I (rvi op_sub) (OperandR rd rs1 rs2 0 0x20))
   | (rvc op_c_subw, OperandCR rd rs1 rs2) \<Rightarrow> Some (mk_op RV64I (rvi op_subw) (OperandR rd rs1 rs2 0 0x20))
   | (rvc op_c_and, OperandCR rd rs1 rs2) \<Rightarrow> Some (mk_op RV64I (rvi op_and) (OperandR rd rs1 rs2 7 0))
   | (rvc op_c_or, OperandCR rd rs1 rs2) \<Rightarrow> Some (mk_op RV64I (rvi op_or) (OperandR rd rs1 rs2 6 0))
   | (rvc op_c_xor, OperandCR rd rs1 rs2) \<Rightarrow> Some (mk_op RV64I (rvi op_xor) (OperandR rd rs1 rs2 4 0))
   | (rvc op_c_li, OperandCI imm rd rs1) \<Rightarrow> Some (mk_op RV64I (rvi op_addi) (OperandI imm rd 0 0))
   | (rvc op_c_lui, OperandCI imm rd rs1) \<Rightarrow> Some (mk_op RV64I (rvi op_lui) (OperandU imm rd))
   | (rvc op_c_addi, OperandCI imm rd rs1) \<Rightarrow> Some (mk_op RV64I (rvi op_addi) (OperandI imm rd rs1 0))
   | (rvc op_c_addiw, OperandCI imm rd rs1) \<Rightarrow> Some (mk_op RV64I (rvi op_addiw) (OperandI imm rd rs1 0))
   | (rvc op_c_andi, OperandCI imm rd rs1) \<Rightarrow> Some (mk_op RV64I (rvi op_andi) (OperandI imm rd rs1 7))
   | (rvc op_c_srli, OperandCI imm rd rs1) \<Rightarrow> Some (mk_op RV64I (rvi op_srli) (OperandShiftImm rd rs1 (sint imm)))
   | (rvc op_c_srai, OperandCI imm rd rs1) \<Rightarrow> Some (mk_op RV64I (rvi op_srai) (OperandShiftImm rd rs1 (sint imm)))
   | (rvc op_c_slli, OperandCI imm rd rs1) \<Rightarrow> Some (mk_op RV64I (rvi op_slli) (OperandShiftImm rd rs1 (sint imm)))
   | (rvc op_c_addi4spn, OperandCIW imm rd) \<Rightarrow> Some (mk_op RV64I (rvi op_addi) (OperandI imm rd 2 0))
   | (rvc op_c_addi16sp, OperandCI imm rd rs1) \<Rightarrow> Some (mk_op RV64I (rvi op_addi) (OperandI imm rd 2 0))
   | (rvc op_c_beqz, OperandCB imm rs1) \<Rightarrow> Some (mk_op RV64I (rvi op_beq) (OperandB imm rs1 0 0))
   | (rvc op_c_bnez, OperandCB imm rs1) \<Rightarrow> Some (mk_op RV64I (rvi op_bne) (OperandB imm rs1 0 1))
   | (rvc op_c_j, OperandCJ imm) \<Rightarrow> Some (mk_op RV64I (rvi op_jal) (OperandJ imm 0))
   | (rvc op_c_jr, OperandCR rd rs1 rs2) \<Rightarrow> Some (mk_op RV64I (rvi op_jalr) (OperandI 0 0 rs1 0))
   | (rvc op_c_jalr, OperandCR rd rs1 rs2) \<Rightarrow> Some (mk_op RV64I (rvi op_jalr) (OperandI 0 1 rs1 0))
   | (rvc op_c_lw, OperandCL imm rd rs1) \<Rightarrow> Some (mk_op RV64I (rvi op_lw) (OperandI imm rd rs1 2))
   | (rvc op_c_lwsp, OperandCI imm rd rs1) \<Rightarrow> Some (mk_op RV64I (rvi op_lw) (OperandI imm rd 2 2))
   | (rvc op_c_ld, OperandCL imm rd rs1) \<Rightarrow> Some (mk_op RV64I (rvi op_ld) (OperandI imm rd rs1 3))
   | (rvc op_c_ldsp, OperandCI imm rd rs1) \<Rightarrow> Some (mk_op RV64I (rvi op_ld) (OperandI imm rd 2 3))
   | (rvc op_c_sw, OperandCS imm rs1 rs2) \<Rightarrow> Some (mk_op RV64I (rvi op_sw) (OperandS imm rs1 rs2 2))
   | (rvc op_c_swsp, OperandCSS imm rs2) \<Rightarrow> Some (mk_op RV64I (rvi op_sw) (OperandS imm 2 rs2 2))
   | (rvc op_c_sd, OperandCS imm rs1 rs2) \<Rightarrow> Some (mk_op RV64I (rvi op_sd) (OperandS imm rs1 rs2 3))
   | (rvc op_c_sdsp, OperandCSS imm rs2) \<Rightarrow> Some (mk_op RV64I (rvi op_sd) (OperandS imm 2 rs2 3))
   | (rvc op_c_ebreak, _) \<Rightarrow> Some (mk_op RV64I (rvi op_ebreak) OperandNone)
   | _ \<Rightarrow> None)"

text \<open>
  The codes without an expansion here: the floating-point loads and stores, and the instructions of
  RV32C or RV128C alone, which the 64-bit decoder never yields.
\<close>

definition unexpanded :: "OpCodeC list" where
  "unexpanded = [op_c_fld, op_c_fldsp, op_c_fsd, op_c_fsdsp, op_c_jal, op_c_flw, op_c_flwsp, op_c_fsw, op_c_fswsp,
     op_c_lq, op_c_sq, op_c_lqsp, op_c_sqsp, op_c_slli64, op_c_srli64, op_c_srai64]"

text \<open>The link of a compressed call is the address two bytes on; the target does not depend on pc.\<close>

definition expansion_pc :: "Op \<Rightarrow> vaddr_t \<Rightarrow> vaddr_t" where
  "expansion_pc op pc = (if opCode op = rvc op_c_jalr then pc - 2 else pc)"

definition forget_reservation :: "System result \<Rightarrow> System result" where
  "forget_reservation m = rbind m (\<lambda>s. Inr (s\<lparr> sys_AtomicManager := AtomicManager_init \<rparr>))"

text \<open>\<open>c.addiw\<close> adds at 64 bits and extends afterwards, which misses a sum below the 32-bit range.\<close>

definition addiw_below :: "Op \<Rightarrow> System \<Rightarrow> bool" where
  "addiw_below op sys = (case (opCode op, operand op) of
     (rvc op_c_addiw, OperandCI imm rd rs1) \<Rightarrow>
       \<not> (- (2 ^ 31) \<le> sint imm \<and> sint imm < 2 ^ 31 \<and>
          - (2 ^ 31) \<le> sint (entry_u32 (x_reg sys rs1)) + sint imm)
   | _ \<Rightarrow> False)"

section \<open>Forgetting the reservation\<close>

lemma forget_cancel: "forget_reservation (Inr (atomic_Cancel s)) = forget_reservation (Inr s)"
  by (simp add: forget_reservation_def atomic_Cancel_def)

lemma forget_rbind: "forget_reservation (rbind m f) = rbind m (\<lambda>x. forget_reservation (f x))"
  by (simp add: forget_reservation_def rbind_assoc)

lemma forget_rbind_Inr: "rbind m (\<lambda>x. forget_reservation (Inr x)) = forget_reservation m"
  by (simp add: forget_reservation_def)

lemma forget_case_prod: "forget_reservation (case x of (a, b) \<Rightarrow> f a b) = (case x of (a, b) \<Rightarrow> forget_reservation (f a b))"
  by (cases x) simp

lemma rbind_case_prod: "rbind (case x of (a, b) \<Rightarrow> f a b) g = (case x of (a, b) \<Rightarrow> rbind (f a b) g)"
  by (cases x) simp

lemma forget_if:
  "forget_reservation (if b then Inr (atomic_Cancel s) else Inr s) = forget_reservation (Inr s)"
  by (simp add: forget_cancel)

lemmas forget_simps = forget_cancel forget_rbind forget_rbind_Inr forget_if forget_case_prod rbind_case_prod rbind_assoc

lemmas compressed_defs = ProcessRV64C_Alu_def ProcessRV64C_AluImm_def ProcessRV64C_Branch_def ProcessRV64C_ADDI4SPN_def
  ProcessRV64C_ADDI16SP_def ProcessRV64C_J_def ProcessRV64C_JR_def ProcessRV64C_JALR_def ProcessRV64C_LD_def
  ProcessRV64C_LDSP_def ProcessRV64C_LW_def ProcessRV64C_LWSP_def ProcessRV64C_SD_def ProcessRV64C_SDSP_def
  ProcessRV64C_SW_def ProcessRV64C_SWSP_def ReadStackPointer64_def WriteLinkRegister64_def

lemmas expanded_defs = ProcessRV64I_Alu_def ProcessRV64I_AluImm_def ProcessRV64I_ShiftImm_def ProcessRV64I_Branch_def
  ProcessRV64I_Lui_def ProcessRV64I_Jal_def ProcessRV64I_Jalr_def ProcessRV64I_Load_def ProcessRV64I_Store_def

lemma ucast_scast_32: "ucast imm = (scast imm :: uint32)" for imm :: uint64
  by (rule bit_eqI) (auto simp: bit_simps)

lemma addiw_in_range:
  fixes a :: uint32 and imm :: uint64
  assumes "- (2 ^ 31) \<le> sint imm" "sint imm < 2 ^ 31" "- (2 ^ 31) \<le> sint a + sint imm"
  shows "SignExtend 32 (scast a + imm) = SignExtend 32 (scast (a + ucast imm) :: uint64)"
proof -
  define v where "v = sint a + sint imm"
  define r where "r = a + ucast imm"
  have r: "r = word_of_int v"
    by (simp add: r_def v_def wi_hom_syms ucast_scast_32)
  have e: "scast a + imm = word_of_int v" by (simp add: v_def wi_hom_syms)
  have v: "- (2 ^ 31) \<le> v" "v < 2 ^ 32" using assms sint_lt [of a] by (simp_all add: v_def)
  show ?thesis
  proof (cases "v < 2 ^ 31")
    case True
    then have "sint r = v" using v unfolding r
      by (simp add: sint_sbintrunc' signed_take_bit_int_eq_self)
    then have "scast a + imm = scast r" unfolding e by (metis of_int_sint)
    then show ?thesis by (simp add: r_def)
  next
    case False
    then have "uint r = v" using v unfolding r by (simp add: uint_word_of_int)
    then have "scast a + imm = ucast r" unfolding e by (metis of_int_uint)
    then show ?thesis by (simp add: r_def SignExtend_32)
  qed
qed

lemma write_after_jump:
  "int_WriteInt64 r v (csr_SetPc a sys) = rbind (int_WriteInt64 r v sys) (\<lambda>s. Inr (csr_SetPc a s))"
  by (simp add: int_WriteInt64_def with_IntRegFile_def csr_SetPc_def rbind_assoc)
    (rule rbind_cong; simp)

lemmas checks_defs = PreCheckTrapRV64C_LD_def PreCheckTrapRV64C_LDSP_def PreCheckTrapRV64C_LW_def
  PreCheckTrapRV64C_LWSP_def PreCheckTrapRV64C_SD_def PreCheckTrapRV64C_SDSP_def PreCheckTrapRV64C_SW_def
  PreCheckTrapRV64C_SWSP_def PreCheckTrapRV64_Load_def PreCheckTrapRV64_Store_def PreCheckTrap_width_def
  ReadStackPointer64_def

lemma expansion_exists:
  assumes "op_ok op" "opCode op = rvc c" "c \<notin> set unexpanded"
  shows "\<not> Option.is_none (expand_compressed op)"
  using assms unfolding op_ok_def unexpanded_def
  by (cases c; cases "operand op"; simp add: expand_compressed_def required_kind_defs)

text \<open>
  C14. A compressed instruction is its expansion: every operation of RV64C but the floating-point loads
  and stores, with registers that exist, has an expansion, and but for c.ebreak executing it gives the
  result of the RV64I instruction the manual expands it to - the same traps before it, registers,
  memory, pc, link and errors, the reservation aside. c.addiw is covered up to sums below the 32-bit range, which it does
  not wrap. c.ebreak ends the emulator, where ebreak cancels the reservation and raises a breakpoint.
\<close>

theorem compressed_expansion:
  assumes "op_ok op" "opClass op = RV64C" "opCode op = rvc c" "c \<notin> set unexpanded"
    "x0_zero (sys_IntRegFile sys)" "\<not> addiw_below op sys"
  shows "\<exists>op'. expand_compressed op = Some op' \<and> PreCheckTrap op pc insn sys = PreCheckTrap op' pc insn sys \<and>
    (if c = op_c_ebreak
     then ProcessOp h op pc sys = Inl ProcessExit \<and> ProcessOp h op' pc sys = Inr (atomic_Cancel sys) \<and>
       PostCheckTrap op' pc sys = Inr (Some (MakeBreakpointException pc))
     else forget_reservation (ProcessOp h op pc sys) = forget_reservation (ProcessOp h op' (expansion_pc op pc) sys))"
proof -
  define op' where "op' = the (expand_compressed op)"
  have e: "\<not> Option.is_none (expand_compressed op)" by (rule expansion_exists [OF assms(1,3,4)])
  have "forget_reservation (ProcessOp h op pc sys) = forget_reservation (ProcessOp h op' (expansion_pc op pc) sys)"
    if "c \<noteq> op_c_ebreak"
    using assms(1,6) e that unfolding op_ok_def assms(3) op'_def expand_compressed_def addiw_below_def
    by (cases c; simp split: Operand.splits)
      (simp_all add: ProcessOp_def assms(2) ProcessRV64C_def ProcessRV64I_def assms(3) expansion_pc_def
        compressed_defs expanded_defs reads_ok reg_small Let_def write_x0 write_signs forget_simps
        x0_read [OF assms(5)] SignExtend_64 entry_u32_def write_after_jump add.commute [of _ 2] addiw_in_range)
  moreover have "ProcessOp h op pc sys = Inl ProcessExit \<and> ProcessOp h op' pc sys = Inr (atomic_Cancel sys) \<and>
      PostCheckTrap op' pc sys = Inr (Some (MakeBreakpointException pc))" if "c = op_c_ebreak"
    using assms(2,3) that
    by (simp add: op'_def expand_compressed_def ProcessOp_def ProcessRV64C_def ProcessRV64I_def
        ProcessRV64I_Priv_def PostCheckTrap_def)
  moreover have "PreCheckTrap op pc insn sys = PreCheckTrap op' pc insn sys"
    using assms(1) e unfolding op_ok_def assms(3) op'_def expand_compressed_def
    by (cases c; simp split: Operand.splits)
      (simp_all add: PreCheckTrap_def assms(2) PreCheckTrapRV64C_def PreCheckTrap_opcode_def assms(3) checks_defs reads_ok reg_small Let_def
        IsRV32_def IsRV64_def)
  ultimately show ?thesis using e by (auto simp: op'_def Option.is_none_def)
qed

lemma compressed_expansion_witness:
  "\<forall>h. forget_reservation (ProcessOp h (mk_op RV64C (rvc op_c_jalr) (OperandCR 1 6 0)) 0x1000 (registers_67 0x2000 0)) =
      forget_reservation (ProcessOp h (mk_op RV64I (rvi op_jalr) (OperandI 0 1 6 0)) 0xffe (registers_67 0x2000 0)) \<and>
    ProcessOp h (mk_op RV64C (rvc op_c_ebreak) (OperandCR 0 0 0)) 0x1000 (registers_67 0 0) = Inl ProcessExit"
proof
  fix h
  have ok: "op_ok (mk_op RV64C (rvc op_c_jalr) (OperandCR 1 6 0))" "op_ok (mk_op RV64C (rvc op_c_ebreak) (OperandCR 0 0 0))"
    by code_simp+
  have x0: "x0_zero (sys_IntRegFile (registers_67 v w))" for v w by (simp add: registers_67_def x0_zero_def)
  show "forget_reservation (ProcessOp h (mk_op RV64C (rvc op_c_jalr) (OperandCR 1 6 0)) 0x1000 (registers_67 0x2000 0)) =
      forget_reservation (ProcessOp h (mk_op RV64I (rvi op_jalr) (OperandI 0 1 6 0)) 0xffe (registers_67 0x2000 0)) \<and>
    ProcessOp h (mk_op RV64C (rvc op_c_ebreak) (OperandCR 0 0 0)) 0x1000 (registers_67 0 0) = Inl ProcessExit"
    using compressed_expansion [OF ok(1), where c = op_c_jalr and sys = "registers_67 0x2000 0" and h = h and pc = "0x1000"]
      compressed_expansion [OF ok(2), where c = op_c_ebreak and sys = "registers_67 0 0" and h = h and pc = "0x1000"] x0
    by (simp add: expand_compressed_def addiw_below_def expansion_pc_def unexpanded_def)
qed

section \<open>The shift amount of c.slli\<close>

lemma ucast_16_32: "ucast (ucast insn :: uint32) = (insn :: uint16)"
  by (rule bit_eqI) (auto simp: bit_simps)

lemma c_slli_decodes:
  fixes insn :: uint16
  assumes "Pick insn 0 2 = 2" "Pick insn 13 3 = 0"
  shows "Decode XLEN64 (ucast insn) = Inr (mk_op RV64C (rvc op_c_slli) (DecodeOperandCI insn True))"
proof -
  have "\<not> bit insn 0" using assms(1) bit_Pick [of insn 0 2 0] by simp
  then have b: "\<not> bit (ucast insn AND 3 :: uint32) 0" by (simp add: bit_simps)
  have "IsCompressedInstruction32 (ucast insn)"
    unfolding IsCompressedInstruction32_def
  proof
    assume "ucast insn AND 3 = (3 :: uint32)"
    with b show False by simp
  qed
  then have "Decode XLEN64 (ucast insn) = DecodeC XLEN64 insn" by (simp add: Decode_def Let_def ucast_16_32)
  also have "\<dots> = Inr (mk_op RV64C (rvc op_c_slli) (DecodeOperandCI insn True))"
    by (simp add: DecodeC_def select_class_def assms Let_def split del: if_split)
  finally show ?thesis .
qed

text \<open>
  The decoder reads the 6-bit shift amount of c.slli as a signed number: every c.slli of 32 or more
  decodes to a negative amount, and executing it is a shift that C++ leaves undefined.
\<close>

theorem c_slli_large_amount:
  fixes insn :: uint16
  assumes "Pick insn 0 2 = 2" "Pick insn 13 3 = 0" "bit insn 12"
  shows "\<exists>op. Decode XLEN64 (ucast insn) = Inr op \<and> ProcessOp h op pc sys = Inl Undefined"
proof -
  define imm where "imm = (SignExtend 6 (scast (push_bit 5 (Pick insn 12 1) OR Pick insn 2 5)) :: uint64)"
  have "bit imm 63" using assms(3) by (simp add: imm_def bit_SignExtend bit_simps bit_Pick)
  then have n: "\<not> 0 \<le> sint imm" using bit_last_iff [of imm] by simp
  then show ?thesis
    using Pick_range [of 5 insn 7]
    by (simp add: c_slli_decodes [OF assms(1,2)] DecodeOperandCI_def ProcessOp_def ProcessRV64C_def
      ProcessRV64C_AluImm_def shl_def int_ReadInt64_def int_ReadUInt64_def int_ReadInt32_def IntRegFile_read_defs
      n [unfolded imm_def, simplified])
qed

lemma c_slli_large_amount_witness:
  "\<forall>h. \<exists>op. Decode XLEN64 (ucast (0x1302 :: uint16)) = Inr op \<and> ProcessOp h op 0 (registers_67 1 1) = Inl Undefined"
proof
  fix h
  have p: "Pick (0x1302 :: uint16) 0 2 = 2" "Pick (0x1302 :: uint16) 13 3 = 0" "bit (0x1302 :: uint16) 12"
    by (code_simp, code_simp, code_simp)
  show "\<exists>op. Decode XLEN64 (ucast (0x1302 :: uint16)) = Inr op \<and> ProcessOp h op 0 (registers_67 1 1) = Inl Undefined"
    using c_slli_large_amount [OF p] by blast
qed

end
