(* ===== verification/PageWalk.thy ===== *)
theory PageWalk
  imports MemoryAccessUnit
begin

text \<open>
  An abstract page table walk, and the proof that the checks and translations of the memory access
  unit implement it. The walk is one recursive function over the page numbers of the address, for
  any number of levels; the C++ code spells out the levels of each mode.
\<close>

section \<open>The walk\<close>

datatype 'e walk = WalkFault | WalkLeaf nat 'e paddr_t

definition pte_invalid :: "'a::len word \<Rightarrow> bool" where
  "pte_invalid e \<longleftrightarrow> \<not> bit e 0 \<or> (\<not> bit e 1 \<and> bit e 2)"

definition pte_leaf :: "'a::len word \<Rightarrow> bool" where
  "pte_leaf e \<longleftrightarrow> bit e 1 \<or> bit e 3"

text \<open>
  \<open>rd\<close> reads an entry, \<open>ppn\<close> is the page number in it and \<open>width\<close> its size in bytes. The level of
  a leaf is the number of page numbers below it.
\<close>

fun page_walk ::
    "(paddr_t \<Rightarrow> 'a::len word result) \<Rightarrow> ('a word \<Rightarrow> uint64) \<Rightarrow> uint64 \<Rightarrow> uint64 list \<Rightarrow> uint64
      \<Rightarrow> 'a word walk result" where
  "page_walk rd ppn width [] base = Inr WalkFault"
| "page_walk rd ppn width (vpn # vpns) base =
    (let ea = push_bit 12 base OR width * vpn in
     rbind (rd ea) (\<lambda>e.
       if pte_invalid e then Inr WalkFault
       else if pte_leaf e \<or> vpns = [] then Inr (WalkLeaf (length vpns) e ea)
       else page_walk rd ppn width vpns (ppn e)))"

definition pte_permits :: "PrivilegeLevel \<Rightarrow> bool \<Rightarrow> bool \<Rightarrow> MemoryAccessType \<Rightarrow> 'a::len word \<Rightarrow> bool" where
  "pte_permits priv usum mxr accessType e \<longleftrightarrow>
     (priv = Supervisor \<longrightarrow> usum \<or> \<not> bit e 4) \<and> (priv = User \<longrightarrow> bit e 4) \<and>
     (case accessType of Instruction \<Rightarrow> bit e 3 | Load \<Rightarrow> bit e 1 \<or> mxr \<and> bit e 3 | Store \<Rightarrow> bit e 2)"

definition csr_permits :: "Csr \<Rightarrow> MemoryAccessType \<Rightarrow> 'a::len word \<Rightarrow> bool result" where
  "csr_permits csr accessType e =
     rbind (GetEffectivePrivilegeLevel csr accessType) (\<lambda>priv.
     rbind (Csr_ReadStatus csr) (\<lambda>status. Inr (pte_permits priv (bit status 18) (bit status 19) accessType e)))"

definition walk_check ::
    "Csr \<Rightarrow> MemoryAccessType \<Rightarrow> vaddr_t \<Rightarrow> vaddr_t \<Rightarrow> (nat \<Rightarrow> 'a::len word \<Rightarrow> bool) \<Rightarrow> 'a word walk
      \<Rightarrow> Trap option result" where
  "walk_check csr accessType pc addr aligned w = (case w of
     WalkFault \<Rightarrow> Inr (Some (MakeTrap accessType pc addr))
   | WalkLeaf level e ea \<Rightarrow> rbind (csr_permits csr accessType e) (\<lambda>ok.
       Inr (if ok \<and> aligned level e then None else Some (MakeTrap accessType pc addr))))"

definition walk_translate ::
    "(paddr_t \<Rightarrow> bool \<Rightarrow> System \<Rightarrow> System result) \<Rightarrow> (nat \<Rightarrow> 'a::len word \<Rightarrow> paddr_t) \<Rightarrow> MemoryAccessType
      \<Rightarrow> vaddr_t \<Rightarrow> vaddr_t \<Rightarrow> System \<Rightarrow> 'a word walk \<Rightarrow> (translation \<times> System) result" where
  "walk_translate update target accessType addr pc sys w = (case w of
     WalkFault \<Rightarrow> Inr (TransTrap (MakeTrap accessType pc addr), sys)
   | WalkLeaf level e ea \<Rightarrow> rbind (csr_permits (sys_Csr sys) accessType e) (\<lambda>ok.
       if ok then rbind (update ea (accessType = Store) sys) (\<lambda>sys. Inr (TransAddr (target level e), sys))
       else Inr (TransTrap (MakeTrap accessType pc addr), sys)))"

section \<open>The three modes\<close>

definition sv32_vpns :: "vaddr_t \<Rightarrow> uint64 list" where
  "sv32_vpns addr = [GetMember (31, 22) addr, GetMember (21, 12) addr]"

definition sv39_vpns :: "vaddr_t \<Rightarrow> uint64 list" where
  "sv39_vpns addr = [GetMember (38, 30) addr, GetMember (29, 21) addr, GetMember (20, 12) addr]"

definition sv48_vpns :: "vaddr_t \<Rightarrow> uint64 list" where
  "sv48_vpns addr = [GetMember (47, 39) addr, GetMember (38, 30) addr, GetMember (29, 21) addr,
     GetMember (20, 12) addr]"

definition pte32_ppn :: "uint32 \<Rightarrow> uint64" where
  "pte32_ppn e = ucast (GetMember (31, 10) e)"

definition pte64_ppn :: "uint64 \<Rightarrow> uint64" where
  "pte64_ppn e = GetMember (53, 10) e"

text \<open>
  A leaf of level \<open>n\<close> maps a page of \<open>12 + n * bits\<close> address bits; those bits come from the virtual
  address. It is aligned when the page number has zeros there.
\<close>

definition leaf_aligned :: "nat \<Rightarrow> uint64 \<Rightarrow> nat \<Rightarrow> bool" where
  "leaf_aligned bits ppn level \<longleftrightarrow> take_bit (level * bits) ppn = 0"

definition leaf_target :: "nat \<Rightarrow> uint64 \<Rightarrow> nat \<Rightarrow> vaddr_t \<Rightarrow> paddr_t" where
  "leaf_target bits ppn level addr =
     push_bit (12 + level * bits) (drop_bit (level * bits) ppn) OR take_bit (12 + level * bits) addr"

section \<open>Entries\<close>

lemma CheckTrapForEntry_eq:
  "CheckTrapForEntry e at pc addr = (if pte_invalid e then Some (MakeTrap at pc addr) else None)"
  by (simp add: CheckTrapForEntry_def pte_invalid_def GetMember_single_eq_0 del: One_nat_def)

lemma IsLeafEntry_eq: "IsLeafEntry e = pte_leaf e"
  by (simp add: IsLeafEntry_def pte_leaf_def GetMember_single_eq_0 del: One_nat_def)

lemma CheckTrapForLeafEntry_eq:
  "CheckTrapForLeafEntry csr e at pc addr =
     rbind (csr_permits csr at e) (\<lambda>ok. Inr (if ok then None else Some (MakeTrap at pc addr)))"
  unfolding CheckTrapForLeafEntry_def csr_permits_def rbind_assoc
  by (intro rbind_cong refl)
    (auto simp: pte_permits_def GetMember_single_eq_0 Let_def split: MemoryAccessType.split)

lemmas entry_eqs = CheckTrapForEntry_eq IsLeafEntry_eq CheckTrapForLeafEntry_eq

lemma return_if_trap_cond:
  "return_if_trap (Inr (if b then Some t else None)) k = (if b then Inr (Some t) else k)"
  by simp

lemma or_trap_cond:
  "or_trap (Inr (if b then Some t else None)) sys k = (if b then Inr (TransTrap t, sys) else k)"
  by (simp add: or_trap_def)

lemma return_if_trap_permits:
  "return_if_trap (rbind m (\<lambda>ok. Inr (if ok then None else Some t))) (Inr (if b then Some t else None)) =
     rbind m (\<lambda>ok. Inr (if ok \<and> \<not> b then None else Some t))"
  by (cases m) auto

lemma or_trap_permits:
  "or_trap (rbind m (\<lambda>ok. Inr (if ok then None else Some t))) sys k =
     rbind m (\<lambda>ok. if ok then k else Inr (TransTrap t, sys))"
  by (cases m) (auto simp: or_trap_def)

section \<open>Addresses\<close>

lemma bit_mult_4: "bit (4 * x :: 'a::len word) k \<longleftrightarrow> 2 \<le> k \<and> k < LENGTH('a) \<and> bit x (k - 2)"
proof -
  have "4 * x = push_bit 2 x" by (simp add: push_bit_eq_mult)
  then show ?thesis by (simp add: bit_push_bit_iff)
qed

lemma bit_mult_8: "bit (8 * x :: 'a::len word) k \<longleftrightarrow> 3 \<le> k \<and> k < LENGTH('a) \<and> bit x (k - 3)"
proof -
  have "8 * x = push_bit 3 x" by (simp add: push_bit_eq_mult)
  then show ?thesis by (simp add: bit_push_bit_iff)
qed

lemmas address_bits = PhysicalAddress_defs bit_SetMember bit_GetMember bit_push_bit_iff bit_or_iff
  bit_mult_4 bit_mult_8 bit_unsigned_iff pte32_ppn_def pte64_ppn_def

lemma sv32_entry_addr:
  "PhysicalAddressSv32 (GetMember (21, 0) satp) (4 * ucast (GetMember (31, 22) (ucast addr :: uint32))) =
     push_bit 12 (GetMember (21, 0) satp) OR 4 * GetMember (31, 22) addr"
  "PhysicalAddressSv32_parts (ucast (GetMember (31, 20) (e :: uint32))) (ucast (GetMember (19, 10) e))
      (4 * ucast (GetMember (21, 12) (ucast addr :: uint32))) =
     push_bit 12 (pte32_ppn e) OR 4 * GetMember (21, 12) addr"
  by (rule bit_eqI; auto simp: address_bits)+

lemma sv39_entry_addr:
  "PhysicalAddressSv39 (GetMember (43, 0) satp) (8 * GetMember (38, 30) addr) =
     push_bit 12 (GetMember (43, 0) satp) OR 8 * GetMember (38, 30) addr"
  "PhysicalAddressSv39_parts (GetMember (53, 28) e) (GetMember (27, 19) e) (GetMember (18, 10) e)
      (8 * GetMember (29, 21) addr) = push_bit 12 (pte64_ppn e) OR 8 * GetMember (29, 21) addr"
  "PhysicalAddressSv39_parts (GetMember (53, 28) e) (GetMember (27, 19) e) (GetMember (18, 10) e)
      (8 * GetMember (20, 12) addr) = push_bit 12 (pte64_ppn e) OR 8 * GetMember (20, 12) addr"
  by (rule bit_eqI; auto simp: address_bits)+

lemma sv48_entry_addr:
  "PhysicalAddressSv48 (GetMember (43, 0) satp) (8 * GetMember (47, 39) addr) =
     push_bit 12 (GetMember (43, 0) satp) OR 8 * GetMember (47, 39) addr"
  "PhysicalAddressSv48_parts (GetMember (53, 37) e) (GetMember (36, 28) e) (GetMember (27, 19) e)
      (GetMember (18, 10) e) (8 * GetMember (38, 30) addr) =
     push_bit 12 (pte64_ppn e) OR 8 * GetMember (38, 30) addr"
  "PhysicalAddressSv48_parts (GetMember (53, 37) e) (GetMember (36, 28) e) (GetMember (27, 19) e)
      (GetMember (18, 10) e) (8 * GetMember (29, 21) addr) =
     push_bit 12 (pte64_ppn e) OR 8 * GetMember (29, 21) addr"
  "PhysicalAddressSv48_parts (GetMember (53, 37) e) (GetMember (36, 28) e) (GetMember (27, 19) e)
      (GetMember (18, 10) e) (8 * GetMember (20, 12) addr) =
     push_bit 12 (pte64_ppn e) OR 8 * GetMember (20, 12) addr"
  by (rule bit_eqI; auto simp: address_bits)+

lemma sv32_target:
  "PhysicalAddressSv32_parts (ucast (GetMember (31, 20) (e :: uint32)))
      (ucast (GetMember (21, 12) (ucast addr :: uint32))) (ucast (GetMember (11, 0) (ucast addr :: uint32))) =
     leaf_target 10 (pte32_ppn e) 1 addr"
  "PhysicalAddressSv32_parts (ucast (GetMember (31, 20) (e :: uint32))) (ucast (GetMember (19, 10) e))
      (ucast (GetMember (11, 0) (ucast addr :: uint32))) = leaf_target 10 (pte32_ppn e) 0 addr"
  by (rule bit_eqI; auto simp: address_bits leaf_target_def bit_take_bit_iff bit_drop_bit_eq)+

lemma sv39_target:
  "PhysicalAddressSv39_parts (GetMember (53, 28) e) (GetMember (29, 21) addr) (GetMember (20, 12) addr)
      (GetMember (11, 0) addr) = leaf_target 9 (pte64_ppn e) 2 addr"
  "PhysicalAddressSv39_parts (GetMember (53, 28) e) (GetMember (27, 19) e) (GetMember (20, 12) addr)
      (GetMember (11, 0) addr) = leaf_target 9 (pte64_ppn e) 1 addr"
  "PhysicalAddressSv39_parts (GetMember (53, 28) e) (GetMember (27, 19) e) (GetMember (18, 10) e)
      (GetMember (11, 0) addr) = leaf_target 9 (pte64_ppn e) 0 addr"
  by (rule bit_eqI; auto simp: address_bits leaf_target_def bit_take_bit_iff bit_drop_bit_eq)+

lemma sv48_target:
  "PhysicalAddressSv48_parts (GetMember (53, 37) e) (GetMember (38, 30) addr) (GetMember (29, 21) addr)
      (GetMember (20, 12) addr) (GetMember (11, 0) addr) = leaf_target 9 (pte64_ppn e) 3 addr"
  "PhysicalAddressSv48_parts (GetMember (53, 37) e) (GetMember (36, 28) e) (GetMember (29, 21) addr)
      (GetMember (20, 12) addr) (GetMember (11, 0) addr) = leaf_target 9 (pte64_ppn e) 2 addr"
  "PhysicalAddressSv48_parts (GetMember (53, 37) e) (GetMember (36, 28) e) (GetMember (27, 19) e)
      (GetMember (20, 12) addr) (GetMember (11, 0) addr) = leaf_target 9 (pte64_ppn e) 1 addr"
  "PhysicalAddressSv48_parts (GetMember (53, 37) e) (GetMember (36, 28) e) (GetMember (27, 19) e)
      (GetMember (18, 10) e) (GetMember (11, 0) addr) = leaf_target 9 (pte64_ppn e) 0 addr"
  by (rule bit_eqI; auto simp: address_bits leaf_target_def bit_take_bit_iff bit_drop_bit_eq)+

lemma GetMember_eq_0_iff: "GetMember (m, l) (v :: 'a::len word) = 0 \<longleftrightarrow> (\<forall>k. l \<le> k \<and> k \<le> l + (m - l) \<longrightarrow> \<not> bit v k)"
proof
  assume 0: "GetMember (m, l) v = 0"
  show "\<forall>k. l \<le> k \<and> k \<le> l + (m - l) \<longrightarrow> \<not> bit v k"
  proof (intro allI impI)
    fix k assume k: "l \<le> k \<and> k \<le> l + (m - l)"
    have "\<not> bit (GetMember (m, l) v) (k - l)" by (simp add: 0)
    then show "\<not> bit v k" using k by (auto simp: bit_GetMember)
  qed
next
  assume "\<forall>k. l \<le> k \<and> k \<le> l + (m - l) \<longrightarrow> \<not> bit v k"
  then show "GetMember (m, l) v = 0" by (intro bit_eqI) (auto simp: bit_GetMember)
qed

lemma take_bit_eq_0_iff_bits: "take_bit n (v :: 'a::len word) = 0 \<longleftrightarrow> (\<forall>k < n. \<not> bit v k)"
proof
  assume 0: "take_bit n v = 0"
  then show "\<forall>k < n. \<not> bit v k" by (metis bit_take_bit_iff bit_0_eq bot_apply bot_bool_def)
next
  assume "\<forall>k < n. \<not> bit v k"
  then show "take_bit n v = 0" by (intro bit_eqI) (auto simp: bit_take_bit_iff)
qed

lemma leaf_aligned_0 [simp]: "leaf_aligned b p 0"
  by (simp add: leaf_aligned_def)

lemma ppn_shift: "(\<forall>k < n. \<not> bit (v :: 'a::len word) (10 + k)) \<longleftrightarrow> (\<forall>k. 10 \<le> k \<and> k < 10 + n \<longrightarrow> \<not> bit v k)"
  by (metis add_less_cancel_left le_add1 le_iff_add)

lemma sv32_aligned:
  "leaf_aligned 10 (pte32_ppn e) 1 \<longleftrightarrow> GetMember (19, 10) e = 0"
proof -
  have "leaf_aligned 10 (pte32_ppn e) 1 \<longleftrightarrow> (\<forall>k < 10. \<not> bit e (10 + k))"
    by (auto simp: leaf_aligned_def take_bit_eq_0_iff_bits pte32_ppn_def bit_unsigned_iff bit_GetMember)
  also have "\<dots> \<longleftrightarrow> GetMember (19, 10) e = 0"
    unfolding ppn_shift GetMember_eq_0_iff by (simp add: less_Suc_eq_le numeral_eq_Suc)
  finally show ?thesis .
qed

lemma pte64_aligned:
  assumes "9 * l \<le> 44"
  shows "leaf_aligned 9 (pte64_ppn e) l \<longleftrightarrow> (\<forall>k. 10 \<le> k \<and> k < 10 + 9 * l \<longrightarrow> \<not> bit e k)"
proof -
  have "leaf_aligned 9 (pte64_ppn e) l \<longleftrightarrow> (\<forall>k < 9 * l. \<not> bit e (10 + k))"
    using assms by (auto simp: leaf_aligned_def take_bit_eq_0_iff_bits pte64_ppn_def bit_GetMember)
  then show ?thesis unfolding ppn_shift .
qed

lemma range_split:
  "(\<forall>k. a \<le> k \<and> k < (c :: nat) \<longrightarrow> P k) \<longleftrightarrow>
     (\<forall>k. b \<le> k \<and> k < c \<longrightarrow> P k) \<and> (\<forall>k. a \<le> k \<and> k < b \<longrightarrow> P k)" if "a \<le> b" "b \<le> c"
  using that by (meson le_trans less_le_trans not_le)

lemma GetMember_eq_0_range:
  "c = Suc m \<Longrightarrow> l \<le> m \<Longrightarrow> GetMember (m, l) (v :: 'a::len word) = 0 \<longleftrightarrow> (\<forall>k. l \<le> k \<and> k < c \<longrightarrow> \<not> bit v k)"
  by (simp add: GetMember_eq_0_iff less_Suc_eq_le)

lemma sv39_aligned:
  "leaf_aligned 9 (pte64_ppn e) 1 \<longleftrightarrow> GetMember (18, 10) e = 0"
  "leaf_aligned 9 (pte64_ppn e) 2 \<longleftrightarrow> GetMember (27, 19) e = 0 \<and> GetMember (18, 10) e = 0"
  "leaf_aligned 9 (pte64_ppn e) 3 \<longleftrightarrow>
     GetMember (36, 28) e = 0 \<and> GetMember (27, 19) e = 0 \<and> GetMember (18, 10) e = 0"
proof -
  have 0: "GetMember (18, 10) e = 0 \<longleftrightarrow> (\<forall>k. 10 \<le> k \<and> k < 19 \<longrightarrow> \<not> bit e k)"
    "GetMember (27, 19) e = 0 \<longleftrightarrow> (\<forall>k. 19 \<le> k \<and> k < 28 \<longrightarrow> \<not> bit e k)"
    "GetMember (36, 28) e = 0 \<longleftrightarrow> (\<forall>k. 28 \<le> k \<and> k < 37 \<longrightarrow> \<not> bit e k)"
    by (rule GetMember_eq_0_range; simp)+
  show "leaf_aligned 9 (pte64_ppn e) 1 \<longleftrightarrow> GetMember (18, 10) e = 0"
    by (simp add: pte64_aligned 0)
  show "leaf_aligned 9 (pte64_ppn e) 2 \<longleftrightarrow> GetMember (27, 19) e = 0 \<and> GetMember (18, 10) e = 0"
    using range_split [of 10 19 28 "\<lambda>k. \<not> bit e k"] by (simp add: pte64_aligned 0)
  show "leaf_aligned 9 (pte64_ppn e) 3 \<longleftrightarrow>
     GetMember (36, 28) e = 0 \<and> GetMember (27, 19) e = 0 \<and> GetMember (18, 10) e = 0"
    using range_split [of 10 19 37 "\<lambda>k. \<not> bit e k"] range_split [of 19 28 37 "\<lambda>k. \<not> bit e k"]
    by (simp add: pte64_aligned 0)
qed

section \<open>Refinement of the checks\<close>

definition walk32 :: "System \<Rightarrow> vaddr_t \<Rightarrow> uint32 walk result" where
  "walk32 sys addr = page_walk (mem_ReadUInt32 sys) pte32_ppn 4 (sv32_vpns addr)
     (GetMember satp_PPN_RV32 (m_SupervisorAddressTranslationProtection (sys_Csr sys)))"

definition walk64 :: "System \<Rightarrow> uint64 list \<Rightarrow> uint64 walk result" where
  "walk64 sys vpns = page_walk (mem_ReadUInt64 sys) pte64_ppn 8 vpns
     (GetMember satp_PPN_RV64 (m_SupervisorAddressTranslationProtection (sys_Csr sys)))"

lemma rbind_if: "rbind (if b then x else y) f = (if b then rbind x f else rbind y f)"
  by simp

text \<open>The walk counts levels with \<open>Suc\<close>.\<close>

lemmas Suc_levels = One_nat_def numeral_2_eq_2 numeral_3_eq_3

lemmas walk_check_simps = walk_check_def rbind_assoc rbind_if
  sv32_aligned [unfolded Suc_levels] sv39_aligned [unfolded Suc_levels]

lemma CheckTrapSv32_walk:
  "CheckTrapSv32 sys at pc addr =
     rbind (walk32 sys addr) (walk_check (sys_Csr sys) at pc addr (\<lambda>l e. leaf_aligned 10 (pte32_ppn e) l))"
  unfolding CheckTrapSv32_def walk32_def sv32_vpns_def Let_def page_walk.simps rbind_assoc
    sv32_entry_addr entry_eqs return_if_trap_cond return_if_trap_permits
  by (intro rbind_cong refl) (simp add: walk_check_simps cong: rbind_cong if_cong)

lemma CheckTrapSv39_walk:
  "CheckTrapSv39 sys at pc addr =
     rbind (walk64 sys (sv39_vpns addr))
       (walk_check (sys_Csr sys) at pc addr (\<lambda>l e. leaf_aligned 9 (pte64_ppn e) l))"
  unfolding CheckTrapSv39_def walk64_def sv39_vpns_def Let_def page_walk.simps rbind_assoc
    sv39_entry_addr entry_eqs return_if_trap_cond return_if_trap_permits
  by (intro rbind_cong refl) (simp add: walk_check_simps cong: rbind_cong if_cong)

text \<open>The last level of the Sv48 check is indexed with the page number of the level above it.\<close>

lemma CheckTrapSv48_walk:
  "CheckTrapSv48 sys at pc addr =
     rbind (walk64 sys [GetMember (47, 39) addr, GetMember (38, 30) addr, GetMember (29, 21) addr,
         GetMember (29, 21) addr])
       (walk_check (sys_Csr sys) at pc addr (\<lambda>l e. leaf_aligned 9 (pte64_ppn e) l))"
  unfolding CheckTrapSv48_def walk64_def Let_def page_walk.simps rbind_assoc
    sv48_entry_addr entry_eqs return_if_trap_cond return_if_trap_permits
  by (intro rbind_cong refl) (simp add: walk_check_simps conj_ac cong: rbind_cong if_cong)

section \<open>Refinement of the translations\<close>

lemmas walk_translate_simps = walk_translate_def rbind_assoc rbind_if

lemma TranslateSv32_walk:
  "TranslateSv32 at addr pc sys =
     rbind (walk32 sys addr) (walk_translate UpdateEntry32
       (\<lambda>l e. ZeroExtend 32 (leaf_target 10 (pte32_ppn e) l addr)) at addr pc sys)"
  unfolding TranslateSv32_def walk32_def sv32_vpns_def Let_def page_walk.simps rbind_assoc
    sv32_entry_addr entry_eqs or_trap_cond or_trap_permits sv32_target [unfolded Suc_levels]
  by (intro rbind_cong refl) (simp add: walk_translate_simps cong: rbind_cong if_cong)

lemma TranslateSv39_walk:
  "TranslateSv39 at addr pc sys =
     rbind (walk64 sys (sv39_vpns addr)) (walk_translate UpdateEntry64
       (\<lambda>l e. ZeroExtend 39 (leaf_target 9 (pte64_ppn e) l addr)) at addr pc sys)"
  unfolding TranslateSv39_def walk64_def sv39_vpns_def Let_def page_walk.simps rbind_assoc
    sv39_entry_addr entry_eqs or_trap_cond or_trap_permits sv39_target [unfolded Suc_levels]
  by (intro rbind_cong refl) (simp add: walk_translate_simps cong: rbind_cong if_cong)

lemma TranslateSv48_walk:
  "TranslateSv48 at addr pc sys =
     rbind (walk64 sys (sv48_vpns addr)) (walk_translate UpdateEntry64
       (\<lambda>l e. ZeroExtend 48 (leaf_target 9 (pte64_ppn e) l addr)) at addr pc sys)"
  unfolding TranslateSv48_def walk64_def sv48_vpns_def Let_def page_walk.simps rbind_assoc
    sv48_entry_addr entry_eqs or_trap_cond or_trap_permits sv48_target [unfolded Suc_levels]
  by (intro rbind_cong refl) (simp add: walk_translate_simps cong: rbind_cong if_cong)

section \<open>Consequences\<close>

lemma page_walk_leaf_valid:
  "page_walk rd ppn width vpns base = Inr (WalkLeaf l e ea) \<Longrightarrow> \<not> pte_invalid e \<and> rd ea = Inr e \<and> l < length vpns"
  by (induction rd ppn width vpns base rule: page_walk.induct)
    (fastforce simp: Let_def rbind_Inr_iff split: if_splits intro: less_SucI)+

lemma walk_check_None:
  assumes "walk_check csr at pc addr aligned w = Inr None"
  obtains l e ea where "w = WalkLeaf l e ea" "csr_permits csr at e = Inr True" "aligned l e"
  using assms by (auto simp: walk_check_def rbind_Inr_iff split: walk.splits if_splits)

lemma walk_translate_permitted:
  assumes "csr_permits (sys_Csr sys) at e = Inr True"
  shows "walk_translate update target at addr pc sys (WalkLeaf l e ea) =
    rbind (update ea (at = Store) sys) (\<lambda>sys. Inr (TransAddr (target l e), sys))"
  by (simp add: walk_translate_def assms)

lemma walk_translate_addr:
  assumes "walk_translate update target at addr pc sys w = Inr (TransAddr p, sys')"
  obtains l e ea where "w = WalkLeaf l e ea" "csr_permits (sys_Csr sys) at e = Inr True"
    "p = target l e" "update ea (at = Store) sys = Inr sys'"
  using assms by (auto simp: walk_translate_def rbind_Inr_iff split: walk.splits if_splits)

lemma check_translate_sv32:
  assumes "CheckTrapSv32 sys at pc addr = Inr None"
  shows "TranslateSv32 at addr pc' sys \<noteq> Inr (TransTrap t, sys')"
proof -
  obtain w where w: "walk32 sys addr = Inr w"
    "walk_check (sys_Csr sys) at pc addr (\<lambda>l e. leaf_aligned 10 (pte32_ppn e) l) w = Inr None"
    using assms by (auto simp: CheckTrapSv32_walk rbind_Inr_iff)
  show ?thesis
    by (rule walk_check_None [OF w(2)])
      (auto simp: TranslateSv32_walk w(1) walk_translate_permitted rbind_Inr_iff)
qed

lemma check_translate_sv39:
  assumes "CheckTrapSv39 sys at pc addr = Inr None"
  shows "TranslateSv39 at addr pc' sys \<noteq> Inr (TransTrap t, sys')"
proof -
  obtain w where w: "walk64 sys (sv39_vpns addr) = Inr w"
    "walk_check (sys_Csr sys) at pc addr (\<lambda>l e. leaf_aligned 9 (pte64_ppn e) l) w = Inr None"
    using assms by (auto simp: CheckTrapSv39_walk rbind_Inr_iff)
  show ?thesis
    by (rule walk_check_None [OF w(2)])
      (auto simp: TranslateSv39_walk w(1) walk_translate_permitted rbind_Inr_iff)
qed

text \<open>What the second walk of a load or store relies on: in these modes it cannot trap.\<close>

lemma check_then_translate:
  assumes "MemoryAccessUnit_CheckTrap sys at pc addr = Inr None"
    and "GetAddresssTranslationMode (sys_XLEN sys) (sys_Csr sys) at \<in> {Inr Bare, Inr Sv32, Inr Sv39}"
  shows "Translate at addr pc' sys \<noteq> Inr (TransTrap t, sys')"
  using assms check_translate_sv32 check_translate_sv39
  by (auto simp: MemoryAccessUnit_CheckTrap_def Translate_def)

section \<open>Updates of an entry\<close>

lemma mem_ReadUInt64_ram:
  assumes "system_map sys" "ram_range sys a 8"
  shows "\<exists>bs. bus_read sys 8 a = Inr bs \<and> length bs = 8 \<and> mem_ReadUInt64 sys a = Inr (of_bytes bs)"
proof -
  have "0 < (8 :: nat)" by simp
  from ram.rd_cells [OF this ram_range_offset [OF assms(2)]] show ?thesis
    by (simp add: mem_ReadUInt64_def Bus_ReadUInt64_def bus_read_def [symmetric] bus_read_ram [OF assms])
qed

lemma UpdateEntry64_ram:
  assumes "system_map sys" "ram_range sys ea 8" "UpdateEntry64 ea w sys = Inr sys'"
  obtains e where "mem_ReadUInt64 sys ea = Inr e"
    and "bus_write (to_bytes 8 (if w then SetMember PageTableEntry_D 1 (SetMember PageTableEntry_A 1 e)
           else SetMember PageTableEntry_A 1 e)) ea sys = Inr sys'"
  using assms by (auto simp: UpdateEntry64_def rbind_Inr_iff mem_WriteUInt64_def Bus_WriteUInt64_def
      bus_write_def Let_def)

section \<open>A sample table\<close>

text \<open>
  A machine with 64 bytes of Ram whose first entry is a leaf for a user page of 1 GiB, used to
  instantiate the properties: the Sv39 root table is at the base of Ram.
\<close>

definition sample_entry :: uint64 where
  "sample_entry = 0x200000df"

definition sample_csr :: Csr where
  "sample_csr = (Csr_zero XLEN64 0 0)\<lparr> m_Priv := User,
     m_SupervisorAddressTranslationProtection := 0x8000000000080000 \<rparr>"

definition sample_system :: System where
  "sample_system = \<lparr> sys_XLEN = XLEN64, sys_EventList = [], sys_Bus = System_Bus 64,
     sys_Ram = \<lparr> m_Capacity = 64, m_Body = (\<lambda>i. if i < 8 then to_bytes 8 sample_entry ! i else 0) \<rparr>,
     sys_Rom = Rom_new, sys_Clint = Clint_init, sys_Plic = Plic_init,
     sys_Uart16550 = Uart16550_init, sys_Uart = Uart_init, sys_Timer = Timer_init,
     sys_HostIoAddress = 0, sys_AtomicManager = AtomicManager_init, sys_Csr = sample_csr,
     sys_InterruptController = InterruptController_init, sys_FpRegFile = FpRegFile_init,
     sys_IntRegFile = IntRegFile_init, sys_OpCount = 0, sys_FpEnv = FpEnv_init \<rparr>"

lemma sample_map: "system_map sample_system" "ram_range sample_system AddrRam 8"
  by (simp_all add: system_map_def ram_range_def sample_system_def)

lemma sample_read: "mem_ReadUInt64 sample_system AddrRam = Inr sample_entry"
proof -
  have "bus_read sample_system 8 AddrRam = Inr (map (\<lambda>i. to_bytes 8 sample_entry ! i) [0..<8])"
    using bus_read_ram [OF sample_map] ram.rd_cells [of 8 0 "sys_Ram sample_system"]
    by (simp add: sample_system_def)
  also have "map (\<lambda>i. to_bytes 8 sample_entry ! i) [0..<8] = to_bytes 8 sample_entry"
    by (rule nth_equalityI) simp_all
  finally show ?thesis
    by (simp add: mem_ReadUInt64_def Bus_ReadUInt64_def bus_read_def of_bytes_to_bytes)
qed

lemma sample_walk: "walk64 sample_system (sv39_vpns 0x1234) = Inr (WalkLeaf 2 sample_entry AddrRam)"
proof -
  have "GetMember satp_PPN_RV64 (m_SupervisorAddressTranslationProtection (sys_Csr sample_system)) = 0x80000"
    by (simp add: sample_system_def sample_csr_def GetMember_def Mask_def)
  moreover have "GetMember (38, 30) (0x1234 :: uint64) = 0" by (simp add: GetMember_def Mask_def)
  moreover have "\<not> pte_invalid sample_entry" "pte_leaf sample_entry"
    by (simp_all add: pte_invalid_def pte_leaf_def sample_entry_def)
  ultimately show ?thesis
    using sample_read by (simp add: walk64_def sv39_vpns_def Let_def numeral_2_eq_2)
qed

lemma sample_permits: "csr_permits (sys_Csr sample_system) Load sample_entry = Inr True"
  by (simp add: csr_permits_def GetEffectivePrivilegeLevel_def Csr_ReadStatus_def sample_system_def
      sample_csr_def Csr_zero_def pte_permits_def sample_entry_def GetMember_def Mask_def Let_def)

lemma sample_mode: "GetAddresssTranslationMode XLEN64 (sys_Csr sample_system) Load = Inr Sv39"
  by (simp add: GetAddresssTranslationMode_def GetEffectivePrivilegeLevel_def Csr_ReadStatus_def
      sample_system_def sample_csr_def Csr_zero_def GetMember_def Mask_def Let_def
      AddressTranslationMode_cast_def)

lemma sample_update: "\<exists>sys'. UpdateEntry64 AddrRam w sample_system = Inr sys'"
proof -
  have "\<exists>sys'. bus_write (to_bytes 8 (v :: uint64)) AddrRam sample_system = Inr sys'" for v
  proof -
    have "ram_range sample_system AddrRam (length (to_bytes 8 v))" by (simp add: sample_map)
    moreover obtain r where "Ram_Write (to_bytes 8 v) 0 (sys_Ram sample_system) = Inr r"
      using ram.wr_ok [of "to_bytes 8 v" 0 "sys_Ram sample_system"] by (auto simp: sample_system_def)
    ultimately show ?thesis by (simp add: bus_write_ram [OF sample_map(1)])
  qed
  then show ?thesis
    by (simp add: UpdateEntry64_def sample_read mem_WriteUInt64_def Bus_WriteUInt64_def
        bus_write_def [symmetric] Let_def)
qed

section \<open>Properties\<close>

text \<open>
  C26. The page table check of Sv32 and Sv39 is the abstract walk: it passes exactly when the walk
  ends in a leaf that permits the access and is aligned to its size, and reports a page fault of the
  kind of the access otherwise.
\<close>

theorem check_refines_walk:
  "CheckTrapSv32 sys at pc addr = rbind (walk32 sys addr)
      (walk_check (sys_Csr sys) at pc addr (\<lambda>l e. leaf_aligned 10 (pte32_ppn e) l)) \<and>
   CheckTrapSv39 sys at pc addr = rbind (walk64 sys (sv39_vpns addr))
      (walk_check (sys_Csr sys) at pc addr (\<lambda>l e. leaf_aligned 9 (pte64_ppn e) l))"
  by (simp add: CheckTrapSv32_walk CheckTrapSv39_walk)

text \<open>
  C25. Translation of Sv32, Sv39 and Sv48 is the same abstract walk: it traps when the walk faults or
  the leaf does not permit the access, and otherwise updates the leaf entry and yields the leaf's
  page number above the page offset of the virtual address, cut to 32, 39 or 48 bits.
\<close>

theorem translate_refines_walk:
  "TranslateSv32 at addr pc sys = rbind (walk32 sys addr) (walk_translate UpdateEntry32
      (\<lambda>l e. take_bit 32 (leaf_target 10 (pte32_ppn e) l addr)) at addr pc sys) \<and>
   TranslateSv39 at addr pc sys = rbind (walk64 sys (sv39_vpns addr)) (walk_translate UpdateEntry64
      (\<lambda>l e. take_bit 39 (leaf_target 9 (pte64_ppn e) l addr)) at addr pc sys) \<and>
   TranslateSv48 at addr pc sys = rbind (walk64 sys (sv48_vpns addr)) (walk_translate UpdateEntry64
      (\<lambda>l e. take_bit 48 (leaf_target 9 (pte64_ppn e) l addr)) at addr pc sys)"
  by (simp add: TranslateSv32_walk TranslateSv39_walk TranslateSv48_walk ZeroExtend_take_bit)

text \<open>
  The check of Sv48 indexes its last table with the third page number of the address again, so it
  inspects another entry than the one the translation uses.
\<close>

theorem sv48_check_last_level:
  "CheckTrapSv48 sys at pc addr = rbind (walk64 sys (butlast (sv48_vpns addr) @ [sv48_vpns addr ! 2]))
     (walk_check (sys_Csr sys) at pc addr (\<lambda>l e. leaf_aligned 9 (pte64_ppn e) l))"
  by (simp add: CheckTrapSv48_walk sv48_vpns_def numeral_2_eq_2)

text \<open>
  A translation only succeeds through a valid leaf entry that permits the access at the effective
  level: in Sv39 there is a walk to an entry with the V bit, whose R, W, X and U bits allow the access,
  the address is that entry's, and the only change to the machine is the update of the entry.
\<close>

theorem sv39_translation_sound:
  assumes "TranslateSv39 at addr pc sys = Inr (TransAddr p, sys')"
  shows "\<exists>l e ea priv status. walk64 sys (sv39_vpns addr) = Inr (WalkLeaf l e ea)
    \<and> mem_ReadUInt64 sys ea = Inr e \<and> bit e 0 \<and> l < 3
    \<and> GetEffectivePrivilegeLevel (sys_Csr sys) at = Inr priv \<and> Csr_ReadStatus (sys_Csr sys) = Inr status
    \<and> pte_permits priv (bit status 18) (bit status 19) at e
    \<and> p = take_bit 39 (leaf_target 9 (pte64_ppn e) l addr)
    \<and> UpdateEntry64 ea (at = Store) sys = Inr sys'"
proof -
  obtain w where w: "walk64 sys (sv39_vpns addr) = Inr w"
    "walk_translate UpdateEntry64 (\<lambda>l e. ZeroExtend 39 (leaf_target 9 (pte64_ppn e) l addr)) at addr pc sys w
       = Inr (TransAddr p, sys')"
    using assms by (auto simp: TranslateSv39_walk rbind_Inr_iff)
  obtain l e ea where l: "w = WalkLeaf l e ea" "csr_permits (sys_Csr sys) at e = Inr True"
    "p = take_bit 39 (leaf_target 9 (pte64_ppn e) l addr)" "UpdateEntry64 ea (at = Store) sys = Inr sys'"
    by (rule walk_translate_addr [OF w(2)]) (simp add: ZeroExtend_take_bit)
  have "\<not> pte_invalid e" "mem_ReadUInt64 sys ea = Inr e" "l < 3"
    using page_walk_leaf_valid [OF w(1) [unfolded l(1) walk64_def]] by (simp_all add: sv39_vpns_def)
  then show ?thesis
    using w(1) l by (auto simp: csr_permits_def rbind_Inr_iff pte_invalid_def)
qed

text \<open>
  What the update of an entry in Ram does: the accessed bit is set, the dirty bit is set for a
  store, every other bit of the entry is kept, and memory outside the entry's eight bytes reads as
  before.
\<close>

theorem update_entry_bits:
  assumes "system_map sys" "ram_range sys ea 8" "UpdateEntry64 ea w sys = Inr sys'"
  shows "\<exists>e e'. mem_ReadUInt64 sys ea = Inr e \<and> mem_ReadUInt64 sys' ea = Inr e'
    \<and> (\<forall>k. bit e' k \<longleftrightarrow> k = 6 \<or> k = 7 \<and> w \<or> bit e k)
    \<and> (\<forall>b n. ram_range sys b n \<and> (unat b + n \<le> unat ea \<or> unat ea + 8 \<le> unat b) \<longrightarrow>
          bus_read sys' n b = bus_read sys n b)"
proof -
  obtain e where e: "mem_ReadUInt64 sys ea = Inr e" and u:
    "bus_write (to_bytes 8 (if w then SetMember PageTableEntry_D 1 (SetMember PageTableEntry_A 1 e)
       else SetMember PageTableEntry_A 1 e)) ea sys = Inr sys'" (is "bus_write (to_bytes 8 ?e') ea sys = _")
    using UpdateEntry64_ram [OF assms] by blast
  have r: "ram_range sys ea (length (to_bytes 8 ?e'))" using assms(2) by simp
  have e': "mem_ReadUInt64 sys' ea = Inr ?e'"
    using bus_ram_read_write(1) [OF assms(1) r u]
    by (simp add: mem_ReadUInt64_def Bus_ReadUInt64_def bus_read_def of_bytes_to_bytes)
  moreover have "\<forall>k. bit ?e' k \<longleftrightarrow> k = 6 \<or> k = 7 \<and> w \<or> bit e k"
    by (auto simp: bit_SetMember dest: bit_imp_le_length)
  moreover have "\<forall>b n. ram_range sys b n \<and> (unat b + n \<le> unat ea \<or> unat ea + 8 \<le> unat b) \<longrightarrow>
      bus_read sys' n b = bus_read sys n b"
    by (intro allI impI, rule bus_ram_read_write(2) [OF assms(1) r u]) auto
  ultimately show ?thesis using e by blast
qed

text \<open>
  In the Bare, Sv32 and Sv39 modes a load or store that passed the check cannot meet a trap when it
  translates the address again, so it never uses an address that was not computed.
\<close>

theorem checked_access_translates:
  assumes "MemoryAccessUnit_CheckTrap sys at pc addr = Inr None"
    and "GetAddresssTranslationMode (sys_XLEN sys) (sys_Csr sys) at \<in> {Inr Bare, Inr Sv32, Inr Sv39}"
  shows "Translate at addr pc' sys \<noteq> Inr (TransTrap t, sys')"
  by (rule check_then_translate [OF assms])

lemma checked_access_translates_witness:
  "Translate Load 0x1234 0 sample_system \<noteq> Inr (TransTrap (MakeTrap Load 0 0x1234), sample_system)"
proof (rule checked_access_translates)
  show "MemoryAccessUnit_CheckTrap sample_system Load 0 0x1234 = Inr None"
    using sample_mode by (simp add: MemoryAccessUnit_CheckTrap_def sample_system_def [THEN arg_cong, of sys_XLEN]
      CheckTrapSv39_walk sample_walk walk_check_def sample_permits [unfolded sample_entry_def] leaf_aligned_def pte64_ppn_def
      sample_entry_def GetMember_def Mask_def)
  show "GetAddresssTranslationMode (sys_XLEN sample_system) (sys_Csr sample_system) Load
      \<in> {Inr Bare, Inr Sv32, Inr Sv39}"
    using sample_mode by (simp add: sample_system_def [THEN arg_cong, of sys_XLEN])
qed

lemma update_entry_bits_witness:
  "\<exists>sys' e'. UpdateEntry64 AddrRam True sample_system = Inr sys'
    \<and> mem_ReadUInt64 sys' AddrRam = Inr e' \<and> bit e' 7"
proof -
  obtain sys' where "UpdateEntry64 AddrRam True sample_system = Inr sys'" using sample_update by blast
  with update_entry_bits [OF sample_map this] show ?thesis by blast
qed

lemma sv39_translation_sound_witness:
  "\<exists>sys'. TranslateSv39 Load 0x1234 0 sample_system = Inr (TransAddr 0x80001234, sys')
    \<and> UpdateEntry64 AddrRam False sample_system = Inr sys'"
proof -
  obtain sys' where u: "UpdateEntry64 AddrRam False sample_system = Inr sys'" using sample_update by blast
  have "ZeroExtend 39 (leaf_target 9 (pte64_ppn sample_entry) 2 0x1234) = (0x80001234 :: uint64)"
    by (simp add: leaf_target_def pte64_ppn_def sample_entry_def GetMember_def Mask_def ZeroExtend_def
        take_bit_eq_mask mask_eq_exp_minus_1)
  then have t: "TranslateSv39 Load 0x1234 0 sample_system = Inr (TransAddr 0x80001234, sys')"
    using u by (simp add: TranslateSv39_walk sample_walk walk_translate_permitted [OF sample_permits])
  from sv39_translation_sound [OF t] have "UpdateEntry64 AddrRam (Load = Store) sample_system = Inr sys'"
    using sample_walk by auto
  with t u show ?thesis by simp
qed

end
