(* ===== verification/MemoryLaws.thy ===== *)
theory MemoryLaws
  imports ExecutorLaws PageWalk
begin

text \<open>
  The memory instructions on Ram, without translation: a store and a load of the same address, the
  read-modify-write instructions against a reference on integers, and the pairing of load-reserved and
  store-conditional. The state is compared byte by byte, so each theorem also says what stays.
\<close>

section \<open>Ram as the hart sees it\<close>

definition bare :: "System \<Rightarrow> bool" where
  "bare s \<longleftrightarrow> system_map s \<and> sys_XLEN s = XLEN64 \<and>
     GetAddresssTranslationMode XLEN64 (sys_Csr s) Load = Inr Bare \<and>
     GetAddresssTranslationMode XLEN64 (sys_Csr s) Store = Inr Bare"

definition ram_bytes :: "System \<Rightarrow> nat \<Rightarrow> paddr_t \<Rightarrow> bytes" where
  "ram_bytes s n a = map (\<lambda>i. m_Body (sys_Ram s) (unat (a - AddrRam) + i)) [0..<n]"

definition ram_value :: "System \<Rightarrow> nat \<Rightarrow> paddr_t \<Rightarrow> 'a::len word" where
  "ram_value s n a = of_bytes (ram_bytes s n a)"

definition ram_elsewhere :: "System \<Rightarrow> nat \<Rightarrow> paddr_t \<Rightarrow> System \<Rightarrow> bool" where
  "ram_elsewhere s n a t \<longleftrightarrow> m_Capacity (sys_Ram t) = m_Capacity (sys_Ram s) \<and>
     (\<forall>i. i < unat (a - AddrRam) \<or> unat (a - AddrRam) + n \<le> i \<longrightarrow> m_Body (sys_Ram t) i = m_Body (sys_Ram s) i)"

text \<open>A step that touches Ram and the trace only.\<close>

definition ram_step :: "System \<Rightarrow> System \<Rightarrow> bool" where
  "ram_step s t \<longleftrightarrow> t = s\<lparr> sys_Ram := sys_Ram t, sys_EventList := sys_EventList t \<rparr>"

lemma ram_step_fields:
  assumes "ram_step s t"
  shows "sys_IntRegFile t = sys_IntRegFile s" "sys_Csr t = sys_Csr s" "sys_AtomicManager t = sys_AtomicManager s"
    "sys_XLEN t = sys_XLEN s" "sys_Bus t = sys_Bus s" "x_reg t r = x_reg s r"
proof -
  obtain ram es where t: "t = s\<lparr> sys_Ram := ram, sys_EventList := es \<rparr>" using assms ram_step_def by blast
  show "sys_IntRegFile t = sys_IntRegFile s" "sys_Csr t = sys_Csr s" "sys_AtomicManager t = sys_AtomicManager s"
    "sys_XLEN t = sys_XLEN s" "sys_Bus t = sys_Bus s" "x_reg t r = x_reg s r"
    by (simp_all add: t x_reg_def)
qed

lemma ram_step_AddEvent:
  assumes "ram_step s t"
  shows "ram_step s (AddEvent at sz x va pa t)"
proof -
  obtain ram es where "t = s\<lparr> sys_Ram := ram, sys_EventList := es \<rparr>" using assms ram_step_def by blast
  then show ?thesis by (simp add: ram_step_def AddEvent_def)
qed

lemma bare_Translate:
  assumes "bare s" "at \<noteq> Instruction"
  shows "Translate at a pc s = Inr (TransAddr a, s)"
  using assms by (cases at) (simp_all add: Translate_def bare_def)

lemma bus_read_bytes:
  assumes "bare s" "ram_range s a n"
  shows "bus_read s n a = Inr (ram_bytes s n a)"
  using ram.rd_cells [of n "a - AddrRam" "sys_Ram s"] assms ram_range_offset [OF assms(2)]
  by (simp add: bus_read_ram bare_def ram_bytes_def) (simp add: ram_range_def)

lemma bus_write_bytes:
  assumes "bare s" "ram_range s a (length bs)"
  shows "\<exists>t. bus_write bs a s = Inr t \<and> ram_step s t \<and> ram_bytes t (length bs) a = bs \<and>
    ram_elsewhere s (length bs) a t \<and> sys_EventList t = sys_EventList s"
proof -
  have off: "0 < length bs" "unat (a - AddrRam) + length bs \<le> unat (m_Capacity (sys_Ram s))"
    using ram_range_offset [OF assms(2)] assms(2) by (simp_all add: ram_range_def)
  obtain ram where w: "Ram_Write bs (a - AddrRam) (sys_Ram s) = Inr ram" using ram.wr_ok [OF off] by blast
  have b: "bus_write bs a s = Inr (s\<lparr> sys_Ram := ram \<rparr>)"
    using assms by (simp add: bus_write_ram bare_def w)
  have "m_Capacity ram = m_Capacity (sys_Ram s)" using w by (auto simp: Ram_Write_def rbind_Inr_iff)
  moreover have "ram_bytes (s\<lparr> sys_Ram := ram \<rparr>) (length bs) a = bs"
    by (rule nth_equalityI) (simp_all add: ram_bytes_def ram.wr_cell [OF w])
  ultimately show ?thesis
    by (intro exI [of _ "s\<lparr> sys_Ram := ram \<rparr>"])
      (auto simp: b ram_step_def ram_elsewhere_def ram.wr_cell [OF w])
qed

lemma bare_step: "bare s \<Longrightarrow> ram_step s t \<Longrightarrow> ram_elsewhere s n a t \<Longrightarrow> bare t"
  by (simp add: bare_def system_map_def ram_step_fields ram_elsewhere_def)

section \<open>Loads and stores\<close>

lemma Load_ram:
  assumes "bare s"
  shows "ram_range s a 1 \<Longrightarrow> LoadUInt8 a s = Inr (ram_value s 1 a, AddEvent Load 1 (ucast (ram_value s 1 a :: uint8)) a a s)"
    "ram_range s a 2 \<Longrightarrow> LoadUInt16 a s = Inr (ram_value s 2 a, AddEvent Load 2 (ucast (ram_value s 2 a :: uint16)) a a s)"
    "ram_range s a 4 \<Longrightarrow> LoadUInt32 a s = Inr (ram_value s 4 a, AddEvent Load 4 (ucast (ram_value s 4 a :: uint32)) a a s)"
    "ram_range s a 8 \<Longrightarrow> LoadUInt64 a s = Inr (ram_value s 8 a, AddEvent Load 8 (ram_value s 8 a) a a s)"
  using assms
  by (simp_all add: LoadUInt8_def mem_ReadUInt8_def Bus_ReadUInt8_def LoadUInt16_def mem_ReadUInt16_def Bus_ReadUInt16_def LoadUInt32_def mem_ReadUInt32_def Bus_ReadUInt32_def LoadUInt64_def mem_ReadUInt64_def Bus_ReadUInt64_def
    use_address_def bare_Translate bus_read_bytes [unfolded bus_read_def] ram_value_def)

lemma of_bytes_ram_bytes:
  "ram_bytes t n a = to_bytes n v \<Longrightarrow> LENGTH('a) \<le> 8 * n \<Longrightarrow> ram_value t n a = (v :: 'a::len word)"
  by (simp add: ram_value_def of_bytes_to_bytes)

lemma stored_bytes:
  assumes "bare s" "ram_range s a n" "LENGTH('a) \<le> 8 * n"
  shows "\<exists>t. bus_write (to_bytes n (v :: 'a::len word)) a s = Inr t \<and>
    ram_step s (AddEvent at sz x va pa t) \<and> ram_value (AddEvent at sz x va pa t) n a = v \<and>
    ram_elsewhere s n a (AddEvent at sz x va pa t)"
proof -
  have r: "ram_range s a (length (to_bytes n v))" using assms(2) by simp
  obtain t where t: "bus_write (to_bytes n v) a s = Inr t" "ram_step s t" "ram_bytes t n a = to_bytes n v"
    "ram_elsewhere s n a t"
    using bus_write_bytes [OF assms(1) r] by auto
  have "ram_step s (AddEvent at sz x va pa t)"
    using t(2) by (rule ram_step_AddEvent)
  moreover have "ram_value (AddEvent at sz x va pa t) n a = v"
    using of_bytes_ram_bytes [OF t(3) assms(3)] by (simp add: ram_value_def ram_bytes_def AddEvent_def)
  moreover have "ram_elsewhere s n a (AddEvent at sz x va pa t)"
    using t(4) by (simp add: ram_elsewhere_def AddEvent_def)
  ultimately show ?thesis using t(1) by blast
qed

lemma Store_ram_8:
  assumes "bare s" "ram_range s a 1"
  shows "\<exists>t. StoreUInt8 a v s = Inr t \<and> ram_step s t \<and> ram_value t 1 a = v \<and> ram_elsewhere s 1 a t"
proof -
  obtain t where "bus_write (to_bytes 1 v) a s = Inr t" "ram_step s (AddEvent Store 1 (ucast v) a a t)"
    "ram_value (AddEvent Store 1 (ucast v) a a t) 1 a = v" "ram_elsewhere s 1 a (AddEvent Store 1 (ucast v) a a t)"
    using stored_bytes [OF assms, where v = v and at = Store and sz = 1 and x = "ucast v" and va = a and pa = a] by auto
  then show ?thesis
    by (simp add: StoreUInt8_def mem_WriteUInt8_def Bus_WriteUInt8_def use_address_def bus_write_def bare_Translate assms(1))
qed

lemma Store_ram_16:
  assumes "bare s" "ram_range s a 2"
  shows "\<exists>t. StoreUInt16 a v s = Inr t \<and> ram_step s t \<and> ram_value t 2 a = v \<and> ram_elsewhere s 2 a t"
proof -
  obtain t where "bus_write (to_bytes 2 v) a s = Inr t" "ram_step s (AddEvent Store 2 (ucast v) a a t)"
    "ram_value (AddEvent Store 2 (ucast v) a a t) 2 a = v" "ram_elsewhere s 2 a (AddEvent Store 2 (ucast v) a a t)"
    using stored_bytes [OF assms, where v = v and at = Store and sz = 2 and x = "ucast v" and va = a and pa = a] by auto
  then show ?thesis
    by (simp add: StoreUInt16_def mem_WriteUInt16_def Bus_WriteUInt16_def use_address_def bus_write_def bare_Translate assms(1))
qed

lemma Store_ram_32:
  assumes "bare s" "ram_range s a 4"
  shows "\<exists>t. StoreUInt32 a v s = Inr t \<and> ram_step s t \<and> ram_value t 4 a = v \<and> ram_elsewhere s 4 a t"
proof -
  obtain t where "bus_write (to_bytes 4 v) a s = Inr t" "ram_step s (AddEvent Store 4 (ucast v) a a t)"
    "ram_value (AddEvent Store 4 (ucast v) a a t) 4 a = v" "ram_elsewhere s 4 a (AddEvent Store 4 (ucast v) a a t)"
    using stored_bytes [OF assms, where v = v and at = Store and sz = 4 and x = "ucast v" and va = a and pa = a] by auto
  then show ?thesis
    by (simp add: StoreUInt32_def mem_WriteUInt32_def Bus_WriteUInt32_def use_address_def bus_write_def bare_Translate assms(1))
qed

lemma Store_ram_64:
  assumes "bare s" "ram_range s a 8"
  shows "\<exists>t. StoreUInt64 a v s = Inr t \<and> ram_step s t \<and> ram_value t 8 a = v \<and> ram_elsewhere s 8 a t"
proof -
  obtain t where "bus_write (to_bytes 8 v) a s = Inr t" "ram_step s (AddEvent Store 8 (v) a a t)"
    "ram_value (AddEvent Store 8 (v) a a t) 8 a = v" "ram_elsewhere s 8 a (AddEvent Store 8 (v) a a t)"
    using stored_bytes [OF assms, where v = v and at = Store and sz = 8 and x = "v" and va = a and pa = a] by auto
  then show ?thesis
    by (simp add: StoreUInt64_def mem_WriteUInt64_def Bus_WriteUInt64_def use_address_def bus_write_def bare_Translate assms(1))
qed

section \<open>Register writes and the reservation\<close>

definition set_reg :: "int \<Rightarrow> uint64 \<Rightarrow> System \<Rightarrow> System" where
  "set_reg r v s = (if r = 0 then s else
     s\<lparr> sys_IntRegFile := (sys_IntRegFile s)\<lparr> m_IntEntries := (m_IntEntries (sys_IntRegFile s))(r := v) \<rparr> \<rparr>)"

lemma write_ok:
  "reg r \<Longrightarrow> int_WriteInt64 r v s = Inr (set_reg r v s)" "reg r \<Longrightarrow> int_WriteUInt64 r v s = Inr (set_reg r v s)"
  by (simp_all add: int_WriteInt64_def int_WriteUInt64_def with_IntRegFile_def IntRegFile_write_defs set_reg_def)

lemma set_reg_fields [simp]:
  "sys_Ram (set_reg r v s) = sys_Ram s" "sys_Csr (set_reg r v s) = sys_Csr s" "sys_XLEN (set_reg r v s) = sys_XLEN s"
  "sys_AtomicManager (set_reg r v s) = sys_AtomicManager s" "sys_Bus (set_reg r v s) = sys_Bus s"
  "x_reg (set_reg r v s) q = (if q = r \<and> r \<noteq> 0 then v else x_reg s q)"
  by (simp_all add: set_reg_def x_reg_def)

lemma reservation_fields [simp]:
  "sys_Ram (atomic_Cancel s) = sys_Ram s" "sys_Csr (atomic_Cancel s) = sys_Csr s" "sys_XLEN (atomic_Cancel s) = sys_XLEN s"
  "sys_Bus (atomic_Cancel s) = sys_Bus s" "x_reg (atomic_Cancel s) q = x_reg s q"
  "m_Reserved (sys_AtomicManager (atomic_Cancel s)) = False"
  "sys_Ram (atomic_Reserve a s) = sys_Ram s" "sys_Csr (atomic_Reserve a s) = sys_Csr s"
  "sys_XLEN (atomic_Reserve a s) = sys_XLEN s" "sys_Bus (atomic_Reserve a s) = sys_Bus s"
  "x_reg (atomic_Reserve a s) q = x_reg s q"
  "m_Reserved (sys_AtomicManager (atomic_Reserve a s))" "m_Address (sys_AtomicManager (atomic_Reserve a s)) = a"
  by (simp_all add: atomic_Cancel_def atomic_Reserve_def AtomicManager_Cancel_def AtomicManager_Reserve_def x_reg_def)

lemma AddEvent_fields [simp]:
  "sys_Ram (AddEvent at sz v va pa s) = sys_Ram s" "sys_Csr (AddEvent at sz v va pa s) = sys_Csr s"
  "sys_XLEN (AddEvent at sz v va pa s) = sys_XLEN s" "sys_Bus (AddEvent at sz v va pa s) = sys_Bus s"
  "x_reg (AddEvent at sz v va pa s) q = x_reg s q"
  "sys_AtomicManager (AddEvent at sz v va pa s) = sys_AtomicManager s"
  by (simp_all add: AddEvent_def x_reg_def)

lemma same_ram:
  assumes "sys_Ram t = sys_Ram s"
  shows "ram_value t n a = ram_value s n a" "ram_range t = ram_range s" "ram_elsewhere s n a t"
    "ram_elsewhere t n a u = ram_elsewhere s n a u" "ram_elsewhere u n a t = ram_elsewhere u n a s"
  using assms by (simp_all add: ram_value_def ram_bytes_def ram_range_def ram_elsewhere_def fun_eq_iff)

lemma same_bare:
  "sys_Ram t = sys_Ram s \<Longrightarrow> sys_Bus t = sys_Bus s \<Longrightarrow> sys_XLEN t = sys_XLEN s \<Longrightarrow> sys_Csr t = sys_Csr s \<Longrightarrow> bare t = bare s"
  by (simp add: bare_def system_map_def)

lemma set_reg_ram [simp]:
  "ram_value (set_reg r v t) n a = ram_value t n a" "ram_elsewhere s n a (set_reg r v t) = ram_elsewhere s n a t"
  by (rule same_ram; simp)+

text \<open>The effect of an atomic instruction: one place in Ram, one register, no reservation left.\<close>

definition atomic_effect :: "System \<Rightarrow> paddr_t \<Rightarrow> ('a::len) word \<Rightarrow> int \<Rightarrow> uint64 \<Rightarrow> System \<Rightarrow> bool" where
  "atomic_effect s a new rd old t \<longleftrightarrow>
     ram_value t (LENGTH('a) div 8) a = new \<and> ram_elsewhere s (LENGTH('a) div 8) a t \<and>
     (\<forall>q. x_reg t q = (if q = rd \<and> rd \<noteq> 0 then old else x_reg s q)) \<and>
     \<not> m_Reserved (sys_AtomicManager t) \<and> sys_Csr t = sys_Csr s"

section \<open>Read-modify-write\<close>

definition amo_result :: "OpCodeA \<Rightarrow> 'a::len word \<Rightarrow> 'a word \<Rightarrow> 'a word" where
  "amo_result code old src = (
     if code = op_amoswap_w \<or> code = op_amoswap_d then src
     else if code = op_amoadd_w \<or> code = op_amoadd_d then word_of_int (sint old + sint src)
     else if code = op_amoxor_w \<or> code = op_amoxor_d then old XOR src
     else if code = op_amoand_w \<or> code = op_amoand_d then old AND src
     else if code = op_amoor_w \<or> code = op_amoor_d then old OR src
     else word_of_int (
       if code = op_amomax_w \<or> code = op_amomax_d then max (sint old) (sint src)
       else if code = op_amomin_w \<or> code = op_amomin_d then min (sint old) (sint src)
       else if code = op_amomaxu_w \<or> code = op_amomaxu_d then max (uint old) (uint src)
       else min (uint old) (uint src)))"

definition amo_codes_w :: "OpCodeA list" where
  "amo_codes_w = [op_amoswap_w, op_amoadd_w, op_amoxor_w, op_amoand_w, op_amoor_w, op_amomax_w, op_amomin_w,
     op_amomaxu_w, op_amominu_w]"

definition amo_codes_d :: "OpCodeA list" where
  "amo_codes_d = [op_amoswap_d, op_amoadd_d, op_amoxor_d, op_amoand_d, op_amoor_d, op_amomax_d, op_amomin_d,
     op_amomaxu_d, op_amominu_d]"

lemma minmax_words:
  "smax a b = word_of_int (max (sint a) (sint b))" "smin a b = word_of_int (min (sint a) (sint b))"
  "max a b = word_of_int (max (uint a) (uint b))" "min a b = word_of_int (min (uint a) (uint b))"
  "word_of_int (sint a + sint b) = a + b"
  by (auto simp: smax_def smin_def max_def min_def word_sless_alt word_le_def wi_hom_syms)

lemma amo_d:
  assumes "bare s" "operand op = OperandR rd rs1 rs2 f3 f7" "opCode op = rva code" "code \<in> set amo_codes_d"
    "reg rd" "reg rs1" "reg rs2" "ram_range s (x_reg s rs1) 8"
  shows "\<exists>t. ProcessRV64A op s = Inr t \<and>
    atomic_effect s (x_reg s rs1) (amo_result code (ram_value s 8 (x_reg s rs1) :: uint64) (x_reg s rs2)) rd
      (ram_value s 8 (x_reg s rs1)) t"
proof -
  define a where "a = x_reg s rs1"
  define old where "old = (ram_value s 8 a :: uint64)"
  define u where "u = AddEvent Load 8 (old) a a (atomic_Cancel s)"
  have u: "sys_Ram u = sys_Ram s" "sys_Bus u = sys_Bus s" "sys_XLEN u = sys_XLEN s" "sys_Csr u = sys_Csr s"
    "x_reg u q = x_reg s q" "\<not> m_Reserved (sys_AtomicManager u)" for q
    by (simp_all add: u_def)
  have c: "sys_Ram (atomic_Cancel s) = sys_Ram s" by simp
  have b: "bare (atomic_Cancel s)" "bare u" using assms(1) u same_bare [of "atomic_Cancel s" s] same_bare [of u s] by simp_all
  have r: "int_ReadUInt64 (atomic_Cancel s) rs1 = Inr a" "int_ReadUInt64 (atomic_Cancel s) rs2 = Inr (x_reg s rs2)"
    by (simp_all add: reads_ok assms(6,7) a_def)
  have load: "LoadUInt64 a (atomic_Cancel s) = Inr (old, u)"
    using assms(8) by (simp add: Load_ram [OF b(1)] same_ram [OF c] a_def old_def u_def)
  obtain t where t: "StoreUInt64 a (amo_result code old (x_reg s rs2)) u = Inr t" "ram_step u t"
    "ram_value t 8 a = amo_result code old (x_reg s rs2)" "ram_elsewhere s 8 a t"
    using Store_ram_64 [OF b(2)] assms(8) by (auto simp: same_ram [OF u(1)] a_def)
  have "ProcessRV64A op s = rbind (StoreUInt64 a (amo_result code old (x_reg s rs2)) u)
      (\<lambda>t. int_WriteUInt64 rd (old) t)"
    using assms(4) unfolding amo_codes_d_def list.set
    by (elim insertE emptyE) (simp_all add: ProcessRV64A_def ProcessRV64A_Atomic64_def assms(2,3) r load amo_result_def minmax_words
        SignExtend_32)
  then show ?thesis
    using t(3,4) u
    by (simp add: t(1) write_ok assms(5) atomic_effect_def ram_step_fields [OF t(2)] a_def [symmetric] old_def [symmetric])
qed

lemma amo_w:
  assumes "bare s" "operand op = OperandR rd rs1 rs2 f3 f7" "opCode op = rva code" "code \<in> set amo_codes_w"
    "reg rd" "reg rs1" "reg rs2" "ram_range s (x_reg s rs1) 4"
  shows "\<exists>t. ProcessRV64A op s = Inr t \<and>
    atomic_effect s (x_reg s rs1) (amo_result code (ram_value s 4 (x_reg s rs1) :: uint32) (ucast (x_reg s rs2))) rd
      (scast (ram_value s 4 (x_reg s rs1) :: uint32)) t"
proof -
  define a where "a = x_reg s rs1"
  define old where "old = (ram_value s 4 a :: uint32)"
  define u where "u = AddEvent Load 4 (ucast old) a a (atomic_Cancel s)"
  have u: "sys_Ram u = sys_Ram s" "sys_Bus u = sys_Bus s" "sys_XLEN u = sys_XLEN s" "sys_Csr u = sys_Csr s"
    "x_reg u q = x_reg s q" "\<not> m_Reserved (sys_AtomicManager u)" for q
    by (simp_all add: u_def)
  have c: "sys_Ram (atomic_Cancel s) = sys_Ram s" by simp
  have b: "bare (atomic_Cancel s)" "bare u" using assms(1) u same_bare [of "atomic_Cancel s" s] same_bare [of u s] by simp_all
  have r: "int_ReadUInt64 (atomic_Cancel s) rs1 = Inr a" "int_ReadUInt32 (atomic_Cancel s) rs2 = Inr (ucast (x_reg s rs2))"
    by (simp_all add: reads_ok assms(6,7) a_def entry_u32_def)
  have load: "LoadUInt32 a (atomic_Cancel s) = Inr (old, u)"
    using assms(8) by (simp add: Load_ram [OF b(1)] same_ram [OF c] a_def old_def u_def)
  obtain t where t: "StoreUInt32 a (amo_result code old (ucast (x_reg s rs2))) u = Inr t" "ram_step u t"
    "ram_value t 4 a = amo_result code old (ucast (x_reg s rs2))" "ram_elsewhere s 4 a t"
    using Store_ram_32 [OF b(2)] assms(8) by (auto simp: same_ram [OF u(1)] a_def)
  have "ProcessRV64A op s = rbind (StoreUInt32 a (amo_result code old (ucast (x_reg s rs2))) u)
      (\<lambda>t. int_WriteInt64 rd (scast old) t)"
    using assms(4) unfolding amo_codes_w_def list.set
    by (elim insertE emptyE) (simp_all add: ProcessRV64A_def ProcessRV64A_Atomic32_def assms(2,3) r load amo_result_def minmax_words
        SignExtend_32)
  then show ?thesis
    using t(3,4) u
    by (simp add: t(1) write_ok assms(5) atomic_effect_def ram_step_fields [OF t(2)] a_def [symmetric] old_def [symmetric])
qed

section \<open>Load-reserved and store-conditional\<close>

lemma lr_d:
  assumes "bare s" "operand op = OperandR rd rs1 rs2 f3 f7" "opCode op = rva op_lr_d"
    "reg rd" "reg rs1" "ram_range s (x_reg s rs1) 8"
  shows "\<exists>t. ProcessRV64A op s = Inr t \<and> bare t \<and> sys_Ram t = sys_Ram s \<and> sys_Csr t = sys_Csr s \<and>
    m_Reserved (sys_AtomicManager t) \<and> m_Address (sys_AtomicManager t) = x_reg s rs1 \<and>
    (\<forall>q. x_reg t q = (if q = rd \<and> rd \<noteq> 0 then ram_value s 8 (x_reg s rs1) else x_reg s q))"
proof -
  define a where "a = x_reg s rs1"
  define u where "u = atomic_Reserve a (atomic_Cancel s)"
  have u: "sys_Ram u = sys_Ram s" "sys_Bus u = sys_Bus s" "sys_XLEN u = sys_XLEN s" "sys_Csr u = sys_Csr s"
    "x_reg u q = x_reg s q" "m_Reserved (sys_AtomicManager u)" "m_Address (sys_AtomicManager u) = a" for q
    by (simp_all add: u_def)
  have b: "bare u" using assms(1) same_bare [of u s] u by simp
  have load: "LoadUInt64 a u = Inr (ram_value s 8 a, AddEvent Load 8 (ram_value s 8 a) a a u)"
    using assms(6) by (simp add: Load_ram [OF b] same_ram [OF u(1)] a_def)
  have e: "ProcessRV64A op s = Inr (set_reg rd (ram_value s 8 a) (AddEvent Load 8 (ram_value s 8 a) a a u))"
    by (simp add: ProcessRV64A_def ProcessRV64A_Load64_def assms(2-5) reads_ok write_ok load
        flip: a_def u_def)
  have "bare (set_reg rd (ram_value s 8 a) (AddEvent Load 8 (ram_value s 8 a) a a u))"
    using assms(1) same_bare [of "set_reg rd (ram_value s 8 a) (AddEvent Load 8 (ram_value s 8 a) a a u)" s] u by simp
  then show ?thesis using u by (simp add: e a_def [symmetric])
qed

lemma sc_d:
  fixes s :: System
  defines "ok rs1 \<equiv> m_Reserved (sys_AtomicManager s) \<and> m_Address (sys_AtomicManager s) = x_reg s rs1"
  assumes "bare s" "operand op = OperandR rd rs1 rs2 f3 f7" "opCode op = rva op_sc_d"
    "reg rd" "reg rs1" "reg rs2" "ram_range s (x_reg s rs1) 8"
  shows "\<exists>t. ProcessRV64A op s = Inr t \<and>
    atomic_effect s (x_reg s rs1) (if ok rs1 then x_reg s rs2 else ram_value s 8 (x_reg s rs1)) rd (if ok rs1 then 0 else 1) t"
proof -
  note sc = ProcessRV64A_def ProcessRV64A_Store64_def assms(3-7) reads_ok write_ok
  obtain t where t: "StoreUInt64 (x_reg s rs1) (x_reg s rs2) s = Inr t" "ram_step s t"
    "ram_value t 8 (x_reg s rs1) = x_reg s rs2" "ram_elsewhere s 8 (x_reg s rs1) t"
    using Store_ram_64 [OF assms(2,8)] by blast
  have r: "sys_Ram (atomic_Cancel u) = sys_Ram u" for u by simp
  show ?thesis
  proof (cases "ok rs1")
    case True
    then have "ProcessRV64A op s = Inr (atomic_Cancel (set_reg rd 0 t))" by (simp add: sc ok_def t(1))
    then show ?thesis
      using t(3,4) True by (simp add: atomic_effect_def same_ram [OF r] ram_step_fields [OF t(2)])
  next
    case False
    then have "ProcessRV64A op s = Inr (atomic_Cancel (set_reg rd 1 s))" by (auto simp: sc ok_def)
    then show ?thesis
      using False by (simp add: atomic_effect_def same_ram [OF r] ram_elsewhere_def)
  qed
qed

section \<open>Properties\<close>

text \<open>
  C11. The read-modify-write instructions are atomic updates of one place in Ram: amo.w and amo.d replace
  the value at the address in rs1 by the reference result of the old value and rs2 - the exact sum
  wrapped, signed and unsigned extrema on the integers - return the old value in rd, extended by sign
  for a word, keep every other byte, register and CSR, and leave no reservation.
\<close>

theorem amo_reference:
  assumes "bare s" "operand op = OperandR rd rs1 rs2 f3 f7" "opCode op = rva code" "reg rd" "reg rs1" "reg rs2"
  shows "(code \<in> set amo_codes_d \<and> ram_range s (x_reg s rs1) 8 \<longrightarrow> (\<exists>t. ProcessRV64A op s = Inr t \<and>
      atomic_effect s (x_reg s rs1) (amo_result code (ram_value s 8 (x_reg s rs1)) (x_reg s rs2)) rd
        (ram_value s 8 (x_reg s rs1)) t)) \<and>
    (code \<in> set amo_codes_w \<and> ram_range s (x_reg s rs1) 4 \<longrightarrow> (\<exists>t. ProcessRV64A op s = Inr t \<and>
      atomic_effect s (x_reg s rs1)
        (amo_result code (ram_value s 4 (x_reg s rs1) :: uint32) (ucast (x_reg s rs2))) rd
        (scast (ram_value s 4 (x_reg s rs1) :: uint32)) t))"
  using amo_d [OF assms(1-3) _ assms(4-6)] amo_w [OF assms(1-3) _ assms(4-6)] by blast

text \<open>
  C12. Load-reserved and store-conditional pair up: lr.d reads its place in Ram and reserves the
  address; an sc.d to the same address right after it stores rs2 and returns 0; if the reservation was
  cancelled in between it returns 1 and Ram is untouched. Either way no reservation is left.
\<close>

theorem lr_sc_pair:
  assumes "bare s" "operand lr = OperandR rd rs1 rs2 f3 f7" "opCode lr = rva op_lr_d"
    and "operand sc = OperandR rd' rs1 rs2' f3' f7'" "opCode sc = rva op_sc_d"
    and "reg rd" "reg rs1" "reg rd'" "reg rs2'" "rd \<noteq> rs1" "ram_range s (x_reg s rs1) 8"
  shows "\<exists>t u v. ProcessRV64A lr s = Inr t \<and> sys_Ram t = sys_Ram s \<and>
    (\<forall>q. x_reg t q = (if q = rd \<and> rd \<noteq> 0 then ram_value s 8 (x_reg s rs1) else x_reg s q)) \<and>
    ProcessRV64A sc t = Inr u \<and> atomic_effect t (x_reg s rs1) (x_reg t rs2') rd' 0 u \<and>
    ProcessRV64A sc (atomic_Cancel t) = Inr v \<and>
    atomic_effect t (x_reg s rs1) (ram_value s 8 (x_reg s rs1) :: uint64) rd' 1 v"
proof -
  obtain t where t: "ProcessRV64A lr s = Inr t" "bare t" "sys_Ram t = sys_Ram s" "m_Reserved (sys_AtomicManager t)"
    "m_Address (sys_AtomicManager t) = x_reg s rs1"
    "\<forall>q. x_reg t q = (if q = rd \<and> rd \<noteq> 0 then ram_value s 8 (x_reg s rs1) else x_reg s q)"
    using lr_d [OF assms(1-3,6,7,11)] by blast
  have a: "x_reg t rs1 = x_reg s rs1" using t(6) assms(10) by auto
  have r: "ram_range t (x_reg t rs1) 8" using assms(11) by (simp add: a same_ram [OF t(3)])
  have c: "bare (atomic_Cancel t)" "ram_range (atomic_Cancel t) (x_reg (atomic_Cancel t) rs1) 8"
    using t(2) r same_bare [of "atomic_Cancel t" t] same_ram(2) [of "atomic_Cancel t" t] by simp_all
  have e: "atomic_effect (atomic_Cancel t) = atomic_effect t"
    by (intro ext) (simp add: atomic_effect_def same_ram(4) [of "atomic_Cancel t" t])
  obtain u where "ProcessRV64A sc t = Inr u" "atomic_effect t (x_reg s rs1) (x_reg t rs2') rd' 0 u"
    using sc_d [OF t(2) assms(4,5,8,7,9) r] by (auto simp: a t(4,5))
  moreover obtain v where "ProcessRV64A sc (atomic_Cancel t) = Inr v"
      "atomic_effect t (x_reg s rs1) (ram_value s 8 (x_reg s rs1) :: uint64) rd' 1 v"
    using sc_d [OF c(1) assms(4,5,8,7,9) c(2)]
    by (auto simp: a e same_ram(1) [OF t(3)] same_ram(1) [of "atomic_Cancel t" t])
  ultimately show ?thesis using t(1,3,6) by blast
qed

text \<open>A store and a load of the same width, and what the load makes of the stored register.\<close>

definition store_load_pairs :: "((OpCodeI \<times> OpCodeI) \<times> nat \<times> (uint64 \<Rightarrow> uint64)) list" where
  "store_load_pairs = [
     ((op_sb, op_lb), 1, \<lambda>v. scast (ucast v :: uint8)), ((op_sb, op_lbu), 1, \<lambda>v. ucast (ucast v :: uint8)),
     ((op_sh, op_lh), 2, \<lambda>v. scast (ucast v :: uint16)), ((op_sh, op_lhu), 2, \<lambda>v. ucast (ucast v :: uint16)),
     ((op_sw, op_lw), 4, \<lambda>v. scast (ucast v :: uint32)), ((op_sw, op_lwu), 4, \<lambda>v. ucast (ucast v :: uint32)),
     ((op_sd, op_ld), 8, \<lambda>v. v)]"

lemmas extensions = SignExtend_32 SignExtend_ucast [where 'b = 8 and 'a = 64, simplified]
  SignExtend_ucast [where 'b = 16 and 'a = 64, simplified]

lemma ZeroExtend_small:
  "ZeroExtend 8 (ucast (x :: uint8)) = (ucast x :: uint64)" "ZeroExtend 16 (ucast (y :: uint16)) = (ucast y :: uint64)"
  "ZeroExtend 32 (ucast (z :: uint32)) = (ucast z :: uint64)"
  by (simp_all add: ZeroExtend_take_bit unsigned_ucast_eq) (rule bit_eqI; auto simp: bit_simps dest: bit_imp_le_length)+

lemma ucast_ram_value:
  "ucast (ram_value t n a :: uint64) = (ram_value t n a :: uint8)"
  "ucast (ram_value t n a :: uint64) = (ram_value t n a :: uint16)"
  "ucast (ram_value t n a :: uint64) = (ram_value t n a :: uint32)"
  unfolding ram_value_def by (rule bit_eqI; simp add: bit_unsigned_iff bit_of_bytes)+

lemma load_value:
  assumes "bare t" "operand ld = OperandI imm rd rs1 f3" "opCode ld = rvi lc" "((sc, lc), n, view) \<in> set store_load_pairs"
    "reg rd" "reg rs1" "ram_range t (x_reg t rs1 + imm) n"
  shows "\<exists>u. ProcessRV64I ld pc t = Inr u \<and> sys_Ram u = sys_Ram t \<and>
    (\<forall>q. x_reg u q = (if q = rd \<and> rd \<noteq> 0 then view (ram_value t n (x_reg t rs1 + imm)) else x_reg t q))"
  using assms(4,7) unfolding store_load_pairs_def list.set
  by (elim insertE emptyE)
    (simp_all add: ProcessRV64I_def ProcessRV64I_Load_def assms(2,3) reads_ok write_ok assms(5,6) Load_ram [OF assms(1)]
      extensions ZeroExtend_small SignExtend_64 ucast_ram_value)

lemma store_value:
  assumes "bare s" "operand st = OperandS imm rs1 rs2 f3" "opCode st = rvi sc" "((sc, lc), n, view) \<in> set store_load_pairs"
    "reg rs1" "reg rs2" "ram_range s (x_reg s rs1 + imm) n"
  shows "\<exists>t. ProcessRV64I st pc s = Inr t \<and> ram_step s t \<and> ram_elsewhere s n (x_reg s rs1 + imm) t \<and>
    view (ram_value t n (x_reg s rs1 + imm)) = view (x_reg s rs2)"
proof -
  let ?a = "x_reg s rs1 + imm"
  note st = ProcessRV64I_def ProcessRV64I_Store_def assms(2,3) reads_ok assms(5,6) ucast_ram_value
  note w = assms(7) Store_ram_8 [OF assms(1), of ?a "ucast (x_reg s rs2)"] Store_ram_16 [OF assms(1), of ?a "ucast (x_reg s rs2)"]
    Store_ram_32 [OF assms(1), of ?a "ucast (x_reg s rs2)"] Store_ram_64 [OF assms(1), of ?a "x_reg s rs2"]
  show ?thesis
    using assms(4) w unfolding store_load_pairs_def list.set
    by (elim insertE emptyE) (auto simp: st)
qed

text \<open>
  C10. What is stored is loaded on RV64: in Ram, without translation, a store succeeds, changes the bytes
  of its place only, and every load of the same width from there writes the stored register, cut to the width
  and extended by sign or zero as the instruction says, to rd and to no other register.
\<close>

theorem store_load:
  assumes "bare s" "operand st = OperandS imm rs1 rs2 f3" "opCode st = rvi sc" "operand ld = OperandI imm rd rs1 f3'"
    and "opCode ld = rvi lc" "((sc, lc), n, view) \<in> set store_load_pairs" "reg rd" "reg rs1" "reg rs2"
    and "ram_range s (x_reg s rs1 + imm) n"
  shows "\<exists>t u. ProcessRV64I st pc s = Inr t \<and> ram_elsewhere s n (x_reg s rs1 + imm) t \<and>
    ProcessRV64I ld pc' t = Inr u \<and> sys_Ram u = sys_Ram t \<and>
    (\<forall>q. x_reg u q = (if q = rd \<and> rd \<noteq> 0 then view (x_reg s rs2) else x_reg s q))"
proof -
  obtain t where t: "ProcessRV64I st pc s = Inr t" "ram_step s t" "ram_elsewhere s n (x_reg s rs1 + imm) t"
    "view (ram_value t n (x_reg s rs1 + imm)) = view (x_reg s rs2)"
    using store_value [OF assms(1-3,6,8-10)] by blast
  have "ram_range t (x_reg t rs1 + imm) n"
    using assms(10) t(3) by (simp add: ram_range_def ram_elsewhere_def ram_step_fields [OF t(2)])
  from load_value [OF bare_step [OF assms(1) t(2,3)] assms(4-8) this, of pc']
  show ?thesis unfolding ram_step_fields [OF t(2)] t(4) using t(1,3) by blast
qed

section \<open>Witnesses\<close>

lemma sample_machine_fields:
  "sys_Csr sample_machine = (Csr_zero XLEN64 (SetMember misa_MXL_RV64 2 Csr_misa) 0x80000000)\<lparr> m_Priv := User \<rparr>" "sys_XLEN sample_machine = XLEN64"
  "sys_Ram sample_machine = Ram_new 16" "sys_Bus sample_machine = System_Bus 16"
  by (simp_all add: sample_machine_def System_new_def Csr_new_def)

lemma sample_bare: "bare (registers_67 a b)"
proof -
  have "GetAddresssTranslationMode XLEN64 ((Csr_zero XLEN64 (SetMember misa_MXL_RV64 2 Csr_misa) 0x80000000)\<lparr> m_Priv := User \<rparr>) Load = Inr Bare"
    "GetAddresssTranslationMode XLEN64 ((Csr_zero XLEN64 (SetMember misa_MXL_RV64 2 Csr_misa) 0x80000000)\<lparr> m_Priv := User \<rparr>) Store = Inr Bare"
    by (code_simp, code_simp)
  then show ?thesis
    by (simp add: bare_def registers_67_def sample_machine_fields system_map_def Ram_new_def)
qed

lemma of_bytes_zeros: "of_bytes (map (\<lambda>i. 0) xs) = 0"
  by (induction xs) simp_all

lemma sample_ram:
  "ram_range (registers_67 a b) AddrRam 8" "ram_value (registers_67 a b) 8 AddrRam = (0 :: uint64)"
  "x_reg (registers_67 a b) 6 = a" "x_reg (registers_67 a b) 7 = b"
  by (simp_all add: registers_67_def sample_machine_fields ram_range_def x_reg_def ram_value_def ram_bytes_def
      Ram_new_def of_bytes_zeros)

lemma amo_reference_witness:
  "\<exists>t. ProcessRV64A (mk_op RV64A (rva op_amomin_d) (OperandR 5 6 7 3 0)) (registers_67 AddrRam (- 1)) = Inr t \<and>
    ram_value t 8 AddrRam = (- 1 :: uint64) \<and> x_reg t 5 = 0"
proof -
  let ?s = "registers_67 AddrRam (- 1)"
  obtain t where t: "ProcessRV64A (mk_op RV64A (rva op_amomin_d) (OperandR 5 6 7 3 0)) ?s = Inr t"
    "atomic_effect ?s AddrRam (amo_result op_amomin_d 0 (- 1) :: uint64) 5 0 t"
    using amo_reference [OF sample_bare, of "mk_op RV64A (rva op_amomin_d) (OperandR 5 6 7 3 0)" 5 6 7 3 0 op_amomin_d AddrRam "- 1",
        THEN conjunct1]
    unfolding sample_ram amo_codes_d_def by (simp add: sample_ram) blast
  have "amo_result op_amomin_d 0 (- 1) = (- 1 :: uint64)" by (simp add: amo_result_def)
  with t show ?thesis by (auto simp: atomic_effect_def)
qed

lemma lr_sc_pair_witness:
  "\<exists>t u. ProcessRV64A (mk_op RV64A (rva op_lr_d) (OperandR 5 6 0 3 0)) (registers_67 AddrRam 9) = Inr t \<and>
    ProcessRV64A (mk_op RV64A (rva op_sc_d) (OperandR 8 6 7 3 0)) t = Inr u \<and> ram_value u 8 AddrRam = (9 :: uint64)"
proof -
  let ?s = "registers_67 AddrRam 9"
  obtain t u where t: "ProcessRV64A (mk_op RV64A (rva op_lr_d) (OperandR 5 6 0 3 0)) ?s = Inr t"
    "ProcessRV64A (mk_op RV64A (rva op_sc_d) (OperandR 8 6 7 3 0)) t = Inr u"
    "atomic_effect t AddrRam (x_reg t 7) 8 0 u" "x_reg t 7 = x_reg ?s 7"
    using lr_sc_pair [OF sample_bare [of AddrRam 9], of "mk_op RV64A (rva op_lr_d) (OperandR 5 6 0 3 0)" 5 6 0 3 0
        "mk_op RV64A (rva op_sc_d) (OperandR 8 6 7 3 0)" 8 7 3 0]
    by (auto simp: sample_ram)
  then show ?thesis by (auto simp: atomic_effect_def sample_ram)
qed

lemma store_load_witness:
  "\<exists>t u. ProcessRV64I (mk_op RV64I (rvi op_sh) (OperandS 2 6 7 1)) 0 (registers_67 AddrRam 0x12348001) = Inr t \<and>
    ProcessRV64I (mk_op RV64I (rvi op_lh) (OperandI 2 5 6 1)) 4 t = Inr u \<and> x_reg u 5 = - 0x7fff"
proof -
  have p: "((op_sh, op_lh), 2, \<lambda>v. scast (ucast v :: uint16)) \<in> set store_load_pairs" by (simp add: store_load_pairs_def)
  have "ram_range (registers_67 AddrRam 0x12348001) (x_reg (registers_67 AddrRam 0x12348001) 6 + 2) 2"
    by (simp add: sample_ram) (simp add: ram_range_def registers_67_def sample_machine_fields Ram_new_def)
  from store_load [OF sample_bare _ _ _ _ p _ _ _ this, of "mk_op RV64I (rvi op_sh) (OperandS 2 6 7 1)" 7 1
      "mk_op RV64I (rvi op_lh) (OperandI 2 5 6 1)" 5 1 0 4]
  show ?thesis by (auto simp: sample_ram)
qed

end
