(* ===== verification/AluLaws.thy ===== *)
theory AluLaws
  imports ExecutorLaws
begin

text \<open>
  The register and immediate forms of the RV64I arithmetic, comparison, logic and shift instructions
  against one reference on integers. The second argument of the reference is the register, the
  immediate or the shift amount.
\<close>

section \<open>Reference\<close>

definition ref_alu :: "OpCodeI \<Rightarrow> 'a::len word \<Rightarrow> 'a word \<Rightarrow> 'a word" where
  "ref_alu code a b = (case code of
     op_add \<Rightarrow> word_of_int (sint a + sint b)
   | op_sub \<Rightarrow> word_of_int (sint a - sint b)
   | op_slt \<Rightarrow> if sint a < sint b then 1 else 0
   | op_sltu \<Rightarrow> if uint a < uint b then 1 else 0
   | op_xor \<Rightarrow> a XOR b
   | op_or \<Rightarrow> a OR b
   | op_and \<Rightarrow> a AND b
   | op_sll \<Rightarrow> word_of_int (uint a * 2 ^ (unat b mod LENGTH('a)))
   | op_srl \<Rightarrow> word_of_int (uint a div 2 ^ (unat b mod LENGTH('a)))
   | op_sra \<Rightarrow> word_of_int (sint a div 2 ^ (unat b mod LENGTH('a)))
   | _ \<Rightarrow> 0)"

definition alu_codes :: "OpCodeI list" where
  "alu_codes = [op_add, op_sub, op_slt, op_sltu, op_xor, op_or, op_and, op_sll, op_srl, op_sra]"

definition alu_word_codes :: "(OpCodeI \<times> OpCodeI) list" where
  "alu_word_codes = [(op_addw, op_add), (op_subw, op_sub), (op_sllw, op_sll), (op_srlw, op_srl), (op_sraw, op_sra)]"

definition alu_imm_codes :: "(OpCodeI \<times> OpCodeI) list" where
  "alu_imm_codes = [(op_addi, op_add), (op_slti, op_slt), (op_sltiu, op_sltu), (op_xori, op_xor), (op_ori, op_or),
     (op_andi, op_and)]"

definition shift_imm_codes :: "(OpCodeI \<times> OpCodeI) list" where
  "shift_imm_codes = [(op_slli, op_sll), (op_srli, op_srl), (op_srai, op_sra)]"

section \<open>Shifts\<close>

lemma shift_ref:
  assumes "n < LENGTH('a)"
  shows "shl (x :: 'a::len word) (int n) = Inr (word_of_int (uint x * 2 ^ n))"
    "shr x (int n) = Inr (word_of_int (uint x div 2 ^ n))"
    "sar x (int n) = Inr (word_of_int (sint x div 2 ^ n))"
proof -
  show "shl x (int n) = Inr (word_of_int (uint x * 2 ^ n))"
    using assms by (simp add: shl_def push_bit_eq_mult)
  have "uint (drop_bit n x) = drop_bit n (uint x)"
    by (rule bit_eqI) (auto simp: bit_simps dest: bit_imp_le_length)
  then have "uint (drop_bit n x) = uint x div 2 ^ n" unfolding drop_bit_eq_div [of n "uint x"] .
  moreover have "drop_bit n x = word_of_int (uint (drop_bit n x))" by simp
  ultimately show "shr x (int n) = Inr (word_of_int (uint x div 2 ^ n))"
    using assms by (simp only: shr_def) simp
  have "sint (signed_drop_bit n x) = sint x div 2 ^ n" by (simp add: sint_signed_drop_bit_eq drop_bit_eq_div)
  then show "sar x (int n) = Inr (word_of_int (sint x div 2 ^ n))"
    using assms by (simp add: sar_def) (metis scast_id of_int_sint)
qed

lemma low_bits_64: "b AND 0x3f = take_bit 6 b" for b :: uint64
  by (simp add: take_bit_eq_mask mask_eq_exp_minus_1)

lemma unat_low_bits: "unat (ucast (take_bit 6 b) :: uint32) = unat b mod 64" for b :: uint64
proof -
  have "unat (ucast (take_bit 6 b) :: uint32) = take_bit 32 (take_bit 6 (unat b))"
    by (simp only: unsigned_ucast_eq unsigned_take_bit_eq) simp
  also have "\<dots> = take_bit 6 (unat b)" by simp
  finally show ?thesis by (simp add: take_bit_eq_mod [of 6 "unat b"])
qed

lemma amount_64: "sint (ucast (b AND 0x3f) :: uint32) = int (unat b mod 64)" for b :: uint64
proof -
  have u: "uint (ucast (take_bit 6 b) :: uint32) = int (unat b mod 64)"
    unfolding unat_low_bits [symmetric] by simp
  have "int (unat b mod 64) < 2 ^ 31" by (rule order.strict_trans2 [of _ 64]) simp_all
  then have "sint (ucast (take_bit 6 b) :: uint32) = int (unat b mod 64)"
    unfolding sint_uint u by (subst signed_take_bit_int_eq_self) simp_all
  then show ?thesis by (simp only: low_bits_64)
qed

lemma unat_low: "unat (ucast b :: uint32) mod 32 = unat b mod 32" for b :: uint64
  by (simp add: unsigned_ucast_eq take_bit_eq_mod mod_mod_cancel)

section \<open>The instructions\<close>

definition word_shift_bad :: "OpCodeI \<Rightarrow> uint64 \<Rightarrow> bool" where
  "word_shift_bad code b \<longleftrightarrow> code \<in> {op_sllw, op_srlw, op_sraw} \<and> 32 \<le> unat b mod 64"

lemma signed_compare: "a <s b \<longleftrightarrow> sint a < sint b" "a < b \<longleftrightarrow> uint a < uint b"
  by (simp_all add: word_sless_alt word_less_def)

lemma sums_of_int: "word_of_int (sint a + sint b) = a + b" "word_of_int (sint a - sint b) = a - b"
  by (simp_all add: wi_hom_syms)

lemma alu_register:
  assumes "operand op = OperandR rd rs1 rs2 f3 f7" "opCode op = rvi code" "code \<in> set alu_codes"
    "int_ReadInt64 sys rs1 = Inr a" "int_ReadInt64 sys rs2 = Inr b"
  shows "ProcessRV64I op pc sys = int_WriteInt64 rd (ref_alu code a b) sys"
  using assms(3) unfolding alu_codes_def list.set
  by (elim insertE emptyE)
    (simp_all add: ProcessRV64I_def ProcessRV64I_Alu_def ProcessRV64I_Shift_def assms(1,2,4,5) ReadInt_eq
      assms(4,5) [THEN int_ReadInt32_of_64] ref_alu_def signed_compare sums_of_int Let_def amount_64 [simplified] shift_ref)

lemma small_amount:
  fixes b :: uint64
  assumes "\<not> 32 \<le> unat b mod 64"
  shows "unat b mod 64 = unat (ucast b :: uint32) mod 32" "unat b mod 64 < 32"
proof -
  have "unat b mod 64 mod 32 = unat b mod 32" by (simp add: mod_mod_cancel)
  then show "unat b mod 64 = unat (ucast b :: uint32) mod 32" using assms by (simp only: unat_low) simp
qed (use assms in simp)

lemma bad_amount:
  assumes "32 \<le> n"
  shows "shl (x :: uint32) (int n) = Inl Undefined" "shr x (int n) = Inl Undefined" "sar x (int n) = Inl Undefined"
  using assms by (simp_all add: shl_def shr_def sar_def)

lemma alu_word:
  assumes "operand op = OperandR rd rs1 rs2 f3 f7" "opCode op = rvi code" "(code, base) \<in> set alu_word_codes"
    "int_ReadInt64 sys rs1 = Inr a" "int_ReadInt64 sys rs2 = Inr b"
  shows "ProcessRV64I op pc sys = (if word_shift_bad code b then Inl Undefined
    else int_WriteInt64 rd (scast (ref_alu base (ucast a :: uint32) (ucast b))) sys)"
proof (cases "32 \<le> unat b mod 64")
  case True
  then show ?thesis
    using assms(3) unfolding alu_word_codes_def list.set
    by (elim insertE emptyE)
      (simp_all add: ProcessRV64I_def ProcessRV64I_Alu_def ProcessRV64I_Shift_def assms(1,2,4,5) ReadInt_eq
      assms(4,5) [THEN int_ReadInt32_of_64] ref_alu_def sums_of_int Let_def amount_64 [simplified] bad_amount
      word_shift_bad_def SignExtend_32)
next
  case False
  note n = small_amount [OF False]
  have "\<not> word_shift_bad code b" using False by (simp add: word_shift_bad_def)
  then show ?thesis
    using assms(3) unfolding alu_word_codes_def list.set
    by (elim insertE emptyE)
      (simp_all add: ProcessRV64I_def ProcessRV64I_Alu_def ProcessRV64I_Shift_def assms(1,2,4,5) ReadInt_eq
      assms(4,5) [THEN int_ReadInt32_of_64] ref_alu_def sums_of_int Let_def amount_64 [simplified] n(1) shift_ref SignExtend_32)
qed

lemma alu_immediate:
  assumes "operand op = OperandI imm rd rs1 f3" "opCode op = rvi code" "int_ReadInt64 sys rs1 = Inr a"
  shows "(code, base) \<in> set alu_imm_codes \<Longrightarrow> ProcessRV64I op pc sys = int_WriteInt64 rd (ref_alu base a imm) sys"
    "code = op_addiw \<Longrightarrow> ProcessRV64I op pc sys =
       int_WriteInt64 rd (scast (ref_alu op_add (ucast a :: uint32) (ucast imm))) sys"
proof -
  assume "(code, base) \<in> set alu_imm_codes"
  then show "ProcessRV64I op pc sys = int_WriteInt64 rd (ref_alu base a imm) sys"
    unfolding alu_imm_codes_def list.set
    by (elim insertE emptyE)
      (simp_all add: ProcessRV64I_def ProcessRV64I_AluImm_def assms ReadInt_eq assms(3) [THEN int_ReadInt32_of_64]
        ref_alu_def signed_compare sums_of_int Let_def)
next
  assume "code = op_addiw"
  then show "ProcessRV64I op pc sys = int_WriteInt64 rd (scast (ref_alu op_add (ucast a :: uint32) (ucast imm))) sys"
    by (simp add: ProcessRV64I_def ProcessRV64I_AluImm_def assms ReadInt_eq assms(3) [THEN int_ReadInt32_of_64]
        ref_alu_def sums_of_int Let_def SignExtend_32)
qed

lemma shift_immediate:
  assumes "operand op = OperandShiftImm rd rs1 (int n)" "opCode op = rvi code" "int_ReadInt64 sys rs1 = Inr a" "n < 64"
  shows "(code, base) \<in> set shift_imm_codes \<Longrightarrow>
    ProcessRV64I op pc sys = int_WriteInt64 rd (ref_alu base a (of_nat n)) sys"
proof -
  have n: "unat (of_nat n :: uint64) mod 64 = n" using assms(4) by (simp add: unat_of_nat)
  assume "(code, base) \<in> set shift_imm_codes"
  then show ?thesis
    unfolding shift_imm_codes_def list.set
    by (elim insertE emptyE)
      (simp_all add: ProcessRV64I_def ProcessRV64I_ShiftImm_def assms ReadInt_eq assms(3) [THEN int_ReadInt32_of_64]
        ref_alu_def Let_def n shift_ref)
qed

section \<open>Properties\<close>

text \<open>
  C15. RV64I arithmetic against integers: the register forms write the exact sum or difference wrapped
  to 64 bits, the comparison of the signed or unsigned readings, the bitwise results, and for shifts
  the product or the quotient rounded down by the power of two of rs2 modulo 64; the word forms do the
  same on the low halves and extend by sign. The one exception is a word shift by 32 to 63: the code
  masks the amount with 63 instead of 31, and the shift is undefined.
\<close>

theorem alu_reference:
  assumes "operand op = OperandR rd rs1 rs2 f3 f7" "opCode op = rvi code"
    and "int_ReadInt64 sys rs1 = Inr a" "int_ReadInt64 sys rs2 = Inr b"
  shows "(code \<in> set alu_codes \<longrightarrow> ProcessRV64I op pc sys = int_WriteInt64 rd (ref_alu code a b) sys) \<and>
    ((code, base) \<in> set alu_word_codes \<longrightarrow> ProcessRV64I op pc sys = (if word_shift_bad code b then Inl Undefined
      else int_WriteInt64 rd (scast (ref_alu base (ucast a :: uint32) (ucast b))) sys))"
  using alu_register [OF assms(1,2) _ assms(3,4)] alu_word [OF assms(1,2) _ assms(3,4)] by blast

lemma alu_reference_witness:
  "ProcessRV64I (mk_op RV64I (rvi op_sraw) (OperandR 5 6 7 5 0x20)) 0 (registers_67 0x80000000 4) =
      int_WriteInt64 5 (- 0x8000000) (registers_67 0x80000000 4) \<and>
    ProcessRV64I (mk_op RV64I (rvi op_sraw) (OperandR 5 6 7 5 0x20)) 0 (registers_67 0x80000000 36) = Inl Undefined"
  using alu_reference [of "mk_op RV64I (rvi op_sraw) (OperandR 5 6 7 5 0x20)" 5 6 7 5 "0x20" op_sraw
      "registers_67 0x80000000 4" "0x80000000" 4 0 op_sra]
    alu_reference [of "mk_op RV64I (rvi op_sraw) (OperandR 5 6 7 5 0x20)" 5 6 7 5 "0x20" op_sraw
      "registers_67 0x80000000 36" "0x80000000" 36 0 op_sra]
  by (simp add: registers_67_read alu_word_codes_def word_shift_bad_def ref_alu_def)

text \<open>
  The immediate forms are the register forms: an RV64I instruction with an immediate or a constant
  shift amount writes what the reference gives for the immediate, extended by sign, in place of rs2.
\<close>

theorem alu_immediate_reference:
  assumes "opCode op = rvi code" "int_ReadInt64 sys rs1 = Inr a"
  shows "(operand op = OperandI imm rd rs1 f3 \<and> (code, base) \<in> set alu_imm_codes \<longrightarrow>
      ProcessRV64I op pc sys = int_WriteInt64 rd (ref_alu base a imm) sys) \<and>
    (operand op = OperandI imm rd rs1 f3 \<and> code = op_addiw \<longrightarrow>
      ProcessRV64I op pc sys = int_WriteInt64 rd (scast (ref_alu op_add (ucast a :: uint32) (ucast imm))) sys) \<and>
    (operand op = OperandShiftImm rd rs1 (int n) \<and> n < 64 \<and> (code, base) \<in> set shift_imm_codes \<longrightarrow>
      ProcessRV64I op pc sys = int_WriteInt64 rd (ref_alu base a (of_nat n)) sys)"
  using alu_immediate [OF _ assms(1,2)] shift_immediate [OF _ assms(1,2)] by blast

lemma alu_immediate_reference_witness:
  "ProcessRV64I (mk_op RV64I (rvi op_slti) (OperandI (- 5) 5 6 2)) 0 (registers_67 (- 6) 0) =
    int_WriteInt64 5 1 (registers_67 (- 6) 0)"
  using alu_immediate_reference [of "mk_op RV64I (rvi op_slti) (OperandI (- 5) 5 6 2)" op_slti
      "registers_67 (- 6) 0" 6 "- 6" "- 5" 5 2 op_slt 0]
  by (simp add: registers_67_read alu_imm_codes_def ref_alu_def)

end
