(* ===== verification/Format.thy ===== *)
theory Format
  imports Prelude
begin

text \<open>
  The part of \<^verbatim>\<open>printf\<close> the text output of the program uses: the conversions \<open>%s\<close>,
  \<open>%d\<close> and \<open>%x\<close>, the latter two with a minimal width, filled with zeros or blanks,
  and with the length modifier \<open>l\<close> that the macros PRIx64 expand to on the host. A null
  pointer behind \<open>%s\<close>, an argument of another kind than its conversion and an argument
  that is missing are undefined behaviour; so is \<open>sprintf\<close> into a buffer that is too small.
\<close>

section \<open>Numbers\<close>

definition digit_char :: "nat \<Rightarrow> char" where
  "digit_char d = ''0123456789abcdef'' ! d"

function digits :: "nat \<Rightarrow> nat \<Rightarrow> string" where
  "digits b n = (if b < 2 \<or> n < b then [digit_char n] else digits b (n div b) @ [digit_char (n mod b)])"
  by pat_completeness auto
termination by (relation "measure snd") auto

declare digits.simps [simp del]

lemma digits_rec [simp]:
  "n < b \<Longrightarrow> digits b n = [digit_char n]"
  "2 \<le> b \<Longrightarrow> b \<le> n \<Longrightarrow> digits b n = digits b (n div b) @ [digit_char (n mod b)]"
  by (subst digits.simps; simp)+

definition dec_string :: "int \<Rightarrow> string" where
  "dec_string i = (if i < 0 then CHR ''-'' # digits 10 (nat (- i)) else digits 10 (nat i))"

lemma digits_length: "n < b ^ k \<Longrightarrow> 2 \<le> b \<Longrightarrow> 0 < k \<Longrightarrow> length (digits b n) \<le> k"
proof (induction b n arbitrary: k rule: digits.induct)
  case (1 b n)
  show ?case
  proof (cases "n < b")
    case False
    with "1.prems" obtain j where j: "k = Suc j" "0 < j"
      by (cases k; cases "k - 1") auto
    then have "n div b < b ^ j"
      using "1.prems" by (simp add: less_mult_imp_div_less mult.commute)
    with "1.IH" [OF _ this] "1.prems" False j show ?thesis
      by (subst digits.simps) simp
  qed (use "1.prems" in \<open>subst digits.simps, simp\<close>)
qed

lemma digits_not_Nil [simp]: "digits b n \<noteq> []"
  by (subst digits.simps) simp

lemma dec_string_length: "\<bar>i\<bar> < 10 ^ k \<Longrightarrow> 0 < k \<Longrightarrow> length (dec_string i) \<le> Suc k"
  using digits_length [of "nat \<bar>i\<bar>" 10 k]
  by (auto simp: dec_string_def le_Suc_eq nat_less_iff abs_if split: if_splits)

section \<open>Conversions\<close>

text \<open>
  An argument: a \<open>const char*\<close>, which may be null, or an integer of 32 or 64 bits.
\<close>

datatype fmt_arg = ArgStr "string option" | ArgInt uint32 | ArgLong uint64

definition pad_left :: "bool \<Rightarrow> nat \<Rightarrow> string \<Rightarrow> string" where
  "pad_left zeros width s = replicate (width - length s) (if zeros then CHR ''0'' else CHR '' '') @ s"

text \<open>
  \<open>convert conv long arg\<close> is the text of one argument before padding.
\<close>

definition convert :: "char \<Rightarrow> bool \<Rightarrow> fmt_arg \<Rightarrow> string result" where
  "convert conv long arg = (case arg of
      ArgStr (Some s) \<Rightarrow> if conv = CHR ''s'' \<and> \<not> long then Inr s else Inl Undefined
    | ArgStr None \<Rightarrow> Inl Undefined
    | ArgInt w \<Rightarrow>
        if conv = CHR ''d'' \<and> \<not> long then Inr (dec_string (sint w))
        else if conv = CHR ''x'' \<and> \<not> long then Inr (digits 16 (unat w))
        else Inl Undefined
    | ArgLong w \<Rightarrow>
        if conv = CHR ''x'' \<and> long then Inr (digits 16 (unat w)) else Inl Undefined)"

text \<open>
  The reading of a format: ordinary text, or the inside of a conversion with the flag, the width
  and the length modifier seen so far. An argument too many is ignored. An \<open>unsigned int\<close>
  behind \<open>%d\<close> is read as an \<open>int\<close>, as the calling convention of the host does.
\<close>

datatype fmt_state = FmtText | FmtSpec bool nat bool

fun vformat :: "fmt_state \<Rightarrow> string \<Rightarrow> fmt_arg list \<Rightarrow> string result" where
  "vformat FmtText [] args = Inr []"
| "vformat FmtText (c # cs) args =
     (if c = CHR ''%'' then vformat (FmtSpec False 0 False) cs args
      else rbind (vformat FmtText cs args) (\<lambda>r. Inr (c # r)))"
| "vformat (FmtSpec zeros width long) [] args = Inl Undefined"
| "vformat (FmtSpec zeros width long) (c # cs) args =
     (if c = CHR ''0'' \<and> width = 0 then vformat (FmtSpec True 0 long) cs args
      else if c \<in> set ''0123456789'' then vformat (FmtSpec zeros (10 * width + (of_char c - 48)) long) cs args
      else if c = CHR ''l'' then vformat (FmtSpec zeros width True) cs args
      else (case args of
          [] \<Rightarrow> Inl Undefined
        | a # as \<Rightarrow> rbind (convert c long a) (\<lambda>t.
            rbind (vformat FmtText cs as) (\<lambda>r. Inr (pad_left zeros width t @ r)))))"

definition sprintf :: "nat \<Rightarrow> string \<Rightarrow> fmt_arg list \<Rightarrow> string result" where
  "sprintf capacity fmt args = rbind (vformat FmtText fmt args) (\<lambda>s.
     if length s < capacity then Inr s else Inl Undefined)"

abbreviation printf :: "string \<Rightarrow> fmt_arg list \<Rightarrow> string result" where
  "printf fmt args \<equiv> vformat FmtText fmt args"

lemma pad_left_0 [simp]: "pad_left z 0 s = s"
  by (simp add: pad_left_def)

lemma length_pad_left [simp]: "length (pad_left z w s) = max w (length s)"
  by (simp add: pad_left_def)

text \<open>
  What a text conversion can add: \<open>printf\<close> succeeds on the formats of the program when no
  string is null, and a 32-bit number takes at most eleven characters.
\<close>

lemma dec_string_word32: "length (dec_string (sint (w :: uint32))) \<le> 11"
  using dec_string_length [of "sint w" 10] sint_greater_eq [of w] sint_less [of w]
  by (simp add: abs_if split: if_splits)

lemma hex_digits_word: "length (digits 16 (unat (w :: 'a::len word))) \<le> (LENGTH('a) + 3) div 4"
proof -
  have "unat w < 2 ^ LENGTH('a)" by (rule unsigned_less)
  also have "\<dots> \<le> 2 ^ (4 * ((LENGTH('a) + 3) div 4))" by (rule power_increasing) auto
  also have "\<dots> = 16 ^ ((LENGTH('a) + 3) div 4)" by (simp add: power_mult)
  finally show ?thesis
    using digits_length [of "unat w" 16] len_gt_0 [where 'a = 'a] by (cases "LENGTH('a)") (simp_all add: div_greater_zero_iff)
qed

lemma convert_string [simp]: "convert CHR ''s'' False (ArgStr (Some s)) = Inr s"
  by (simp add: convert_def)

lemma convert_dec [simp]: "convert CHR ''d'' False (ArgInt w) = Inr (dec_string (sint w))"
  by (simp add: convert_def)

lemma convert_hex [simp]:
  "convert CHR ''x'' False (ArgInt w) = Inr (digits 16 (unat w))"
  "convert CHR ''x'' True (ArgLong u) = Inr (digits 16 (unat u))"
  by (simp_all add: convert_def)

end
