(* ===== verification/RvApi.thy ===== *)
theory RvApi
  imports RvTypes Format
begin

text \<open>
  \<^verbatim>\<open>lib/common/RvApi.cpp\<close>: the names of registers, CSRs, rounding modes and enumeration
  values for the text output. A null pointer is \<open>None\<close>. An enumeration value is its
  32-bit code here, as the trace files hold any code: the default branches are reached.
\<close>

definition IntRegNames :: "string list" where
  "IntRegNames = [
    ''zero'', ''ra'', ''sp'', ''gp'', ''tp'', ''t0'', ''t1'', ''t2'',
    ''s0'', ''s1'', ''a0'', ''a1'', ''a2'', ''a3'', ''a4'', ''a5'',
    ''a6'', ''a7'', ''s2'', ''s3'', ''s4'', ''s5'', ''s6'', ''s7'',
    ''s8'', ''s9'', ''s10'', ''s11'', ''t3'', ''t4'', ''t5'', ''t6'']"

definition FpRegNames :: "string list" where
  "FpRegNames = [
    ''ft0'', ''ft1'', ''ft2'', ''ft3'', ''ft4'', ''ft5'', ''ft6'', ''ft7'',
    ''fs0'', ''fs1'', ''fa0'', ''fa1'', ''fa2'', ''fa3'', ''fa4'', ''fa5'',
    ''fa6'', ''fa7'', ''fs2'', ''fs3'', ''fs4'', ''fs5'', ''fs6'', ''fs7'',
    ''fs8'', ''fs9'', ''fs10'', ''fs11'', ''ft8'', ''ft9'', ''ft10'', ''ft11'']"

definition GetString_MemoryAccessType :: "uint32 \<Rightarrow> string" where
  "GetString_MemoryAccessType v =
     (if v = 0 then ''Instruction''
     else if v = 2 then ''Load''
     else if v = 3 then ''Store''
      else ''Unknown MemoryAccessType'')"

definition GetString_PrivilegeLevel :: "uint32 \<Rightarrow> string" where
  "GetString_PrivilegeLevel v =
     (if v = 0 then ''User''
     else if v = 1 then ''Supervisor''
     else if v = 2 then ''Reserved''
     else if v = 3 then ''Machine''
      else ''Unknown PrivilegeLevel'')"

definition GetString_TrapType :: "uint32 \<Rightarrow> string" where
  "GetString_TrapType v =
     (if v = 0 then ''Interrupt''
     else if v = 1 then ''Exception''
     else if v = 2 then ''Return''
      else ''Unknown TrapType'')"

definition GetString_ExceptionType :: "uint32 \<Rightarrow> string" where
  "GetString_ExceptionType v =
     (if v = 0 then ''InstructionAddressMisaligned''
     else if v = 1 then ''InstructionAccessFault''
     else if v = 2 then ''IllegalInstruction''
     else if v = 3 then ''Breakpoint''
     else if v = 4 then ''LoadAddressMisaligned''
     else if v = 5 then ''LoadAccessFault''
     else if v = 6 then ''StoreAddressMisaligned''
     else if v = 7 then ''StoreAccessFault''
     else if v = 8 then ''EnvironmentCallFromUser''
     else if v = 9 then ''EnvironmentCallFromSupervisor''
     else if v = 11 then ''EnvironmentCallFromMachine''
     else if v = 12 then ''InstructionPageFault''
     else if v = 13 then ''LoadPageFault''
     else if v = 15 then ''StorePageFault''
      else ''Unknown PrivilegeLevel'')"

definition GetString_InterruptType :: "uint32 \<Rightarrow> string" where
  "GetString_InterruptType v =
     (if v = 0 then ''UserSoftware''
     else if v = 1 then ''SupervisorSoftware''
     else if v = 3 then ''MachineSoftware''
     else if v = 4 then ''UserTimer''
     else if v = 5 then ''SupervisorTimer''
     else if v = 7 then ''MachineTimer''
     else if v = 8 then ''UserExternal''
     else if v = 9 then ''SupervisorExternal''
     else if v = 11 then ''MachineExternal''
      else ''Unknown PrivilegeLevel'')"

definition GetString_csr_default :: "uint32 \<Rightarrow> string \<Rightarrow> string" where
  "GetString_csr_default addr defaultValue =
     (if csr_hpmcounter_begin \<le> addr \<and> addr < csr_hpmcounter_end then ''hpmcounter*''
     else if csr_hpmcounterh_begin \<le> addr \<and> addr < csr_hpmcounter_end then ''hpmcounterh*''
     else if csr_mhpmcounter_begin \<le> addr \<and> addr < csr_mhpmcounter_end then ''mhpmcounter*''
     else if csr_mhpmcounterh_begin \<le> addr \<and> addr < csr_mhpmcounterh_end then ''mhpmcounterh*''
     else if csr_pmpaddr_begin \<le> addr \<and> addr < csr_pmpaddr_end then ''pmpaddr*''
      else if addr = csr_ustatus then ''ustatus''
      else if addr = csr_uie then ''uie''
      else if addr = csr_utvec then ''utvec''
      else if addr = csr_uscratch then ''uscratch''
      else if addr = csr_uepc then ''uepc''
      else if addr = csr_ucause then ''ucause''
      else if addr = csr_utval then ''utval''
      else if addr = csr_uip then ''uip''
      else if addr = csr_fflags then ''fflags''
      else if addr = csr_frm then ''frm''
      else if addr = csr_fcsr then ''fcsr''
      else if addr = csr_sstatus then ''sstatus''
      else if addr = csr_sedeleg then ''sedeleg''
      else if addr = csr_sideleg then ''sideleg''
      else if addr = csr_sie then ''sie''
      else if addr = csr_stvec then ''stvec''
      else if addr = csr_scounteren then ''scounteren''
      else if addr = csr_sscratch then ''sscratch''
      else if addr = csr_sepc then ''sepc''
      else if addr = csr_scause then ''scause''
      else if addr = csr_stval then ''stval''
      else if addr = csr_sip then ''sip''
      else if addr = csr_satp then ''satp''
      else if addr = csr_mstatus then ''mstatus''
      else if addr = csr_misa then ''misa''
      else if addr = csr_medeleg then ''medeleg''
      else if addr = csr_mideleg then ''mideleg''
      else if addr = csr_mie then ''mie''
      else if addr = csr_mtvec then ''mtvec''
      else if addr = csr_mcounteren then ''mcounteren''
      else if addr = csr_mscratch then ''mscratch''
      else if addr = csr_mepc then ''mepc''
      else if addr = csr_mcause then ''mcause''
      else if addr = csr_mtval then ''mtval''
      else if addr = csr_mip then ''mip''
      else if addr = csr_pmpcfg0 then ''pmpcfg0''
      else if addr = csr_pmpcfg1 then ''pmpcfg1''
      else if addr = csr_pmpcfg2 then ''pmpcfg2''
      else if addr = csr_pmpcfg3 then ''pmpcfg3''
      else if addr = csr_tselect then ''tselect''
      else if addr = csr_tdata1 then ''tdata1''
      else if addr = csr_tdata2 then ''tdata2''
      else if addr = csr_tdata3 then ''tdata3''
      else if addr = csr_dcsr then ''dcsr''
      else if addr = csr_dpc then ''dpc''
      else if addr = csr_dscratch then ''dscratch''
      else if addr = csr_mvendorid then ''mvendorid''
      else if addr = csr_marchid then ''marchid''
      else if addr = csr_mimpid then ''mimpid''
      else if addr = csr_mhartid then ''mhartid''
      else defaultValue)"

definition GetString_csr :: "uint32 \<Rightarrow> string" where
  "GetString_csr addr = GetString_csr_default addr ''Unknown CSR address''"

definition GetIntRegName :: "int \<Rightarrow> string option" where
  "GetIntRegName index = (if \<not> (0 \<le> index \<and> index < 32) then None else Some (IntRegNames ! nat index))"

definition GetFpRegName :: "int \<Rightarrow> string option" where
  "GetFpRegName index = (if \<not> (0 \<le> index \<and> index < 32) then None else Some (FpRegNames ! nat index))"

definition GetRoundingModeName :: "int \<Rightarrow> string option" where
  "GetRoundingModeName rm =
     (if rm = 0b000 then Some ''rne''
     else if rm = 0b001 then Some ''rtz''
     else if rm = 0b010 then Some ''rdn''
     else if rm = 0b011 then Some ''rup''
     else if rm = 0b100 then Some ''rmm''
      else None)"

section \<open>Lengths of the names\<close>

lemma IntRegNames_length: "\<forall>s \<in> set IntRegNames. length s \<le> 4"
  by (simp add: IntRegNames_def)

lemma FpRegNames_length: "\<forall>s \<in> set FpRegNames. length s \<le> 4"
  by (simp add: FpRegNames_def)

lemma register_names:
  assumes "0 \<le> r" "r < 32"
  obtains s t where "GetIntRegName r = Some s" "length s \<le> 4" "GetFpRegName r = Some t" "length t \<le> 4"
proof (rule that)
  have *: "nat r < length IntRegNames" "nat r < length FpRegNames"
    using assms by (simp_all add: IntRegNames_def FpRegNames_def)
  show "GetIntRegName r = Some (IntRegNames ! nat r)" "GetFpRegName r = Some (FpRegNames ! nat r)"
    using assms by (simp_all add: GetIntRegName_def GetFpRegName_def)
  show "length (IntRegNames ! nat r) \<le> 4" "length (FpRegNames ! nat r) \<le> 4"
    using * IntRegNames_length FpRegNames_length nth_mem by blast+
qed

lemma rounding_mode_length: "GetRoundingModeName rm = Some s \<Longrightarrow> length s = 3"
  by (auto simp: GetRoundingModeName_def split: if_splits)

lemma GetString_csr_length: "length (GetString_csr a) \<le> 19"
  by (simp add: GetString_csr_def GetString_csr_default_def)

end
