(* ===== verification/OpRv32.thy ===== *)
theory OpRv32
  imports RvApi
begin

text \<open>
  \<^verbatim>\<open>lib/op/RV32*.cpp\<close> with the headers \<^verbatim>\<open>include/rafi/op/RV32*.h\<close>, namespace
  \<open>op32\<close>: one class for each instruction. The classes of a file are the constructors of a
  datatype, whose arguments are the members in the order of the class's own constructor; an
  \<open>int\<close> member is an integer, an \<open>uint32_t\<close> one a word. One definition for each
  \<open>ToString\<close>, on the arguments of the constructor, and one dispatch for each file that stands
  for the virtual call.
\<close>

section \<open>RV32I\<close>

datatype (plugins only: code size) op32I =
    op32_LUI int uint32
  | op32_AUIPC int uint32
  | op32_JAL int uint32
  | op32_JALR int int uint32
  | op32_BEQ int int uint32
  | op32_BNE int int uint32
  | op32_BLT int int uint32
  | op32_BGE int int uint32
  | op32_BLTU int int uint32
  | op32_BGEU int int uint32
  | op32_LB int int uint32
  | op32_LH int int uint32
  | op32_LW int int uint32
  | op32_LBU int int uint32
  | op32_LHU int int uint32
  | op32_SB int int uint32
  | op32_SH int int uint32
  | op32_SW int int uint32
  | op32_ADDI int int uint32
  | op32_SLTI int int uint32
  | op32_SLTIU int int uint32
  | op32_XORI int int uint32
  | op32_ORI int int uint32
  | op32_ANDI int int uint32
  | op32_SLLI int int int
  | op32_SRLI int int int
  | op32_SRAI int int int
  | op32_ADD int int int
  | op32_SUB int int int
  | op32_SLL int int int
  | op32_SLT int int int
  | op32_SLTU int int int
  | op32_XOR int int int
  | op32_SRL int int int
  | op32_SRA int int int
  | op32_OR int int int
  | op32_AND int int int
  | op32_FENCE int int uint32 uint32 uint32
  | op32_FENCE_I int int uint32
  | op32_ECALL
  | op32_EBREAK
  | op32_CSRRW uint32 int int
  | op32_CSRRS uint32 int int
  | op32_CSRRC uint32 int int
  | op32_CSRRWI uint32 int uint32
  | op32_CSRRSI uint32 int uint32
  | op32_CSRRCI uint32 int uint32
  | op32_URET
  | op32_SRET
  | op32_MRET
  | op32_WFI
  | op32_SFENCE_VMA int int

definition op32_LUI_ToString :: "int \<Rightarrow> uint32 \<Rightarrow> string result" where
  "op32_LUI_ToString rd imm = sprintf 80 ''lui %s,%d'' [ArgStr (GetIntRegName rd), ArgInt imm]"

definition op32_AUIPC_ToString :: "int \<Rightarrow> uint32 \<Rightarrow> string result" where
  "op32_AUIPC_ToString rd imm =
    sprintf 80 ''auipc %s,%d'' [ArgStr (GetIntRegName rd), ArgInt imm]"

definition op32_JAL_ToString :: "int \<Rightarrow> uint32 \<Rightarrow> string result" where
  "op32_JAL_ToString rd imm =
    (if rd = 0 then sprintf 80 ''j #%d'' [ArgInt imm]
     else sprintf 80 ''jal %s,%d'' [ArgStr (GetIntRegName rd), ArgInt imm])"

definition op32_JALR_ToString :: "int \<Rightarrow> int \<Rightarrow> uint32 \<Rightarrow> string result" where
  "op32_JALR_ToString rd rs1 imm =
    (if rd = 0 then sprintf 80 ''jr %s,%d'' [ArgStr (GetIntRegName rs1), ArgInt imm]
     else sprintf 80 ''jalr %s,%s,%d'' [ArgStr (GetIntRegName rd), ArgStr (GetIntRegName rs1), ArgInt imm])"

definition op32_BEQ_ToString :: "int \<Rightarrow> int \<Rightarrow> uint32 \<Rightarrow> string result" where
  "op32_BEQ_ToString rs1 rs2 imm = Inr ''beq''"

definition op32_BNE_ToString :: "int \<Rightarrow> int \<Rightarrow> uint32 \<Rightarrow> string result" where
  "op32_BNE_ToString rs1 rs2 imm =
    (if rs1 = 0 then sprintf 80 ''bnez %s, #%d'' [ArgStr (GetIntRegName rs2), ArgInt imm]
     else if rs2 = 0 then sprintf 80 ''bnez %s, #%d'' [ArgStr (GetIntRegName rs1), ArgInt imm]
     else sprintf 80 ''bne %s,%s,%d'' [ArgStr (GetIntRegName rs1), ArgStr (GetIntRegName rs2), ArgInt imm])"

definition op32_BLT_ToString :: "int \<Rightarrow> int \<Rightarrow> uint32 \<Rightarrow> string result" where
  "op32_BLT_ToString rs1 rs2 imm =
    (if rs1 = 0 then sprintf 80 ''bltz %s, #%d'' [ArgStr (GetIntRegName rs2), ArgInt imm]
     else if rs2 = 0 then sprintf 80 ''bltz %s, #%d'' [ArgStr (GetIntRegName rs1), ArgInt imm]
     else sprintf 80 ''blt %s,%s,%d'' [ArgStr (GetIntRegName rs1), ArgStr (GetIntRegName rs2), ArgInt imm])"

definition op32_BGE_ToString :: "int \<Rightarrow> int \<Rightarrow> uint32 \<Rightarrow> string result" where
  "op32_BGE_ToString rs1 rs2 imm =
    (if rs1 = 0 then sprintf 80 ''bgez %s, #%d'' [ArgStr (GetIntRegName rs2), ArgInt imm]
     else if rs2 = 0 then sprintf 80 ''bgez %s, #%d'' [ArgStr (GetIntRegName rs1), ArgInt imm]
     else sprintf 80 ''bge %s,%s,%d'' [ArgStr (GetIntRegName rs1), ArgStr (GetIntRegName rs2), ArgInt imm])"

definition op32_BLTU_ToString :: "int \<Rightarrow> int \<Rightarrow> uint32 \<Rightarrow> string result" where
  "op32_BLTU_ToString rs1 rs2 imm =
    sprintf 80 ''bltu %s,%s,%d'' [ArgStr (GetIntRegName rs1), ArgStr (GetIntRegName rs2), ArgInt imm]"

definition op32_BGEU_ToString :: "int \<Rightarrow> int \<Rightarrow> uint32 \<Rightarrow> string result" where
  "op32_BGEU_ToString rs1 rs2 imm =
    sprintf 80 ''bgeu %s,%s,%d'' [ArgStr (GetIntRegName rs1), ArgStr (GetIntRegName rs2), ArgInt imm]"

definition op32_LB_ToString :: "int \<Rightarrow> int \<Rightarrow> uint32 \<Rightarrow> string result" where
  "op32_LB_ToString rd rs1 imm =
    sprintf 80 ''lb %s,%d(%s)'' [ArgStr (GetIntRegName rd), ArgInt imm, ArgStr (GetIntRegName rs1)]"

definition op32_LH_ToString :: "int \<Rightarrow> int \<Rightarrow> uint32 \<Rightarrow> string result" where
  "op32_LH_ToString rd rs1 imm =
    sprintf 80 ''lh %s,%d(%s)'' [ArgStr (GetIntRegName rd), ArgInt imm, ArgStr (GetIntRegName rs1)]"

definition op32_LW_ToString :: "int \<Rightarrow> int \<Rightarrow> uint32 \<Rightarrow> string result" where
  "op32_LW_ToString rd rs1 imm =
    sprintf 80 ''lw %s,%d(%s)'' [ArgStr (GetIntRegName rd), ArgInt imm, ArgStr (GetIntRegName rs1)]"

definition op32_LBU_ToString :: "int \<Rightarrow> int \<Rightarrow> uint32 \<Rightarrow> string result" where
  "op32_LBU_ToString rd rs1 imm =
    sprintf 80 ''lbu %s,%d(%s)'' [ArgStr (GetIntRegName rd), ArgInt imm, ArgStr (GetIntRegName rs1)]"

definition op32_LHU_ToString :: "int \<Rightarrow> int \<Rightarrow> uint32 \<Rightarrow> string result" where
  "op32_LHU_ToString rd rs1 imm =
    sprintf 80 ''lhu %s,%d(%s)'' [ArgStr (GetIntRegName rd), ArgInt imm, ArgStr (GetIntRegName rs1)]"

definition op32_SB_ToString :: "int \<Rightarrow> int \<Rightarrow> uint32 \<Rightarrow> string result" where
  "op32_SB_ToString rs1 rs2 imm =
    sprintf 80 ''sb %s,%d(%s)'' [ArgStr (GetIntRegName rs2), ArgInt imm, ArgStr (GetIntRegName rs1)]"

definition op32_SH_ToString :: "int \<Rightarrow> int \<Rightarrow> uint32 \<Rightarrow> string result" where
  "op32_SH_ToString rs1 rs2 imm =
    sprintf 80 ''sh %s,%d(%s)'' [ArgStr (GetIntRegName rs2), ArgInt imm, ArgStr (GetIntRegName rs1)]"

definition op32_SW_ToString :: "int \<Rightarrow> int \<Rightarrow> uint32 \<Rightarrow> string result" where
  "op32_SW_ToString rs1 rs2 imm =
    sprintf 80 ''sw %s,%d(%s)'' [ArgStr (GetIntRegName rs2), ArgInt imm, ArgStr (GetIntRegName rs1)]"

definition op32_ADDI_ToString :: "int \<Rightarrow> int \<Rightarrow> uint32 \<Rightarrow> string result" where
  "op32_ADDI_ToString rd rs1 imm =
    sprintf 80 ''addi %s,%s,%d'' [ArgStr (GetIntRegName rd), ArgStr (GetIntRegName rs1), ArgInt imm]"

definition op32_SLTI_ToString :: "int \<Rightarrow> int \<Rightarrow> uint32 \<Rightarrow> string result" where
  "op32_SLTI_ToString rd rs1 imm =
    sprintf 80 ''slti %s,%s,%d'' [ArgStr (GetIntRegName rd), ArgStr (GetIntRegName rs1), ArgInt imm]"

definition op32_SLTIU_ToString :: "int \<Rightarrow> int \<Rightarrow> uint32 \<Rightarrow> string result" where
  "op32_SLTIU_ToString rd rs1 imm =
    sprintf 80 ''sltiu %s,%s,%d'' [ArgStr (GetIntRegName rd), ArgStr (GetIntRegName rs1), ArgInt imm]"

definition op32_XORI_ToString :: "int \<Rightarrow> int \<Rightarrow> uint32 \<Rightarrow> string result" where
  "op32_XORI_ToString rd rs1 imm =
    sprintf 80 ''xori %s,%s,%d'' [ArgStr (GetIntRegName rd), ArgStr (GetIntRegName rs1), ArgInt imm]"

definition op32_ORI_ToString :: "int \<Rightarrow> int \<Rightarrow> uint32 \<Rightarrow> string result" where
  "op32_ORI_ToString rd rs1 imm =
    sprintf 80 ''ori %s,%s,%d'' [ArgStr (GetIntRegName rd), ArgStr (GetIntRegName rs1), ArgInt imm]"

definition op32_ANDI_ToString :: "int \<Rightarrow> int \<Rightarrow> uint32 \<Rightarrow> string result" where
  "op32_ANDI_ToString rd rs1 imm =
    sprintf 80 ''andi %s,%s,%d'' [ArgStr (GetIntRegName rd), ArgStr (GetIntRegName rs1), ArgInt imm]"

definition op32_SLLI_ToString :: "int \<Rightarrow> int \<Rightarrow> int \<Rightarrow> string result" where
  "op32_SLLI_ToString rd rs1 shamt =
    sprintf 80 ''slli %s,%s,0x%x'' [ArgStr (GetIntRegName rd), ArgStr (GetIntRegName rs1), ArgInt (word_of_int shamt)]"

definition op32_SRLI_ToString :: "int \<Rightarrow> int \<Rightarrow> int \<Rightarrow> string result" where
  "op32_SRLI_ToString rd rs1 shamt =
    sprintf 80 ''srli %s,%s,0x%x'' [ArgStr (GetIntRegName rd), ArgStr (GetIntRegName rs1), ArgInt (word_of_int shamt)]"

definition op32_SRAI_ToString :: "int \<Rightarrow> int \<Rightarrow> int \<Rightarrow> string result" where
  "op32_SRAI_ToString rd rs1 shamt =
    sprintf 80 ''srai %s,%s,0x%x'' [ArgStr (GetIntRegName rd), ArgStr (GetIntRegName rs1), ArgInt (word_of_int shamt)]"

definition op32_ADD_ToString :: "int \<Rightarrow> int \<Rightarrow> int \<Rightarrow> string result" where
  "op32_ADD_ToString rd rs1 rs2 =
    sprintf 80 ''add %s,%s,%s'' [ArgStr (GetIntRegName rd), ArgStr (GetIntRegName rs1), ArgStr (GetIntRegName rs2)]"

definition op32_SUB_ToString :: "int \<Rightarrow> int \<Rightarrow> int \<Rightarrow> string result" where
  "op32_SUB_ToString rd rs1 rs2 =
    sprintf 80 ''sub %s,%s,%s'' [ArgStr (GetIntRegName rd), ArgStr (GetIntRegName rs1), ArgStr (GetIntRegName rs2)]"

definition op32_SLL_ToString :: "int \<Rightarrow> int \<Rightarrow> int \<Rightarrow> string result" where
  "op32_SLL_ToString rd rs1 rs2 =
    sprintf 80 ''sll %s,%s,%s'' [ArgStr (GetIntRegName rd), ArgStr (GetIntRegName rs1), ArgStr (GetIntRegName rs2)]"

definition op32_SLT_ToString :: "int \<Rightarrow> int \<Rightarrow> int \<Rightarrow> string result" where
  "op32_SLT_ToString rd rs1 rs2 =
    sprintf 80 ''slt %s,%s,%s'' [ArgStr (GetIntRegName rd), ArgStr (GetIntRegName rs1), ArgStr (GetIntRegName rs2)]"

definition op32_SLTU_ToString :: "int \<Rightarrow> int \<Rightarrow> int \<Rightarrow> string result" where
  "op32_SLTU_ToString rd rs1 rs2 =
    sprintf 80 ''sltu %s,%s,%s'' [ArgStr (GetIntRegName rd), ArgStr (GetIntRegName rs1), ArgStr (GetIntRegName rs2)]"

definition op32_XOR_ToString :: "int \<Rightarrow> int \<Rightarrow> int \<Rightarrow> string result" where
  "op32_XOR_ToString rd rs1 rs2 =
    sprintf 80 ''xor %s,%s,%s'' [ArgStr (GetIntRegName rd), ArgStr (GetIntRegName rs1), ArgStr (GetIntRegName rs2)]"

definition op32_SRL_ToString :: "int \<Rightarrow> int \<Rightarrow> int \<Rightarrow> string result" where
  "op32_SRL_ToString rd rs1 rs2 =
    sprintf 80 ''srl %s,%s,%s'' [ArgStr (GetIntRegName rd), ArgStr (GetIntRegName rs1), ArgStr (GetIntRegName rs2)]"

definition op32_SRA_ToString :: "int \<Rightarrow> int \<Rightarrow> int \<Rightarrow> string result" where
  "op32_SRA_ToString rd rs1 rs2 =
    sprintf 80 ''sra %s,%s,%s'' [ArgStr (GetIntRegName rd), ArgStr (GetIntRegName rs1), ArgStr (GetIntRegName rs2)]"

definition op32_OR_ToString :: "int \<Rightarrow> int \<Rightarrow> int \<Rightarrow> string result" where
  "op32_OR_ToString rd rs1 rs2 =
    sprintf 80 ''or %s,%s,%s'' [ArgStr (GetIntRegName rd), ArgStr (GetIntRegName rs1), ArgStr (GetIntRegName rs2)]"

definition op32_AND_ToString :: "int \<Rightarrow> int \<Rightarrow> int \<Rightarrow> string result" where
  "op32_AND_ToString rd rs1 rs2 =
    sprintf 80 ''and %s,%s,%s'' [ArgStr (GetIntRegName rd), ArgStr (GetIntRegName rs1), ArgStr (GetIntRegName rs2)]"

definition op32_FENCE_ToString :: "int \<Rightarrow> int \<Rightarrow> uint32 \<Rightarrow> uint32 \<Rightarrow> uint32 \<Rightarrow> string result" where
  "op32_FENCE_ToString rd rs1 fm pred succ = Inr ''fence''"

definition op32_FENCE_I_ToString :: "int \<Rightarrow> int \<Rightarrow> uint32 \<Rightarrow> string result" where
  "op32_FENCE_I_ToString rd rs1 imm = Inr ''fence.i''"

definition op32_ECALL_ToString :: "string result" where
  "op32_ECALL_ToString = Inr ''ecall''"

definition op32_EBREAK_ToString :: "string result" where
  "op32_EBREAK_ToString = Inr ''ebreak''"

definition op32_CSRRW_ToString :: "uint32 \<Rightarrow> int \<Rightarrow> int \<Rightarrow> string result" where
  "op32_CSRRW_ToString csr rd rs1 =
    (if rd = 0 then sprintf 80 ''csrw %s,%s'' [ArgStr (Some (GetString_csr csr)), ArgStr (GetIntRegName rs1)]
     else sprintf 80 ''csrrw %s,%s,%s'' [ArgStr (GetIntRegName rd), ArgStr (Some (GetString_csr csr)), ArgStr (GetIntRegName rs1)])"

definition op32_CSRRS_ToString :: "uint32 \<Rightarrow> int \<Rightarrow> int \<Rightarrow> string result" where
  "op32_CSRRS_ToString csr rd rs1 =
    (if rs1 = 0 then sprintf 80 ''csrr %s,%s'' [ArgStr (GetIntRegName rd), ArgStr (Some (GetString_csr csr))]
     else if rd = 0 then sprintf 80 ''csrr %s,%s'' [ArgStr (Some (GetString_csr csr)), ArgStr (GetIntRegName rs1)]
     else sprintf 80 ''csrrs %s,%s,%s'' [ArgStr (GetIntRegName rd), ArgStr (Some (GetString_csr csr)), ArgStr (GetIntRegName rs1)])"

definition op32_CSRRC_ToString :: "uint32 \<Rightarrow> int \<Rightarrow> int \<Rightarrow> string result" where
  "op32_CSRRC_ToString csr rd rs1 =
    (if rd = 0 then sprintf 80 ''csrc %s,%s'' [ArgStr (Some (GetString_csr csr)), ArgStr (GetIntRegName rs1)]
     else sprintf 80 ''csrrc %s,%s,%s'' [ArgStr (GetIntRegName rd), ArgStr (Some (GetString_csr csr)), ArgStr (GetIntRegName rs1)])"

definition op32_CSRRWI_ToString :: "uint32 \<Rightarrow> int \<Rightarrow> uint32 \<Rightarrow> string result" where
  "op32_CSRRWI_ToString csr rd uimm =
    (if rd = 0 then sprintf 80 ''csrwi %s,%d'' [ArgStr (Some (GetString_csr csr)), ArgInt uimm]
     else sprintf 80 ''csrrwi %s,%s,%d'' [ArgStr (GetIntRegName rd), ArgStr (Some (GetString_csr csr)), ArgInt uimm])"

definition op32_CSRRSI_ToString :: "uint32 \<Rightarrow> int \<Rightarrow> uint32 \<Rightarrow> string result" where
  "op32_CSRRSI_ToString csr rd uimm =
    (if rd = 0 then sprintf 80 ''csrsi %s,%d'' [ArgStr (Some (GetString_csr csr)), ArgInt uimm]
     else sprintf 80 ''csrrsi %s,%s,%d'' [ArgStr (GetIntRegName rd), ArgStr (Some (GetString_csr csr)), ArgInt uimm])"

definition op32_CSRRCI_ToString :: "uint32 \<Rightarrow> int \<Rightarrow> uint32 \<Rightarrow> string result" where
  "op32_CSRRCI_ToString csr rd uimm =
    (if rd = 0 then sprintf 80 ''csrci %s,%d'' [ArgStr (Some (GetString_csr csr)), ArgInt uimm]
     else sprintf 80 ''csrrci %s,%s,%d'' [ArgStr (GetIntRegName rd), ArgStr (Some (GetString_csr csr)), ArgInt uimm])"

definition op32_URET_ToString :: "string result" where
  "op32_URET_ToString = Inr ''uret''"

definition op32_SRET_ToString :: "string result" where
  "op32_SRET_ToString = Inr ''sret''"

definition op32_MRET_ToString :: "string result" where
  "op32_MRET_ToString = Inr ''mret''"

definition op32_WFI_ToString :: "string result" where
  "op32_WFI_ToString = Inr ''wfi''"

definition op32_SFENCE_VMA_ToString :: "int \<Rightarrow> int \<Rightarrow> string result" where
  "op32_SFENCE_VMA_ToString rs1 rs2 =
    sprintf 80 ''sfence.vma %s,%s'' [ArgStr (GetIntRegName rs1), ArgStr (GetIntRegName rs2)]"

primrec op32I_ToString :: "op32I \<Rightarrow> string result" where
  "op32I_ToString (op32_LUI rd imm) = op32_LUI_ToString rd imm"
| "op32I_ToString (op32_AUIPC rd imm) = op32_AUIPC_ToString rd imm"
| "op32I_ToString (op32_JAL rd imm) = op32_JAL_ToString rd imm"
| "op32I_ToString (op32_JALR rd rs1 imm) = op32_JALR_ToString rd rs1 imm"
| "op32I_ToString (op32_BEQ rs1 rs2 imm) = op32_BEQ_ToString rs1 rs2 imm"
| "op32I_ToString (op32_BNE rs1 rs2 imm) = op32_BNE_ToString rs1 rs2 imm"
| "op32I_ToString (op32_BLT rs1 rs2 imm) = op32_BLT_ToString rs1 rs2 imm"
| "op32I_ToString (op32_BGE rs1 rs2 imm) = op32_BGE_ToString rs1 rs2 imm"
| "op32I_ToString (op32_BLTU rs1 rs2 imm) = op32_BLTU_ToString rs1 rs2 imm"
| "op32I_ToString (op32_BGEU rs1 rs2 imm) = op32_BGEU_ToString rs1 rs2 imm"
| "op32I_ToString (op32_LB rd rs1 imm) = op32_LB_ToString rd rs1 imm"
| "op32I_ToString (op32_LH rd rs1 imm) = op32_LH_ToString rd rs1 imm"
| "op32I_ToString (op32_LW rd rs1 imm) = op32_LW_ToString rd rs1 imm"
| "op32I_ToString (op32_LBU rd rs1 imm) = op32_LBU_ToString rd rs1 imm"
| "op32I_ToString (op32_LHU rd rs1 imm) = op32_LHU_ToString rd rs1 imm"
| "op32I_ToString (op32_SB rs1 rs2 imm) = op32_SB_ToString rs1 rs2 imm"
| "op32I_ToString (op32_SH rs1 rs2 imm) = op32_SH_ToString rs1 rs2 imm"
| "op32I_ToString (op32_SW rs1 rs2 imm) = op32_SW_ToString rs1 rs2 imm"
| "op32I_ToString (op32_ADDI rd rs1 imm) = op32_ADDI_ToString rd rs1 imm"
| "op32I_ToString (op32_SLTI rd rs1 imm) = op32_SLTI_ToString rd rs1 imm"
| "op32I_ToString (op32_SLTIU rd rs1 imm) = op32_SLTIU_ToString rd rs1 imm"
| "op32I_ToString (op32_XORI rd rs1 imm) = op32_XORI_ToString rd rs1 imm"
| "op32I_ToString (op32_ORI rd rs1 imm) = op32_ORI_ToString rd rs1 imm"
| "op32I_ToString (op32_ANDI rd rs1 imm) = op32_ANDI_ToString rd rs1 imm"
| "op32I_ToString (op32_SLLI rd rs1 shamt) = op32_SLLI_ToString rd rs1 shamt"
| "op32I_ToString (op32_SRLI rd rs1 shamt) = op32_SRLI_ToString rd rs1 shamt"
| "op32I_ToString (op32_SRAI rd rs1 shamt) = op32_SRAI_ToString rd rs1 shamt"
| "op32I_ToString (op32_ADD rd rs1 rs2) = op32_ADD_ToString rd rs1 rs2"
| "op32I_ToString (op32_SUB rd rs1 rs2) = op32_SUB_ToString rd rs1 rs2"
| "op32I_ToString (op32_SLL rd rs1 rs2) = op32_SLL_ToString rd rs1 rs2"
| "op32I_ToString (op32_SLT rd rs1 rs2) = op32_SLT_ToString rd rs1 rs2"
| "op32I_ToString (op32_SLTU rd rs1 rs2) = op32_SLTU_ToString rd rs1 rs2"
| "op32I_ToString (op32_XOR rd rs1 rs2) = op32_XOR_ToString rd rs1 rs2"
| "op32I_ToString (op32_SRL rd rs1 rs2) = op32_SRL_ToString rd rs1 rs2"
| "op32I_ToString (op32_SRA rd rs1 rs2) = op32_SRA_ToString rd rs1 rs2"
| "op32I_ToString (op32_OR rd rs1 rs2) = op32_OR_ToString rd rs1 rs2"
| "op32I_ToString (op32_AND rd rs1 rs2) = op32_AND_ToString rd rs1 rs2"
| "op32I_ToString (op32_FENCE rd rs1 fm pred succ) = op32_FENCE_ToString rd rs1 fm pred succ"
| "op32I_ToString (op32_FENCE_I rd rs1 imm) = op32_FENCE_I_ToString rd rs1 imm"
| "op32I_ToString op32_ECALL = op32_ECALL_ToString"
| "op32I_ToString op32_EBREAK = op32_EBREAK_ToString"
| "op32I_ToString (op32_CSRRW csr rd rs1) = op32_CSRRW_ToString csr rd rs1"
| "op32I_ToString (op32_CSRRS csr rd rs1) = op32_CSRRS_ToString csr rd rs1"
| "op32I_ToString (op32_CSRRC csr rd rs1) = op32_CSRRC_ToString csr rd rs1"
| "op32I_ToString (op32_CSRRWI csr rd uimm) = op32_CSRRWI_ToString csr rd uimm"
| "op32I_ToString (op32_CSRRSI csr rd uimm) = op32_CSRRSI_ToString csr rd uimm"
| "op32I_ToString (op32_CSRRCI csr rd uimm) = op32_CSRRCI_ToString csr rd uimm"
| "op32I_ToString op32_URET = op32_URET_ToString"
| "op32I_ToString op32_SRET = op32_SRET_ToString"
| "op32I_ToString op32_MRET = op32_MRET_ToString"
| "op32I_ToString op32_WFI = op32_WFI_ToString"
| "op32I_ToString (op32_SFENCE_VMA rs1 rs2) = op32_SFENCE_VMA_ToString rs1 rs2"

lemmas op32I_ToString_defs =
  op32_LUI_ToString_def
  op32_AUIPC_ToString_def
  op32_JAL_ToString_def
  op32_JALR_ToString_def
  op32_BEQ_ToString_def
  op32_BNE_ToString_def
  op32_BLT_ToString_def
  op32_BGE_ToString_def
  op32_BLTU_ToString_def
  op32_BGEU_ToString_def
  op32_LB_ToString_def
  op32_LH_ToString_def
  op32_LW_ToString_def
  op32_LBU_ToString_def
  op32_LHU_ToString_def
  op32_SB_ToString_def
  op32_SH_ToString_def
  op32_SW_ToString_def
  op32_ADDI_ToString_def
  op32_SLTI_ToString_def
  op32_SLTIU_ToString_def
  op32_XORI_ToString_def
  op32_ORI_ToString_def
  op32_ANDI_ToString_def
  op32_SLLI_ToString_def
  op32_SRLI_ToString_def
  op32_SRAI_ToString_def
  op32_ADD_ToString_def
  op32_SUB_ToString_def
  op32_SLL_ToString_def
  op32_SLT_ToString_def
  op32_SLTU_ToString_def
  op32_XOR_ToString_def
  op32_SRL_ToString_def
  op32_SRA_ToString_def
  op32_OR_ToString_def
  op32_AND_ToString_def
  op32_FENCE_ToString_def
  op32_FENCE_I_ToString_def
  op32_ECALL_ToString_def
  op32_EBREAK_ToString_def
  op32_CSRRW_ToString_def
  op32_CSRRS_ToString_def
  op32_CSRRC_ToString_def
  op32_CSRRWI_ToString_def
  op32_CSRRSI_ToString_def
  op32_CSRRCI_ToString_def
  op32_URET_ToString_def
  op32_SRET_ToString_def
  op32_MRET_ToString_def
  op32_WFI_ToString_def
  op32_SFENCE_VMA_ToString_def

section \<open>RV32M\<close>

datatype (plugins only: code size) op32M =
    op32_MUL int int int
  | op32_MULH int int int
  | op32_MULHSU int int int
  | op32_MULHU int int int
  | op32_DIV int int int
  | op32_DIVU int int int
  | op32_REM int int int
  | op32_REMU int int int

definition op32_MUL_ToString :: "int \<Rightarrow> int \<Rightarrow> int \<Rightarrow> string result" where
  "op32_MUL_ToString rd rs1 rs2 =
    sprintf 80 ''mul %s,%s,%s'' [ArgStr (GetIntRegName rd), ArgStr (GetIntRegName rs1), ArgStr (GetIntRegName rs2)]"

definition op32_MULH_ToString :: "int \<Rightarrow> int \<Rightarrow> int \<Rightarrow> string result" where
  "op32_MULH_ToString rd rs1 rs2 =
    sprintf 80 ''mulh %s,%s,%s'' [ArgStr (GetIntRegName rd), ArgStr (GetIntRegName rs1), ArgStr (GetIntRegName rs2)]"

definition op32_MULHSU_ToString :: "int \<Rightarrow> int \<Rightarrow> int \<Rightarrow> string result" where
  "op32_MULHSU_ToString rd rs1 rs2 =
    sprintf 80 ''mulhsu %s,%s,%s'' [ArgStr (GetIntRegName rd), ArgStr (GetIntRegName rs1), ArgStr (GetIntRegName rs2)]"

definition op32_MULHU_ToString :: "int \<Rightarrow> int \<Rightarrow> int \<Rightarrow> string result" where
  "op32_MULHU_ToString rd rs1 rs2 =
    sprintf 80 ''mulhu %s,%s,%s'' [ArgStr (GetIntRegName rd), ArgStr (GetIntRegName rs1), ArgStr (GetIntRegName rs2)]"

definition op32_DIV_ToString :: "int \<Rightarrow> int \<Rightarrow> int \<Rightarrow> string result" where
  "op32_DIV_ToString rd rs1 rs2 =
    sprintf 80 ''div %s,%s,%s'' [ArgStr (GetIntRegName rd), ArgStr (GetIntRegName rs1), ArgStr (GetIntRegName rs2)]"

definition op32_DIVU_ToString :: "int \<Rightarrow> int \<Rightarrow> int \<Rightarrow> string result" where
  "op32_DIVU_ToString rd rs1 rs2 =
    sprintf 80 ''divu %s,%s,%s'' [ArgStr (GetIntRegName rd), ArgStr (GetIntRegName rs1), ArgStr (GetIntRegName rs2)]"

definition op32_REM_ToString :: "int \<Rightarrow> int \<Rightarrow> int \<Rightarrow> string result" where
  "op32_REM_ToString rd rs1 rs2 =
    sprintf 80 ''rem %s,%s,%s'' [ArgStr (GetIntRegName rd), ArgStr (GetIntRegName rs1), ArgStr (GetIntRegName rs2)]"

definition op32_REMU_ToString :: "int \<Rightarrow> int \<Rightarrow> int \<Rightarrow> string result" where
  "op32_REMU_ToString rd rs1 rs2 =
    sprintf 80 ''remu %s,%s,%s'' [ArgStr (GetIntRegName rd), ArgStr (GetIntRegName rs1), ArgStr (GetIntRegName rs2)]"

primrec op32M_ToString :: "op32M \<Rightarrow> string result" where
  "op32M_ToString (op32_MUL rd rs1 rs2) = op32_MUL_ToString rd rs1 rs2"
| "op32M_ToString (op32_MULH rd rs1 rs2) = op32_MULH_ToString rd rs1 rs2"
| "op32M_ToString (op32_MULHSU rd rs1 rs2) = op32_MULHSU_ToString rd rs1 rs2"
| "op32M_ToString (op32_MULHU rd rs1 rs2) = op32_MULHU_ToString rd rs1 rs2"
| "op32M_ToString (op32_DIV rd rs1 rs2) = op32_DIV_ToString rd rs1 rs2"
| "op32M_ToString (op32_DIVU rd rs1 rs2) = op32_DIVU_ToString rd rs1 rs2"
| "op32M_ToString (op32_REM rd rs1 rs2) = op32_REM_ToString rd rs1 rs2"
| "op32M_ToString (op32_REMU rd rs1 rs2) = op32_REMU_ToString rd rs1 rs2"

lemmas op32M_ToString_defs =
  op32_MUL_ToString_def
  op32_MULH_ToString_def
  op32_MULHSU_ToString_def
  op32_MULHU_ToString_def
  op32_DIV_ToString_def
  op32_DIVU_ToString_def
  op32_REM_ToString_def
  op32_REMU_ToString_def

section \<open>RV32A\<close>

datatype (plugins only: code size) op32A =
    op32_LR_W int int bool bool
  | op32_SC_W int int int bool bool
  | op32_AMOSWAP_W int int int bool bool
  | op32_AMOADD_W int int int bool bool
  | op32_AMOXOR_W int int int bool bool
  | op32_AMOAND_W int int int bool bool
  | op32_AMOOR_W int int int bool bool
  | op32_AMOMIN_W int int int bool bool
  | op32_AMOMAX_W int int int bool bool
  | op32_AMOMINU_W int int int bool bool
  | op32_AMOMAXU_W int int int bool bool

definition op32_LR_W_ToString :: "int \<Rightarrow> int \<Rightarrow> bool \<Rightarrow> bool \<Rightarrow> string result" where
  "op32_LR_W_ToString rd rs1 aq rl =
    sprintf 80 ''lr.w %s,(%s)'' [ArgStr (GetIntRegName rd), ArgStr (GetIntRegName rs1)]"

definition op32_SC_W_ToString :: "int \<Rightarrow> int \<Rightarrow> int \<Rightarrow> bool \<Rightarrow> bool \<Rightarrow> string result" where
  "op32_SC_W_ToString rd rs1 rs2 aq rl =
    sprintf 80 ''sc.w %s,%s,(%s)'' [ArgStr (GetIntRegName rd), ArgStr (GetIntRegName rs2), ArgStr (GetIntRegName rs1)]"

definition op32_AMOSWAP_W_ToString :: "int \<Rightarrow> int \<Rightarrow> int \<Rightarrow> bool \<Rightarrow> bool \<Rightarrow> string result" where
  "op32_AMOSWAP_W_ToString rd rs1 rs2 aq rl =
    sprintf 80 ''amoswap.w %s,%s,(%s)'' [ArgStr (GetIntRegName rd), ArgStr (GetIntRegName rs2), ArgStr (GetIntRegName rs1)]"

definition op32_AMOADD_W_ToString :: "int \<Rightarrow> int \<Rightarrow> int \<Rightarrow> bool \<Rightarrow> bool \<Rightarrow> string result" where
  "op32_AMOADD_W_ToString rd rs1 rs2 aq rl =
    sprintf 80 ''amoadd.w %s,%s,(%s)'' [ArgStr (GetIntRegName rd), ArgStr (GetIntRegName rs2), ArgStr (GetIntRegName rs1)]"

definition op32_AMOXOR_W_ToString :: "int \<Rightarrow> int \<Rightarrow> int \<Rightarrow> bool \<Rightarrow> bool \<Rightarrow> string result" where
  "op32_AMOXOR_W_ToString rd rs1 rs2 aq rl =
    sprintf 80 ''amoxor.w %s,%s,(%s)'' [ArgStr (GetIntRegName rd), ArgStr (GetIntRegName rs2), ArgStr (GetIntRegName rs1)]"

definition op32_AMOAND_W_ToString :: "int \<Rightarrow> int \<Rightarrow> int \<Rightarrow> bool \<Rightarrow> bool \<Rightarrow> string result" where
  "op32_AMOAND_W_ToString rd rs1 rs2 aq rl =
    sprintf 80 ''amoand.w %s,%s,(%s)'' [ArgStr (GetIntRegName rd), ArgStr (GetIntRegName rs2), ArgStr (GetIntRegName rs1)]"

definition op32_AMOOR_W_ToString :: "int \<Rightarrow> int \<Rightarrow> int \<Rightarrow> bool \<Rightarrow> bool \<Rightarrow> string result" where
  "op32_AMOOR_W_ToString rd rs1 rs2 aq rl =
    sprintf 80 ''amoor.w %s,%s,(%s)'' [ArgStr (GetIntRegName rd), ArgStr (GetIntRegName rs2), ArgStr (GetIntRegName rs1)]"

definition op32_AMOMIN_W_ToString :: "int \<Rightarrow> int \<Rightarrow> int \<Rightarrow> bool \<Rightarrow> bool \<Rightarrow> string result" where
  "op32_AMOMIN_W_ToString rd rs1 rs2 aq rl =
    sprintf 80 ''amomin.w %s,%s,(%s)'' [ArgStr (GetIntRegName rd), ArgStr (GetIntRegName rs2), ArgStr (GetIntRegName rs1)]"

definition op32_AMOMAX_W_ToString :: "int \<Rightarrow> int \<Rightarrow> int \<Rightarrow> bool \<Rightarrow> bool \<Rightarrow> string result" where
  "op32_AMOMAX_W_ToString rd rs1 rs2 aq rl =
    sprintf 80 ''amomax.w %s,%s,(%s)'' [ArgStr (GetIntRegName rd), ArgStr (GetIntRegName rs2), ArgStr (GetIntRegName rs1)]"

definition op32_AMOMINU_W_ToString :: "int \<Rightarrow> int \<Rightarrow> int \<Rightarrow> bool \<Rightarrow> bool \<Rightarrow> string result" where
  "op32_AMOMINU_W_ToString rd rs1 rs2 aq rl =
    sprintf 80 ''amominu.w %s,%s,(%s)'' [ArgStr (GetIntRegName rd), ArgStr (GetIntRegName rs2), ArgStr (GetIntRegName rs1)]"

definition op32_AMOMAXU_W_ToString :: "int \<Rightarrow> int \<Rightarrow> int \<Rightarrow> bool \<Rightarrow> bool \<Rightarrow> string result" where
  "op32_AMOMAXU_W_ToString rd rs1 rs2 aq rl =
    sprintf 80 ''amomaxu.w %s,%s,(%s)'' [ArgStr (GetIntRegName rd), ArgStr (GetIntRegName rs2), ArgStr (GetIntRegName rs1)]"

primrec op32A_ToString :: "op32A \<Rightarrow> string result" where
  "op32A_ToString (op32_LR_W rd rs1 aq rl) = op32_LR_W_ToString rd rs1 aq rl"
| "op32A_ToString (op32_SC_W rd rs1 rs2 aq rl) = op32_SC_W_ToString rd rs1 rs2 aq rl"
| "op32A_ToString (op32_AMOSWAP_W rd rs1 rs2 aq rl) = op32_AMOSWAP_W_ToString rd rs1 rs2 aq rl"
| "op32A_ToString (op32_AMOADD_W rd rs1 rs2 aq rl) = op32_AMOADD_W_ToString rd rs1 rs2 aq rl"
| "op32A_ToString (op32_AMOXOR_W rd rs1 rs2 aq rl) = op32_AMOXOR_W_ToString rd rs1 rs2 aq rl"
| "op32A_ToString (op32_AMOAND_W rd rs1 rs2 aq rl) = op32_AMOAND_W_ToString rd rs1 rs2 aq rl"
| "op32A_ToString (op32_AMOOR_W rd rs1 rs2 aq rl) = op32_AMOOR_W_ToString rd rs1 rs2 aq rl"
| "op32A_ToString (op32_AMOMIN_W rd rs1 rs2 aq rl) = op32_AMOMIN_W_ToString rd rs1 rs2 aq rl"
| "op32A_ToString (op32_AMOMAX_W rd rs1 rs2 aq rl) = op32_AMOMAX_W_ToString rd rs1 rs2 aq rl"
| "op32A_ToString (op32_AMOMINU_W rd rs1 rs2 aq rl) = op32_AMOMINU_W_ToString rd rs1 rs2 aq rl"
| "op32A_ToString (op32_AMOMAXU_W rd rs1 rs2 aq rl) = op32_AMOMAXU_W_ToString rd rs1 rs2 aq rl"

lemmas op32A_ToString_defs =
  op32_LR_W_ToString_def
  op32_SC_W_ToString_def
  op32_AMOSWAP_W_ToString_def
  op32_AMOADD_W_ToString_def
  op32_AMOXOR_W_ToString_def
  op32_AMOAND_W_ToString_def
  op32_AMOOR_W_ToString_def
  op32_AMOMIN_W_ToString_def
  op32_AMOMAX_W_ToString_def
  op32_AMOMINU_W_ToString_def
  op32_AMOMAXU_W_ToString_def

section \<open>RV32F\<close>

datatype (plugins only: code size) op32F =
    op32_FLW int int uint32
  | op32_FSW int int uint32
  | op32_FMADD_S int int int int int
  | op32_FMSUB_S int int int int int
  | op32_FNMSUB_S int int int int int
  | op32_FNMADD_S int int int int int
  | op32_FADD_S int int int int
  | op32_FSUB_S int int int int
  | op32_FMUL_S int int int int
  | op32_FDIV_S int int int int
  | op32_FSQRT_S int int int
  | op32_FSGNJ_S int int int
  | op32_FSGNJN_S int int int
  | op32_FSGNJX_S int int int
  | op32_FMIN_S int int int
  | op32_FMAX_S int int int
  | op32_FCVT_W_S int int int
  | op32_FCVT_WU_S int int int
  | op32_FMV_X_W int int
  | op32_FEQ_S int int int
  | op32_FLT_S int int int
  | op32_FLE_S int int int
  | op32_FCLASS_S int int
  | op32_FCVT_S_W int int int
  | op32_FCVT_S_WU int int int
  | op32_FMV_W_X int int

definition op32_FLW_ToString :: "int \<Rightarrow> int \<Rightarrow> uint32 \<Rightarrow> string result" where
  "op32_FLW_ToString rd rs1 imm =
    sprintf 80 ''flw %s,%d(%s)'' [ArgStr (GetFpRegName rd), ArgInt imm, ArgStr (GetIntRegName rs1)]"

definition op32_FSW_ToString :: "int \<Rightarrow> int \<Rightarrow> uint32 \<Rightarrow> string result" where
  "op32_FSW_ToString rs1 rs2 imm =
    sprintf 80 ''fsw %s,%d(%s)'' [ArgStr (GetFpRegName rs2), ArgInt imm, ArgStr (GetIntRegName rs1)]"

definition op32_FMADD_S_ToString :: "int \<Rightarrow> int \<Rightarrow> int \<Rightarrow> int \<Rightarrow> int \<Rightarrow> string result" where
  "op32_FMADD_S_ToString rd rs1 rs2 rs3 rm =
    (let name = GetRoundingModeName rm in
     if name \<noteq> None
     then sprintf 80 ''fmadd.s %s,%s,%s,%s,%s'' [ArgStr (GetFpRegName rd), ArgStr (GetFpRegName rs1), ArgStr (GetFpRegName rs2), ArgStr (GetFpRegName rs3), ArgStr name]
     else sprintf 80 ''fmadd.s %s,%s,%s,%s'' [ArgStr (GetFpRegName rd), ArgStr (GetFpRegName rs1), ArgStr (GetFpRegName rs2), ArgStr (GetFpRegName rs3)])"

definition op32_FMSUB_S_ToString :: "int \<Rightarrow> int \<Rightarrow> int \<Rightarrow> int \<Rightarrow> int \<Rightarrow> string result" where
  "op32_FMSUB_S_ToString rd rs1 rs2 rs3 rm =
    (let name = GetRoundingModeName rm in
     if name \<noteq> None
     then sprintf 80 ''fmsub.s %s,%s,%s,%s,%s'' [ArgStr (GetFpRegName rd), ArgStr (GetFpRegName rs1), ArgStr (GetFpRegName rs2), ArgStr (GetFpRegName rs3), ArgStr name]
     else sprintf 80 ''fmsub.s %s,%s,%s,%s'' [ArgStr (GetFpRegName rd), ArgStr (GetFpRegName rs1), ArgStr (GetFpRegName rs2), ArgStr (GetFpRegName rs3)])"

definition op32_FNMSUB_S_ToString :: "int \<Rightarrow> int \<Rightarrow> int \<Rightarrow> int \<Rightarrow> int \<Rightarrow> string result" where
  "op32_FNMSUB_S_ToString rd rs1 rs2 rs3 rm =
    (let name = GetRoundingModeName rm in
     if name \<noteq> None
     then sprintf 80 ''fnmsub.s %s,%s,%s,%s,%s'' [ArgStr (GetFpRegName rd), ArgStr (GetFpRegName rs1), ArgStr (GetFpRegName rs2), ArgStr (GetFpRegName rs3), ArgStr name]
     else sprintf 80 ''fnmsub.s %s,%s,%s,%s'' [ArgStr (GetFpRegName rd), ArgStr (GetFpRegName rs1), ArgStr (GetFpRegName rs2), ArgStr (GetFpRegName rs3)])"

definition op32_FNMADD_S_ToString :: "int \<Rightarrow> int \<Rightarrow> int \<Rightarrow> int \<Rightarrow> int \<Rightarrow> string result" where
  "op32_FNMADD_S_ToString rd rs1 rs2 rs3 rm =
    (let name = GetRoundingModeName rm in
     if name \<noteq> None
     then sprintf 80 ''fnmadd.s %s,%s,%s,%s,%s'' [ArgStr (GetFpRegName rd), ArgStr (GetFpRegName rs1), ArgStr (GetFpRegName rs2), ArgStr (GetFpRegName rs3), ArgStr name]
     else sprintf 80 ''fnmadd.s %s,%s,%s,%s'' [ArgStr (GetFpRegName rd), ArgStr (GetFpRegName rs1), ArgStr (GetFpRegName rs2), ArgStr (GetFpRegName rs3)])"

definition op32_FADD_S_ToString :: "int \<Rightarrow> int \<Rightarrow> int \<Rightarrow> int \<Rightarrow> string result" where
  "op32_FADD_S_ToString rd rs1 rs2 rm =
    (let name = GetRoundingModeName rm in
     if name \<noteq> None
     then sprintf 80 ''fadd.s %s,%s,%s,%s'' [ArgStr (GetFpRegName rd), ArgStr (GetFpRegName rs1), ArgStr (GetFpRegName rs2), ArgStr name]
     else sprintf 80 ''fadd.s %s,%s,%s'' [ArgStr (GetFpRegName rd), ArgStr (GetFpRegName rs1), ArgStr (GetFpRegName rs2)])"

definition op32_FSUB_S_ToString :: "int \<Rightarrow> int \<Rightarrow> int \<Rightarrow> int \<Rightarrow> string result" where
  "op32_FSUB_S_ToString rd rs1 rs2 rm =
    (let name = GetRoundingModeName rm in
     if name \<noteq> None
     then sprintf 80 ''fsub.s %s,%s,%s,%s'' [ArgStr (GetFpRegName rd), ArgStr (GetFpRegName rs1), ArgStr (GetFpRegName rs2), ArgStr name]
     else sprintf 80 ''fsub.s %s,%s,%s'' [ArgStr (GetFpRegName rd), ArgStr (GetFpRegName rs1), ArgStr (GetFpRegName rs2)])"

definition op32_FMUL_S_ToString :: "int \<Rightarrow> int \<Rightarrow> int \<Rightarrow> int \<Rightarrow> string result" where
  "op32_FMUL_S_ToString rd rs1 rs2 rm =
    (let name = GetRoundingModeName rm in
     if name \<noteq> None
     then sprintf 80 ''fmul.s %s,%s,%s,%s'' [ArgStr (GetFpRegName rd), ArgStr (GetFpRegName rs1), ArgStr (GetFpRegName rs2), ArgStr name]
     else sprintf 80 ''fmul.s %s,%s,%s'' [ArgStr (GetFpRegName rd), ArgStr (GetFpRegName rs1), ArgStr (GetFpRegName rs2)])"

definition op32_FDIV_S_ToString :: "int \<Rightarrow> int \<Rightarrow> int \<Rightarrow> int \<Rightarrow> string result" where
  "op32_FDIV_S_ToString rd rs1 rs2 rm =
    (let name = GetRoundingModeName rm in
     if name \<noteq> None
     then sprintf 80 ''fdiv.s %s,%s,%s,%s'' [ArgStr (GetFpRegName rd), ArgStr (GetFpRegName rs1), ArgStr (GetFpRegName rs2), ArgStr name]
     else sprintf 80 ''fdiv.s %s,%s,%s'' [ArgStr (GetFpRegName rd), ArgStr (GetFpRegName rs1), ArgStr (GetFpRegName rs2)])"

definition op32_FSQRT_S_ToString :: "int \<Rightarrow> int \<Rightarrow> int \<Rightarrow> string result" where
  "op32_FSQRT_S_ToString rd rs1 rm =
    (let name = GetRoundingModeName rm in
     if name \<noteq> None
     then sprintf 80 ''fsqrt.s %s,%s,%s'' [ArgStr (GetFpRegName rd), ArgStr (GetFpRegName rs1), ArgStr name]
     else sprintf 80 ''fsqrt.s %s,%s'' [ArgStr (GetFpRegName rd), ArgStr (GetFpRegName rs1)])"

definition op32_FSGNJ_S_ToString :: "int \<Rightarrow> int \<Rightarrow> int \<Rightarrow> string result" where
  "op32_FSGNJ_S_ToString rd rs1 rs2 =
    sprintf 80 ''fsgnj.s %s,%s,%s'' [ArgStr (GetFpRegName rd), ArgStr (GetFpRegName rs1), ArgStr (GetFpRegName rs2)]"

definition op32_FSGNJN_S_ToString :: "int \<Rightarrow> int \<Rightarrow> int \<Rightarrow> string result" where
  "op32_FSGNJN_S_ToString rd rs1 rs2 =
    sprintf 80 ''fsgnjn.s %s,%s,%s'' [ArgStr (GetFpRegName rd), ArgStr (GetFpRegName rs1), ArgStr (GetFpRegName rs2)]"

definition op32_FSGNJX_S_ToString :: "int \<Rightarrow> int \<Rightarrow> int \<Rightarrow> string result" where
  "op32_FSGNJX_S_ToString rd rs1 rs2 =
    sprintf 80 ''fsgnjx.s %s,%s,%s'' [ArgStr (GetFpRegName rd), ArgStr (GetFpRegName rs1), ArgStr (GetFpRegName rs2)]"

definition op32_FMIN_S_ToString :: "int \<Rightarrow> int \<Rightarrow> int \<Rightarrow> string result" where
  "op32_FMIN_S_ToString rd rs1 rs2 =
    sprintf 80 ''fmin.s %s,%s,%s'' [ArgStr (GetFpRegName rd), ArgStr (GetFpRegName rs1), ArgStr (GetFpRegName rs2)]"

definition op32_FMAX_S_ToString :: "int \<Rightarrow> int \<Rightarrow> int \<Rightarrow> string result" where
  "op32_FMAX_S_ToString rd rs1 rs2 =
    sprintf 80 ''fmax.s %s,%s,%s'' [ArgStr (GetFpRegName rd), ArgStr (GetFpRegName rs1), ArgStr (GetFpRegName rs2)]"

definition op32_FCVT_W_S_ToString :: "int \<Rightarrow> int \<Rightarrow> int \<Rightarrow> string result" where
  "op32_FCVT_W_S_ToString rd rs1 rm =
    (let name = GetRoundingModeName rm in
     if name \<noteq> None
     then sprintf 80 ''fcvt.w.s %s,%s,%s'' [ArgStr (GetIntRegName rd), ArgStr (GetFpRegName rs1), ArgStr name]
     else sprintf 80 ''fcvt.w.s %s,%s'' [ArgStr (GetIntRegName rd), ArgStr (GetFpRegName rs1)])"

definition op32_FCVT_WU_S_ToString :: "int \<Rightarrow> int \<Rightarrow> int \<Rightarrow> string result" where
  "op32_FCVT_WU_S_ToString rd rs1 rm =
    (let name = GetRoundingModeName rm in
     if name \<noteq> None
     then sprintf 80 ''fcvt.wu.s %s,%s,%s'' [ArgStr (GetIntRegName rd), ArgStr (GetFpRegName rs1), ArgStr name]
     else sprintf 80 ''fcvt.wu.s %s,%s'' [ArgStr (GetIntRegName rd), ArgStr (GetFpRegName rs1)])"

definition op32_FMV_X_W_ToString :: "int \<Rightarrow> int \<Rightarrow> string result" where
  "op32_FMV_X_W_ToString rd rs1 =
    sprintf 80 ''fmv.x.w %s,%s'' [ArgStr (GetIntRegName rd), ArgStr (GetFpRegName rs1)]"

definition op32_FEQ_S_ToString :: "int \<Rightarrow> int \<Rightarrow> int \<Rightarrow> string result" where
  "op32_FEQ_S_ToString rd rs1 rs2 =
    sprintf 80 ''feq.s %s,%s,%s'' [ArgStr (GetIntRegName rd), ArgStr (GetFpRegName rs1), ArgStr (GetFpRegName rs2)]"

definition op32_FLT_S_ToString :: "int \<Rightarrow> int \<Rightarrow> int \<Rightarrow> string result" where
  "op32_FLT_S_ToString rd rs1 rs2 =
    sprintf 80 ''flt.s %s,%s,%s'' [ArgStr (GetIntRegName rd), ArgStr (GetFpRegName rs1), ArgStr (GetFpRegName rs2)]"

definition op32_FLE_S_ToString :: "int \<Rightarrow> int \<Rightarrow> int \<Rightarrow> string result" where
  "op32_FLE_S_ToString rd rs1 rs2 =
    sprintf 80 ''fle.s %s,%s,%s'' [ArgStr (GetIntRegName rd), ArgStr (GetFpRegName rs1), ArgStr (GetFpRegName rs2)]"

definition op32_FCLASS_S_ToString :: "int \<Rightarrow> int \<Rightarrow> string result" where
  "op32_FCLASS_S_ToString rd rs1 =
    sprintf 80 ''fclass.s %s,%s'' [ArgStr (GetIntRegName rd), ArgStr (GetFpRegName rs1)]"

definition op32_FCVT_S_W_ToString :: "int \<Rightarrow> int \<Rightarrow> int \<Rightarrow> string result" where
  "op32_FCVT_S_W_ToString rd rs1 rm =
    (let name = GetRoundingModeName rm in
     if name \<noteq> None
     then sprintf 80 ''fcvt.s.w %s,%s,%s'' [ArgStr (GetFpRegName rd), ArgStr (GetIntRegName rs1), ArgStr name]
     else sprintf 80 ''fcvt.s.w %s,%s'' [ArgStr (GetFpRegName rd), ArgStr (GetIntRegName rs1)])"

definition op32_FCVT_S_WU_ToString :: "int \<Rightarrow> int \<Rightarrow> int \<Rightarrow> string result" where
  "op32_FCVT_S_WU_ToString rd rs1 rm =
    (let name = GetRoundingModeName rm in
     if name \<noteq> None
     then sprintf 80 ''fcvt.s.wu %s,%s,%s'' [ArgStr (GetFpRegName rd), ArgStr (GetIntRegName rs1), ArgStr name]
     else sprintf 80 ''fcvt.s.wu %s,%s'' [ArgStr (GetFpRegName rd), ArgStr (GetIntRegName rs1)])"

definition op32_FMV_W_X_ToString :: "int \<Rightarrow> int \<Rightarrow> string result" where
  "op32_FMV_W_X_ToString rd rs1 =
    sprintf 80 ''fmv.w.x %s,%s'' [ArgStr (GetFpRegName rd), ArgStr (GetIntRegName rs1)]"

primrec op32F_ToString :: "op32F \<Rightarrow> string result" where
  "op32F_ToString (op32_FLW rd rs1 imm) = op32_FLW_ToString rd rs1 imm"
| "op32F_ToString (op32_FSW rs1 rs2 imm) = op32_FSW_ToString rs1 rs2 imm"
| "op32F_ToString (op32_FMADD_S rd rs1 rs2 rs3 rm) = op32_FMADD_S_ToString rd rs1 rs2 rs3 rm"
| "op32F_ToString (op32_FMSUB_S rd rs1 rs2 rs3 rm) = op32_FMSUB_S_ToString rd rs1 rs2 rs3 rm"
| "op32F_ToString (op32_FNMSUB_S rd rs1 rs2 rs3 rm) = op32_FNMSUB_S_ToString rd rs1 rs2 rs3 rm"
| "op32F_ToString (op32_FNMADD_S rd rs1 rs2 rs3 rm) = op32_FNMADD_S_ToString rd rs1 rs2 rs3 rm"
| "op32F_ToString (op32_FADD_S rd rs1 rs2 rm) = op32_FADD_S_ToString rd rs1 rs2 rm"
| "op32F_ToString (op32_FSUB_S rd rs1 rs2 rm) = op32_FSUB_S_ToString rd rs1 rs2 rm"
| "op32F_ToString (op32_FMUL_S rd rs1 rs2 rm) = op32_FMUL_S_ToString rd rs1 rs2 rm"
| "op32F_ToString (op32_FDIV_S rd rs1 rs2 rm) = op32_FDIV_S_ToString rd rs1 rs2 rm"
| "op32F_ToString (op32_FSQRT_S rd rs1 rm) = op32_FSQRT_S_ToString rd rs1 rm"
| "op32F_ToString (op32_FSGNJ_S rd rs1 rs2) = op32_FSGNJ_S_ToString rd rs1 rs2"
| "op32F_ToString (op32_FSGNJN_S rd rs1 rs2) = op32_FSGNJN_S_ToString rd rs1 rs2"
| "op32F_ToString (op32_FSGNJX_S rd rs1 rs2) = op32_FSGNJX_S_ToString rd rs1 rs2"
| "op32F_ToString (op32_FMIN_S rd rs1 rs2) = op32_FMIN_S_ToString rd rs1 rs2"
| "op32F_ToString (op32_FMAX_S rd rs1 rs2) = op32_FMAX_S_ToString rd rs1 rs2"
| "op32F_ToString (op32_FCVT_W_S rd rs1 rm) = op32_FCVT_W_S_ToString rd rs1 rm"
| "op32F_ToString (op32_FCVT_WU_S rd rs1 rm) = op32_FCVT_WU_S_ToString rd rs1 rm"
| "op32F_ToString (op32_FMV_X_W rd rs1) = op32_FMV_X_W_ToString rd rs1"
| "op32F_ToString (op32_FEQ_S rd rs1 rs2) = op32_FEQ_S_ToString rd rs1 rs2"
| "op32F_ToString (op32_FLT_S rd rs1 rs2) = op32_FLT_S_ToString rd rs1 rs2"
| "op32F_ToString (op32_FLE_S rd rs1 rs2) = op32_FLE_S_ToString rd rs1 rs2"
| "op32F_ToString (op32_FCLASS_S rd rs1) = op32_FCLASS_S_ToString rd rs1"
| "op32F_ToString (op32_FCVT_S_W rd rs1 rm) = op32_FCVT_S_W_ToString rd rs1 rm"
| "op32F_ToString (op32_FCVT_S_WU rd rs1 rm) = op32_FCVT_S_WU_ToString rd rs1 rm"
| "op32F_ToString (op32_FMV_W_X rd rs1) = op32_FMV_W_X_ToString rd rs1"

lemmas op32F_ToString_defs =
  op32_FLW_ToString_def
  op32_FSW_ToString_def
  op32_FMADD_S_ToString_def
  op32_FMSUB_S_ToString_def
  op32_FNMSUB_S_ToString_def
  op32_FNMADD_S_ToString_def
  op32_FADD_S_ToString_def
  op32_FSUB_S_ToString_def
  op32_FMUL_S_ToString_def
  op32_FDIV_S_ToString_def
  op32_FSQRT_S_ToString_def
  op32_FSGNJ_S_ToString_def
  op32_FSGNJN_S_ToString_def
  op32_FSGNJX_S_ToString_def
  op32_FMIN_S_ToString_def
  op32_FMAX_S_ToString_def
  op32_FCVT_W_S_ToString_def
  op32_FCVT_WU_S_ToString_def
  op32_FMV_X_W_ToString_def
  op32_FEQ_S_ToString_def
  op32_FLT_S_ToString_def
  op32_FLE_S_ToString_def
  op32_FCLASS_S_ToString_def
  op32_FCVT_S_W_ToString_def
  op32_FCVT_S_WU_ToString_def
  op32_FMV_W_X_ToString_def

section \<open>RV32D\<close>

datatype (plugins only: code size) op32D =
    op32_FLD int int uint32
  | op32_FSD int int uint32
  | op32_FMADD_D int int int int int
  | op32_FMSUB_D int int int int int
  | op32_FNMSUB_D int int int int int
  | op32_FNMADD_D int int int int int
  | op32_FADD_D int int int int
  | op32_FSUB_D int int int int
  | op32_FMUL_D int int int int
  | op32_FDIV_D int int int int
  | op32_FSQRT_D int int int
  | op32_FSGNJ_D int int int
  | op32_FSGNJN_D int int int
  | op32_FSGNJX_D int int int
  | op32_FMIN_D int int int
  | op32_FMAX_D int int int
  | op32_FCVT_S_D int int int
  | op32_FCVT_D_S int int int
  | op32_FEQ_D int int int
  | op32_FLT_D int int int
  | op32_FLE_D int int int
  | op32_FCLASS_D int int
  | op32_FCVT_W_D int int int
  | op32_FCVT_WU_D int int int
  | op32_FCVT_D_W int int int
  | op32_FCVT_D_WU int int int

definition op32_FLD_ToString :: "int \<Rightarrow> int \<Rightarrow> uint32 \<Rightarrow> string result" where
  "op32_FLD_ToString rd rs1 imm =
    sprintf 80 ''fld %s,%d(%s)'' [ArgStr (GetFpRegName rd), ArgInt imm, ArgStr (GetIntRegName rs1)]"

definition op32_FSD_ToString :: "int \<Rightarrow> int \<Rightarrow> uint32 \<Rightarrow> string result" where
  "op32_FSD_ToString rs1 rs2 imm =
    sprintf 80 ''fsd %s,%d(%s)'' [ArgStr (GetFpRegName rs2), ArgInt imm, ArgStr (GetIntRegName rs1)]"

definition op32_FMADD_D_ToString :: "int \<Rightarrow> int \<Rightarrow> int \<Rightarrow> int \<Rightarrow> int \<Rightarrow> string result" where
  "op32_FMADD_D_ToString rd rs1 rs2 rs3 rm =
    (let name = GetRoundingModeName rm in
     if name \<noteq> None
     then sprintf 80 ''fmadd.d %s,%s,%s,%s,%s'' [ArgStr (GetFpRegName rd), ArgStr (GetFpRegName rs1), ArgStr (GetFpRegName rs2), ArgStr (GetFpRegName rs3), ArgStr name]
     else sprintf 80 ''fmadd.d %s,%s,%s,%s'' [ArgStr (GetFpRegName rd), ArgStr (GetFpRegName rs1), ArgStr (GetFpRegName rs2), ArgStr (GetFpRegName rs3)])"

definition op32_FMSUB_D_ToString :: "int \<Rightarrow> int \<Rightarrow> int \<Rightarrow> int \<Rightarrow> int \<Rightarrow> string result" where
  "op32_FMSUB_D_ToString rd rs1 rs2 rs3 rm =
    (let name = GetRoundingModeName rm in
     if name \<noteq> None
     then sprintf 80 ''fmsub.d %s,%s,%s,%s,%s'' [ArgStr (GetFpRegName rd), ArgStr (GetFpRegName rs1), ArgStr (GetFpRegName rs2), ArgStr (GetFpRegName rs3), ArgStr name]
     else sprintf 80 ''fmsub.d %s,%s,%s,%s'' [ArgStr (GetFpRegName rd), ArgStr (GetFpRegName rs1), ArgStr (GetFpRegName rs2), ArgStr (GetFpRegName rs3)])"

definition op32_FNMSUB_D_ToString :: "int \<Rightarrow> int \<Rightarrow> int \<Rightarrow> int \<Rightarrow> int \<Rightarrow> string result" where
  "op32_FNMSUB_D_ToString rd rs1 rs2 rs3 rm =
    (let name = GetRoundingModeName rm in
     if name \<noteq> None
     then sprintf 80 ''fnmsub.d %s,%s,%s,%s,%s'' [ArgStr (GetFpRegName rd), ArgStr (GetFpRegName rs1), ArgStr (GetFpRegName rs2), ArgStr (GetFpRegName rs3), ArgStr name]
     else sprintf 80 ''fnmsub.d %s,%s,%s,%s'' [ArgStr (GetFpRegName rd), ArgStr (GetFpRegName rs1), ArgStr (GetFpRegName rs2), ArgStr (GetFpRegName rs3)])"

definition op32_FNMADD_D_ToString :: "int \<Rightarrow> int \<Rightarrow> int \<Rightarrow> int \<Rightarrow> int \<Rightarrow> string result" where
  "op32_FNMADD_D_ToString rd rs1 rs2 rs3 rm =
    (let name = GetRoundingModeName rm in
     if name \<noteq> None
     then sprintf 80 ''fnmadd.d %s,%s,%s,%s,%s'' [ArgStr (GetFpRegName rd), ArgStr (GetFpRegName rs1), ArgStr (GetFpRegName rs2), ArgStr (GetFpRegName rs3), ArgStr name]
     else sprintf 80 ''fnmadd.d %s,%s,%s,%s'' [ArgStr (GetFpRegName rd), ArgStr (GetFpRegName rs1), ArgStr (GetFpRegName rs2), ArgStr (GetFpRegName rs3)])"

definition op32_FADD_D_ToString :: "int \<Rightarrow> int \<Rightarrow> int \<Rightarrow> int \<Rightarrow> string result" where
  "op32_FADD_D_ToString rd rs1 rs2 rm =
    (let name = GetRoundingModeName rm in
     if name \<noteq> None
     then sprintf 80 ''fadd.d %s,%s,%s,%s'' [ArgStr (GetFpRegName rd), ArgStr (GetFpRegName rs1), ArgStr (GetFpRegName rs2), ArgStr name]
     else sprintf 80 ''fadd.d %s,%s,%s'' [ArgStr (GetFpRegName rd), ArgStr (GetFpRegName rs1), ArgStr (GetFpRegName rs2)])"

definition op32_FSUB_D_ToString :: "int \<Rightarrow> int \<Rightarrow> int \<Rightarrow> int \<Rightarrow> string result" where
  "op32_FSUB_D_ToString rd rs1 rs2 rm =
    (let name = GetRoundingModeName rm in
     if name \<noteq> None
     then sprintf 80 ''fsub.d %s,%s,%s,%s'' [ArgStr (GetFpRegName rd), ArgStr (GetFpRegName rs1), ArgStr (GetFpRegName rs2), ArgStr name]
     else sprintf 80 ''fsub.d %s,%s,%s'' [ArgStr (GetFpRegName rd), ArgStr (GetFpRegName rs1), ArgStr (GetFpRegName rs2)])"

definition op32_FMUL_D_ToString :: "int \<Rightarrow> int \<Rightarrow> int \<Rightarrow> int \<Rightarrow> string result" where
  "op32_FMUL_D_ToString rd rs1 rs2 rm =
    (let name = GetRoundingModeName rm in
     if name \<noteq> None
     then sprintf 80 ''fmul.d %s,%s,%s,%s'' [ArgStr (GetFpRegName rd), ArgStr (GetFpRegName rs1), ArgStr (GetFpRegName rs2), ArgStr name]
     else sprintf 80 ''fmul.d %s,%s,%s'' [ArgStr (GetFpRegName rd), ArgStr (GetFpRegName rs1), ArgStr (GetFpRegName rs2)])"

definition op32_FDIV_D_ToString :: "int \<Rightarrow> int \<Rightarrow> int \<Rightarrow> int \<Rightarrow> string result" where
  "op32_FDIV_D_ToString rd rs1 rs2 rm =
    (let name = GetRoundingModeName rm in
     if name \<noteq> None
     then sprintf 80 ''fdiv.d %s,%s,%s,%s'' [ArgStr (GetFpRegName rd), ArgStr (GetFpRegName rs1), ArgStr (GetFpRegName rs2), ArgStr name]
     else sprintf 80 ''fdiv.d %s,%s,%s'' [ArgStr (GetFpRegName rd), ArgStr (GetFpRegName rs1), ArgStr (GetFpRegName rs2)])"

definition op32_FSQRT_D_ToString :: "int \<Rightarrow> int \<Rightarrow> int \<Rightarrow> string result" where
  "op32_FSQRT_D_ToString rd rs1 rm =
    (let name = GetRoundingModeName rm in
     if name \<noteq> None
     then sprintf 80 ''fsqrt.d %s,%s,%s'' [ArgStr (GetFpRegName rd), ArgStr (GetFpRegName rs1), ArgStr name]
     else sprintf 80 ''fsqrt.d %s,%s'' [ArgStr (GetFpRegName rd), ArgStr (GetFpRegName rs1)])"

definition op32_FSGNJ_D_ToString :: "int \<Rightarrow> int \<Rightarrow> int \<Rightarrow> string result" where
  "op32_FSGNJ_D_ToString rd rs1 rs2 =
    sprintf 80 ''fsgnj.d %s,%s,%s'' [ArgStr (GetFpRegName rd), ArgStr (GetFpRegName rs1), ArgStr (GetFpRegName rs2)]"

definition op32_FSGNJN_D_ToString :: "int \<Rightarrow> int \<Rightarrow> int \<Rightarrow> string result" where
  "op32_FSGNJN_D_ToString rd rs1 rs2 =
    sprintf 80 ''fsgnjn.d %s,%s,%s'' [ArgStr (GetFpRegName rd), ArgStr (GetFpRegName rs1), ArgStr (GetFpRegName rs2)]"

definition op32_FSGNJX_D_ToString :: "int \<Rightarrow> int \<Rightarrow> int \<Rightarrow> string result" where
  "op32_FSGNJX_D_ToString rd rs1 rs2 =
    sprintf 80 ''fsgnjx.d %s,%s,%s'' [ArgStr (GetFpRegName rd), ArgStr (GetFpRegName rs1), ArgStr (GetFpRegName rs2)]"

definition op32_FMIN_D_ToString :: "int \<Rightarrow> int \<Rightarrow> int \<Rightarrow> string result" where
  "op32_FMIN_D_ToString rd rs1 rs2 =
    sprintf 80 ''fmin.d %s,%s,%s'' [ArgStr (GetFpRegName rd), ArgStr (GetFpRegName rs1), ArgStr (GetFpRegName rs2)]"

definition op32_FMAX_D_ToString :: "int \<Rightarrow> int \<Rightarrow> int \<Rightarrow> string result" where
  "op32_FMAX_D_ToString rd rs1 rs2 =
    sprintf 80 ''fmax.d %s,%s,%s'' [ArgStr (GetFpRegName rd), ArgStr (GetFpRegName rs1), ArgStr (GetFpRegName rs2)]"

definition op32_FCVT_S_D_ToString :: "int \<Rightarrow> int \<Rightarrow> int \<Rightarrow> string result" where
  "op32_FCVT_S_D_ToString rd rs1 rm =
    (let name = GetRoundingModeName rm in
     if name \<noteq> None
     then sprintf 80 ''fcvt.s.d %s,%s,%s'' [ArgStr (GetFpRegName rd), ArgStr (GetFpRegName rs1), ArgStr name]
     else sprintf 80 ''fcvt.s.d %s,%s'' [ArgStr (GetFpRegName rd), ArgStr (GetFpRegName rs1)])"

definition op32_FCVT_D_S_ToString :: "int \<Rightarrow> int \<Rightarrow> int \<Rightarrow> string result" where
  "op32_FCVT_D_S_ToString rd rs1 rm =
    (let name = GetRoundingModeName rm in
     if name \<noteq> None
     then sprintf 80 ''fcvt.d.s %s,%s,%s'' [ArgStr (GetFpRegName rd), ArgStr (GetFpRegName rs1), ArgStr name]
     else sprintf 80 ''fcvt.d.s %s,%s'' [ArgStr (GetFpRegName rd), ArgStr (GetFpRegName rs1)])"

definition op32_FEQ_D_ToString :: "int \<Rightarrow> int \<Rightarrow> int \<Rightarrow> string result" where
  "op32_FEQ_D_ToString rd rs1 rs2 =
    sprintf 80 ''feq.d %s,%s,%s'' [ArgStr (GetIntRegName rd), ArgStr (GetFpRegName rs1), ArgStr (GetFpRegName rs2)]"

definition op32_FLT_D_ToString :: "int \<Rightarrow> int \<Rightarrow> int \<Rightarrow> string result" where
  "op32_FLT_D_ToString rd rs1 rs2 =
    sprintf 80 ''flt.d %s,%s,%s'' [ArgStr (GetIntRegName rd), ArgStr (GetFpRegName rs1), ArgStr (GetFpRegName rs2)]"

definition op32_FLE_D_ToString :: "int \<Rightarrow> int \<Rightarrow> int \<Rightarrow> string result" where
  "op32_FLE_D_ToString rd rs1 rs2 =
    sprintf 80 ''fle.d %s,%s,%s'' [ArgStr (GetIntRegName rd), ArgStr (GetFpRegName rs1), ArgStr (GetFpRegName rs2)]"

definition op32_FCLASS_D_ToString :: "int \<Rightarrow> int \<Rightarrow> string result" where
  "op32_FCLASS_D_ToString rd rs1 =
    sprintf 80 ''fclass.d %s,%s'' [ArgStr (GetIntRegName rd), ArgStr (GetFpRegName rs1)]"

definition op32_FCVT_W_D_ToString :: "int \<Rightarrow> int \<Rightarrow> int \<Rightarrow> string result" where
  "op32_FCVT_W_D_ToString rd rs1 rm =
    (let name = GetRoundingModeName rm in
     if name \<noteq> None
     then sprintf 80 ''fcvt.w.d %s,%s,%s'' [ArgStr (GetIntRegName rd), ArgStr (GetFpRegName rs1), ArgStr name]
     else sprintf 80 ''fcvt.w.d %s,%s'' [ArgStr (GetIntRegName rd), ArgStr (GetFpRegName rs1)])"

definition op32_FCVT_WU_D_ToString :: "int \<Rightarrow> int \<Rightarrow> int \<Rightarrow> string result" where
  "op32_FCVT_WU_D_ToString rd rs1 rm =
    (let name = GetRoundingModeName rm in
     if name \<noteq> None
     then sprintf 80 ''fcvt.wu.d %s,%s,%s'' [ArgStr (GetIntRegName rd), ArgStr (GetFpRegName rs1), ArgStr name]
     else sprintf 80 ''fcvt.wu.d %s,%s'' [ArgStr (GetIntRegName rd), ArgStr (GetFpRegName rs1)])"

definition op32_FCVT_D_W_ToString :: "int \<Rightarrow> int \<Rightarrow> int \<Rightarrow> string result" where
  "op32_FCVT_D_W_ToString rd rs1 rm =
    (let name = GetRoundingModeName rm in
     if name \<noteq> None
     then sprintf 80 ''fcvt.d.w %s,%s,%s'' [ArgStr (GetFpRegName rd), ArgStr (GetIntRegName rs1), ArgStr name]
     else sprintf 80 ''fcvt.d.w %s,%s'' [ArgStr (GetFpRegName rd), ArgStr (GetIntRegName rs1)])"

definition op32_FCVT_D_WU_ToString :: "int \<Rightarrow> int \<Rightarrow> int \<Rightarrow> string result" where
  "op32_FCVT_D_WU_ToString rd rs1 rm =
    (let name = GetRoundingModeName rm in
     if name \<noteq> None
     then sprintf 80 ''fcvt.d.wu %s,%s,%s'' [ArgStr (GetFpRegName rd), ArgStr (GetIntRegName rs1), ArgStr name]
     else sprintf 80 ''fcvt.d.wu %s,%s'' [ArgStr (GetFpRegName rd), ArgStr (GetIntRegName rs1)])"

primrec op32D_ToString :: "op32D \<Rightarrow> string result" where
  "op32D_ToString (op32_FLD rd rs1 imm) = op32_FLD_ToString rd rs1 imm"
| "op32D_ToString (op32_FSD rs1 rs2 imm) = op32_FSD_ToString rs1 rs2 imm"
| "op32D_ToString (op32_FMADD_D rd rs1 rs2 rs3 rm) = op32_FMADD_D_ToString rd rs1 rs2 rs3 rm"
| "op32D_ToString (op32_FMSUB_D rd rs1 rs2 rs3 rm) = op32_FMSUB_D_ToString rd rs1 rs2 rs3 rm"
| "op32D_ToString (op32_FNMSUB_D rd rs1 rs2 rs3 rm) = op32_FNMSUB_D_ToString rd rs1 rs2 rs3 rm"
| "op32D_ToString (op32_FNMADD_D rd rs1 rs2 rs3 rm) = op32_FNMADD_D_ToString rd rs1 rs2 rs3 rm"
| "op32D_ToString (op32_FADD_D rd rs1 rs2 rm) = op32_FADD_D_ToString rd rs1 rs2 rm"
| "op32D_ToString (op32_FSUB_D rd rs1 rs2 rm) = op32_FSUB_D_ToString rd rs1 rs2 rm"
| "op32D_ToString (op32_FMUL_D rd rs1 rs2 rm) = op32_FMUL_D_ToString rd rs1 rs2 rm"
| "op32D_ToString (op32_FDIV_D rd rs1 rs2 rm) = op32_FDIV_D_ToString rd rs1 rs2 rm"
| "op32D_ToString (op32_FSQRT_D rd rs1 rm) = op32_FSQRT_D_ToString rd rs1 rm"
| "op32D_ToString (op32_FSGNJ_D rd rs1 rs2) = op32_FSGNJ_D_ToString rd rs1 rs2"
| "op32D_ToString (op32_FSGNJN_D rd rs1 rs2) = op32_FSGNJN_D_ToString rd rs1 rs2"
| "op32D_ToString (op32_FSGNJX_D rd rs1 rs2) = op32_FSGNJX_D_ToString rd rs1 rs2"
| "op32D_ToString (op32_FMIN_D rd rs1 rs2) = op32_FMIN_D_ToString rd rs1 rs2"
| "op32D_ToString (op32_FMAX_D rd rs1 rs2) = op32_FMAX_D_ToString rd rs1 rs2"
| "op32D_ToString (op32_FCVT_S_D rd rs1 rm) = op32_FCVT_S_D_ToString rd rs1 rm"
| "op32D_ToString (op32_FCVT_D_S rd rs1 rm) = op32_FCVT_D_S_ToString rd rs1 rm"
| "op32D_ToString (op32_FEQ_D rd rs1 rs2) = op32_FEQ_D_ToString rd rs1 rs2"
| "op32D_ToString (op32_FLT_D rd rs1 rs2) = op32_FLT_D_ToString rd rs1 rs2"
| "op32D_ToString (op32_FLE_D rd rs1 rs2) = op32_FLE_D_ToString rd rs1 rs2"
| "op32D_ToString (op32_FCLASS_D rd rs1) = op32_FCLASS_D_ToString rd rs1"
| "op32D_ToString (op32_FCVT_W_D rd rs1 rm) = op32_FCVT_W_D_ToString rd rs1 rm"
| "op32D_ToString (op32_FCVT_WU_D rd rs1 rm) = op32_FCVT_WU_D_ToString rd rs1 rm"
| "op32D_ToString (op32_FCVT_D_W rd rs1 rm) = op32_FCVT_D_W_ToString rd rs1 rm"
| "op32D_ToString (op32_FCVT_D_WU rd rs1 rm) = op32_FCVT_D_WU_ToString rd rs1 rm"

lemmas op32D_ToString_defs =
  op32_FLD_ToString_def
  op32_FSD_ToString_def
  op32_FMADD_D_ToString_def
  op32_FMSUB_D_ToString_def
  op32_FNMSUB_D_ToString_def
  op32_FNMADD_D_ToString_def
  op32_FADD_D_ToString_def
  op32_FSUB_D_ToString_def
  op32_FMUL_D_ToString_def
  op32_FDIV_D_ToString_def
  op32_FSQRT_D_ToString_def
  op32_FSGNJ_D_ToString_def
  op32_FSGNJN_D_ToString_def
  op32_FSGNJX_D_ToString_def
  op32_FMIN_D_ToString_def
  op32_FMAX_D_ToString_def
  op32_FCVT_S_D_ToString_def
  op32_FCVT_D_S_ToString_def
  op32_FEQ_D_ToString_def
  op32_FLT_D_ToString_def
  op32_FLE_D_ToString_def
  op32_FCLASS_D_ToString_def
  op32_FCVT_W_D_ToString_def
  op32_FCVT_WU_D_ToString_def
  op32_FCVT_D_W_ToString_def
  op32_FCVT_D_WU_ToString_def

section \<open>RV32C\<close>

datatype (plugins only: code size) op32C =
    op32_NOP

definition op32_NOP_ToString :: "string result" where
  "op32_NOP_ToString = sprintf 80 ''nop'' []"

primrec op32C_ToString :: "op32C \<Rightarrow> string result" where
  "op32C_ToString op32_NOP = op32_NOP_ToString"

lemmas op32C_ToString_defs =
  op32_NOP_ToString_def

end
