(* ===== verification/OpRv64.thy ===== *)
theory OpRv64
  imports RvApi
begin

text \<open>
  \<^verbatim>\<open>lib/op/RV64*.cpp\<close> with the headers \<^verbatim>\<open>include/rafi/op/RV64*.h\<close>, namespace
  \<open>op64\<close>: one class for each instruction. The classes of a file are the constructors of a
  datatype, whose arguments are the members in the order of the class's own constructor; an
  \<open>int\<close> member is an integer, an \<open>uint32_t\<close> one a word. One definition for each
  \<open>ToString\<close>, on the arguments of the constructor, and one dispatch for each file that stands
  for the virtual call.
\<close>

section \<open>RV64I\<close>

datatype (plugins only: code size) op64I =
    op64_LUI int uint32
  | op64_AUIPC int uint32
  | op64_JAL int uint32
  | op64_JALR int int uint32
  | op64_BEQ int int uint32
  | op64_BNE int int uint32
  | op64_BLT int int uint32
  | op64_BGE int int uint32
  | op64_BLTU int int uint32
  | op64_BGEU int int uint32
  | op64_LB int int uint32
  | op64_LH int int uint32
  | op64_LW int int uint32
  | op64_LD int int uint32
  | op64_LBU int int uint32
  | op64_LHU int int uint32
  | op64_LWU int int uint32
  | op64_SB int int uint32
  | op64_SH int int uint32
  | op64_SW int int uint32
  | op64_SD int int uint32
  | op64_ADDI int int uint32
  | op64_ADDIW int int uint32
  | op64_SLTI int int uint32
  | op64_SLTIU int int uint32
  | op64_XORI int int uint32
  | op64_ORI int int uint32
  | op64_ANDI int int uint32
  | op64_SLLI int int int
  | op64_SLLIW int int int
  | op64_SRLI int int int
  | op64_SRLIW int int int
  | op64_SRAI int int int
  | op64_SRAIW int int int
  | op64_ADD int int int
  | op64_ADDW int int int
  | op64_SUB int int int
  | op64_SUBW int int int
  | op64_SLL int int int
  | op64_SLLW int int int
  | op64_SLT int int int
  | op64_SLTU int int int
  | op64_XOR int int int
  | op64_SRL int int int
  | op64_SRLW int int int
  | op64_SRA int int int
  | op64_SRAW int int int
  | op64_OR int int int
  | op64_AND int int int
  | op64_FENCE int int uint32 uint32 uint32
  | op64_FENCE_I int int uint32
  | op64_ECALL
  | op64_EBREAK
  | op64_CSRRW uint32 int int
  | op64_CSRRS uint32 int int
  | op64_CSRRC uint32 int int
  | op64_CSRRWI uint32 int uint32
  | op64_CSRRSI uint32 int uint32
  | op64_CSRRCI uint32 int uint32
  | op64_URET
  | op64_SRET
  | op64_MRET
  | op64_WFI
  | op64_SFENCE_VMA int int

definition op64_LUI_ToString :: "int \<Rightarrow> uint32 \<Rightarrow> string result" where
  "op64_LUI_ToString rd imm = sprintf 80 ''lui %s,%d'' [ArgStr (GetIntRegName rd), ArgInt imm]"

definition op64_AUIPC_ToString :: "int \<Rightarrow> uint32 \<Rightarrow> string result" where
  "op64_AUIPC_ToString rd imm =
    sprintf 80 ''auipc %s,%d'' [ArgStr (GetIntRegName rd), ArgInt imm]"

definition op64_JAL_ToString :: "int \<Rightarrow> uint32 \<Rightarrow> string result" where
  "op64_JAL_ToString rd imm =
    (if rd = 0 then sprintf 80 ''j #%d'' [ArgInt imm]
     else sprintf 80 ''jal %s,%d'' [ArgStr (GetIntRegName rd), ArgInt imm])"

definition op64_JALR_ToString :: "int \<Rightarrow> int \<Rightarrow> uint32 \<Rightarrow> string result" where
  "op64_JALR_ToString rd rs1 imm =
    (if rd = 0 then sprintf 80 ''jr %s,%d'' [ArgStr (GetIntRegName rs1), ArgInt imm]
     else sprintf 80 ''jalr %s,%s,%d'' [ArgStr (GetIntRegName rd), ArgStr (GetIntRegName rs1), ArgInt imm])"

definition op64_BEQ_ToString :: "int \<Rightarrow> int \<Rightarrow> uint32 \<Rightarrow> string result" where
  "op64_BEQ_ToString rs1 rs2 imm = Inr ''beq''"

definition op64_BNE_ToString :: "int \<Rightarrow> int \<Rightarrow> uint32 \<Rightarrow> string result" where
  "op64_BNE_ToString rs1 rs2 imm =
    (if rs1 = 0 then sprintf 80 ''bnez %s, #%d'' [ArgStr (GetIntRegName rs2), ArgInt imm]
     else if rs2 = 0 then sprintf 80 ''bnez %s, #%d'' [ArgStr (GetIntRegName rs1), ArgInt imm]
     else sprintf 80 ''bne %s,%s,%d'' [ArgStr (GetIntRegName rs1), ArgStr (GetIntRegName rs2), ArgInt imm])"

definition op64_BLT_ToString :: "int \<Rightarrow> int \<Rightarrow> uint32 \<Rightarrow> string result" where
  "op64_BLT_ToString rs1 rs2 imm =
    (if rs1 = 0 then sprintf 80 ''bltz %s, #%d'' [ArgStr (GetIntRegName rs2), ArgInt imm]
     else if rs2 = 0 then sprintf 80 ''bltz %s, #%d'' [ArgStr (GetIntRegName rs1), ArgInt imm]
     else sprintf 80 ''blt %s,%s,%d'' [ArgStr (GetIntRegName rs1), ArgStr (GetIntRegName rs2), ArgInt imm])"

definition op64_BGE_ToString :: "int \<Rightarrow> int \<Rightarrow> uint32 \<Rightarrow> string result" where
  "op64_BGE_ToString rs1 rs2 imm =
    (if rs1 = 0 then sprintf 80 ''bgez %s, #%d'' [ArgStr (GetIntRegName rs2), ArgInt imm]
     else if rs2 = 0 then sprintf 80 ''bgez %s, #%d'' [ArgStr (GetIntRegName rs1), ArgInt imm]
     else sprintf 80 ''bge %s,%s,%d'' [ArgStr (GetIntRegName rs1), ArgStr (GetIntRegName rs2), ArgInt imm])"

definition op64_BLTU_ToString :: "int \<Rightarrow> int \<Rightarrow> uint32 \<Rightarrow> string result" where
  "op64_BLTU_ToString rs1 rs2 imm =
    sprintf 80 ''bltu %s,%s,%d'' [ArgStr (GetIntRegName rs1), ArgStr (GetIntRegName rs2), ArgInt imm]"

definition op64_BGEU_ToString :: "int \<Rightarrow> int \<Rightarrow> uint32 \<Rightarrow> string result" where
  "op64_BGEU_ToString rs1 rs2 imm =
    sprintf 80 ''bgeu %s,%s,%d'' [ArgStr (GetIntRegName rs1), ArgStr (GetIntRegName rs2), ArgInt imm]"

definition op64_LB_ToString :: "int \<Rightarrow> int \<Rightarrow> uint32 \<Rightarrow> string result" where
  "op64_LB_ToString rd rs1 imm =
    sprintf 80 ''lb %s,%d(%s)'' [ArgStr (GetIntRegName rd), ArgInt imm, ArgStr (GetIntRegName rs1)]"

definition op64_LH_ToString :: "int \<Rightarrow> int \<Rightarrow> uint32 \<Rightarrow> string result" where
  "op64_LH_ToString rd rs1 imm =
    sprintf 80 ''lh %s,%d(%s)'' [ArgStr (GetIntRegName rd), ArgInt imm, ArgStr (GetIntRegName rs1)]"

definition op64_LW_ToString :: "int \<Rightarrow> int \<Rightarrow> uint32 \<Rightarrow> string result" where
  "op64_LW_ToString rd rs1 imm =
    sprintf 80 ''lw %s,%d(%s)'' [ArgStr (GetIntRegName rd), ArgInt imm, ArgStr (GetIntRegName rs1)]"

definition op64_LD_ToString :: "int \<Rightarrow> int \<Rightarrow> uint32 \<Rightarrow> string result" where
  "op64_LD_ToString rd rs1 imm =
    sprintf 80 ''ld %s,%d(%s)'' [ArgStr (GetIntRegName rd), ArgInt imm, ArgStr (GetIntRegName rs1)]"

definition op64_LBU_ToString :: "int \<Rightarrow> int \<Rightarrow> uint32 \<Rightarrow> string result" where
  "op64_LBU_ToString rd rs1 imm =
    sprintf 80 ''lbu %s,%d(%s)'' [ArgStr (GetIntRegName rd), ArgInt imm, ArgStr (GetIntRegName rs1)]"

definition op64_LHU_ToString :: "int \<Rightarrow> int \<Rightarrow> uint32 \<Rightarrow> string result" where
  "op64_LHU_ToString rd rs1 imm =
    sprintf 80 ''lhu %s,%d(%s)'' [ArgStr (GetIntRegName rd), ArgInt imm, ArgStr (GetIntRegName rs1)]"

definition op64_LWU_ToString :: "int \<Rightarrow> int \<Rightarrow> uint32 \<Rightarrow> string result" where
  "op64_LWU_ToString rd rs1 imm =
    sprintf 80 ''lwu %s,%d(%s)'' [ArgStr (GetIntRegName rd), ArgInt imm, ArgStr (GetIntRegName rs1)]"

definition op64_SB_ToString :: "int \<Rightarrow> int \<Rightarrow> uint32 \<Rightarrow> string result" where
  "op64_SB_ToString rs1 rs2 imm =
    sprintf 80 ''sb %s,%d(%s)'' [ArgStr (GetIntRegName rs2), ArgInt imm, ArgStr (GetIntRegName rs1)]"

definition op64_SH_ToString :: "int \<Rightarrow> int \<Rightarrow> uint32 \<Rightarrow> string result" where
  "op64_SH_ToString rs1 rs2 imm =
    sprintf 80 ''sh %s,%d(%s)'' [ArgStr (GetIntRegName rs2), ArgInt imm, ArgStr (GetIntRegName rs1)]"

definition op64_SW_ToString :: "int \<Rightarrow> int \<Rightarrow> uint32 \<Rightarrow> string result" where
  "op64_SW_ToString rs1 rs2 imm =
    sprintf 80 ''sw %s,%d(%s)'' [ArgStr (GetIntRegName rs2), ArgInt imm, ArgStr (GetIntRegName rs1)]"

definition op64_SD_ToString :: "int \<Rightarrow> int \<Rightarrow> uint32 \<Rightarrow> string result" where
  "op64_SD_ToString rs1 rs2 imm =
    sprintf 80 ''sd %s,%d(%s)'' [ArgStr (GetIntRegName rs2), ArgInt imm, ArgStr (GetIntRegName rs1)]"

definition op64_ADDI_ToString :: "int \<Rightarrow> int \<Rightarrow> uint32 \<Rightarrow> string result" where
  "op64_ADDI_ToString rd rs1 imm =
    sprintf 80 ''addi %s,%s,%d'' [ArgStr (GetIntRegName rd), ArgStr (GetIntRegName rs1), ArgInt imm]"

definition op64_ADDIW_ToString :: "int \<Rightarrow> int \<Rightarrow> uint32 \<Rightarrow> string result" where
  "op64_ADDIW_ToString rd rs1 imm =
    sprintf 80 ''addiw %s,%s,%d'' [ArgStr (GetIntRegName rd), ArgStr (GetIntRegName rs1), ArgInt imm]"

definition op64_SLTI_ToString :: "int \<Rightarrow> int \<Rightarrow> uint32 \<Rightarrow> string result" where
  "op64_SLTI_ToString rd rs1 imm =
    sprintf 80 ''slti %s,%s,%d'' [ArgStr (GetIntRegName rd), ArgStr (GetIntRegName rs1), ArgInt imm]"

definition op64_SLTIU_ToString :: "int \<Rightarrow> int \<Rightarrow> uint32 \<Rightarrow> string result" where
  "op64_SLTIU_ToString rd rs1 imm =
    sprintf 80 ''sltiu %s,%s,%d'' [ArgStr (GetIntRegName rd), ArgStr (GetIntRegName rs1), ArgInt imm]"

definition op64_XORI_ToString :: "int \<Rightarrow> int \<Rightarrow> uint32 \<Rightarrow> string result" where
  "op64_XORI_ToString rd rs1 imm =
    sprintf 80 ''xori %s,%s,%d'' [ArgStr (GetIntRegName rd), ArgStr (GetIntRegName rs1), ArgInt imm]"

definition op64_ORI_ToString :: "int \<Rightarrow> int \<Rightarrow> uint32 \<Rightarrow> string result" where
  "op64_ORI_ToString rd rs1 imm =
    sprintf 80 ''ori %s,%s,%d'' [ArgStr (GetIntRegName rd), ArgStr (GetIntRegName rs1), ArgInt imm]"

definition op64_ANDI_ToString :: "int \<Rightarrow> int \<Rightarrow> uint32 \<Rightarrow> string result" where
  "op64_ANDI_ToString rd rs1 imm =
    sprintf 80 ''andi %s,%s,%d'' [ArgStr (GetIntRegName rd), ArgStr (GetIntRegName rs1), ArgInt imm]"

definition op64_SLLI_ToString :: "int \<Rightarrow> int \<Rightarrow> int \<Rightarrow> string result" where
  "op64_SLLI_ToString rd rs1 shamt =
    sprintf 80 ''slli %s,%s,0x%x'' [ArgStr (GetIntRegName rd), ArgStr (GetIntRegName rs1), ArgInt (word_of_int shamt)]"

definition op64_SLLIW_ToString :: "int \<Rightarrow> int \<Rightarrow> int \<Rightarrow> string result" where
  "op64_SLLIW_ToString rd rs1 shamt =
    sprintf 80 ''slliw %s,%s,0x%x'' [ArgStr (GetIntRegName rd), ArgStr (GetIntRegName rs1), ArgInt (word_of_int shamt)]"

definition op64_SRLI_ToString :: "int \<Rightarrow> int \<Rightarrow> int \<Rightarrow> string result" where
  "op64_SRLI_ToString rd rs1 shamt =
    sprintf 80 ''srli %s,%s,0x%x'' [ArgStr (GetIntRegName rd), ArgStr (GetIntRegName rs1), ArgInt (word_of_int shamt)]"

definition op64_SRLIW_ToString :: "int \<Rightarrow> int \<Rightarrow> int \<Rightarrow> string result" where
  "op64_SRLIW_ToString rd rs1 shamt =
    sprintf 80 ''srliw %s,%s,0x%x'' [ArgStr (GetIntRegName rd), ArgStr (GetIntRegName rs1), ArgInt (word_of_int shamt)]"

definition op64_SRAI_ToString :: "int \<Rightarrow> int \<Rightarrow> int \<Rightarrow> string result" where
  "op64_SRAI_ToString rd rs1 shamt =
    sprintf 80 ''srai %s,%s,0x%x'' [ArgStr (GetIntRegName rd), ArgStr (GetIntRegName rs1), ArgInt (word_of_int shamt)]"

definition op64_SRAIW_ToString :: "int \<Rightarrow> int \<Rightarrow> int \<Rightarrow> string result" where
  "op64_SRAIW_ToString rd rs1 shamt =
    sprintf 80 ''sraiw %s,%s,0x%x'' [ArgStr (GetIntRegName rd), ArgStr (GetIntRegName rs1), ArgInt (word_of_int shamt)]"

definition op64_ADD_ToString :: "int \<Rightarrow> int \<Rightarrow> int \<Rightarrow> string result" where
  "op64_ADD_ToString rd rs1 rs2 =
    sprintf 80 ''add %s,%s,%s'' [ArgStr (GetIntRegName rd), ArgStr (GetIntRegName rs1), ArgStr (GetIntRegName rs2)]"

definition op64_ADDW_ToString :: "int \<Rightarrow> int \<Rightarrow> int \<Rightarrow> string result" where
  "op64_ADDW_ToString rd rs1 rs2 =
    sprintf 80 ''addw %s,%s,%s'' [ArgStr (GetIntRegName rd), ArgStr (GetIntRegName rs1), ArgStr (GetIntRegName rs2)]"

definition op64_SUB_ToString :: "int \<Rightarrow> int \<Rightarrow> int \<Rightarrow> string result" where
  "op64_SUB_ToString rd rs1 rs2 =
    sprintf 80 ''sub %s,%s,%s'' [ArgStr (GetIntRegName rd), ArgStr (GetIntRegName rs1), ArgStr (GetIntRegName rs2)]"

definition op64_SUBW_ToString :: "int \<Rightarrow> int \<Rightarrow> int \<Rightarrow> string result" where
  "op64_SUBW_ToString rd rs1 rs2 =
    sprintf 80 ''subw %s,%s,%s'' [ArgStr (GetIntRegName rd), ArgStr (GetIntRegName rs1), ArgStr (GetIntRegName rs2)]"

definition op64_SLL_ToString :: "int \<Rightarrow> int \<Rightarrow> int \<Rightarrow> string result" where
  "op64_SLL_ToString rd rs1 rs2 =
    sprintf 80 ''sll %s,%s,%s'' [ArgStr (GetIntRegName rd), ArgStr (GetIntRegName rs1), ArgStr (GetIntRegName rs2)]"

definition op64_SLLW_ToString :: "int \<Rightarrow> int \<Rightarrow> int \<Rightarrow> string result" where
  "op64_SLLW_ToString rd rs1 rs2 =
    sprintf 80 ''sllw %s,%s,%s'' [ArgStr (GetIntRegName rd), ArgStr (GetIntRegName rs1), ArgStr (GetIntRegName rs2)]"

definition op64_SLT_ToString :: "int \<Rightarrow> int \<Rightarrow> int \<Rightarrow> string result" where
  "op64_SLT_ToString rd rs1 rs2 =
    sprintf 80 ''slt %s,%s,%s'' [ArgStr (GetIntRegName rd), ArgStr (GetIntRegName rs1), ArgStr (GetIntRegName rs2)]"

definition op64_SLTU_ToString :: "int \<Rightarrow> int \<Rightarrow> int \<Rightarrow> string result" where
  "op64_SLTU_ToString rd rs1 rs2 =
    sprintf 80 ''sltu %s,%s,%s'' [ArgStr (GetIntRegName rd), ArgStr (GetIntRegName rs1), ArgStr (GetIntRegName rs2)]"

definition op64_XOR_ToString :: "int \<Rightarrow> int \<Rightarrow> int \<Rightarrow> string result" where
  "op64_XOR_ToString rd rs1 rs2 =
    sprintf 80 ''xor %s,%s,%s'' [ArgStr (GetIntRegName rd), ArgStr (GetIntRegName rs1), ArgStr (GetIntRegName rs2)]"

definition op64_SRL_ToString :: "int \<Rightarrow> int \<Rightarrow> int \<Rightarrow> string result" where
  "op64_SRL_ToString rd rs1 rs2 =
    sprintf 80 ''srl %s,%s,%s'' [ArgStr (GetIntRegName rd), ArgStr (GetIntRegName rs1), ArgStr (GetIntRegName rs2)]"

definition op64_SRLW_ToString :: "int \<Rightarrow> int \<Rightarrow> int \<Rightarrow> string result" where
  "op64_SRLW_ToString rd rs1 rs2 =
    sprintf 80 ''srlw %s,%s,%s'' [ArgStr (GetIntRegName rd), ArgStr (GetIntRegName rs1), ArgStr (GetIntRegName rs2)]"

definition op64_SRA_ToString :: "int \<Rightarrow> int \<Rightarrow> int \<Rightarrow> string result" where
  "op64_SRA_ToString rd rs1 rs2 =
    sprintf 80 ''sra %s,%s,%s'' [ArgStr (GetIntRegName rd), ArgStr (GetIntRegName rs1), ArgStr (GetIntRegName rs2)]"

definition op64_SRAW_ToString :: "int \<Rightarrow> int \<Rightarrow> int \<Rightarrow> string result" where
  "op64_SRAW_ToString rd rs1 rs2 =
    sprintf 80 ''sraw %s,%s,%s'' [ArgStr (GetIntRegName rd), ArgStr (GetIntRegName rs1), ArgStr (GetIntRegName rs2)]"

definition op64_OR_ToString :: "int \<Rightarrow> int \<Rightarrow> int \<Rightarrow> string result" where
  "op64_OR_ToString rd rs1 rs2 =
    sprintf 80 ''or %s,%s,%s'' [ArgStr (GetIntRegName rd), ArgStr (GetIntRegName rs1), ArgStr (GetIntRegName rs2)]"

definition op64_AND_ToString :: "int \<Rightarrow> int \<Rightarrow> int \<Rightarrow> string result" where
  "op64_AND_ToString rd rs1 rs2 =
    sprintf 80 ''and %s,%s,%s'' [ArgStr (GetIntRegName rd), ArgStr (GetIntRegName rs1), ArgStr (GetIntRegName rs2)]"

definition op64_FENCE_ToString :: "int \<Rightarrow> int \<Rightarrow> uint32 \<Rightarrow> uint32 \<Rightarrow> uint32 \<Rightarrow> string result" where
  "op64_FENCE_ToString rd rs1 fm pred succ = Inr ''fence''"

definition op64_FENCE_I_ToString :: "int \<Rightarrow> int \<Rightarrow> uint32 \<Rightarrow> string result" where
  "op64_FENCE_I_ToString rd rs1 imm = Inr ''fence.i''"

definition op64_ECALL_ToString :: "string result" where
  "op64_ECALL_ToString = Inr ''ecall''"

definition op64_EBREAK_ToString :: "string result" where
  "op64_EBREAK_ToString = Inr ''ebreak''"

definition op64_CSRRW_ToString :: "uint32 \<Rightarrow> int \<Rightarrow> int \<Rightarrow> string result" where
  "op64_CSRRW_ToString csr rd rs1 =
    (if rd = 0 then sprintf 80 ''csrw %s,%s'' [ArgStr (Some (GetString_csr csr)), ArgStr (GetIntRegName rs1)]
     else sprintf 80 ''csrrw %s,%s,%s'' [ArgStr (GetIntRegName rd), ArgStr (Some (GetString_csr csr)), ArgStr (GetIntRegName rs1)])"

definition op64_CSRRS_ToString :: "uint32 \<Rightarrow> int \<Rightarrow> int \<Rightarrow> string result" where
  "op64_CSRRS_ToString csr rd rs1 =
    (if rs1 = 0 then sprintf 80 ''csrr %s,%s'' [ArgStr (GetIntRegName rd), ArgStr (Some (GetString_csr csr))]
     else if rd = 0 then sprintf 80 ''csrr %s,%s'' [ArgStr (Some (GetString_csr csr)), ArgStr (GetIntRegName rs1)]
     else sprintf 80 ''csrrs %s,%s,%s'' [ArgStr (GetIntRegName rd), ArgStr (Some (GetString_csr csr)), ArgStr (GetIntRegName rs1)])"

definition op64_CSRRC_ToString :: "uint32 \<Rightarrow> int \<Rightarrow> int \<Rightarrow> string result" where
  "op64_CSRRC_ToString csr rd rs1 =
    (if rd = 0 then sprintf 80 ''csrc %s,%s'' [ArgStr (Some (GetString_csr csr)), ArgStr (GetIntRegName rs1)]
     else sprintf 80 ''csrrc %s,%s,%s'' [ArgStr (GetIntRegName rd), ArgStr (Some (GetString_csr csr)), ArgStr (GetIntRegName rs1)])"

definition op64_CSRRWI_ToString :: "uint32 \<Rightarrow> int \<Rightarrow> uint32 \<Rightarrow> string result" where
  "op64_CSRRWI_ToString csr rd uimm =
    (if rd = 0 then sprintf 80 ''csrwi %s,%d'' [ArgStr (Some (GetString_csr csr)), ArgInt uimm]
     else sprintf 80 ''csrrwi %s,%s,%d'' [ArgStr (GetIntRegName rd), ArgStr (Some (GetString_csr csr)), ArgInt uimm])"

definition op64_CSRRSI_ToString :: "uint32 \<Rightarrow> int \<Rightarrow> uint32 \<Rightarrow> string result" where
  "op64_CSRRSI_ToString csr rd uimm =
    (if rd = 0 then sprintf 80 ''csrsi %s,%d'' [ArgStr (Some (GetString_csr csr)), ArgInt uimm]
     else sprintf 80 ''csrrsi %s,%s,%d'' [ArgStr (GetIntRegName rd), ArgStr (Some (GetString_csr csr)), ArgInt uimm])"

definition op64_CSRRCI_ToString :: "uint32 \<Rightarrow> int \<Rightarrow> uint32 \<Rightarrow> string result" where
  "op64_CSRRCI_ToString csr rd uimm =
    (if rd = 0 then sprintf 80 ''csrci %s,%d'' [ArgStr (Some (GetString_csr csr)), ArgInt uimm]
     else sprintf 80 ''csrrci %s,%s,%d'' [ArgStr (GetIntRegName rd), ArgStr (Some (GetString_csr csr)), ArgInt uimm])"

definition op64_URET_ToString :: "string result" where
  "op64_URET_ToString = Inr ''uret''"

definition op64_SRET_ToString :: "string result" where
  "op64_SRET_ToString = Inr ''sret''"

definition op64_MRET_ToString :: "string result" where
  "op64_MRET_ToString = Inr ''mret''"

definition op64_WFI_ToString :: "string result" where
  "op64_WFI_ToString = Inr ''wfi''"

definition op64_SFENCE_VMA_ToString :: "int \<Rightarrow> int \<Rightarrow> string result" where
  "op64_SFENCE_VMA_ToString rs1 rs2 =
    sprintf 80 ''sfence.vma %s,%s'' [ArgStr (GetIntRegName rs1), ArgStr (GetIntRegName rs2)]"

primrec op64I_ToString :: "op64I \<Rightarrow> string result" where
  "op64I_ToString (op64_LUI rd imm) = op64_LUI_ToString rd imm"
| "op64I_ToString (op64_AUIPC rd imm) = op64_AUIPC_ToString rd imm"
| "op64I_ToString (op64_JAL rd imm) = op64_JAL_ToString rd imm"
| "op64I_ToString (op64_JALR rd rs1 imm) = op64_JALR_ToString rd rs1 imm"
| "op64I_ToString (op64_BEQ rs1 rs2 imm) = op64_BEQ_ToString rs1 rs2 imm"
| "op64I_ToString (op64_BNE rs1 rs2 imm) = op64_BNE_ToString rs1 rs2 imm"
| "op64I_ToString (op64_BLT rs1 rs2 imm) = op64_BLT_ToString rs1 rs2 imm"
| "op64I_ToString (op64_BGE rs1 rs2 imm) = op64_BGE_ToString rs1 rs2 imm"
| "op64I_ToString (op64_BLTU rs1 rs2 imm) = op64_BLTU_ToString rs1 rs2 imm"
| "op64I_ToString (op64_BGEU rs1 rs2 imm) = op64_BGEU_ToString rs1 rs2 imm"
| "op64I_ToString (op64_LB rd rs1 imm) = op64_LB_ToString rd rs1 imm"
| "op64I_ToString (op64_LH rd rs1 imm) = op64_LH_ToString rd rs1 imm"
| "op64I_ToString (op64_LW rd rs1 imm) = op64_LW_ToString rd rs1 imm"
| "op64I_ToString (op64_LD rd rs1 imm) = op64_LD_ToString rd rs1 imm"
| "op64I_ToString (op64_LBU rd rs1 imm) = op64_LBU_ToString rd rs1 imm"
| "op64I_ToString (op64_LHU rd rs1 imm) = op64_LHU_ToString rd rs1 imm"
| "op64I_ToString (op64_LWU rd rs1 imm) = op64_LWU_ToString rd rs1 imm"
| "op64I_ToString (op64_SB rs1 rs2 imm) = op64_SB_ToString rs1 rs2 imm"
| "op64I_ToString (op64_SH rs1 rs2 imm) = op64_SH_ToString rs1 rs2 imm"
| "op64I_ToString (op64_SW rs1 rs2 imm) = op64_SW_ToString rs1 rs2 imm"
| "op64I_ToString (op64_SD rs1 rs2 imm) = op64_SD_ToString rs1 rs2 imm"
| "op64I_ToString (op64_ADDI rd rs1 imm) = op64_ADDI_ToString rd rs1 imm"
| "op64I_ToString (op64_ADDIW rd rs1 imm) = op64_ADDIW_ToString rd rs1 imm"
| "op64I_ToString (op64_SLTI rd rs1 imm) = op64_SLTI_ToString rd rs1 imm"
| "op64I_ToString (op64_SLTIU rd rs1 imm) = op64_SLTIU_ToString rd rs1 imm"
| "op64I_ToString (op64_XORI rd rs1 imm) = op64_XORI_ToString rd rs1 imm"
| "op64I_ToString (op64_ORI rd rs1 imm) = op64_ORI_ToString rd rs1 imm"
| "op64I_ToString (op64_ANDI rd rs1 imm) = op64_ANDI_ToString rd rs1 imm"
| "op64I_ToString (op64_SLLI rd rs1 shamt) = op64_SLLI_ToString rd rs1 shamt"
| "op64I_ToString (op64_SLLIW rd rs1 shamt) = op64_SLLIW_ToString rd rs1 shamt"
| "op64I_ToString (op64_SRLI rd rs1 shamt) = op64_SRLI_ToString rd rs1 shamt"
| "op64I_ToString (op64_SRLIW rd rs1 shamt) = op64_SRLIW_ToString rd rs1 shamt"
| "op64I_ToString (op64_SRAI rd rs1 shamt) = op64_SRAI_ToString rd rs1 shamt"
| "op64I_ToString (op64_SRAIW rd rs1 shamt) = op64_SRAIW_ToString rd rs1 shamt"
| "op64I_ToString (op64_ADD rd rs1 rs2) = op64_ADD_ToString rd rs1 rs2"
| "op64I_ToString (op64_ADDW rd rs1 rs2) = op64_ADDW_ToString rd rs1 rs2"
| "op64I_ToString (op64_SUB rd rs1 rs2) = op64_SUB_ToString rd rs1 rs2"
| "op64I_ToString (op64_SUBW rd rs1 rs2) = op64_SUBW_ToString rd rs1 rs2"
| "op64I_ToString (op64_SLL rd rs1 rs2) = op64_SLL_ToString rd rs1 rs2"
| "op64I_ToString (op64_SLLW rd rs1 rs2) = op64_SLLW_ToString rd rs1 rs2"
| "op64I_ToString (op64_SLT rd rs1 rs2) = op64_SLT_ToString rd rs1 rs2"
| "op64I_ToString (op64_SLTU rd rs1 rs2) = op64_SLTU_ToString rd rs1 rs2"
| "op64I_ToString (op64_XOR rd rs1 rs2) = op64_XOR_ToString rd rs1 rs2"
| "op64I_ToString (op64_SRL rd rs1 rs2) = op64_SRL_ToString rd rs1 rs2"
| "op64I_ToString (op64_SRLW rd rs1 rs2) = op64_SRLW_ToString rd rs1 rs2"
| "op64I_ToString (op64_SRA rd rs1 rs2) = op64_SRA_ToString rd rs1 rs2"
| "op64I_ToString (op64_SRAW rd rs1 rs2) = op64_SRAW_ToString rd rs1 rs2"
| "op64I_ToString (op64_OR rd rs1 rs2) = op64_OR_ToString rd rs1 rs2"
| "op64I_ToString (op64_AND rd rs1 rs2) = op64_AND_ToString rd rs1 rs2"
| "op64I_ToString (op64_FENCE rd rs1 fm pred succ) = op64_FENCE_ToString rd rs1 fm pred succ"
| "op64I_ToString (op64_FENCE_I rd rs1 imm) = op64_FENCE_I_ToString rd rs1 imm"
| "op64I_ToString op64_ECALL = op64_ECALL_ToString"
| "op64I_ToString op64_EBREAK = op64_EBREAK_ToString"
| "op64I_ToString (op64_CSRRW csr rd rs1) = op64_CSRRW_ToString csr rd rs1"
| "op64I_ToString (op64_CSRRS csr rd rs1) = op64_CSRRS_ToString csr rd rs1"
| "op64I_ToString (op64_CSRRC csr rd rs1) = op64_CSRRC_ToString csr rd rs1"
| "op64I_ToString (op64_CSRRWI csr rd uimm) = op64_CSRRWI_ToString csr rd uimm"
| "op64I_ToString (op64_CSRRSI csr rd uimm) = op64_CSRRSI_ToString csr rd uimm"
| "op64I_ToString (op64_CSRRCI csr rd uimm) = op64_CSRRCI_ToString csr rd uimm"
| "op64I_ToString op64_URET = op64_URET_ToString"
| "op64I_ToString op64_SRET = op64_SRET_ToString"
| "op64I_ToString op64_MRET = op64_MRET_ToString"
| "op64I_ToString op64_WFI = op64_WFI_ToString"
| "op64I_ToString (op64_SFENCE_VMA rs1 rs2) = op64_SFENCE_VMA_ToString rs1 rs2"

lemmas op64I_ToString_defs =
  op64_LUI_ToString_def
  op64_AUIPC_ToString_def
  op64_JAL_ToString_def
  op64_JALR_ToString_def
  op64_BEQ_ToString_def
  op64_BNE_ToString_def
  op64_BLT_ToString_def
  op64_BGE_ToString_def
  op64_BLTU_ToString_def
  op64_BGEU_ToString_def
  op64_LB_ToString_def
  op64_LH_ToString_def
  op64_LW_ToString_def
  op64_LD_ToString_def
  op64_LBU_ToString_def
  op64_LHU_ToString_def
  op64_LWU_ToString_def
  op64_SB_ToString_def
  op64_SH_ToString_def
  op64_SW_ToString_def
  op64_SD_ToString_def
  op64_ADDI_ToString_def
  op64_ADDIW_ToString_def
  op64_SLTI_ToString_def
  op64_SLTIU_ToString_def
  op64_XORI_ToString_def
  op64_ORI_ToString_def
  op64_ANDI_ToString_def
  op64_SLLI_ToString_def
  op64_SLLIW_ToString_def
  op64_SRLI_ToString_def
  op64_SRLIW_ToString_def
  op64_SRAI_ToString_def
  op64_SRAIW_ToString_def
  op64_ADD_ToString_def
  op64_ADDW_ToString_def
  op64_SUB_ToString_def
  op64_SUBW_ToString_def
  op64_SLL_ToString_def
  op64_SLLW_ToString_def
  op64_SLT_ToString_def
  op64_SLTU_ToString_def
  op64_XOR_ToString_def
  op64_SRL_ToString_def
  op64_SRLW_ToString_def
  op64_SRA_ToString_def
  op64_SRAW_ToString_def
  op64_OR_ToString_def
  op64_AND_ToString_def
  op64_FENCE_ToString_def
  op64_FENCE_I_ToString_def
  op64_ECALL_ToString_def
  op64_EBREAK_ToString_def
  op64_CSRRW_ToString_def
  op64_CSRRS_ToString_def
  op64_CSRRC_ToString_def
  op64_CSRRWI_ToString_def
  op64_CSRRSI_ToString_def
  op64_CSRRCI_ToString_def
  op64_URET_ToString_def
  op64_SRET_ToString_def
  op64_MRET_ToString_def
  op64_WFI_ToString_def
  op64_SFENCE_VMA_ToString_def

section \<open>RV64M\<close>

datatype (plugins only: code size) op64M =
    op64_MUL int int int
  | op64_MULH int int int
  | op64_MULHSU int int int
  | op64_MULHU int int int
  | op64_MULW int int int
  | op64_DIV int int int
  | op64_DIVW int int int
  | op64_DIVU int int int
  | op64_DIVUW int int int
  | op64_REM int int int
  | op64_REMW int int int
  | op64_REMU int int int
  | op64_REMUW int int int

definition op64_MUL_ToString :: "int \<Rightarrow> int \<Rightarrow> int \<Rightarrow> string result" where
  "op64_MUL_ToString rd rs1 rs2 =
    sprintf 80 ''mul %s,%s,%s'' [ArgStr (GetIntRegName rd), ArgStr (GetIntRegName rs1), ArgStr (GetIntRegName rs2)]"

definition op64_MULH_ToString :: "int \<Rightarrow> int \<Rightarrow> int \<Rightarrow> string result" where
  "op64_MULH_ToString rd rs1 rs2 =
    sprintf 80 ''mulh %s,%s,%s'' [ArgStr (GetIntRegName rd), ArgStr (GetIntRegName rs1), ArgStr (GetIntRegName rs2)]"

definition op64_MULHSU_ToString :: "int \<Rightarrow> int \<Rightarrow> int \<Rightarrow> string result" where
  "op64_MULHSU_ToString rd rs1 rs2 =
    sprintf 80 ''mulhsu %s,%s,%s'' [ArgStr (GetIntRegName rd), ArgStr (GetIntRegName rs1), ArgStr (GetIntRegName rs2)]"

definition op64_MULHU_ToString :: "int \<Rightarrow> int \<Rightarrow> int \<Rightarrow> string result" where
  "op64_MULHU_ToString rd rs1 rs2 =
    sprintf 80 ''mulhu %s,%s,%s'' [ArgStr (GetIntRegName rd), ArgStr (GetIntRegName rs1), ArgStr (GetIntRegName rs2)]"

definition op64_MULW_ToString :: "int \<Rightarrow> int \<Rightarrow> int \<Rightarrow> string result" where
  "op64_MULW_ToString rd rs1 rs2 =
    sprintf 80 ''mulw %s,%s,%s'' [ArgStr (GetIntRegName rd), ArgStr (GetIntRegName rs1), ArgStr (GetIntRegName rs2)]"

definition op64_DIV_ToString :: "int \<Rightarrow> int \<Rightarrow> int \<Rightarrow> string result" where
  "op64_DIV_ToString rd rs1 rs2 =
    sprintf 80 ''div %s,%s,%s'' [ArgStr (GetIntRegName rd), ArgStr (GetIntRegName rs1), ArgStr (GetIntRegName rs2)]"

definition op64_DIVW_ToString :: "int \<Rightarrow> int \<Rightarrow> int \<Rightarrow> string result" where
  "op64_DIVW_ToString rd rs1 rs2 =
    sprintf 80 ''divw %s,%s,%s'' [ArgStr (GetIntRegName rd), ArgStr (GetIntRegName rs1), ArgStr (GetIntRegName rs2)]"

definition op64_DIVU_ToString :: "int \<Rightarrow> int \<Rightarrow> int \<Rightarrow> string result" where
  "op64_DIVU_ToString rd rs1 rs2 =
    sprintf 80 ''divu %s,%s,%s'' [ArgStr (GetIntRegName rd), ArgStr (GetIntRegName rs1), ArgStr (GetIntRegName rs2)]"

definition op64_DIVUW_ToString :: "int \<Rightarrow> int \<Rightarrow> int \<Rightarrow> string result" where
  "op64_DIVUW_ToString rd rs1 rs2 =
    sprintf 80 ''divuw %s,%s,%s'' [ArgStr (GetIntRegName rd), ArgStr (GetIntRegName rs1), ArgStr (GetIntRegName rs2)]"

definition op64_REM_ToString :: "int \<Rightarrow> int \<Rightarrow> int \<Rightarrow> string result" where
  "op64_REM_ToString rd rs1 rs2 =
    sprintf 80 ''rem %s,%s,%s'' [ArgStr (GetIntRegName rd), ArgStr (GetIntRegName rs1), ArgStr (GetIntRegName rs2)]"

definition op64_REMW_ToString :: "int \<Rightarrow> int \<Rightarrow> int \<Rightarrow> string result" where
  "op64_REMW_ToString rd rs1 rs2 =
    sprintf 80 ''remw %s,%s,%s'' [ArgStr (GetIntRegName rd), ArgStr (GetIntRegName rs1), ArgStr (GetIntRegName rs2)]"

definition op64_REMU_ToString :: "int \<Rightarrow> int \<Rightarrow> int \<Rightarrow> string result" where
  "op64_REMU_ToString rd rs1 rs2 =
    sprintf 80 ''remu %s,%s,%s'' [ArgStr (GetIntRegName rd), ArgStr (GetIntRegName rs1), ArgStr (GetIntRegName rs2)]"

definition op64_REMUW_ToString :: "int \<Rightarrow> int \<Rightarrow> int \<Rightarrow> string result" where
  "op64_REMUW_ToString rd rs1 rs2 =
    sprintf 80 ''remuw %s,%s,%s'' [ArgStr (GetIntRegName rd), ArgStr (GetIntRegName rs1), ArgStr (GetIntRegName rs2)]"

primrec op64M_ToString :: "op64M \<Rightarrow> string result" where
  "op64M_ToString (op64_MUL rd rs1 rs2) = op64_MUL_ToString rd rs1 rs2"
| "op64M_ToString (op64_MULH rd rs1 rs2) = op64_MULH_ToString rd rs1 rs2"
| "op64M_ToString (op64_MULHSU rd rs1 rs2) = op64_MULHSU_ToString rd rs1 rs2"
| "op64M_ToString (op64_MULHU rd rs1 rs2) = op64_MULHU_ToString rd rs1 rs2"
| "op64M_ToString (op64_MULW rd rs1 rs2) = op64_MULW_ToString rd rs1 rs2"
| "op64M_ToString (op64_DIV rd rs1 rs2) = op64_DIV_ToString rd rs1 rs2"
| "op64M_ToString (op64_DIVW rd rs1 rs2) = op64_DIVW_ToString rd rs1 rs2"
| "op64M_ToString (op64_DIVU rd rs1 rs2) = op64_DIVU_ToString rd rs1 rs2"
| "op64M_ToString (op64_DIVUW rd rs1 rs2) = op64_DIVUW_ToString rd rs1 rs2"
| "op64M_ToString (op64_REM rd rs1 rs2) = op64_REM_ToString rd rs1 rs2"
| "op64M_ToString (op64_REMW rd rs1 rs2) = op64_REMW_ToString rd rs1 rs2"
| "op64M_ToString (op64_REMU rd rs1 rs2) = op64_REMU_ToString rd rs1 rs2"
| "op64M_ToString (op64_REMUW rd rs1 rs2) = op64_REMUW_ToString rd rs1 rs2"

lemmas op64M_ToString_defs =
  op64_MUL_ToString_def
  op64_MULH_ToString_def
  op64_MULHSU_ToString_def
  op64_MULHU_ToString_def
  op64_MULW_ToString_def
  op64_DIV_ToString_def
  op64_DIVW_ToString_def
  op64_DIVU_ToString_def
  op64_DIVUW_ToString_def
  op64_REM_ToString_def
  op64_REMW_ToString_def
  op64_REMU_ToString_def
  op64_REMUW_ToString_def

section \<open>RV64A\<close>

datatype (plugins only: code size) op64A =
    op64_LR_W int int bool bool
  | op64_LR_D int int bool bool
  | op64_SC_W int int int bool bool
  | op64_SC_D int int int bool bool
  | op64_AMOSWAP_W int int int bool bool
  | op64_AMOSWAP_D int int int bool bool
  | op64_AMOADD_W int int int bool bool
  | op64_AMOADD_D int int int bool bool
  | op64_AMOXOR_W int int int bool bool
  | op64_AMOXOR_D int int int bool bool
  | op64_AMOAND_W int int int bool bool
  | op64_AMOAND_D int int int bool bool
  | op64_AMOOR_W int int int bool bool
  | op64_AMOOR_D int int int bool bool
  | op64_AMOMIN_W int int int bool bool
  | op64_AMOMIN_D int int int bool bool
  | op64_AMOMAX_W int int int bool bool
  | op64_AMOMAX_D int int int bool bool
  | op64_AMOMINU_W int int int bool bool
  | op64_AMOMINU_D int int int bool bool
  | op64_AMOMAXU_W int int int bool bool
  | op64_AMOMAXU_D int int int bool bool

definition op64_LR_W_ToString :: "int \<Rightarrow> int \<Rightarrow> bool \<Rightarrow> bool \<Rightarrow> string result" where
  "op64_LR_W_ToString rd rs1 aq rl =
    sprintf 80 ''lr.w %s,(%s)'' [ArgStr (GetIntRegName rd), ArgStr (GetIntRegName rs1)]"

definition op64_LR_D_ToString :: "int \<Rightarrow> int \<Rightarrow> bool \<Rightarrow> bool \<Rightarrow> string result" where
  "op64_LR_D_ToString rd rs1 aq rl =
    sprintf 80 ''lr.d %s,(%s)'' [ArgStr (GetIntRegName rd), ArgStr (GetIntRegName rs1)]"

definition op64_SC_W_ToString :: "int \<Rightarrow> int \<Rightarrow> int \<Rightarrow> bool \<Rightarrow> bool \<Rightarrow> string result" where
  "op64_SC_W_ToString rd rs1 rs2 aq rl =
    sprintf 80 ''sc.w %s,%s,(%s)'' [ArgStr (GetIntRegName rd), ArgStr (GetIntRegName rs2), ArgStr (GetIntRegName rs1)]"

definition op64_SC_D_ToString :: "int \<Rightarrow> int \<Rightarrow> int \<Rightarrow> bool \<Rightarrow> bool \<Rightarrow> string result" where
  "op64_SC_D_ToString rd rs1 rs2 aq rl =
    sprintf 80 ''sc.d %s,%s,(%s)'' [ArgStr (GetIntRegName rd), ArgStr (GetIntRegName rs2), ArgStr (GetIntRegName rs1)]"

definition op64_AMOSWAP_W_ToString :: "int \<Rightarrow> int \<Rightarrow> int \<Rightarrow> bool \<Rightarrow> bool \<Rightarrow> string result" where
  "op64_AMOSWAP_W_ToString rd rs1 rs2 aq rl =
    sprintf 80 ''amoswap.w %s,%s,(%s)'' [ArgStr (GetIntRegName rd), ArgStr (GetIntRegName rs2), ArgStr (GetIntRegName rs1)]"

definition op64_AMOSWAP_D_ToString :: "int \<Rightarrow> int \<Rightarrow> int \<Rightarrow> bool \<Rightarrow> bool \<Rightarrow> string result" where
  "op64_AMOSWAP_D_ToString rd rs1 rs2 aq rl =
    sprintf 80 ''amoswap.d %s,%s,(%s)'' [ArgStr (GetIntRegName rd), ArgStr (GetIntRegName rs2), ArgStr (GetIntRegName rs1)]"

definition op64_AMOADD_W_ToString :: "int \<Rightarrow> int \<Rightarrow> int \<Rightarrow> bool \<Rightarrow> bool \<Rightarrow> string result" where
  "op64_AMOADD_W_ToString rd rs1 rs2 aq rl =
    sprintf 80 ''amoadd.w %s,%s,(%s)'' [ArgStr (GetIntRegName rd), ArgStr (GetIntRegName rs2), ArgStr (GetIntRegName rs1)]"

definition op64_AMOADD_D_ToString :: "int \<Rightarrow> int \<Rightarrow> int \<Rightarrow> bool \<Rightarrow> bool \<Rightarrow> string result" where
  "op64_AMOADD_D_ToString rd rs1 rs2 aq rl =
    sprintf 80 ''amoadd.d %s,%s,(%s)'' [ArgStr (GetIntRegName rd), ArgStr (GetIntRegName rs2), ArgStr (GetIntRegName rs1)]"

definition op64_AMOXOR_W_ToString :: "int \<Rightarrow> int \<Rightarrow> int \<Rightarrow> bool \<Rightarrow> bool \<Rightarrow> string result" where
  "op64_AMOXOR_W_ToString rd rs1 rs2 aq rl =
    sprintf 80 ''amoxor.w %s,%s,(%s)'' [ArgStr (GetIntRegName rd), ArgStr (GetIntRegName rs2), ArgStr (GetIntRegName rs1)]"

definition op64_AMOXOR_D_ToString :: "int \<Rightarrow> int \<Rightarrow> int \<Rightarrow> bool \<Rightarrow> bool \<Rightarrow> string result" where
  "op64_AMOXOR_D_ToString rd rs1 rs2 aq rl =
    sprintf 80 ''amoxor.d %s,%s,(%s)'' [ArgStr (GetIntRegName rd), ArgStr (GetIntRegName rs2), ArgStr (GetIntRegName rs1)]"

definition op64_AMOAND_W_ToString :: "int \<Rightarrow> int \<Rightarrow> int \<Rightarrow> bool \<Rightarrow> bool \<Rightarrow> string result" where
  "op64_AMOAND_W_ToString rd rs1 rs2 aq rl =
    sprintf 80 ''amoand.w %s,%s,(%s)'' [ArgStr (GetIntRegName rd), ArgStr (GetIntRegName rs2), ArgStr (GetIntRegName rs1)]"

definition op64_AMOAND_D_ToString :: "int \<Rightarrow> int \<Rightarrow> int \<Rightarrow> bool \<Rightarrow> bool \<Rightarrow> string result" where
  "op64_AMOAND_D_ToString rd rs1 rs2 aq rl =
    sprintf 80 ''amoand.d %s,%s,(%s)'' [ArgStr (GetIntRegName rd), ArgStr (GetIntRegName rs2), ArgStr (GetIntRegName rs1)]"

definition op64_AMOOR_W_ToString :: "int \<Rightarrow> int \<Rightarrow> int \<Rightarrow> bool \<Rightarrow> bool \<Rightarrow> string result" where
  "op64_AMOOR_W_ToString rd rs1 rs2 aq rl =
    sprintf 80 ''amoor.w %s,%s,(%s)'' [ArgStr (GetIntRegName rd), ArgStr (GetIntRegName rs2), ArgStr (GetIntRegName rs1)]"

definition op64_AMOOR_D_ToString :: "int \<Rightarrow> int \<Rightarrow> int \<Rightarrow> bool \<Rightarrow> bool \<Rightarrow> string result" where
  "op64_AMOOR_D_ToString rd rs1 rs2 aq rl =
    sprintf 80 ''amoor.d %s,%s,(%s)'' [ArgStr (GetIntRegName rd), ArgStr (GetIntRegName rs2), ArgStr (GetIntRegName rs1)]"

definition op64_AMOMIN_W_ToString :: "int \<Rightarrow> int \<Rightarrow> int \<Rightarrow> bool \<Rightarrow> bool \<Rightarrow> string result" where
  "op64_AMOMIN_W_ToString rd rs1 rs2 aq rl =
    sprintf 80 ''amomin.w %s,%s,(%s)'' [ArgStr (GetIntRegName rd), ArgStr (GetIntRegName rs2), ArgStr (GetIntRegName rs1)]"

definition op64_AMOMIN_D_ToString :: "int \<Rightarrow> int \<Rightarrow> int \<Rightarrow> bool \<Rightarrow> bool \<Rightarrow> string result" where
  "op64_AMOMIN_D_ToString rd rs1 rs2 aq rl =
    sprintf 80 ''amomin.d %s,%s,(%s)'' [ArgStr (GetIntRegName rd), ArgStr (GetIntRegName rs2), ArgStr (GetIntRegName rs1)]"

definition op64_AMOMAX_W_ToString :: "int \<Rightarrow> int \<Rightarrow> int \<Rightarrow> bool \<Rightarrow> bool \<Rightarrow> string result" where
  "op64_AMOMAX_W_ToString rd rs1 rs2 aq rl =
    sprintf 80 ''amomax.w %s,%s,(%s)'' [ArgStr (GetIntRegName rd), ArgStr (GetIntRegName rs2), ArgStr (GetIntRegName rs1)]"

definition op64_AMOMAX_D_ToString :: "int \<Rightarrow> int \<Rightarrow> int \<Rightarrow> bool \<Rightarrow> bool \<Rightarrow> string result" where
  "op64_AMOMAX_D_ToString rd rs1 rs2 aq rl =
    sprintf 80 ''amomax.d %s,%s,(%s)'' [ArgStr (GetIntRegName rd), ArgStr (GetIntRegName rs2), ArgStr (GetIntRegName rs1)]"

definition op64_AMOMINU_W_ToString :: "int \<Rightarrow> int \<Rightarrow> int \<Rightarrow> bool \<Rightarrow> bool \<Rightarrow> string result" where
  "op64_AMOMINU_W_ToString rd rs1 rs2 aq rl =
    sprintf 80 ''amominu.w %s,%s,(%s)'' [ArgStr (GetIntRegName rd), ArgStr (GetIntRegName rs2), ArgStr (GetIntRegName rs1)]"

definition op64_AMOMINU_D_ToString :: "int \<Rightarrow> int \<Rightarrow> int \<Rightarrow> bool \<Rightarrow> bool \<Rightarrow> string result" where
  "op64_AMOMINU_D_ToString rd rs1 rs2 aq rl =
    sprintf 80 ''amominu.d %s,%s,(%s)'' [ArgStr (GetIntRegName rd), ArgStr (GetIntRegName rs2), ArgStr (GetIntRegName rs1)]"

definition op64_AMOMAXU_W_ToString :: "int \<Rightarrow> int \<Rightarrow> int \<Rightarrow> bool \<Rightarrow> bool \<Rightarrow> string result" where
  "op64_AMOMAXU_W_ToString rd rs1 rs2 aq rl =
    sprintf 80 ''amomaxu.w %s,%s,(%s)'' [ArgStr (GetIntRegName rd), ArgStr (GetIntRegName rs2), ArgStr (GetIntRegName rs1)]"

definition op64_AMOMAXU_D_ToString :: "int \<Rightarrow> int \<Rightarrow> int \<Rightarrow> bool \<Rightarrow> bool \<Rightarrow> string result" where
  "op64_AMOMAXU_D_ToString rd rs1 rs2 aq rl =
    sprintf 80 ''amomaxu.d %s,%s,(%s)'' [ArgStr (GetIntRegName rd), ArgStr (GetIntRegName rs2), ArgStr (GetIntRegName rs1)]"

primrec op64A_ToString :: "op64A \<Rightarrow> string result" where
  "op64A_ToString (op64_LR_W rd rs1 aq rl) = op64_LR_W_ToString rd rs1 aq rl"
| "op64A_ToString (op64_LR_D rd rs1 aq rl) = op64_LR_D_ToString rd rs1 aq rl"
| "op64A_ToString (op64_SC_W rd rs1 rs2 aq rl) = op64_SC_W_ToString rd rs1 rs2 aq rl"
| "op64A_ToString (op64_SC_D rd rs1 rs2 aq rl) = op64_SC_D_ToString rd rs1 rs2 aq rl"
| "op64A_ToString (op64_AMOSWAP_W rd rs1 rs2 aq rl) = op64_AMOSWAP_W_ToString rd rs1 rs2 aq rl"
| "op64A_ToString (op64_AMOSWAP_D rd rs1 rs2 aq rl) = op64_AMOSWAP_D_ToString rd rs1 rs2 aq rl"
| "op64A_ToString (op64_AMOADD_W rd rs1 rs2 aq rl) = op64_AMOADD_W_ToString rd rs1 rs2 aq rl"
| "op64A_ToString (op64_AMOADD_D rd rs1 rs2 aq rl) = op64_AMOADD_D_ToString rd rs1 rs2 aq rl"
| "op64A_ToString (op64_AMOXOR_W rd rs1 rs2 aq rl) = op64_AMOXOR_W_ToString rd rs1 rs2 aq rl"
| "op64A_ToString (op64_AMOXOR_D rd rs1 rs2 aq rl) = op64_AMOXOR_D_ToString rd rs1 rs2 aq rl"
| "op64A_ToString (op64_AMOAND_W rd rs1 rs2 aq rl) = op64_AMOAND_W_ToString rd rs1 rs2 aq rl"
| "op64A_ToString (op64_AMOAND_D rd rs1 rs2 aq rl) = op64_AMOAND_D_ToString rd rs1 rs2 aq rl"
| "op64A_ToString (op64_AMOOR_W rd rs1 rs2 aq rl) = op64_AMOOR_W_ToString rd rs1 rs2 aq rl"
| "op64A_ToString (op64_AMOOR_D rd rs1 rs2 aq rl) = op64_AMOOR_D_ToString rd rs1 rs2 aq rl"
| "op64A_ToString (op64_AMOMIN_W rd rs1 rs2 aq rl) = op64_AMOMIN_W_ToString rd rs1 rs2 aq rl"
| "op64A_ToString (op64_AMOMIN_D rd rs1 rs2 aq rl) = op64_AMOMIN_D_ToString rd rs1 rs2 aq rl"
| "op64A_ToString (op64_AMOMAX_W rd rs1 rs2 aq rl) = op64_AMOMAX_W_ToString rd rs1 rs2 aq rl"
| "op64A_ToString (op64_AMOMAX_D rd rs1 rs2 aq rl) = op64_AMOMAX_D_ToString rd rs1 rs2 aq rl"
| "op64A_ToString (op64_AMOMINU_W rd rs1 rs2 aq rl) = op64_AMOMINU_W_ToString rd rs1 rs2 aq rl"
| "op64A_ToString (op64_AMOMINU_D rd rs1 rs2 aq rl) = op64_AMOMINU_D_ToString rd rs1 rs2 aq rl"
| "op64A_ToString (op64_AMOMAXU_W rd rs1 rs2 aq rl) = op64_AMOMAXU_W_ToString rd rs1 rs2 aq rl"
| "op64A_ToString (op64_AMOMAXU_D rd rs1 rs2 aq rl) = op64_AMOMAXU_D_ToString rd rs1 rs2 aq rl"

lemmas op64A_ToString_defs =
  op64_LR_W_ToString_def
  op64_LR_D_ToString_def
  op64_SC_W_ToString_def
  op64_SC_D_ToString_def
  op64_AMOSWAP_W_ToString_def
  op64_AMOSWAP_D_ToString_def
  op64_AMOADD_W_ToString_def
  op64_AMOADD_D_ToString_def
  op64_AMOXOR_W_ToString_def
  op64_AMOXOR_D_ToString_def
  op64_AMOAND_W_ToString_def
  op64_AMOAND_D_ToString_def
  op64_AMOOR_W_ToString_def
  op64_AMOOR_D_ToString_def
  op64_AMOMIN_W_ToString_def
  op64_AMOMIN_D_ToString_def
  op64_AMOMAX_W_ToString_def
  op64_AMOMAX_D_ToString_def
  op64_AMOMINU_W_ToString_def
  op64_AMOMINU_D_ToString_def
  op64_AMOMAXU_W_ToString_def
  op64_AMOMAXU_D_ToString_def

section \<open>RV64F\<close>

datatype (plugins only: code size) op64F =
    op64_FLW int int uint32
  | op64_FSW int int uint32
  | op64_FMADD_S int int int int int
  | op64_FMSUB_S int int int int int
  | op64_FNMSUB_S int int int int int
  | op64_FNMADD_S int int int int int
  | op64_FADD_S int int int int
  | op64_FSUB_S int int int int
  | op64_FMUL_S int int int int
  | op64_FDIV_S int int int int
  | op64_FSQRT_S int int int
  | op64_FSGNJ_S int int int
  | op64_FSGNJN_S int int int
  | op64_FSGNJX_S int int int
  | op64_FMIN_S int int int
  | op64_FMAX_S int int int
  | op64_FCVT_W_S int int int
  | op64_FCVT_WU_S int int int
  | op64_FMV_X_W int int
  | op64_FEQ_S int int int
  | op64_FLT_S int int int
  | op64_FLE_S int int int
  | op64_FCLASS_S int int
  | op64_FCVT_S_W int int int
  | op64_FCVT_S_WU int int int
  | op64_FMV_W_X int int
  | op64_FCVT_L_S int int int
  | op64_FCVT_LU_S int int int
  | op64_FCVT_S_L int int int
  | op64_FCVT_S_LU int int int

definition op64_FLW_ToString :: "int \<Rightarrow> int \<Rightarrow> uint32 \<Rightarrow> string result" where
  "op64_FLW_ToString rd rs1 imm =
    sprintf 80 ''flw %s,%d(%s)'' [ArgStr (GetFpRegName rd), ArgInt imm, ArgStr (GetIntRegName rs1)]"

definition op64_FSW_ToString :: "int \<Rightarrow> int \<Rightarrow> uint32 \<Rightarrow> string result" where
  "op64_FSW_ToString rs1 rs2 imm =
    sprintf 80 ''fsw %s,%d(%s)'' [ArgStr (GetFpRegName rs2), ArgInt imm, ArgStr (GetIntRegName rs1)]"

definition op64_FMADD_S_ToString :: "int \<Rightarrow> int \<Rightarrow> int \<Rightarrow> int \<Rightarrow> int \<Rightarrow> string result" where
  "op64_FMADD_S_ToString rd rs1 rs2 rs3 rm =
    (let name = GetRoundingModeName rm in
     if name \<noteq> None
     then sprintf 80 ''fmadd.s %s,%s,%s,%s,%s'' [ArgStr (GetFpRegName rd), ArgStr (GetFpRegName rs1), ArgStr (GetFpRegName rs2), ArgStr (GetFpRegName rs3), ArgStr name]
     else sprintf 80 ''fmadd.s %s,%s,%s,%s'' [ArgStr (GetFpRegName rd), ArgStr (GetFpRegName rs1), ArgStr (GetFpRegName rs2), ArgStr (GetFpRegName rs3)])"

definition op64_FMSUB_S_ToString :: "int \<Rightarrow> int \<Rightarrow> int \<Rightarrow> int \<Rightarrow> int \<Rightarrow> string result" where
  "op64_FMSUB_S_ToString rd rs1 rs2 rs3 rm =
    (let name = GetRoundingModeName rm in
     if name \<noteq> None
     then sprintf 80 ''fmsub.s %s,%s,%s,%s,%s'' [ArgStr (GetFpRegName rd), ArgStr (GetFpRegName rs1), ArgStr (GetFpRegName rs2), ArgStr (GetFpRegName rs3), ArgStr name]
     else sprintf 80 ''fmsub.s %s,%s,%s,%s'' [ArgStr (GetFpRegName rd), ArgStr (GetFpRegName rs1), ArgStr (GetFpRegName rs2), ArgStr (GetFpRegName rs3)])"

definition op64_FNMSUB_S_ToString :: "int \<Rightarrow> int \<Rightarrow> int \<Rightarrow> int \<Rightarrow> int \<Rightarrow> string result" where
  "op64_FNMSUB_S_ToString rd rs1 rs2 rs3 rm =
    (let name = GetRoundingModeName rm in
     if name \<noteq> None
     then sprintf 80 ''fnmsub.s %s,%s,%s,%s,%s'' [ArgStr (GetFpRegName rd), ArgStr (GetFpRegName rs1), ArgStr (GetFpRegName rs2), ArgStr (GetFpRegName rs3), ArgStr name]
     else sprintf 80 ''fnmsub.s %s,%s,%s,%s'' [ArgStr (GetFpRegName rd), ArgStr (GetFpRegName rs1), ArgStr (GetFpRegName rs2), ArgStr (GetFpRegName rs3)])"

definition op64_FNMADD_S_ToString :: "int \<Rightarrow> int \<Rightarrow> int \<Rightarrow> int \<Rightarrow> int \<Rightarrow> string result" where
  "op64_FNMADD_S_ToString rd rs1 rs2 rs3 rm =
    (let name = GetRoundingModeName rm in
     if name \<noteq> None
     then sprintf 80 ''fnmadd.s %s,%s,%s,%s,%s'' [ArgStr (GetFpRegName rd), ArgStr (GetFpRegName rs1), ArgStr (GetFpRegName rs2), ArgStr (GetFpRegName rs3), ArgStr name]
     else sprintf 80 ''fnmadd.s %s,%s,%s,%s'' [ArgStr (GetFpRegName rd), ArgStr (GetFpRegName rs1), ArgStr (GetFpRegName rs2), ArgStr (GetFpRegName rs3)])"

definition op64_FADD_S_ToString :: "int \<Rightarrow> int \<Rightarrow> int \<Rightarrow> int \<Rightarrow> string result" where
  "op64_FADD_S_ToString rd rs1 rs2 rm =
    (let name = GetRoundingModeName rm in
     if name \<noteq> None
     then sprintf 80 ''fadd.s %s,%s,%s,%s'' [ArgStr (GetFpRegName rd), ArgStr (GetFpRegName rs1), ArgStr (GetFpRegName rs2), ArgStr name]
     else sprintf 80 ''fadd.s %s,%s,%s'' [ArgStr (GetFpRegName rd), ArgStr (GetFpRegName rs1), ArgStr (GetFpRegName rs2)])"

definition op64_FSUB_S_ToString :: "int \<Rightarrow> int \<Rightarrow> int \<Rightarrow> int \<Rightarrow> string result" where
  "op64_FSUB_S_ToString rd rs1 rs2 rm =
    (let name = GetRoundingModeName rm in
     if name \<noteq> None
     then sprintf 80 ''fsub.s %s,%s,%s,%s'' [ArgStr (GetFpRegName rd), ArgStr (GetFpRegName rs1), ArgStr (GetFpRegName rs2), ArgStr name]
     else sprintf 80 ''fsub.s %s,%s,%s'' [ArgStr (GetFpRegName rd), ArgStr (GetFpRegName rs1), ArgStr (GetFpRegName rs2)])"

definition op64_FMUL_S_ToString :: "int \<Rightarrow> int \<Rightarrow> int \<Rightarrow> int \<Rightarrow> string result" where
  "op64_FMUL_S_ToString rd rs1 rs2 rm =
    (let name = GetRoundingModeName rm in
     if name \<noteq> None
     then sprintf 80 ''fmul.s %s,%s,%s,%s'' [ArgStr (GetFpRegName rd), ArgStr (GetFpRegName rs1), ArgStr (GetFpRegName rs2), ArgStr name]
     else sprintf 80 ''fmul.s %s,%s,%s'' [ArgStr (GetFpRegName rd), ArgStr (GetFpRegName rs1), ArgStr (GetFpRegName rs2)])"

definition op64_FDIV_S_ToString :: "int \<Rightarrow> int \<Rightarrow> int \<Rightarrow> int \<Rightarrow> string result" where
  "op64_FDIV_S_ToString rd rs1 rs2 rm =
    (let name = GetRoundingModeName rm in
     if name \<noteq> None
     then sprintf 80 ''fdiv.s %s,%s,%s,%s'' [ArgStr (GetFpRegName rd), ArgStr (GetFpRegName rs1), ArgStr (GetFpRegName rs2), ArgStr name]
     else sprintf 80 ''fdiv.s %s,%s,%s'' [ArgStr (GetFpRegName rd), ArgStr (GetFpRegName rs1), ArgStr (GetFpRegName rs2)])"

definition op64_FSQRT_S_ToString :: "int \<Rightarrow> int \<Rightarrow> int \<Rightarrow> string result" where
  "op64_FSQRT_S_ToString rd rs1 rm =
    (let name = GetRoundingModeName rm in
     if name \<noteq> None
     then sprintf 80 ''fsqrt.s %s,%s,%s'' [ArgStr (GetFpRegName rd), ArgStr (GetFpRegName rs1), ArgStr name]
     else sprintf 80 ''fsqrt.s %s,%s'' [ArgStr (GetFpRegName rd), ArgStr (GetFpRegName rs1)])"

definition op64_FSGNJ_S_ToString :: "int \<Rightarrow> int \<Rightarrow> int \<Rightarrow> string result" where
  "op64_FSGNJ_S_ToString rd rs1 rs2 =
    sprintf 80 ''fsgnj.s %s,%s,%s'' [ArgStr (GetFpRegName rd), ArgStr (GetFpRegName rs1), ArgStr (GetFpRegName rs2)]"

definition op64_FSGNJN_S_ToString :: "int \<Rightarrow> int \<Rightarrow> int \<Rightarrow> string result" where
  "op64_FSGNJN_S_ToString rd rs1 rs2 =
    sprintf 80 ''fsgnjn.s %s,%s,%s'' [ArgStr (GetFpRegName rd), ArgStr (GetFpRegName rs1), ArgStr (GetFpRegName rs2)]"

definition op64_FSGNJX_S_ToString :: "int \<Rightarrow> int \<Rightarrow> int \<Rightarrow> string result" where
  "op64_FSGNJX_S_ToString rd rs1 rs2 =
    sprintf 80 ''fsgnjx.s %s,%s,%s'' [ArgStr (GetFpRegName rd), ArgStr (GetFpRegName rs1), ArgStr (GetFpRegName rs2)]"

definition op64_FMIN_S_ToString :: "int \<Rightarrow> int \<Rightarrow> int \<Rightarrow> string result" where
  "op64_FMIN_S_ToString rd rs1 rs2 =
    sprintf 80 ''fmin.s %s,%s,%s'' [ArgStr (GetFpRegName rd), ArgStr (GetFpRegName rs1), ArgStr (GetFpRegName rs2)]"

definition op64_FMAX_S_ToString :: "int \<Rightarrow> int \<Rightarrow> int \<Rightarrow> string result" where
  "op64_FMAX_S_ToString rd rs1 rs2 =
    sprintf 80 ''fmax.s %s,%s,%s'' [ArgStr (GetFpRegName rd), ArgStr (GetFpRegName rs1), ArgStr (GetFpRegName rs2)]"

definition op64_FCVT_W_S_ToString :: "int \<Rightarrow> int \<Rightarrow> int \<Rightarrow> string result" where
  "op64_FCVT_W_S_ToString rd rs1 rm =
    (let name = GetRoundingModeName rm in
     if name \<noteq> None
     then sprintf 80 ''fcvt.w.s %s,%s,%s'' [ArgStr (GetIntRegName rd), ArgStr (GetFpRegName rs1), ArgStr name]
     else sprintf 80 ''fcvt.w.s %s,%s'' [ArgStr (GetIntRegName rd), ArgStr (GetFpRegName rs1)])"

definition op64_FCVT_WU_S_ToString :: "int \<Rightarrow> int \<Rightarrow> int \<Rightarrow> string result" where
  "op64_FCVT_WU_S_ToString rd rs1 rm =
    (let name = GetRoundingModeName rm in
     if name \<noteq> None
     then sprintf 80 ''fcvt.wu.s %s,%s,%s'' [ArgStr (GetIntRegName rd), ArgStr (GetFpRegName rs1), ArgStr name]
     else sprintf 80 ''fcvt.wu.s %s,%s'' [ArgStr (GetIntRegName rd), ArgStr (GetFpRegName rs1)])"

definition op64_FMV_X_W_ToString :: "int \<Rightarrow> int \<Rightarrow> string result" where
  "op64_FMV_X_W_ToString rd rs1 =
    sprintf 80 ''fmv.x.w %s,%s'' [ArgStr (GetIntRegName rd), ArgStr (GetFpRegName rs1)]"

definition op64_FEQ_S_ToString :: "int \<Rightarrow> int \<Rightarrow> int \<Rightarrow> string result" where
  "op64_FEQ_S_ToString rd rs1 rs2 =
    sprintf 80 ''feq.s %s,%s,%s'' [ArgStr (GetIntRegName rd), ArgStr (GetFpRegName rs1), ArgStr (GetFpRegName rs2)]"

definition op64_FLT_S_ToString :: "int \<Rightarrow> int \<Rightarrow> int \<Rightarrow> string result" where
  "op64_FLT_S_ToString rd rs1 rs2 =
    sprintf 80 ''flt.s %s,%s,%s'' [ArgStr (GetIntRegName rd), ArgStr (GetFpRegName rs1), ArgStr (GetFpRegName rs2)]"

definition op64_FLE_S_ToString :: "int \<Rightarrow> int \<Rightarrow> int \<Rightarrow> string result" where
  "op64_FLE_S_ToString rd rs1 rs2 =
    sprintf 80 ''fle.s %s,%s,%s'' [ArgStr (GetIntRegName rd), ArgStr (GetFpRegName rs1), ArgStr (GetFpRegName rs2)]"

definition op64_FCLASS_S_ToString :: "int \<Rightarrow> int \<Rightarrow> string result" where
  "op64_FCLASS_S_ToString rd rs1 =
    sprintf 80 ''fclass.s %s,%s'' [ArgStr (GetIntRegName rd), ArgStr (GetFpRegName rs1)]"

definition op64_FCVT_S_W_ToString :: "int \<Rightarrow> int \<Rightarrow> int \<Rightarrow> string result" where
  "op64_FCVT_S_W_ToString rd rs1 rm =
    (let name = GetRoundingModeName rm in
     if name \<noteq> None
     then sprintf 80 ''fcvt.s.w %s,%s,%s'' [ArgStr (GetFpRegName rd), ArgStr (GetIntRegName rs1), ArgStr name]
     else sprintf 80 ''fcvt.s.w %s,%s'' [ArgStr (GetFpRegName rd), ArgStr (GetIntRegName rs1)])"

definition op64_FCVT_S_WU_ToString :: "int \<Rightarrow> int \<Rightarrow> int \<Rightarrow> string result" where
  "op64_FCVT_S_WU_ToString rd rs1 rm =
    (let name = GetRoundingModeName rm in
     if name \<noteq> None
     then sprintf 80 ''fcvt.s.wu %s,%s,%s'' [ArgStr (GetFpRegName rd), ArgStr (GetIntRegName rs1), ArgStr name]
     else sprintf 80 ''fcvt.s.wu %s,%s'' [ArgStr (GetFpRegName rd), ArgStr (GetIntRegName rs1)])"

definition op64_FMV_W_X_ToString :: "int \<Rightarrow> int \<Rightarrow> string result" where
  "op64_FMV_W_X_ToString rd rs1 =
    sprintf 80 ''fmv.w.x %s,%s'' [ArgStr (GetFpRegName rd), ArgStr (GetIntRegName rs1)]"

definition op64_FCVT_L_S_ToString :: "int \<Rightarrow> int \<Rightarrow> int \<Rightarrow> string result" where
  "op64_FCVT_L_S_ToString rd rs1 rm =
    (let name = GetRoundingModeName rm in
     if name \<noteq> None
     then sprintf 80 ''fcvt.l.s %s,%s,%s'' [ArgStr (GetIntRegName rd), ArgStr (GetFpRegName rs1), ArgStr name]
     else sprintf 80 ''fcvt.l.s %s,%s'' [ArgStr (GetIntRegName rd), ArgStr (GetFpRegName rs1)])"

definition op64_FCVT_LU_S_ToString :: "int \<Rightarrow> int \<Rightarrow> int \<Rightarrow> string result" where
  "op64_FCVT_LU_S_ToString rd rs1 rm =
    (let name = GetRoundingModeName rm in
     if name \<noteq> None
     then sprintf 80 ''fcvt.lu.s %s,%s,%s'' [ArgStr (GetIntRegName rd), ArgStr (GetFpRegName rs1), ArgStr name]
     else sprintf 80 ''fcvt.lu.s %s,%s'' [ArgStr (GetIntRegName rd), ArgStr (GetFpRegName rs1)])"

definition op64_FCVT_S_L_ToString :: "int \<Rightarrow> int \<Rightarrow> int \<Rightarrow> string result" where
  "op64_FCVT_S_L_ToString rd rs1 rm =
    (let name = GetRoundingModeName rm in
     if name \<noteq> None
     then sprintf 80 ''fcvt.s.l %s,%s,%s'' [ArgStr (GetFpRegName rd), ArgStr (GetIntRegName rs1), ArgStr name]
     else sprintf 80 ''fcvt.s.l %s,%s'' [ArgStr (GetFpRegName rd), ArgStr (GetIntRegName rs1)])"

definition op64_FCVT_S_LU_ToString :: "int \<Rightarrow> int \<Rightarrow> int \<Rightarrow> string result" where
  "op64_FCVT_S_LU_ToString rd rs1 rm =
    (let name = GetRoundingModeName rm in
     if name \<noteq> None
     then sprintf 80 ''fcvt.s.lu %s,%s,%s'' [ArgStr (GetFpRegName rd), ArgStr (GetIntRegName rs1), ArgStr name]
     else sprintf 80 ''fcvt.s.lu %s,%s'' [ArgStr (GetFpRegName rd), ArgStr (GetIntRegName rs1)])"

primrec op64F_ToString :: "op64F \<Rightarrow> string result" where
  "op64F_ToString (op64_FLW rd rs1 imm) = op64_FLW_ToString rd rs1 imm"
| "op64F_ToString (op64_FSW rs1 rs2 imm) = op64_FSW_ToString rs1 rs2 imm"
| "op64F_ToString (op64_FMADD_S rd rs1 rs2 rs3 rm) = op64_FMADD_S_ToString rd rs1 rs2 rs3 rm"
| "op64F_ToString (op64_FMSUB_S rd rs1 rs2 rs3 rm) = op64_FMSUB_S_ToString rd rs1 rs2 rs3 rm"
| "op64F_ToString (op64_FNMSUB_S rd rs1 rs2 rs3 rm) = op64_FNMSUB_S_ToString rd rs1 rs2 rs3 rm"
| "op64F_ToString (op64_FNMADD_S rd rs1 rs2 rs3 rm) = op64_FNMADD_S_ToString rd rs1 rs2 rs3 rm"
| "op64F_ToString (op64_FADD_S rd rs1 rs2 rm) = op64_FADD_S_ToString rd rs1 rs2 rm"
| "op64F_ToString (op64_FSUB_S rd rs1 rs2 rm) = op64_FSUB_S_ToString rd rs1 rs2 rm"
| "op64F_ToString (op64_FMUL_S rd rs1 rs2 rm) = op64_FMUL_S_ToString rd rs1 rs2 rm"
| "op64F_ToString (op64_FDIV_S rd rs1 rs2 rm) = op64_FDIV_S_ToString rd rs1 rs2 rm"
| "op64F_ToString (op64_FSQRT_S rd rs1 rm) = op64_FSQRT_S_ToString rd rs1 rm"
| "op64F_ToString (op64_FSGNJ_S rd rs1 rs2) = op64_FSGNJ_S_ToString rd rs1 rs2"
| "op64F_ToString (op64_FSGNJN_S rd rs1 rs2) = op64_FSGNJN_S_ToString rd rs1 rs2"
| "op64F_ToString (op64_FSGNJX_S rd rs1 rs2) = op64_FSGNJX_S_ToString rd rs1 rs2"
| "op64F_ToString (op64_FMIN_S rd rs1 rs2) = op64_FMIN_S_ToString rd rs1 rs2"
| "op64F_ToString (op64_FMAX_S rd rs1 rs2) = op64_FMAX_S_ToString rd rs1 rs2"
| "op64F_ToString (op64_FCVT_W_S rd rs1 rm) = op64_FCVT_W_S_ToString rd rs1 rm"
| "op64F_ToString (op64_FCVT_WU_S rd rs1 rm) = op64_FCVT_WU_S_ToString rd rs1 rm"
| "op64F_ToString (op64_FMV_X_W rd rs1) = op64_FMV_X_W_ToString rd rs1"
| "op64F_ToString (op64_FEQ_S rd rs1 rs2) = op64_FEQ_S_ToString rd rs1 rs2"
| "op64F_ToString (op64_FLT_S rd rs1 rs2) = op64_FLT_S_ToString rd rs1 rs2"
| "op64F_ToString (op64_FLE_S rd rs1 rs2) = op64_FLE_S_ToString rd rs1 rs2"
| "op64F_ToString (op64_FCLASS_S rd rs1) = op64_FCLASS_S_ToString rd rs1"
| "op64F_ToString (op64_FCVT_S_W rd rs1 rm) = op64_FCVT_S_W_ToString rd rs1 rm"
| "op64F_ToString (op64_FCVT_S_WU rd rs1 rm) = op64_FCVT_S_WU_ToString rd rs1 rm"
| "op64F_ToString (op64_FMV_W_X rd rs1) = op64_FMV_W_X_ToString rd rs1"
| "op64F_ToString (op64_FCVT_L_S rd rs1 rm) = op64_FCVT_L_S_ToString rd rs1 rm"
| "op64F_ToString (op64_FCVT_LU_S rd rs1 rm) = op64_FCVT_LU_S_ToString rd rs1 rm"
| "op64F_ToString (op64_FCVT_S_L rd rs1 rm) = op64_FCVT_S_L_ToString rd rs1 rm"
| "op64F_ToString (op64_FCVT_S_LU rd rs1 rm) = op64_FCVT_S_LU_ToString rd rs1 rm"

lemmas op64F_ToString_defs =
  op64_FLW_ToString_def
  op64_FSW_ToString_def
  op64_FMADD_S_ToString_def
  op64_FMSUB_S_ToString_def
  op64_FNMSUB_S_ToString_def
  op64_FNMADD_S_ToString_def
  op64_FADD_S_ToString_def
  op64_FSUB_S_ToString_def
  op64_FMUL_S_ToString_def
  op64_FDIV_S_ToString_def
  op64_FSQRT_S_ToString_def
  op64_FSGNJ_S_ToString_def
  op64_FSGNJN_S_ToString_def
  op64_FSGNJX_S_ToString_def
  op64_FMIN_S_ToString_def
  op64_FMAX_S_ToString_def
  op64_FCVT_W_S_ToString_def
  op64_FCVT_WU_S_ToString_def
  op64_FMV_X_W_ToString_def
  op64_FEQ_S_ToString_def
  op64_FLT_S_ToString_def
  op64_FLE_S_ToString_def
  op64_FCLASS_S_ToString_def
  op64_FCVT_S_W_ToString_def
  op64_FCVT_S_WU_ToString_def
  op64_FMV_W_X_ToString_def
  op64_FCVT_L_S_ToString_def
  op64_FCVT_LU_S_ToString_def
  op64_FCVT_S_L_ToString_def
  op64_FCVT_S_LU_ToString_def

section \<open>RV64D\<close>

datatype (plugins only: code size) op64D =
    op64_FLD int int uint32
  | op64_FSD int int uint32
  | op64_FMADD_D int int int int int
  | op64_FMSUB_D int int int int int
  | op64_FNMSUB_D int int int int int
  | op64_FNMADD_D int int int int int
  | op64_FADD_D int int int int
  | op64_FSUB_D int int int int
  | op64_FMUL_D int int int int
  | op64_FDIV_D int int int int
  | op64_FSQRT_D int int int
  | op64_FSGNJ_D int int int
  | op64_FSGNJN_D int int int
  | op64_FSGNJX_D int int int
  | op64_FMIN_D int int int
  | op64_FMAX_D int int int
  | op64_FCVT_S_D int int int
  | op64_FCVT_D_S int int int
  | op64_FEQ_D int int int
  | op64_FLT_D int int int
  | op64_FLE_D int int int
  | op64_FCLASS_D int int
  | op64_FCVT_W_D int int int
  | op64_FCVT_WU_D int int int
  | op64_FCVT_D_W int int int
  | op64_FCVT_D_WU int int int
  | op64_FCVT_L_D int int int
  | op64_FCVT_LU_D int int int
  | op64_FMV_X_D int int
  | op64_FCVT_D_L int int int
  | op64_FCVT_D_LU int int int
  | op64_FMV_D_X int int

definition op64_FLD_ToString :: "int \<Rightarrow> int \<Rightarrow> uint32 \<Rightarrow> string result" where
  "op64_FLD_ToString rd rs1 imm =
    sprintf 80 ''fld %s,%d(%s)'' [ArgStr (GetFpRegName rd), ArgInt imm, ArgStr (GetIntRegName rs1)]"

definition op64_FSD_ToString :: "int \<Rightarrow> int \<Rightarrow> uint32 \<Rightarrow> string result" where
  "op64_FSD_ToString rs1 rs2 imm =
    sprintf 80 ''fsd %s,%d(%s)'' [ArgStr (GetFpRegName rs2), ArgInt imm, ArgStr (GetIntRegName rs1)]"

definition op64_FMADD_D_ToString :: "int \<Rightarrow> int \<Rightarrow> int \<Rightarrow> int \<Rightarrow> int \<Rightarrow> string result" where
  "op64_FMADD_D_ToString rd rs1 rs2 rs3 rm =
    (let name = GetRoundingModeName rm in
     if name \<noteq> None
     then sprintf 80 ''fmadd.d %s,%s,%s,%s,%s'' [ArgStr (GetFpRegName rd), ArgStr (GetFpRegName rs1), ArgStr (GetFpRegName rs2), ArgStr (GetFpRegName rs3), ArgStr name]
     else sprintf 80 ''fmadd.d %s,%s,%s,%s'' [ArgStr (GetFpRegName rd), ArgStr (GetFpRegName rs1), ArgStr (GetFpRegName rs2), ArgStr (GetFpRegName rs3)])"

definition op64_FMSUB_D_ToString :: "int \<Rightarrow> int \<Rightarrow> int \<Rightarrow> int \<Rightarrow> int \<Rightarrow> string result" where
  "op64_FMSUB_D_ToString rd rs1 rs2 rs3 rm =
    (let name = GetRoundingModeName rm in
     if name \<noteq> None
     then sprintf 80 ''fmsub.d %s,%s,%s,%s,%s'' [ArgStr (GetFpRegName rd), ArgStr (GetFpRegName rs1), ArgStr (GetFpRegName rs2), ArgStr (GetFpRegName rs3), ArgStr name]
     else sprintf 80 ''fmsub.d %s,%s,%s,%s'' [ArgStr (GetFpRegName rd), ArgStr (GetFpRegName rs1), ArgStr (GetFpRegName rs2), ArgStr (GetFpRegName rs3)])"

definition op64_FNMSUB_D_ToString :: "int \<Rightarrow> int \<Rightarrow> int \<Rightarrow> int \<Rightarrow> int \<Rightarrow> string result" where
  "op64_FNMSUB_D_ToString rd rs1 rs2 rs3 rm =
    (let name = GetRoundingModeName rm in
     if name \<noteq> None
     then sprintf 80 ''fnmsub.d %s,%s,%s,%s,%s'' [ArgStr (GetFpRegName rd), ArgStr (GetFpRegName rs1), ArgStr (GetFpRegName rs2), ArgStr (GetFpRegName rs3), ArgStr name]
     else sprintf 80 ''fnmsub.d %s,%s,%s,%s'' [ArgStr (GetFpRegName rd), ArgStr (GetFpRegName rs1), ArgStr (GetFpRegName rs2), ArgStr (GetFpRegName rs3)])"

definition op64_FNMADD_D_ToString :: "int \<Rightarrow> int \<Rightarrow> int \<Rightarrow> int \<Rightarrow> int \<Rightarrow> string result" where
  "op64_FNMADD_D_ToString rd rs1 rs2 rs3 rm =
    (let name = GetRoundingModeName rm in
     if name \<noteq> None
     then sprintf 80 ''fnmadd.d %s,%s,%s,%s,%s'' [ArgStr (GetFpRegName rd), ArgStr (GetFpRegName rs1), ArgStr (GetFpRegName rs2), ArgStr (GetFpRegName rs3), ArgStr name]
     else sprintf 80 ''fnmadd.d %s,%s,%s,%s'' [ArgStr (GetFpRegName rd), ArgStr (GetFpRegName rs1), ArgStr (GetFpRegName rs2), ArgStr (GetFpRegName rs3)])"

definition op64_FADD_D_ToString :: "int \<Rightarrow> int \<Rightarrow> int \<Rightarrow> int \<Rightarrow> string result" where
  "op64_FADD_D_ToString rd rs1 rs2 rm =
    (let name = GetRoundingModeName rm in
     if name \<noteq> None
     then sprintf 80 ''fadd.d %s,%s,%s,%s'' [ArgStr (GetFpRegName rd), ArgStr (GetFpRegName rs1), ArgStr (GetFpRegName rs2), ArgStr name]
     else sprintf 80 ''fadd.d %s,%s,%s'' [ArgStr (GetFpRegName rd), ArgStr (GetFpRegName rs1), ArgStr (GetFpRegName rs2)])"

definition op64_FSUB_D_ToString :: "int \<Rightarrow> int \<Rightarrow> int \<Rightarrow> int \<Rightarrow> string result" where
  "op64_FSUB_D_ToString rd rs1 rs2 rm =
    (let name = GetRoundingModeName rm in
     if name \<noteq> None
     then sprintf 80 ''fsub.d %s,%s,%s,%s'' [ArgStr (GetFpRegName rd), ArgStr (GetFpRegName rs1), ArgStr (GetFpRegName rs2), ArgStr name]
     else sprintf 80 ''fsub.d %s,%s,%s'' [ArgStr (GetFpRegName rd), ArgStr (GetFpRegName rs1), ArgStr (GetFpRegName rs2)])"

definition op64_FMUL_D_ToString :: "int \<Rightarrow> int \<Rightarrow> int \<Rightarrow> int \<Rightarrow> string result" where
  "op64_FMUL_D_ToString rd rs1 rs2 rm =
    (let name = GetRoundingModeName rm in
     if name \<noteq> None
     then sprintf 80 ''fmul.d %s,%s,%s,%s'' [ArgStr (GetFpRegName rd), ArgStr (GetFpRegName rs1), ArgStr (GetFpRegName rs2), ArgStr name]
     else sprintf 80 ''fmul.d %s,%s,%s'' [ArgStr (GetFpRegName rd), ArgStr (GetFpRegName rs1), ArgStr (GetFpRegName rs2)])"

definition op64_FDIV_D_ToString :: "int \<Rightarrow> int \<Rightarrow> int \<Rightarrow> int \<Rightarrow> string result" where
  "op64_FDIV_D_ToString rd rs1 rs2 rm =
    (let name = GetRoundingModeName rm in
     if name \<noteq> None
     then sprintf 80 ''fdiv.d %s,%s,%s,%s'' [ArgStr (GetFpRegName rd), ArgStr (GetFpRegName rs1), ArgStr (GetFpRegName rs2), ArgStr name]
     else sprintf 80 ''fdiv.d %s,%s,%s'' [ArgStr (GetFpRegName rd), ArgStr (GetFpRegName rs1), ArgStr (GetFpRegName rs2)])"

definition op64_FSQRT_D_ToString :: "int \<Rightarrow> int \<Rightarrow> int \<Rightarrow> string result" where
  "op64_FSQRT_D_ToString rd rs1 rm =
    (let name = GetRoundingModeName rm in
     if name \<noteq> None
     then sprintf 80 ''fsqrt.d %s,%s,%s'' [ArgStr (GetFpRegName rd), ArgStr (GetFpRegName rs1), ArgStr name]
     else sprintf 80 ''fsqrt.d %s,%s'' [ArgStr (GetFpRegName rd), ArgStr (GetFpRegName rs1)])"

definition op64_FSGNJ_D_ToString :: "int \<Rightarrow> int \<Rightarrow> int \<Rightarrow> string result" where
  "op64_FSGNJ_D_ToString rd rs1 rs2 =
    sprintf 80 ''fsgnj.d %s,%s,%s'' [ArgStr (GetFpRegName rd), ArgStr (GetFpRegName rs1), ArgStr (GetFpRegName rs2)]"

definition op64_FSGNJN_D_ToString :: "int \<Rightarrow> int \<Rightarrow> int \<Rightarrow> string result" where
  "op64_FSGNJN_D_ToString rd rs1 rs2 =
    sprintf 80 ''fsgnjn.d %s,%s,%s'' [ArgStr (GetFpRegName rd), ArgStr (GetFpRegName rs1), ArgStr (GetFpRegName rs2)]"

definition op64_FSGNJX_D_ToString :: "int \<Rightarrow> int \<Rightarrow> int \<Rightarrow> string result" where
  "op64_FSGNJX_D_ToString rd rs1 rs2 =
    sprintf 80 ''fsgnjx.d %s,%s,%s'' [ArgStr (GetFpRegName rd), ArgStr (GetFpRegName rs1), ArgStr (GetFpRegName rs2)]"

definition op64_FMIN_D_ToString :: "int \<Rightarrow> int \<Rightarrow> int \<Rightarrow> string result" where
  "op64_FMIN_D_ToString rd rs1 rs2 =
    sprintf 80 ''fmin.d %s,%s,%s'' [ArgStr (GetFpRegName rd), ArgStr (GetFpRegName rs1), ArgStr (GetFpRegName rs2)]"

definition op64_FMAX_D_ToString :: "int \<Rightarrow> int \<Rightarrow> int \<Rightarrow> string result" where
  "op64_FMAX_D_ToString rd rs1 rs2 =
    sprintf 80 ''fmax.d %s,%s,%s'' [ArgStr (GetFpRegName rd), ArgStr (GetFpRegName rs1), ArgStr (GetFpRegName rs2)]"

definition op64_FCVT_S_D_ToString :: "int \<Rightarrow> int \<Rightarrow> int \<Rightarrow> string result" where
  "op64_FCVT_S_D_ToString rd rs1 rm =
    (let name = GetRoundingModeName rm in
     if name \<noteq> None
     then sprintf 80 ''fcvt.s.d %s,%s,%s'' [ArgStr (GetFpRegName rd), ArgStr (GetFpRegName rs1), ArgStr name]
     else sprintf 80 ''fcvt.s.d %s,%s'' [ArgStr (GetFpRegName rd), ArgStr (GetFpRegName rs1)])"

definition op64_FCVT_D_S_ToString :: "int \<Rightarrow> int \<Rightarrow> int \<Rightarrow> string result" where
  "op64_FCVT_D_S_ToString rd rs1 rm =
    (let name = GetRoundingModeName rm in
     if name \<noteq> None
     then sprintf 80 ''fcvt.d.s %s,%s,%s'' [ArgStr (GetFpRegName rd), ArgStr (GetFpRegName rs1), ArgStr name]
     else sprintf 80 ''fcvt.d.s %s,%s'' [ArgStr (GetFpRegName rd), ArgStr (GetFpRegName rs1)])"

definition op64_FEQ_D_ToString :: "int \<Rightarrow> int \<Rightarrow> int \<Rightarrow> string result" where
  "op64_FEQ_D_ToString rd rs1 rs2 =
    sprintf 80 ''feq.d %s,%s,%s'' [ArgStr (GetIntRegName rd), ArgStr (GetFpRegName rs1), ArgStr (GetFpRegName rs2)]"

definition op64_FLT_D_ToString :: "int \<Rightarrow> int \<Rightarrow> int \<Rightarrow> string result" where
  "op64_FLT_D_ToString rd rs1 rs2 =
    sprintf 80 ''flt.d %s,%s,%s'' [ArgStr (GetIntRegName rd), ArgStr (GetFpRegName rs1), ArgStr (GetFpRegName rs2)]"

definition op64_FLE_D_ToString :: "int \<Rightarrow> int \<Rightarrow> int \<Rightarrow> string result" where
  "op64_FLE_D_ToString rd rs1 rs2 =
    sprintf 80 ''fle.d %s,%s,%s'' [ArgStr (GetIntRegName rd), ArgStr (GetFpRegName rs1), ArgStr (GetFpRegName rs2)]"

definition op64_FCLASS_D_ToString :: "int \<Rightarrow> int \<Rightarrow> string result" where
  "op64_FCLASS_D_ToString rd rs1 =
    sprintf 80 ''fclass.d %s,%s'' [ArgStr (GetIntRegName rd), ArgStr (GetFpRegName rs1)]"

definition op64_FCVT_W_D_ToString :: "int \<Rightarrow> int \<Rightarrow> int \<Rightarrow> string result" where
  "op64_FCVT_W_D_ToString rd rs1 rm =
    (let name = GetRoundingModeName rm in
     if name \<noteq> None
     then sprintf 80 ''fcvt.w.d %s,%s,%s'' [ArgStr (GetIntRegName rd), ArgStr (GetFpRegName rs1), ArgStr name]
     else sprintf 80 ''fcvt.w.d %s,%s'' [ArgStr (GetIntRegName rd), ArgStr (GetFpRegName rs1)])"

definition op64_FCVT_WU_D_ToString :: "int \<Rightarrow> int \<Rightarrow> int \<Rightarrow> string result" where
  "op64_FCVT_WU_D_ToString rd rs1 rm =
    (let name = GetRoundingModeName rm in
     if name \<noteq> None
     then sprintf 80 ''fcvt.wu.d %s,%s,%s'' [ArgStr (GetIntRegName rd), ArgStr (GetFpRegName rs1), ArgStr name]
     else sprintf 80 ''fcvt.wu.d %s,%s'' [ArgStr (GetIntRegName rd), ArgStr (GetFpRegName rs1)])"

definition op64_FCVT_D_W_ToString :: "int \<Rightarrow> int \<Rightarrow> int \<Rightarrow> string result" where
  "op64_FCVT_D_W_ToString rd rs1 rm =
    (let name = GetRoundingModeName rm in
     if name \<noteq> None
     then sprintf 80 ''fcvt.d.w %s,%s,%s'' [ArgStr (GetFpRegName rd), ArgStr (GetIntRegName rs1), ArgStr name]
     else sprintf 80 ''fcvt.d.w %s,%s'' [ArgStr (GetFpRegName rd), ArgStr (GetIntRegName rs1)])"

definition op64_FCVT_D_WU_ToString :: "int \<Rightarrow> int \<Rightarrow> int \<Rightarrow> string result" where
  "op64_FCVT_D_WU_ToString rd rs1 rm =
    (let name = GetRoundingModeName rm in
     if name \<noteq> None
     then sprintf 80 ''fcvt.d.wu %s,%s,%s'' [ArgStr (GetFpRegName rd), ArgStr (GetIntRegName rs1), ArgStr name]
     else sprintf 80 ''fcvt.d.wu %s,%s'' [ArgStr (GetFpRegName rd), ArgStr (GetIntRegName rs1)])"

definition op64_FCVT_L_D_ToString :: "int \<Rightarrow> int \<Rightarrow> int \<Rightarrow> string result" where
  "op64_FCVT_L_D_ToString rd rs1 rm =
    (let name = GetRoundingModeName rm in
     if name \<noteq> None
     then sprintf 80 ''fcvt.l.d %s,%s,%s'' [ArgStr (GetIntRegName rd), ArgStr (GetFpRegName rs1), ArgStr name]
     else sprintf 80 ''fcvt.l.d %s,%s'' [ArgStr (GetIntRegName rd), ArgStr (GetFpRegName rs1)])"

definition op64_FCVT_LU_D_ToString :: "int \<Rightarrow> int \<Rightarrow> int \<Rightarrow> string result" where
  "op64_FCVT_LU_D_ToString rd rs1 rm =
    (let name = GetRoundingModeName rm in
     if name \<noteq> None
     then sprintf 80 ''fcvt.lu.d %s,%s,%s'' [ArgStr (GetIntRegName rd), ArgStr (GetFpRegName rs1), ArgStr name]
     else sprintf 80 ''fcvt.lu.d %s,%s'' [ArgStr (GetIntRegName rd), ArgStr (GetFpRegName rs1)])"

definition op64_FMV_X_D_ToString :: "int \<Rightarrow> int \<Rightarrow> string result" where
  "op64_FMV_X_D_ToString rd rs1 =
    sprintf 80 ''fmv.x.d %s,%s'' [ArgStr (GetIntRegName rd), ArgStr (GetFpRegName rs1)]"

definition op64_FCVT_D_L_ToString :: "int \<Rightarrow> int \<Rightarrow> int \<Rightarrow> string result" where
  "op64_FCVT_D_L_ToString rd rs1 rm =
    (let name = GetRoundingModeName rm in
     if name \<noteq> None
     then sprintf 80 ''fcvt.d.l %s,%s,%s'' [ArgStr (GetFpRegName rd), ArgStr (GetIntRegName rs1), ArgStr name]
     else sprintf 80 ''fcvt.d.l %s,%s'' [ArgStr (GetFpRegName rd), ArgStr (GetIntRegName rs1)])"

definition op64_FCVT_D_LU_ToString :: "int \<Rightarrow> int \<Rightarrow> int \<Rightarrow> string result" where
  "op64_FCVT_D_LU_ToString rd rs1 rm =
    (let name = GetRoundingModeName rm in
     if name \<noteq> None
     then sprintf 80 ''fcvt.d.wu %s,%s,%s'' [ArgStr (GetFpRegName rd), ArgStr (GetIntRegName rs1), ArgStr name]
     else sprintf 80 ''fcvt.d.lu %s,%s'' [ArgStr (GetFpRegName rd), ArgStr (GetIntRegName rs1)])"

definition op64_FMV_D_X_ToString :: "int \<Rightarrow> int \<Rightarrow> string result" where
  "op64_FMV_D_X_ToString rd rs1 =
    sprintf 80 ''fmv.d.x %s,%s'' [ArgStr (GetFpRegName rd), ArgStr (GetIntRegName rs1)]"

primrec op64D_ToString :: "op64D \<Rightarrow> string result" where
  "op64D_ToString (op64_FLD rd rs1 imm) = op64_FLD_ToString rd rs1 imm"
| "op64D_ToString (op64_FSD rs1 rs2 imm) = op64_FSD_ToString rs1 rs2 imm"
| "op64D_ToString (op64_FMADD_D rd rs1 rs2 rs3 rm) = op64_FMADD_D_ToString rd rs1 rs2 rs3 rm"
| "op64D_ToString (op64_FMSUB_D rd rs1 rs2 rs3 rm) = op64_FMSUB_D_ToString rd rs1 rs2 rs3 rm"
| "op64D_ToString (op64_FNMSUB_D rd rs1 rs2 rs3 rm) = op64_FNMSUB_D_ToString rd rs1 rs2 rs3 rm"
| "op64D_ToString (op64_FNMADD_D rd rs1 rs2 rs3 rm) = op64_FNMADD_D_ToString rd rs1 rs2 rs3 rm"
| "op64D_ToString (op64_FADD_D rd rs1 rs2 rm) = op64_FADD_D_ToString rd rs1 rs2 rm"
| "op64D_ToString (op64_FSUB_D rd rs1 rs2 rm) = op64_FSUB_D_ToString rd rs1 rs2 rm"
| "op64D_ToString (op64_FMUL_D rd rs1 rs2 rm) = op64_FMUL_D_ToString rd rs1 rs2 rm"
| "op64D_ToString (op64_FDIV_D rd rs1 rs2 rm) = op64_FDIV_D_ToString rd rs1 rs2 rm"
| "op64D_ToString (op64_FSQRT_D rd rs1 rm) = op64_FSQRT_D_ToString rd rs1 rm"
| "op64D_ToString (op64_FSGNJ_D rd rs1 rs2) = op64_FSGNJ_D_ToString rd rs1 rs2"
| "op64D_ToString (op64_FSGNJN_D rd rs1 rs2) = op64_FSGNJN_D_ToString rd rs1 rs2"
| "op64D_ToString (op64_FSGNJX_D rd rs1 rs2) = op64_FSGNJX_D_ToString rd rs1 rs2"
| "op64D_ToString (op64_FMIN_D rd rs1 rs2) = op64_FMIN_D_ToString rd rs1 rs2"
| "op64D_ToString (op64_FMAX_D rd rs1 rs2) = op64_FMAX_D_ToString rd rs1 rs2"
| "op64D_ToString (op64_FCVT_S_D rd rs1 rm) = op64_FCVT_S_D_ToString rd rs1 rm"
| "op64D_ToString (op64_FCVT_D_S rd rs1 rm) = op64_FCVT_D_S_ToString rd rs1 rm"
| "op64D_ToString (op64_FEQ_D rd rs1 rs2) = op64_FEQ_D_ToString rd rs1 rs2"
| "op64D_ToString (op64_FLT_D rd rs1 rs2) = op64_FLT_D_ToString rd rs1 rs2"
| "op64D_ToString (op64_FLE_D rd rs1 rs2) = op64_FLE_D_ToString rd rs1 rs2"
| "op64D_ToString (op64_FCLASS_D rd rs1) = op64_FCLASS_D_ToString rd rs1"
| "op64D_ToString (op64_FCVT_W_D rd rs1 rm) = op64_FCVT_W_D_ToString rd rs1 rm"
| "op64D_ToString (op64_FCVT_WU_D rd rs1 rm) = op64_FCVT_WU_D_ToString rd rs1 rm"
| "op64D_ToString (op64_FCVT_D_W rd rs1 rm) = op64_FCVT_D_W_ToString rd rs1 rm"
| "op64D_ToString (op64_FCVT_D_WU rd rs1 rm) = op64_FCVT_D_WU_ToString rd rs1 rm"
| "op64D_ToString (op64_FCVT_L_D rd rs1 rm) = op64_FCVT_L_D_ToString rd rs1 rm"
| "op64D_ToString (op64_FCVT_LU_D rd rs1 rm) = op64_FCVT_LU_D_ToString rd rs1 rm"
| "op64D_ToString (op64_FMV_X_D rd rs1) = op64_FMV_X_D_ToString rd rs1"
| "op64D_ToString (op64_FCVT_D_L rd rs1 rm) = op64_FCVT_D_L_ToString rd rs1 rm"
| "op64D_ToString (op64_FCVT_D_LU rd rs1 rm) = op64_FCVT_D_LU_ToString rd rs1 rm"
| "op64D_ToString (op64_FMV_D_X rd rs1) = op64_FMV_D_X_ToString rd rs1"

lemmas op64D_ToString_defs =
  op64_FLD_ToString_def
  op64_FSD_ToString_def
  op64_FMADD_D_ToString_def
  op64_FMSUB_D_ToString_def
  op64_FNMSUB_D_ToString_def
  op64_FNMADD_D_ToString_def
  op64_FADD_D_ToString_def
  op64_FSUB_D_ToString_def
  op64_FMUL_D_ToString_def
  op64_FDIV_D_ToString_def
  op64_FSQRT_D_ToString_def
  op64_FSGNJ_D_ToString_def
  op64_FSGNJN_D_ToString_def
  op64_FSGNJX_D_ToString_def
  op64_FMIN_D_ToString_def
  op64_FMAX_D_ToString_def
  op64_FCVT_S_D_ToString_def
  op64_FCVT_D_S_ToString_def
  op64_FEQ_D_ToString_def
  op64_FLT_D_ToString_def
  op64_FLE_D_ToString_def
  op64_FCLASS_D_ToString_def
  op64_FCVT_W_D_ToString_def
  op64_FCVT_WU_D_ToString_def
  op64_FCVT_D_W_ToString_def
  op64_FCVT_D_WU_ToString_def
  op64_FCVT_L_D_ToString_def
  op64_FCVT_LU_D_ToString_def
  op64_FMV_X_D_ToString_def
  op64_FCVT_D_L_ToString_def
  op64_FCVT_D_LU_ToString_def
  op64_FMV_D_X_ToString_def

section \<open>RV64C\<close>

datatype (plugins only: code size) op64C =
    op64_NOP

definition op64_NOP_ToString :: "string result" where
  "op64_NOP_ToString = sprintf 80 ''nop'' []"

primrec op64C_ToString :: "op64C \<Rightarrow> string result" where
  "op64C_ToString op64_NOP = op64_NOP_ToString"

lemmas op64C_ToString_defs =
  op64_NOP_ToString_def

end
