(* ===== verification/OpDecoder.thy ===== *)
theory OpDecoder
  imports OpRv32 OpRv64 BitField
begin

text \<open>
  \<^verbatim>\<open>lib/op/OpDecoder.cpp\<close>: the decoder of the trace tools, from an instruction word to an
  object of one of the classes of \<^verbatim>\<open>lib/op\<close>. One definition for each method of
  \<open>OpDecoderImpl\<close>; a switch is an if-chain in its order, \<open>nullptr\<close> is \<open>None\<close>. The
  conversions between \<open>int\<close> and \<open>uint32_t\<close> that C++ makes at the call of a constructor
  are written out.
\<close>

section \<open>Instruction objects\<close>

datatype (plugins only: code size) IOp =
    IOp32I op32I
  | IOp32M op32M
  | IOp32A op32A
  | IOp32F op32F
  | IOp32D op32D
  | IOp32C op32C
  | IOp64I op64I
  | IOp64M op64M
  | IOp64A op64A
  | IOp64F op64F
  | IOp64D op64D
  | IOp64C op64C

primrec IOp_ToString :: "IOp \<Rightarrow> string result" where
  "IOp_ToString (IOp32I x) = op32I_ToString x"
| "IOp_ToString (IOp32M x) = op32M_ToString x"
| "IOp_ToString (IOp32A x) = op32A_ToString x"
| "IOp_ToString (IOp32F x) = op32F_ToString x"
| "IOp_ToString (IOp32D x) = op32D_ToString x"
| "IOp_ToString (IOp32C x) = op32C_ToString x"
| "IOp_ToString (IOp64I x) = op64I_ToString x"
| "IOp_ToString (IOp64M x) = op64M_ToString x"
| "IOp_ToString (IOp64A x) = op64A_ToString x"
| "IOp_ToString (IOp64F x) = op64F_ToString x"
| "IOp_ToString (IOp64D x) = op64D_ToString x"
| "IOp_ToString (IOp64C x) = op64C_ToString x"

section \<open>Bit fields\<close>

text \<open>The positions are literals in range everywhere, so the assertions of the source hold.\<close>

definition OpPick :: "uint32 \<Rightarrow> nat \<Rightarrow> nat \<Rightarrow> uint32" where
  "OpPick insn lsb width = drop_bit lsb insn AND (push_bit width 1 - 1)"

definition OpDecoder_IsCompressedInstruction :: "uint32 \<Rightarrow> bool" where
  "OpDecoder_IsCompressedInstruction insn \<longleftrightarrow> insn AND 0b11 \<noteq> 0b11"

section \<open>Decoding\<close>

text \<open>The longer cases of the switch in \<open>OpDecoder_DecodeRV32I\<close>.\<close>

abbreviation OpDecoder_RV32I_AluImm ::
    "uint32 \<Rightarrow> uint32 \<Rightarrow> int \<Rightarrow> int \<Rightarrow> int \<Rightarrow> uint32 \<Rightarrow> IOp option" where
  "OpDecoder_RV32I_AluImm funct3 funct7 rd rs1 shamt immI \<equiv>
    (if funct3 = 0 then Some (IOp32I (op32_ADDI rd rs1 immI))
            else if funct3 = 2 then Some (IOp32I (op32_SLTI rd rs1 immI))
            else if funct3 = 3 then Some (IOp32I (op32_SLTIU rd rs1 immI))
            else if funct3 = 4 then Some (IOp32I (op32_XORI rd rs1 immI))
            else if funct3 = 6 then Some (IOp32I (op32_ORI rd rs1 immI))
            else if funct3 = 7 then Some (IOp32I (op32_ANDI rd rs1 immI))
            else if funct3 = 1 \<and> funct7 = 0b0000000 then Some (IOp32I (op32_SLLI rd rs1 shamt))
            else if funct3 = 5 \<and> funct7 = 0b0000000 then Some (IOp32I (op32_SRLI rd rs1 shamt))
            else if funct3 = 5 \<and> funct7 = 0b0100000 then Some (IOp32I (op32_SRAI rd rs1 shamt))
            else None)"

abbreviation OpDecoder_RV32I_Alu ::
    "uint32 \<Rightarrow> uint32 \<Rightarrow> int \<Rightarrow> int \<Rightarrow> int \<Rightarrow> IOp option" where
  "OpDecoder_RV32I_Alu funct3 funct7 rd rs1 rs2 \<equiv>
    (if funct7 = 0b0000000 then (if funct3 = 0 then Some (IOp32I (op32_ADD rd rs1 rs2))
                else if funct3 = 1 then Some (IOp32I (op32_SLL rd rs1 rs2))
                else if funct3 = 2 then Some (IOp32I (op32_SLT rd rs1 rs2))
                else if funct3 = 3 then Some (IOp32I (op32_SLTU rd rs1 rs2))
                else if funct3 = 4 then Some (IOp32I (op32_XOR rd rs1 rs2))
                else if funct3 = 5 then Some (IOp32I (op32_SRL rd rs1 rs2))
                else if funct3 = 6 then Some (IOp32I (op32_OR rd rs1 rs2))
                else if funct3 = 7 then Some (IOp32I (op32_AND rd rs1 rs2))
                else None)
            else if funct7 = 0b0100000 then (if funct3 = 0 then Some (IOp32I (op32_SUB rd rs1 rs2))
                else if funct3 = 5 then Some (IOp32I (op32_SRA rd rs1 rs2))
                else None)
            else None)"

abbreviation OpDecoder_RV32I_Fence ::
    "uint32 \<Rightarrow> uint32 \<Rightarrow> int \<Rightarrow> int \<Rightarrow> uint32 \<Rightarrow> uint32 \<Rightarrow> IOp option" where
  "OpDecoder_RV32I_Fence funct3 funct12 rd rs1 immI insn \<equiv>
    (if funct3 = 0 \<and> rd = 0 \<and> rs1 = 0 \<and> OpPick insn 28 4 = 0 then (let fm = OpPick insn 28 4;
                    pred = OpPick insn 24 4;
                    succ = OpPick insn 20 4
                in Some (IOp32I (op32_FENCE rd rs1 fm pred succ)))
            else if funct3 = 1 \<and> rd = 0 \<and> rs1 = 0 \<and> funct12 = 0 then Some (IOp32I (op32_FENCE_I rd rs1 immI))
            else None)"

abbreviation OpDecoder_RV32I_System ::
    "uint32 \<Rightarrow> uint32 \<Rightarrow> uint32 \<Rightarrow> uint32 \<Rightarrow> int \<Rightarrow> int \<Rightarrow> int \<Rightarrow> IOp option" where
  "OpDecoder_RV32I_System funct3 funct7 funct12 csr rd rs1 rs2 \<equiv>
    (if funct3 = 0 \<and> rd = 0 \<and> funct7 = 0b0001001 then Some (IOp32I (op32_SFENCE_VMA rs1 rs2))
            else if funct3 = 0 \<and> rd = 0 \<and> rs1 = 0 then (if funct12 = 0b000000000000 then Some (IOp32I op32_ECALL)
                else if funct12 = 0b000000000001 then Some (IOp32I op32_EBREAK)
                else if funct12 = 0b000000000010 then Some (IOp32I op32_URET)
                else if funct12 = 0b000100000010 then Some (IOp32I op32_SRET)
                else if funct12 = 0b000100000101 then Some (IOp32I op32_WFI)
                else if funct12 = 0b001100000010 then Some (IOp32I op32_MRET)
                else None)
            else if funct3 = 1 then Some (IOp32I (op32_CSRRW csr rd rs1))
            else if funct3 = 2 then Some (IOp32I (op32_CSRRS csr rd rs1))
            else if funct3 = 3 then Some (IOp32I (op32_CSRRC csr rd rs1))
            else if funct3 = 5 then Some (IOp32I (op32_CSRRWI csr rd (word_of_int rs1)))
            else if funct3 = 6 then Some (IOp32I (op32_CSRRSI csr rd (word_of_int rs1)))
            else if funct3 = 7 then Some (IOp32I (op32_CSRRCI csr rd (word_of_int rs1)))
            else None)"

definition OpDecoder_DecodeRV32I :: "uint32 \<Rightarrow> IOp option" where
  "OpDecoder_DecodeRV32I insn =
    (let opcode = OpPick insn 0 7;
         funct3 = OpPick insn 12 3;
         funct7 = OpPick insn 25 7;
         funct12 = OpPick insn 20 12;
         csr = OpPick insn 20 12;
         rd = sint (OpPick insn 7 5);
         rs1 = sint (OpPick insn 15 5);
         rs2 = sint (OpPick insn 20 5);
         shamt = sint (OpPick insn 20 5);
         immU = OpPick insn 12 20;
         immI = SignExtend 12 (OpPick insn 20 12);
         immB = SignExtend 13 (push_bit 12 (OpPick insn 31 1) OR push_bit 5 (OpPick insn 25 6) OR push_bit 1 (OpPick insn 8 4) OR push_bit 11 (OpPick insn 7 1))
     in if opcode = 0b0110111 then Some (IOp32I (op32_LUI rd immU))
        else if opcode = 0b0010111 then Some (IOp32I (op32_AUIPC rd immU))
        else if opcode = 0b1101111 then Some (IOp32I (op32_JAL rd (SignExtend 20 (push_bit 20 (OpPick insn 31 1) OR push_bit 1 (OpPick insn 21 10) OR push_bit 11 (OpPick insn 20 1) OR push_bit 12 (OpPick insn 12 8)))))
        else if opcode = 0b1100111 then (if funct3 = 0 then Some (IOp32I (op32_JALR rd rs1 immI))
            else None)
        else if opcode = 0b1100011 then (if funct3 = 0 then Some (IOp32I (op32_BEQ rs1 rs2 immB))
            else if funct3 = 1 then Some (IOp32I (op32_BNE rs1 rs2 immB))
            else if funct3 = 4 then Some (IOp32I (op32_BLT rs1 rs2 immB))
            else if funct3 = 5 then Some (IOp32I (op32_BGE rs1 rs2 immB))
            else if funct3 = 6 then Some (IOp32I (op32_BLTU rs1 rs2 immB))
            else if funct3 = 7 then Some (IOp32I (op32_BGEU rs1 rs2 immB))
            else None)
        else if opcode = 0b0000011 then (if funct3 = 0 then Some (IOp32I (op32_LB rd rs1 immI))
            else if funct3 = 1 then Some (IOp32I (op32_LH rd rs1 immI))
            else if funct3 = 2 then Some (IOp32I (op32_LW rd rs1 immI))
            else if funct3 = 4 then Some (IOp32I (op32_LBU rd rs1 immI))
            else if funct3 = 5 then Some (IOp32I (op32_LHU rd rs1 immI))
            else None)
        else if opcode = 0b0100011 then (if funct3 = 0 then Some (IOp32I (op32_SB rs1 rs2 immI))
            else if funct3 = 1 then Some (IOp32I (op32_SH rs1 rs2 immI))
            else if funct3 = 2 then Some (IOp32I (op32_SW rs1 rs2 immI))
            else None)
        else if opcode = 0b0010011 then OpDecoder_RV32I_AluImm funct3 funct7 rd rs1 shamt immI
        else if opcode = 0b0110011 then OpDecoder_RV32I_Alu funct3 funct7 rd rs1 rs2
        else if opcode = 0b0001111 then OpDecoder_RV32I_Fence funct3 funct12 rd rs1 immI insn
        else if opcode = 0b1110011 then OpDecoder_RV32I_System funct3 funct7 funct12 csr rd rs1 rs2
        else None)"

definition OpDecoder_DecodeRV32M :: "uint32 \<Rightarrow> IOp option" where
  "OpDecoder_DecodeRV32M insn =
    (let funct3 = OpPick insn 12 3;
         rd = sint (OpPick insn 7 5);
         rs1 = sint (OpPick insn 15 5);
         rs2 = sint (OpPick insn 20 5)
     in if funct3 = 0b000 then Some (IOp32M (op32_MUL rd rs1 rs2))
        else if funct3 = 0b001 then Some (IOp32M (op32_MULH rd rs1 rs2))
        else if funct3 = 0b010 then Some (IOp32M (op32_MULHSU rd rs1 rs2))
        else if funct3 = 0b011 then Some (IOp32M (op32_MULHU rd rs1 rs2))
        else if funct3 = 0b100 then Some (IOp32M (op32_DIV rd rs1 rs2))
        else if funct3 = 0b101 then Some (IOp32M (op32_DIVU rd rs1 rs2))
        else if funct3 = 0b110 then Some (IOp32M (op32_REM rd rs1 rs2))
        else Some (IOp32M (op32_REMU rd rs1 rs2)))"

definition OpDecoder_DecodeRV32A :: "uint32 \<Rightarrow> IOp option" where
  "OpDecoder_DecodeRV32A insn =
    (let funct5 = OpPick insn 27 5;
         aq = (OpPick insn 26 1) \<noteq> 0;
         rl = (OpPick insn 25 1) \<noteq> 0;
         rd = sint (OpPick insn 7 5);
         rs1 = sint (OpPick insn 15 5);
         rs2 = sint (OpPick insn 20 5)
     in if funct5 = 0b00010 \<and> rs2 = 0b00000 then Some (IOp32A (op32_LR_W rd rs1 aq rl))
        else if funct5 = 0b00011 then Some (IOp32A (op32_SC_W rd rs1 rs2 aq rl))
        else if funct5 = 0b00001 then Some (IOp32A (op32_AMOSWAP_W rd rs1 rs2 aq rl))
        else if funct5 = 0b00000 then Some (IOp32A (op32_AMOADD_W rd rs1 rs2 aq rl))
        else if funct5 = 0b00100 then Some (IOp32A (op32_AMOXOR_W rd rs1 rs2 aq rl))
        else if funct5 = 0b01100 then Some (IOp32A (op32_AMOAND_W rd rs1 rs2 aq rl))
        else if funct5 = 0b01000 then Some (IOp32A (op32_AMOOR_W rd rs1 rs2 aq rl))
        else if funct5 = 0b10000 then Some (IOp32A (op32_AMOMIN_W rd rs1 rs2 aq rl))
        else if funct5 = 0b10100 then Some (IOp32A (op32_AMOMAX_W rd rs1 rs2 aq rl))
        else if funct5 = 0b11000 then Some (IOp32A (op32_AMOMINU_W rd rs1 rs2 aq rl))
        else if funct5 = 0b11100 then Some (IOp32A (op32_AMOMAXU_W rd rs1 rs2 aq rl))
        else None)"

definition OpDecoder_DecodeRV32F :: "uint32 \<Rightarrow> IOp option" where
  "OpDecoder_DecodeRV32F insn =
    (let opcode = OpPick insn 0 7;
         funct3 = OpPick insn 12 3;
         funct7 = OpPick insn 25 7;
         rd = OpPick insn 7 5;
         rs1 = OpPick insn 15 5;
         rs2 = OpPick insn 20 5;
         rs3 = OpPick insn 27 5;
         rm = OpPick insn 12 3;
         immI = SignExtend 12 (OpPick insn 20 12);
         immS = SignExtend 12 (push_bit 5 (OpPick insn 25 7) OR OpPick insn 7 5)
     in if opcode = 0b0000111 then (if funct3 = 0b010 then Some (IOp32F (op32_FLW (sint rd) (sint rs1) immI))
            else None)
        else if opcode = 0b0100111 then (if funct3 = 0b010 then Some (IOp32F (op32_FSW (sint rd) (sint rs1) immS))
            else None)
        else if opcode = 0b1000011 then Some (IOp32F (op32_FMADD_S (sint rd) (sint rs1) (sint rs2) (sint rs3) (sint rm)))
        else if opcode = 0b1000111 then Some (IOp32F (op32_FMSUB_S (sint rd) (sint rs1) (sint rs2) (sint rs3) (sint rm)))
        else if opcode = 0b1001011 then Some (IOp32F (op32_FNMSUB_S (sint rd) (sint rs1) (sint rs2) (sint rs3) (sint rm)))
        else if opcode = 0b1001111 then Some (IOp32F (op32_FNMADD_S (sint rd) (sint rs1) (sint rs2) (sint rs3) (sint rm)))
        else if opcode = 0b1010011 then (if funct7 = 0b0000000 then Some (IOp32F (op32_FADD_S (sint rd) (sint rs1) (sint rs2) (sint rm)))
            else if funct7 = 0b0000100 then Some (IOp32F (op32_FSUB_S (sint rd) (sint rs1) (sint rs2) (sint rm)))
            else if funct7 = 0b0001000 then Some (IOp32F (op32_FMUL_S (sint rd) (sint rs1) (sint rs2) (sint rm)))
            else if funct7 = 0b0001100 then Some (IOp32F (op32_FDIV_S (sint rd) (sint rs1) (sint rs2) (sint rm)))
            else if funct7 = 0b0101100 then (if rs2 = 0b00000 then Some (IOp32F (op32_FSQRT_S (sint rd) (sint rs1) (sint rm)))
                else None)
            else if funct7 = 0b0010000 then (if funct3 = 0b000 then Some (IOp32F (op32_FSGNJ_S (sint rd) (sint rs1) (sint rs2)))
                else if funct3 = 0b001 then Some (IOp32F (op32_FSGNJN_S (sint rd) (sint rs1) (sint rs2)))
                else if funct3 = 0b010 then Some (IOp32F (op32_FSGNJX_S (sint rd) (sint rs1) (sint rs2)))
                else None)
            else if funct7 = 0b0010100 then (if funct3 = 0b000 then Some (IOp32F (op32_FMIN_S (sint rd) (sint rs1) (sint rs2)))
                else if funct3 = 0b001 then Some (IOp32F (op32_FMAX_S (sint rd) (sint rs1) (sint rs2)))
                else None)
            else if funct7 = 0b1100000 then (if rs2 = 0b00000 then Some (IOp32F (op32_FCVT_W_S (sint rd) (sint rs1) (sint rs2)))
                else if rs2 = 0b00001 then Some (IOp32F (op32_FCVT_WU_S (sint rd) (sint rs1) (sint rs2)))
                else None)
            else if funct7 = 0b1110000 then (if rs2 = 0b00000 \<and> funct3 = 0b000 then Some (IOp32F (op32_FMV_X_W (sint rd) (sint rs1)))
                else if rs2 = 0b00000 \<and> funct3 = 0b001 then Some (IOp32F (op32_FCLASS_S (sint rd) (sint rs1)))
                else None)
            else if funct7 = 0b1010000 then (if funct3 = 0b000 then Some (IOp32F (op32_FLE_S (sint rd) (sint rs1) (sint rs2)))
                else if funct3 = 0b001 then Some (IOp32F (op32_FLT_S (sint rd) (sint rs1) (sint rs2)))
                else if funct3 = 0b010 then Some (IOp32F (op32_FEQ_S (sint rd) (sint rs1) (sint rs2)))
                else None)
            else if funct7 = 0b1101000 then (if rs2 = 0b00000 then Some (IOp32F (op32_FCVT_S_W (sint rd) (sint rs1) (sint rs2)))
                else if rs2 = 0b00001 then Some (IOp32F (op32_FCVT_S_WU (sint rd) (sint rs1) (sint rs2)))
                else None)
            else if funct7 = 0b1111000 then (if rs2 = 0b00000 \<and> funct3 = 0b000 then Some (IOp32F (op32_FMV_W_X (sint rd) (sint rs1)))
                else None)
            else None)
        else None)"

definition OpDecoder_DecodeRV32D :: "uint32 \<Rightarrow> IOp option" where
  "OpDecoder_DecodeRV32D insn =
    (let opcode = OpPick insn 0 7;
         funct3 = OpPick insn 12 3;
         funct7 = OpPick insn 25 7;
         rd = OpPick insn 7 5;
         rs1 = OpPick insn 15 5;
         rs2 = OpPick insn 20 5;
         rs3 = OpPick insn 27 5;
         rm = OpPick insn 12 3;
         immI = SignExtend 12 (OpPick insn 20 12);
         immS = SignExtend 12 (push_bit 5 (OpPick insn 25 7) OR OpPick insn 7 5)
     in if opcode = 0b0000111 then (if funct3 = 0b011 then Some (IOp32D (op32_FLD (sint rd) (sint rs1) immI))
            else None)
        else if opcode = 0b0100111 then (if funct3 = 0b011 then Some (IOp32D (op32_FSD (sint rd) (sint rs1) immS))
            else None)
        else if opcode = 0b1000011 then Some (IOp32D (op32_FMADD_D (sint rd) (sint rs1) (sint rs2) (sint rs3) (sint rm)))
        else if opcode = 0b1000111 then Some (IOp32D (op32_FMSUB_D (sint rd) (sint rs1) (sint rs2) (sint rs3) (sint rm)))
        else if opcode = 0b1001011 then Some (IOp32D (op32_FNMSUB_D (sint rd) (sint rs1) (sint rs2) (sint rs3) (sint rm)))
        else if opcode = 0b1001111 then Some (IOp32D (op32_FNMADD_D (sint rd) (sint rs1) (sint rs2) (sint rs3) (sint rm)))
        else if opcode = 0b1010011 then (if funct7 = 0b0000001 then Some (IOp32D (op32_FADD_D (sint rd) (sint rs1) (sint rs2) (sint rm)))
            else if funct7 = 0b0000101 then Some (IOp32D (op32_FSUB_D (sint rd) (sint rs1) (sint rs2) (sint rm)))
            else if funct7 = 0b0001001 then Some (IOp32D (op32_FMUL_D (sint rd) (sint rs1) (sint rs2) (sint rm)))
            else if funct7 = 0b0001101 then Some (IOp32D (op32_FDIV_D (sint rd) (sint rs1) (sint rs2) (sint rm)))
            else if funct7 = 0b0101101 then (if rs2 = 0b00000 then Some (IOp32D (op32_FSQRT_D (sint rd) (sint rs1) (sint rm)))
                else None)
            else if funct7 = 0b0010001 then (if funct3 = 0b000 then Some (IOp32D (op32_FSGNJ_D (sint rd) (sint rs1) (sint rs2)))
                else if funct3 = 0b001 then Some (IOp32D (op32_FSGNJN_D (sint rd) (sint rs1) (sint rs2)))
                else if funct3 = 0b010 then Some (IOp32D (op32_FSGNJX_D (sint rd) (sint rs1) (sint rs2)))
                else None)
            else if funct7 = 0b0010101 then (if funct3 = 0b000 then Some (IOp32D (op32_FMIN_D (sint rd) (sint rs1) (sint rs2)))
                else if funct3 = 0b001 then Some (IOp32D (op32_FMAX_D (sint rd) (sint rs1) (sint rs2)))
                else None)
            else if funct7 = 0b0100000 then (if rs2 = 0b00001 then Some (IOp32D (op32_FCVT_S_D (sint rd) (sint rs1) (sint rs2)))
                else None)
            else if funct7 = 0b0100001 then (if rs2 = 0b00000 then Some (IOp32D (op32_FCVT_D_S (sint rd) (sint rs1) (sint rs2)))
                else None)
            else if funct7 = 0b1010001 then (if funct3 = 0b000 then Some (IOp32D (op32_FLE_D (sint rd) (sint rs1) (sint rs2)))
                else if funct3 = 0b001 then Some (IOp32D (op32_FLT_D (sint rd) (sint rs1) (sint rs2)))
                else if funct3 = 0b010 then Some (IOp32D (op32_FEQ_D (sint rd) (sint rs1) (sint rs2)))
                else None)
            else if funct7 = 0b1110001 then (if rs2 = 0b00000 \<and> funct3 = 0b001 then Some (IOp32D (op32_FCLASS_D (sint rd) (sint rs1)))
                else None)
            else if funct7 = 0b1100001 then (if rs2 = 0b00000 then Some (IOp32D (op32_FCVT_W_D (sint rd) (sint rs1) (sint rs2)))
                else if rs2 = 0b00001 then Some (IOp32D (op32_FCVT_WU_D (sint rd) (sint rs1) (sint rs2)))
                else None)
            else if funct7 = 0b1101001 then (if rs2 = 0b00000 then Some (IOp32D (op32_FCVT_D_W (sint rd) (sint rs1) (sint rs2)))
                else if rs2 = 0b00001 then Some (IOp32D (op32_FCVT_D_WU (sint rd) (sint rs1) (sint rs2)))
                else None)
            else None)
        else None)"

definition OpDecoder_DecodeRV32C_Quadrant0 :: "uint16 \<Rightarrow> IOp option" where
  "OpDecoder_DecodeRV32C_Quadrant0 insn =
    (let funct3 = OpPick (ucast insn) 13 3;
         rd = OpPick (ucast insn) 2 3 + 8;
         rs1 = OpPick (ucast insn) 7 3 + 8;
         uimm4 = ZeroExtend 7 (push_bit 3 (OpPick (ucast insn) 10 3) OR push_bit 2 (OpPick (ucast insn) 6 1) OR push_bit 6 (OpPick (ucast insn) 5 1));
         uimm8 = ZeroExtend 8 (push_bit 3 (OpPick (ucast insn) 10 3) OR push_bit 6 (OpPick (ucast insn) 5 2))
     in if funct3 = 0b000 \<and> OpPick (ucast insn) 5 8 \<noteq> 0 then (let imm = ZeroExtend 10 (push_bit 4 (OpPick (ucast insn) 11 2) OR push_bit 6 (OpPick (ucast insn) 7 4) OR push_bit 2 (OpPick (ucast insn) 6 1) OR push_bit 3 (OpPick (ucast insn) 5 1))
            in Some (IOp32I (op32_ADDI (sint rd) 2 imm)))
        else if funct3 = 0b001 then Some (IOp32D (op32_FLD (sint rd) (sint rs1) uimm8))
        else if funct3 = 0b010 then Some (IOp32I (op32_LW (sint rd) (sint rs1) uimm4))
        else if funct3 = 0b011 then Some (IOp32F (op32_FLW (sint rd) (sint rs1) uimm4))
        else if funct3 = 0b101 then Some (IOp32D (op32_FSD (sint rd) (sint rs1) uimm8))
        else if funct3 = 0b110 then Some (IOp32I (op32_SW (sint rd) (sint rs1) uimm4))
        else if funct3 = 0b111 then Some (IOp32F (op32_FSW (sint rd) (sint rs1) uimm4))
        else None)"

definition OpDecoder_DecodeRV32C_Quadrant1 :: "uint16 \<Rightarrow> IOp option" where
  "OpDecoder_DecodeRV32C_Quadrant1 insn =
    (let funct4 = OpPick (ucast insn) 12 4;
         funct3 = OpPick (ucast insn) 13 3;
         funct2_rs1 = OpPick (ucast insn) 10 2;
         funct2_rs2 = OpPick (ucast insn) 5 2;
         rd = OpPick (ucast insn) 7 5;
         rs1 = OpPick (ucast insn) 7 5;
         rd_alu = OpPick (ucast insn) 7 3 + 8;
         rs1_alu = OpPick (ucast insn) 7 3 + 8;
         rs2_alu = OpPick (ucast insn) 2 3 + 8;
         imm = SignExtend 6 (push_bit 5 (OpPick (ucast insn) 12 1) OR OpPick (ucast insn) 2 5);
         uimm = SignExtend 6 (push_bit 5 (OpPick (ucast insn) 12 1) OR OpPick (ucast insn) 2 5);
         imm_j = SignExtend 12 (push_bit 11 (OpPick (ucast insn) 12 1) OR push_bit 4 (OpPick (ucast insn) 11 1) OR push_bit 8 (OpPick (ucast insn) 9 2) OR push_bit 10 (OpPick (ucast insn) 8 1) OR push_bit 6 (OpPick (ucast insn) 7 1) OR push_bit 7 (OpPick (ucast insn) 6 1) OR push_bit 1 (OpPick (ucast insn) 3 3) OR push_bit 5 (OpPick (ucast insn) 2 1));
         imm_addi16sp = SignExtend 10 (push_bit 9 (OpPick (ucast insn) 12 1) OR push_bit 4 (OpPick (ucast insn) 6 1) OR push_bit 6 (OpPick (ucast insn) 5 1) OR push_bit 7 (OpPick (ucast insn) 3 2) OR push_bit 5 (OpPick (ucast insn) 2 1));
         imm_lui = SignExtend 18 (push_bit 17 (OpPick (ucast insn) 12 1) OR push_bit 12 (OpPick (ucast insn) 2 5));
         imm_b = SignExtend 9 (push_bit 8 (OpPick (ucast insn) 12 1) OR push_bit 3 (OpPick (ucast insn) 10 2) OR push_bit 6 (OpPick (ucast insn) 5 2) OR push_bit 1 (OpPick (ucast insn) 3 2) OR push_bit 5 (OpPick (ucast insn) 2 1))
     in if funct3 = 0b000 \<and> rd = 0 then Some (IOp32C op32_NOP)
        else if funct3 = 0b000 then Some (IOp32I (op32_ADDI (sint rd) (sint rs1) imm))
        else if funct3 = 0b001 then Some (IOp32I (op32_JAL 1 imm_j))
        else if funct3 = 0b010 \<and> rd \<noteq> 0 then Some (IOp32I (op32_ADDI (sint rd) 0 imm))
        else if funct3 = 0b011 \<and> rd = 2 then Some (IOp32I (op32_ADDI 2 2 imm_addi16sp))
        else if funct3 = 0b011 \<and> rd \<noteq> 0 \<and> rd \<noteq> 2 then Some (IOp32I (op32_LUI (sint rd) imm_lui))
        else if funct3 = 0b100 \<and> funct2_rs1 = 0b00 \<and> uimm \<noteq> 0 then Some (IOp32I (op32_SRLI (sint rd_alu) (sint rs1_alu) (sint uimm)))
        else if funct3 = 0b100 \<and> funct2_rs1 = 0b00 \<and> uimm = 0 then Some (IOp32C op32_NOP)
        else if funct3 = 0b100 \<and> funct2_rs1 = 0b01 \<and> uimm \<noteq> 0 then Some (IOp32I (op32_SRAI (sint rd_alu) (sint rs1_alu) (sint uimm)))
        else if funct3 = 0b100 \<and> funct2_rs1 = 0b01 \<and> uimm = 0 then Some (IOp32C op32_NOP)
        else if funct3 = 0b100 \<and> funct2_rs1 = 0b10 then Some (IOp32I (op32_ANDI (sint rd_alu) (sint rs1_alu) imm))
        else if funct4 = 0b1000 \<and> funct2_rs1 = 0b11 \<and> funct2_rs2 = 0b00 then Some (IOp32I (op32_SUB (sint rd_alu) (sint rs1_alu) (sint rs2_alu)))
        else if funct4 = 0b1000 \<and> funct2_rs1 = 0b11 \<and> funct2_rs2 = 0b01 then Some (IOp32I (op32_XOR (sint rd_alu) (sint rs1_alu) (sint rs2_alu)))
        else if funct4 = 0b1000 \<and> funct2_rs1 = 0b11 \<and> funct2_rs2 = 0b10 then Some (IOp32I (op32_OR (sint rd_alu) (sint rs1_alu) (sint rs2_alu)))
        else if funct4 = 0b1000 \<and> funct2_rs1 = 0b11 \<and> funct2_rs2 = 0b11 then Some (IOp32I (op32_AND (sint rd_alu) (sint rs1_alu) (sint rs2_alu)))
        else if funct3 = 0b101 then Some (IOp32I (op32_JAL 0 imm_j))
        else if funct3 = 0b110 then Some (IOp32I (op32_BEQ (sint rs1_alu) 0 imm_b))
        else if funct3 = 0b111 then Some (IOp32I (op32_BNE (sint rs1_alu) 0 imm_b))
        else None)"

definition OpDecoder_DecodeRV32C_Quadrant2 :: "uint16 \<Rightarrow> IOp option" where
  "OpDecoder_DecodeRV32C_Quadrant2 insn =
    (let funct4 = OpPick (ucast insn) 12 4;
         funct3 = OpPick (ucast insn) 13 3;
         rd = OpPick (ucast insn) 7 5;
         rs1 = OpPick (ucast insn) 7 5;
         rs2 = OpPick (ucast insn) 2 5;
         shamt = ZeroExtend 6 (push_bit 5 (OpPick (ucast insn) 12 1) OR OpPick (ucast insn) 2 5);
         uimm_load4 = ZeroExtend 8 (push_bit 5 (OpPick (ucast insn) 12 1) OR push_bit 2 (OpPick (ucast insn) 4 3) OR push_bit 6 (OpPick (ucast insn) 2 2));
         uimm_load8 = ZeroExtend 9 (push_bit 5 (OpPick (ucast insn) 12 1) OR push_bit 3 (OpPick (ucast insn) 5 2) OR push_bit 6 (OpPick (ucast insn) 2 3));
         uimm_store4 = ZeroExtend 8 (push_bit 2 (OpPick (ucast insn) 9 4) OR push_bit 6 (OpPick (ucast insn) 7 2));
         uimm_store8 = ZeroExtend 9 (push_bit 3 (OpPick (ucast insn) 10 3) OR push_bit 6 (OpPick (ucast insn) 7 3))
     in if funct3 = 0b000 \<and> shamt \<noteq> 0 then Some (IOp32I (op32_SLLI (sint rd) (sint rs1) (sint shamt)))
        else if funct3 = 0b000 \<and> shamt = 0 then Some (IOp32C op32_NOP)
        else if funct3 = 0b001 then Some (IOp32D (op32_FLD (sint rd) 2 uimm_load8))
        else if funct3 = 0b010 \<and> rd \<noteq> 0 then Some (IOp32I (op32_LW (sint rd) 2 uimm_load4))
        else if funct3 = 0b011 then Some (IOp32F (op32_FLW (sint rd) 2 uimm_load4))
        else if funct4 = 0b1000 \<and> rs1 \<noteq> 0 \<and> rs2 = 0 then Some (IOp32I (op32_JALR 0 (sint rs1) 0))
        else if funct4 = 0b1000 \<and> rd \<noteq> 0 \<and> rs2 \<noteq> 0 then Some (IOp32I (op32_ADD (sint rd) 0 (sint rs2)))
        else if funct4 = 0b1001 \<and> rd = 0 \<and> rs2 = 0 then Some (IOp32I op32_EBREAK)
        else if funct4 = 0b1001 \<and> rs1 \<noteq> 0 \<and> rs2 = 0 then Some (IOp32I (op32_JALR 1 (sint rs1) 0))
        else if funct4 = 0b1001 \<and> rd \<noteq> 0 \<and> rs2 \<noteq> 0 then Some (IOp32I (op32_ADD (sint rd) (sint rs1) (sint rs2)))
        else if funct3 = 0b101 then Some (IOp32D (op32_FSD 2 (sint rs2) uimm_store8))
        else if funct3 = 0b110 then Some (IOp32I (op32_SW 2 (sint rs2) uimm_store4))
        else if funct3 = 0b111 then Some (IOp32F (op32_FSW 2 (sint rs2) uimm_store4))
        else None)"

definition OpDecoder_DecodeRV32C :: "uint16 \<Rightarrow> IOp option" where
  "OpDecoder_DecodeRV32C insn =
    (let opcode = OpPick (ucast insn) 0 2
     in if opcode = 0b00 then OpDecoder_DecodeRV32C_Quadrant0 insn
        else if opcode = 0b01 then OpDecoder_DecodeRV32C_Quadrant1 insn
        else if opcode = 0b10 then OpDecoder_DecodeRV32C_Quadrant2 insn
        else None)"

definition OpDecoder_DecodeRV32 :: "uint32 \<Rightarrow> IOp option" where
  "OpDecoder_DecodeRV32 insn =
    (let opcode = OpPick insn 0 7;
         funct3 = OpPick insn 12 3;
         funct7 = OpPick insn 25 7;
         funct2 = OpPick insn 25 2
     in if OpDecoder_IsCompressedInstruction insn then OpDecoder_DecodeRV32C (ucast insn)
        else if opcode = 0b0110011 \<and> funct7 = 0b0000001 then OpDecoder_DecodeRV32M insn
        else if opcode = 0b0101111 \<and> funct3 = 0b010 then OpDecoder_DecodeRV32A insn
        else if (opcode = 0b0000111 \<and> funct3 = 0b010) \<or> (opcode = 0b0100111 \<and> funct3 = 0b010) \<or> (opcode = 0b1000011 \<and> funct2 = 0b00) \<or> (opcode = 0b1000111 \<and> funct2 = 0b00) \<or> (opcode = 0b1001011 \<and> funct2 = 0b00) \<or> (opcode = 0b1001111 \<and> funct2 = 0b00) \<or> (opcode = 0b1010011 \<and> funct2 = 0b00 \<and> (\<not> (funct7 = 0b0100000))) then OpDecoder_DecodeRV32F insn
        else if (opcode = 0b0000111 \<and> funct3 = 0b011) \<or> (opcode = 0b0100111 \<and> funct3 = 0b011) \<or> (opcode = 0b1000011 \<and> funct2 = 0b01) \<or> (opcode = 0b1000111 \<and> funct2 = 0b01) \<or> (opcode = 0b1001011 \<and> funct2 = 0b01) \<or> (opcode = 0b1001111 \<and> funct2 = 0b01) \<or> (opcode = 0b1010011 \<and> funct2 = 0b01) \<or> (opcode = 0b1010011 \<and> funct7 = 0b0100000) then OpDecoder_DecodeRV32D insn
        else OpDecoder_DecodeRV32I insn)"

text \<open>The longer cases of the switch in \<open>OpDecoder_DecodeRV64I\<close>.\<close>

abbreviation OpDecoder_RV64I_AluImm ::
    "uint32 \<Rightarrow> uint32 \<Rightarrow> int \<Rightarrow> int \<Rightarrow> int \<Rightarrow> uint32 \<Rightarrow> IOp option" where
  "OpDecoder_RV64I_AluImm funct3 funct6 rd rs1 shamt6 immI \<equiv>
    (if funct3 = 0 then Some (IOp64I (op64_ADDI rd rs1 immI))
            else if funct3 = 2 then Some (IOp64I (op64_SLTI rd rs1 immI))
            else if funct3 = 3 then Some (IOp64I (op64_SLTIU rd rs1 immI))
            else if funct3 = 4 then Some (IOp64I (op64_XORI rd rs1 immI))
            else if funct3 = 6 then Some (IOp64I (op64_ORI rd rs1 immI))
            else if funct3 = 7 then Some (IOp64I (op64_ANDI rd rs1 immI))
            else if funct3 = 1 \<and> funct6 = 0b000000 then Some (IOp64I (op64_SLLI rd rs1 shamt6))
            else if funct3 = 5 \<and> funct6 = 0b000000 then Some (IOp64I (op64_SRLI rd rs1 shamt6))
            else if funct3 = 5 \<and> funct6 = 0b010000 then Some (IOp64I (op64_SRAI rd rs1 shamt6))
            else None)"

abbreviation OpDecoder_RV64I_AluImmWord ::
    "uint32 \<Rightarrow> uint32 \<Rightarrow> int \<Rightarrow> int \<Rightarrow> int \<Rightarrow> uint32 \<Rightarrow> IOp option" where
  "OpDecoder_RV64I_AluImmWord funct3 funct7 rd rs1 shamt5 immI \<equiv>
    (if funct3 = 0 then Some (IOp64I (op64_ADDIW rd rs1 immI))
            else if funct3 = 1 \<and> funct7 = 0b0000000 then Some (IOp64I (op64_SLLI rd rs1 shamt5))
            else if funct3 = 5 \<and> funct7 = 0b0000000 then Some (IOp64I (op64_SRLI rd rs1 shamt5))
            else if funct3 = 5 \<and> funct7 = 0b0100000 then Some (IOp64I (op64_SRAI rd rs1 shamt5))
            else None)"

abbreviation OpDecoder_RV64I_Alu ::
    "uint32 \<Rightarrow> uint32 \<Rightarrow> int \<Rightarrow> int \<Rightarrow> int \<Rightarrow> IOp option" where
  "OpDecoder_RV64I_Alu funct3 funct7 rd rs1 rs2 \<equiv>
    (if funct7 = 0b0000000 then (if funct3 = 0 then Some (IOp64I (op64_ADD rd rs1 rs2))
                else if funct3 = 1 then Some (IOp64I (op64_SLL rd rs1 rs2))
                else if funct3 = 2 then Some (IOp64I (op64_SLT rd rs1 rs2))
                else if funct3 = 3 then Some (IOp64I (op64_SLTU rd rs1 rs2))
                else if funct3 = 4 then Some (IOp64I (op64_XOR rd rs1 rs2))
                else if funct3 = 5 then Some (IOp64I (op64_SRL rd rs1 rs2))
                else if funct3 = 6 then Some (IOp64I (op64_OR rd rs1 rs2))
                else if funct3 = 7 then Some (IOp64I (op64_AND rd rs1 rs2))
                else None)
            else if funct7 = 0b0100000 then (if funct3 = 0 then Some (IOp64I (op64_SUB rd rs1 rs2))
                else if funct3 = 5 then Some (IOp64I (op64_SRA rd rs1 rs2))
                else None)
            else None)"

abbreviation OpDecoder_RV64I_AluWord ::
    "uint32 \<Rightarrow> uint32 \<Rightarrow> int \<Rightarrow> int \<Rightarrow> int \<Rightarrow> IOp option" where
  "OpDecoder_RV64I_AluWord funct3 funct7 rd rs1 rs2 \<equiv>
    (if funct7 = 0b0000000 then (if funct3 = 0 then Some (IOp64I (op64_ADDW rd rs1 rs2))
                else if funct3 = 1 then Some (IOp64I (op64_SLLW rd rs1 rs2))
                else if funct3 = 5 then Some (IOp64I (op64_SRLW rd rs1 rs2))
                else None)
            else if funct7 = 0b0100000 then (if funct3 = 0 then Some (IOp64I (op64_SUBW rd rs1 rs2))
                else if funct3 = 5 then Some (IOp64I (op64_SRAW rd rs1 rs2))
                else None)
            else None)"

abbreviation OpDecoder_RV64I_Fence ::
    "uint32 \<Rightarrow> uint32 \<Rightarrow> int \<Rightarrow> int \<Rightarrow> uint32 \<Rightarrow> uint32 \<Rightarrow> IOp option" where
  "OpDecoder_RV64I_Fence funct3 funct12 rd rs1 immI insn \<equiv>
    (if funct3 = 0 \<and> rd = 0 \<and> rs1 = 0 \<and> OpPick insn 28 4 = 0 then (let fm = OpPick insn 28 4;
                    pred = OpPick insn 24 4;
                    succ = OpPick insn 20 4
                in Some (IOp64I (op64_FENCE rd rs1 fm pred succ)))
            else if funct3 = 1 \<and> rd = 0 \<and> rs1 = 0 \<and> funct12 = 0 then Some (IOp64I (op64_FENCE_I rd rs1 immI))
            else None)"

abbreviation OpDecoder_RV64I_System ::
    "uint32 \<Rightarrow> uint32 \<Rightarrow> uint32 \<Rightarrow> uint32 \<Rightarrow> int \<Rightarrow> int \<Rightarrow> int \<Rightarrow> IOp option" where
  "OpDecoder_RV64I_System funct3 funct7 funct12 csr rd rs1 rs2 \<equiv>
    (if funct3 = 0 \<and> rd = 0 \<and> funct7 = 0b0001001 then Some (IOp64I (op64_SFENCE_VMA rs1 rs2))
            else if funct3 = 0 \<and> rd = 0 \<and> rs1 = 0 then (if funct12 = 0b000000000000 then Some (IOp64I op64_ECALL)
                else if funct12 = 0b000000000001 then Some (IOp64I op64_EBREAK)
                else if funct12 = 0b000000000010 then Some (IOp64I op64_URET)
                else if funct12 = 0b000100000010 then Some (IOp64I op64_SRET)
                else if funct12 = 0b000100000101 then Some (IOp64I op64_WFI)
                else if funct12 = 0b001100000010 then Some (IOp64I op64_MRET)
                else None)
            else if funct3 = 1 then Some (IOp64I (op64_CSRRW csr rd rs1))
            else if funct3 = 2 then Some (IOp64I (op64_CSRRS csr rd rs1))
            else if funct3 = 3 then Some (IOp64I (op64_CSRRC csr rd rs1))
            else if funct3 = 5 then Some (IOp64I (op64_CSRRWI csr rd (word_of_int rs1)))
            else if funct3 = 6 then Some (IOp64I (op64_CSRRSI csr rd (word_of_int rs1)))
            else if funct3 = 7 then Some (IOp64I (op64_CSRRCI csr rd (word_of_int rs1)))
            else None)"

definition OpDecoder_DecodeRV64I :: "uint32 \<Rightarrow> IOp option" where
  "OpDecoder_DecodeRV64I insn =
    (let opcode = OpPick insn 0 7;
         funct3 = OpPick insn 12 3;
         funct7 = OpPick insn 25 7;
         funct6 = OpPick insn 26 6;
         funct12 = OpPick insn 20 12;
         csr = OpPick insn 20 12;
         rd = sint (OpPick insn 7 5);
         rs1 = sint (OpPick insn 15 5);
         rs2 = sint (OpPick insn 20 5);
         shamt5 = sint (OpPick insn 20 5);
         shamt6 = sint (OpPick insn 20 6);
         immU = OpPick insn 12 20;
         immI = SignExtend 12 (OpPick insn 20 12);
         immB = SignExtend 13 (push_bit 12 (OpPick insn 31 1) OR push_bit 5 (OpPick insn 25 6) OR push_bit 1 (OpPick insn 8 4) OR push_bit 11 (OpPick insn 7 1))
     in if opcode = 0b0110111 then Some (IOp64I (op64_LUI rd immU))
        else if opcode = 0b0010111 then Some (IOp64I (op64_AUIPC rd immU))
        else if opcode = 0b1101111 then Some (IOp64I (op64_JAL rd (SignExtend 20 (push_bit 20 (OpPick insn 31 1) OR push_bit 1 (OpPick insn 21 10) OR push_bit 11 (OpPick insn 20 1) OR push_bit 12 (OpPick insn 12 8)))))
        else if opcode = 0b1100111 then (if funct3 = 0 then Some (IOp64I (op64_JALR rd rs1 immI))
            else None)
        else if opcode = 0b1100011 then (if funct3 = 0 then Some (IOp64I (op64_BEQ rs1 rs2 immB))
            else if funct3 = 1 then Some (IOp64I (op64_BNE rs1 rs2 immB))
            else if funct3 = 4 then Some (IOp64I (op64_BLT rs1 rs2 immB))
            else if funct3 = 5 then Some (IOp64I (op64_BGE rs1 rs2 immB))
            else if funct3 = 6 then Some (IOp64I (op64_BLTU rs1 rs2 immB))
            else if funct3 = 7 then Some (IOp64I (op64_BGEU rs1 rs2 immB))
            else None)
        else if opcode = 0b0000011 then (if funct3 = 0 then Some (IOp64I (op64_LB rd rs1 immI))
            else if funct3 = 1 then Some (IOp64I (op64_LH rd rs1 immI))
            else if funct3 = 2 then Some (IOp64I (op64_LW rd rs1 immI))
            else if funct3 = 3 then Some (IOp64I (op64_LD rd rs1 immI))
            else if funct3 = 4 then Some (IOp64I (op64_LBU rd rs1 immI))
            else if funct3 = 5 then Some (IOp64I (op64_LHU rd rs1 immI))
            else if funct3 = 6 then Some (IOp64I (op64_LWU rd rs1 immI))
            else None)
        else if opcode = 0b0100011 then (if funct3 = 0 then Some (IOp64I (op64_SB rs1 rs2 immI))
            else if funct3 = 1 then Some (IOp64I (op64_SH rs1 rs2 immI))
            else if funct3 = 2 then Some (IOp64I (op64_SW rs1 rs2 immI))
            else if funct3 = 3 then Some (IOp64I (op64_SD rs1 rs2 immI))
            else None)
        else if opcode = 0b0010011 then OpDecoder_RV64I_AluImm funct3 funct6 rd rs1 shamt6 immI
        else if opcode = 0b0011011 then OpDecoder_RV64I_AluImmWord funct3 funct7 rd rs1 shamt5 immI
        else if opcode = 0b0110011 then OpDecoder_RV64I_Alu funct3 funct7 rd rs1 rs2
        else if opcode = 0b0111011 then OpDecoder_RV64I_AluWord funct3 funct7 rd rs1 rs2
        else if opcode = 0b0001111 then OpDecoder_RV64I_Fence funct3 funct12 rd rs1 immI insn
        else if opcode = 0b1110011 then OpDecoder_RV64I_System funct3 funct7 funct12 csr rd rs1 rs2
        else None)"

definition OpDecoder_DecodeRV64M :: "uint32 \<Rightarrow> IOp option" where
  "OpDecoder_DecodeRV64M insn =
    (let opcode = OpPick insn 0 7;
         funct3 = OpPick insn 12 3;
         rd = sint (OpPick insn 7 5);
         rs1 = sint (OpPick insn 15 5);
         rs2 = sint (OpPick insn 20 5)
     in if opcode = 0b0110011 then (if funct3 = 0b000 then Some (IOp64M (op64_MUL rd rs1 rs2))
            else if funct3 = 0b001 then Some (IOp64M (op64_MULH rd rs1 rs2))
            else if funct3 = 0b010 then Some (IOp64M (op64_MULHSU rd rs1 rs2))
            else if funct3 = 0b011 then Some (IOp64M (op64_MULHU rd rs1 rs2))
            else if funct3 = 0b100 then Some (IOp64M (op64_DIV rd rs1 rs2))
            else if funct3 = 0b101 then Some (IOp64M (op64_DIVU rd rs1 rs2))
            else if funct3 = 0b110 then Some (IOp64M (op64_REM rd rs1 rs2))
            else Some (IOp64M (op64_REMU rd rs1 rs2)))
        else if opcode = 0b0111011 then (if funct3 = 0b000 then Some (IOp64M (op64_MULW rd rs1 rs2))
            else if funct3 = 0b100 then Some (IOp64M (op64_DIVW rd rs1 rs2))
            else if funct3 = 0b101 then Some (IOp64M (op64_DIVUW rd rs1 rs2))
            else if funct3 = 0b110 then Some (IOp64M (op64_REMW rd rs1 rs2))
            else if funct3 = 0b111 then Some (IOp64M (op64_REMUW rd rs1 rs2))
            else None)
        else None)"

definition OpDecoder_DecodeRV64A :: "uint32 \<Rightarrow> IOp option" where
  "OpDecoder_DecodeRV64A insn =
    (let funct5 = OpPick insn 27 5;
         funct3 = OpPick insn 12 3;
         aq = (OpPick insn 26 1) \<noteq> 0;
         rl = (OpPick insn 25 1) \<noteq> 0;
         rd = sint (OpPick insn 7 5);
         rs1 = sint (OpPick insn 15 5);
         rs2 = sint (OpPick insn 20 5)
     in if funct3 = 0b010 then (if funct5 = 0b00010 \<and> rs2 = 0b00000 then Some (IOp64A (op64_LR_W rd rs1 aq rl))
            else if funct5 = 0b00011 then Some (IOp64A (op64_SC_W rd rs1 rs2 aq rl))
            else if funct5 = 0b00001 then Some (IOp64A (op64_AMOSWAP_W rd rs1 rs2 aq rl))
            else if funct5 = 0b00000 then Some (IOp64A (op64_AMOADD_W rd rs1 rs2 aq rl))
            else if funct5 = 0b00100 then Some (IOp64A (op64_AMOXOR_W rd rs1 rs2 aq rl))
            else if funct5 = 0b01100 then Some (IOp64A (op64_AMOAND_W rd rs1 rs2 aq rl))
            else if funct5 = 0b01000 then Some (IOp64A (op64_AMOOR_W rd rs1 rs2 aq rl))
            else if funct5 = 0b10000 then Some (IOp64A (op64_AMOMIN_W rd rs1 rs2 aq rl))
            else if funct5 = 0b10100 then Some (IOp64A (op64_AMOMAX_W rd rs1 rs2 aq rl))
            else if funct5 = 0b11000 then Some (IOp64A (op64_AMOMINU_W rd rs1 rs2 aq rl))
            else if funct5 = 0b11100 then Some (IOp64A (op64_AMOMAXU_W rd rs1 rs2 aq rl))
            else None)
        else if funct3 = 0b011 then (if funct5 = 0b00010 \<and> rs2 = 0b00000 then Some (IOp64A (op64_LR_D rd rs1 aq rl))
            else if funct5 = 0b00011 then Some (IOp64A (op64_SC_D rd rs1 rs2 aq rl))
            else if funct5 = 0b00001 then Some (IOp64A (op64_AMOSWAP_D rd rs1 rs2 aq rl))
            else if funct5 = 0b00000 then Some (IOp64A (op64_AMOADD_D rd rs1 rs2 aq rl))
            else if funct5 = 0b00100 then Some (IOp64A (op64_AMOXOR_D rd rs1 rs2 aq rl))
            else if funct5 = 0b01100 then Some (IOp64A (op64_AMOAND_D rd rs1 rs2 aq rl))
            else if funct5 = 0b01000 then Some (IOp64A (op64_AMOOR_D rd rs1 rs2 aq rl))
            else if funct5 = 0b10000 then Some (IOp64A (op64_AMOMIN_D rd rs1 rs2 aq rl))
            else if funct5 = 0b10100 then Some (IOp64A (op64_AMOMAX_D rd rs1 rs2 aq rl))
            else if funct5 = 0b11000 then Some (IOp64A (op64_AMOMINU_D rd rs1 rs2 aq rl))
            else if funct5 = 0b11100 then Some (IOp64A (op64_AMOMAXU_D rd rs1 rs2 aq rl))
            else None)
        else None)"

definition OpDecoder_DecodeRV64F :: "uint32 \<Rightarrow> IOp option" where
  "OpDecoder_DecodeRV64F insn =
    (let opcode = OpPick insn 0 7;
         funct3 = OpPick insn 12 3;
         funct7 = OpPick insn 25 7;
         rd = OpPick insn 7 5;
         rs1 = OpPick insn 15 5;
         rs2 = OpPick insn 20 5;
         rs3 = OpPick insn 27 5;
         rm = OpPick insn 12 3;
         immI = SignExtend 12 (OpPick insn 20 12);
         immS = SignExtend 12 (push_bit 5 (OpPick insn 25 7) OR OpPick insn 7 5)
     in if opcode = 0b0000111 then (if funct3 = 0b010 then Some (IOp64F (op64_FLW (sint rd) (sint rs1) immI))
            else None)
        else if opcode = 0b0100111 then (if funct3 = 0b010 then Some (IOp64F (op64_FSW (sint rd) (sint rs1) immS))
            else None)
        else if opcode = 0b1000011 then Some (IOp64F (op64_FMADD_S (sint rd) (sint rs1) (sint rs2) (sint rs3) (sint rm)))
        else if opcode = 0b1000111 then Some (IOp64F (op64_FMSUB_S (sint rd) (sint rs1) (sint rs2) (sint rs3) (sint rm)))
        else if opcode = 0b1001011 then Some (IOp64F (op64_FNMSUB_S (sint rd) (sint rs1) (sint rs2) (sint rs3) (sint rm)))
        else if opcode = 0b1001111 then Some (IOp64F (op64_FNMADD_S (sint rd) (sint rs1) (sint rs2) (sint rs3) (sint rm)))
        else if opcode = 0b1010011 then (if funct7 = 0b0000000 then Some (IOp64F (op64_FADD_S (sint rd) (sint rs1) (sint rs2) (sint rm)))
            else if funct7 = 0b0000100 then Some (IOp64F (op64_FSUB_S (sint rd) (sint rs1) (sint rs2) (sint rm)))
            else if funct7 = 0b0001000 then Some (IOp64F (op64_FMUL_S (sint rd) (sint rs1) (sint rs2) (sint rm)))
            else if funct7 = 0b0001100 then Some (IOp64F (op64_FDIV_S (sint rd) (sint rs1) (sint rs2) (sint rm)))
            else if funct7 = 0b0101100 then (if rs2 = 0b00000 then Some (IOp64F (op64_FSQRT_S (sint rd) (sint rs1) (sint rm)))
                else None)
            else if funct7 = 0b0010000 then (if funct3 = 0b000 then Some (IOp64F (op64_FSGNJ_S (sint rd) (sint rs1) (sint rs2)))
                else if funct3 = 0b001 then Some (IOp64F (op64_FSGNJN_S (sint rd) (sint rs1) (sint rs2)))
                else if funct3 = 0b010 then Some (IOp64F (op64_FSGNJX_S (sint rd) (sint rs1) (sint rs2)))
                else None)
            else if funct7 = 0b0010100 then (if funct3 = 0b000 then Some (IOp64F (op64_FMIN_S (sint rd) (sint rs1) (sint rs2)))
                else if funct3 = 0b001 then Some (IOp64F (op64_FMAX_S (sint rd) (sint rs1) (sint rs2)))
                else None)
            else if funct7 = 0b1100000 then (if rs2 = 0b00000 then Some (IOp64F (op64_FCVT_W_S (sint rd) (sint rs1) (sint rs2)))
                else if rs2 = 0b00001 then Some (IOp64F (op64_FCVT_WU_S (sint rd) (sint rs1) (sint rs2)))
                else if rs2 = 0b00010 then Some (IOp64F (op64_FCVT_L_S (sint rd) (sint rs1) (sint rs2)))
                else if rs2 = 0b00011 then Some (IOp64F (op64_FCVT_LU_S (sint rd) (sint rs1) (sint rs2)))
                else None)
            else if funct7 = 0b1110000 then (if rs2 = 0b00000 \<and> funct3 = 0b000 then Some (IOp64F (op64_FMV_X_W (sint rd) (sint rs1)))
                else if rs2 = 0b00000 \<and> funct3 = 0b001 then Some (IOp64F (op64_FCLASS_S (sint rd) (sint rs1)))
                else None)
            else if funct7 = 0b1010000 then (if funct3 = 0b000 then Some (IOp64F (op64_FLE_S (sint rd) (sint rs1) (sint rs2)))
                else if funct3 = 0b001 then Some (IOp64F (op64_FLT_S (sint rd) (sint rs1) (sint rs2)))
                else if funct3 = 0b010 then Some (IOp64F (op64_FEQ_S (sint rd) (sint rs1) (sint rs2)))
                else None)
            else if funct7 = 0b1101000 then (if rs2 = 0b00000 then Some (IOp64F (op64_FCVT_S_W (sint rd) (sint rs1) (sint rs2)))
                else if rs2 = 0b00001 then Some (IOp64F (op64_FCVT_S_WU (sint rd) (sint rs1) (sint rs2)))
                else if rs2 = 0b00010 then Some (IOp64F (op64_FCVT_S_L (sint rd) (sint rs1) (sint rs2)))
                else if rs2 = 0b00011 then Some (IOp64F (op64_FCVT_S_LU (sint rd) (sint rs1) (sint rs2)))
                else None)
            else if funct7 = 0b1111000 then (if rs2 = 0b00000 \<and> funct3 = 0b000 then Some (IOp64F (op64_FMV_W_X (sint rd) (sint rs1)))
                else None)
            else None)
        else None)"

text \<open>The longer cases of the switch in \<open>OpDecoder_DecodeRV64D\<close>.\<close>

abbreviation OpDecoder_RV64D_Op ::
    "uint32 \<Rightarrow> uint32 \<Rightarrow> uint32 \<Rightarrow> uint32 \<Rightarrow> uint32 \<Rightarrow> uint32 \<Rightarrow> IOp option" where
  "OpDecoder_RV64D_Op funct3 funct7 rd rs1 rs2 rm \<equiv>
    (if funct7 = 0b0000001 then Some (IOp64D (op64_FADD_D (sint rd) (sint rs1) (sint rs2) (sint rm)))
            else if funct7 = 0b0000101 then Some (IOp64D (op64_FSUB_D (sint rd) (sint rs1) (sint rs2) (sint rm)))
            else if funct7 = 0b0001001 then Some (IOp64D (op64_FMUL_D (sint rd) (sint rs1) (sint rs2) (sint rm)))
            else if funct7 = 0b0001101 then Some (IOp64D (op64_FDIV_D (sint rd) (sint rs1) (sint rs2) (sint rm)))
            else if funct7 = 0b0101101 then (if rs2 = 0b00000 then Some (IOp64D (op64_FSQRT_D (sint rd) (sint rs1) (sint rm)))
                else None)
            else if funct7 = 0b0010001 then (if funct3 = 0b000 then Some (IOp64D (op64_FSGNJ_D (sint rd) (sint rs1) (sint rs2)))
                else if funct3 = 0b001 then Some (IOp64D (op64_FSGNJN_D (sint rd) (sint rs1) (sint rs2)))
                else if funct3 = 0b010 then Some (IOp64D (op64_FSGNJX_D (sint rd) (sint rs1) (sint rs2)))
                else None)
            else if funct7 = 0b0010101 then (if funct3 = 0b000 then Some (IOp64D (op64_FMIN_D (sint rd) (sint rs1) (sint rs2)))
                else if funct3 = 0b001 then Some (IOp64D (op64_FMAX_D (sint rd) (sint rs1) (sint rs2)))
                else None)
            else if funct7 = 0b0100000 then (if rs2 = 0b00001 then Some (IOp64D (op64_FCVT_S_D (sint rd) (sint rs1) (sint rs2)))
                else None)
            else if funct7 = 0b0100001 then (if rs2 = 0b00000 then Some (IOp64D (op64_FCVT_D_S (sint rd) (sint rs1) (sint rs2)))
                else None)
            else if funct7 = 0b1010001 then (if funct3 = 0b000 then Some (IOp64D (op64_FLE_D (sint rd) (sint rs1) (sint rs2)))
                else if funct3 = 0b001 then Some (IOp64D (op64_FLT_D (sint rd) (sint rs1) (sint rs2)))
                else if funct3 = 0b010 then Some (IOp64D (op64_FEQ_D (sint rd) (sint rs1) (sint rs2)))
                else None)
            else if funct7 = 0b1110001 then (if rs2 = 0b00000 \<and> rm = 0b000 then Some (IOp64D (op64_FMV_X_D (sint rd) (sint rs1)))
                else if rs2 = 0b00000 \<and> funct3 = 0b001 then Some (IOp64D (op64_FCLASS_D (sint rd) (sint rs1)))
                else None)
            else if funct7 = 0b1100001 then (if rs2 = 0b00000 then Some (IOp64D (op64_FCVT_W_D (sint rd) (sint rs1) (sint rs2)))
                else if rs2 = 0b00001 then Some (IOp64D (op64_FCVT_WU_D (sint rd) (sint rs1) (sint rs2)))
                else if rs2 = 0b00010 then Some (IOp64D (op64_FCVT_L_D (sint rd) (sint rs1) (sint rs2)))
                else if rs2 = 0b00011 then Some (IOp64D (op64_FCVT_LU_D (sint rd) (sint rs1) (sint rs2)))
                else None)
            else if funct7 = 0b1101001 then (if rs2 = 0b00000 then Some (IOp64D (op64_FCVT_D_W (sint rd) (sint rs1) (sint rs2)))
                else if rs2 = 0b00001 then Some (IOp64D (op64_FCVT_D_WU (sint rd) (sint rs1) (sint rs2)))
                else if rs2 = 0b00010 then Some (IOp64D (op64_FCVT_D_L (sint rd) (sint rs1) (sint rs2)))
                else if rs2 = 0b00011 then Some (IOp64D (op64_FCVT_D_LU (sint rd) (sint rs1) (sint rs2)))
                else None)
            else if funct7 = 0b1111001 then (if rs2 = 0b00000 \<and> rm = 0b000 then Some (IOp64D (op64_FMV_D_X (sint rd) (sint rs1)))
                else None)
            else None)"

definition OpDecoder_DecodeRV64D :: "uint32 \<Rightarrow> IOp option" where
  "OpDecoder_DecodeRV64D insn =
    (let opcode = OpPick insn 0 7;
         funct3 = OpPick insn 12 3;
         funct7 = OpPick insn 25 7;
         rd = OpPick insn 7 5;
         rs1 = OpPick insn 15 5;
         rs2 = OpPick insn 20 5;
         rs3 = OpPick insn 27 5;
         rm = OpPick insn 12 3;
         immI = SignExtend 12 (OpPick insn 20 12);
         immS = SignExtend 12 (push_bit 5 (OpPick insn 25 7) OR OpPick insn 7 5)
     in if opcode = 0b0000111 then (if funct3 = 0b011 then Some (IOp64D (op64_FLD (sint rd) (sint rs1) immI))
            else None)
        else if opcode = 0b0100111 then (if funct3 = 0b011 then Some (IOp64D (op64_FSD (sint rd) (sint rs1) immS))
            else None)
        else if opcode = 0b1000011 then Some (IOp64D (op64_FMADD_D (sint rd) (sint rs1) (sint rs2) (sint rs3) (sint rm)))
        else if opcode = 0b1000111 then Some (IOp64D (op64_FMSUB_D (sint rd) (sint rs1) (sint rs2) (sint rs3) (sint rm)))
        else if opcode = 0b1001011 then Some (IOp64D (op64_FNMSUB_D (sint rd) (sint rs1) (sint rs2) (sint rs3) (sint rm)))
        else if opcode = 0b1001111 then Some (IOp64D (op64_FNMADD_D (sint rd) (sint rs1) (sint rs2) (sint rs3) (sint rm)))
        else if opcode = 0b1010011 then OpDecoder_RV64D_Op funct3 funct7 rd rs1 rs2 rm
        else None)"

definition OpDecoder_DecodeRV64C_Quadrant0 :: "uint16 \<Rightarrow> IOp option" where
  "OpDecoder_DecodeRV64C_Quadrant0 insn =
    (let funct3 = OpPick (ucast insn) 13 3;
         rd = OpPick (ucast insn) 2 3 + 8;
         rs1 = OpPick (ucast insn) 7 3 + 8;
         uimm4 = ZeroExtend 7 (push_bit 3 (OpPick (ucast insn) 10 3) OR push_bit 2 (OpPick (ucast insn) 6 1) OR push_bit 6 (OpPick (ucast insn) 5 1));
         uimm8 = ZeroExtend 8 (push_bit 3 (OpPick (ucast insn) 10 3) OR push_bit 6 (OpPick (ucast insn) 5 2))
     in if funct3 = 0b000 \<and> OpPick (ucast insn) 5 8 \<noteq> 0 then (let imm = ZeroExtend 10 (push_bit 4 (OpPick (ucast insn) 11 2) OR push_bit 6 (OpPick (ucast insn) 7 4) OR push_bit 2 (OpPick (ucast insn) 6 1) OR push_bit 3 (OpPick (ucast insn) 5 1))
            in Some (IOp64I (op64_ADDI 2 2 imm)))
        else if funct3 = 0b001 then Some (IOp64D (op64_FLD (sint rd) (sint rs1) uimm8))
        else if funct3 = 0b010 then Some (IOp64I (op64_LW (sint rd) (sint rs1) uimm4))
        else if funct3 = 0b011 then Some (IOp64I (op64_LD (sint rd) (sint rs1) uimm8))
        else if funct3 = 0b101 then Some (IOp64D (op64_FSD (sint rd) (sint rs1) uimm8))
        else if funct3 = 0b110 then Some (IOp64I (op64_SW (sint rd) (sint rs1) uimm4))
        else if funct3 = 0b111 then Some (IOp64I (op64_SD (sint rd) (sint rs1) uimm8))
        else None)"

definition OpDecoder_DecodeRV64C_Quadrant1 :: "uint16 \<Rightarrow> IOp option" where
  "OpDecoder_DecodeRV64C_Quadrant1 insn =
    (let funct4 = OpPick (ucast insn) 12 4;
         funct3 = OpPick (ucast insn) 13 3;
         funct2_rs1 = OpPick (ucast insn) 10 2;
         funct2_rs2 = OpPick (ucast insn) 5 2;
         rd = OpPick (ucast insn) 7 5;
         rs1 = OpPick (ucast insn) 7 5;
         rd_alu = OpPick (ucast insn) 7 3 + 8;
         rs1_alu = OpPick (ucast insn) 7 3 + 8;
         rs2_alu = OpPick (ucast insn) 2 3 + 8;
         imm = SignExtend 6 (push_bit 5 (OpPick (ucast insn) 12 1) OR OpPick (ucast insn) 2 5);
         uimm = SignExtend 6 (push_bit 5 (OpPick (ucast insn) 12 1) OR OpPick (ucast insn) 2 5);
         imm_j = SignExtend 12 (push_bit 11 (OpPick (ucast insn) 12 1) OR push_bit 4 (OpPick (ucast insn) 11 1) OR push_bit 8 (OpPick (ucast insn) 9 2) OR push_bit 10 (OpPick (ucast insn) 8 1) OR push_bit 6 (OpPick (ucast insn) 7 1) OR push_bit 7 (OpPick (ucast insn) 6 1) OR push_bit 1 (OpPick (ucast insn) 3 3) OR push_bit 5 (OpPick (ucast insn) 2 1));
         imm_addi16sp = SignExtend 10 (push_bit 9 (OpPick (ucast insn) 12 1) OR push_bit 4 (OpPick (ucast insn) 6 1) OR push_bit 6 (OpPick (ucast insn) 5 1) OR push_bit 7 (OpPick (ucast insn) 3 2) OR push_bit 5 (OpPick (ucast insn) 2 1));
         imm_lui = SignExtend 18 (push_bit 17 (OpPick (ucast insn) 12 1) OR push_bit 12 (OpPick (ucast insn) 2 5));
         imm_b = SignExtend 9 (push_bit 8 (OpPick (ucast insn) 12 1) OR push_bit 3 (OpPick (ucast insn) 10 2) OR push_bit 6 (OpPick (ucast insn) 5 2) OR push_bit 1 (OpPick (ucast insn) 3 2) OR push_bit 5 (OpPick (ucast insn) 2 1))
     in if funct3 = 0b000 \<and> rd = 0 then Some (IOp64C op64_NOP)
        else if funct3 = 0b000 then Some (IOp64I (op64_ADDI (sint rd) (sint rs1) imm))
        else if funct3 = 0b001 then Some (IOp64I (op64_ADDIW (sint rd) (sint rs1) imm))
        else if funct3 = 0b010 \<and> rd \<noteq> 0 then Some (IOp64I (op64_ADDI (sint rd) 0 imm))
        else if funct3 = 0b011 \<and> rd = 2 then Some (IOp64I (op64_ADDI 2 2 imm_addi16sp))
        else if funct3 = 0b011 \<and> rd \<noteq> 0 \<and> rd \<noteq> 2 then Some (IOp64I (op64_LUI (sint rd) imm_lui))
        else if funct3 = 0b100 \<and> funct2_rs1 = 0b00 \<and> uimm \<noteq> 0 then Some (IOp64I (op64_SRLI (sint rd_alu) (sint rs1_alu) (sint uimm)))
        else if funct3 = 0b100 \<and> funct2_rs1 = 0b00 \<and> uimm = 0 then Some (IOp64I (op64_SRLI (sint rd_alu) (sint rs1_alu) 64))
        else if funct3 = 0b100 \<and> funct2_rs1 = 0b01 \<and> uimm \<noteq> 0 then Some (IOp64I (op64_SRAI (sint rd_alu) (sint rs1_alu) (sint uimm)))
        else if funct3 = 0b100 \<and> funct2_rs1 = 0b01 \<and> uimm = 0 then Some (IOp64I (op64_SRAI (sint rd_alu) (sint rs1_alu) 64))
        else if funct3 = 0b100 \<and> funct2_rs1 = 0b10 then Some (IOp64I (op64_ANDI (sint rd_alu) (sint rs1_alu) imm))
        else if funct4 = 0b1000 \<and> funct2_rs1 = 0b11 \<and> funct2_rs2 = 0b00 then Some (IOp64I (op64_SUB (sint rd_alu) (sint rs1_alu) (sint rs2_alu)))
        else if funct4 = 0b1000 \<and> funct2_rs1 = 0b11 \<and> funct2_rs2 = 0b01 then Some (IOp64I (op64_XOR (sint rd_alu) (sint rs1_alu) (sint rs2_alu)))
        else if funct4 = 0b1000 \<and> funct2_rs1 = 0b11 \<and> funct2_rs2 = 0b10 then Some (IOp64I (op64_OR (sint rd_alu) (sint rs1_alu) (sint rs2_alu)))
        else if funct4 = 0b1000 \<and> funct2_rs1 = 0b11 \<and> funct2_rs2 = 0b11 then Some (IOp64I (op64_AND (sint rd_alu) (sint rs1_alu) (sint rs2_alu)))
        else if funct4 = 0b1001 \<and> funct2_rs1 = 0b11 \<and> funct2_rs2 = 0b00 then Some (IOp64I (op64_SUBW (sint rd_alu) (sint rs1_alu) (sint rs2_alu)))
        else if funct4 = 0b1001 \<and> funct2_rs1 = 0b11 \<and> funct2_rs2 = 0b01 then Some (IOp64I (op64_ADDW (sint rd_alu) (sint rs1_alu) (sint rs2_alu)))
        else if funct3 = 0b101 then Some (IOp64I (op64_JAL 0 imm_j))
        else if funct3 = 0b110 then Some (IOp64I (op64_BEQ (sint rs1_alu) 0 imm_b))
        else if funct3 = 0b111 then Some (IOp64I (op64_BNE (sint rs1_alu) 0 imm_b))
        else None)"

definition OpDecoder_DecodeRV64C_Quadrant2 :: "uint16 \<Rightarrow> IOp option" where
  "OpDecoder_DecodeRV64C_Quadrant2 insn =
    (let funct4 = OpPick (ucast insn) 12 4;
         funct3 = OpPick (ucast insn) 13 3;
         rd = OpPick (ucast insn) 7 5;
         rs1 = OpPick (ucast insn) 7 5;
         rs2 = OpPick (ucast insn) 2 5;
         shamt = ZeroExtend 6 (push_bit 5 (OpPick (ucast insn) 12 1) OR OpPick (ucast insn) 2 5);
         uimm_load4 = ZeroExtend 8 (push_bit 5 (OpPick (ucast insn) 12 1) OR push_bit 2 (OpPick (ucast insn) 4 3) OR push_bit 6 (OpPick (ucast insn) 2 2));
         uimm_load8 = ZeroExtend 9 (push_bit 5 (OpPick (ucast insn) 12 1) OR push_bit 3 (OpPick (ucast insn) 5 2) OR push_bit 6 (OpPick (ucast insn) 2 3));
         uimm_store4 = ZeroExtend 8 (push_bit 2 (OpPick (ucast insn) 9 4) OR push_bit 6 (OpPick (ucast insn) 7 2));
         uimm_store8 = ZeroExtend 9 (push_bit 3 (OpPick (ucast insn) 10 3) OR push_bit 6 (OpPick (ucast insn) 7 3))
     in if funct3 = 0b000 \<and> shamt \<noteq> 0 then Some (IOp64I (op64_SLLI (sint rd) (sint rs1) (sint shamt)))
        else if funct3 = 0b000 \<and> shamt = 0 then Some (IOp64I (op64_SLLI (sint rd) (sint rs1) 64))
        else if funct3 = 0b001 then Some (IOp64D (op64_FLD (sint rd) 2 uimm_load8))
        else if funct3 = 0b010 \<and> rd \<noteq> 0 then Some (IOp64I (op64_LW (sint rd) 2 uimm_load4))
        else if funct3 = 0b011 then Some (IOp64I (op64_LD (sint rd) 2 uimm_load8))
        else if funct4 = 0b1000 \<and> rs1 \<noteq> 0 \<and> rs2 = 0 then Some (IOp64I (op64_JALR 0 (sint rs1) 0))
        else if funct4 = 0b1000 \<and> rd \<noteq> 0 \<and> rs2 \<noteq> 0 then Some (IOp64I (op64_ADD (sint rd) 0 (sint rs2)))
        else if funct4 = 0b1001 \<and> rd = 0 \<and> rs2 = 0 then Some (IOp64I op64_EBREAK)
        else if funct4 = 0b1001 \<and> rs1 \<noteq> 0 \<and> rs2 = 0 then Some (IOp64I (op64_JALR 1 (sint rs1) 0))
        else if funct4 = 0b1001 \<and> rd \<noteq> 0 \<and> rs2 \<noteq> 0 then Some (IOp64I (op64_ADD (sint rd) (sint rs1) (sint rs2)))
        else if funct3 = 0b101 then Some (IOp64D (op64_FSD 2 (sint rs2) uimm_store8))
        else if funct3 = 0b110 then Some (IOp64I (op64_SW 2 (sint rs2) uimm_store4))
        else if funct3 = 0b111 then Some (IOp64I (op64_SD 2 (sint rs2) uimm_store8))
        else None)"

definition OpDecoder_DecodeRV64C :: "uint16 \<Rightarrow> IOp option" where
  "OpDecoder_DecodeRV64C insn =
    (let opcode = OpPick (ucast insn) 0 2
     in if opcode = 0b00 then OpDecoder_DecodeRV64C_Quadrant0 insn
        else if opcode = 0b01 then OpDecoder_DecodeRV64C_Quadrant1 insn
        else if opcode = 0b10 then OpDecoder_DecodeRV64C_Quadrant2 insn
        else None)"

definition OpDecoder_DecodeRV64 :: "uint32 \<Rightarrow> IOp option" where
  "OpDecoder_DecodeRV64 insn =
    (let opcode = OpPick insn 0 7;
         funct3 = OpPick insn 12 3;
         funct7 = OpPick insn 25 7;
         funct2 = OpPick insn 25 2
     in if OpDecoder_IsCompressedInstruction insn then OpDecoder_DecodeRV64C (ucast insn)
        else if (opcode = 0b0110011 \<and> funct7 = 0b0000001) \<or> (opcode = 0b0111011 \<and> funct7 = 0b0000001) then OpDecoder_DecodeRV64M insn
        else if (opcode = 0b0101111 \<and> funct3 = 0b010) \<or> (opcode = 0b0101111 \<and> funct3 = 0b011) then OpDecoder_DecodeRV64A insn
        else if (opcode = 0b0000111 \<and> funct3 = 0b010) \<or> (opcode = 0b0100111 \<and> funct3 = 0b010) \<or> (opcode = 0b1000011 \<and> funct2 = 0b00) \<or> (opcode = 0b1000111 \<and> funct2 = 0b00) \<or> (opcode = 0b1001011 \<and> funct2 = 0b00) \<or> (opcode = 0b1001111 \<and> funct2 = 0b00) \<or> (opcode = 0b1010011 \<and> funct2 = 0b00 \<and> (\<not> (funct7 = 0b0100000))) then OpDecoder_DecodeRV64F insn
        else if (opcode = 0b0000111 \<and> funct3 = 0b011) \<or> (opcode = 0b0100111 \<and> funct3 = 0b011) \<or> (opcode = 0b1000011 \<and> funct2 = 0b01) \<or> (opcode = 0b1000111 \<and> funct2 = 0b01) \<or> (opcode = 0b1001011 \<and> funct2 = 0b01) \<or> (opcode = 0b1001111 \<and> funct2 = 0b01) \<or> (opcode = 0b1010011 \<and> funct2 = 0b01) \<or> (opcode = 0b1010011 \<and> funct7 = 0b0100000) then OpDecoder_DecodeRV64D insn
        else OpDecoder_DecodeRV64I insn)"

definition OpDecoder_Decode :: "XLEN \<Rightarrow> uint32 \<Rightarrow> IOp option result" where
  "OpDecoder_Decode xlen insn = (case xlen of
      XLEN32 \<Rightarrow> Inr (OpDecoder_DecodeRV32 insn)
    | XLEN64 \<Rightarrow> Inr (OpDecoder_DecodeRV64 insn)
    | _ \<Rightarrow> Inl ProcessExit)"

end
