(* ===== verification/OpText.thy ===== *)
theory OpText
  imports OpDecoder DecoderLaws
begin

text \<open>
  The text of a decoded instruction: no \<open>ToString\<close> writes past its buffer of 80 characters or
  formats a null pointer, as long as the register numbers are in range, and \<^verbatim>\<open>OpDecoder\<close>
  keeps them there for every instruction word.
\<close>

section \<open>Register numbers\<close>

definition int_name :: "int \<Rightarrow> string" where
  "int_name r = (if reg r then IntRegNames ! nat r else [])"

definition fp_name :: "int \<Rightarrow> string" where
  "fp_name r = (if reg r then FpRegNames ! nat r else [])"

lemma names_in_range:
  "reg r \<Longrightarrow> GetIntRegName r = Some (int_name r)"
  "reg r \<Longrightarrow> GetFpRegName r = Some (fp_name r)"
  by (simp_all add: GetIntRegName_def GetFpRegName_def int_name_def fp_name_def)

lemma name_le: "length (int_name r) \<le> 4" "length (fp_name r) \<le> 4"
proof -
  have "length (int_name r) \<le> 4 \<and> length (fp_name r) \<le> 4"
  proof (cases "reg r")
    case True
    then obtain s t where "GetIntRegName r = Some s" "length s \<le> 4" "GetFpRegName r = Some t" "length t \<le> 4"
      using register_names by blast
    with names_in_range [OF True] show ?thesis by simp
  qed (auto simp: int_name_def fp_name_def)
  then show "length (int_name r) \<le> 4" "length (fp_name r) \<le> 4" by simp_all
qed

text \<open>The two decoders pick the same bits.\<close>

lemma OpPick_Pick: "OpPick insn lsb width = Pick insn lsb width"
  by (simp add: OpPick_def Pick_def)

lemma OpPick_reg [simp]: "reg (sint (OpPick insn lsb 5))"
  by (simp add: OpPick_Pick)

lemma sint_OpPick_8: "sint (OpPick insn lsb 3 + 8) = sint (OpPick insn lsb 3) + 8"
  using Pick_range [of 3 insn lsb] signed_take_bit_int_eq_self [of 31 "sint (OpPick insn lsb 3) + 8"]
  by (simp add: OpPick_Pick sint_word_ariths)

lemma OpPick_reg_alu [simp]: "reg (sint (OpPick insn lsb 3 + 8))"
  unfolding sint_OpPick_8 unfolding OpPick_Pick using Pick_reg(2,3) [of insn lsb] by simp

section \<open>Text of an instruction\<close>

definition prints :: "IOp \<Rightarrow> bool" where
  "prints op = (\<exists>s. IOp_ToString op = Inr s \<and> length s < 80)"

lemma prints_iff: "prints op \<longleftrightarrow> (case IOp_ToString op of Inr s \<Rightarrow> length s < 80 | Inl _ \<Rightarrow> False)"
  by (auto simp: prints_def split: sum.splits)

lemmas format_simps = sprintf_def prints_iff names_in_range Let_def

lemma op32I_prints:
  "reg rd \<Longrightarrow> prints (IOp32I (op32_LUI rd imm))"
  "reg rd \<Longrightarrow> prints (IOp32I (op32_AUIPC rd imm))"
  "reg rd \<Longrightarrow> prints (IOp32I (op32_JAL rd imm))"
  "reg rd \<Longrightarrow> reg rs1 \<Longrightarrow> prints (IOp32I (op32_JALR rd rs1 imm))"
  "reg rs1 \<Longrightarrow> reg rs2 \<Longrightarrow> prints (IOp32I (op32_BEQ rs1 rs2 imm))"
  "reg rs1 \<Longrightarrow> reg rs2 \<Longrightarrow> prints (IOp32I (op32_BNE rs1 rs2 imm))"
  "reg rs1 \<Longrightarrow> reg rs2 \<Longrightarrow> prints (IOp32I (op32_BLT rs1 rs2 imm))"
  "reg rs1 \<Longrightarrow> reg rs2 \<Longrightarrow> prints (IOp32I (op32_BGE rs1 rs2 imm))"
  "reg rs1 \<Longrightarrow> reg rs2 \<Longrightarrow> prints (IOp32I (op32_BLTU rs1 rs2 imm))"
  "reg rs1 \<Longrightarrow> reg rs2 \<Longrightarrow> prints (IOp32I (op32_BGEU rs1 rs2 imm))"
  "reg rd \<Longrightarrow> reg rs1 \<Longrightarrow> prints (IOp32I (op32_LB rd rs1 imm))"
  "reg rd \<Longrightarrow> reg rs1 \<Longrightarrow> prints (IOp32I (op32_LH rd rs1 imm))"
  "reg rd \<Longrightarrow> reg rs1 \<Longrightarrow> prints (IOp32I (op32_LW rd rs1 imm))"
  "reg rd \<Longrightarrow> reg rs1 \<Longrightarrow> prints (IOp32I (op32_LBU rd rs1 imm))"
  "reg rd \<Longrightarrow> reg rs1 \<Longrightarrow> prints (IOp32I (op32_LHU rd rs1 imm))"
  "reg rs1 \<Longrightarrow> reg rs2 \<Longrightarrow> prints (IOp32I (op32_SB rs1 rs2 imm))"
  "reg rs1 \<Longrightarrow> reg rs2 \<Longrightarrow> prints (IOp32I (op32_SH rs1 rs2 imm))"
  "reg rs1 \<Longrightarrow> reg rs2 \<Longrightarrow> prints (IOp32I (op32_SW rs1 rs2 imm))"
  "reg rd \<Longrightarrow> reg rs1 \<Longrightarrow> prints (IOp32I (op32_ADDI rd rs1 imm))"
  "reg rd \<Longrightarrow> reg rs1 \<Longrightarrow> prints (IOp32I (op32_SLTI rd rs1 imm))"
  "reg rd \<Longrightarrow> reg rs1 \<Longrightarrow> prints (IOp32I (op32_SLTIU rd rs1 imm))"
  "reg rd \<Longrightarrow> reg rs1 \<Longrightarrow> prints (IOp32I (op32_XORI rd rs1 imm))"
  "reg rd \<Longrightarrow> reg rs1 \<Longrightarrow> prints (IOp32I (op32_ORI rd rs1 imm))"
  "reg rd \<Longrightarrow> reg rs1 \<Longrightarrow> prints (IOp32I (op32_ANDI rd rs1 imm))"
  "reg rd \<Longrightarrow> reg rs1 \<Longrightarrow> prints (IOp32I (op32_SLLI rd rs1 shamt))"
  "reg rd \<Longrightarrow> reg rs1 \<Longrightarrow> prints (IOp32I (op32_SRLI rd rs1 shamt))"
  "reg rd \<Longrightarrow> reg rs1 \<Longrightarrow> prints (IOp32I (op32_SRAI rd rs1 shamt))"
  "reg rd \<Longrightarrow> reg rs1 \<Longrightarrow> reg rs2 \<Longrightarrow> prints (IOp32I (op32_ADD rd rs1 rs2))"
  "reg rd \<Longrightarrow> reg rs1 \<Longrightarrow> reg rs2 \<Longrightarrow> prints (IOp32I (op32_SUB rd rs1 rs2))"
  "reg rd \<Longrightarrow> reg rs1 \<Longrightarrow> reg rs2 \<Longrightarrow> prints (IOp32I (op32_SLL rd rs1 rs2))"
  "reg rd \<Longrightarrow> reg rs1 \<Longrightarrow> reg rs2 \<Longrightarrow> prints (IOp32I (op32_SLT rd rs1 rs2))"
  "reg rd \<Longrightarrow> reg rs1 \<Longrightarrow> reg rs2 \<Longrightarrow> prints (IOp32I (op32_SLTU rd rs1 rs2))"
  "reg rd \<Longrightarrow> reg rs1 \<Longrightarrow> reg rs2 \<Longrightarrow> prints (IOp32I (op32_XOR rd rs1 rs2))"
  "reg rd \<Longrightarrow> reg rs1 \<Longrightarrow> reg rs2 \<Longrightarrow> prints (IOp32I (op32_SRL rd rs1 rs2))"
  "reg rd \<Longrightarrow> reg rs1 \<Longrightarrow> reg rs2 \<Longrightarrow> prints (IOp32I (op32_SRA rd rs1 rs2))"
  "reg rd \<Longrightarrow> reg rs1 \<Longrightarrow> reg rs2 \<Longrightarrow> prints (IOp32I (op32_OR rd rs1 rs2))"
  "reg rd \<Longrightarrow> reg rs1 \<Longrightarrow> reg rs2 \<Longrightarrow> prints (IOp32I (op32_AND rd rs1 rs2))"
  "reg rd \<Longrightarrow> reg rs1 \<Longrightarrow> prints (IOp32I (op32_FENCE rd rs1 fm pred succ))"
  "reg rd \<Longrightarrow> reg rs1 \<Longrightarrow> prints (IOp32I (op32_FENCE_I rd rs1 imm))"
  "prints (IOp32I op32_ECALL)"
  "prints (IOp32I op32_EBREAK)"
  "reg rd \<Longrightarrow> reg rs1 \<Longrightarrow> prints (IOp32I (op32_CSRRW csr rd rs1))"
  "reg rd \<Longrightarrow> reg rs1 \<Longrightarrow> prints (IOp32I (op32_CSRRS csr rd rs1))"
  "reg rd \<Longrightarrow> reg rs1 \<Longrightarrow> prints (IOp32I (op32_CSRRC csr rd rs1))"
  "reg rd \<Longrightarrow> prints (IOp32I (op32_CSRRWI csr rd uimm))"
  "reg rd \<Longrightarrow> prints (IOp32I (op32_CSRRSI csr rd uimm))"
  "reg rd \<Longrightarrow> prints (IOp32I (op32_CSRRCI csr rd uimm))"
  "prints (IOp32I op32_URET)"
  "prints (IOp32I op32_SRET)"
  "prints (IOp32I op32_MRET)"
  "prints (IOp32I op32_WFI)"
  "reg rs1 \<Longrightarrow> reg rs2 \<Longrightarrow> prints (IOp32I (op32_SFENCE_VMA rs1 rs2))"
  using name_le [of rd] name_le [of rs1] name_le [of rs2] name_le [of rs3] dec_string_word32 [of imm]
    dec_string_word32 [of uimm] hex_digits_word [of "word_of_int shamt :: uint32"] GetString_csr_length [of csr]
    rounding_mode_length [of rm]
  by (simp_all add: format_simps op32I_ToString_defs)

lemma op32M_prints:
  "reg rd \<Longrightarrow> reg rs1 \<Longrightarrow> reg rs2 \<Longrightarrow> prints (IOp32M (op32_MUL rd rs1 rs2))"
  "reg rd \<Longrightarrow> reg rs1 \<Longrightarrow> reg rs2 \<Longrightarrow> prints (IOp32M (op32_MULH rd rs1 rs2))"
  "reg rd \<Longrightarrow> reg rs1 \<Longrightarrow> reg rs2 \<Longrightarrow> prints (IOp32M (op32_MULHSU rd rs1 rs2))"
  "reg rd \<Longrightarrow> reg rs1 \<Longrightarrow> reg rs2 \<Longrightarrow> prints (IOp32M (op32_MULHU rd rs1 rs2))"
  "reg rd \<Longrightarrow> reg rs1 \<Longrightarrow> reg rs2 \<Longrightarrow> prints (IOp32M (op32_DIV rd rs1 rs2))"
  "reg rd \<Longrightarrow> reg rs1 \<Longrightarrow> reg rs2 \<Longrightarrow> prints (IOp32M (op32_DIVU rd rs1 rs2))"
  "reg rd \<Longrightarrow> reg rs1 \<Longrightarrow> reg rs2 \<Longrightarrow> prints (IOp32M (op32_REM rd rs1 rs2))"
  "reg rd \<Longrightarrow> reg rs1 \<Longrightarrow> reg rs2 \<Longrightarrow> prints (IOp32M (op32_REMU rd rs1 rs2))"
  using name_le [of rd] name_le [of rs1] name_le [of rs2] name_le [of rs3] dec_string_word32 [of imm]
    dec_string_word32 [of uimm] hex_digits_word [of "word_of_int shamt :: uint32"] GetString_csr_length [of csr]
    rounding_mode_length [of rm]
  by (simp_all add: format_simps op32M_ToString_defs)

lemma op32A_prints:
  "reg rd \<Longrightarrow> reg rs1 \<Longrightarrow> prints (IOp32A (op32_LR_W rd rs1 aq rl))"
  "reg rd \<Longrightarrow> reg rs1 \<Longrightarrow> reg rs2 \<Longrightarrow> prints (IOp32A (op32_SC_W rd rs1 rs2 aq rl))"
  "reg rd \<Longrightarrow> reg rs1 \<Longrightarrow> reg rs2 \<Longrightarrow> prints (IOp32A (op32_AMOSWAP_W rd rs1 rs2 aq rl))"
  "reg rd \<Longrightarrow> reg rs1 \<Longrightarrow> reg rs2 \<Longrightarrow> prints (IOp32A (op32_AMOADD_W rd rs1 rs2 aq rl))"
  "reg rd \<Longrightarrow> reg rs1 \<Longrightarrow> reg rs2 \<Longrightarrow> prints (IOp32A (op32_AMOXOR_W rd rs1 rs2 aq rl))"
  "reg rd \<Longrightarrow> reg rs1 \<Longrightarrow> reg rs2 \<Longrightarrow> prints (IOp32A (op32_AMOAND_W rd rs1 rs2 aq rl))"
  "reg rd \<Longrightarrow> reg rs1 \<Longrightarrow> reg rs2 \<Longrightarrow> prints (IOp32A (op32_AMOOR_W rd rs1 rs2 aq rl))"
  "reg rd \<Longrightarrow> reg rs1 \<Longrightarrow> reg rs2 \<Longrightarrow> prints (IOp32A (op32_AMOMIN_W rd rs1 rs2 aq rl))"
  "reg rd \<Longrightarrow> reg rs1 \<Longrightarrow> reg rs2 \<Longrightarrow> prints (IOp32A (op32_AMOMAX_W rd rs1 rs2 aq rl))"
  "reg rd \<Longrightarrow> reg rs1 \<Longrightarrow> reg rs2 \<Longrightarrow> prints (IOp32A (op32_AMOMINU_W rd rs1 rs2 aq rl))"
  "reg rd \<Longrightarrow> reg rs1 \<Longrightarrow> reg rs2 \<Longrightarrow> prints (IOp32A (op32_AMOMAXU_W rd rs1 rs2 aq rl))"
  using name_le [of rd] name_le [of rs1] name_le [of rs2] name_le [of rs3] dec_string_word32 [of imm]
    dec_string_word32 [of uimm] hex_digits_word [of "word_of_int shamt :: uint32"] GetString_csr_length [of csr]
    rounding_mode_length [of rm]
  by (simp_all add: format_simps op32A_ToString_defs)

lemma op32F_prints:
  "reg rd \<Longrightarrow> reg rs1 \<Longrightarrow> prints (IOp32F (op32_FLW rd rs1 imm))"
  "reg rs1 \<Longrightarrow> reg rs2 \<Longrightarrow> prints (IOp32F (op32_FSW rs1 rs2 imm))"
  "reg rd \<Longrightarrow> reg rs1 \<Longrightarrow> reg rs2 \<Longrightarrow> reg rs3 \<Longrightarrow> prints (IOp32F (op32_FMADD_S rd rs1 rs2 rs3 rm))"
  "reg rd \<Longrightarrow> reg rs1 \<Longrightarrow> reg rs2 \<Longrightarrow> reg rs3 \<Longrightarrow> prints (IOp32F (op32_FMSUB_S rd rs1 rs2 rs3 rm))"
  "reg rd \<Longrightarrow> reg rs1 \<Longrightarrow> reg rs2 \<Longrightarrow> reg rs3 \<Longrightarrow> prints (IOp32F (op32_FNMSUB_S rd rs1 rs2 rs3 rm))"
  "reg rd \<Longrightarrow> reg rs1 \<Longrightarrow> reg rs2 \<Longrightarrow> reg rs3 \<Longrightarrow> prints (IOp32F (op32_FNMADD_S rd rs1 rs2 rs3 rm))"
  "reg rd \<Longrightarrow> reg rs1 \<Longrightarrow> reg rs2 \<Longrightarrow> prints (IOp32F (op32_FADD_S rd rs1 rs2 rm))"
  "reg rd \<Longrightarrow> reg rs1 \<Longrightarrow> reg rs2 \<Longrightarrow> prints (IOp32F (op32_FSUB_S rd rs1 rs2 rm))"
  "reg rd \<Longrightarrow> reg rs1 \<Longrightarrow> reg rs2 \<Longrightarrow> prints (IOp32F (op32_FMUL_S rd rs1 rs2 rm))"
  "reg rd \<Longrightarrow> reg rs1 \<Longrightarrow> reg rs2 \<Longrightarrow> prints (IOp32F (op32_FDIV_S rd rs1 rs2 rm))"
  "reg rd \<Longrightarrow> reg rs1 \<Longrightarrow> prints (IOp32F (op32_FSQRT_S rd rs1 rm))"
  "reg rd \<Longrightarrow> reg rs1 \<Longrightarrow> reg rs2 \<Longrightarrow> prints (IOp32F (op32_FSGNJ_S rd rs1 rs2))"
  "reg rd \<Longrightarrow> reg rs1 \<Longrightarrow> reg rs2 \<Longrightarrow> prints (IOp32F (op32_FSGNJN_S rd rs1 rs2))"
  "reg rd \<Longrightarrow> reg rs1 \<Longrightarrow> reg rs2 \<Longrightarrow> prints (IOp32F (op32_FSGNJX_S rd rs1 rs2))"
  "reg rd \<Longrightarrow> reg rs1 \<Longrightarrow> reg rs2 \<Longrightarrow> prints (IOp32F (op32_FMIN_S rd rs1 rs2))"
  "reg rd \<Longrightarrow> reg rs1 \<Longrightarrow> reg rs2 \<Longrightarrow> prints (IOp32F (op32_FMAX_S rd rs1 rs2))"
  "reg rd \<Longrightarrow> reg rs1 \<Longrightarrow> prints (IOp32F (op32_FCVT_W_S rd rs1 rm))"
  "reg rd \<Longrightarrow> reg rs1 \<Longrightarrow> prints (IOp32F (op32_FCVT_WU_S rd rs1 rm))"
  "reg rd \<Longrightarrow> reg rs1 \<Longrightarrow> prints (IOp32F (op32_FMV_X_W rd rs1))"
  "reg rd \<Longrightarrow> reg rs1 \<Longrightarrow> reg rs2 \<Longrightarrow> prints (IOp32F (op32_FEQ_S rd rs1 rs2))"
  "reg rd \<Longrightarrow> reg rs1 \<Longrightarrow> reg rs2 \<Longrightarrow> prints (IOp32F (op32_FLT_S rd rs1 rs2))"
  "reg rd \<Longrightarrow> reg rs1 \<Longrightarrow> reg rs2 \<Longrightarrow> prints (IOp32F (op32_FLE_S rd rs1 rs2))"
  "reg rd \<Longrightarrow> reg rs1 \<Longrightarrow> prints (IOp32F (op32_FCLASS_S rd rs1))"
  "reg rd \<Longrightarrow> reg rs1 \<Longrightarrow> prints (IOp32F (op32_FCVT_S_W rd rs1 rm))"
  "reg rd \<Longrightarrow> reg rs1 \<Longrightarrow> prints (IOp32F (op32_FCVT_S_WU rd rs1 rm))"
  "reg rd \<Longrightarrow> reg rs1 \<Longrightarrow> prints (IOp32F (op32_FMV_W_X rd rs1))"
  using name_le [of rd] name_le [of rs1] name_le [of rs2] name_le [of rs3] dec_string_word32 [of imm]
    dec_string_word32 [of uimm] hex_digits_word [of "word_of_int shamt :: uint32"] GetString_csr_length [of csr]
    rounding_mode_length [of rm]
  by ((cases "GetRoundingModeName rm"; simp add: format_simps op32F_ToString_defs))+

lemma op32D_prints:
  "reg rd \<Longrightarrow> reg rs1 \<Longrightarrow> prints (IOp32D (op32_FLD rd rs1 imm))"
  "reg rs1 \<Longrightarrow> reg rs2 \<Longrightarrow> prints (IOp32D (op32_FSD rs1 rs2 imm))"
  "reg rd \<Longrightarrow> reg rs1 \<Longrightarrow> reg rs2 \<Longrightarrow> reg rs3 \<Longrightarrow> prints (IOp32D (op32_FMADD_D rd rs1 rs2 rs3 rm))"
  "reg rd \<Longrightarrow> reg rs1 \<Longrightarrow> reg rs2 \<Longrightarrow> reg rs3 \<Longrightarrow> prints (IOp32D (op32_FMSUB_D rd rs1 rs2 rs3 rm))"
  "reg rd \<Longrightarrow> reg rs1 \<Longrightarrow> reg rs2 \<Longrightarrow> reg rs3 \<Longrightarrow> prints (IOp32D (op32_FNMSUB_D rd rs1 rs2 rs3 rm))"
  "reg rd \<Longrightarrow> reg rs1 \<Longrightarrow> reg rs2 \<Longrightarrow> reg rs3 \<Longrightarrow> prints (IOp32D (op32_FNMADD_D rd rs1 rs2 rs3 rm))"
  "reg rd \<Longrightarrow> reg rs1 \<Longrightarrow> reg rs2 \<Longrightarrow> prints (IOp32D (op32_FADD_D rd rs1 rs2 rm))"
  "reg rd \<Longrightarrow> reg rs1 \<Longrightarrow> reg rs2 \<Longrightarrow> prints (IOp32D (op32_FSUB_D rd rs1 rs2 rm))"
  "reg rd \<Longrightarrow> reg rs1 \<Longrightarrow> reg rs2 \<Longrightarrow> prints (IOp32D (op32_FMUL_D rd rs1 rs2 rm))"
  "reg rd \<Longrightarrow> reg rs1 \<Longrightarrow> reg rs2 \<Longrightarrow> prints (IOp32D (op32_FDIV_D rd rs1 rs2 rm))"
  "reg rd \<Longrightarrow> reg rs1 \<Longrightarrow> prints (IOp32D (op32_FSQRT_D rd rs1 rm))"
  "reg rd \<Longrightarrow> reg rs1 \<Longrightarrow> reg rs2 \<Longrightarrow> prints (IOp32D (op32_FSGNJ_D rd rs1 rs2))"
  "reg rd \<Longrightarrow> reg rs1 \<Longrightarrow> reg rs2 \<Longrightarrow> prints (IOp32D (op32_FSGNJN_D rd rs1 rs2))"
  "reg rd \<Longrightarrow> reg rs1 \<Longrightarrow> reg rs2 \<Longrightarrow> prints (IOp32D (op32_FSGNJX_D rd rs1 rs2))"
  "reg rd \<Longrightarrow> reg rs1 \<Longrightarrow> reg rs2 \<Longrightarrow> prints (IOp32D (op32_FMIN_D rd rs1 rs2))"
  "reg rd \<Longrightarrow> reg rs1 \<Longrightarrow> reg rs2 \<Longrightarrow> prints (IOp32D (op32_FMAX_D rd rs1 rs2))"
  "reg rd \<Longrightarrow> reg rs1 \<Longrightarrow> prints (IOp32D (op32_FCVT_S_D rd rs1 rm))"
  "reg rd \<Longrightarrow> reg rs1 \<Longrightarrow> prints (IOp32D (op32_FCVT_D_S rd rs1 rm))"
  "reg rd \<Longrightarrow> reg rs1 \<Longrightarrow> reg rs2 \<Longrightarrow> prints (IOp32D (op32_FEQ_D rd rs1 rs2))"
  "reg rd \<Longrightarrow> reg rs1 \<Longrightarrow> reg rs2 \<Longrightarrow> prints (IOp32D (op32_FLT_D rd rs1 rs2))"
  "reg rd \<Longrightarrow> reg rs1 \<Longrightarrow> reg rs2 \<Longrightarrow> prints (IOp32D (op32_FLE_D rd rs1 rs2))"
  "reg rd \<Longrightarrow> reg rs1 \<Longrightarrow> prints (IOp32D (op32_FCLASS_D rd rs1))"
  "reg rd \<Longrightarrow> reg rs1 \<Longrightarrow> prints (IOp32D (op32_FCVT_W_D rd rs1 rm))"
  "reg rd \<Longrightarrow> reg rs1 \<Longrightarrow> prints (IOp32D (op32_FCVT_WU_D rd rs1 rm))"
  "reg rd \<Longrightarrow> reg rs1 \<Longrightarrow> prints (IOp32D (op32_FCVT_D_W rd rs1 rm))"
  "reg rd \<Longrightarrow> reg rs1 \<Longrightarrow> prints (IOp32D (op32_FCVT_D_WU rd rs1 rm))"
  using name_le [of rd] name_le [of rs1] name_le [of rs2] name_le [of rs3] dec_string_word32 [of imm]
    dec_string_word32 [of uimm] hex_digits_word [of "word_of_int shamt :: uint32"] GetString_csr_length [of csr]
    rounding_mode_length [of rm]
  by ((cases "GetRoundingModeName rm"; simp add: format_simps op32D_ToString_defs))+

lemma op32C_prints:
  "prints (IOp32C op32_NOP)"
  using name_le [of rd] name_le [of rs1] name_le [of rs2] name_le [of rs3] dec_string_word32 [of imm]
    dec_string_word32 [of uimm] hex_digits_word [of "word_of_int shamt :: uint32"] GetString_csr_length [of csr]
    rounding_mode_length [of rm]
  by (simp_all add: format_simps op32C_ToString_defs)

lemma op64I_prints:
  "reg rd \<Longrightarrow> prints (IOp64I (op64_LUI rd imm))"
  "reg rd \<Longrightarrow> prints (IOp64I (op64_AUIPC rd imm))"
  "reg rd \<Longrightarrow> prints (IOp64I (op64_JAL rd imm))"
  "reg rd \<Longrightarrow> reg rs1 \<Longrightarrow> prints (IOp64I (op64_JALR rd rs1 imm))"
  "reg rs1 \<Longrightarrow> reg rs2 \<Longrightarrow> prints (IOp64I (op64_BEQ rs1 rs2 imm))"
  "reg rs1 \<Longrightarrow> reg rs2 \<Longrightarrow> prints (IOp64I (op64_BNE rs1 rs2 imm))"
  "reg rs1 \<Longrightarrow> reg rs2 \<Longrightarrow> prints (IOp64I (op64_BLT rs1 rs2 imm))"
  "reg rs1 \<Longrightarrow> reg rs2 \<Longrightarrow> prints (IOp64I (op64_BGE rs1 rs2 imm))"
  "reg rs1 \<Longrightarrow> reg rs2 \<Longrightarrow> prints (IOp64I (op64_BLTU rs1 rs2 imm))"
  "reg rs1 \<Longrightarrow> reg rs2 \<Longrightarrow> prints (IOp64I (op64_BGEU rs1 rs2 imm))"
  "reg rd \<Longrightarrow> reg rs1 \<Longrightarrow> prints (IOp64I (op64_LB rd rs1 imm))"
  "reg rd \<Longrightarrow> reg rs1 \<Longrightarrow> prints (IOp64I (op64_LH rd rs1 imm))"
  "reg rd \<Longrightarrow> reg rs1 \<Longrightarrow> prints (IOp64I (op64_LW rd rs1 imm))"
  "reg rd \<Longrightarrow> reg rs1 \<Longrightarrow> prints (IOp64I (op64_LD rd rs1 imm))"
  "reg rd \<Longrightarrow> reg rs1 \<Longrightarrow> prints (IOp64I (op64_LBU rd rs1 imm))"
  "reg rd \<Longrightarrow> reg rs1 \<Longrightarrow> prints (IOp64I (op64_LHU rd rs1 imm))"
  "reg rd \<Longrightarrow> reg rs1 \<Longrightarrow> prints (IOp64I (op64_LWU rd rs1 imm))"
  "reg rs1 \<Longrightarrow> reg rs2 \<Longrightarrow> prints (IOp64I (op64_SB rs1 rs2 imm))"
  "reg rs1 \<Longrightarrow> reg rs2 \<Longrightarrow> prints (IOp64I (op64_SH rs1 rs2 imm))"
  "reg rs1 \<Longrightarrow> reg rs2 \<Longrightarrow> prints (IOp64I (op64_SW rs1 rs2 imm))"
  "reg rs1 \<Longrightarrow> reg rs2 \<Longrightarrow> prints (IOp64I (op64_SD rs1 rs2 imm))"
  "reg rd \<Longrightarrow> reg rs1 \<Longrightarrow> prints (IOp64I (op64_ADDI rd rs1 imm))"
  "reg rd \<Longrightarrow> reg rs1 \<Longrightarrow> prints (IOp64I (op64_ADDIW rd rs1 imm))"
  "reg rd \<Longrightarrow> reg rs1 \<Longrightarrow> prints (IOp64I (op64_SLTI rd rs1 imm))"
  "reg rd \<Longrightarrow> reg rs1 \<Longrightarrow> prints (IOp64I (op64_SLTIU rd rs1 imm))"
  "reg rd \<Longrightarrow> reg rs1 \<Longrightarrow> prints (IOp64I (op64_XORI rd rs1 imm))"
  "reg rd \<Longrightarrow> reg rs1 \<Longrightarrow> prints (IOp64I (op64_ORI rd rs1 imm))"
  "reg rd \<Longrightarrow> reg rs1 \<Longrightarrow> prints (IOp64I (op64_ANDI rd rs1 imm))"
  "reg rd \<Longrightarrow> reg rs1 \<Longrightarrow> prints (IOp64I (op64_SLLI rd rs1 shamt))"
  "reg rd \<Longrightarrow> reg rs1 \<Longrightarrow> prints (IOp64I (op64_SLLIW rd rs1 shamt))"
  "reg rd \<Longrightarrow> reg rs1 \<Longrightarrow> prints (IOp64I (op64_SRLI rd rs1 shamt))"
  "reg rd \<Longrightarrow> reg rs1 \<Longrightarrow> prints (IOp64I (op64_SRLIW rd rs1 shamt))"
  "reg rd \<Longrightarrow> reg rs1 \<Longrightarrow> prints (IOp64I (op64_SRAI rd rs1 shamt))"
  "reg rd \<Longrightarrow> reg rs1 \<Longrightarrow> prints (IOp64I (op64_SRAIW rd rs1 shamt))"
  "reg rd \<Longrightarrow> reg rs1 \<Longrightarrow> reg rs2 \<Longrightarrow> prints (IOp64I (op64_ADD rd rs1 rs2))"
  "reg rd \<Longrightarrow> reg rs1 \<Longrightarrow> reg rs2 \<Longrightarrow> prints (IOp64I (op64_ADDW rd rs1 rs2))"
  "reg rd \<Longrightarrow> reg rs1 \<Longrightarrow> reg rs2 \<Longrightarrow> prints (IOp64I (op64_SUB rd rs1 rs2))"
  "reg rd \<Longrightarrow> reg rs1 \<Longrightarrow> reg rs2 \<Longrightarrow> prints (IOp64I (op64_SUBW rd rs1 rs2))"
  "reg rd \<Longrightarrow> reg rs1 \<Longrightarrow> reg rs2 \<Longrightarrow> prints (IOp64I (op64_SLL rd rs1 rs2))"
  "reg rd \<Longrightarrow> reg rs1 \<Longrightarrow> reg rs2 \<Longrightarrow> prints (IOp64I (op64_SLLW rd rs1 rs2))"
  "reg rd \<Longrightarrow> reg rs1 \<Longrightarrow> reg rs2 \<Longrightarrow> prints (IOp64I (op64_SLT rd rs1 rs2))"
  "reg rd \<Longrightarrow> reg rs1 \<Longrightarrow> reg rs2 \<Longrightarrow> prints (IOp64I (op64_SLTU rd rs1 rs2))"
  "reg rd \<Longrightarrow> reg rs1 \<Longrightarrow> reg rs2 \<Longrightarrow> prints (IOp64I (op64_XOR rd rs1 rs2))"
  "reg rd \<Longrightarrow> reg rs1 \<Longrightarrow> reg rs2 \<Longrightarrow> prints (IOp64I (op64_SRL rd rs1 rs2))"
  "reg rd \<Longrightarrow> reg rs1 \<Longrightarrow> reg rs2 \<Longrightarrow> prints (IOp64I (op64_SRLW rd rs1 rs2))"
  "reg rd \<Longrightarrow> reg rs1 \<Longrightarrow> reg rs2 \<Longrightarrow> prints (IOp64I (op64_SRA rd rs1 rs2))"
  "reg rd \<Longrightarrow> reg rs1 \<Longrightarrow> reg rs2 \<Longrightarrow> prints (IOp64I (op64_SRAW rd rs1 rs2))"
  "reg rd \<Longrightarrow> reg rs1 \<Longrightarrow> reg rs2 \<Longrightarrow> prints (IOp64I (op64_OR rd rs1 rs2))"
  "reg rd \<Longrightarrow> reg rs1 \<Longrightarrow> reg rs2 \<Longrightarrow> prints (IOp64I (op64_AND rd rs1 rs2))"
  "reg rd \<Longrightarrow> reg rs1 \<Longrightarrow> prints (IOp64I (op64_FENCE rd rs1 fm pred succ))"
  "reg rd \<Longrightarrow> reg rs1 \<Longrightarrow> prints (IOp64I (op64_FENCE_I rd rs1 imm))"
  "prints (IOp64I op64_ECALL)"
  "prints (IOp64I op64_EBREAK)"
  "reg rd \<Longrightarrow> reg rs1 \<Longrightarrow> prints (IOp64I (op64_CSRRW csr rd rs1))"
  "reg rd \<Longrightarrow> reg rs1 \<Longrightarrow> prints (IOp64I (op64_CSRRS csr rd rs1))"
  "reg rd \<Longrightarrow> reg rs1 \<Longrightarrow> prints (IOp64I (op64_CSRRC csr rd rs1))"
  "reg rd \<Longrightarrow> prints (IOp64I (op64_CSRRWI csr rd uimm))"
  "reg rd \<Longrightarrow> prints (IOp64I (op64_CSRRSI csr rd uimm))"
  "reg rd \<Longrightarrow> prints (IOp64I (op64_CSRRCI csr rd uimm))"
  "prints (IOp64I op64_URET)"
  "prints (IOp64I op64_SRET)"
  "prints (IOp64I op64_MRET)"
  "prints (IOp64I op64_WFI)"
  "reg rs1 \<Longrightarrow> reg rs2 \<Longrightarrow> prints (IOp64I (op64_SFENCE_VMA rs1 rs2))"
  using name_le [of rd] name_le [of rs1] name_le [of rs2] name_le [of rs3] dec_string_word32 [of imm]
    dec_string_word32 [of uimm] hex_digits_word [of "word_of_int shamt :: uint32"] GetString_csr_length [of csr]
    rounding_mode_length [of rm]
  by (simp_all add: format_simps op64I_ToString_defs)

lemma op64M_prints:
  "reg rd \<Longrightarrow> reg rs1 \<Longrightarrow> reg rs2 \<Longrightarrow> prints (IOp64M (op64_MUL rd rs1 rs2))"
  "reg rd \<Longrightarrow> reg rs1 \<Longrightarrow> reg rs2 \<Longrightarrow> prints (IOp64M (op64_MULH rd rs1 rs2))"
  "reg rd \<Longrightarrow> reg rs1 \<Longrightarrow> reg rs2 \<Longrightarrow> prints (IOp64M (op64_MULHSU rd rs1 rs2))"
  "reg rd \<Longrightarrow> reg rs1 \<Longrightarrow> reg rs2 \<Longrightarrow> prints (IOp64M (op64_MULHU rd rs1 rs2))"
  "reg rd \<Longrightarrow> reg rs1 \<Longrightarrow> reg rs2 \<Longrightarrow> prints (IOp64M (op64_MULW rd rs1 rs2))"
  "reg rd \<Longrightarrow> reg rs1 \<Longrightarrow> reg rs2 \<Longrightarrow> prints (IOp64M (op64_DIV rd rs1 rs2))"
  "reg rd \<Longrightarrow> reg rs1 \<Longrightarrow> reg rs2 \<Longrightarrow> prints (IOp64M (op64_DIVW rd rs1 rs2))"
  "reg rd \<Longrightarrow> reg rs1 \<Longrightarrow> reg rs2 \<Longrightarrow> prints (IOp64M (op64_DIVU rd rs1 rs2))"
  "reg rd \<Longrightarrow> reg rs1 \<Longrightarrow> reg rs2 \<Longrightarrow> prints (IOp64M (op64_DIVUW rd rs1 rs2))"
  "reg rd \<Longrightarrow> reg rs1 \<Longrightarrow> reg rs2 \<Longrightarrow> prints (IOp64M (op64_REM rd rs1 rs2))"
  "reg rd \<Longrightarrow> reg rs1 \<Longrightarrow> reg rs2 \<Longrightarrow> prints (IOp64M (op64_REMW rd rs1 rs2))"
  "reg rd \<Longrightarrow> reg rs1 \<Longrightarrow> reg rs2 \<Longrightarrow> prints (IOp64M (op64_REMU rd rs1 rs2))"
  "reg rd \<Longrightarrow> reg rs1 \<Longrightarrow> reg rs2 \<Longrightarrow> prints (IOp64M (op64_REMUW rd rs1 rs2))"
  using name_le [of rd] name_le [of rs1] name_le [of rs2] name_le [of rs3] dec_string_word32 [of imm]
    dec_string_word32 [of uimm] hex_digits_word [of "word_of_int shamt :: uint32"] GetString_csr_length [of csr]
    rounding_mode_length [of rm]
  by (simp_all add: format_simps op64M_ToString_defs)

lemma op64A_prints:
  "reg rd \<Longrightarrow> reg rs1 \<Longrightarrow> prints (IOp64A (op64_LR_W rd rs1 aq rl))"
  "reg rd \<Longrightarrow> reg rs1 \<Longrightarrow> prints (IOp64A (op64_LR_D rd rs1 aq rl))"
  "reg rd \<Longrightarrow> reg rs1 \<Longrightarrow> reg rs2 \<Longrightarrow> prints (IOp64A (op64_SC_W rd rs1 rs2 aq rl))"
  "reg rd \<Longrightarrow> reg rs1 \<Longrightarrow> reg rs2 \<Longrightarrow> prints (IOp64A (op64_SC_D rd rs1 rs2 aq rl))"
  "reg rd \<Longrightarrow> reg rs1 \<Longrightarrow> reg rs2 \<Longrightarrow> prints (IOp64A (op64_AMOSWAP_W rd rs1 rs2 aq rl))"
  "reg rd \<Longrightarrow> reg rs1 \<Longrightarrow> reg rs2 \<Longrightarrow> prints (IOp64A (op64_AMOSWAP_D rd rs1 rs2 aq rl))"
  "reg rd \<Longrightarrow> reg rs1 \<Longrightarrow> reg rs2 \<Longrightarrow> prints (IOp64A (op64_AMOADD_W rd rs1 rs2 aq rl))"
  "reg rd \<Longrightarrow> reg rs1 \<Longrightarrow> reg rs2 \<Longrightarrow> prints (IOp64A (op64_AMOADD_D rd rs1 rs2 aq rl))"
  "reg rd \<Longrightarrow> reg rs1 \<Longrightarrow> reg rs2 \<Longrightarrow> prints (IOp64A (op64_AMOXOR_W rd rs1 rs2 aq rl))"
  "reg rd \<Longrightarrow> reg rs1 \<Longrightarrow> reg rs2 \<Longrightarrow> prints (IOp64A (op64_AMOXOR_D rd rs1 rs2 aq rl))"
  "reg rd \<Longrightarrow> reg rs1 \<Longrightarrow> reg rs2 \<Longrightarrow> prints (IOp64A (op64_AMOAND_W rd rs1 rs2 aq rl))"
  "reg rd \<Longrightarrow> reg rs1 \<Longrightarrow> reg rs2 \<Longrightarrow> prints (IOp64A (op64_AMOAND_D rd rs1 rs2 aq rl))"
  "reg rd \<Longrightarrow> reg rs1 \<Longrightarrow> reg rs2 \<Longrightarrow> prints (IOp64A (op64_AMOOR_W rd rs1 rs2 aq rl))"
  "reg rd \<Longrightarrow> reg rs1 \<Longrightarrow> reg rs2 \<Longrightarrow> prints (IOp64A (op64_AMOOR_D rd rs1 rs2 aq rl))"
  "reg rd \<Longrightarrow> reg rs1 \<Longrightarrow> reg rs2 \<Longrightarrow> prints (IOp64A (op64_AMOMIN_W rd rs1 rs2 aq rl))"
  "reg rd \<Longrightarrow> reg rs1 \<Longrightarrow> reg rs2 \<Longrightarrow> prints (IOp64A (op64_AMOMIN_D rd rs1 rs2 aq rl))"
  "reg rd \<Longrightarrow> reg rs1 \<Longrightarrow> reg rs2 \<Longrightarrow> prints (IOp64A (op64_AMOMAX_W rd rs1 rs2 aq rl))"
  "reg rd \<Longrightarrow> reg rs1 \<Longrightarrow> reg rs2 \<Longrightarrow> prints (IOp64A (op64_AMOMAX_D rd rs1 rs2 aq rl))"
  "reg rd \<Longrightarrow> reg rs1 \<Longrightarrow> reg rs2 \<Longrightarrow> prints (IOp64A (op64_AMOMINU_W rd rs1 rs2 aq rl))"
  "reg rd \<Longrightarrow> reg rs1 \<Longrightarrow> reg rs2 \<Longrightarrow> prints (IOp64A (op64_AMOMINU_D rd rs1 rs2 aq rl))"
  "reg rd \<Longrightarrow> reg rs1 \<Longrightarrow> reg rs2 \<Longrightarrow> prints (IOp64A (op64_AMOMAXU_W rd rs1 rs2 aq rl))"
  "reg rd \<Longrightarrow> reg rs1 \<Longrightarrow> reg rs2 \<Longrightarrow> prints (IOp64A (op64_AMOMAXU_D rd rs1 rs2 aq rl))"
  using name_le [of rd] name_le [of rs1] name_le [of rs2] name_le [of rs3] dec_string_word32 [of imm]
    dec_string_word32 [of uimm] hex_digits_word [of "word_of_int shamt :: uint32"] GetString_csr_length [of csr]
    rounding_mode_length [of rm]
  by (simp_all add: format_simps op64A_ToString_defs)

lemma op64F_prints:
  "reg rd \<Longrightarrow> reg rs1 \<Longrightarrow> prints (IOp64F (op64_FLW rd rs1 imm))"
  "reg rs1 \<Longrightarrow> reg rs2 \<Longrightarrow> prints (IOp64F (op64_FSW rs1 rs2 imm))"
  "reg rd \<Longrightarrow> reg rs1 \<Longrightarrow> reg rs2 \<Longrightarrow> reg rs3 \<Longrightarrow> prints (IOp64F (op64_FMADD_S rd rs1 rs2 rs3 rm))"
  "reg rd \<Longrightarrow> reg rs1 \<Longrightarrow> reg rs2 \<Longrightarrow> reg rs3 \<Longrightarrow> prints (IOp64F (op64_FMSUB_S rd rs1 rs2 rs3 rm))"
  "reg rd \<Longrightarrow> reg rs1 \<Longrightarrow> reg rs2 \<Longrightarrow> reg rs3 \<Longrightarrow> prints (IOp64F (op64_FNMSUB_S rd rs1 rs2 rs3 rm))"
  "reg rd \<Longrightarrow> reg rs1 \<Longrightarrow> reg rs2 \<Longrightarrow> reg rs3 \<Longrightarrow> prints (IOp64F (op64_FNMADD_S rd rs1 rs2 rs3 rm))"
  "reg rd \<Longrightarrow> reg rs1 \<Longrightarrow> reg rs2 \<Longrightarrow> prints (IOp64F (op64_FADD_S rd rs1 rs2 rm))"
  "reg rd \<Longrightarrow> reg rs1 \<Longrightarrow> reg rs2 \<Longrightarrow> prints (IOp64F (op64_FSUB_S rd rs1 rs2 rm))"
  "reg rd \<Longrightarrow> reg rs1 \<Longrightarrow> reg rs2 \<Longrightarrow> prints (IOp64F (op64_FMUL_S rd rs1 rs2 rm))"
  "reg rd \<Longrightarrow> reg rs1 \<Longrightarrow> reg rs2 \<Longrightarrow> prints (IOp64F (op64_FDIV_S rd rs1 rs2 rm))"
  "reg rd \<Longrightarrow> reg rs1 \<Longrightarrow> prints (IOp64F (op64_FSQRT_S rd rs1 rm))"
  "reg rd \<Longrightarrow> reg rs1 \<Longrightarrow> reg rs2 \<Longrightarrow> prints (IOp64F (op64_FSGNJ_S rd rs1 rs2))"
  "reg rd \<Longrightarrow> reg rs1 \<Longrightarrow> reg rs2 \<Longrightarrow> prints (IOp64F (op64_FSGNJN_S rd rs1 rs2))"
  "reg rd \<Longrightarrow> reg rs1 \<Longrightarrow> reg rs2 \<Longrightarrow> prints (IOp64F (op64_FSGNJX_S rd rs1 rs2))"
  "reg rd \<Longrightarrow> reg rs1 \<Longrightarrow> reg rs2 \<Longrightarrow> prints (IOp64F (op64_FMIN_S rd rs1 rs2))"
  "reg rd \<Longrightarrow> reg rs1 \<Longrightarrow> reg rs2 \<Longrightarrow> prints (IOp64F (op64_FMAX_S rd rs1 rs2))"
  "reg rd \<Longrightarrow> reg rs1 \<Longrightarrow> prints (IOp64F (op64_FCVT_W_S rd rs1 rm))"
  "reg rd \<Longrightarrow> reg rs1 \<Longrightarrow> prints (IOp64F (op64_FCVT_WU_S rd rs1 rm))"
  "reg rd \<Longrightarrow> reg rs1 \<Longrightarrow> prints (IOp64F (op64_FMV_X_W rd rs1))"
  "reg rd \<Longrightarrow> reg rs1 \<Longrightarrow> reg rs2 \<Longrightarrow> prints (IOp64F (op64_FEQ_S rd rs1 rs2))"
  "reg rd \<Longrightarrow> reg rs1 \<Longrightarrow> reg rs2 \<Longrightarrow> prints (IOp64F (op64_FLT_S rd rs1 rs2))"
  "reg rd \<Longrightarrow> reg rs1 \<Longrightarrow> reg rs2 \<Longrightarrow> prints (IOp64F (op64_FLE_S rd rs1 rs2))"
  "reg rd \<Longrightarrow> reg rs1 \<Longrightarrow> prints (IOp64F (op64_FCLASS_S rd rs1))"
  "reg rd \<Longrightarrow> reg rs1 \<Longrightarrow> prints (IOp64F (op64_FCVT_S_W rd rs1 rm))"
  "reg rd \<Longrightarrow> reg rs1 \<Longrightarrow> prints (IOp64F (op64_FCVT_S_WU rd rs1 rm))"
  "reg rd \<Longrightarrow> reg rs1 \<Longrightarrow> prints (IOp64F (op64_FMV_W_X rd rs1))"
  "reg rd \<Longrightarrow> reg rs1 \<Longrightarrow> prints (IOp64F (op64_FCVT_L_S rd rs1 rm))"
  "reg rd \<Longrightarrow> reg rs1 \<Longrightarrow> prints (IOp64F (op64_FCVT_LU_S rd rs1 rm))"
  "reg rd \<Longrightarrow> reg rs1 \<Longrightarrow> prints (IOp64F (op64_FCVT_S_L rd rs1 rm))"
  "reg rd \<Longrightarrow> reg rs1 \<Longrightarrow> prints (IOp64F (op64_FCVT_S_LU rd rs1 rm))"
  using name_le [of rd] name_le [of rs1] name_le [of rs2] name_le [of rs3] dec_string_word32 [of imm]
    dec_string_word32 [of uimm] hex_digits_word [of "word_of_int shamt :: uint32"] GetString_csr_length [of csr]
    rounding_mode_length [of rm]
  by ((cases "GetRoundingModeName rm"; simp add: format_simps op64F_ToString_defs))+

lemma op64D_prints:
  "reg rd \<Longrightarrow> reg rs1 \<Longrightarrow> prints (IOp64D (op64_FLD rd rs1 imm))"
  "reg rs1 \<Longrightarrow> reg rs2 \<Longrightarrow> prints (IOp64D (op64_FSD rs1 rs2 imm))"
  "reg rd \<Longrightarrow> reg rs1 \<Longrightarrow> reg rs2 \<Longrightarrow> reg rs3 \<Longrightarrow> prints (IOp64D (op64_FMADD_D rd rs1 rs2 rs3 rm))"
  "reg rd \<Longrightarrow> reg rs1 \<Longrightarrow> reg rs2 \<Longrightarrow> reg rs3 \<Longrightarrow> prints (IOp64D (op64_FMSUB_D rd rs1 rs2 rs3 rm))"
  "reg rd \<Longrightarrow> reg rs1 \<Longrightarrow> reg rs2 \<Longrightarrow> reg rs3 \<Longrightarrow> prints (IOp64D (op64_FNMSUB_D rd rs1 rs2 rs3 rm))"
  "reg rd \<Longrightarrow> reg rs1 \<Longrightarrow> reg rs2 \<Longrightarrow> reg rs3 \<Longrightarrow> prints (IOp64D (op64_FNMADD_D rd rs1 rs2 rs3 rm))"
  "reg rd \<Longrightarrow> reg rs1 \<Longrightarrow> reg rs2 \<Longrightarrow> prints (IOp64D (op64_FADD_D rd rs1 rs2 rm))"
  "reg rd \<Longrightarrow> reg rs1 \<Longrightarrow> reg rs2 \<Longrightarrow> prints (IOp64D (op64_FSUB_D rd rs1 rs2 rm))"
  "reg rd \<Longrightarrow> reg rs1 \<Longrightarrow> reg rs2 \<Longrightarrow> prints (IOp64D (op64_FMUL_D rd rs1 rs2 rm))"
  "reg rd \<Longrightarrow> reg rs1 \<Longrightarrow> reg rs2 \<Longrightarrow> prints (IOp64D (op64_FDIV_D rd rs1 rs2 rm))"
  "reg rd \<Longrightarrow> reg rs1 \<Longrightarrow> prints (IOp64D (op64_FSQRT_D rd rs1 rm))"
  "reg rd \<Longrightarrow> reg rs1 \<Longrightarrow> reg rs2 \<Longrightarrow> prints (IOp64D (op64_FSGNJ_D rd rs1 rs2))"
  "reg rd \<Longrightarrow> reg rs1 \<Longrightarrow> reg rs2 \<Longrightarrow> prints (IOp64D (op64_FSGNJN_D rd rs1 rs2))"
  "reg rd \<Longrightarrow> reg rs1 \<Longrightarrow> reg rs2 \<Longrightarrow> prints (IOp64D (op64_FSGNJX_D rd rs1 rs2))"
  "reg rd \<Longrightarrow> reg rs1 \<Longrightarrow> reg rs2 \<Longrightarrow> prints (IOp64D (op64_FMIN_D rd rs1 rs2))"
  "reg rd \<Longrightarrow> reg rs1 \<Longrightarrow> reg rs2 \<Longrightarrow> prints (IOp64D (op64_FMAX_D rd rs1 rs2))"
  "reg rd \<Longrightarrow> reg rs1 \<Longrightarrow> prints (IOp64D (op64_FCVT_S_D rd rs1 rm))"
  "reg rd \<Longrightarrow> reg rs1 \<Longrightarrow> prints (IOp64D (op64_FCVT_D_S rd rs1 rm))"
  "reg rd \<Longrightarrow> reg rs1 \<Longrightarrow> reg rs2 \<Longrightarrow> prints (IOp64D (op64_FEQ_D rd rs1 rs2))"
  "reg rd \<Longrightarrow> reg rs1 \<Longrightarrow> reg rs2 \<Longrightarrow> prints (IOp64D (op64_FLT_D rd rs1 rs2))"
  "reg rd \<Longrightarrow> reg rs1 \<Longrightarrow> reg rs2 \<Longrightarrow> prints (IOp64D (op64_FLE_D rd rs1 rs2))"
  "reg rd \<Longrightarrow> reg rs1 \<Longrightarrow> prints (IOp64D (op64_FCLASS_D rd rs1))"
  "reg rd \<Longrightarrow> reg rs1 \<Longrightarrow> prints (IOp64D (op64_FCVT_W_D rd rs1 rm))"
  "reg rd \<Longrightarrow> reg rs1 \<Longrightarrow> prints (IOp64D (op64_FCVT_WU_D rd rs1 rm))"
  "reg rd \<Longrightarrow> reg rs1 \<Longrightarrow> prints (IOp64D (op64_FCVT_D_W rd rs1 rm))"
  "reg rd \<Longrightarrow> reg rs1 \<Longrightarrow> prints (IOp64D (op64_FCVT_D_WU rd rs1 rm))"
  "reg rd \<Longrightarrow> reg rs1 \<Longrightarrow> prints (IOp64D (op64_FCVT_L_D rd rs1 rm))"
  "reg rd \<Longrightarrow> reg rs1 \<Longrightarrow> prints (IOp64D (op64_FCVT_LU_D rd rs1 rm))"
  "reg rd \<Longrightarrow> reg rs1 \<Longrightarrow> prints (IOp64D (op64_FMV_X_D rd rs1))"
  "reg rd \<Longrightarrow> reg rs1 \<Longrightarrow> prints (IOp64D (op64_FCVT_D_L rd rs1 rm))"
  "reg rd \<Longrightarrow> reg rs1 \<Longrightarrow> prints (IOp64D (op64_FCVT_D_LU rd rs1 rm))"
  "reg rd \<Longrightarrow> reg rs1 \<Longrightarrow> prints (IOp64D (op64_FMV_D_X rd rs1))"
  using name_le [of rd] name_le [of rs1] name_le [of rs2] name_le [of rs3] dec_string_word32 [of imm]
    dec_string_word32 [of uimm] hex_digits_word [of "word_of_int shamt :: uint32"] GetString_csr_length [of csr]
    rounding_mode_length [of rm]
  by ((cases "GetRoundingModeName rm"; simp add: format_simps op64D_ToString_defs))+

lemma op64C_prints:
  "prints (IOp64C op64_NOP)"
  using name_le [of rd] name_le [of rs1] name_le [of rs2] name_le [of rs3] dec_string_word32 [of imm]
    dec_string_word32 [of uimm] hex_digits_word [of "word_of_int shamt :: uint32"] GetString_csr_length [of csr]
    rounding_mode_length [of rm]
  by (simp_all add: format_simps op64C_ToString_defs)

section \<open>Decoded instructions\<close>

definition printable :: "IOp option \<Rightarrow> bool" where
  "printable d = (\<forall>op. d = Some op \<longrightarrow> prints op)"

lemma printable_rules:
  "printable None"
  "prints op \<Longrightarrow> printable (Some op)"
  "printable x \<Longrightarrow> printable y \<Longrightarrow> printable (if b then x else y)"
  "(\<And>v. v = e \<Longrightarrow> printable (f v)) \<Longrightarrow> printable (let v = e in f v)"
  by (simp_all add: printable_def)

lemma printable_RV32I: "printable (OpDecoder_DecodeRV32I insn)"
  unfolding OpDecoder_DecodeRV32I_def Let_def
  by (intro printable_rules op32I_prints OpPick_reg OpPick_reg_alu order_refl; simp)

lemma printable_RV32M: "printable (OpDecoder_DecodeRV32M insn)"
  unfolding OpDecoder_DecodeRV32M_def Let_def
  by (intro printable_rules op32M_prints OpPick_reg OpPick_reg_alu order_refl; simp)

lemma printable_RV32A: "printable (OpDecoder_DecodeRV32A insn)"
  unfolding OpDecoder_DecodeRV32A_def Let_def
  by (intro printable_rules op32A_prints OpPick_reg OpPick_reg_alu order_refl; simp)

lemma printable_RV32F: "printable (OpDecoder_DecodeRV32F insn)"
  unfolding OpDecoder_DecodeRV32F_def Let_def
  by (intro printable_rules op32F_prints OpPick_reg OpPick_reg_alu order_refl; simp)

lemma printable_RV32D: "printable (OpDecoder_DecodeRV32D insn)"
  unfolding OpDecoder_DecodeRV32D_def Let_def
  by (intro printable_rules op32D_prints OpPick_reg OpPick_reg_alu order_refl; simp)

lemma printable_RV32C_Quadrant0: "printable (OpDecoder_DecodeRV32C_Quadrant0 insn)"
  unfolding OpDecoder_DecodeRV32C_Quadrant0_def Let_def
  by (intro printable_rules op32I_prints op32D_prints op32F_prints op32C_prints OpPick_reg OpPick_reg_alu order_refl; simp)

lemma printable_RV32C_Quadrant1: "printable (OpDecoder_DecodeRV32C_Quadrant1 insn)"
  unfolding OpDecoder_DecodeRV32C_Quadrant1_def Let_def
  by (intro printable_rules op32I_prints op32D_prints op32F_prints op32C_prints OpPick_reg OpPick_reg_alu order_refl; simp)

lemma printable_RV32C_Quadrant2: "printable (OpDecoder_DecodeRV32C_Quadrant2 insn)"
  unfolding OpDecoder_DecodeRV32C_Quadrant2_def Let_def
  by (intro printable_rules op32I_prints op32D_prints op32F_prints op32C_prints OpPick_reg OpPick_reg_alu order_refl; simp)

lemma printable_RV32C: "printable (OpDecoder_DecodeRV32C insn)"
  unfolding OpDecoder_DecodeRV32C_def Let_def
  by (intro printable_rules printable_RV32C_Quadrant0 printable_RV32C_Quadrant1 printable_RV32C_Quadrant2)

lemma printable_RV32: "printable (OpDecoder_DecodeRV32 insn)"
  unfolding OpDecoder_DecodeRV32_def Let_def
  by (intro printable_rules printable_RV32I printable_RV32M printable_RV32A printable_RV32F printable_RV32D printable_RV32C)

lemma printable_RV64I: "printable (OpDecoder_DecodeRV64I insn)"
  unfolding OpDecoder_DecodeRV64I_def Let_def
  by (intro printable_rules op64I_prints OpPick_reg OpPick_reg_alu order_refl; simp)

lemma printable_RV64M: "printable (OpDecoder_DecodeRV64M insn)"
  unfolding OpDecoder_DecodeRV64M_def Let_def
  by (intro printable_rules op64M_prints OpPick_reg OpPick_reg_alu order_refl; simp)

lemma printable_RV64A: "printable (OpDecoder_DecodeRV64A insn)"
  unfolding OpDecoder_DecodeRV64A_def Let_def
  by (intro printable_rules op64A_prints OpPick_reg OpPick_reg_alu order_refl; simp)

lemma printable_RV64F: "printable (OpDecoder_DecodeRV64F insn)"
  unfolding OpDecoder_DecodeRV64F_def Let_def
  by (intro printable_rules op64F_prints OpPick_reg OpPick_reg_alu order_refl; simp)

lemma printable_RV64D: "printable (OpDecoder_DecodeRV64D insn)"
  unfolding OpDecoder_DecodeRV64D_def Let_def
  by (intro printable_rules op64D_prints OpPick_reg OpPick_reg_alu order_refl; simp)

lemma printable_RV64C_Quadrant0: "printable (OpDecoder_DecodeRV64C_Quadrant0 insn)"
  unfolding OpDecoder_DecodeRV64C_Quadrant0_def Let_def
  by (intro printable_rules op64I_prints op64D_prints op64F_prints op64C_prints OpPick_reg OpPick_reg_alu order_refl; simp)

lemma printable_RV64C_Quadrant1: "printable (OpDecoder_DecodeRV64C_Quadrant1 insn)"
  unfolding OpDecoder_DecodeRV64C_Quadrant1_def Let_def
  by (intro printable_rules op64I_prints op64D_prints op64F_prints op64C_prints OpPick_reg OpPick_reg_alu order_refl; simp)

lemma printable_RV64C_Quadrant2: "printable (OpDecoder_DecodeRV64C_Quadrant2 insn)"
  unfolding OpDecoder_DecodeRV64C_Quadrant2_def Let_def
  by (intro printable_rules op64I_prints op64D_prints op64F_prints op64C_prints OpPick_reg OpPick_reg_alu order_refl; simp)

lemma printable_RV64C: "printable (OpDecoder_DecodeRV64C insn)"
  unfolding OpDecoder_DecodeRV64C_def Let_def
  by (intro printable_rules printable_RV64C_Quadrant0 printable_RV64C_Quadrant1 printable_RV64C_Quadrant2)

lemma printable_RV64: "printable (OpDecoder_DecodeRV64 insn)"
  unfolding OpDecoder_DecodeRV64_def Let_def
  by (intro printable_rules printable_RV64I printable_RV64M printable_RV64A printable_RV64F printable_RV64D printable_RV64C)

section \<open>Properties\<close>

text \<open>
  C24. The text of every instruction the tools can decode is formatted safely: on both widths the
  decoder returns for every instruction word, and when it returns an object, the method
  \<open>ToString\<close> ends without a null pointer behind a conversion and stays inside the buffer of 80 characters.
  On the third value of \<open>XLEN\<close> the decoder ends the process.
\<close>

theorem decoded_text_fits:
  "case OpDecoder_Decode xlen insn of
     Inl e \<Rightarrow> xlen = XLEN128 \<and> e = ProcessExit
   | Inr None \<Rightarrow> xlen \<noteq> XLEN128
   | Inr (Some op) \<Rightarrow> xlen \<noteq> XLEN128 \<and> (case IOp_ToString op of Inr s \<Rightarrow> length s < 80 | Inl e \<Rightarrow> False)"
  using printable_RV32 [of insn] printable_RV64 [of insn]
  by (cases xlen) (simp_all add: OpDecoder_Decode_def printable_def prints_iff split: option.split)

end
