(* ===== verification/DecodersAgree.thy ===== *)
theory DecodersAgree
  imports OpText
begin

text \<open>
  The program has two decoders: \<^verbatim>\<open>lib/common/Decoder.cpp\<close> for the emulator and
  \<^verbatim>\<open>lib/op/OpDecoder.cpp\<close> for the text the trace tools print. \<open>shown32\<close> and
  \<open>shown64\<close> say which object of the class library stands for an operation of the emulator:
  the class of the same name, with the operation's operands as members. The two decoders agree on
  every word of 32 bits outside the families of \<open>shows_wrong\<close>, and differ on those: agreement
  means the same instruction with the same operands, or that neither decoder knows the word.
\<close>

section \<open>The object that stands for an operation\<close>

primrec shown32I :: "OpCodeI \<Rightarrow> Operand \<Rightarrow> op32I option" where
  "shown32I op_lui od = (case od of OperandU imm rd \<Rightarrow> Some (op32_LUI rd (take_bit 20 (drop_bit 12 (ucast imm)))) | _ \<Rightarrow> None)"
| "shown32I op_auipc od = (case od of OperandU imm rd \<Rightarrow> Some (op32_AUIPC rd (take_bit 20 (drop_bit 12 (ucast imm)))) | _ \<Rightarrow> None)"
| "shown32I op_jal od = (case od of OperandJ imm rd \<Rightarrow> Some (op32_JAL rd (ucast imm)) | _ \<Rightarrow> None)"
| "shown32I op_jalr od = (case od of OperandI imm rd rs1 funct3 \<Rightarrow> Some (op32_JALR rd rs1 (ucast imm)) | _ \<Rightarrow> None)"
| "shown32I op_beq od = (case od of OperandB imm rs1 rs2 funct3 \<Rightarrow> Some (op32_BEQ rs1 rs2 (ucast imm)) | _ \<Rightarrow> None)"
| "shown32I op_bne od = (case od of OperandB imm rs1 rs2 funct3 \<Rightarrow> Some (op32_BNE rs1 rs2 (ucast imm)) | _ \<Rightarrow> None)"
| "shown32I op_blt od = (case od of OperandB imm rs1 rs2 funct3 \<Rightarrow> Some (op32_BLT rs1 rs2 (ucast imm)) | _ \<Rightarrow> None)"
| "shown32I op_bge od = (case od of OperandB imm rs1 rs2 funct3 \<Rightarrow> Some (op32_BGE rs1 rs2 (ucast imm)) | _ \<Rightarrow> None)"
| "shown32I op_bltu od = (case od of OperandB imm rs1 rs2 funct3 \<Rightarrow> Some (op32_BLTU rs1 rs2 (ucast imm)) | _ \<Rightarrow> None)"
| "shown32I op_bgeu od = (case od of OperandB imm rs1 rs2 funct3 \<Rightarrow> Some (op32_BGEU rs1 rs2 (ucast imm)) | _ \<Rightarrow> None)"
| "shown32I op_lb od = (case od of OperandI imm rd rs1 funct3 \<Rightarrow> Some (op32_LB rd rs1 (ucast imm)) | _ \<Rightarrow> None)"
| "shown32I op_lh od = (case od of OperandI imm rd rs1 funct3 \<Rightarrow> Some (op32_LH rd rs1 (ucast imm)) | _ \<Rightarrow> None)"
| "shown32I op_lw od = (case od of OperandI imm rd rs1 funct3 \<Rightarrow> Some (op32_LW rd rs1 (ucast imm)) | _ \<Rightarrow> None)"
| "shown32I op_ld od = None"
| "shown32I op_lbu od = (case od of OperandI imm rd rs1 funct3 \<Rightarrow> Some (op32_LBU rd rs1 (ucast imm)) | _ \<Rightarrow> None)"
| "shown32I op_lhu od = (case od of OperandI imm rd rs1 funct3 \<Rightarrow> Some (op32_LHU rd rs1 (ucast imm)) | _ \<Rightarrow> None)"
| "shown32I op_lwu od = None"
| "shown32I op_sb od = (case od of OperandS imm rs1 rs2 funct3 \<Rightarrow> Some (op32_SB rs1 rs2 (ucast imm)) | _ \<Rightarrow> None)"
| "shown32I op_sh od = (case od of OperandS imm rs1 rs2 funct3 \<Rightarrow> Some (op32_SH rs1 rs2 (ucast imm)) | _ \<Rightarrow> None)"
| "shown32I op_sw od = (case od of OperandS imm rs1 rs2 funct3 \<Rightarrow> Some (op32_SW rs1 rs2 (ucast imm)) | _ \<Rightarrow> None)"
| "shown32I op_sd od = None"
| "shown32I op_addi od = (case od of OperandI imm rd rs1 funct3 \<Rightarrow> Some (op32_ADDI rd rs1 (ucast imm)) | _ \<Rightarrow> None)"
| "shown32I op_addiw od = None"
| "shown32I op_slti od = (case od of OperandI imm rd rs1 funct3 \<Rightarrow> Some (op32_SLTI rd rs1 (ucast imm)) | _ \<Rightarrow> None)"
| "shown32I op_sltiu od = (case od of OperandI imm rd rs1 funct3 \<Rightarrow> Some (op32_SLTIU rd rs1 (ucast imm)) | _ \<Rightarrow> None)"
| "shown32I op_xori od = (case od of OperandI imm rd rs1 funct3 \<Rightarrow> Some (op32_XORI rd rs1 (ucast imm)) | _ \<Rightarrow> None)"
| "shown32I op_ori od = (case od of OperandI imm rd rs1 funct3 \<Rightarrow> Some (op32_ORI rd rs1 (ucast imm)) | _ \<Rightarrow> None)"
| "shown32I op_andi od = (case od of OperandI imm rd rs1 funct3 \<Rightarrow> Some (op32_ANDI rd rs1 (ucast imm)) | _ \<Rightarrow> None)"
| "shown32I op_slli od = (case od of OperandShiftImm rd rs1 shamt \<Rightarrow> Some (op32_SLLI rd rs1 shamt) | _ \<Rightarrow> None)"
| "shown32I op_slliw od = None"
| "shown32I op_srli od = (case od of OperandShiftImm rd rs1 shamt \<Rightarrow> Some (op32_SRLI rd rs1 shamt) | _ \<Rightarrow> None)"
| "shown32I op_srliw od = None"
| "shown32I op_srai od = (case od of OperandShiftImm rd rs1 shamt \<Rightarrow> Some (op32_SRAI rd rs1 shamt) | _ \<Rightarrow> None)"
| "shown32I op_sraiw od = None"
| "shown32I op_add od = (case od of OperandR rd rs1 rs2 funct3 funct7 \<Rightarrow> Some (op32_ADD rd rs1 rs2) | _ \<Rightarrow> None)"
| "shown32I op_addw od = None"
| "shown32I op_sub od = (case od of OperandR rd rs1 rs2 funct3 funct7 \<Rightarrow> Some (op32_SUB rd rs1 rs2) | _ \<Rightarrow> None)"
| "shown32I op_subw od = None"
| "shown32I op_sll od = (case od of OperandR rd rs1 rs2 funct3 funct7 \<Rightarrow> Some (op32_SLL rd rs1 rs2) | _ \<Rightarrow> None)"
| "shown32I op_sllw od = None"
| "shown32I op_slt od = (case od of OperandR rd rs1 rs2 funct3 funct7 \<Rightarrow> Some (op32_SLT rd rs1 rs2) | _ \<Rightarrow> None)"
| "shown32I op_sltu od = (case od of OperandR rd rs1 rs2 funct3 funct7 \<Rightarrow> Some (op32_SLTU rd rs1 rs2) | _ \<Rightarrow> None)"
| "shown32I op_xor od = (case od of OperandR rd rs1 rs2 funct3 funct7 \<Rightarrow> Some (op32_XOR rd rs1 rs2) | _ \<Rightarrow> None)"
| "shown32I op_srl od = (case od of OperandR rd rs1 rs2 funct3 funct7 \<Rightarrow> Some (op32_SRL rd rs1 rs2) | _ \<Rightarrow> None)"
| "shown32I op_srlw od = None"
| "shown32I op_sra od = (case od of OperandR rd rs1 rs2 funct3 funct7 \<Rightarrow> Some (op32_SRA rd rs1 rs2) | _ \<Rightarrow> None)"
| "shown32I op_sraw od = None"
| "shown32I op_or od = (case od of OperandR rd rs1 rs2 funct3 funct7 \<Rightarrow> Some (op32_OR rd rs1 rs2) | _ \<Rightarrow> None)"
| "shown32I op_and od = (case od of OperandR rd rs1 rs2 funct3 funct7 \<Rightarrow> Some (op32_AND rd rs1 rs2) | _ \<Rightarrow> None)"
| "shown32I op_fence od = (case od of OperandFence pred succ \<Rightarrow> Some (op32_FENCE 0 0 0 (word_of_int pred) (word_of_int succ)) | _ \<Rightarrow> None)"
| "shown32I op_fence_i od = (case od of OperandFence pred succ \<Rightarrow> Some (op32_FENCE_I 0 0 0) | _ \<Rightarrow> None)"
| "shown32I op_ecall od = Some op32_ECALL"
| "shown32I op_ebreak od = Some op32_EBREAK"
| "shown32I op_csrrw od = (case od of OperandCsr rd rs1 csr \<Rightarrow> Some (op32_CSRRW csr rd rs1) | _ \<Rightarrow> None)"
| "shown32I op_csrrs od = (case od of OperandCsr rd rs1 csr \<Rightarrow> Some (op32_CSRRS csr rd rs1) | _ \<Rightarrow> None)"
| "shown32I op_csrrc od = (case od of OperandCsr rd rs1 csr \<Rightarrow> Some (op32_CSRRC csr rd rs1) | _ \<Rightarrow> None)"
| "shown32I op_csrrwi od = (case od of OperandCsrImm zimm rd csr \<Rightarrow> Some (op32_CSRRWI csr rd zimm) | _ \<Rightarrow> None)"
| "shown32I op_csrrsi od = (case od of OperandCsrImm zimm rd csr \<Rightarrow> Some (op32_CSRRSI csr rd zimm) | _ \<Rightarrow> None)"
| "shown32I op_csrrci od = (case od of OperandCsrImm zimm rd csr \<Rightarrow> Some (op32_CSRRCI csr rd zimm) | _ \<Rightarrow> None)"
| "shown32I op_mret od = Some op32_MRET"
| "shown32I op_sret od = Some op32_SRET"
| "shown32I op_uret od = Some op32_URET"
| "shown32I op_wfi od = Some op32_WFI"
| "shown32I op_sfence_vma od = (case od of OperandR rd rs1 rs2 funct3 funct7 \<Rightarrow> Some (op32_SFENCE_VMA rs1 rs2) | _ \<Rightarrow> None)"

primrec shown32M :: "OpCodeM \<Rightarrow> Operand \<Rightarrow> op32M option" where
  "shown32M op_mul od = (case od of OperandR rd rs1 rs2 funct3 funct7 \<Rightarrow> Some (op32_MUL rd rs1 rs2) | _ \<Rightarrow> None)"
| "shown32M op_mulw od = None"
| "shown32M op_mulh od = (case od of OperandR rd rs1 rs2 funct3 funct7 \<Rightarrow> Some (op32_MULH rd rs1 rs2) | _ \<Rightarrow> None)"
| "shown32M op_mulhsu od = (case od of OperandR rd rs1 rs2 funct3 funct7 \<Rightarrow> Some (op32_MULHSU rd rs1 rs2) | _ \<Rightarrow> None)"
| "shown32M op_mulhu od = (case od of OperandR rd rs1 rs2 funct3 funct7 \<Rightarrow> Some (op32_MULHU rd rs1 rs2) | _ \<Rightarrow> None)"
| "shown32M op_div od = (case od of OperandR rd rs1 rs2 funct3 funct7 \<Rightarrow> Some (op32_DIV rd rs1 rs2) | _ \<Rightarrow> None)"
| "shown32M op_divw od = None"
| "shown32M op_divu od = (case od of OperandR rd rs1 rs2 funct3 funct7 \<Rightarrow> Some (op32_DIVU rd rs1 rs2) | _ \<Rightarrow> None)"
| "shown32M op_divuw od = None"
| "shown32M op_rem od = (case od of OperandR rd rs1 rs2 funct3 funct7 \<Rightarrow> Some (op32_REM rd rs1 rs2) | _ \<Rightarrow> None)"
| "shown32M op_remw od = None"
| "shown32M op_remu od = (case od of OperandR rd rs1 rs2 funct3 funct7 \<Rightarrow> Some (op32_REMU rd rs1 rs2) | _ \<Rightarrow> None)"
| "shown32M op_remuw od = None"

primrec shown32A :: "OpCodeA \<Rightarrow> Operand \<Rightarrow> op32A option" where
  "shown32A op_lr_w od = (case od of OperandR rd rs1 rs2 funct3 funct7 \<Rightarrow> Some (op32_LR_W rd rs1 (odd (funct7 div 2)) (odd funct7)) | _ \<Rightarrow> None)"
| "shown32A op_lr_d od = None"
| "shown32A op_sc_w od = (case od of OperandR rd rs1 rs2 funct3 funct7 \<Rightarrow> Some (op32_SC_W rd rs1 rs2 (odd (funct7 div 2)) (odd funct7)) | _ \<Rightarrow> None)"
| "shown32A op_sc_d od = None"
| "shown32A op_amoswap_w od = (case od of OperandR rd rs1 rs2 funct3 funct7 \<Rightarrow> Some (op32_AMOSWAP_W rd rs1 rs2 (odd (funct7 div 2)) (odd funct7)) | _ \<Rightarrow> None)"
| "shown32A op_amoswap_d od = None"
| "shown32A op_amoadd_w od = (case od of OperandR rd rs1 rs2 funct3 funct7 \<Rightarrow> Some (op32_AMOADD_W rd rs1 rs2 (odd (funct7 div 2)) (odd funct7)) | _ \<Rightarrow> None)"
| "shown32A op_amoadd_d od = None"
| "shown32A op_amoxor_w od = (case od of OperandR rd rs1 rs2 funct3 funct7 \<Rightarrow> Some (op32_AMOXOR_W rd rs1 rs2 (odd (funct7 div 2)) (odd funct7)) | _ \<Rightarrow> None)"
| "shown32A op_amoxor_d od = None"
| "shown32A op_amoand_w od = (case od of OperandR rd rs1 rs2 funct3 funct7 \<Rightarrow> Some (op32_AMOAND_W rd rs1 rs2 (odd (funct7 div 2)) (odd funct7)) | _ \<Rightarrow> None)"
| "shown32A op_amoand_d od = None"
| "shown32A op_amoor_w od = (case od of OperandR rd rs1 rs2 funct3 funct7 \<Rightarrow> Some (op32_AMOOR_W rd rs1 rs2 (odd (funct7 div 2)) (odd funct7)) | _ \<Rightarrow> None)"
| "shown32A op_amoor_d od = None"
| "shown32A op_amomin_w od = (case od of OperandR rd rs1 rs2 funct3 funct7 \<Rightarrow> Some (op32_AMOMIN_W rd rs1 rs2 (odd (funct7 div 2)) (odd funct7)) | _ \<Rightarrow> None)"
| "shown32A op_amomin_d od = None"
| "shown32A op_amomax_w od = (case od of OperandR rd rs1 rs2 funct3 funct7 \<Rightarrow> Some (op32_AMOMAX_W rd rs1 rs2 (odd (funct7 div 2)) (odd funct7)) | _ \<Rightarrow> None)"
| "shown32A op_amomax_d od = None"
| "shown32A op_amominu_w od = (case od of OperandR rd rs1 rs2 funct3 funct7 \<Rightarrow> Some (op32_AMOMINU_W rd rs1 rs2 (odd (funct7 div 2)) (odd funct7)) | _ \<Rightarrow> None)"
| "shown32A op_amominu_d od = None"
| "shown32A op_amomaxu_w od = (case od of OperandR rd rs1 rs2 funct3 funct7 \<Rightarrow> Some (op32_AMOMAXU_W rd rs1 rs2 (odd (funct7 div 2)) (odd funct7)) | _ \<Rightarrow> None)"
| "shown32A op_amomaxu_d od = None"

primrec shown32F :: "OpCodeF \<Rightarrow> Operand \<Rightarrow> op32F option" where
  "shown32F op_flw od = (case od of OperandI imm rd rs1 funct3 \<Rightarrow> Some (op32_FLW rd rs1 (ucast imm)) | _ \<Rightarrow> None)"
| "shown32F op_fsw od = (case od of OperandS imm rs1 rs2 funct3 \<Rightarrow> Some (op32_FSW rs1 rs2 (ucast imm)) | _ \<Rightarrow> None)"
| "shown32F op_fmadd_s od = (case od of OperandR4 rd rs1 rs2 rs3 funct3 funct2 \<Rightarrow> Some (op32_FMADD_S rd rs1 rs2 rs3 funct3) | _ \<Rightarrow> None)"
| "shown32F op_fmsub_s od = (case od of OperandR4 rd rs1 rs2 rs3 funct3 funct2 \<Rightarrow> Some (op32_FMSUB_S rd rs1 rs2 rs3 funct3) | _ \<Rightarrow> None)"
| "shown32F op_fnmsub_s od = (case od of OperandR4 rd rs1 rs2 rs3 funct3 funct2 \<Rightarrow> Some (op32_FNMSUB_S rd rs1 rs2 rs3 funct3) | _ \<Rightarrow> None)"
| "shown32F op_fnmadd_s od = (case od of OperandR4 rd rs1 rs2 rs3 funct3 funct2 \<Rightarrow> Some (op32_FNMADD_S rd rs1 rs2 rs3 funct3) | _ \<Rightarrow> None)"
| "shown32F op_fadd_s od = (case od of OperandR rd rs1 rs2 funct3 funct7 \<Rightarrow> Some (op32_FADD_S rd rs1 rs2 funct3) | _ \<Rightarrow> None)"
| "shown32F op_fsub_s od = (case od of OperandR rd rs1 rs2 funct3 funct7 \<Rightarrow> Some (op32_FSUB_S rd rs1 rs2 funct3) | _ \<Rightarrow> None)"
| "shown32F op_fmul_s od = (case od of OperandR rd rs1 rs2 funct3 funct7 \<Rightarrow> Some (op32_FMUL_S rd rs1 rs2 funct3) | _ \<Rightarrow> None)"
| "shown32F op_fdiv_s od = (case od of OperandR rd rs1 rs2 funct3 funct7 \<Rightarrow> Some (op32_FDIV_S rd rs1 rs2 funct3) | _ \<Rightarrow> None)"
| "shown32F op_fsqrt_s od = (case od of OperandR rd rs1 rs2 funct3 funct7 \<Rightarrow> Some (op32_FSQRT_S rd rs1 funct3) | _ \<Rightarrow> None)"
| "shown32F op_fsgnj_s od = (case od of OperandR rd rs1 rs2 funct3 funct7 \<Rightarrow> Some (op32_FSGNJ_S rd rs1 rs2) | _ \<Rightarrow> None)"
| "shown32F op_fsgnjn_s od = (case od of OperandR rd rs1 rs2 funct3 funct7 \<Rightarrow> Some (op32_FSGNJN_S rd rs1 rs2) | _ \<Rightarrow> None)"
| "shown32F op_fsgnjx_s od = (case od of OperandR rd rs1 rs2 funct3 funct7 \<Rightarrow> Some (op32_FSGNJX_S rd rs1 rs2) | _ \<Rightarrow> None)"
| "shown32F op_fmin_s od = (case od of OperandR rd rs1 rs2 funct3 funct7 \<Rightarrow> Some (op32_FMIN_S rd rs1 rs2) | _ \<Rightarrow> None)"
| "shown32F op_fmax_s od = (case od of OperandR rd rs1 rs2 funct3 funct7 \<Rightarrow> Some (op32_FMAX_S rd rs1 rs2) | _ \<Rightarrow> None)"
| "shown32F op_fcvt_w_s od = (case od of OperandR rd rs1 rs2 funct3 funct7 \<Rightarrow> Some (op32_FCVT_W_S rd rs1 funct3) | _ \<Rightarrow> None)"
| "shown32F op_fcvt_wu_s od = (case od of OperandR rd rs1 rs2 funct3 funct7 \<Rightarrow> Some (op32_FCVT_WU_S rd rs1 funct3) | _ \<Rightarrow> None)"
| "shown32F op_fmv_x_w od = (case od of OperandR rd rs1 rs2 funct3 funct7 \<Rightarrow> Some (op32_FMV_X_W rd rs1) | _ \<Rightarrow> None)"
| "shown32F op_feq_s od = (case od of OperandR rd rs1 rs2 funct3 funct7 \<Rightarrow> Some (op32_FEQ_S rd rs1 rs2) | _ \<Rightarrow> None)"
| "shown32F op_flt_s od = (case od of OperandR rd rs1 rs2 funct3 funct7 \<Rightarrow> Some (op32_FLT_S rd rs1 rs2) | _ \<Rightarrow> None)"
| "shown32F op_fle_s od = (case od of OperandR rd rs1 rs2 funct3 funct7 \<Rightarrow> Some (op32_FLE_S rd rs1 rs2) | _ \<Rightarrow> None)"
| "shown32F op_fclass_s od = (case od of OperandR rd rs1 rs2 funct3 funct7 \<Rightarrow> Some (op32_FCLASS_S rd rs1) | _ \<Rightarrow> None)"
| "shown32F op_fcvt_l_s od = None"
| "shown32F op_fcvt_lu_s od = None"
| "shown32F op_fcvt_s_w od = (case od of OperandR rd rs1 rs2 funct3 funct7 \<Rightarrow> Some (op32_FCVT_S_W rd rs1 funct3) | _ \<Rightarrow> None)"
| "shown32F op_fcvt_s_l od = None"
| "shown32F op_fcvt_s_wu od = (case od of OperandR rd rs1 rs2 funct3 funct7 \<Rightarrow> Some (op32_FCVT_S_WU rd rs1 funct3) | _ \<Rightarrow> None)"
| "shown32F op_fcvt_s_lu od = None"
| "shown32F op_fmv_w_x od = (case od of OperandR rd rs1 rs2 funct3 funct7 \<Rightarrow> Some (op32_FMV_W_X rd rs1) | _ \<Rightarrow> None)"

primrec shown32D :: "OpCodeD \<Rightarrow> Operand \<Rightarrow> op32D option" where
  "shown32D op_fld od = (case od of OperandI imm rd rs1 funct3 \<Rightarrow> Some (op32_FLD rd rs1 (ucast imm)) | _ \<Rightarrow> None)"
| "shown32D op_fsd od = (case od of OperandS imm rs1 rs2 funct3 \<Rightarrow> Some (op32_FSD rs1 rs2 (ucast imm)) | _ \<Rightarrow> None)"
| "shown32D op_fmadd_d od = (case od of OperandR4 rd rs1 rs2 rs3 funct3 funct2 \<Rightarrow> Some (op32_FMADD_D rd rs1 rs2 rs3 funct3) | _ \<Rightarrow> None)"
| "shown32D op_fmsub_d od = (case od of OperandR4 rd rs1 rs2 rs3 funct3 funct2 \<Rightarrow> Some (op32_FMSUB_D rd rs1 rs2 rs3 funct3) | _ \<Rightarrow> None)"
| "shown32D op_fnmsub_d od = (case od of OperandR4 rd rs1 rs2 rs3 funct3 funct2 \<Rightarrow> Some (op32_FNMSUB_D rd rs1 rs2 rs3 funct3) | _ \<Rightarrow> None)"
| "shown32D op_fnmadd_d od = (case od of OperandR4 rd rs1 rs2 rs3 funct3 funct2 \<Rightarrow> Some (op32_FNMADD_D rd rs1 rs2 rs3 funct3) | _ \<Rightarrow> None)"
| "shown32D op_fadd_d od = (case od of OperandR rd rs1 rs2 funct3 funct7 \<Rightarrow> Some (op32_FADD_D rd rs1 rs2 funct3) | _ \<Rightarrow> None)"
| "shown32D op_fsub_d od = (case od of OperandR rd rs1 rs2 funct3 funct7 \<Rightarrow> Some (op32_FSUB_D rd rs1 rs2 funct3) | _ \<Rightarrow> None)"
| "shown32D op_fmul_d od = (case od of OperandR rd rs1 rs2 funct3 funct7 \<Rightarrow> Some (op32_FMUL_D rd rs1 rs2 funct3) | _ \<Rightarrow> None)"
| "shown32D op_fdiv_d od = (case od of OperandR rd rs1 rs2 funct3 funct7 \<Rightarrow> Some (op32_FDIV_D rd rs1 rs2 funct3) | _ \<Rightarrow> None)"
| "shown32D op_fsqrt_d od = (case od of OperandR rd rs1 rs2 funct3 funct7 \<Rightarrow> Some (op32_FSQRT_D rd rs1 funct3) | _ \<Rightarrow> None)"
| "shown32D op_fsgnj_d od = (case od of OperandR rd rs1 rs2 funct3 funct7 \<Rightarrow> Some (op32_FSGNJ_D rd rs1 rs2) | _ \<Rightarrow> None)"
| "shown32D op_fsgnjn_d od = (case od of OperandR rd rs1 rs2 funct3 funct7 \<Rightarrow> Some (op32_FSGNJN_D rd rs1 rs2) | _ \<Rightarrow> None)"
| "shown32D op_fsgnjx_d od = (case od of OperandR rd rs1 rs2 funct3 funct7 \<Rightarrow> Some (op32_FSGNJX_D rd rs1 rs2) | _ \<Rightarrow> None)"
| "shown32D op_fmin_d od = (case od of OperandR rd rs1 rs2 funct3 funct7 \<Rightarrow> Some (op32_FMIN_D rd rs1 rs2) | _ \<Rightarrow> None)"
| "shown32D op_fmax_d od = (case od of OperandR rd rs1 rs2 funct3 funct7 \<Rightarrow> Some (op32_FMAX_D rd rs1 rs2) | _ \<Rightarrow> None)"
| "shown32D op_fmv_d_x od = None"
| "shown32D op_fmv_x_d od = None"
| "shown32D op_feq_d od = (case od of OperandR rd rs1 rs2 funct3 funct7 \<Rightarrow> Some (op32_FEQ_D rd rs1 rs2) | _ \<Rightarrow> None)"
| "shown32D op_flt_d od = (case od of OperandR rd rs1 rs2 funct3 funct7 \<Rightarrow> Some (op32_FLT_D rd rs1 rs2) | _ \<Rightarrow> None)"
| "shown32D op_fle_d od = (case od of OperandR rd rs1 rs2 funct3 funct7 \<Rightarrow> Some (op32_FLE_D rd rs1 rs2) | _ \<Rightarrow> None)"
| "shown32D op_fclass_d od = (case od of OperandR rd rs1 rs2 funct3 funct7 \<Rightarrow> Some (op32_FCLASS_D rd rs1) | _ \<Rightarrow> None)"
| "shown32D op_fcvt_s_d od = (case od of OperandR rd rs1 rs2 funct3 funct7 \<Rightarrow> Some (op32_FCVT_S_D rd rs1 funct3) | _ \<Rightarrow> None)"
| "shown32D op_fcvt_w_d od = (case od of OperandR rd rs1 rs2 funct3 funct7 \<Rightarrow> Some (op32_FCVT_W_D rd rs1 funct3) | _ \<Rightarrow> None)"
| "shown32D op_fcvt_wu_d od = (case od of OperandR rd rs1 rs2 funct3 funct7 \<Rightarrow> Some (op32_FCVT_WU_D rd rs1 funct3) | _ \<Rightarrow> None)"
| "shown32D op_fcvt_l_d od = None"
| "shown32D op_fcvt_lu_d od = None"
| "shown32D op_fcvt_d_s od = (case od of OperandR rd rs1 rs2 funct3 funct7 \<Rightarrow> Some (op32_FCVT_D_S rd rs1 funct3) | _ \<Rightarrow> None)"
| "shown32D op_fcvt_d_w od = (case od of OperandR rd rs1 rs2 funct3 funct7 \<Rightarrow> Some (op32_FCVT_D_W rd rs1 funct3) | _ \<Rightarrow> None)"
| "shown32D op_fcvt_d_wu od = (case od of OperandR rd rs1 rs2 funct3 funct7 \<Rightarrow> Some (op32_FCVT_D_WU rd rs1 funct3) | _ \<Rightarrow> None)"
| "shown32D op_fcvt_d_l od = None"
| "shown32D op_fcvt_d_lu od = None"

fun shown32 :: "OpCode \<Rightarrow> Operand \<Rightarrow> IOp option" where
  "shown32 (rvi c) od = map_option IOp32I (shown32I c od)"
| "shown32 (rvm c) od = map_option IOp32M (shown32M c od)"
| "shown32 (rva c) od = map_option IOp32A (shown32A c od)"
| "shown32 (rvf c) od = map_option IOp32F (shown32F c od)"
| "shown32 (rvd c) od = map_option IOp32D (shown32D c od)"
| "shown32 _ od = None"

primrec shown64I :: "OpCodeI \<Rightarrow> Operand \<Rightarrow> op64I option" where
  "shown64I op_lui od = (case od of OperandU imm rd \<Rightarrow> Some (op64_LUI rd (take_bit 20 (drop_bit 12 (ucast imm)))) | _ \<Rightarrow> None)"
| "shown64I op_auipc od = (case od of OperandU imm rd \<Rightarrow> Some (op64_AUIPC rd (take_bit 20 (drop_bit 12 (ucast imm)))) | _ \<Rightarrow> None)"
| "shown64I op_jal od = (case od of OperandJ imm rd \<Rightarrow> Some (op64_JAL rd (ucast imm)) | _ \<Rightarrow> None)"
| "shown64I op_jalr od = (case od of OperandI imm rd rs1 funct3 \<Rightarrow> Some (op64_JALR rd rs1 (ucast imm)) | _ \<Rightarrow> None)"
| "shown64I op_beq od = (case od of OperandB imm rs1 rs2 funct3 \<Rightarrow> Some (op64_BEQ rs1 rs2 (ucast imm)) | _ \<Rightarrow> None)"
| "shown64I op_bne od = (case od of OperandB imm rs1 rs2 funct3 \<Rightarrow> Some (op64_BNE rs1 rs2 (ucast imm)) | _ \<Rightarrow> None)"
| "shown64I op_blt od = (case od of OperandB imm rs1 rs2 funct3 \<Rightarrow> Some (op64_BLT rs1 rs2 (ucast imm)) | _ \<Rightarrow> None)"
| "shown64I op_bge od = (case od of OperandB imm rs1 rs2 funct3 \<Rightarrow> Some (op64_BGE rs1 rs2 (ucast imm)) | _ \<Rightarrow> None)"
| "shown64I op_bltu od = (case od of OperandB imm rs1 rs2 funct3 \<Rightarrow> Some (op64_BLTU rs1 rs2 (ucast imm)) | _ \<Rightarrow> None)"
| "shown64I op_bgeu od = (case od of OperandB imm rs1 rs2 funct3 \<Rightarrow> Some (op64_BGEU rs1 rs2 (ucast imm)) | _ \<Rightarrow> None)"
| "shown64I op_lb od = (case od of OperandI imm rd rs1 funct3 \<Rightarrow> Some (op64_LB rd rs1 (ucast imm)) | _ \<Rightarrow> None)"
| "shown64I op_lh od = (case od of OperandI imm rd rs1 funct3 \<Rightarrow> Some (op64_LH rd rs1 (ucast imm)) | _ \<Rightarrow> None)"
| "shown64I op_lw od = (case od of OperandI imm rd rs1 funct3 \<Rightarrow> Some (op64_LW rd rs1 (ucast imm)) | _ \<Rightarrow> None)"
| "shown64I op_ld od = (case od of OperandI imm rd rs1 funct3 \<Rightarrow> Some (op64_LD rd rs1 (ucast imm)) | _ \<Rightarrow> None)"
| "shown64I op_lbu od = (case od of OperandI imm rd rs1 funct3 \<Rightarrow> Some (op64_LBU rd rs1 (ucast imm)) | _ \<Rightarrow> None)"
| "shown64I op_lhu od = (case od of OperandI imm rd rs1 funct3 \<Rightarrow> Some (op64_LHU rd rs1 (ucast imm)) | _ \<Rightarrow> None)"
| "shown64I op_lwu od = (case od of OperandI imm rd rs1 funct3 \<Rightarrow> Some (op64_LWU rd rs1 (ucast imm)) | _ \<Rightarrow> None)"
| "shown64I op_sb od = (case od of OperandS imm rs1 rs2 funct3 \<Rightarrow> Some (op64_SB rs1 rs2 (ucast imm)) | _ \<Rightarrow> None)"
| "shown64I op_sh od = (case od of OperandS imm rs1 rs2 funct3 \<Rightarrow> Some (op64_SH rs1 rs2 (ucast imm)) | _ \<Rightarrow> None)"
| "shown64I op_sw od = (case od of OperandS imm rs1 rs2 funct3 \<Rightarrow> Some (op64_SW rs1 rs2 (ucast imm)) | _ \<Rightarrow> None)"
| "shown64I op_sd od = (case od of OperandS imm rs1 rs2 funct3 \<Rightarrow> Some (op64_SD rs1 rs2 (ucast imm)) | _ \<Rightarrow> None)"
| "shown64I op_addi od = (case od of OperandI imm rd rs1 funct3 \<Rightarrow> Some (op64_ADDI rd rs1 (ucast imm)) | _ \<Rightarrow> None)"
| "shown64I op_addiw od = (case od of OperandI imm rd rs1 funct3 \<Rightarrow> Some (op64_ADDIW rd rs1 (ucast imm)) | _ \<Rightarrow> None)"
| "shown64I op_slti od = (case od of OperandI imm rd rs1 funct3 \<Rightarrow> Some (op64_SLTI rd rs1 (ucast imm)) | _ \<Rightarrow> None)"
| "shown64I op_sltiu od = (case od of OperandI imm rd rs1 funct3 \<Rightarrow> Some (op64_SLTIU rd rs1 (ucast imm)) | _ \<Rightarrow> None)"
| "shown64I op_xori od = (case od of OperandI imm rd rs1 funct3 \<Rightarrow> Some (op64_XORI rd rs1 (ucast imm)) | _ \<Rightarrow> None)"
| "shown64I op_ori od = (case od of OperandI imm rd rs1 funct3 \<Rightarrow> Some (op64_ORI rd rs1 (ucast imm)) | _ \<Rightarrow> None)"
| "shown64I op_andi od = (case od of OperandI imm rd rs1 funct3 \<Rightarrow> Some (op64_ANDI rd rs1 (ucast imm)) | _ \<Rightarrow> None)"
| "shown64I op_slli od = (case od of OperandShiftImm rd rs1 shamt \<Rightarrow> Some (op64_SLLI rd rs1 shamt) | _ \<Rightarrow> None)"
| "shown64I op_slliw od = (case od of OperandShiftImm rd rs1 shamt \<Rightarrow> Some (op64_SLLIW rd rs1 shamt) | _ \<Rightarrow> None)"
| "shown64I op_srli od = (case od of OperandShiftImm rd rs1 shamt \<Rightarrow> Some (op64_SRLI rd rs1 shamt) | _ \<Rightarrow> None)"
| "shown64I op_srliw od = (case od of OperandShiftImm rd rs1 shamt \<Rightarrow> Some (op64_SRLIW rd rs1 shamt) | _ \<Rightarrow> None)"
| "shown64I op_srai od = (case od of OperandShiftImm rd rs1 shamt \<Rightarrow> Some (op64_SRAI rd rs1 shamt) | _ \<Rightarrow> None)"
| "shown64I op_sraiw od = (case od of OperandShiftImm rd rs1 shamt \<Rightarrow> Some (op64_SRAIW rd rs1 shamt) | _ \<Rightarrow> None)"
| "shown64I op_add od = (case od of OperandR rd rs1 rs2 funct3 funct7 \<Rightarrow> Some (op64_ADD rd rs1 rs2) | _ \<Rightarrow> None)"
| "shown64I op_addw od = (case od of OperandR rd rs1 rs2 funct3 funct7 \<Rightarrow> Some (op64_ADDW rd rs1 rs2) | _ \<Rightarrow> None)"
| "shown64I op_sub od = (case od of OperandR rd rs1 rs2 funct3 funct7 \<Rightarrow> Some (op64_SUB rd rs1 rs2) | _ \<Rightarrow> None)"
| "shown64I op_subw od = (case od of OperandR rd rs1 rs2 funct3 funct7 \<Rightarrow> Some (op64_SUBW rd rs1 rs2) | _ \<Rightarrow> None)"
| "shown64I op_sll od = (case od of OperandR rd rs1 rs2 funct3 funct7 \<Rightarrow> Some (op64_SLL rd rs1 rs2) | _ \<Rightarrow> None)"
| "shown64I op_sllw od = (case od of OperandR rd rs1 rs2 funct3 funct7 \<Rightarrow> Some (op64_SLLW rd rs1 rs2) | _ \<Rightarrow> None)"
| "shown64I op_slt od = (case od of OperandR rd rs1 rs2 funct3 funct7 \<Rightarrow> Some (op64_SLT rd rs1 rs2) | _ \<Rightarrow> None)"
| "shown64I op_sltu od = (case od of OperandR rd rs1 rs2 funct3 funct7 \<Rightarrow> Some (op64_SLTU rd rs1 rs2) | _ \<Rightarrow> None)"
| "shown64I op_xor od = (case od of OperandR rd rs1 rs2 funct3 funct7 \<Rightarrow> Some (op64_XOR rd rs1 rs2) | _ \<Rightarrow> None)"
| "shown64I op_srl od = (case od of OperandR rd rs1 rs2 funct3 funct7 \<Rightarrow> Some (op64_SRL rd rs1 rs2) | _ \<Rightarrow> None)"
| "shown64I op_srlw od = (case od of OperandR rd rs1 rs2 funct3 funct7 \<Rightarrow> Some (op64_SRLW rd rs1 rs2) | _ \<Rightarrow> None)"
| "shown64I op_sra od = (case od of OperandR rd rs1 rs2 funct3 funct7 \<Rightarrow> Some (op64_SRA rd rs1 rs2) | _ \<Rightarrow> None)"
| "shown64I op_sraw od = (case od of OperandR rd rs1 rs2 funct3 funct7 \<Rightarrow> Some (op64_SRAW rd rs1 rs2) | _ \<Rightarrow> None)"
| "shown64I op_or od = (case od of OperandR rd rs1 rs2 funct3 funct7 \<Rightarrow> Some (op64_OR rd rs1 rs2) | _ \<Rightarrow> None)"
| "shown64I op_and od = (case od of OperandR rd rs1 rs2 funct3 funct7 \<Rightarrow> Some (op64_AND rd rs1 rs2) | _ \<Rightarrow> None)"
| "shown64I op_fence od = (case od of OperandFence pred succ \<Rightarrow> Some (op64_FENCE 0 0 0 (word_of_int pred) (word_of_int succ)) | _ \<Rightarrow> None)"
| "shown64I op_fence_i od = (case od of OperandFence pred succ \<Rightarrow> Some (op64_FENCE_I 0 0 0) | _ \<Rightarrow> None)"
| "shown64I op_ecall od = Some op64_ECALL"
| "shown64I op_ebreak od = Some op64_EBREAK"
| "shown64I op_csrrw od = (case od of OperandCsr rd rs1 csr \<Rightarrow> Some (op64_CSRRW csr rd rs1) | _ \<Rightarrow> None)"
| "shown64I op_csrrs od = (case od of OperandCsr rd rs1 csr \<Rightarrow> Some (op64_CSRRS csr rd rs1) | _ \<Rightarrow> None)"
| "shown64I op_csrrc od = (case od of OperandCsr rd rs1 csr \<Rightarrow> Some (op64_CSRRC csr rd rs1) | _ \<Rightarrow> None)"
| "shown64I op_csrrwi od = (case od of OperandCsrImm zimm rd csr \<Rightarrow> Some (op64_CSRRWI csr rd zimm) | _ \<Rightarrow> None)"
| "shown64I op_csrrsi od = (case od of OperandCsrImm zimm rd csr \<Rightarrow> Some (op64_CSRRSI csr rd zimm) | _ \<Rightarrow> None)"
| "shown64I op_csrrci od = (case od of OperandCsrImm zimm rd csr \<Rightarrow> Some (op64_CSRRCI csr rd zimm) | _ \<Rightarrow> None)"
| "shown64I op_mret od = Some op64_MRET"
| "shown64I op_sret od = Some op64_SRET"
| "shown64I op_uret od = Some op64_URET"
| "shown64I op_wfi od = Some op64_WFI"
| "shown64I op_sfence_vma od = (case od of OperandR rd rs1 rs2 funct3 funct7 \<Rightarrow> Some (op64_SFENCE_VMA rs1 rs2) | _ \<Rightarrow> None)"

primrec shown64M :: "OpCodeM \<Rightarrow> Operand \<Rightarrow> op64M option" where
  "shown64M op_mul od = (case od of OperandR rd rs1 rs2 funct3 funct7 \<Rightarrow> Some (op64_MUL rd rs1 rs2) | _ \<Rightarrow> None)"
| "shown64M op_mulw od = (case od of OperandR rd rs1 rs2 funct3 funct7 \<Rightarrow> Some (op64_MULW rd rs1 rs2) | _ \<Rightarrow> None)"
| "shown64M op_mulh od = (case od of OperandR rd rs1 rs2 funct3 funct7 \<Rightarrow> Some (op64_MULH rd rs1 rs2) | _ \<Rightarrow> None)"
| "shown64M op_mulhsu od = (case od of OperandR rd rs1 rs2 funct3 funct7 \<Rightarrow> Some (op64_MULHSU rd rs1 rs2) | _ \<Rightarrow> None)"
| "shown64M op_mulhu od = (case od of OperandR rd rs1 rs2 funct3 funct7 \<Rightarrow> Some (op64_MULHU rd rs1 rs2) | _ \<Rightarrow> None)"
| "shown64M op_div od = (case od of OperandR rd rs1 rs2 funct3 funct7 \<Rightarrow> Some (op64_DIV rd rs1 rs2) | _ \<Rightarrow> None)"
| "shown64M op_divw od = (case od of OperandR rd rs1 rs2 funct3 funct7 \<Rightarrow> Some (op64_DIVW rd rs1 rs2) | _ \<Rightarrow> None)"
| "shown64M op_divu od = (case od of OperandR rd rs1 rs2 funct3 funct7 \<Rightarrow> Some (op64_DIVU rd rs1 rs2) | _ \<Rightarrow> None)"
| "shown64M op_divuw od = (case od of OperandR rd rs1 rs2 funct3 funct7 \<Rightarrow> Some (op64_DIVUW rd rs1 rs2) | _ \<Rightarrow> None)"
| "shown64M op_rem od = (case od of OperandR rd rs1 rs2 funct3 funct7 \<Rightarrow> Some (op64_REM rd rs1 rs2) | _ \<Rightarrow> None)"
| "shown64M op_remw od = (case od of OperandR rd rs1 rs2 funct3 funct7 \<Rightarrow> Some (op64_REMW rd rs1 rs2) | _ \<Rightarrow> None)"
| "shown64M op_remu od = (case od of OperandR rd rs1 rs2 funct3 funct7 \<Rightarrow> Some (op64_REMU rd rs1 rs2) | _ \<Rightarrow> None)"
| "shown64M op_remuw od = (case od of OperandR rd rs1 rs2 funct3 funct7 \<Rightarrow> Some (op64_REMUW rd rs1 rs2) | _ \<Rightarrow> None)"

primrec shown64A :: "OpCodeA \<Rightarrow> Operand \<Rightarrow> op64A option" where
  "shown64A op_lr_w od = (case od of OperandR rd rs1 rs2 funct3 funct7 \<Rightarrow> Some (op64_LR_W rd rs1 (odd (funct7 div 2)) (odd funct7)) | _ \<Rightarrow> None)"
| "shown64A op_lr_d od = (case od of OperandR rd rs1 rs2 funct3 funct7 \<Rightarrow> Some (op64_LR_D rd rs1 (odd (funct7 div 2)) (odd funct7)) | _ \<Rightarrow> None)"
| "shown64A op_sc_w od = (case od of OperandR rd rs1 rs2 funct3 funct7 \<Rightarrow> Some (op64_SC_W rd rs1 rs2 (odd (funct7 div 2)) (odd funct7)) | _ \<Rightarrow> None)"
| "shown64A op_sc_d od = (case od of OperandR rd rs1 rs2 funct3 funct7 \<Rightarrow> Some (op64_SC_D rd rs1 rs2 (odd (funct7 div 2)) (odd funct7)) | _ \<Rightarrow> None)"
| "shown64A op_amoswap_w od = (case od of OperandR rd rs1 rs2 funct3 funct7 \<Rightarrow> Some (op64_AMOSWAP_W rd rs1 rs2 (odd (funct7 div 2)) (odd funct7)) | _ \<Rightarrow> None)"
| "shown64A op_amoswap_d od = (case od of OperandR rd rs1 rs2 funct3 funct7 \<Rightarrow> Some (op64_AMOSWAP_D rd rs1 rs2 (odd (funct7 div 2)) (odd funct7)) | _ \<Rightarrow> None)"
| "shown64A op_amoadd_w od = (case od of OperandR rd rs1 rs2 funct3 funct7 \<Rightarrow> Some (op64_AMOADD_W rd rs1 rs2 (odd (funct7 div 2)) (odd funct7)) | _ \<Rightarrow> None)"
| "shown64A op_amoadd_d od = (case od of OperandR rd rs1 rs2 funct3 funct7 \<Rightarrow> Some (op64_AMOADD_D rd rs1 rs2 (odd (funct7 div 2)) (odd funct7)) | _ \<Rightarrow> None)"
| "shown64A op_amoxor_w od = (case od of OperandR rd rs1 rs2 funct3 funct7 \<Rightarrow> Some (op64_AMOXOR_W rd rs1 rs2 (odd (funct7 div 2)) (odd funct7)) | _ \<Rightarrow> None)"
| "shown64A op_amoxor_d od = (case od of OperandR rd rs1 rs2 funct3 funct7 \<Rightarrow> Some (op64_AMOXOR_D rd rs1 rs2 (odd (funct7 div 2)) (odd funct7)) | _ \<Rightarrow> None)"
| "shown64A op_amoand_w od = (case od of OperandR rd rs1 rs2 funct3 funct7 \<Rightarrow> Some (op64_AMOAND_W rd rs1 rs2 (odd (funct7 div 2)) (odd funct7)) | _ \<Rightarrow> None)"
| "shown64A op_amoand_d od = (case od of OperandR rd rs1 rs2 funct3 funct7 \<Rightarrow> Some (op64_AMOAND_D rd rs1 rs2 (odd (funct7 div 2)) (odd funct7)) | _ \<Rightarrow> None)"
| "shown64A op_amoor_w od = (case od of OperandR rd rs1 rs2 funct3 funct7 \<Rightarrow> Some (op64_AMOOR_W rd rs1 rs2 (odd (funct7 div 2)) (odd funct7)) | _ \<Rightarrow> None)"
| "shown64A op_amoor_d od = (case od of OperandR rd rs1 rs2 funct3 funct7 \<Rightarrow> Some (op64_AMOOR_D rd rs1 rs2 (odd (funct7 div 2)) (odd funct7)) | _ \<Rightarrow> None)"
| "shown64A op_amomin_w od = (case od of OperandR rd rs1 rs2 funct3 funct7 \<Rightarrow> Some (op64_AMOMIN_W rd rs1 rs2 (odd (funct7 div 2)) (odd funct7)) | _ \<Rightarrow> None)"
| "shown64A op_amomin_d od = (case od of OperandR rd rs1 rs2 funct3 funct7 \<Rightarrow> Some (op64_AMOMIN_D rd rs1 rs2 (odd (funct7 div 2)) (odd funct7)) | _ \<Rightarrow> None)"
| "shown64A op_amomax_w od = (case od of OperandR rd rs1 rs2 funct3 funct7 \<Rightarrow> Some (op64_AMOMAX_W rd rs1 rs2 (odd (funct7 div 2)) (odd funct7)) | _ \<Rightarrow> None)"
| "shown64A op_amomax_d od = (case od of OperandR rd rs1 rs2 funct3 funct7 \<Rightarrow> Some (op64_AMOMAX_D rd rs1 rs2 (odd (funct7 div 2)) (odd funct7)) | _ \<Rightarrow> None)"
| "shown64A op_amominu_w od = (case od of OperandR rd rs1 rs2 funct3 funct7 \<Rightarrow> Some (op64_AMOMINU_W rd rs1 rs2 (odd (funct7 div 2)) (odd funct7)) | _ \<Rightarrow> None)"
| "shown64A op_amominu_d od = (case od of OperandR rd rs1 rs2 funct3 funct7 \<Rightarrow> Some (op64_AMOMINU_D rd rs1 rs2 (odd (funct7 div 2)) (odd funct7)) | _ \<Rightarrow> None)"
| "shown64A op_amomaxu_w od = (case od of OperandR rd rs1 rs2 funct3 funct7 \<Rightarrow> Some (op64_AMOMAXU_W rd rs1 rs2 (odd (funct7 div 2)) (odd funct7)) | _ \<Rightarrow> None)"
| "shown64A op_amomaxu_d od = (case od of OperandR rd rs1 rs2 funct3 funct7 \<Rightarrow> Some (op64_AMOMAXU_D rd rs1 rs2 (odd (funct7 div 2)) (odd funct7)) | _ \<Rightarrow> None)"

primrec shown64F :: "OpCodeF \<Rightarrow> Operand \<Rightarrow> op64F option" where
  "shown64F op_flw od = (case od of OperandI imm rd rs1 funct3 \<Rightarrow> Some (op64_FLW rd rs1 (ucast imm)) | _ \<Rightarrow> None)"
| "shown64F op_fsw od = (case od of OperandS imm rs1 rs2 funct3 \<Rightarrow> Some (op64_FSW rs1 rs2 (ucast imm)) | _ \<Rightarrow> None)"
| "shown64F op_fmadd_s od = (case od of OperandR4 rd rs1 rs2 rs3 funct3 funct2 \<Rightarrow> Some (op64_FMADD_S rd rs1 rs2 rs3 funct3) | _ \<Rightarrow> None)"
| "shown64F op_fmsub_s od = (case od of OperandR4 rd rs1 rs2 rs3 funct3 funct2 \<Rightarrow> Some (op64_FMSUB_S rd rs1 rs2 rs3 funct3) | _ \<Rightarrow> None)"
| "shown64F op_fnmsub_s od = (case od of OperandR4 rd rs1 rs2 rs3 funct3 funct2 \<Rightarrow> Some (op64_FNMSUB_S rd rs1 rs2 rs3 funct3) | _ \<Rightarrow> None)"
| "shown64F op_fnmadd_s od = (case od of OperandR4 rd rs1 rs2 rs3 funct3 funct2 \<Rightarrow> Some (op64_FNMADD_S rd rs1 rs2 rs3 funct3) | _ \<Rightarrow> None)"
| "shown64F op_fadd_s od = (case od of OperandR rd rs1 rs2 funct3 funct7 \<Rightarrow> Some (op64_FADD_S rd rs1 rs2 funct3) | _ \<Rightarrow> None)"
| "shown64F op_fsub_s od = (case od of OperandR rd rs1 rs2 funct3 funct7 \<Rightarrow> Some (op64_FSUB_S rd rs1 rs2 funct3) | _ \<Rightarrow> None)"
| "shown64F op_fmul_s od = (case od of OperandR rd rs1 rs2 funct3 funct7 \<Rightarrow> Some (op64_FMUL_S rd rs1 rs2 funct3) | _ \<Rightarrow> None)"
| "shown64F op_fdiv_s od = (case od of OperandR rd rs1 rs2 funct3 funct7 \<Rightarrow> Some (op64_FDIV_S rd rs1 rs2 funct3) | _ \<Rightarrow> None)"
| "shown64F op_fsqrt_s od = (case od of OperandR rd rs1 rs2 funct3 funct7 \<Rightarrow> Some (op64_FSQRT_S rd rs1 funct3) | _ \<Rightarrow> None)"
| "shown64F op_fsgnj_s od = (case od of OperandR rd rs1 rs2 funct3 funct7 \<Rightarrow> Some (op64_FSGNJ_S rd rs1 rs2) | _ \<Rightarrow> None)"
| "shown64F op_fsgnjn_s od = (case od of OperandR rd rs1 rs2 funct3 funct7 \<Rightarrow> Some (op64_FSGNJN_S rd rs1 rs2) | _ \<Rightarrow> None)"
| "shown64F op_fsgnjx_s od = (case od of OperandR rd rs1 rs2 funct3 funct7 \<Rightarrow> Some (op64_FSGNJX_S rd rs1 rs2) | _ \<Rightarrow> None)"
| "shown64F op_fmin_s od = (case od of OperandR rd rs1 rs2 funct3 funct7 \<Rightarrow> Some (op64_FMIN_S rd rs1 rs2) | _ \<Rightarrow> None)"
| "shown64F op_fmax_s od = (case od of OperandR rd rs1 rs2 funct3 funct7 \<Rightarrow> Some (op64_FMAX_S rd rs1 rs2) | _ \<Rightarrow> None)"
| "shown64F op_fcvt_w_s od = (case od of OperandR rd rs1 rs2 funct3 funct7 \<Rightarrow> Some (op64_FCVT_W_S rd rs1 funct3) | _ \<Rightarrow> None)"
| "shown64F op_fcvt_wu_s od = (case od of OperandR rd rs1 rs2 funct3 funct7 \<Rightarrow> Some (op64_FCVT_WU_S rd rs1 funct3) | _ \<Rightarrow> None)"
| "shown64F op_fmv_x_w od = (case od of OperandR rd rs1 rs2 funct3 funct7 \<Rightarrow> Some (op64_FMV_X_W rd rs1) | _ \<Rightarrow> None)"
| "shown64F op_feq_s od = (case od of OperandR rd rs1 rs2 funct3 funct7 \<Rightarrow> Some (op64_FEQ_S rd rs1 rs2) | _ \<Rightarrow> None)"
| "shown64F op_flt_s od = (case od of OperandR rd rs1 rs2 funct3 funct7 \<Rightarrow> Some (op64_FLT_S rd rs1 rs2) | _ \<Rightarrow> None)"
| "shown64F op_fle_s od = (case od of OperandR rd rs1 rs2 funct3 funct7 \<Rightarrow> Some (op64_FLE_S rd rs1 rs2) | _ \<Rightarrow> None)"
| "shown64F op_fclass_s od = (case od of OperandR rd rs1 rs2 funct3 funct7 \<Rightarrow> Some (op64_FCLASS_S rd rs1) | _ \<Rightarrow> None)"
| "shown64F op_fcvt_l_s od = (case od of OperandR rd rs1 rs2 funct3 funct7 \<Rightarrow> Some (op64_FCVT_L_S rd rs1 funct3) | _ \<Rightarrow> None)"
| "shown64F op_fcvt_lu_s od = (case od of OperandR rd rs1 rs2 funct3 funct7 \<Rightarrow> Some (op64_FCVT_LU_S rd rs1 funct3) | _ \<Rightarrow> None)"
| "shown64F op_fcvt_s_w od = (case od of OperandR rd rs1 rs2 funct3 funct7 \<Rightarrow> Some (op64_FCVT_S_W rd rs1 funct3) | _ \<Rightarrow> None)"
| "shown64F op_fcvt_s_l od = (case od of OperandR rd rs1 rs2 funct3 funct7 \<Rightarrow> Some (op64_FCVT_S_L rd rs1 funct3) | _ \<Rightarrow> None)"
| "shown64F op_fcvt_s_wu od = (case od of OperandR rd rs1 rs2 funct3 funct7 \<Rightarrow> Some (op64_FCVT_S_WU rd rs1 funct3) | _ \<Rightarrow> None)"
| "shown64F op_fcvt_s_lu od = (case od of OperandR rd rs1 rs2 funct3 funct7 \<Rightarrow> Some (op64_FCVT_S_LU rd rs1 funct3) | _ \<Rightarrow> None)"
| "shown64F op_fmv_w_x od = (case od of OperandR rd rs1 rs2 funct3 funct7 \<Rightarrow> Some (op64_FMV_W_X rd rs1) | _ \<Rightarrow> None)"

primrec shown64D :: "OpCodeD \<Rightarrow> Operand \<Rightarrow> op64D option" where
  "shown64D op_fld od = (case od of OperandI imm rd rs1 funct3 \<Rightarrow> Some (op64_FLD rd rs1 (ucast imm)) | _ \<Rightarrow> None)"
| "shown64D op_fsd od = (case od of OperandS imm rs1 rs2 funct3 \<Rightarrow> Some (op64_FSD rs1 rs2 (ucast imm)) | _ \<Rightarrow> None)"
| "shown64D op_fmadd_d od = (case od of OperandR4 rd rs1 rs2 rs3 funct3 funct2 \<Rightarrow> Some (op64_FMADD_D rd rs1 rs2 rs3 funct3) | _ \<Rightarrow> None)"
| "shown64D op_fmsub_d od = (case od of OperandR4 rd rs1 rs2 rs3 funct3 funct2 \<Rightarrow> Some (op64_FMSUB_D rd rs1 rs2 rs3 funct3) | _ \<Rightarrow> None)"
| "shown64D op_fnmsub_d od = (case od of OperandR4 rd rs1 rs2 rs3 funct3 funct2 \<Rightarrow> Some (op64_FNMSUB_D rd rs1 rs2 rs3 funct3) | _ \<Rightarrow> None)"
| "shown64D op_fnmadd_d od = (case od of OperandR4 rd rs1 rs2 rs3 funct3 funct2 \<Rightarrow> Some (op64_FNMADD_D rd rs1 rs2 rs3 funct3) | _ \<Rightarrow> None)"
| "shown64D op_fadd_d od = (case od of OperandR rd rs1 rs2 funct3 funct7 \<Rightarrow> Some (op64_FADD_D rd rs1 rs2 funct3) | _ \<Rightarrow> None)"
| "shown64D op_fsub_d od = (case od of OperandR rd rs1 rs2 funct3 funct7 \<Rightarrow> Some (op64_FSUB_D rd rs1 rs2 funct3) | _ \<Rightarrow> None)"
| "shown64D op_fmul_d od = (case od of OperandR rd rs1 rs2 funct3 funct7 \<Rightarrow> Some (op64_FMUL_D rd rs1 rs2 funct3) | _ \<Rightarrow> None)"
| "shown64D op_fdiv_d od = (case od of OperandR rd rs1 rs2 funct3 funct7 \<Rightarrow> Some (op64_FDIV_D rd rs1 rs2 funct3) | _ \<Rightarrow> None)"
| "shown64D op_fsqrt_d od = (case od of OperandR rd rs1 rs2 funct3 funct7 \<Rightarrow> Some (op64_FSQRT_D rd rs1 funct3) | _ \<Rightarrow> None)"
| "shown64D op_fsgnj_d od = (case od of OperandR rd rs1 rs2 funct3 funct7 \<Rightarrow> Some (op64_FSGNJ_D rd rs1 rs2) | _ \<Rightarrow> None)"
| "shown64D op_fsgnjn_d od = (case od of OperandR rd rs1 rs2 funct3 funct7 \<Rightarrow> Some (op64_FSGNJN_D rd rs1 rs2) | _ \<Rightarrow> None)"
| "shown64D op_fsgnjx_d od = (case od of OperandR rd rs1 rs2 funct3 funct7 \<Rightarrow> Some (op64_FSGNJX_D rd rs1 rs2) | _ \<Rightarrow> None)"
| "shown64D op_fmin_d od = (case od of OperandR rd rs1 rs2 funct3 funct7 \<Rightarrow> Some (op64_FMIN_D rd rs1 rs2) | _ \<Rightarrow> None)"
| "shown64D op_fmax_d od = (case od of OperandR rd rs1 rs2 funct3 funct7 \<Rightarrow> Some (op64_FMAX_D rd rs1 rs2) | _ \<Rightarrow> None)"
| "shown64D op_fmv_d_x od = (case od of OperandR rd rs1 rs2 funct3 funct7 \<Rightarrow> Some (op64_FMV_D_X rd rs1) | _ \<Rightarrow> None)"
| "shown64D op_fmv_x_d od = (case od of OperandR rd rs1 rs2 funct3 funct7 \<Rightarrow> Some (op64_FMV_X_D rd rs1) | _ \<Rightarrow> None)"
| "shown64D op_feq_d od = (case od of OperandR rd rs1 rs2 funct3 funct7 \<Rightarrow> Some (op64_FEQ_D rd rs1 rs2) | _ \<Rightarrow> None)"
| "shown64D op_flt_d od = (case od of OperandR rd rs1 rs2 funct3 funct7 \<Rightarrow> Some (op64_FLT_D rd rs1 rs2) | _ \<Rightarrow> None)"
| "shown64D op_fle_d od = (case od of OperandR rd rs1 rs2 funct3 funct7 \<Rightarrow> Some (op64_FLE_D rd rs1 rs2) | _ \<Rightarrow> None)"
| "shown64D op_fclass_d od = (case od of OperandR rd rs1 rs2 funct3 funct7 \<Rightarrow> Some (op64_FCLASS_D rd rs1) | _ \<Rightarrow> None)"
| "shown64D op_fcvt_s_d od = (case od of OperandR rd rs1 rs2 funct3 funct7 \<Rightarrow> Some (op64_FCVT_S_D rd rs1 funct3) | _ \<Rightarrow> None)"
| "shown64D op_fcvt_w_d od = (case od of OperandR rd rs1 rs2 funct3 funct7 \<Rightarrow> Some (op64_FCVT_W_D rd rs1 funct3) | _ \<Rightarrow> None)"
| "shown64D op_fcvt_wu_d od = (case od of OperandR rd rs1 rs2 funct3 funct7 \<Rightarrow> Some (op64_FCVT_WU_D rd rs1 funct3) | _ \<Rightarrow> None)"
| "shown64D op_fcvt_l_d od = (case od of OperandR rd rs1 rs2 funct3 funct7 \<Rightarrow> Some (op64_FCVT_L_D rd rs1 funct3) | _ \<Rightarrow> None)"
| "shown64D op_fcvt_lu_d od = (case od of OperandR rd rs1 rs2 funct3 funct7 \<Rightarrow> Some (op64_FCVT_LU_D rd rs1 funct3) | _ \<Rightarrow> None)"
| "shown64D op_fcvt_d_s od = (case od of OperandR rd rs1 rs2 funct3 funct7 \<Rightarrow> Some (op64_FCVT_D_S rd rs1 funct3) | _ \<Rightarrow> None)"
| "shown64D op_fcvt_d_w od = (case od of OperandR rd rs1 rs2 funct3 funct7 \<Rightarrow> Some (op64_FCVT_D_W rd rs1 funct3) | _ \<Rightarrow> None)"
| "shown64D op_fcvt_d_wu od = (case od of OperandR rd rs1 rs2 funct3 funct7 \<Rightarrow> Some (op64_FCVT_D_WU rd rs1 funct3) | _ \<Rightarrow> None)"
| "shown64D op_fcvt_d_l od = (case od of OperandR rd rs1 rs2 funct3 funct7 \<Rightarrow> Some (op64_FCVT_D_L rd rs1 funct3) | _ \<Rightarrow> None)"
| "shown64D op_fcvt_d_lu od = (case od of OperandR rd rs1 rs2 funct3 funct7 \<Rightarrow> Some (op64_FCVT_D_LU rd rs1 funct3) | _ \<Rightarrow> None)"

fun shown64 :: "OpCode \<Rightarrow> Operand \<Rightarrow> IOp option" where
  "shown64 (rvi c) od = map_option IOp64I (shown64I c od)"
| "shown64 (rvm c) od = map_option IOp64M (shown64M c od)"
| "shown64 (rva c) od = map_option IOp64A (shown64A c od)"
| "shown64 (rvf c) od = map_option IOp64F (shown64F c od)"
| "shown64 (rvd c) od = map_option IOp64D (shown64D c od)"
| "shown64 _ od = None"

definition shown :: "XLEN \<Rightarrow> Op \<Rightarrow> IOp option" where
  "shown xlen op = (if xlen = XLEN32 then shown32 (opCode op) (operand op) else shown64 (opCode op) (operand op))"

definition shown_result :: "XLEN \<Rightarrow> Op result \<Rightarrow> IOp option" where
  "shown_result xlen r = (case r of Inr op \<Rightarrow> shown xlen op | Inl e \<Rightarrow> None)"

text \<open>
  The verdict on a word: what the tools decode stands for the operation the emulator decodes, or both
  find no instruction. A known operation that no object of the class library stands for is a
  disagreement, whatever the tools decode.
\<close>

definition unknown_op :: "Op result \<Rightarrow> bool" where
  "unknown_op r = (case r of Inr op \<Rightarrow> opCode op = op_unknown | Inl e \<Rightarrow> False)"

definition tools_agree :: "XLEN \<Rightarrow> Op result \<Rightarrow> IOp option result \<Rightarrow> bool" where
  "tools_agree xlen r t = (case r of
     Inl e \<Rightarrow> False
   | Inr op \<Rightarrow> if opCode op = op_unknown then t = Inr None
       else (case shown xlen op of None \<Rightarrow> False | Some iop \<Rightarrow> t = Inr (Some iop)))"

section \<open>Where the tools differ\<close>

text \<open>
  The families of words the tools show wrongly: a store whose immediate is taken from the fields
  of a load, a jump whose offset is sign-extended from bit 19 in place of bit 20, the word shifts
  by an immediate, which become the 64-bit shifts, the floating-point stores, which get the fields
  \<open>rd\<close> and \<open>rs1\<close> in place of \<open>rs1\<close> and \<open>rs2\<close>, and the conversions of
  floating-point values, whose rounding mode is read from the field of \<open>rs2\<close>. On RV32 the
  emulator moreover decodes, and executes, the 64-bit conversions and moves of D, which are RV64 only
  and which the tools do not know.
\<close>

definition store_shown_wrong :: "uint32 list \<Rightarrow> uint32 \<Rightarrow> bool" where
  "store_shown_wrong sizes insn \<longleftrightarrow> Pick insn 0 7 = 0b0100011 \<and> Pick insn 12 3 \<in> set sizes \<and>
     Pick insn 7 5 \<noteq> Pick insn 20 5"

definition jump_shown_wrong :: "uint32 \<Rightarrow> bool" where
  "jump_shown_wrong insn \<longleftrightarrow> Pick insn 0 7 = 0b1101111 \<and> (bit insn 31 \<noteq> bit insn 19)"

definition word_shift_shown_wrong :: "uint32 \<Rightarrow> bool" where
  "word_shift_shown_wrong insn \<longleftrightarrow> Pick insn 0 7 = 0b0011011 \<and>
     (Pick insn 12 3 = 1 \<and> Pick insn 25 7 = 0 \<or>
      Pick insn 12 3 = 5 \<and> (Pick insn 25 7 = 0 \<or> Pick insn 25 7 = 0b0100000))"

definition float_store_shown_wrong :: "uint32 \<Rightarrow> uint32 \<Rightarrow> bool" where
  "float_store_shown_wrong format insn \<longleftrightarrow> Pick insn 0 7 = 0b0100111 \<and> Pick insn 12 3 = format \<and>
     (Pick insn 7 5 \<noteq> Pick insn 15 5 \<or> Pick insn 15 5 \<noteq> Pick insn 20 5)"

definition conversion_shown_wrong :: "uint32 list \<Rightarrow> uint32 list \<Rightarrow> uint32 \<Rightarrow> bool" where
  "conversion_shown_wrong codes formats insn \<longleftrightarrow> Pick insn 0 7 = 0b1010011 \<and>
     Pick insn 25 7 \<in> set codes \<and> Pick insn 20 5 \<in> set formats \<and> Pick insn 12 3 \<noteq> Pick insn 20 5"

definition single_shown_wrong :: "uint32 list \<Rightarrow> uint32 \<Rightarrow> bool" where
  "single_shown_wrong formats insn \<longleftrightarrow> float_store_shown_wrong 2 insn \<or>
     conversion_shown_wrong [0b1100000, 0b1101000] formats insn"

definition double_shown_wrong :: "uint32 list \<Rightarrow> uint32 \<Rightarrow> bool" where
  "double_shown_wrong formats insn \<longleftrightarrow> float_store_shown_wrong 3 insn \<or>
     conversion_shown_wrong [0b1100001, 0b1101001] formats insn \<or>
     conversion_shown_wrong [0b0100000] [1] insn \<or> conversion_shown_wrong [0b0100001] [0] insn"

definition wide_double_executed :: "uint32 \<Rightarrow> bool" where
  "wide_double_executed insn \<longleftrightarrow> Pick insn 0 7 = 0b1010011 \<and>
     (Pick insn 25 7 \<in> {0b1100001, 0b1101001} \<and> Pick insn 20 5 \<in> {2, 3} \<or>
      Pick insn 25 7 \<in> {0b1110001, 0b1111001} \<and> Pick insn 20 5 = 0 \<and> Pick insn 12 3 = 0)"

definition fields_shown_wrong :: "XLEN \<Rightarrow> uint32 \<Rightarrow> bool" where
  "fields_shown_wrong xlen insn \<longleftrightarrow> jump_shown_wrong insn \<or>
     (if xlen = XLEN32
      then store_shown_wrong [0, 1, 2] insn \<or> single_shown_wrong [0, 1] insn \<or> double_shown_wrong [0, 1] insn
      else store_shown_wrong [0, 1, 2, 3] insn \<or> word_shift_shown_wrong insn \<or>
        single_shown_wrong [0, 1, 2, 3] insn \<or> double_shown_wrong [0, 1, 2, 3] insn)"

definition shows_wrong :: "XLEN \<Rightarrow> uint32 \<Rightarrow> bool" where
  "shows_wrong xlen insn \<longleftrightarrow> fields_shown_wrong xlen insn \<or> xlen = XLEN32 \<and> wide_double_executed insn"

lemmas shown_wrong_defs = store_shown_wrong_def jump_shown_wrong_def word_shift_shown_wrong_def
  float_store_shown_wrong_def conversion_shown_wrong_def single_shown_wrong_def double_shown_wrong_def

section \<open>Immediates\<close>

lemma narrow_SignExtend:
  "0 < w \<Longrightarrow> w \<le> 32 \<Longrightarrow> ucast (SignExtend w (scast (v :: uint32)) :: uint64) = SignExtend w v"
  by (rule bit_eqI) (auto simp: bit_SignExtend bit_simps bit_scast_cases)

lemma word_eq_bits: "x = y \<longleftrightarrow> (\<forall>n<32. bit x n = bit (y :: uint32) n)"
  by (auto intro: bit_word_eqI)

lemmas bitwise_32 = word_eq_bits all_less_32 bit_SignExtend bit_Pick bit_simps  bit_ucast_iff

lemma upper_immediate:
  "take_bit 20 (drop_bit 12 (SignExtend 32 (push_bit 12 (Pick insn 12 20)))) = Pick (insn :: uint32) 12 20"
  by (simp add: bitwise_32 del: push_bit_Suc)

lemma sint_zero: "sint (v :: uint32) = 0 \<longleftrightarrow> v = 0"
  by (metis signed_0 signed_word_eqI)

lemma sint_inject: "sint (v :: uint32) = sint w \<longleftrightarrow> v = w"
  using signed_word_eqI by auto

lemma sint_one: "sint (v :: uint32) = 1 \<longleftrightarrow> v = 1" "sint (v :: uint32) = 2 \<longleftrightarrow> v = 2" "sint (v :: uint32) = 3 \<longleftrightarrow> v = 3"
  using signed_word_eqI [of v 1] signed_word_eqI [of v 2] signed_word_eqI [of v 3] by auto

lemma bit_sint_Pick: "w < 32 \<Longrightarrow> bit (sint (Pick (insn :: uint32) k w)) n \<longleftrightarrow> n < w \<and> k + n < 32 \<and> bit insn (k + n)"
  by (auto simp: bit_signed_iff bit_Pick min_def)

lemma Pick_1: "Pick (insn :: uint32) k 1 \<noteq> 0 \<longleftrightarrow> bit insn k"
proof -
  have "Pick insn k 1 = 0 \<longleftrightarrow> (\<forall>n < 32. \<not> (n < 1 \<and> k + n < 32 \<and> bit insn (k + n)))"
    by (simp add: word_eq_bits bit_Pick)
  then show ?thesis using bit_imp_le_length [of insn k] by auto
qed

lemma acquire_release:
  "odd (sint (Pick (insn :: uint32) 25 5)) \<longleftrightarrow> Pick insn 25 1 \<noteq> 0"
  "odd (sint (Pick (insn :: uint32) 25 5) div 2) \<longleftrightarrow> Pick insn 26 1 \<noteq> 0"
  unfolding Pick_1 using bit_sint_Pick [of 5 insn 25 0] bit_sint_Pick [of 5 insn 25 1]
  by (simp_all add: bit_iff_odd)

lemma store_immediate:
  "(SignExtend 12 (Pick insn 20 12) = (SignExtend 12 (push_bit 5 (Pick insn 25 7) OR Pick insn 7 5) :: uint32)) \<longleftrightarrow>
   Pick (insn :: uint32) 7 5 = Pick insn 20 5"
  by (auto simp: bitwise_32 simp del: push_bit_Suc)

lemma jump_immediate:
  assumes "v = push_bit 20 (Pick (insn :: uint32) 31 1) OR push_bit 1 (Pick insn 21 10) OR
    push_bit 11 (Pick insn 20 1) OR push_bit 12 (Pick insn 12 8)"
  shows "SignExtend 20 v = (SignExtend 21 v :: uint32) \<longleftrightarrow> (bit insn 31 = bit insn 19)"
  unfolding assms by (auto simp: bitwise_32 simp del: push_bit_Suc)
section \<open>One extension at a time\<close>

lemma shown_result_if:
  "shown_result xlen (if b then x else y) = (if b then shown_result xlen x else shown_result xlen y)"
  "shown_result xlen (Inr op) = shown xlen op" "shown_result xlen (Inl e) = None"
  by (simp_all add: shown_result_def)

lemma SignExtend_zero [simp]: "SignExtend w 0 = (0 :: uint32)"
  by (simp add: SignExtend_def)

lemma eq_if: "((if b then x else y) = (if b then x' else y')) = (if b then x = x' else y = y')"
  by simp

lemmas jump_immediate' = jump_immediate [OF refl, simplified]

lemmas agree_simps = shown_result_if Let_def select_class_def OpPick_Pick DecodeOperand_defs shown_def
  narrow_SignExtend upper_immediate sint_zero sint_one sint_inject acquire_release store_immediate eq_if

lemma agree_32M: "Pick insn 0 7 = 0b0110011 \<Longrightarrow>
  OpDecoder_DecodeRV32M insn = shown_result XLEN32 (DecodeM XLEN32 insn)"
  by (simp add: OpDecoder_DecodeRV32M_def DecodeM_def agree_simps cong: if_cong)

lemma agree_32A: "Pick insn 12 3 = 0b010 \<Longrightarrow>
  OpDecoder_DecodeRV32A insn = shown_result XLEN32 (DecodeA XLEN32 insn)"
  by (simp add: OpDecoder_DecodeRV32A_def DecodeA_def agree_simps cong: if_cong)

lemma agree_64M: "OpDecoder_DecodeRV64M insn = shown_result XLEN64 (DecodeM XLEN64 insn)"
  by (simp add: OpDecoder_DecodeRV64M_def DecodeM_def agree_simps cong: if_cong)

lemma agree_64A: "OpDecoder_DecodeRV64A insn = shown_result XLEN64 (DecodeA XLEN64 insn)"
  by (simp add: OpDecoder_DecodeRV64A_def DecodeA_def agree_simps cong: if_cong)

lemma agree_32I: "OpDecoder_DecodeRV32I insn = shown_result XLEN32 (DecodeI XLEN32 insn) \<longleftrightarrow>
  \<not> (store_shown_wrong [0, 1, 2] insn \<or> jump_shown_wrong insn)"
proof (cases "Pick insn 0 7 = 0b1101111 \<or> Pick insn 0 7 = 0b0001111 \<or> Pick insn 0 7 = 0b0010011")
  case True
  then show ?thesis
    by (elim disjE) (auto simp: OpDecoder_DecodeRV32I_def DecodeI_def agree_simps jump_immediate' shown_wrong_defs SignExtend_zero)
next
  case False
  then show ?thesis
    by (simp add: OpDecoder_DecodeRV32I_def DecodeI_def agree_simps shown_wrong_defs cong: if_cong)
qed

lemma agree_64I: "OpDecoder_DecodeRV64I insn = shown_result XLEN64 (DecodeI XLEN64 insn) \<longleftrightarrow>
  \<not> (store_shown_wrong [0, 1, 2, 3] insn \<or> jump_shown_wrong insn \<or> word_shift_shown_wrong insn)"
proof (cases "Pick insn 0 7 = 0b1101111 \<or> Pick insn 0 7 = 0b0001111 \<or> Pick insn 0 7 = 0b0010011")
  case True
  then show ?thesis
    by (elim disjE) (auto simp: OpDecoder_DecodeRV64I_def DecodeI_def agree_simps jump_immediate' shown_wrong_defs SignExtend_zero)
next
  case False
  then show ?thesis
    by (simp add: OpDecoder_DecodeRV64I_def DecodeI_def agree_simps shown_wrong_defs cong: if_cong)
qed

lemma agree_32F: "OpDecoder_DecodeRV32F insn = shown_result XLEN32 (DecodeF XLEN32 insn) \<longleftrightarrow>
  \<not> single_shown_wrong [0, 1] insn"
  by (simp add: OpDecoder_DecodeRV32F_def DecodeF_def agree_simps shown_wrong_defs cong: if_cong)

lemma agree_32D: "OpDecoder_DecodeRV32D insn = shown_result XLEN32 (DecodeD XLEN32 insn) \<longleftrightarrow>
  \<not> double_shown_wrong [0, 1] insn"
  by (simp add: OpDecoder_DecodeRV32D_def DecodeD_def agree_simps shown_wrong_defs cong: if_cong)

lemma agree_64F: "OpDecoder_DecodeRV64F insn = shown_result XLEN64 (DecodeF XLEN64 insn) \<longleftrightarrow>
  \<not> single_shown_wrong [0, 1, 2, 3] insn"
  by (simp add: OpDecoder_DecodeRV64F_def DecodeF_def agree_simps shown_wrong_defs cong: if_cong)

lemma agree_64D: "OpDecoder_DecodeRV64D insn = shown_result XLEN64 (DecodeD XLEN64 insn) \<longleftrightarrow>
  \<not> double_shown_wrong [0, 1, 2, 3] insn"
  by (simp add: OpDecoder_DecodeRV64D_def DecodeD_def agree_simps shown_wrong_defs cong: if_cong)


section \<open>Operations without an object\<close>

lemma Pick_25: "Pick (insn :: uint32) 25 2 = Pick insn 25 7 AND 3"
  by (simp add: bitwise_32 mask_numeral)

lemma unknown_op_simps:
  "unknown_op (if b then x else y) = (if b then unknown_op x else unknown_op y)"
  "unknown_op (Inr op) = (opCode op = op_unknown)" "\<not> unknown_op (Inl e)"
  by (simp_all add: unknown_op_def)

lemma if_none: "((if b then x else y) = None) = (if b then x = None else y = None)"
  by simp

lemmas object_simps = unknown_op_simps shown_result_if shown_def if_none Let_def select_class_def DecodeOperand_defs

lemma object_32:
  "shown_result XLEN32 (DecodeI XLEN32 insn) = None \<longleftrightarrow> unknown_op (DecodeI XLEN32 insn)"
  "Pick insn 0 7 = 0b0110011 \<or> Pick insn 0 7 = 0b0111011 \<Longrightarrow>
    shown_result XLEN32 (DecodeM XLEN32 insn) = None \<longleftrightarrow> unknown_op (DecodeM XLEN32 insn)"
  "shown_result XLEN32 (DecodeA XLEN32 insn) = None \<longleftrightarrow> unknown_op (DecodeA XLEN32 insn)"
  "shown_result XLEN32 (DecodeF XLEN32 insn) = None \<longleftrightarrow> unknown_op (DecodeF XLEN32 insn)"
  "Pick insn 0 7 \<in> {0b0000111, 0b0100111, 0b1000011, 0b1000111, 0b1001011, 0b1001111, 0b1010011} \<Longrightarrow>
    shown_result XLEN32 (DecodeD XLEN32 insn) = None \<longleftrightarrow> unknown_op (DecodeD XLEN32 insn) \<or> wide_double_executed insn"
proof -
  show "shown_result XLEN32 (DecodeM XLEN32 insn) = None \<longleftrightarrow> unknown_op (DecodeM XLEN32 insn)"
    if "Pick insn 0 7 = 0b0110011 \<or> Pick insn 0 7 = 0b0111011"
    using that by (auto simp: DecodeM_def object_simps)
qed (simp_all add: DecodeI_def DecodeA_def DecodeF_def DecodeD_def object_simps wide_double_executed_def)

lemma object_64:
  "shown_result XLEN64 (DecodeI XLEN64 insn) = None \<longleftrightarrow> unknown_op (DecodeI XLEN64 insn)"
  "Pick insn 0 7 = 0b0110011 \<or> Pick insn 0 7 = 0b0111011 \<Longrightarrow>
    shown_result XLEN64 (DecodeM XLEN64 insn) = None \<longleftrightarrow> unknown_op (DecodeM XLEN64 insn)"
  "shown_result XLEN64 (DecodeA XLEN64 insn) = None \<longleftrightarrow> unknown_op (DecodeA XLEN64 insn)"
  "shown_result XLEN64 (DecodeF XLEN64 insn) = None \<longleftrightarrow> unknown_op (DecodeF XLEN64 insn)"
  "shown_result XLEN64 (DecodeD XLEN64 insn) = None \<longleftrightarrow> unknown_op (DecodeD XLEN64 insn)"
proof -
  show "shown_result XLEN64 (DecodeM XLEN64 insn) = None \<longleftrightarrow> unknown_op (DecodeM XLEN64 insn)"
    if "Pick insn 0 7 = 0b0110011 \<or> Pick insn 0 7 = 0b0111011"
    using that by (auto simp: DecodeM_def object_simps)
qed (simp_all add: DecodeI_def DecodeA_def DecodeF_def DecodeD_def object_simps)

lemma without_object:
  assumes "\<not> IsCompressedInstruction32 insn"
  shows "shown_result XLEN32 (Decode XLEN32 insn) = None \<longleftrightarrow>
      unknown_op (Decode XLEN32 insn) \<or> wide_double_executed insn"
    "shown_result XLEN64 (Decode XLEN64 insn) = None \<longleftrightarrow> unknown_op (Decode XLEN64 insn)"
proof -
  consider "Pick insn 0 7 \<in> set [0b0110011, 0b0111011, 0b0101111, 0b0000111, 0b0100111, 0b1000011, 0b1000111, 0b1001011, 0b1001111]"
    | "Pick insn 0 7 = 0b1010011"
    | "Pick insn 0 7 \<notin> set [0b0110011, 0b0111011, 0b0101111, 0b0000111, 0b0100111, 0b1000011, 0b1000111, 0b1001011, 0b1001111, 0b1010011]"
    by force
  then have "(shown_result XLEN32 (Decode XLEN32 insn) = None \<longleftrightarrow>
      unknown_op (Decode XLEN32 insn) \<or> wide_double_executed insn) \<and>
    (shown_result XLEN64 (Decode XLEN64 insn) = None \<longleftrightarrow> unknown_op (Decode XLEN64 insn))"
  proof cases
    case 1
    then show ?thesis unfolding list.set using assms
      by (elim insertE emptyE)
        (simp_all add: Decode_def Let_def object_32 object_64 wide_double_executed_def)
  next
    case 2
    then show ?thesis using assms
      by (auto simp: Decode_def Let_def object_32 object_64 wide_double_executed_def Pick_25)
  next
    case 3
    then show ?thesis using assms
      by (simp add: Decode_def Let_def object_32 object_64 wide_double_executed_def)
  qed
  then show "shown_result XLEN32 (Decode XLEN32 insn) = None \<longleftrightarrow>
      unknown_op (Decode XLEN32 insn) \<or> wide_double_executed insn"
    "shown_result XLEN64 (Decode XLEN64 insn) = None \<longleftrightarrow> unknown_op (Decode XLEN64 insn)" by blast+
qed

lemma wide_double_known:
  assumes "\<not> IsCompressedInstruction32 insn" "wide_double_executed insn"
  shows "\<not> unknown_op (Decode XLEN32 insn)"
proof -
  have "unknown_op (Decode XLEN32 insn) = unknown_op (DecodeD XLEN32 insn)"
    using assms by (auto simp: Decode_def Let_def wide_double_executed_def Pick_25)
  moreover have "\<not> unknown_op (DecodeD XLEN32 insn)"
    using assms(2) by (auto simp: DecodeD_def object_simps wide_double_executed_def)
  ultimately show ?thesis by simp
qed

lemma tools_agree_iff:
  "tools_agree xlen r (Inr t) \<longleftrightarrow> t = shown_result xlen r \<and> (shown_result xlen r = None \<longrightarrow> unknown_op r)"
  by (auto simp: tools_agree_def unknown_op_def shown_result_def shown_def split: sum.split option.split)

section \<open>The two decoders\<close>

lemma compressed_same: "OpDecoder_IsCompressedInstruction insn = IsCompressedInstruction32 insn"
  by (simp add: OpDecoder_IsCompressedInstruction_def IsCompressedInstruction32_def)

lemma agree_32_none:
  "Pick insn 0 7 = 0b0111011 \<Longrightarrow> Pick insn 25 7 = 1 \<Longrightarrow> OpDecoder_DecodeRV32I insn = shown_result XLEN32 (DecodeM XLEN32 insn)"
  "Pick insn 0 7 = 0b0101111 \<Longrightarrow> Pick insn 12 3 = 0b011 \<Longrightarrow>
    OpDecoder_DecodeRV32I insn = shown_result XLEN32 (DecodeA XLEN32 insn)"
  by (simp_all add: OpDecoder_DecodeRV32I_def DecodeM_def DecodeA_def agree_simps)

lemmas dispatch_32 = agree_32_none OpDecoder_DecodeRV32_def Decode_def Let_def OpPick_Pick compressed_same fields_shown_wrong_def
  agree_32M agree_32A agree_32I agree_32F agree_32D

lemma agree_RV32:
  assumes "\<not> IsCompressedInstruction32 insn"
  shows "OpDecoder_DecodeRV32 insn = shown_result XLEN32 (Decode XLEN32 insn) \<longleftrightarrow> \<not> fields_shown_wrong XLEN32 insn"
proof -
  consider "Pick insn 0 7 \<in> set [0b0110011, 0b0111011, 0b0101111, 0b0000111, 0b0100111, 0b1000011, 0b1000111, 0b1001011, 0b1001111]"
    | "Pick insn 0 7 = 0b1010011"
    | "Pick insn 0 7 \<notin> set [0b0110011, 0b0111011, 0b0101111, 0b0000111, 0b0100111, 0b1000011, 0b1000111, 0b1001011, 0b1001111, 0b1010011]"
    by force
  then show ?thesis
  proof cases
    case 1
    then show ?thesis unfolding list.set using assms
      by (elim insertE emptyE) (simp_all add: dispatch_32 shown_wrong_defs shown_result_if eq_if)
  next
    case 2
    then show ?thesis using assms
      by (cases "Pick insn 25 7 \<in> set [0b1100000, 0b1101000, 0b1100001, 0b1101001, 0b0100000, 0b0100001]")
        (auto simp: dispatch_32 shown_wrong_defs Pick_25)
  next
    case 3
    then show ?thesis using assms by (simp add: dispatch_32 shown_wrong_defs) blast
  qed
qed

lemmas dispatch_64 = OpDecoder_DecodeRV64_def Decode_def Let_def OpPick_Pick compressed_same fields_shown_wrong_def
  agree_64M agree_64A agree_64I agree_64F agree_64D

lemma agree_RV64:
  assumes "\<not> IsCompressedInstruction32 insn"
  shows "OpDecoder_DecodeRV64 insn = shown_result XLEN64 (Decode XLEN64 insn) \<longleftrightarrow> \<not> fields_shown_wrong XLEN64 insn"
proof -
  consider "Pick insn 0 7 \<in> set [0b0110011, 0b0111011, 0b0101111, 0b0000111, 0b0100111, 0b1000011, 0b1000111, 0b1001011, 0b1001111]"
    | "Pick insn 0 7 = 0b1010011"
    | "Pick insn 0 7 \<notin> set [0b0110011, 0b0111011, 0b0101111, 0b0000111, 0b0100111, 0b1000011, 0b1000111, 0b1001011, 0b1001111, 0b1010011]"
    by force
  then show ?thesis
  proof cases
    case 1
    then show ?thesis unfolding list.set using assms
      by (elim insertE emptyE) (simp_all add: dispatch_64 shown_wrong_defs shown_result_if eq_if)
  next
    case 2
    then show ?thesis using assms
      by (cases "Pick insn 25 7 \<in> set [0b1100000, 0b1101000, 0b1100001, 0b1101001, 0b0100000, 0b0100001]")
        (auto simp: dispatch_64 shown_wrong_defs Pick_25)
  next
    case 3
    then show ?thesis using assms by (simp add: dispatch_64 shown_wrong_defs) blast
  qed
qed

text \<open>
  C23. Disassembly against execution: on every 32-bit word of RV32 and RV64 the tools and the emulator's
  decoder agree - the object the tools decode stands for the operation the emulator executes, operands
  included, or neither decoder finds an instruction - exactly when the word is outside the families of
  \<open>shows_wrong\<close>: stores and jumps whose offset is assembled differently, word shifts by an
  immediate, floating-point stores and conversions, and on RV32 the six 64-bit conversions and moves
  of D, which the emulator decodes all the same and the tools do not.
\<close>

theorem decoders_agree:
  assumes "xlen \<noteq> XLEN128" "\<not> IsCompressedInstruction32 insn"
  shows "tools_agree xlen (Decode xlen insn) (OpDecoder_Decode xlen insn) \<longleftrightarrow> \<not> shows_wrong xlen insn"
  using assms without_object [OF assms(2)] wide_double_known [OF assms(2)] agree_RV32 [OF assms(2)] agree_RV64 [OF assms(2)]
  by (cases xlen) (auto simp: OpDecoder_Decode_def tools_agree_iff shows_wrong_def)

theorem decoders_agree_witness:
  "tools_agree XLEN64 (Decode XLEN64 0x00a58533) (OpDecoder_Decode XLEN64 0x00a58533) \<and>
   \<not> tools_agree XLEN64 (Decode XLEN64 0x00a12423) (OpDecoder_Decode XLEN64 0x00a12423) \<and>
   \<not> tools_agree XLEN32 (Decode XLEN32 0xc2207053) (OpDecoder_Decode XLEN32 0xc2207053)"
proof -
  have "\<not> IsCompressedInstruction32 0x00a58533" "\<not> IsCompressedInstruction32 0x00a12423"
    "\<not> IsCompressedInstruction32 0xc2207053" "\<not> shows_wrong XLEN64 0x00a58533" "shows_wrong XLEN64 0x00a12423"
    "shows_wrong XLEN32 0xc2207053"
    by code_simp+
  then show ?thesis
    using decoders_agree [of XLEN64 "0x00a58533"] decoders_agree [of XLEN64 "0x00a12423"]
      decoders_agree [of XLEN32 "0xc2207053"] by simp
qed

end
