(* ===== verification/OpNames.thy ===== *)
theory OpNames
  imports Op
begin

text \<open>
  \<^verbatim>\<open>lib/common/OpDeprecated.cpp\<close>: the names of the operation codes, which
  \<open>Executor::Error\<close> prints. The macro prints the name of the enumerator, so the three that
  avoid a C++ keyword keep their underscore; a code without a case is ''unknown''. One function for
  each part of the enumeration.
\<close>

section \<open>GetString\<close>

primrec GetString_OpCodeI :: "OpCodeI \<Rightarrow> string" where
  "GetString_OpCodeI op_lui = ''lui''"
| "GetString_OpCodeI op_auipc = ''auipc''"
| "GetString_OpCodeI op_jal = ''jal''"
| "GetString_OpCodeI op_jalr = ''jalr''"
| "GetString_OpCodeI op_beq = ''beq''"
| "GetString_OpCodeI op_bne = ''bne''"
| "GetString_OpCodeI op_blt = ''blt''"
| "GetString_OpCodeI op_bge = ''bge''"
| "GetString_OpCodeI op_bltu = ''bltu''"
| "GetString_OpCodeI op_bgeu = ''bgeu''"
| "GetString_OpCodeI op_lb = ''lb''"
| "GetString_OpCodeI op_lh = ''lh''"
| "GetString_OpCodeI op_lw = ''lw''"
| "GetString_OpCodeI op_ld = ''unknown''"
| "GetString_OpCodeI op_lbu = ''lbu''"
| "GetString_OpCodeI op_lhu = ''lhu''"
| "GetString_OpCodeI op_lwu = ''unknown''"
| "GetString_OpCodeI op_sb = ''sb''"
| "GetString_OpCodeI op_sh = ''sh''"
| "GetString_OpCodeI op_sw = ''sw''"
| "GetString_OpCodeI op_sd = ''unknown''"
| "GetString_OpCodeI op_addi = ''addi''"
| "GetString_OpCodeI op_addiw = ''unknown''"
| "GetString_OpCodeI op_slti = ''slti''"
| "GetString_OpCodeI op_sltiu = ''sltiu''"
| "GetString_OpCodeI op_xori = ''xori''"
| "GetString_OpCodeI op_ori = ''ori''"
| "GetString_OpCodeI op_andi = ''andi''"
| "GetString_OpCodeI op_slli = ''slli''"
| "GetString_OpCodeI op_slliw = ''unknown''"
| "GetString_OpCodeI op_srli = ''srli''"
| "GetString_OpCodeI op_srliw = ''unknown''"
| "GetString_OpCodeI op_srai = ''srai''"
| "GetString_OpCodeI op_sraiw = ''unknown''"
| "GetString_OpCodeI op_add = ''add''"
| "GetString_OpCodeI op_addw = ''unknown''"
| "GetString_OpCodeI op_sub = ''sub''"
| "GetString_OpCodeI op_subw = ''unknown''"
| "GetString_OpCodeI op_sll = ''sll''"
| "GetString_OpCodeI op_sllw = ''unknown''"
| "GetString_OpCodeI op_slt = ''slt''"
| "GetString_OpCodeI op_sltu = ''sltu''"
| "GetString_OpCodeI op_xor = ''xor_''"
| "GetString_OpCodeI op_srl = ''srl''"
| "GetString_OpCodeI op_srlw = ''unknown''"
| "GetString_OpCodeI op_sra = ''sra''"
| "GetString_OpCodeI op_sraw = ''unknown''"
| "GetString_OpCodeI op_or = ''or_''"
| "GetString_OpCodeI op_and = ''and_''"
| "GetString_OpCodeI op_fence = ''fence''"
| "GetString_OpCodeI op_fence_i = ''fence_i''"
| "GetString_OpCodeI op_ecall = ''ecall''"
| "GetString_OpCodeI op_ebreak = ''ebreak''"
| "GetString_OpCodeI op_csrrw = ''csrrw''"
| "GetString_OpCodeI op_csrrs = ''csrrs''"
| "GetString_OpCodeI op_csrrc = ''csrrc''"
| "GetString_OpCodeI op_csrrwi = ''csrrwi''"
| "GetString_OpCodeI op_csrrsi = ''csrrsi''"
| "GetString_OpCodeI op_csrrci = ''csrrci''"
| "GetString_OpCodeI op_mret = ''mret''"
| "GetString_OpCodeI op_sret = ''sret''"
| "GetString_OpCodeI op_uret = ''uret''"
| "GetString_OpCodeI op_wfi = ''wfi''"
| "GetString_OpCodeI op_sfence_vma = ''sfence_vma''"

primrec GetString_OpCodeM :: "OpCodeM \<Rightarrow> string" where
  "GetString_OpCodeM op_mul = ''mul''"
| "GetString_OpCodeM op_mulw = ''unknown''"
| "GetString_OpCodeM op_mulh = ''mulh''"
| "GetString_OpCodeM op_mulhsu = ''mulhsu''"
| "GetString_OpCodeM op_mulhu = ''mulhu''"
| "GetString_OpCodeM op_div = ''div''"
| "GetString_OpCodeM op_divw = ''unknown''"
| "GetString_OpCodeM op_divu = ''divu''"
| "GetString_OpCodeM op_divuw = ''unknown''"
| "GetString_OpCodeM op_rem = ''rem''"
| "GetString_OpCodeM op_remw = ''unknown''"
| "GetString_OpCodeM op_remu = ''remu''"
| "GetString_OpCodeM op_remuw = ''unknown''"

primrec GetString_OpCodeA :: "OpCodeA \<Rightarrow> string" where
  "GetString_OpCodeA op_lr_w = ''lr_w''"
| "GetString_OpCodeA op_lr_d = ''unknown''"
| "GetString_OpCodeA op_sc_w = ''sc_w''"
| "GetString_OpCodeA op_sc_d = ''unknown''"
| "GetString_OpCodeA op_amoswap_w = ''amoswap_w''"
| "GetString_OpCodeA op_amoswap_d = ''unknown''"
| "GetString_OpCodeA op_amoadd_w = ''amoadd_w''"
| "GetString_OpCodeA op_amoadd_d = ''unknown''"
| "GetString_OpCodeA op_amoxor_w = ''amoxor_w''"
| "GetString_OpCodeA op_amoxor_d = ''unknown''"
| "GetString_OpCodeA op_amoand_w = ''amoand_w''"
| "GetString_OpCodeA op_amoand_d = ''unknown''"
| "GetString_OpCodeA op_amoor_w = ''amoor_w''"
| "GetString_OpCodeA op_amoor_d = ''unknown''"
| "GetString_OpCodeA op_amomin_w = ''amomin_w''"
| "GetString_OpCodeA op_amomin_d = ''unknown''"
| "GetString_OpCodeA op_amomax_w = ''amomax_w''"
| "GetString_OpCodeA op_amomax_d = ''unknown''"
| "GetString_OpCodeA op_amominu_w = ''amominu_w''"
| "GetString_OpCodeA op_amominu_d = ''unknown''"
| "GetString_OpCodeA op_amomaxu_w = ''amomaxu_w''"
| "GetString_OpCodeA op_amomaxu_d = ''unknown''"

primrec GetString_OpCodeF :: "OpCodeF \<Rightarrow> string" where
  "GetString_OpCodeF op_flw = ''flw''"
| "GetString_OpCodeF op_fsw = ''fsw''"
| "GetString_OpCodeF op_fmadd_s = ''fmadd_s''"
| "GetString_OpCodeF op_fmsub_s = ''fmsub_s''"
| "GetString_OpCodeF op_fnmsub_s = ''fnmsub_s''"
| "GetString_OpCodeF op_fnmadd_s = ''fnmadd_s''"
| "GetString_OpCodeF op_fadd_s = ''fadd_s''"
| "GetString_OpCodeF op_fsub_s = ''fsub_s''"
| "GetString_OpCodeF op_fmul_s = ''fmul_s''"
| "GetString_OpCodeF op_fdiv_s = ''fdiv_s''"
| "GetString_OpCodeF op_fsqrt_s = ''fsqrt_s''"
| "GetString_OpCodeF op_fsgnj_s = ''fsgnj_s''"
| "GetString_OpCodeF op_fsgnjn_s = ''fsgnjn_s''"
| "GetString_OpCodeF op_fsgnjx_s = ''fsgnjx_s''"
| "GetString_OpCodeF op_fmin_s = ''fmin_s''"
| "GetString_OpCodeF op_fmax_s = ''fmax_s''"
| "GetString_OpCodeF op_fcvt_w_s = ''fcvt_w_s''"
| "GetString_OpCodeF op_fcvt_wu_s = ''fcvt_wu_s''"
| "GetString_OpCodeF op_fmv_x_w = ''fmv_x_w''"
| "GetString_OpCodeF op_feq_s = ''feq_s''"
| "GetString_OpCodeF op_flt_s = ''flt_s''"
| "GetString_OpCodeF op_fle_s = ''fle_s''"
| "GetString_OpCodeF op_fclass_s = ''fclass_s''"
| "GetString_OpCodeF op_fcvt_l_s = ''unknown''"
| "GetString_OpCodeF op_fcvt_lu_s = ''unknown''"
| "GetString_OpCodeF op_fcvt_s_w = ''fcvt_s_w''"
| "GetString_OpCodeF op_fcvt_s_l = ''unknown''"
| "GetString_OpCodeF op_fcvt_s_wu = ''fcvt_s_wu''"
| "GetString_OpCodeF op_fcvt_s_lu = ''unknown''"
| "GetString_OpCodeF op_fmv_w_x = ''fmv_w_x''"

primrec GetString_OpCodeD :: "OpCodeD \<Rightarrow> string" where
  "GetString_OpCodeD op_fld = ''fld''"
| "GetString_OpCodeD op_fsd = ''fsd''"
| "GetString_OpCodeD op_fmadd_d = ''fmadd_d''"
| "GetString_OpCodeD op_fmsub_d = ''fmsub_d''"
| "GetString_OpCodeD op_fnmsub_d = ''fnmsub_d''"
| "GetString_OpCodeD op_fnmadd_d = ''fnmadd_d''"
| "GetString_OpCodeD op_fadd_d = ''fadd_d''"
| "GetString_OpCodeD op_fsub_d = ''fsub_d''"
| "GetString_OpCodeD op_fmul_d = ''fmul_d''"
| "GetString_OpCodeD op_fdiv_d = ''fdiv_d''"
| "GetString_OpCodeD op_fsqrt_d = ''fsqrt_d''"
| "GetString_OpCodeD op_fsgnj_d = ''fsgnj_d''"
| "GetString_OpCodeD op_fsgnjn_d = ''fsgnjn_d''"
| "GetString_OpCodeD op_fsgnjx_d = ''fsgnjx_d''"
| "GetString_OpCodeD op_fmin_d = ''fmin_d''"
| "GetString_OpCodeD op_fmax_d = ''fmax_d''"
| "GetString_OpCodeD op_fmv_d_x = ''unknown''"
| "GetString_OpCodeD op_fmv_x_d = ''unknown''"
| "GetString_OpCodeD op_feq_d = ''feq_d''"
| "GetString_OpCodeD op_flt_d = ''flt_d''"
| "GetString_OpCodeD op_fle_d = ''fle_d''"
| "GetString_OpCodeD op_fclass_d = ''fclass_d''"
| "GetString_OpCodeD op_fcvt_s_d = ''fcvt_s_d''"
| "GetString_OpCodeD op_fcvt_w_d = ''fcvt_w_d''"
| "GetString_OpCodeD op_fcvt_wu_d = ''fcvt_wu_d''"
| "GetString_OpCodeD op_fcvt_l_d = ''unknown''"
| "GetString_OpCodeD op_fcvt_lu_d = ''unknown''"
| "GetString_OpCodeD op_fcvt_d_s = ''fcvt_d_s''"
| "GetString_OpCodeD op_fcvt_d_w = ''fcvt_d_w''"
| "GetString_OpCodeD op_fcvt_d_wu = ''fcvt_d_wu''"
| "GetString_OpCodeD op_fcvt_d_l = ''unknown''"
| "GetString_OpCodeD op_fcvt_d_lu = ''unknown''"

primrec GetString_OpCodeC :: "OpCodeC \<Rightarrow> string" where
  "GetString_OpCodeC op_c_addi4spn = ''c_addi4spn''"
| "GetString_OpCodeC op_c_fld = ''c_fld''"
| "GetString_OpCodeC op_c_lq = ''c_lq''"
| "GetString_OpCodeC op_c_lw = ''c_lw''"
| "GetString_OpCodeC op_c_flw = ''c_flw''"
| "GetString_OpCodeC op_c_ld = ''c_ld''"
| "GetString_OpCodeC op_c_fsd = ''c_fsd''"
| "GetString_OpCodeC op_c_sq = ''c_sq''"
| "GetString_OpCodeC op_c_sw = ''c_sw''"
| "GetString_OpCodeC op_c_fsw = ''c_fsw''"
| "GetString_OpCodeC op_c_sd = ''c_sd''"
| "GetString_OpCodeC op_c_nop = ''c_nop''"
| "GetString_OpCodeC op_c_addi = ''c_addi''"
| "GetString_OpCodeC op_c_jal = ''c_jal''"
| "GetString_OpCodeC op_c_addiw = ''c_addiw''"
| "GetString_OpCodeC op_c_li = ''c_li''"
| "GetString_OpCodeC op_c_addi16sp = ''c_addi16sp''"
| "GetString_OpCodeC op_c_lui = ''c_lui''"
| "GetString_OpCodeC op_c_srli = ''c_srli''"
| "GetString_OpCodeC op_c_srli64 = ''c_srli64''"
| "GetString_OpCodeC op_c_srai = ''c_srai''"
| "GetString_OpCodeC op_c_srai64 = ''c_srai64''"
| "GetString_OpCodeC op_c_andi = ''c_andi''"
| "GetString_OpCodeC op_c_sub = ''c_sub''"
| "GetString_OpCodeC op_c_xor = ''c_xor''"
| "GetString_OpCodeC op_c_or = ''c_or''"
| "GetString_OpCodeC op_c_and = ''c_and''"
| "GetString_OpCodeC op_c_subw = ''c_subw''"
| "GetString_OpCodeC op_c_addw = ''c_addw''"
| "GetString_OpCodeC op_c_j = ''c_j''"
| "GetString_OpCodeC op_c_beqz = ''c_beqz''"
| "GetString_OpCodeC op_c_bnez = ''c_bnez''"
| "GetString_OpCodeC op_c_slli = ''c_slli''"
| "GetString_OpCodeC op_c_slli64 = ''c_slli64''"
| "GetString_OpCodeC op_c_fldsp = ''c_fldsp''"
| "GetString_OpCodeC op_c_lqsp = ''c_lqsp''"
| "GetString_OpCodeC op_c_lwsp = ''c_lwsp''"
| "GetString_OpCodeC op_c_flwsp = ''c_flwsp''"
| "GetString_OpCodeC op_c_ldsp = ''c_ldsp''"
| "GetString_OpCodeC op_c_jr = ''c_jr''"
| "GetString_OpCodeC op_c_mv = ''c_mv''"
| "GetString_OpCodeC op_c_ebreak = ''c_ebreak''"
| "GetString_OpCodeC op_c_jalr = ''c_jalr''"
| "GetString_OpCodeC op_c_add = ''c_add''"
| "GetString_OpCodeC op_c_fsdsp = ''c_fsdsp''"
| "GetString_OpCodeC op_c_sqsp = ''c_sqsp''"
| "GetString_OpCodeC op_c_swsp = ''c_swsp''"
| "GetString_OpCodeC op_c_fswsp = ''c_fswsp''"
| "GetString_OpCodeC op_c_sdsp = ''c_sdsp''"

definition GetString_OpCode :: "OpCode \<Rightarrow> string" where
  "GetString_OpCode c = (case c of op_unknown \<Rightarrow> ''unknown'' | rvi c \<Rightarrow> GetString_OpCodeI c
    | rvm c \<Rightarrow> GetString_OpCodeM c | rva c \<Rightarrow> GetString_OpCodeA c | rvf c \<Rightarrow> GetString_OpCodeF c
    | rvd c \<Rightarrow> GetString_OpCodeD c | rvc c \<Rightarrow> GetString_OpCodeC c)"

section \<open>Laws\<close>

text \<open>The codes with a name: those of a 32-bit machine and of the compressed set. A code that exists only on
  a 64-bit machine is unknown.\<close>

definition named :: "OpCode list" where
  "named = [rvi op_lui, rvi op_auipc, rvi op_jal, rvi op_jalr, rvi op_beq, rvi op_bne, rvi op_blt, rvi op_bge,
    rvi op_bltu, rvi op_bgeu, rvi op_lb, rvi op_lh, rvi op_lw, rvi op_lbu, rvi op_lhu, rvi op_sb, rvi
    op_sh, rvi op_sw, rvi op_addi, rvi op_slti, rvi op_sltiu, rvi op_xori, rvi op_ori, rvi op_andi, rvi
    op_slli, rvi op_srli, rvi op_srai, rvi op_add, rvi op_sub, rvi op_sll, rvi op_slt, rvi op_sltu, rvi
    op_xor, rvi op_srl, rvi op_sra, rvi op_or, rvi op_and, rvi op_fence, rvi op_fence_i, rvi op_ecall,
    rvi op_ebreak, rvi op_csrrw, rvi op_csrrs, rvi op_csrrc, rvi op_csrrwi, rvi op_csrrsi, rvi
    op_csrrci, rvi op_mret, rvi op_sret, rvi op_uret, rvi op_wfi, rvi op_sfence_vma, rvm op_mul, rvm
    op_mulh, rvm op_mulhsu, rvm op_mulhu, rvm op_div, rvm op_divu, rvm op_rem, rvm op_remu, rva op_lr_w,
    rva op_sc_w, rva op_amoswap_w, rva op_amoadd_w, rva op_amoxor_w, rva op_amoand_w, rva op_amoor_w,
    rva op_amomin_w, rva op_amomax_w, rva op_amominu_w, rva op_amomaxu_w, rvf op_flw, rvf op_fsw, rvf
    op_fmadd_s, rvf op_fmsub_s, rvf op_fnmsub_s, rvf op_fnmadd_s, rvf op_fadd_s, rvf op_fsub_s, rvf
    op_fmul_s, rvf op_fdiv_s, rvf op_fsqrt_s, rvf op_fsgnj_s, rvf op_fsgnjn_s, rvf op_fsgnjx_s, rvf
    op_fmin_s, rvf op_fmax_s, rvf op_fcvt_w_s, rvf op_fcvt_wu_s, rvf op_fmv_x_w, rvf op_feq_s, rvf
    op_flt_s, rvf op_fle_s, rvf op_fclass_s, rvf op_fcvt_s_w, rvf op_fcvt_s_wu, rvf op_fmv_w_x, rvd
    op_fld, rvd op_fsd, rvd op_fmadd_d, rvd op_fmsub_d, rvd op_fnmsub_d, rvd op_fnmadd_d, rvd op_fadd_d,
    rvd op_fsub_d, rvd op_fmul_d, rvd op_fdiv_d, rvd op_fsqrt_d, rvd op_fsgnj_d, rvd op_fsgnjn_d, rvd
    op_fsgnjx_d, rvd op_fmin_d, rvd op_fmax_d, rvd op_feq_d, rvd op_flt_d, rvd op_fle_d, rvd
    op_fclass_d, rvd op_fcvt_s_d, rvd op_fcvt_w_d, rvd op_fcvt_wu_d, rvd op_fcvt_d_s, rvd op_fcvt_d_w,
    rvd op_fcvt_d_wu, rvc op_c_addi4spn, rvc op_c_fld, rvc op_c_lq, rvc op_c_lw, rvc op_c_flw, rvc
    op_c_ld, rvc op_c_fsd, rvc op_c_sq, rvc op_c_sw, rvc op_c_fsw, rvc op_c_sd, rvc op_c_nop, rvc
    op_c_addi, rvc op_c_jal, rvc op_c_addiw, rvc op_c_li, rvc op_c_addi16sp, rvc op_c_lui, rvc
    op_c_srli, rvc op_c_srli64, rvc op_c_srai, rvc op_c_srai64, rvc op_c_andi, rvc op_c_sub, rvc
    op_c_xor, rvc op_c_or, rvc op_c_and, rvc op_c_subw, rvc op_c_addw, rvc op_c_j, rvc op_c_beqz, rvc
    op_c_bnez, rvc op_c_slli, rvc op_c_slli64, rvc op_c_fldsp, rvc op_c_lqsp, rvc op_c_lwsp, rvc
    op_c_flwsp, rvc op_c_ldsp, rvc op_c_jr, rvc op_c_mv, rvc op_c_ebreak, rvc op_c_jalr, rvc op_c_add,
    rvc op_c_fsdsp, rvc op_c_sqsp, rvc op_c_swsp, rvc op_c_fswsp, rvc op_c_sdsp]"

lemma name_unknown_iff: "GetString_OpCode c = ''unknown'' \<longleftrightarrow> c \<notin> set named"
proof -
  have "list_all (\<lambda>c. GetString_OpCode c \<noteq> ''unknown'') named" by code_simp
  moreover have "GetString_OpCode c = ''unknown'' \<or> c \<in> set named"
  proof (cases c)
    case (rvi d) then show ?thesis by (cases d) (simp_all add: GetString_OpCode_def named_def)
  next
    case (rvm d) then show ?thesis by (cases d) (simp_all add: GetString_OpCode_def named_def)
  next
    case (rva d) then show ?thesis by (cases d) (simp_all add: GetString_OpCode_def named_def)
  next
    case (rvf d) then show ?thesis by (cases d) (simp_all add: GetString_OpCode_def named_def)
  next
    case (rvd d) then show ?thesis by (cases d) (simp_all add: GetString_OpCode_def named_def)
  next
    case (rvc d) then show ?thesis by (cases d) (simp_all add: GetString_OpCode_def named_def)
  qed (simp add: GetString_OpCode_def)
  ultimately show ?thesis by (auto simp: list_all_iff)
qed

end
