(* ===== verification/Gdb.thy ===== *)
theory Gdb
  imports RvTypes
begin

text \<open>
  \<^verbatim>\<open>bin/rafi-emu/gdb/\<close>: the gdb remote protocol. The emulator behind the server is the
  interface \<^verbatim>\<open>IEmulator\<close>, a record of operations on a state of any type. The peer of a session is
  the list of segments its \<open>recv\<close> calls see: one call returns bytes of one segment only, and the
  connection is closed after the last. Allocation succeeds, and what the server prints on the
  console is left out.
\<close>

section \<open>Hexadecimal text (GdbUtil)\<close>

definition DigitToHexChar :: "nat \<Rightarrow> char" where
  "DigitToHexChar v = (if v < 10 then char_of (48 + v) else char_of (97 + (v - 10)))"

text \<open>The digits are below 16 by their computation, so the assertion of DigitToHexChar holds.\<close>

primrec BinaryToHex_loop :: "nat \<Rightarrow> 'a::len word \<Rightarrow> string" where
  "BinaryToHex_loop 0 tmp = []"
| "BinaryToHex_loop (Suc i) tmp =
     DigitToHexChar (unat tmp mod 256 div 16) # DigitToHexChar (unat tmp mod 16) #
     BinaryToHex_loop i (drop_bit 8 tmp)"

definition BinaryToHex :: "'a::len word \<Rightarrow> string" where
  "BinaryToHex value = BinaryToHex_loop (LENGTH('a) div 8) value"

primrec StringToHex :: "string \<Rightarrow> string" where
  "StringToHex [] = []"
| "StringToHex (c # cs) = BinaryToHex (of_char c :: uint8) @ StringToHex cs"

definition HexCharToUInt8 :: "char \<Rightarrow> uint8 result" where
  "HexCharToUInt8 c =
     (if (48 :: nat) \<le> of_char c \<and> of_char c \<le> (57 :: nat) then Inr (of_nat (of_char c - 48))
      else if (97 :: nat) \<le> of_char c \<and> of_char c \<le> (102 :: nat) then Inr (of_nat (of_char c - 97 + 10))
      else Inl ProcessExit)"

primrec HexToUInt64_loop :: "string \<Rightarrow> uint64 \<Rightarrow> uint64 result" where
  "HexToUInt64_loop [] acc = Inr acc"
| "HexToUInt64_loop (c # cs) acc =
     rbind (HexCharToUInt8 c) (\<lambda>d. HexToUInt64_loop cs (push_bit 4 acc + ucast d))"

definition HexToUInt64 :: "string \<Rightarrow> uint64 result" where
  "HexToUInt64 str = HexToUInt64_loop str 0"

definition HexToUInt8 :: "string \<Rightarrow> uint8 result" where
  "HexToUInt8 str = rbind (HexToUInt64 str) (\<lambda>v. Inr (ucast v))"

section \<open>Saved memory values (GdbData)\<close>

type_synonym GdbData = "paddr_t \<rightharpoonup> uint64"

text \<open>\<open>emplace\<close> keeps an entry that is there; \<open>operator[]\<close> inserts a zero that is not.\<close>

definition PushMemoryValue :: "paddr_t \<Rightarrow> uint64 \<Rightarrow> GdbData \<Rightarrow> GdbData" where
  "PushMemoryValue addr value d = (case d addr of Some _ \<Rightarrow> d | None \<Rightarrow> d(addr \<mapsto> value))"

definition PopMemoryValue :: "paddr_t \<Rightarrow> GdbData \<Rightarrow> uint64 \<times> GdbData" where
  "PopMemoryValue addr d = (case d addr of Some v \<Rightarrow> v | None \<Rightarrow> 0, d(addr := None))"

section \<open>The emulator behind the server\<close>

text \<open>
  \<^verbatim>\<open>IEmulator\<close>. \<open>Process\<close> with a stop condition need not return: \<open>None\<close>.
\<close>

record 'e IEmulator =
  ie_Process :: "uint32 \<Rightarrow> 'e \<Rightarrow> 'e result option"
  ie_ProcessCycle :: "'e \<Rightarrow> 'e result"
  ie_IsValidMemory :: "'e \<Rightarrow> paddr_t \<Rightarrow> nat \<Rightarrow> bool"
  ie_ReadMemory :: "'e \<Rightarrow> nat \<Rightarrow> paddr_t \<Rightarrow> bytes result"
  ie_WriteMemory :: "bytes \<Rightarrow> paddr_t \<Rightarrow> 'e \<Rightarrow> 'e result"
  ie_GetPc :: "'e \<Rightarrow> vaddr_t"
  ie_CopyIntReg32 :: "'e \<Rightarrow> uint32 list"
  ie_CopyIntReg64 :: "'e \<Rightarrow> uint64 list"

section \<open>Commands\<close>

datatype IGdbCommand =
    GdbCommandInvalid
  | GdbCommandReadReg XLEN
  | GdbCommandReadMemory paddr_t nat
  | GdbCommandInsertBreakPoint paddr_t nat
  | GdbCommandRemoveBreakPoint paddr_t nat
  | GdbCommandContinue
  | GdbCommandStep
  | GdbCommandSetThread
  | GdbCommandStopReason
  | GdbCommandQuery string
  | GdbCommandContinueQuery

subsection \<open>Parsing (constructors and GdbCommandFactory)\<close>

text \<open>\<open>str_find c i s\<close> is \<open>s.find(c, i)\<close>, \<open>None\<close> for \<open>npos\<close>.\<close>

primrec str_find_loop :: "char \<Rightarrow> nat \<Rightarrow> string \<Rightarrow> nat option" where
  "str_find_loop c i [] = None"
| "str_find_loop c i (x # xs) = (if x = c then Some i else str_find_loop c (Suc i) xs)"

definition str_find :: "char \<Rightarrow> nat \<Rightarrow> string \<Rightarrow> nat option" where
  "str_find c i s = str_find_loop c i (drop i s)"

definition substr :: "nat \<Rightarrow> nat \<Rightarrow> string \<Rightarrow> string" where
  "substr pos n s = take n (drop pos s)"

definition GdbCommandReadMemory_new :: "string \<Rightarrow> IGdbCommand result" where
  "GdbCommandReadMemory_new cmd = (case str_find CHR '','' 0 cmd of
      None \<Rightarrow> Inl ProcessExit
    | Some comma \<Rightarrow>
        let addr = substr 1 (comma - 1) cmd; sz = drop (comma + 1) cmd in
        rbind (HexToUInt64 addr) (\<lambda>a. rbind (HexToUInt64 sz) (\<lambda>n.
          Inr (GdbCommandReadMemory a (unat n)))))"

text \<open>The two breakpoint commands read their operands alike.\<close>

definition breakpoint_operands :: "string \<Rightarrow> (paddr_t \<times> nat) result" where
  "breakpoint_operands cmd = (case str_find CHR '','' 0 cmd of
      None \<Rightarrow> Inl ProcessExit
    | Some comma0 \<Rightarrow> (case str_find CHR '','' (comma0 + 1) cmd of
        None \<Rightarrow> Inl ProcessExit
      | Some comma1 \<Rightarrow>
          let addr = substr (comma0 + 1) (comma1 - (comma0 + 1)) cmd; sz = drop (comma1 + 1) cmd in
          rbind (HexToUInt64 addr) (\<lambda>a. rbind (HexToUInt64 sz) (\<lambda>n. Inr (a, unat n)))))"

definition GdbCommandInsertBreakPoint_new :: "string \<Rightarrow> IGdbCommand result" where
  "GdbCommandInsertBreakPoint_new cmd =
     rbind (breakpoint_operands cmd) (\<lambda>(a, n). Inr (GdbCommandInsertBreakPoint a n))"

definition GdbCommandRemoveBreakPoint_new :: "string \<Rightarrow> IGdbCommand result" where
  "GdbCommandRemoveBreakPoint_new cmd =
     rbind (breakpoint_operands cmd) (\<lambda>(a, n). Inr (GdbCommandRemoveBreakPoint a n))"

definition ParseLongCommand :: "string \<Rightarrow> IGdbCommand result" where
  "ParseLongCommand cmd =
     (if cmd = ''vMustReplyEmpty'' then Inr GdbCommandInvalid
      else if cmd = ''vCont?'' then Inr GdbCommandContinueQuery
      else Inl ProcessExit)"

definition GdbCommandFactory_Parse :: "XLEN \<Rightarrow> string \<Rightarrow> IGdbCommand result" where
  "GdbCommandFactory_Parse xlen cmd = (case cmd of
      [] \<Rightarrow> Inr GdbCommandInvalid
    | c # _ \<Rightarrow>
        if c = CHR ''?'' then Inr GdbCommandStopReason
        else if c = CHR ''H'' then Inr GdbCommandSetThread
        else if c = CHR ''Z'' then GdbCommandInsertBreakPoint_new cmd
        else if c = CHR ''c'' then Inr GdbCommandContinue
        else if c = CHR ''g'' then Inr (GdbCommandReadReg xlen)
        else if c = CHR ''m'' then GdbCommandReadMemory_new cmd
        else if c = CHR ''q'' then Inr (GdbCommandQuery cmd)
        else if c = CHR ''s'' then Inr GdbCommandStep
        else if c = CHR ''v'' then ParseLongCommand cmd
        else if c = CHR ''z'' then GdbCommandRemoveBreakPoint_new cmd
        else Inl ProcessExit)"

subsection \<open>Processing\<close>

definition ReadReg_Process32 :: "'e IEmulator \<Rightarrow> 'e \<Rightarrow> string" where
  "ReadReg_Process32 ie e =
     concat (map BinaryToHex (ie_CopyIntReg32 ie e)) @ BinaryToHex (ucast (ie_GetPc ie e) :: uint32)"

definition ReadReg_Process64 :: "'e IEmulator \<Rightarrow> 'e \<Rightarrow> string" where
  "ReadReg_Process64 ie e = concat (map BinaryToHex (ie_CopyIntReg64 ie e)) @ BinaryToHex (ie_GetPc ie e)"

definition ReadReg_Process :: "XLEN \<Rightarrow> 'e IEmulator \<Rightarrow> 'e \<Rightarrow> string result" where
  "ReadReg_Process xlen ie e = (case xlen of
      XLEN32 \<Rightarrow> Inr (ReadReg_Process32 ie e)
    | XLEN64 \<Rightarrow> Inr (ReadReg_Process64 ie e)
    | XLEN128 \<Rightarrow> Inl EmuException)"

definition ReadMemory_Process :: "paddr_t \<Rightarrow> nat \<Rightarrow> 'e IEmulator \<Rightarrow> 'e \<Rightarrow> string result" where
  "ReadMemory_Process addr n ie e =
     (if ie_IsValidMemory ie e addr n then (case ie_ReadMemory ie e n addr of
          Inr bs \<Rightarrow> Inr (concat (map BinaryToHex bs))
        | Inl err \<Rightarrow> if err = EmuException then Inr ''E08'' else Inl err)
      else Inr (concat (replicate n ''cd'')))"

definition BreakInsn :: uint32 where "BreakInsn = 0x100073"
definition ShortBreakInsn :: uint16 where "ShortBreakInsn = 0x9002"

definition InsertBreakPoint_Process ::
    "paddr_t \<Rightarrow> nat \<Rightarrow> 'e IEmulator \<Rightarrow> 'e \<times> GdbData \<Rightarrow> (string \<times> 'e \<times> GdbData) result" where
  "InsertBreakPoint_Process addr n ie s = (case s of (e, d) \<Rightarrow>
     if n = 2 then
       rbind (ie_ReadMemory ie e 2 addr) (\<lambda>bs.
         let d' = PushMemoryValue addr (ucast (of_bytes bs :: uint16)) d in
         rbind (ie_WriteMemory ie (to_bytes 2 ShortBreakInsn) addr e) (\<lambda>e'. Inr (''OK'', e', d')))
     else if n = 4 then
       rbind (ie_ReadMemory ie e 4 addr) (\<lambda>bs.
         let d' = PushMemoryValue addr (ucast (of_bytes bs :: uint32)) d in
         rbind (ie_WriteMemory ie (to_bytes 4 BreakInsn) addr e) (\<lambda>e'. Inr (''OK'', e', d')))
     else Inl ProcessExit)"

definition RemoveBreakPoint_Process ::
    "paddr_t \<Rightarrow> nat \<Rightarrow> 'e IEmulator \<Rightarrow> 'e \<times> GdbData \<Rightarrow> (string \<times> 'e \<times> GdbData) result" where
  "RemoveBreakPoint_Process addr n ie s = (case s of (e, d) \<Rightarrow>
     if n = 2 then
       (case PopMemoryValue addr d of (v, d') \<Rightarrow>
          rbind (ie_WriteMemory ie (to_bytes 2 (ucast v :: uint16)) addr e) (\<lambda>e'. Inr (''OK'', e', d')))
     else if n = 4 then
       (case PopMemoryValue addr d of (v, d') \<Rightarrow>
          rbind (ie_WriteMemory ie (to_bytes 4 (ucast v :: uint32)) addr e) (\<lambda>e'. Inr (''OK'', e', d')))
     else Inl ProcessExit)"

text \<open>\<open>find\<close> without a hit makes \<open>substr\<close> return the whole command.\<close>

definition prefix_upto :: "char \<Rightarrow> string \<Rightarrow> string" where
  "prefix_upto c s = (case str_find c 0 s of None \<Rightarrow> s | Some i \<Rightarrow> substr 0 i s)"

definition Query_Process :: "string \<Rightarrow> string" where
  "Query_Process cmd =
     (if prefix_upto CHR '';'' cmd = ''qThreadExtraInfo'' then StringToHex ''Breaked.''
      else let name = prefix_upto CHR '':'' cmd in
        if name = ''qSupported'' then ''PacketSize=100''
        else if name = ''qfThreadInfo'' then ''mp01.01''
        else if name = ''qsThreadInfo'' then ''l''
        else if name = ''qC'' then ''QCp01.01''
        else if name = ''qAttached'' then ''1''
        else [])"

definition reply :: "'s \<Rightarrow> string \<Rightarrow> (string \<times> 's) result option" where
  "reply s r = Some (Inr (r, s))"

definition GdbCommand_Process ::
    "IGdbCommand \<Rightarrow> 'e IEmulator \<Rightarrow> 'e \<times> GdbData \<Rightarrow> (string \<times> 'e \<times> GdbData) result option" where
  "GdbCommand_Process cmd ie s = (case s of (e, d) \<Rightarrow> (case cmd of
      GdbCommandInvalid \<Rightarrow> reply s []
    | GdbCommandReadReg xlen \<Rightarrow> Some (rbind (ReadReg_Process xlen ie e) (\<lambda>r. Inr (r, s)))
    | GdbCommandReadMemory addr n \<Rightarrow> Some (rbind (ReadMemory_Process addr n ie e) (\<lambda>r. Inr (r, s)))
    | GdbCommandInsertBreakPoint addr n \<Rightarrow> Some (InsertBreakPoint_Process addr n ie s)
    | GdbCommandRemoveBreakPoint addr n \<Rightarrow> Some (RemoveBreakPoint_Process addr n ie s)
    | GdbCommandContinue \<Rightarrow>
        map_option (\<lambda>r. rbind r (\<lambda>e'. Inr (''S05'', e', d))) (ie_Process ie 2 e)
    | GdbCommandStep \<Rightarrow> Some (rbind (ie_ProcessCycle ie e) (\<lambda>e'. Inr (''T05'', e', d)))
    | GdbCommandSetThread \<Rightarrow> reply s ''OK''
    | GdbCommandStopReason \<Rightarrow> reply s ''S05''
    | GdbCommandQuery c \<Rightarrow> reply s (Query_Process c)
    | GdbCommandContinueQuery \<Rightarrow> reply s ''vCont;c;s''))"

end
