(* ===== verification/GdbServer.thy ===== *)
theory GdbServer
  imports Gdb
begin

text \<open>
  \<^verbatim>\<open>bin/rafi-emu/gdb/GdbServer.cpp\<close>: the packets of the protocol and the loops over commands and
  sessions. \<open>char\<close> is signed on the host, so a byte from 128 on is negative.
\<close>

section \<open>Receiving\<close>

text \<open>
  \<open>recv n\<close> blocks until the peer has sent something and returns at most \<open>n\<close> bytes of the
  segment that came first; with nothing left the connection is closed and it returns none.
\<close>

fun recv :: "nat \<Rightarrow> string list \<Rightarrow> string \<times> string list" where
  "recv n [] = ([], [])"
| "recv n (seg # segs) = (if seg = [] then recv n segs
     else (take n seg, if length seg \<le> n then segs else drop n seg # segs))"

lemma recv_1: "recv 1 segs = (take 1 (concat segs), snd (recv 1 segs))"
  "concat (snd (recv 1 segs)) = drop 1 (concat segs)"
  by (induction segs) (auto simp: take_Cons' drop_Cons' Suc_le_eq neq_Nil_conv split: if_splits)

lemma recv_input: "recv n segs = (bs, segs') \<Longrightarrow> concat segs = bs @ concat segs'"
  by (induction n segs rule: recv.induct) (auto split: if_splits)

definition schar :: "char \<Rightarrow> int" where
  "schar c = (if (of_char c :: nat) < 128 then int (of_char c) else int (of_char c) - 256)"

text \<open>Reads up to the start of a packet, skipping acknowledgements.\<close>

function receive_start :: "string list \<Rightarrow> (string list) option" where
  "receive_start segs = (case recv 1 segs of
      ([], segs') \<Rightarrow> None
    | (start # _, segs') \<Rightarrow>
        if start = CHR ''$'' then Some segs'
        else if start \<noteq> CHR ''+'' then None
        else receive_start segs')"
  by pat_completeness auto
termination
  by (relation "measure (\<lambda>segs. length (concat segs))") (auto dest!: recv_input [OF sym])

declare receive_start.simps [simp del]

text \<open>
  The characters up to the \<open>#\<close>, with room for \<open>n\<close> more in the buffer. \<open>None\<close> is
  \<open>return false\<close>.
\<close>

primrec receive_body :: "nat \<Rightarrow> string list \<Rightarrow> (string \<times> string list) option" where
  "receive_body 0 segs = None"
| "receive_body (Suc n) segs = (case recv 1 segs of
      ([], segs') \<Rightarrow> None
    | (c # _, segs') \<Rightarrow>
        if schar c < 0 \<or> schar c = 127 then None
        else if c = CHR ''#'' then Some ([], segs')
        else map_option (\<lambda>(cs, segs''). (c # cs, segs'')) (receive_body n segs'))"

definition GdbCommandBufferSize :: nat where
  "GdbCommandBufferSize = 256"

text \<open>
  \<open>std::accumulate\<close> with an \<open>int\<close>, reduced to a byte. The rest of the buffer is zero and adds
  nothing.
\<close>

definition packet_sum :: "string \<Rightarrow> uint8" where
  "packet_sum cs = word_of_int (sum_list (map schar cs))"

text \<open>
  The two digits behind the \<open>#\<close>. The value is the text in the buffer, which the caller
  reads as a C string: up to the first null character.
\<close>

definition receive_checksum :: "string \<Rightarrow> string list \<Rightarrow> (string \<times> string list) option result" where
  "receive_checksum buffer segs = (case recv 2 segs of
      ([c0, c1], segs') \<Rightarrow>
        if schar c0 < schar CHR ''0'' \<or> schar CHR ''f'' < schar c0 \<or>
           schar c1 < schar CHR ''0'' \<or> schar CHR ''f'' < schar c1
        then Inr None
        else rbind (HexToUInt8 [c0, c1]) (\<lambda>checksumValue.
          if packet_sum buffer \<noteq> checksumValue then Inr None
          else Inr (Some (takeWhile (\<lambda>c. c \<noteq> CHR 0x00) buffer, segs')))
    | _ \<Rightarrow> Inr None)"

definition ReceiveCommand :: "string list \<Rightarrow> (string \<times> string list) option result" where
  "ReceiveCommand segs = (case receive_start segs of
      None \<Rightarrow> Inr None
    | Some segs1 \<Rightarrow> (case receive_body GdbCommandBufferSize segs1 of
        None \<Rightarrow> Inr None
      | Some (buffer, segs2) \<Rightarrow> receive_checksum buffer segs2))"

section \<open>Sending\<close>

definition SendAck :: string where
  "SendAck = ''+''"

definition SendResponse :: "string \<Rightarrow> string" where
  "SendResponse command = ''$'' @ command @ ''#'' @
     [DigitToHexChar (unat (packet_sum command) div 16), DigitToHexChar (unat (packet_sum command) mod 16)]"

section \<open>Sessions\<close>

lemma receive_start_input:
  "receive_start segs = Some segs' \<Longrightarrow> length (concat segs') < length (concat segs)"
proof (induction segs rule: receive_start.induct)
  case (1 segs)
  obtain bs segs1 where r: "recv 1 segs = (bs, segs1)" by fastforce
  note eq = receive_start.simps [of segs]
  show ?case
  proof (cases bs)
    case Nil
    then show ?thesis using "1.prems" eq r by simp
  next
    case (Cons c cs)
    have less: "length (concat segs1) < length (concat segs)" using recv_input [OF r] Cons by simp
    show ?thesis
    proof (cases "c = CHR ''+''")
      case True
      then have "receive_start segs1 = Some segs'" using "1.prems" eq r Cons by simp
      then show ?thesis using "1.IH" [OF r [symmetric] Cons] True less by simp
    qed (use "1.prems" eq r Cons less in \<open>simp split: if_splits\<close>)
  qed
qed

lemma receive_body_input:
  "receive_body n segs = Some (cs, segs') \<Longrightarrow> length (concat segs') \<le> length (concat segs)"
proof (induction n arbitrary: segs cs)
  case (Suc n)
  obtain bs segs1 where r: "recv 1 segs = (bs, segs1)" by fastforce
  have "length (concat segs1) \<le> length (concat segs)" using recv_input [OF r] by simp
  then show ?case using Suc.prems Suc.IH [of segs1] r
    by (auto split: list.splits if_splits intro: le_trans)
qed simp

lemma ReceiveCommand_input:
  assumes "ReceiveCommand segs = Inr (Some (cmd, segs'))"
  shows "length (concat segs') < length (concat segs)"
proof -
  obtain s1 buffer s2 c0 c1 where "receive_start segs = Some s1"
    "receive_body GdbCommandBufferSize s1 = Some (buffer, s2)" "recv 2 s2 = ([c0, c1], segs')"
    using assms by (auto simp: ReceiveCommand_def receive_checksum_def rbind_Inr_iff split: option.splits list.splits prod.splits if_splits)
  then show ?thesis
    using receive_start_input receive_body_input recv_input by fastforce
qed

text \<open>
  One session, to the bytes it sends. \<open>None\<close>: a continue command that never stops.
\<close>

function ProcessSession ::
    "XLEN \<Rightarrow> 'e IEmulator \<Rightarrow> string list \<Rightarrow> 'e \<times> GdbData \<Rightarrow> (string \<times> 'e \<times> GdbData) result option" where
  "ProcessSession xlen ie segs s = (case ReceiveCommand segs of
      Inl err \<Rightarrow> Some (Inl err)
    | Inr None \<Rightarrow> Some (Inr ([], s))
    | Inr (Some (buffer, segs')) \<Rightarrow> (case GdbCommandFactory_Parse xlen buffer of
        Inl err \<Rightarrow> Some (Inl err)
      | Inr command \<Rightarrow> (case GdbCommand_Process command ie s of
          None \<Rightarrow> None
        | Some (Inl err) \<Rightarrow> Some (Inl err)
        | Some (Inr (response, s')) \<Rightarrow>
            map_option (\<lambda>r. rbind r (\<lambda>(out, t). Inr (SendAck @ SendResponse response @ out, t)))
              (ProcessSession xlen ie segs' s'))))"
  by pat_completeness auto
termination
  by (relation "measure (\<lambda>(xlen, ie, segs, s). length (concat segs))") (auto dest: ReceiveCommand_input)

declare ProcessSession.simps [simp del]

text \<open>
  The accept loop, over the sessions of the clients that connect before \<open>accept\<close> fails. The
  value collects what each client is sent.
\<close>

fun GdbServer_Process ::
    "XLEN \<Rightarrow> 'e IEmulator \<Rightarrow> string list list \<Rightarrow> 'e \<times> GdbData \<Rightarrow> (string list \<times> 'e \<times> GdbData) result option" where
  "GdbServer_Process xlen ie [] s = Some (Inr ([], s))"
| "GdbServer_Process xlen ie (client # clients) s = (case ProcessSession xlen ie client s of
      None \<Rightarrow> None
    | Some (Inl err) \<Rightarrow> Some (Inl err)
    | Some (Inr (out, s')) \<Rightarrow>
        map_option (\<lambda>r. rbind r (\<lambda>(outs, t). Inr (out # outs, t))) (GdbServer_Process xlen ie clients s'))"

end
