(* ===== verification/GdbLaws.thy ===== *)
theory GdbLaws
  imports GdbServer
begin

text \<open>
  Laws of the gdb server: hexadecimal text and packets read back as they were written, and a
  breakpoint that is removed leaves no trace in the memory behind the server.
\<close>

section \<open>Hexadecimal text\<close>

lemma nat_less_16: "(v :: nat) < 16 \<Longrightarrow> v \<in> {0,1,2,3,4,5,6,7,8,9,10,11,12,13,14,15}"
  unfolding insert_iff empty_iff by presburger

lemma HexCharToUInt8_digit [simp]: "v < 16 \<Longrightarrow> HexCharToUInt8 (DigitToHexChar v) = Inr (of_nat v)"
  by (drule nat_less_16) (auto simp: HexCharToUInt8_def DigitToHexChar_def)

lemma schar_digit: "v < 16 \<Longrightarrow> 48 \<le> schar (DigitToHexChar v) \<and> schar (DigitToHexChar v) \<le> 102"
  by (drule nat_less_16) (auto simp: schar_def DigitToHexChar_def)

lemma unat_nibbles: "(of_nat (unat (w :: uint8) div 16) :: uint64) * 16 + of_nat (unat w mod 16) = ucast w"
proof -
  have "(of_nat (unat w div 16) :: uint64) * 16 + of_nat (unat w mod 16) = of_nat (unat w div 16 * 16 + unat w mod 16)"
    by (simp only: of_nat_add of_nat_mult of_nat_numeral)
  then show ?thesis by (simp only: div_mult_mod_eq) simp
qed

lemma HexToUInt8_digits:
  "HexToUInt8 [DigitToHexChar (unat w div 16), DigitToHexChar (unat w mod 16)] = Inr w"
proof -
  have "unat w div 16 < 16" using unsigned_less [where ?'a = nat, of w] by simp
  moreover have "(ucast (of_nat n :: uint8) :: uint64) = of_nat n" if "n < 16" for n :: nat
    using that by (intro word_unat_eq_iff [THEN iffD2]) (simp add: unat_of_nat unsigned_ucast_eq take_bit_nat_eq_self_iff)
  ultimately show ?thesis using unat_nibbles [of w]
    by (simp add: HexToUInt8_def HexToUInt64_def push_bit_eq_mult) (rule bit_eqI, auto simp: bit_simps)
qed

text \<open>The sixteen-digit text of an address, most significant digit first, as a client sends it.\<close>

primrec hex_text :: "nat \<Rightarrow> uint64 \<Rightarrow> string" where
  "hex_text 0 a = []"
| "hex_text (Suc n) a = DigitToHexChar (unat (take_bit 4 (drop_bit (4 * n) a))) # hex_text n a"

lemma nibble_split:
  "push_bit (4 * n) (take_bit 4 (drop_bit (4 * n) a)) + take_bit (4 * n) a = take_bit (4 * n + 4) (a :: uint64)"
proof -
  have "push_bit (4 * n) (take_bit 4 (drop_bit (4 * n) a)) + take_bit (4 * n) a =
      push_bit (4 * n) (take_bit 4 (drop_bit (4 * n) a)) OR take_bit (4 * n) a"
    by (rule disjunctive_add) (auto simp: bit_simps)
  also have "\<dots> = take_bit (4 * n + 4) a" by (rule bit_eqI) (auto simp: bit_simps)
  finally show ?thesis .
qed

lemma unat_nibble: "unat (take_bit 4 (x :: uint64)) < 16"
  by (simp add: take_bit_eq_mod unat_mod)

lemma HexToUInt64_loop_text:
  "HexToUInt64_loop (hex_text n a) acc = Inr (push_bit (4 * n) acc + take_bit (4 * n) a)"
proof (induction n arbitrary: acc)
  case (Suc n)
  let ?d = "take_bit 4 (drop_bit (4 * n) a)"
  have d: "(ucast (of_nat (unat ?d) :: uint8) :: uint64) = ?d"
    by simp (rule bit_eqI, auto simp: bit_simps)
  have "push_bit (4 * n) (push_bit 4 acc + ?d) + take_bit (4 * n) a =
      push_bit (4 * n + 4) acc + take_bit (4 * n + 4) a"
    by (subst nibble_split [symmetric]) (simp add: push_bit_add add.assoc)
  then show ?case using Suc unat_nibble by (simp add: d [simplified] add.commute)
qed simp

lemma HexToUInt64_text: "HexToUInt64 (hex_text 16 a) = Inr a"
  by (simp add: HexToUInt64_def HexToUInt64_loop_text take_bit_word_eq_self)

section \<open>Packets\<close>

text \<open>What the protocol can carry: 7-bit characters, not the end mark, not DEL and not null.\<close>

definition packet_char :: "char \<Rightarrow> bool" where
  "packet_char c \<longleftrightarrow> c \<noteq> CHR ''#'' \<and> c \<noteq> CHR 0x00 \<and> (of_char c :: nat) < 127"

definition packet_head :: "string \<Rightarrow> string" where
  "packet_head s = ''$'' @ s @ ''#''"

definition packet_check :: "string \<Rightarrow> string" where
  "packet_check s = [DigitToHexChar (unat (packet_sum s) div 16), DigitToHexChar (unat (packet_sum s) mod 16)]"

lemma SendResponse_packet: "SendResponse s = packet_head s @ packet_check s"
  by (simp add: SendResponse_def packet_head_def packet_check_def)

text \<open>
  The peer's segments up to some point of its text: whole segments, then the beginning \<open>t\<close> of one
  that goes on with \<open>x\<close>.
\<close>

lemma recv_skip: "concat segs @ t = [] \<Longrightarrow> recv n (segs @ (t @ x) # later) = recv n (x # later)"
  by (induction segs) auto

lemma recv_first:
  assumes "concat segs @ t = c # u" "x \<noteq> []"
  obtains segs' t' where "recv 1 (segs @ (t @ x) # later) = ([c], segs' @ (t' @ x) # later)" "concat segs' @ t' = u"
  using assms(1)
proof (induction segs arbitrary: thesis)
  case Nil
  then show ?case using assms(2) Nil.prems(1) [of "[]" u] by auto
next
  case (Cons seg segs)
  show ?case
  proof (cases seg)
    case Nil
    obtain segs' t' where "recv 1 (segs @ (t @ x) # later) = ([c], segs' @ (t' @ x) # later)" "concat segs' @ t' = u"
      by (rule Cons.IH) (use Cons.prems(2) Nil in simp_all)
    then show ?thesis using Cons.prems(1) Nil by auto
  next
    case (Cons c' seg')
    then have "c' = c" "seg' @ concat segs @ t = u" using Cons.prems(2) by auto
    then show ?thesis
      using Cons.prems(1) [of "if seg' = [] then segs else seg' # segs" t] Cons by (auto simp: Suc_le_eq)
  qed
qed

lemma receive_start_text:
  assumes "concat segs @ t = replicate k CHR ''+'' @ CHR ''$'' # u" "x \<noteq> []"
  shows "\<exists>segs' t'. receive_start (segs @ (t @ x) # later) = Some (segs' @ (t' @ x) # later) \<and> concat segs' @ t' = u"
  using assms(1)
proof (induction k arbitrary: segs t)
  case 0
  then have "concat segs @ t = CHR ''$'' # u" by simp
  then obtain segs' t' where "recv 1 (segs @ (t @ x) # later) = (''$'', segs' @ (t' @ x) # later)"
    and "concat segs' @ t' = u" using assms(2) by (rule recv_first)
  then show ?case using receive_start.simps [of "segs @ (t @ x) # later"] by auto
next
  case (Suc k)
  then have "concat segs @ t = CHR ''+'' # replicate k CHR ''+'' @ CHR ''$'' # u" by simp
  then obtain s1 t1 where "recv 1 (segs @ (t @ x) # later) = (''+'', s1 @ (t1 @ x) # later)"
    and "concat s1 @ t1 = replicate k CHR ''+'' @ CHR ''$'' # u" using assms(2) by (rule recv_first)
  then show ?case using Suc.IH [of s1 t1] receive_start.simps [of "segs @ (t @ x) # later"] by simp
qed

lemma schar_packet: "packet_char c \<Longrightarrow> 0 \<le> schar c \<and> schar c \<noteq> 127"
proof -
  assume "packet_char c"
  then have n: "(of_char c :: nat) < 127" by (simp add: packet_char_def)
  then show ?thesis by (simp add: schar_def)
qed

lemma receive_body_text:
  assumes "list_all packet_char s" "length s < n" "concat segs @ t = s @ CHR ''#'' # u" "x \<noteq> []"
  shows "\<exists>segs' t'. receive_body n (segs @ (t @ x) # later) = Some (s, segs' @ (t' @ x) # later) \<and> concat segs' @ t' = u"
  using assms(1-3)
proof (induction s arbitrary: n segs t)
  case Nil
  then obtain m where n: "n = Suc m" by (cases n) auto
  from Nil.prems(3) have "concat segs @ t = CHR ''#'' # u" by simp
  then obtain s1 t1 where "recv 1 (segs @ (t @ x) # later) = (''#'', s1 @ (t1 @ x) # later)" "concat s1 @ t1 = u"
    using assms(4) by (rule recv_first)
  then show ?case by (auto simp: n schar_def)
next
  case (Cons c s)
  then obtain m where n: "n = Suc m" "length s < m" by (cases n) auto
  from Cons.prems(3) have "concat segs @ t = c # s @ CHR ''#'' # u" by simp
  then obtain s1 t1 where s1: "recv 1 (segs @ (t @ x) # later) = ([c], s1 @ (t1 @ x) # later)"
    "concat s1 @ t1 = s @ CHR ''#'' # u"
    using assms(4) by (rule recv_first)
  have "c \<noteq> CHR ''#''" "0 \<le> schar c" "schar c \<noteq> 127"
    using Cons.prems(1) schar_packet [of c] by (auto simp: packet_char_def)
  then show ?case using Cons.IH [OF _ n(2) s1(2)] Cons.prems(1) s1(1) by (auto simp: n(1))
qed

lemma takeWhile_packet: "list_all packet_char s \<Longrightarrow> \<forall>c \<in> set s. c \<noteq> CHR 0x00"
  by (auto simp: list_all_iff packet_char_def)

lemma receive_checked:
  assumes "list_all packet_char s" "length s < 256"
    and "concat segs @ t = replicate k CHR ''+'' @ packet_head s" "x \<noteq> []"
  shows "ReceiveCommand (segs @ (t @ x) # later) = receive_checksum s (x # later)"
proof -
  obtain s1 t1 where s1: "receive_start (segs @ (t @ x) # later) = Some (s1 @ (t1 @ x) # later)"
    "concat s1 @ t1 = s @ ''#''"
    using receive_start_text [of segs t k "s @ ''#''" x later] assms(3,4) by (auto simp: packet_head_def)
  obtain s2 t2 where s2: "receive_body GdbCommandBufferSize (s1 @ (t1 @ x) # later) = Some (s, s2 @ (t2 @ x) # later)"
    "concat s2 @ t2 = []"
    using receive_body_text [OF assms(1), of GdbCommandBufferSize s1 t1 "[]" x later] assms(2,4) s1(2)
    by (auto simp: GdbCommandBufferSize_def)
  then have "ReceiveCommand (segs @ (t @ x) # later) = receive_checksum s (s2 @ (t2 @ x) # later)"
    by (simp add: ReceiveCommand_def s1(1))
  then show ?thesis by (simp only: receive_checksum_def recv_skip [OF s2(2)])
qed

lemma schar_marks: "schar CHR ''0'' = 48" "schar CHR ''f'' = 102"
  by (simp_all add: schar_def)

lemma checksum_accepted:
  assumes "list_all packet_char s"
  shows "receive_checksum s ((packet_check s @ rest) # later) =
    Inr (Some (s, if rest = [] then later else rest # later))"
proof -
  have "unat (packet_sum s) div 16 < 16" using unsigned_less [where ?'a = nat, of "packet_sum s"] by simp
  then show ?thesis
    using schar_digit [of "unat (packet_sum s) div 16"] schar_digit [of "unat (packet_sum s) mod 16"]
      takeWhile_packet [OF assms]
    by (simp add: receive_checksum_def packet_check_def HexToUInt8_digits
        schar_marks takeWhile_eq_all_conv [THEN iffD2])
qed

lemma receive_packet:
  assumes "list_all packet_char s" "length s < 256"
    and "concat segs @ t = replicate k CHR ''+'' @ packet_head s"
  shows "ReceiveCommand (segs @ (t @ packet_check s @ rest) # later) =
    Inr (Some (s, if rest = [] then later else rest # later))"
  using receive_checked [OF assms, of "packet_check s @ rest"] checksum_accepted [OF assms(1)]
  by (simp add: packet_check_def)

text \<open>
  C20. A packet in the server's own format is received as it was sent: with any number of
  acknowledgements before it and its text cut into segments in any way, the command is the text
  and the rest of the input is left for the next command, provided the two checksum digits arrive
  in one segment. Cut between the digits, the same bytes end the session.
\<close>

theorem packet_roundtrip:
  assumes "list_all packet_char s" "length s < 256"
    and "concat segs @ t = replicate k CHR ''+'' @ packet_head s"
  shows "SendResponse s = packet_head s @ packet_check s \<and>
    ReceiveCommand (segs @ (t @ packet_check s @ rest) # later) =
      Inr (Some (s, if rest = [] then later else rest # later)) \<and>
    ReceiveCommand (segs @ (t @ [packet_check s ! 0]) # [packet_check s ! 1] # later) = Inr None"
proof (intro conjI)
  show "ReceiveCommand (segs @ (t @ packet_check s @ rest) # later) =
      Inr (Some (s, if rest = [] then later else rest # later))"
    by (rule receive_packet [OF assms])
  show "ReceiveCommand (segs @ (t @ [packet_check s ! 0]) # [packet_check s ! 1] # later) = Inr None"
    by (simp add: receive_checked [OF assms] receive_checksum_def)
qed (rule SendResponse_packet)

lemma packet_roundtrip_witness:
  "SendResponse ''vCont?'' = ''$vCont?#49''
   \<and> ReceiveCommand [''++$vCo'', ''nt?#49+$g#67''] = Inr (Some (''vCont?'', [''+$g#67'']))
   \<and> ReceiveCommand [''++$vCo'', ''nt?#4'', ''9'', ''+$g#67''] = Inr None"
proof -
  have c: "packet_check ''vCont?'' = ''49''" by code_simp
  have p: "list_all packet_char ''vCont?''" "length ''vCont?'' < 256"
    by (simp_all add: packet_char_def)
  have i: "concat [''++$vCo''] @ ''nt?#'' = replicate 2 CHR ''+'' @ packet_head ''vCont?''"
    by (simp add: packet_head_def eval_nat_numeral)
  from packet_roundtrip [OF p i, of "''+$g#67''" "[]"] packet_roundtrip [OF p i, of "[]" "[''+$g#67'']"]
  show ?thesis by (simp add: c packet_head_def)
qed

section \<open>Breakpoints\<close>

lemma of_bytes_ucast:
  "length bs = 2 \<Longrightarrow> (ucast (of_bytes bs :: uint16) :: uint64) = of_bytes bs"
  "length bs = 4 \<Longrightarrow> (ucast (of_bytes bs :: uint32) :: uint64) = of_bytes bs"
  by (rule bit_eqI, auto simp: bit_simps bit_of_bytes)+

lemma of_bytes_narrow:
  "(ucast (of_bytes bs :: uint64) :: uint16) = of_bytes bs"
  "(ucast (of_bytes bs :: uint64) :: uint32) = of_bytes bs"
  by (rule bit_eqI, auto simp: bit_simps bit_of_bytes)+

lemma to_bytes_ucast_of_bytes:
  "length bs = 2 \<Longrightarrow> to_bytes 2 (ucast (of_bytes bs :: uint64) :: uint16) = bs"
  "length bs = 4 \<Longrightarrow> to_bytes 4 (ucast (of_bytes bs :: uint64) :: uint32) = bs"
  using to_bytes_of_bytes [of bs 2, where 'a = 16] to_bytes_of_bytes [of bs 4, where 'a = 32]
    of_bytes_narrow [of bs] by simp_all


text \<open>The command a client sends to set (\<open>Z\<close>) or remove (\<open>z\<close>) a software breakpoint.\<close>

definition breakpoint_command :: "char \<Rightarrow> paddr_t \<Rightarrow> nat \<Rightarrow> string" where
  "breakpoint_command c a n = [c] @ ''0,'' @ hex_text 16 a @ '','' @ (if n = 2 then ''2'' else ''4'')"

lemma length_hex_text [simp]: "length (hex_text n a) = n"
  by (induction n) auto

lemma digit_char_facts: "v < 16 \<Longrightarrow> packet_char (DigitToHexChar v) \<and> DigitToHexChar v \<noteq> CHR '',''"
  by (auto simp: packet_char_def DigitToHexChar_def char_of_eq_iff take_bit_eq_mod)

lemma hex_text_chars: "c \<in> set (hex_text n a) \<Longrightarrow> packet_char c \<and> c \<noteq> CHR '',''"
  by (induction n) (use digit_char_facts unat_nibble in auto)

lemma str_find_hit: "c \<notin> set xs \<Longrightarrow> str_find_loop c i (xs @ c # ys) = Some (i + length xs)"
  by (induction xs arbitrary: i) auto

lemma HexToUInt64_digit: "HexToUInt64 ''2'' = Inr 2" "HexToUInt64 ''4'' = Inr 4"
  by (simp_all add: HexToUInt64_def HexCharToUInt8_def)

lemma breakpoint_operands_command:
  assumes "c \<noteq> CHR '',''" "n = 2 \<or> n = 4"
  shows "breakpoint_operands (breakpoint_command c a n) = Inr (a, n)"
proof -
  define hx sz where "hx = hex_text 16 a" and "sz = (if n = 2 then ''2'' else ''4'')"
  have hx: "length hx = 16" "CHR '','' \<notin> set hx" "HexToUInt64 hx = Inr a"
    using hex_text_chars [of "CHR '',''" 16 a] HexToUInt64_text [of a] by (auto simp: hx_def)
  have sz: "HexToUInt64 sz = Inr (of_nat n)" "unat (of_nat n :: uint64) = n"
    using assms(2) HexToUInt64_digit by (auto simp: sz_def)
  define cmd where "cmd = (c # ''0,'') @ hx @ '','' @ sz"
  have d: "drop 3 cmd = hx @ '','' @ sz" "drop 20 cmd = sz" using hx(1) by (simp_all add: cmd_def)
  have find: "str_find CHR '','' 0 cmd = Some 2" "str_find CHR '','' 3 cmd = Some 19"
    using assms(1) str_find_hit [OF hx(2), of 3 sz] hx(1) d(1) by (simp_all add: str_find_def cmd_def)
  have "breakpoint_operands cmd = Inr (a, n)"
    using hx sz d by (simp add: breakpoint_operands_def find substr_def)
  then show ?thesis by (simp add: breakpoint_command_def cmd_def hx_def sz_def)
qed

lemma parse_breakpoint:
  assumes "n = 2 \<or> n = 4"
  shows "GdbCommandFactory_Parse xlen (breakpoint_command CHR ''Z'' a n) = Inr (GdbCommandInsertBreakPoint a n)"
    and "GdbCommandFactory_Parse xlen (breakpoint_command CHR ''z'' a n) = Inr (GdbCommandRemoveBreakPoint a n)"
  using breakpoint_operands_command [OF _ assms, of "CHR ''Z''" a] breakpoint_operands_command [OF _ assms, of "CHR ''z''" a]
  by (simp_all add: GdbCommandFactory_Parse_def breakpoint_command_def GdbCommandInsertBreakPoint_new_def
      GdbCommandRemoveBreakPoint_new_def)

lemma breakpoint_command_packet:
  assumes "packet_char c"
  shows "list_all packet_char (breakpoint_command c a n)" "length (breakpoint_command c a n) < 256"
proof -
  have "list_all packet_char ''0,''" "list_all packet_char '',2''" "list_all packet_char '',4''"
    by (simp_all add: packet_char_def)
  then show "list_all packet_char (breakpoint_command c a n)"
    using assms hex_text_chars [of _ 16 a] by (auto simp: breakpoint_command_def list_all_iff)
qed (simp add: breakpoint_command_def)

text \<open>One command of a session, in a segment of its own.\<close>

lemma session_command:
  assumes "list_all packet_char s" "length s < 256" "GdbCommandFactory_Parse xlen s = Inr command"
    and "GdbCommand_Process command ie (e, d) = Some (Inr (response, t))"
  shows "ProcessSession xlen ie (SendResponse s # later) (e, d) =
    map_option (\<lambda>r. rbind r (\<lambda>(out, u). Inr (SendAck @ SendResponse response @ out, u))) (ProcessSession xlen ie later t)"
proof -
  have "ReceiveCommand (SendResponse s # later) = Inr (Some (s, later))"
    using receive_packet [OF assms(1,2), of "[]" "packet_head s" 0 "[]" later] by (simp add: SendResponse_packet)
  then show ?thesis using assms(3,4) by (simp add: ProcessSession.simps [of xlen ie "SendResponse s # later"])
qed

lemma session_end: "ProcessSession xlen ie [] s = Some (Inr ([], s))"
  by (simp add: ProcessSession.simps [of xlen ie "[]"] ReceiveCommand_def receive_start.simps [of "[]"])

text \<open>
  A target whose memory is a store on the ranges it admits: a write is read back, writing what is
  there changes nothing, and of two writes to a range the second counts.
\<close>

locale gdb_target =
  fixes ie :: "'e IEmulator" and ok :: "'e \<Rightarrow> paddr_t \<Rightarrow> nat \<Rightarrow> bool"
  assumes read_ok: "ok e a n \<Longrightarrow> \<exists>bs. ie_ReadMemory ie e n a = Inr bs \<and> length bs = n"
    and write_ok: "ok e a (length bs) \<Longrightarrow> \<exists>e'. ie_WriteMemory ie bs a e = Inr e'"
    and put_get: "ok e a (length bs) \<Longrightarrow> ie_WriteMemory ie bs a e = Inr e' \<Longrightarrow>
      ie_ReadMemory ie e' (length bs) a = Inr bs"
    and get_put: "ok e a n \<Longrightarrow> ie_ReadMemory ie e n a = Inr bs \<Longrightarrow> ie_WriteMemory ie bs a e = Inr e"
    and put_put: "ok e a (length bs) \<Longrightarrow> length cs = length bs \<Longrightarrow> ie_WriteMemory ie bs a e = Inr e' \<Longrightarrow>
      ie_WriteMemory ie cs a e' = ie_WriteMemory ie cs a e"
    and put_ok: "ok e a (length bs) \<Longrightarrow> ie_WriteMemory ie bs a e = Inr e' \<Longrightarrow> ok e' b m = ok e b m"
begin

definition breakpoint_bytes :: "nat \<Rightarrow> bytes" where
  "breakpoint_bytes n = (if n = 2 then to_bytes 2 ShortBreakInsn else to_bytes 4 BreakInsn)"

lemma breakpoint_insert:
  assumes "ok e a n" "n = 2 \<or> n = 4" "ie_ReadMemory ie e n a = Inr bs"
  obtains e' where "InsertBreakPoint_Process a n ie (e, d) = Inr (''OK'', e', PushMemoryValue a (of_bytes bs) d)"
    and "ie_WriteMemory ie (breakpoint_bytes n) a e = Inr e'"
proof -
  have l: "length (breakpoint_bytes n) = n" using assms(2) by (auto simp: breakpoint_bytes_def)
  obtain e' where "ie_WriteMemory ie (breakpoint_bytes n) a e = Inr e'"
    using write_ok [of e a "breakpoint_bytes n"] assms(1) l by auto
  moreover have "length bs = n" using read_ok [OF assms(1)] assms(3) by auto
  ultimately show ?thesis using assms(2,3) that [of e']
    by (auto simp: InsertBreakPoint_Process_def breakpoint_bytes_def of_bytes_ucast)
qed

lemma breakpoint_insert_remove:
  assumes "ok e a n" "n = 2 \<or> n = 4" "d a = None"
  shows "\<exists>e' d'. InsertBreakPoint_Process a n ie (e, d) = Inr (''OK'', e', d') \<and>
    ie_ReadMemory ie e' n a = Inr (breakpoint_bytes n) \<and>
    InsertBreakPoint_Process a n ie (e', d') = Inr (''OK'', e', d') \<and>
    RemoveBreakPoint_Process a n ie (e', d') = Inr (''OK'', e, d)"
proof -
  have l: "length (breakpoint_bytes n) = n" using assms(2) by (auto simp: breakpoint_bytes_def)
  obtain bs where bs: "ie_ReadMemory ie e n a = Inr bs" "length bs = n" using read_ok [OF assms(1)] by auto
  let ?d = "d(a \<mapsto> of_bytes bs)"
  obtain e' where e': "InsertBreakPoint_Process a n ie (e, d) = Inr (''OK'', e', PushMemoryValue a (of_bytes bs) d)"
    "ie_WriteMemory ie (breakpoint_bytes n) a e = Inr e'"
    by (rule breakpoint_insert [OF assms(1,2) bs(1)])
  have ok': "ok e' a n" using put_ok [of e a "breakpoint_bytes n" e'] assms(1) e'(2) l by simp
  have rd: "ie_ReadMemory ie e' n a = Inr (breakpoint_bytes n)"
    using put_get [of e a "breakpoint_bytes n" e'] assms(1) e'(2) l by simp
  have d: "PushMemoryValue a v d = d(a \<mapsto> v)" "PushMemoryValue a w (d(a \<mapsto> v)) = d(a \<mapsto> v)" for v w
    using assms(3) by (simp_all add: PushMemoryValue_def)
  have same: "ie_WriteMemory ie (breakpoint_bytes n) a e' = Inr e'" by (rule get_put [OF ok' rd])
  obtain e2 where "InsertBreakPoint_Process a n ie (e', ?d) =
      Inr (''OK'', e2, PushMemoryValue a (of_bytes (breakpoint_bytes n)) ?d)"
    "ie_WriteMemory ie (breakpoint_bytes n) a e' = Inr e2"
    by (rule breakpoint_insert [OF ok' assms(2) rd])
  then have "InsertBreakPoint_Process a n ie (e', ?d) = Inr (''OK'', e', ?d)" using same by (simp add: d)
  moreover have "ie_WriteMemory ie bs a e' = Inr e"
    using put_put [of e a "breakpoint_bytes n" bs e'] get_put [OF assms(1) bs(1)] assms(1) e'(2) l bs(2) by simp
  then have "RemoveBreakPoint_Process a n ie (e', ?d) = Inr (''OK'', e, d)"
    using assms(2,3) bs(2) by (auto simp: RemoveBreakPoint_Process_def PopMemoryValue_def to_bytes_ucast_of_bytes fun_upd_idem)
  ultimately show ?thesis using e'(1) rd by (auto simp: d)
qed

lemma breakpoint_session:
  assumes "ok e a n" "n = 2 \<or> n = 4" "d a = None"
  shows "\<exists>e' d'. ProcessSession xlen ie [SendResponse (breakpoint_command CHR ''Z'' a n)] (e, d) =
      Some (Inr (''+$OK#9a'', e', d')) \<and>
    ie_ReadMemory ie e' n a = Inr (breakpoint_bytes n) \<and>
    ProcessSession xlen ie [SendResponse (breakpoint_command CHR ''Z'' a n),
      SendResponse (breakpoint_command CHR ''Z'' a n), SendResponse (breakpoint_command CHR ''z'' a n)] (e, d) =
      Some (Inr (''+$OK#9a+$OK#9a+$OK#9a'', e, d))"
proof -
  obtain e' d' where p: "InsertBreakPoint_Process a n ie (e, d) = Inr (''OK'', e', d')"
    "ie_ReadMemory ie e' n a = Inr (breakpoint_bytes n)"
    "InsertBreakPoint_Process a n ie (e', d') = Inr (''OK'', e', d')"
    "RemoveBreakPoint_Process a n ie (e', d') = Inr (''OK'', e, d)"
    using breakpoint_insert_remove [where d = d, OF assms(1,2)] assms(3) by blast
  have c: "packet_char CHR ''Z''" "packet_char CHR ''z''" by (simp_all add: packet_char_def)
  have ok: "SendAck @ SendResponse ''OK'' @ out = ''+$OK#9a'' @ out" for out
  proof -
    have "SendAck @ SendResponse ''OK'' = ''+$OK#9a''" by code_simp
    then show ?thesis by (metis append.assoc)
  qed
  note set_command = session_command [OF breakpoint_command_packet [OF c(1)] parse_breakpoint(1) [OF assms(2)]]
  note remove_command = session_command [OF breakpoint_command_packet [OF c(2)] parse_breakpoint(2) [OF assms(2)]]
  have first: "ProcessSession xlen ie (SendResponse (breakpoint_command CHR ''Z'' a n) # later) (e, d) =
      map_option (\<lambda>r. rbind r (\<lambda>(out, u). Inr (''+$OK#9a'' @ out, u))) (ProcessSession xlen ie later (e', d'))" for later
    unfolding ok [symmetric] by (rule set_command) (simp add: GdbCommand_Process_def p)
  have second: "ProcessSession xlen ie (SendResponse (breakpoint_command CHR ''Z'' a n) # later) (e', d') =
      map_option (\<lambda>r. rbind r (\<lambda>(out, u). Inr (''+$OK#9a'' @ out, u))) (ProcessSession xlen ie later (e', d'))" for later
    unfolding ok [symmetric] by (rule set_command) (simp add: GdbCommand_Process_def p)
  have third: "ProcessSession xlen ie (SendResponse (breakpoint_command CHR ''z'' a n) # later) (e', d') =
      map_option (\<lambda>r. rbind r (\<lambda>(out, u). Inr (''+$OK#9a'' @ out, u))) (ProcessSession xlen ie later (e, d))" for later
    unfolding ok [symmetric] by (rule remove_command) (simp add: GdbCommand_Process_def p)
  show ?thesis using p(2) by (auto simp: first second third session_end)
qed

end

end
