(* ===== verification/GdbEmulator.thy ===== *)
theory GdbEmulator
  imports GdbLaws Emulator
begin

text \<open>
  The emulator as the target of the gdb server: the operations of \<^verbatim>\<open>System.cpp\<close> and
  \<^verbatim>\<open>Emulator.cpp\<close> that only the server and the logger use, the emulator's table for
  \<^verbatim>\<open>IEmulator\<close>, and what the server's commands do to it.
\<close>

section \<open>The emulator's side of the interface\<close>

definition System_GetPc :: "System \<Rightarrow> vaddr_t" where
  "System_GetPc sys = m_Pc (sys_Csr sys)"

definition System_CopyIntReg32 :: "System \<Rightarrow> uint32 list" where
  "System_CopyIntReg32 sys = IntRegFile_Copy32 (sys_IntRegFile sys)"

definition System_CopyIntReg64 :: "System \<Rightarrow> uint64 list" where
  "System_CopyIntReg64 sys = IntRegFile_Copy64 (sys_IntRegFile sys)"

definition System_CopyFpReg :: "System \<Rightarrow> uint64 list" where
  "System_CopyFpReg sys = FpRegFile_Copy (sys_FpRegFile sys)"

definition Emulator_IEmulator :: "host \<Rightarrow> Emulator IEmulator" where
  "Emulator_IEmulator h = \<lparr>
     ie_Process = (\<lambda>condition e. Emulator_Process h condition CycleForever e),
     ie_ProcessCycle = Emulator_ProcessCycle h,
     ie_IsValidMemory = (\<lambda>e addr n. System_IsValidMemory (emu_System e) addr n),
     ie_ReadMemory = (\<lambda>e n addr. System_ReadMemory (emu_System e) n addr),
     ie_WriteMemory = (\<lambda>bs addr e. rbind (System_WriteMemory bs addr (emu_System e)) (\<lambda>sys.
       Inr (e\<lparr> emu_System := sys \<rparr>))),
     ie_GetPc = (\<lambda>e. System_GetPc (emu_System e)),
     ie_CopyIntReg32 = (\<lambda>e. System_CopyIntReg32 (emu_System e)),
     ie_CopyIntReg64 = (\<lambda>e. System_CopyIntReg64 (emu_System e)) \<rparr>"

section \<open>Ram behind the server\<close>

text \<open>The ranges a breakpoint can be set on: those of Ram, on a machine with the constructor's map.\<close>

definition breakable :: "Emulator \<Rightarrow> paddr_t \<Rightarrow> nat \<Rightarrow> bool" where
  "breakable e a n \<longleftrightarrow> system_map (emu_System e) \<and> ram_range (emu_System e) a n"

lemma Ram_get_put:
  assumes "0 < n" "unat a + n \<le> unat (m_Capacity ram)" "Ram_Read ram n a = Inr bs"
  shows "Ram_Write bs a ram = Inr ram"
proof -
  have bs: "bs = map (\<lambda>i. m_Body ram (unat a + i)) [0..<n]" using assms ram.rd_cells by simp
  obtain ram' where w: "Ram_Write bs a ram = Inr ram'" using ram.wr_ok [of bs a ram] assms(1,2) bs by auto
  have "m_Body ram' i = m_Body ram i" for i using ram.wr_cell [OF w, of i] by (auto simp: bs)
  then have "m_Body ram' = m_Body ram" by blast
  moreover have "ram' = ram\<lparr> m_Body := m_Body ram' \<rparr>" using w by (auto simp: Ram_Write_def rbind_Inr_iff)
  ultimately show ?thesis using w by simp
qed

lemma block_update_twice:
  "length cs = length bs \<Longrightarrow> block_update (block_update body a bs) a cs = block_update body a cs"
  by (auto simp: block_update_def fun_eq_iff)

lemma Ram_put_put:
  assumes "Ram_Write bs a ram = Inr ram'" "length cs = length bs"
  shows "Ram_Write cs a ram' = Ram_Write cs a ram"
  using assms by (auto simp: Ram_Write_def rbind_Inr_iff block_write_def block_update_twice split: if_splits)

lemma breakable_write:
  assumes "breakable e a (length bs)"
  shows "ie_WriteMemory (Emulator_IEmulator h) bs a e =
    rbind (Ram_Write bs (a - AddrRam) (sys_Ram (emu_System e))) (\<lambda>ram.
      Inr (e\<lparr> emu_System := (emu_System e)\<lparr> sys_Ram := ram \<rparr> \<rparr>))"
  using assms by (simp add: breakable_def Emulator_IEmulator_def System_WriteMemory_def bus_write_ram rbind_assoc)

lemma breakable_read:
  assumes "breakable e a n"
  shows "ie_ReadMemory (Emulator_IEmulator h) e n a = Ram_Read (sys_Ram (emu_System e)) n (a - AddrRam)"
  using assms by (simp add: breakable_def Emulator_IEmulator_def System_ReadMemory_def bus_read_ram)

lemma breakable_range:
  assumes "breakable e a n"
  shows "0 < n" "unat (a - AddrRam) + n \<le> unat (m_Capacity (sys_Ram (emu_System e)))"
  using assms ram_range_offset by (auto simp: breakable_def ram_range_def)

lemma Ram_Write_capacity: "Ram_Write bs a ram = Inr ram' \<Longrightarrow> m_Capacity ram' = m_Capacity ram"
  by (auto simp: Ram_Write_def rbind_Inr_iff)

lemma breakable_kept:
  assumes "breakable e a (length bs)" "ie_WriteMemory (Emulator_IEmulator h) bs a e = Inr e'"
  shows "breakable e' b m = breakable e b m"
  using assms
  by (auto simp: breakable_write breakable_def rbind_Inr_iff system_map_def ram_range_def dest: Ram_Write_capacity)

interpretation emulator: gdb_target "Emulator_IEmulator h" breakable
proof
  fix e e' :: Emulator and a b :: paddr_t and n m :: nat and bs cs :: bytes
  show "\<exists>bs. ie_ReadMemory (Emulator_IEmulator h) e n a = Inr bs \<and> length bs = n" if "breakable e a n"
    using ram.rd_cells [OF breakable_range [OF that]] by (simp add: breakable_read [OF that])
  show "\<exists>e'. ie_WriteMemory (Emulator_IEmulator h) bs a e = Inr e'" if "breakable e a (length bs)"
    using ram.wr_ok [OF breakable_range [OF that]] by (auto simp: breakable_write [OF that])
  show "ie_ReadMemory (Emulator_IEmulator h) e' (length bs) a = Inr bs"
    if "breakable e a (length bs)" "ie_WriteMemory (Emulator_IEmulator h) bs a e = Inr e'"
    using that(2) ram.rd_wr_same [OF breakable_range [OF that(1)]] breakable_kept [OF that] that(1)
    by (auto simp: breakable_read breakable_write [OF that(1)] rbind_Inr_iff)
  show "ie_WriteMemory (Emulator_IEmulator h) bs a e = Inr e"
    if "breakable e a n" "ie_ReadMemory (Emulator_IEmulator h) e n a = Inr bs"
  proof -
    have rd: "Ram_Read (sys_Ram (emu_System e)) n (a - AddrRam) = Inr bs"
      using that by (simp add: breakable_read)
    moreover have "length bs = n" using ram.rd_length [OF breakable_range [OF that(1)] rd] .
    ultimately show ?thesis using Ram_get_put [OF breakable_range [OF that(1)] rd] that(1)
      by (simp add: breakable_write)
  qed
  show "ie_WriteMemory (Emulator_IEmulator h) cs a e' = ie_WriteMemory (Emulator_IEmulator h) cs a e"
    if ok: "breakable e a (length bs)" and l: "length cs = length bs"
      and w: "ie_WriteMemory (Emulator_IEmulator h) bs a e = Inr e'"
  proof -
    obtain ram where ram: "Ram_Write bs (a - AddrRam) (sys_Ram (emu_System e)) = Inr ram"
      "e' = e\<lparr> emu_System := (emu_System e)\<lparr> sys_Ram := ram \<rparr> \<rparr>"
      using w by (auto simp: breakable_write [OF ok] rbind_Inr_iff)
    have "breakable e' a (length cs)" using breakable_kept [OF ok w] ok l by simp
    then show ?thesis using ok l Ram_put_put [OF ram(1) l] by (simp add: breakable_write ram(2))
  qed
  show "breakable e' b m = breakable e b m"
    if "breakable e a (length bs)" "ie_WriteMemory (Emulator_IEmulator h) bs a e = Inr e'"
    by (rule breakable_kept [OF that])
qed

lemmas device_sizes = Clint_Size_def Plic_Size_def Timer_Size_def Uart_Size_def Uart16550_Size_def
  VirtIo_Size_def Rom_Capacity_def

lemma new_emulator:
  obtains e where "Emulator_new XLEN32 0x80000000 0x1000 None 0 = Inr e"
    "breakable e 0x80000010 4" "system_map (emu_System e)"
proof -
  have "\<exists>e. Emulator_new XLEN32 0x80000000 0x1000 None 0 = Inr e \<and> breakable e 0x80000010 4"
    by (simp add: Emulator_new_def System_new_def Csr_new_def System_SetDtbAddress_def Processor_SetIntReg_def
        IntRegFile_WriteUInt32_def breakable_def system_map_def ram_range_def Ram_new_def CheckRange_def Let_def)
  then show ?thesis using that by (auto simp: breakable_def)
qed

section \<open>Properties\<close>

text \<open>
  C19. A breakpoint leaves no trace: when the client sets a breakpoint of either size in Ram where
  none is set, each command is acknowledged and answered with OK, the breakpoint instruction stands
  in memory, and after it is set twice and removed once the whole emulator and the server's table
  are as they were before.
\<close>

theorem breakpoint_leaves_no_trace:
  assumes "breakable e a n" "n = 2 \<or> n = 4" "d a = None"
  shows "\<exists>e' d'. ProcessSession xlen (Emulator_IEmulator h) [SendResponse (breakpoint_command CHR ''Z'' a n)] (e, d) =
      Some (Inr (''+$OK#9a'', e', d')) \<and>
    ie_ReadMemory (Emulator_IEmulator h) e' n a =
      Inr (if n = 2 then to_bytes 2 ShortBreakInsn else to_bytes 4 BreakInsn) \<and>
    ProcessSession xlen (Emulator_IEmulator h) [SendResponse (breakpoint_command CHR ''Z'' a n),
      SendResponse (breakpoint_command CHR ''Z'' a n), SendResponse (breakpoint_command CHR ''z'' a n)] (e, d) =
      Some (Inr (''+$OK#9a+$OK#9a+$OK#9a'', e, d))"
  using emulator.breakpoint_session [where d = d, OF assms(1,2)] assms(3)
  by (simp add: emulator.breakpoint_bytes_def)

lemma breakpoint_leaves_no_trace_witness:
  "\<forall>h. \<exists>e. Emulator_new XLEN32 0x80000000 0x1000 None 0 = Inr e \<and>
    ProcessSession XLEN32 (Emulator_IEmulator h)
      [''$Z0,0000000080000010,4#1f'', ''$Z0,0000000080000010,4#1f'', ''$z0,0000000080000010,4#3f''] (e, Map.empty) =
      Some (Inr (''+$OK#9a+$OK#9a+$OK#9a'', e, Map.empty))"
proof -
  obtain e where e: "Emulator_new XLEN32 0x80000000 0x1000 None 0 = Inr e" "breakable e 0x80000010 4"
    by (rule new_emulator)
  have c: "SendResponse (breakpoint_command CHR ''Z'' 0x80000010 4) = ''$Z0,0000000080000010,4#1f''"
    "SendResponse (breakpoint_command CHR ''z'' 0x80000010 4) = ''$z0,0000000080000010,4#3f''"
    by code_simp+
  note run = breakpoint_leaves_no_trace [OF e(2), where d = Map.empty and xlen = XLEN32]
  show ?thesis by (intro allI exI [of _ e] conjI e(1)) (use run in \<open>auto simp: c\<close>)
qed

text \<open>
  C21. The server never reads memory for the client: on the machine of the constructor no range that
  does not wrap around is valid for the bus (it would have to lie in a memory and in a device), so
  the answer to a read of n bytes is n times the text cd, whatever the memory holds.
\<close>

theorem gdb_reads_no_memory:
  assumes "system_map (emu_System e)" "0 < n" "unat a + n \<le> 2 ^ 64"
  shows "ReadMemory_Process a n (Emulator_IEmulator h) e = Inr (concat (replicate n ''cd''))"
proof -
  have last: "unat (a + of_nat n - 1) = unat a + n - 1"
  proof -
    obtain m where m: "n = Suc m" using assms(2) by (cases n) auto
    then have "unat (a + of_nat m) = unat a + m" using assms(3) by (simp add: unat_word_ariths unat_of_nat)
    then show ?thesis by (simp add: m)
  qed
  have invalid: "\<not> (Bus_IsMemoryAddress (sys_Bus (emu_System e)) a n \<and> Bus_IsIoAddress (sys_Bus (emu_System e)) a n)"
    using assms(1,2)
    by (auto simp: system_map_def Bus_IsMemoryAddress_def Bus_IsIoAddress_def Let_def System_Bus_def
        Bus_RegisterIo_def Bus_RegisterMemory_def Bus_init_def region_covers_def word_le_nat_alt word_less_nat_alt
        last device_sizes)
  show ?thesis using invalid
    by (auto simp: ReadMemory_Process_def Emulator_IEmulator_def System_IsValidMemory_def Bus_IsValidAddress_def)
qed

lemma gdb_reads_no_memory_witness:
  "\<forall>h. \<exists>e. Emulator_new XLEN32 0x80000000 0x1000 None 0 = Inr e \<and>
    ReadMemory_Process 0x80000010 4 (Emulator_IEmulator h) e = Inr ''cdcdcdcd''"
proof -
  obtain e where e: "Emulator_new XLEN32 0x80000000 0x1000 None 0 = Inr e" "system_map (emu_System e)"
    by (rule new_emulator)
  have "concat (replicate 4 ''cd'') = ''cdcdcdcd''" by (simp add: eval_nat_numeral)
  then show ?thesis using e(1) gdb_reads_no_memory [OF e(2), where n = 4 and a = "0x80000010"] by auto
qed

end
