(* ===== verification/TraceNodes.thy ===== *)
theory TraceNodes
  imports RvTypes
begin

text \<open>
  \<^verbatim>\<open>include/rafi/trace/CycleTypes.h\<close>, \<^verbatim>\<open>EventTypes.h\<close> and \<^verbatim>\<open>ICycle.h\<close>: the nodes a trace
  file is made of, as the bytes of their structs on the host (little endian, the members at their
  natural alignment, which leaves no padding), and the interface of a cycle. The enumeration
  members are 32-bit codes, as a file can hold any; a pointer into a buffer is an offset, and a read
  beyond the end of the buffer is undefined. A floating-point register is the 64 bits of its union.
\<close>

section \<open>Node types\<close>

definition NodeId_BA :: uint16 where "NodeId_BA = 0x4142"
definition NodeId_BR :: uint16 where "NodeId_BR = 0x5242"
definition NodeId_IN :: uint16 where "NodeId_IN = 0x4e49"
definition NodeId_FP :: uint16 where "NodeId_FP = 0x5046"
definition NodeId_IO :: uint16 where "NodeId_IO = 0x4f49"
definition NodeId_OP :: uint16 where "NodeId_OP = 0x504f"
definition NodeId_TR :: uint16 where "NodeId_TR = 0x5254"
definition NodeId_MA :: uint16 where "NodeId_MA = 0x414d"

lemmas NodeId_defs = NodeId_BA_def NodeId_BR_def NodeId_IN_def NodeId_FP_def NodeId_IO_def NodeId_OP_def
  NodeId_TR_def NodeId_MA_def

record NodeHeader =
  nh_nodeId :: uint16
  nh_reserved :: uint16
  nh_nodeSize :: uint32

record NodeBasic =
  nb_cycle :: uint32
  nb_xlen :: uint32
  nb_pc :: uint64

type_synonym NodeIntReg32 = "uint32 list"
type_synonym NodeIntReg64 = "uint64 list"
type_synonym NodeFpReg = "uint64 list"

record NodeIo =
  io_hostIo :: uint32
  io_reserved :: uint32

record OpEventNode =
  oe_insn :: uint32
  oe_priv :: uint32

record TrapEventNode =
  te_trapType :: uint32
  te_from :: uint32
  te_to :: uint32
  te_cause :: uint32
  te_trapValue :: uint64

record MemoryEventNode =
  me_accessType :: uint32
  me_size :: uint32
  me_value :: uint64
  me_vaddr :: uint64
  me_paddr :: uint64

definition IntRegCount :: nat where "IntRegCount = 32"
definition FpRegCount :: nat where "FpRegCount = 32"

section \<open>Layouts\<close>

definition NodeHeader_bytes :: "NodeHeader \<Rightarrow> bytes" where
  "NodeHeader_bytes x = to_bytes 2 (nh_nodeId x) @ to_bytes 2 (nh_reserved x) @ to_bytes 4 (nh_nodeSize x)"

definition NodeBasic_bytes :: "NodeBasic \<Rightarrow> bytes" where
  "NodeBasic_bytes x = to_bytes 4 (nb_cycle x) @ to_bytes 4 (nb_xlen x) @ to_bytes 8 (nb_pc x)"

definition NodeIntReg32_bytes :: "NodeIntReg32 \<Rightarrow> bytes" where
  "NodeIntReg32_bytes rs = concat (map (to_bytes 4) rs)"

definition NodeReg64_bytes :: "uint64 list \<Rightarrow> bytes" where
  "NodeReg64_bytes rs = concat (map (to_bytes 8) rs)"

definition NodeIo_bytes :: "NodeIo \<Rightarrow> bytes" where
  "NodeIo_bytes x = to_bytes 4 (io_hostIo x) @ to_bytes 4 (io_reserved x)"

definition OpEvent_bytes :: "OpEventNode \<Rightarrow> bytes" where
  "OpEvent_bytes x = to_bytes 4 (oe_insn x) @ to_bytes 4 (oe_priv x)"

definition TrapEvent_bytes :: "TrapEventNode \<Rightarrow> bytes" where
  "TrapEvent_bytes x = to_bytes 4 (te_trapType x) @ to_bytes 4 (te_from x) @ to_bytes 4 (te_to x) @
     to_bytes 4 (te_cause x) @ to_bytes 8 (te_trapValue x)"

definition MemoryEvent_bytes :: "MemoryEventNode \<Rightarrow> bytes" where
  "MemoryEvent_bytes x = to_bytes 4 (me_accessType x) @ to_bytes 4 (me_size x) @ to_bytes 8 (me_value x) @
     to_bytes 8 (me_vaddr x) @ to_bytes 8 (me_paddr x)"

lemmas layout_defs = NodeHeader_bytes_def NodeBasic_bytes_def NodeIo_bytes_def OpEvent_bytes_def
  TrapEvent_bytes_def MemoryEvent_bytes_def

section \<open>Reading members\<close>

text \<open>\<open>load_at n buf p\<close> reads the \<open>n\<close> bytes of an integer at \<open>p\<close>.\<close>

definition load_at :: "nat \<Rightarrow> bytes \<Rightarrow> nat \<Rightarrow> ('a::len word) result" where
  "load_at n buf p = (if p + n \<le> length buf then Inr (of_bytes (take n (drop p buf))) else Inl Undefined)"

definition load16 :: "bytes \<Rightarrow> nat \<Rightarrow> uint16 result" where "load16 = load_at 2"
definition load32 :: "bytes \<Rightarrow> nat \<Rightarrow> uint32 result" where "load32 = load_at 4"
definition load64 :: "bytes \<Rightarrow> nat \<Rightarrow> uint64 result" where "load64 = load_at 8"

definition read_NodeHeader :: "bytes \<Rightarrow> nat \<Rightarrow> NodeHeader result" where
  "read_NodeHeader buf p = rbind (load16 buf p) (\<lambda>i. rbind (load16 buf (p + 2)) (\<lambda>r.
     rbind (load32 buf (p + 4)) (\<lambda>n. Inr \<lparr> nh_nodeId = i, nh_reserved = r, nh_nodeSize = n \<rparr>)))"

definition read_NodeIo :: "bytes \<Rightarrow> nat \<Rightarrow> NodeIo result" where
  "read_NodeIo buf p = rbind (load32 buf p) (\<lambda>h. rbind (load32 buf (p + 4)) (\<lambda>r.
     Inr \<lparr> io_hostIo = h, io_reserved = r \<rparr>))"

definition read_OpEvent :: "bytes \<Rightarrow> nat \<Rightarrow> OpEventNode result" where
  "read_OpEvent buf p = rbind (load32 buf p) (\<lambda>i. rbind (load32 buf (p + 4)) (\<lambda>l.
     Inr \<lparr> oe_insn = i, oe_priv = l \<rparr>))"

definition read_TrapEvent :: "bytes \<Rightarrow> nat \<Rightarrow> TrapEventNode result" where
  "read_TrapEvent buf p = rbind (load32 buf p) (\<lambda>t. rbind (load32 buf (p + 4)) (\<lambda>f.
     rbind (load32 buf (p + 8)) (\<lambda>l. rbind (load32 buf (p + 12)) (\<lambda>c. rbind (load64 buf (p + 16)) (\<lambda>v.
     Inr \<lparr> te_trapType = t, te_from = f, te_to = l, te_cause = c, te_trapValue = v \<rparr>)))))"

definition read_MemoryEvent :: "bytes \<Rightarrow> nat \<Rightarrow> MemoryEventNode result" where
  "read_MemoryEvent buf p = rbind (load32 buf p) (\<lambda>t. rbind (load32 buf (p + 4)) (\<lambda>n.
     rbind (load64 buf (p + 8)) (\<lambda>v. rbind (load64 buf (p + 16)) (\<lambda>va. rbind (load64 buf (p + 24)) (\<lambda>pa.
     Inr \<lparr> me_accessType = t, me_size = n, me_value = v, me_vaddr = va, me_paddr = pa \<rparr>)))))"

lemmas read_defs = read_NodeHeader_def read_NodeIo_def read_OpEvent_def read_TrapEvent_def read_MemoryEvent_def
  load16_def load32_def load64_def

section \<open>The interface of a cycle\<close>

text \<open>
  \<open>ICycle\<close>, as the record of its virtual functions. The copy functions return the struct that
  they store.
\<close>

record ICycle =
  GetCycle :: "uint32 result"
  GetXLEN :: "uint32 result"
  GetPc :: "uint64 result"
  IsIntRegExist :: bool
  IsFpRegExist :: bool
  IsIoExist :: bool
  GetOpEventCount :: nat
  GetMemoryEventCount :: nat
  GetTrapEventCount :: nat
  GetIntReg :: "nat \<Rightarrow> uint64 result"
  GetFpReg :: "nat \<Rightarrow> uint64 result"
  CopyIo :: "NodeIo result"
  CopyOpEvent :: "nat \<Rightarrow> OpEventNode result"
  CopyMemoryEvent :: "nat \<Rightarrow> MemoryEventNode result"
  CopyTrapEvent :: "nat \<Rightarrow> TrapEventNode result"

section \<open>Laws\<close>

text \<open>
  A struct type has a layout of fixed size and a reader that returns what was laid out, wherever in
  a buffer it lies.
\<close>

locale node_format =
  fixes enc :: "'a \<Rightarrow> bytes" and rd :: "bytes \<Rightarrow> nat \<Rightarrow> 'a result" and sz :: nat
  assumes enc_length: "length (enc x) = sz"
    and rd_enc: "rd (pre @ enc x @ post) (length pre) = Inr x"
    and rd_bound: "p + sz \<le> length buf \<longleftrightarrow> (\<exists>x. rd buf p = Inr x)"
begin

lemma rd_in_buffer:
  assumes "p \<le> length buf" "take sz (drop p buf) = enc x"
  shows "rd buf p = Inr x"
proof -
  have "buf = take p buf @ enc x @ drop sz (drop p buf)"
    by (metis append_take_drop_id assms(2))
  then show ?thesis using rd_enc [of "take p buf" x "drop sz (drop p buf)"] assms(1) by simp
qed

end

lemma load_at_append:
  assumes "LENGTH('a::len) \<le> 8 * n" "p = length pre + k"
  shows "load_at n (pre @ bs) p = (load_at n bs k :: 'a word result)"
  using assms by (simp add: load_at_def)

lemma load_at_here [simp]:
  assumes "LENGTH('a::len) \<le> 8 * n"
  shows "load_at n (to_bytes n (x :: 'a word) @ post) 0 = Inr x"
  using assms by (simp add: load_at_def of_bytes_to_bytes)

lemma load_at_skip:
  assumes "m \<le> k"
  shows "load_at n (to_bytes m x @ post) k = load_at n post (k - m)"
  using assms by (auto simp: load_at_def)

lemma load_at_pre: "load_at n (pre @ bs) (length pre + k) = load_at n bs k"
  by (simp add: load_at_def)

lemmas load_at_member = load_at_pre load_at_pre [where k = 0, simplified] load_at_pre [where k = 2, simplified]
  load_at_skip

lemma load_at_ok: "p + n \<le> length buf \<longleftrightarrow> (\<exists>x. load_at n buf p = Inr x)"
  by (simp add: load_at_def)

lemma load_at_Inr: "load_at n buf p = Inr x \<Longrightarrow> p + n \<le> length buf"
  by (simp add: load_at_def split: if_splits)

interpretation header: node_format NodeHeader_bytes read_NodeHeader 8
proof
  show "read_NodeHeader (pre @ NodeHeader_bytes x @ post) (length pre) = Inr x" for pre x post
    by (cases x) (simp add: read_defs layout_defs load_at_member)
  show "p + 8 \<le> length buf \<longleftrightarrow> (\<exists>x. read_NodeHeader buf p = Inr x)" for p buf
    by (auto simp: read_defs rbind_Inr_iff load_at_def)
qed (simp add: layout_defs)

interpretation io: node_format NodeIo_bytes read_NodeIo 8
proof
  show "read_NodeIo (pre @ NodeIo_bytes x @ post) (length pre) = Inr x" for pre x post
    by (cases x) (simp add: read_defs layout_defs load_at_member)
  show "p + 8 \<le> length buf \<longleftrightarrow> (\<exists>x. read_NodeIo buf p = Inr x)" for p buf
    by (auto simp: read_defs rbind_Inr_iff load_at_def)
qed (simp add: layout_defs)

interpretation op_event: node_format OpEvent_bytes read_OpEvent 8
proof
  show "read_OpEvent (pre @ OpEvent_bytes x @ post) (length pre) = Inr x" for pre x post
    by (cases x) (simp add: read_defs layout_defs load_at_member)
  show "p + 8 \<le> length buf \<longleftrightarrow> (\<exists>x. read_OpEvent buf p = Inr x)" for p buf
    by (auto simp: read_defs rbind_Inr_iff load_at_def)
qed (simp add: layout_defs)

interpretation trap_event: node_format TrapEvent_bytes read_TrapEvent 24
proof
  show "read_TrapEvent (pre @ TrapEvent_bytes x @ post) (length pre) = Inr x" for pre x post
    by (cases x) (simp add: read_defs layout_defs load_at_member)
  show "p + 24 \<le> length buf \<longleftrightarrow> (\<exists>x. read_TrapEvent buf p = Inr x)" for p buf
    by (auto simp: read_defs rbind_Inr_iff load_at_def)
qed (simp add: layout_defs)

interpretation memory_event: node_format MemoryEvent_bytes read_MemoryEvent 32
proof
  show "read_MemoryEvent (pre @ MemoryEvent_bytes x @ post) (length pre) = Inr x" for pre x post
    by (cases x) (simp add: read_defs layout_defs load_at_member)
  show "p + 32 \<le> length buf \<longleftrightarrow> (\<exists>x. read_MemoryEvent buf p = Inr x)" for p buf
    by (auto simp: read_defs rbind_Inr_iff load_at_def)
qed (simp add: layout_defs)

text \<open>Arrays of registers are read an element at a time.\<close>

lemma length_NodeIntReg32 [simp]: "length (NodeIntReg32_bytes rs) = 4 * length rs"
  by (induction rs) (simp_all add: NodeIntReg32_bytes_def)

lemma length_NodeReg64 [simp]: "length (NodeReg64_bytes rs) = 8 * length rs"
  by (induction rs) (simp_all add: NodeReg64_bytes_def)

lemma load32_NodeIntReg32:
  "i < length rs \<Longrightarrow> load32 (pre @ NodeIntReg32_bytes rs @ post) (length pre + 4 * i) = Inr (rs ! i)"
proof (induction rs arbitrary: pre i)
  case (Cons r rs)
  show ?case
  proof (cases i)
    case 0
    then show ?thesis by (simp add: load32_def NodeIntReg32_bytes_def load_at_member)
  next
    case (Suc j)
    then show ?thesis using Cons.IH [of j "pre @ to_bytes 4 r"] Cons.prems
      by (simp add: NodeIntReg32_bytes_def add.assoc)
  qed
qed simp

lemma load64_NodeReg64:
  "i < length rs \<Longrightarrow> load64 (pre @ NodeReg64_bytes rs @ post) (length pre + 8 * i) = Inr (rs ! i)"
proof (induction rs arbitrary: pre i)
  case (Cons r rs)
  show ?case
  proof (cases i)
    case 0
    then show ?thesis by (simp add: load64_def NodeReg64_bytes_def load_at_member)
  next
    case (Suc j)
    then show ?thesis using Cons.IH [of j "pre @ to_bytes 8 r"] Cons.prems
      by (simp add: NodeReg64_bytes_def add.assoc)
  qed
qed simp

end
