(* ===== verification/TraceBinary.thy ===== *)
theory TraceBinary
  imports TraceNodes
begin

text \<open>
  The binary form of a trace: \<^verbatim>\<open>BinaryCycleBuilder.cpp\<close>, \<^verbatim>\<open>BinaryCycle.cpp\<close>,
  \<^verbatim>\<open>TraceBinaryMemoryReader.cpp\<close>, \<^verbatim>\<open>TraceBinaryMemoryWriter.cpp\<close>,
  \<^verbatim>\<open>TraceBinaryReader.cpp\<close> and \<^verbatim>\<open>TraceBinaryWriter.cpp\<close> of \<^verbatim>\<open>lib/trace/\<close>. Unaligned
  reads are allowed on the host. The file system is a map from paths to contents, with the set of
  paths that can be opened for writing; memory for a file's content is always there.
\<close>

section \<open>BinaryCycleBuilder\<close>

text \<open>The builder is the filled part of its buffer; its length is \<open>m_DataSize\<close>.\<close>

type_synonym BinaryCycleBuilder = bytes

definition DefaultBufferSize :: nat where
  "DefaultBufferSize = 4096"

definition AddData :: "uint16 \<Rightarrow> bytes option \<Rightarrow> nat \<Rightarrow> BinaryCycleBuilder \<Rightarrow> BinaryCycleBuilder result" where
  "AddData nodeId pNode nodeSize data =
     (if DefaultBufferSize < length data + 8 + nodeSize then Inl TraceException
      else if 0xffffffff < nodeSize then Inl TraceException
      else let header = NodeHeader_bytes \<lparr> nh_nodeId = nodeId, nh_reserved = 0, nh_nodeSize = of_nat nodeSize \<rparr> in
        Inr (data @ header @ (case pNode of None \<Rightarrow> [] | Some node \<Rightarrow> take nodeSize node)))"

definition Add_NodeIntReg32 :: "NodeIntReg32 \<Rightarrow> BinaryCycleBuilder \<Rightarrow> BinaryCycleBuilder result" where
  "Add_NodeIntReg32 node = AddData NodeId_IN (Some (NodeIntReg32_bytes node)) 128"

definition Add_NodeIntReg64 :: "NodeIntReg64 \<Rightarrow> BinaryCycleBuilder \<Rightarrow> BinaryCycleBuilder result" where
  "Add_NodeIntReg64 node = AddData NodeId_IN (Some (NodeReg64_bytes node)) 256"

definition Add_NodeFpReg :: "NodeFpReg \<Rightarrow> BinaryCycleBuilder \<Rightarrow> BinaryCycleBuilder result" where
  "Add_NodeFpReg node = AddData NodeId_FP (Some (NodeReg64_bytes node)) 256"

definition Add_NodeIo :: "NodeIo \<Rightarrow> BinaryCycleBuilder \<Rightarrow> BinaryCycleBuilder result" where
  "Add_NodeIo node = AddData NodeId_IO (Some (NodeIo_bytes node)) 8"

definition Add_OpEvent :: "OpEventNode \<Rightarrow> BinaryCycleBuilder \<Rightarrow> BinaryCycleBuilder result" where
  "Add_OpEvent node = AddData NodeId_OP (Some (OpEvent_bytes node)) 8"

definition Add_TrapEvent :: "TrapEventNode \<Rightarrow> BinaryCycleBuilder \<Rightarrow> BinaryCycleBuilder result" where
  "Add_TrapEvent node = AddData NodeId_TR (Some (TrapEvent_bytes node)) 24"

definition Add_MemoryEvent :: "MemoryEventNode \<Rightarrow> BinaryCycleBuilder \<Rightarrow> BinaryCycleBuilder result" where
  "Add_MemoryEvent node = AddData NodeId_MA (Some (MemoryEvent_bytes node)) 32"

definition Builder_Break :: "BinaryCycleBuilder \<Rightarrow> BinaryCycleBuilder result" where
  "Builder_Break = AddData NodeId_BR None 0"

definition Add_NodeBasic :: "NodeBasic \<Rightarrow> BinaryCycleBuilder \<Rightarrow> BinaryCycleBuilder result" where
  "Add_NodeBasic node = AddData NodeId_BA (Some (NodeBasic_bytes node)) 16"

definition BinaryCycleBuilder_new :: "uint32 \<Rightarrow> uint32 \<Rightarrow> uint64 \<Rightarrow> BinaryCycleBuilder result" where
  "BinaryCycleBuilder_new cycle xlen pc = Add_NodeBasic \<lparr> nb_cycle = cycle, nb_xlen = xlen, nb_pc = pc \<rparr> []"

section \<open>BinaryCycle\<close>

text \<open>The buffer starts at the cycle and goes on to the end of the file.\<close>

record BinaryCycle =
  bc_Buffer :: bytes
  bc_Size :: nat
  bc_pNodeBasic :: "nat option"
  bc_pNodeIntReg32 :: "nat option"
  bc_pNodeIntReg64 :: "nat option"
  bc_pNodeFpReg :: "nat option"
  bc_pNodeIo :: "nat option"
  bc_OpEvents :: "nat list"
  bc_MemoryEvents :: "nat list"
  bc_TrapEvents :: "nat list"
  bc_Break :: bool

definition BinaryCycle_new :: "bytes \<Rightarrow> BinaryCycle" where
  "BinaryCycle_new buffer = \<lparr> bc_Buffer = buffer, bc_Size = 0, bc_pNodeBasic = None,
     bc_pNodeIntReg32 = None, bc_pNodeIntReg64 = None, bc_pNodeFpReg = None, bc_pNodeIo = None,
     bc_OpEvents = [], bc_MemoryEvents = [], bc_TrapEvents = [], bc_Break = False \<rparr>"

text \<open>The switch over the node's type; \<open>p\<close> is the address behind the header.\<close>

definition parse_node_body :: "uint16 \<Rightarrow> nat \<Rightarrow> BinaryCycle \<Rightarrow> BinaryCycle result" where
  "parse_node_body nodeId p c =
     (if nodeId = NodeId_BA then Inr (c\<lparr> bc_pNodeBasic := Some p \<rparr>)
      else if nodeId = NodeId_BR then Inr (c\<lparr> bc_Break := True \<rparr>)
      else if nodeId = NodeId_FP then Inr (c\<lparr> bc_pNodeFpReg := Some p \<rparr>)
      else if nodeId = NodeId_IN then (case bc_pNodeBasic c of
          None \<Rightarrow> Inl TraceException
        | Some b \<Rightarrow> rbind (load32 (bc_Buffer c) (b + 4)) (\<lambda>xlen.
            if xlen = 1 then Inr (c\<lparr> bc_pNodeIntReg32 := Some p \<rparr>)
            else if xlen = 2 then Inr (c\<lparr> bc_pNodeIntReg64 := Some p \<rparr>)
            else Inl ProcessExit))
      else if nodeId = NodeId_IO then Inr (c\<lparr> bc_pNodeIo := Some p \<rparr>)
      else if nodeId = NodeId_MA then Inr (c\<lparr> bc_MemoryEvents := bc_MemoryEvents c @ [p] \<rparr>)
      else if nodeId = NodeId_OP then Inr (c\<lparr> bc_OpEvents := bc_OpEvents c @ [p] \<rparr>)
      else if nodeId = NodeId_TR then Inr (c\<lparr> bc_TrapEvents := bc_TrapEvents c @ [p] \<rparr>)
      else Inl TraceException)"

definition ParseNode :: "nat \<Rightarrow> nat \<Rightarrow> BinaryCycle \<Rightarrow> (nat \<times> BinaryCycle) result" where
  "ParseNode off bufferSize c =
     (if bufferSize < 8 then Inl TraceException
      else rbind (read_NodeHeader (bc_Buffer c) off) (\<lambda>header.
        let n = 8 + unat (nh_nodeSize header) in
        if bufferSize < n then Inl TraceException
        else rbind (parse_node_body (nh_nodeId header) (off + 8) c) (\<lambda>c'. Inr (n, c'))))"

lemma parse_node_body_frame:
  assumes "parse_node_body i p c = Inr c'"
  shows "bc_Buffer c' = bc_Buffer c" "bc_Size c' = bc_Size c"
  using assms by (auto simp: parse_node_body_def rbind_Inr_iff split: if_splits option.splits)

lemma ParseNode_progress:
  assumes "ParseNode off k c = Inr (n, c')"
  shows "8 \<le> n" "n \<le> k" "bc_Buffer c' = bc_Buffer c" "bc_Size c' = bc_Size c"
  using assms parse_node_body_frame by (auto simp: ParseNode_def rbind_Inr_iff Let_def split: if_splits)

lemma ParseNode_decreases:
  assumes "ParseNode (bc_Size c) (length (bc_Buffer c) - bc_Size c) c = Inr (n, c')"
  shows "length (bc_Buffer c') - (bc_Size c' + n) < length (bc_Buffer c) - bc_Size c"
  using ParseNode_progress [OF assms] by simp

function Parse_loop :: "BinaryCycle \<Rightarrow> BinaryCycle result" where
  "Parse_loop c = (if bc_Break c then Inr c
     else rbind (ParseNode (bc_Size c) (length (bc_Buffer c) - bc_Size c) c) (\<lambda>(n, c').
       Parse_loop (c'\<lparr> bc_Size := bc_Size c' + n \<rparr>)))"
  by pat_completeness auto
termination
  by (relation "measure (\<lambda>c. length (bc_Buffer c) - bc_Size c)") (auto dest: ParseNode_decreases)

declare Parse_loop.simps [simp del]

definition BinaryCycle_Parse :: "bytes \<Rightarrow> BinaryCycle result" where
  "BinaryCycle_Parse buffer = Parse_loop (BinaryCycle_new buffer)"

text \<open>A call through a null pointer, and an index beyond an array or a vector, are undefined.\<close>

definition at_node :: "nat option \<Rightarrow> (nat \<Rightarrow> 'a result) \<Rightarrow> 'a result" where
  "at_node p f = (case p of None \<Rightarrow> Inl Undefined | Some a \<Rightarrow> f a)"

definition at_index :: "nat list \<Rightarrow> nat \<Rightarrow> (nat \<Rightarrow> 'a result) \<Rightarrow> 'a result" where
  "at_index ps i f = (if i < length ps then f (ps ! i) else Inl Undefined)"

definition BinaryCycle_GetCycle :: "BinaryCycle \<Rightarrow> uint32 result" where
  "BinaryCycle_GetCycle c = at_node (bc_pNodeBasic c) (load32 (bc_Buffer c))"

definition BinaryCycle_GetXLEN :: "BinaryCycle \<Rightarrow> uint32 result" where
  "BinaryCycle_GetXLEN c = at_node (bc_pNodeBasic c) (\<lambda>p. load32 (bc_Buffer c) (p + 4))"

definition BinaryCycle_GetPc :: "BinaryCycle \<Rightarrow> uint64 result" where
  "BinaryCycle_GetPc c = at_node (bc_pNodeBasic c) (\<lambda>p. load64 (bc_Buffer c) (p + 8))"

definition BinaryCycle_GetIntReg :: "BinaryCycle \<Rightarrow> nat \<Rightarrow> uint64 result" where
  "BinaryCycle_GetIntReg c index = (case bc_pNodeIntReg32 c of
      Some p \<Rightarrow>
        if index < IntRegCount then rbind (load32 (bc_Buffer c) (p + 4 * index)) (\<lambda>v. Inr (ucast v))
        else Inl Undefined
    | None \<Rightarrow> (case bc_pNodeIntReg64 c of
        Some p \<Rightarrow> if index < IntRegCount then load64 (bc_Buffer c) (p + 8 * index) else Inl Undefined
      | None \<Rightarrow> Inl ProcessExit))"

definition BinaryCycle_GetFpReg :: "BinaryCycle \<Rightarrow> nat \<Rightarrow> uint64 result" where
  "BinaryCycle_GetFpReg c index = at_node (bc_pNodeFpReg c) (\<lambda>p.
     if index < FpRegCount then load64 (bc_Buffer c) (p + 8 * index) else Inl Undefined)"

definition BinaryCycle_CopyIo :: "BinaryCycle \<Rightarrow> NodeIo result" where
  "BinaryCycle_CopyIo c = at_node (bc_pNodeIo c) (read_NodeIo (bc_Buffer c))"

definition BinaryCycle_CopyOpEvent :: "BinaryCycle \<Rightarrow> nat \<Rightarrow> OpEventNode result" where
  "BinaryCycle_CopyOpEvent c index = at_index (bc_OpEvents c) index (read_OpEvent (bc_Buffer c))"

definition BinaryCycle_CopyMemoryEvent :: "BinaryCycle \<Rightarrow> nat \<Rightarrow> MemoryEventNode result" where
  "BinaryCycle_CopyMemoryEvent c index = at_index (bc_MemoryEvents c) index (read_MemoryEvent (bc_Buffer c))"

definition BinaryCycle_CopyTrapEvent :: "BinaryCycle \<Rightarrow> nat \<Rightarrow> TrapEventNode result" where
  "BinaryCycle_CopyTrapEvent c index = at_index (bc_TrapEvents c) index (read_TrapEvent (bc_Buffer c))"

definition BinaryCycle_ICycle :: "BinaryCycle \<Rightarrow> ICycle" where
  "BinaryCycle_ICycle c = \<lparr>
     GetCycle = BinaryCycle_GetCycle c,
     GetXLEN = BinaryCycle_GetXLEN c,
     GetPc = BinaryCycle_GetPc c,
     IsIntRegExist = (bc_pNodeIntReg32 c \<noteq> None \<or> bc_pNodeIntReg64 c \<noteq> None),
     IsFpRegExist = (bc_pNodeFpReg c \<noteq> None),
     IsIoExist = (bc_pNodeIo c \<noteq> None),
     GetOpEventCount = length (bc_OpEvents c),
     GetMemoryEventCount = length (bc_MemoryEvents c),
     GetTrapEventCount = length (bc_TrapEvents c),
     GetIntReg = BinaryCycle_GetIntReg c,
     GetFpReg = BinaryCycle_GetFpReg c,
     CopyIo = BinaryCycle_CopyIo c,
     CopyOpEvent = BinaryCycle_CopyOpEvent c,
     CopyMemoryEvent = BinaryCycle_CopyMemoryEvent c,
     CopyTrapEvent = BinaryCycle_CopyTrapEvent c \<rparr>"

section \<open>TraceBinaryMemoryReader\<close>

record TraceBinaryMemoryReader =
  mr_pBuffer :: bytes
  mr_Offset :: nat
  mr_pCycle :: "BinaryCycle option"

definition CheckBufferSize :: "bytes \<Rightarrow> unit result" where
  "CheckBufferSize buffer = (if length buffer < 8 then Inl TraceException else Inr ())"

definition TraceBinaryMemoryReader_new :: "bytes \<Rightarrow> TraceBinaryMemoryReader result" where
  "TraceBinaryMemoryReader_new buffer = rbind (CheckBufferSize buffer) (\<lambda>_.
     rbind (BinaryCycle_Parse buffer) (\<lambda>c.
       Inr \<lparr> mr_pBuffer = buffer, mr_Offset = 0, mr_pCycle = Some c \<rparr>))"

definition MemoryReader_IsEnd :: "TraceBinaryMemoryReader \<Rightarrow> bool" where
  "MemoryReader_IsEnd r \<longleftrightarrow> mr_Offset r = length (mr_pBuffer r)"

definition MemoryReader_CheckOffset :: "TraceBinaryMemoryReader \<Rightarrow> unit result" where
  "MemoryReader_CheckOffset r = (if mr_Offset r \<le> length (mr_pBuffer r) then Inr () else Inl TraceException)"

text \<open>At the end of the data the cycle is a null pointer, and \<open>Next\<close> reads its size.\<close>

definition MemoryReader_Next :: "TraceBinaryMemoryReader \<Rightarrow> TraceBinaryMemoryReader result" where
  "MemoryReader_Next r = (case mr_pCycle r of
      None \<Rightarrow> Inl Undefined
    | Some c \<Rightarrow>
        let r = r\<lparr> mr_Offset := mr_Offset r + bc_Size c \<rparr> in
        rbind (MemoryReader_CheckOffset r) (\<lambda>_.
          if \<not> MemoryReader_IsEnd r then
            rbind (BinaryCycle_Parse (drop (mr_Offset r) (mr_pBuffer r))) (\<lambda>c'. Inr (r\<lparr> mr_pCycle := Some c' \<rparr>))
          else Inr (r\<lparr> mr_pCycle := None \<rparr>)))"

text \<open>\<open>Next(n)\<close> of the readers without an index: \<open>n\<close> times \<open>Next\<close>.\<close>

primrec repeat_next :: "('r \<Rightarrow> 'r result) \<Rightarrow> nat \<Rightarrow> 'r \<Rightarrow> 'r result" where
  "repeat_next f 0 r = Inr r"
| "repeat_next f (Suc n) r = rbind (f r) (repeat_next f n)"

definition MemoryReader_NextN :: "uint32 \<Rightarrow> TraceBinaryMemoryReader \<Rightarrow> TraceBinaryMemoryReader result" where
  "MemoryReader_NextN cycle r = repeat_next MemoryReader_Next (unat cycle) r"

definition MemoryReader_GetCycle :: "TraceBinaryMemoryReader \<Rightarrow> ICycle option" where
  "MemoryReader_GetCycle r = map_option BinaryCycle_ICycle (mr_pCycle r)"

section \<open>TraceBinaryMemoryWriter\<close>

text \<open>The target buffer is the caller's, of at least the size it names; the offset stays within.\<close>

record TraceBinaryMemoryWriter =
  mw_pBuffer :: bytes
  mw_BufferSize :: int
  mw_CurrentOffset :: int

definition TraceBinaryMemoryWriter_new :: "bytes \<Rightarrow> int \<Rightarrow> TraceBinaryMemoryWriter" where
  "TraceBinaryMemoryWriter_new buffer n = \<lparr> mw_pBuffer = buffer, mw_BufferSize = n, mw_CurrentOffset = 0 \<rparr>"

definition MemoryWriter_Write :: "bytes \<Rightarrow> int \<Rightarrow> TraceBinaryMemoryWriter \<Rightarrow> TraceBinaryMemoryWriter result" where
  "MemoryWriter_Write buffer n w =
     (if mw_BufferSize w < mw_CurrentOffset w + n then Inl TraceException
      else if n < 0 then Inl TraceException
      else let d = nat (mw_CurrentOffset w) in
        if length (mw_pBuffer w) < d + nat n \<or> length buffer < nat n then Inl Undefined
        else Inr (w\<lparr> mw_pBuffer := take d (mw_pBuffer w) @ take (nat n) buffer @ drop (d + nat n) (mw_pBuffer w),
                    mw_CurrentOffset := mw_CurrentOffset w + n \<rparr>))"

section \<open>Files\<close>

record filesystem =
  fs_files :: "string \<rightharpoonup> bytes"
  fs_writable :: "string set"

subsection \<open>TraceBinaryReader\<close>

text \<open>
  The reader inside is not initialised when the file is empty: \<open>None\<close>. The test of that pointer
  in \<open>IsEnd\<close> then reads an indeterminate value.
\<close>

type_synonym TraceBinaryReader = "TraceBinaryMemoryReader option"

definition TraceBinaryReader_new :: "filesystem \<Rightarrow> string \<Rightarrow> TraceBinaryReader result" where
  "TraceBinaryReader_new fs path = (case fs_files fs path of
      None \<Rightarrow> Inl FileOpenFailure
    | Some content \<Rightarrow>
        if 0 < length content then rbind (TraceBinaryMemoryReader_new content) (\<lambda>r. Inr (Some r))
        else Inr None)"

definition BinaryReader_GetCycle :: "TraceBinaryReader \<Rightarrow> ICycle option result" where
  "BinaryReader_GetCycle r = (case r of None \<Rightarrow> Inl Undefined | Some m \<Rightarrow> Inr (MemoryReader_GetCycle m))"

definition BinaryReader_IsEnd :: "TraceBinaryReader \<Rightarrow> bool result" where
  "BinaryReader_IsEnd r = (case r of None \<Rightarrow> Inl Undefined | Some m \<Rightarrow> Inr (MemoryReader_IsEnd m))"

definition BinaryReader_Next :: "TraceBinaryReader \<Rightarrow> TraceBinaryReader result" where
  "BinaryReader_Next r = (case r of
      None \<Rightarrow> Inl Undefined
    | Some m \<Rightarrow> rbind (MemoryReader_Next m) (\<lambda>m'. Inr (Some m')))"

definition BinaryReader_NextN :: "uint32 \<Rightarrow> TraceBinaryReader \<Rightarrow> TraceBinaryReader result" where
  "BinaryReader_NextN cycle r = repeat_next BinaryReader_Next (unat cycle) r"

subsection \<open>TraceBinaryWriter\<close>

text \<open>The state is the path of the open file; a write appends and is flushed.\<close>

definition TraceBinaryWriter_new :: "string \<Rightarrow> filesystem \<Rightarrow> filesystem result" where
  "TraceBinaryWriter_new path fs =
     (if path \<in> fs_writable fs then Inr (fs\<lparr> fs_files := (fs_files fs)(path \<mapsto> []) \<rparr>)
      else Inl FileOpenFailure)"

definition TraceBinaryWriter_Write :: "string \<Rightarrow> bytes \<Rightarrow> nat \<Rightarrow> filesystem \<Rightarrow> filesystem result" where
  "TraceBinaryWriter_Write path buffer n fs =
     (if length buffer < n then Inl Undefined
      else Inr (fs\<lparr> fs_files := (fs_files fs)(path \<mapsto>
        (case fs_files fs path of Some old \<Rightarrow> old | None \<Rightarrow> []) @ take n buffer) \<rparr>))"

end
