(* ===== verification/TraceBinaryLaws.thy ===== *)
theory TraceBinaryLaws
  imports TraceBinary
begin

text \<open>
  What a cycle means, apart from its bytes, and that the builder and the parser agree on it: a
  cycle that was built is read back as it was meant, a file of cycles is read back in order, and
  the parser stays inside its buffer on any input.
\<close>

section \<open>The meaning of a cycle\<close>

datatype TraceNode =
    IntReg32Node NodeIntReg32
  | IntReg64Node NodeIntReg64
  | FpRegNode NodeFpReg
  | IoNode NodeIo
  | OpNode OpEventNode
  | TrapNode TrapEventNode
  | MemoryNode MemoryEventNode

text \<open>The overloads of \<open>BinaryCycleBuilder::Add\<close>.\<close>

definition Builder_Add :: "TraceNode \<Rightarrow> BinaryCycleBuilder \<Rightarrow> BinaryCycleBuilder result" where
  "Builder_Add nd = (case nd of
      IntReg32Node rs \<Rightarrow> Add_NodeIntReg32 rs
    | IntReg64Node rs \<Rightarrow> Add_NodeIntReg64 rs
    | FpRegNode rs \<Rightarrow> Add_NodeFpReg rs
    | IoNode x \<Rightarrow> Add_NodeIo x
    | OpNode e \<Rightarrow> Add_OpEvent e
    | TrapNode e \<Rightarrow> Add_TrapEvent e
    | MemoryNode e \<Rightarrow> Add_MemoryEvent e)"

primrec Builder_AddAll :: "TraceNode list \<Rightarrow> BinaryCycleBuilder \<Rightarrow> BinaryCycleBuilder result" where
  "Builder_AddAll [] b = Inr b"
| "Builder_AddAll (nd # nds) b = rbind (Builder_Add nd b) (Builder_AddAll nds)"

definition build_cycle :: "uint32 \<Rightarrow> uint32 \<Rightarrow> uint64 \<Rightarrow> TraceNode list \<Rightarrow> bytes result" where
  "build_cycle cycle xlen pc nds = rbind (BinaryCycleBuilder_new cycle xlen pc) (\<lambda>b.
     rbind (Builder_AddAll nds b) Builder_Break)"

text \<open>
  The nodes the logger adds: register arrays have 32 elements, and integer registers have the width
  the cycle names. A register node repeated later replaces the earlier one.
\<close>

definition node_ok :: "uint32 \<Rightarrow> TraceNode \<Rightarrow> bool" where
  "node_ok xlen nd = (case nd of
      IntReg32Node rs \<Rightarrow> xlen = 1 \<and> length rs = 32
    | IntReg64Node rs \<Rightarrow> xlen = 2 \<and> length rs = 32
    | FpRegNode rs \<Rightarrow> length rs = 32
    | _ \<Rightarrow> True)"

fun last_int :: "TraceNode list \<Rightarrow> uint64 list option" where
  "last_int [] = None"
| "last_int (nd # nds) = (case last_int nds of Some rs \<Rightarrow> Some rs | None \<Rightarrow> (case nd of
      IntReg32Node rs \<Rightarrow> Some (map ucast rs) | IntReg64Node rs \<Rightarrow> Some rs | _ \<Rightarrow> None))"

fun last_fp :: "TraceNode list \<Rightarrow> uint64 list option" where
  "last_fp [] = None"
| "last_fp (nd # nds) = (case last_fp nds of Some rs \<Rightarrow> Some rs | None \<Rightarrow> (case nd of
      FpRegNode rs \<Rightarrow> Some rs | _ \<Rightarrow> None))"

fun last_io :: "TraceNode list \<Rightarrow> NodeIo option" where
  "last_io [] = None"
| "last_io (nd # nds) = (case last_io nds of Some x \<Rightarrow> Some x | None \<Rightarrow> (case nd of
      IoNode x \<Rightarrow> Some x | _ \<Rightarrow> None))"

fun node_ops :: "TraceNode list \<Rightarrow> OpEventNode list" where
  "node_ops [] = []"
| "node_ops (nd # nds) = (case nd of OpNode e \<Rightarrow> [e] | _ \<Rightarrow> []) @ node_ops nds"

fun node_traps :: "TraceNode list \<Rightarrow> TrapEventNode list" where
  "node_traps [] = []"
| "node_traps (nd # nds) = (case nd of TrapNode e \<Rightarrow> [e] | _ \<Rightarrow> []) @ node_traps nds"

fun node_memory :: "TraceNode list \<Rightarrow> MemoryEventNode list" where
  "node_memory [] = []"
| "node_memory (nd # nds) = (case nd of MemoryNode e \<Rightarrow> [e] | _ \<Rightarrow> []) @ node_memory nds"

text \<open>The cycle a reader should see: every virtual function, with its failures.\<close>

definition reg_of :: "uint64 list option \<Rightarrow> emu_error \<Rightarrow> nat \<Rightarrow> uint64 result" where
  "reg_of regs e i = (case regs of
      None \<Rightarrow> Inl e
    | Some rs \<Rightarrow> if i < 32 then Inr (rs ! i) else Inl Undefined)"

definition item_of :: "'a list \<Rightarrow> nat \<Rightarrow> 'a result" where
  "item_of xs i = (if i < length xs then Inr (xs ! i) else Inl Undefined)"

definition spec_cycle :: "uint32 \<Rightarrow> uint32 \<Rightarrow> uint64 \<Rightarrow> TraceNode list \<Rightarrow> ICycle" where
  "spec_cycle cycle xlen pc nds = \<lparr>
     GetCycle = Inr cycle,
     GetXLEN = Inr xlen,
     GetPc = Inr pc,
     IsIntRegExist = (last_int nds \<noteq> None),
     IsFpRegExist = (last_fp nds \<noteq> None),
     IsIoExist = (last_io nds \<noteq> None),
     GetOpEventCount = length (node_ops nds),
     GetMemoryEventCount = length (node_memory nds),
     GetTrapEventCount = length (node_traps nds),
     GetIntReg = reg_of (last_int nds) ProcessExit,
     GetFpReg = reg_of (last_fp nds) Undefined,
     CopyIo = (case last_io nds of None \<Rightarrow> Inl Undefined | Some x \<Rightarrow> Inr x),
     CopyOpEvent = item_of (node_ops nds),
     CopyMemoryEvent = item_of (node_memory nds),
     CopyTrapEvent = item_of (node_traps nds) \<rparr>"

lemma last_snoc:
  "last_int (nds @ [nd]) = (case nd of IntReg32Node rs \<Rightarrow> Some (map ucast rs) | IntReg64Node rs \<Rightarrow> Some rs
     | _ \<Rightarrow> last_int nds)"
  "last_fp (nds @ [nd]) = (case nd of FpRegNode rs \<Rightarrow> Some rs | _ \<Rightarrow> last_fp nds)"
  "last_io (nds @ [nd]) = (case nd of IoNode x \<Rightarrow> Some x | _ \<Rightarrow> last_io nds)"
  by (induction nds) (auto split: TraceNode.splits option.splits)

lemma events_append:
  "node_ops (nds @ nds') = node_ops nds @ node_ops nds'"
  "node_traps (nds @ nds') = node_traps nds @ node_traps nds'"
  "node_memory (nds @ nds') = node_memory nds @ node_memory nds'"
  by (induction nds) auto

section \<open>The bytes of a cycle\<close>

definition node_id :: "TraceNode \<Rightarrow> uint16" where
  "node_id nd = (case nd of IntReg32Node _ \<Rightarrow> NodeId_IN | IntReg64Node _ \<Rightarrow> NodeId_IN | FpRegNode _ \<Rightarrow> NodeId_FP
     | IoNode _ \<Rightarrow> NodeId_IO | OpNode _ \<Rightarrow> NodeId_OP | TrapNode _ \<Rightarrow> NodeId_TR | MemoryNode _ \<Rightarrow> NodeId_MA)"

definition node_body :: "TraceNode \<Rightarrow> bytes" where
  "node_body nd = (case nd of IntReg32Node rs \<Rightarrow> NodeIntReg32_bytes rs | IntReg64Node rs \<Rightarrow> NodeReg64_bytes rs
     | FpRegNode rs \<Rightarrow> NodeReg64_bytes rs | IoNode x \<Rightarrow> NodeIo_bytes x | OpNode e \<Rightarrow> OpEvent_bytes e
     | TrapNode e \<Rightarrow> TrapEvent_bytes e | MemoryNode e \<Rightarrow> MemoryEvent_bytes e)"

definition framed :: "uint16 \<Rightarrow> bytes \<Rightarrow> bytes" where
  "framed i body = NodeHeader_bytes \<lparr> nh_nodeId = i, nh_reserved = 0, nh_nodeSize = of_nat (length body) \<rparr> @ body"

lemma length_framed [simp]: "length (framed i body) = 8 + length body"
  by (simp add: framed_def header.enc_length)

lemma AddData_framed:
  "length body = n \<Longrightarrow> n < 2 ^ 32 \<Longrightarrow> AddData i (Some body) n data =
    (if length (data @ framed i body) \<le> 4096 then Inr (data @ framed i body) else Inl TraceException)"
  by (simp add: AddData_def framed_def DefaultBufferSize_def header.enc_length Let_def)

lemma Builder_Add_eq:
  assumes "node_ok xlen nd"
  shows "Builder_Add nd data = (if length (data @ framed (node_id nd) (node_body nd)) \<le> 4096
    then Inr (data @ framed (node_id nd) (node_body nd)) else Inl TraceException)"
  using assms
  by (cases nd) (simp_all add: Builder_Add_def node_ok_def node_id_def node_body_def Add_NodeIntReg32_def
      Add_NodeIntReg64_def Add_NodeFpReg_def Add_NodeIo_def Add_OpEvent_def Add_TrapEvent_def Add_MemoryEvent_def
      AddData_framed io.enc_length op_event.enc_length trap_event.enc_length memory_event.enc_length)

definition nodes_bytes :: "TraceNode list \<Rightarrow> bytes" where
  "nodes_bytes nds = concat (map (\<lambda>nd. framed (node_id nd) (node_body nd)) nds)"

lemma nodes_bytes_simps [simp]:
  "nodes_bytes [] = []" "nodes_bytes (nd # nds) = framed (node_id nd) (node_body nd) @ nodes_bytes nds"
  "nodes_bytes (nds @ nds') = nodes_bytes nds @ nodes_bytes nds'"
  by (simp_all add: nodes_bytes_def)

lemma Builder_AddAll_eq:
  assumes "list_all (node_ok xlen) nds" "length data \<le> 4096"
  shows "Builder_AddAll nds data =
    (if length (data @ nodes_bytes nds) \<le> 4096 then Inr (data @ nodes_bytes nds) else Inl TraceException)"
  using assms by (induction nds arbitrary: data) (auto simp: Builder_Add_eq)

definition cycle_bytes :: "uint32 \<Rightarrow> uint32 \<Rightarrow> uint64 \<Rightarrow> TraceNode list \<Rightarrow> bytes" where
  "cycle_bytes cycle xlen pc nds =
     framed NodeId_BA (NodeBasic_bytes \<lparr> nb_cycle = cycle, nb_xlen = xlen, nb_pc = pc \<rparr>) @
     nodes_bytes nds @ framed NodeId_BR []"

lemma build_cycle_eq:
  assumes "list_all (node_ok xlen) nds"
  shows "build_cycle cycle xlen pc nds = (if length (cycle_bytes cycle xlen pc nds) \<le> 4096
    then Inr (cycle_bytes cycle xlen pc nds) else Inl TraceException)"
proof -
  let ?ba = "framed NodeId_BA (NodeBasic_bytes \<lparr> nb_cycle = cycle, nb_xlen = xlen, nb_pc = pc \<rparr>)"
  have l: "length ?ba = 24" by (simp add: layout_defs)
  have "BinaryCycleBuilder_new cycle xlen pc = Inr ?ba"
    by (simp add: BinaryCycleBuilder_new_def Add_NodeBasic_def AddData_framed layout_defs)
  moreover have "Builder_Break b = (if length (b @ framed NodeId_BR []) \<le> 4096 then Inr (b @ framed NodeId_BR [])
      else Inl TraceException)" for b
    by (simp add: Builder_Break_def AddData_def framed_def DefaultBufferSize_def header.enc_length Let_def)
  ultimately show ?thesis using Builder_AddAll_eq [OF assms, of ?ba] l
    by (auto simp: build_cycle_def cycle_bytes_def)
qed

section \<open>Parsing\<close>

text \<open>What the pointers of a half-parsed cycle read, after the nodes so far.\<close>

definition points_to :: "nat option \<Rightarrow> 'a option \<Rightarrow> (nat \<Rightarrow> 'a \<Rightarrow> bool) \<Rightarrow> bool" where
  "points_to p x P \<longleftrightarrow> (case x of None \<Rightarrow> p = None | Some v \<Rightarrow> \<exists>a. p = Some a \<and> P a v)"

definition parsed :: "uint32 \<Rightarrow> uint32 \<Rightarrow> uint64 \<Rightarrow> TraceNode list \<Rightarrow> BinaryCycle \<Rightarrow> bool" where
  "parsed cycle xlen pc nds c \<longleftrightarrow>
     bc_pNodeBasic c = Some 8 \<and> load32 (bc_Buffer c) 8 = Inr cycle \<and> load32 (bc_Buffer c) 12 = Inr xlen \<and>
     load64 (bc_Buffer c) 16 = Inr pc \<and>
     points_to (bc_pNodeIntReg32 c) (if xlen = 1 then last_int nds else None)
       (\<lambda>p rs. \<forall>i < 32. rbind (load32 (bc_Buffer c) (p + 4 * i)) (\<lambda>v. Inr (ucast v)) = Inr (rs ! i)) \<and>
     points_to (bc_pNodeIntReg64 c) (if xlen = 1 then None else last_int nds)
       (\<lambda>p rs. \<forall>i < 32. load64 (bc_Buffer c) (p + 8 * i) = Inr (rs ! i)) \<and>
     points_to (bc_pNodeFpReg c) (last_fp nds) (\<lambda>p rs. \<forall>i < 32. load64 (bc_Buffer c) (p + 8 * i) = Inr (rs ! i)) \<and>
     points_to (bc_pNodeIo c) (last_io nds) (\<lambda>p x. read_NodeIo (bc_Buffer c) p = Inr x) \<and>
     list_all2 (\<lambda>p e. read_OpEvent (bc_Buffer c) p = Inr e) (bc_OpEvents c) (node_ops nds) \<and>
     list_all2 (\<lambda>p e. read_TrapEvent (bc_Buffer c) p = Inr e) (bc_TrapEvents c) (node_traps nds) \<and>
     list_all2 (\<lambda>p e. read_MemoryEvent (bc_Buffer c) p = Inr e) (bc_MemoryEvents c) (node_memory nds)"

lemma parsed_cycle:
  assumes "parsed cycle xlen pc nds c"
  shows "BinaryCycle_ICycle c = spec_cycle cycle xlen pc nds"
proof -
  note p = assms [unfolded parsed_def]
  have "BinaryCycle_GetIntReg c = reg_of (last_int nds) ProcessExit"
    using p by (auto simp: fun_eq_iff BinaryCycle_GetIntReg_def reg_of_def points_to_def IntRegCount_def split: option.splits if_splits)
  moreover have "BinaryCycle_GetFpReg c = reg_of (last_fp nds) Undefined"
    using p by (auto simp: fun_eq_iff BinaryCycle_GetFpReg_def at_node_def reg_of_def points_to_def FpRegCount_def split: option.splits)
  moreover have "BinaryCycle_CopyOpEvent c = item_of (node_ops nds)"
    "BinaryCycle_CopyTrapEvent c = item_of (node_traps nds)"
    "BinaryCycle_CopyMemoryEvent c = item_of (node_memory nds)"
    using p by (auto simp: fun_eq_iff BinaryCycle_CopyOpEvent_def BinaryCycle_CopyTrapEvent_def
        BinaryCycle_CopyMemoryEvent_def at_index_def item_of_def dest: list_all2_lengthD list_all2_nthD)
  moreover have "BinaryCycle_CopyIo c = (case last_io nds of None \<Rightarrow> Inl Undefined | Some x \<Rightarrow> Inr x)"
    using p by (auto simp: BinaryCycle_CopyIo_def at_node_def points_to_def split: option.splits)
  moreover have "(bc_pNodeIntReg32 c \<noteq> None \<or> bc_pNodeIntReg64 c \<noteq> None) = (last_int nds \<noteq> None)"
    "(bc_pNodeFpReg c \<noteq> None) = (last_fp nds \<noteq> None)" "(bc_pNodeIo c \<noteq> None) = (last_io nds \<noteq> None)"
    using p by (auto simp: points_to_def split: option.splits if_splits)
  moreover have "length (bc_OpEvents c) = length (node_ops nds)"
    "length (bc_TrapEvents c) = length (node_traps nds)" "length (bc_MemoryEvents c) = length (node_memory nds)"
    using p by (auto dest: list_all2_lengthD)
  ultimately show ?thesis using p
    by (simp add: BinaryCycle_ICycle_def spec_cycle_def BinaryCycle_GetCycle_def BinaryCycle_GetXLEN_def
        BinaryCycle_GetPc_def at_node_def)
qed

lemma node_id_distinct:
  "NodeId_BR \<noteq> NodeId_BA" "NodeId_FP \<noteq> NodeId_BA" "NodeId_IN \<noteq> NodeId_BA" "NodeId_IO \<noteq> NodeId_BA"
  "NodeId_MA \<noteq> NodeId_BA" "NodeId_OP \<noteq> NodeId_BA" "NodeId_TR \<noteq> NodeId_BA"
  "NodeId_FP \<noteq> NodeId_BR" "NodeId_IN \<noteq> NodeId_BR" "NodeId_IO \<noteq> NodeId_BR" "NodeId_MA \<noteq> NodeId_BR"
  "NodeId_OP \<noteq> NodeId_BR" "NodeId_TR \<noteq> NodeId_BR"
  "NodeId_IN \<noteq> NodeId_FP" "NodeId_IO \<noteq> NodeId_FP" "NodeId_MA \<noteq> NodeId_FP" "NodeId_OP \<noteq> NodeId_FP" "NodeId_TR \<noteq> NodeId_FP"
  "NodeId_IO \<noteq> NodeId_IN" "NodeId_MA \<noteq> NodeId_IN" "NodeId_OP \<noteq> NodeId_IN" "NodeId_TR \<noteq> NodeId_IN"
  "NodeId_MA \<noteq> NodeId_IO" "NodeId_OP \<noteq> NodeId_IO" "NodeId_TR \<noteq> NodeId_IO"
  "NodeId_OP \<noteq> NodeId_MA" "NodeId_TR \<noteq> NodeId_MA" "NodeId_TR \<noteq> NodeId_OP"
  by (simp_all add: NodeId_defs)

lemma ParseNode_framed:
  assumes "bc_Buffer c = pre @ framed i body @ rest" "length body < 2 ^ 32"
  shows "ParseNode (length pre) (length (bc_Buffer c) - length pre) c =
    rbind (parse_node_body i (length pre + 8) c) (\<lambda>c'. Inr (8 + length body, c'))"
proof -
  have "unat (of_nat (length body) :: uint32) = length body" using assms(2) by (simp add: unat_of_nat)
  moreover have "read_NodeHeader (bc_Buffer c) (length pre) =
      Inr \<lparr> nh_nodeId = i, nh_reserved = 0, nh_nodeSize = of_nat (length body) \<rparr>"
    using header.rd_enc [of pre _ "body @ rest"] by (simp add: assms(1) framed_def)
  ultimately show ?thesis by (simp add: ParseNode_def assms(1) Let_def)
qed

text \<open>A node's body can be read behind its header.\<close>

lemma framed_reads:
  fixes pre rest :: bytes
  defines "at \<equiv> \<lambda>nd. pre @ framed (node_id nd) (node_body nd) @ rest"
  shows "read_NodeIo (at (IoNode x)) (length pre + 8) = Inr x"
    and "read_OpEvent (at (OpNode oe)) (length pre + 8) = Inr oe"
    and "read_TrapEvent (at (TrapNode te)) (length pre + 8) = Inr te"
    and "read_MemoryEvent (at (MemoryNode me)) (length pre + 8) = Inr me"
    and "i < length rs \<Longrightarrow> load32 (at (IntReg32Node rs)) (length pre + 8 + 4 * i) = Inr (rs ! i)"
    and "j < length qs \<Longrightarrow> load64 (at (IntReg64Node qs)) (length pre + 8 + 8 * j) = Inr (qs ! j)"
    and "j < length qs \<Longrightarrow> load64 (at (FpRegNode qs)) (length pre + 8 + 8 * j) = Inr (qs ! j)"
proof -
  let ?h = "\<lambda>nd. NodeHeader_bytes \<lparr> nh_nodeId = node_id nd, nh_reserved = 0, nh_nodeSize = of_nat (length (node_body nd)) \<rparr>"
  have at: "at nd = (pre @ ?h nd) @ node_body nd @ rest" for nd by (simp add: at_def framed_def)
  have l: "length pre + 8 = length (pre @ ?h nd)" for nd by (simp add: header.enc_length)
  show "read_NodeIo (at (IoNode x)) (length pre + 8) = Inr x"
    unfolding at l [of "IoNode x"] by (simp only: node_body_def TraceNode.case io.rd_enc)
  show "read_OpEvent (at (OpNode oe)) (length pre + 8) = Inr oe"
    unfolding at l [of "OpNode oe"] by (simp only: node_body_def TraceNode.case op_event.rd_enc)
  show "read_TrapEvent (at (TrapNode te)) (length pre + 8) = Inr te"
    unfolding at l [of "TrapNode te"] by (simp only: node_body_def TraceNode.case trap_event.rd_enc)
  show "read_MemoryEvent (at (MemoryNode me)) (length pre + 8) = Inr me"
    unfolding at l [of "MemoryNode me"] by (simp only: node_body_def TraceNode.case memory_event.rd_enc)
  show "i < length rs \<Longrightarrow> load32 (at (IntReg32Node rs)) (length pre + 8 + 4 * i) = Inr (rs ! i)"
    unfolding at l [of "IntReg32Node rs"] by (simp only: node_body_def TraceNode.case load32_NodeIntReg32)
  show "j < length qs \<Longrightarrow> load64 (at (IntReg64Node qs)) (length pre + 8 + 8 * j) = Inr (qs ! j)"
    unfolding at l [of "IntReg64Node qs"] by (simp only: node_body_def TraceNode.case load64_NodeReg64)
  show "j < length qs \<Longrightarrow> load64 (at (FpRegNode qs)) (length pre + 8 + 8 * j) = Inr (qs ! j)"
    unfolding at l [of "FpRegNode qs"] by (simp only: node_body_def TraceNode.case load64_NodeReg64)
qed

definition add_pointer :: "TraceNode \<Rightarrow> nat \<Rightarrow> BinaryCycle \<Rightarrow> BinaryCycle" where
  "add_pointer nd p c = (case nd of
      IntReg32Node _ \<Rightarrow> c\<lparr> bc_pNodeIntReg32 := Some p \<rparr>
    | IntReg64Node _ \<Rightarrow> c\<lparr> bc_pNodeIntReg64 := Some p \<rparr>
    | FpRegNode _ \<Rightarrow> c\<lparr> bc_pNodeFpReg := Some p \<rparr>
    | IoNode _ \<Rightarrow> c\<lparr> bc_pNodeIo := Some p \<rparr>
    | OpNode _ \<Rightarrow> c\<lparr> bc_OpEvents := bc_OpEvents c @ [p] \<rparr>
    | TrapNode _ \<Rightarrow> c\<lparr> bc_TrapEvents := bc_TrapEvents c @ [p] \<rparr>
    | MemoryNode _ \<Rightarrow> c\<lparr> bc_MemoryEvents := bc_MemoryEvents c @ [p] \<rparr>)"

lemma add_pointer_frame [simp]:
  "bc_Buffer (add_pointer nd p c) = bc_Buffer c" "bc_Size (add_pointer nd p c) = bc_Size c"
  "bc_Break (add_pointer nd p c) = bc_Break c"
  by (simp_all add: add_pointer_def split: TraceNode.split)

lemma parse_node_body_pointer:
  assumes "parsed cycle xlen pc nds c" "node_ok xlen nd"
  shows "parse_node_body (node_id nd) p c = Inr (add_pointer nd p c)"
proof -
  have "bc_pNodeBasic c = Some 8" "load32 (bc_Buffer c) (8 + 4) = Inr xlen"
    using assms(1) by (simp_all add: parsed_def)
  then show ?thesis using assms(2)
    by (cases nd) (simp_all add: node_id_def parse_node_body_def node_id_distinct add_pointer_def node_ok_def)
qed

lemma parsed_snoc:
  assumes "parsed cycle xlen pc nds c" "node_ok xlen nd"
    and b: "bc_Buffer c = pre @ framed (node_id nd) (node_body nd) @ rest"
  shows "parsed cycle xlen pc (nds @ [nd]) (add_pointer nd (length pre + 8) c)"
proof -
  note p = assms(1) [unfolded parsed_def]
  show ?thesis
  proof (cases nd)
    case (IntReg32Node rs)
    have "\<forall>i < 32. load32 (bc_Buffer c) (length pre + 8 + 4 * i) = Inr (rs ! i)"
      using framed_reads(5) [of _ rs pre rest] assms(2) b by (simp add: IntReg32Node node_ok_def)
    then show ?thesis using p assms(2)
      by (simp add: IntReg32Node parsed_def add_pointer_def last_snoc events_append node_ok_def points_to_def)
  next
    case (IntReg64Node rs)
    have "\<forall>i < 32. load64 (bc_Buffer c) (length pre + 8 + 8 * i) = Inr (rs ! i)"
      using framed_reads(6) [of _ rs pre rest] assms(2) b by (simp add: IntReg64Node node_ok_def)
    then show ?thesis using p assms(2)
      by (simp add: IntReg64Node parsed_def add_pointer_def last_snoc events_append node_ok_def points_to_def)
  next
    case (FpRegNode rs)
    have "\<forall>i < 32. load64 (bc_Buffer c) (length pre + 8 + 8 * i) = Inr (rs ! i)"
      using framed_reads(7) [of _ rs pre rest] assms(2) b by (simp add: FpRegNode node_ok_def)
    then show ?thesis using p
      by (cases "xlen = 1") (simp_all add: FpRegNode parsed_def add_pointer_def last_snoc events_append points_to_def)
  next
    case (IoNode x)
    have "read_NodeIo (bc_Buffer c) (length pre + 8) = Inr x"
      using framed_reads(1) [of pre x rest] b by (simp add: IoNode)
    then show ?thesis using p
      by (cases "xlen = 1") (simp_all add: IoNode parsed_def add_pointer_def last_snoc events_append points_to_def)
  next
    case (OpNode e)
    have "read_OpEvent (bc_Buffer c) (length pre + 8) = Inr e"
      using framed_reads(2) [of pre e rest] b by (simp add: OpNode)
    then show ?thesis using p
      by (cases "xlen = 1") (simp_all add: OpNode parsed_def add_pointer_def last_snoc events_append list_all2_appendI)
  next
    case (TrapNode e)
    have "read_TrapEvent (bc_Buffer c) (length pre + 8) = Inr e"
      using framed_reads(3) [of pre e rest] b by (simp add: TrapNode)
    then show ?thesis using p
      by (cases "xlen = 1") (simp_all add: TrapNode parsed_def add_pointer_def last_snoc events_append list_all2_appendI)
  next
    case (MemoryNode e)
    have "read_MemoryEvent (bc_Buffer c) (length pre + 8) = Inr e"
      using framed_reads(4) [of pre e rest] b by (simp add: MemoryNode)
    then show ?thesis using p
      by (cases "xlen = 1") (simp_all add: MemoryNode parsed_def add_pointer_def last_snoc events_append list_all2_appendI)
  qed
qed

lemma parsed_frame [simp]:
  "parsed cycle xlen pc nds (c\<lparr> bc_Size := n \<rparr>) = parsed cycle xlen pc nds c"
  "parsed cycle xlen pc nds (c\<lparr> bc_Break := b \<rparr>) = parsed cycle xlen pc nds c"
  by (simp_all add: parsed_def)

lemma node_body_size: "node_ok xlen nd \<Longrightarrow> length (node_body nd) < 2 ^ 32"
  by (cases nd) (simp_all add: node_ok_def node_body_def io.enc_length op_event.enc_length
      trap_event.enc_length memory_event.enc_length)

lemma Parse_loop_nodes:
  assumes "list_all (node_ok xlen) nds'" "parsed cycle xlen pc nds c" "\<not> bc_Break c"
    and "bc_Buffer c = pre @ nodes_bytes nds' @ framed NodeId_BR [] @ rest" "bc_Size c = length pre"
  shows "\<exists>c'. Parse_loop c = Inr c' \<and> bc_Size c' = length (pre @ nodes_bytes nds' @ framed NodeId_BR []) \<and>
    parsed cycle xlen pc (nds @ nds') c'"
  using assms
proof (induction nds' arbitrary: nds c pre)
  case Nil
  have "ParseNode (bc_Size c) (length (bc_Buffer c) - bc_Size c) c = Inr (8, c\<lparr> bc_Break := True \<rparr>)"
    using ParseNode_framed [of c pre NodeId_BR "[]" rest] Nil.prems(4,5)
    by (simp add: parse_node_body_def node_id_distinct)
  then have "Parse_loop c = Inr (c\<lparr> bc_Break := True, bc_Size := bc_Size c + 8 \<rparr>)"
    using Nil.prems(3) by (simp add: Parse_loop.simps [of c] Parse_loop.simps [of "c\<lparr> bc_Break := True, bc_Size := _ \<rparr>"])
  then show ?case using Nil.prems(2,5) by simp
next
  case (Cons nd nds')
  let ?f = "framed (node_id nd) (node_body nd)" and ?n = "8 + length (node_body nd)"
  define c1 where "c1 = (add_pointer nd (length pre + 8) c)\<lparr> bc_Size := length pre + ?n \<rparr>"
  have ok: "node_ok xlen nd" "list_all (node_ok xlen) nds'" using Cons.prems(1) by simp_all
  have b: "bc_Buffer c = pre @ ?f @ nodes_bytes nds' @ framed NodeId_BR [] @ rest" using Cons.prems(4) by simp
  have "ParseNode (bc_Size c) (length (bc_Buffer c) - bc_Size c) c = Inr (?n, add_pointer nd (length pre + 8) c)"
    using ParseNode_framed [OF b node_body_size [OF ok(1)]] parse_node_body_pointer [OF Cons.prems(2) ok(1)] Cons.prems(5)
    by simp
  then have loop: "Parse_loop c = Parse_loop c1"
    using Cons.prems(3,5) by (simp add: Parse_loop.simps [of c] c1_def)
  have "\<exists>c'. Parse_loop c1 = Inr c' \<and> bc_Size c' = length ((pre @ ?f) @ nodes_bytes nds' @ framed NodeId_BR []) \<and>
      parsed cycle xlen pc ((nds @ [nd]) @ nds') c'"
    by (rule Cons.IH [OF ok(2)]) (use parsed_snoc [OF Cons.prems(2) ok(1) b] Cons.prems(3) b in \<open>simp_all add: c1_def\<close>)
  then show ?case by (simp add: loop)
qed

lemma parse_cycle_bytes:
  assumes "list_all (node_ok xlen) nds"
  shows "\<exists>c. BinaryCycle_Parse (cycle_bytes cycle xlen pc nds @ rest) = Inr c \<and>
    bc_Size c = length (cycle_bytes cycle xlen pc nds) \<and> BinaryCycle_ICycle c = spec_cycle cycle xlen pc nds"
proof -
  let ?body = "NodeBasic_bytes \<lparr> nb_cycle = cycle, nb_xlen = xlen, nb_pc = pc \<rparr>"
  let ?ba = "framed NodeId_BA ?body" and ?buf = "cycle_bytes cycle xlen pc nds @ rest"
  define c1 where "c1 = (BinaryCycle_new ?buf)\<lparr> bc_pNodeBasic := Some 8, bc_Size := 24 \<rparr>"
  have l: "length ?body = 16" by (simp add: layout_defs)
  have "ParseNode 0 (length ?buf) (BinaryCycle_new ?buf) = Inr (24, (BinaryCycle_new ?buf)\<lparr> bc_pNodeBasic := Some 8 \<rparr>)"
    using ParseNode_framed [of "BinaryCycle_new ?buf" "[]" NodeId_BA ?body] l
    by (simp add: BinaryCycle_new_def cycle_bytes_def parse_node_body_def)
  then have loop: "BinaryCycle_Parse ?buf = Parse_loop c1"
    unfolding BinaryCycle_Parse_def by (subst Parse_loop.simps) (simp add: BinaryCycle_new_def c1_def)
  obtain head where "?ba = head @ ?body" "length head = 8"
    by (simp add: framed_def header.enc_length)
  then have buf: "?buf = head @ ?body @ nodes_bytes nds @ framed NodeId_BR [] @ rest" "length head = 8"
    by (simp_all add: cycle_bytes_def)
  have "load32 ?buf 8 = Inr cycle" "load32 ?buf 12 = Inr xlen" "load64 ?buf 16 = Inr pc"
    using load_at_pre [where pre = head] buf(2)
    by (simp_all add: buf(1) load32_def load64_def load_at_append [where pre = head] layout_defs load_at_member)
  then have p: "parsed cycle xlen pc [] c1"
    by (simp add: parsed_def c1_def BinaryCycle_new_def points_to_def)
  have "\<exists>c'. Parse_loop c1 = Inr c' \<and> bc_Size c' = length (?ba @ nodes_bytes nds @ framed NodeId_BR []) \<and>
      parsed cycle xlen pc ([] @ nds) c'"
    by (rule Parse_loop_nodes [OF assms p]) (simp_all add: c1_def BinaryCycle_new_def cycle_bytes_def l)
  then obtain c' where c': "Parse_loop c1 = Inr c'" "bc_Size c' = length (?ba @ nodes_bytes nds @ framed NodeId_BR [])"
    "parsed cycle xlen pc nds c'" by auto
  have "bc_Size c' = length (cycle_bytes cycle xlen pc nds)" using c'(2) by (simp add: cycle_bytes_def)
  then show ?thesis using c'(1) parsed_cycle [OF c'(3)] by (simp add: loop)
qed

section \<open>Any input\<close>

text \<open>
  The parser on a buffer nobody has checked: it never reads beyond the buffer, as the width of the
  integer registers is read from a basic node that a header follows.
\<close>

definition parse_inv :: "BinaryCycle \<Rightarrow> bool" where
  "parse_inv c \<longleftrightarrow> bc_Size c \<le> length (bc_Buffer c) \<and> (\<forall>b. bc_pNodeBasic c = Some b \<longrightarrow> b \<le> bc_Size c) \<and>
     (bc_Break c \<longrightarrow> 8 \<le> bc_Size c)"

lemma parse_node_body_error:
  assumes "parse_node_body i p c = Inl e" "\<And>b. bc_pNodeBasic c = Some b \<Longrightarrow> b + 8 \<le> length (bc_Buffer c)"
  shows "e = TraceException \<or> e = ProcessExit"
proof (cases "bc_pNodeBasic c")
  case None
  then show ?thesis using assms(1) by (simp add: parse_node_body_def split: if_splits)
next
  case (Some b)
  then have "load32 (bc_Buffer c) (b + 4) = Inr (of_bytes (take 4 (drop (b + 4) (bc_Buffer c))))"
    using assms(2) by (simp add: load32_def load_at_def)
  then show ?thesis using assms(1) Some by (simp add: parse_node_body_def split: if_splits)
qed

lemma parse_node_body_basic:
  assumes "parse_node_body i p c = Inr c'"
  shows "bc_pNodeBasic c' = bc_pNodeBasic c \<or> bc_pNodeBasic c' = Some p"
  using assms by (auto simp: parse_node_body_def rbind_Inr_iff split: if_splits option.splits)

lemma parse_node_body_inv:
  assumes "parse_inv c" "bc_Size c + 8 \<le> length (bc_Buffer c)"
  shows "(case parse_node_body i (bc_Size c + 8) c of
      Inl e \<Rightarrow> e = TraceException \<or> e = ProcessExit
    | Inr c' \<Rightarrow> (\<forall>b. bc_pNodeBasic c' = Some b \<longrightarrow> b \<le> bc_Size c + 8))"
proof (cases "parse_node_body i (bc_Size c + 8) c")
  case (Inl e)
  have "b + 8 \<le> length (bc_Buffer c)" if "bc_pNodeBasic c = Some b" for b
    using assms that by (force simp: parse_inv_def)
  from parse_node_body_error [OF Inl this] show ?thesis by (simp add: Inl)
next
  case (Inr c')
  then show ?thesis using parse_node_body_basic [OF Inr] assms by (auto simp: parse_inv_def)
qed

lemma ParseNode_inv:
  assumes "parse_inv c" "\<not> bc_Break c"
  shows "(case ParseNode (bc_Size c) (length (bc_Buffer c) - bc_Size c) c of
      Inl e \<Rightarrow> e = TraceException \<or> e = ProcessExit
    | Inr (n, c') \<Rightarrow> parse_inv (c'\<lparr> bc_Size := bc_Size c' + n \<rparr>))"
proof (cases "bc_Size c + 8 \<le> length (bc_Buffer c)")
  case True
  then obtain h where h: "read_NodeHeader (bc_Buffer c) (bc_Size c) = Inr h"
    using header.rd_bound by blast
  let ?n = "8 + unat (nh_nodeSize h)"
  have eq: "ParseNode (bc_Size c) (length (bc_Buffer c) - bc_Size c) c =
      (if length (bc_Buffer c) - bc_Size c < ?n then Inl TraceException
       else rbind (parse_node_body (nh_nodeId h) (bc_Size c + 8) c) (\<lambda>c'. Inr (?n, c')))"
    using True h by (simp add: ParseNode_def Let_def)
  note body = parse_node_body_inv [OF assms(1) True, of "nh_nodeId h"]
  show ?thesis
  proof (cases "length (bc_Buffer c) - bc_Size c < ?n")
    case False
    show ?thesis
    proof (cases "parse_node_body (nh_nodeId h) (bc_Size c + 8) c")
      case (Inl e)
      then show ?thesis using body False by (simp add: eq)
    next
      case (Inr c')
      have "bc_pNodeBasic c' = Some b \<Longrightarrow> b \<le> bc_Size c + ?n" for b using body Inr by fastforce
      moreover have "bc_Size c + ?n \<le> length (bc_Buffer c)" using False True by simp
      ultimately show ?thesis using Inr False parse_node_body_frame [OF Inr] by (simp add: eq parse_inv_def)
    qed
  qed (simp add: eq)
next
  case False
  then have "length (bc_Buffer c) - bc_Size c < 8" by simp
  then show ?thesis by (simp add: ParseNode_def)
qed

lemma Parse_loop_inv:
  "parse_inv c \<Longrightarrow> (case Parse_loop c of
      Inl e \<Rightarrow> e = TraceException \<or> e = ProcessExit
    | Inr c' \<Rightarrow> bc_Buffer c' = bc_Buffer c \<and> parse_inv c' \<and> bc_Break c')"
proof (induction c rule: Parse_loop.induct)
  case (1 c)
  show ?case
  proof (cases "bc_Break c")
    case False
    show ?thesis
    proof (cases "ParseNode (bc_Size c) (length (bc_Buffer c) - bc_Size c) c")
      case (Inl e)
      then show ?thesis using ParseNode_inv [OF "1.prems" False] False by (simp add: Parse_loop.simps [of c])
    next
      case (Inr nc)
      obtain n c' where nc: "nc = (n, c')" by fastforce
      let ?c = "c'\<lparr> bc_Size := bc_Size c' + n \<rparr>"
      have "Parse_loop c = Parse_loop ?c" using False Inr nc by (simp add: Parse_loop.simps [of c])
      moreover have "parse_inv ?c" using ParseNode_inv [OF "1.prems" False] Inr nc by simp
      moreover have "bc_Buffer ?c = bc_Buffer c" using ParseNode_progress(3) Inr nc by simp
      ultimately show ?thesis using "1.IH" [OF False Inr nc [symmetric]]
        by (simp split: sum.splits)
    qed
  qed (use "1.prems" in \<open>simp add: Parse_loop.simps [of c]\<close>)
qed

lemma parse_cases:
  "(case BinaryCycle_Parse buf of
      Inl e \<Rightarrow> e = TraceException \<or> e = ProcessExit
    | Inr c \<Rightarrow> bc_Buffer c = buf \<and> 8 \<le> bc_Size c \<and> bc_Size c \<le> length buf)"
proof -
  have "parse_inv (BinaryCycle_new buf)" by (simp add: parse_inv_def BinaryCycle_new_def)
  from Parse_loop_inv [OF this] show ?thesis
    by (auto simp: BinaryCycle_Parse_def parse_inv_def BinaryCycle_new_def split: sum.splits)
qed

text \<open>
  C38. The parser of a binary cycle on any buffer: it ends, and either throws a TraceException, or
  exits the process, or returns a cycle that takes at least one header and no more than the buffer. No read leaves the buffer.
\<close>

theorem parse_stays_in_buffer:
  "(case BinaryCycle_Parse buf of
      Inl e \<Rightarrow> e = TraceException \<or> e = ProcessExit
    | Inr c \<Rightarrow> bc_Buffer c = buf \<and> 8 \<le> bc_Size c \<and> bc_Size c \<le> length buf)"
  by (rule parse_cases)

section \<open>Files of cycles\<close>

record CycleSpec =
  cs_cycle :: uint32
  cs_xlen :: uint32
  cs_pc :: uint64
  cs_nodes :: "TraceNode list"

definition cycle_ok :: "CycleSpec \<Rightarrow> bool" where
  "cycle_ok x \<longleftrightarrow> list_all (node_ok (cs_xlen x)) (cs_nodes x)"

definition cycle_data :: "CycleSpec \<Rightarrow> bytes" where
  "cycle_data x = cycle_bytes (cs_cycle x) (cs_xlen x) (cs_pc x) (cs_nodes x)"

definition cycle_view :: "CycleSpec \<Rightarrow> ICycle" where
  "cycle_view x = spec_cycle (cs_cycle x) (cs_xlen x) (cs_pc x) (cs_nodes x)"

lemma cycle_data_size: "8 \<le> length (cycle_data x)"
  by (simp add: cycle_data_def cycle_bytes_def)

lemma parse_cycle_data:
  assumes "cycle_ok x"
  obtains c where "BinaryCycle_Parse (cycle_data x @ rest) = Inr c" "bc_Size c = length (cycle_data x)"
    "BinaryCycle_ICycle c = cycle_view x"
  using parse_cycle_bytes [of "cs_xlen x" "cs_nodes x"] assms
  unfolding cycle_ok_def cycle_data_def cycle_view_def by blast

definition cycles_data :: "CycleSpec list \<Rightarrow> bytes" where
  "cycles_data xs = concat (map cycle_data xs)"

lemma cycles_data_simps [simp]:
  "cycles_data [] = []" "cycles_data (x # xs) = cycle_data x @ cycles_data xs"
  "cycles_data (xs @ ys) = cycles_data xs @ cycles_data ys"
  by (simp_all add: cycles_data_def)

lemma cycles_data_Nil_iff [simp]: "cycles_data xs = [] \<longleftrightarrow> xs = []"
  using cycle_data_size [of "hd xs"] by (cases xs) auto

text \<open>A memory reader that has the cycles \<open>xs\<close> before it.\<close>

definition memory_serves :: "TraceBinaryMemoryReader \<Rightarrow> CycleSpec list \<Rightarrow> bool" where
  "memory_serves r xs \<longleftrightarrow> list_all cycle_ok xs \<and>
     (\<exists>pre. mr_pBuffer r = pre @ cycles_data xs \<and> mr_Offset r = length pre) \<and>
     (case xs of
        [] \<Rightarrow> mr_pCycle r = None
      | x # _ \<Rightarrow> \<exists>c. mr_pCycle r = Some c \<and> bc_Size c = length (cycle_data x) \<and> BinaryCycle_ICycle c = cycle_view x)"

lemma memory_serves_new:
  assumes "list_all cycle_ok xs" "xs \<noteq> []"
  shows "\<exists>r. TraceBinaryMemoryReader_new (cycles_data xs) = Inr r \<and> memory_serves r xs"
proof -
  obtain x ys where xs: "xs = x # ys" using assms(2) by (cases xs) auto
  then have "cycle_ok x" using assms(1) by simp
  then obtain c where c: "BinaryCycle_Parse (cycle_data x @ cycles_data ys) = Inr c"
    "bc_Size c = length (cycle_data x)" "BinaryCycle_ICycle c = cycle_view x"
    by (rule parse_cycle_data)
  then show ?thesis using assms(1) cycle_data_size [of x]
    by (simp add: TraceBinaryMemoryReader_new_def CheckBufferSize_def memory_serves_def xs)
qed

lemma memory_serves_end: "memory_serves r xs \<Longrightarrow> MemoryReader_IsEnd r \<longleftrightarrow> xs = []"
  by (auto simp: memory_serves_def MemoryReader_IsEnd_def)

lemma memory_serves_cycle: "memory_serves r (x # xs) \<Longrightarrow> MemoryReader_GetCycle r = Some (cycle_view x)"
  by (auto simp: memory_serves_def MemoryReader_GetCycle_def)

lemma memory_serves_next:
  assumes "memory_serves r (x # xs)"
  shows "\<exists>r'. MemoryReader_Next r = Inr r' \<and> memory_serves r' xs"
proof -
  note s = assms [unfolded memory_serves_def]
  obtain c where c: "mr_pCycle r = Some c" "bc_Size c = length (cycle_data x)" using s by auto
  obtain pre where pre: "mr_pBuffer r = pre @ cycle_data x @ cycles_data xs" "mr_Offset r = length pre"
    using s by auto
  show ?thesis
  proof (cases xs)
    case Nil
    then show ?thesis using c pre
      by (simp add: MemoryReader_Next_def MemoryReader_CheckOffset_def MemoryReader_IsEnd_def memory_serves_def)
  next
    case (Cons y ys)
    then have "cycle_ok y" using s by simp
    then obtain c' where c': "BinaryCycle_Parse (cycle_data y @ cycles_data ys) = Inr c'"
      "bc_Size c' = length (cycle_data y)" "BinaryCycle_ICycle c' = cycle_view y" by (rule parse_cycle_data)
    have ne: "cycle_data y \<noteq> []" using cycle_data_size [of y] by auto
    have "MemoryReader_Next r =
        Inr (r\<lparr> mr_Offset := length (pre @ cycle_data x), mr_pCycle := Some c' \<rparr>)"
      using c c'(1) pre Cons ne
      by (simp add: MemoryReader_Next_def MemoryReader_CheckOffset_def MemoryReader_IsEnd_def Let_def)
    moreover have "memory_serves (r\<lparr> mr_Offset := length (pre @ cycle_data x), mr_pCycle := Some c' \<rparr>) xs"
      using s c' pre Cons by (auto simp: memory_serves_def intro!: exI [of _ "pre @ cycle_data x"])
    ultimately show ?thesis by blast
  qed
qed

end
