(* ===== verification/TraceReader.thy ===== *)
theory TraceReader
  imports TraceBinaryLaws
begin

text \<open>
  \<^verbatim>\<open>include/rafi/trace/ITraceReader.h\<close>: the interface the tools read a trace through, its
  contract, and the two binary readers that keep it.
\<close>

section \<open>The interface\<close>

record 'r ITraceReader =
  tr_GetCycle :: "'r \<Rightarrow> ICycle option result"
  tr_IsEnd :: "'r \<Rightarrow> bool result"
  tr_Next :: "'r \<Rightarrow> 'r result"
  tr_NextN :: "uint32 \<Rightarrow> 'r \<Rightarrow> 'r result"

lemma repeat_next_serves:
  assumes "\<And>r c cs. serves r (c # cs) \<Longrightarrow> \<exists>r'. f r = Inr r' \<and> serves r' cs"
    and "serves r cs" "k \<le> length cs"
  shows "\<exists>r'. repeat_next f k r = Inr r' \<and> serves r' (drop k cs)"
  using assms(2,3)
proof (induction k arbitrary: r cs)
  case (Suc k)
  then obtain c ds where cs: "cs = c # ds" by (cases cs) auto
  then obtain r' where "f r = Inr r'" "serves r' ds" using assms(1) Suc.prems(1) by blast
  then show ?case using Suc.IH [of r' ds] Suc.prems(2) cs by simp
qed auto

text \<open>
  A reader serves a list of cycles: the first is the current one, \<open>Next\<close> goes to the second, and
  with none left it is at its end. \<open>Next(n)\<close> goes \<open>n\<close> cycles on, as long as one is left
  there.
\<close>

locale trace_reader =
  fixes tr :: "'r ITraceReader" and serves :: "'r \<Rightarrow> ICycle list \<Rightarrow> bool"
  assumes at_end: "serves r [] \<Longrightarrow> tr_IsEnd tr r = Inr True"
    and not_end: "serves r (c # cs) \<Longrightarrow> tr_IsEnd tr r = Inr False"
    and current: "serves r (c # cs) \<Longrightarrow> tr_GetCycle tr r = Inr (Some c)"
    and advance: "serves r (c # cs) \<Longrightarrow> \<exists>r'. tr_Next tr r = Inr r' \<and> serves r' cs"
    and skip: "serves r cs \<Longrightarrow> unat n < length cs \<Longrightarrow> \<exists>r'. tr_NextN tr n r = Inr r' \<and> serves r' (drop (unat n) cs)"
begin

lemma end_iff: "serves r cs \<Longrightarrow> tr_IsEnd tr r = Inr (cs = [])"
  using at_end not_end by (cases cs) auto

lemma repeat_advance:
  "serves r cs \<Longrightarrow> k \<le> length cs \<Longrightarrow> \<exists>r'. repeat_next (tr_Next tr) k r = Inr r' \<and> serves r' (drop k cs)"
  by (rule repeat_next_serves [of serves "tr_Next tr", OF advance])

text \<open>Reading on from the front shows every cycle, in order, and then the end.\<close>

lemma reads_in_order:
  assumes "serves r cs" "k \<le> length cs"
  shows "\<exists>r'. repeat_next (tr_Next tr) k r = Inr r' \<and> tr_IsEnd tr r' = Inr (k = length cs) \<and>
    (k < length cs \<longrightarrow> tr_GetCycle tr r' = Inr (Some (cs ! k)))"
proof -
  obtain r' where r': "repeat_next (tr_Next tr) k r = Inr r'" "serves r' (drop k cs)"
    using repeat_advance [OF assms] by blast
  have "tr_GetCycle tr r' = Inr (Some (cs ! k))" if "k < length cs"
    using r'(2) that current [of r' "cs ! k" "drop (Suc k) cs"] by (simp add: Cons_nth_drop_Suc)
  then show ?thesis using r' end_iff [OF r'(2)] assms(2) by auto
qed

end

text \<open>A reader whose \<open>Next(n)\<close> is the loop over \<open>Next\<close> keeps the last law with the others.\<close>

locale looping_reader =
  fixes tr :: "'r ITraceReader" and serves :: "'r \<Rightarrow> ICycle list \<Rightarrow> bool"
  assumes loops: "tr_NextN tr n r = repeat_next (tr_Next tr) (unat n) r"
    and at_end': "serves r [] \<Longrightarrow> tr_IsEnd tr r = Inr True"
    and not_end': "serves r (c # cs) \<Longrightarrow> tr_IsEnd tr r = Inr False"
    and current': "serves r (c # cs) \<Longrightarrow> tr_GetCycle tr r = Inr (Some c)"
    and advance': "serves r (c # cs) \<Longrightarrow> \<exists>r'. tr_Next tr r = Inr r' \<and> serves r' cs"

sublocale looping_reader \<subseteq> trace_reader
proof
  show "serves r cs \<Longrightarrow> unat n < length cs \<Longrightarrow> \<exists>r'. tr_NextN tr n r = Inr r' \<and> serves r' (drop (unat n) cs)" for r cs n
    using repeat_next_serves [of serves "tr_Next tr", OF advance'] loops by simp
qed (use at_end' not_end' current' advance' in auto)

section \<open>The binary readers\<close>

definition MemoryReader_ITraceReader :: "TraceBinaryMemoryReader ITraceReader" where
  "MemoryReader_ITraceReader = \<lparr>
     tr_GetCycle = (\<lambda>r. Inr (MemoryReader_GetCycle r)),
     tr_IsEnd = (\<lambda>r. Inr (MemoryReader_IsEnd r)),
     tr_Next = MemoryReader_Next,
     tr_NextN = MemoryReader_NextN \<rparr>"

definition BinaryReader_ITraceReader :: "TraceBinaryReader ITraceReader" where
  "BinaryReader_ITraceReader = \<lparr>
     tr_GetCycle = BinaryReader_GetCycle,
     tr_IsEnd = BinaryReader_IsEnd,
     tr_Next = BinaryReader_Next,
     tr_NextN = BinaryReader_NextN \<rparr>"

definition memory_views :: "TraceBinaryMemoryReader \<Rightarrow> ICycle list \<Rightarrow> bool" where
  "memory_views r vs \<longleftrightarrow> (\<exists>xs. vs = map cycle_view xs \<and> memory_serves r xs)"

definition binary_views :: "TraceBinaryReader \<Rightarrow> ICycle list \<Rightarrow> bool" where
  "binary_views r vs \<longleftrightarrow> (\<exists>m. r = Some m \<and> memory_views m vs)"

lemma memory_views_Cons:
  assumes "memory_views r (v # vs)"
  shows "\<not> MemoryReader_IsEnd r" "MemoryReader_GetCycle r = Some v"
    "\<exists>r'. MemoryReader_Next r = Inr r' \<and> memory_views r' vs"
  using assms memory_serves_end memory_serves_cycle memory_serves_next
  by (fastforce simp: memory_views_def)+

lemma memory_views_Nil: "memory_views r [] \<Longrightarrow> MemoryReader_IsEnd r"
  using memory_serves_end by (auto simp: memory_views_def)

interpretation memory_reader: looping_reader MemoryReader_ITraceReader memory_views
  using memory_views_Cons memory_views_Nil
  by unfold_locales (simp_all add: MemoryReader_ITraceReader_def MemoryReader_NextN_def)

interpretation binary_reader: looping_reader BinaryReader_ITraceReader binary_views
proof
  show "\<exists>r'. tr_Next BinaryReader_ITraceReader r = Inr r' \<and> binary_views r' cs" if "binary_views r (c # cs)" for r c cs
    using that memory_views_Cons(3) [of _ c cs]
    by (fastforce simp: binary_views_def BinaryReader_ITraceReader_def BinaryReader_Next_def)
qed (use memory_views_Cons memory_views_Nil in \<open>auto simp: binary_views_def BinaryReader_ITraceReader_def
      BinaryReader_NextN_def BinaryReader_IsEnd_def BinaryReader_GetCycle_def\<close>)

text \<open>A cycle takes at least one header, so every \<open>Next\<close> moves on by 8 bytes or more.\<close>

definition ends_after :: "nat \<Rightarrow> TraceBinaryMemoryReader \<Rightarrow> bool" where
  "ends_after k r \<longleftrightarrow> (case repeat_next MemoryReader_Next k r of
      Inl e \<Rightarrow> e = TraceException \<or> e = ProcessExit
    | Inr r' \<Rightarrow> MemoryReader_IsEnd r')"

lemma reading_progress:
  assumes "mr_pCycle r = Some c" "8 \<le> bc_Size c" "mr_Offset r + bc_Size c \<le> length (mr_pBuffer r)"
  shows "\<exists>k. 8 * k \<le> length (mr_pBuffer r) - mr_Offset r \<and> ends_after k r"
  using assms
proof (induction "length (mr_pBuffer r) - mr_Offset r" arbitrary: r c rule: less_induct)
  case less
  let ?off = "mr_Offset r + bc_Size c" and ?n = "length (mr_pBuffer r) - mr_Offset r"
  have one: "\<exists>k. 8 * k \<le> ?n \<and> ends_after k r" if "ends_after 1 r"
    using that less.prems(2,3) by (intro exI [of _ 1]) simp
  show ?case
  proof (cases "?off = length (mr_pBuffer r)")
    case True
    then have "ends_after 1 r" using less.prems(1)
      by (simp add: ends_after_def MemoryReader_Next_def MemoryReader_CheckOffset_def MemoryReader_IsEnd_def Let_def)
    then show ?thesis by (rule one)
  next
    case False
    let ?rest = "drop ?off (mr_pBuffer r)"
    have step: "MemoryReader_Next r = rbind (BinaryCycle_Parse ?rest) (\<lambda>c'.
        Inr (r\<lparr> mr_Offset := ?off, mr_pCycle := Some c' \<rparr>))"
      using less.prems(1,3) False
      by (simp add: MemoryReader_Next_def MemoryReader_CheckOffset_def MemoryReader_IsEnd_def Let_def)
    show ?thesis
    proof (cases "BinaryCycle_Parse ?rest")
      case (Inl e)
      then have "ends_after 1 r" using parse_cases [of ?rest] by (simp add: ends_after_def step)
      then show ?thesis by (rule one)
    next
      case (Inr c')
      let ?r = "r\<lparr> mr_Offset := ?off, mr_pCycle := Some c' \<rparr>"
      have "8 \<le> bc_Size c'" "bc_Size c' \<le> length (mr_pBuffer r) - ?off"
        using parse_cases [of ?rest] Inr by simp_all
      then have "8 \<le> bc_Size c'" "?off + bc_Size c' \<le> length (mr_pBuffer r)"
        using less.prems(3) by arith+
      moreover have shrinks: "8 + (length (mr_pBuffer r) - ?off) \<le> ?n" and lt: "length (mr_pBuffer r) - ?off < ?n"
        using less.prems(2,3) by arith+
      ultimately obtain k where k: "8 * k \<le> length (mr_pBuffer r) - ?off" "ends_after k ?r"
        using less.hyps [of ?r c'] lt by auto
      have "8 * Suc k \<le> ?n" using k(1) shrinks by arith
      moreover have "ends_after (Suc k) r" using k(2) Inr by (simp add: ends_after_def step)
      ultimately show ?thesis by blast
    qed
  qed
qed

section \<open>Properties\<close>

text \<open>
  A trace file of cycles that were built by the builder is read back in order: after k calls of
  Next the current cycle answers every query as the k-th cycle was built (its number, width, program
  counter, its last register and host-io nodes, its events in the order they were added, and each
  failing access), and the reader is at its end exactly behind the last cycle.
\<close>

theorem binary_trace_roundtrip:
  assumes "list_all cycle_ok xs" "xs \<noteq> []" "fs_files fs path = Some (cycles_data xs)" "k \<le> length xs"
  shows "\<exists>r r'. TraceBinaryReader_new fs path = Inr r \<and> repeat_next BinaryReader_Next k r = Inr r' \<and>
    BinaryReader_IsEnd r' = Inr (k = length xs) \<and>
    (k < length xs \<longrightarrow> BinaryReader_GetCycle r' = Inr (Some (cycle_view (xs ! k))))"
proof -
  obtain m where m: "TraceBinaryMemoryReader_new (cycles_data xs) = Inr m" "memory_serves m xs"
    using memory_serves_new [OF assms(1,2)] by blast
  have v: "binary_views (Some m) (map cycle_view xs)"
    using m(2) by (auto simp: binary_views_def memory_views_def)
  have "TraceBinaryReader_new fs path = Inr (Some m)"
    using assms(2,3) m(1) by (simp add: TraceBinaryReader_new_def)
  then show ?thesis using binary_reader.reads_in_order [OF v, of k] assms(4)
    by (simp add: BinaryReader_ITraceReader_def)
qed

text \<open>
  C37. Reading any file ends: however the bytes are, calling Next on a reader that was opened brings
  it to the end of the buffer after at most one call for each 8 bytes, unless a call fails with a
  TraceException or by the exit on an unknown width. No call is undefined on the way.
\<close>

theorem reading_ends:
  assumes "TraceBinaryMemoryReader_new buf = Inr r"
  shows "\<exists>k \<le> length buf div 8. (case repeat_next MemoryReader_Next k r of
      Inl e \<Rightarrow> e = TraceException \<or> e = ProcessExit
    | Inr r' \<Rightarrow> MemoryReader_IsEnd r')"
proof -
  obtain c where c: "BinaryCycle_Parse buf = Inr c" "r = \<lparr> mr_pBuffer = buf, mr_Offset = 0, mr_pCycle = Some c \<rparr>"
    using assms by (auto simp: TraceBinaryMemoryReader_new_def rbind_Inr_iff)
  have "\<exists>k. 8 * k \<le> length (mr_pBuffer r) - mr_Offset r \<and> ends_after k r"
    by (rule reading_progress [of r c]) (use c parse_cases [of buf] in simp_all)
  then obtain k where "8 * k \<le> length buf" "ends_after k r" using c by auto
  then show ?thesis unfolding ends_after_def by (intro exI [of _ k]) simp
qed

definition sample_cycle :: CycleSpec where
  "sample_cycle = \<lparr> cs_cycle = 7, cs_xlen = 2, cs_pc = 0x80000000,
     cs_nodes = [OpNode \<lparr> oe_insn = 0x13, oe_priv = 3 \<rparr>] \<rparr>"

lemma sample_cycle_ok: "list_all cycle_ok [sample_cycle, sample_cycle]"
  by (simp add: sample_cycle_def cycle_ok_def node_ok_def)

lemma sample_cycle_size: "length (cycles_data [sample_cycle, sample_cycle]) = 96"
  by (simp add: sample_cycle_def cycle_data_def cycle_bytes_def layout_defs node_body_def)

lemma binary_trace_roundtrip_witness:
  "\<exists>r r' c. TraceBinaryReader_new \<lparr> fs_files = [''a.tbin'' \<mapsto> cycles_data [sample_cycle, sample_cycle]], fs_writable = {} \<rparr>
       ''a.tbin'' = Inr r \<and> repeat_next BinaryReader_Next 1 r = Inr r' \<and> BinaryReader_IsEnd r' = Inr False \<and>
     BinaryReader_GetCycle r' = Inr (Some c) \<and> GetCycle c = Inr 7 \<and> GetPc c = Inr 0x80000000 \<and>
     GetOpEventCount c = 1 \<and> CopyOpEvent c 0 = Inr \<lparr> oe_insn = 0x13, oe_priv = 3 \<rparr> \<and>
     CopyOpEvent c 1 = Inl Undefined \<and> GetIntReg c 5 = Inl ProcessExit"
proof -
  let ?fs = "\<lparr> fs_files = [''a.tbin'' \<mapsto> cycles_data [sample_cycle, sample_cycle]], fs_writable = {} \<rparr>"
  have f: "fs_files ?fs ''a.tbin'' = Some (cycles_data [sample_cycle, sample_cycle])" by simp
  obtain r r' where "TraceBinaryReader_new ?fs ''a.tbin'' = Inr r" "repeat_next BinaryReader_Next 1 r = Inr r'"
    "BinaryReader_IsEnd r' = Inr False" "BinaryReader_GetCycle r' = Inr (Some (cycle_view sample_cycle))"
    using binary_trace_roundtrip [OF sample_cycle_ok _ f, of 1] by auto
  then show ?thesis
    by (intro exI [of _ r] exI [of _ r'] exI [of _ "cycle_view sample_cycle"])
      (simp add: cycle_view_def sample_cycle_def spec_cycle_def item_of_def reg_of_def)
qed

lemma reading_ends_witness:
  "\<exists>r. TraceBinaryMemoryReader_new (cycles_data [sample_cycle, sample_cycle]) = Inr r \<and>
    (\<exists>k \<le> 12. (case repeat_next MemoryReader_Next k r of
      Inl e \<Rightarrow> e = TraceException \<or> e = ProcessExit
    | Inr r' \<Rightarrow> MemoryReader_IsEnd r'))"
proof -
  obtain r where "TraceBinaryMemoryReader_new (cycles_data [sample_cycle, sample_cycle]) = Inr r"
    using memory_serves_new [OF sample_cycle_ok] by auto
  from reading_ends [OF this] this show ?thesis unfolding sample_cycle_size by auto
qed

end
