(* ===== verification/TextStream.thy ===== *)
theory TextStream
  imports Format
begin

text \<open>
  The part of \<^verbatim>\<open>std::istream\<close> the text readers use: the extraction of a word and of an unsigned
  number. A stream is the text that is left with its two state bits and its number base, which
  \<^verbatim>\<open>std::hex\<close> changes for good. A failed extraction at the end of the text leaves the variable
  as it was; a field that is no number sets it to zero, one that is too large to the maximum.
\<close>

abbreviation newline :: string where
  "newline \<equiv> [CHR 0x0A]"

record istream =
  is_text :: string
  is_eof :: bool
  is_fail :: bool
  is_hex :: bool

definition istream_new :: "string \<Rightarrow> istream" where
  "istream_new s = \<lparr> is_text = s, is_eof = False, is_fail = False, is_hex = False \<rparr>"

definition is_space :: "char \<Rightarrow> bool" where
  "is_space c \<longleftrightarrow> c \<in> {CHR '' '', CHR 0x09, CHR 0x0A, CHR 0x0B, CHR 0x0C, CHR 0x0D}"

text \<open>The sentry: skips blanks; \<open>None\<close> when nothing can be extracted.\<close>

definition skip_blanks :: "istream \<Rightarrow> istream \<times> bool" where
  "skip_blanks f =
     (if is_eof f \<or> is_fail f then (f\<lparr> is_fail := True \<rparr>, False)
      else let rest = dropWhile is_space (is_text f) in
        if rest = [] then (f\<lparr> is_text := [], is_eof := True, is_fail := True \<rparr>, False)
        else (f\<lparr> is_text := rest \<rparr>, True))"

definition read_word :: "istream \<Rightarrow> string option \<times> istream" where
  "read_word f = (case skip_blanks f of (f, ok) \<Rightarrow>
     if \<not> ok then (None, f)
     else let rest = dropWhile (\<lambda>c. \<not> is_space c) (is_text f) in
       (Some (takeWhile (\<lambda>c. \<not> is_space c) (is_text f)), f\<lparr> is_text := rest, is_eof := rest = [] \<rparr>))"

definition digit_value :: "nat \<Rightarrow> char \<Rightarrow> nat option" where
  "digit_value base c = (let n = of_char c in
     if 48 \<le> n \<and> n \<le> 57 then Some (n - 48)
     else if base = 16 \<and> 97 \<le> n \<and> n \<le> 102 then Some (n - 87)
     else if base = 16 \<and> 65 \<le> n \<and> n \<le> 70 then Some (n - 55)
     else None)"

fun read_digits :: "nat \<Rightarrow> string \<Rightarrow> nat \<Rightarrow> nat \<times> string" where
  "read_digits base [] acc = (acc, [])"
| "read_digits base (c # cs) acc = (case digit_value base c of
      None \<Rightarrow> (acc, c # cs)
    | Some d \<Rightarrow> read_digits base cs (base * acc + d))"

definition read_sign :: "string \<Rightarrow> bool \<times> string" where
  "read_sign s = (case s of
      c # cs \<Rightarrow> if c = CHR ''-'' then (True, cs) else if c = CHR ''+'' then (False, cs) else (False, s)
    | [] \<Rightarrow> (False, s))"

definition read_prefix :: "nat \<Rightarrow> string \<Rightarrow> string" where
  "read_prefix base s = (case s of
      c # x # cs \<Rightarrow> if base = 16 \<and> c = CHR ''0'' \<and> (x = CHR ''x'' \<or> x = CHR ''X'') then cs else s
    | _ \<Rightarrow> s)"

text \<open>
  \<open>f >> v\<close> for an unsigned \<open>v\<close>: \<open>None\<close> leaves \<open>v\<close> as it was.
\<close>

definition read_number :: "istream \<Rightarrow> ('a::len word) option \<times> istream" where
  "read_number f = (case skip_blanks f of (f, ok) \<Rightarrow>
     if \<not> ok then (None, f)
     else let base = (if is_hex f then 16 else 10); (neg, s1) = read_sign (is_text f); s2 = read_prefix base s1;
            (n, rest) = read_digits base s2 0; f = f\<lparr> is_text := rest, is_eof := rest = [] \<rparr> in
       if rest = s2 then (Some 0, f\<lparr> is_fail := True \<rparr>)
       else if 2 ^ LENGTH('a) \<le> n then (Some (- 1), f\<lparr> is_fail := True \<rparr>)
       else (Some (if neg then - of_nat n else of_nat n), f))"

definition set_hex :: "istream \<Rightarrow> istream" where
  "set_hex f = f\<lparr> is_hex := True \<rparr>"

section \<open>Laws\<close>

text \<open>Every extraction shortens the text; a word that was found does so strictly.\<close>

lemma skip_blanks_text: "length (is_text (fst (skip_blanks f))) \<le> length (is_text f)"
  by (simp add: skip_blanks_def Let_def length_dropWhile_le)

lemma skip_blanks_ok:
  "skip_blanks f = (f', True) \<Longrightarrow> is_text f' \<noteq> [] \<and> \<not> is_space (hd (is_text f')) \<and> length (is_text f') \<le> length (is_text f)"
  using hd_dropWhile [of is_space "is_text f"]
  by (auto simp: skip_blanks_def Let_def length_dropWhile_le simp del: dropWhile_eq_Nil_conv split: if_splits)

lemma read_word_text: "length (is_text (snd (read_word f))) \<le> length (is_text f)"
  using skip_blanks_text [of f]
  by (auto simp: read_word_def Let_def split: prod.split intro: order_trans [OF length_dropWhile_le])

lemma read_word_shorter:
  assumes "read_word f = (Some w, f')"
  shows "length (is_text f') < length (is_text f)" "w \<noteq> []"
proof -
  obtain g where g: "skip_blanks f = (g, True)"
    using assms by (auto simp: read_word_def Let_def split: prod.splits if_splits)
  obtain c cs where c: "is_text g = c # cs" "\<not> is_space c" using skip_blanks_ok [OF g] by (cases "is_text g") auto
  have "length (is_text f') \<le> length cs" "w \<noteq> []"
    using assms g c by (auto simp: read_word_def Let_def length_dropWhile_le)
  then show "length (is_text f') < length (is_text f)" "w \<noteq> []"
    using skip_blanks_ok [OF g] c by auto
qed

lemma read_digits_text: "length (snd (read_digits base s acc)) \<le> length s"
  by (induction base s acc rule: read_digits.induct) (auto split: option.split)

lemma read_sign_text: "length (snd (read_sign s)) \<le> length s"
  by (cases s) (simp_all add: read_sign_def)

lemma read_number_text: "length (is_text (snd (read_number f :: ('a::len word) option \<times> istream))) \<le> length (is_text f)"
proof (cases "skip_blanks f")
  case (Pair g ok)
  have g: "length (is_text g) \<le> length (is_text f)" using skip_blanks_text [of f] Pair by simp
  obtain neg s1 where s1: "read_sign (is_text g) = (neg, s1)" by fastforce
  define b s2 where "b = (if is_hex g then 16 else 10 :: nat)" and "s2 = read_prefix b s1"
  obtain n rest where rest: "read_digits b s2 0 = (n, rest)" by fastforce
  have "length s1 \<le> length (is_text g)" using read_sign_text [of "is_text g"] s1 by simp
  moreover have "length s2 \<le> length s1" by (simp add: s2_def read_prefix_def split: list.split)
  moreover have "length rest \<le> length s2" using read_digits_text [of b s2 0] rest by simp
  ultimately show ?thesis using g
    by (simp add: read_number_def Pair s1 Let_def b_def [symmetric] s2_def [symmetric] rest)
qed

text \<open>A word followed by a blank, and a number in digits followed by a blank.\<close>

definition good_at :: "string \<Rightarrow> istream \<Rightarrow> bool" where
  "good_at s f \<longleftrightarrow> is_text f = s \<and> \<not> is_eof f \<and> \<not> is_fail f"

lemma skip_blanks_good:
  assumes "good_at (blanks @ c # s) f" "list_all is_space blanks" "\<not> is_space c"
  shows "skip_blanks f = (f\<lparr> is_text := c # s \<rparr>, True)"
proof -
  have "dropWhile is_space (blanks @ c # s) = c # s"
    using assms(2,3) by (simp add: dropWhile_append2 list_all_iff)
  then show ?thesis using assms(1) by (simp add: skip_blanks_def good_at_def)
qed

lemma skip_blanks_end:
  assumes "good_at blanks f" "list_all is_space blanks"
  shows "skip_blanks f = (f\<lparr> is_text := [], is_eof := True, is_fail := True \<rparr>, False)"
  using assms by (simp add: skip_blanks_def good_at_def list_all_iff)

lemma read_word_good:
  assumes "good_at (blanks @ w @ b # s) f" "list_all is_space blanks" "w \<noteq> []" "list_all (\<lambda>c. \<not> is_space c) w" "is_space b"
  shows "\<exists>f'. read_word f = (Some w, f') \<and> good_at (b # s) f' \<and> is_hex f' = is_hex f"
proof -
  obtain c cs where w: "w = c # cs" using assms(3) by (cases w) auto
  have "skip_blanks f = (f\<lparr> is_text := w @ b # s \<rparr>, True)"
    using skip_blanks_good [of blanks c "cs @ b # s" f] assms(1,2,4) w by simp
  moreover have "takeWhile (\<lambda>c. \<not> is_space c) (w @ b # s) = w" "dropWhile (\<lambda>c. \<not> is_space c) (w @ b # s) = b # s"
    using assms(4,5) by (simp_all add: takeWhile_append2 dropWhile_append2 list_all_iff)
  ultimately show ?thesis using assms(1) by (simp add: read_word_def good_at_def)
qed

lemma digit_value_char:
  "d < b \<Longrightarrow> b = 10 \<or> b = 16 \<Longrightarrow> digit_value b (digit_char d) = Some d"
proof -
  have "\<forall>d < 10. digit_value 10 (digit_char d) = Some d" "\<forall>d < 16. digit_value 16 (digit_char d) = Some d"
    by (simp_all add: digit_value_def digit_char_def eval_nat_numeral All_less_Suc)
  then show "d < b \<Longrightarrow> b = 10 \<or> b = 16 \<Longrightarrow> digit_value b (digit_char d) = Some d" by auto
qed

lemma read_digits_run:
  assumes "b = 10 \<or> b = 16"
  shows "read_digits b (digits b n @ rest) acc = read_digits b rest (b ^ length (digits b n) * acc + n)"
  using assms
proof (induction b n arbitrary: rest acc rule: digits.induct)
  case (1 b n)
  show ?case
  proof (cases "n < b")
    case True
    then show ?thesis using 1(2) digit_value_char [of n b] by simp
  next
    case False
    then have d: "digits b n = digits b (n div b) @ [digit_char (n mod b)]" using 1(2) by auto
    have "digit_value b (digit_char (n mod b)) = Some (n mod b)" using 1(2) digit_value_char [of "n mod b" b] by auto
    then show ?thesis using 1 False by (auto simp: d algebra_simps)
  qed
qed

lemma digit_char_plain:
  assumes "d < b" "b = 10 \<or> b = 16"
  shows "\<not> is_space (digit_char d)" "digit_char d \<noteq> CHR ''-''" "digit_char d \<noteq> CHR ''+''"
proof -
  have "digit_value b (digit_char d) \<noteq> None" using assms digit_value_char by simp
  then show "\<not> is_space (digit_char d)" "digit_char d \<noteq> CHR ''-''" "digit_char d \<noteq> CHR ''+''"
    by (auto simp: is_space_def digit_value_def Let_def split: if_splits)
qed

lemma digits_plain:
  assumes "b = 10 \<or> b = 16"
  shows "list_all (\<lambda>c. \<not> is_space c) (digits b n)"
  using assms
proof (induction b n rule: digits.induct)
  case (1 b n)
  have m: "n mod b < b" using 1(2) by auto
  show ?case
  proof (cases "n < b")
    case True
    then show ?thesis using digit_char_plain [OF _ 1(2)] by simp
  next
    case False
    then have d: "digits b n = digits b (n div b) @ [digit_char (n mod b)]" using 1(2) by auto
    then show ?thesis using 1 False digit_char_plain [OF m 1(2)] by auto
  qed
qed

lemma digits_first:
  assumes "b = 10 \<or> b = 16"
  obtains c cs where "digits b n = c # cs" "\<not> is_space c" "c \<noteq> CHR ''-''" "c \<noteq> CHR ''+''"
    "c = CHR ''0'' \<longrightarrow> cs = []"
proof -
  have "\<exists>d cs. digits b n = digit_char d # cs \<and> d < b \<and> (d = 0 \<longrightarrow> cs = [])" using assms
  proof (induction b n rule: digits.induct)
    case (1 b n)
    show ?case
    proof (cases "n < b")
      case False
      then have "0 < n div b" using 1(2) by (auto simp: div_greater_zero_iff)
      moreover obtain d cs where "digits b (n div b) = digit_char d # cs" "d < b" "d = 0 \<longrightarrow> cs = []"
        using 1 False by auto
      moreover have "d \<noteq> 0"
      proof
        assume "d = 0"
        then have "digits b (n div b) = [digit_char 0]" using calculation by simp
        then have "n div b = 0" using read_digits_run [OF 1(2), of "n div b" "[]" 0] 1(2) digit_value_char [of 0 b] by auto
        then show False using calculation(1) by simp
      qed
      ultimately show ?thesis using False 1(2) by auto
    qed (use 1(2) in auto)
  qed
  then obtain d cs where d: "digits b n = digit_char d # cs" "d < b" "d = 0 \<longrightarrow> cs = []" by blast
  have "digit_char d = CHR ''0'' \<Longrightarrow> d = 0"
    using digit_value_char [OF d(2) assms] by (auto simp: digit_value_def Let_def)
  then show ?thesis using that [of "digit_char d" cs] d digit_char_plain [OF d(2) assms] by blast
qed

lemma read_number_digits:
  assumes "good_at (blanks @ digits b n @ c # s) f" "list_all is_space blanks" "is_space c"
    and "b = (if is_hex f then 16 else 10)" "n < 2 ^ LENGTH('a)"
  shows "\<exists>f'. read_number f = (Some (of_nat n :: 'a::len word), f') \<and> good_at (c # s) f' \<and> is_hex f' = is_hex f"
proof -
  have b: "b = 10 \<or> b = 16" using assms(4) by auto
  obtain d ds where d: "digits b n = d # ds" "\<not> is_space d" "d \<noteq> CHR ''-''" "d \<noteq> CHR ''+''" "d = CHR ''0'' \<longrightarrow> ds = []"
    by (rule digits_first [OF b, where n = n])
  define t where "t = digits b n @ c # s"
  have t: "t = d # ds @ c # s" by (simp add: t_def d(1))
  have sb: "skip_blanks f = (f\<lparr> is_text := t \<rparr>, True)"
    using skip_blanks_good [of blanks d "ds @ c # s" f] assms(1,2) d by (simp add: t)
  have sg: "read_sign t = (False, t)" using d(3,4) by (simp add: read_sign_def t)
  have "c \<noteq> CHR ''x''" "c \<noteq> CHR ''X''" "digit_value b c = None"
    using assms(3) by (auto simp: is_space_def digit_value_def)
  then have pf: "read_prefix b t = t" and rd: "read_digits b t 0 = (n, c # s)"
    using d(5) read_digits_run [OF b, of n "c # s" 0]
    by (auto simp: t read_prefix_def t_def [unfolded t, symmetric] d(1) [symmetric] split: list.split)
  have "c # s \<noteq> t" "\<not> is_eof f" "\<not> is_fail f" using assms(1) by (simp_all add: t good_at_def)
  then show ?thesis using assms(5)
    by (simp add: read_number_def sb assms(4) [symmetric] sg pf rd good_at_def)
qed

end
