(* ===== verification/TraceIndex.thy ===== *)
theory TraceIndex
  imports TraceReader TextStream
begin

text \<open>
  \<^verbatim>\<open>lib/trace/TraceIndexWriter.cpp\<close> and \<^verbatim>\<open>TraceIndexReader.cpp\<close>: a long trace as a
  series of binary files and an index that names each with the number of its cycles. What the writer
  prints to the index file is in the file at once.
\<close>

section \<open>TraceIndexWriter\<close>

record TraceIndexWriter =
  iw_PathBase :: string
  iw_Data :: bytes
  iw_CycleCount :: uint32
  iw_DataFileCount :: uint32

definition MaxFileSize :: nat where
  "MaxFileSize = 256 * 1024 * 1024"

definition index_path :: "string \<Rightarrow> string" where
  "index_path pathBase = pathBase @ ''.tidx''"

text \<open>\<open>ss << m_PathBase << "." << m_DataFileCount << ".tbin"\<close>\<close>

definition data_path :: "string \<Rightarrow> uint32 \<Rightarrow> string" where
  "data_path pathBase n = pathBase @ ''.'' @ dec_string (sint n) @ ''.tbin''"

definition text_bytes :: "string \<Rightarrow> bytes" where
  "text_bytes s = map of_char s"

definition file_text :: "bytes \<Rightarrow> string" where
  "file_text bs = map (\<lambda>b. char_of (unat b)) bs"

definition append_file :: "string \<Rightarrow> bytes \<Rightarrow> filesystem \<Rightarrow> filesystem" where
  "append_file path bs fs = fs\<lparr> fs_files := (fs_files fs)(path \<mapsto>
     (case fs_files fs path of Some old \<Rightarrow> old | None \<Rightarrow> []) @ bs) \<rparr>"

definition create_file :: "string \<Rightarrow> bytes \<Rightarrow> filesystem \<Rightarrow> filesystem result" where
  "create_file path bs fs =
     (if path \<in> fs_writable fs then Inr (fs\<lparr> fs_files := (fs_files fs)(path \<mapsto> bs) \<rparr>) else Inl FileOpenFailure)"

definition TraceIndexWriter_new :: "string \<Rightarrow> filesystem \<Rightarrow> (TraceIndexWriter \<times> filesystem) result" where
  "TraceIndexWriter_new pathBase fs = rbind (create_file (index_path pathBase) [] fs) (\<lambda>fs.
     Inr (\<lparr> iw_PathBase = pathBase, iw_Data = [], iw_CycleCount = 0, iw_DataFileCount = 0 \<rparr>, fs))"

definition FlushData :: "TraceIndexWriter \<times> filesystem \<Rightarrow> (TraceIndexWriter \<times> filesystem) result" where
  "FlushData s = (case s of (w, fs) \<Rightarrow>
     if iw_Data w = [] then Inr (w, fs)
     else let path = data_path (iw_PathBase w) (iw_DataFileCount w) in
       rbind (create_file path (iw_Data w) fs) (\<lambda>fs.
       rbind (printf (''%s %d'' @ newline) [ArgStr (Some path), ArgInt (iw_CycleCount w)]) (\<lambda>line.
         Inr (w\<lparr> iw_Data := [], iw_CycleCount := 0, iw_DataFileCount := iw_DataFileCount w + 1 \<rparr>,
              append_file (index_path (iw_PathBase w)) (text_bytes line) fs))))"

definition IndexWriter_Write ::
    "bytes \<Rightarrow> uint64 \<Rightarrow> TraceIndexWriter \<times> filesystem \<Rightarrow> (TraceIndexWriter \<times> filesystem) result" where
  "IndexWriter_Write buffer bufferSize s = (let n = unat bufferSize in
     if MaxFileSize < n then Inl TraceException
     else rbind (if MaxFileSize < length (iw_Data (fst s)) + n then FlushData s else Inr s) (\<lambda>(w, fs).
       if length buffer < n then Inl Undefined
       else Inr (w\<lparr> iw_Data := iw_Data w @ take n buffer, iw_CycleCount := iw_CycleCount w + 1 \<rparr>, fs)))"

text \<open>The destructor, which ends the process when its last file cannot be opened.\<close>

definition TraceIndexWriter_delete :: "TraceIndexWriter \<times> filesystem \<Rightarrow> filesystem result" where
  "TraceIndexWriter_delete s = (case FlushData s of Inl e \<Rightarrow> Inl ProcessExit | Inr (w, fs) \<Rightarrow> Inr fs)"

section \<open>TraceIndexReader\<close>

text \<open>A cycle count that could not be read because the text ended stays uninitialised: \<open>None\<close>.\<close>

record IndexEntry =
  ent_path :: string
  ent_cycle :: "uint32 option"

record TraceIndexReader =
  ir_Entries :: "IndexEntry list"
  ir_EntryIndex :: nat
  ir_Cycle :: uint32
  ir_pTraceBinary :: "TraceBinaryReader option"

lemma entry_shorter:
  assumes "read_word f = (Some p, g)" "read_number g = (n :: uint32 option, h)"
  shows "length (is_text h) < length (is_text f)"
  using read_word_shorter(1) [OF assms(1)] read_number_text [where ?'a = 32, of g] assms(2) by simp

function parse_entries :: "istream \<Rightarrow> IndexEntry list" where
  "parse_entries f = (if is_eof f then []
     else (case read_word f of
        (None, f) \<Rightarrow> []
      | (Some path, f) \<Rightarrow>
          if is_eof f then [\<lparr> ent_path = path, ent_cycle = Some 0 \<rparr>]
          else (case read_number f of (n, f) \<Rightarrow> \<lparr> ent_path = path, ent_cycle = n \<rparr> # parse_entries f)))"
  by pat_completeness auto
termination
  by (relation "measure (\<lambda>f. length (is_text f))") (auto dest: entry_shorter [OF sym sym])

declare parse_entries.simps [simp del]

definition ParseIndexFile :: "filesystem \<Rightarrow> string \<Rightarrow> IndexEntry list result" where
  "ParseIndexFile fs path = (case fs_files fs path of
      None \<Rightarrow> Inl FileOpenFailure
    | Some content \<Rightarrow> Inr (parse_entries (istream_new (file_text content))))"

definition UpdateTraceBinary :: "filesystem \<Rightarrow> TraceIndexReader \<Rightarrow> TraceIndexReader result" where
  "UpdateTraceBinary fs r =
     (if ir_EntryIndex r < length (ir_Entries r) then
        rbind (TraceBinaryReader_new fs (ent_path (ir_Entries r ! ir_EntryIndex r))) (\<lambda>b.
          Inr (r\<lparr> ir_pTraceBinary := Some b \<rparr>))
      else Inr (r\<lparr> ir_pTraceBinary := None \<rparr>))"

definition TraceIndexReader_new :: "filesystem \<Rightarrow> string \<Rightarrow> TraceIndexReader result" where
  "TraceIndexReader_new fs path = rbind (ParseIndexFile fs path) (\<lambda>es.
     UpdateTraceBinary fs \<lparr> ir_Entries = es, ir_EntryIndex = 0, ir_Cycle = 0, ir_pTraceBinary = None \<rparr>)"

definition IndexReader_GetCycle :: "TraceIndexReader \<Rightarrow> ICycle option result" where
  "IndexReader_GetCycle r = (case ir_pTraceBinary r of None \<Rightarrow> Inl Undefined | Some b \<Rightarrow> BinaryReader_GetCycle b)"

definition IndexReader_IsEnd :: "TraceIndexReader \<Rightarrow> bool" where
  "IndexReader_IsEnd r \<longleftrightarrow> ir_EntryIndex r = length (ir_Entries r)"

definition IndexReader_Next :: "filesystem \<Rightarrow> TraceIndexReader \<Rightarrow> TraceIndexReader result" where
  "IndexReader_Next fs r = (case ir_pTraceBinary r of
      None \<Rightarrow> Inl Undefined
    | Some b \<Rightarrow> rbind (BinaryReader_Next b) (\<lambda>b.
        let r = r\<lparr> ir_pTraceBinary := Some b, ir_Cycle := ir_Cycle r + 1 \<rparr> in
        rbind (BinaryReader_IsEnd b) (\<lambda>e.
          if \<not> e then Inr r
          else let r = r\<lparr> ir_EntryIndex := ir_EntryIndex r + 1 \<rparr> in
            if ir_EntryIndex r = length (ir_Entries r) then Inr r
            else UpdateTraceBinary fs r)))"

text \<open>The entry that holds cycle \<open>dst\<close>, with the number of cycles before it.\<close>

fun find_entry :: "IndexEntry list \<Rightarrow> uint32 \<Rightarrow> uint32 \<Rightarrow> nat \<Rightarrow> (nat \<times> uint32) option result" where
  "find_entry [] dst skipped i = Inr None"
| "find_entry (e # es) dst skipped i = (case ent_cycle e of
      None \<Rightarrow> Inl Undefined
    | Some n \<Rightarrow> if dst < skipped + n then Inr (Some (i, skipped)) else find_entry es dst (skipped + n) (Suc i))"

definition IndexReader_NextN :: "filesystem \<Rightarrow> uint32 \<Rightarrow> TraceIndexReader \<Rightarrow> TraceIndexReader result" where
  "IndexReader_NextN fs cycle r = (let dstCycle = ir_Cycle r + cycle in
     rbind (find_entry (ir_Entries r) dstCycle 0 0) (\<lambda>hit. case hit of
        None \<Rightarrow> Inl TraceException
      | Some (entryIndex, skippedCycle) \<Rightarrow>
          rbind (UpdateTraceBinary fs (r\<lparr> ir_EntryIndex := entryIndex, ir_Cycle := skippedCycle \<rparr>)) (\<lambda>r.
            repeat_next (IndexReader_Next fs) (unat dstCycle - unat skippedCycle) r)))"

definition IndexReader_ITraceReader :: "filesystem \<Rightarrow> TraceIndexReader ITraceReader" where
  "IndexReader_ITraceReader fs = \<lparr>
     tr_GetCycle = IndexReader_GetCycle,
     tr_IsEnd = (\<lambda>r. Inr (IndexReader_IsEnd r)),
     tr_Next = IndexReader_Next fs,
     tr_NextN = IndexReader_NextN fs \<rparr>"

end
