(* ===== verification/TraceIndexLaws.thy ===== *)
theory TraceIndexLaws
  imports TraceIndex
begin

text \<open>
  The index reader keeps the reader's contract over the files of an index, its \<open>Next(n)\<close> included,
  and what the index writer wrote is read back.
\<close>

section \<open>The reader\<close>

text \<open>The files behind the entries of an index: each holds as many cycles as its entry says.\<close>

definition index_files :: "filesystem \<Rightarrow> IndexEntry list \<Rightarrow> CycleSpec list list \<Rightarrow> bool" where
  "index_files fs es gs \<longleftrightarrow> list_all2 (\<lambda>e g. ent_cycle e = Some (of_nat (length g)) \<and>
     fs_files fs (ent_path e) = Some (cycles_data g) \<and> g \<noteq> [] \<and> list_all cycle_ok g) es gs"

text \<open>The reader stands at cycle \<open>p\<close> of all, the \<open>j\<close>-th of file \<open>i\<close>, or at the end.\<close>

definition index_at :: "CycleSpec list list \<Rightarrow> nat \<Rightarrow> TraceIndexReader \<Rightarrow> bool" where
  "index_at gs p r \<longleftrightarrow> ir_Cycle r = of_nat p \<and>
     (if p < length (concat gs) then
        \<exists>j b. ir_EntryIndex r < length gs \<and> j < length (gs ! ir_EntryIndex r) \<and>
          p = length (concat (take (ir_EntryIndex r) gs)) + j \<and> ir_pTraceBinary r = Some b \<and>
          binary_views b (map cycle_view (drop j (gs ! ir_EntryIndex r)))
      else p = length (concat gs) \<and> ir_EntryIndex r = length gs)"

definition index_serves :: "filesystem \<Rightarrow> TraceIndexReader \<Rightarrow> ICycle list \<Rightarrow> bool" where
  "index_serves fs r vs \<longleftrightarrow> (\<exists>gs p. index_files fs (ir_Entries r) gs \<and> length (concat gs) < 2 ^ 32 \<and>
     index_at gs p r \<and> vs = map cycle_view (drop p (concat gs)))"

lemma index_files_nth:
  assumes "index_files fs es gs" "i < length gs"
  shows "i < length es" "ent_cycle (es ! i) = Some (of_nat (length (gs ! i)))"
    "fs_files fs (ent_path (es ! i)) = Some (cycles_data (gs ! i))" "gs ! i \<noteq> []" "list_all cycle_ok (gs ! i)"
  using assms by (auto simp: index_files_def list_all2_conv_all_nth)

lemma index_files_length: "index_files fs es gs \<Longrightarrow> length es = length gs"
  by (auto simp: index_files_def dest: list_all2_lengthD)

lemma concat_take_Suc:
  "i < length gs \<Longrightarrow> length (concat (take (Suc i) gs)) = length (concat (take i gs)) + length (gs ! i)"
  by (simp add: take_Suc_conv_app_nth)

lemma concat_take_le: "length (concat (take i gs)) \<le> length (concat gs)"
  by (metis append_take_drop_id concat_append le_add1 length_append)

lemma drop_concat:
  assumes "i < length gs" "j \<le> length (gs ! i)"
  shows "drop (length (concat (take i gs)) + j) (concat gs) = drop j (gs ! i) @ concat (drop (Suc i) gs)"
proof -
  have "concat gs = concat (take i gs) @ gs ! i @ concat (drop (Suc i) gs)"
    by (metis append.assoc append_take_drop_id assms(1) concat.simps(2) concat_append id_take_nth_drop)
  then show ?thesis using assms(2) by simp
qed

text \<open>Opening file \<open>i\<close> at its first cycle.\<close>

lemma UpdateTraceBinary_open:
  assumes "index_files fs (ir_Entries r) gs" "ir_EntryIndex r < length gs"
  obtains b where "UpdateTraceBinary fs r = Inr (r\<lparr> ir_pTraceBinary := Some b \<rparr>)"
    "binary_views b (map cycle_view (gs ! ir_EntryIndex r))"
proof -
  note f = index_files_nth [OF assms]
  obtain m where m: "TraceBinaryMemoryReader_new (cycles_data (gs ! ir_EntryIndex r)) = Inr m"
    "memory_serves m (gs ! ir_EntryIndex r)"
    using memory_serves_new [OF f(5,4)] by blast
  have "TraceBinaryReader_new fs (ent_path (ir_Entries r ! ir_EntryIndex r)) = Inr (Some m)"
    using f(3,4) m(1) by (simp add: TraceBinaryReader_new_def)
  then show ?thesis using that [of "Some m"] f(1) m(2)
    by (auto simp: UpdateTraceBinary_def binary_views_def memory_views_def)
qed

lemma index_open_at:
  assumes "index_files fs (ir_Entries r) gs" "ir_EntryIndex r < length gs"
    and "ir_Cycle r = of_nat (length (concat (take (ir_EntryIndex r) gs)))"
  shows "\<exists>r'. UpdateTraceBinary fs r = Inr r' \<and> ir_Entries r' = ir_Entries r \<and>
    index_at gs (length (concat (take (ir_EntryIndex r) gs))) r'"
proof -
  obtain b where b: "UpdateTraceBinary fs r = Inr (r\<lparr> ir_pTraceBinary := Some b \<rparr>)"
    "binary_views b (map cycle_view (gs ! ir_EntryIndex r))"
    by (rule UpdateTraceBinary_open [OF assms(1,2)])
  have n: "0 < length (gs ! ir_EntryIndex r)" using index_files_nth(4) [OF assms(1,2)] by simp
  then have "length (concat (take (ir_EntryIndex r) gs)) < length (concat gs)"
    using concat_take_le [of "Suc (ir_EntryIndex r)" gs] concat_take_Suc [OF assms(2)] by linarith
  then show ?thesis using b n assms(2,3) by (auto simp: index_at_def intro!: exI [of _ 0])
qed

lemma index_step:
  assumes "index_files fs (ir_Entries r) gs" "length (concat gs) < 2 ^ 32" "index_at gs p r" "p < length (concat gs)"
  shows "\<exists>r'. IndexReader_Next fs r = Inr r' \<and> ir_Entries r' = ir_Entries r \<and> index_at gs (Suc p) r'"
proof -
  let ?i = "ir_EntryIndex r"
  obtain j b where b: "?i < length gs" "j < length (gs ! ?i)" "p = length (concat (take ?i gs)) + j"
    "ir_pTraceBinary r = Some b" "binary_views b (map cycle_view (drop j (gs ! ?i)))"
    using assms(3,4) by (auto simp: index_at_def)
  have "drop j (gs ! ?i) = gs ! ?i ! j # drop (Suc j) (gs ! ?i)" using b(2) by (simp add: Cons_nth_drop_Suc)
  then obtain b' where b': "BinaryReader_Next b = Inr b'" "binary_views b' (map cycle_view (drop (Suc j) (gs ! ?i)))"
    using binary_reader.advance [of b] b(5) by (auto simp: BinaryReader_ITraceReader_def)
  define r1 where "r1 = r\<lparr> ir_pTraceBinary := Some b', ir_Cycle := ir_Cycle r + 1 \<rparr>"
  have c: "ir_Cycle r1 = of_nat (Suc p)" using assms(3) by (simp add: index_at_def r1_def)
  have e: "BinaryReader_IsEnd b' = Inr (Suc j = length (gs ! ?i))"
    using binary_reader.end_iff [OF b'(2)] b(2) by (auto simp: BinaryReader_ITraceReader_def)
  show ?thesis
  proof (cases "Suc j = length (gs ! ?i)")
    case False
    then have "Suc j < length (gs ! ?i)" using b(2) by simp
    then have "Suc p < length (concat gs)" using b(3) concat_take_Suc [OF b(1)] concat_take_le [of "Suc ?i" gs] by linarith
    moreover have "IndexReader_Next fs r = Inr r1" using b(4) b'(1) e False by (simp add: IndexReader_Next_def r1_def)
    ultimately show ?thesis using \<open>Suc j < _\<close> b b' c
      by (auto simp: index_at_def r1_def intro!: exI [of _ "Suc j"])
  next
    case True
    define r2 where "r2 = r1\<lparr> ir_EntryIndex := Suc ?i \<rparr>"
    have p: "Suc p = length (concat (take (Suc ?i) gs))" using b(3) True concat_take_Suc [OF b(1)] by simp
    have step: "IndexReader_Next fs r = (if Suc ?i = length gs then Inr r2 else UpdateTraceBinary fs r2)"
      using b(4) b'(1) e True index_files_length [OF assms(1)] by (simp add: IndexReader_Next_def r1_def r2_def Let_def)
    show ?thesis
    proof (cases "Suc ?i = length gs")
      case True
      then show ?thesis using step p c by (simp add: index_at_def r1_def r2_def)
    next
      case False
      have "\<exists>r'. UpdateTraceBinary fs r2 = Inr r' \<and> ir_Entries r' = ir_Entries r2 \<and>
          index_at gs (length (concat (take (ir_EntryIndex r2) gs))) r'"
        by (rule index_open_at) (use assms(1) b(1) False c p in \<open>simp_all add: r1_def r2_def\<close>)
      then show ?thesis using step False p by (simp add: r1_def r2_def)
    qed
  qed
qed

lemma unat_of_nat_32: "m < 2 ^ 32 \<Longrightarrow> unat (of_nat m :: uint32) = m"
  by (simp add: unat_of_nat)

lemma find_entry_hit:
  assumes "index_files fs es gs" "s \<le> p" "p < s + length (concat gs)" "s + length (concat gs) < 2 ^ 32"
  shows "\<exists>i. i < length gs \<and> find_entry es (of_nat p) (of_nat s) k = Inr (Some (k + i, of_nat (s + length (concat (take i gs))))) \<and>
    s + length (concat (take i gs)) \<le> p"
  using assms
proof (induction gs arbitrary: es s k)
  case (Cons g gs)
  obtain e es' where es: "es = e # es'" "ent_cycle e = Some (of_nat (length g))" "index_files fs es' gs"
    using Cons.prems(1) by (auto simp: index_files_def list_all2_Cons2)
  have less: "of_nat p < (of_nat s + of_nat (length g) :: uint32) \<longleftrightarrow> p < s + length g"
    using Cons.prems unat_of_nat_32 [of p] unat_of_nat_32 [of "s + length g"] by (simp add: word_less_nat_alt)
  show ?case
  proof (cases "p < s + length g")
    case True
    then show ?thesis using Cons.prems(2) es less by (intro exI [of _ 0]) simp
  next
    case False
    then obtain i where "i < length gs" "find_entry es' (of_nat p) (of_nat (s + length g)) (Suc k) =
        Inr (Some (Suc k + i, of_nat (s + length g + length (concat (take i gs)))))"
      "s + length g + length (concat (take i gs)) \<le> p"
      using Cons.IH [OF es(3), of "s + length g" "Suc k"] Cons.prems by auto
    then show ?thesis using es less False by (intro exI [of _ "Suc i"]) (simp add: add.assoc)
  qed
qed simp

lemma find_entry_miss:
  assumes "index_files fs es gs" "s + length (concat gs) \<le> p" "p < 2 ^ 32"
  shows "find_entry es (of_nat p) (of_nat s) k = Inr None"
  using assms
proof (induction gs arbitrary: es s k)
  case (Cons g gs)
  obtain e es' where es: "es = e # es'" "ent_cycle e = Some (of_nat (length g))" "index_files fs es' gs"
    using Cons.prems(1) by (auto simp: index_files_def list_all2_Cons2)
  have "unat (of_nat p :: uint32) = p" "unat (of_nat (s + length g) :: uint32) = s + length g"
    by (rule unat_of_nat_32, use Cons.prems in simp)+
  then have "\<not> of_nat p < (of_nat s + of_nat (length g) :: uint32)"
    using Cons.prems(2) by (simp add: word_less_nat_alt)
  then show ?case using es Cons.IH [OF es(3), of "s + length g" "Suc k"] Cons.prems by simp
qed (simp add: index_files_def)

lemma index_steps:
  assumes "index_files fs (ir_Entries r) gs" "length (concat gs) < 2 ^ 32" "index_at gs p r" "p + k \<le> length (concat gs)"
  shows "\<exists>r'. repeat_next (IndexReader_Next fs) k r = Inr r' \<and> ir_Entries r' = ir_Entries r \<and> index_at gs (p + k) r'"
  using assms(1,3,4)
proof (induction k arbitrary: p r)
  case (Suc k)
  then obtain r1 where r1: "IndexReader_Next fs r = Inr r1" "ir_Entries r1 = ir_Entries r" "index_at gs (Suc p) r1"
    using index_step [OF Suc.prems(1) assms(2) Suc.prems(2)] by auto
  then show ?case using Suc.IH [of r1 "Suc p"] Suc.prems by simp
qed simp

lemma index_skip:
  assumes "index_files fs (ir_Entries r) gs" "length (concat gs) < 2 ^ 32" "index_at gs p r" "p + unat n < length (concat gs)"
  shows "\<exists>r'. IndexReader_NextN fs n r = Inr r' \<and> ir_Entries r' = ir_Entries r \<and> index_at gs (p + unat n) r'"
proof -
  have d: "ir_Cycle r + n = of_nat (p + unat n)" using assms(3) by (simp add: index_at_def)
  obtain i where i: "i < length gs" "find_entry (ir_Entries r) (of_nat (p + unat n)) 0 0 =
      Inr (Some (i, of_nat (length (concat (take i gs)))))" "length (concat (take i gs)) \<le> p + unat n"
    using find_entry_hit [OF assms(1), of 0 "p + unat n" 0] assms(2,4) by auto
  let ?s = "length (concat (take i gs))"
  define r0 where "r0 = r\<lparr> ir_EntryIndex := i, ir_Cycle := of_nat ?s \<rparr>"
  obtain r1 where r1: "UpdateTraceBinary fs r0 = Inr r1" "ir_Entries r1 = ir_Entries r" "index_at gs ?s r1"
    using index_open_at [of fs r0 gs] assms(1) i(1) by (auto simp: r0_def)
  have u: "unat (of_nat (p + unat n) :: uint32) = p + unat n" "unat (of_nat ?s :: uint32) = ?s"
    by (rule unat_of_nat_32, use assms(2,4) concat_take_le [of i gs] in simp)+
  have "IndexReader_NextN fs n r = repeat_next (IndexReader_Next fs) (p + unat n - ?s) r1"
    unfolding IndexReader_NextN_def d Let_def i(2) using r1(1) u by (simp add: r0_def)
  then show ?thesis using index_steps [OF _ assms(2) r1(3), of fs "p + unat n - ?s"] r1(2) assms(1,4) i(3) by simp
qed

text \<open>
  Skipping exactly to the end is refused, unlike reading there step by step.
\<close>

lemma index_skip_to_end:
  assumes "index_files fs (ir_Entries r) gs" "length (concat gs) < 2 ^ 32" "index_at gs p r"
    and "p + unat n = length (concat gs)"
  shows "IndexReader_NextN fs n r = Inl TraceException"
proof -
  have d: "ir_Cycle r + n = of_nat (p + unat n)" using assms(3) by (simp add: index_at_def)
  have "find_entry (ir_Entries r) (of_nat (p + unat n)) (of_nat 0) 0 = Inr None"
    by (rule find_entry_miss [OF assms(1)]) (use assms(2,4) in simp_all)
  then show ?thesis by (simp add: IndexReader_NextN_def d)
qed

lemma index_serves_Cons:
  assumes "index_serves fs r (v # vs)"
  obtains gs p where "index_files fs (ir_Entries r) gs" "length (concat gs) < 2 ^ 32" "index_at gs p r"
    "p < length (concat gs)" "v = cycle_view (concat gs ! p)" "vs = map cycle_view (drop (Suc p) (concat gs))"
proof -
  obtain gs p where g: "index_files fs (ir_Entries r) gs" "length (concat gs) < 2 ^ 32" "index_at gs p r"
    "v # vs = map cycle_view (drop p (concat gs))" using assms by (auto simp: index_serves_def)
  have p: "p < length (concat gs)"
  proof (rule ccontr)
    assume "\<not> p < length (concat gs)"
    then show False using g(4) by simp
  qed
  then show ?thesis using that g Cons_nth_drop_Suc [OF p, symmetric] by simp
qed

interpretation index_reader: trace_reader "IndexReader_ITraceReader fs" "index_serves fs"
proof
  fix r c cs n
  show "tr_IsEnd (IndexReader_ITraceReader fs) r = Inr True" if "index_serves fs r []"
    using that by (auto simp: index_serves_def index_at_def IndexReader_ITraceReader_def IndexReader_IsEnd_def
        index_files_length split: if_splits)
  show "tr_IsEnd (IndexReader_ITraceReader fs) r = Inr False" if "index_serves fs r (c # cs)"
    by (rule index_serves_Cons [OF that])
      (auto simp: index_at_def IndexReader_ITraceReader_def IndexReader_IsEnd_def index_files_length)
  show "tr_GetCycle (IndexReader_ITraceReader fs) r = Inr (Some c)" if "index_serves fs r (c # cs)"
  proof (rule index_serves_Cons [OF that])
    fix gs p assume g: "index_files fs (ir_Entries r) gs" "index_at gs p r" "p < length (concat gs)" "c = cycle_view (concat gs ! p)"
    let ?i = "ir_EntryIndex r"
    obtain j b where b: "?i < length gs" "j < length (gs ! ?i)" "p = length (concat (take ?i gs)) + j"
      "ir_pTraceBinary r = Some b" "binary_views b (map cycle_view (drop j (gs ! ?i)))"
      using g(2,3) by (auto simp: index_at_def)
    have "concat gs ! p = gs ! ?i ! j"
      using drop_concat [of ?i gs j] b(1,2,3) hd_drop_conv_nth [OF g(3)] by (simp add: hd_append hd_drop_conv_nth)
    then have "BinaryReader_GetCycle b = Inr (Some c)"
      using binary_reader.current [of b c] b(2,5) g(4)
      by (simp add: BinaryReader_ITraceReader_def Cons_nth_drop_Suc [symmetric])
    then show ?thesis using b(4) by (simp add: IndexReader_ITraceReader_def IndexReader_GetCycle_def)
  qed
  show "\<exists>r'. tr_Next (IndexReader_ITraceReader fs) r = Inr r' \<and> index_serves fs r' cs" if "index_serves fs r (c # cs)"
  proof (rule index_serves_Cons [OF that])
    fix gs p assume g: "index_files fs (ir_Entries r) gs" "length (concat gs) < 2 ^ 32" "index_at gs p r"
      "p < length (concat gs)" "cs = map cycle_view (drop (Suc p) (concat gs))"
    obtain r' where "IndexReader_Next fs r = Inr r'" "ir_Entries r' = ir_Entries r" "index_at gs (Suc p) r'"
      using index_step [OF g(1-4)] by blast
    then show ?thesis using g(1,2,5) by (auto simp: IndexReader_ITraceReader_def index_serves_def)
  qed
  show "\<exists>r'. tr_NextN (IndexReader_ITraceReader fs) n r = Inr r' \<and> index_serves fs r' (drop (unat n) cs)"
    if s: "index_serves fs r cs" and l: "unat n < length cs"
  proof -
    obtain gs p where g: "index_files fs (ir_Entries r) gs" "length (concat gs) < 2 ^ 32" "index_at gs p r"
      "cs = map cycle_view (drop p (concat gs))" using s unfolding index_serves_def by blast
    then have "p + unat n < length (concat gs)" using l by simp
    then obtain r' where "IndexReader_NextN fs n r = Inr r'" "ir_Entries r' = ir_Entries r" "index_at gs (p + unat n) r'"
      using index_skip [OF g(1-3)] by blast
    then show ?thesis using g by (auto simp: IndexReader_ITraceReader_def index_serves_def drop_map add.commute)
  qed
qed

section \<open>The index file\<close>

definition index_line :: "string \<Rightarrow> nat \<Rightarrow> string" where
  "index_line path n = path @ '' '' @ digits 10 n @ newline"

definition plain_word :: "string \<Rightarrow> bool" where
  "plain_word w \<longleftrightarrow> w \<noteq> [] \<and> list_all (\<lambda>c. \<not> is_space c) w"

lemma parse_entries_lines:
  assumes "good_at (blanks @ concat (map (\<lambda>(p, n). index_line p n) es)) f" "list_all is_space blanks"
    and "list_all (\<lambda>(p, n). plain_word p \<and> n < 2 ^ 32) es" "\<not> is_hex f"
  shows "parse_entries f = map (\<lambda>(p, n). \<lparr> ent_path = p, ent_cycle = Some (of_nat n) \<rparr>) es"
  using assms
proof (induction es arbitrary: blanks f)
  case Nil
  then have "skip_blanks f = (f\<lparr> is_text := [], is_eof := True, is_fail := True \<rparr>, False)"
    by (intro skip_blanks_end) simp_all
  then show ?case by (subst parse_entries.simps) (simp add: read_word_def)
next
  case (Cons e es)
  obtain p n where e: "e = (p, n)" "p \<noteq> []" "list_all (\<lambda>c. \<not> is_space c) p" "n < 2 ^ 32"
    using Cons.prems(3) by (cases e) (auto simp: plain_word_def)
  let ?rest = "concat (map (\<lambda>(p, n). index_line p n) es)"
  have sp: "is_space CHR '' ''" "is_space CHR 0x0A" by (simp_all add: is_space_def)
  have f: "good_at (blanks @ p @ CHR '' '' # (digits 10 n @ CHR 0x0A # ?rest)) f"
    using Cons.prems(1) by (simp add: e(1) index_line_def)
  obtain f1 where f1: "read_word f = (Some p, f1)" "good_at (CHR '' '' # (digits 10 n @ CHR 0x0A # ?rest)) f1" "\<not> is_hex f1"
    using read_word_good [OF f Cons.prems(2) e(2,3) sp(1)] Cons.prems(4) by auto
  have "\<exists>f'. read_number f1 = (Some (of_nat n :: uint32), f') \<and> good_at (CHR 0x0A # ?rest) f' \<and> is_hex f' = is_hex f1"
    by (rule read_number_digits [where blanks = "'' ''"]) (use f1(2,3) e(4) sp in simp_all)
  then obtain f2 where f2: "read_number f1 = (Some (of_nat n :: uint32), f2)" "good_at (newline @ ?rest) f2" "\<not> is_hex f2"
    using f1(3) by auto
  have "parse_entries f2 = map (\<lambda>(p, n). \<lparr> ent_path = p, ent_cycle = Some (of_nat n) \<rparr>) es"
    by (rule Cons.IH [OF f2(2)]) (use sp Cons.prems(3) f2(3) in simp_all)
  moreover have "\<not> is_eof f" "\<not> is_eof f1" using f f1(2) by (simp_all add: good_at_def)
  ultimately show ?case by (subst parse_entries.simps) (simp add: f1(1) f2(1) e(1))
qed

lemma file_text_bytes [simp]: "file_text (text_bytes s) = s"
proof (induction s)
  case (Cons c s)
  have "unat (of_nat (of_char c) :: uint8) = of_char c" by (simp add: unat_of_nat)
  then have "unat (of_char c :: uint8) = of_char c" by (simp only: of_nat_of_char)
  then show ?case using Cons by (simp add: file_text_def text_bytes_def)
qed (simp add: file_text_def text_bytes_def)

lemma text_bytes_append [simp]: "text_bytes (s @ t) = text_bytes s @ text_bytes t"
  by (simp add: text_bytes_def)

lemma digits_inj: "digits 10 m = digits 10 n \<Longrightarrow> m = n"
  using read_digits_run [of 10 m "[]" 0] read_digits_run [of 10 n "[]" 0] by simp

lemma dec_string_count: "n < 2 ^ 31 \<Longrightarrow> dec_string (sint (of_nat n :: uint32)) = digits 10 n"
proof -
  assume n: "n < 2 ^ 31"
  then have "sint (of_nat n :: uint32) = int n" by (simp add: signed_of_nat signed_take_bit_int_eq_self)
  then show ?thesis by (simp add: dec_string_def)
qed

text \<open>The names of the files of one index.\<close>

lemma data_path_inj: "m < 2 ^ 31 \<Longrightarrow> n < 2 ^ 31 \<Longrightarrow> data_path base (of_nat m) = data_path base (of_nat n) \<Longrightarrow> m = n"
  by (auto simp: data_path_def dec_string_count dest: digits_inj)

lemma data_path_index [simp]: "data_path base n \<noteq> index_path base" "index_path base \<noteq> data_path base n"
proof -
  have "last (data_path base n) = CHR ''n''" "last (index_path base) = CHR ''x''"
    by (simp_all add: data_path_def index_path_def)
  then show "data_path base n \<noteq> index_path base" "index_path base \<noteq> data_path base n" by auto
qed

lemma data_path_plain:
  "list_all (\<lambda>c. \<not> is_space c) base \<Longrightarrow> n < 2 ^ 31 \<Longrightarrow> plain_word (data_path base (of_nat n))"
  using digits_plain [of 10 n] by (simp add: plain_word_def data_path_def dec_string_count) (simp add: is_space_def)

section \<open>The writer\<close>

text \<open>Cycles \<open>concat gs\<close> are in files, those of \<open>g\<close> in the buffer.\<close>

definition index_lines :: "string \<Rightarrow> CycleSpec list list \<Rightarrow> (string \<times> nat) list" where
  "index_lines base gs = map (\<lambda>i. (data_path base (of_nat i), length (gs ! i))) [0..<length gs]"

definition index_text :: "string \<Rightarrow> CycleSpec list list \<Rightarrow> string" where
  "index_text base gs = concat (map (\<lambda>(p, n). index_line p n) (index_lines base gs))"

definition index_written ::
    "string \<Rightarrow> CycleSpec list list \<Rightarrow> CycleSpec list \<Rightarrow> TraceIndexWriter \<times> filesystem \<Rightarrow> bool" where
  "index_written base gs g s \<longleftrightarrow> (case s of (w, fs) \<Rightarrow>
     iw_PathBase w = base \<and> iw_Data w = cycles_data g \<and> iw_CycleCount w = of_nat (length g) \<and>
     iw_DataFileCount w = of_nat (length gs) \<and> [] \<notin> set gs \<and> range (data_path base) \<subseteq> fs_writable fs \<and>
     fs_files fs (index_path base) = Some (text_bytes (index_text base gs)) \<and>
     (\<forall>i < length gs. fs_files fs (data_path base (of_nat i)) = Some (cycles_data (gs ! i))))"

lemma index_lines_snoc:
  "index_lines base (gs @ [g]) = index_lines base gs @ [(data_path base (of_nat (length gs)), length g)]"
  by (auto simp: index_lines_def nth_append)

lemma length_concat_ge: "[] \<notin> set gs \<Longrightarrow> length gs \<le> length (concat gs)"
proof (induction gs)
  case (Cons g gs)
  then show ?case by (cases g) auto
qed simp

lemma FlushData_nonempty:
  assumes "iw_Data w \<noteq> []" "data_path (iw_PathBase w) (iw_DataFileCount w) \<in> fs_writable fs"
  shows "FlushData (w, fs) = (let path = data_path (iw_PathBase w) (iw_DataFileCount w) in
    Inr (w\<lparr> iw_Data := [], iw_CycleCount := 0, iw_DataFileCount := iw_DataFileCount w + 1 \<rparr>,
      append_file (index_path (iw_PathBase w)) (text_bytes (path @ '' '' @ dec_string (sint (iw_CycleCount w)) @ newline))
        (fs\<lparr> fs_files := (fs_files fs)(path \<mapsto> iw_Data w) \<rparr>)))"
  using assms by (simp add: FlushData_def create_file_def Let_def)

lemma flush_written:
  assumes "index_written base gs g s" "length (concat gs) + length g < 2 ^ 31"
  shows "\<exists>s' gs'. FlushData s = Inr s' \<and> index_written base gs' [] s' \<and> concat gs' = concat gs @ g"
proof (cases "g = []")
  case True
  then have "FlushData s = Inr s" using assms(1) by (cases s) (simp add: index_written_def FlushData_def)
  then show ?thesis using assms(1) True by (intro exI [of _ s] exI [of _ gs]) simp
next
  case False
  obtain w fs where s: "s = (w, fs)" by fastforce
  note i = assms(1) [unfolded index_written_def s prod.case]
  let ?p = "data_path base (of_nat (length gs))"
  have n: "length gs < 2 ^ 31" "length g < 2 ^ 31" using length_concat_ge [of gs] i assms(2) by auto
  define fs1 where "fs1 = fs\<lparr> fs_files := (fs_files fs)(?p \<mapsto> cycles_data g) \<rparr>"
  define fs2 where "fs2 = append_file (index_path base) (text_bytes (index_line ?p (length g))) fs1"
  define w2 where "w2 = w\<lparr> iw_Data := [], iw_CycleCount := 0, iw_DataFileCount := iw_DataFileCount w + 1 \<rparr>"
  have "FlushData s = Inr (w2, fs2)"
    using FlushData_nonempty [of w fs] i False n(2)
    by (simp add: s w2_def fs2_def fs1_def Let_def index_line_def dec_string_count image_subset_iff)
  moreover have "index_written base (gs @ [g]) [] (w2, fs2)"
  proof -
    have "fs_files fs2 (index_path base) = Some (text_bytes (index_text base (gs @ [g])))"
      using i by (simp add: fs2_def fs1_def append_file_def index_text_def index_lines_snoc)
    moreover have "fs_files fs2 (data_path base (of_nat k)) = Some (cycles_data ((gs @ [g]) ! k))" if k: "k < Suc (length gs)" for k
    proof (cases "k = length gs")
      case False
      then have "data_path base (of_nat k) \<noteq> ?p" using data_path_inj [of k "length gs" base] k n(1) by auto
      then show ?thesis using i k False by (simp add: fs2_def fs1_def append_file_def nth_append)
    qed (simp add: fs2_def fs1_def append_file_def)
    moreover have "fs_writable fs2 = fs_writable fs" by (simp add: fs2_def fs1_def append_file_def)
    ultimately show ?thesis using i False by (auto simp: index_written_def w2_def)
  qed
  ultimately show ?thesis by (intro exI [of _ "(w2, fs2)"] exI [of _ "gs @ [g]"]) simp
qed

lemma write_written:
  assumes "index_written base gs g s" "length (concat gs) + length g < 2 ^ 31" "length (cycle_data x) \<le> MaxFileSize"
  shows "\<exists>s' gs' g'. IndexWriter_Write (cycle_data x) (of_nat (length (cycle_data x))) s = Inr s' \<and>
    index_written base gs' g' s' \<and> concat gs' @ g' = concat gs @ g @ [x]"
proof -
  have m: "unat (of_nat (length (cycle_data x)) :: uint64) = length (cycle_data x)"
    using assms(3) by (simp add: MaxFileSize_def unat_of_nat)
  define flush where "flush \<longleftrightarrow> MaxFileSize < length (iw_Data (fst s)) + length (cycle_data x)"
  obtain w fs gs1 g1 where f: "(if flush then FlushData s else Inr s) = Inr (w, fs)"
    "index_written base gs1 g1 (w, fs)" "concat gs1 @ g1 = concat gs @ g"
    using flush_written [OF assms(1,2)] assms(1) by (cases flush; cases s) fastforce+
  let ?w = "w\<lparr> iw_Data := iw_Data w @ cycle_data x, iw_CycleCount := iw_CycleCount w + 1 \<rparr>"
  have "IndexWriter_Write (cycle_data x) (of_nat (length (cycle_data x))) s = Inr (?w, fs)"
    using f(1) assms(3) by (simp add: IndexWriter_Write_def m flush_def [symmetric])
  moreover have "index_written base gs1 (g1 @ [x]) (?w, fs)" using f(2) by (simp add: index_written_def)
  moreover have "concat gs1 @ (g1 @ [x]) = concat gs @ g @ [x]" using f(3) by (metis append.assoc)
  ultimately show ?thesis by blast
qed

text \<open>A cycle that fits the file at hand stays in the buffer.\<close>

lemma write_buffered:
  assumes "index_written base [] g (w, fs)" "length (cycles_data (g @ [x])) \<le> MaxFileSize"
  shows "\<exists>w'. IndexWriter_Write (cycle_data x) (of_nat (length (cycle_data x))) (w, fs) = Inr (w', fs) \<and>
    index_written base [] (g @ [x]) (w', fs)"
proof -
  have m: "unat (of_nat (length (cycle_data x)) :: uint64) = length (cycle_data x)"
    using assms(2) by (simp add: MaxFileSize_def unat_of_nat cycles_data_def)
  show ?thesis using assms by (auto simp: IndexWriter_Write_def m index_written_def cycles_data_def)
qed

text \<open>Writing one buffer after the other, as a caller does.\<close>

primrec write_buffers :: "bytes list \<Rightarrow> TraceIndexWriter \<times> filesystem \<Rightarrow> (TraceIndexWriter \<times> filesystem) result" where
  "write_buffers [] s = Inr s"
| "write_buffers (b # bs) s = rbind (IndexWriter_Write b (of_nat (length b)) s) (write_buffers bs)"

definition write_index :: "string \<Rightarrow> bytes list \<Rightarrow> filesystem \<Rightarrow> filesystem result" where
  "write_index base bs fs = rbind (TraceIndexWriter_new base fs) (\<lambda>s.
     rbind (write_buffers bs s) TraceIndexWriter_delete)"

lemma write_buffers_written:
  assumes "index_written base gs g s" "length (concat gs) + length g + length xs < 2 ^ 31"
    and "list_all (\<lambda>x. length (cycle_data x) \<le> MaxFileSize) xs"
  shows "\<exists>s' gs' g'. write_buffers (map cycle_data xs) s = Inr s' \<and>
    index_written base gs' g' s' \<and> concat gs' @ g' = concat gs @ g @ xs"
  using assms
proof (induction xs arbitrary: s gs g)
  case (Cons x xs)
  obtain s1 gs1 g1 where s1: "IndexWriter_Write (cycle_data x) (of_nat (length (cycle_data x))) s = Inr s1"
    "index_written base gs1 g1 s1" "concat gs1 @ g1 = concat gs @ g @ [x]"
    using write_written [OF Cons.prems(1), of x] Cons.prems(2,3) by auto
  have "length (concat gs1) + length g1 + length xs < 2 ^ 31"
    using Cons.prems(2) arg_cong [OF s1(3), of length] by simp
  then obtain s' gs' g' where "write_buffers (map cycle_data xs) s1 = Inr s'" "index_written base gs' g' s'"
      "concat gs' @ g' = concat gs1 @ g1 @ xs"
    using Cons.IH [OF s1(2)] Cons.prems(3) by auto
  then show ?case using s1 by (metis append.assoc append_Cons append_Nil list.simps(9) rbind_simps(2) write_buffers.simps(2))
qed auto

lemma index_files_written:
  assumes "index_written base gs [] (w, fs)" "list_all cycle_ok (concat gs)" "length (concat gs) < 2 ^ 31"
    and "list_all (\<lambda>c. \<not> is_space c) base"
  shows "\<exists>es. ParseIndexFile fs (index_path base) = Inr es \<and> index_files fs es gs"
proof -
  note i = assms(1) [unfolded index_written_def prod.case]
  let ?es = "map (\<lambda>(p, n). \<lparr> ent_path = p, ent_cycle = Some (of_nat n) \<rparr>) (index_lines base gs)"
  have len: "length gs < 2 ^ 31" using i assms(3) length_concat_ge [of gs] by linarith
  have group: "gs ! k \<noteq> []" "length (gs ! k) \<le> length (concat gs)" "list_all cycle_ok (gs ! k)" if "k < length gs" for k
  proof -
    have "gs ! k \<in> set gs" using that by simp
    then show "gs ! k \<noteq> []" "list_all cycle_ok (gs ! k)" using i assms(2) by (metis, auto simp: list_all_iff)
    show "length (gs ! k) \<le> length (concat gs)"
      using concat_take_Suc [OF that] concat_take_le [of "Suc k" gs] by simp
  qed
  have "good_at (concat (map (\<lambda>(p, n). index_line p n) (index_lines base gs))) (istream_new (index_text base gs))"
    by (simp add: good_at_def istream_new_def index_text_def)
  moreover have "list_all (\<lambda>(p, n). plain_word p \<and> n < 2 ^ 32) (index_lines base gs)"
    using group(2) len assms(3) data_path_plain [OF assms(4)]
    by (fastforce simp: index_lines_def list_all_iff)
  ultimately have "parse_entries (istream_new (index_text base gs)) = ?es"
    by (intro parse_entries_lines [where blanks = "[]"]) (simp_all add: istream_new_def)
  moreover have "index_files fs ?es gs"
    using i group by (auto simp: index_files_def list_all2_conv_all_nth index_lines_def)
  ultimately show ?thesis using i by (simp add: ParseIndexFile_def)
qed

lemma index_opens:
  assumes "ParseIndexFile fs path = Inr es" "index_files fs es gs"
  shows "\<exists>r. TraceIndexReader_new fs path = Inr r \<and> ir_Entries r = es \<and> index_at gs 0 r"
proof (cases "gs = []")
  case True
  then show ?thesis using assms
    by (simp add: TraceIndexReader_new_def UpdateTraceBinary_def index_files_def index_at_def)
next
  case False
  then have "\<exists>r'. UpdateTraceBinary fs \<lparr> ir_Entries = es, ir_EntryIndex = 0, ir_Cycle = 0, ir_pTraceBinary = None \<rparr> = Inr r' \<and>
      ir_Entries r' = es \<and> index_at gs 0 r'"
    using index_open_at [of fs "\<lparr> ir_Entries = es, ir_EntryIndex = 0, ir_Cycle = 0, ir_pTraceBinary = None \<rparr>" gs] assms(2)
    by simp
  then show ?thesis using assms(1) by (simp add: TraceIndexReader_new_def)
qed

text \<open>Closing the writer leaves files the reader opens at the first cycle.\<close>

lemma index_reads_back:
  assumes "index_written base gs g s" "list_all cycle_ok (concat gs @ g)" "length (concat gs @ g) < 2 ^ 31"
    and "list_all (\<lambda>c. \<not> is_space c) base"
  shows "\<exists>fs r gs'. TraceIndexWriter_delete s = Inr fs \<and> TraceIndexReader_new fs (index_path base) = Inr r \<and>
    index_files fs (ir_Entries r) gs' \<and> index_at gs' 0 r \<and> concat gs' = concat gs @ g \<and>
    index_serves fs r (map cycle_view (concat gs @ g))"
proof -
  obtain w fs gs' where f: "FlushData s = Inr (w, fs)" "index_written base gs' [] (w, fs)" "concat gs' = concat gs @ g"
    using flush_written [OF assms(1)] assms(3) by fastforce
  obtain es where es: "ParseIndexFile fs (index_path base) = Inr es" "index_files fs es gs'"
    using index_files_written [OF f(2)] assms(2-4) f(3) by auto
  obtain r where r: "TraceIndexReader_new fs (index_path base) = Inr r" "ir_Entries r = es" "index_at gs' 0 r"
    using index_opens [OF es] by blast
  have "index_serves fs r (map cycle_view (concat gs @ g))"
    using es(2) r f(3) assms(3) by (auto simp: index_serves_def intro!: exI [of _ gs'] exI [of _ 0])
  then show ?thesis using f(1,3) es(2) r by (auto simp: TraceIndexWriter_delete_def)
qed

section \<open>Property\<close>

text \<open>
  C36. What the index writer wrote the index reader reads: with the cycles of a run split over files of
  256 MB, and the index naming each file with its count, reading on from the front shows every cycle in
  order and the end behind the last, and skipping k cycles at once from the front stands where k single
  steps do; but skipping exactly to the end throws, where stepping there does not.
\<close>

theorem index_trace_roundtrip:
  assumes "list_all cycle_ok xs" "list_all (\<lambda>x. length (cycle_data x) \<le> MaxFileSize) xs" "length xs < 2 ^ 31"
    and "range (data_path base) \<union> {index_path base} \<subseteq> fs_writable fs" "list_all (\<lambda>c. \<not> is_space c) base"
    and "k \<le> length xs"
  shows "\<exists>fs' r r'. write_index base (map cycle_data xs) fs = Inr fs' \<and>
    TraceIndexReader_new fs' (index_path base) = Inr r \<and>
    repeat_next (IndexReader_Next fs') k r = Inr r' \<and> IndexReader_IsEnd r' = (k = length xs) \<and>
    (if k < length xs then
       IndexReader_GetCycle r' = Inr (Some (cycle_view (xs ! k))) \<and>
       rbind (IndexReader_NextN fs' (of_nat k) r) IndexReader_GetCycle = Inr (Some (cycle_view (xs ! k)))
     else IndexReader_NextN fs' (of_nat k) r = Inl TraceException)"
proof -
  obtain s0 where s0: "TraceIndexWriter_new base fs = Inr s0" "index_written base [] [] s0"
    using assms(4) by (auto simp: TraceIndexWriter_new_def create_file_def index_written_def index_text_def
        index_lines_def text_bytes_def)
  obtain s gs g where s: "write_buffers (map cycle_data xs) s0 = Inr s" "index_written base gs g s" "concat gs @ g = xs"
    using write_buffers_written [OF s0(2) _ assms(2)] assms(3) by auto
  obtain fs' r gs' where r: "TraceIndexWriter_delete s = Inr fs'" "TraceIndexReader_new fs' (index_path base) = Inr r"
    "index_files fs' (ir_Entries r) gs'" "index_at gs' 0 r" "concat gs' = xs" and serves: "index_serves fs' r (map cycle_view xs)"
    using index_reads_back [OF s(2)] s(3) assms(1,3,5) by auto
  have u: "unat (of_nat k :: uint32) = k" by (rule unat_of_nat_32) (use assms(3,6) in simp)
  obtain r' where r': "repeat_next (IndexReader_Next fs') k r = Inr r'" "IndexReader_IsEnd r' = (k = length xs)"
    "k < length xs \<longrightarrow> IndexReader_GetCycle r' = Inr (Some (cycle_view (xs ! k)))"
    using index_reader.reads_in_order [OF serves, of k] assms(6) by (auto simp: IndexReader_ITraceReader_def)
  have skip: "rbind (IndexReader_NextN fs' (of_nat k) r) IndexReader_GetCycle = Inr (Some (cycle_view (xs ! k)))"
    if k: "k < length xs"
  proof -
    obtain r2 where r2: "IndexReader_NextN fs' (of_nat k) r = Inr r2" "index_serves fs' r2 (drop k (map cycle_view xs))"
      using index_reader.skip [OF serves, of "of_nat k"] u k by (auto simp: IndexReader_ITraceReader_def)
    moreover have "drop k (map cycle_view xs) = cycle_view (xs ! k) # map cycle_view (drop (Suc k) xs)"
      using k by (simp add: drop_map Cons_nth_drop_Suc [symmetric])
    ultimately show ?thesis using index_reader.current by (fastforce simp: IndexReader_ITraceReader_def)
  qed
  have "IndexReader_NextN fs' (of_nat k) r = Inl TraceException" if "\<not> k < length xs"
    by (rule index_skip_to_end [of fs' r gs' 0]) (use r u that assms(3,6) in simp_all)
  then show ?thesis using s0(1) s(1) r(1,2) r' skip
    by (intro exI [of _ fs'] exI [of _ r] exI [of _ r']) (simp add: write_index_def)
qed

lemma index_trace_roundtrip_witness:
  "\<exists>fs' r. write_index ''t'' (map cycle_data [sample_cycle, sample_cycle]) \<lparr> fs_files = Map.empty, fs_writable = UNIV \<rparr> = Inr fs' \<and>
    TraceIndexReader_new fs' ''t.tidx'' = Inr r \<and>
    rbind (IndexReader_NextN fs' 1 r) IndexReader_GetCycle = Inr (Some (cycle_view sample_cycle))"
proof -
  have p: "index_path ''t'' = ''t.tidx''" by (simp add: index_path_def)
  have n: "length (cycle_data sample_cycle) \<le> MaxFileSize"
    using sample_cycle_size by (simp add: MaxFileSize_def)
  obtain fs' r where "write_index ''t'' (map cycle_data [sample_cycle, sample_cycle])
      \<lparr> fs_files = Map.empty, fs_writable = UNIV \<rparr> = Inr fs'" "TraceIndexReader_new fs' (index_path ''t'') = Inr r"
    "rbind (IndexReader_NextN fs' (of_nat 1) r) IndexReader_GetCycle = Inr (Some (cycle_view ([sample_cycle, sample_cycle] ! 1)))"
    using index_trace_roundtrip [OF sample_cycle_ok, of "''t''" "\<lparr> fs_files = Map.empty, fs_writable = UNIV \<rparr>" 1] n
    by (auto simp: is_space_def)
  then show ?thesis by (intro exI [of _ fs'] exI [of _ r]) (simp add: p)
qed

end
