(* ===== verification/Logger.thy ===== *)
theory Logger
  imports TraceIndexLaws
begin

text \<open>
  \<^verbatim>\<open>lib/trace/Logger.cpp\<close> and \<^verbatim>\<open>include/rafi/trace/ILoggerTarget.h\<close>: the recorder the
  emulator calls around every cycle. The configuration is taken as fixed after construction. What a
  call does to the files is part of its state.
\<close>

section \<open>Types\<close>

record LoggerConfig =
  lc_enabled :: bool
  lc_enableDumpFpReg :: bool
  lc_enableDumpIntReg :: bool
  lc_enableDumpHostIo :: bool
  lc_path :: string

text \<open>The virtual functions of \<open>ILoggerTarget\<close>.\<close>

record 's ILoggerTarget =
  lt_GetHostIoValue :: "'s \<Rightarrow> uint32 result"
  lt_GetPc :: "'s \<Rightarrow> uint64"
  lt_CopyIntReg32 :: "'s \<Rightarrow> NodeIntReg32"
  lt_CopyIntReg64 :: "'s \<Rightarrow> NodeIntReg64"
  lt_CopyFpReg :: "'s \<Rightarrow> NodeFpReg"
  lt_GetEventList :: "'s \<Rightarrow> Event list"

record Logger =
  lg_XLEN :: XLEN
  lg_Config :: LoggerConfig
  lg_pTraceWriter :: "TraceIndexWriter option"
  lg_pCurrentCycle :: "BinaryCycleBuilder option"

text \<open>The codes of the enumerations, as the structs of an event hold them.\<close>

fun MemoryAccessType_code :: "MemoryAccessType \<Rightarrow> uint32" where
  "MemoryAccessType_code Instruction = 0"
| "MemoryAccessType_code Load = 2"
| "MemoryAccessType_code Store = 3"

fun TrapType_code :: "TrapType \<Rightarrow> uint32" where
  "TrapType_code Interrupt = 0"
| "TrapType_code Exception = 1"
| "TrapType_code Return = 2"

fun event_node :: "Event \<Rightarrow> TraceNode" where
  "event_node (OpEvent insn priv) = OpNode \<lparr> oe_insn = insn, oe_priv = ucast (PrivilegeLevel_code priv) \<rparr>"
| "event_node (TrapEvent t l l' cause v) = TrapNode \<lparr> te_trapType = TrapType_code t,
     te_from = ucast (PrivilegeLevel_code l), te_to = ucast (PrivilegeLevel_code l'), te_cause = cause, te_trapValue = v \<rparr>"
| "event_node (MemoryEvent t n v va pa) = MemoryNode \<lparr> me_accessType = MemoryAccessType_code t, me_size = n,
     me_value = v, me_vaddr = va, me_paddr = pa \<rparr>"

section \<open>Operations\<close>

definition Logger_new :: "XLEN \<Rightarrow> LoggerConfig \<Rightarrow> filesystem \<Rightarrow> (Logger \<times> filesystem) result" where
  "Logger_new xlen config fs =
     (let lg = \<lparr> lg_XLEN = xlen, lg_Config = config, lg_pTraceWriter = None, lg_pCurrentCycle = None \<rparr> in
      if lc_enabled config
      then rbind (TraceIndexWriter_new (lc_path config) fs) (\<lambda>(w, fs). Inr (lg\<lparr> lg_pTraceWriter := Some w \<rparr>, fs))
      else Inr (lg, fs))"

definition Logger_delete :: "Logger \<times> filesystem \<Rightarrow> filesystem result" where
  "Logger_delete s = (case lg_pTraceWriter (fst s) of
      None \<Rightarrow> Inr (snd s)
    | Some w \<Rightarrow> TraceIndexWriter_delete (w, snd s))"

definition Logger_BeginCycle :: "int \<Rightarrow> uint64 \<Rightarrow> Logger \<Rightarrow> Logger result" where
  "Logger_BeginCycle cycle pc lg =
     (if \<not> lc_enabled (lg_Config lg) then Inr lg
      else rbind (BinaryCycleBuilder_new (word_of_int cycle) (XLEN_code (lg_XLEN lg)) pc) (\<lambda>b.
        Inr (lg\<lparr> lg_pCurrentCycle := Some b \<rparr>)))"

text \<open>\<open>m_pCurrentCycle->Add(node)\<close>.\<close>

definition current_Add :: "TraceNode \<Rightarrow> Logger \<Rightarrow> Logger result" where
  "current_Add node lg = (case lg_pCurrentCycle lg of
      None \<Rightarrow> Inl Undefined
    | Some b \<Rightarrow> rbind (Builder_Add node b) (\<lambda>b. Inr (lg\<lparr> lg_pCurrentCycle := Some b \<rparr>)))"

definition Logger_RecordState :: "'s ILoggerTarget \<Rightarrow> 's \<Rightarrow> Logger \<Rightarrow> Logger result" where
  "Logger_RecordState lt target lg = (let config = lg_Config lg in
     if \<not> lc_enabled config then Inr lg
     else rbind
       (if lc_enableDumpIntReg config then
          (case lg_XLEN lg of
             XLEN32 \<Rightarrow> current_Add (IntReg32Node (lt_CopyIntReg32 lt target)) lg
           | XLEN64 \<Rightarrow> current_Add (IntReg64Node (lt_CopyIntReg64 lt target)) lg
           | XLEN128 \<Rightarrow> Inl ProcessExit)
        else Inr lg) (\<lambda>lg. rbind
       (if lc_enableDumpFpReg config then current_Add (FpRegNode (lt_CopyFpReg lt target)) lg else Inr lg) (\<lambda>lg.
       if lc_enableDumpHostIo config
       then rbind (lt_GetHostIoValue lt target) (\<lambda>v. current_Add (IoNode \<lparr> io_hostIo = v, io_reserved = 0 \<rparr>) lg)
       else Inr lg)))"

primrec record_events :: "Event list \<Rightarrow> Logger \<Rightarrow> Logger result" where
  "record_events [] lg = Inr lg"
| "record_events (e # es) lg = rbind (current_Add (event_node e) lg) (record_events es)"

definition Logger_RecordEvent :: "'s ILoggerTarget \<Rightarrow> 's \<Rightarrow> Logger \<Rightarrow> Logger result" where
  "Logger_RecordEvent lt target lg =
     (if \<not> lc_enabled (lg_Config lg) then Inr lg
      else record_events (lt_GetEventList lt target) lg)"

definition Logger_EndCycle :: "Logger \<times> filesystem \<Rightarrow> (Logger \<times> filesystem) result" where
  "Logger_EndCycle s = (case s of (lg, fs) \<Rightarrow>
     if \<not> lc_enabled (lg_Config lg) then Inr (lg, fs)
     else (case (lg_pCurrentCycle lg, lg_pTraceWriter lg) of
         (Some b, Some w) \<Rightarrow> rbind (Builder_Break b) (\<lambda>b.
           rbind (IndexWriter_Write b (of_nat (length b)) (w, fs)) (\<lambda>(w, fs).
             Inr (lg\<lparr> lg_pTraceWriter := Some w, lg_pCurrentCycle := None \<rparr>, fs)))
       | _ \<Rightarrow> Inl Undefined))"

section \<open>Laws\<close>

text \<open>What a cycle's entry holds: the state before the cycle and the events of the cycle.\<close>

definition state_nodes :: "'s ILoggerTarget \<Rightarrow> XLEN \<Rightarrow> LoggerConfig \<Rightarrow> 's \<Rightarrow> TraceNode list result" where
  "state_nodes lt xlen config target = rbind
     (if lc_enableDumpHostIo config
      then rbind (lt_GetHostIoValue lt target) (\<lambda>v. Inr [IoNode \<lparr> io_hostIo = v, io_reserved = 0 \<rparr>])
      else Inr []) (\<lambda>io.
     Inr ((if lc_enableDumpIntReg config then
             (if xlen = XLEN32 then [IntReg32Node (lt_CopyIntReg32 lt target)] else [IntReg64Node (lt_CopyIntReg64 lt target)])
           else []) @
          (if lc_enableDumpFpReg config then [FpRegNode (lt_CopyFpReg lt target)] else []) @ io))"

definition entry :: "XLEN \<Rightarrow> int \<Rightarrow> uint64 \<Rightarrow> TraceNode list \<Rightarrow> CycleSpec" where
  "entry xlen cycle pc nds = \<lparr> cs_cycle = word_of_int cycle, cs_xlen = XLEN_code xlen, cs_pc = pc, cs_nodes = nds \<rparr>"

lemma Builder_AddAll_append:
  "Builder_AddAll (nds @ nds') b = rbind (Builder_AddAll nds b) (Builder_AddAll nds')"
  by (induction nds arbitrary: b) (simp_all add: rbind_def split: sum.split)

lemma current_Add_some:
  assumes "lg_pCurrentCycle lg = Some b"
  shows "current_Add nd lg = rbind (Builder_Add nd b) (\<lambda>b. Inr (lg\<lparr> lg_pCurrentCycle := Some b \<rparr>))"
  using assms by (simp add: current_Add_def)

lemma record_events_eq:
  assumes "lg_pCurrentCycle lg = Some b"
  shows "record_events es lg = rbind (Builder_AddAll (map event_node es) b) (\<lambda>b. Inr (lg\<lparr> lg_pCurrentCycle := Some b \<rparr>))"
  using assms
proof (induction es arbitrary: lg b)
  case (Cons e es)
  show ?case
  proof (cases "Builder_Add (event_node e) b")
    case (Inr b')
    then show ?thesis using Cons.IH [of "lg\<lparr> lg_pCurrentCycle := Some b' \<rparr>" b'] by (simp add: current_Add_some [OF Cons.prems])
  qed (simp add: current_Add_some [OF Cons.prems])
qed simp

lemma RecordState_eq:
  assumes "lc_enabled (lg_Config lg)" "lg_pCurrentCycle lg = Some b" "lg_XLEN lg \<noteq> XLEN128"
    and "state_nodes lt (lg_XLEN lg) (lg_Config lg) target = Inr nds"
  shows "Logger_RecordState lt target lg = rbind (Builder_AddAll nds b) (\<lambda>b. Inr (lg\<lparr> lg_pCurrentCycle := Some b \<rparr>))"
  using assms
  by (cases "lg_XLEN lg"; cases "lc_enableDumpHostIo (lg_Config lg)"; cases "lc_enableDumpFpReg (lg_Config lg)";
      cases "lc_enableDumpIntReg (lg_Config lg)")
    (auto simp: Logger_RecordState_def state_nodes_def Let_def current_Add_def rbind_assoc rbind_Inr_iff)

text \<open>The two halves of a recorded cycle: before it runs and after.\<close>

lemma begin_cycle:
  assumes "lc_enabled (lg_Config lg)" "lg_XLEN lg \<noteq> XLEN128" "state_nodes lt (lg_XLEN lg) (lg_Config lg) target = Inr nds"
    and "build_cycle (word_of_int cycle) (XLEN_code (lg_XLEN lg)) pc (nds @ evs) = Inr bs"
  shows "\<exists>b. rbind (Logger_BeginCycle cycle pc lg) (Logger_RecordState lt target) = Inr (lg\<lparr> lg_pCurrentCycle := Some b \<rparr>) \<and>
    rbind (Builder_AddAll evs b) Builder_Break = Inr bs"
proof -
  obtain b0 b1 b2 where b: "BinaryCycleBuilder_new (word_of_int cycle) (XLEN_code (lg_XLEN lg)) pc = Inr b0"
    "Builder_AddAll nds b0 = Inr b1" "Builder_AddAll evs b1 = Inr b2" "Builder_Break b2 = Inr bs"
    using assms(4) by (auto simp: build_cycle_def Builder_AddAll_append rbind_Inr_iff)
  have "Logger_RecordState lt target (lg\<lparr> lg_pCurrentCycle := Some b0 \<rparr>) = Inr (lg\<lparr> lg_pCurrentCycle := Some b1 \<rparr>)"
    using RecordState_eq [of "lg\<lparr> lg_pCurrentCycle := Some b0 \<rparr>" b0 lt target nds] assms(1-3) b(2) by simp
  then show ?thesis using b assms(1) by (intro exI [of _ b1]) (simp add: Logger_BeginCycle_def)
qed

lemma end_cycle:
  assumes "lc_enabled (lg_Config lg)" "lg_pCurrentCycle lg = Some b" "lg_pTraceWriter lg = Some w"
    and "rbind (Builder_AddAll (map event_node (lt_GetEventList lt target)) b) Builder_Break = Inr bs"
    and "IndexWriter_Write bs (of_nat (length bs)) (w, fs) = Inr (w', fs')"
  shows "rbind (Logger_RecordEvent lt target lg) (\<lambda>lg. Logger_EndCycle (lg, fs)) =
    Inr (lg\<lparr> lg_pTraceWriter := Some w', lg_pCurrentCycle := None \<rparr>, fs')"
  using assms by (auto simp: Logger_RecordEvent_def record_events_eq Logger_EndCycle_def rbind_Inr_iff)

lemma disabled_logger [simp]:
  assumes "\<not> lc_enabled (lg_Config lg)"
  shows "Logger_BeginCycle cycle pc lg = Inr lg" "Logger_RecordState lt target lg = Inr lg"
    "Logger_RecordEvent lt target lg = Inr lg" "Logger_EndCycle (lg, fs) = Inr (lg, fs)"
  using assms by (simp_all add: Logger_BeginCycle_def Logger_RecordState_def Logger_RecordEvent_def Logger_EndCycle_def)

end
