(* ===== verification/EmulatorTrace.thy ===== *)
theory EmulatorTrace
  imports Run GdbEmulator Logger
begin

text \<open>
  \<^verbatim>\<open>Emulator::Process\<close> with its trace logger: the same loop as \<open>Emulator_Process\<close>, with
  the recording around every cycle. Recording does not change the run, and the trace that a run leaves
  reads back as the states and events of its cycles.
\<close>

section \<open>The loop\<close>

definition System_ILoggerTarget :: "System ILoggerTarget" where
  "System_ILoggerTarget = \<lparr>
     lt_GetHostIoValue = System_GetHostIoValue,
     lt_GetPc = System_GetPc,
     lt_CopyIntReg32 = System_CopyIntReg32,
     lt_CopyIntReg64 = System_CopyIntReg64,
     lt_CopyFpReg = System_CopyFpReg,
     lt_GetEventList = sys_EventList \<rparr>"

record LoggedEmulator =
  le_Emulator :: Emulator
  le_Logger :: Logger
  le_files :: filesystem

text \<open>The calls of the logger before a cycle and after it. \<open>BeginCycle\<close> is given the limit of the run.\<close>

definition log_before :: "int \<Rightarrow> LoggedEmulator \<Rightarrow> LoggedEmulator result" where
  "log_before cycle s = (let sys = emu_System (le_Emulator s) in
     rbind (Logger_BeginCycle cycle (System_GetPc sys) (le_Logger s)) (\<lambda>lg.
     rbind (Logger_RecordState System_ILoggerTarget sys lg) (\<lambda>lg. Inr (s\<lparr> le_Logger := lg \<rparr>))))"

definition log_end :: "LoggedEmulator \<Rightarrow> LoggedEmulator result" where
  "log_end s = rbind (Logger_EndCycle (le_Logger s, le_files s)) (\<lambda>(lg, fs).
     Inr (s\<lparr> le_Logger := lg, le_files := fs \<rparr>))"

definition log_after :: "LoggedEmulator \<Rightarrow> LoggedEmulator result" where
  "log_after s = rbind (Logger_RecordEvent System_ILoggerTarget (emu_System (le_Emulator s)) (le_Logger s)) (\<lambda>lg.
     log_end (s\<lparr> le_Logger := lg \<rparr>))"

text \<open>One turn of the loop; the flag says that it leaves the loop.\<close>

definition logged_turn :: "host \<Rightarrow> int \<Rightarrow> uint32 \<Rightarrow> int \<Rightarrow> LoggedEmulator \<Rightarrow> (LoggedEmulator \<times> bool) result" where
  "logged_turn h skip condition cycle s = (let dumpEnabled = skip \<le> emu_Cycle (le_Emulator s) in
     rbind (if dumpEnabled then log_before cycle s else Inr s) (\<lambda>s.
     rbind (IsStopConditionFilledPre condition (le_Emulator s)) (\<lambda>stop.
       if stop then rbind (if dumpEnabled then log_end s else Inr s) (\<lambda>s. Inr (s, True))
       else rbind (Emulator_ProcessCycle h (le_Emulator s)) (\<lambda>e. let s = s\<lparr> le_Emulator := e \<rparr> in
         rbind (if dumpEnabled then log_after s else Inr s) (\<lambda>s.
           Inr (s, IsStopConditionFilledPost condition (le_Emulator s)))))))"

text \<open>
  An exception leaves the files as the turn found them: the only call that writes is the last of the
  turn, and it has written nothing when it fails.
\<close>

partial_function (option) LoggedEmulator_Process ::
    "host \<Rightarrow> int \<Rightarrow> uint32 \<Rightarrow> int \<Rightarrow> LoggedEmulator \<Rightarrow> (emu_error \<times> filesystem + LoggedEmulator) option" where
  "LoggedEmulator_Process h skip condition cycle s =
     (if emu_Cycle (le_Emulator s) < cycle \<or> cycle = CycleForever then
        (case logged_turn h skip condition cycle s of
           Inl err \<Rightarrow> Some (Inl (err, le_files s))
         | Inr (s', stop) \<Rightarrow> let e = le_Emulator s' in
             if stop then Some (Inr s')
             else if emu_Cycle e = 2147483647 then Some (Inl (Undefined, le_files s'))
             else LoggedEmulator_Process h skip condition cycle (s'\<lparr> le_Emulator := e\<lparr> emu_Cycle := emu_Cycle e + 1 \<rparr> \<rparr>))
      else Some (Inr s))"

section \<open>Recording does not change the run\<close>

lemma log_keeps_emulator:
  "log_before cycle s = Inr s' \<Longrightarrow> le_Emulator s' = le_Emulator s"
  "log_end s = Inr s' \<Longrightarrow> le_Emulator s' = le_Emulator s"
  "log_after s = Inr s' \<Longrightarrow> le_Emulator s' = le_Emulator s"
  by (auto simp: log_before_def log_end_def log_after_def Let_def rbind_Inr_iff)

lemma logged_turn_cases:
  assumes "logged_turn h skip condition cycle s = Inr (s', stop)"
  shows "(stop \<and> IsStopConditionFilledPre condition (le_Emulator s) = Inr True \<and> le_Emulator s' = le_Emulator s) \<or>
    (IsStopConditionFilledPre condition (le_Emulator s) = Inr False \<and>
     Emulator_ProcessCycle h (le_Emulator s) = Inr (le_Emulator s') \<and>
     stop = IsStopConditionFilledPost condition (le_Emulator s'))"
  using assms
  by (auto simp: logged_turn_def Let_def rbind_Inr_iff split: if_splits dest!: log_keeps_emulator)

lemma Process_turn:
  assumes "logged_turn h skip condition cycle s = Inr (s', stop)" "emu_Cycle (le_Emulator s) < cycle \<or> cycle = CycleForever"
  shows "Emulator_Process h condition cycle (le_Emulator s) = (let e = le_Emulator s' in
    if stop then Some (Inr e) else if emu_Cycle e = 2147483647 then Some (Inl Undefined)
    else Emulator_Process h condition cycle (e\<lparr> emu_Cycle := emu_Cycle e + 1 \<rparr>))"
  using logged_turn_cases [OF assms(1)] assms(2) by (subst Emulator_Process.simps) (auto simp: Let_def)

section \<open>What a run records\<close>

text \<open>The entries of \<open>n\<close> cycles: state before and events of each; \<open>limit\<close> is the number all get.\<close>

primrec run_log :: "host \<Rightarrow> XLEN \<Rightarrow> LoggerConfig \<Rightarrow> int \<Rightarrow> nat \<Rightarrow> Emulator \<Rightarrow> CycleSpec list result" where
  "run_log h xlen config limit 0 e = Inr []"
| "run_log h xlen config limit (Suc n) e =
     rbind (state_nodes System_ILoggerTarget xlen config (emu_System e)) (\<lambda>nds.
     rbind (Emulator_ProcessCycle h e) (\<lambda>e'.
     rbind (run_log h xlen config limit n (e'\<lparr> emu_Cycle := emu_Cycle e' + 1 \<rparr>)) (\<lambda>xs.
       Inr (entry xlen limit (System_GetPc (emu_System e)) (nds @ map event_node (sys_EventList (emu_System e'))) # xs))))"

lemma state_nodes_ok:
  assumes "state_nodes System_ILoggerTarget xlen config sys = Inr nds" "xlen \<noteq> XLEN128"
  shows "list_all (node_ok (XLEN_code xlen)) (nds @ map event_node es)"
proof -
  have "node_ok x (event_node e)" for x e by (cases e) (simp_all add: node_ok_def)
  moreover have "list_all (node_ok (XLEN_code xlen)) nds"
    using assms by (cases xlen)
      (auto simp: state_nodes_def rbind_Inr_iff node_ok_def System_ILoggerTarget_def System_CopyIntReg32_def
        System_CopyIntReg64_def System_CopyFpReg_def IntRegFile_Copy32_def IntRegFile_Copy64_def FpRegFile_Copy_def
        split: if_splits)
  ultimately show ?thesis by (auto simp: list_all_iff)
qed

lemma entry_ok:
  assumes "state_nodes System_ILoggerTarget xlen config sys = Inr nds" "xlen \<noteq> XLEN128"
  shows "cycle_ok (entry xlen limit pc (nds @ map event_node es))"
  using state_nodes_ok [OF assms] by (simp add: cycle_ok_def entry_def)

lemma build_entry:
  assumes "cycle_ok (entry xlen limit pc nds)" "length (cycle_data (entry xlen limit pc nds)) \<le> 4096"
  shows "build_cycle (word_of_int limit) (XLEN_code xlen) pc nds = Inr (cycle_data (entry xlen limit pc nds))"
  using assms build_cycle_eq [of "XLEN_code xlen" nds] by (simp add: cycle_ok_def entry_def cycle_data_def)

lemma run_log_ok:
  "run_log h xlen config limit n e = Inr xs \<Longrightarrow> xlen \<noteq> XLEN128 \<Longrightarrow> list_all cycle_ok xs \<and> length xs = n"
  by (induction n arbitrary: e xs) (auto simp: rbind_Inr_iff entry_ok)

text \<open>A cycle of up to 88 events fits the builder's buffer.\<close>

lemma node_size:
  "node_ok x nd \<Longrightarrow> length (framed (node_id nd) (node_body nd)) \<le> 264"
  "length (framed (node_id (event_node e)) (node_body (event_node e))) \<le> 40"
proof -
  show "node_ok x nd \<Longrightarrow> length (framed (node_id nd) (node_body nd)) \<le> 264"
    by (cases nd) (simp_all add: node_ok_def node_body_def layout_defs NodeIntReg32_bytes_def NodeReg64_bytes_def
        length_concat sum_list_triv comp_def)
  show "length (framed (node_id (event_node e)) (node_body (event_node e))) \<le> 40"
    by (cases e) (simp_all add: node_body_def layout_defs)
qed

lemma nodes_size: "list_all (\<lambda>nd. length (framed (node_id nd) (node_body nd)) \<le> m) nds \<Longrightarrow> length (nodes_bytes nds) \<le> m * length nds"
  by (induction nds) auto

lemma entry_size:
  assumes "state_nodes System_ILoggerTarget xlen config sys = Inr nds" "xlen \<noteq> XLEN128" "length es \<le> 80"
  shows "length (cycle_data (entry xlen limit pc (nds @ map event_node es))) \<le> 4096"
proof -
  have "length (nodes_bytes (map event_node es)) \<le> 40 * length (map event_node es)"
    by (rule nodes_size) (use node_size(2) in \<open>auto simp: list_all_iff\<close>)
  moreover have "length (nodes_bytes nds) \<le> 264 * length nds"
    by (rule nodes_size) (use state_nodes_ok [OF assms(1,2), of "[]"] node_size(1) in \<open>auto simp: list_all_iff\<close>)
  moreover have "length nds \<le> 3" using assms(1) by (auto simp: state_nodes_def rbind_Inr_iff split: if_splits)
  ultimately show ?thesis using assms(3)
    by (simp add: entry_def cycle_data_def cycle_bytes_def NodeBasic_bytes_def)
qed

text \<open>
  A logger that is ready for the next cycle, with \<open>xs\<close> recorded. While they fit one file they are
  in the writer's buffer only, and the files are those of the start.
\<close>

definition log_ready :: "XLEN \<Rightarrow> LoggerConfig \<Rightarrow> filesystem \<Rightarrow> CycleSpec list \<Rightarrow> LoggedEmulator \<Rightarrow> bool" where
  "log_ready xlen config fs xs s \<longleftrightarrow> (\<exists>w gs g. le_Logger s = \<lparr> lg_XLEN = xlen, lg_Config = config,
     lg_pTraceWriter = Some w, lg_pCurrentCycle = None \<rparr> \<and> index_written (lc_path config) gs g (w, le_files s) \<and>
     concat gs @ g = xs \<and> (length (cycles_data xs) \<le> MaxFileSize \<longrightarrow> gs = [] \<and> le_files s = fs))"

lemma write_ready:
  assumes "log_ready xlen config fs ys s" "length (cycle_data x) \<le> MaxFileSize" "length ys < 2 ^ 31"
  obtains w w' fs' where "le_Logger s = \<lparr> lg_XLEN = xlen, lg_Config = config, lg_pTraceWriter = Some w, lg_pCurrentCycle = None \<rparr>"
    "IndexWriter_Write (cycle_data x) (of_nat (length (cycle_data x))) (w, le_files s) = Inr (w', fs')"
    "log_ready xlen config fs (ys @ [x]) (s\<lparr> le_Logger := \<lparr> lg_XLEN = xlen, lg_Config = config,
       lg_pTraceWriter = Some w', lg_pCurrentCycle = None \<rparr>, le_files := fs' \<rparr>)"
proof -
  obtain w gs g where w: "le_Logger s = \<lparr> lg_XLEN = xlen, lg_Config = config, lg_pTraceWriter = Some w, lg_pCurrentCycle = None \<rparr>"
    "index_written (lc_path config) gs g (w, le_files s)" "concat gs @ g = ys"
    "length (cycles_data ys) \<le> MaxFileSize \<longrightarrow> gs = [] \<and> le_files s = fs" using assms(1) by (auto simp: log_ready_def)
  have "length (concat gs) + length g < 2 ^ 31" using w(3) assms(3) by auto
  then obtain w' fs' gs' g' where i: "IndexWriter_Write (cycle_data x) (of_nat (length (cycle_data x))) (w, le_files s) = Inr (w', fs')"
    "index_written (lc_path config) gs' g' (w', fs')" "concat gs' @ g' = ys @ [x]"
    using write_written [OF w(2) _ assms(2)] w(3) by fastforce
  show ?thesis
  proof (cases "length (cycles_data (ys @ [x])) \<le> MaxFileSize")
    case True
    then have "gs = []" "le_files s = fs" "g = ys" using w(3,4) by (auto simp: cycles_data_def)
    then show ?thesis using that [OF w(1) i(1)] write_buffered [of "lc_path config" ys w "le_files s" x] True w(2) i(1)
      by (auto simp: log_ready_def)
  next
    case False
    then show ?thesis using that [OF w(1) i(1)] i(2,3) by (auto simp: log_ready_def)
  qed
qed

text \<open>The calls before a cycle succeed, whatever its events will be.\<close>

lemma log_before_ready:
  assumes "lc_enabled config" "xlen \<noteq> XLEN128"
    and "le_Logger s = \<lparr> lg_XLEN = xlen, lg_Config = config, lg_pTraceWriter = Some w, lg_pCurrentCycle = None \<rparr>"
    and "state_nodes System_ILoggerTarget xlen config (emu_System (le_Emulator s)) = Inr nds"
    and "x = entry xlen cycle (System_GetPc (emu_System (le_Emulator s))) (nds @ map event_node es)"
    and "length (cycle_data x) \<le> 4096"
  obtains b where "log_before cycle s = Inr (s\<lparr> le_Logger := (le_Logger s)\<lparr> lg_pCurrentCycle := Some b \<rparr> \<rparr>)"
    "rbind (Builder_AddAll (map event_node es) b) Builder_Break = Inr (cycle_data x)"
proof -
  let ?sys = "emu_System (le_Emulator s)"
  have "build_cycle (word_of_int cycle) (XLEN_code xlen) (System_GetPc ?sys) (nds @ map event_node es) = Inr (cycle_data x)"
    unfolding assms(5) by (rule build_entry) (use assms(5,6) entry_ok [OF assms(4,2)] in simp_all)
  then show ?thesis
    using begin_cycle [of "le_Logger s" System_ILoggerTarget ?sys nds cycle "System_GetPc ?sys" "map event_node es"] assms(1-4) that
    by (auto simp: log_before_def Let_def rbind_Inr_iff)
qed

lemma logged_turn_records:
  assumes "log_ready xlen config fs ys s" "lc_enabled config" "xlen \<noteq> XLEN128" "skip \<le> emu_Cycle (le_Emulator s)"
    and "state_nodes System_ILoggerTarget xlen config (emu_System (le_Emulator s)) = Inr nds"
    and "Emulator_ProcessCycle h (le_Emulator s) = Inr e"
    and "x = entry xlen cycle (System_GetPc (emu_System (le_Emulator s))) (nds @ map event_node (sys_EventList (emu_System e)))"
    and "length (cycle_data x) \<le> 4096" "length ys < 2 ^ 31"
  shows "\<exists>s'. logged_turn h skip EmulationStop_None cycle s = Inr (s', False) \<and> le_Emulator s' = e \<and>
    log_ready xlen config fs (ys @ [x]) s'"
proof -
  have m: "length (cycle_data x) \<le> MaxFileSize" using assms(8) by (simp add: MaxFileSize_def)
  obtain w w' fs' where w: "le_Logger s = \<lparr> lg_XLEN = xlen, lg_Config = config, lg_pTraceWriter = Some w, lg_pCurrentCycle = None \<rparr>"
    "IndexWriter_Write (cycle_data x) (of_nat (length (cycle_data x))) (w, le_files s) = Inr (w', fs')"
    "log_ready xlen config fs (ys @ [x]) (s\<lparr> le_Logger := \<lparr> lg_XLEN = xlen, lg_Config = config,
       lg_pTraceWriter = Some w', lg_pCurrentCycle = None \<rparr>, le_files := fs' \<rparr>)"
    by (rule write_ready [OF assms(1) m assms(9)])
  obtain b where b: "log_before cycle s = Inr (s\<lparr> le_Logger := (le_Logger s)\<lparr> lg_pCurrentCycle := Some b \<rparr> \<rparr>)"
    "rbind (Builder_AddAll (map event_node (sys_EventList (emu_System e))) b) Builder_Break = Inr (cycle_data x)"
    by (rule log_before_ready [OF assms(2,3) w(1) assms(5,7,8)])
  define lg where "lg = (le_Logger s)\<lparr> lg_pCurrentCycle := Some b \<rparr>"
  define s' where "s' = s\<lparr> le_Emulator := e, le_Logger := lg\<lparr> lg_pTraceWriter := Some w', lg_pCurrentCycle := None \<rparr>, le_files := fs' \<rparr>"
  have "rbind (Logger_RecordEvent System_ILoggerTarget (emu_System e) lg) (\<lambda>lg. Logger_EndCycle (lg, le_files s)) =
      Inr (lg\<lparr> lg_pTraceWriter := Some w', lg_pCurrentCycle := None \<rparr>, fs')"
    by (rule end_cycle [where b = b and w = w and bs = "cycle_data x"])
      (use w(1,2) assms(2) b(2) in \<open>simp_all add: lg_def System_ILoggerTarget_def\<close>)
  then have "log_after (s\<lparr> le_Logger := lg, le_Emulator := e \<rparr>) = Inr s'"
    by (auto simp: log_after_def log_end_def rbind_Inr_iff s'_def)
  then have "logged_turn h skip EmulationStop_None cycle s = Inr (s', False)"
    using assms(4,6) b(1) by (simp add: logged_turn_def IsStopConditionFilledPre_def IsStopConditionFilledPost_def lg_def)
  moreover have "log_ready xlen config fs (ys @ [x]) s'"
    using w(1,3) by (simp add: log_ready_def s'_def lg_def)
  ultimately show ?thesis by (auto simp: s'_def)
qed

lemma logged_turn_fails:
  assumes "log_ready xlen config fs ys s" "lc_enabled config" "xlen \<noteq> XLEN128" "skip \<le> emu_Cycle (le_Emulator s)"
    and "state_nodes System_ILoggerTarget xlen config (emu_System (le_Emulator s)) = Inr nds"
    and "Emulator_ProcessCycle h (le_Emulator s) = Inl err"
  shows "logged_turn h skip EmulationStop_None cycle s = Inl err"
proof -
  obtain w where w: "le_Logger s = \<lparr> lg_XLEN = xlen, lg_Config = config, lg_pTraceWriter = Some w, lg_pCurrentCycle = None \<rparr>"
    using assms(1) by (auto simp: log_ready_def)
  obtain b where "log_before cycle s = Inr (s\<lparr> le_Logger := (le_Logger s)\<lparr> lg_pCurrentCycle := Some b \<rparr> \<rparr>)"
    by (rule log_before_ready [OF assms(2,3) w assms(5) refl, where es = "[]" and cycle = cycle])
      (use entry_size [OF assms(5,3), where es = "[]"] in auto)
  then show ?thesis using assms(4,6) by (simp add: logged_turn_def IsStopConditionFilledPre_def)
qed

text \<open>The first \<open>n\<close> turns of a longer run.\<close>

lemma logged_steps:
  assumes "log_ready xlen config fs ys s" "lc_enabled config" "xlen \<noteq> XLEN128" "skip \<le> emu_Cycle (le_Emulator s)"
    and "0 \<le> emu_Cycle (le_Emulator s)" "emu_Cycle (le_Emulator s) + int n \<le> cycle" "cycle \<le> 2147483647"
    and "run_log h xlen config cycle n (le_Emulator s) = Inr xs"
    and "list_all (\<lambda>x. length (cycle_data x) \<le> 4096) xs" "length ys + n < 2 ^ 31"
  shows "\<exists>s'. LoggedEmulator_Process h skip EmulationStop_None cycle s = LoggedEmulator_Process h skip EmulationStop_None cycle s' \<and>
    run_cycles h n (le_Emulator s) = Inr (le_Emulator s') \<and> log_ready xlen config fs (ys @ xs) s' \<and>
    emu_Cycle (le_Emulator s') = emu_Cycle (le_Emulator s) + int n"
  using assms(1,4-)
proof (induction n arbitrary: s ys xs)
  case 0
  then show ?case by auto
next
  case (Suc n)
  obtain nds e zs where r: "state_nodes System_ILoggerTarget xlen config (emu_System (le_Emulator s)) = Inr nds"
    "Emulator_ProcessCycle h (le_Emulator s) = Inr e"
    "run_log h xlen config cycle n (e\<lparr> emu_Cycle := emu_Cycle e + 1 \<rparr>) = Inr zs"
    "xs = entry xlen cycle (System_GetPc (emu_System (le_Emulator s))) (nds @ map event_node (sys_EventList (emu_System e))) # zs"
    using Suc.prems(6) by (auto simp: rbind_Inr_iff)
  let ?x = "hd xs"
  obtain s1 where s1: "logged_turn h skip EmulationStop_None cycle s = Inr (s1, False)" "le_Emulator s1 = e"
    "log_ready xlen config fs (ys @ [?x]) s1"
    using logged_turn_records [OF Suc.prems(1) assms(2,3) Suc.prems(2) r(1,2)] r(4) Suc.prems(7,8) by auto
  have c: "emu_Cycle e = emu_Cycle (le_Emulator s)" using Emulator_ProcessCycle_Cycle [OF r(2)] .
  define s2 where "s2 = s1\<lparr> le_Emulator := e\<lparr> emu_Cycle := emu_Cycle e + 1 \<rparr> \<rparr>"
  have "log_ready xlen config fs (ys @ [?x]) s2" using s1(3) by (simp add: s2_def log_ready_def)
  then obtain s' where s': "LoggedEmulator_Process h skip EmulationStop_None cycle s2 = LoggedEmulator_Process h skip EmulationStop_None cycle s'"
    "run_cycles h n (le_Emulator s2) = Inr (le_Emulator s')" "log_ready xlen config fs ((ys @ [?x]) @ zs) s'"
    "emu_Cycle (le_Emulator s') = emu_Cycle (le_Emulator s2) + int n"
    using Suc.IH [of "ys @ [?x]" s2 zs] Suc.prems r(3,4) c by (auto simp: s2_def)
  have "LoggedEmulator_Process h skip EmulationStop_None cycle s = LoggedEmulator_Process h skip EmulationStop_None cycle s2"
    using s1(1,2) Suc.prems(4,5) c by (subst LoggedEmulator_Process.simps) (simp add: s2_def Let_def)
  then show ?case using s' r(2,4) c by (intro exI [of _ s']) (simp add: s2_def)
qed

lemma logged_run_records:
  assumes "log_ready xlen config fs ys s" "lc_enabled config" "xlen \<noteq> XLEN128" "skip \<le> emu_Cycle (le_Emulator s)"
    and "0 \<le> emu_Cycle (le_Emulator s)" "emu_Cycle (le_Emulator s) + int n = cycle" "cycle \<le> 2147483647"
    and "run_log h xlen config cycle n (le_Emulator s) = Inr xs"
    and "list_all (\<lambda>x. length (cycle_data x) \<le> 4096) xs" "length ys + n < 2 ^ 31"
  shows "\<exists>s'. LoggedEmulator_Process h skip EmulationStop_None cycle s = Some (Inr s') \<and>
    run_cycles h n (le_Emulator s) = Inr (le_Emulator s') \<and> log_ready xlen config fs (ys @ xs) s'"
proof -
  have "emu_Cycle (le_Emulator s) + int n \<le> cycle" using assms(6) by simp
  note steps = logged_steps [OF assms(1-5) this assms(7-)]
  then obtain s' where "LoggedEmulator_Process h skip EmulationStop_None cycle s = LoggedEmulator_Process h skip EmulationStop_None cycle s'"
    "run_cycles h n (le_Emulator s) = Inr (le_Emulator s')" "log_ready xlen config fs (ys @ xs) s'"
    "emu_Cycle (le_Emulator s') = cycle" using assms(6) by auto
  moreover from this(4) have "LoggedEmulator_Process h skip EmulationStop_None cycle s' = Some (Inr s')"
    using assms(5,6) by (subst LoggedEmulator_Process.simps) auto
  ultimately show ?thesis by auto
qed

text \<open>A run that a cycle ends by an exception.\<close>

lemma logged_run_fails:
  assumes "log_ready xlen config fs ys s" "lc_enabled config" "xlen \<noteq> XLEN128" "skip \<le> emu_Cycle (le_Emulator s)"
    and "0 \<le> emu_Cycle (le_Emulator s)" "emu_Cycle (le_Emulator s) + int n < cycle" "cycle \<le> 2147483647"
    and "run_log h xlen config cycle n (le_Emulator s) = Inr xs"
    and "list_all (\<lambda>x. length (cycle_data x) \<le> 4096) xs" "length ys + n < 2 ^ 31"
    and "length (cycles_data (ys @ xs)) \<le> MaxFileSize"
    and "run_cycles h n (le_Emulator s) = Inr e" "state_nodes System_ILoggerTarget xlen config (emu_System e) = Inr nds"
    and "Emulator_ProcessCycle h e = Inl err"
  shows "LoggedEmulator_Process h skip EmulationStop_None cycle s = Some (Inl (err, fs))"
proof -
  have "emu_Cycle (le_Emulator s) + int n \<le> cycle" using assms(6) by simp
  note steps = logged_steps [OF assms(1-5) this assms(7-10)]
  then obtain s' where s': "LoggedEmulator_Process h skip EmulationStop_None cycle s = LoggedEmulator_Process h skip EmulationStop_None cycle s'"
    "le_Emulator s' = e" "log_ready xlen config fs (ys @ xs) s'" "emu_Cycle e = emu_Cycle (le_Emulator s) + int n"
    using assms(12) by auto
  have "logged_turn h skip EmulationStop_None cycle s' = Inl err"
    by (rule logged_turn_fails [OF s'(3) assms(2,3)]) (use s'(2,4) assms(4,13,14) in auto)
  moreover have "le_files s' = fs" using s'(3) assms(11) by (auto simp: log_ready_def)
  ultimately show ?thesis using s'(1,2,4) assms(5,6) by (subst s'(1), subst LoggedEmulator_Process.simps) auto
qed

lemma same_emulator: "le_Emulator s = e \<Longrightarrow> s\<lparr> le_Emulator := e \<rparr> = s"
  by (cases s) simp

text \<open>The cycles before the first recorded one: the loop without the logger.\<close>

lemma skipped_steps:
  assumes "emu_Cycle (le_Emulator s) + int n \<le> skip" "0 \<le> emu_Cycle (le_Emulator s)"
    "emu_Cycle (le_Emulator s) + int n \<le> cycle" "cycle \<le> 2147483647"
    and "run_cycles h n (le_Emulator s) = Inr e"
  shows "LoggedEmulator_Process h skip EmulationStop_None cycle s =
    LoggedEmulator_Process h skip EmulationStop_None cycle (s\<lparr> le_Emulator := e \<rparr>)"
  using assms
proof (induction n arbitrary: s)
  case (Suc n)
  obtain e1 where e1: "Emulator_ProcessCycle h (le_Emulator s) = Inr e1"
    "run_cycles h n (e1\<lparr> emu_Cycle := emu_Cycle e1 + 1 \<rparr>) = Inr e"
    using Suc.prems(5) by (auto simp: rbind_Inr_iff)
  have c: "emu_Cycle e1 = emu_Cycle (le_Emulator s)" using Emulator_ProcessCycle_Cycle [OF e1(1)] .
  define s1 where "s1 = s\<lparr> le_Emulator := e1\<lparr> emu_Cycle := emu_Cycle e1 + 1 \<rparr> \<rparr>"
  have "logged_turn h skip EmulationStop_None cycle s = Inr (s\<lparr> le_Emulator := e1 \<rparr>, False)"
    using Suc.prems(1) e1(1)
    by (simp add: logged_turn_def IsStopConditionFilledPre_def IsStopConditionFilledPost_def)
  then have "LoggedEmulator_Process h skip EmulationStop_None cycle s = LoggedEmulator_Process h skip EmulationStop_None cycle s1"
    using Suc.prems(2-4) c by (subst LoggedEmulator_Process.simps) (simp add: s1_def Let_def)
  also have "\<dots> = LoggedEmulator_Process h skip EmulationStop_None cycle (s1\<lparr> le_Emulator := e \<rparr>)"
    by (rule Suc.IH) (use Suc.prems e1 c in \<open>simp_all add: s1_def\<close>)
  finally show ?case by (simp add: s1_def)
qed (simp add: same_emulator)

lemma skipped_prefix:
  assumes "emu_Cycle (le_Emulator s) = 0" "int n \<le> cycle" "cycle \<le> 2147483647"
    and "run_cycles h (min n (nat skip)) (le_Emulator s) = Inr e"
  shows "LoggedEmulator_Process h skip EmulationStop_None cycle s =
      LoggedEmulator_Process h skip EmulationStop_None cycle (s\<lparr> le_Emulator := e \<rparr>)"
    "emu_Cycle e = int (min n (nat skip))"
proof -
  show "LoggedEmulator_Process h skip EmulationStop_None cycle s =
      LoggedEmulator_Process h skip EmulationStop_None cycle (s\<lparr> le_Emulator := e \<rparr>)"
  proof (cases "0 \<le> skip")
    case True
    then show ?thesis by (intro skipped_steps [where n = "min n (nat skip)"]) (use assms in auto)
  qed (use assms(4) in \<open>simp add: same_emulator\<close>)
  show "emu_Cycle e = int (min n (nat skip))" using run_cycles_Cycle [OF assms(4)] assms(1) by simp
qed

text \<open>A run from cycle 0 of which the first \<open>d\<close> cycles are skipped.\<close>

lemma log_ready_emulator [simp]: "log_ready xlen config fs xs (s\<lparr> le_Emulator := e \<rparr>) = log_ready xlen config fs xs s"
  by (simp add: log_ready_def)

lemma skipping_run_records:
  assumes "log_ready xlen config fs [] s" "lc_enabled config" "xlen \<noteq> XLEN128" "emu_Cycle (le_Emulator s) = 0"
    and "int n \<le> 2147483647" "run_cycles h (min n (nat skip)) (le_Emulator s) = Inr e"
    and "run_log h xlen config (int n) (n - min n (nat skip)) e = Inr xs"
    and "list_all (\<lambda>x. length (cycle_data x) \<le> 4096) xs"
  shows "\<exists>s'. LoggedEmulator_Process h skip EmulationStop_None (int n) s = Some (Inr s') \<and> log_ready xlen config fs xs s'"
proof -
  note skipped = skipped_prefix [OF assms(4) order_refl assms(5,6)]
  have ready: "log_ready xlen config fs [] (s\<lparr> le_Emulator := e \<rparr>)" using assms(1) by simp
  show ?thesis
  proof (cases "nat skip \<le> n")
    case True
    have "n - nat skip < 2147483648" using assms(5) by linarith
    with True logged_run_records [OF ready assms(2,3), of skip "n - nat skip" "int n" h xs] show ?thesis
      using skipped assms(5,7,8) by (auto split: if_splits)
  next
    case False
    then have "xs = []" using assms(7) by simp
    moreover have "LoggedEmulator_Process h skip EmulationStop_None (int n) (s\<lparr> le_Emulator := e \<rparr>) =
        Some (Inr (s\<lparr> le_Emulator := e \<rparr>))"
      using False skipped(2) by (subst LoggedEmulator_Process.simps) simp
    ultimately show ?thesis using ready skipped(1) by auto
  qed
qed

lemma skipping_run_fails:
  assumes "log_ready xlen config fs [] s" "lc_enabled config" "xlen \<noteq> XLEN128" "emu_Cycle (le_Emulator s) = 0"
    and "int n < cycle" "cycle \<le> 2147483647" "run_cycles h (min n (nat skip)) (le_Emulator s) = Inr e0"
    and "run_log h xlen config cycle (n - min n (nat skip)) e0 = Inr xs"
    and "list_all (\<lambda>x. length (cycle_data x) \<le> 4096) xs" "length (cycles_data xs) \<le> MaxFileSize"
    and "run_cycles h (n - min n (nat skip)) e0 = Inr e" "state_nodes System_ILoggerTarget xlen config (emu_System e) = Inr nds"
    and "Emulator_ProcessCycle h e = Inl err"
  shows "LoggedEmulator_Process h skip EmulationStop_None cycle s = Some (Inl (err, fs))"
proof -
  have "int n \<le> cycle" using assms(5) by simp
  note skipped = skipped_prefix [OF assms(4) this assms(6,7)]
  have ready: "log_ready xlen config fs [] (s\<lparr> le_Emulator := e0 \<rparr>)" using assms(1) by simp
  show ?thesis
  proof (cases "nat skip \<le> n")
    case True
    have "n - nat skip < 2147483648" using assms(5,6) by linarith
    with True logged_run_fails [OF ready assms(2,3), of skip "n - nat skip" cycle h xs e nds err] show ?thesis
      using skipped assms(5,6,8-) by (auto split: if_splits)
  next
    case False
    then have e: "e = e0" using assms(11) by simp
    have "le_files s = fs" using assms(1) by (auto simp: log_ready_def cycles_data_def)
    moreover have "\<not> skip \<le> int n" using False by simp
    then have "logged_turn h skip EmulationStop_None cycle (s\<lparr> le_Emulator := e0 \<rparr>) = Inl err"
      using False skipped(2) assms(13) by (simp add: e logged_turn_def IsStopConditionFilledPre_def Let_def)
    ultimately show ?thesis using False skipped(2) assms(5)
      by (subst skipped(1), subst LoggedEmulator_Process.simps) simp
  qed
qed

text \<open>The logger at the start of a run.\<close>

lemma Logger_new_ready:
  assumes "lc_enabled config" "range (data_path (lc_path config)) \<union> {index_path (lc_path config)} \<subseteq> fs_writable fs"
  obtains lg where "Logger_new xlen config fs = Inr (lg, fs\<lparr> fs_files := (fs_files fs)(index_path (lc_path config) \<mapsto> []) \<rparr>)"
    "\<And>e. log_ready xlen config (fs\<lparr> fs_files := (fs_files fs)(index_path (lc_path config) \<mapsto> []) \<rparr>) []
      \<lparr> le_Emulator = e, le_Logger = lg, le_files = fs\<lparr> fs_files := (fs_files fs)(index_path (lc_path config) \<mapsto> []) \<rparr> \<rparr>"
proof -
  let ?fs = "fs\<lparr> fs_files := (fs_files fs)(index_path (lc_path config) \<mapsto> []) \<rparr>"
  define w where "w = \<lparr> iw_PathBase = lc_path config, iw_Data = [], iw_CycleCount = 0, iw_DataFileCount = 0 \<rparr>"
  have w: "TraceIndexWriter_new (lc_path config) fs = Inr (w, ?fs)" "index_written (lc_path config) [] [] (w, ?fs)"
    using assms(2) by (simp_all add: TraceIndexWriter_new_def create_file_def index_written_def index_text_def
        index_lines_def text_bytes_def w_def)
  show ?thesis
    by (rule that [of "\<lparr> lg_XLEN = xlen, lg_Config = config, lg_pTraceWriter = Some w, lg_pCurrentCycle = None \<rparr>"])
      (use w assms(1) in \<open>auto simp: Logger_new_def Let_def log_ready_def\<close>)
qed

text \<open>The trace of a run, once the logger is destroyed.\<close>

lemma logged_run_reads_back:
  assumes "log_ready xlen config fs xs s" "list_all cycle_ok xs" "length xs < 2 ^ 31"
    and "list_all (\<lambda>c. \<not> is_space c) (lc_path config)" "k \<le> length xs"
  shows "\<exists>fs' r r'. Logger_delete (le_Logger s, le_files s) = Inr fs' \<and>
    TraceIndexReader_new fs' (index_path (lc_path config)) = Inr r \<and>
    repeat_next (IndexReader_Next fs') k r = Inr r' \<and> IndexReader_IsEnd r' = (k = length xs) \<and>
    (k < length xs \<longrightarrow> IndexReader_GetCycle r' = Inr (Some (cycle_view (xs ! k))))"
proof -
  obtain w gs g where w: "lg_pTraceWriter (le_Logger s) = Some w" "index_written (lc_path config) gs g (w, le_files s)"
    "concat gs @ g = xs" using assms(1) by (auto simp: log_ready_def)
  obtain fs' r where r: "TraceIndexWriter_delete (w, le_files s) = Inr fs'"
    "TraceIndexReader_new fs' (index_path (lc_path config)) = Inr r" "index_serves fs' r (map cycle_view xs)"
    using index_reads_back [OF w(2)] w(3) assms(2-4) by auto
  then obtain r' where r': "repeat_next (IndexReader_Next fs') k r = Inr r'" "IndexReader_IsEnd r' = (k = length xs)"
    "k < length xs \<longrightarrow> IndexReader_GetCycle r' = Inr (Some (cycle_view (xs ! k)))"
    using index_reader.reads_in_order [OF r(3), of k] assms(5) by (auto simp: IndexReader_ITraceReader_def)
  show ?thesis using w(1) r(1,2) r'
    by (intro exI [of _ fs'] exI [of _ r] exI [of _ r']) (simp add: Logger_delete_def)
qed

section \<open>Properties\<close>

text \<open>
  C7. Recording does not change the run: whatever is recorded, and whatever the stop conditions are,
  when the loop with the logger returns, the loop without it returns the same emulator.
\<close>

theorem recording_keeps_run:
  assumes "LoggedEmulator_Process h skip condition cycle s = Some (Inr s')"
  shows "Emulator_Process h condition cycle (le_Emulator s) = Some (Inr (le_Emulator s'))"
proof -
  have "\<forall>s'. r = Inr s' \<longrightarrow> Emulator_Process h condition cycle (le_Emulator s) = Some (Inr (le_Emulator s'))"
    if run: "LoggedEmulator_Process h skip condition cycle s = Some r" for r
  proof (rule LoggedEmulator_Process.raw_induct [where P = "\<lambda>h skip condition cycle s r.
      \<forall>s'. r = Inr s' \<longrightarrow> Emulator_Process h condition cycle (le_Emulator s) = Some (Inr (le_Emulator s'))", OF _ run],
      intro allI impI)
    fix loop h skip condition cycle s r s'
    assume IH: "\<And>h skip condition cycle s r. loop h skip condition cycle s = Some r \<Longrightarrow>
        \<forall>s'. r = Inr s' \<longrightarrow> Emulator_Process h condition cycle (le_Emulator s) = Some (Inr (le_Emulator s'))"
      and body: "(if emu_Cycle (le_Emulator s) < cycle \<or> cycle = CycleForever then
        (case logged_turn h skip condition cycle s of
           Inl err \<Rightarrow> Some (Inl (err, le_files s))
         | Inr (s', stop) \<Rightarrow> let e = le_Emulator s' in
             if stop then Some (Inr s')
             else if emu_Cycle e = 2147483647 then Some (Inl (Undefined, le_files s'))
             else loop h skip condition cycle (s'\<lparr> le_Emulator := e\<lparr> emu_Cycle := emu_Cycle e + 1 \<rparr> \<rparr>))
      else Some (Inr s)) = Some r" and r: "r = Inr s'"
    show "Emulator_Process h condition cycle (le_Emulator s) = Some (Inr (le_Emulator s'))"
    proof (cases "emu_Cycle (le_Emulator s) < cycle \<or> cycle = CycleForever")
      case go: True
      then obtain s1 stop where t: "logged_turn h skip condition cycle s = Inr (s1, stop)"
        using body r by (auto split: sum.splits)
      have "loop h skip condition cycle s2 = Some r \<Longrightarrow>
          Emulator_Process h condition cycle (le_Emulator s2) = Some (Inr (le_Emulator s'))" for s2
        using IH r by blast
      from this [of "s1\<lparr> le_Emulator := (le_Emulator s1)\<lparr> emu_Cycle := emu_Cycle (le_Emulator s1) + 1 \<rparr> \<rparr>"]
      show ?thesis using body r t go Process_turn [OF t go] by (auto simp: Let_def split: if_splits)
    next
      case False
      then show ?thesis using body r by (subst Emulator_Process.simps) simp
    qed
  qed
  then show ?thesis using assms by blast
qed

text \<open>
  A recorded run reads back: after n cycles without a stop condition and the logger's destructor,
  the index of the trace opens, and reading on shows, in order and up to the end, for each cycle the
  program counter, the registers and the host-io word before it and the events of the cycle - under
  the width of the machine and, as the cycle's number, the limit of the run.
\<close>

theorem recorded_run_reads_back:
  assumes "0 \<le> emu_Cycle e" "emu_Cycle e + int n \<le> 2147483647" "skip \<le> emu_Cycle e" "xlen \<noteq> XLEN128" "lc_enabled config"
    and "run_log h xlen config (emu_Cycle e + int n) n e = Inr xs" "list_all (\<lambda>x. length (cycle_data x) \<le> 4096) xs"
    and "range (data_path (lc_path config)) \<union> {index_path (lc_path config)} \<subseteq> fs_writable fs"
    and "list_all (\<lambda>c. \<not> is_space c) (lc_path config)" "k \<le> n"
  shows "\<exists>lg fs0 s fs' r r'. Logger_new xlen config fs = Inr (lg, fs0) \<and>
    LoggedEmulator_Process h skip EmulationStop_None (emu_Cycle e + int n)
      \<lparr> le_Emulator = e, le_Logger = lg, le_files = fs0 \<rparr> = Some (Inr s) \<and>
    run_cycles h n e = Inr (le_Emulator s) \<and> Logger_delete (le_Logger s, le_files s) = Inr fs' \<and>
    TraceIndexReader_new fs' (index_path (lc_path config)) = Inr r \<and>
    repeat_next (IndexReader_Next fs') k r = Inr r' \<and> IndexReader_IsEnd r' = (k = n) \<and>
    (k < n \<longrightarrow> IndexReader_GetCycle r' = Inr (Some (cycle_view (xs ! k))))"
proof -
  obtain lg fs0 where lg: "Logger_new xlen config fs = Inr (lg, fs0)"
    "log_ready xlen config fs0 [] \<lparr> le_Emulator = e, le_Logger = lg, le_files = fs0 \<rparr>"
    by (rule Logger_new_ready [OF assms(5,8), where xlen = xlen]) blast
  obtain s where s: "LoggedEmulator_Process h skip EmulationStop_None (emu_Cycle e + int n)
      \<lparr> le_Emulator = e, le_Logger = lg, le_files = fs0 \<rparr> = Some (Inr s)"
    "run_cycles h n e = Inr (le_Emulator s)" "log_ready xlen config fs0 xs s"
    using logged_run_records [OF lg(2) assms(5,4), of skip n "emu_Cycle e + int n" h xs] assms by auto
  note ok = run_log_ok [OF assms(6,4)]
  show ?thesis using logged_run_reads_back [OF s(3), of k] ok lg(1) s(1,2) assms(1,2,9,10) by auto
qed

section \<open>Witnesses\<close>

definition sample_config :: LoggerConfig where
  "sample_config = \<lparr> lc_enabled = True, lc_enableDumpFpReg = False, lc_enableDumpIntReg = True,
     lc_enableDumpHostIo = False, lc_path = ''t'' \<rparr>"

definition sample_emulator :: Emulator where
  "sample_emulator = \<lparr> emu_System = sample_machine, emu_Cycle = 0 \<rparr>"

lemma sample_run_log:
  "\<exists>x. run_log h XLEN64 sample_config 1 1 sample_emulator = Inr [x] \<and> length (cycle_data x) \<le> 4096 \<and>
    GetPc (cycle_view x) = Inr 0x80000000"
proof -
  have "case System_ProcessCycle h sample_machine of Inr t \<Rightarrow> length (sys_EventList t) \<le> 80 | Inl e \<Rightarrow> False" by code_simp
  then obtain t where t: "System_ProcessCycle h sample_machine = Inr t" "length (sys_EventList t) \<le> 80"
    by (auto split: sum.splits)
  obtain nds where nds: "state_nodes System_ILoggerTarget XLEN64 sample_config sample_machine = Inr nds"
    by (simp add: state_nodes_def sample_config_def)
  have pc: "System_GetPc sample_machine = 0x80000000"
    by (simp add: System_GetPc_def sample_machine_def System_new_def Csr_new_def Csr_zero_def)
  show ?thesis using t nds entry_size [OF nds _ t(2), where limit = 1] pc
    by (simp add: sample_emulator_def Emulator_ProcessCycle_def entry_def cycle_view_def spec_cycle_def)
qed

lemma sample_recorded_run:
  "0 \<le> emu_Cycle sample_emulator" "emu_Cycle sample_emulator + int 1 \<le> 2147483647" "0 \<le> emu_Cycle sample_emulator"
  "XLEN64 \<noteq> XLEN128" "lc_enabled sample_config" "list_all (\<lambda>c. \<not> is_space c) (lc_path sample_config)"
  by (simp_all add: sample_emulator_def sample_config_def is_space_def)

lemma recorded_run_reads_back_witness:
  "\<forall>h. \<exists>fs' r v. TraceIndexReader_new fs' ''t.tidx'' = Inr r \<and> IndexReader_GetCycle r = Inr (Some v) \<and>
    GetPc v = Inr 0x80000000"
proof
  fix h
  obtain x where x: "run_log h XLEN64 sample_config 1 1 sample_emulator = Inr [x]" "length (cycle_data x) \<le> 4096"
    "GetPc (cycle_view x) = Inr 0x80000000" using sample_run_log by blast
  have log: "run_log h XLEN64 sample_config (emu_Cycle sample_emulator + int 1) 1 sample_emulator = Inr [x]"
    using x(1) by (simp add: sample_emulator_def)
  have fits: "list_all (\<lambda>x. length (cycle_data x) \<le> 4096) [x]" using x(2) by simp
  note run = recorded_run_reads_back [OF sample_recorded_run(1-5) log fits _ sample_recorded_run(6), of _ 0]
  show "\<exists>fs' r v. TraceIndexReader_new fs' ''t.tidx'' = Inr r \<and> IndexReader_GetCycle r = Inr (Some v) \<and>
      GetPc v = Inr 0x80000000"
    using run [of "\<lparr> fs_files = Map.empty, fs_writable = UNIV \<rparr>"] x(3)
    by (auto simp: index_path_def sample_config_def)
qed

definition sample_logged :: LoggedEmulator where
  "sample_logged = \<lparr> le_Emulator = sample_emulator,
     le_Logger = \<lparr> lg_XLEN = XLEN64, lg_Config = sample_config, lg_pTraceWriter = Some
       \<lparr> iw_PathBase = ''t'', iw_Data = [], iw_CycleCount = 0, iw_DataFileCount = 0 \<rparr>, lg_pCurrentCycle = None \<rparr>,
     le_files = \<lparr> fs_files = [index_path ''t'' \<mapsto> []], fs_writable = UNIV \<rparr> \<rparr>"

lemma sample_logged_ready: "log_ready XLEN64 sample_config (le_files sample_logged) [] sample_logged"
proof -
  have "index_written ''t'' [] [] (\<lparr> iw_PathBase = ''t'', iw_Data = [], iw_CycleCount = 0, iw_DataFileCount = 0 \<rparr>, le_files sample_logged)"
    by (simp add: index_written_def index_text_def index_lines_def text_bytes_def sample_logged_def)
  then show ?thesis by (auto simp: log_ready_def sample_config_def sample_logged_def)
qed

lemma recording_keeps_run_witness:
  "\<forall>h. \<exists>s. LoggedEmulator_Process h 0 EmulationStop_None 1 sample_logged = Some (Inr s) \<and>
    Emulator_Process h EmulationStop_None 1 sample_emulator = Some (Inr (le_Emulator s))"
proof
  fix h
  obtain x where x: "run_log h XLEN64 sample_config 1 1 sample_emulator = Inr [x]" "length (cycle_data x) \<le> 4096"
    using sample_run_log by blast
  have e: "le_Emulator sample_logged = sample_emulator" by (simp add: sample_logged_def)
  have "\<exists>s. LoggedEmulator_Process h 0 EmulationStop_None 1 sample_logged = Some (Inr s) \<and>
      run_cycles h 1 (le_Emulator sample_logged) = Inr (le_Emulator s) \<and> log_ready XLEN64 sample_config (le_files sample_logged) ([] @ [x]) s"
    by (rule logged_run_records [OF sample_logged_ready]) (use x in \<open>simp_all add: e sample_config_def sample_emulator_def\<close>)
  then obtain s where "LoggedEmulator_Process h 0 EmulationStop_None 1 sample_logged = Some (Inr s)" by blast
  from recording_keeps_run [OF this] this e
  show "\<exists>s. LoggedEmulator_Process h 0 EmulationStop_None 1 sample_logged = Some (Inr s) \<and>
      Emulator_Process h EmulationStop_None 1 sample_emulator = Some (Inr (le_Emulator s))" by auto
qed

end
