(* ===== verification/CommandLine.thy ===== *)
theory CommandLine
  imports TextStream Logger
begin

text \<open>
  \<^verbatim>\<open>bin/rafi-emu/CommandLineOption.cpp\<close>: the options of the emulator. The parser of
  boost::program_options is not modelled; what it finds is the argument: the map from the names of
  the options that are given to their values, or \<open>None\<close> when it reports an error.
  Reading an option as a type it does not have throws \<open>bad_any_cast\<close>. Messages are left out.
\<close>

section \<open>How a program ends\<close>

datatype program_end = Exit int | UncaughtException emu_error | UncaughtBadAnyCast

text \<open>A call whose exceptions nobody catches; \<open>ProcessExit\<close> is \<open>std::exit(1)\<close>.\<close>

definition uncaught :: "emu_error \<Rightarrow> program_end" where
  "uncaught err = (if err = ProcessExit then Exit 1 else UncaughtException err)"

section \<open>The values of the options\<close>

datatype any = AnyInt int | AnySize uint64 | AnyString string | AnyStrings "string list" | AnyFlag

type_synonym variables_map = "string \<rightharpoonup> any"

definition has_option :: "variables_map \<Rightarrow> string \<Rightarrow> bool" where
  "has_option vm name \<longleftrightarrow> vm name \<noteq> None"

definition as_int :: "variables_map \<Rightarrow> string \<Rightarrow> program_end + int" where
  "as_int vm name = (case vm name of Some (AnyInt i) \<Rightarrow> Inr i | _ \<Rightarrow> Inl UncaughtBadAnyCast)"

definition as_string :: "variables_map \<Rightarrow> string \<Rightarrow> program_end + string" where
  "as_string vm name = (case vm name of Some (AnyString s) \<Rightarrow> Inr s | _ \<Rightarrow> Inl UncaughtBadAnyCast)"

definition as_strings :: "variables_map \<Rightarrow> string \<Rightarrow> program_end + string list" where
  "as_strings vm name = (case vm name of Some (AnyStrings ss) \<Rightarrow> Inr ss | _ \<Rightarrow> Inl UncaughtBadAnyCast)"

definition pbind :: "program_end + 'a \<Rightarrow> ('a \<Rightarrow> program_end + 'b) \<Rightarrow> program_end + 'b" where
  "pbind r f = (case r of Inl e \<Rightarrow> Inl e | Inr x \<Rightarrow> f x)"

lemma pbind_simps [simp]: "pbind (Inl e) f = Inl e" "pbind (Inr x) f = f x"
  by (simp_all add: pbind_def)

text \<open>
  \<open>po::notify\<close> stores an option in the member it is bound to: the value that is given, else the
  default, else the member keeps what it has.
\<close>

definition notify_int :: "variables_map \<Rightarrow> string \<Rightarrow> int \<Rightarrow> int" where
  "notify_int vm name v = (case vm name of Some (AnyInt i) \<Rightarrow> i | _ \<Rightarrow> v)"

definition notify_size :: "variables_map \<Rightarrow> string \<Rightarrow> uint64 \<Rightarrow> uint64" where
  "notify_size vm name v = (case vm name of Some (AnySize n) \<Rightarrow> n | _ \<Rightarrow> v)"

definition notify_string :: "variables_map \<Rightarrow> string \<Rightarrow> string \<Rightarrow> string" where
  "notify_string vm name v = (case vm name of Some (AnyString s) \<Rightarrow> s | _ \<Rightarrow> v)"

text \<open>\<open>strtoull(s, 0, 16)\<close>: blanks, a sign, a prefix, the digits; too large a number gives the maximum.\<close>

definition strtoull16 :: "string \<Rightarrow> uint64" where
  "strtoull16 s = (let (neg, t) = read_sign (dropWhile is_space s); n = fst (read_digits 16 (read_prefix 16 t) 0) in
     if 2 ^ 64 \<le> n then - 1 else if neg then - of_nat n else of_nat n)"

section \<open>LoadOption\<close>

record LoadOption =
  lo_Path :: string
  lo_Address :: uint64

text \<open>\<open>None\<close> is a \<open>CommandLineOptionException\<close>; \<open>strtoull\<close> throws nothing.\<close>

definition LoadOption_new :: "string \<Rightarrow> LoadOption option" where
  "LoadOption_new arg = (if CHR '':'' \<notin> set arg then None
     else let path = takeWhile (\<lambda>c. c \<noteq> CHR '':'') arg; address = strtoull16 (drop (length path + 1) arg) in
       if address = 0 then None else Some \<lparr> lo_Path = path, lo_Address = address \<rparr>)"

section \<open>CommandLineOption\<close>

record CommandLineOption =
  co_LoggerConfig :: LoggerConfig
  co_LoadOptions :: "LoadOption list"
  co_XLEN :: XLEN
  co_Cycle :: int
  co_DumpSkipCycle :: int
  co_GdbPort :: int
  co_RamSize :: uint64
  co_DtbAddress :: uint64
  co_HostIoAddress :: uint64
  co_Pc :: uint64
  co_GdbEnabled :: bool
  co_HostIoEnabled :: bool

definition DefaultRamSize :: uint64 where
  "DefaultRamSize = 64 * 1024 * 1024"

text \<open>The code leaves the other members unset when the logger is disabled; nothing reads them then.\<close>

definition CommandLineOption_logger :: "variables_map \<Rightarrow> bool \<Rightarrow> program_end + LoggerConfig" where
  "CommandLineOption_logger vm hostIo =
     (if has_option vm ''dump-path''
      then pbind (as_string vm ''dump-path'') (\<lambda>path. Inr \<lparr> lc_enabled = True,
        lc_enableDumpFpReg = has_option vm ''enable-dump-fp-reg'', lc_enableDumpIntReg = True,
        lc_enableDumpHostIo = hostIo, lc_path = path \<rparr>)
      else Inr \<lparr> lc_enabled = False, lc_enableDumpFpReg = False, lc_enableDumpIntReg = False,
        lc_enableDumpHostIo = False, lc_path = [] \<rparr>)"

definition CommandLineOption_address :: "variables_map \<Rightarrow> string \<Rightarrow> program_end + uint64" where
  "CommandLineOption_address vm name =
     (if has_option vm name then pbind (as_string vm name) (\<lambda>s. Inr (strtoull16 s)) else Inr 0)"

primrec CommandLineOption_loads :: "string list \<Rightarrow> program_end + LoadOption list" where
  "CommandLineOption_loads [] = Inr []"
| "CommandLineOption_loads (s # ss) = (case LoadOption_new s of
      None \<Rightarrow> Inl (Exit 1)
    | Some l \<Rightarrow> pbind (CommandLineOption_loads ss) (\<lambda>ls. Inr (l # ls)))"

definition CommandLineOption_xlen :: "variables_map \<Rightarrow> program_end + XLEN" where
  "CommandLineOption_xlen vm =
     (if has_option vm ''xlen''
      then pbind (as_int vm ''xlen'') (\<lambda>n. if n = 32 then Inr XLEN32 else if n = 64 then Inr XLEN64 else Inl (Exit 0))
      else Inr XLEN32)"

definition CommandLineOption_new :: "variables_map option \<Rightarrow> program_end + CommandLineOption" where
  "CommandLineOption_new variables = (case variables of
      None \<Rightarrow> Inl (Exit 1)
    | Some vm \<Rightarrow>
        if has_option vm ''help'' then Inl (Exit 0)
        else let hostIo = has_option vm ''host-io-addr'' in
          pbind (CommandLineOption_logger vm hostIo) (\<lambda>config.
          pbind (CommandLineOption_address vm ''dtb-addr'') (\<lambda>dtb.
          pbind (CommandLineOption_address vm ''host-io-addr'') (\<lambda>io.
          pbind (CommandLineOption_address vm ''pc'') (\<lambda>pc.
          pbind (as_strings vm ''load'') (\<lambda>args.
          pbind (CommandLineOption_loads args) (\<lambda>loads.
          pbind (CommandLineOption_xlen vm) (\<lambda>xlen.
            Inr \<lparr> co_LoggerConfig = config, co_LoadOptions = loads, co_XLEN = xlen,
              co_Cycle = notify_int vm ''cycle'' 0, co_DumpSkipCycle = notify_int vm ''dump-skip-cycle'' 0,
              co_GdbPort = notify_int vm ''gdb'' 0, co_RamSize = notify_size vm ''ram-size'' DefaultRamSize,
              co_DtbAddress = dtb, co_HostIoAddress = io, co_Pc = pc,
              co_GdbEnabled = has_option vm ''gdb'', co_HostIoEnabled = hostIo \<rparr>))))))))"

section \<open>Laws\<close>

lemma option_xlen:
  assumes "CommandLineOption_new variables = Inr opt"
  shows "co_XLEN opt \<noteq> XLEN128"
proof -
  have "CommandLineOption_xlen vm = Inr x \<Longrightarrow> x \<noteq> XLEN128" for vm x
    by (auto simp: CommandLineOption_xlen_def pbind_def split: if_splits sum.splits)
  then show ?thesis using assms
    by (auto simp: CommandLineOption_new_def pbind_def Let_def split: option.splits sum.splits if_splits)
qed

text \<open>A number that was printed in hexadecimal, with or without the prefix.\<close>

lemma strtoull16_digits:
  "strtoull16 (digits 16 (unat a)) = a" "strtoull16 (CHR ''0'' # CHR ''x'' # digits 16 (unat a)) = a"
proof -
  obtain d ds where d: "digits 16 (unat a) = d # ds" "\<not> is_space d" "d \<noteq> CHR ''-''" "d \<noteq> CHR ''+''" "d = CHR ''0'' \<longrightarrow> ds = []"
    by (rule digits_first [where b = 16 and n = "unat a"]) simp_all
  define t where "t = digits 16 (unat a)"
  have "read_prefix 16 (d # ds) = d # ds" using d(5) by (auto simp: read_prefix_def split: list.split)
  then have t: "dropWhile is_space t = t" "read_sign t = (False, t)" "read_prefix 16 t = t"
    using d(2-4) by (simp_all add: t_def d(1) read_sign_def)
  have n: "read_digits 16 t 0 = (unat a, [])" using read_digits_run [of 16 "unat a" "[]" 0] by (simp add: t_def)
  have "unat a < 2 ^ LENGTH(64)" by (rule unsigned_less)
  then have b: "\<not> 2 ^ 64 \<le> unat a" by simp
  show "strtoull16 (digits 16 (unat a)) = a"
    unfolding t_def [symmetric] using b by (simp add: strtoull16_def t n)
  have "read_prefix 16 (CHR ''0'' # CHR ''x'' # t) = t" by (simp add: read_prefix_def)
  then show "strtoull16 (CHR ''0'' # CHR ''x'' # digits 16 (unat a)) = a"
    unfolding t_def [symmetric] using b by (simp add: strtoull16_def read_sign_def n is_space_def)
qed

text \<open>
  A pair of a path without a colon and an address in hexadecimal is read as it was written; the
  address 0 and an argument without a colon are refused.
\<close>

lemma load_option_reads:
  assumes "CHR '':'' \<notin> set path" "p = [] \<or> p = ''0x''"
  shows "LoadOption_new (path @ '':'' @ p @ digits 16 (unat a)) =
    (if a = 0 then None else Some \<lparr> lo_Path = path, lo_Address = a \<rparr>)"
    and "LoadOption_new path = None"
proof -
  define t where "t = digits 16 (unat a)"
  have v: "strtoull16 t = a" "strtoull16 (CHR ''0'' # CHR ''x'' # t) = a" by (simp_all add: t_def strtoull16_digits)
  have "takeWhile (\<lambda>c. c \<noteq> CHR '':'') (path @ CHR '':'' # s) = path" for s
    using assms(1) by (induction path) auto
  then show "LoadOption_new (path @ '':'' @ p @ digits 16 (unat a)) =
      (if a = 0 then None else Some \<lparr> lo_Path = path, lo_Address = a \<rparr>)"
    unfolding t_def [symmetric] using assms(2) by (elim disjE) (simp_all add: LoadOption_new_def Let_def v)
  show "LoadOption_new path = None" using assms(1) by (simp add: LoadOption_new_def)
qed

text \<open>Without an option that names a file to load, the program ends by an exception nobody catches.\<close>

lemma no_load_option:
  assumes "vm ''load'' = None" "vm ''help'' = None" "vm ''dump-path'' = None" "vm ''dtb-addr'' = None"
    and "vm ''host-io-addr'' = None" "vm ''pc'' = None"
  shows "CommandLineOption_new (Some vm) = Inl UncaughtBadAnyCast"
  using assms by (simp add: CommandLineOption_new_def has_option_def CommandLineOption_logger_def
      CommandLineOption_address_def as_strings_def Let_def)

end
