(* ===== verification/MainProgram.thy ===== *)
theory MainProgram
  imports EmulatorTrace CommandLine
begin

text \<open>
  \<^verbatim>\<open>bin/rafi-emu/Main.cpp\<close>: the program, from its options and files to its exit code and the
  files it leaves. The emulator is the one with its logger. The clients of the gdb server are the
  sessions that connect before \<open>accept\<close> fails, or \<open>None\<close> when the socket cannot be set up.
  After an exception that nobody catches the files are \<open>None\<close>: what the buffers of the host's
  library still held is lost. What the program prints is left out.
\<close>

section \<open>The program\<close>

definition option_Emulator :: "CommandLineOption \<Rightarrow> filesystem \<Rightarrow> LoggedEmulator result" where
  "option_Emulator opt fs =
     rbind (Emulator_new (co_XLEN opt) (co_Pc opt) (co_RamSize opt)
       (if co_HostIoEnabled opt then Some (co_HostIoAddress opt) else None) (co_DtbAddress opt)) (\<lambda>e.
     rbind (Logger_new (co_XLEN opt) (co_LoggerConfig opt) fs) (\<lambda>(lg, fs).
       Inr \<lparr> le_Emulator = e, le_Logger = lg, le_files = fs \<rparr>))"

primrec load_files :: "LoadOption list \<Rightarrow> filesystem \<Rightarrow> Emulator \<Rightarrow> Emulator result" where
  "load_files [] fs e = Inr e"
| "load_files (l # ls) fs e =
     rbind (Emulator_LoadFileToMemory (fs_files fs (lo_Path l)) (lo_Address l) e) (load_files ls fs)"

text \<open>The debugger continues with the logger on; its steps are not recorded.\<close>

definition LoggedEmulator_IEmulator :: "host \<Rightarrow> int \<Rightarrow> LoggedEmulator IEmulator" where
  "LoggedEmulator_IEmulator h skip = (let ie = Emulator_IEmulator h in \<lparr>
     ie_Process = (\<lambda>condition s. map_option (\<lambda>r. case r of Inl (err, fs) \<Rightarrow> Inl err | Inr s \<Rightarrow> Inr s)
       (LoggedEmulator_Process h skip condition CycleForever s)),
     ie_ProcessCycle = (\<lambda>s. rbind (ie_ProcessCycle ie (le_Emulator s)) (\<lambda>e. Inr (s\<lparr> le_Emulator := e \<rparr>))),
     ie_IsValidMemory = (\<lambda>s. ie_IsValidMemory ie (le_Emulator s)),
     ie_ReadMemory = (\<lambda>s. ie_ReadMemory ie (le_Emulator s)),
     ie_WriteMemory = (\<lambda>bs addr s. rbind (ie_WriteMemory ie bs addr (le_Emulator s)) (\<lambda>e. Inr (s\<lparr> le_Emulator := e \<rparr>))),
     ie_GetPc = (\<lambda>s. ie_GetPc ie (le_Emulator s)),
     ie_CopyIntReg32 = (\<lambda>s. ie_CopyIntReg32 ie (le_Emulator s)),
     ie_CopyIntReg64 = (\<lambda>s. ie_CopyIntReg64 ie (le_Emulator s)) \<rparr>)"

text \<open>\<open>return 0\<close>, which destroys the logger.\<close>

definition return_zero :: "LoggedEmulator \<Rightarrow> program_end \<times> filesystem option" where
  "return_zero s = (case Logger_delete (le_Logger s, le_files s) of
      Inl err \<Rightarrow> (uncaught err, None)
    | Inr fs \<Rightarrow> (Exit 0, Some fs))"

definition serve_debugger ::
    "host \<Rightarrow> CommandLineOption \<Rightarrow> string list list option \<Rightarrow> LoggedEmulator \<Rightarrow> (program_end \<times> filesystem option) option" where
  "serve_debugger h opt clients s = (case clients of
      None \<Rightarrow> Some (Exit 1, Some (le_files s))
    | Some cs \<Rightarrow> (case GdbServer_Process (co_XLEN opt) (LoggedEmulator_IEmulator h (co_DumpSkipCycle opt)) cs (s, Map.empty) of
        None \<Rightarrow> None
      | Some (Inl err) \<Rightarrow> Some (uncaught err, None)
      | Some (Inr (outs, s, d)) \<Rightarrow> Some (return_zero s)))"

definition rafi_emu_main ::
    "host \<Rightarrow> variables_map option \<Rightarrow> string list list option \<Rightarrow> filesystem \<Rightarrow> (program_end \<times> filesystem option) option" where
  "rafi_emu_main h variables clients fs = (case CommandLineOption_new variables of
      Inl e \<Rightarrow> Some (e, Some fs)
    | Inr opt \<Rightarrow> (case option_Emulator opt fs of
        Inl err \<Rightarrow> Some (uncaught err, None)
      | Inr s \<Rightarrow> (case load_files (co_LoadOptions opt) (le_files s) (le_Emulator s) of
          Inl err \<Rightarrow> Some (if err = FileOpenFailure then (Exit 1, Some (le_files s)) else (uncaught err, None))
        | Inr e \<Rightarrow> (case LoggedEmulator_Process h (co_DumpSkipCycle opt)
              (if co_HostIoEnabled opt then EmulationStop_HostIo else EmulationStop_None) (co_Cycle opt) (s\<lparr> le_Emulator := e \<rparr>) of
            None \<Rightarrow> None
          | Some (Inl (err, fs)) \<Rightarrow> Some (if err = EmuException then (Exit 1, Some fs) else (uncaught err, None))
          | Some (Inr s) \<Rightarrow> if co_GdbEnabled opt then serve_debugger h opt clients s else Some (return_zero s)))))"

section \<open>Loading\<close>

lemma load_keeps_cycle: "load_files ls fs e = Inr e' \<Longrightarrow> emu_Cycle e' = emu_Cycle e"
  by (induction ls arbitrary: e) (auto simp: rbind_Inr_iff Emulator_LoadFileToMemory_def)

lemma load_range:
  fixes offset :: uint32 and capacity :: uint64
  assumes "\<not> sint offset < 0" "\<not> capacity < scast offset"
  shows "nat (sint offset) + min n (unat (capacity - scast offset)) \<le> unat capacity"
proof -
  have "uint (scast offset :: uint64) = sint offset"
  proof -
    have "uint (scast offset :: uint64) = take_bit LENGTH(64) (sint offset)" by (simp only: scast_eq uint_word_of_int_eq)
    moreover have "sint offset < 2 ^ 64" using sint_lt [of offset] by simp
    ultimately show ?thesis using assms(1) by (simp add: take_bit_int_eq_self)
  qed
  then have "unat (scast offset :: uint64) = nat (sint offset)" by (metis unat_eq_nat_uint)
  moreover have "unat (capacity - scast offset) = unat capacity - unat (scast offset :: uint64)"
    using assms(2) by (intro unat_sub) (simp add: not_less)
  moreover have "unat (scast offset :: uint64) \<le> unat capacity" using assms(2) by (simp add: word_le_nat_alt not_less)
  ultimately show ?thesis by simp
qed

lemma memory_load_fails: "memory_load ptr file offset sys = Inl err \<Longrightarrow> err = EmuException"
  by (cases ptr) (auto simp: memory_load_def rbind_Inl_iff Ram_LoadFile_def Rom_LoadFile_def block_write_def
      load_range split: if_splits option.splits)

lemma memory_load_missing: "memory_load ptr None offset sys = Inl EmuException"
  by (cases ptr) (auto simp: memory_load_def Ram_LoadFile_def Rom_LoadFile_def)

lemma load_fails:
  "Emulator_LoadFileToMemory file a e = Inl err \<Longrightarrow> err = EmuException"
  "Emulator_LoadFileToMemory None a e = Inl EmuException"
proof -
  note load = Emulator_LoadFileToMemory_def System_LoadFileToMemory_def Bus_LoadFileToMemory_def ConvertToMemoryLocation_def
  show "Emulator_LoadFileToMemory file a e = Inl err \<Longrightarrow> err = EmuException"
    by (auto simp: load rbind_Inl_iff find_location_None dest: memory_load_fails)
  show "Emulator_LoadFileToMemory None a e = Inl EmuException"
  proof (cases "find_location a (m_MemoryList (sys_Bus (emu_System e)))")
    case (Inl err)
    then have "err = EmuException" using find_location_None by blast
    then show ?thesis using Inl by (simp add: load)
  qed (auto simp: load memory_load_missing)
qed

lemma load_files_missing:
  assumes "l \<in> set ls" "fs_files fs (lo_Path l) = None"
  shows "load_files ls fs e = Inl EmuException"
  using assms(1)
proof (induction ls arbitrary: e)
  case (Cons k ls)
  show ?case
  proof (cases "Emulator_LoadFileToMemory (fs_files fs (lo_Path k)) (lo_Address k) e")
    case (Inl err)
    then show ?thesis using load_fails(1) by auto
  next
    case (Inr e')
    then have "l \<noteq> k" using load_fails(2) assms(2) by auto
    then show ?thesis using Inr Cons by simp
  qed
qed simp

section \<open>Runs that are recorded\<close>

definition fresh_index :: "string \<Rightarrow> filesystem \<Rightarrow> filesystem" where
  "fresh_index path fs = fs\<lparr> fs_files := (fs_files fs)(index_path path \<mapsto> []) \<rparr>"

text \<open>
  The program gets to the loop with the emulator \<open>e\<close>, its logger on, its trace files writable and
  no stop condition: the options parse, without host-io, and the files are loaded.
\<close>

definition starts :: "variables_map option \<Rightarrow> filesystem \<Rightarrow> CommandLineOption \<Rightarrow> Emulator \<Rightarrow> bool" where
  "starts variables fs opt e \<longleftrightarrow> CommandLineOption_new variables = Inr opt \<and> \<not> co_HostIoEnabled opt \<and>
     lc_enabled (co_LoggerConfig opt) \<and> co_Cycle opt \<le> 2147483647 \<and>
     range (data_path (lc_path (co_LoggerConfig opt))) \<union> {index_path (lc_path (co_LoggerConfig opt))} \<subseteq> fs_writable fs \<and>
     rbind (Emulator_new (co_XLEN opt) (co_Pc opt) (co_RamSize opt) None (co_DtbAddress opt))
       (load_files (co_LoadOptions opt) (fresh_index (lc_path (co_LoggerConfig opt)) fs)) = Inr e"

lemma option_logger:
  assumes "CommandLineOption_new variables = Inr opt"
  shows "lc_enableDumpHostIo (co_LoggerConfig opt) = (lc_enabled (co_LoggerConfig opt) \<and> co_HostIoEnabled opt)"
proof -
  have "CommandLineOption_logger vm b = Inr config \<Longrightarrow> lc_enableDumpHostIo config = (lc_enabled config \<and> b)" for vm b config
    by (auto simp: CommandLineOption_logger_def pbind_def split: if_splits sum.splits)
  then show ?thesis using assms
    by (auto simp: CommandLineOption_new_def pbind_def Let_def split: option.splits sum.splits if_splits)
qed

text \<open>The program from the loop on.\<close>

lemma main_from_loop:
  assumes "starts variables fs opt e"
  obtains lg where "emu_Cycle e = 0"
    "log_ready (co_XLEN opt) (co_LoggerConfig opt) (fresh_index (lc_path (co_LoggerConfig opt)) fs) []
      \<lparr> le_Emulator = e, le_Logger = lg, le_files = fresh_index (lc_path (co_LoggerConfig opt)) fs \<rparr>"
    "rafi_emu_main h variables clients fs = (case LoggedEmulator_Process h (co_DumpSkipCycle opt) EmulationStop_None (co_Cycle opt)
         \<lparr> le_Emulator = e, le_Logger = lg, le_files = fresh_index (lc_path (co_LoggerConfig opt)) fs \<rparr> of
        None \<Rightarrow> None
      | Some (Inl (err, fs)) \<Rightarrow> Some (if err = EmuException then (Exit 1, Some fs) else (uncaught err, None))
      | Some (Inr s) \<Rightarrow> if co_GdbEnabled opt then serve_debugger h opt clients s else Some (return_zero s))"
proof -
  obtain e0 where e0: "Emulator_new (co_XLEN opt) (co_Pc opt) (co_RamSize opt) None (co_DtbAddress opt) = Inr e0"
    "load_files (co_LoadOptions opt) (fresh_index (lc_path (co_LoggerConfig opt)) fs) e0 = Inr e"
    using assms by (auto simp: starts_def rbind_Inr_iff)
  have "emu_Cycle e0 = 0" using e0(1) by (auto simp: Emulator_new_def Let_def rbind_Inr_iff)
  then have c: "emu_Cycle e = 0" using load_keeps_cycle [OF e0(2)] by simp
  have w: "lc_enabled (co_LoggerConfig opt)"
    "range (data_path (lc_path (co_LoggerConfig opt))) \<union> {index_path (lc_path (co_LoggerConfig opt))} \<subseteq> fs_writable fs"
    using assms by (simp_all add: starts_def)
  obtain lg where lg: "Logger_new (co_XLEN opt) (co_LoggerConfig opt) fs = Inr (lg, fresh_index (lc_path (co_LoggerConfig opt)) fs)"
    "\<And>e. log_ready (co_XLEN opt) (co_LoggerConfig opt) (fresh_index (lc_path (co_LoggerConfig opt)) fs) []
      \<lparr> le_Emulator = e, le_Logger = lg, le_files = fresh_index (lc_path (co_LoggerConfig opt)) fs \<rparr>"
    by (rule Logger_new_ready [OF w, where xlen = "co_XLEN opt"]) (auto simp: fresh_index_def)
  have "option_Emulator opt fs =
      Inr \<lparr> le_Emulator = e0, le_Logger = lg, le_files = fresh_index (lc_path (co_LoggerConfig opt)) fs \<rparr>"
    using assms e0(1) lg(1) by (simp add: option_Emulator_def starts_def)
  then show ?thesis using that [OF c lg(2)] assms e0(2)
    by (simp add: rafi_emu_main_def starts_def)
qed

section \<open>Properties\<close>

text \<open>
  C4. A recorded run reads back, from the command line to the trace. The run is one with a trace, a
  limit of n cycles, no host-io address and no debugger; its files load, its trace files can be
  written, their path has no blank, and each recorded cycle takes at most the 4096 bytes of the
  buffer. If the n cycles raise no exception, the program exits with 0, and the index it leaves opens
  and shows the cycles from --dump-skip-cycle on, in order, and the end behind the last, each with the
  state before it and its events; with nothing to record it is empty. The number of skipped cycles is
  read through the reference m_Option, which dangles: this is the run in which it still holds the
  option.
\<close>

theorem main_run_reads_back:
  assumes "starts variables fs opt e" "\<not> co_GdbEnabled opt" "co_Cycle opt = int n"
    and "skipped = min n (nat (co_DumpSkipCycle opt))" "run_cycles h skipped e = Inr e0"
    and "run_log h (co_XLEN opt) (co_LoggerConfig opt) (int n) (n - skipped) e0 = Inr xs"
    and "list_all (\<lambda>x. length (cycle_data x) \<le> 4096) xs"
    and "list_all (\<lambda>c. \<not> is_space c) (lc_path (co_LoggerConfig opt))" "k \<le> n - skipped"
  shows "\<exists>fs' r r'. rafi_emu_main h variables clients fs = Some (Exit 0, Some fs') \<and>
    TraceIndexReader_new fs' (index_path (lc_path (co_LoggerConfig opt))) = Inr r \<and>
    repeat_next (IndexReader_Next fs') k r = Inr r' \<and> IndexReader_IsEnd r' = (k = n - skipped) \<and>
    (k < n - skipped \<longrightarrow> IndexReader_GetCycle r' = Inr (Some (cycle_view (xs ! k))))"
proof -
  let ?fs = "fresh_index (lc_path (co_LoggerConfig opt)) fs"
  obtain lg where lg: "emu_Cycle e = 0"
    "log_ready (co_XLEN opt) (co_LoggerConfig opt) ?fs [] \<lparr> le_Emulator = e, le_Logger = lg, le_files = ?fs \<rparr>"
    "rafi_emu_main h variables clients fs = (case LoggedEmulator_Process h (co_DumpSkipCycle opt) EmulationStop_None (co_Cycle opt)
         \<lparr> le_Emulator = e, le_Logger = lg, le_files = ?fs \<rparr> of
        None \<Rightarrow> None
      | Some (Inl (err, fs)) \<Rightarrow> Some (if err = EmuException then (Exit 1, Some fs) else (uncaught err, None))
      | Some (Inr s) \<Rightarrow> if co_GdbEnabled opt then serve_debugger h opt clients s else Some (return_zero s))"
    by (rule main_from_loop [OF assms(1)])
  have o: "co_XLEN opt \<noteq> XLEN128" "lc_enabled (co_LoggerConfig opt)" "int n \<le> 2147483647"
    using assms(1,3) option_xlen by (auto simp: starts_def)
  note ok = run_log_ok [OF assms(6) o(1)]
  obtain s where s: "LoggedEmulator_Process h (co_DumpSkipCycle opt) EmulationStop_None (co_Cycle opt)
      \<lparr> le_Emulator = e, le_Logger = lg, le_files = ?fs \<rparr> = Some (Inr s)"
    "log_ready (co_XLEN opt) (co_LoggerConfig opt) ?fs xs s"
    using skipping_run_records [OF lg(2) o(2,1) _ o(3), of h "co_DumpSkipCycle opt" e0 xs] assms(3-7) lg(1) by auto
  have "length xs < 2 ^ 31" using ok o(3) by simp
  then show ?thesis using logged_run_reads_back [OF s(2), of k] ok assms(2,8,9) lg(3) s(1)
    by (auto simp: return_zero_def)
qed

text \<open>
  C17. A run that an exception ends loses its trace: the program catches the exception and exits, which
  destroys no automatic object, so the cycles that were recorded since the last flush - all of them
  while they fit the first 256 MB, as they do here - are never written, and the index stays as empty
  as it was created. The run is one without a host-io address, with or without a debugger and skipped
  cycles.
\<close>

theorem failed_run_loses_trace:
  assumes "starts variables fs opt e" "int n < co_Cycle opt"
    and "skipped = min n (nat (co_DumpSkipCycle opt))" "run_cycles h skipped e = Inr e0"
    and "run_log h (co_XLEN opt) (co_LoggerConfig opt) (co_Cycle opt) (n - skipped) e0 = Inr xs"
    and "list_all (\<lambda>x. length (cycle_data x) \<le> 4096) xs" "length (cycles_data xs) \<le> MaxFileSize"
    and "run_cycles h (n - skipped) e0 = Inr e'" "Emulator_ProcessCycle h e' = Inl EmuException"
  shows "rafi_emu_main h variables clients fs = Some (Exit 1, Some (fresh_index (lc_path (co_LoggerConfig opt)) fs))"
proof -
  let ?fs = "fresh_index (lc_path (co_LoggerConfig opt)) fs"
  obtain lg where lg: "emu_Cycle e = 0"
    "log_ready (co_XLEN opt) (co_LoggerConfig opt) ?fs [] \<lparr> le_Emulator = e, le_Logger = lg, le_files = ?fs \<rparr>"
    "rafi_emu_main h variables clients fs = (case LoggedEmulator_Process h (co_DumpSkipCycle opt) EmulationStop_None (co_Cycle opt)
         \<lparr> le_Emulator = e, le_Logger = lg, le_files = ?fs \<rparr> of
        None \<Rightarrow> None
      | Some (Inl (err, fs)) \<Rightarrow> Some (if err = EmuException then (Exit 1, Some fs) else (uncaught err, None))
      | Some (Inr s) \<Rightarrow> if co_GdbEnabled opt then serve_debugger h opt clients s else Some (return_zero s))"
    by (rule main_from_loop [OF assms(1)])
  have o: "co_XLEN opt \<noteq> XLEN128" "lc_enabled (co_LoggerConfig opt)" "co_Cycle opt \<le> 2147483647"
    "\<not> lc_enableDumpHostIo (co_LoggerConfig opt)"
    using assms(1) option_xlen option_logger by (auto simp: starts_def)
  obtain nds where nds: "state_nodes System_ILoggerTarget (co_XLEN opt) (co_LoggerConfig opt) (emu_System e') = Inr nds"
    using o(4) by (simp add: state_nodes_def)
  have "LoggedEmulator_Process h (co_DumpSkipCycle opt) EmulationStop_None (co_Cycle opt)
      \<lparr> le_Emulator = e, le_Logger = lg, le_files = ?fs \<rparr> = Some (Inl (EmuException, ?fs))"
    by (rule skipping_run_fails [OF lg(2) o(2,1), where n = n and xs = xs and e = e' and ?e0.0 = e0])
      (use assms(2-9) o(3) lg(1) nds in simp_all)
  then show ?thesis using lg(3) by simp
qed

text \<open>
  C18. A file that cannot be opened ends the program by an exception nobody catches: the handler in main
  is for FileOpenFailureException, but loading throws RafiEmuException, whichever of the files is
  missing and whatever the files before it hold.
\<close>

theorem missing_file_uncaught:
  assumes "CommandLineOption_new variables = Inr opt" "option_Emulator opt fs = Inr s"
    and "l \<in> set (co_LoadOptions opt)" "fs_files (le_files s) (lo_Path l) = None"
  shows "rafi_emu_main h variables clients fs = Some (UncaughtException EmuException, None)"
  using assms load_files_missing [OF assms(3), of "le_files s"] by (simp add: rafi_emu_main_def uncaught_def)

section \<open>Witnesses\<close>

text \<open>A program of one instruction, a jump out of the memory.\<close>

definition jump_variables :: "int \<Rightarrow> variables_map" where
  "jump_variables n = [''load'' \<mapsto> AnyStrings [''f:80000000''], ''pc'' \<mapsto> AnyString ''80000000'', ''cycle'' \<mapsto> AnyInt n,
     ''dump-skip-cycle'' \<mapsto> AnyInt 0, ''ram-size'' \<mapsto> AnySize 0x1000, ''dump-path'' \<mapsto> AnyString ''t'']"

definition jump_files :: filesystem where
  "jump_files = \<lparr> fs_files = [''f'' \<mapsto> [0x6f, 0, 1, 0]], fs_writable = UNIV \<rparr>"

definition jump_config :: LoggerConfig where
  "jump_config = \<lparr> lc_enabled = True, lc_enableDumpFpReg = False, lc_enableDumpIntReg = True,
     lc_enableDumpHostIo = False, lc_path = ''t'' \<rparr>"

lemma jump_option:
  "\<exists>opt. CommandLineOption_new (Some (jump_variables n)) = Inr opt \<and> co_Cycle opt = n \<and> co_DumpSkipCycle opt = 0 \<and>
    co_LoggerConfig opt = jump_config \<and> co_LoadOptions opt = [\<lparr> lo_Path = ''f'', lo_Address = 0x80000000 \<rparr>] \<and>
    co_XLEN opt = XLEN32 \<and> co_Pc opt = 0x80000000 \<and> co_RamSize opt = 0x1000 \<and> co_DtbAddress opt = 0 \<and>
    \<not> co_HostIoEnabled opt \<and> \<not> co_GdbEnabled opt"
proof -
  have "digits 16 (unat (0x80000000 :: uint64)) = ''80000000''" by (simp add: digit_char_def)
  then have v: "strtoull16 ''80000000'' = 0x80000000" by (metis strtoull16_digits(1))
  have "LoadOption_new ''f:80000000'' = Some \<lparr> lo_Path = ''f'', lo_Address = 0x80000000 \<rparr>"
    by (simp add: LoadOption_new_def Let_def v)
  then show ?thesis
    by (simp add: CommandLineOption_new_def jump_variables_def has_option_def CommandLineOption_logger_def as_string_def
        CommandLineOption_address_def as_strings_def CommandLineOption_xlen_def notify_int_def notify_size_def
        jump_config_def v Let_def)
qed

definition jump_start :: "Emulator result" where
  "jump_start = rbind (Emulator_new XLEN32 0x80000000 0x1000 None 0)
     (load_files [\<lparr> lo_Path = ''f'', lo_Address = 0x80000000 \<rparr>] (fresh_index ''t'' jump_files))"

lemma jump_cycles:
  "case jump_start of Inl err \<Rightarrow> False
   | Inr e \<Rightarrow> System_GetPc (emu_System e) = 0x80000000 \<and>
     (case System_ProcessCycle h (emu_System e) of Inl err \<Rightarrow> False
     | Inr t \<Rightarrow> length (sys_EventList t) \<le> 80 \<and>
        (case System_ProcessCycle h t of Inl err \<Rightarrow> err = EmuException | Inr t \<Rightarrow> False))"
  by code_simp

lemma jump_starts:
  assumes "n \<le> 2147483647"
  obtains opt e where "starts (Some (jump_variables n)) jump_files opt e" "jump_start = Inr e"
    "co_Cycle opt = n" "co_XLEN opt = XLEN32" "co_LoggerConfig opt = jump_config" "\<not> co_GdbEnabled opt"
    "co_DumpSkipCycle opt = 0"
proof -
  obtain opt where opt: "CommandLineOption_new (Some (jump_variables n)) = Inr opt" "co_Cycle opt = n" "co_DumpSkipCycle opt = 0"
    "co_LoggerConfig opt = jump_config" "co_LoadOptions opt = [\<lparr> lo_Path = ''f'', lo_Address = 0x80000000 \<rparr>]"
    "co_XLEN opt = XLEN32" "co_Pc opt = 0x80000000" "co_RamSize opt = 0x1000" "co_DtbAddress opt = 0"
    "\<not> co_HostIoEnabled opt" "\<not> co_GdbEnabled opt" using jump_option by blast
  obtain e where e: "jump_start = Inr e"
  proof (cases jump_start)
    case (Inl err)
    then show ?thesis using jump_cycles [of undefined] by (simp only: Inl sum.case)
  qed
  have "starts (Some (jump_variables n)) jump_files opt e"
    using assms opt e by (simp add: starts_def jump_config_def jump_files_def jump_start_def)
  then show ?thesis using that e opt by blast
qed

lemma jump_log:
  assumes "jump_start = Inr e"
  obtains x e' where "run_log h XLEN32 jump_config limit 1 e = Inr [x]" "length (cycle_data x) \<le> 4096"
    "run_cycles h 1 e = Inr e'" "Emulator_ProcessCycle h e' = Inl EmuException" "GetPc (cycle_view x) = Inr 0x80000000"
proof -
  have j: "System_GetPc (emu_System e) = 0x80000000" "case System_ProcessCycle h (emu_System e) of Inl err \<Rightarrow> False
     | Inr t \<Rightarrow> length (sys_EventList t) \<le> 80 \<and>
        (case System_ProcessCycle h t of Inl err \<Rightarrow> err = EmuException | Inr t \<Rightarrow> False)"
    using jump_cycles [of h] by (simp_all add: assms)
  obtain t where t: "System_ProcessCycle h (emu_System e) = Inr t" "length (sys_EventList t) \<le> 80"
    "System_ProcessCycle h t = Inl EmuException" using j(2) by (auto split: sum.splits)
  obtain nds where nds: "state_nodes System_ILoggerTarget XLEN32 jump_config (emu_System e) = Inr nds"
    by (simp add: state_nodes_def jump_config_def)
  show ?thesis
    by (rule that [OF _ entry_size [OF nds _ t(2), where limit = limit and pc = "System_GetPc (emu_System e)"],
          of "e\<lparr> emu_System := t, emu_Cycle := emu_Cycle e + 1 \<rparr>"])
      (use t nds j(1) in \<open>simp_all add: Emulator_ProcessCycle_def entry_def cycle_view_def spec_cycle_def\<close>)
qed

lemma main_run_reads_back_witness:
  "\<forall>h clients. \<exists>fs' r v. rafi_emu_main h (Some (jump_variables 1)) clients jump_files = Some (Exit 0, Some fs') \<and>
    TraceIndexReader_new fs' ''t.tidx'' = Inr r \<and> IndexReader_GetCycle r = Inr (Some v) \<and> GetPc v = Inr 0x80000000"
proof (intro allI)
  fix h clients
  obtain opt e where o: "starts (Some (jump_variables 1)) jump_files opt e" "jump_start = Inr e"
    "co_Cycle opt = 1" "co_XLEN opt = XLEN32" "co_LoggerConfig opt = jump_config" "\<not> co_GdbEnabled opt"
    "co_DumpSkipCycle opt = 0" by (rule jump_starts [of 1]) simp_all
  obtain x where x: "run_log h XLEN32 jump_config (int 1) 1 e = Inr [x]" "length (cycle_data x) \<le> 4096"
    "GetPc (cycle_view x) = Inr 0x80000000" by (rule jump_log [OF o(2)])
  show "\<exists>fs' r v. rafi_emu_main h (Some (jump_variables 1)) clients jump_files = Some (Exit 0, Some fs') \<and>
    TraceIndexReader_new fs' ''t.tidx'' = Inr r \<and> IndexReader_GetCycle r = Inr (Some v) \<and> GetPc v = Inr 0x80000000"
    using main_run_reads_back [OF o(1,6), of 1 0 h e "[x]" 0 clients] o(3-5,7) x
    by (auto simp: jump_config_def index_path_def is_space_def)
qed

lemma failed_run_loses_trace_witness:
  "\<forall>h clients. \<exists>fs'. rafi_emu_main h (Some (jump_variables 5)) clients jump_files = Some (Exit 1, Some fs') \<and>
    fs_files fs' ''t.tidx'' = Some [] \<and> fs_files fs' ''t.0.tbin'' = None"
proof (intro allI)
  fix h clients
  obtain opt e where o: "starts (Some (jump_variables 5)) jump_files opt e" "jump_start = Inr e"
    "co_Cycle opt = 5" "co_XLEN opt = XLEN32" "co_LoggerConfig opt = jump_config" "co_DumpSkipCycle opt = 0" by (rule jump_starts [of 5]) simp_all
  obtain x e' where x: "run_log h XLEN32 jump_config 5 1 e = Inr [x]" "length (cycle_data x) \<le> 4096"
    "run_cycles h 1 e = Inr e'" "Emulator_ProcessCycle h e' = Inl EmuException" by (rule jump_log [OF o(2)])
  have "rafi_emu_main h (Some (jump_variables 5)) clients jump_files = Some (Exit 1, Some (fresh_index ''t'' jump_files))"
    using failed_run_loses_trace [OF o(1), of 1 0 h e "[x]" e' clients] o(3-6) x by (simp add: jump_config_def MaxFileSize_def)
  then show "\<exists>fs'. rafi_emu_main h (Some (jump_variables 5)) clients jump_files = Some (Exit 1, Some fs') \<and>
      fs_files fs' ''t.tidx'' = Some [] \<and> fs_files fs' ''t.0.tbin'' = None"
    by (simp add: fresh_index_def index_path_def jump_files_def)
qed

lemma missing_file_uncaught_witness:
  "\<forall>h clients. rafi_emu_main h (Some (jump_variables 5)) clients \<lparr> fs_files = Map.empty, fs_writable = UNIV \<rparr> =
    Some (UncaughtException EmuException, None)"
proof (intro allI)
  fix h clients
  let ?fs = "\<lparr> fs_files = Map.empty, fs_writable = UNIV \<rparr>"
  obtain opt where opt: "CommandLineOption_new (Some (jump_variables 5)) = Inr opt" "co_LoggerConfig opt = jump_config"
    "co_LoadOptions opt = [\<lparr> lo_Path = ''f'', lo_Address = 0x80000000 \<rparr>]"
    "co_XLEN opt = XLEN32" "co_Pc opt = 0x80000000" "co_RamSize opt = 0x1000" "co_DtbAddress opt = 0"
    "\<not> co_HostIoEnabled opt" using jump_option by blast
  obtain e0 where e0: "Emulator_new XLEN32 0x80000000 0x1000 None 0 = Inr e0" by (rule new_emulator)
  obtain lg where lg: "Logger_new XLEN32 jump_config ?fs = Inr (lg, fresh_index ''t'' ?fs)"
    by (rule Logger_new_ready [where config = jump_config and fs = ?fs and xlen = XLEN32])
      (auto simp: jump_config_def fresh_index_def)
  have "option_Emulator opt ?fs = Inr \<lparr> le_Emulator = e0, le_Logger = lg, le_files = fresh_index ''t'' ?fs \<rparr>"
    using opt e0 lg by (simp add: option_Emulator_def)
  from missing_file_uncaught [OF opt(1) this, of "\<lparr> lo_Path = ''f'', lo_Address = 0x80000000 \<rparr>" h clients]
  show "rafi_emu_main h (Some (jump_variables 5)) clients ?fs = Some (UncaughtException EmuException, None)"
    using opt(3) by (simp add: fresh_index_def index_path_def)
qed

end
