(* ===== verification/TraceText.thy ===== *)
theory TraceText
  imports TraceIndex
begin

text \<open>
  The text forms of a trace: \<^verbatim>\<open>TextCycle.cpp\<close>, \<^verbatim>\<open>TextTrace.cpp\<close>,
  \<^verbatim>\<open>TraceTextReader.cpp\<close> for the program's own, \<^verbatim>\<open>GdbCycle.cpp\<close>,
  \<^verbatim>\<open>GdbTrace.cpp\<close>, \<^verbatim>\<open>GdbTraceReader.cpp\<close> for a log of gdb, all of
  \<^verbatim>\<open>lib/trace/\<close>. A member that is not set yet is \<open>None\<close>; a file that cannot be opened is a
  stream that has failed.
\<close>

section \<open>Extraction into members\<close>

definition read_into :: "('a::len word) option \<Rightarrow> istream \<Rightarrow> 'a word option \<times> istream" where
  "read_into old f = (case read_number f of (None, f) \<Rightarrow> (old, f) | (Some v, f) \<Rightarrow> (Some v, f))"

definition read_string :: "istream \<Rightarrow> string \<times> istream" where
  "read_string f = (case read_word f of (None, f) \<Rightarrow> ([], f) | (Some s, f) \<Rightarrow> (s, f))"

primrec read_regs :: "uint64 option list \<Rightarrow> istream \<Rightarrow> uint64 option list \<times> istream" where
  "read_regs [] f = ([], f)"
| "read_regs (r # rs) f = (case read_into r f of (r, f) \<Rightarrow> (case read_regs rs f of (rs, f) \<Rightarrow> (r # rs, f)))"

definition ifstream_open :: "filesystem \<Rightarrow> string \<Rightarrow> istream" where
  "ifstream_open fs path = (case fs_files fs path of
      None \<Rightarrow> (istream_new [])\<lparr> is_fail := True \<rparr>
    | Some content \<Rightarrow> istream_new (file_text content))"

definition value_of :: "'a option \<Rightarrow> 'a result" where
  "value_of v = (case v of None \<Rightarrow> Inl Undefined | Some x \<Rightarrow> Inr x)"

lemma read_into_text: "length (is_text (snd (read_into r f))) \<le> length (is_text f)"
  using read_number_text [of f, where ?'a = 'a] by (auto simp: read_into_def split: prod.split option.split)

lemma read_regs_text: "length (is_text (snd (read_regs rs f))) \<le> length (is_text f)"
proof (induction rs arbitrary: f)
  case (Cons r rs)
  show ?case using read_into_text [of r f] Cons.IH [of "snd (read_into r f)"]
    by (auto simp: split_beta)
qed simp

lemma read_string_text: "length (is_text (snd (read_string f))) \<le> length (is_text f)"
  using read_word_text [of f] by (auto simp: read_string_def split: prod.split option.split)

lemma set_hex_text [simp]: "is_text (set_hex f) = is_text f"
  by (simp add: set_hex_def)

section \<open>TextCycle\<close>

record TextCycle =
  tc_CycleCount :: "uint32 option"
  tc_XLEN :: "uint32 option"
  tc_Pc :: "uint64 option"
  tc_BasicExist :: bool
  tc_IntRegExist :: bool
  tc_FpRegExist :: bool
  tc_IntRegs :: "uint64 option list"
  tc_FpRegs :: "uint64 option list"

definition TextCycle_new :: "uint32 \<Rightarrow> TextCycle" where
  "TextCycle_new xlen = \<lparr> tc_CycleCount = None, tc_XLEN = Some xlen, tc_Pc = None, tc_BasicExist = False,
     tc_IntRegExist = False, tc_FpRegExist = False, tc_IntRegs = replicate IntRegCount None,
     tc_FpRegs = replicate IntRegCount None \<rparr>"

definition ParseBasic :: "TextCycle \<Rightarrow> istream \<Rightarrow> TextCycle \<times> istream" where
  "ParseBasic c f = (case read_into (tc_CycleCount c) (set_hex f) of (cycle, f) \<Rightarrow>
     (case read_into None f of (xlen, f) \<Rightarrow> (case read_into (tc_Pc c) f of (pc, f) \<Rightarrow>
       (c\<lparr> tc_CycleCount := cycle, tc_XLEN := xlen, tc_Pc := pc, tc_BasicExist := True \<rparr>, f))))"

definition ParseIntReg :: "TextCycle \<Rightarrow> istream \<Rightarrow> TextCycle \<times> istream" where
  "ParseIntReg c f = (case read_regs (tc_IntRegs c) (set_hex f) of (rs, f) \<Rightarrow>
     (c\<lparr> tc_IntRegs := rs, tc_IntRegExist := True \<rparr>, f))"

text \<open>Not called: \<open>Parse\<close> reads the registers behind \<open>FP\<close> with \<open>ParseIntReg\<close> too.\<close>

definition ParseFpReg :: "TextCycle \<Rightarrow> istream \<Rightarrow> TextCycle \<times> istream" where
  "ParseFpReg c f = (case read_regs (tc_FpRegs c) (set_hex f) of (rs, f) \<Rightarrow>
     (c\<lparr> tc_FpRegs := rs, tc_FpRegExist := True \<rparr>, f))"

lemma parse_parts_text:
  "length (is_text (snd (ParseBasic c f))) \<le> length (is_text f)"
  "length (is_text (snd (ParseIntReg c f))) \<le> length (is_text f)"
proof -
  define f1 where "f1 = snd (read_into (tc_CycleCount c) (set_hex f))"
  define f2 where "f2 = snd (read_into (None :: uint32 option) f1)"
  have "length (is_text (snd (read_into (tc_Pc c) f2))) \<le> length (is_text f2)" by (rule read_into_text)
  also have "\<dots> \<le> length (is_text f1)" unfolding f2_def by (rule read_into_text)
  also have "\<dots> \<le> length (is_text f)" unfolding f1_def using read_into_text [of _ "set_hex f"] by simp
  finally show "length (is_text (snd (ParseBasic c f))) \<le> length (is_text f)"
    by (simp add: ParseBasic_def split_beta f1_def f2_def)
  show "length (is_text (snd (ParseIntReg c f))) \<le> length (is_text f)"
    using read_regs_text [of "tc_IntRegs c" "set_hex f"] by (simp add: ParseIntReg_def split_beta)
qed

text \<open>The loop of \<open>Parse\<close>, with the stream it leaves. It ends at \<open>BREAK\<close> or by an exception.\<close>

function TextCycle_ParseLoop :: "TextCycle \<Rightarrow> istream \<Rightarrow> TextCycle result \<times> istream" where
  "TextCycle_ParseLoop c f = (case read_word f of
      (None, f) \<Rightarrow> (Inl TraceException, f)
    | (Some s, f) \<Rightarrow>
        if s = ''BREAK'' then (Inr c, f)
        else if s = ''BASIC'' then (case ParseBasic c f of (c, f) \<Rightarrow> TextCycle_ParseLoop c f)
        else if s = ''INT'' then (case ParseIntReg c f of (c, f) \<Rightarrow> TextCycle_ParseLoop c f)
        else if s = ''FP'' then (case ParseIntReg c f of (c, f) \<Rightarrow> TextCycle_ParseLoop c f)
        else (Inl TraceException, f))"
  by pat_completeness auto
termination
proof (relation "measure (\<lambda>(c, f). length (is_text f))")
  show "wf (measure (\<lambda>(c :: TextCycle, f). length (is_text f)))" by simp
  fix c f s and x :: "string option" and y z g d
  assume w: "(x, y) = read_word f" and s: "x = Some s"
  have less: "length (is_text y) < length (is_text f)" using read_word_shorter(1) [of f s y] w s by simp
  { assume "(d, g) = ParseBasic c y"
    then have "length (is_text g) \<le> length (is_text y)" using parse_parts_text(1) [of c y] by (metis snd_conv)
    then show "((d, g), c, f) \<in> measure (\<lambda>(c, f). length (is_text f))" using less by simp }
  { assume "(d, g) = ParseIntReg c y"
    then have "length (is_text g) \<le> length (is_text y)" using parse_parts_text(2) [of c y] by (metis snd_conv)
    then show "((d, g), c, f) \<in> measure (\<lambda>(c, f). length (is_text f))" using less by simp }
  { assume "(d, g) = ParseIntReg c y"
    then have "length (is_text g) \<le> length (is_text y)" using parse_parts_text(2) [of c y] by (metis snd_conv)
    then show "((d, g), c, f) \<in> measure (\<lambda>(c, f). length (is_text f))" using less by simp }
qed

declare TextCycle_ParseLoop.simps [simp del]

definition TextCycle_Parse :: "istream \<Rightarrow> uint32 \<Rightarrow> TextCycle result \<times> istream" where
  "TextCycle_Parse f xlen = TextCycle_ParseLoop (TextCycle_new xlen) f"

definition basic_member :: "TextCycle \<Rightarrow> 'a option \<Rightarrow> 'a result" where
  "basic_member c v = (if tc_BasicExist c then value_of v else Inl TraceException)"

definition TextCycle_GetIntReg :: "TextCycle \<Rightarrow> nat \<Rightarrow> uint64 result" where
  "TextCycle_GetIntReg c index =
     (if \<not> tc_IntRegExist c then Inl TraceException
      else if \<not> index < IntRegCount then Inl TraceException
      else value_of (tc_IntRegs c ! index))"

text \<open>The guard asks for the integer registers, as in the code.\<close>

definition TextCycle_GetFpReg :: "TextCycle \<Rightarrow> nat \<Rightarrow> uint64 result" where
  "TextCycle_GetFpReg c index =
     (if \<not> tc_IntRegExist c then Inl TraceException
      else if \<not> index < IntRegCount then Inl TraceException
      else value_of (tc_FpRegs c ! index))"

definition TextCycle_ICycle :: "TextCycle \<Rightarrow> ICycle" where
  "TextCycle_ICycle c = \<lparr>
     GetCycle = basic_member c (tc_CycleCount c),
     GetXLEN = basic_member c (tc_XLEN c),
     GetPc = basic_member c (tc_Pc c),
     IsIntRegExist = tc_IntRegExist c,
     IsFpRegExist = tc_FpRegExist c,
     IsIoExist = False,
     GetOpEventCount = 0,
     GetMemoryEventCount = 0,
     GetTrapEventCount = 0,
     GetIntReg = TextCycle_GetIntReg c,
     GetFpReg = TextCycle_GetFpReg c,
     CopyIo = Inl ProcessExit,
     CopyOpEvent = (\<lambda>_. Inl ProcessExit),
     CopyMemoryEvent = (\<lambda>_. Inl ProcessExit),
     CopyTrapEvent = (\<lambda>_. Inl ProcessExit) \<rparr>"

section \<open>TextTrace and TraceTextReader\<close>

record TextTrace =
  tt_XLEN :: uint32
  tt_pInput :: istream
  tt_pTextCycle :: "TextCycle option"

definition UpdateTextCycle :: "TextTrace \<Rightarrow> TextTrace" where
  "UpdateTextCycle t = (case TextCycle_Parse (tt_pInput t) (tt_XLEN t) of
      (Inr c, f) \<Rightarrow> t\<lparr> tt_pInput := f, tt_pTextCycle := Some c \<rparr>
    | (Inl _, f) \<Rightarrow> t\<lparr> tt_pInput := f, tt_pTextCycle := None \<rparr>)"

definition TextTrace_new :: "istream \<Rightarrow> TextTrace result" where
  "TextTrace_new f = (case read_string f of (s, f) \<Rightarrow>
     if s \<noteq> ''XLEN'' then Inl TraceException
     else (case read_string f of (s, f) \<Rightarrow>
       if s = ''32'' then Inr (UpdateTextCycle \<lparr> tt_XLEN = 1, tt_pInput = f, tt_pTextCycle = None \<rparr>)
       else if s = ''64'' then Inr (UpdateTextCycle \<lparr> tt_XLEN = 2, tt_pInput = f, tt_pTextCycle = None \<rparr>)
       else Inl TraceException))"

definition TextTrace_GetCycle :: "TextTrace \<Rightarrow> ICycle option" where
  "TextTrace_GetCycle t = map_option TextCycle_ICycle (tt_pTextCycle t)"

definition TextTrace_IsEnd :: "TextTrace \<Rightarrow> bool" where
  "TextTrace_IsEnd t \<longleftrightarrow> tt_pTextCycle t = None"

definition TextTrace_Next :: "TextTrace \<Rightarrow> TextTrace result" where
  "TextTrace_Next t = (if TextTrace_IsEnd t then Inl TraceException else Inr (UpdateTextCycle t))"

definition TraceTextReader_new :: "filesystem \<Rightarrow> string \<Rightarrow> TextTrace result" where
  "TraceTextReader_new fs path = TextTrace_new (ifstream_open fs path)"

definition TextReader_ITraceReader :: "TextTrace ITraceReader" where
  "TextReader_ITraceReader = \<lparr>
     tr_GetCycle = (\<lambda>t. Inr (TextTrace_GetCycle t)),
     tr_IsEnd = (\<lambda>t. Inr (TextTrace_IsEnd t)),
     tr_Next = TextTrace_Next,
     tr_NextN = (\<lambda>n. repeat_next TextTrace_Next (unat n)) \<rparr>"

section \<open>GdbCycle\<close>

record GdbCycle =
  gc_CycleCount :: uint32
  gc_Pc :: uint64
  gc_IntRegs :: "uint64 list"

definition GdbCycle_new :: GdbCycle where
  "GdbCycle_new = \<lparr> gc_CycleCount = 0, gc_Pc = 0, gc_IntRegs = replicate IntRegCount 0 \<rparr>"

definition g_IntRegNames :: "string list" where
  "g_IntRegNames = [
     ''zero'', ''ra'', ''sp'', ''gp'', ''tp'', ''t0'', ''t1'', ''t2'',
     ''s0'', ''s1'', ''a0'', ''a1'', ''a2'', ''a3'', ''a4'', ''a5'',
     ''a6'', ''a7'', ''s2'', ''s3'', ''s4'', ''s5'', ''s6'', ''s7'',
     ''s8'', ''s9'', ''s10'', ''s11'', ''t3'', ''t4'', ''t5'', ''t6'']"

fun name_index :: "string \<Rightarrow> string list \<Rightarrow> nat option" where
  "name_index s [] = None"
| "name_index s (n # ns) = (if s = n then Some 0 else map_option Suc (name_index s ns))"

text \<open>\<open>std::hex >> v >> tmp\<close>: a number and a word that is dropped.\<close>

definition read_value :: "uint64 \<Rightarrow> istream \<Rightarrow> uint64 \<times> istream" where
  "read_value old f = (case read_into (Some old) (set_hex f) of (v, f) \<Rightarrow>
     (case v of Some v \<Rightarrow> v | None \<Rightarrow> old, snd (read_string f)))"

lemma read_value_text: "length (is_text (snd (read_value v f))) \<le> length (is_text f)"
  using read_into_text [of "Some v" "set_hex f"] read_string_text [of "snd (read_into (Some v) (set_hex f))"]
  by (simp add: read_value_def split_beta)

function GdbCycle_ParseLoop :: "GdbCycle \<Rightarrow> istream \<Rightarrow> GdbCycle result \<times> istream" where
  "GdbCycle_ParseLoop c f = (case read_word f of
      (None, f) \<Rightarrow> (Inl TraceException, f)
    | (Some head, f) \<Rightarrow>
        if head = ''BREAK'' then (Inr c, f)
        else if head = ''pc'' then (case read_value (gc_Pc c) f of (v, f) \<Rightarrow>
          GdbCycle_ParseLoop (c\<lparr> gc_Pc := v \<rparr>) f)
        else if head = ''priv'' then GdbCycle_ParseLoop c (snd (read_string f))
        else (case name_index head g_IntRegNames of
            None \<Rightarrow> (Inl TraceException, f)
          | Some i \<Rightarrow> (case read_value (gc_IntRegs c ! i) f of (v, f) \<Rightarrow>
              GdbCycle_ParseLoop (c\<lparr> gc_IntRegs := (gc_IntRegs c)[i := v] \<rparr>) f)))"
  by pat_completeness auto
termination
proof (relation "measure (\<lambda>(c, f). length (is_text f))")
  show "wf (measure (\<lambda>(c :: GdbCycle, f). length (is_text f)))" by simp
  fix c f and x :: "string option" and y s v g i
  assume w: "(x, y) = read_word f" and s: "x = Some s"
  have less: "length (is_text y) < length (is_text f)" using read_word_shorter(1) [of f s y] w s by simp
  have value_less: "length (is_text g) < length (is_text f)" if "(v, g) = read_value u y" for u
    using read_value_text [of u y] less that by (metis le_less_trans snd_conv)
  show "((c\<lparr> gc_Pc := v \<rparr>, g), c, f) \<in> measure (\<lambda>(c, f). length (is_text f))"
    if "(v, g) = read_value (gc_Pc c) y" using value_less [OF that] by simp
  show "((c, snd (read_string y)), c, f) \<in> measure (\<lambda>(c, f). length (is_text f))"
    using read_string_text [of y] less by simp
  show "((c\<lparr> gc_IntRegs := (gc_IntRegs c)[i := v] \<rparr>, g), c, f) \<in> measure (\<lambda>(c, f). length (is_text f))"
    if "(v, g) = read_value (gc_IntRegs c ! i) y" using value_less [OF that] by simp
qed

declare GdbCycle_ParseLoop.simps [simp del]

definition GdbCycle_Parse :: "istream \<Rightarrow> uint32 \<Rightarrow> GdbCycle result \<times> istream" where
  "GdbCycle_Parse f cycle = GdbCycle_ParseLoop (GdbCycle_new\<lparr> gc_CycleCount := cycle \<rparr>) f"

definition GdbCycle_GetIntReg :: "GdbCycle \<Rightarrow> nat \<Rightarrow> uint64 result" where
  "GdbCycle_GetIntReg c index = (if \<not> index < IntRegCount then Inl TraceException else Inr (gc_IntRegs c ! index))"

definition GdbCycle_ICycle :: "GdbCycle \<Rightarrow> ICycle" where
  "GdbCycle_ICycle c = \<lparr>
     GetCycle = Inr (gc_CycleCount c),
     GetXLEN = Inr 2,
     GetPc = Inr (gc_Pc c),
     IsIntRegExist = True,
     IsFpRegExist = False,
     IsIoExist = False,
     GetOpEventCount = 0,
     GetMemoryEventCount = 0,
     GetTrapEventCount = 0,
     GetIntReg = GdbCycle_GetIntReg c,
     GetFpReg = (\<lambda>_. Inr 0),
     CopyIo = Inl ProcessExit,
     CopyOpEvent = (\<lambda>_. Inl ProcessExit),
     CopyMemoryEvent = (\<lambda>_. Inl ProcessExit),
     CopyTrapEvent = (\<lambda>_. Inl ProcessExit) \<rparr>"

section \<open>GdbTrace and GdbTraceReader\<close>

record GdbTrace =
  gt_CycleCount :: uint32
  gt_pInput :: istream
  gt_pGdbCycle :: "GdbCycle option"

definition GdbTrace_Update :: "GdbTrace \<Rightarrow> GdbTrace" where
  "GdbTrace_Update t = (case GdbCycle_Parse (gt_pInput t) (gt_CycleCount t) of (c, f) \<Rightarrow>
     t\<lparr> gt_CycleCount := gt_CycleCount t + 1, gt_pInput := f,
        gt_pGdbCycle := (case c of Inr c \<Rightarrow> Some c | Inl _ \<Rightarrow> None) \<rparr>)"

definition GdbTrace_new :: "istream \<Rightarrow> GdbTrace" where
  "GdbTrace_new f = GdbTrace_Update \<lparr> gt_CycleCount = 0, gt_pInput = f, gt_pGdbCycle = None \<rparr>"

definition GdbTrace_GetCycle :: "GdbTrace \<Rightarrow> ICycle option" where
  "GdbTrace_GetCycle t = map_option GdbCycle_ICycle (gt_pGdbCycle t)"

definition GdbTrace_IsEnd :: "GdbTrace \<Rightarrow> bool" where
  "GdbTrace_IsEnd t \<longleftrightarrow> gt_pGdbCycle t = None"

definition GdbTrace_Next :: "GdbTrace \<Rightarrow> GdbTrace result" where
  "GdbTrace_Next t = (if GdbTrace_IsEnd t then Inl TraceException else Inr (GdbTrace_Update t))"

definition GdbTraceReader_new :: "filesystem \<Rightarrow> string \<Rightarrow> GdbTrace" where
  "GdbTraceReader_new fs path = GdbTrace_new (ifstream_open fs path)"

definition GdbReader_ITraceReader :: "GdbTrace ITraceReader" where
  "GdbReader_ITraceReader = \<lparr>
     tr_GetCycle = (\<lambda>t. Inr (GdbTrace_GetCycle t)),
     tr_IsEnd = (\<lambda>t. Inr (GdbTrace_IsEnd t)),
     tr_Next = GdbTrace_Next,
     tr_NextN = (\<lambda>n. repeat_next GdbTrace_Next (unat n)) \<rparr>"

end
