(* ===== verification/TracePrinter.thy ===== *)
theory TracePrinter
  imports TraceReader TextStream OpText
begin

text \<open>
  \<^verbatim>\<open>TraceTextPrinter.cpp\<close>, \<^verbatim>\<open>TraceJsonPrinter.cpp\<close> and
  \<^verbatim>\<open>TraceShortPrinter.cpp\<close> of \<^verbatim>\<open>lib/trace/\<close>: a cycle as text. Printing returns
  the text; when a query of the cycle fails, so does printing. The conversion \<open>%e\<close> of a
  floating-point number is a parameter, from the bits of the number.
\<close>

section \<open>Helpers\<close>

primrec collect :: "('a \<Rightarrow> 'b result) \<Rightarrow> 'a list \<Rightarrow> 'b list result" where
  "collect f [] = Inr []"
| "collect f (x # xs) = rbind (f x) (\<lambda>y. rbind (collect f xs) (\<lambda>ys. Inr (y # ys)))"

text \<open>One text after the other.\<close>

definition print_each :: "('a \<Rightarrow> string result) \<Rightarrow> 'a list \<Rightarrow> string result" where
  "print_each f xs = rbind (collect f xs) (\<lambda>ss. Inr (concat ss))"

definition in_order :: "string result list \<Rightarrow> string result" where
  "in_order = print_each id"

record host_float =
  f32_text :: "uint32 \<Rightarrow> string"
  f64_text :: "uint64 \<Rightarrow> string"

section \<open>TraceTextPrinter\<close>

definition Text_PrintHeader :: "uint64 \<Rightarrow> ICycle \<Rightarrow> string result" where
  "Text_PrintHeader cycle c =
     (if cycle = 0 then Inr []
      else rbind (GetXLEN c) (\<lambda>xlen.
        if xlen = 1 then Inr (''XLEN  32'' @ newline)
        else if xlen = 2 then Inr (''XLEN  64'' @ newline)
        else Inl ProcessExit))"

definition Text_PrintBasic :: "ICycle \<Rightarrow> string result" where
  "Text_PrintBasic c = rbind (GetCycle c) (\<lambda>cycle. rbind (GetXLEN c) (\<lambda>xlen. rbind (GetPc c) (\<lambda>pc.
     printf (''BASIC %08x %x %016lx 0'' @ newline) [ArgInt cycle, ArgInt xlen, ArgLong pc])))"

definition reg_format :: string where
  "reg_format = concat (replicate 8 ('' %016lx %016lx %016lx %016lx'' @ newline))"

definition Text_PrintIntReg :: "ICycle \<Rightarrow> string result" where
  "Text_PrintIntReg c =
     (if \<not> IsIntRegExist c then Inr []
      else rbind (collect (GetIntReg c) [0..<32]) (\<lambda>rs. printf (''INT'' @ newline @ reg_format) (map ArgLong rs)))"

definition Text_PrintFpReg :: "ICycle \<Rightarrow> string result" where
  "Text_PrintFpReg c =
     (if \<not> IsFpRegExist c then Inr []
      else rbind (collect (GetFpReg c) [0..<32]) (\<lambda>rs. printf (''FP'' @ newline @ reg_format) (map ArgLong rs)))"

definition Text_PrintIoState :: "ICycle \<Rightarrow> string result" where
  "Text_PrintIoState c =
     (if \<not> IsIoExist c then Inr []
      else rbind (CopyIo c) (\<lambda>st. printf (''IO %08x'' @ newline) [ArgInt (io_hostIo st)]))"

definition Text_PrintOpEvent :: "ICycle \<Rightarrow> string result" where
  "Text_PrintOpEvent c = print_each (\<lambda>i. rbind (CopyOpEvent c i) (\<lambda>e.
     printf (''OP %x %s'' @ newline) [ArgInt (oe_insn e), ArgStr (Some (GetString_PrivilegeLevel (oe_priv e)))]))
     [0..<GetOpEventCount c]"

definition Text_PrintMemoryEvent :: "ICycle \<Rightarrow> string result" where
  "Text_PrintMemoryEvent c = print_each (\<lambda>i. rbind (CopyMemoryEvent c i) (\<lambda>e.
     printf (''MA %s %x %lx %lx %lx'' @ newline)
       [ArgStr (Some (GetString_MemoryAccessType (me_accessType e))), ArgInt (me_size e), ArgLong (me_value e),
        ArgLong (me_vaddr e), ArgLong (me_paddr e)]))
     [0..<GetMemoryEventCount c]"

definition Text_PrintTrapEvent :: "ICycle \<Rightarrow> string result" where
  "Text_PrintTrapEvent c = print_each (\<lambda>i. rbind (CopyTrapEvent c i) (\<lambda>e.
     printf (''TRAP %s %s %s %x %lx'' @ newline)
       [ArgStr (Some (GetString_TrapType (te_trapType e))), ArgStr (Some (GetString_PrivilegeLevel (te_from e))),
        ArgStr (Some (GetString_PrivilegeLevel (te_to e))), ArgInt (te_cause e), ArgLong (te_trapValue e)]))
     [0..<GetTrapEventCount c]"

text \<open>\<open>Print\<close>, with the number of cycles printed so far as the printer's state.\<close>

definition Text_Print :: "ICycle \<Rightarrow> uint64 \<Rightarrow> (string \<times> uint64) result" where
  "Text_Print c cycle = rbind (in_order [Text_PrintHeader cycle c, Text_PrintBasic c, Text_PrintIntReg c,
     Text_PrintFpReg c, Text_PrintIoState c, Text_PrintOpEvent c, Text_PrintMemoryEvent c, Text_PrintTrapEvent c,
     Inr (''BREAK'' @ newline)]) (\<lambda>s. Inr (s, cycle + 1))"

section \<open>TraceJsonPrinter\<close>

definition GetCauseString :: "uint32 \<Rightarrow> uint32 \<Rightarrow> string" where
  "GetCauseString trapType cause =
     (if trapType = 1 then GetString_ExceptionType cause
      else if trapType = 0 then GetString_InterruptType cause
      else [])"

definition Json_PrintPc :: "ICycle \<Rightarrow> string result" where
  "Json_PrintPc c = rbind (GetPc c) (\<lambda>pc. printf
     (''  Pc {'' @ newline @ ''    vaddr: 0x%lx'' @ newline @ ''    paddr: 0'' @ newline @ ''  }'' @ newline) [ArgLong pc])"

definition json_reg_labels :: "(string \<times> string) list" where
  "json_reg_labels = [
     (''x0:  '', ''zero''), (''x1:  '', ''ra''), (''x2:  '', ''sp''), (''x3:  '', ''gp''),
     (''x4:  '', ''tp''), (''x5:  '', ''t0''), (''x6:  '', ''t1''), (''x7:  '', ''t2''),
     (''x8:  '', ''s0 (fp)''), (''x9:  '', ''s1''), (''x10: '', ''a0''), (''x11: '', ''a1''),
     (''x12: '', ''a2''), (''x13: '', ''a3''), (''x14: '', ''a4''), (''x15: '', ''a5''),
     (''x16: '', ''a6''), (''x17: '', ''a7''), (''x18: '', ''s2''), (''x19: '', ''s3''),
     (''x20: '', ''s4''), (''x21: '', ''s5''), (''x22: '', ''s6''), (''x23: '', ''s7''),
     (''x24: '', ''s8''), (''x25: '', ''s9''), (''x26: '', ''s10''), (''x27: '', ''s11''),
     (''x28: '', ''t3''), (''x29: '', ''t4''), (''x30: '', ''t5''), (''x31: '', ''t6'')]"

definition Json_PrintIntReg :: "ICycle \<Rightarrow> string result" where
  "Json_PrintIntReg c =
     (if \<not> IsIntRegExist c then Inr []
      else rbind (collect (GetIntReg c) [0..<32]) (\<lambda>rs. printf
        (''  IntReg: {'' @ newline @
         concat (map (\<lambda>(label, name). ''    '' @ label @ ''0x%lx // '' @ name @ newline) json_reg_labels) @
         ''  }'' @ newline) (map ArgLong rs)))"

definition Json_PrintFpReg :: "host_float \<Rightarrow> ICycle \<Rightarrow> string result" where
  "Json_PrintFpReg hf c =
     (if \<not> IsFpRegExist c then Inr []
      else rbind (print_each (\<lambda>i. rbind (GetFpReg c i) (\<lambda>v.
        let number = dec_string (int i) in
        rbind (printf ''%s'' [ArgStr (GetFpRegName (int i))]) (\<lambda>name.
        Inr (''    f'' @ number @ replicate (2 - length number) CHR '' '' @ '': { u64: 0x'' @ digits 16 (unat v) @
          '', f32: '' @ f32_text hf (ucast v) @ '', f64: '' @ f64_text hf v @ '' } // '' @ name @ newline))))
        [0..<32]) (\<lambda>s. Inr (''  FpReg: {'' @ newline @ s @ ''  }'' @ newline)))"

definition Json_PrintIoState :: "ICycle \<Rightarrow> string result" where
  "Json_PrintIoState c =
     (if \<not> IsIoExist c then Inr []
      else rbind (CopyIo c) (\<lambda>node. printf
        (''  Io {'' @ newline @ ''    host: 0x%x'' @ newline @ ''  }'' @ newline) [ArgInt (io_hostIo node)]))"

text \<open>A word that does not decode gives a null pointer, which is dereferenced.\<close>

definition Json_PrintOpEvent :: "XLEN \<Rightarrow> ICycle \<Rightarrow> string result" where
  "Json_PrintOpEvent xlen c = print_each (\<lambda>i. rbind (CopyOpEvent c i) (\<lambda>e.
     rbind (OpDecoder_Decode xlen (oe_insn e)) (\<lambda>op. case op of
       None \<Rightarrow> Inl Undefined
     | Some op \<Rightarrow> rbind (IOp_ToString op) (\<lambda>text. printf
         (''  Op {'' @ newline @ ''    insn:  0x%x // %s'' @ newline @ ''    priv:  %s'' @ newline @ ''  }'' @ newline)
         [ArgInt (oe_insn e), ArgStr (Some text), ArgStr (Some (GetString_PrivilegeLevel (oe_priv e)))]))))
     [0..<GetOpEventCount c]"

definition Json_PrintMemoryEvent :: "ICycle \<Rightarrow> string result" where
  "Json_PrintMemoryEvent c = print_each (\<lambda>i. rbind (CopyMemoryEvent c i) (\<lambda>e. printf
     (''  MemoryAccess {'' @ newline @ ''    accessType: %s'' @ newline @ ''    size: %d // byte'' @ newline @
      ''    value: 0x%lx'' @ newline @ ''    vaddr: 0x%lx'' @ newline @ ''    paddr: 0x%lx'' @ newline @ ''  }'' @ newline)
     [ArgStr (Some (GetString_MemoryAccessType (me_accessType e))), ArgInt (me_size e), ArgLong (me_value e),
      ArgLong (me_vaddr e), ArgLong (me_paddr e)]))
     [0..<GetMemoryEventCount c]"

definition Json_PrintTrapEvent :: "ICycle \<Rightarrow> string result" where
  "Json_PrintTrapEvent c = print_each (\<lambda>i. rbind (CopyTrapEvent c i) (\<lambda>e. printf
     (''  Trap {'' @ newline @ ''    type:  %s'' @ newline @ ''    from:  %s'' @ newline @ ''    to:    %s'' @ newline @
      ''    cause: %s'' @ newline @ ''    trapValue: 0x%lx'' @ newline @ ''  }'' @ newline)
     [ArgStr (Some (GetString_TrapType (te_trapType e))), ArgStr (Some (GetString_PrivilegeLevel (te_from e))),
      ArgStr (Some (GetString_PrivilegeLevel (te_to e))), ArgStr (Some (GetCauseString (te_trapType e) (te_cause e))),
      ArgLong (te_trapValue e)]))
     [0..<GetTrapEventCount c]"

definition Json_Print :: "host_float \<Rightarrow> XLEN \<Rightarrow> ICycle \<Rightarrow> uint64 \<Rightarrow> (string \<times> uint64) result" where
  "Json_Print hf xlen c cycle = rbind (in_order [Inr (''{'' @ newline), Json_PrintPc c, Json_PrintIntReg c,
     Json_PrintFpReg hf c, Json_PrintIoState c, Json_PrintOpEvent xlen c, Json_PrintMemoryEvent c, Json_PrintTrapEvent c,
     Inr (''}'' @ newline)]) (\<lambda>s. Inr (s, cycle + 1))"

section \<open>TraceShortPrinter\<close>

definition short_op_text :: "XLEN \<Rightarrow> ICycle \<Rightarrow> string result" where
  "short_op_text xlen c =
     (if 0 < GetOpEventCount c then rbind (CopyOpEvent c 0) (\<lambda>e.
        rbind (OpDecoder_Decode xlen (oe_insn e)) (\<lambda>op. case op of
          Some op \<Rightarrow> IOp_ToString op
        | None \<Rightarrow> Inr ''UNKNOWN''))
      else Inr [])"

definition Short_Print :: "XLEN \<Rightarrow> ICycle \<Rightarrow> string result" where
  "Short_Print xlen c = rbind (short_op_text xlen c) (\<lambda>opStr. rbind (GetPc c) (\<lambda>pc.
     printf (''%016lx:'' @ [CHR 0x09] @ ''%s'' @ newline) [ArgLong pc, ArgStr (Some opStr)]))"

section \<open>The printers\<close>

datatype TracePrinter = TextPrinter uint64 | JsonPrinter XLEN uint64 | ShortPrinter XLEN

definition TracePrinter_Print :: "host_float \<Rightarrow> ICycle \<Rightarrow> TracePrinter \<Rightarrow> (string \<times> TracePrinter) result" where
  "TracePrinter_Print hf c p = (case p of
      TextPrinter n \<Rightarrow> rbind (Text_Print c n) (\<lambda>(s, n). Inr (s, TextPrinter n))
    | JsonPrinter xlen n \<Rightarrow> rbind (Json_Print hf xlen c n) (\<lambda>(s, n). Inr (s, JsonPrinter xlen n))
    | ShortPrinter xlen \<Rightarrow> rbind (Short_Print xlen c) (\<lambda>s. Inr (s, ShortPrinter xlen)))"

end
