(* ===== verification/TraceTools.thy ===== *)
theory TraceTools
  imports TraceText TracePrinter TraceIndex
begin

text \<open>
  The tools over traces: \<^verbatim>\<open>lib/trace/TraceUtil.cpp\<close>, which picks a reader and a printer,
  and \<^verbatim>\<open>bin/rafi-dump/\<close>, \<^verbatim>\<open>bin/rafi-diff/\<close>,
  \<^verbatim>\<open>bin/rafi-conv/\<close> and \<^verbatim>\<open>bin/rafi-check-io/\<close>. The loops take the table of a
  reader, as the code takes its base class. What a tool prints comes with its outcome; the text of a
  turn that fails and the message of an exception are left out. Command lines are not modelled: their
  values are arguments.
\<close>

section \<open>Readers by file name\<close>

datatype AnyReader =
    BinaryFile TraceBinaryReader
  | IndexFile TraceIndexReader
  | GdbFile GdbTrace
  | TextFile TextTrace

definition ends_with :: "string \<Rightarrow> string \<Rightarrow> bool" where
  "ends_with s t \<longleftrightarrow> length t \<le> length s \<and> drop (length s - length t) s = t"

definition MakeTraceReader :: "filesystem \<Rightarrow> string \<Rightarrow> AnyReader result" where
  "MakeTraceReader fs path =
     (if ends_with path ''.tbin'' \<or> ends_with path ''.bin'' then
        rbind (TraceBinaryReader_new fs path) (\<lambda>r. Inr (BinaryFile r))
      else if ends_with path ''.tidx'' \<or> ends_with path ''.idx'' then
        rbind (TraceIndexReader_new fs path) (\<lambda>r. Inr (IndexFile r))
      else if ends_with path ''.gdb.log'' then Inr (GdbFile (GdbTraceReader_new fs path))
      else rbind (TraceTextReader_new fs path) (\<lambda>r. Inr (TextFile r)))"

text \<open>The virtual functions of the reader that was picked. An index opens its files as it goes on.\<close>

definition AnyReader_ITraceReader :: "filesystem \<Rightarrow> AnyReader ITraceReader" where
  "AnyReader_ITraceReader fs = \<lparr>
     tr_GetCycle = (\<lambda>r. case r of
         BinaryFile x \<Rightarrow> tr_GetCycle BinaryReader_ITraceReader x
       | IndexFile x \<Rightarrow> tr_GetCycle (IndexReader_ITraceReader fs) x
       | GdbFile x \<Rightarrow> tr_GetCycle GdbReader_ITraceReader x
       | TextFile x \<Rightarrow> tr_GetCycle TextReader_ITraceReader x),
     tr_IsEnd = (\<lambda>r. case r of
         BinaryFile x \<Rightarrow> tr_IsEnd BinaryReader_ITraceReader x
       | IndexFile x \<Rightarrow> tr_IsEnd (IndexReader_ITraceReader fs) x
       | GdbFile x \<Rightarrow> tr_IsEnd GdbReader_ITraceReader x
       | TextFile x \<Rightarrow> tr_IsEnd TextReader_ITraceReader x),
     tr_Next = (\<lambda>r. case r of
         BinaryFile x \<Rightarrow> rbind (tr_Next BinaryReader_ITraceReader x) (\<lambda>x. Inr (BinaryFile x))
       | IndexFile x \<Rightarrow> rbind (tr_Next (IndexReader_ITraceReader fs) x) (\<lambda>x. Inr (IndexFile x))
       | GdbFile x \<Rightarrow> rbind (tr_Next GdbReader_ITraceReader x) (\<lambda>x. Inr (GdbFile x))
       | TextFile x \<Rightarrow> rbind (tr_Next TextReader_ITraceReader x) (\<lambda>x. Inr (TextFile x))),
     tr_NextN = (\<lambda>n r. case r of
         BinaryFile x \<Rightarrow> rbind (tr_NextN BinaryReader_ITraceReader n x) (\<lambda>x. Inr (BinaryFile x))
       | IndexFile x \<Rightarrow> rbind (tr_NextN (IndexReader_ITraceReader fs) n x) (\<lambda>x. Inr (IndexFile x))
       | GdbFile x \<Rightarrow> rbind (tr_NextN GdbReader_ITraceReader n x) (\<lambda>x. Inr (GdbFile x))
       | TextFile x \<Rightarrow> rbind (tr_NextN TextReader_ITraceReader n x) (\<lambda>x. Inr (TextFile x))) \<rparr>"

datatype PrinterType = Short | Json | Text

definition MakeTracePrinter :: "PrinterType \<Rightarrow> XLEN \<Rightarrow> TracePrinter" where
  "MakeTracePrinter printerType xlen = (case printerType of
      Text \<Rightarrow> TextPrinter 0 | Json \<Rightarrow> JsonPrinter xlen 0 | Short \<Rightarrow> ShortPrinter xlen)"

text \<open>The cycle the reader shows, which the tools use without a check.\<close>

definition current_cycle :: "'r ITraceReader \<Rightarrow> 'r \<Rightarrow> ICycle result" where
  "current_cycle tr r = rbind (tr_GetCycle tr r) (\<lambda>c. case c of None \<Rightarrow> Inl Undefined | Some c \<Rightarrow> Inr c)"

section \<open>rafi-dump\<close>

datatype IFilter = DefaultFilter | PcFilter uint64 bool | MemoryAccessFilter uint64 bool bool bool

text \<open>The loop over the memory events: the first that matches ends it.\<close>

fun any_access :: "ICycle \<Rightarrow> uint64 \<Rightarrow> bool \<Rightarrow> bool \<Rightarrow> bool \<Rightarrow> nat list \<Rightarrow> bool result" where
  "any_access c a isPhysical checkLoad checkStore [] = Inr False"
| "any_access c a isPhysical checkLoad checkStore (i # is) = rbind (CopyMemoryEvent c i) (\<lambda>e.
     let address = (if isPhysical then me_paddr e else me_vaddr e);
         addressIncluded = (address \<le> a \<and> a < address + ucast (me_size e));
         check = (if me_accessType e = 0 \<or> me_accessType e = 2 then checkLoad
                  else if me_accessType e = 3 then checkStore else False) in
     if check \<and> addressIncluded then Inr True else any_access c a isPhysical checkLoad checkStore is)"

definition IFilter_Apply :: "IFilter \<Rightarrow> ICycle \<Rightarrow> bool result" where
  "IFilter_Apply f c = (case f of
      DefaultFilter \<Rightarrow> Inr True
    | PcFilter a isPhysical \<Rightarrow>
        if isPhysical then Inl AssertFailure else rbind (GetPc c) (\<lambda>pc. Inr (pc = a))
    | MemoryAccessFilter a isPhysical checkLoad checkStore \<Rightarrow>
        any_access c a isPhysical checkLoad checkStore [0..<GetMemoryEventCount c])"

text \<open>A description \<open>command:value\<close>; a command without its value uses an uninitialised one.\<close>

definition MakeFilter :: "string \<Rightarrow> IFilter result" where
  "MakeFilter description =
     (if description = [] then Inr DefaultFilter
      else let s = map (\<lambda>c. if c = CHR '':'' then CHR '' '' else c) description in
        (case read_string (istream_new s) of (command, f) \<Rightarrow>
        (case read_into None (set_hex f) of (v, f) \<Rightarrow>
          if command = ''A'' then rbind (value_of v) (\<lambda>v. Inr (MemoryAccessFilter v False True True))
          else if command = ''AP'' then rbind (value_of v) (\<lambda>v. Inr (MemoryAccessFilter v True True True))
          else if command = ''L'' then rbind (value_of v) (\<lambda>v. Inr (MemoryAccessFilter v False True False))
          else if command = ''LP'' then rbind (value_of v) (\<lambda>v. Inr (MemoryAccessFilter v True True False))
          else if command = ''S'' then rbind (value_of v) (\<lambda>v. Inr (MemoryAccessFilter v False False True))
          else if command = ''SP'' then rbind (value_of v) (\<lambda>v. Inr (MemoryAccessFilter v True False True))
          else if command = ''P'' then rbind (value_of v) (\<lambda>v. Inr (PcFilter v False))
          else Inl ProcessExit)))"

fun contains :: "string \<Rightarrow> string \<Rightarrow> bool" where
  "contains s t \<longleftrightarrow> take (length t) s = t \<or> (case s of [] \<Rightarrow> False | _ # s' \<Rightarrow> contains s' t)"

declare contains.simps [simp del]

definition dump_GetXLEN :: "string \<Rightarrow> XLEN result" where
  "dump_GetXLEN path =
     (if contains path ''rv32'' then Inr XLEN32
      else if contains path ''rv64'' then Inr XLEN64
      else Inl ProcessExit)"

definition dump_turn :: "'r ITraceReader \<Rightarrow> host_float \<Rightarrow> IFilter \<Rightarrow> 'r \<Rightarrow> TracePrinter \<Rightarrow> (string \<times> TracePrinter) result" where
  "dump_turn tr hf flt r p = rbind (current_cycle tr r) (\<lambda>c.
     rbind (IFilter_Apply flt c) (\<lambda>hit. if hit then TracePrinter_Print hf c p else Inr ([], p)))"

text \<open>\<open>n\<close> more cycles.\<close>

primrec PrintTrace_loop ::
    "'r ITraceReader \<Rightarrow> host_float \<Rightarrow> IFilter \<Rightarrow> nat \<Rightarrow> 'r \<Rightarrow> TracePrinter \<Rightarrow> string \<times> unit result" where
  "PrintTrace_loop tr hf flt 0 r p = ([], Inr ())"
| "PrintTrace_loop tr hf flt (Suc n) r p = (case tr_IsEnd tr r of
      Inl e \<Rightarrow> ([], Inl e)
    | Inr True \<Rightarrow> ([], Inr ())
    | Inr False \<Rightarrow> (case dump_turn tr hf flt r p of
        Inl e \<Rightarrow> ([], Inl e)
      | Inr (s, p) \<Rightarrow> (case tr_Next tr r of
          Inl e \<Rightarrow> (s, Inl e)
        | Inr r \<Rightarrow> (case PrintTrace_loop tr hf flt n r p of (t, res) \<Rightarrow> (s @ t, res)))))"

definition PrintTrace ::
    "'r ITraceReader \<Rightarrow> host_float \<Rightarrow> IFilter \<Rightarrow> int \<Rightarrow> int \<Rightarrow> int \<Rightarrow> 'r \<Rightarrow> TracePrinter \<Rightarrow> string \<times> unit result" where
  "PrintTrace tr hf flt cycleBegin cycleCount cycleEnd r p =
     (if \<not> (- 2147483648 \<le> cycleBegin + cycleCount \<and> cycleBegin + cycleCount \<le> 2147483647) then ([], Inl Undefined)
      else let end' = min (cycleBegin + cycleCount) cycleEnd in
        (case (if 0 < cycleBegin then tr_NextN tr (word_of_int cycleBegin) r else Inr r) of
           Inl e \<Rightarrow> ([], Inl e)
         | Inr r \<Rightarrow> PrintTrace_loop tr hf flt (nat (end' - cycleBegin)) r p))"

text \<open>The whole tool, from the values of its options to the text it prints.\<close>

definition dump_trace ::
    "filesystem \<Rightarrow> host_float \<Rightarrow> string \<Rightarrow> PrinterType \<Rightarrow> string \<Rightarrow> int \<Rightarrow> int \<Rightarrow> int \<Rightarrow> string \<times> unit result" where
  "dump_trace fs hf path printerType description cycleBegin cycleCount cycleEnd =
     (case rbind (MakeFilter description) (\<lambda>flt. rbind (MakeTraceReader fs path) (\<lambda>r.
         rbind (dump_GetXLEN path) (\<lambda>xlen. Inr (flt, r, xlen)))) of
        Inl e \<Rightarrow> ([], Inl e)
      | Inr (flt, r, xlen) \<Rightarrow> PrintTrace (AnyReader_ITraceReader fs) hf flt cycleBegin cycleCount cycleEnd r
          (MakeTracePrinter printerType xlen))"

section \<open>rafi-diff\<close>

definition IsPcMatched :: "ICycle \<Rightarrow> ICycle \<Rightarrow> bool result" where
  "IsPcMatched expect actual = rbind (GetPc expect) (\<lambda>x. rbind (GetPc actual) (\<lambda>y. Inr (x = y)))"

fun regs_matched :: "ICycle \<Rightarrow> ICycle \<Rightarrow> nat list \<Rightarrow> bool result" where
  "regs_matched expect actual [] = Inr True"
| "regs_matched expect actual (i # is) = rbind (GetIntReg expect i) (\<lambda>x. rbind (GetIntReg actual i) (\<lambda>y.
     if x \<noteq> y then Inr False else regs_matched expect actual is))"

definition IsIntRegMatched :: "ICycle \<Rightarrow> ICycle \<Rightarrow> bool result" where
  "IsIntRegMatched expect actual =
     (if \<not> IsIntRegExist expect \<or> \<not> IsIntRegExist actual then Inr False
      else regs_matched expect actual [0..<IntRegCount])"

definition IsMatched :: "ICycle \<Rightarrow> ICycle \<Rightarrow> bool result" where
  "IsMatched expect actual = rbind (IsPcMatched expect actual) (\<lambda>m.
     if \<not> m then Inr False
     else rbind (IsIntRegMatched expect actual) (\<lambda>m. if \<not> m then Inr False else Inr True))"

definition PrintDiffPc :: "ICycle \<Rightarrow> ICycle \<Rightarrow> string result" where
  "PrintDiffPc expect actual = rbind (GetPc expect) (\<lambda>x. rbind (GetPc actual) (\<lambda>y.
     if x \<noteq> y then printf (''    - virtual PCs are not matched (expect:0x%lx, actual:0x%lx)'' @ newline) [ArgLong x, ArgLong y]
     else Inr []))"

definition PrintDiffIntReg :: "ICycle \<Rightarrow> ICycle \<Rightarrow> string result" where
  "PrintDiffIntReg expect actual = in_order [
     (if \<not> IsIntRegExist expect then Inr (''    - expect has no IntReg32Node.'' @ newline) else Inr []),
     (if \<not> IsIntRegExist actual then Inr (''    - actual has no IntReg32Node.'' @ newline) else Inr []),
     (if IsIntRegExist expect \<and> IsIntRegExist actual then
        print_each (\<lambda>i. rbind (GetIntReg expect i) (\<lambda>x. rbind (GetIntReg actual i) (\<lambda>y.
          if x \<noteq> y then printf (''    - x%d not matched (expect:0x%lx, actual:0x%lx)'' @ newline)
            [ArgInt (of_nat i), ArgLong x, ArgLong y] else Inr []))) [0..<32]
      else Inr [])]"

definition PrintDiff :: "ICycle \<Rightarrow> ICycle \<Rightarrow> string result" where
  "PrintDiff expect actual = rbind (IsPcMatched expect actual) (\<lambda>m.
     if \<not> m then PrintDiffPc expect actual
     else rbind (IsIntRegMatched expect actual) (\<lambda>m. if \<not> m then PrintDiffIntReg expect actual else Inr []))"

record CompareCounts =
  cc_continuousUnmatch :: nat
  cc_checkOp :: nat
  cc_expectOp :: nat
  cc_actualOp :: nat

definition hex_dec :: "nat \<Rightarrow> string" where
  "hex_dec n = ''0x'' @ digits 16 n @ '' ('' @ digits 10 n @ '')''"

definition mismatch_text :: "CompareCounts \<Rightarrow> string" where
  "mismatch_text k = ''Detect mismatched cycle.'' @ newline @
     ''    - expect: '' @ hex_dec (cc_expectOp k) @ '' cycle.'' @ newline @
     ''    - actual: '' @ hex_dec (cc_actualOp k) @ '' cycle.'' @ newline @
     ''Proceed actual.'' @ newline"

definition stop_text :: "int \<Rightarrow> string" where
  "stop_text threshold = ''=========================================='' @ newline @
     ''STOP: detect '' @ dec_string threshold @ '' contiguous unmatced cycles'' @ newline"

definition finish_text :: "CompareCounts \<Rightarrow> string" where
  "finish_text k = ''Comparation finished.'' @ newline @
     ''    - expect: '' @ hex_dec (cc_expectOp k) @ '' ops.'' @ newline @
     ''    - actual: '' @ hex_dec (cc_actualOp k) @ '' ops.'' @ newline"

text \<open>One turn with both readers at a cycle; the flag says that the threshold is reached.\<close>

definition CompareTrace_turn ::
    "'r ITraceReader \<Rightarrow> 's ITraceReader \<Rightarrow> int \<Rightarrow> 'r \<Rightarrow> 's \<Rightarrow> CompareCounts \<Rightarrow>
      (string \<times> bool \<times> 'r \<times> 's \<times> CompareCounts) result" where
  "CompareTrace_turn tr1 tr2 threshold r1 r2 k =
     rbind (current_cycle tr1 r1) (\<lambda>expect. rbind (current_cycle tr2 r2) (\<lambda>actual.
     rbind (IsMatched expect actual) (\<lambda>m.
       if m then rbind (tr_Next tr1 r1) (\<lambda>r1. rbind (tr_Next tr2 r2) (\<lambda>r2. Inr ([], False, r1, r2,
         k\<lparr> cc_continuousUnmatch := 0, cc_checkOp := cc_checkOp k + 1, cc_expectOp := cc_expectOp k + 1,
            cc_actualOp := cc_actualOp k + 1 \<rparr>)))
       else rbind (PrintDiff expect actual) (\<lambda>d.
         let u = cc_continuousUnmatch k + 1; s = mismatch_text k @ d in
         if int u = threshold then Inr (s @ stop_text threshold, True, r1, r2, k\<lparr> cc_continuousUnmatch := u \<rparr>)
         else rbind (tr_Next tr2 r2) (\<lambda>r2. Inr (s, False, r1, r2,
           k\<lparr> cc_continuousUnmatch := u, cc_actualOp := cc_actualOp k + 1 \<rparr>))))))"

definition progress_text :: "nat \<Rightarrow> string" where
  "progress_text i = (if 0 < i \<and> i mod 100000 = 0 then ''Compare '' @ digits 10 i @ '' cycles.'' @ newline else [])"

primrec CompareTrace_loop ::
    "'r ITraceReader \<Rightarrow> 's ITraceReader \<Rightarrow> int \<Rightarrow> nat \<Rightarrow> nat \<Rightarrow> 'r \<Rightarrow> 's \<Rightarrow> CompareCounts \<Rightarrow>
      string \<times> CompareCounts result" where
  "CompareTrace_loop tr1 tr2 threshold 0 i r1 r2 k = ([], Inr k)"
| "CompareTrace_loop tr1 tr2 threshold (Suc n) i r1 r2 k =
     (case rbind (tr_IsEnd tr1 r1) (\<lambda>e. if e then Inr True else tr_IsEnd tr2 r2) of
        Inl e \<Rightarrow> ([], Inl e)
      | Inr True \<Rightarrow> ([], Inr k)
      | Inr False \<Rightarrow> (case CompareTrace_turn tr1 tr2 threshold r1 r2 k of
          Inl e \<Rightarrow> ([], Inl e)
        | Inr (s, stop, r1, r2, k) \<Rightarrow>
            if stop then (s, Inr k)
            else (case CompareTrace_loop tr1 tr2 threshold n (Suc i) r1 r2 k of
                (t, res) \<Rightarrow> (s @ progress_text i @ t, res))))"

definition CompareTrace ::
    "'r ITraceReader \<Rightarrow> 's ITraceReader \<Rightarrow> int \<Rightarrow> int \<Rightarrow> 'r \<Rightarrow> 's \<Rightarrow> string \<times> CompareCounts result" where
  "CompareTrace tr1 tr2 cycleCount threshold r1 r2 =
     (case CompareTrace_loop tr1 tr2 threshold (nat cycleCount) 0 r1 r2
        \<lparr> cc_continuousUnmatch = 0, cc_checkOp = 0, cc_expectOp = 0, cc_actualOp = 0 \<rparr> of
        (s, Inl e) \<Rightarrow> (s, Inl e)
      | (s, Inr k) \<Rightarrow> (s @ finish_text k, Inr k))"

section \<open>rafi-conv\<close>

text \<open>The nodes of a cycle that is converted: its integer registers, if it has them.\<close>

definition convert_nodes :: "ICycle \<Rightarrow> uint32 \<Rightarrow> TraceNode list result" where
  "convert_nodes c xlen =
     (if \<not> IsIntRegExist c then Inr []
      else if xlen = 1 then rbind (collect (GetIntReg c) [0..<32]) (\<lambda>rs. Inr [IntReg32Node (map ucast rs)])
      else if xlen = 2 then rbind (collect (GetIntReg c) [0..<32]) (\<lambda>rs. Inr [IntReg64Node rs])
      else Inl ProcessExit)"

definition convert_cycle :: "ICycle \<Rightarrow> bytes result" where
  "convert_cycle c = rbind (GetCycle c) (\<lambda>cycle. rbind (GetXLEN c) (\<lambda>xlen. rbind (GetPc c) (\<lambda>pc.
     rbind (BinaryCycleBuilder_new cycle xlen pc) (\<lambda>b. rbind (convert_nodes c xlen) (\<lambda>nds.
     rbind (Builder_AddAll nds b) Builder_Break)))))"

text \<open>
  One turn of the loop: the writer and the files after it, and the reader or what was thrown. The
  reader sees the files as they are; a write that fails has changed nothing.
\<close>

definition Convert_turn ::
    "AnyReader \<Rightarrow> TraceIndexWriter \<times> filesystem \<Rightarrow> (TraceIndexWriter \<times> filesystem) \<times> AnyReader result" where
  "Convert_turn r s =
     (case rbind (current_cycle (AnyReader_ITraceReader (snd s)) r) convert_cycle of
        Inl e \<Rightarrow> (s, Inl e)
      | Inr bs \<Rightarrow> (case IndexWriter_Write bs (of_nat (length bs)) s of
          Inl e \<Rightarrow> (s, Inl e)
        | Inr s \<Rightarrow> (s, tr_Next (AnyReader_ITraceReader (snd s)) r)))"

partial_function (option) Convert_loop ::
    "AnyReader \<Rightarrow> TraceIndexWriter \<times> filesystem \<Rightarrow> ((TraceIndexWriter \<times> filesystem) \<times> unit result) option" where
  "Convert_loop r s = (case tr_IsEnd (AnyReader_ITraceReader (snd s)) r of
      Inl e \<Rightarrow> Some (s, Inl e)
    | Inr ended \<Rightarrow>
        if ended then Some (s, Inr ())
        else (case Convert_turn r s of
            (s, Inl e) \<Rightarrow> Some (s, Inl e)
          | (s, Inr r) \<Rightarrow> Convert_loop r s))"

text \<open>The exceptions \<open>Convert\<close> catches, after the writer's destructor has run.\<close>

definition caught :: "emu_error \<Rightarrow> bool" where
  "caught e \<longleftrightarrow> e = TraceException \<or> e = FileOpenFailure"

definition Convert :: "string \<Rightarrow> string \<Rightarrow> filesystem \<Rightarrow> filesystem result option" where
  "Convert inPath outPathBase fs = (case MakeTraceReader fs inPath of
      Inl e \<Rightarrow> Some (if caught e then Inr fs else Inl e)
    | Inr r \<Rightarrow> (case TraceIndexWriter_new outPathBase fs of
        Inl e \<Rightarrow> Some (if caught e then Inr fs else Inl e)
      | Inr s \<Rightarrow> map_option (\<lambda>(s, res). case res of
            Inr _ \<Rightarrow> TraceIndexWriter_delete s
          | Inl e \<Rightarrow> if caught e then TraceIndexWriter_delete s else Inl e) (Convert_loop r s)))"

section \<open>rafi-check-io\<close>

partial_function (option) GetLastHostIoValue :: "'r ITraceReader \<Rightarrow> uint32 \<Rightarrow> 'r \<Rightarrow> uint32 result option" where
  "GetLastHostIoValue tr hostIoValue r = (case tr_IsEnd tr r of
      Inl e \<Rightarrow> Some (Inl e)
    | Inr ended \<Rightarrow>
        if ended then Some (Inr hostIoValue)
        else (case rbind (current_cycle tr r) CopyIo of
            Inl e \<Rightarrow> Some (Inl e)
          | Inr io \<Rightarrow> (case tr_Next tr r of
              Inl e \<Rightarrow> Some (Inl e)
            | Inr r \<Rightarrow> GetLastHostIoValue tr (io_hostIo io) r)))"

definition ExpectedHostIoValue :: uint32 where
  "ExpectedHostIoValue = 1"

definition io_verdict :: "string \<Rightarrow> uint32 \<Rightarrow> string \<times> bool" where
  "io_verdict name v =
     (if v \<noteq> ExpectedHostIoValue
      then (''[ FAILED ] '' @ name @ '' (hostIoValue:0x'' @ digits 16 (unat v) @ '' testId:'' @
          digits 10 (unat (v div 2)) @ '')'' @ newline, False)
      else (''[  PASS  ] '' @ name @ newline, True))"

definition CheckIo :: "filesystem \<Rightarrow> string \<Rightarrow> string \<Rightarrow> (string \<times> bool) result option" where
  "CheckIo fs name path = (case MakeTraceReader fs path of
      Inl e \<Rightarrow> Some (if caught e then Inr ([], False) else Inl e)
    | Inr r \<Rightarrow> map_option (\<lambda>res. case res of
          Inl e \<Rightarrow> if caught e then Inr ([], False) else Inl e
        | Inr v \<Rightarrow> Inr (io_verdict name v)) (GetLastHostIoValue (AnyReader_ITraceReader fs) 0 r))"

text \<open>The main function: what it prints and the exit code, the number of tests that failed.\<close>

primrec check_all :: "filesystem \<Rightarrow> string list \<Rightarrow> (string \<times> nat \<times> nat) result option" where
  "check_all fs [] = Some (Inr ([], 0, 0))"
| "check_all fs (p # ps) = (case CheckIo fs p p of
      None \<Rightarrow> None
    | Some (Inl e) \<Rightarrow> Some (Inl e)
    | Some (Inr (s, ok)) \<Rightarrow> map_option (\<lambda>res. rbind res (\<lambda>(t, passed, failed).
        Inr (s @ t, if ok then passed + 1 else passed, if ok then failed else failed + 1))) (check_all fs ps))"

definition check_io_main :: "filesystem \<Rightarrow> string list \<Rightarrow> (string \<times> nat) result option" where
  "check_io_main fs paths = map_option (\<lambda>res. rbind res (\<lambda>(s, passed, failed).
     Inr (s @ newline @ digits 10 (passed + failed) @ '' tests executed ('' @ digits 10 passed @ '' passed, '' @
       digits 10 failed @ '' failed).'' @ newline, failed))) (check_all fs paths)"

end
