(* ===== verification/TraceTextLaws.thy ===== *)
theory TraceTextLaws
  imports TraceText TraceIndexLaws
begin

text \<open>
  The text readers keep the reader's contract on well-formed files: the layout of
  \<^verbatim>\<open>TraceTextPrinter.cpp\<close> without its last column, and the register listing of gdb.
\<close>

section \<open>Numbers and words\<close>

definition blanks :: "string \<Rightarrow> bool" where
  "blanks s \<longleftrightarrow> list_all is_space s"

lemma blanks_simps [simp]:
  "blanks []" "blanks '' ''" "blanks newline" "is_space CHR '' ''" "is_space CHR 0x0A"
  by (simp_all add: blanks_def is_space_def)

text \<open>Digits of any length, leading zeros included, up to a blank.\<close>

definition text_hex :: "string \<Rightarrow> nat \<Rightarrow> bool" where
  "text_hex t n \<longleftrightarrow> t \<noteq> [] \<and> (\<forall>c \<in> set t. digit_value 16 c \<noteq> None) \<and> (\<forall>s. read_digits 16 (t @ s) 0 = read_digits 16 s n)"

lemma digit_value_plain:
  assumes "digit_value 16 c \<noteq> None"
  shows "\<not> is_space c" "c \<noteq> CHR ''-''" "c \<noteq> CHR ''+''" "c \<noteq> CHR ''x''" "c \<noteq> CHR ''X''"
  using assms by (auto simp: is_space_def digit_value_def)

lemma digits_values:
  assumes "b = 16" "c \<in> set (digits b n)"
  shows "digit_value 16 c \<noteq> None"
  using assms
proof (induction b n arbitrary: c rule: digits.induct)
  case (1 b n)
  have m: "digit_value 16 (digit_char (n mod b)) \<noteq> None" using digit_value_char [of "n mod b" 16] 1(2) by auto
  show ?case
  proof (cases "n < b")
    case True
    then show ?thesis using 1(3) m by simp
  next
    case False
    then have "digits b n = digits b (n div b) @ [digit_char (n mod b)]" using 1(2) by auto
    then show ?thesis using 1 False m by auto
  qed
qed

lemma text_hex_digits: "text_hex (pad_left True w (digits 16 n)) n"
proof -
  have z: "digit_value 16 CHR ''0'' = Some 0" by (simp add: digit_value_def)
  have "read_digits 16 (replicate k CHR ''0'' @ s) 0 = read_digits 16 s 0" for k s
    by (induction k) (simp_all add: z)
  then have "read_digits 16 (pad_left True w (digits 16 n) @ s) 0 = read_digits 16 s n" for s
    using read_digits_run [of 16 n s 0] by (simp add: pad_left_def)
  moreover have "digit_value 16 c \<noteq> None" if "c \<in> set (pad_left True w (digits 16 n))" for c
    using that digits_values [of 16 c n] z by (auto simp: pad_left_def)
  moreover have "pad_left True w (digits 16 n) \<noteq> []" by (simp add: pad_left_def)
  ultimately show ?thesis by (simp only: text_hex_def) blast
qed

lemma text_hex_plain: "text_hex (digits 16 n) n"
  using text_hex_digits [of 0 n] by simp

lemma read_number_run:
  fixes n :: nat
  assumes "good_at (bl @ p @ t @ c # s) f" "blanks bl" "is_space c" "text_hex t n" "is_hex f" "n < 2 ^ LENGTH('a)"
    and "p = [] \<or> p = ''0x''"
  shows "\<exists>f'. read_number f = (Some (of_nat n :: 'a::len word), f') \<and> good_at (c # s) f' \<and> is_hex f'"
proof -
  obtain d ds where t: "t = d # ds" "digit_value 16 d \<noteq> None" using assms(4) by (cases t) (auto simp: text_hex_def)
  have c: "digit_value 16 c = None" "c \<noteq> CHR ''x''" "c \<noteq> CHR ''X''" using assms(3) by (auto simp: is_space_def digit_value_def)
  define u where "u = p @ t @ c # s"
  have first: "\<exists>x xs. u = x # xs \<and> \<not> is_space x \<and> x \<noteq> CHR ''-'' \<and> x \<noteq> CHR ''+''"
    using assms(7) t digit_value_plain [OF t(2)] by (auto simp: u_def is_space_def)
  have sb: "skip_blanks f = (f\<lparr> is_text := u \<rparr>, True)"
    using skip_blanks_good [of bl _ _ f] first assms(1,2) by (auto simp: u_def [symmetric] blanks_def)
  have sg: "read_sign u = (False, u)" using first by (auto simp: read_sign_def)
  have second: "ds @ c # s = x # xs \<Longrightarrow> x \<noteq> CHR ''x'' \<and> x \<noteq> CHR ''X''" for x xs
    using assms(4) t c digit_value_plain by (cases ds) (auto simp: text_hex_def)
  have pf: "read_prefix 16 u = t @ c # s"
    using assms(7) second by (auto simp: u_def t(1) read_prefix_def split: list.split)
  have rd: "read_digits 16 (t @ c # s) 0 = (n, c # s)" using assms(4) c(1) by (simp add: text_hex_def)
  have ne: "c # s \<noteq> t @ c # s" using t(1) by simp
  show ?thesis using assms(1,5,6) ne
    by (simp add: read_number_def sb sg pf rd good_at_def)
qed

lemma read_into_run:
  fixes n :: nat
  assumes "good_at (bl @ p @ t @ c # s) f" "blanks bl" "is_space c" "text_hex t n" "is_hex f" "n < 2 ^ LENGTH('a)"
    and "p = [] \<or> p = ''0x''"
  shows "\<exists>f'. read_into old f = (Some (of_nat n :: 'a::len word), f') \<and> good_at (c # s) f' \<and> is_hex f'"
  using read_number_run [OF assms] by (auto simp: read_into_def)

lemma read_into_word:
  assumes "good_at (bl @ pad_left True w (digits 16 (unat v)) @ c # s) f" "blanks bl" "is_space c" "is_hex f"
  shows "\<exists>f'. read_into old f = (Some (v :: 'a::len word), f') \<and> good_at (c # s) f' \<and> is_hex f'"
proof -
  have "\<exists>f'. read_into old f = (Some (of_nat (unat v) :: 'a word), f') \<and> good_at (c # s) f' \<and> is_hex f'"
    by (rule read_into_run [where bl = bl and p = "[]" and t = "pad_left True w (digits 16 (unat v))"])
      (use assms text_hex_digits unsigned_less [of v] in auto)
  then show ?thesis by simp
qed

text \<open>A keyword and the blank behind it.\<close>

lemma read_keyword:
  assumes "good_at (bl @ w @ c # s) f" "blanks bl" "plain_word w" "is_space c"
  obtains f' where "read_word f = (Some w, f')" "good_at (c # s) f'" "is_hex f' = is_hex f"
  using read_word_good [of bl w c s f] assms by (auto simp: blanks_def plain_word_def)

lemma read_word_end: "good_at bl f \<Longrightarrow> blanks bl \<Longrightarrow> \<exists>f'. read_word f = (None, f')"
  using skip_blanks_end [of bl f] by (simp add: read_word_def blanks_def)

lemma good_at_set_hex [simp]: "good_at s (set_hex f) = good_at s f" "is_hex (set_hex f)"
  by (simp_all add: good_at_def set_hex_def)

section \<open>Text cycles\<close>

text \<open>A cycle as the text reader expects it: the printer's columns without the last of its first line.\<close>

record TextSpec =
  ts_cycle :: uint32
  ts_xlen :: uint32
  ts_pc :: uint64
  ts_regs :: "uint64 list option"

definition hex_column :: "nat \<Rightarrow> ('a::len word) \<Rightarrow> string" where
  "hex_column w v = '' '' @ pad_left True w (digits 16 (unat v))"

definition int_text :: "uint64 list option \<Rightarrow> string" where
  "int_text regs = (case regs of None \<Rightarrow> []
     | Some rs \<Rightarrow> ''INT'' @ newline @ concat (map (hex_column 16) rs) @ newline)"

definition cycle_text :: "TextSpec \<Rightarrow> string" where
  "cycle_text x = ''BASIC'' @ hex_column 8 (ts_cycle x) @ hex_column 0 (ts_xlen x) @ hex_column 16 (ts_pc x) @ newline @
     int_text (ts_regs x) @ ''BREAK'' @ newline"

definition text_spec_ok :: "TextSpec \<Rightarrow> bool" where
  "text_spec_ok x \<longleftrightarrow> (case ts_regs x of None \<Rightarrow> True | Some rs \<Rightarrow> length rs = 32)"

definition text_view :: "TextSpec \<Rightarrow> ICycle" where
  "text_view x = \<lparr>
     GetCycle = Inr (ts_cycle x),
     GetXLEN = Inr (ts_xlen x),
     GetPc = Inr (ts_pc x),
     IsIntRegExist = (ts_regs x \<noteq> None),
     IsFpRegExist = False,
     IsIoExist = False,
     GetOpEventCount = 0,
     GetMemoryEventCount = 0,
     GetTrapEventCount = 0,
     GetIntReg = (\<lambda>i. case ts_regs x of None \<Rightarrow> Inl TraceException
       | Some rs \<Rightarrow> if i < 32 then Inr (rs ! i) else Inl TraceException),
     GetFpReg = (\<lambda>i. if ts_regs x = None \<or> 32 \<le> i then Inl TraceException else Inl Undefined),
     CopyIo = Inl ProcessExit,
     CopyOpEvent = (\<lambda>_. Inl ProcessExit),
     CopyMemoryEvent = (\<lambda>_. Inl ProcessExit),
     CopyTrapEvent = (\<lambda>_. Inl ProcessExit) \<rparr>"

lemma read_regs_columns:
  assumes "good_at (bl @ concat (map (hex_column 16) vs) @ c # s) f" "blanks bl" "is_space c" "is_hex f" "length rs = length vs"
  shows "\<exists>f' bl'. read_regs rs f = (map Some vs, f') \<and> good_at (bl' @ c # s) f' \<and> blanks bl'"
  using assms
proof (induction vs arbitrary: bl rs f)
  case Nil
  then show ?case by auto
next
  case (Cons v vs)
  obtain r rs' where rs: "rs = r # rs'" using Cons.prems(5) by (cases rs) auto
  have b: "blanks (bl @ '' '')" using Cons.prems(2) by (simp add: blanks_def is_space_def)
  obtain d ds where d: "concat (map (hex_column 16) vs) @ c # s = d # ds" "is_space d"
    using Cons.prems(3) by (cases vs) (auto simp: hex_column_def)
  have "good_at ((bl @ '' '') @ pad_left True 16 (digits 16 (unat v)) @ d # ds) f"
    using Cons.prems(1) unfolding d(1) [symmetric] by (simp add: hex_column_def [of 16 v])
  then obtain f1 where f1: "read_into r f = (Some v, f1)" "good_at ([] @ concat (map (hex_column 16) vs) @ c # s) f1" "is_hex f1"
    using read_into_word [OF _ b d(2) Cons.prems(4)] d(1) by fastforce
  obtain f' bl' where f': "read_regs rs' f1 = (map Some vs, f')" "good_at (bl' @ c # s) f'" "blanks bl'"
    using Cons.IH [OF f1(2) _ Cons.prems(3) f1(3), of rs'] Cons.prems(5) rs by auto
  then show ?case using rs f1(1) by auto
qed

lemma ParseBasic_columns:
  assumes "good_at (hex_column 8 (ts_cycle x) @ hex_column 0 (ts_xlen x) @ hex_column 16 (ts_pc x) @ c # s) f" "is_space c"
  shows "\<exists>f'. ParseBasic t f = (t\<lparr> tc_CycleCount := Some (ts_cycle x), tc_XLEN := Some (ts_xlen x),
    tc_Pc := Some (ts_pc x), tc_BasicExist := True \<rparr>, f') \<and> good_at (c # s) f' \<and> is_hex f'"
proof -
  have sp: "is_space CHR '' ''" "blanks '' ''" by simp_all
  let ?col = "\<lambda>w n. pad_left True w (digits 16 n)"
  obtain f1 where f1: "read_into (tc_CycleCount t) (set_hex f) = (Some (ts_cycle x), f1)"
    "good_at ('' '' @ ?col 0 (unat (ts_xlen x)) @ CHR '' '' # ?col 16 (unat (ts_pc x)) @ c # s) f1" "is_hex f1"
    using read_into_word [OF _ sp(2,1), of 8 "ts_cycle x" _ "set_hex f" "tc_CycleCount t"] assms(1) by (force simp: hex_column_def)
  obtain f2 where f2: "read_into None f1 = (Some (ts_xlen x), f2)" "good_at ('' '' @ ?col 16 (unat (ts_pc x)) @ c # s) f2" "is_hex f2"
    using read_into_word [OF f1(2) sp(2,1) f1(3), of None] by auto
  obtain f3 where f3: "read_into (tc_Pc t) f2 = (Some (ts_pc x), f3)" "good_at (c # s) f3" "is_hex f3"
    using read_into_word [OF f2(2) sp(2) assms(2) f2(3), of "tc_Pc t"] by auto
  show ?thesis using f1(1) f2(1) f3 by (simp add: ParseBasic_def)
qed

lemma plain_words [simp]:
  "plain_word ''BASIC''" "plain_word ''INT''" "plain_word ''BREAK''" "plain_word ''XLEN''" "plain_word ''32''" "plain_word ''64''"
  "plain_word ''pc''"
  by (simp_all add: plain_word_def is_space_def)

lemma parse_break:
  assumes "good_at (bl @ ''BREAK'' @ newline @ s) f" "blanks bl"
  shows "\<exists>f'. TextCycle_ParseLoop t f = (Inr t, f') \<and> good_at (newline @ s) f'"
proof -
  obtain f' where "read_word f = (Some ''BREAK'', f')" "good_at (newline @ s) f'"
    using read_keyword [of bl "''BREAK''" "CHR 0x0A" s f] assms by auto
  then show ?thesis by (subst TextCycle_ParseLoop.simps) simp
qed

lemma parse_int:
  assumes "good_at (bl @ int_text (Some vs) @ s) f" "blanks bl" "length vs = length (tc_IntRegs t)"
  shows "\<exists>f' bl'. TextCycle_ParseLoop t f = TextCycle_ParseLoop (t\<lparr> tc_IntRegs := map Some vs, tc_IntRegExist := True \<rparr>) f' \<and>
    good_at (bl' @ s) f' \<and> blanks bl'"
proof -
  have g: "good_at (bl @ ''INT'' @ CHR 0x0A # (concat (map (hex_column 16) vs) @ CHR 0x0A # s)) f"
    using assms(1) by (simp add: int_text_def)
  obtain f1 where f1: "read_word f = (Some ''INT'', f1)" "good_at (newline @ concat (map (hex_column 16) vs) @ CHR 0x0A # s) f1"
    by (rule read_keyword [OF g assms(2)]) simp_all
  obtain f2 bl' where f2: "read_regs (tc_IntRegs t) (set_hex f1) = (map Some vs, f2)" "good_at (bl' @ CHR 0x0A # s) f2" "blanks bl'"
    using read_regs_columns [of newline vs "CHR 0x0A" s "set_hex f1" "tc_IntRegs t"] f1(2) assms(3) by auto
  have "blanks (bl' @ newline)" using f2(3) by (simp add: blanks_def is_space_def)
  moreover have "TextCycle_ParseLoop t f = TextCycle_ParseLoop (t\<lparr> tc_IntRegs := map Some vs, tc_IntRegExist := True \<rparr>) f2"
    using f1(1) f2(1) by (subst TextCycle_ParseLoop.simps) (simp add: ParseIntReg_def)
  ultimately show ?thesis using f2(2) by (intro exI [of _ f2] exI [of _ "bl' @ newline"]) simp
qed

lemma parse_cycle_text:
  assumes "good_at (bl @ cycle_text x @ s) f" "blanks bl" "text_spec_ok x"
  shows "\<exists>c f'. TextCycle_Parse f xlen = (Inr c, f') \<and> TextCycle_ICycle c = text_view x \<and> good_at (newline @ s) f'"
proof -
  let ?rest = "int_text (ts_regs x) @ ''BREAK'' @ newline @ s"
  let ?t = "(TextCycle_new xlen)\<lparr> tc_CycleCount := Some (ts_cycle x), tc_XLEN := Some (ts_xlen x), tc_Pc := Some (ts_pc x), tc_BasicExist := True \<rparr>"
  have sp: "is_space CHR '' ''" "is_space CHR 0x0A" by simp_all
  have g: "good_at (bl @ ''BASIC'' @ CHR '' '' # tl (hex_column 8 (ts_cycle x)) @ hex_column 0 (ts_xlen x) @
      hex_column 16 (ts_pc x) @ CHR 0x0A # ?rest) f" using assms(1) by (simp add: cycle_text_def hex_column_def)
  obtain f1 where f1: "read_word f = (Some ''BASIC'', f1)" "good_at (CHR '' '' # tl (hex_column 8 (ts_cycle x)) @
      hex_column 0 (ts_xlen x) @ hex_column 16 (ts_pc x) @ CHR 0x0A # ?rest) f1"
    by (rule read_keyword [OF g assms(2)]) simp_all
  then obtain f2 where f2: "ParseBasic (TextCycle_new xlen) f1 = (?t, f2)" "good_at (newline @ ?rest) f2"
    using ParseBasic_columns [of x "CHR 0x0A" ?rest f1 "TextCycle_new xlen"] by (auto simp: hex_column_def)
  have basic: "TextCycle_Parse f xlen = TextCycle_ParseLoop ?t f2"
    using f1(1) f2(1) by (simp add: TextCycle_Parse_def, subst TextCycle_ParseLoop.simps) simp
  show ?thesis
  proof (cases "ts_regs x")
    case None
    then obtain f' where "TextCycle_ParseLoop ?t f2 = (Inr ?t, f')" "good_at (newline @ s) f'"
      using parse_break [of newline s f2] f2(2) by (auto simp: int_text_def)
    moreover have "TextCycle_ICycle ?t = text_view x" using None
      by (simp add: TextCycle_ICycle_def text_view_def TextCycle_new_def basic_member_def value_of_def
          TextCycle_GetIntReg_def TextCycle_GetFpReg_def fun_eq_iff)
    ultimately show ?thesis using basic by auto
  next
    case (Some vs)
    let ?u = "?t\<lparr> tc_IntRegs := map Some vs, tc_IntRegExist := True \<rparr>"
    have n: "length vs = 32" using assms(3) Some by (simp add: text_spec_ok_def)
    obtain f3 bl' where f3: "TextCycle_ParseLoop ?t f2 = TextCycle_ParseLoop ?u f3" "good_at (bl' @ ''BREAK'' @ newline @ s) f3" "blanks bl'"
      using parse_int [of newline vs "''BREAK'' @ newline @ s" f2 ?t] f2(2) Some n by (auto simp: TextCycle_new_def IntRegCount_def)
    obtain f' where "TextCycle_ParseLoop ?u f3 = (Inr ?u, f')" "good_at (newline @ s) f'"
      using parse_break [OF f3(2,3)] by blast
    moreover have "TextCycle_ICycle ?u = text_view x" using Some n
      by (simp add: TextCycle_ICycle_def text_view_def TextCycle_new_def basic_member_def value_of_def
          TextCycle_GetIntReg_def TextCycle_GetFpReg_def fun_eq_iff IntRegCount_def)
    ultimately show ?thesis using basic f3(1) by auto
  qed
qed

section \<open>The text reader\<close>

definition texts :: "TextSpec list \<Rightarrow> string" where
  "texts xs = concat (map cycle_text xs)"

text \<open>The reader shows the first cycle; the text of the others is ahead.\<close>

definition text_views :: "TextTrace \<Rightarrow> ICycle list \<Rightarrow> bool" where
  "text_views t cs \<longleftrightarrow> (case cs of
      [] \<Rightarrow> tt_pTextCycle t = None
    | c # cs' \<Rightarrow> \<exists>tc xs bl. tt_pTextCycle t = Some tc \<and> c = TextCycle_ICycle tc \<and> cs' = map text_view xs \<and>
        list_all text_spec_ok xs \<and> good_at (bl @ texts xs) (tt_pInput t) \<and> blanks bl)"

lemma UpdateTextCycle_views:
  assumes "good_at (bl @ texts xs) (tt_pInput t)" "blanks bl" "list_all text_spec_ok xs"
  shows "text_views (UpdateTextCycle t) (map text_view xs)"
proof (cases xs)
  case Nil
  then obtain f' where "read_word (tt_pInput t) = (None, f')"
    using read_word_end [of bl "tt_pInput t"] assms(1,2) by (auto simp: texts_def)
  then have "TextCycle_Parse (tt_pInput t) (tt_XLEN t) = (Inl TraceException, f')"
    unfolding TextCycle_Parse_def by (subst TextCycle_ParseLoop.simps) simp
  then show ?thesis using Nil by (simp add: UpdateTextCycle_def text_views_def)
next
  case (Cons x ys)
  then obtain c f' where "TextCycle_Parse (tt_pInput t) (tt_XLEN t) = (Inr c, f')" "TextCycle_ICycle c = text_view x"
    "good_at (newline @ texts ys) f'"
    using parse_cycle_text [of bl x "texts ys" "tt_pInput t" "tt_XLEN t"] assms by (auto simp: texts_def)
  then have "UpdateTextCycle t = t\<lparr> tt_pInput := f', tt_pTextCycle := Some c \<rparr>" by (simp add: UpdateTextCycle_def)
  moreover have "text_view x = TextCycle_ICycle c" "blanks newline" using \<open>TextCycle_ICycle c = _\<close> by simp_all
  ultimately show ?thesis using Cons assms(3) \<open>good_at _ f'\<close>
    by (auto simp: text_views_def intro!: exI [of _ ys] exI [of _ newline])
qed

interpretation text_reader: looping_reader TextReader_ITraceReader text_views
proof
  show "\<exists>r'. tr_Next TextReader_ITraceReader r = Inr r' \<and> text_views r' cs" if v: "text_views r (c # cs)" for r c cs
  proof -
    obtain tc xs bl where "tt_pTextCycle r = Some tc" "cs = map text_view xs" "list_all text_spec_ok xs"
      "good_at (bl @ texts xs) (tt_pInput r)" "blanks bl" using v by (auto simp: text_views_def)
    then show ?thesis using UpdateTextCycle_views [of bl xs r]
      by (simp add: TextReader_ITraceReader_def TextTrace_Next_def TextTrace_IsEnd_def)
  qed
qed (auto simp: TextReader_ITraceReader_def TextTrace_IsEnd_def TextTrace_GetCycle_def text_views_def)

lemma text_reader_opens:
  assumes "fs_files fs path = Some (text_bytes (''XLEN '' @ w @ newline @ texts xs))" "w = ''32'' \<or> w = ''64''"
    and "list_all text_spec_ok xs"
  shows "\<exists>t. TraceTextReader_new fs path = Inr t \<and> text_views t (map text_view xs)"
proof -
  let ?f = "ifstream_open fs path"
  have f: "good_at ([] @ ''XLEN'' @ CHR '' '' # (w @ newline @ texts xs)) ?f"
    using assms(1) by (simp add: ifstream_open_def istream_new_def good_at_def)
  obtain f1 where f1: "read_word ?f = (Some ''XLEN'', f1)" "good_at ('' '' @ w @ CHR 0x0A # texts xs) f1"
    by (rule read_keyword [OF f]) simp_all
  have "plain_word w" using assms(2) by auto
  then obtain f2 where f2: "read_word f1 = (Some w, f2)" "good_at (newline @ texts xs) f2"
    using read_keyword [OF f1(2)] by auto
  have v: "text_views (UpdateTextCycle \<lparr> tt_XLEN = xl, tt_pInput = f2, tt_pTextCycle = None \<rparr>) (map text_view xs)" for xl
    by (rule UpdateTextCycle_views [where bl = newline]) (use f2(2) assms(3) in simp_all)
  then show ?thesis using assms(2) f1(1) f2(1)
    by (auto simp: TraceTextReader_new_def TextTrace_new_def read_string_def)
qed

section \<open>The gdb log reader\<close>

text \<open>A line of the log: a register or the program counter with its value and one more word, or the privilege.\<close>

datatype GdbLine = RegLine nat uint64 string | PcLine uint64 string | PrivLine string

definition gdb_line_text :: "GdbLine \<Rightarrow> string" where
  "gdb_line_text l = (case l of
      RegLine i v w \<Rightarrow> g_IntRegNames ! i @ '' 0x'' @ digits 16 (unat v) @ '' '' @ w @ newline
    | PcLine v w \<Rightarrow> ''pc 0x'' @ digits 16 (unat v) @ '' '' @ w @ newline
    | PrivLine w \<Rightarrow> ''priv '' @ w @ newline)"

definition gdb_line_ok :: "GdbLine \<Rightarrow> bool" where
  "gdb_line_ok l \<longleftrightarrow> (case l of RegLine i v w \<Rightarrow> i < 32 \<and> plain_word w | PcLine v w \<Rightarrow> plain_word w | PrivLine w \<Rightarrow> plain_word w)"

fun gdb_line :: "GdbCycle \<Rightarrow> GdbLine \<Rightarrow> GdbCycle" where
  "gdb_line c (RegLine i v w) = c\<lparr> gc_IntRegs := (gc_IntRegs c)[i := v] \<rparr>"
| "gdb_line c (PcLine v w) = c\<lparr> gc_Pc := v \<rparr>"
| "gdb_line c (PrivLine w) = c"

definition gdb_cycle_text :: "GdbLine list \<Rightarrow> string" where
  "gdb_cycle_text ls = concat (map gdb_line_text ls) @ ''BREAK'' @ newline"

definition gdb_cycle :: "nat \<Rightarrow> GdbLine list \<Rightarrow> GdbCycle" where
  "gdb_cycle k ls = foldl gdb_line (GdbCycle_new\<lparr> gc_CycleCount := of_nat k \<rparr>) ls"

lemma reg_names:
  assumes "i < 32"
  shows "plain_word (g_IntRegNames ! i)" "name_index (g_IntRegNames ! i) g_IntRegNames = Some i"
    "g_IntRegNames ! i \<notin> {''BREAK'', ''pc'', ''priv''}"
proof -
  have "list_all (\<lambda>i. plain_word (g_IntRegNames ! i) \<and> name_index (g_IntRegNames ! i) g_IntRegNames = Some i \<and>
      g_IntRegNames ! i \<notin> {''BREAK'', ''pc'', ''priv''}) [0..<32]" by code_simp
  then show "plain_word (g_IntRegNames ! i)" "name_index (g_IntRegNames ! i) g_IntRegNames = Some i"
    "g_IntRegNames ! i \<notin> {''BREAK'', ''pc'', ''priv''}" using assms by (simp_all add: list_all_iff)
qed

lemma read_value_text_run:
  assumes "good_at ('' 0x'' @ digits 16 (unat v) @ '' '' @ w @ newline @ s) f" "plain_word w"
  shows "\<exists>f'. read_value old f = (v, f') \<and> good_at (newline @ s) f'"
proof -
  have "\<exists>f'. read_into (Some old) (set_hex f) = (Some (of_nat (unat v)), f') \<and> good_at (CHR '' '' # w @ newline @ s) f' \<and> is_hex f'"
    by (rule read_into_run [where bl = "'' ''" and p = "''0x''" and t = "digits 16 (unat v)"])
      (use assms(1) text_hex_plain unsigned_less [of v] in auto)
  then obtain f1 where f1: "read_into (Some old) (set_hex f) = (Some v, f1)" "good_at ('' '' @ w @ CHR 0x0A # s) f1" by auto
  obtain f2 where "read_word f1 = (Some w, f2)" "good_at (CHR 0x0A # s) f2"
    by (rule read_keyword [OF f1(2) _ assms(2)]) simp_all
  then show ?thesis using f1(1) by (auto simp: read_value_def read_string_def)
qed

lemma gdb_parse_line:
  assumes "good_at (bl @ gdb_line_text l @ s) f" "blanks bl" "gdb_line_ok l"
  shows "\<exists>f'. GdbCycle_ParseLoop c f = GdbCycle_ParseLoop (gdb_line c l) f' \<and> good_at (newline @ s) f'"
proof (cases l)
  case (RegLine i v w)
  have n: "i < 32" "plain_word w" using assms(3) RegLine by (simp_all add: gdb_line_ok_def)
  have g: "good_at (bl @ g_IntRegNames ! i @ CHR '' '' # (''0x'' @ digits 16 (unat v) @ '' '' @ w @ newline @ s)) f"
    using assms(1) RegLine by (simp add: gdb_line_text_def)
  obtain f1 where f1: "read_word f = (Some (g_IntRegNames ! i), f1)"
    "good_at (CHR '' '' # (''0x'' @ digits 16 (unat v) @ '' '' @ w @ newline @ s)) f1"
    by (rule read_keyword [OF g assms(2) reg_names(1) [OF n(1)]]) simp_all
  obtain f2 where f2: "read_value (gc_IntRegs c ! i) f1 = (v, f2)" "good_at (newline @ s) f2"
    using read_value_text_run [of v w s f1] f1(2) n(2) by auto
  then show ?thesis using f1(1) reg_names [OF n(1)] RegLine
    by (subst GdbCycle_ParseLoop.simps) auto
next
  case (PcLine v w)
  have g: "good_at (bl @ ''pc'' @ CHR '' '' # (''0x'' @ digits 16 (unat v) @ '' '' @ w @ newline @ s)) f"
    using assms(1) PcLine by (simp add: gdb_line_text_def)
  obtain f1 where f1: "read_word f = (Some ''pc'', f1)"
    "good_at (CHR '' '' # (''0x'' @ digits 16 (unat v) @ '' '' @ w @ newline @ s)) f1"
    by (rule read_keyword [OF g assms(2)]) simp_all
  obtain f2 where f2: "read_value (gc_Pc c) f1 = (v, f2)" "good_at (newline @ s) f2"
    using read_value_text_run [of v w s f1] f1(2) assms(3) PcLine by (auto simp: gdb_line_ok_def)
  then show ?thesis using f1(1) PcLine by (subst GdbCycle_ParseLoop.simps) auto
next
  case (PrivLine w)
  have p: "plain_word ''priv''" "plain_word w" using assms(3) PrivLine by (simp_all add: gdb_line_ok_def) (simp add: plain_word_def is_space_def)
  have g: "good_at (bl @ ''priv'' @ CHR '' '' # (w @ newline @ s)) f"
    using assms(1) PrivLine by (simp add: gdb_line_text_def)
  obtain f1 where f1: "read_word f = (Some ''priv'', f1)" "good_at ('' '' @ w @ CHR 0x0A # s) f1"
    by (rule read_keyword [OF g assms(2) p(1)]) simp_all
  obtain f2 where "read_word f1 = (Some w, f2)" "good_at (CHR 0x0A # s) f2"
    by (rule read_keyword [OF f1(2) _ p(2)]) simp_all
  then show ?thesis using f1(1) PrivLine by (subst GdbCycle_ParseLoop.simps) (auto simp: read_string_def)
qed

lemma gdb_parse_cycle:
  assumes "good_at (bl @ gdb_cycle_text ls @ s) f" "blanks bl" "list_all gdb_line_ok ls"
  shows "\<exists>f'. GdbCycle_ParseLoop c f = (Inr (foldl gdb_line c ls), f') \<and> good_at (newline @ s) f'"
  using assms
proof (induction ls arbitrary: bl c f)
  case Nil
  have g: "good_at (bl @ ''BREAK'' @ CHR 0x0A # s) f" using Nil(1) by (simp add: gdb_cycle_text_def)
  obtain f' where "read_word f = (Some ''BREAK'', f')" "good_at (CHR 0x0A # s) f'"
    by (rule read_keyword [OF g Nil(2)]) simp_all
  then show ?case by (subst GdbCycle_ParseLoop.simps) simp
next
  case (Cons l ls)
  obtain f1 where f1: "GdbCycle_ParseLoop c f = GdbCycle_ParseLoop (gdb_line c l) f1" "good_at (newline @ gdb_cycle_text ls @ s) f1"
    using gdb_parse_line [of bl l "gdb_cycle_text ls @ s" f c] Cons.prems by (auto simp: gdb_cycle_text_def)
  then show ?case using Cons.IH [OF f1(2), of "gdb_line c l"] Cons.prems(3) by simp
qed

definition gdb_texts :: "GdbLine list list \<Rightarrow> string" where
  "gdb_texts xs = concat (map gdb_cycle_text xs)"

definition gdb_cycles :: "nat \<Rightarrow> GdbLine list list \<Rightarrow> ICycle list" where
  "gdb_cycles k xs = map (\<lambda>(i, ls). GdbCycle_ICycle (gdb_cycle i ls)) (enumerate k xs)"

definition gdb_views :: "GdbTrace \<Rightarrow> ICycle list \<Rightarrow> bool" where
  "gdb_views t cs \<longleftrightarrow> (case cs of
      [] \<Rightarrow> gt_pGdbCycle t = None
    | c # cs' \<Rightarrow> \<exists>gc xs k bl. gt_pGdbCycle t = Some gc \<and> c = GdbCycle_ICycle gc \<and> cs' = gdb_cycles k xs \<and>
        gt_CycleCount t = of_nat k \<and> list_all (list_all gdb_line_ok) xs \<and> good_at (bl @ gdb_texts xs) (gt_pInput t) \<and> blanks bl)"

lemma GdbTrace_Update_views:
  assumes "good_at (bl @ gdb_texts xs) (gt_pInput t)" "blanks bl" "list_all (list_all gdb_line_ok) xs" "gt_CycleCount t = of_nat k"
  shows "gdb_views (GdbTrace_Update t) (gdb_cycles k xs)"
proof (cases xs)
  case Nil
  then obtain f' where "read_word (gt_pInput t) = (None, f')"
    using read_word_end [of bl "gt_pInput t"] assms(1,2) by (auto simp: gdb_texts_def)
  then have "GdbCycle_Parse (gt_pInput t) (gt_CycleCount t) = (Inl TraceException, f')"
    unfolding GdbCycle_Parse_def by (subst GdbCycle_ParseLoop.simps) simp
  then show ?thesis using Nil by (simp add: GdbTrace_Update_def gdb_views_def gdb_cycles_def)
next
  case (Cons x ys)
  then obtain f' where f': "GdbCycle_Parse (gt_pInput t) (gt_CycleCount t) = (Inr (gdb_cycle k x), f')"
    "good_at (newline @ gdb_texts ys) f'"
    using gdb_parse_cycle [of bl x "gdb_texts ys" "gt_pInput t" "GdbCycle_new\<lparr> gc_CycleCount := of_nat k \<rparr>"] assms
    by (auto simp: gdb_texts_def GdbCycle_Parse_def gdb_cycle_def)
  have c: "gt_CycleCount t + 1 = of_nat (Suc k)" using assms(4) by simp
  have "gdb_cycles k xs = GdbCycle_ICycle (gdb_cycle k x) # gdb_cycles (Suc k) ys" by (simp add: Cons gdb_cycles_def)
  moreover have "GdbTrace_Update t = t\<lparr> gt_CycleCount := of_nat (Suc k), gt_pInput := f', gt_pGdbCycle := Some (gdb_cycle k x) \<rparr>"
    using f'(1) by (simp add: GdbTrace_Update_def c)
  moreover have "\<exists>bl. good_at (bl @ gdb_texts ys) f' \<and> blanks bl" using f'(2) by (intro exI [of _ newline]) simp
  moreover have "list_all (list_all gdb_line_ok) ys" using assms(3) Cons by simp
  ultimately show ?thesis unfolding gdb_views_def by (simp add: exI [of _ "Suc k"] exI [of _ ys])
qed

interpretation gdb_reader: looping_reader GdbReader_ITraceReader gdb_views
proof
  show "\<exists>r'. tr_Next GdbReader_ITraceReader r = Inr r' \<and> gdb_views r' cs" if v: "gdb_views r (c # cs)" for r c cs
  proof -
    obtain gc xs k bl where "gt_pGdbCycle r = Some gc" "cs = gdb_cycles k xs" "list_all (list_all gdb_line_ok) xs"
      "good_at (bl @ gdb_texts xs) (gt_pInput r)" "blanks bl" "gt_CycleCount r = of_nat k" using v by (auto simp: gdb_views_def)
    then show ?thesis using GdbTrace_Update_views [of bl xs r k]
      by (simp add: GdbReader_ITraceReader_def GdbTrace_Next_def GdbTrace_IsEnd_def)
  qed
qed (auto simp: GdbReader_ITraceReader_def GdbTrace_IsEnd_def GdbTrace_GetCycle_def gdb_views_def)

lemma gdb_reader_opens:
  assumes "fs_files fs path = Some (text_bytes (gdb_texts xs))" "list_all (list_all gdb_line_ok) xs"
  shows "gdb_views (GdbTraceReader_new fs path) (gdb_cycles 0 xs)"
  unfolding GdbTraceReader_new_def GdbTrace_new_def
  by (rule GdbTrace_Update_views [where bl = "[]"])
    (use assms in \<open>simp_all add: ifstream_open_def istream_new_def good_at_def\<close>)

section \<open>Properties\<close>

text \<open>
  A text trace is read as it is written: behind the header with the width, the k-th cycle shown is
  the k-th of the file, with its number, width, program counter and, if they are there, its 32 integer
  registers, and the reader is at its end behind the last. No text cycle has events or host-io, and a
  floating-point register is never valid.
\<close>

theorem text_trace_reads:
  assumes "fs_files fs path = Some (text_bytes (''XLEN '' @ w @ newline @ texts xs))" "w = ''32'' \<or> w = ''64''"
    and "list_all text_spec_ok xs" "k \<le> length xs"
  shows "\<exists>t t'. TraceTextReader_new fs path = Inr t \<and> repeat_next TextTrace_Next k t = Inr t' \<and>
    TextTrace_IsEnd t' = (k = length xs) \<and>
    (k < length xs \<longrightarrow> TextTrace_GetCycle t' = Some (text_view (xs ! k)))"
proof -
  obtain t where t: "TraceTextReader_new fs path = Inr t" "text_views t (map text_view xs)"
    using text_reader_opens [OF assms(1-3)] by blast
  then show ?thesis using text_reader.reads_in_order [OF t(2), of k] assms(4)
    by (simp add: TextReader_ITraceReader_def)
qed

text \<open>
  A log of gdb is read as it is written: the k-th cycle shown has number k, the program counter and
  the registers its lines set, and zero for those that no line of that cycle names; behind the last cycle
  the reader is at its end.
\<close>

theorem gdb_log_reads:
  assumes "fs_files fs path = Some (text_bytes (gdb_texts xs))" "list_all (list_all gdb_line_ok) xs" "k \<le> length xs"
  shows "\<exists>t'. repeat_next GdbTrace_Next k (GdbTraceReader_new fs path) = Inr t' \<and>
    GdbTrace_IsEnd t' = (k = length xs) \<and>
    (k < length xs \<longrightarrow> GdbTrace_GetCycle t' = Some (GdbCycle_ICycle (gdb_cycle k (xs ! k))))"
proof -
  note v = gdb_reader_opens [OF assms(1,2)]
  have "length (gdb_cycles 0 xs) = length xs" "k < length xs \<longrightarrow> gdb_cycles 0 xs ! k = GdbCycle_ICycle (gdb_cycle k (xs ! k))"
    by (simp_all add: gdb_cycles_def nth_enumerate_eq)
  then show ?thesis using gdb_reader.reads_in_order [OF v, of k] assms(3)
    by (auto simp: GdbReader_ITraceReader_def)
qed

definition sample_text :: TextSpec where
  "sample_text = \<lparr> ts_cycle = 1, ts_xlen = 2, ts_pc = 0x80000000, ts_regs = Some (replicate 32 5) \<rparr>"

lemma text_trace_reads_witness:
  "\<exists>t. TraceTextReader_new \<lparr> fs_files = [''a.txt'' \<mapsto> text_bytes (''XLEN '' @ ''64'' @ newline @ texts [sample_text])],
      fs_writable = {} \<rparr> ''a.txt'' = Inr t \<and> TextTrace_GetCycle t = Some (text_view sample_text)"
proof -
  let ?fs = "\<lparr> fs_files = [''a.txt'' \<mapsto> text_bytes (''XLEN '' @ ''64'' @ newline @ texts [sample_text])], fs_writable = {} \<rparr>"
  have f: "fs_files ?fs ''a.txt'' = Some (text_bytes (''XLEN '' @ ''64'' @ newline @ texts [sample_text]))" by simp
  show ?thesis using text_trace_reads [OF f, of 0] by (auto simp: text_spec_ok_def sample_text_def)
qed

lemma gdb_log_reads_witness:
  "\<exists>c. GdbTrace_GetCycle (GdbTraceReader_new \<lparr> fs_files = [''a.gdb.log'' \<mapsto>
       text_bytes (gdb_texts [[RegLine 1 7 ''7'', PcLine 0x80000000 ''x'']])], fs_writable = {} \<rparr> ''a.gdb.log'') = Some c \<and>
     GetPc c = Inr 0x80000000 \<and> GetIntReg c 1 = Inr 7 \<and> GetIntReg c 2 = Inr 0"
proof -
  let ?fs = "\<lparr> fs_files = [''a.gdb.log'' \<mapsto> text_bytes (gdb_texts [[RegLine 1 7 ''7'', PcLine 0x80000000 ''x'']])], fs_writable = {} \<rparr>"
  have f: "fs_files ?fs ''a.gdb.log'' = Some (text_bytes (gdb_texts [[RegLine 1 7 ''7'', PcLine 0x80000000 ''x'']]))" by simp
  have "list_all (list_all gdb_line_ok) [[RegLine 1 7 ''7'', PcLine 0x80000000 ''x'']]"
    by (simp add: gdb_line_ok_def plain_word_def is_space_def)
  then show ?thesis using gdb_log_reads [OF f, of 0]
    by (simp add: gdb_cycle_def GdbCycle_ICycle_def GdbCycle_GetIntReg_def GdbCycle_new_def IntRegCount_def)
qed

end
