(* ===== verification/TracePrinterLaws.thy ===== *)
theory TracePrinterLaws
  imports TracePrinter TraceTextLaws
begin

text \<open>
  What the printers do with a cycle that was recorded, and that the text the text printer writes is
  not what the text reader reads.
\<close>

section \<open>Formats\<close>

lemma collect_ok: "(\<And>x. x \<in> set xs \<Longrightarrow> f x = Inr (g x)) \<Longrightarrow> collect f xs = Inr (map g xs)"
  by (induction xs) simp_all

lemma print_each_ok: "(\<And>x. x \<in> set xs \<Longrightarrow> \<exists>s. f x = Inr s) \<Longrightarrow> \<exists>s. print_each f xs = Inr s"
proof -
  assume ok: "\<And>x. x \<in> set xs \<Longrightarrow> \<exists>s. f x = Inr s"
  then obtain g where "\<And>x. x \<in> set xs \<Longrightarrow> f x = Inr (g x)" by metis
  then show ?thesis using collect_ok [of xs f g] by (simp add: print_each_def)
qed

lemma in_order_simps [simp]:
  "in_order [] = Inr []" "in_order (s # ss) = rbind s (\<lambda>x. rbind (in_order ss) (\<lambda>y. Inr (x @ y)))"
  by (simp_all add: in_order_def print_each_def rbind_assoc)

lemma printf_plain:
  "CHR ''%'' \<notin> set t \<Longrightarrow> vformat FmtText (t @ u) as = rbind (vformat FmtText u as) (\<lambda>r. Inr (t @ r))"
  by (induction t) (auto simp: rbind_assoc rbind_def split: sum.split)

lemma reg_format_ok:
  assumes "length rs = 32" "CHR ''%'' \<notin> set h"
  shows "\<exists>s. printf (h @ newline @ reg_format) (map ArgLong rs) = Inr s"
proof -
  let ?row = "'' %016lx %016lx %016lx %016lx'' @ newline"
  have rows: "\<exists>s. printf (concat (replicate n ?row)) (map ArgLong rs) = Inr s" if "length rs = 4 * n" for n rs
    using that
  proof (induction n arbitrary: rs)
    case (Suc n)
    then obtain a b c d ts where "rs = a # b # c # d # ts" "length ts = 4 * n"
      by (auto simp: length_Suc_conv numeral_eq_Suc)
    then show ?case using Suc.IH [of ts] by auto
  qed simp
  have "CHR ''%'' \<notin> set (h @ newline)" using assms(2) by simp
  then show ?thesis using rows [of rs 8] assms(1) printf_plain [of "h @ newline" reg_format]
    by (auto simp: reg_format_def)
qed

lemma json_regs_ok:
  assumes "length rs = length labels" "\<forall>(l, n) \<in> set labels. CHR ''%'' \<notin> set l \<and> CHR ''%'' \<notin> set n" "CHR ''%'' \<notin> set t"
  shows "\<exists>s. printf (concat (map (\<lambda>(label, name). ''    '' @ label @ ''0x%lx // '' @ name @ newline) labels) @ t)
    (map ArgLong rs) = Inr s"
  using assms(1,2)
proof (induction labels arbitrary: rs)
  case Nil
  then show ?case using printf_plain [OF assms(3), of "[]" "[]"] by simp
next
  case (Cons x labels)
  obtain l n v vs where x: "x = (l, n)" "rs = v # vs" using Cons.prems(1) by (cases x; cases rs) auto
  let ?rest = "concat (map (\<lambda>(label, name). ''    '' @ label @ ''0x%lx // '' @ name @ newline) labels) @ t"
  obtain s where "printf ?rest (map ArgLong vs) = Inr s" using Cons.IH [of vs] Cons.prems x by auto
  then show ?case
    using Cons.prems(2) x printf_plain [of l "''0x%lx // '' @ n @ newline @ ?rest"] printf_plain [of n "newline @ ?rest"]
    by simp
qed

section \<open>Recorded cycles\<close>

lemma reg_of_ok: "i < 32 \<Longrightarrow> reg_of (Some rs) e i = Inr (rs ! i)"
  by (simp add: reg_of_def)

lemma text_parts_ok:
  fixes x :: CycleSpec
  shows "\<exists>s. Text_PrintIntReg (cycle_view x) = Inr s" "\<exists>s. Text_PrintFpReg (cycle_view x) = Inr s"
    "\<exists>s. Text_PrintIoState (cycle_view x) = Inr s" "\<exists>s. Text_PrintOpEvent (cycle_view x) = Inr s"
    "\<exists>s. Text_PrintMemoryEvent (cycle_view x) = Inr s" "\<exists>s. Text_PrintTrapEvent (cycle_view x) = Inr s"
proof -
  have regs: "\<exists>s. rbind (collect (reg_of (Some rs) e) [0..<32]) (\<lambda>rs. printf (h @ newline @ reg_format) (map ArgLong rs)) = Inr s"
    if "CHR ''%'' \<notin> set h" for h rs e
    using collect_ok [of "[0..<32]" "reg_of (Some rs) e" "(!) rs"] reg_format_ok [OF _ that, of "map ((!) rs) [0..<32]"]
    by (simp add: reg_of_ok)
  show "\<exists>s. Text_PrintIntReg (cycle_view x) = Inr s"
    using regs [of "''INT''"] by (auto simp: Text_PrintIntReg_def cycle_view_def spec_cycle_def)
  show "\<exists>s. Text_PrintFpReg (cycle_view x) = Inr s"
    using regs [of "''FP''"] by (auto simp: Text_PrintFpReg_def cycle_view_def spec_cycle_def)
  show "\<exists>s. Text_PrintIoState (cycle_view x) = Inr s"
    by (auto simp: Text_PrintIoState_def cycle_view_def spec_cycle_def)
  show "\<exists>s. Text_PrintOpEvent (cycle_view x) = Inr s" unfolding Text_PrintOpEvent_def
    by (rule print_each_ok) (auto simp: cycle_view_def spec_cycle_def item_of_def)
  show "\<exists>s. Text_PrintMemoryEvent (cycle_view x) = Inr s" unfolding Text_PrintMemoryEvent_def
    by (rule print_each_ok) (auto simp: cycle_view_def spec_cycle_def item_of_def)
  show "\<exists>s. Text_PrintTrapEvent (cycle_view x) = Inr s" unfolding Text_PrintTrapEvent_def
    by (rule print_each_ok) (auto simp: cycle_view_def spec_cycle_def item_of_def)
qed

lemma text_print_ok:
  assumes "cs_xlen x = 1 \<or> cs_xlen x = 2"
  shows "\<exists>s. Text_Print (cycle_view x) n = Inr (s, n + 1)"
proof -
  have "\<exists>s. Text_PrintHeader n (cycle_view x) = Inr s"
    using assms by (auto simp: Text_PrintHeader_def cycle_view_def spec_cycle_def)
  moreover have "\<exists>s. Text_PrintBasic (cycle_view x) = Inr s"
    by (simp add: Text_PrintBasic_def cycle_view_def spec_cycle_def)
  ultimately show ?thesis using text_parts_ok [of x] by (auto simp: Text_Print_def)
qed

lemma json_parts_ok:
  fixes x :: CycleSpec
  shows "\<exists>s. Json_PrintPc (cycle_view x) = Inr s" "\<exists>s. Json_PrintIntReg (cycle_view x) = Inr s"
    "\<exists>s. Json_PrintFpReg hf (cycle_view x) = Inr s" "\<exists>s. Json_PrintIoState (cycle_view x) = Inr s"
    "\<exists>s. Json_PrintMemoryEvent (cycle_view x) = Inr s" "\<exists>s. Json_PrintTrapEvent (cycle_view x) = Inr s"
proof -
  have labels: "length json_reg_labels = 32"
    "\<forall>(l, n) \<in> set json_reg_labels. CHR ''%'' \<notin> set l \<and> CHR ''%'' \<notin> set n" "CHR ''%'' \<notin> set (''  }'' @ newline)"
    by (simp_all add: json_reg_labels_def)
  have regs: "\<exists>s. rbind (collect (reg_of (Some rs) e) [0..<32]) (\<lambda>rs. printf (''  IntReg: {'' @ newline @
      concat (map (\<lambda>(label, name). ''    '' @ label @ ''0x%lx // '' @ name @ newline) json_reg_labels) @
      ''  }'' @ newline) (map ArgLong rs)) = Inr s" for rs e
    using collect_ok [of "[0..<32]" "reg_of (Some rs) e" "(!) rs"]
      json_regs_ok [OF _ labels(2,3), of "map ((!) rs) [0..<32]"] labels(1) printf_plain [of "''  IntReg: {'' @ newline"]
    by (auto simp: reg_of_ok)
  show "\<exists>s. Json_PrintIntReg (cycle_view x) = Inr s"
    using regs by (auto simp: Json_PrintIntReg_def cycle_view_def spec_cycle_def)
  show "\<exists>s. Json_PrintFpReg hf (cycle_view x) = Inr s"
  proof (cases "last_fp (cs_nodes x)")
    case (Some rs)
    have "\<exists>s. print_each (\<lambda>i. rbind (GetFpReg (cycle_view x) i) (\<lambda>v.
        let number = dec_string (int i) in
        rbind (printf ''%s'' [ArgStr (GetFpRegName (int i))]) (\<lambda>name.
        Inr (''    f'' @ number @ replicate (2 - length number) CHR '' '' @ '': { u64: 0x'' @ digits 16 (unat v) @
          '', f32: '' @ f32_text hf (ucast v) @ '', f64: '' @ f64_text hf v @ '' } // '' @ name @ newline)))) [0..<32] = Inr s"
      by (rule print_each_ok) (auto simp: cycle_view_def spec_cycle_def Some reg_of_def GetFpRegName_def Let_def)
    then show ?thesis by (auto simp: Json_PrintFpReg_def)
  qed (simp add: Json_PrintFpReg_def cycle_view_def spec_cycle_def)
  show "\<exists>s. Json_PrintPc (cycle_view x) = Inr s" by (simp add: Json_PrintPc_def cycle_view_def spec_cycle_def)
  show "\<exists>s. Json_PrintIoState (cycle_view x) = Inr s"
    by (auto simp: Json_PrintIoState_def cycle_view_def spec_cycle_def)
  show "\<exists>s. Json_PrintMemoryEvent (cycle_view x) = Inr s" unfolding Json_PrintMemoryEvent_def
    by (rule print_each_ok) (auto simp: cycle_view_def spec_cycle_def item_of_def)
  show "\<exists>s. Json_PrintTrapEvent (cycle_view x) = Inr s" unfolding Json_PrintTrapEvent_def
    by (rule print_each_ok) (auto simp: cycle_view_def spec_cycle_def item_of_def)
qed

lemma decoded_prints:
  assumes "xlen \<noteq> XLEN128"
  shows "OpDecoder_Decode xlen insn = Inr None \<or> (\<exists>op s. OpDecoder_Decode xlen insn = Inr (Some op) \<and> IOp_ToString op = Inr s)"
proof -
  have p: "prints op \<Longrightarrow> \<exists>s. IOp_ToString op = Inr s" for op by (auto simp: prints_iff split: sum.splits)
  show ?thesis using printable_RV32 [of insn] printable_RV64 [of insn] assms p
    by (cases xlen; cases "OpDecoder_DecodeRV32 insn"; cases "OpDecoder_DecodeRV64 insn")
      (auto simp: OpDecoder_Decode_def printable_def)
qed

text \<open>The events are printed one by one: the first word that does not decode stops everything.\<close>

lemma collect_stops:
  assumes "\<And>x. x \<in> set xs \<Longrightarrow> f x = Inl e \<and> bad x \<or> (\<exists>y. f x = Inr y) \<and> \<not> bad x"
  shows "(\<exists>x \<in> set xs. bad x) \<and> collect f xs = Inl e \<or> (\<forall>x \<in> set xs. \<not> bad x) \<and> (\<exists>ys. collect f xs = Inr ys)"
  using assms
proof (induction xs)
  case (Cons x xs)
  then have "(\<exists>x \<in> set xs. bad x) \<and> collect f xs = Inl e \<or> (\<forall>x \<in> set xs. \<not> bad x) \<and> (\<exists>ys. collect f xs = Inr ys)" by simp
  then show ?case using Cons.prems [of x] by auto
qed simp

lemma json_ops:
  assumes "xlen \<noteq> XLEN128"
  shows "(\<exists>e \<in> set (node_ops (cs_nodes x)). OpDecoder_Decode xlen (oe_insn e) = Inr None) \<and>
      Json_PrintOpEvent xlen (cycle_view x) = Inl Undefined \<or>
    (\<forall>e \<in> set (node_ops (cs_nodes x)). OpDecoder_Decode xlen (oe_insn e) \<noteq> Inr None) \<and>
      (\<exists>s. Json_PrintOpEvent xlen (cycle_view x) = Inr s)"
proof -
  let ?es = "node_ops (cs_nodes x)"
  let ?f = "\<lambda>i. rbind (CopyOpEvent (cycle_view x) i) (\<lambda>e. rbind (OpDecoder_Decode xlen (oe_insn e)) (\<lambda>op. case op of
       None \<Rightarrow> Inl Undefined
     | Some op \<Rightarrow> rbind (IOp_ToString op) (\<lambda>text. printf
         (''  Op {'' @ newline @ ''    insn:  0x%x // %s'' @ newline @ ''    priv:  %s'' @ newline @ ''  }'' @ newline)
         [ArgInt (oe_insn e), ArgStr (Some text), ArgStr (Some (GetString_PrivilegeLevel (oe_priv e)))])))"
  let ?bad = "\<lambda>i. OpDecoder_Decode xlen (oe_insn (?es ! i)) = Inr None"
  have "?f i = Inl Undefined \<and> ?bad i \<or> (\<exists>y. ?f i = Inr y) \<and> \<not> ?bad i" if "i \<in> set [0..<length ?es]" for i
    using decoded_prints [OF assms, of "oe_insn (?es ! i)"] that
    by (auto simp: cycle_view_def spec_cycle_def item_of_def)
  then have d: "(\<exists>i \<in> set [0..<length ?es]. ?bad i) \<and> collect ?f [0..<length ?es] = Inl Undefined \<or>
      (\<forall>i \<in> set [0..<length ?es]. \<not> ?bad i) \<and> (\<exists>ys. collect ?f [0..<length ?es] = Inr ys)"
    by (rule collect_stops)
  define C where "C = collect ?f [0..<length ?es]"
  have n: "GetOpEventCount (cycle_view x) = length ?es" by (simp add: cycle_view_def spec_cycle_def)
  have j: "Json_PrintOpEvent xlen (cycle_view x) = rbind C (\<lambda>ss. Inr (concat ss))"
    unfolding C_def Json_PrintOpEvent_def print_each_def n ..
  have b: "(\<exists>i \<in> set [0..<length ?es]. ?bad i) \<longleftrightarrow> (\<exists>e \<in> set ?es. OpDecoder_Decode xlen (oe_insn e) = Inr None)"
    by (fastforce simp: in_set_conv_nth)
  have "(\<exists>e \<in> set ?es. OpDecoder_Decode xlen (oe_insn e) = Inr None) \<and> C = Inl Undefined \<or>
      \<not> (\<exists>e \<in> set ?es. OpDecoder_Decode xlen (oe_insn e) = Inr None) \<and> (\<exists>ys. C = Inr ys)"
    using d unfolding C_def [symmetric] b [symmetric] by blast
  then show ?thesis unfolding j by auto
qed

section \<open>Properties\<close>

text \<open>
  C39. The printers of 32- and 64-bit machines on a recorded cycle: the short printer prints every cycle,
  whatever width it names; the text printer prints it if the width is 32 or 64 bits; the JSON printer
  prints it exactly if all its instruction words decode, and otherwise dereferences the null pointer
  the decoder returned.
\<close>

theorem recorded_cycles_print:
  assumes "xlen \<noteq> XLEN128"
  shows "(\<exists>s. Short_Print xlen (cycle_view x) =
      Inr (pad_left True 16 (digits 16 (unat (cs_pc x))) @ '':'' @ [CHR 0x09] @ s @ newline)) \<and>
    (cs_xlen x = 1 \<or> cs_xlen x = 2 \<longrightarrow> (\<exists>s. Text_Print (cycle_view x) n = Inr (s, n + 1))) \<and>
    (if \<exists>e \<in> set (node_ops (cs_nodes x)). OpDecoder_Decode xlen (oe_insn e) = Inr None
     then Json_Print hf xlen (cycle_view x) n = Inl Undefined
     else \<exists>s. Json_Print hf xlen (cycle_view x) n = Inr (s, n + 1))"
proof -
  have "\<exists>s. short_op_text xlen (cycle_view x) = Inr s"
    using decoded_prints [OF assms, of "oe_insn (node_ops (cs_nodes x) ! 0)"]
    by (auto simp: short_op_text_def cycle_view_def spec_cycle_def item_of_def)
  then have "\<exists>s. Short_Print xlen (cycle_view x) =
      Inr (pad_left True 16 (digits 16 (unat (cs_pc x))) @ '':'' @ [CHR 0x09] @ s @ newline)"
    by (auto simp: Short_Print_def cycle_view_def spec_cycle_def)
  moreover obtain t where "Json_PrintFpReg hf (cycle_view x) = Inr t" using json_parts_ok(3) by blast
  ultimately show ?thesis
    using text_print_ok [of x n] json_ops [OF assms, of x] json_parts_ok(1,2,4-6) [of x]
    by (auto simp: Json_Print_def)
qed

text \<open>The text of a series of cycles.\<close>

primrec print_cycles :: "ICycle list \<Rightarrow> uint64 \<Rightarrow> string result" where
  "print_cycles [] n = Inr []"
| "print_cycles (c # cs) n = rbind (Text_Print c n) (\<lambda>(s, n). rbind (print_cycles cs n) (\<lambda>t. Inr (s @ t)))"

text \<open>
  C40. What the text printer prints the text reader refuses: the printer omits the width line, which
  the reader asks for first, at its first cycle, so the file of any printed series of cycles is rejected
  with an exception when it is opened.
\<close>

theorem printed_text_rejected:
  assumes "print_cycles (c # cs) 0 = Inr out" "fs_files fs path = Some (text_bytes out)"
  shows "TraceTextReader_new fs path = Inl TraceException"
proof -
  obtain s where s: "out = ''BASIC'' @ CHR '' '' # s"
    using assms(1) by (auto simp: Text_Print_def Text_PrintHeader_def Text_PrintBasic_def rbind_Inr_iff)
  then have g: "good_at ([] @ ''BASIC'' @ CHR '' '' # s) (ifstream_open fs path)"
    using assms(2) by (simp add: ifstream_open_def istream_new_def good_at_def)
  obtain f' where "read_word (ifstream_open fs path) = (Some ''BASIC'', f')"
    by (rule read_keyword [OF g]) simp_all
  then show ?thesis by (simp add: TraceTextReader_new_def TextTrace_new_def read_string_def)
qed

lemma recorded_cycles_print_witness:
  "(\<exists>s. Text_Print (cycle_view sample_cycle) 0 = Inr (s, 1)) \<and>
   (\<exists>s. Short_Print XLEN64 (cycle_view sample_cycle) =
     Inr (pad_left True 16 (digits 16 (unat (0x80000000 :: uint64))) @ '':'' @ [CHR 0x09] @ s @ newline))"
  using recorded_cycles_print [of XLEN64 sample_cycle 0] by (auto simp: sample_cycle_def)

lemma printed_text_rejected_witness:
  "\<exists>out. print_cycles [cycle_view sample_cycle] 0 = Inr out \<and>
    TraceTextReader_new \<lparr> fs_files = [''o.txt'' \<mapsto> text_bytes out], fs_writable = {} \<rparr> ''o.txt'' = Inl TraceException"
proof -
  have "cs_xlen sample_cycle = 1 \<or> cs_xlen sample_cycle = 2" by (simp add: sample_cycle_def)
  then obtain s where "Text_Print (cycle_view sample_cycle) 0 = Inr (s, 0 + 1)" using text_print_ok by blast
  then have p: "print_cycles [cycle_view sample_cycle] 0 = Inr s" by simp
  have "fs_files \<lparr> fs_files = [''o.txt'' \<mapsto> text_bytes s], fs_writable = {} \<rparr> ''o.txt'' = Some (text_bytes s)" by simp
  from printed_text_rejected [OF p this] p show ?thesis by blast
qed

end
