(* ===== verification/TraceToolsLaws.thy ===== *)
theory TraceToolsLaws
  imports TraceTools TraceTextLaws TracePrinterLaws
begin

text \<open>
  What the tools do with any reader that keeps the contract of \<open>trace_reader\<close>: each loop is a
  function of the list of cycles the reader serves. The reader picked by a file's name keeps the
  contract too.
\<close>

section \<open>The reader picked by name\<close>

definition any_views :: "filesystem \<Rightarrow> AnyReader \<Rightarrow> ICycle list \<Rightarrow> bool" where
  "any_views fs r cs = (case r of
      BinaryFile x \<Rightarrow> binary_views x cs
    | IndexFile x \<Rightarrow> index_serves fs x cs
    | GdbFile x \<Rightarrow> gdb_views x cs
    | TextFile x \<Rightarrow> text_views x cs)"

interpretation any_reader: trace_reader "AnyReader_ITraceReader fs" "any_views fs"
proof
  fix r c cs n
  note all = any_views_def AnyReader_ITraceReader_def
  show "tr_IsEnd (AnyReader_ITraceReader fs) r = Inr True" if "any_views fs r []"
    using that binary_reader.at_end index_reader.at_end gdb_reader.at_end text_reader.at_end
    by (cases r) (simp_all add: all)
  show "tr_IsEnd (AnyReader_ITraceReader fs) r = Inr False" if "any_views fs r (c # cs)"
    using that binary_reader.not_end index_reader.not_end gdb_reader.not_end text_reader.not_end
    by (cases r) (simp_all add: all)
  show "tr_GetCycle (AnyReader_ITraceReader fs) r = Inr (Some c)" if "any_views fs r (c # cs)"
    using that binary_reader.current index_reader.current gdb_reader.current text_reader.current
    by (cases r) (simp_all add: all)
  show "\<exists>r'. tr_Next (AnyReader_ITraceReader fs) r = Inr r' \<and> any_views fs r' cs" if "any_views fs r (c # cs)"
    using that binary_reader.advance [of _ c cs] index_reader.advance [of fs _ c cs]
      gdb_reader.advance [of _ c cs] text_reader.advance [of _ c cs]
    by (cases r) (fastforce simp: all)+
  show "\<exists>r'. tr_NextN (AnyReader_ITraceReader fs) n r = Inr r' \<and> any_views fs r' (drop (unat n) cs)"
    if "any_views fs r cs" "unat n < length cs"
    using that binary_reader.skip [of _ cs n] index_reader.skip [of fs _ cs n]
      gdb_reader.skip [of _ cs n] text_reader.skip [of _ cs n]
    by (cases r) (fastforce simp: all)+
qed

section \<open>The loops over a list of cycles\<close>

primrec dump_list :: "host_float \<Rightarrow> IFilter \<Rightarrow> ICycle list \<Rightarrow> TracePrinter \<Rightarrow> string \<times> unit result" where
  "dump_list hf flt [] p = ([], Inr ())"
| "dump_list hf flt (c # cs) p =
     (case rbind (IFilter_Apply flt c) (\<lambda>hit. if hit then TracePrinter_Print hf c p else Inr ([], p)) of
        Inl e \<Rightarrow> ([], Inl e)
      | Inr (s, p) \<Rightarrow> (case dump_list hf flt cs p of (t, res) \<Rightarrow> (s @ t, res)))"

primrec last_host_io :: "uint32 \<Rightarrow> ICycle list \<Rightarrow> uint32 result" where
  "last_host_io v [] = Inr v"
| "last_host_io v (c # cs) = rbind (CopyIo c) (\<lambda>io. last_host_io (io_hostIo io) cs)"

fun compare_list :: "int \<Rightarrow> nat \<Rightarrow> nat \<Rightarrow> ICycle list \<Rightarrow> ICycle list \<Rightarrow> CompareCounts \<Rightarrow> string \<times> CompareCounts result" where
  "compare_list threshold (Suc n) i (c # cs) (d # ds) k =
     (case IsMatched c d of
        Inl e \<Rightarrow> ([], Inl e)
      | Inr True \<Rightarrow> (case compare_list threshold n (Suc i) cs ds
            (k\<lparr> cc_continuousUnmatch := 0, cc_checkOp := cc_checkOp k + 1, cc_expectOp := cc_expectOp k + 1,
                cc_actualOp := cc_actualOp k + 1 \<rparr>) of (t, res) \<Rightarrow> (progress_text i @ t, res))
      | Inr False \<Rightarrow> (case PrintDiff c d of
            Inl e \<Rightarrow> ([], Inl e)
          | Inr t \<Rightarrow> let u = cc_continuousUnmatch k + 1; s = mismatch_text k @ t in
              if int u = threshold then (s @ stop_text threshold, Inr (k\<lparr> cc_continuousUnmatch := u \<rparr>))
              else (case compare_list threshold n (Suc i) (c # cs) ds
                (k\<lparr> cc_continuousUnmatch := u, cc_actualOp := cc_actualOp k + 1 \<rparr>) of
                  (t, res) \<Rightarrow> (s @ progress_text i @ t, res))))"
| "compare_list threshold n i cs ds k = ([], Inr k)"

context trace_reader
begin

lemma current_served: "serves r (c # cs) \<Longrightarrow> current_cycle tr r = Inr c"
  by (simp add: current_cycle_def current)

lemma print_loop: "serves r cs \<Longrightarrow> PrintTrace_loop tr hf flt n r p = dump_list hf flt (take n cs) p"
proof (induction n arbitrary: r cs p)
  case (Suc n)
  show ?case
  proof (cases cs)
    case Nil
    then show ?thesis using at_end Suc.prems by simp
  next
    case (Cons c ds)
    then obtain r' where "tr_Next tr r = Inr r'" "serves r' ds" using advance Suc.prems by blast
    then show ?thesis using Cons not_end Suc current_served [of r c ds]
      by (auto simp: dump_turn_def split: sum.split prod.split)
  qed
qed simp

text \<open>Dumping a range of cycles is filtering and printing that part of the trace.\<close>

lemma print_trace:
  assumes "serves r cs" "0 \<le> b" "nat b < length cs \<or> b = 0" "length cs \<le> 2 ^ 32" "0 \<le> n" "b + n \<le> 2147483647"
  shows "PrintTrace tr hf flt b n e r p = dump_list hf flt (take (nat (min (b + n) e - b)) (drop (nat b) cs)) p"
proof (cases "b = 0")
  case False
  have u: "unat (word_of_int b :: uint32) = nat b"
    using assms(2,5,6) by (simp add: unat_eq_nat_uint uint_word_of_int_eq take_bit_int_eq_self)
  then obtain r' where "tr_NextN tr (word_of_int b) r = Inr r'" "serves r' (drop (nat b) cs)"
    using skip [OF assms(1), of "word_of_int b"] False assms(3) by auto
  then show ?thesis using False assms(2,5,6) print_loop [of r'] by (simp add: PrintTrace_def)
qed (use assms print_loop [OF assms(1)] in \<open>simp add: PrintTrace_def\<close>)

lemma last_io_value: "serves r cs \<Longrightarrow> GetLastHostIoValue tr v r = Some (last_host_io v cs)"
proof (induction cs arbitrary: r v)
  case Nil
  then show ?case using at_end by (subst GetLastHostIoValue.simps) simp
next
  case (Cons c cs)
  then obtain r' where "tr_Next tr r = Inr r'" "serves r' cs" using advance by blast
  then show ?case using Cons not_end [OF Cons.prems] current_served [OF Cons.prems]
    by (subst GetLastHostIoValue.simps) (simp split: sum.split)
qed

end

text \<open>Two readers of their own kinds, as rafi-diff uses them.\<close>

locale reader_pair =
  expect: trace_reader tr1 serves1 + actual: trace_reader tr2 serves2
  for tr1 :: "'r ITraceReader" and serves1 :: "'r \<Rightarrow> ICycle list \<Rightarrow> bool"
  and tr2 :: "'s ITraceReader" and serves2 :: "'s \<Rightarrow> ICycle list \<Rightarrow> bool"
begin

lemma compare_loop:
  "serves1 r1 cs \<Longrightarrow> serves2 r2 ds \<Longrightarrow>
    CompareTrace_loop tr1 tr2 threshold n i r1 r2 k = compare_list threshold n i cs ds k"
proof (induction n arbitrary: i r1 r2 cs ds k)
  case (Suc n)
  show ?case
  proof (cases "cs = [] \<or> ds = []")
    case True
    then show ?thesis using Suc.prems expect.end_iff [OF Suc.prems(1)] actual.end_iff [OF Suc.prems(2)]
      by (cases cs; cases ds) simp_all
  next
    case False
    then obtain c cs' d ds' where e: "cs = c # cs'" "ds = d # ds'" by (cases cs; cases ds) auto
    obtain r1' r2' where r: "tr_Next tr1 r1 = Inr r1'" "serves1 r1' cs'" "tr_Next tr2 r2 = Inr r2'" "serves2 r2' ds'"
      using expect.advance actual.advance Suc.prems e by metis
    note now = expect.not_end [OF Suc.prems(1) [unfolded e]] actual.not_end [OF Suc.prems(2) [unfolded e]]
      expect.current_served [OF Suc.prems(1) [unfolded e]] actual.current_served [OF Suc.prems(2) [unfolded e]]
    show ?thesis
    proof (cases "IsMatched c d")
      case (Inr m)
      then show ?thesis using now r Suc.IH [OF r(2,4)] Suc.IH [OF Suc.prems(1) r(4)]
        by (cases m) (auto simp: e CompareTrace_turn_def Let_def split: sum.split prod.split)
    qed (use now in \<open>simp add: e CompareTrace_turn_def\<close>)
  qed
qed simp

end

interpretation two_files: reader_pair "AnyReader_ITraceReader fs" "any_views fs" "AnyReader_ITraceReader fs" "any_views fs"
  by unfold_locales

end
