(* ===== verification/ConvertLaws.thy ===== *)
theory ConvertLaws
  imports TraceToolsLaws
begin

text \<open>
  rafi-conv and the other tools from file to file: what a conversion writes reads back as the cycles
  that were read, cut down to what the converter takes over.
\<close>

section \<open>One cycle\<close>

text \<open>
  The cycle \<open>x\<close> is what is kept of \<open>c\<close>: its number, width and program counter, and its 32
  integer registers, if it has them, in the node of the width.
\<close>

definition converts :: "ICycle \<Rightarrow> CycleSpec \<Rightarrow> bool" where
  "converts c x \<longleftrightarrow> GetCycle c = Inr (cs_cycle x) \<and> GetXLEN c = Inr (cs_xlen x) \<and> GetPc c = Inr (cs_pc x) \<and>
     (if IsIntRegExist c
      then \<exists>rs. map (GetIntReg c) [0..<32] = map Inr rs \<and>
        (cs_xlen x = 1 \<and> cs_nodes x = [IntReg32Node (map ucast rs)] \<or> cs_xlen x = 2 \<and> cs_nodes x = [IntReg64Node rs])
      else cs_nodes x = [])"

lemma collect_map: "map f xs = map Inr ys \<Longrightarrow> collect f xs = Inr ys"
  by (induction xs arbitrary: ys) auto

lemma converts_nodes: "converts c x \<Longrightarrow> convert_nodes c (cs_xlen x) = Inr (cs_nodes x)"
  by (auto simp: converts_def convert_nodes_def dest!: collect_map split: if_splits)

lemma collect_length: "collect f xs = Inr ys \<Longrightarrow> length ys = length xs"
  by (induction xs arbitrary: ys) (auto simp: rbind_Inr_iff)

lemma convert_nodes_fit:
  assumes "convert_nodes c xlen = Inr nds"
  shows "list_all (node_ok xlen) nds" "length (nodes_bytes nds) \<le> 264"
proof -
  consider (none) "nds = []" | (w32) rs where "xlen = 1" "nds = [IntReg32Node rs]" "length rs = 32"
    | (w64) rs where "xlen = 2" "nds = [IntReg64Node rs]" "length rs = 32"
    using assms by (auto simp: convert_nodes_def rbind_Inr_iff dest!: collect_length split: if_splits)
  then have "list_all (node_ok xlen) nds \<and> length (nodes_bytes nds) \<le> 264"
    by cases (simp_all add: node_ok_def node_body_def layout_defs NodeIntReg32_bytes_def NodeReg64_bytes_def
        length_concat sum_list_triv comp_def)
  then show "list_all (node_ok xlen) nds" "length (nodes_bytes nds) \<le> 264" by simp_all
qed

lemma converts_fits:
  assumes "converts c x"
  shows "cycle_ok x" "convert_cycle c = Inr (cycle_data x)" "length (cycle_data x) \<le> MaxFileSize"
proof -
  have nds: "convert_nodes c (cs_xlen x) = Inr (cs_nodes x)" using assms by (rule converts_nodes)
  show ok: "cycle_ok x" using convert_nodes_fit(1) [OF nds] by (simp add: cycle_ok_def)
  have "length (nodes_bytes (cs_nodes x)) \<le> 264" using convert_nodes_fit(2) [OF nds] .
  then have len: "length (cycle_data x) \<le> 4096"
    by (auto simp: cycle_data_def cycle_bytes_def NodeBasic_bytes_def)
  then show "length (cycle_data x) \<le> MaxFileSize" by (simp add: MaxFileSize_def)
  have "build_cycle (cs_cycle x) (cs_xlen x) (cs_pc x) (cs_nodes x) = Inr (cycle_data x)"
    using build_cycle_eq [of "cs_xlen x" "cs_nodes x"] ok len by (simp add: cycle_ok_def cycle_data_def)
  then show "convert_cycle c = Inr (cycle_data x)"
    using assms nds by (auto simp: converts_def convert_cycle_def build_cycle_def rbind_Inr_iff)
qed

section \<open>Files that are left alone\<close>

definition out_paths :: "string \<Rightarrow> string set" where
  "out_paths base = range (data_path base) \<union> {index_path base}"

text \<open>The files a reader still opens.\<close>

definition open_paths :: "AnyReader \<Rightarrow> string set" where
  "open_paths r = (case r of IndexFile x \<Rightarrow> ent_path ` set (ir_Entries x) | _ \<Rightarrow> {})"

definition same_outside :: "string set \<Rightarrow> filesystem \<Rightarrow> filesystem \<Rightarrow> bool" where
  "same_outside A fs fs' \<longleftrightarrow> (\<forall>p. p \<notin> A \<longrightarrow> fs_files fs' p = fs_files fs p)"

lemma IndexWriter_Write_frame:
  assumes "IndexWriter_Write bs n (w, fs) = Inr (w', fs')"
  shows "iw_PathBase w' = iw_PathBase w" "same_outside (out_paths (iw_PathBase w)) fs fs'"
  using assms
  by (auto simp: IndexWriter_Write_def FlushData_def create_file_def append_file_def same_outside_def out_paths_def
      rbind_Inr_iff Let_def split: if_splits)

lemma any_views_same:
  assumes "any_views fs r cs" "same_outside A fs fs'" "open_paths r \<inter> A = {}"
  shows "any_views fs' r cs"
proof (cases r)
  case (IndexFile x)
  have "fs_files fs' (ent_path e) = fs_files fs (ent_path e)" if "e \<in> set (ir_Entries x)" for e
    using assms(2,3) that IndexFile by (auto simp: same_outside_def open_paths_def)
  then have "index_files fs (ir_Entries x) gs \<Longrightarrow> index_files fs' (ir_Entries x) gs" for gs
    by (auto simp: index_files_def list_all2_conv_all_nth)
  then show ?thesis using assms(1) IndexFile by (auto simp: any_views_def index_serves_def)
qed (use assms in \<open>simp_all add: any_views_def\<close>)

lemma open_paths_Next:
  assumes "tr_Next (AnyReader_ITraceReader fs) r = Inr r'"
  shows "open_paths r' = open_paths r"
proof -
  have "IndexReader_Next fs x = Inr x' \<Longrightarrow> ir_Entries x' = ir_Entries x" for x x'
    by (auto simp: IndexReader_Next_def UpdateTraceBinary_def rbind_Inr_iff Let_def split: option.splits if_splits)
  then show ?thesis using assms
    by (cases r) (auto simp: AnyReader_ITraceReader_def open_paths_def IndexReader_ITraceReader_def rbind_Inr_iff)
qed

section \<open>The loop\<close>

lemma Convert_loop_writes:
  assumes "any_views (snd s) r cs" "list_all2 converts cs xs" "index_written base gs g s"
    and "length (concat gs) + length g + length xs < 2 ^ 31" "open_paths r \<inter> out_paths base = {}"
  shows "\<exists>s' gs' g'. Convert_loop r s = Some (s', Inr ()) \<and> index_written base gs' g' s' \<and> concat gs' @ g' = concat gs @ g @ xs"
  using assms
proof (induction xs arbitrary: r s cs gs g)
  case Nil
  then show ?case using any_reader.at_end [of "snd s" r]
    by (subst Convert_loop.simps) (auto intro!: exI [of _ s] exI [of _ gs] exI [of _ g])
next
  case (Cons x xs)
  then obtain c ds where cs: "cs = c # ds" "converts c x" "list_all2 converts ds xs" by (auto simp: list_all2_Cons2)
  obtain w fs where s: "s = (w, fs)" by fastforce
  note c = converts_fits [OF cs(2)]
  obtain w1 fs1 gs1 g1 where w1: "IndexWriter_Write (cycle_data x) (of_nat (length (cycle_data x))) s = Inr (w1, fs1)"
    "index_written base gs1 g1 (w1, fs1)" "concat gs1 @ g1 = concat gs @ g @ [x]"
    using write_written [OF Cons.prems(3) _ c(3)] Cons.prems(4) by (metis add_lessD1 surj_pair)
  have "iw_PathBase w = base" using Cons.prems(3) by (simp add: index_written_def s)
  then have same: "same_outside (out_paths base) fs fs1" using IndexWriter_Write_frame(2) w1(1) s by blast
  have v1: "any_views fs1 r (c # ds)"
    by (rule any_views_same [OF _ same Cons.prems(5)]) (use Cons.prems(1) in \<open>simp add: s cs(1)\<close>)
  then obtain r1 where r1: "tr_Next (AnyReader_ITraceReader fs1) r = Inr r1" "any_views fs1 r1 ds"
    using any_reader.advance by blast
  have turn: "Convert_turn r s = ((w1, fs1), Inr r1)"
    using any_reader.current_served [of fs r c ds] Cons.prems(1) c(2) w1(1) r1(1) by (simp add: Convert_turn_def s cs(1))
  have n: "length (concat gs1) + length g1 + length xs < 2 ^ 31"
    using Cons.prems(4) arg_cong [OF w1(3), of length] by simp
  have "open_paths r1 \<inter> out_paths base = {}" using Cons.prems(5) open_paths_Next [OF r1(1)] by simp
  then obtain s' gs' g' where s': "Convert_loop r1 (w1, fs1) = Some (s', Inr ())" "index_written base gs' g' s'"
    "concat gs' @ g' = concat gs1 @ g1 @ xs"
    using Cons.IH [of "(w1, fs1)" r1 ds gs1 g1] r1(2) cs(3) w1(2) n by auto
  have "Convert_loop r s = Some (s', Inr ())"
    using any_reader.not_end [of fs r c ds] Cons.prems(1) turn s'(1)
    by (subst Convert_loop.simps) (simp add: s cs(1))
  moreover have "concat gs' @ g' = concat gs @ g @ x # xs" using s'(3) w1(3) by (metis append.assoc append_Cons append_Nil)
  ultimately show ?case using s'(2) by blast
qed

text \<open>A binary file, picked by its name.\<close>

lemma binary_file_opens:
  assumes "fs_files fs path = Some (cycles_data xs)" "list_all cycle_ok xs" "xs \<noteq> []" "ends_with path ''.tbin''"
  shows "\<exists>r. MakeTraceReader fs path = Inr r \<and> any_views fs r (map cycle_view xs) \<and> open_paths r = {}"
proof -
  obtain m where m: "TraceBinaryMemoryReader_new (cycles_data xs) = Inr m" "memory_serves m xs"
    using memory_serves_new [OF assms(2,3)] by blast
  have "TraceBinaryReader_new fs path = Inr (Some m)" using assms(1,3) m(1) by (simp add: TraceBinaryReader_new_def)
  then show ?thesis using m(2) assms(4)
    by (auto simp: MakeTraceReader_def any_views_def binary_views_def memory_views_def open_paths_def)
qed

section \<open>Properties\<close>

text \<open>
  C22. A conversion keeps the trace: for any readable input - binary file, index, gdb log or text - whose
  cycles the reader serves, the converter ends, and the index it wrote serves the same number of cycles
  in the same order, each with the number, width, program counter and integer registers of the cycle
  that was read (the registers cut to 32 bits on a machine of that width) and nothing else.
\<close>

theorem convert_roundtrip:
  assumes "MakeTraceReader fs inPath = Inr r" "any_views fs r cs" "list_all2 converts cs xs" "length xs < 2 ^ 31"
    and "out_paths base \<subseteq> fs_writable fs" "list_all (\<lambda>c. \<not> is_space c) base" "open_paths r \<inter> out_paths base = {}"
    and "k \<le> length xs"
  shows "\<exists>fs' ri ri'. Convert inPath base fs = Some (Inr fs') \<and> TraceIndexReader_new fs' (index_path base) = Inr ri \<and>
    repeat_next (IndexReader_Next fs') k ri = Inr ri' \<and> IndexReader_IsEnd ri' = (k = length xs) \<and>
    (k < length xs \<longrightarrow> IndexReader_GetCycle ri' = Inr (Some (cycle_view (xs ! k))))"
proof -
  obtain s0 where s0: "TraceIndexWriter_new base fs = Inr s0" "index_written base [] [] s0"
    "same_outside (out_paths base) fs (snd s0)"
    using assms(5) by (auto simp: TraceIndexWriter_new_def create_file_def index_written_def index_text_def
        index_lines_def text_bytes_def out_paths_def same_outside_def)
  have v: "any_views (snd s0) r cs" by (rule any_views_same [OF assms(2) s0(3) assms(7)])
  obtain s gs g where s: "Convert_loop r s0 = Some (s, Inr ())" "index_written base gs g s" "concat gs @ g = xs"
    using Convert_loop_writes [OF v assms(3) s0(2) _ assms(7)] assms(4) by auto
  have "list_all cycle_ok xs"
    using assms(3) converts_fits(1) by (auto simp: list_all_length list_all2_conv_all_nth)
  then obtain fs' ri where r: "TraceIndexWriter_delete s = Inr fs'" "TraceIndexReader_new fs' (index_path base) = Inr ri"
    "index_serves fs' ri (map cycle_view xs)"
    using index_reads_back [OF s(2)] s(3) assms(4,6) by auto
  then obtain ri' where "repeat_next (IndexReader_Next fs') k ri = Inr ri'" "IndexReader_IsEnd ri' = (k = length xs)"
    "k < length xs \<longrightarrow> IndexReader_GetCycle ri' = Inr (Some (cycle_view (xs ! k)))"
    using index_reader.reads_in_order [OF r(3), of k] assms(8) by (auto simp: IndexReader_ITraceReader_def)
  then show ?thesis using assms(1) s0(1) s(1) r(1,2)
    by (intro exI [of _ fs'] exI [of _ ri] exI [of _ ri']) (simp add: Convert_def)
qed

text \<open>
  C34. The check of a test's trace passes exactly if the last cycle of the trace has the host-io value 1:
  when every cycle of the file has a host-io node the tool ends, prints PASS or FAILED with the value
  and the test number, and an empty trace, whose value is taken as 0, fails.
\<close>

theorem check_io_verdict:
  assumes "MakeTraceReader fs path = Inr r" "any_views fs r (map cycle_view xs)"
    and "list_all (\<lambda>x. last_io (cs_nodes x) \<noteq> None) xs"
  shows "CheckIo fs name path = Some (Inr (io_verdict name
    (if xs = [] then 0 else io_hostIo (the (last_io (cs_nodes (last xs)))))))"
proof -
  have "last_host_io v (map cycle_view xs) = Inr (if xs = [] then v else io_hostIo (the (last_io (cs_nodes (last xs)))))" for v
    using assms(3) by (induction xs arbitrary: v) (auto simp: cycle_view_def spec_cycle_def)
  then show ?thesis using any_reader.last_io_value [OF assms(2), of 0] assms(1) by (simp add: CheckIo_def)
qed

text \<open>
  The comparison of two traces that agree finds no difference: when the cycles of both files match
  one by one, the tool reports as many compared operations of both as there are cycles within its limit,
  prints nothing but its progress and the final counts, and never detects a mismatch.
\<close>

theorem diff_accepts_equal_traces:
  assumes "any_views fs r1 cs" "any_views fs r2 ds" "list_all2 (\<lambda>c d. IsMatched c d = Inr True) cs ds"
  shows "let m = min (nat cycleCount) (length cs);
             k = \<lparr> cc_continuousUnmatch = 0, cc_checkOp = m, cc_expectOp = m, cc_actualOp = m \<rparr>
    in CompareTrace (AnyReader_ITraceReader fs) (AnyReader_ITraceReader fs) cycleCount threshold r1 r2 =
      (concat (map progress_text [0..<m]) @ finish_text k, Inr k)"
proof -
  have eq: "compare_list threshold n i cs ds \<lparr> cc_continuousUnmatch = 0, cc_checkOp = j, cc_expectOp = j, cc_actualOp = j \<rparr> =
      (concat (map progress_text [i..<i + min n (length cs)]), Inr (\<lparr> cc_continuousUnmatch = 0,
        cc_checkOp = j + min n (length cs), cc_expectOp = j + min n (length cs), cc_actualOp = j + min n (length cs) \<rparr>))"
    for n i j
    using assms(3)
  proof (induction cs ds arbitrary: n i j rule: list_all2_induct)
    case (Cons c cs d ds)
    then show ?case by (cases n) (simp_all add: upt_conv_Cons del: upt_Suc)
  qed (cases n, simp_all)
  show ?thesis
    by (simp add: CompareTrace_def two_files.compare_loop [OF assms(1,2)] eq Let_def)
qed

text \<open>
  C35. Dumping a range of a trace prints that range: from any file whose reader serves the cycles, with
  a start inside the trace, the tool applies the filter to the cycles from the start up to the count or
  the end, whichever comes first, and prints those that pass, in order.
\<close>

theorem dump_prints_range:
  assumes "MakeFilter description = Inr flt" "MakeTraceReader fs path = Inr r" "dump_GetXLEN path = Inr xlen"
    and "any_views fs r cs" "0 \<le> b" "nat b < length cs \<or> b = 0" "length cs \<le> 2 ^ 32" "0 \<le> n" "b + n \<le> 2147483647"
  shows "dump_trace fs hf path printerType description b n e =
    dump_list hf flt (take (nat (min (b + n) e - b)) (drop (nat b) cs)) (MakeTracePrinter printerType xlen)"
  using assms(1-3) any_reader.print_trace [OF assms(4-9)] by (simp add: dump_trace_def)

section \<open>Witnesses\<close>

definition io_cycle :: "uint32 \<Rightarrow> CycleSpec" where
  "io_cycle v = \<lparr> cs_cycle = 0, cs_xlen = 2, cs_pc = 0x80000000,
     cs_nodes = [IntReg64Node (replicate 32 0), IoNode \<lparr> io_hostIo = v, io_reserved = 0 \<rparr>] \<rparr>"

definition io_files :: filesystem where
  "io_files = \<lparr> fs_files = [''rv64.tbin'' \<mapsto> cycles_data [io_cycle 0, io_cycle 1]], fs_writable = UNIV \<rparr>"

lemma io_files_open:
  "\<exists>r. MakeTraceReader io_files ''rv64.tbin'' = Inr r \<and>
    any_views io_files r (map cycle_view [io_cycle 0, io_cycle 1]) \<and> open_paths r = {}"
  by (rule binary_file_opens) (simp_all add: io_files_def io_cycle_def cycle_ok_def node_ok_def ends_with_def)

lemma io_cycle_converts: "converts (cycle_view (io_cycle v)) (io_cycle v\<lparr> cs_nodes := [IntReg64Node (replicate 32 0)] \<rparr>)"
proof -
  have "map (GetIntReg (cycle_view (io_cycle v))) [0..<32] = map Inr (replicate 32 0)"
    by (rule nth_equalityI) (simp_all add: io_cycle_def cycle_view_def spec_cycle_def reg_of_def)
  then show ?thesis
    by (auto simp: converts_def io_cycle_def cycle_view_def spec_cycle_def intro!: exI [of _ "replicate 32 0"])
qed

lemma convert_roundtrip_witness:
  "\<exists>fs' ri. Convert ''rv64.tbin'' ''o'' io_files = Some (Inr fs') \<and> TraceIndexReader_new fs' ''o.tidx'' = Inr ri \<and>
    IndexReader_GetCycle ri = Inr (Some (cycle_view (io_cycle 0\<lparr> cs_nodes := [IntReg64Node (replicate 32 0)] \<rparr>)))"
proof -
  obtain r where r: "MakeTraceReader io_files ''rv64.tbin'' = Inr r"
    "any_views io_files r (map cycle_view [io_cycle 0, io_cycle 1])" "open_paths r = {}" using io_files_open by blast
  have c: "list_all2 converts (map cycle_view [io_cycle 0, io_cycle 1])
      (map (\<lambda>v. io_cycle v\<lparr> cs_nodes := [IntReg64Node (replicate 32 0)] \<rparr>) [0, 1])"
    using io_cycle_converts by simp
  have "index_path ''o'' = ''o.tidx''" by (simp add: index_path_def)
  then show ?thesis using convert_roundtrip [OF r(1,2) c, of "''o''" 0] r(3) by (auto simp: io_files_def is_space_def)
qed

lemma check_io_verdict_witness: "CheckIo io_files ''t'' ''rv64.tbin'' = Some (Inr (''[  PASS  ] t'' @ newline, True))"
proof -
  obtain r where r: "MakeTraceReader io_files ''rv64.tbin'' = Inr r"
    "any_views io_files r (map cycle_view [io_cycle 0, io_cycle 1])" using io_files_open by blast
  show ?thesis using check_io_verdict [OF r, of "''t''"] by (simp add: io_cycle_def io_verdict_def ExpectedHostIoValue_def)
qed

lemma io_cycles_matched: "IsMatched (cycle_view (io_cycle v)) (cycle_view (io_cycle v)) = Inr True"
proof -
  have "regs_matched c c is = Inr True" if "\<forall>i \<in> set is. \<exists>x. GetIntReg c i = Inr x" for c "is"
    using that by (induction "is") auto
  then show ?thesis
    by (auto simp: IsMatched_def IsPcMatched_def IsIntRegMatched_def io_cycle_def cycle_view_def spec_cycle_def reg_of_def IntRegCount_def)
qed

lemma diff_accepts_equal_traces_witness:
  "\<exists>r. MakeTraceReader io_files ''rv64.tbin'' = Inr r \<and>
    CompareTrace (AnyReader_ITraceReader io_files) (AnyReader_ITraceReader io_files) 10 10 r r =
      (finish_text \<lparr> cc_continuousUnmatch = 0, cc_checkOp = 2, cc_expectOp = 2, cc_actualOp = 2 \<rparr>,
       Inr \<lparr> cc_continuousUnmatch = 0, cc_checkOp = 2, cc_expectOp = 2, cc_actualOp = 2 \<rparr>)"
proof -
  obtain r where r: "MakeTraceReader io_files ''rv64.tbin'' = Inr r"
    "any_views io_files r (map cycle_view [io_cycle 0, io_cycle 1])" using io_files_open by blast
  have "list_all2 (\<lambda>c d. IsMatched c d = Inr True) (map cycle_view [io_cycle 0, io_cycle 1]) (map cycle_view [io_cycle 0, io_cycle 1])"
    using io_cycles_matched by simp
  from diff_accepts_equal_traces [OF r(2,2) this, of 10 10] r(1) show ?thesis
    by (auto simp: Let_def progress_text_def upt_conv_Cons numeral_2_eq_2)
qed

lemma dump_prints_range_witness:
  "\<forall>hf. dump_trace io_files hf ''rv64.tbin'' Short [] 1 5 100 =
    dump_list hf DefaultFilter [cycle_view (io_cycle 1)] (ShortPrinter XLEN64)"
proof
  fix hf
  obtain r where r: "MakeTraceReader io_files ''rv64.tbin'' = Inr r"
    "any_views io_files r (map cycle_view [io_cycle 0, io_cycle 1])" using io_files_open by blast
  have "dump_GetXLEN ''rv64.tbin'' = Inr XLEN64" by code_simp
  moreover have "MakeFilter [] = Inr DefaultFilter" by (simp add: MakeFilter_def)
  ultimately show "dump_trace io_files hf ''rv64.tbin'' Short [] 1 5 100 =
      dump_list hf DefaultFilter [cycle_view (io_cycle 1)] (ShortPrinter XLEN64)"
    using dump_prints_range [of "[]" DefaultFilter io_files "''rv64.tbin''" r XLEN64 "map cycle_view [io_cycle 0, io_cycle 1]" 1 5 hf Short 100] r
    by (simp add: MakeTracePrinter_def)
qed

end
