(* ===== verification/ToolMains.thy ===== *)
theory ToolMains
  imports TraceTools CommandLine
begin

text \<open>
  The main programs of the trace tools: \<^verbatim>\<open>bin/rafi-dump/\<close>,
  \<^verbatim>\<open>bin/rafi-diff/\<close> and \<^verbatim>\<open>bin/rafi-conv/\<close>, from their options to their
  exit codes. The parser of boost::program_options is not modelled, as in \<open>CommandLine\<close>.
\<close>

section \<open>rafi-dump\<close>

definition DefaultCycleCount :: int where
  "DefaultCycleCount = 1000 * 1000 * 1000"

record DumpOption =
  do_PrinterType :: PrinterType
  do_FilterDescription :: string
  do_Path :: string
  do_CycleBegin :: int
  do_CycleCount :: int
  do_CycleEnd :: int

definition DumpOption_new :: "variables_map option \<Rightarrow> program_end + DumpOption" where
  "DumpOption_new variables = (case variables of
      None \<Rightarrow> Inl (Exit 1)
    | Some vm \<Rightarrow>
        if has_option vm ''help'' \<or> \<not> has_option vm ''input'' then Inl (Exit 0)
        else let mode = notify_string vm ''mode'' [];
            opt = (\<lambda>p. Inr \<lparr> do_PrinterType = p, do_FilterDescription = notify_string vm ''filter'' [],
              do_Path = notify_string vm ''input'' [], do_CycleBegin = notify_int vm ''begin'' 0,
              do_CycleCount = notify_int vm ''count'' DefaultCycleCount, do_CycleEnd = notify_int vm ''end'' DefaultCycleCount \<rparr>) in
          if mode = [] \<or> mode = ''short'' then opt Short
          else if mode = ''json'' then opt Json
          else if mode = ''text'' then opt Text
          else Inl (Exit 1))"

text \<open>What it prints, and how it ends.\<close>

definition rafi_dump_main :: "filesystem \<Rightarrow> host_float \<Rightarrow> variables_map option \<Rightarrow> string \<times> program_end" where
  "rafi_dump_main fs hf variables = (case DumpOption_new variables of
      Inl e \<Rightarrow> ([], e)
    | Inr opt \<Rightarrow> (case dump_trace fs hf (do_Path opt) (do_PrinterType opt) (do_FilterDescription opt)
          (do_CycleBegin opt) (do_CycleCount opt) (do_CycleEnd opt) of
        (s, Inl err) \<Rightarrow> (s, if err = TraceException \<or> err = FileOpenFailure then Exit 1 else uncaught err)
      | (s, Inr _) \<Rightarrow> (s, Exit 0)))"

section \<open>rafi-diff\<close>

definition DefaultThreshold :: int where
  "DefaultThreshold = 10"

record DiffOption =
  df_ExpectPath :: string
  df_ActualPath :: string
  df_CycleCount :: int
  df_Threshold :: int

text \<open>\<open>po::notify\<close> reports a required option that is not given.\<close>

definition DiffOption_new :: "variables_map option \<Rightarrow> program_end + DiffOption" where
  "DiffOption_new variables = (case variables of
      None \<Rightarrow> Inl (Exit 1)
    | Some vm \<Rightarrow>
        if \<not> has_option vm ''expect'' \<or> \<not> has_option vm ''actual'' then Inl (Exit 1)
        else if has_option vm ''help'' then Inl (Exit 0)
        else Inr \<lparr> df_ExpectPath = notify_string vm ''expect'' [], df_ActualPath = notify_string vm ''actual'' [],
          df_CycleCount = notify_int vm ''count'' DefaultCycleCount, df_Threshold = notify_int vm ''threshold'' DefaultThreshold \<rparr>)"

text \<open>The files are opened outside of the \<open>try\<close> block.\<close>

definition rafi_diff_main :: "filesystem \<Rightarrow> variables_map option \<Rightarrow> string \<times> program_end" where
  "rafi_diff_main fs variables = (case DiffOption_new variables of
      Inl e \<Rightarrow> ([], e)
    | Inr opt \<Rightarrow> (case rbind (MakeTraceReader fs (df_ExpectPath opt)) (\<lambda>r1.
          rbind (MakeTraceReader fs (df_ActualPath opt)) (\<lambda>r2. Inr (r1, r2))) of
        Inl err \<Rightarrow> ([], uncaught err)
      | Inr (r1, r2) \<Rightarrow> (case CompareTrace (AnyReader_ITraceReader fs) (AnyReader_ITraceReader fs)
            (df_CycleCount opt) (df_Threshold opt) r1 r2 of
          (s, Inl err) \<Rightarrow> (s, if err = TraceException then Exit 1 else uncaught err)
        | (s, Inr _) \<Rightarrow> (s, Exit 0))))"

section \<open>rafi-conv\<close>

text \<open>Arguments are missing: the usage is printed, and the null pointers behind the last are read.\<close>

definition rafi_conv_main :: "string list \<Rightarrow> filesystem \<Rightarrow> (program_end \<times> filesystem option) option" where
  "rafi_conv_main argv fs = (case argv of
      name # inPath # outPathBase # rest \<Rightarrow> map_option (\<lambda>res. case res of
          Inl err \<Rightarrow> (uncaught err, None)
        | Inr fs \<Rightarrow> (Exit 0, Some fs)) (Convert inPath outPathBase fs)
    | _ \<Rightarrow> Some (UncaughtException Undefined, None))"

section \<open>Laws\<close>

text \<open>Help is shown only to those who name both files.\<close>

lemma diff_help_needs_files:
  "vm ''expect'' = None \<Longrightarrow> rafi_diff_main fs (Some vm) = ([], Exit 1)"
  by (simp add: rafi_diff_main_def DiffOption_new_def has_option_def)

text \<open>The exit code does not depend on what the comparison finds.\<close>

lemma diff_exit_code:
  assumes "DiffOption_new variables = Inr opt" "MakeTraceReader fs (df_ExpectPath opt) = Inr r1"
    and "MakeTraceReader fs (df_ActualPath opt) = Inr r2"
    and "CompareTrace (AnyReader_ITraceReader fs) (AnyReader_ITraceReader fs) (df_CycleCount opt) (df_Threshold opt) r1 r2 = (s, Inr k)"
  shows "rafi_diff_main fs variables = (s, Exit 0)"
  using assms by (simp add: rafi_diff_main_def)

text \<open>A file that cannot be read is caught by rafi-dump and rafi-conv, not by rafi-diff.\<close>

lemma unreadable_file:
  assumes "MakeTraceReader fs path = Inl FileOpenFailure"
  shows "vm ''input'' = Some (AnyString path) \<Longrightarrow> vm ''help'' = None \<Longrightarrow> vm ''mode'' = None \<Longrightarrow> vm ''filter'' = None \<Longrightarrow>
      rafi_dump_main fs hf (Some vm) = ([], Exit 1)"
    and "rafi_conv_main [name, path, base] fs = Some (Exit 0, Some fs)"
    and "vm ''expect'' = Some (AnyString path) \<Longrightarrow> vm ''actual'' = Some (AnyString other) \<Longrightarrow> vm ''help'' = None \<Longrightarrow>
      rafi_diff_main fs (Some vm) = ([], UncaughtException FileOpenFailure)"
  using assms by (simp_all add: rafi_dump_main_def DumpOption_new_def has_option_def notify_string_def dump_trace_def
      rafi_conv_main_def Convert_def caught_def rafi_diff_main_def DiffOption_new_def uncaught_def MakeFilter_def)

end
