(* ===== verification/Spec2Isabelle.thy ===== *)
theory Spec2Isabelle
  imports CsrLaws TypeSafety Encoder CompressedLaws MemoryLaws AluLaws DecodersAgree OpNames MainProgram ConvertLaws
  ToolMains
begin

text \<open>
  A model of the RISC-V emulator rafi and of the tools around its traces.

  \<^bold>\<open>The program.\<close> \<^verbatim>\<open>bin/rafi-emu\<close> is a full-system emulator of one hart: an \<open>Emulator\<close>
  runs cycles of a \<open>System\<close>, which owns a \<open>Processor\<close> (decoder, executor, register files,
  CSRs, trap processor, interrupt controller, memory access unit), a \<open>Bus\<close> with Ram and Rom, and
  the devices Clint, Plic, Timer, two Uarts and VirtIo. \<^verbatim>\<open>lib/op\<close> is a second decoder with one
  class for each instruction and its text form, used by the printers of \<^verbatim>\<open>lib/trace\<close>.

  \<^bold>\<open>Vocabulary.\<close> \<open>Prelude\<close> has the errors and the result type, the fixed-width integers,
  little-endian buffers and the collections of simplification rules; \<open>BitField\<close> is
  \<^verbatim>\<open>common/BitField.h\<close> and \<^verbatim>\<open>common/Util.h\<close> with bit-level readings; \<open>RvTypes\<close> the
  enumerations, CSR numbers, bit positions and page table layouts of \<^verbatim>\<open>common/Rv*.h\<close>.
  An operation of the code is a function of the state it reads to an error or the state it leaves;
  \<open>throw\<close>, \<open>std::exit\<close>, a failed \<open>assert\<close>, \<open>std::bad_variant_access\<close> and undefined
  behaviour are different errors. Signed arithmetic wraps; a shift out of range, an access out of
  an array, a division by zero and a null pointer that is read are undefined. The host is little-endian.

  \<^bold>\<open>The hart.\<close> \<open>RegFile\<close> (\<^verbatim>\<open>IntRegFile.cpp\<close>, \<^verbatim>\<open>FpRegFile.cpp\<close>, \<^verbatim>\<open>AtomicManager.cpp\<close>),
  \<open>Trap\<close>, \<open>Csr\<close>, \<open>TrapProcessor\<close>, \<open>InterruptController\<close>, \<open>MemoryAccessUnit\<close> and
  \<open>Processor\<close> are the files of \<^verbatim>\<open>bin/rafi-emu/cpu\<close> with the same names. \<open>Op\<close> and
  \<open>Decoder\<close> are \<^verbatim>\<open>common/OpDeprecated.h\<close> and \<^verbatim>\<open>lib/common/Decoder.cpp\<close>. The executor
  \<^verbatim>\<open>cpu/Executor.cpp\<close> is split along its methods: \<open>ExecutorBase\<close> (shared helpers),
  \<open>ExecutorI\<close>, \<open>ExecutorMA\<close>, \<open>ExecutorC\<close>, \<open>ExecutorFD\<close> (one definition for each
  \<open>ProcessRV\<close> method), \<open>Executor\<close> (dispatch) and \<open>ExecutorCheck\<close> (the checks before and
  after an execution). \<open>FpApi\<close> is \<^verbatim>\<open>lib/fp\<close>.

  \<^bold>\<open>The machine.\<close> \<open>Memory\<close> and \<open>Bus\<close> are \<^verbatim>\<open>lib/emu\<close>, \<open>IoDevices\<close> the directory
  \<^verbatim>\<open>bin/rafi-emu/io\<close>, \<open>SystemState\<close> \<^verbatim>\<open>System.cpp\<close> and \<open>Emulator\<close> \<^verbatim>\<open>Emulator.cpp\<close>.
  The record \<open>System\<close> has the members of the C++ object and those of its processor; pointers
  handed to the bus are enumeration values that \<open>system_calls\<close> resolves.

  \<^bold>\<open>The debugger.\<close> \<open>Gdb\<close> has the data of \<^verbatim>\<open>bin/rafi-emu/gdb\<close> and the splitting of
  commands (\<^verbatim>\<open>GdbCommandFactory.cpp\<close>), \<open>GdbServer\<close> the packets and the session
  (\<^verbatim>\<open>GdbServer.cpp\<close>) and \<open>GdbEmulator\<close> the handlers of \<^verbatim>\<open>GdbCommands.cpp\<close> on the
  machine. A connection is the list of segments that \<open>recv\<close> returns, and the bytes sent.

  \<^bold>\<open>The traces.\<close> \<open>TraceNodes\<close>, \<open>TraceBinary\<close> and \<open>TraceReader\<close> are the binary
  format of \<^verbatim>\<open>lib/trace\<close> (nodes, \<open>BinaryCycle\<close>, its builder, writer and reader),
  \<open>TraceIndex\<close> the files of an index and their reader, \<open>TextStream\<close> the part of
  \<^verbatim>\<open>std::istream\<close> they use, \<open>TraceText\<close> the readers of text traces and gdb logs,
  \<open>TracePrinter\<close> the printers. \<open>Logger\<close> is the recorder of the emulator and
  \<open>EmulatorTrace\<close> the loop of \<^verbatim>\<open>Emulator.cpp\<close> with it; \<open>CommandLine\<close> and
  \<open>MainProgram\<close> are \<^verbatim>\<open>CommandLineOption.cpp\<close> and \<^verbatim>\<open>Main.cpp\<close>, the program as a whole. \<open>TraceTools\<close> has the bodies of
  \<^verbatim>\<open>rafi-dump\<close>, \<^verbatim>\<open>rafi-diff\<close>, \<^verbatim>\<open>rafi-conv\<close> and \<^verbatim>\<open>rafi-check-io\<close>,
  \<open>ToolMains\<close> their options and exit codes. Readers are
  records of functions, one for each implementation of \<open>ITraceReader\<close>; files are a map from
  names to bytes with the set of the names that can be opened for writing.

  \<^bold>\<open>The instruction texts.\<close> \<open>Format\<close> is the part of \<open>printf\<close> the program uses,
  \<open>RvApi\<close> the names of \<^verbatim>\<open>lib/common/RvApi.cpp\<close>, \<open>OpRv32\<close> and \<open>OpRv64\<close> the 286
  instruction classes of \<^verbatim>\<open>lib/op\<close>, \<open>OpDecoder\<close> \<^verbatim>\<open>lib/op/OpDecoder.cpp\<close>.

  \<^bold>\<open>What the lemmas show.\<close>
  \<open>DecoderLaws\<close>: the decoder is total and its operations are well formed; \<open>Encoder\<close>: it inverts
  the encodings of the manual. \<open>TypeSafety\<close>: no cycle reads the wrong alternative of an operand.
  \<open>ExecutorLaws\<close>, \<open>AluLaws\<close>, \<open>MemoryLaws\<close>, \<open>CompressedLaws\<close>: the executor against integer
  arithmetic, against a byte memory, and against the expansions of compressed instructions.
  \<open>CsrLaws\<close>, \<open>TrapProcessor\<close>, \<open>InterruptController\<close>: access rules and views of the CSRs, trap
  entry and return, interrupt selection, each on every bit of the registers involved. \<open>PageWalk\<close>:
  the checks and translations of Sv32, Sv39 and Sv48 refine one abstract walk. \<open>Frames\<close>,
  \<open>Invariants\<close>, \<open>Run\<close>: what an instruction may change, the invariant of the reachable states,
  privilege and its trace, and the loop. \<open>OpText\<close> and \<open>DecodersAgree\<close>: the text of a decoded
  instruction fits its buffer, and the decoder of the tools agrees with the emulator's outside six
  listed families of words.
  \<open>GdbLaws\<close> and \<open>GdbEmulator\<close>: packets survive the way between two ends, breakpoints
  leave memory as it was, and what a memory query answers. \<open>TraceBinaryLaws\<close>: a parsed cycle
  has what was added and no parse leaves the buffer; \<open>TraceIndexLaws\<close>, \<open>TraceTextLaws\<close>: the
  other readers keep the contract of a reader, so the lemmas of its locale hold of them;
  \<open>EmulatorTrace\<close>: recording changes no run, and a recorded run reads back as its states;
  \<open>MainProgram\<close>: the program as a whole, from its options to the trace it leaves, on the runs
  that end and on those that an exception ends;
  \<open>TracePrinterLaws\<close>: which cycles print, and that the text printer's output is not read back;
  \<open>TraceToolsLaws\<close> and \<open>ConvertLaws\<close>: the loops of the tools against lists of cycles,
  conversion between the formats.

  \<^bold>\<open>Interfaces.\<close> A locale states each contract between components and is interpreted on the
  model: the devices and memories behind the bus, the storage registers of the CSR file, the page
  table formats, the relations an instruction keeps, the readers of a trace and pairs of them.

  \<^bold>\<open>Parameters and bounds.\<close> Berkeley SoftFloat (a submodule) is a record of functions, the
  128-bit products of Boost one function; theorems that need the exact product say so. The text of
  \<open>%e\<close> for a floating-point number is a record \<open>host_float\<close>. The page
  walk is bounded by the levels of the format, the emulator loop is a partial function with a
  proof that it returns for every finite limit, string formatting is structural.

  \<^bold>\<open>Not modelled.\<close> The parsing of command lines by boost::program\_options (the values are
  arguments), the set-up of the socket, the terminal and what programs print about themselves; the
  simulator driver, which runs classes that Verilator generates; the SystemVerilog design and its
  test benches, another language and its generated classes. Members that are references to an
  argument of their constructor (the options of \<open>Emulator\<close> and \<open>Logger\<close>) are taken as
  constants: they dangle in the code, and the model is that of the runs in which they still hold
  what they were bound to.
\<close>

end
